(* ===== verification/Prelude.thy ===== *)
theory Prelude
  imports Main "HOL-Library.Word" "HOL-Library.List_Lexorder" "HOL-Library.Char_ord"
    "HOL-Library.AList"
begin

text \<open>
  What every component of the development shares: the types that stand for Go's basic types,
  the collection \<open>go_consts\<close> of the program's string constants, the result type of fallible
  operations, the two list idioms the Go code repeats in every package (keep the first
  occurrence of each value, stable sort by a less-function), and their lemmas.

  \<^item> A Go \<open>string\<close> is a byte string: a \<open>char list\<close> here, ordered lexicographically by byte
    value (\<open>List_Lexorder\<close> and \<open>Char_ord\<close>), as Go's \<open><\<close> on strings does.
  \<^item> \<open>time.Time\<close> is the instant in nanoseconds after Go's zero time, so \<open>IsZero\<close> is equality
    with 0 and \<open>UTC\<close> (which only changes the location) is the identity.
  \<^item> \<open>uint8\<close> to \<open>uint64\<close> are words of that width; \<open>int\<close> is used for lengths, metrics and
    statuses that the code never lets grow and is modelled unbounded.
  \<^item> A nil slice and an empty slice are the same value \<open>[]\<close>.
\<close>

type_synonym gotime = int

type_synonym 'a result = "string + 'a"

named_theorems go_consts "the string constants of the program"
named_theorems go_strings "the functions of Go's strings package that the program calls"

definition isZeroTime :: "gotime \<Rightarrow> bool" where
  "isZeroTime t \<longleftrightarrow> t = 0"

section \<open>Keeping the first occurrence of every value\<close>

text \<open>
  The loop \<open>for _, v := range values { if seen[v] { continue }; seen[v] = true; append }\<close>
  with the set of seen values as an accumulator.
\<close>

fun uniqueBy :: "('a \<Rightarrow> 'k) \<Rightarrow> 'k list \<Rightarrow> 'a list \<Rightarrow> 'a list" where
  "uniqueBy k seen [] = []"
| "uniqueBy k seen (x # xs) =
     (if k x \<in> set seen then uniqueBy k seen xs else x # uniqueBy k (k x # seen) xs)"

lemma uniqueBy_set_subset: "set (uniqueBy k seen xs) \<subseteq> set xs"
  by (induction xs arbitrary: seen) auto

lemma uniqueBy_keys: "k ` set (uniqueBy k seen xs) = k ` set xs - set seen"
  by (induction xs arbitrary: seen) auto

lemma uniqueBy_distinct: "distinct (map k (uniqueBy k seen xs))"
proof (induction xs arbitrary: seen)
  case Nil
  show ?case by simp
next
  case (Cons x xs)
  have "k x \<notin> k ` set (uniqueBy k (k x # seen) xs)"
    by (simp add: uniqueBy_keys)
  with Cons show ?case by simp
qed

lemma uniqueBy_id:
  "distinct (map k xs) \<Longrightarrow> k ` set xs \<inter> set seen = {} \<Longrightarrow> uniqueBy k seen xs = xs"
  by (induction xs arbitrary: seen) auto

lemma uniqueBy_append:
  "uniqueBy k seen (xs @ ys) = uniqueBy k seen xs @ uniqueBy k (rev (map k (uniqueBy k seen xs)) @ seen) ys"
  by (induction xs arbitrary: seen) auto

lemma uniqueBy_length: "length (uniqueBy k seen xs) \<le> length xs"
  by (induction xs arbitrary: seen) (auto intro: le_SucI)

lemma uniqueBy_Nil_iff: "uniqueBy k [] xs = [] \<longleftrightarrow> xs = []"
  by (cases xs) auto

section \<open>Joined keys\<close>

text \<open>Cutting at the last separator is unambiguous.\<close>

lemma append_last_sep:
  assumes "a @ c # b = a' @ c # b'" "c \<notin> set b" "c \<notin> set b'"
  shows "a = a' \<and> b = b'"
proof -
  have tail: "takeWhile (\<lambda>x. x \<noteq> c) (rev (u @ c # v)) = rev v" if "c \<notin> set v" for u v
  proof -
    have "\<forall>x\<in>set (rev v). x \<noteq> c" using that by auto
    then show ?thesis by (simp add: takeWhile_append)
  qed
  have "b = b'" using tail [OF assms(2), of a] tail [OF assms(3), of a'] assms(1) by simp
  then show ?thesis using assms(1) by simp
qed

section \<open>Stable insertion sort by a less-function\<close>

text \<open>
  \<open>sort.SliceStable(xs, less)\<close>: the stable sort by \<open>less\<close>. A stable sort by a strict weak order
  has one result, so insertion sort computes what Go's merge of insertion-sorted blocks computes.
  An element is inserted in front of the first one that is strictly greater.
\<close>

fun insertBy :: "('a \<Rightarrow> 'a \<Rightarrow> bool) \<Rightarrow> 'a \<Rightarrow> 'a list \<Rightarrow> 'a list" where
  "insertBy lt x [] = [x]"
| "insertBy lt x (y # ys) = (if lt y x then y # insertBy lt x ys else x # y # ys)"

definition sortBy :: "('a \<Rightarrow> 'a \<Rightarrow> bool) \<Rightarrow> 'a list \<Rightarrow> 'a list" where
  "sortBy lt xs = foldr (insertBy lt) xs []"

lemma sortBy_Nil [simp]: "sortBy lt [] = []"
  by (simp add: sortBy_def)

lemma sortBy_Cons: "sortBy lt (x # xs) = insertBy lt x (sortBy lt xs)"
  by (simp add: sortBy_def)

lemma set_insertBy [simp]: "set (insertBy lt x ys) = insert x (set ys)"
  by (induction ys) auto

lemma length_insertBy [simp]: "length (insertBy lt x ys) = Suc (length ys)"
  by (induction ys) auto

lemma set_sortBy [simp]: "set (sortBy lt xs) = set xs"
  by (induction xs) (simp_all add: sortBy_Cons)

lemma length_sortBy [simp]: "length (sortBy lt xs) = length xs"
  by (induction xs) (simp_all add: sortBy_Cons)

lemma sortBy_Nil_iff [simp]: "sortBy lt xs = [] \<longleftrightarrow> xs = []"
  by (metis length_0_conv length_sortBy)

lemma distinct_map_insertBy:
  "distinct (map f (insertBy lt x ys)) \<longleftrightarrow> f x \<notin> f ` set ys \<and> distinct (map f ys)"
  by (induction ys) auto

lemma distinct_map_sortBy [simp]: "distinct (map f (sortBy lt xs)) \<longleftrightarrow> distinct (map f xs)"
  by (induction xs) (simp_all add: sortBy_Cons distinct_map_insertBy)

text \<open>
  The contract of a less-function: the strict part of a total preorder given by its negation.
  Every sort of the program uses such a function, and the interpretations below and in the
  components discharge the two laws for it.
\<close>

locale go_less =
  fixes lt :: "'a \<Rightarrow> 'a \<Rightarrow> bool"
  assumes asym: "lt x y \<Longrightarrow> \<not> lt y x"
    and negtrans: "\<not> lt x y \<Longrightarrow> \<not> lt y z \<Longrightarrow> \<not> lt x z"
begin

lemma irrefl_less: "\<not> lt x x"
  using asym by blast

lemma sorted_insertBy:
  "sorted_wrt (\<lambda>a b. \<not> lt b a) ys \<Longrightarrow> sorted_wrt (\<lambda>a b. \<not> lt b a) (insertBy lt x ys)"
proof (induction ys)
  case Nil
  show ?case by simp
next
  case (Cons y ys)
  show ?case
  proof (cases "lt y x")
    case True
    with Cons show ?thesis by (auto dest: asym)
  next
    case False
    with Cons.prems show ?thesis using negtrans [of _ y x] by auto
  qed
qed

lemma sorted_sortBy: "sorted_wrt (\<lambda>a b. \<not> lt b a) (sortBy lt xs)"
  by (induction xs) (simp_all add: sortBy_Cons sorted_insertBy)

lemma insertBy_front: "(\<And>y. y \<in> set ys \<Longrightarrow> \<not> lt y x) \<Longrightarrow> insertBy lt x ys = x # ys"
  by (cases ys) auto

lemma sortBy_sorted: "sorted_wrt (\<lambda>a b. \<not> lt b a) xs \<Longrightarrow> sortBy lt xs = xs"
  by (induction xs) (simp_all add: sortBy_Cons insertBy_front)

lemma sortBy_idem: "sortBy lt (sortBy lt xs) = sortBy lt xs"
  by (rule sortBy_sorted) (rule sorted_sortBy)

lemma hd_sortBy_least: "x \<in> set xs \<Longrightarrow> \<not> lt x (hd (sortBy lt xs))"
proof (cases "sortBy lt xs")
  case Nil
  then show "x \<in> set xs \<Longrightarrow> ?thesis" by simp
next
  case (Cons y ys)
  assume "x \<in> set xs"
  then have "x \<in> set (y # ys)" using Cons by (metis set_sortBy)
  moreover have "sorted_wrt (\<lambda>a b. \<not> lt b a) (y # ys)"
    using sorted_sortBy [of xs] Cons by simp
  ultimately show ?thesis using Cons irrefl_less by auto
qed

lemma sorted_unique:
  assumes "sorted_wrt (\<lambda>a b. \<not> lt b a) xs" "sorted_wrt (\<lambda>a b. \<not> lt b a) ys"
    "set xs = set ys" "distinct xs" "distinct ys"
    "\<And>a b. a \<in> set xs \<Longrightarrow> b \<in> set xs \<Longrightarrow> \<not> lt a b \<Longrightarrow> \<not> lt b a \<Longrightarrow> a = b"
  shows "xs = ys"
  using assms
proof (induction xs arbitrary: ys)
  case Nil
  then show ?case by simp
next
  case (Cons a as)
  then obtain b bs where ys: "ys = b # bs" by (cases ys) auto
  have "a = b"
  proof (rule ccontr)
    assume "a \<noteq> b"
    then have "b \<in> set as" "a \<in> set bs" using Cons.prems(3) ys by auto
    then have "\<not> lt b a" "\<not> lt a b" using Cons.prems(1,2) ys by auto
    then show False using Cons.prems(6) [of a b] \<open>b \<in> set as\<close> \<open>a \<noteq> b\<close> by simp
  qed
  moreover have "set as = set bs" using Cons.prems(3-5) ys \<open>a = b\<close> by auto
  then have "as = bs" using Cons.prems ys by (intro Cons.IH) auto
  ultimately show ?case using ys by simp
qed

text \<open>Sorting forgets the order of its input when no two elements are equivalent.\<close>

lemma sortBy_arrangement:
  assumes "set xs = set ys" "distinct xs" "distinct ys"
    "\<And>a b. a \<in> set xs \<Longrightarrow> b \<in> set xs \<Longrightarrow> \<not> lt a b \<Longrightarrow> \<not> lt b a \<Longrightarrow> a = b"
  shows "sortBy lt xs = sortBy lt ys"
proof (rule sorted_unique [OF sorted_sortBy sorted_sortBy])
  show "distinct (sortBy lt xs)" "distinct (sortBy lt ys)"
    using assms(2,3) distinct_map_sortBy [of id lt] by simp_all
qed (use assms in simp_all)

end

text \<open>\<open>sort.Strings\<close> and every sort by one linearly ordered key.\<close>

interpretation key_less: go_less "\<lambda>x y. (f x :: 'k :: linorder) < f y" for f
  by unfold_locales auto

definition sortStrings :: "string list \<Rightarrow> string list" where
  "sortStrings = sortBy (<)"

lemma sorted_sortStrings: "sorted (sortStrings xs)"
  using key_less.sorted_sortBy [of "\<lambda>x. x" xs] by (simp add: sortStrings_def not_less)

lemma set_sortStrings [simp]: "set (sortStrings xs) = set xs"
  by (simp add: sortStrings_def)

lemma length_sortStrings [simp]: "length (sortStrings xs) = length xs"
  by (simp add: sortStrings_def)

lemma distinct_sortStrings [simp]: "distinct (sortStrings xs) = distinct xs"
  using distinct_map_sortBy [of id "(<)" xs] by (simp add: sortStrings_def)

lemma sortStrings_unique:
  "sorted ys \<Longrightarrow> distinct ys \<Longrightarrow> distinct xs \<Longrightarrow> set xs = set ys \<Longrightarrow> sortStrings xs = ys"
  by (rule sorted_distinct_set_unique) (auto simp: sorted_sortStrings)

lemma sorted_wrt_less_linorder: "sorted_wrt (<) xs \<longleftrightarrow> sorted xs \<and> distinct xs"
  for xs :: "'a :: linorder list"
  by (rule strict_sorted_iff)

section \<open>Go maps as association lists\<close>

lemma map_of_update: "map_of (AList.update k v xs) = (map_of xs)(k \<mapsto> v)"
  by (rule update_conv')

end
