(* ===== verification/GoStrings.thy ===== *)
theory GoStrings
  imports Prelude
begin

text \<open>
  The functions of Go's \<open>strings\<close>, \<open>strconv\<close> and \<open>unicode\<close> packages that the program calls, on
  byte strings. They are not code of the repository and have no entry in its map. Case mapping,
  white space and control characters are those of ASCII; a byte above 127 is left alone by the
  case mapping and is neither space nor control.
\<close>

section \<open>Bytes\<close>

definition byteOf :: "char \<Rightarrow> nat" where
  "byteOf c = of_char c"

definition isDigitC :: "char \<Rightarrow> bool" where
  "isDigitC c \<longleftrightarrow> 48 \<le> byteOf c \<and> byteOf c \<le> 57"

definition isLowerC :: "char \<Rightarrow> bool" where
  "isLowerC c \<longleftrightarrow> 97 \<le> byteOf c \<and> byteOf c \<le> 122"

definition isUpperC :: "char \<Rightarrow> bool" where
  "isUpperC c \<longleftrightarrow> 65 \<le> byteOf c \<and> byteOf c \<le> 90"

definition isSpaceC :: "char \<Rightarrow> bool" where
  "isSpaceC c \<longleftrightarrow> (9 \<le> byteOf c \<and> byteOf c \<le> 13) \<or> byteOf c = 32"

definition isControlC :: "char \<Rightarrow> bool" where
  "isControlC c \<longleftrightarrow> byteOf c < 32 \<or> byteOf c = 127"

definition toLowerC :: "char \<Rightarrow> char" where
  "toLowerC c = (if isUpperC c then char_of (byteOf c + 32) else c)"

lemma byteOf_less [simp]: "byteOf c < 256"
  by (simp add: byteOf_def)

lemma byteOf_char_of [simp]: "n < 256 \<Longrightarrow> byteOf (char_of n) = n"
  by (simp add: byteOf_def of_char_of)

lemma byteOf_inject [simp]: "byteOf c = byteOf d \<longleftrightarrow> c = d"
  by (metis byteOf_def char_of_char)

lemma byteOf_toLowerC: "byteOf (toLowerC c) = (if isUpperC c then byteOf c + 32 else byteOf c)"
  by (simp add: toLowerC_def isUpperC_def)

lemma toLowerC_not_upper [simp]: "\<not> isUpperC (toLowerC c)"
  unfolding isUpperC_def byteOf_toLowerC by auto

lemma toLowerC_idem [simp]: "toLowerC (toLowerC c) = toLowerC c"
  by (metis toLowerC_def toLowerC_not_upper)

lemma toLowerC_id: "\<not> isUpperC c \<Longrightarrow> toLowerC c = c"
  by (simp add: toLowerC_def)

lemma toLowerC_small: "byteOf c < 65 \<Longrightarrow> toLowerC c = c"
  by (simp add: toLowerC_def isUpperC_def)

lemma toLowerC_eq_small: "byteOf d < 65 \<Longrightarrow> toLowerC c = d \<longleftrightarrow> c = d"
  unfolding byteOf_inject [symmetric] byteOf_toLowerC by (auto simp: isUpperC_def)

section \<open>Case, trimming, prefixes and suffixes\<close>

definition toLower :: "string \<Rightarrow> string" where
  "toLower = map toLowerC"

definition equalFold :: "string \<Rightarrow> string \<Rightarrow> bool" where
  "equalFold a b \<longleftrightarrow> toLower a = toLower b"

definition trimBy :: "(char \<Rightarrow> bool) \<Rightarrow> string \<Rightarrow> string" where
  "trimBy p s = rev (dropWhile p (rev (dropWhile p s)))"

definition trimSpace :: "string \<Rightarrow> string" where
  "trimSpace = trimBy isSpaceC"

text \<open>\<open>strings.Trim(s, cutset)\<close> and \<open>strings.TrimLeft\<close>.\<close>

definition trimSet :: "string \<Rightarrow> string \<Rightarrow> string" where
  "trimSet cutset = trimBy (\<lambda>c. c \<in> set cutset)"

definition trimLeftSet :: "string \<Rightarrow> string \<Rightarrow> string" where
  "trimLeftSet cutset = dropWhile (\<lambda>c. c \<in> set cutset)"

definition hasPrefix :: "string \<Rightarrow> string \<Rightarrow> bool" where
  "hasPrefix p s \<longleftrightarrow> take (length p) s = p"

definition hasSuffix :: "string \<Rightarrow> string \<Rightarrow> bool" where
  "hasSuffix p s \<longleftrightarrow> length p \<le> length s \<and> drop (length s - length p) s = p"

definition trimPrefix :: "string \<Rightarrow> string \<Rightarrow> string" where
  "trimPrefix p s = (if hasPrefix p s then drop (length p) s else s)"

definition trimSuffix :: "string \<Rightarrow> string \<Rightarrow> string" where
  "trimSuffix p s = (if hasSuffix p s then take (length s - length p) s else s)"

fun containsStr :: "string \<Rightarrow> string \<Rightarrow> bool" where
  "containsStr p [] \<longleftrightarrow> p = []"
| "containsStr p (c # s) \<longleftrightarrow> hasPrefix p (c # s) \<or> containsStr p s"

definition containsAny :: "string \<Rightarrow> string \<Rightarrow> bool" where
  "containsAny chars s \<longleftrightarrow> list_ex (\<lambda>c. c \<in> set chars) s"

lemma toLower_Nil [simp]: "toLower [] = []"
  by (simp add: toLower_def)

lemma toLower_Nil_iff [simp]: "toLower s = [] \<longleftrightarrow> s = []"
  by (simp add: toLower_def)

lemma toLower_idem [simp]: "toLower (toLower s) = toLower s"
  by (simp add: toLower_def)

lemma toLower_id: "(\<And>c. c \<in> set s \<Longrightarrow> \<not> isUpperC c) \<Longrightarrow> toLower s = s"
  by (simp add: toLower_def toLowerC_id map_idI)

lemma length_toLower [simp]: "length (toLower s) = length s"
  by (simp add: toLower_def)

lemma set_toLower: "set (toLower s) = toLowerC ` set s"
  by (simp add: toLower_def)

lemma equalFold_refl [simp]: "equalFold s s"
  by (simp add: equalFold_def)

lemma equalFold_sym: "equalFold a b = equalFold b a"
  by (auto simp: equalFold_def)

lemma equalFold_trans: "equalFold a b \<Longrightarrow> equalFold b c \<Longrightarrow> equalFold a c"
  by (simp add: equalFold_def)

lemma trimBy_Nil [simp]: "trimBy p [] = []"
  by (simp add: trimBy_def)

lemma set_dropWhile_subset: "set (dropWhile p s) \<subseteq> set s"
  by (auto dest: set_dropWhileD)

lemma set_trimBy: "set (trimBy p s) \<subseteq> set s"
  using set_dropWhile_subset [of p "rev (dropWhile p s)"] set_dropWhile_subset [of p s]
  by (simp add: trimBy_def)

lemma trimBy_ends:
  assumes "trimBy p s \<noteq> []"
  shows "\<not> p (hd (trimBy p s)) \<and> \<not> p (last (trimBy p s))"
proof -
  let ?d = "dropWhile p s"
  let ?e = "dropWhile p (rev ?d)"
  have ne: "?e \<noteq> []" using assms by (simp add: trimBy_def)
  then have l: "\<not> p (hd ?e)" by (rule hd_dropWhile)
  from ne have dne: "?d \<noteq> []" by (cases ?d) auto
  then have h: "\<not> p (hd ?d)" by (rule hd_dropWhile)
  obtain pre where pre: "rev ?d = pre @ ?e"
    by (metis takeWhile_dropWhile_id)
  have "last ?e = last (rev ?d)" using ne pre by (metis last_appendR)
  also have "\<dots> = hd ?d" using dne by (simp add: last_rev)
  finally have "last ?e = hd ?d" .
  with l h ne show ?thesis by (simp add: trimBy_def hd_rev last_rev)
qed

lemma trimBy_id:
  assumes "s = [] \<or> \<not> p (hd s) \<and> \<not> p (last s)"
  shows "trimBy p s = s"
proof (cases "s = []")
  case False
  then have "dropWhile p s = s" using assms by (cases s) auto
  moreover have "dropWhile p (rev s) = rev s"
    using False assms by (cases "rev s") (auto simp: hd_rev [symmetric])
  ultimately show ?thesis by (simp add: trimBy_def)
qed simp

lemma trimBy_idem [simp]: "trimBy p (trimBy p s) = trimBy p s"
  by (rule trimBy_id) (use trimBy_ends in blast)

lemma trimSpace_idem [simp]: "trimSpace (trimSpace s) = trimSpace s"
  by (simp add: trimSpace_def)

lemma trimSpace_Nil [simp]: "trimSpace [] = []"
  by (simp add: trimSpace_def)

lemma trimSet_idem [simp]: "trimSet cs (trimSet cs s) = trimSet cs s"
  by (simp add: trimSet_def)

lemma set_trimSpace: "set (trimSpace s) \<subseteq> set s"
  by (simp add: trimSpace_def set_trimBy)

lemma set_trimSuffix: "set (trimSuffix p s) \<subseteq> set s"
  by (auto simp: trimSuffix_def dest: in_set_takeD)

section \<open>Searching, splitting and joining at one byte\<close>

fun indexByte :: "char \<Rightarrow> string \<Rightarrow> nat option" where
  "indexByte c [] = None"
| "indexByte c (x # xs) = (if x = c then Some 0 else map_option Suc (indexByte c xs))"

definition lastIndexByte :: "char \<Rightarrow> string \<Rightarrow> nat option" where
  "lastIndexByte c s = map_option (\<lambda>i. length s - Suc i) (indexByte c (rev s))"

definition countByte :: "char \<Rightarrow> string \<Rightarrow> nat" where
  "countByte c s = length (filter (\<lambda>x. x = c) s)"

text \<open>\<open>strings.Split\<close> at a separator of one byte; the empty string gives one empty part.\<close>

fun splitByte :: "char \<Rightarrow> string \<Rightarrow> string list" where
  "splitByte c [] = [[]]"
| "splitByte c (x # xs) =
     (if x = c then [] # splitByte c xs
      else (case splitByte c xs of [] \<Rightarrow> [[x]] | p # ps \<Rightarrow> (x # p) # ps))"

fun joinStr :: "string \<Rightarrow> string list \<Rightarrow> string" where
  "joinStr sep [] = []"
| "joinStr sep [p] = p"
| "joinStr sep (p # q # ps) = p @ sep @ joinStr sep (q # ps)"

text \<open>\<open>strings.Cut\<close> at one byte: what stands before, and after the byte if it occurs.\<close>

fun cutByte :: "char \<Rightarrow> string \<Rightarrow> string \<times> string option" where
  "cutByte c [] = ([], None)"
| "cutByte c (x # xs) =
     (if x = c then ([], Some xs) else (let (b, a) = cutByte c xs in (x # b, a)))"

lemma indexByte_None: "indexByte c s = None \<longleftrightarrow> c \<notin> set s"
  by (induction s) auto

lemma indexByte_Some:
  "indexByte c s = Some i \<longleftrightarrow> i < length s \<and> s ! i = c \<and> c \<notin> set (take i s)"
proof (induction s arbitrary: i)
  case Nil
  show ?case by simp
next
  case (Cons x xs)
  show ?case
  proof (cases i)
    case 0
    then show ?thesis by auto
  next
    case (Suc j)
    then show ?thesis using Cons.IH [of j] by auto
  qed
qed

lemma splitByte_not_Nil [simp]: "splitByte c s \<noteq> []"
  by (induction s) (auto split: list.splits)

lemma splitByte_parts: "p \<in> set (splitByte c s) \<Longrightarrow> c \<notin> set p \<and> set p \<subseteq> set s"
  by (induction s arbitrary: p) (fastforce split: list.splits if_splits)+

lemma joinStr_Cons: "ps \<noteq> [] \<Longrightarrow> joinStr sep (p # ps) = p @ sep @ joinStr sep ps"
  by (cases ps) auto

lemma joinStr_splitByte: "joinStr [c] (splitByte c s) = s"
proof (induction s)
  case Nil
  show ?case by simp
next
  case (Cons x xs)
  show ?case
  proof (cases "splitByte c xs")
    case Nil
    then show ?thesis by simp
  next
    case (Cons p ps)
    then show ?thesis using Cons.IH by (cases ps) (auto simp: joinStr_Cons)
  qed
qed

lemma splitByte_no_sep: "c \<notin> set s \<Longrightarrow> splitByte c s = [s]"
  by (induction s) auto

lemma splitByte_append:
  "c \<notin> set p \<Longrightarrow> splitByte c (p @ c # s) = p # splitByte c s"
  by (induction p) auto

lemma splitByte_joinStr:
  "ps \<noteq> [] \<Longrightarrow> (\<And>p. p \<in> set ps \<Longrightarrow> c \<notin> set p) \<Longrightarrow> splitByte c (joinStr [c] ps) = ps"
proof (induction "[c]" ps rule: joinStr.induct)
  case 1
  then show ?case by simp
next
  case (2 p)
  then show ?case by (simp add: splitByte_no_sep)
next
  case (3 p q ps)
  then show ?case by (simp add: splitByte_append)
qed

section \<open>Numbers\<close>

text \<open>\<open>strconv.Itoa\<close> on a non-negative number, and \<open>strconv.ParseUint(s, 10, bits)\<close>.\<close>

fun itoa :: "nat \<Rightarrow> string" where
  "itoa n = (if n < 10 then [char_of (48 + n)] else itoa (n div 10) @ [char_of (48 + n mod 10)])"

declare itoa.simps [simp del]

definition digitVal :: "char \<Rightarrow> nat" where
  "digitVal c = byteOf c - 48"

definition decVal :: "string \<Rightarrow> nat" where
  "decVal s = foldl (\<lambda>v c. v * 10 + digitVal c) 0 s"

definition parseUint :: "nat \<Rightarrow> string \<Rightarrow> nat option" where
  "parseUint bound s =
     (if s = [] \<or> \<not> list_all isDigitC s then None
      else if decVal s < bound then Some (decVal s) else None)"

lemma itoa_digits: "c \<in> set (itoa n) \<Longrightarrow> isDigitC c"
proof (induction n rule: itoa.induct)
  case (1 n)
  show ?case
  proof (cases "n < 10")
    case True
    with "1.prems" show ?thesis by (simp add: itoa.simps [of n] isDigitC_def)
  next
    case False
    with "1.prems" have "c \<in> set (itoa (n div 10)) \<or> c = char_of (48 + n mod 10)"
      by (subst (asm) itoa.simps) auto
    then show ?thesis
    proof
      assume "c \<in> set (itoa (n div 10))"
      with "1.IH" False show ?thesis by simp
    next
      assume c: "c = char_of (48 + n mod 10)"
      have "48 + n mod 10 < 256" "n mod 10 < 10" by simp_all
      then show ?thesis unfolding c isDigitC_def by (simp only: byteOf_char_of) simp
    qed
  qed
qed

lemma itoa_not_Nil [simp]: "itoa n \<noteq> []"
  by (subst itoa.simps) simp

lemma decVal_snoc: "decVal (s @ [c]) = decVal s * 10 + digitVal c"
  by (simp add: decVal_def)

lemma decVal_itoa [simp]: "decVal (itoa n) = n"
proof (induction n rule: itoa.induct)
  case (1 n)
  have d: "digitVal (char_of (48 + m)) = m" if "m < 10" for m :: nat
    using that by (simp add: digitVal_def)
  show ?case
  proof (cases "n < 10")
    case True
    then show ?thesis using d [of n] by (simp add: itoa.simps [of n] decVal_def)
  next
    case False
    then show ?thesis using "1.IH" d [of "n mod 10"]
      by (subst itoa.simps) (simp add: decVal_snoc)
  qed
qed

lemma itoa_inject [simp]: "itoa m = itoa n \<longleftrightarrow> m = n"
  by (metis decVal_itoa)

lemma itoa_no_NUL [simp]: "CHR 0x00 \<notin> set (itoa n)"
proof
  assume "CHR 0x00 \<in> set (itoa n)"
  then have "isDigitC CHR 0x00" by (rule itoa_digits)
  then show False by (simp add: isDigitC_def byteOf_def)
qed

lemma parseUint_itoa: "n < bound \<Longrightarrow> parseUint bound (itoa n) = Some n"
  by (simp add: parseUint_def list_all_iff itoa_digits)

lemma parseUint_bound: "parseUint bound s = Some n \<Longrightarrow> n < bound"
  by (auto simp: parseUint_def split: if_splits)

text \<open>\<open>%d\<close> of an \<open>int\<close>, \<open>strconv.Itoa\<close> of any number.\<close>

definition formatInt :: "int \<Rightarrow> string" where
  "formatInt i = (if i < 0 then CHR ''-'' # itoa (nat (- i)) else itoa (nat i))"

text \<open>\<open>%q\<close> of a string of printable ASCII characters.\<close>

definition quote :: "string \<Rightarrow> string" where
  "quote s = ''\"'' @ concat (map (\<lambda>c. if c = CHR ''\"'' then [CHR 0x5C, CHR ''\"'']
     else if c = CHR 0x5C then [CHR 0x5C, CHR 0x5C] else [c]) s) @ ''\"''"

lemmas [go_strings] = toLower_def equalFold_def trimSpace_def trimSet_def trimBy_def trimLeftSet_def
  hasPrefix_def hasSuffix_def trimPrefix_def trimSuffix_def containsAny_def lastIndexByte_def
  countByte_def toLowerC_def isUpperC_def isLowerC_def isSpaceC_def isControlC_def isDigitC_def
  byteOf_def

end
