(* ===== verification/GoNet.thy ===== *)
theory GoNet
  imports GoStrings
begin

text \<open>
  What the program uses of Go's \<open>net/netip\<close> and \<open>net\<close> packages: addresses, their textual form
  (\<open>netip.ParseAddr\<close>, \<open>Addr.String\<close>, \<open>Addr.Unmap\<close>) and host:port pairs. These are functions of
  the standard library and have no entry in the map. An IPv4 address is its four octets, an
  IPv6 address its eight 16-bit groups and its zone. The section ends with the round trip:
  every well-formed address is what its own text parses to.
\<close>

section \<open>Addresses\<close>

datatype Addr = NoAddr | V4 "nat list" | V6 "nat list" string

definition addr_wf :: "Addr \<Rightarrow> bool" where
  "addr_wf a = (case a of NoAddr \<Rightarrow> False
     | V4 os \<Rightarrow> length os = 4 \<and> list_all (\<lambda>n. n < 256) os
     | V6 gs z \<Rightarrow> length gs = 8 \<and> list_all (\<lambda>n. n < 65536) gs)"

definition is4 :: "Addr \<Rightarrow> bool" where
  "is4 a = (case a of V4 _ \<Rightarrow> True | _ \<Rightarrow> False)"

text \<open>\<open>Is4In6\<close>: the first five groups are 0 and the sixth is all ones.\<close>

definition mappedGroups :: "nat list \<Rightarrow> bool" where
  "mappedGroups gs \<longleftrightarrow> length gs = 8 \<and> take 6 gs = [0, 0, 0, 0, 0, 65535]"

definition unmap :: "Addr \<Rightarrow> Addr" where
  "unmap a = (case a of V6 gs z \<Rightarrow>
       if mappedGroups gs
       then V4 [gs ! 6 div 256, gs ! 6 mod 256, gs ! 7 div 256, gs ! 7 mod 256] else a
     | _ \<Rightarrow> a)"

lemma unmap_idem [simp]: "unmap (unmap a) = unmap a"
  by (cases a) (auto simp: unmap_def)

lemma addr_wf_unmap: "addr_wf a \<Longrightarrow> addr_wf (unmap a)"
proof (cases a)
  case (V6 gs z)
  assume "addr_wf a"
  with V6 have gs: "length gs = 8" "\<forall>n \<in> set gs. n < 65536"
    by (auto simp: addr_wf_def list_all_iff)
  then have "gs ! 6 < 65536" "gs ! 7 < 65536" by auto
  then have "gs ! 6 div 256 < 256" "gs ! 7 div 256 < 256" by auto
  with V6 gs show ?thesis by (auto simp: unmap_def addr_wf_def list_all_iff)
qed (auto simp: unmap_def)

lemma not_mapped_unmap: "unmap a = V6 gs z \<Longrightarrow> \<not> mappedGroups gs"
  by (cases a) (auto simp: unmap_def split: if_splits)

section \<open>Hexadecimal groups\<close>

definition isHexC :: "char \<Rightarrow> bool" where
  "isHexC c \<longleftrightarrow> isDigitC c \<or> (97 \<le> byteOf c \<and> byteOf c \<le> 102) \<or> (65 \<le> byteOf c \<and> byteOf c \<le> 70)"

definition hexDigitVal :: "char \<Rightarrow> nat" where
  "hexDigitVal c = (if isDigitC c then byteOf c - 48
     else if 97 \<le> byteOf c then byteOf c - 87 else byteOf c - 55)"

definition hexVal :: "string \<Rightarrow> nat" where
  "hexVal s = foldl (\<lambda>v c. v * 16 + hexDigitVal c) 0 s"

definition hexDigit :: "nat \<Rightarrow> char" where
  "hexDigit n = char_of (if n < 10 then 48 + n else 87 + n)"

fun hexStr :: "nat \<Rightarrow> string" where
  "hexStr n = (if n < 16 then [hexDigit n] else hexStr (n div 16) @ [hexDigit (n mod 16)])"

declare hexStr.simps [simp del]

lemma byteOf_hexDigit: "n < 16 \<Longrightarrow> byteOf (hexDigit n) = (if n < 10 then 48 + n else 87 + n)"
  by (simp add: hexDigit_def)

lemma hexDigit_props:
  assumes "n < 16"
  shows "isHexC (hexDigit n)" "hexDigitVal (hexDigit n) = n" "\<not> isUpperC (hexDigit n)"
    "\<not> isSpaceC (hexDigit n)" "\<not> isControlC (hexDigit n)"
  using assms unfolding isHexC_def hexDigitVal_def isDigitC_def isUpperC_def isSpaceC_def
    isControlC_def byteOf_hexDigit [OF assms] by auto

lemma hexStr_set:
  "c \<in> set (hexStr n) \<Longrightarrow> \<exists>d < 16. c = hexDigit d"
proof (induction n rule: hexStr.induct)
  case (1 n)
  from "1.prems" consider "n < 16" "c = hexDigit n" | "\<not> n < 16" "c \<in> set (hexStr (n div 16))"
    | "c = hexDigit (n mod 16)"
    by (subst (asm) hexStr.simps) (auto split: if_splits)
  then show ?case using "1.IH" by cases (auto intro: exI [of _ "n mod 16"])
qed

lemma hexStr_hex: "c \<in> set (hexStr n) \<Longrightarrow> isHexC c"
  using hexStr_set hexDigit_props by blast

lemma hexStr_not_Nil [simp]: "hexStr n \<noteq> []"
  by (subst hexStr.simps) simp

lemma hexVal_hexStr [simp]: "hexVal (hexStr n) = n"
proof (induction n rule: hexStr.induct)
  case (1 n)
  then show ?case by (subst hexStr.simps) (simp add: hexVal_def hexDigit_props)
qed

lemma length_hexStr: "n < 65536 \<Longrightarrow> length (hexStr n) \<le> 4"
proof -
  assume n: "n < 65536"
  have a: "length (hexStr m) \<le> 1" if "m < 16" for m using that by (simp add: hexStr.simps)
  have b: "length (hexStr m) \<le> 2" if "m < 256" for m
    using that a [of "m div 16"] by (subst hexStr.simps) auto
  have c: "length (hexStr m) \<le> 3" if "m < 4096" for m
    using that b [of "m div 16"] by (subst hexStr.simps) auto
  show ?thesis using n c [of "n div 16"] by (subst hexStr.simps) auto
qed

section \<open>Parsing\<close>

definition okOctet :: "string \<Rightarrow> bool" where
  "okOctet p \<longleftrightarrow> p \<noteq> [] \<and> list_all isDigitC p \<and> (length p > 1 \<longrightarrow> hd p \<noteq> CHR ''0'') \<and> decVal p < 256"

definition parseV4 :: "string \<Rightarrow> nat list option" where
  "parseV4 s = (let ps = splitByte CHR ''.'' s in
     if length ps = 4 \<and> list_all okOctet ps then Some (map decVal ps) else None)"

text \<open>
  The loop of \<open>parseIPv6\<close>: the groups read so far, the position of the ellipsis, and the rest
  of the text; \<open>None\<close> is an error.
\<close>

function v6loop :: "nat list \<Rightarrow> nat option \<Rightarrow> string \<Rightarrow> (nat list \<times> nat option \<times> string) option" where
  "v6loop acc ell s =
     (if 8 \<le> length acc then Some (acc, ell, s)
      else
        let h = takeWhile isHexC s; r = dropWhile isHexC s; acc' = acc @ [hexVal h]
        in if h = [] \<or> 4 < length h then None
           else (case r of
               [] \<Rightarrow> Some (acc', ell, [])
             | c # r' \<Rightarrow>
                 if c = CHR ''.'' then
                   (if ell = None \<and> length acc \<noteq> 6 \<or> 6 < length acc then None
                    else (case parseV4 s of None \<Rightarrow> None
                          | Some os \<Rightarrow> Some (acc @ [os ! 0 * 256 + os ! 1, os ! 2 * 256 + os ! 3], ell, [])))
                 else if c \<noteq> CHR '':'' then None
                 else (case r' of
                     [] \<Rightarrow> None
                   | d # r'' \<Rightarrow>
                       if d = CHR '':'' then
                         (if ell \<noteq> None then None
                          else if r'' = [] then Some (acc', Some (length acc'), [])
                          else v6loop acc' (Some (length acc')) r'')
                       else v6loop acc' ell r')))"
  by pat_completeness auto
termination
proof (relation "measure (\<lambda>(acc, ell, s). 8 - length acc)", goal_cases)
  case 1
  show ?case by simp
qed auto

declare v6loop.simps [simp del]

definition parseV6Body :: "string \<Rightarrow> nat list option" where
  "parseV6Body s =
     (let lead = hasPrefix ''::'' s in
      if lead \<and> length s = 2 then Some (replicate 8 0)
      else (case v6loop [] (if lead then Some 0 else None) (if lead then drop 2 s else s) of
          None \<Rightarrow> None
        | Some (acc, ell, rest) \<Rightarrow>
            if rest \<noteq> [] then None
            else if length acc < 8 then
              (case ell of None \<Rightarrow> None
               | Some e \<Rightarrow> Some (take e acc @ replicate (8 - length acc) 0 @ drop e acc))
            else if ell \<noteq> None then None else Some acc))"

definition parseV6 :: "string \<Rightarrow> Addr option" where
  "parseV6 s = (case cutByte CHR ''%'' s of
     (body, None) \<Rightarrow> map_option (\<lambda>gs. V6 gs []) (parseV6Body body)
   | (body, Some zone) \<Rightarrow>
       if zone = [] then None else map_option (\<lambda>gs. V6 gs zone) (parseV6Body body))"

fun parseAddrAt :: "string \<Rightarrow> string \<Rightarrow> Addr option" where
  "parseAddrAt s [] = None"
| "parseAddrAt s (c # cs) =
     (if c = CHR ''.'' then map_option V4 (parseV4 s)
      else if c = CHR '':'' then parseV6 s
      else if c = CHR ''%'' then None else parseAddrAt s cs)"

definition parseAddr :: "string \<Rightarrow> Addr option" where
  "parseAddr s = parseAddrAt s s"

section \<open>Printing\<close>

definition v4String :: "nat list \<Rightarrow> string" where
  "v4String os = joinStr ''.'' (map itoa os)"

definition zonePart :: "string \<Rightarrow> string" where
  "zonePart z = (if z = [] then [] else CHR ''%'' # z)"

text \<open>The first longest run of at least two zero groups, as a start and an end.\<close>

definition zeroLen :: "nat list \<Rightarrow> nat \<Rightarrow> nat" where
  "zeroLen gs i = length (takeWhile (\<lambda>g. g = 0) (drop i gs))"

definition zeroRun :: "nat list \<Rightarrow> nat \<times> nat" where
  "zeroRun gs = foldl (\<lambda>(zs, ze) i. let l = zeroLen gs i in
     if 2 \<le> l \<and> ze - zs < l then (i, i + l) else (zs, ze)) (0, 0) [0..<8]"

definition v6String :: "nat list \<Rightarrow> string" where
  "v6String gs = (let (zs, ze) = zeroRun gs in
     if zs = ze then joinStr '':'' (map hexStr gs)
     else joinStr '':'' (map hexStr (take zs gs)) @ ''::'' @ joinStr '':'' (map hexStr (drop ze gs)))"

definition addrString :: "Addr \<Rightarrow> string" where
  "addrString a = (case a of
     NoAddr \<Rightarrow> ''invalid IP''
   | V4 os \<Rightarrow> v4String os
   | V6 gs z \<Rightarrow>
       if mappedGroups gs
       then ''::ffff:'' @ v4String [gs ! 6 div 256, gs ! 6 mod 256, gs ! 7 div 256, gs ! 7 mod 256] @ zonePart z
       else v6String gs @ zonePart z)"

section \<open>Host and port\<close>

definition splitHostPort :: "string \<Rightarrow> (string \<times> string) option" where
  "splitHostPort hp = (case lastIndexByte CHR '':'' hp of
     None \<Rightarrow> None
   | Some i \<Rightarrow>
       if hp ! 0 = CHR ''['' then
         (case indexByte CHR '']'' hp of
            None \<Rightarrow> None
          | Some e \<Rightarrow>
              if e + 1 \<noteq> i then None
              else if CHR ''['' \<in> set (drop 1 hp) \<or> CHR '']'' \<in> set (drop (e + 1) hp) then None
              else Some (take (e - 1) (drop 1 hp), drop (i + 1) hp))
       else if CHR '':'' \<in> set (take i hp) \<or> CHR ''['' \<in> set hp \<or> CHR '']'' \<in> set hp then None
       else Some (take i hp, drop (i + 1) hp))"

definition joinHostPort :: "string \<Rightarrow> string \<Rightarrow> string" where
  "joinHostPort host port =
     (if CHR '':'' \<in> set host then ''['' @ host @ '']:'' @ port else host @ '':'' @ port)"


section \<open>Well-formed addresses are what their text parses to\<close>

lemma hd_itoa: "0 < n \<Longrightarrow> hd (itoa n) \<noteq> CHR ''0''"
proof (induction n rule: itoa.induct)
  case (1 n)
  show ?case
  proof (cases "n < 10")
    case True
    then have "byteOf (hd (itoa n)) = 48 + n" by (simp add: itoa.simps)
    moreover have "byteOf CHR ''0'' = 48" by (simp add: byteOf_def)
    ultimately show ?thesis using "1.prems" by auto
  next
    case False
    with 1 show ?thesis by (subst itoa.simps) simp
  qed
qed

lemma okOctet_itoa: "n < 256 \<Longrightarrow> okOctet (itoa n)"
proof -
  assume n: "n < 256"
  have "length (itoa n) > 1 \<Longrightarrow> 0 < n"
    by (cases "n = 0") (auto simp: itoa.simps)
  then show ?thesis using n hd_itoa [of n]
    by (auto simp: okOctet_def list_all_iff itoa_digits)
qed

lemma digit_not_dot: "isDigitC c \<Longrightarrow> c \<noteq> CHR ''.'' \<and> c \<noteq> CHR '':'' \<and> c \<noteq> CHR ''%''"
  by (auto simp: isDigitC_def byteOf_def)

lemma hex_not_sep:
  "isHexC c \<Longrightarrow> c \<noteq> CHR ''.'' \<and> c \<noteq> CHR '':'' \<and> c \<noteq> CHR ''%'' \<and> c \<noteq> CHR ''['' \<and> c \<noteq> CHR '']'' \<and> c \<noteq> CHR ''/''"
  by (auto simp: isHexC_def isDigitC_def byteOf_def)

lemma parseV4_v4String:
  assumes "length os = 4" "\<forall>n \<in> set os. n < 256"
  shows "parseV4 (v4String os) = Some os"
proof -
  have "splitByte CHR ''.'' (v4String os) = map itoa os"
    unfolding v4String_def using assms(1)
    by (intro splitByte_joinStr) (auto dest: itoa_digits digit_not_dot)
  moreover have "list_all okOctet (map itoa os)"
    using assms(2) by (auto simp: list_all_iff okOctet_itoa)
  ultimately show ?thesis using assms(1) by (simp add: parseV4_def map_idI)
qed

lemma set_joinStr: "set (joinStr sep ps) \<subseteq> set sep \<union> \<Union> (set ` set ps)"
  by (induction sep ps rule: joinStr.induct) auto

lemma v4String_chars: "c \<in> set (v4String os) \<Longrightarrow> isDigitC c \<or> c = CHR ''.''"
  using set_joinStr [of "''.''" "map itoa os"] itoa_digits by (fastforce simp: v4String_def)

lemma parseAddrAt_v4:
  "(\<And>c. c \<in> set t \<Longrightarrow> isDigitC c \<or> c = CHR ''.'') \<Longrightarrow> CHR ''.'' \<in> set t \<Longrightarrow>
   parseAddrAt s t = map_option V4 (parseV4 s)"
  by (induction t) (use digit_not_dot in auto)

lemma dot_in_v4String: "length os = 4 \<Longrightarrow> CHR ''.'' \<in> set (v4String os)"
  by (auto simp: v4String_def length_Suc_conv numeral_eq_Suc)

lemma parseAddr_v4String:
  "length os = 4 \<Longrightarrow> \<forall>n \<in> set os. n < 256 \<Longrightarrow> parseAddr (v4String os) = Some (V4 os)"
  unfolding parseAddr_def
  by (subst parseAddrAt_v4) (auto simp: parseV4_v4String dot_in_v4String dest: v4String_chars)

abbreviation groupsText :: "nat list \<Rightarrow> string" where
  "groupsText gs \<equiv> joinStr '':'' (map hexStr gs)"

lemma hex_span:
  assumes "g < 65536" "s = [] \<or> \<not> isHexC (hd s)"
  shows "takeWhile isHexC (hexStr g @ s) = hexStr g" "dropWhile isHexC (hexStr g @ s) = s"
  using assms hexStr_hex by (cases s; auto simp: takeWhile_append2 dropWhile_append2)+

lemma groupsText_first:
  "gs \<noteq> [] \<Longrightarrow> \<exists>c t. groupsText gs = c # t \<and> isHexC c"
proof -
  assume "gs \<noteq> []"
  then obtain g gs' where gs: "gs = g # gs'" by (cases gs) auto
  obtain c t where ct: "hexStr g = c # t" by (cases "hexStr g") auto
  then have "isHexC c" using hexStr_hex [of c g] by simp
  with gs ct show ?thesis by (cases gs') auto
qed

lemma sep_not_hex [simp]: "\<not> isHexC CHR '':''" "\<not> isHexC CHR ''.''" "\<not> isHexC CHR ''%''"
  by (simp_all add: isHexC_def isDigitC_def byteOf_def)

lemma v6loop_group_end:
  "length acc < 8 \<Longrightarrow> g < 65536 \<Longrightarrow> v6loop acc ell (hexStr g) = Some (acc @ [g], ell, [])"
proof -
  assume a: "length acc < 8" "g < 65536"
  have tw: "takeWhile isHexC (hexStr g) = hexStr g" "dropWhile isHexC (hexStr g) = []"
    using hexStr_hex [of _ g] by (auto simp: takeWhile_eq_all_conv)
  show ?thesis using a length_hexStr [of g] by (subst v6loop.simps) (simp add: Let_def tw)
qed

lemma v6loop_group_colon:
  assumes "length acc < 8" "g < 65536" "isHexC c"
  shows "v6loop acc ell (hexStr g @ CHR '':'' # c # t) = v6loop (acc @ [g]) ell (c # t)"
  using assms hex_span [of g "CHR '':'' # c # t"] length_hexStr [of g] hex_not_sep [of c]
  by (subst v6loop.simps) (simp add: Let_def)

lemma v6loop_group_ellipsis:
  assumes "length acc < 8" "g < 65536"
  shows "v6loop acc None (hexStr g @ CHR '':'' # CHR '':'' # t) =
    (if t = [] then Some (acc @ [g], Some (Suc (length acc)), [])
     else v6loop (acc @ [g]) (Some (Suc (length acc))) t)"
  using assms hex_span [of g "CHR '':'' # CHR '':'' # t"] length_hexStr [of g]
  by (subst v6loop.simps) (simp add: Let_def)

lemma v6loop_groups:
  "gs \<noteq> [] \<Longrightarrow> length acc + length gs \<le> 8 \<Longrightarrow> \<forall>g \<in> set gs. g < 65536 \<Longrightarrow>
   v6loop acc ell (groupsText gs) = Some (acc @ gs, ell, [])"
proof (induction gs arbitrary: acc)
  case Nil
  then show ?case by simp
next
  case (Cons g gs)
  show ?case
  proof (cases "gs = []")
    case True
    with Cons.prems show ?thesis by (simp add: v6loop_group_end)
  next
    case False
    then obtain c t where ct: "groupsText gs = c # t" "isHexC c"
      using groupsText_first by blast
    have "groupsText (g # gs) = hexStr g @ CHR '':'' # c # t"
      using False ct by (simp add: joinStr_Cons)
    then show ?thesis using Cons.prems Cons.IH [of "acc @ [g]"] False ct
      by (simp add: v6loop_group_colon)
  qed
qed

lemma v6loop_groups_ellipsis:
  "gs \<noteq> [] \<Longrightarrow> length acc + length gs < 8 \<Longrightarrow> \<forall>g \<in> set gs. g < 65536 \<Longrightarrow>
   v6loop acc None (groupsText gs @ CHR '':'' # CHR '':'' # t) =
     (if t = [] then Some (acc @ gs, Some (length acc + length gs), [])
      else v6loop (acc @ gs) (Some (length acc + length gs)) t)"
proof (induction gs arbitrary: acc)
  case Nil
  then show ?case by simp
next
  case (Cons g gs)
  show ?case
  proof (cases "gs = []")
    case True
    with Cons.prems show ?thesis by (simp add: v6loop_group_ellipsis)
  next
    case False
    then obtain c u where ct: "groupsText gs = c # u" "isHexC c"
      using groupsText_first by blast
    have "groupsText (g # gs) @ CHR '':'' # CHR '':'' # t
        = hexStr g @ CHR '':'' # c # (u @ CHR '':'' # CHR '':'' # t)"
      using False ct by (simp add: joinStr_Cons)
    then show ?thesis using Cons.prems Cons.IH [of "acc @ [g]"] False ct
      by (simp add: v6loop_group_colon)
  qed
qed

lemma zeroLen_zero: "j < zeroLen gs i \<Longrightarrow> i + j < length gs \<and> gs ! (i + j) = 0"
proof -
  assume j: "j < zeroLen gs i"
  let ?t = "takeWhile (\<lambda>g. g = 0) (drop i gs)"
  have "j < length ?t" using j by (simp add: zeroLen_def)
  moreover have "length ?t \<le> length (drop i gs)" by (rule length_takeWhile_le)
  ultimately have "i + j < length gs" by simp
  moreover have "?t ! j = 0"
    using \<open>j < length ?t\<close> nth_mem set_takeWhileD by fastforce
  moreover have "?t ! j = drop i gs ! j" using \<open>j < length ?t\<close> by (rule takeWhile_nth)
  ultimately show ?thesis by (simp add: nth_drop)
qed

definition runOk :: "nat list \<Rightarrow> nat \<times> nat \<Rightarrow> bool" where
  "runOk gs r \<longleftrightarrow> fst r = snd r \<or>
     fst r + 2 \<le> snd r \<and> snd r \<le> length gs \<and> (\<forall>k. fst r \<le> k \<and> k < snd r \<longrightarrow> gs ! k = 0)"

lemma runOk_zeroRun: "runOk gs (zeroRun gs)"
proof -
  have step: "runOk gs (let l = zeroLen gs i in
      if 2 \<le> l \<and> ze - zs < l then (i, i + l) else (zs, ze))"
    if "runOk gs (zs, ze)" for zs ze i
  proof (cases "2 \<le> zeroLen gs i \<and> ze - zs < zeroLen gs i")
    case True
    then have "i + zeroLen gs i \<le> length gs"
      using zeroLen_zero [of "zeroLen gs i - 1" gs i] by auto
    moreover have "gs ! k = 0" if "i \<le> k" "k < i + zeroLen gs i" for k
      using zeroLen_zero [of "k - i" gs i] that by auto
    ultimately show ?thesis using True by (auto simp: runOk_def Let_def)
  qed (use that in \<open>auto simp: Let_def\<close>)
  have "runOk gs (foldl (\<lambda>(zs, ze) i. let l = zeroLen gs i in
      if 2 \<le> l \<and> ze - zs < l then (i, i + l) else (zs, ze)) r js)" if "runOk gs r" for r js
    using that
  proof (induction js arbitrary: r)
    case (Cons i js)
    obtain zs ze where "r = (zs, ze)" by fastforce
    with Cons step [of zs ze i] show ?case by (simp add: Let_def)
  qed simp
  moreover have "runOk gs (0, 0)" by (simp add: runOk_def)
  ultimately show ?thesis by (simp add: zeroRun_def)
qed

lemma groups_split:
  assumes "runOk gs (zs, ze)" "zs \<noteq> ze"
  shows "gs = take zs gs @ replicate (ze - zs) 0 @ drop ze gs"
proof -
  have r: "zs + 2 \<le> ze" "ze \<le> length gs" "\<And>k. zs \<le> k \<Longrightarrow> k < ze \<Longrightarrow> gs ! k = 0"
    using assms by (auto simp: runOk_def)
  have "take (ze - zs) (drop zs gs) = replicate (ze - zs) 0"
    by (rule nth_equalityI) (use r in auto)
  then have "drop zs gs = replicate (ze - zs) 0 @ drop ze gs"
    using r by (metis append_take_drop_id drop_drop le_add_diff_inverse2 add_leD1)
  then show ?thesis by (metis append_take_drop_id)
qed

lemma parseV6Body_v6String:
  assumes len: "length gs = 8" and small: "\<forall>g \<in> set gs. g < 65536"
  shows "parseV6Body (v6String gs) = Some gs"
proof -
  obtain zs ze where run: "zeroRun gs = (zs, ze)" by fastforce
  have ok: "runOk gs (zs, ze)" using runOk_zeroRun [of gs] run by simp
  show ?thesis
  proof (cases "zs = ze")
    case True
    have ne: "gs \<noteq> []" using len by auto
    obtain c t where ct: "groupsText gs = c # t" "isHexC c"
      using groupsText_first [OF ne] by blast
    have "v6loop [] None (groupsText gs) = Some (gs, None, [])"
      using v6loop_groups [OF ne, of "[]" None] len small by simp
    then show ?thesis using True run ct len hex_not_sep [of c]
      by (simp add: v6String_def parseV6Body_def hasPrefix_def Let_def)
  next
    case False
    define a b where "a = take zs gs" and "b = drop ze gs"
    have r: "zs + 2 \<le> ze" "ze \<le> 8" using ok False len by (auto simp: runOk_def)
    have gs: "gs = a @ replicate (ze - zs) 0 @ b"
      unfolding a_def b_def by (rule groups_split [OF ok False])
    have la: "length a = zs" "length b = 8 - ze" using len r by (auto simp: a_def b_def)
    have sa: "\<forall>g \<in> set a. g < 65536" "\<forall>g \<in> set b. g < 65536"
      using small by (auto simp: a_def b_def dest: in_set_takeD in_set_dropD)
    have tx: "v6String gs = groupsText a @ CHR '':'' # CHR '':'' # groupsText b"
      using False run by (simp add: v6String_def a_def b_def Let_def)
    have rep: "8 - length (a @ b) = ze - zs" using la r by simp
    show ?thesis
    proof (cases "a = []")
      case True
      show ?thesis
      proof (cases "b = []")
        case b: True
        have "gs = replicate 8 0" using gs True b len by (metis append.right_neutral append_Nil length_replicate)
        then show ?thesis using tx True b by (simp add: parseV6Body_def hasPrefix_def)
      next
        case False
        have "v6loop [] (Some 0) (groupsText b) = Some (b, Some 0, [])"
          using v6loop_groups [OF False, of "[]" "Some 0"] la sa by simp
        moreover have "groupsText b \<noteq> []" using groupsText_first [OF False] by auto
        ultimately show ?thesis using tx True gs rep la r
          by (simp add: parseV6Body_def hasPrefix_def Let_def)
      qed
    next
      case aN: False
      obtain c t where ct: "groupsText a = c # t" "isHexC c" using groupsText_first [OF aN] by blast
      have small': "length a < 8" using la r by simp
      have e: "v6loop [] None (groupsText a @ CHR '':'' # CHR '':'' # groupsText b) =
          Some (a @ b, Some (length a), [])"
      proof (cases "b = []")
        case True
        then show ?thesis using v6loop_groups_ellipsis [OF aN, of "[]" "[]"] small' sa by simp
      next
        case False
        moreover have "groupsText b \<noteq> []" using groupsText_first [OF False] by auto
        ultimately show ?thesis
          using v6loop_groups_ellipsis [OF aN, of "[]" "groupsText b"] small' sa la r
            v6loop_groups [OF False, of a "Some (length a)"] by simp
      qed
      have "length (a @ b) < 8" using la r by simp
      then show ?thesis using tx ct e gs rep hex_not_sep [of c]
        by (simp add: parseV6Body_def hasPrefix_def Let_def)
    qed
  qed
qed


lemma v6String_chars: "c \<in> set (v6String gs) \<Longrightarrow> isHexC c \<or> c = CHR '':''"
proof -
  have g: "c \<in> set (groupsText xs) \<Longrightarrow> isHexC c \<or> c = CHR '':''" for xs
    using set_joinStr [of "'':''" "map hexStr xs"] hexStr_hex by fastforce
  show "c \<in> set (v6String gs) \<Longrightarrow> ?thesis"
    by (auto simp: v6String_def Let_def split: prod.splits if_splits dest: g)
qed

lemma colon_in_v6String: "length gs = 8 \<Longrightarrow> CHR '':'' \<in> set (v6String gs)"
proof (cases "zeroRun gs")
  case (Pair zs ze)
  assume "length gs = 8"
  then obtain g h gs' where "gs = g # h # gs'" by (auto simp: length_Suc_conv numeral_eq_Suc)
  with Pair show ?thesis by (simp add: v6String_def Let_def)
qed

lemma parseAddrAt_v6:
  "(\<And>c. c \<in> set t \<Longrightarrow> isHexC c \<or> c = CHR '':'') \<Longrightarrow> CHR '':'' \<in> set t \<Longrightarrow>
   parseAddrAt s (t @ u) = parseV6 s"
  by (induction t) (use hex_not_sep in auto)

lemma cutByte_append: "c \<notin> set t \<Longrightarrow> cutByte c (t @ u) = (let (b, a) = cutByte c u in (t @ b, a))"
  by (induction t) (auto split: prod.splits)

lemma parseV6_zone:
  assumes "CHR ''%'' \<notin> set t" "parseV6Body t = Some gs"
  shows "parseV6 (t @ zonePart z) = Some (V6 gs z)"
  using assms by (auto simp: parseV6_def cutByte_append zonePart_def)

lemma parseAddr_v6String:
  assumes "length gs = 8" "\<forall>g \<in> set gs. g < 65536"
  shows "parseAddr (v6String gs @ zonePart z) = Some (V6 gs z)"
proof -
  have "parseAddrAt s (v6String gs @ u) = parseV6 s" for s u
    by (rule parseAddrAt_v6) (auto dest: v6String_chars simp: colon_in_v6String assms(1))
  moreover have "CHR ''%'' \<notin> set (v6String gs)" using v6String_chars by fastforce
  ultimately show ?thesis
    using parseV6_zone parseV6Body_v6String [OF assms] by (simp add: parseAddr_def)
qed

lemma parseAddr_addrString_unmapped:
  assumes "addr_wf a" "unmap a = a"
  shows "parseAddr (addrString a) = Some a"
proof (cases a)
  case NoAddr
  with assms show ?thesis by (simp add: addr_wf_def)
next
  case (V4 os)
  with assms show ?thesis
    by (simp add: addr_wf_def addrString_def parseAddr_v4String list_all_iff)
next
  case (V6 gs z)
  with assms have "\<not> mappedGroups gs" by (auto simp: unmap_def split: if_splits)
  with V6 assms show ?thesis
    by (simp add: addr_wf_def addrString_def parseAddr_v6String list_all_iff)
qed

text \<open>What \<open>ParseAddr\<close> returns is well formed.\<close>

lemma hexDigitVal_less: "isHexC c \<Longrightarrow> hexDigitVal c < 16"
  by (auto simp: isHexC_def hexDigitVal_def isDigitC_def)

lemma hexVal_less:
  "(\<And>c. c \<in> set s \<Longrightarrow> isHexC c) \<Longrightarrow> hexVal s < 16 ^ length s"
proof (induction s rule: rev_induct)
  case (snoc c s)
  have "hexVal (s @ [c]) = hexVal s * 16 + hexDigitVal c" by (simp add: hexVal_def)
  moreover have "hexVal s < 16 ^ length s" "hexDigitVal c < 16"
    using snoc hexDigitVal_less by auto
  ultimately show ?case by simp
qed (simp add: hexVal_def)

lemma parseV4_wf: "parseV4 s = Some os \<Longrightarrow> length os = 4 \<and> (\<forall>n \<in> set os. n < 256)"
  by (auto simp: parseV4_def Let_def list_all_iff okOctet_def split: if_splits)

lemma v6loop_wf:
  "v6loop acc ell s = Some (acc', ell', s') \<Longrightarrow> \<forall>g \<in> set acc. g < 65536 \<Longrightarrow>
   length acc \<le> 8 \<Longrightarrow> (\<forall>e. ell = Some e \<longrightarrow> e \<le> length acc) \<Longrightarrow>
   (\<forall>g \<in> set acc'. g < 65536) \<and> length acc' \<le> 8 \<and> (\<forall>e. ell' = Some e \<longrightarrow> e \<le> length acc')"
proof (induction acc ell s rule: v6loop.induct)
  case (1 acc ell s)
  let ?h = "takeWhile isHexC s" and ?r = "dropWhile isHexC s"
  note eq = "1.prems"(1) [unfolded v6loop.simps [of acc ell s] Let_def]
  show ?case
  proof (cases "8 \<le> length acc")
    case True
    with eq "1.prems" show ?thesis by auto
  next
    case False
    then have h: "?h \<noteq> []" "length ?h \<le> 4" using eq by (auto split: if_splits)
    have "hexVal ?h < 16 ^ length ?h" by (rule hexVal_less) (auto dest: set_takeWhileD)
    also have "\<dots> \<le> 16 ^ 4" using h by (intro power_increasing) auto
    finally have hv: "hexVal ?h < 65536" by simp
    show ?thesis
    proof (cases ?r)
      case Nil
      with eq h False hv "1.prems" show ?thesis by (auto split: if_splits intro: le_SucI)
    next
      case (Cons c r')
      show ?thesis
      proof (cases "c = CHR ''.''")
        case True
        with eq h False Cons obtain os where os: "parseV4 s = Some os" "length acc \<le> 6"
          "acc' = acc @ [os ! 0 * 256 + os ! 1, os ! 2 * 256 + os ! 3]" "ell' = ell"
          by (auto split: if_splits option.splits)
        have "os ! k < 256" if "k < 4" for k using parseV4_wf [OF os(1)] that by auto
        then have "os ! 0 < 256" "os ! 1 < 256" "os ! 2 < 256" "os ! 3 < 256" by auto
        with os "1.prems" show ?thesis by (auto intro: le_SucI)
      next
        case False
        note nodot = False
        with eq h \<open>\<not> 8 \<le> length acc\<close> Cons obtain d r'' where d: "c = CHR '':''" "r' = d # r''"
          by (auto split: if_splits list.splits)
        show ?thesis
        proof (cases "d = CHR '':''")
          case True
          show ?thesis
          proof (cases "r'' = []")
            case True
            with eq h \<open>\<not> 8 \<le> length acc\<close> Cons nodot d \<open>d = CHR '':''\<close> hv "1.prems"
            show ?thesis by (auto split: if_splits)
          next
            case False
            from eq h \<open>\<not> 8 \<le> length acc\<close> Cons nodot d \<open>d = CHR '':''\<close> False
            have "v6loop (acc @ [hexVal ?h]) (Some (length (acc @ [hexVal ?h]))) r'' = Some (acc', ell', s')"
              "ell = None" by (auto split: if_splits)
            from "1.IH"(1) [OF \<open>\<not> 8 \<le> length acc\<close> refl refl refl _ Cons nodot _ d(2) True _ False this(1)]
            show ?thesis using h hv "1.prems" d \<open>\<not> 8 \<le> length acc\<close> \<open>ell = None\<close> by auto
          qed
        next
          case False
          from eq h \<open>\<not> 8 \<le> length acc\<close> Cons nodot d False
          have "v6loop (acc @ [hexVal ?h]) ell r' = Some (acc', ell', s')" by (auto split: if_splits)
          from "1.IH"(2) [OF \<open>\<not> 8 \<le> length acc\<close> refl refl refl _ Cons nodot _ d(2) False this]
          show ?thesis using h hv "1.prems" d \<open>\<not> 8 \<le> length acc\<close> by (auto intro: le_SucI)
        qed
      qed
    qed
  qed
qed

lemma parseV6Body_wf:
  assumes "parseV6Body s = Some gs"
  shows "length gs = 8 \<and> (\<forall>g \<in> set gs. g < 65536)"
proof (cases "hasPrefix ''::'' s \<and> length s = 2")
  case True
  with assms have "gs = replicate 8 0" by (simp add: parseV6Body_def Let_def)
  then show ?thesis by auto
next
  case False
  then obtain acc ell where l: "v6loop [] (if hasPrefix ''::'' s then Some 0 else None)
      (if hasPrefix ''::'' s then drop 2 s else s) = Some (acc, ell, [])"
    and g: "length acc < 8 \<and> (\<exists>e. ell = Some e \<and> gs = take e acc @ replicate (8 - length acc) 0 @ drop e acc)
      \<or> \<not> length acc < 8 \<and> gs = acc"
    using assms by (auto simp: parseV6Body_def Let_def split: option.splits if_splits)
  have "(\<forall>g \<in> set acc. g < 65536) \<and> length acc \<le> 8 \<and> (\<forall>e. ell = Some e \<longrightarrow> e \<le> length acc)"
    using v6loop_wf [OF l] by auto
  moreover have "set (take e acc) \<subseteq> set acc" "set (drop e acc) \<subseteq> set acc" for e
    by (rule set_take_subset, rule set_drop_subset)
  ultimately show ?thesis using g by fastforce
qed

lemma parseAddrAt_wf: "parseAddrAt s t = Some a \<Longrightarrow> addr_wf a"
  by (induction t)
    (auto simp: addr_wf_def parseV6_def list_all_iff dest: parseV4_wf parseV6Body_wf
      split: if_splits option.splits prod.splits)

lemma parseAddr_wf: "parseAddr s = Some a \<Longrightarrow> addr_wf a"
  unfolding parseAddr_def by (rule parseAddrAt_wf)

text \<open>
  The canonical text of an address, \<open>NormalizeAddr(address).String()\<close> in the program, parses to
  the unmapped address, so taking it twice changes nothing.
\<close>

theorem parseAddr_canonical:
  assumes "parseAddr s = Some a"
  shows "parseAddr (addrString (unmap a)) = Some (unmap a)"
  by (rule parseAddr_addrString_unmapped) (use assms in \<open>auto intro: addr_wf_unmap parseAddr_wf\<close>)


text \<open>Dotted-decimal text has one spelling: printing what \<open>parseV4\<close> read gives the text back.\<close>

lemma decVal_pos: "s \<noteq> [] \<Longrightarrow> list_all isDigitC s \<Longrightarrow> hd s \<noteq> CHR ''0'' \<Longrightarrow> 0 < decVal s"
proof (induction s rule: rev_induct)
  case (snoc c s)
  show ?case
  proof (cases "s = []")
    case True
    have "byteOf c \<noteq> 48" using snoc.prems True byteOf_inject [of c "CHR ''0''"]
      by (auto simp: byteOf_def)
    with True snoc.prems show ?thesis by (simp add: decVal_def digitVal_def isDigitC_def)
  next
    case False
    with snoc show ?thesis by (simp add: decVal_snoc)
  qed
qed simp

lemma itoa_decVal:
  "s \<noteq> [] \<Longrightarrow> list_all isDigitC s \<Longrightarrow> length s > 1 \<longrightarrow> hd s \<noteq> CHR ''0'' \<Longrightarrow> itoa (decVal s) = s"
proof (induction s rule: rev_induct)
  case (snoc c s)
  have c: "48 \<le> byteOf c" "byteOf c \<le> 57" using snoc.prems by (auto simp: isDigitC_def)
  then have cc: "char_of (48 + digitVal c) = c" "digitVal c < 10"
    by (auto simp: digitVal_def byteOf_def)
  show ?case
  proof (cases "s = []")
    case True
    then show ?thesis using cc by (subst itoa.simps) (simp add: decVal_def)
  next
    case False
    with snoc.prems have h: "hd s \<noteq> CHR ''0''" "list_all isDigitC s" by auto
    then have "0 < decVal s" using decVal_pos False by blast
    then show ?thesis using cc snoc.IH False h by (subst itoa.simps) (simp add: decVal_snoc)
  qed
qed simp

lemma v4String_parseV4:
  assumes "parseV4 s = Some os"
  shows "v4String os = s"
proof -
  let ?ps = "splitByte CHR ''.'' s"
  have os: "os = map decVal ?ps" and ok: "\<forall>p \<in> set ?ps. okOctet p"
    using assms by (auto simp: parseV4_def Let_def list_all_iff split: if_splits)
  have "map (itoa \<circ> decVal) ?ps = ?ps"
    using ok by (intro map_idI) (auto simp: okOctet_def itoa_decVal)
  then show ?thesis using os joinStr_splitByte [of "CHR ''.''" s] by (simp add: v4String_def)
qed

text \<open>Which characters an address and its text have.\<close>

lemma cutByte_set: "cutByte c s = (b, Some a) \<Longrightarrow> set a \<subseteq> set s"
  by (induction s arbitrary: b a) (auto split: if_splits prod.splits)

lemma parseAddrAt_zone: "parseAddrAt s t = Some (V6 gs z) \<Longrightarrow> set z \<subseteq> set s"
  by (induction t)
    (auto simp: parseV6_def dest: cutByte_set split: if_splits option.splits prod.splits)

lemma parseAddr_zone: "parseAddr s = Some (V6 gs z) \<Longrightarrow> set z \<subseteq> set s"
  unfolding parseAddr_def by (rule parseAddrAt_zone)

lemma addrString_chars:
  assumes "c \<in> set (addrString (unmap a))" "parseAddr s = Some a"
  shows "isHexC c \<or> c = CHR ''.'' \<or> c = CHR '':'' \<or> c = CHR ''%'' \<or> c \<in> set s"
proof -
  have hex: "isDigitC d \<Longrightarrow> isHexC d" for d by (simp add: isHexC_def)
  show ?thesis
  proof (cases "unmap a")
    case NoAddr
    then have "a = NoAddr" by (cases a) (auto simp: unmap_def split: if_splits)
    then show ?thesis using parseAddr_wf [OF assms(2)] by (simp add: addr_wf_def)
  next
    case (V4 os)
    then show ?thesis using assms(1) hex v4String_chars [of c os] by (auto simp: addrString_def)
  next
    case (V6 gs z)
    then have "a = V6 gs z" "\<not> mappedGroups gs"
      using not_mapped_unmap [OF V6] by (cases a; auto simp: unmap_def split: if_splits)+
    then show ?thesis using assms parseAddr_zone [of s gs z] v6String_chars [of c gs] V6
      by (auto simp: addrString_def zonePart_def split: if_splits)
  qed
qed

lemma addrString_not_Nil: "addr_wf a \<Longrightarrow> addrString a \<noteq> []"
proof (cases a)
  case (V4 os)
  assume "addr_wf a"
  with V4 show ?thesis using dot_in_v4String [of os] by (auto simp: addr_wf_def addrString_def)
next
  case (V6 gs z)
  assume "addr_wf a"
  with V6 show ?thesis using colon_in_v6String [of gs] by (auto simp: addr_wf_def addrString_def)
qed (simp add: addr_wf_def)

lemma no_colon_V4:
  "parseAddrAt s t = Some a \<Longrightarrow> CHR '':'' \<notin> set t \<Longrightarrow> \<exists>os. a = V4 os \<and> parseV4 s = Some os"
  by (induction t) (auto split: if_splits)

lemma parseAddr_no_colon:
  "parseAddr s = Some a \<Longrightarrow> CHR '':'' \<notin> set s \<Longrightarrow> \<exists>os. a = V4 os \<and> addrString (unmap a) = s"
  unfolding parseAddr_def
  by (auto dest!: no_colon_V4 simp: unmap_def addrString_def v4String_parseV4)

end
