(* ===== verification/GoURL.thy ===== *)
theory GoURL
  imports GoNet
begin

text \<open>
  What the program uses of Go's \<open>net/url\<close> (the parser as of the Go release of the repository's
  \<open>go.mod\<close>, 1.23): the scheme, whether there is user information, the host and port, the escaped
  path, the query and the fragment of a parsed URL, and the printing of a scheme and a host.
  Standard library, no entry in the map.
\<close>

datatype urlMode = EncodePath | EncodeHost | EncodeZone | EncodeFragment

definition isAlnumC :: "char \<Rightarrow> bool" where
  "isAlnumC c \<longleftrightarrow> isLowerC c \<or> isUpperC c \<or> isDigitC c"

definition shouldEscape :: "char \<Rightarrow> urlMode \<Rightarrow> bool" where
  "shouldEscape c mode =
     (if isAlnumC c then False
      else if (mode = EncodeHost \<or> mode = EncodeZone) \<and>
        c \<in> set (CHR 0x27 # ''!$&()*+,;=:[]<>'' @ [CHR 0x22]) then False
      else if c \<in> set ''-_.~'' then False
      else if c \<in> set ''$&+,/:;=?@'' \<and> mode = EncodePath then c = CHR ''?''
      else if c \<in> set ''$&+,/:;=?@'' \<and> mode = EncodeFragment then False
      else if mode = EncodeFragment \<and> c \<in> set ''!()*'' then False
      else True)"

text \<open>\<open>unescape\<close>: \<open>None\<close> is an escape error.\<close>

fun urlUnescape :: "urlMode \<Rightarrow> string \<Rightarrow> string option" where
  "urlUnescape mode [] = Some []"
| "urlUnescape mode (c # s) =
     (if c = CHR ''%'' then
        (case s of
           a # b # s' \<Rightarrow>
             (if \<not> isHexC a \<or> \<not> isHexC b then None
              else let v = char_of (hexDigitVal a * 16 + hexDigitVal b) in
                if mode = EncodeHost \<and> hexDigitVal a < 8 \<and> (a \<noteq> CHR ''2'' \<or> b \<noteq> CHR ''5'') then None
                else if mode = EncodeZone \<and> (a \<noteq> CHR ''2'' \<or> b \<noteq> CHR ''5'') \<and> v \<noteq> CHR '' '' \<and> shouldEscape v EncodeHost
                then None else map_option ((#) v) (urlUnescape mode s'))
         | _ \<Rightarrow> None)
      else if (mode = EncodeHost \<or> mode = EncodeZone) \<and> byteOf c < 128 \<and> shouldEscape c mode then None
      else map_option ((#) c) (urlUnescape mode s))"

definition upperHexDigit :: "nat \<Rightarrow> char" where
  "upperHexDigit n = char_of (if n < 10 then 48 + n else 55 + n)"

definition urlEscape :: "urlMode \<Rightarrow> string \<Rightarrow> string" where
  "urlEscape mode s = concat (map (\<lambda>c. if shouldEscape c mode
     then [CHR ''%'', upperHexDigit (byteOf c div 16), upperHexDigit (byteOf c mod 16)] else [c]) s)"

definition validEncodedPath :: "string \<Rightarrow> bool" where
  "validEncodedPath s = list_all (\<lambda>c. c \<in> set (CHR 0x27 # ''!$&()*+,;=:@[]%'') \<or> \<not> shouldEscape c EncodePath) s"

definition validOptionalPort :: "string \<Rightarrow> bool" where
  "validOptionalPort p = (case p of [] \<Rightarrow> True | c # ds \<Rightarrow> c = CHR '':'' \<and> list_all isDigitC ds)"

fun indexStr :: "string \<Rightarrow> string \<Rightarrow> nat option" where
  "indexStr p [] = (if p = [] then Some 0 else None)"
| "indexStr p (c # s) = (if hasPrefix p (c # s) then Some 0 else map_option Suc (indexStr p s))"

definition urlParseHost :: "string \<Rightarrow> string option" where
  "urlParseHost host =
     (if hasPrefix ''['' host then
        (case lastIndexByte CHR '']'' host of
           None \<Rightarrow> None
         | Some i \<Rightarrow>
             if \<not> validOptionalPort (drop (i + 1) host) then None
             else (case indexStr ''%25'' (take i host) of
                 Some z \<Rightarrow>
                   (case (urlUnescape EncodeHost (take z host), urlUnescape EncodeZone (drop z (take i host)),
                          urlUnescape EncodeHost (drop i host)) of
                      (Some h1, Some h2, Some h3) \<Rightarrow> Some (h1 @ h2 @ h3)
                    | _ \<Rightarrow> None)
               | None \<Rightarrow> urlUnescape EncodeHost host))
      else (case lastIndexByte CHR '':'' host of
          Some i \<Rightarrow> if validOptionalPort (drop i host) then urlUnescape EncodeHost host else None
        | None \<Rightarrow> urlUnescape EncodeHost host))"

text \<open>\<open>getScheme\<close>: \<open>None\<close> is an error, an empty scheme means there is none.\<close>

fun urlScheme :: "string \<Rightarrow> string \<Rightarrow> string \<Rightarrow> (string \<times> string) option" where
  "urlScheme raw pre [] = Some ([], raw)"
| "urlScheme raw pre (c # s) =
     (if isLowerC c \<or> isUpperC c then urlScheme raw (pre @ [c]) s
      else if isDigitC c \<or> c \<in> set ''+-.'' then
        (if pre = [] then Some ([], raw) else urlScheme raw (pre @ [c]) s)
      else if c = CHR '':'' then (if pre = [] then None else Some (pre, s))
      else Some ([], raw))"

record url =
  urlSchemeOf :: string
  urlHasUser :: bool
  urlHost :: string
  urlEscapedPath :: string
  urlRawQuery :: string
  urlFragment :: string

definition urlSetPath :: "string \<Rightarrow> string option" where
  "urlSetPath p = map_option (\<lambda>path. if validEncodedPath p then p else urlEscape EncodePath path)
     (urlUnescape EncodePath p)"

definition validUserinfo :: "string \<Rightarrow> bool" where
  "validUserinfo s = list_all (\<lambda>c. isAlnumC c \<or> c \<in> set (CHR 0x27 # ''-._:~!$&()*+,;=%@'')) s"

text \<open>The part of \<open>url.Parse\<close> after the fragment has been cut off.\<close>

definition urlParseNoFragment :: "string \<Rightarrow> url option" where
  "urlParseNoFragment raw =
     (if list_ex isControlC raw then None
      else if raw = ''*'' then Some \<lparr>urlSchemeOf = [], urlHasUser = False, urlHost = [],
        urlEscapedPath = ''*'', urlRawQuery = [], urlFragment = []\<rparr>
      else case urlScheme raw [] raw of None \<Rightarrow> None
      | Some (scheme0, rest0) \<Rightarrow>
        let scheme = toLower scheme0; (rest, q) = cutByte CHR ''?'' rest0;
          query = (case q of None \<Rightarrow> [] | Some q' \<Rightarrow> q')
        in if \<not> hasPrefix ''/'' rest \<and> scheme \<noteq> [] then
             Some \<lparr>urlSchemeOf = scheme, urlHasUser = False, urlHost = [], urlEscapedPath = [],
               urlRawQuery = query, urlFragment = []\<rparr>
           else if \<not> hasPrefix ''/'' rest \<and> CHR '':'' \<in> set (fst (cutByte CHR ''/'' rest)) then None
           else if (scheme \<noteq> [] \<or> \<not> hasPrefix ''///'' rest) \<and> hasPrefix ''//'' rest then
             (let auth0 = drop 2 rest; authority = takeWhile (\<lambda>c. c \<noteq> CHR ''/'') auth0;
                path = dropWhile (\<lambda>c. c \<noteq> CHR ''/'') auth0;
                at = lastIndexByte CHR ''@'' authority;
                hostText = (case at of None \<Rightarrow> authority | Some i \<Rightarrow> drop (i + 1) authority)
              in case urlParseHost hostText of None \<Rightarrow> None
                | Some h \<Rightarrow>
                  if (case at of None \<Rightarrow> False | Some i \<Rightarrow> \<not> validUserinfo (take i authority)
                        \<or> urlUnescape EncodePath (take i authority) = None) then None
                  else map_option (\<lambda>p. \<lparr>urlSchemeOf = scheme, urlHasUser = (at \<noteq> None), urlHost = h,
                      urlEscapedPath = p, urlRawQuery = query, urlFragment = []\<rparr>) (urlSetPath path))
           else map_option (\<lambda>p. \<lparr>urlSchemeOf = scheme, urlHasUser = False, urlHost = [],
               urlEscapedPath = p, urlRawQuery = query, urlFragment = []\<rparr>) (urlSetPath rest))"

definition urlParse :: "string \<Rightarrow> url option" where
  "urlParse raw = (let (u, f) = cutByte CHR ''#'' raw in
     case urlParseNoFragment u of None \<Rightarrow> None
     | Some r \<Rightarrow> (case f of None \<Rightarrow> Some r
         | Some frag \<Rightarrow> if frag = [] then Some r
             else map_option (\<lambda>f'. r\<lparr>urlFragment := f'\<rparr>) (urlUnescape EncodeFragment frag)))"

text \<open>\<open>URL.Hostname\<close> and \<open>URL.Port\<close>.\<close>

definition urlSplitHost :: "string \<Rightarrow> string \<times> string" where
  "urlSplitHost hp =
     (let (host, port) = (case lastIndexByte CHR '':'' hp of
          None \<Rightarrow> (hp, [])
        | Some i \<Rightarrow> if validOptionalPort (drop i hp) then (take i hp, drop (i + 1) hp) else (hp, []));
        host' = (if hasPrefix ''['' host \<and> hasSuffix '']'' host then take (length host - 2) (drop 1 host) else host)
      in (host', port))"

definition urlHostname :: "url \<Rightarrow> string" where
  "urlHostname u = fst (urlSplitHost (urlHost u))"

definition urlPort :: "url \<Rightarrow> string" where
  "urlPort u = snd (urlSplitHost (urlHost u))"

text \<open>\<open>(&url.URL{Scheme: s, Host: h}).String()\<close> with both non-empty.\<close>

definition urlString :: "string \<Rightarrow> string \<Rightarrow> string" where
  "urlString scheme host = scheme @ ''://'' @ urlEscape EncodeHost host"

end
