(* ===== verification/ModelConstants.thy ===== *)
theory ModelConstants
  imports Prelude
begin

text \<open>
  The enumerations of \<open>internal/model\<close>: Go declares each as a named string type with a list of
  constants, and code from outside may put any other string there, so each type is a synonym of
  \<open>string\<close> and each constant a definition of its literal, collected in \<open>go_consts\<close>.
\<close>

section \<open>internal/model/target.go\<close>

type_synonym ApplicationProtocol = string
type_synonym TransportProtocol = string
type_synonym ProbeIntent = string
type_synonym ServiceProfileID = string
type_synonym EndpointFamily = string
type_synonym EndpointSelectionReason = string

definition ApplicationProtocolNone :: ApplicationProtocol where [go_consts]: "ApplicationProtocolNone = ''''"
definition ApplicationProtocolHTTP :: ApplicationProtocol where [go_consts]: "ApplicationProtocolHTTP = ''http''"
definition ApplicationProtocolHTTPS :: ApplicationProtocol where [go_consts]: "ApplicationProtocolHTTPS = ''https''"
definition ApplicationProtocolSMB :: ApplicationProtocol where [go_consts]: "ApplicationProtocolSMB = ''smb''"
definition ApplicationProtocolRDP :: ApplicationProtocol where [go_consts]: "ApplicationProtocolRDP = ''rdp''"
definition ApplicationProtocolSSH :: ApplicationProtocol where [go_consts]: "ApplicationProtocolSSH = ''ssh''"
definition ApplicationProtocolDNS :: ApplicationProtocol where [go_consts]: "ApplicationProtocolDNS = ''dns''"
definition ApplicationProtocolCustom :: ApplicationProtocol where [go_consts]: "ApplicationProtocolCustom = ''custom''"
definition ApplicationProtocolTLS :: ApplicationProtocol where [go_consts]: "ApplicationProtocolTLS = ''custom_tls''"
definition TransportTCP :: TransportProtocol where [go_consts]: "TransportTCP = ''tcp''"
definition TransportUDP :: TransportProtocol where [go_consts]: "TransportUDP = ''udp''"
definition TransportUDPAndTCP :: TransportProtocol where [go_consts]: "TransportUDPAndTCP = ''udp+tcp''"
definition ProbeIntentHTTP :: ProbeIntent where [go_consts]: "ProbeIntentHTTP = ''http_request''"
definition ProbeIntentTLS :: ProbeIntent where [go_consts]: "ProbeIntentTLS = ''tls_handshake''"
definition ProbeIntentSMB :: ProbeIntent where [go_consts]: "ProbeIntentSMB = ''smb_session''"
definition ProbeIntentRDP :: ProbeIntent where [go_consts]: "ProbeIntentRDP = ''rdp_session''"
definition ProbeIntentSSH :: ProbeIntent where [go_consts]: "ProbeIntentSSH = ''ssh_session''"
definition ProbeIntentDNS :: ProbeIntent where [go_consts]: "ProbeIntentDNS = ''dns_query''"
definition ProbeIntentTCPConnection :: ProbeIntent where [go_consts]: "ProbeIntentTCPConnection = ''tcp_connection''"
definition ServiceProfileHTTP :: ServiceProfileID where [go_consts]: "ServiceProfileHTTP = ''http''"
definition ServiceProfileHTTPS :: ServiceProfileID where [go_consts]: "ServiceProfileHTTPS = ''https''"
definition ServiceProfileSMB :: ServiceProfileID where [go_consts]: "ServiceProfileSMB = ''smb''"
definition ServiceProfileRDP :: ServiceProfileID where [go_consts]: "ServiceProfileRDP = ''rdp''"
definition ServiceProfileSSH :: ServiceProfileID where [go_consts]: "ServiceProfileSSH = ''ssh''"
definition ServiceProfileDNS :: ServiceProfileID where [go_consts]: "ServiceProfileDNS = ''dns''"
definition ServiceProfileCustomTCP :: ServiceProfileID where [go_consts]: "ServiceProfileCustomTCP = ''custom_tcp''"
definition ServiceProfileCustomTLS :: ServiceProfileID where [go_consts]: "ServiceProfileCustomTLS = ''custom_tls''"
definition EndpointFamilyIPv4 :: EndpointFamily where [go_consts]: "EndpointFamilyIPv4 = ''A''"
definition EndpointFamilyIPv6 :: EndpointFamily where [go_consts]: "EndpointFamilyIPv6 = ''AAAA''"
definition EndpointSelectionLiteral :: EndpointSelectionReason where [go_consts]: "EndpointSelectionLiteral = ''literal_ip''"
definition EndpointSelectionDeterministic :: EndpointSelectionReason where [go_consts]: "EndpointSelectionDeterministic = ''deterministic_order''"
definition EndpointSelectionBoundedFallback :: EndpointSelectionReason where [go_consts]: "EndpointSelectionBoundedFallback = ''bounded_fallback''"
definition EndpointSelectionTransport :: EndpointSelectionReason where [go_consts]: "EndpointSelectionTransport = ''transport_observed''"
definition MaxEndpointCandidates :: int where [go_consts]: "MaxEndpointCandidates = 4"

section \<open>internal/model/contracts.go\<close>

type_synonym ProbeStatus = string
type_synonym ReportStatus = string
type_synonym FailureReason = string
type_synonym FaultDomain = string
type_synonym Layer = string
type_synonym EvidenceKind = string

definition DiagnosticSchemaVersion :: string where [go_consts]: "DiagnosticSchemaVersion = ''4''"
definition ProbeStatusUnknown :: ProbeStatus where [go_consts]: "ProbeStatusUnknown = ''unknown''"
definition ProbeStatusPassed :: ProbeStatus where [go_consts]: "ProbeStatusPassed = ''passed''"
definition ProbeStatusFailed :: ProbeStatus where [go_consts]: "ProbeStatusFailed = ''failed''"
definition ProbeStatusSkipped :: ProbeStatus where [go_consts]: "ProbeStatusSkipped = ''skipped''"
definition ProbeStatusError :: ProbeStatus where [go_consts]: "ProbeStatusError = ''error''"
definition ReportStatusUnknown :: ReportStatus where [go_consts]: "ReportStatusUnknown = ''unknown''"
definition ReportStatusComplete :: ReportStatus where [go_consts]: "ReportStatusComplete = ''complete''"
definition ReportStatusIncomplete :: ReportStatus where [go_consts]: "ReportStatusIncomplete = ''incomplete''"
definition ReportStatusError :: ReportStatus where [go_consts]: "ReportStatusError = ''error''"
definition FailureReasonNone :: FailureReason where [go_consts]: "FailureReasonNone = ''none''"
definition FailureReasonUnknown :: FailureReason where [go_consts]: "FailureReasonUnknown = ''unknown''"
definition FailureReasonProbeExecution :: FailureReason where [go_consts]: "FailureReasonProbeExecution = ''probe_execution_failure''"
definition FailureReasonUnsupported :: FailureReason where [go_consts]: "FailureReasonUnsupported = ''unsupported''"
definition FailureReasonInterfaceDown :: FailureReason where [go_consts]: "FailureReasonInterfaceDown = ''interface_down''"
definition FailureReasonNoIPAddress :: FailureReason where [go_consts]: "FailureReasonNoIPAddress = ''no_ip_address''"
definition FailureReasonNoRoute :: FailureReason where [go_consts]: "FailureReasonNoRoute = ''no_route''"
definition FailureReasonInvalidRoute :: FailureReason where [go_consts]: "FailureReasonInvalidRoute = ''invalid_route''"
definition FailureReasonGatewayUnreachable :: FailureReason where [go_consts]: "FailureReasonGatewayUnreachable = ''gateway_unreachable''"
definition FailureReasonNetworkUnreachable :: FailureReason where [go_consts]: "FailureReasonNetworkUnreachable = ''network_unreachable''"
definition FailureReasonDNSNXDomain :: FailureReason where [go_consts]: "FailureReasonDNSNXDomain = ''dns_nxdomain''"
definition FailureReasonDNSNoAnswer :: FailureReason where [go_consts]: "FailureReasonDNSNoAnswer = ''dns_no_answer''"
definition FailureReasonDNSTimeout :: FailureReason where [go_consts]: "FailureReasonDNSTimeout = ''dns_timeout''"
definition FailureReasonDNSResolverFailure :: FailureReason where [go_consts]: "FailureReasonDNSResolverFailure = ''dns_resolver_failure''"
definition FailureReasonFirewallBlocked :: FailureReason where [go_consts]: "FailureReasonFirewallBlocked = ''firewall_blocked''"
definition FailureReasonProxyConfigurationFailure :: FailureReason where [go_consts]: "FailureReasonProxyConfigurationFailure = ''proxy_configuration_failure''"
definition FailureReasonProxyConfigurationDivergence :: FailureReason where [go_consts]: "FailureReasonProxyConfigurationDivergence = ''proxy_configuration_divergence''"
definition FailureReasonProxyUnavailable :: FailureReason where [go_consts]: "FailureReasonProxyUnavailable = ''proxy_unavailable''"
definition FailureReasonProxyConnectDenied :: FailureReason where [go_consts]: "FailureReasonProxyConnectDenied = ''proxy_connect_denied''"
definition FailureReasonProxyAuthenticationRequired :: FailureReason where [go_consts]: "FailureReasonProxyAuthenticationRequired = ''proxy_authentication_required''"
definition FailureReasonDirectEgressRestricted :: FailureReason where [go_consts]: "FailureReasonDirectEgressRestricted = ''direct_egress_restricted''"
definition FailureReasonEffectiveRouteDifference :: FailureReason where [go_consts]: "FailureReasonEffectiveRouteDifference = ''effective_route_difference''"
definition FailureReasonTCPTimeout :: FailureReason where [go_consts]: "FailureReasonTCPTimeout = ''tcp_timeout''"
definition FailureReasonTCPConnectionRefused :: FailureReason where [go_consts]: "FailureReasonTCPConnectionRefused = ''tcp_connection_refused''"
definition FailureReasonTCPConnectionReset :: FailureReason where [go_consts]: "FailureReasonTCPConnectionReset = ''tcp_connection_reset''"
definition FailureReasonTCPSYNNotObserved :: FailureReason where [go_consts]: "FailureReasonTCPSYNNotObserved = ''tcp_syn_not_observed''"
definition FailureReasonTLSHandshakeFailure :: FailureReason where [go_consts]: "FailureReasonTLSHandshakeFailure = ''tls_handshake_failure''"
definition FailureReasonCertificateValidationFailure :: FailureReason where [go_consts]: "FailureReasonCertificateValidationFailure = ''certificate_validation_failure''"
definition FailureReasonTLSTrustStoreMismatch :: FailureReason where [go_consts]: "FailureReasonTLSTrustStoreMismatch = ''tls_trust_store_mismatch''"
definition FailureReasonTLSInterceptionSuspected :: FailureReason where [go_consts]: "FailureReasonTLSInterceptionSuspected = ''tls_interception_suspected''"
definition FailureReasonHTTPFailure :: FailureReason where [go_consts]: "FailureReasonHTTPFailure = ''http_failure''"
definition FailureReasonHTTPStatusCode :: FailureReason where [go_consts]: "FailureReasonHTTPStatusCode = ''http_status_code''"
definition FailureReasonSSHHandshakeFailure :: FailureReason where [go_consts]: "FailureReasonSSHHandshakeFailure = ''ssh_handshake_failure''"
definition FailureReasonSSHTimeout :: FailureReason where [go_consts]: "FailureReasonSSHTimeout = ''ssh_timeout''"
definition FailureReasonSSHBannerMalformed :: FailureReason where [go_consts]: "FailureReasonSSHBannerMalformed = ''ssh_banner_malformed''"
definition FailureReasonSSHNonSSHResponse :: FailureReason where [go_consts]: "FailureReasonSSHNonSSHResponse = ''ssh_non_ssh_response''"
definition FailureReasonRDPNegotiationFailure :: FailureReason where [go_consts]: "FailureReasonRDPNegotiationFailure = ''rdp_negotiation_failure''"
definition FailureReasonRDPTimeout :: FailureReason where [go_consts]: "FailureReasonRDPTimeout = ''rdp_timeout''"
definition FailureReasonRDPNegotiationMalformed :: FailureReason where [go_consts]: "FailureReasonRDPNegotiationMalformed = ''rdp_negotiation_malformed''"
definition FailureReasonRDPNegotiationRejected :: FailureReason where [go_consts]: "FailureReasonRDPNegotiationRejected = ''rdp_negotiation_rejected''"
definition FailureReasonICMPFailure :: FailureReason where [go_consts]: "FailureReasonICMPFailure = ''icmp_failure''"
definition FailureReasonPathObservation :: FailureReason where [go_consts]: "FailureReasonPathObservation = ''path_observation_failure''"
definition FailureReasonPathCancellation :: FailureReason where [go_consts]: "FailureReasonPathCancellation = ''path_cancellation''"
definition FaultDomainUnknown :: FaultDomain where [go_consts]: "FaultDomainUnknown = ''unknown''"
definition FaultDomainLocal :: FaultDomain where [go_consts]: "FaultDomainLocal = ''local''"
definition FaultDomainRouting :: FaultDomain where [go_consts]: "FaultDomainRouting = ''routing''"
definition FaultDomainGateway :: FaultDomain where [go_consts]: "FaultDomainGateway = ''gateway''"
definition FaultDomainDNS :: FaultDomain where [go_consts]: "FaultDomainDNS = ''dns''"
definition FaultDomainNetwork :: FaultDomain where [go_consts]: "FaultDomainNetwork = ''network''"
definition FaultDomainFirewall :: FaultDomain where [go_consts]: "FaultDomainFirewall = ''firewall''"
definition FaultDomainProxy :: FaultDomain where [go_consts]: "FaultDomainProxy = ''proxy''"
definition FaultDomainTransport :: FaultDomain where [go_consts]: "FaultDomainTransport = ''transport''"
definition FaultDomainTLS :: FaultDomain where [go_consts]: "FaultDomainTLS = ''tls''"
definition FaultDomainHTTP :: FaultDomain where [go_consts]: "FaultDomainHTTP = ''http''"
definition FaultDomainSSH :: FaultDomain where [go_consts]: "FaultDomainSSH = ''ssh''"
definition FaultDomainRDP :: FaultDomain where [go_consts]: "FaultDomainRDP = ''rdp''"
definition FaultDomainDestination :: FaultDomain where [go_consts]: "FaultDomainDestination = ''destination''"
definition FaultDomainICMP :: FaultDomain where [go_consts]: "FaultDomainICMP = ''icmp''"
definition FaultDomainPolicy :: FaultDomain where [go_consts]: "FaultDomainPolicy = ''policy''"
definition LayerUnknown :: Layer where [go_consts]: "LayerUnknown = ''unknown''"
definition LayerInterface :: Layer where [go_consts]: "LayerInterface = ''interface''"
definition LayerIPConfiguration :: Layer where [go_consts]: "LayerIPConfiguration = ''ip_configuration''"
definition LayerRoute :: Layer where [go_consts]: "LayerRoute = ''route''"
definition LayerGateway :: Layer where [go_consts]: "LayerGateway = ''gateway''"
definition LayerDNS :: Layer where [go_consts]: "LayerDNS = ''dns''"
definition LayerNetwork :: Layer where [go_consts]: "LayerNetwork = ''network''"
definition LayerProxy :: Layer where [go_consts]: "LayerProxy = ''proxy''"
definition LayerTCP :: Layer where [go_consts]: "LayerTCP = ''tcp''"
definition LayerTLS :: Layer where [go_consts]: "LayerTLS = ''tls''"
definition LayerHTTP :: Layer where [go_consts]: "LayerHTTP = ''http''"
definition LayerSSH :: Layer where [go_consts]: "LayerSSH = ''ssh''"
definition LayerRDP :: Layer where [go_consts]: "LayerRDP = ''rdp''"
definition LayerICMP :: Layer where [go_consts]: "LayerICMP = ''icmp''"
definition LayerDestination :: Layer where [go_consts]: "LayerDestination = ''destination''"
definition EvidenceKindUnknown :: EvidenceKind where [go_consts]: "EvidenceKindUnknown = ''unknown''"
definition EvidenceKindInterfaceState :: EvidenceKind where [go_consts]: "EvidenceKindInterfaceState = ''interface_state''"
definition EvidenceKindIPConfiguration :: EvidenceKind where [go_consts]: "EvidenceKindIPConfiguration = ''ip_configuration''"
definition EvidenceKindRoute :: EvidenceKind where [go_consts]: "EvidenceKindRoute = ''route''"
definition EvidenceKindGatewayReachability :: EvidenceKind where [go_consts]: "EvidenceKindGatewayReachability = ''gateway_reachability''"
definition EvidenceKindDNSConfiguration :: EvidenceKind where [go_consts]: "EvidenceKindDNSConfiguration = ''dns_configuration''"
definition EvidenceKindDNSResolution :: EvidenceKind where [go_consts]: "EvidenceKindDNSResolution = ''dns_resolution''"
definition EvidenceKindDNSService :: EvidenceKind where [go_consts]: "EvidenceKindDNSService = ''dns_service''"
definition EvidenceKindTCPConnection :: EvidenceKind where [go_consts]: "EvidenceKindTCPConnection = ''tcp_connection''"
definition EvidenceKindTLSHandshake :: EvidenceKind where [go_consts]: "EvidenceKindTLSHandshake = ''tls_handshake''"
definition EvidenceKindCertificate :: EvidenceKind where [go_consts]: "EvidenceKindCertificate = ''certificate''"
definition EvidenceKindHTTPResponse :: EvidenceKind where [go_consts]: "EvidenceKindHTTPResponse = ''http_response''"
definition EvidenceKindSSHHandshake :: EvidenceKind where [go_consts]: "EvidenceKindSSHHandshake = ''ssh_handshake''"
definition EvidenceKindRDPNegotiation :: EvidenceKind where [go_consts]: "EvidenceKindRDPNegotiation = ''rdp_negotiation''"
definition EvidenceKindPathObservation :: EvidenceKind where [go_consts]: "EvidenceKindPathObservation = ''path_observation''"
definition EvidenceKindProxyConfiguration :: EvidenceKind where [go_consts]: "EvidenceKindProxyConfiguration = ''proxy_configuration''"
definition EvidenceKindWinHTTPProxy :: EvidenceKind where [go_consts]: "EvidenceKindWinHTTPProxy = ''winhttp_proxy''"
definition EvidenceKindWinINETProxy :: EvidenceKind where [go_consts]: "EvidenceKindWinINETProxy = ''wininet_proxy''"
definition EvidenceKindPAC :: EvidenceKind where [go_consts]: "EvidenceKindPAC = ''pac''"
definition EvidenceKindProxyConnectivity :: EvidenceKind where [go_consts]: "EvidenceKindProxyConnectivity = ''proxy_connectivity''"
definition EvidenceKindTLSTrust :: EvidenceKind where [go_consts]: "EvidenceKindTLSTrust = ''tls_trust''"
definition EvidenceKindFirewallProfile :: EvidenceKind where [go_consts]: "EvidenceKindFirewallProfile = ''firewall_profile''"
definition EvidenceKindAdapterRouting :: EvidenceKind where [go_consts]: "EvidenceKindAdapterRouting = ''adapter_routing''"
definition EvidenceKindRouteComparison :: EvidenceKind where [go_consts]: "EvidenceKindRouteComparison = ''route_comparison''"
definition EvidenceKindICMP :: EvidenceKind where [go_consts]: "EvidenceKindICMP = ''icmp''"
definition EvidenceKindPacketFlow :: EvidenceKind where [go_consts]: "EvidenceKindPacketFlow = ''packet_flow''"

section \<open>internal/model/observations.go\<close>

type_synonym ObservationCertainty = string

definition ObservationCertaintyObserved :: ObservationCertainty where [go_consts]: "ObservationCertaintyObserved = ''observed''"
definition ObservationCertaintyConfigured :: ObservationCertainty where [go_consts]: "ObservationCertaintyConfigured = ''configured''"
definition ObservationCertaintyDerived :: ObservationCertainty where [go_consts]: "ObservationCertaintyDerived = ''derived''"
definition ObservationCertaintyInferred :: ObservationCertainty where [go_consts]: "ObservationCertaintyInferred = ''inferred''"
definition ObservationCertaintyUnknown :: ObservationCertainty where [go_consts]: "ObservationCertaintyUnknown = ''unknown''"
definition ObservationCertaintyUnsupported :: ObservationCertainty where [go_consts]: "ObservationCertaintyUnsupported = ''unsupported''"
definition ObservationCertaintyConflicting :: ObservationCertainty where [go_consts]: "ObservationCertaintyConflicting = ''conflicting''"

section \<open>internal/model/name_resolution.go\<close>

type_synonym NameResolutionPathState = string
type_synonym NameResolutionMechanism = string
type_synonym NameResolutionCertainty = string

definition NameResolutionPathConfiguredCandidate :: NameResolutionPathState where [go_consts]: "NameResolutionPathConfiguredCandidate = ''configured_candidate''"
definition NameResolutionPathPolicyCandidate :: NameResolutionPathState where [go_consts]: "NameResolutionPathPolicyCandidate = ''policy_candidate''"
definition NameResolutionPathEffective :: NameResolutionPathState where [go_consts]: "NameResolutionPathEffective = ''effective''"
definition NameResolutionMechanismDNS :: NameResolutionMechanism where [go_consts]: "NameResolutionMechanismDNS = ''dns''"
definition NameResolutionMechanismHostsFile :: NameResolutionMechanism where [go_consts]: "NameResolutionMechanismHostsFile = ''hosts_file''"
definition NameResolutionMechanismLiteralIP :: NameResolutionMechanism where [go_consts]: "NameResolutionMechanismLiteralIP = ''literal_ip''"
definition NameResolutionMechanismUnknown :: NameResolutionMechanism where [go_consts]: "NameResolutionMechanismUnknown = ''unknown''"
definition NameResolutionCertaintyConfigured :: NameResolutionCertainty where [go_consts]: "NameResolutionCertaintyConfigured = ''configured''"
definition NameResolutionCertaintyObserved :: NameResolutionCertainty where [go_consts]: "NameResolutionCertaintyObserved = ''observed''"
definition NameResolutionCertaintyInferred :: NameResolutionCertainty where [go_consts]: "NameResolutionCertaintyInferred = ''inferred''"
definition NameResolutionCertaintyUnknown :: NameResolutionCertainty where [go_consts]: "NameResolutionCertaintyUnknown = ''unknown''"

section \<open>internal/model/network.go\<close>

type_synonym NetworkScope = string
type_synonym RouteDisposition = string
type_synonym NeighborObservation = string

definition NetworkScopeLoopback :: NetworkScope where [go_consts]: "NetworkScopeLoopback = ''loopback''"
definition NetworkScopeLinkLocal :: NetworkScope where [go_consts]: "NetworkScopeLinkLocal = ''link_local''"
definition NetworkScopeSameLink :: NetworkScope where [go_consts]: "NetworkScopeSameLink = ''same_link''"
definition NetworkScopePrivateRouted :: NetworkScope where [go_consts]: "NetworkScopePrivateRouted = ''private_routed''"
definition NetworkScopeVPNTunnelRouted :: NetworkScope where [go_consts]: "NetworkScopeVPNTunnelRouted = ''vpn_tunnel_routed''"
definition NetworkScopeExternalRouted :: NetworkScope where [go_consts]: "NetworkScopeExternalRouted = ''external_routed''"
definition NetworkScopeUnknown :: NetworkScope where [go_consts]: "NetworkScopeUnknown = ''unknown''"
definition NetworkScopeVPNRouted :: NetworkScope where [go_consts]: "NetworkScopeVPNRouted = NetworkScopeVPNTunnelRouted"
definition RouteDispositionOnLink :: RouteDisposition where [go_consts]: "RouteDispositionOnLink = ''on_link''"
definition RouteDispositionRouted :: RouteDisposition where [go_consts]: "RouteDispositionRouted = ''routed''"
definition RouteDispositionUnknown :: RouteDisposition where [go_consts]: "RouteDispositionUnknown = ''unknown''"
definition NeighborObservationNotApplicable :: NeighborObservation where [go_consts]: "NeighborObservationNotApplicable = ''not_applicable''"
definition NeighborObservationObserved :: NeighborObservation where [go_consts]: "NeighborObservationObserved = ''observed''"
definition NeighborObservationNotObserved :: NeighborObservation where [go_consts]: "NeighborObservationNotObserved = ''not_observed''"
definition NeighborObservationUnsupported :: NeighborObservation where [go_consts]: "NeighborObservationUnsupported = ''unsupported''"
definition NeighborObservationError :: NeighborObservation where [go_consts]: "NeighborObservationError = ''error''"
definition NeighborObservationUnknown :: NeighborObservation where [go_consts]: "NeighborObservationUnknown = ''unknown''"

section \<open>internal/model/transport_observations.go\<close>

type_synonym ObservationApplicability = string
type_synonym TransportConnectionOutcome = string
type_synonym CertificateValidationState = string
type_synonym TLSInspectionState = string
type_synonym ApplicationResult = string
type_synonym ApplicationProtocolResult = string
type_synonym DNSApplicationResult = string
type_synonym HTTPResult = ApplicationResult

definition ObservationApplicabilityUnknown :: ObservationApplicability where [go_consts]: "ObservationApplicabilityUnknown = ''unknown''"
definition ObservationApplicabilityApplicable :: ObservationApplicability where [go_consts]: "ObservationApplicabilityApplicable = ''applicable''"
definition ObservationApplicabilityInapplicable :: ObservationApplicability where [go_consts]: "ObservationApplicabilityInapplicable = ''inapplicable''"
definition ObservationApplicabilityNotAttempted :: ObservationApplicability where [go_consts]: "ObservationApplicabilityNotAttempted = ''not_attempted''"
definition ObservationApplicabilityUnsupported :: ObservationApplicability where [go_consts]: "ObservationApplicabilityUnsupported = ''unsupported''"
definition TransportConnectionOutcomeUnknown :: TransportConnectionOutcome where [go_consts]: "TransportConnectionOutcomeUnknown = ''unknown''"
definition TransportConnectionOutcomeNotAttempted :: TransportConnectionOutcome where [go_consts]: "TransportConnectionOutcomeNotAttempted = ''not_attempted''"
definition TransportConnectionOutcomeConnected :: TransportConnectionOutcome where [go_consts]: "TransportConnectionOutcomeConnected = ''connected''"
definition TransportConnectionOutcomeRefused :: TransportConnectionOutcome where [go_consts]: "TransportConnectionOutcomeRefused = ''refused''"
definition TransportConnectionOutcomeReset :: TransportConnectionOutcome where [go_consts]: "TransportConnectionOutcomeReset = ''reset''"
definition TransportConnectionOutcomeTimeout :: TransportConnectionOutcome where [go_consts]: "TransportConnectionOutcomeTimeout = ''timeout''"
definition TransportConnectionOutcomeUnreachable :: TransportConnectionOutcome where [go_consts]: "TransportConnectionOutcomeUnreachable = ''unreachable''"
definition TransportConnectionOutcomeCanceled :: TransportConnectionOutcome where [go_consts]: "TransportConnectionOutcomeCanceled = ''canceled''"
definition TransportConnectionOutcomeFailed :: TransportConnectionOutcome where [go_consts]: "TransportConnectionOutcomeFailed = ''failed''"
definition TransportConnectionOutcomeUnsupported :: TransportConnectionOutcome where [go_consts]: "TransportConnectionOutcomeUnsupported = ''unsupported''"
definition CertificateValidationUnknown :: CertificateValidationState where [go_consts]: "CertificateValidationUnknown = ''unknown''"
definition CertificateValidationValid :: CertificateValidationState where [go_consts]: "CertificateValidationValid = ''valid''"
definition CertificateValidationInvalid :: CertificateValidationState where [go_consts]: "CertificateValidationInvalid = ''invalid''"
definition CertificateValidationExpired :: CertificateValidationState where [go_consts]: "CertificateValidationExpired = ''expired''"
definition CertificateValidationHostnameMismatch :: CertificateValidationState where [go_consts]: "CertificateValidationHostnameMismatch = ''hostname_mismatch''"
definition CertificateValidationUntrusted :: CertificateValidationState where [go_consts]: "CertificateValidationUntrusted = ''untrusted''"
definition CertificateValidationIncomplete :: CertificateValidationState where [go_consts]: "CertificateValidationIncomplete = ''incomplete''"
definition TLSInspectionNotObserved :: TLSInspectionState where [go_consts]: "TLSInspectionNotObserved = ''not_observed''"
definition TLSInspectionObserved :: TLSInspectionState where [go_consts]: "TLSInspectionObserved = ''observed''"
definition TLSInspectionSuspected :: TLSInspectionState where [go_consts]: "TLSInspectionSuspected = ''suspected''"
definition TLSInspectionUnknown :: TLSInspectionState where [go_consts]: "TLSInspectionUnknown = ''unknown''"
definition TLSInspectionConflicting :: TLSInspectionState where [go_consts]: "TLSInspectionConflicting = ''conflicting''"
definition TLSInspectionStateNotObserved :: TLSInspectionState where [go_consts]: "TLSInspectionStateNotObserved = TLSInspectionNotObserved"
definition TLSInspectionStateObserved :: TLSInspectionState where [go_consts]: "TLSInspectionStateObserved = TLSInspectionObserved"
definition TLSInspectionStateSuspected :: TLSInspectionState where [go_consts]: "TLSInspectionStateSuspected = TLSInspectionSuspected"
definition TLSInspectionStateUnknown :: TLSInspectionState where [go_consts]: "TLSInspectionStateUnknown = TLSInspectionUnknown"
definition TLSInspectionStateConflicting :: TLSInspectionState where [go_consts]: "TLSInspectionStateConflicting = TLSInspectionConflicting"
definition TLSInspectionSignalTrustedChainSubstitution :: string where [go_consts]: "TLSInspectionSignalTrustedChainSubstitution = ''trusted_hostname_valid_chain_substitution''"
definition TLSInspectionSignalTrustedIssuerChange :: string where [go_consts]: "TLSInspectionSignalTrustedIssuerChange = ''trusted_hostname_valid_issuer_change''"
definition TLSInspectionSignalCorporatePrivateIssuerWithProxy :: string where [go_consts]: "TLSInspectionSignalCorporatePrivateIssuerWithProxy = ''corporate_private_issuer_with_proxy_policy''"
definition TLSInspectionSignalExplicitEnterpriseEvidence :: string where [go_consts]: "TLSInspectionSignalExplicitEnterpriseEvidence = ''explicit_enterprise_interception_evidence''"
definition TLSInspectionSignalChainDifferenceInsufficient :: string where [go_consts]: "TLSInspectionSignalChainDifferenceInsufficient = ''chain_difference_insufficient_evidence''"
definition TLSInspectionSignalProxyWithoutComparison :: string where [go_consts]: "TLSInspectionSignalProxyWithoutComparison = ''proxy_observed_without_comparison''"
definition ApplicationProtocolResultUnknown :: ApplicationProtocolResult where [go_consts]: "ApplicationProtocolResultUnknown = ''unknown''"
definition ApplicationProtocolResultSuccess :: ApplicationProtocolResult where [go_consts]: "ApplicationProtocolResultSuccess = ''success''"
definition ApplicationProtocolResultFailure :: ApplicationProtocolResult where [go_consts]: "ApplicationProtocolResultFailure = ''failure''"
definition ApplicationProtocolResultRejected :: ApplicationProtocolResult where [go_consts]: "ApplicationProtocolResultRejected = ''rejected''"
definition ApplicationProtocolResultMalformed :: ApplicationProtocolResult where [go_consts]: "ApplicationProtocolResultMalformed = ''malformed''"
definition ApplicationProtocolResultTimeout :: ApplicationProtocolResult where [go_consts]: "ApplicationProtocolResultTimeout = ''timeout''"
definition ApplicationProtocolResultNotAttempted :: ApplicationProtocolResult where [go_consts]: "ApplicationProtocolResultNotAttempted = ''not_attempted''"
definition ApplicationProtocolResultUnsupported :: ApplicationProtocolResult where [go_consts]: "ApplicationProtocolResultUnsupported = ''unsupported''"
definition HTTPResultUnknown :: ApplicationResult where [go_consts]: "HTTPResultUnknown = ''unknown''"
definition HTTPResultSuccess :: ApplicationResult where [go_consts]: "HTTPResultSuccess = ''success''"
definition HTTPResultStatusFailure :: ApplicationResult where [go_consts]: "HTTPResultStatusFailure = ''status_failure''"
definition HTTPResultRequestFailure :: ApplicationResult where [go_consts]: "HTTPResultRequestFailure = ''request_failure''"
definition HTTPResultNotAttempted :: ApplicationResult where [go_consts]: "HTTPResultNotAttempted = ''not_attempted''"
definition HTTPResultUnsupported :: ApplicationResult where [go_consts]: "HTTPResultUnsupported = ''unsupported''"
definition HTTPResultPartial :: ApplicationResult where [go_consts]: "HTTPResultPartial = ''partial''"
definition DNSApplicationResultUnknown :: DNSApplicationResult where [go_consts]: "DNSApplicationResultUnknown = ''unknown''"
definition DNSApplicationResultSuccess :: DNSApplicationResult where [go_consts]: "DNSApplicationResultSuccess = ''success''"
definition DNSApplicationResultPartial :: DNSApplicationResult where [go_consts]: "DNSApplicationResultPartial = ''partial''"
definition DNSApplicationResultFailure :: DNSApplicationResult where [go_consts]: "DNSApplicationResultFailure = ''failure''"
definition DNSApplicationResultNotAttempted :: DNSApplicationResult where [go_consts]: "DNSApplicationResultNotAttempted = ''not_attempted''"

section \<open>internal/model/path.go\<close>

type_synonym PathProtocol = string
type_synonym PathObservationStatus = string
type_synonym PathHopState = string
type_synonym PathSegmentKind = string

definition PathProtocolICMP :: PathProtocol where [go_consts]: "PathProtocolICMP = ''icmp''"
definition PathProtocolTCP :: PathProtocol where [go_consts]: "PathProtocolTCP = ''tcp''"
definition PathProtocolUDP :: PathProtocol where [go_consts]: "PathProtocolUDP = ''udp''"
definition PathProtocolICMPEcho :: PathProtocol where [go_consts]: "PathProtocolICMPEcho = PathProtocolICMP"
definition PathProtocolTCPDestination :: PathProtocol where [go_consts]: "PathProtocolTCPDestination = PathProtocolTCP"
definition PathObservationStatusUnknown :: PathObservationStatus where [go_consts]: "PathObservationStatusUnknown = ''unknown''"
definition PathObservationStatusObserved :: PathObservationStatus where [go_consts]: "PathObservationStatusObserved = ''observed''"
definition PathObservationStatusUnsupported :: PathObservationStatus where [go_consts]: "PathObservationStatusUnsupported = ''unsupported''"
definition PathObservationStatusError :: PathObservationStatus where [go_consts]: "PathObservationStatusError = ''error''"
definition PathHopStateUnknown :: PathHopState where [go_consts]: "PathHopStateUnknown = ''unknown''"
definition PathHopStateObserved :: PathHopState where [go_consts]: "PathHopStateObserved = ''observed_responder''"
definition PathHopStateUnobservable :: PathHopState where [go_consts]: "PathHopStateUnobservable = ''unobservable''"
definition PathHopStateObservedResponder :: PathHopState where [go_consts]: "PathHopStateObservedResponder = PathHopStateObserved"
definition PathSegmentObservedResponder :: PathSegmentKind where [go_consts]: "PathSegmentObservedResponder = ''observed_responder''"
definition PathSegmentInferred :: PathSegmentKind where [go_consts]: "PathSegmentInferred = ''inferred''"
definition PathSegmentUnobservable :: PathSegmentKind where [go_consts]: "PathSegmentUnobservable = ''unobservable''"
definition PathSegmentKindObservedResponder :: PathSegmentKind where [go_consts]: "PathSegmentKindObservedResponder = PathSegmentObservedResponder"
definition PathSegmentKindInferred :: PathSegmentKind where [go_consts]: "PathSegmentKindInferred = PathSegmentInferred"
definition PathSegmentKindUnobservable :: PathSegmentKind where [go_consts]: "PathSegmentKindUnobservable = PathSegmentUnobservable"

section \<open>internal/model/smb.go\<close>

type_synonym SMBResult = string

definition EvidenceKindSMBNegotiation :: EvidenceKind where [go_consts]: "EvidenceKindSMBNegotiation = ''smb_negotiation''"
definition LayerSMB :: Layer where [go_consts]: "LayerSMB = ''smb''"
definition FaultDomainSMB :: FaultDomain where [go_consts]: "FaultDomainSMB = ''smb''"
definition SMBResultUnknown :: SMBResult where [go_consts]: "SMBResultUnknown = ''unknown''"
definition SMBResultNegotiated :: SMBResult where [go_consts]: "SMBResultNegotiated = ''negotiated''"
definition SMBResultTCPFailure :: SMBResult where [go_consts]: "SMBResultTCPFailure = ''tcp_failure''"
definition SMBResultProtocolRejection :: SMBResult where [go_consts]: "SMBResultProtocolRejection = ''protocol_rejection''"
definition SMBResultMalformedResponse :: SMBResult where [go_consts]: "SMBResultMalformedResponse = ''malformed_response''"
definition SMBResultTimeout :: SMBResult where [go_consts]: "SMBResultTimeout = ''timeout''"
definition SMBResultNotAttempted :: SMBResult where [go_consts]: "SMBResultNotAttempted = ''not_attempted''"
definition SMBResultUnsupported :: SMBResult where [go_consts]: "SMBResultUnsupported = ''unsupported''"
definition FailureReasonSMBConnectionRefused :: FailureReason where [go_consts]: "FailureReasonSMBConnectionRefused = ''smb_connection_refused''"
definition FailureReasonSMBTimeout :: FailureReason where [go_consts]: "FailureReasonSMBTimeout = ''smb_timeout''"
definition FailureReasonSMBProtocolRejection :: FailureReason where [go_consts]: "FailureReasonSMBProtocolRejection = ''smb_protocol_rejection''"
definition FailureReasonSMBMalformedResponse :: FailureReason where [go_consts]: "FailureReasonSMBMalformedResponse = ''smb_malformed_response''"

section \<open>internal/model/packet.go\<close>

type_synonym PacketProtocol = string
type_synonym PacketDirection = string
type_synonym PacketObservationKind = string
type_synonym EvidenceCertainty = string
type_synonym PacketCaptureStatus = string
type_synonym PacketEmissionState = string
type_synonym PacketFlowOutcome = string

definition PacketProtocolTCP :: PacketProtocol where [go_consts]: "PacketProtocolTCP = ''tcp''"
definition PacketProtocolICMP :: PacketProtocol where [go_consts]: "PacketProtocolICMP = ''icmp''"
definition PacketDirectionOutbound :: PacketDirection where [go_consts]: "PacketDirectionOutbound = ''outbound''"
definition PacketDirectionInbound :: PacketDirection where [go_consts]: "PacketDirectionInbound = ''inbound''"
definition PacketObservationOutboundTCPSYN :: PacketObservationKind where [go_consts]: "PacketObservationOutboundTCPSYN = ''outbound_tcp_syn''"
definition PacketObservationInboundTCPSYNACK :: PacketObservationKind where [go_consts]: "PacketObservationInboundTCPSYNACK = ''inbound_tcp_syn_ack''"
definition PacketObservationTCPRST :: PacketObservationKind where [go_consts]: "PacketObservationTCPRST = ''tcp_rst''"
definition PacketObservationICMPTimeExceeded :: PacketObservationKind where [go_consts]: "PacketObservationICMPTimeExceeded = ''icmp_time_exceeded''"
definition PacketObservationICMPUnreachable :: PacketObservationKind where [go_consts]: "PacketObservationICMPUnreachable = ''icmp_unreachable''"
definition PacketObservationOutboundICMPEcho :: PacketObservationKind where [go_consts]: "PacketObservationOutboundICMPEcho = ''outbound_icmp_echo''"
definition PacketObservationInboundICMPEcho :: PacketObservationKind where [go_consts]: "PacketObservationInboundICMPEcho = ''inbound_icmp_echo''"
definition PacketObservationTCPHandshakeConfirmed :: PacketObservationKind where [go_consts]: "PacketObservationTCPHandshakeConfirmed = ''tcp_handshake_confirmed''"
definition PacketKindOutboundTCPSYN :: PacketObservationKind where [go_consts]: "PacketKindOutboundTCPSYN = PacketObservationOutboundTCPSYN"
definition PacketKindInboundTCPSYNACK :: PacketObservationKind where [go_consts]: "PacketKindInboundTCPSYNACK = PacketObservationInboundTCPSYNACK"
definition PacketKindTCPRST :: PacketObservationKind where [go_consts]: "PacketKindTCPRST = PacketObservationTCPRST"
definition PacketKindICMPTimeExceeded :: PacketObservationKind where [go_consts]: "PacketKindICMPTimeExceeded = PacketObservationICMPTimeExceeded"
definition PacketKindICMPUnreachable :: PacketObservationKind where [go_consts]: "PacketKindICMPUnreachable = PacketObservationICMPUnreachable"
definition EvidenceCertaintyDirectlyObservedLocalPacket :: EvidenceCertainty where [go_consts]: "EvidenceCertaintyDirectlyObservedLocalPacket = ''directly_observed_local_packet''"
definition EvidenceCertaintyObservedTTLResponder :: EvidenceCertainty where [go_consts]: "EvidenceCertaintyObservedTTLResponder = ''observed_ttl_responder''"
definition EvidenceCertaintyConfirmedEndpointResponse :: EvidenceCertainty where [go_consts]: "EvidenceCertaintyConfirmedEndpointResponse = ''confirmed_endpoint_response''"
definition EvidenceCertaintyInferredTransitSegment :: EvidenceCertainty where [go_consts]: "EvidenceCertaintyInferredTransitSegment = ''inferred_transit_segment''"
definition EvidenceCertaintyUnobservableSegment :: EvidenceCertainty where [go_consts]: "EvidenceCertaintyUnobservableSegment = ''unobservable_segment''"
definition PacketCaptureStatusAvailable :: PacketCaptureStatus where [go_consts]: "PacketCaptureStatusAvailable = ''available''"
definition PacketCaptureStatusUnsupported :: PacketCaptureStatus where [go_consts]: "PacketCaptureStatusUnsupported = ''unsupported''"
definition PacketCaptureStatusInsufficientPrivilege :: PacketCaptureStatus where [go_consts]: "PacketCaptureStatusInsufficientPrivilege = ''insufficient_privilege''"
definition PacketCaptureStatusPartial :: PacketCaptureStatus where [go_consts]: "PacketCaptureStatusPartial = ''partial''"
definition PacketCaptureStatusError :: PacketCaptureStatus where [go_consts]: "PacketCaptureStatusError = ''error''"
definition PacketCaptureStatusCancelled :: PacketCaptureStatus where [go_consts]: "PacketCaptureStatusCancelled = ''cancelled''"
definition PacketEmissionObserved :: PacketEmissionState where [go_consts]: "PacketEmissionObserved = ''observed''"
definition PacketEmissionNotObserved :: PacketEmissionState where [go_consts]: "PacketEmissionNotObserved = ''not_observed''"
definition PacketEmissionUnknown :: PacketEmissionState where [go_consts]: "PacketEmissionUnknown = ''unknown''"
definition PacketFlowOutcomeTCPHandshakeConfirmed :: PacketFlowOutcome where [go_consts]: "PacketFlowOutcomeTCPHandshakeConfirmed = ''tcp_handshake_confirmed''"
definition PacketFlowOutcomeTCPSYNACK :: PacketFlowOutcome where [go_consts]: "PacketFlowOutcomeTCPSYNACK = ''tcp_syn_ack_received''"
definition PacketFlowOutcomeTCPRST :: PacketFlowOutcome where [go_consts]: "PacketFlowOutcomeTCPRST = ''tcp_rst_received''"
definition PacketFlowOutcomeICMPEchoReply :: PacketFlowOutcome where [go_consts]: "PacketFlowOutcomeICMPEchoReply = ''icmp_echo_reply_received''"
definition PacketFlowOutcomeICMPTimeExceeded :: PacketFlowOutcome where [go_consts]: "PacketFlowOutcomeICMPTimeExceeded = ''icmp_time_exceeded_received''"
definition PacketFlowOutcomeICMPUnreachable :: PacketFlowOutcome where [go_consts]: "PacketFlowOutcomeICMPUnreachable = ''icmp_unreachable_received''"
definition PacketFlowOutcomeNoMatchingResponse :: PacketFlowOutcome where [go_consts]: "PacketFlowOutcomeNoMatchingResponse = ''no_matching_response_observed''"
definition PacketFlowOutcomeProbeNotEmitted :: PacketFlowOutcome where [go_consts]: "PacketFlowOutcomeProbeNotEmitted = ''probe_not_observed''"
definition PacketFlowOutcomeCaptureUnavailable :: PacketFlowOutcome where [go_consts]: "PacketFlowOutcomeCaptureUnavailable = ''capture_unavailable''"
definition PacketFlowOutcomeCancelled :: PacketFlowOutcome where [go_consts]: "PacketFlowOutcomeCancelled = ''cancelled''"

section \<open>internal/model/enterprise.go\<close>

type_synonym EnterpriseObservationState = string

definition EnterpriseObservationStateUnknown :: EnterpriseObservationState where [go_consts]: "EnterpriseObservationStateUnknown = ''unknown''"
definition EnterpriseObservationStateObserved :: EnterpriseObservationState where [go_consts]: "EnterpriseObservationStateObserved = ''observed''"
definition EnterpriseObservationStatePartial :: EnterpriseObservationState where [go_consts]: "EnterpriseObservationStatePartial = ''partial''"
definition EnterpriseObservationStateUnsupported :: EnterpriseObservationState where [go_consts]: "EnterpriseObservationStateUnsupported = ''unsupported''"
definition EnterpriseObservationStateUnavailable :: EnterpriseObservationState where [go_consts]: "EnterpriseObservationStateUnavailable = ''unavailable''"
definition EnterpriseProxyModeDirect :: string where [go_consts]: "EnterpriseProxyModeDirect = ''direct''"
definition EnterpriseProxyModeProxy :: string where [go_consts]: "EnterpriseProxyModeProxy = ''proxy''"
definition EnterpriseProxyModePAC :: string where [go_consts]: "EnterpriseProxyModePAC = ''pac''"
definition EnterpriseProxyModeUnknown :: string where [go_consts]: "EnterpriseProxyModeUnknown = ''unknown''"
definition EnterpriseProxyDecisionDirect :: string where [go_consts]: "EnterpriseProxyDecisionDirect = ''direct''"
definition EnterpriseProxyDecisionStaticProxy :: string where [go_consts]: "EnterpriseProxyDecisionStaticProxy = ''static_proxy''"
definition EnterpriseProxyDecisionPACSelectedProxy :: string where [go_consts]: "EnterpriseProxyDecisionPACSelectedProxy = ''pac_selected_proxy''"
definition EnterpriseProxyDecisionBypassMatch :: string where [go_consts]: "EnterpriseProxyDecisionBypassMatch = ''bypass_match''"
definition EnterpriseProxyDecisionAuthenticationRequired :: string where [go_consts]: "EnterpriseProxyDecisionAuthenticationRequired = ''authentication_required''"
definition EnterpriseProxyDecisionPACResultUnavailable :: string where [go_consts]: "EnterpriseProxyDecisionPACResultUnavailable = ''pac_result_unavailable''"
definition EnterpriseProxyDecisionUnsupported :: string where [go_consts]: "EnterpriseProxyDecisionUnsupported = ''unsupported''"
definition EnterpriseProxyDecisionUnknown :: string where [go_consts]: "EnterpriseProxyDecisionUnknown = ''unknown''"
definition EnterpriseProxyDecisionConflicting :: string where [go_consts]: "EnterpriseProxyDecisionConflicting = ''conflicting''"
definition EnterpriseProxyDecisionPACProxy :: string where [go_consts]: "EnterpriseProxyDecisionPACProxy = EnterpriseProxyDecisionPACSelectedProxy"
definition EnterpriseProxyDecisionBypass :: string where [go_consts]: "EnterpriseProxyDecisionBypass = EnterpriseProxyDecisionBypassMatch"
definition EnterpriseEndpointReachable :: string where [go_consts]: "EnterpriseEndpointReachable = ''reachable''"
definition EnterpriseEndpointUnavailable :: string where [go_consts]: "EnterpriseEndpointUnavailable = ''unavailable''"
definition EnterpriseEndpointTimeout :: string where [go_consts]: "EnterpriseEndpointTimeout = ''timeout''"
definition EnterpriseEndpointUnknown :: string where [go_consts]: "EnterpriseEndpointUnknown = ''unknown''"
definition EnterpriseEndpointNotTested :: string where [go_consts]: "EnterpriseEndpointNotTested = ''not_tested''"
definition EnterprisePathComparisonUnknown :: string where [go_consts]: "EnterprisePathComparisonUnknown = ''unknown''"
definition EnterprisePathComparisonBothWork :: string where [go_consts]: "EnterprisePathComparisonBothWork = ''both_work''"
definition EnterprisePathComparisonDirectFailureProxyWorks :: string where [go_consts]: "EnterprisePathComparisonDirectFailureProxyWorks = ''direct_failure_proxy_success''"
definition EnterprisePathComparisonDirectWorksProxyFailure :: string where [go_consts]: "EnterprisePathComparisonDirectWorksProxyFailure = ''direct_success_proxy_failure''"
definition EnterprisePathComparisonBothFail :: string where [go_consts]: "EnterprisePathComparisonBothFail = ''both_fail''"
definition EnterpriseFirewallCausalityNotEstablished :: string where [go_consts]: "EnterpriseFirewallCausalityNotEstablished = ''not_established''"
definition EnterpriseInterceptionSuspicionNotEstablished :: string where [go_consts]: "EnterpriseInterceptionSuspicionNotEstablished = ''not_established''"
definition EnterpriseInterceptionSuspicionPossible :: string where [go_consts]: "EnterpriseInterceptionSuspicionPossible = ''possible''"

section \<open>internal/model/browser_capture.go\<close>

type_synonym BrowserCaptureState = string
type_synonym BrowserCaptureOutcome = string
type_synonym BrowserCaptureMechanism = string

definition BrowserCaptureSchemaVersion :: string where [go_consts]: "BrowserCaptureSchemaVersion = ''1''"
definition BrowserCaptureStateStarting :: BrowserCaptureState where [go_consts]: "BrowserCaptureStateStarting = ''starting''"
definition BrowserCaptureStateRunning :: BrowserCaptureState where [go_consts]: "BrowserCaptureStateRunning = ''running''"
definition BrowserCaptureStateStopping :: BrowserCaptureState where [go_consts]: "BrowserCaptureStateStopping = ''stopping''"
definition BrowserCaptureStateCompleted :: BrowserCaptureState where [go_consts]: "BrowserCaptureStateCompleted = ''completed''"
definition BrowserCaptureStateFailed :: BrowserCaptureState where [go_consts]: "BrowserCaptureStateFailed = ''failed''"
definition BrowserCaptureStateCancelled :: BrowserCaptureState where [go_consts]: "BrowserCaptureStateCancelled = ''cancelled''"
definition BrowserCaptureOutcomeConnected :: BrowserCaptureOutcome where [go_consts]: "BrowserCaptureOutcomeConnected = ''connected''"
definition BrowserCaptureOutcomeFailed :: BrowserCaptureOutcome where [go_consts]: "BrowserCaptureOutcomeFailed = ''failed''"
definition BrowserCaptureOutcomeMixed :: BrowserCaptureOutcome where [go_consts]: "BrowserCaptureOutcomeMixed = ''mixed''"
definition BrowserCaptureOutcomeDNSFailed :: BrowserCaptureOutcome where [go_consts]: "BrowserCaptureOutcomeDNSFailed = ''dns_failed''"
definition BrowserCaptureOutcomeProxyRejected :: BrowserCaptureOutcome where [go_consts]: "BrowserCaptureOutcomeProxyRejected = ''proxy_rejected''"
definition BrowserCaptureOutcomeUnsupported :: BrowserCaptureOutcome where [go_consts]: "BrowserCaptureOutcomeUnsupported = ''unsupported''"
definition BrowserCaptureOutcomeUnknown :: BrowserCaptureOutcome where [go_consts]: "BrowserCaptureOutcomeUnknown = ''unknown''"
definition BrowserCaptureMechanismCONNECT :: BrowserCaptureMechanism where [go_consts]: "BrowserCaptureMechanismCONNECT = ''CONNECT''"
definition BrowserCaptureMechanismHTTP :: BrowserCaptureMechanism where [go_consts]: "BrowserCaptureMechanismHTTP = ''plain_http''"

section \<open>internal/model/environment.go\<close>

type_synonym EnvironmentObservationState = string
type_synonym EnvironmentCapabilityState = string

definition EnvironmentSnapshotSchemaVersion :: string where [go_consts]: "EnvironmentSnapshotSchemaVersion = ''1''"
definition EnvironmentStateConfigured :: EnvironmentObservationState where [go_consts]: "EnvironmentStateConfigured = ''configured''"
definition EnvironmentStateObserved :: EnvironmentObservationState where [go_consts]: "EnvironmentStateObserved = ''observed''"
definition EnvironmentStateInferred :: EnvironmentObservationState where [go_consts]: "EnvironmentStateInferred = ''inferred''"
definition EnvironmentStateUnknown :: EnvironmentObservationState where [go_consts]: "EnvironmentStateUnknown = ''unknown''"
definition EnvironmentStateUnsupported :: EnvironmentObservationState where [go_consts]: "EnvironmentStateUnsupported = ''unsupported''"
definition EnvironmentStateConflicting :: EnvironmentObservationState where [go_consts]: "EnvironmentStateConflicting = ''conflicting''"
definition EnvironmentStatePartial :: EnvironmentObservationState where [go_consts]: "EnvironmentStatePartial = ''partial''"
definition EnvironmentCapabilityAvailable :: EnvironmentCapabilityState where [go_consts]: "EnvironmentCapabilityAvailable = ''available''"
definition EnvironmentCapabilityPartial :: EnvironmentCapabilityState where [go_consts]: "EnvironmentCapabilityPartial = ''partial''"
definition EnvironmentCapabilityUnsupported :: EnvironmentCapabilityState where [go_consts]: "EnvironmentCapabilityUnsupported = ''unsupported''"
definition EnvironmentCapabilityUnknown :: EnvironmentCapabilityState where [go_consts]: "EnvironmentCapabilityUnknown = ''unknown''"
definition EnvironmentCapabilityDenied :: EnvironmentCapabilityState where [go_consts]: "EnvironmentCapabilityDenied = ''insufficient_privilege''"

end
