(* ===== verification/ModelTypes.thy ===== *)
theory ModelTypes
  imports ModelConstants
begin

text \<open>
  The data types of \<open>internal/model\<close>, one record per Go struct, field by field in the struct's
  order: a pointer is an option, a slice a list, a nested struct a nested record. Record fields
  share one name space, so every field carries its struct's prefix. \<open>zero_S\<close> is Go's zero value
  of the struct \<open>S\<close>, which composite literals that name only some fields start from.
\<close>

record ServiceProfile =
  sp_ID :: "ServiceProfileID"
  sp_Label :: "string"
  sp_ApplicationProtocol :: "ApplicationProtocol"
  sp_TransportProtocol :: "TransportProtocol"
  sp_ApplicableTransports :: "TransportProtocol list"
  sp_DefaultPort :: "16 word"
  sp_ProbeIntents :: "ProbeIntent list"

definition zero_ServiceProfile :: ServiceProfile where
  "zero_ServiceProfile = \<lparr>
    sp_ID = [], sp_Label = [], sp_ApplicationProtocol = [], sp_TransportProtocol = [],
    sp_ApplicableTransports = [], sp_DefaultPort = 0, sp_ProbeIntents = []\<rparr>"

record EndpointCandidate =
  ec_Address :: "string"
  ec_Family :: "EndpointFamily"
  ec_Order :: "int"
  ec_Certainty :: "ObservationCertainty"
  ec_Provenance :: "string"
  ec_EvidenceIDs :: "string list"

definition zero_EndpointCandidate :: EndpointCandidate where
  "zero_EndpointCandidate = \<lparr>
    ec_Address = [], ec_Family = [], ec_Order = 0, ec_Certainty = [], ec_Provenance = [],
    ec_EvidenceIDs = []\<rparr>"

record EndpointAttempt =
  ea_Candidate :: "EndpointCandidate"
  ea_RequestedEndpoint :: "string"
  ea_RemoteEndpoint :: "string"
  ea_Status :: "ProbeStatus"
  ea_FailureReason :: "FailureReason"
  ea_Error :: "string"
  ea_ErrorType :: "string"
  ea_Certainty :: "ObservationCertainty"
  ea_Provenance :: "string"
  ea_EvidenceIDs :: "string list"

definition zero_EndpointAttempt :: EndpointAttempt where
  "zero_EndpointAttempt = \<lparr>
    ea_Candidate = zero_EndpointCandidate, ea_RequestedEndpoint = [], ea_RemoteEndpoint = [],
    ea_Status = [], ea_FailureReason = [], ea_Error = [], ea_ErrorType = [],
    ea_Certainty = [], ea_Provenance = [], ea_EvidenceIDs = []\<rparr>"

record Endpoint =
  ep_Address :: "string"
  ep_Port :: "16 word"
  ep_Family :: "EndpointFamily"
  ep_SelectionReason :: "EndpointSelectionReason"
  ep_Provenance :: "string"
  ep_Certainty :: "ObservationCertainty"
  ep_EvidenceIDs :: "string list"

definition zero_Endpoint :: Endpoint where
  "zero_Endpoint = \<lparr>
    ep_Address = [], ep_Port = 0, ep_Family = [], ep_SelectionReason = [],
    ep_Provenance = [], ep_Certainty = [], ep_EvidenceIDs = []\<rparr>"

record RouteCandidate =
  rcd_RoutePrefix :: "string"
  rcd_Gateway :: "string"
  rcd_NextHop :: "string"
  rcd_Interface :: "string"
  rcd_InterfaceIndex :: "int"
  rcd_SourceAddress :: "string"
  rcd_Metric :: "int"
  rcd_VPNOrTunnel :: "bool"
  rcd_VirtualAdapter :: "bool"
  rcd_Selected :: "bool"

definition zero_RouteCandidate :: RouteCandidate where
  "zero_RouteCandidate = \<lparr>
    rcd_RoutePrefix = [], rcd_Gateway = [], rcd_NextHop = [], rcd_Interface = [],
    rcd_InterfaceIndex = 0, rcd_SourceAddress = [], rcd_Metric = 0, rcd_VPNOrTunnel = False,
    rcd_VirtualAdapter = False, rcd_Selected = False\<rparr>"

record NeighborEntry =
  ne_Address :: "string"
  ne_Interface :: "string"
  ne_InterfaceIndex :: "int"
  ne_LinkAddress :: "string"
  ne_State :: "string"

definition zero_NeighborEntry :: NeighborEntry where
  "zero_NeighborEntry = \<lparr>
    ne_Address = [], ne_Interface = [], ne_InterfaceIndex = 0, ne_LinkAddress = [],
    ne_State = []\<rparr>"

record NeighborEvidence =
  nv_Observation :: "NeighborObservation"
  nv_Source :: "string"
  nv_Entries :: "NeighborEntry list"
  nv_Note :: "string"

definition zero_NeighborEvidence :: NeighborEvidence where
  "zero_NeighborEvidence = \<lparr>
    nv_Observation = [], nv_Source = [], nv_Entries = [], nv_Note = []\<rparr>"

record ObservationConflict =
  oc_Field :: "string"
  oc_Values :: "string list"
  oc_Provenance :: "string list"
  oc_EvidenceIDs :: "string list"

definition zero_ObservationConflict :: ObservationConflict where
  "zero_ObservationConflict = \<lparr>
    oc_Field = [], oc_Values = [], oc_Provenance = [], oc_EvidenceIDs = []\<rparr>"

record NetworkContext =
  nc_RequestedIdentity :: "string"
  nc_SelectedDestinationAddress :: "string"
  nc_SelectedSourceInterface :: "string"
  nc_SelectedSourceInterfaceIndex :: "int"
  nc_SelectedSourceAddress :: "string"
  nc_EffectiveRoute :: "RouteDisposition"
  nc_RoutePrefix :: "string"
  nc_NextHop :: "string"
  nc_Gateway :: "string"
  nc_RouteMetric :: "int"
  nc_CompetingRoutes :: "RouteCandidate list"
  nc_RouteSelectionAmbiguous :: "bool"
  nc_VPNOrTunnelInvolvement :: "bool"
  nc_VirtualAdapterInvolvement :: "bool"
  nc_Neighbor :: "NeighborEvidence option"
  nc_NetworkScope :: "NetworkScope"
  nc_Provenance :: "string list"
  nc_EvidenceIDs :: "string list"
  nc_Certainty :: "ObservationCertainty"
  nc_ProbeNames :: "string list"
  nc_Limitations :: "string list"
  nc_FailureReason :: "FailureReason"
  nc_FaultDomain :: "FaultDomain"
  nc_Conflicts :: "ObservationConflict list"

definition zero_NetworkContext :: NetworkContext where
  "zero_NetworkContext = \<lparr>
    nc_RequestedIdentity = [], nc_SelectedDestinationAddress = [],
    nc_SelectedSourceInterface = [], nc_SelectedSourceInterfaceIndex = 0,
    nc_SelectedSourceAddress = [], nc_EffectiveRoute = [], nc_RoutePrefix = [],
    nc_NextHop = [], nc_Gateway = [], nc_RouteMetric = 0, nc_CompetingRoutes = [],
    nc_RouteSelectionAmbiguous = False, nc_VPNOrTunnelInvolvement = False,
    nc_VirtualAdapterInvolvement = False, nc_Neighbor = None, nc_NetworkScope = [],
    nc_Provenance = [], nc_EvidenceIDs = [], nc_Certainty = [], nc_ProbeNames = [],
    nc_Limitations = [], nc_FailureReason = [], nc_FaultDomain = [], nc_Conflicts = []\<rparr>"

record Target =
  tg_OriginalInput :: "string"
  tg_RequestedIdentity :: "string"
  tg_LiteralIP :: "string"
  tg_Service :: "ServiceProfile"
  tg_ApplicationProtocol :: "ApplicationProtocol"
  tg_TransportProtocol :: "TransportProtocol"
  tg_Port :: "16 word"
  tg_Resource :: "string"
  tg_ResolvedAddresses :: "string list"
  tg_ResolvedCandidates :: "EndpointCandidate list"
  tg_ProbeCandidates :: "EndpointCandidate list"
  tg_CandidateAttempts :: "EndpointAttempt list"
  tg_SelectedEndpoint :: "Endpoint option"
  tg_TestedEndpoint :: "Endpoint option"
  tg_NetworkContext :: "NetworkContext option"

definition zero_Target :: Target where
  "zero_Target = \<lparr>
    tg_OriginalInput = [], tg_RequestedIdentity = [], tg_LiteralIP = [],
    tg_Service = zero_ServiceProfile, tg_ApplicationProtocol = [], tg_TransportProtocol = [],
    tg_Port = 0, tg_Resource = [], tg_ResolvedAddresses = [], tg_ResolvedCandidates = [],
    tg_ProbeCandidates = [], tg_CandidateAttempts = [], tg_SelectedEndpoint = None,
    tg_TestedEndpoint = None, tg_NetworkContext = None\<rparr>"

record TargetIntent =
  ti_Input :: "string"
  ti_Service :: "ServiceProfileID"
  ti_Port :: "16 word option"

definition zero_TargetIntent :: TargetIntent where
  "zero_TargetIntent = \<lparr>
    ti_Input = [], ti_Service = [], ti_Port = None\<rparr>"

record DiagnosticFinding =
  df_FailureReason :: "FailureReason"
  df_Layer :: "Layer"
  df_FaultDomain :: "FaultDomain"
  df_ProbeNames :: "string list"
  df_EvidenceIDs :: "string list"

definition zero_DiagnosticFinding :: DiagnosticFinding where
  "zero_DiagnosticFinding = \<lparr>
    df_FailureReason = [], df_Layer = [], df_FaultDomain = [], df_ProbeNames = [],
    df_EvidenceIDs = []\<rparr>"

record Evidence =
  ev_ID :: "string"
  ev_Kind :: "EvidenceKind"
  ev_Source :: "string"
  ev_CapturedAt :: "gotime option"
  ev_Raw :: "string"

definition zero_Evidence :: Evidence where
  "zero_Evidence = \<lparr>
    ev_ID = [], ev_Kind = [], ev_Source = [], ev_CapturedAt = None, ev_Raw = []\<rparr>"

record ProbeInterpretation =
  pin_FailureReason :: "FailureReason"
  pin_Layer :: "Layer"
  pin_FaultDomain :: "FaultDomain"

definition zero_ProbeInterpretation :: ProbeInterpretation where
  "zero_ProbeInterpretation = \<lparr>
    pin_FailureReason = [], pin_Layer = [], pin_FaultDomain = []\<rparr>"

record NameResolutionPath =
  nrp_State :: "NameResolutionPathState"
  nrp_Mechanism :: "NameResolutionMechanism"
  nrp_Resolver :: "string"
  nrp_Interface :: "string"
  nrp_InterfaceIndex :: "int"
  nrp_VirtualAdapter :: "bool"
  nrp_VPN :: "bool"
  nrp_Namespace :: "string"
  nrp_Namespaces :: "string list"
  nrp_PolicySource :: "string"
  nrp_PolicyRule :: "string"
  nrp_A :: "string list"
  nrp_AAAA :: "string list"
  nrp_Certainty :: "NameResolutionCertainty"
  nrp_Provenance :: "string"
  nrp_EvidenceIDs :: "string list"

definition zero_NameResolutionPath :: NameResolutionPath where
  "zero_NameResolutionPath = \<lparr>
    nrp_State = [], nrp_Mechanism = [], nrp_Resolver = [], nrp_Interface = [],
    nrp_InterfaceIndex = 0, nrp_VirtualAdapter = False, nrp_VPN = False, nrp_Namespace = [],
    nrp_Namespaces = [], nrp_PolicySource = [], nrp_PolicyRule = [], nrp_A = [],
    nrp_AAAA = [], nrp_Certainty = [], nrp_Provenance = [], nrp_EvidenceIDs = []\<rparr>"

record NameResolutionHostEntry =
  nrh_Name :: "string"
  nrh_Addresses :: "string list"
  nrh_Source :: "string"

definition zero_NameResolutionHostEntry :: NameResolutionHostEntry where
  "zero_NameResolutionHostEntry = \<lparr>
    nrh_Name = [], nrh_Addresses = [], nrh_Source = []\<rparr>"

record NameResolutionObservation =
  nro_RequestedName :: "string"
  nro_CandidateNames :: "string list"
  nro_CandidateSuffixes :: "string list"
  nro_CandidateNamespaces :: "string list"
  nro_Paths :: "NameResolutionPath list"
  nro_EffectivePath :: "NameResolutionPath option"
  nro_A :: "string list"
  nro_AAAA :: "string list"
  nro_SelectedAddress :: "string"
  nro_SelectedFamily :: "string"
  nro_HostsFileEntries :: "NameResolutionHostEntry list"
  nro_Limitations :: "string list"
  nro_EvidenceIDs :: "string list"
  nro_Certainty :: "ObservationCertainty"
  nro_Provenance :: "string list"
  nro_ProbeNames :: "string list"
  nro_FailureReason :: "FailureReason"
  nro_FaultDomain :: "FaultDomain"
  nro_Conflicts :: "ObservationConflict list"

definition zero_NameResolutionObservation :: NameResolutionObservation where
  "zero_NameResolutionObservation = \<lparr>
    nro_RequestedName = [], nro_CandidateNames = [], nro_CandidateSuffixes = [],
    nro_CandidateNamespaces = [], nro_Paths = [], nro_EffectivePath = None, nro_A = [],
    nro_AAAA = [], nro_SelectedAddress = [], nro_SelectedFamily = [],
    nro_HostsFileEntries = [], nro_Limitations = [], nro_EvidenceIDs = [],
    nro_Certainty = [], nro_Provenance = [], nro_ProbeNames = [], nro_FailureReason = [],
    nro_FaultDomain = [], nro_Conflicts = []\<rparr>"

record NameResolutionPolicyRule =
  nrr_Namespaces :: "string list"
  nrr_NameServers :: "string list"
  nrr_Source :: "string"
  nrr_RuleID :: "string"
  nrr_VPNRequired :: "bool"
  nrr_DNSSECValidationRequired :: "bool"

definition zero_NameResolutionPolicyRule :: NameResolutionPolicyRule where
  "zero_NameResolutionPolicyRule = \<lparr>
    nrr_Namespaces = [], nrr_NameServers = [], nrr_Source = [], nrr_RuleID = [],
    nrr_VPNRequired = False, nrr_DNSSECValidationRequired = False\<rparr>"

record Timing =
  tm_StartedAt :: "gotime option"
  tm_CompletedAt :: "gotime option"
  tm_DurationMS :: "int"

definition zero_Timing :: Timing where
  "zero_Timing = \<lparr>
    tm_StartedAt = None, tm_CompletedAt = None, tm_DurationMS = 0\<rparr>"

record ProbeResult =
  pr_Name :: "string"
  pr_Target :: "Target"
  pr_SessionID :: "string"
  pr_ProbeID :: "string"
  pr_CorrelationID :: "string"
  pr_Status :: "ProbeStatus"
  pr_Timing :: "Timing"
  pr_Evidence :: "Evidence list"
  pr_NameResolution :: "NameResolutionObservation option"
  pr_Interpretation :: "ProbeInterpretation"

definition zero_ProbeResult :: ProbeResult where
  "zero_ProbeResult = \<lparr>
    pr_Name = [], pr_Target = zero_Target, pr_SessionID = [], pr_ProbeID = [],
    pr_CorrelationID = [], pr_Status = [], pr_Timing = zero_Timing, pr_Evidence = [],
    pr_NameResolution = None, pr_Interpretation = zero_ProbeInterpretation\<rparr>"

record ObservationProvenance =
  opv_ProbeName :: "string"
  opv_ProbeID :: "string"
  opv_Source :: "string"
  opv_EvidenceIDs :: "string list"

definition zero_ObservationProvenance :: ObservationProvenance where
  "zero_ObservationProvenance = \<lparr>
    opv_ProbeName = [], opv_ProbeID = [], opv_Source = [], opv_EvidenceIDs = []\<rparr>"

record ObservationDivergence =
  od_Field :: "string"
  od_PathValues :: "string list"
  od_PacketFlowValues :: "string list"
  od_PathProvenance :: "string list"
  od_PacketFlowProvenance :: "string list"
  od_PathEvidenceIDs :: "string list"
  od_PacketFlowEvidenceIDs :: "string list"

definition zero_ObservationDivergence :: ObservationDivergence where
  "zero_ObservationDivergence = \<lparr>
    od_Field = [], od_PathValues = [], od_PacketFlowValues = [], od_PathProvenance = [],
    od_PacketFlowProvenance = [], od_PathEvidenceIDs = [], od_PacketFlowEvidenceIDs = []\<rparr>"

record EndpointObservation =
  eo_OriginalInput :: "string"
  eo_RequestedIdentity :: "string"
  eo_LiteralIP :: "string"
  eo_Service :: "ServiceProfile"
  eo_ApplicationProtocol :: "ApplicationProtocol"
  eo_TransportProtocol :: "TransportProtocol"
  eo_Port :: "16 word"
  eo_Resource :: "string"
  eo_ResolvedCandidates :: "EndpointCandidate list"
  eo_ProbeCandidates :: "EndpointCandidate list"
  eo_SelectedEndpoint :: "Endpoint option"
  eo_TestedEndpoint :: "Endpoint option"
  eo_CandidateAttempts :: "EndpointAttempt list"
  eo_Certainty :: "ObservationCertainty"
  eo_Provenance :: "string list"
  eo_ProbeNames :: "string list"
  eo_EvidenceIDs :: "string list"
  eo_Limitations :: "string list"
  eo_Conflicts :: "ObservationConflict list"

definition zero_EndpointObservation :: EndpointObservation where
  "zero_EndpointObservation = \<lparr>
    eo_OriginalInput = [], eo_RequestedIdentity = [], eo_LiteralIP = [],
    eo_Service = zero_ServiceProfile, eo_ApplicationProtocol = [], eo_TransportProtocol = [],
    eo_Port = 0, eo_Resource = [], eo_ResolvedCandidates = [], eo_ProbeCandidates = [],
    eo_SelectedEndpoint = None, eo_TestedEndpoint = None, eo_CandidateAttempts = [],
    eo_Certainty = [], eo_Provenance = [], eo_ProbeNames = [], eo_EvidenceIDs = [],
    eo_Limitations = [], eo_Conflicts = []\<rparr>"

record TransportObservation =
  tpo_Applicability :: "ObservationApplicability"
  tpo_RequestedEndpoint :: "string"
  tpo_ProbeEndpoint :: "Endpoint option"
  tpo_TestedEndpoint :: "Endpoint option"
  tpo_ConnectionOutcome :: "TransportConnectionOutcome"
  tpo_Connected :: "bool"
  tpo_LocalEndpoint :: "string"
  tpo_RemoteEndpoint :: "Endpoint option"
  tpo_Timing :: "Timing"
  tpo_FailureReason :: "FailureReason"
  tpo_FaultDomain :: "FaultDomain"
  tpo_CandidateAttempts :: "EndpointAttempt list"
  tpo_PacketFlowEvidenceIDs :: "string list"
  tpo_Provenance :: "string list"
  tpo_Certainty :: "ObservationCertainty"
  tpo_ProbeNames :: "string list"
  tpo_EvidenceIDs :: "string list"
  tpo_Limitations :: "string list"
  tpo_Conflicts :: "ObservationConflict list"

definition zero_TransportObservation :: TransportObservation where
  "zero_TransportObservation = \<lparr>
    tpo_Applicability = [], tpo_RequestedEndpoint = [], tpo_ProbeEndpoint = None,
    tpo_TestedEndpoint = None, tpo_ConnectionOutcome = [], tpo_Connected = False,
    tpo_LocalEndpoint = [], tpo_RemoteEndpoint = None, tpo_Timing = zero_Timing,
    tpo_FailureReason = [], tpo_FaultDomain = [], tpo_CandidateAttempts = [],
    tpo_PacketFlowEvidenceIDs = [], tpo_Provenance = [], tpo_Certainty = [],
    tpo_ProbeNames = [], tpo_EvidenceIDs = [], tpo_Limitations = [], tpo_Conflicts = []\<rparr>"

record TLSCertificateObservation =
  tc_ChainIndex :: "int"
  tc_Subject :: "string"
  tc_Issuer :: "string"
  tc_SerialNumber :: "string"
  tc_Version :: "int"
  tc_NotBefore :: "string"
  tc_NotAfter :: "string"
  tc_DNSNames :: "string list"
  tc_IPAddresses :: "string list"
  tc_EmailAddresses :: "string list"
  tc_IsCA :: "bool"
  tc_PublicKeyAlgorithm :: "string"
  tc_SignatureAlgorithm :: "string"
  tc_SHA256 :: "string"

definition zero_TLSCertificateObservation :: TLSCertificateObservation where
  "zero_TLSCertificateObservation = \<lparr>
    tc_ChainIndex = 0, tc_Subject = [], tc_Issuer = [], tc_SerialNumber = [], tc_Version = 0,
    tc_NotBefore = [], tc_NotAfter = [], tc_DNSNames = [], tc_IPAddresses = [],
    tc_EmailAddresses = [], tc_IsCA = False, tc_PublicKeyAlgorithm = [],
    tc_SignatureAlgorithm = [], tc_SHA256 = []\<rparr>"

record TLSInspectionAssessment =
  tia_State :: "TLSInspectionState"
  tia_Certainty :: "ObservationCertainty"
  tia_RequestedHostname :: "string"
  tia_PresentedLeafSubject :: "string"
  tia_PresentedLeafSANs :: "string list"
  tia_PresentedLeafIssuer :: "string"
  tia_PresentedIssuerChain :: "string list"
  tia_CertificateValidation :: "CertificateValidationState"
  tia_LocalTrustKnown :: "bool"
  tia_LocallyTrusted :: "bool"
  tia_TrustedCorporatePrivateRootKnown :: "bool"
  tia_TrustedCorporatePrivateRoot :: "bool"
  tia_EnterpriseProxyKnown :: "bool"
  tia_EnterpriseProxyObserved :: "bool"
  tia_EnterprisePolicyKnown :: "bool"
  tia_EnterprisePolicyObserved :: "bool"
  tia_OriginComparisonKnown :: "bool"
  tia_OriginLeafSHA256 :: "string"
  tia_PresentedLeafSHA256 :: "string"
  tia_ChainDivergenceKnown :: "bool"
  tia_ChainDiverges :: "bool"
  tia_IssuerChangeKnown :: "bool"
  tia_IssuerChanged :: "bool"
  tia_Signals :: "string list"
  tia_Provenance :: "string list"
  tia_EvidenceIDs :: "string list"
  tia_Limitations :: "string list"
  tia_Conflicts :: "ObservationConflict list"

definition zero_TLSInspectionAssessment :: TLSInspectionAssessment where
  "zero_TLSInspectionAssessment = \<lparr>
    tia_State = [], tia_Certainty = [], tia_RequestedHostname = [],
    tia_PresentedLeafSubject = [], tia_PresentedLeafSANs = [], tia_PresentedLeafIssuer = [],
    tia_PresentedIssuerChain = [], tia_CertificateValidation = [],
    tia_LocalTrustKnown = False, tia_LocallyTrusted = False,
    tia_TrustedCorporatePrivateRootKnown = False, tia_TrustedCorporatePrivateRoot = False,
    tia_EnterpriseProxyKnown = False, tia_EnterpriseProxyObserved = False,
    tia_EnterprisePolicyKnown = False, tia_EnterprisePolicyObserved = False,
    tia_OriginComparisonKnown = False, tia_OriginLeafSHA256 = [],
    tia_PresentedLeafSHA256 = [], tia_ChainDivergenceKnown = False,
    tia_ChainDiverges = False, tia_IssuerChangeKnown = False, tia_IssuerChanged = False,
    tia_Signals = [], tia_Provenance = [], tia_EvidenceIDs = [], tia_Limitations = [],
    tia_Conflicts = []\<rparr>"

record SecurityObservation =
  so_Applicability :: "ObservationApplicability"
  so_Attempted :: "bool"
  so_HandshakeComplete :: "bool"
  so_NegotiatedProtocol :: "string"
  so_NegotiatedProtocolID :: "string"
  so_TLSVersion :: "string"
  so_TLSVersionID :: "16 word"
  so_CipherSuite :: "string"
  so_CipherSuiteID :: "16 word"
  so_ServerName :: "string"
  so_EndpointUsed :: "Endpoint option"
  so_CertificateValidation :: "CertificateValidationState"
  so_Timing :: "Timing"
  so_Certificates :: "TLSCertificateObservation list"
  so_PeerCertificateCount :: "int"
  so_TLSInspection :: "TLSInspectionAssessment"
  so_TrustEvidenceIDs :: "string list"
  so_InterceptionEvidenceIDs :: "string list"
  so_FailureReason :: "FailureReason"
  so_FaultDomain :: "FaultDomain"
  so_Provenance :: "string list"
  so_Certainty :: "ObservationCertainty"
  so_ProbeNames :: "string list"
  so_EvidenceIDs :: "string list"
  so_Limitations :: "string list"
  so_Conflicts :: "ObservationConflict list"

definition zero_SecurityObservation :: SecurityObservation where
  "zero_SecurityObservation = \<lparr>
    so_Applicability = [], so_Attempted = False, so_HandshakeComplete = False,
    so_NegotiatedProtocol = [], so_NegotiatedProtocolID = [], so_TLSVersion = [],
    so_TLSVersionID = 0, so_CipherSuite = [], so_CipherSuiteID = 0, so_ServerName = [],
    so_EndpointUsed = None, so_CertificateValidation = [], so_Timing = zero_Timing,
    so_Certificates = [], so_PeerCertificateCount = 0,
    so_TLSInspection = zero_TLSInspectionAssessment, so_TrustEvidenceIDs = [],
    so_InterceptionEvidenceIDs = [], so_FailureReason = [], so_FaultDomain = [],
    so_Provenance = [], so_Certainty = [], so_ProbeNames = [], so_EvidenceIDs = [],
    so_Limitations = [], so_Conflicts = []\<rparr>"

record HTTPRedirectObservation =
  hr_URL :: "string"
  hr_StatusCode :: "int"
  hr_Location :: "string"
  hr_ToURL :: "string"

definition zero_HTTPRedirectObservation :: HTTPRedirectObservation where
  "zero_HTTPRedirectObservation = \<lparr>
    hr_URL = [], hr_StatusCode = 0, hr_Location = [], hr_ToURL = []\<rparr>"

record DNSApplicationTransportObservation =
  dt_Transport :: "string"
  dt_Attempted :: "bool"
  dt_ResponseReceived :: "bool"
  dt_Outcome :: "string"
  dt_RCode :: "int"
  dt_RCodeName :: "string"
  dt_TransactionID :: "16 word"
  dt_Truncated :: "bool"
  dt_QueryBytes :: "int"
  dt_ResponseBytes :: "int"
  dt_QuestionCount :: "int"
  dt_AnswerCount :: "int"
  dt_AuthorityCount :: "int"
  dt_AdditionalCount :: "int"
  dt_Attempts :: "int"
  dt_EndpointUsed :: "Endpoint option"
  dt_Fallback :: "bool"
  dt_FallbackReason :: "string"
  dt_ErrorKind :: "string"
  dt_Timing :: "Timing"
  dt_FailureReason :: "FailureReason"
  dt_FaultDomain :: "FaultDomain"
  dt_Provenance :: "string list"
  dt_Certainty :: "ObservationCertainty"
  dt_ProbeNames :: "string list"
  dt_EvidenceIDs :: "string list"
  dt_Limitations :: "string list"

definition zero_DNSApplicationTransportObservation :: DNSApplicationTransportObservation where
  "zero_DNSApplicationTransportObservation = \<lparr>
    dt_Transport = [], dt_Attempted = False, dt_ResponseReceived = False, dt_Outcome = [],
    dt_RCode = 0, dt_RCodeName = [], dt_TransactionID = 0, dt_Truncated = False,
    dt_QueryBytes = 0, dt_ResponseBytes = 0, dt_QuestionCount = 0, dt_AnswerCount = 0,
    dt_AuthorityCount = 0, dt_AdditionalCount = 0, dt_Attempts = 0, dt_EndpointUsed = None,
    dt_Fallback = False, dt_FallbackReason = [], dt_ErrorKind = [], dt_Timing = zero_Timing,
    dt_FailureReason = [], dt_FaultDomain = [], dt_Provenance = [], dt_Certainty = [],
    dt_ProbeNames = [], dt_EvidenceIDs = [], dt_Limitations = []\<rparr>"

record DNSApplicationObservation =
  da_RequestedEndpoint :: "string"
  da_QueryName :: "string"
  da_QueryType :: "string"
  da_Result :: "DNSApplicationResult"
  da_UDP :: "DNSApplicationTransportObservation"
  da_TCP :: "DNSApplicationTransportObservation"
  da_Divergence :: "bool"
  da_RequestAttempted :: "bool"
  da_ResponseReceived :: "bool"
  da_Timing :: "Timing"
  da_FailureReason :: "FailureReason"
  da_FaultDomain :: "FaultDomain"
  da_Provenance :: "string list"
  da_Certainty :: "ObservationCertainty"
  da_ProbeNames :: "string list"
  da_EvidenceIDs :: "string list"
  da_Limitations :: "string list"

definition zero_DNSApplicationObservation :: DNSApplicationObservation where
  "zero_DNSApplicationObservation = \<lparr>
    da_RequestedEndpoint = [], da_QueryName = [], da_QueryType = [], da_Result = [],
    da_UDP = zero_DNSApplicationTransportObservation,
    da_TCP = zero_DNSApplicationTransportObservation, da_Divergence = False,
    da_RequestAttempted = False, da_ResponseReceived = False, da_Timing = zero_Timing,
    da_FailureReason = [], da_FaultDomain = [], da_Provenance = [], da_Certainty = [],
    da_ProbeNames = [], da_EvidenceIDs = [], da_Limitations = []\<rparr>"

record SMBApplicationObservation =
  sm_Result :: "SMBResult"
  sm_Negotiated :: "bool"
  sm_Dialect :: "string"
  sm_DialectRevision :: "16 word"
  sm_Capabilities :: "string list"
  sm_ServerGUID :: "string"
  sm_SecurityMode :: "16 word"
  sm_MaxTransactSize :: "32 word"
  sm_MaxReadSize :: "32 word"
  sm_MaxWriteSize :: "32 word"
  sm_ResponseBytes :: "int"

definition zero_SMBApplicationObservation :: SMBApplicationObservation where
  "zero_SMBApplicationObservation = \<lparr>
    sm_Result = [], sm_Negotiated = False, sm_Dialect = [], sm_DialectRevision = 0,
    sm_Capabilities = [], sm_ServerGUID = [], sm_SecurityMode = 0, sm_MaxTransactSize = 0,
    sm_MaxReadSize = 0, sm_MaxWriteSize = 0, sm_ResponseBytes = 0\<rparr>"

record ApplicationObservation =
  ao_Applicability :: "ObservationApplicability"
  ao_RequestAttempted :: "bool"
  ao_ResponseReceived :: "bool"
  ao_TransportConnected :: "bool"
  ao_Protocol :: "ApplicationProtocol"
  ao_HandshakeAttempted :: "bool"
  ao_HandshakeComplete :: "bool"
  ao_ProtocolResult :: "ApplicationProtocolResult"
  ao_ServerIdentification :: "string"
  ao_RequestedSecurityProtocols :: "string list"
  ao_NegotiatedSecurityProtocol :: "string"
  ao_HTTPVersion :: "string"
  ao_StatusCode :: "int"
  ao_Status :: "string"
  ao_Result :: "ApplicationResult"
  ao_Timing :: "Timing"
  ao_RequestedResource :: "string"
  ao_EndpointUsed :: "Endpoint option"
  ao_URL :: "string"
  ao_Redirects :: "HTTPRedirectObservation list"
  ao_DNS :: "DNSApplicationObservation option"
  ao_FailureReason :: "FailureReason"
  ao_FaultDomain :: "FaultDomain"
  ao_Provenance :: "string list"
  ao_Certainty :: "ObservationCertainty"
  ao_ProbeNames :: "string list"
  ao_EvidenceIDs :: "string list"
  ao_Limitations :: "string list"
  ao_Conflicts :: "ObservationConflict list"
  ao_SMB :: "SMBApplicationObservation option"

definition zero_ApplicationObservation :: ApplicationObservation where
  "zero_ApplicationObservation = \<lparr>
    ao_Applicability = [], ao_RequestAttempted = False, ao_ResponseReceived = False,
    ao_TransportConnected = False, ao_Protocol = [], ao_HandshakeAttempted = False,
    ao_HandshakeComplete = False, ao_ProtocolResult = [], ao_ServerIdentification = [],
    ao_RequestedSecurityProtocols = [], ao_NegotiatedSecurityProtocol = [],
    ao_HTTPVersion = [], ao_StatusCode = 0, ao_Status = [], ao_Result = [],
    ao_Timing = zero_Timing, ao_RequestedResource = [], ao_EndpointUsed = None, ao_URL = [],
    ao_Redirects = [], ao_DNS = None, ao_FailureReason = [], ao_FaultDomain = [],
    ao_Provenance = [], ao_Certainty = [], ao_ProbeNames = [], ao_EvidenceIDs = [],
    ao_Limitations = [], ao_Conflicts = [], ao_SMB = None\<rparr>"

record PathResponder =
  ptr_Address :: "string"
  ptr_RTTMS :: "int"
  ptr_Response :: "string"
  ptr_DestinationReached :: "bool"

definition zero_PathResponder :: PathResponder where
  "zero_PathResponder = \<lparr>
    ptr_Address = [], ptr_RTTMS = 0, ptr_Response = [], ptr_DestinationReached = False\<rparr>"

record PathHop =
  pth_TTL :: "8 word"
  pth_State :: "PathHopState"
  pth_Attempts :: "int"
  pth_Responders :: "PathResponder list"

definition zero_PathHop :: PathHop where
  "zero_PathHop = \<lparr>
    pth_TTL = 0, pth_State = [], pth_Attempts = 0, pth_Responders = []\<rparr>"

record PathSegment =
  pts_Kind :: "PathSegmentKind"
  pts_FromTTL :: "8 word"
  pts_ToTTL :: "8 word"
  pts_Responders :: "PathResponder list"

definition zero_PathSegment :: PathSegment where
  "zero_PathSegment = \<lparr>
    pts_Kind = [], pts_FromTTL = 0, pts_ToTTL = 0, pts_Responders = []\<rparr>"

record PathObservation =
  pto_Status :: "PathObservationStatus"
  pto_Protocol :: "PathProtocol"
  pto_Destination :: "string"
  pto_DestinationPort :: "16 word"
  pto_PortAware :: "bool"
  pto_MaxTTL :: "8 word"
  pto_AttemptsPerTTL :: "int"
  pto_Hops :: "PathHop list"
  pto_Segments :: "PathSegment list"
  pto_DestinationReached :: "bool"
  pto_DestinationTCPConnected :: "bool"
  pto_Error :: "string"
  pto_ErrorType :: "string"

definition zero_PathObservation :: PathObservation where
  "zero_PathObservation = \<lparr>
    pto_Status = [], pto_Protocol = [], pto_Destination = [], pto_DestinationPort = 0,
    pto_PortAware = False, pto_MaxTTL = 0, pto_AttemptsPerTTL = 0, pto_Hops = [],
    pto_Segments = [], pto_DestinationReached = False, pto_DestinationTCPConnected = False,
    pto_Error = [], pto_ErrorType = []\<rparr>"

record PathCorrelation =
  ptc_Destination :: "string"
  ptc_DestinationPort :: "16 word"
  ptc_Observations :: "PathObservation list"
  ptc_TCPDestinationReached :: "bool"
  ptc_TCPDestinationConnected :: "bool"
  ptc_ICMPDestinationReached :: "bool"

definition zero_PathCorrelation :: PathCorrelation where
  "zero_PathCorrelation = \<lparr>
    ptc_Destination = [], ptc_DestinationPort = 0, ptc_Observations = [],
    ptc_TCPDestinationReached = False, ptc_TCPDestinationConnected = False,
    ptc_ICMPDestinationReached = False\<rparr>"

record ProbeIdentity =
  pid_SessionID :: "string"
  pid_ProbeID :: "string"
  pid_CorrelationID :: "string"

definition zero_ProbeIdentity :: ProbeIdentity where
  "zero_ProbeIdentity = \<lparr>
    pid_SessionID = [], pid_ProbeID = [], pid_CorrelationID = []\<rparr>"

record PacketObservation =
  pko_ID :: "string"
  pko_SessionID :: "string"
  pko_ProbeID :: "string"
  pko_CorrelationID :: "string"
  pko_Kind :: "PacketObservationKind"
  pko_Protocol :: "PacketProtocol"
  pko_Direction :: "PacketDirection"
  pko_Interface :: "string"
  pko_InterfaceIndex :: "32 word"
  pko_LocalAddress :: "string"
  pko_LocalPort :: "16 word"
  pko_SourceAddress :: "string"
  pko_SourcePort :: "16 word"
  pko_DestinationAddress :: "string"
  pko_DestinationPort :: "16 word"
  pko_TTL :: "8 word"
  pko_HopLimit :: "8 word"
  pko_ICMPType :: "8 word"
  pko_ICMPCode :: "8 word"
  pko_ICMPIdentifier :: "16 word"
  pko_ICMPSequence :: "16 word"
  pko_ProbeTTL :: "8 word"
  pko_ProbeAttempt :: "int"
  pko_QuotedProtocol :: "PacketProtocol"
  pko_QuotedSourceAddress :: "string"
  pko_QuotedSourcePort :: "16 word"
  pko_QuotedDestinationAddress :: "string"
  pko_QuotedDestinationPort :: "16 word"
  pko_QuotedICMPIdentifier :: "16 word"
  pko_QuotedICMPSequence :: "16 word"
  pko_ProcessID :: "32 word"
  pko_ConnectionID :: "string"
  pko_ObservedAt :: "gotime"
  pko_Certainty :: "EvidenceCertainty"

definition zero_PacketObservation :: PacketObservation where
  "zero_PacketObservation = \<lparr>
    pko_ID = [], pko_SessionID = [], pko_ProbeID = [], pko_CorrelationID = [], pko_Kind = [],
    pko_Protocol = [], pko_Direction = [], pko_Interface = [], pko_InterfaceIndex = 0,
    pko_LocalAddress = [], pko_LocalPort = 0, pko_SourceAddress = [], pko_SourcePort = 0,
    pko_DestinationAddress = [], pko_DestinationPort = 0, pko_TTL = 0, pko_HopLimit = 0,
    pko_ICMPType = 0, pko_ICMPCode = 0, pko_ICMPIdentifier = 0, pko_ICMPSequence = 0,
    pko_ProbeTTL = 0, pko_ProbeAttempt = 0, pko_QuotedProtocol = [],
    pko_QuotedSourceAddress = [], pko_QuotedSourcePort = 0,
    pko_QuotedDestinationAddress = [], pko_QuotedDestinationPort = 0,
    pko_QuotedICMPIdentifier = 0, pko_QuotedICMPSequence = 0, pko_ProcessID = 0,
    pko_ConnectionID = [], pko_ObservedAt = 0, pko_Certainty = []\<rparr>"

record PacketFlowEvidence =
  pkf_SessionID :: "string"
  pkf_ProbeID :: "string"
  pkf_CorrelationID :: "string"
  pkf_Target :: "Target"
  pkf_CaptureStatus :: "PacketCaptureStatus"
  pkf_CaptureSource :: "string"
  pkf_CaptureError :: "string"
  pkf_EventsLost :: "64 word"
  pkf_WindowStartedAt :: "gotime"
  pkf_WindowCompletedAt :: "gotime"
  pkf_ProbeEmission :: "PacketEmissionState"
  pkf_Outcome :: "PacketFlowOutcome"
  pkf_CorrelationMethod :: "string"
  pkf_MatchedObservationIDs :: "string list"
  pkf_Certainty :: "EvidenceCertainty"
  pkf_LocalAddress :: "string"
  pkf_LocalPort :: "16 word"
  pkf_Observations :: "PacketObservation list"

definition zero_PacketFlowEvidence :: PacketFlowEvidence where
  "zero_PacketFlowEvidence = \<lparr>
    pkf_SessionID = [], pkf_ProbeID = [], pkf_CorrelationID = [], pkf_Target = zero_Target,
    pkf_CaptureStatus = [], pkf_CaptureSource = [], pkf_CaptureError = [],
    pkf_EventsLost = 0, pkf_WindowStartedAt = 0, pkf_WindowCompletedAt = 0,
    pkf_ProbeEmission = [], pkf_Outcome = [], pkf_CorrelationMethod = [],
    pkf_MatchedObservationIDs = [], pkf_Certainty = [], pkf_LocalAddress = [],
    pkf_LocalPort = 0, pkf_Observations = []\<rparr>"

record BrowserCaptureDestination =
  bd_RequestedHostname :: "string"
  bd_RequestedAuthority :: "string"
  bd_Port :: "16 word"
  bd_Mechanism :: "BrowserCaptureMechanism"
  bd_Mechanisms :: "BrowserCaptureMechanism list"
  bd_ResolvedAddressCandidates :: "string list"
  bd_ConnectedAddress :: "string"
  bd_ConnectedEndpoint :: "string"
  bd_ConnectedEndpoints :: "string list"
  bd_Outcome :: "BrowserCaptureOutcome"
  bd_FailureReason :: "string"
  bd_FailureReasons :: "string list"
  bd_FirstSeen :: "gotime"
  bd_LastSeen :: "gotime"
  bd_ObservationCount :: "64 word"
  bd_ConnectionCount :: "64 word"
  bd_SuccessCount :: "64 word"
  bd_FailureCount :: "64 word"
  bd_Provenance :: "string"

definition zero_BrowserCaptureDestination :: BrowserCaptureDestination where
  "zero_BrowserCaptureDestination = \<lparr>
    bd_RequestedHostname = [], bd_RequestedAuthority = [], bd_Port = 0, bd_Mechanism = [],
    bd_Mechanisms = [], bd_ResolvedAddressCandidates = [], bd_ConnectedAddress = [],
    bd_ConnectedEndpoint = [], bd_ConnectedEndpoints = [], bd_Outcome = [],
    bd_FailureReason = [], bd_FailureReasons = [], bd_FirstSeen = 0, bd_LastSeen = 0,
    bd_ObservationCount = 0, bd_ConnectionCount = 0, bd_SuccessCount = 0,
    bd_FailureCount = 0, bd_Provenance = []\<rparr>"

record BrowserCaptureObservation =
  bo_SessionID :: "string"
  bo_Browser :: "string"
  bo_State :: "BrowserCaptureState"
  bo_ProxyAddress :: "string"
  bo_StartedAt :: "gotime"
  bo_StoppedAt :: "gotime option"
  bo_Destinations :: "BrowserCaptureDestination list"
  bo_UniqueDestinationCount :: "64 word"
  bo_UniqueAddressCount :: "64 word"
  bo_ObservationCount :: "64 word"
  bo_FailureCount :: "64 word"
  bo_Limitations :: "string list"
  bo_Error :: "string"

definition zero_BrowserCaptureObservation :: BrowserCaptureObservation where
  "zero_BrowserCaptureObservation = \<lparr>
    bo_SessionID = [], bo_Browser = [], bo_State = [], bo_ProxyAddress = [],
    bo_StartedAt = 0, bo_StoppedAt = None, bo_Destinations = [],
    bo_UniqueDestinationCount = 0, bo_UniqueAddressCount = 0, bo_ObservationCount = 0,
    bo_FailureCount = 0, bo_Limitations = [], bo_Error = []\<rparr>"

end
