(* ===== verification/Target.thy ===== *)
theory Target
  imports GoURL ModelTypes
begin

text \<open>
  \<open>internal/model/target.go\<close> and \<open>internal/model/ip.go\<close>: the service profiles, the one parser of
  destinations (\<open>ParseTarget\<close>), the normalisation of targets that callers build themselves, the
  bounded endpoint candidates, and the checks the probes make on a target.
\<close>

section \<open>Addresses (ip.go)\<close>

definition NormalizeAddr :: "Addr \<Rightarrow> Addr" where
  "NormalizeAddr address = unmap address"

section \<open>Service profiles\<close>

definition tcpProfile :: "ServiceProfileID \<Rightarrow> string \<Rightarrow> ApplicationProtocol \<Rightarrow> 16 word \<Rightarrow> ProbeIntent list \<Rightarrow> ServiceProfile" where
  "tcpProfile sid label proto port intents = \<lparr>sp_ID = sid, sp_Label = label,
     sp_ApplicationProtocol = proto, sp_TransportProtocol = TransportTCP,
     sp_ApplicableTransports = [TransportTCP], sp_DefaultPort = port, sp_ProbeIntents = intents\<rparr>"

definition profileTable :: "(ServiceProfileID \<times> ServiceProfile) list" where
  "profileTable = [
     (ServiceProfileHTTP, tcpProfile ServiceProfileHTTP ''HTTP'' ApplicationProtocolHTTP 80
        [ProbeIntentTCPConnection, ProbeIntentHTTP]),
     (ServiceProfileHTTPS, tcpProfile ServiceProfileHTTPS ''HTTPS'' ApplicationProtocolHTTPS 443
        [ProbeIntentTCPConnection, ProbeIntentTLS, ProbeIntentHTTP]),
     (ServiceProfileSMB, tcpProfile ServiceProfileSMB ''File sharing (SMB)'' ApplicationProtocolSMB 445
        [ProbeIntentTCPConnection, ProbeIntentSMB]),
     (ServiceProfileRDP, tcpProfile ServiceProfileRDP ''RDP'' ApplicationProtocolRDP 3389
        [ProbeIntentTCPConnection, ProbeIntentRDP]),
     (ServiceProfileSSH, tcpProfile ServiceProfileSSH ''SSH'' ApplicationProtocolSSH 22
        [ProbeIntentTCPConnection, ProbeIntentSSH]),
     (ServiceProfileDNS, \<lparr>sp_ID = ServiceProfileDNS, sp_Label = ''DNS'',
        sp_ApplicationProtocol = ApplicationProtocolDNS, sp_TransportProtocol = TransportUDPAndTCP,
        sp_ApplicableTransports = [TransportUDP, TransportTCP], sp_DefaultPort = 53,
        sp_ProbeIntents = [ProbeIntentTCPConnection, ProbeIntentDNS]\<rparr>),
     (ServiceProfileCustomTCP, tcpProfile ServiceProfileCustomTCP ''Custom TCP'' ApplicationProtocolCustom 0
        [ProbeIntentTCPConnection]),
     (ServiceProfileCustomTLS, tcpProfile ServiceProfileCustomTLS ''Custom TLS'' ApplicationProtocolTLS 0
        [ProbeIntentTCPConnection, ProbeIntentTLS])]"

definition serviceProfiles :: "ServiceProfileID \<Rightarrow> ServiceProfile option" where
  "serviceProfiles = map_of profileTable"

definition cloneServiceProfile :: "ServiceProfile \<Rightarrow> ServiceProfile" where
  "cloneServiceProfile profile = profile
     \<lparr>sp_ApplicableTransports := [] @ sp_ApplicableTransports profile,
      sp_ProbeIntents := [] @ sp_ProbeIntents profile\<rparr>"

definition ServiceProfiles :: "ServiceProfile list" where
  "ServiceProfiles = map (cloneServiceProfile \<circ> the \<circ> serviceProfiles)
     [ServiceProfileHTTP, ServiceProfileHTTPS, ServiceProfileSMB, ServiceProfileRDP,
      ServiceProfileSSH, ServiceProfileDNS, ServiceProfileCustomTCP, ServiceProfileCustomTLS]"

datatype TargetError =
    TargetEmpty | TargetSurroundingSpace | TargetControlCharacter
  | UNCMissingShare | UNCEmptyComponent
  | URLUnparsable | URLNoScheme | UnsupportedScheme string | URLNoHostOrUserInfo | URLFragment
  | MalformedBrackets | BracketedHostInvalid | MalformedIPv6Endpoint
  | MissingHost | MissingHostOrPort | PortMissing | PortInvalid string | IPv6PortNeedsBrackets
  | HostInvalid | HostnameInvalid
  | UnknownServiceProfile string | ServiceConflict string string
  | PortZero | PortConflict "16 word" "16 word" | PortRequired string

definition aliasProfileID :: "string \<Rightarrow> string" where
  "aliasProfileID normalized =
     (if normalized = ''http'' then ServiceProfileHTTP
      else if normalized = ''https'' then ServiceProfileHTTPS
      else if normalized \<in> set [''smb'', ''file'', ''filesharing'', ''file-sharing''] then ServiceProfileSMB
      else if normalized = ''rdp'' then ServiceProfileRDP
      else if normalized = ''ssh'' then ServiceProfileSSH
      else if normalized = ''dns'' then ServiceProfileDNS
      else if normalized \<in> set [''tcp'', ''custom-tcp''] then ServiceProfileCustomTCP
      else if normalized \<in> set [''tls'', ''custom-tls''] then ServiceProfileCustomTLS
      else normalized)"

definition LookupServiceProfile :: "ServiceProfileID \<Rightarrow> TargetError + ServiceProfile" where
  "LookupServiceProfile value0 =
     (let v = (if value0 = [] then ServiceProfileHTTP else value0);
          normalized = aliasProfileID (toLower (trimSpace v))
      in case serviceProfiles normalized of
           None \<Rightarrow> Inl (UnknownServiceProfile v)
         | Some profile \<Rightarrow> Inr (cloneServiceProfile profile))"

section \<open>The pieces of the parser\<close>

definition isUNC :: "string \<Rightarrow> bool" where
  "isUNC raw = hasPrefix [CHR 0x5C] raw"

definition parseUNC :: "string \<Rightarrow> TargetError + string \<times> string" where
  "parseUNC raw =
     (let parts = splitByte CHR 0x5C (trimLeftSet [CHR 0x5C] raw)
      in if length parts < 2 \<or> parts ! 0 = [] \<or> parts ! 1 = [] then Inl UNCMissingShare
         else if list_ex (\<lambda>part. part = []) parts then Inl UNCEmptyComponent
         else Inr (parts ! 0, ''/'' @ joinStr ''/'' (drop 1 parts)))"

definition isLetterC :: "char \<Rightarrow> bool" where
  "isLetterC c \<longleftrightarrow> isLowerC c \<or> isUpperC c"

definition hasURIStyleScheme :: "string \<Rightarrow> bool" where
  "hasURIStyleScheme raw = (case indexByte CHR '':'' raw of
     None \<Rightarrow> False
   | Some colon \<Rightarrow>
       if colon = 0 then False
       else (case take colon raw of [] \<Rightarrow> True
         | c # cs \<Rightarrow> isLetterC c \<and> list_all (\<lambda>d. isLetterC d \<or> isDigitC d \<or> d \<in> set ''+-.'') cs))"

definition isLiteralAddressInput :: "string \<Rightarrow> bool" where
  "isLiteralAddressInput raw \<longleftrightarrow> parseAddr raw \<noteq> None"

definition looksLikeHostPort :: "string \<Rightarrow> bool" where
  "looksLikeHostPort raw =
     (if countByte CHR '':'' raw \<noteq> 1 \<or> containsAny [CHR ''/'', CHR 0x5C] raw then False
      else case indexByte CHR '':'' raw of
          None \<Rightarrow> False
        | Some separator \<Rightarrow>
            if separator = 0 \<or> separator = length raw - 1 then False
            else \<not> equalFold (take separator raw) ''javascript'')"

definition profileForScheme :: "string \<Rightarrow> TargetError + ServiceProfile" where
  "profileForScheme scheme =
     (let s = toLower scheme in
      if s = ''http'' then LookupServiceProfile ServiceProfileHTTP
      else if s = ''https'' then LookupServiceProfile ServiceProfileHTTPS
      else if s = ''smb'' then LookupServiceProfile ServiceProfileSMB
      else if s = ''rdp'' then LookupServiceProfile ServiceProfileRDP
      else if s = ''ssh'' then LookupServiceProfile ServiceProfileSSH
      else if s = ''dns'' then LookupServiceProfile ServiceProfileDNS
      else if s = ''tcp'' then LookupServiceProfile ServiceProfileCustomTCP
      else if s = ''tls'' then LookupServiceProfile ServiceProfileCustomTLS
      else Inl (UnsupportedScheme scheme))"

definition parsePort :: "string \<Rightarrow> TargetError + 16 word" where
  "parsePort raw =
     (if raw = [] then Inl PortMissing
      else case parseUint 65536 raw of
          None \<Rightarrow> Inl (PortInvalid raw)
        | Some v \<Rightarrow> if v = 0 then Inl (PortInvalid raw) else Inr (of_nat v))"

text \<open>A host and a port: \<open>(host, port, hasPort)\<close> with the flag and the port as one option.\<close>

definition withPort :: "string \<Rightarrow> string \<Rightarrow> TargetError + string \<times> 16 word option" where
  "withPort host portText = (case parsePort portText of
     Inl e \<Rightarrow> Inl e | Inr port \<Rightarrow> Inr (host, Some port))"

definition parseHostInput :: "string \<Rightarrow> TargetError + string \<times> 16 word option" where
  "parseHostInput raw = (case parseAddr raw of
     Some address \<Rightarrow> Inr (addrString address, None)
   | None \<Rightarrow>
       if hasPrefix ''['' raw then
         (case indexByte CHR '']'' raw of
            None \<Rightarrow> Inl MalformedBrackets
          | Some closeBracket \<Rightarrow>
              let host = take (closeBracket - 1) (drop 1 raw); rest = drop (closeBracket + 1) raw
              in if parseAddr host = None then Inl BracketedHostInvalid
                 else if rest = [] then Inr (host, None)
                 else if \<not> hasPrefix '':'' rest then Inl MalformedIPv6Endpoint
                 else withPort host (drop 1 rest))
       else (case splitHostPort raw of
           Some (hostPart, portPart) \<Rightarrow>
             if hostPart = [] then Inl MissingHost else withPort hostPart portPart
         | None \<Rightarrow>
             if countByte CHR '':'' raw = 1 then
               (case lastIndexByte CHR '':'' raw of
                  None \<Rightarrow> Inl MissingHostOrPort
                | Some separator \<Rightarrow>
                    if separator = 0 \<or> separator = length raw - 1 then Inl MissingHostOrPort
                    else withPort (take separator raw) (drop (separator + 1) raw))
             else if containsStr '':'' raw then Inl IPv6PortNeedsBrackets
             else Inr (raw, None)))"

definition hostCharOk :: "char \<Rightarrow> bool" where
  "hostCharOk c \<longleftrightarrow> c = CHR ''-'' \<or> c = CHR ''_'' \<or> c = CHR ''.'' \<or> isLowerC c \<or> isDigitC c \<or> 127 < byteOf c"

definition labelOk :: "string \<Rightarrow> bool" where
  "labelOk label \<longleftrightarrow> label \<noteq> [] \<and> length label \<le> 63 \<and> hd label \<noteq> CHR ''-'' \<and> last label \<noteq> CHR ''-''
     \<and> list_all hostCharOk label"

definition canonicalIdentity :: "string \<Rightarrow> TargetError + string \<times> string" where
  "canonicalIdentity host =
     (if host = [] \<or> list_ex (\<lambda>c. isSpaceC c \<or> isControlC c) host then Inl HostInvalid
      else case parseAddr host of
          Some address \<Rightarrow> let s = addrString (NormalizeAddr address) in Inr (s, s)
        | None \<Rightarrow>
            if 253 < length host \<or> containsAny ''[]/'' host then Inl HostnameInvalid
            else let h = toLower (trimSuffix ''.'' host)
              in if h = [] \<or> containsStr ''..'' h then Inl HostnameInvalid
                 else if list_all labelOk (splitByte CHR ''.'' h) then Inr (h, [])
                 else Inl HostnameInvalid)"

section \<open>The parser\<close>

text \<open>
  The first half of \<open>ParseTarget\<close>: host, resource, port of the input and the profile its scheme
  (or UNC form) fixes. \<open>inputPort\<close> with \<open>hasInputPort\<close>, and \<open>profile\<close> with \<open>hasInputScheme\<close>, are
  one option each, as the code reads the first only where the second holds.
\<close>

type_synonym parsedInput = "string \<times> string \<times> 16 word option \<times> ServiceProfile option"

definition parseURLInput :: "string \<Rightarrow> TargetError + parsedInput" where
  "parseURLInput raw = (case urlParse raw of
     None \<Rightarrow> Inl URLUnparsable
   | Some parsed \<Rightarrow>
       if urlSchemeOf parsed = [] then Inl URLNoScheme
       else (case profileForScheme (urlSchemeOf parsed) of
           Inl e \<Rightarrow> Inl e
         | Inr profile \<Rightarrow>
             if urlHasUser parsed \<or> urlHost parsed = [] \<or> urlHostname parsed = [] then Inl URLNoHostOrUserInfo
             else (case (if urlPort parsed = [] then Inr None else map_sum id Some (parsePort (urlPort parsed))) of
                 Inl e \<Rightarrow> Inl e
               | Inr port \<Rightarrow>
                   let resource = urlEscapedPath parsed @
                     (if urlRawQuery parsed = [] then [] else ''?'' @ urlRawQuery parsed)
                   in if urlFragment parsed \<noteq> [] then Inl URLFragment
                      else Inr (urlHostname parsed, resource, port, Some profile))))"

definition parseInput :: "string \<Rightarrow> TargetError + parsedInput" where
  "parseInput raw =
     (if isUNC raw then
        (case parseUNC raw of
           Inl e \<Rightarrow> Inl e
         | Inr (host, resource) \<Rightarrow>
             (case LookupServiceProfile ServiceProfileSMB of
                Inl e \<Rightarrow> Inl e
              | Inr profile \<Rightarrow> Inr (host, resource, None, Some profile)))
      else if \<not> isLiteralAddressInput raw \<and>
          (containsStr ''://'' raw \<or> hasURIStyleScheme raw \<and> \<not> looksLikeHostPort raw) then
        parseURLInput raw
      else (case parseHostInput raw of
          Inl e \<Rightarrow> Inl e
        | Inr (host, port) \<Rightarrow> Inr (host, [], port, None)))"

definition chooseProfile :: "ServiceProfileID \<Rightarrow> ServiceProfile option \<Rightarrow> TargetError + ServiceProfile" where
  "chooseProfile service inputProfile =
     (case (if service = [] then Inr inputProfile
            else (case LookupServiceProfile service of
                Inl e \<Rightarrow> Inl e
              | Inr explicit \<Rightarrow>
                  (case inputProfile of
                     Some p \<Rightarrow> if sp_ID explicit \<noteq> sp_ID p then Inl (ServiceConflict (sp_ID explicit) (sp_ID p))
                       else Inr (Some explicit)
                   | None \<Rightarrow> Inr (Some explicit)))) of
        Inl e \<Rightarrow> Inl e
      | Inr (Some p) \<Rightarrow>
          if inputProfile = None then
            (if service \<noteq> [] then LookupServiceProfile service else LookupServiceProfile ServiceProfileHTTP)
          else Inr p
      | Inr None \<Rightarrow>
          if service \<noteq> [] then LookupServiceProfile service else LookupServiceProfile ServiceProfileHTTP)"

definition choosePort :: "16 word option \<Rightarrow> 16 word option \<Rightarrow> ServiceProfile \<Rightarrow> TargetError + 16 word" where
  "choosePort intentPort inputPort profile = (case intentPort of
     Some p \<Rightarrow>
       if p = 0 then Inl PortZero
       else (case inputPort of
           Some q \<Rightarrow> if q \<noteq> p then Inl (PortConflict q p) else Inr p
         | None \<Rightarrow> Inr p)
   | None \<Rightarrow> (case inputPort of
         Some q \<Rightarrow> Inr q
       | None \<Rightarrow> if sp_DefaultPort profile = 0 then Inl (PortRequired (sp_Label profile))
           else Inr (sp_DefaultPort profile)))"

definition ParseTarget :: "TargetIntent \<Rightarrow> TargetError + Target" where
  "ParseTarget intent = (let raw = ti_Input intent in
     if trimSpace raw = [] then Inl TargetEmpty
     else if trimSpace raw \<noteq> raw then Inl TargetSurroundingSpace
     else if list_ex isControlC raw then Inl TargetControlCharacter
     else case parseInput raw of
         Inl e \<Rightarrow> Inl e
       | Inr (host, resource, inputPort, inputProfile) \<Rightarrow>
           (case canonicalIdentity host of
              Inl e \<Rightarrow> Inl e
            | Inr (identity, literalIP) \<Rightarrow>
                (case chooseProfile (ti_Service intent) inputProfile of
                   Inl e \<Rightarrow> Inl e
                 | Inr profile \<Rightarrow>
                     (case choosePort (ti_Port intent) inputPort profile of
                        Inl e \<Rightarrow> Inl e
                      | Inr port \<Rightarrow> Inr (zero_Target
                          \<lparr>tg_OriginalInput := raw, tg_RequestedIdentity := identity,
                           tg_LiteralIP := literalIP, tg_Service := profile,
                           tg_ApplicationProtocol := sp_ApplicationProtocol profile,
                           tg_TransportProtocol := sp_TransportProtocol profile,
                           tg_Port := port, tg_Resource := resource\<rparr>)))))"

definition NewTarget :: "string \<Rightarrow> 16 word \<Rightarrow> Target" where
  "NewTarget identity port =
     (if port = 0 then zero_Target\<lparr>tg_RequestedIdentity := identity\<rparr>
      else case ParseTarget (zero_TargetIntent\<lparr>ti_Input := identity, ti_Port := Some port\<rparr>) of
          Inr target \<Rightarrow> target
        | Inl _ \<Rightarrow> zero_Target\<lparr>tg_OriginalInput := identity, tg_RequestedIdentity := identity, tg_Port := port\<rparr>)"

section \<open>Endpoint candidates\<close>

definition familyOf :: "Addr \<Rightarrow> EndpointFamily" where
  "familyOf address = (if is4 address then EndpointFamilyIPv4 else EndpointFamilyIPv6)"

definition normalizeEndpointCandidate :: "EndpointCandidate \<Rightarrow> int \<Rightarrow> EndpointCandidate" where
  "normalizeEndpointCandidate candidate fallbackOrder =
     (let text = trimSet ''[]'' (trimSpace (ec_Address candidate));
          c1 = candidate\<lparr>ec_Address := text\<rparr>;
          c2 = (case parseAddr text of
              None \<Rightarrow> c1
            | Some address0 \<Rightarrow>
                let address = NormalizeAddr address0 in
                c1\<lparr>ec_Address := addrString address,
                   ec_Family := (if ec_Family c1 = [] then familyOf address else ec_Family c1)\<rparr>);
          c3 = c2\<lparr>ec_EvidenceIDs := [] @ ec_EvidenceIDs c2\<rparr>
      in if ec_Order c3 \<le> 0 then c3\<lparr>ec_Order := fallbackOrder\<rparr> else c3)"

text \<open>
  The loop of \<open>normalizeEndpointCandidates\<close>: \<open>result\<close> is the slice built so far, and \<open>seen\<close>
  holds exactly its addresses.
\<close>

fun normalizeCandidatesLoop :: "EndpointCandidate list \<Rightarrow> EndpointCandidate list \<Rightarrow> EndpointCandidate list" where
  "normalizeCandidatesLoop result [] = result"
| "normalizeCandidatesLoop result (c # cs) =
     (let candidate = normalizeEndpointCandidate c (int (length result) + 1) in
      if ec_Address candidate = [] then normalizeCandidatesLoop result cs
      else if ec_Address candidate \<in> ec_Address ` set result then normalizeCandidatesLoop result cs
      else normalizeCandidatesLoop (result @ [candidate\<lparr>ec_Order := int (length result) + 1\<rparr>]) cs)"

definition normalizeEndpointCandidates :: "EndpointCandidate list \<Rightarrow> EndpointCandidate list" where
  "normalizeEndpointCandidates candidates = normalizeCandidatesLoop [] candidates"

fun appendFamily :: "EndpointFamily \<Rightarrow> EndpointCandidate list \<Rightarrow> string list \<Rightarrow> EndpointCandidate list" where
  "appendFamily family candidates [] = candidates"
| "appendFamily family candidates (raw # raws) =
     (case parseAddr (trimSet ''[]'' (trimSpace raw)) of
        None \<Rightarrow> appendFamily family candidates raws
      | Some address \<Rightarrow>
          let v = addrString (NormalizeAddr address) in
          if v \<in> ec_Address ` set candidates then appendFamily family candidates raws
          else appendFamily family (candidates @ [zero_EndpointCandidate
            \<lparr>ec_Address := v, ec_Family := family, ec_Order := int (length candidates) + 1\<rparr>]) raws)"

definition EndpointCandidatesFromAnswers :: "string list \<Rightarrow> string list \<Rightarrow> EndpointCandidate list" where
  "EndpointCandidatesFromAnswers a aaaa =
     appendFamily EndpointFamilyIPv6 (appendFamily EndpointFamilyIPv4 [] a) aaaa"

definition LimitEndpointCandidates :: "EndpointCandidate list \<Rightarrow> int \<Rightarrow> EndpointCandidate list" where
  "LimitEndpointCandidates candidates limit0 =
     (let limit = (if limit0 \<le> 0 then MaxEndpointCandidates else limit0);
          result = normalizeEndpointCandidates candidates
      in if int (length result) > limit then take (nat limit) result else result)"

section \<open>Normalisation\<close>

definition cloneConflict :: "ObservationConflict \<Rightarrow> ObservationConflict" where
  "cloneConflict v = v\<lparr>oc_Values := [] @ oc_Values v, oc_Provenance := [] @ oc_Provenance v,
     oc_EvidenceIDs := [] @ oc_EvidenceIDs v\<rparr>"

definition cloneObservationConflicts :: "ObservationConflict list \<Rightarrow> ObservationConflict list" where
  "cloneObservationConflicts vs = map cloneConflict vs"

definition cloneEndpoint :: "Endpoint \<Rightarrow> Endpoint" where
  "cloneEndpoint v = v\<lparr>ep_EvidenceIDs := [] @ ep_EvidenceIDs v\<rparr>"

definition cloneNetworkContext :: "NetworkContext \<Rightarrow> NetworkContext" where
  "cloneNetworkContext v = v\<lparr>
     nc_CompetingRoutes := [] @ nc_CompetingRoutes v, nc_Provenance := [] @ nc_Provenance v,
     nc_EvidenceIDs := [] @ nc_EvidenceIDs v, nc_ProbeNames := [] @ nc_ProbeNames v,
     nc_Limitations := [] @ nc_Limitations v,
     nc_Conflicts := cloneObservationConflicts (nc_Conflicts v),
     nc_Neighbor := map_option (\<lambda>n. n\<lparr>nv_Entries := [] @ nv_Entries n\<rparr>) (nc_Neighbor v)\<rparr>"

definition normalizeAttempt :: "EndpointAttempt \<Rightarrow> EndpointAttempt" where
  "normalizeAttempt a = a\<lparr>
     ea_Candidate := normalizeEndpointCandidate (ea_Candidate a) (ec_Order (ea_Candidate a)),
     ea_EvidenceIDs := [] @ ea_EvidenceIDs a\<rparr>"

definition normalizeTargetIdentity :: "Target \<Rightarrow> Target" where
  "normalizeTargetIdentity t =
     (if tg_LiteralIP t = [] then
        (case parseAddr (tg_RequestedIdentity t) of
           Some address \<Rightarrow> let s = addrString (NormalizeAddr address) in
             t\<lparr>tg_LiteralIP := s, tg_RequestedIdentity := s\<rparr>
         | None \<Rightarrow> t)
      else t)"

definition fillTargetProfile :: "Target \<Rightarrow> Target" where
  "fillTargetProfile t0 =
     (let t1 = (if sp_ID (tg_Service t0) = [] then
            (case LookupServiceProfile ServiceProfileHTTP of
               Inr profile \<Rightarrow> t0\<lparr>tg_Service := profile\<rparr> | Inl _ \<Rightarrow> t0)
          else t0);
          t2 = (if tg_ApplicationProtocol t1 = [] then
            t1\<lparr>tg_ApplicationProtocol := sp_ApplicationProtocol (tg_Service t1)\<rparr> else t1);
          t3 = (if tg_TransportProtocol t2 = [] then
            t2\<lparr>tg_TransportProtocol := sp_TransportProtocol (tg_Service t2)\<rparr> else t2)
      in if tg_Port t3 = 0 then t3\<lparr>tg_Port := sp_DefaultPort (tg_Service t3)\<rparr> else t3)"

definition NormalizeTarget :: "Target \<Rightarrow> Target" where
  "NormalizeTarget target =
     (case (if tg_RequestedIdentity target = [] \<and> tg_OriginalInput target \<noteq> [] then
              (case ParseTarget (zero_TargetIntent\<lparr>ti_Input := tg_OriginalInput target\<rparr>) of
                 Inr parsed \<Rightarrow> Some parsed | Inl _ \<Rightarrow> None)
            else None) of
        Some parsed \<Rightarrow> parsed
      | None \<Rightarrow>
          let t = normalizeTargetIdentity (fillTargetProfile target) in
          t\<lparr>tg_ResolvedAddresses := [] @ tg_ResolvedAddresses t,
            tg_ResolvedCandidates := normalizeEndpointCandidates (tg_ResolvedCandidates t),
            tg_ProbeCandidates := normalizeEndpointCandidates (tg_ProbeCandidates t),
            tg_CandidateAttempts := map normalizeAttempt (tg_CandidateAttempts t),
            tg_SelectedEndpoint := map_option cloneEndpoint (tg_SelectedEndpoint t),
            tg_TestedEndpoint := map_option cloneEndpoint (tg_TestedEndpoint t),
            tg_NetworkContext := map_option cloneNetworkContext (tg_NetworkContext t)\<rparr>)"

definition TargetIntentOnly :: "Target \<Rightarrow> Target" where
  "TargetIntentOnly target = (NormalizeTarget target)\<lparr>tg_ResolvedAddresses := [],
     tg_ResolvedCandidates := [], tg_ProbeCandidates := [], tg_CandidateAttempts := [],
     tg_SelectedEndpoint := None, tg_TestedEndpoint := None, tg_NetworkContext := None\<rparr>"

section \<open>What the probes ask of a target\<close>

definition ProbeEndpointCandidates :: "Target \<Rightarrow> EndpointCandidate list" where
  "ProbeEndpointCandidates target0 =
     (let target = NormalizeTarget target0;
          literal = (if tg_LiteralIP target \<noteq> [] then parseAddr (tg_LiteralIP target) else None)
      in case literal of
        Some address \<Rightarrow> [zero_EndpointCandidate
          \<lparr>ec_Address := addrString (NormalizeAddr address), ec_Family := familyOf address, ec_Order := 1\<rparr>]
      | None \<Rightarrow>
          if tg_ProbeCandidates target \<noteq> [] then
            LimitEndpointCandidates (tg_ProbeCandidates target) MaxEndpointCandidates
          else if tg_ResolvedCandidates target = [] \<and> tg_ResolvedAddresses target \<noteq> [] then
            (let parsed = (\<lambda>s. parseAddr (trimSet ''[]'' (trimSpace s)));
                 v4s = filter (\<lambda>s. case parsed s of Some a \<Rightarrow> is4 a | None \<Rightarrow> False) (tg_ResolvedAddresses target);
                 v6s = filter (\<lambda>s. case parsed s of Some a \<Rightarrow> \<not> is4 a | None \<Rightarrow> False) (tg_ResolvedAddresses target)
             in LimitEndpointCandidates (EndpointCandidatesFromAnswers v4s v6s) MaxEndpointCandidates)
          else (case tg_SelectedEndpoint target of
              Some e \<Rightarrow>
                if ep_Address e \<noteq> [] then
                  [normalizeEndpointCandidate (zero_EndpointCandidate
                     \<lparr>ec_Address := ep_Address e, ec_Family := ep_Family e, ec_Order := 1\<rparr>) 1]
                else LimitEndpointCandidates (tg_ResolvedCandidates target) MaxEndpointCandidates
            | None \<Rightarrow> LimitEndpointCandidates (tg_ResolvedCandidates target) MaxEndpointCandidates))"

datatype TargetCheckError =
    NotHTTPService string | IdentityEmpty | ResourceNotPath
  | IdentityInvalid TargetError | LiteralMismatch | LiteralMissing | IdentityNotCanonical
  | PortUnset | IdentityBrackets | IdentityNotIPv6

definition portText :: "16 word \<Rightarrow> string" where
  "portText p = itoa (unat p)"

definition HTTPURL :: "Target \<Rightarrow> TargetCheckError + string" where
  "HTTPURL target0 =
     (let target = NormalizeTarget target0 in
      if tg_ApplicationProtocol target \<noteq> ApplicationProtocolHTTP \<and>
         tg_ApplicationProtocol target \<noteq> ApplicationProtocolHTTPS
      then Inl (NotHTTPService (sp_Label (tg_Service target)))
      else if tg_RequestedIdentity target = [] then Inl IdentityEmpty
      else let base = urlString (tg_ApplicationProtocol target)
                 (joinHostPort (tg_RequestedIdentity target) (portText (tg_Port target)))
        in if tg_Resource target = [] then Inr base
           else if \<not> hasPrefix ''/'' (tg_Resource target) \<and> \<not> hasPrefix ''?'' (tg_Resource target)
           then Inl ResourceNotPath
           else Inr (base @ tg_Resource target))"

definition Validate :: "Target \<Rightarrow> TargetCheckError option" where
  "Validate target0 =
     (let target = NormalizeTarget target0 in
      case canonicalIdentity (tg_RequestedIdentity target) of
        Inl e \<Rightarrow> Some (IdentityInvalid e)
      | Inr (identity, literal) \<Rightarrow>
          if tg_LiteralIP target \<noteq> [] \<and> tg_LiteralIP target \<noteq> literal then Some LiteralMismatch
          else if literal \<noteq> [] \<and> tg_LiteralIP target = [] then Some LiteralMissing
          else if identity \<noteq> tg_RequestedIdentity target then Some IdentityNotCanonical
          else None)"

definition EndpointAddress :: "Target \<Rightarrow> TargetCheckError + string" where
  "EndpointAddress target0 =
     (let target = NormalizeTarget target0 in
      case Validate target of
        Some e \<Rightarrow> Inl e
      | None \<Rightarrow>
          if tg_Port target = 0 then Inl PortUnset
          else let address = (case tg_SelectedEndpoint target of
                 Some e \<Rightarrow> if ep_Address e \<noteq> [] then ep_Address e else tg_RequestedIdentity target
               | None \<Rightarrow> tg_RequestedIdentity target)
            in if address = [] then Inl IdentityEmpty
               else if containsAny ''[]'' address then Inl IdentityBrackets
               else if containsStr '':'' address \<and> parseAddr address = None then Inl IdentityNotIPv6
               else Inr (joinHostPort address (portText (tg_Port target))))"

definition canonicalAddressText :: "string \<Rightarrow> string" where
  "canonicalAddressText s = (let t = trimSet ''[]'' (trimSpace s) in
     case parseAddr t of Some a \<Rightarrow> addrString (NormalizeAddr a) | None \<Rightarrow> t)"

definition MatchesAddress :: "Target \<Rightarrow> string \<Rightarrow> bool" where
  "MatchesAddress target0 address0 =
     (let target = NormalizeTarget target0 in
      if trimSet ''[]'' (trimSpace address0) = [] then False
      else let address = canonicalAddressText address0;
             candidates = [tg_LiteralIP target, tg_RequestedIdentity target]
               @ tg_ResolvedAddresses target
               @ (case tg_SelectedEndpoint target of Some e \<Rightarrow> [ep_Address e] | None \<Rightarrow> [])
               @ (case tg_TestedEndpoint target of Some e \<Rightarrow> [ep_Address e] | None \<Rightarrow> [])
        in list_ex (\<lambda>c. equalFold (canonicalAddressText c) address) candidates)"

end
