(* ===== verification/TargetFacts.thy ===== *)
theory TargetFacts
  imports Target
begin

text \<open>
  What \<open>ParseTarget\<close> and the functions on targets guarantee: every accepted target is well formed,
  validates, and has a dialable address that splits into its identity and port again; the bounded
  candidate lists are duplicate free and numbered from 1; normalising a parsed target only fills
  in the literal address.
\<close>

section \<open>Canonical identities\<close>

lemma hex_plain: "isHexC c \<Longrightarrow> \<not> isSpaceC c \<and> \<not> isControlC c"
  by (auto simp: isHexC_def isDigitC_def isSpaceC_def isControlC_def)

lemma sep_plain:
  "\<not> isSpaceC CHR ''.'' \<and> \<not> isSpaceC CHR '':'' \<and> \<not> isSpaceC CHR ''%''
   \<and> \<not> isControlC CHR ''.'' \<and> \<not> isControlC CHR '':'' \<and> \<not> isControlC CHR ''%''"
  by (simp add: isSpaceC_def isControlC_def byteOf_def)

lemma canonicalIdentity_literal:
  assumes "canonicalIdentity host = Inr (i, l)" "l \<noteq> []"
  obtains a where "parseAddr host = Some a" "i = addrString (unmap a)" "l = i"
    "\<And>c. c \<in> set host \<Longrightarrow> \<not> isSpaceC c \<and> \<not> isControlC c"
  using assms by (auto simp: canonicalIdentity_def NormalizeAddr_def Let_def list_ex_iff
      split: if_splits option.splits)

lemma canonicalIdentity_of_literal:
  assumes "i \<noteq> []" "\<And>c. c \<in> set i \<Longrightarrow> \<not> isSpaceC c \<and> \<not> isControlC c" "parseAddr i = Some a"
  shows "canonicalIdentity i = Inr (addrString (unmap a), addrString (unmap a))"
proof -
  have "\<not> list_ex (\<lambda>c. isSpaceC c \<or> isControlC c) i" using assms(2) by (simp add: list_ex_iff)
  with assms(1,3) show ?thesis by (simp add: canonicalIdentity_def NormalizeAddr_def Let_def)
qed

lemma literalText_plain:
  assumes "parseAddr host = Some a" "\<And>c. c \<in> set host \<Longrightarrow> \<not> isSpaceC c \<and> \<not> isControlC c"
    "c \<in> set (addrString (unmap a))"
  shows "\<not> isSpaceC c \<and> \<not> isControlC c"
proof -
  have "isHexC c \<or> c = CHR ''.'' \<or> c = CHR '':'' \<or> c = CHR ''%'' \<or> c \<in> set host"
    by (rule addrString_chars [OF assms(3,1)])
  then show ?thesis by (elim disjE) (simp_all add: hex_plain sep_plain assms(2))
qed

lemma literalText_canonical:
  assumes "canonicalIdentity host = Inr (i, l)" "l \<noteq> []"
  shows "l = i \<and> canonicalIdentity i = Inr (i, i)"
proof -
  obtain a where a: "parseAddr host = Some a" "i = addrString (unmap a)" "l = i"
    and h: "\<And>c. c \<in> set host \<Longrightarrow> \<not> isSpaceC c \<and> \<not> isControlC c"
    using canonicalIdentity_literal [OF assms] by blast
  have "parseAddr i = Some (unmap a)" unfolding a(2) by (rule parseAddr_canonical [OF a(1)])
  moreover have "i \<noteq> []" unfolding a(2)
    by (rule addrString_not_Nil, rule addr_wf_unmap, rule parseAddr_wf [OF a(1)])
  moreover have "\<not> isSpaceC c \<and> \<not> isControlC c" if "c \<in> set i" for c
    using literalText_plain [OF a(1) h] that a(2) by blast
  ultimately have "canonicalIdentity i = Inr (addrString (unmap (unmap a)), addrString (unmap (unmap a)))"
    by (intro canonicalIdentity_of_literal)
  then show ?thesis using a(2,3) by simp
qed

lemma hostCharOk_plain:
  "hostCharOk c \<Longrightarrow> \<not> isSpaceC c \<and> \<not> isControlC c \<and> \<not> isUpperC c \<and> c \<notin> set ''[]/:''"
  by (auto simp: hostCharOk_def isSpaceC_def isControlC_def isUpperC_def isLowerC_def isDigitC_def byteOf_def)

lemma splitByte_chars: "set s \<subseteq> insert c (\<Union> (set ` set (splitByte c s)))"
  using set_joinStr [of "[c]" "splitByte c s"] by (auto simp: joinStr_splitByte)

lemma labels_chars:
  assumes "list_all labelOk (splitByte CHR ''.'' h)" "c \<in> set h"
  shows "hostCharOk c"
proof (cases "c = CHR ''.''")
  case True
  then show ?thesis by (simp add: hostCharOk_def)
next
  case False
  then obtain p where "p \<in> set (splitByte CHR ''.'' h)" "c \<in> set p"
    using assms(2) splitByte_chars [of h "CHR ''.''"] by auto
  then show ?thesis using assms(1) by (auto simp: list_all_iff labelOk_def)
qed

lemma splitByte_last_sep: "splitByte c (s @ [c]) = splitByte c s @ [[]]"
  by (induction s) (auto split: list.splits)

lemma trimSuffix_dot_id:
  assumes "list_all labelOk (splitByte CHR ''.'' h)"
  shows "trimSuffix ''.'' h = h"
proof (rule ccontr)
  assume "trimSuffix ''.'' h \<noteq> h"
  then have s: "hasSuffix ''.'' h" by (auto simp: trimSuffix_def split: if_splits)
  then have "h = take (length h - 1) h @ [CHR ''.'']"
    by (metis append_take_drop_id hasSuffix_def length_Cons list.size(3) One_nat_def)
  then have "[] \<in> set (splitByte CHR ''.'' h)"
    by (metis splitByte_last_sep in_set_conv_decomp)
  with assms show False by (auto simp: list_all_iff labelOk_def)
qed

lemma hostname_canonical:
  assumes "canonicalIdentity host = Inr (i, [])"
  shows "i \<noteq> [] \<and> list_all labelOk (splitByte CHR ''.'' i) \<and> length i \<le> 253 \<and>
    (parseAddr i = None \<longrightarrow> canonicalIdentity i = Inr (i, [])) \<and> CHR '':'' \<notin> set i \<and> \<not> containsAny ''[]'' i"
proof -
  have "addrString (unmap a) \<noteq> []" if "parseAddr host = Some a" for a
    using that addrString_not_Nil addr_wf_unmap parseAddr_wf by blast
  with assms have i: "i = toLower (trimSuffix ''.'' host)" "i \<noteq> []" "\<not> containsStr ''..'' i"
      "list_all labelOk (splitByte CHR ''.'' i)" "length host \<le> 253"
    by (auto simp: canonicalIdentity_def NormalizeAddr_def Let_def split: if_splits option.splits)
  have len: "length i \<le> 253" using i(1,5) by (auto simp: trimSuffix_def)
  have ch: "hostCharOk c" if "c \<in> set i" for c using labels_chars [OF i(4) that] .
  have "toLower i = i" using ch hostCharOk_plain by (intro toLower_id) blast
  moreover have "trimSuffix ''.'' i = i" by (rule trimSuffix_dot_id [OF i(4)])
  moreover have "\<not> list_ex (\<lambda>c. isSpaceC c \<or> isControlC c) i" "\<not> containsAny ''[]/'' i" "\<not> containsAny ''[]'' i"
      "CHR '':'' \<notin> set i"
    using ch hostCharOk_plain by (fastforce simp: list_ex_iff containsAny_def)+
  ultimately show ?thesis using i len by (auto simp: canonicalIdentity_def Let_def)
qed

lemma trimmed_profile:
  "LookupServiceProfile v = Inr p \<Longrightarrow> p \<in> snd ` set profileTable"
  by (auto simp: LookupServiceProfile_def serviceProfiles_def Let_def cloneServiceProfile_def
      dest!: map_of_SomeD split: option.splits intro: rev_image_eqI)

lemma profileTable_filled:
  "p \<in> snd ` set profileTable \<Longrightarrow>
   sp_ID p \<noteq> [] \<and> sp_ApplicationProtocol p \<noteq> [] \<and> sp_TransportProtocol p \<noteq> []"
  by (auto simp: profileTable_def tcpProfile_def go_consts)

lemma parseURLInput_profile:
  "parseURLInput raw = Inr (host, resource, port, Some p) \<Longrightarrow> p \<in> snd ` set profileTable"
  by (auto simp: parseURLInput_def profileForScheme_def Let_def
      split: option.splits if_splits sum.splits intro: trimmed_profile)

lemma chooseProfile_table:
  "chooseProfile service q = Inr p \<Longrightarrow> (\<And>r. q = Some r \<Longrightarrow> r \<in> snd ` set profileTable) \<Longrightarrow>
   p \<in> snd ` set profileTable"
  by (auto simp: chooseProfile_def split: if_splits sum.splits option.splits intro: trimmed_profile)

lemma parseInput_profile:
  "parseInput raw = Inr (host, resource, port, Some p) \<Longrightarrow> p \<in> snd ` set profileTable"
  unfolding parseInput_def
  by (auto split: if_splits sum.splits intro: trimmed_profile parseURLInput_profile)

lemma parsePort_range: "parsePort s = Inr p \<Longrightarrow> p \<noteq> 0"
proof -
  assume "parsePort s = Inr p"
  then obtain v where "v < 65536" "v \<noteq> 0" "p = of_nat v"
    by (auto simp: parsePort_def dest: parseUint_bound split: if_splits option.splits)
  then have "unat p = v" by (simp add: unat_of_nat)
  with \<open>v \<noteq> 0\<close> show ?thesis by auto
qed

lemma withPort_range: "withPort h s = Inr (h', Some p) \<Longrightarrow> p \<noteq> 0"
  by (auto simp: withPort_def dest: parsePort_range split: sum.splits)

lemma parseHostInput_port: "parseHostInput raw = Inr (h, Some p) \<Longrightarrow> p \<noteq> 0"
  by (auto simp: parseHostInput_def Let_def dest: withPort_range split: option.splits if_splits)

lemma map_sum_Some_Inr: "map_sum id Some r = Inr (Some p) \<longleftrightarrow> r = Inr p"
  by (cases r) auto

lemma parseInput_port: "parseInput raw = Inr (h, r, Some p, q) \<Longrightarrow> p \<noteq> 0"
  by (auto simp: parseInput_def parseURLInput_def Let_def map_sum_Some_Inr dest: parseHostInput_port parsePort_range
      split: if_splits sum.splits option.splits)

lemma ParseTarget_cases:
  assumes "ParseTarget intent = Inr t"
  obtains host resource inputPort inputProfile identity literal profile port where
    "parseInput (ti_Input intent) = Inr (host, resource, inputPort, inputProfile)"
    "canonicalIdentity host = Inr (identity, literal)"
    "chooseProfile (ti_Service intent) inputProfile = Inr profile"
    "choosePort (ti_Port intent) inputPort profile = Inr port"
    "t = zero_Target\<lparr>tg_OriginalInput := ti_Input intent, tg_RequestedIdentity := identity,
       tg_LiteralIP := literal, tg_Service := profile,
       tg_ApplicationProtocol := sp_ApplicationProtocol profile,
       tg_TransportProtocol := sp_TransportProtocol profile, tg_Port := port, tg_Resource := resource\<rparr>"
    "trimSpace (ti_Input intent) = ti_Input intent" "ti_Input intent \<noteq> []"
  using assms by (auto simp: ParseTarget_def Let_def split: if_splits sum.splits)


section \<open>Accepted targets are well formed\<close>

lemma choosePort_ok:
  "choosePort ip q p = Inr port \<Longrightarrow> (\<And>r. q = Some r \<Longrightarrow> r \<noteq> 0) \<Longrightarrow>
   port \<noteq> 0 \<and> (\<forall>r. ip = Some r \<longrightarrow> port = r)"
  by (auto simp: choosePort_def split: option.splits if_splits)

lemma chooseProfile_explicit:
  "chooseProfile service q = Inr p \<Longrightarrow> service \<noteq> [] \<Longrightarrow> LookupServiceProfile service = Inr p"
  by (auto simp: chooseProfile_def split: sum.splits option.splits if_splits)

lemma canonicalIdentity_not_Nil: "canonicalIdentity host = Inr (i, l) \<Longrightarrow> i \<noteq> []"
  by (metis hostname_canonical literalText_canonical)

lemma parseInput_ports:
  "parseInput raw = Inr (h, r, q, prof) \<Longrightarrow> q = Some p \<Longrightarrow> p \<noteq> 0"
  using parseInput_port by blast

lemma ParseTarget_shape:
  assumes "ParseTarget intent = Inr t"
  shows "tg_RequestedIdentity t \<noteq> []" "tg_Port t \<noteq> 0" "tg_Service t \<in> snd ` set profileTable"
    "tg_ApplicationProtocol t = sp_ApplicationProtocol (tg_Service t)"
    "tg_TransportProtocol t = sp_TransportProtocol (tg_Service t)"
    "tg_OriginalInput t = ti_Input intent"
    "\<And>p. ti_Port intent = Some p \<Longrightarrow> tg_Port t = p"
    "ti_Service intent \<noteq> [] \<Longrightarrow> LookupServiceProfile (ti_Service intent) = Inr (tg_Service t)"
proof -
  from assms obtain host resource q prof i l p port where *:
    "parseInput (ti_Input intent) = Inr (host, resource, q, prof)"
    "canonicalIdentity host = Inr (i, l)"
    "chooseProfile (ti_Service intent) prof = Inr p"
    "choosePort (ti_Port intent) q p = Inr port"
    "tg_RequestedIdentity t = i" "tg_Port t = port" "tg_Service t = p"
    "tg_ApplicationProtocol t = sp_ApplicationProtocol p"
    "tg_TransportProtocol t = sp_TransportProtocol p" "tg_OriginalInput t = ti_Input intent"
    by (rule ParseTarget_cases) simp
  have tab: "p \<in> snd ` set profileTable"
    using chooseProfile_table [OF *(3)] parseInput_profile *(1) by blast
  note port = choosePort_ok [OF *(4) parseInput_ports [OF *(1)]]
  show "tg_RequestedIdentity t \<noteq> []" using * canonicalIdentity_not_Nil by simp
  show "tg_Port t \<noteq> 0" "\<And>p. ti_Port intent = Some p \<Longrightarrow> tg_Port t = p" using * port by auto
  show "tg_Service t \<in> snd ` set profileTable" using * tab by simp
  show "ti_Service intent \<noteq> [] \<Longrightarrow> LookupServiceProfile (ti_Service intent) = Inr (tg_Service t)"
    using * chooseProfile_explicit by simp
qed (use assms in \<open>auto elim!: ParseTarget_cases\<close>)

text \<open>C1: every target the parser accepts has a non-empty identity, a port between 1 and 65535, one of
  the registered service profiles with that profile's protocols, keeps the input as it was typed, and
  honours an explicitly requested port and service.\<close>

theorem ParseTarget_wellformed:
  assumes "ParseTarget intent = Inr t"
  shows "tg_RequestedIdentity t \<noteq> [] \<and> tg_Port t \<noteq> 0 \<and> tg_Service t \<in> snd ` set profileTable
    \<and> tg_ApplicationProtocol t = sp_ApplicationProtocol (tg_Service t)
    \<and> tg_TransportProtocol t = sp_TransportProtocol (tg_Service t)
    \<and> tg_OriginalInput t = ti_Input intent
    \<and> (\<forall>p. ti_Port intent = Some p \<longrightarrow> tg_Port t = p)
    \<and> (ti_Service intent \<noteq> [] \<longrightarrow> LookupServiceProfile (ti_Service intent) = Inr (tg_Service t))"
  using ParseTarget_shape [OF assms] by blast

definition sampleIntent :: TargetIntent where
  "sampleIntent = zero_TargetIntent\<lparr>ti_Input := ''https://Example.COM/a'', ti_Port := Some 443\<rparr>"

definition sampleTarget :: Target where
  "sampleTarget = zero_Target\<lparr>tg_OriginalInput := ''https://Example.COM/a'',
     tg_RequestedIdentity := ''example.com'',
     tg_Service := tcpProfile ServiceProfileHTTPS ''HTTPS'' ApplicationProtocolHTTPS 443
        [ProbeIntentTCPConnection, ProbeIntentTLS, ProbeIntentHTTP],
     tg_ApplicationProtocol := ApplicationProtocolHTTPS, tg_TransportProtocol := TransportTCP,
     tg_Port := 443, tg_Resource := ''/a''\<rparr>"

lemma parse_sampleIntent: "ParseTarget sampleIntent = Inr sampleTarget"
  by code_simp

theorem ParseTarget_wellformed_witness:
  "ParseTarget sampleIntent = Inr sampleTarget \<and> tg_RequestedIdentity sampleTarget \<noteq> []
   \<and> tg_Port sampleTarget \<noteq> 0"
  using ParseTarget_wellformed [OF parse_sampleIntent] parse_sampleIntent by blast

section \<open>Normalising and dialling an accepted target\<close>

lemma normalizeEndpointCandidates_Nil [simp]: "normalizeEndpointCandidates [] = []"
  by (simp add: normalizeEndpointCandidates_def)

lemma NormalizeTarget_bare:
  assumes "tg_RequestedIdentity t \<noteq> []" "sp_ID (tg_Service t) \<noteq> []"
    "tg_ApplicationProtocol t \<noteq> []" "tg_TransportProtocol t \<noteq> []" "tg_Port t \<noteq> 0"
    "tg_ResolvedCandidates t = []" "tg_ProbeCandidates t = []" "tg_CandidateAttempts t = []"
    "tg_SelectedEndpoint t = None" "tg_TestedEndpoint t = None" "tg_NetworkContext t = None"
  shows "NormalizeTarget t = normalizeTargetIdentity t"
proof -
  have "fillTargetProfile t = t" using assms by (simp add: fillTargetProfile_def Let_def)
  then show ?thesis using assms
    by (cases t) (auto simp: NormalizeTarget_def Let_def normalizeTargetIdentity_def split: option.splits)
qed

lemma parsed_bare:
  assumes "ParseTarget intent = Inr t"
  shows "NormalizeTarget t = normalizeTargetIdentity t" and "tg_SelectedEndpoint t = None"
proof -
  have w: "tg_RequestedIdentity t \<noteq> []" "tg_Port t \<noteq> 0" "tg_Service t \<in> snd ` set profileTable"
    "tg_ApplicationProtocol t = sp_ApplicationProtocol (tg_Service t)"
    "tg_TransportProtocol t = sp_TransportProtocol (tg_Service t)"
    using ParseTarget_shape [OF assms] by auto
  from assms have e: "tg_ResolvedCandidates t = []" "tg_ProbeCandidates t = []" "tg_CandidateAttempts t = []"
    "tg_SelectedEndpoint t = None" "tg_TestedEndpoint t = None" "tg_NetworkContext t = None"
    by (rule ParseTarget_cases; simp add: zero_Target_def)+
  show "NormalizeTarget t = normalizeTargetIdentity t"
    using w e profileTable_filled [OF w(3)] by (intro NormalizeTarget_bare) auto
  show "tg_SelectedEndpoint t = None" by (rule e(4))
qed

lemma parsed_identity:
  assumes "ParseTarget intent = Inr t"
  obtains host where "canonicalIdentity host = Inr (tg_RequestedIdentity t, tg_LiteralIP t)"
  using assms by (rule ParseTarget_cases) simp

text \<open>
  The identity of a parsed target is its own canonical form, also when it is the text of an IPv4
  address that only became one when the parser dropped a trailing dot.
\<close>

lemma parsed_identity_canonical:
  assumes "ParseTarget intent = Inr t"
  defines "n \<equiv> NormalizeTarget t"
  shows "tg_RequestedIdentity n = tg_RequestedIdentity t \<and>
    canonicalIdentity (tg_RequestedIdentity t) = Inr (tg_RequestedIdentity n, tg_LiteralIP n)"
proof -
  obtain host where h: "canonicalIdentity host = Inr (tg_RequestedIdentity t, tg_LiteralIP t)"
    using parsed_identity [OF assms(1)] .
  have n: "n = normalizeTargetIdentity t" unfolding n_def by (rule parsed_bare [OF assms(1)])
  show ?thesis
  proof (cases "tg_LiteralIP t = []")
    case False
    with literalText_canonical [OF h] n show ?thesis by (simp add: normalizeTargetIdentity_def)
  next
    case True
    with h have f: "tg_RequestedIdentity t \<noteq> []" "CHR '':'' \<notin> set (tg_RequestedIdentity t)"
      "list_all labelOk (splitByte CHR ''.'' (tg_RequestedIdentity t))"
      "parseAddr (tg_RequestedIdentity t) = None \<longrightarrow>
         canonicalIdentity (tg_RequestedIdentity t) = Inr (tg_RequestedIdentity t, [])"
      using hostname_canonical [of host "tg_RequestedIdentity t"] by auto
    show ?thesis
    proof (cases "parseAddr (tg_RequestedIdentity t)")
      case None
      with f n True show ?thesis by (simp add: normalizeTargetIdentity_def)
    next
      case (Some a)
      then have s: "addrString (unmap a) = tg_RequestedIdentity t"
        using parseAddr_no_colon [OF Some f(2)] by auto
      have "canonicalIdentity (tg_RequestedIdentity t) = Inr (addrString (unmap a), addrString (unmap a))"
        by (rule canonicalIdentity_of_literal [OF f(1) _ Some])
          (use labels_chars [OF f(3)] hostCharOk_plain in blast)
      with s Some n True show ?thesis
        by (simp add: normalizeTargetIdentity_def NormalizeAddr_def Let_def)
    qed
  qed
qed

lemma parsed_valid: "ParseTarget intent = Inr t \<Longrightarrow> Validate t = None"
  using parsed_identity_canonical [of intent t] by (simp add: Validate_def Let_def)

lemma normalizeTargetIdentity_idem [simp]:
  "normalizeTargetIdentity (normalizeTargetIdentity t) = normalizeTargetIdentity t"
proof (cases "parseAddr (tg_RequestedIdentity t)")
  case (Some a)
  then have "addrString (unmap a) \<noteq> []" using addrString_not_Nil addr_wf_unmap parseAddr_wf by blast
  with Some show ?thesis by (simp add: normalizeTargetIdentity_def NormalizeAddr_def Let_def)
qed (simp add: normalizeTargetIdentity_def)

lemma parsed_normal:
  assumes "ParseTarget intent = Inr t"
  shows "NormalizeTarget (NormalizeTarget t) = NormalizeTarget t"
proof -
  let ?n = "normalizeTargetIdentity t"
  have w: "tg_Port t \<noteq> 0" "tg_Service t \<in> snd ` set profileTable"
    "tg_ApplicationProtocol t = sp_ApplicationProtocol (tg_Service t)"
    "tg_TransportProtocol t = sp_TransportProtocol (tg_Service t)"
    using ParseTarget_shape [OF assms] by auto
  from assms have e: "tg_ResolvedCandidates t = []" "tg_ProbeCandidates t = []" "tg_CandidateAttempts t = []"
    "tg_SelectedEndpoint t = None" "tg_TestedEndpoint t = None" "tg_NetworkContext t = None"
    by (rule ParseTarget_cases; simp add: zero_Target_def)+
  have "tg_RequestedIdentity ?n \<noteq> []"
    using parsed_identity_canonical [OF assms] parsed_bare [OF assms] ParseTarget_shape [OF assms] by simp
  then have "NormalizeTarget ?n = normalizeTargetIdentity ?n"
    using w e profileTable_filled [OF w(2)]
    by (intro NormalizeTarget_bare) (auto simp: normalizeTargetIdentity_def Let_def split: option.splits)
  then show ?thesis using parsed_bare [OF assms] by simp
qed

lemma containsStr_byte: "containsStr [c] s \<longleftrightarrow> c \<in> set s"
  by (induction s) (auto simp: hasPrefix_def)

lemma parsed_dial:
  assumes "ParseTarget intent = Inr t" "\<not> containsAny ''[]'' (tg_RequestedIdentity t)"
  shows "EndpointAddress t = Inr (joinHostPort (tg_RequestedIdentity t) (portText (tg_Port t)))"
proof -
  let ?n = "NormalizeTarget t"
  have ni: "?n = normalizeTargetIdentity t" "tg_SelectedEndpoint t = None"
    using parsed_bare [OF assms(1)] by auto
  have f: "tg_SelectedEndpoint ?n = None" "tg_Port ?n = tg_Port t"
    using ni by (auto simp: normalizeTargetIdentity_def Let_def split: option.splits)
  have w: "tg_RequestedIdentity t \<noteq> []" "tg_Port t \<noteq> 0" using ParseTarget_shape [OF assms(1)] by auto
  have i: "tg_RequestedIdentity ?n = tg_RequestedIdentity t"
    using parsed_identity_canonical [OF assms(1)] by blast
  obtain host where h: "canonicalIdentity host = Inr (tg_RequestedIdentity t, tg_LiteralIP t)"
    using parsed_identity [OF assms(1)] .
  have "CHR '':'' \<in> set (tg_RequestedIdentity t) \<Longrightarrow> parseAddr (tg_RequestedIdentity t) \<noteq> None"
  proof -
    assume c: "CHR '':'' \<in> set (tg_RequestedIdentity t)"
    then have "tg_LiteralIP t \<noteq> []" using h hostname_canonical [of host] by auto
    then obtain a where "parseAddr host = Some a" "tg_RequestedIdentity t = addrString (unmap a)"
      using canonicalIdentity_literal [OF h] by blast
    then show ?thesis using parseAddr_canonical by simp
  qed
  moreover have "Validate ?n = None"
    using parsed_valid [OF assms(1)] parsed_normal [OF assms(1)] by (simp add: Validate_def)
  ultimately show ?thesis using f w i assms(2)
    by (simp add: EndpointAddress_def Let_def containsStr_byte)
qed

lemma splitHostPort_joinHostPort:
  assumes "\<not> containsAny ''[]'' h" "CHR '':'' \<notin> set p" "\<not> containsAny ''[]'' p"
  shows "splitHostPort (joinHostPort h p) = Some (h, p)"
proof -
  have last: "lastIndexByte CHR '':'' (x @ CHR '':'' # p) = Some (length x)" for x
  proof -
    have "indexByte CHR '':'' (rev (x @ CHR '':'' # p)) = Some (length p)"
      using assms(2) by (simp add: indexByte_Some nth_append)
    then show ?thesis by (simp add: lastIndexByte_def)
  qed
  have b: "CHR ''['' \<notin> set h" "CHR '']'' \<notin> set h" "CHR ''['' \<notin> set p" "CHR '']'' \<notin> set p"
    using assms by (auto simp: containsAny_def list_ex_iff)
  show ?thesis
  proof (cases "CHR '':'' \<in> set h")
    case True
    have "indexByte CHR '']'' (CHR ''['' # h @ CHR '']'' # CHR '':'' # p) = Some (Suc (length h))"
      using b by (simp add: indexByte_Some nth_append)
    then show ?thesis using True b last [of "CHR ''['' # h @ '']''"]
      by (simp add: splitHostPort_def joinHostPort_def)
  next
    case False
    have "(h @ CHR '':'' # p) ! 0 \<noteq> CHR ''[''"
      using b by (cases h) auto
    then show ?thesis using False b last [of h] assms(2)
      by (simp add: splitHostPort_def joinHostPort_def)
  qed
qed

lemma portText_plain: "CHR '':'' \<notin> set (portText p)" "\<not> containsAny ''[]'' (portText p)"
proof -
  have "isDigitC c" if "c \<in> set (portText p)" for c
    using that itoa_digits by (simp add: portText_def)
  moreover have "\<not> isDigitC CHR '':''" "\<not> isDigitC CHR ''[''" "\<not> isDigitC CHR '']''"
    by (simp_all add: isDigitC_def byteOf_def)
  ultimately show "CHR '':'' \<notin> set (portText p)" "\<not> containsAny ''[]'' (portText p)"
    by (auto simp: containsAny_def list_ex_iff)
qed




section \<open>Candidate lists\<close>

text \<open>Numbered: no address twice, none empty, and the orders count from 1.\<close>

definition numbered :: "EndpointCandidate list \<Rightarrow> bool" where
  "numbered cs \<longleftrightarrow> distinct (map ec_Address cs) \<and> [] \<notin> ec_Address ` set cs \<and>
     map ec_Order cs = map (\<lambda>i. int i + 1) [0..<length cs]"

lemma numbered_Nil [simp]: "numbered []"
  by (simp add: numbered_def)

lemma numbered_snoc:
  "numbered cs \<Longrightarrow> ec_Address c \<noteq> [] \<Longrightarrow> ec_Address c \<notin> ec_Address ` set cs \<Longrightarrow>
   ec_Order c = int (length cs) + 1 \<Longrightarrow> numbered (cs @ [c])"
  by (auto simp: numbered_def)

lemma numbered_take: "numbered cs \<Longrightarrow> numbered (take n cs)"
  unfolding numbered_def
  by (auto simp: take_map [symmetric] distinct_take dest: in_set_takeD)
    (simp add: take_map take_upt min_def)

lemma normalizeCandidatesLoop_numbered:
  "numbered result \<Longrightarrow> numbered (normalizeCandidatesLoop result cs)"
proof (induction result cs rule: normalizeCandidatesLoop.induct)
  case (2 result c cs)
  let ?c = "normalizeEndpointCandidate c (int (length result) + 1)"
  have "numbered (result @ [?c\<lparr>ec_Order := int (length result) + 1\<rparr>])"
    if "ec_Address ?c \<noteq> []" "ec_Address ?c \<notin> ec_Address ` set result"
    using that "2.prems" by (intro numbered_snoc) auto
  with 2 show ?case by (auto simp: Let_def)
qed simp

lemma appendFamily_numbered: "numbered cs \<Longrightarrow> numbered (appendFamily f cs raws)"
proof (induction f cs raws rule: appendFamily.induct)
  case (2 f cs raw raws)
  show ?case
  proof (cases "parseAddr (trimSet ''[]'' (trimSpace raw))")
    case None
    with 2 show ?thesis by simp
  next
    case (Some a)
    then have "addrString (NormalizeAddr a) \<noteq> []"
      using addrString_not_Nil addr_wf_unmap parseAddr_wf by (metis NormalizeAddr_def)
    then have "numbered (cs @ [zero_EndpointCandidate\<lparr>ec_Address := addrString (NormalizeAddr a),
        ec_Family := f, ec_Order := int (length cs) + 1\<rparr>])"
      if "addrString (NormalizeAddr a) \<notin> ec_Address ` set cs"
      using that "2.prems" by (intro numbered_snoc) auto
    then show ?thesis using Some "2.IH"(2,3) [OF Some refl] "2.prems" by (simp add: Let_def)
  qed
qed simp

text \<open>the bounded candidate list never holds more than the limit (\<open>MaxEndpointCandidates\<close> where the
  limit is not positive), no two candidates share an address, none has an empty one, and the orders
  count up from 1.\<close>

theorem LimitEndpointCandidates_bounded:
  "numbered (LimitEndpointCandidates cs n) \<and>
   int (length (LimitEndpointCandidates cs n)) \<le> (if n \<le> 0 then 4 else n)"
  by (auto simp: LimitEndpointCandidates_def normalizeEndpointCandidates_def Let_def
      MaxEndpointCandidates_def numbered_take normalizeCandidatesLoop_numbered)

text \<open>What \<open>appendFamily\<close> adds, as a list: new candidates of its family only.\<close>

lemma appendFamily_extends:
  "\<exists>ds. appendFamily f cs raws = cs @ ds \<and> (\<forall>d \<in> set ds. ec_Family d = f)"
proof (induction f cs raws rule: appendFamily.induct)
  case (2 f cs raw raws)
  show ?case
  proof (cases "parseAddr (trimSet ''[]'' (trimSpace raw))")
    case (Some a)
    show ?thesis
    proof (cases "addrString (NormalizeAddr a) \<in> ec_Address ` set cs")
      case False
      from "2.IH"(3) [OF Some refl False] obtain ds where
        "appendFamily f (cs @ [zero_EndpointCandidate\<lparr>ec_Address := addrString (NormalizeAddr a),
           ec_Family := f, ec_Order := int (length cs) + 1\<rparr>]) raws = (cs @ [zero_EndpointCandidate
           \<lparr>ec_Address := addrString (NormalizeAddr a), ec_Family := f, ec_Order := int (length cs) + 1\<rparr>]) @ ds"
        "\<forall>d \<in> set ds. ec_Family d = f" by blast
      with Some False show ?thesis by (auto simp: Let_def)
    qed (use "2.IH"(2) Some in \<open>simp add: Let_def\<close>)
  qed (use "2.IH"(1) in simp)
qed simp

definition answerText :: "string \<Rightarrow> string option" where
  "answerText raw = map_option (addrString \<circ> NormalizeAddr) (parseAddr (trimSet ''[]'' (trimSpace raw)))"

lemma appendFamily_addresses:
  "ec_Address ` set (appendFamily f cs raws) =
   ec_Address ` set cs \<union> {t. \<exists>raw \<in> set raws. answerText raw = Some t}"
proof (induction f cs raws rule: appendFamily.induct)
  case (2 f cs raw raws)
  then show ?case
    by (cases "parseAddr (trimSet ''[]'' (trimSpace raw))") (auto simp: Let_def answerText_def)
qed simp

text \<open>combining the A and AAAA answers of a resolver gives duplicate-free candidates numbered from 1,
  the A answers before the AAAA answers, whose addresses are exactly the canonical texts of the answers
  that are addresses.\<close>

theorem EndpointCandidatesFromAnswers_spec:
  "numbered (EndpointCandidatesFromAnswers a aaaa) \<and>
   ec_Address ` set (EndpointCandidatesFromAnswers a aaaa) =
     {t. \<exists>raw \<in> set (a @ aaaa). answerText raw = Some t} \<and>
   (\<exists>xs ys. EndpointCandidatesFromAnswers a aaaa = xs @ ys \<and>
     list_all (\<lambda>c. ec_Family c = EndpointFamilyIPv4) xs \<and>
     list_all (\<lambda>c. ec_Family c = EndpointFamilyIPv6) ys)"
proof -
  obtain xs where xs: "appendFamily EndpointFamilyIPv4 [] a = xs" "\<forall>c \<in> set xs. ec_Family c = EndpointFamilyIPv4"
    using appendFamily_extends [of EndpointFamilyIPv4 "[]" a] by auto
  obtain ys where ys: "appendFamily EndpointFamilyIPv6 xs aaaa = xs @ ys"
    "\<forall>c \<in> set ys. ec_Family c = EndpointFamilyIPv6"
    using appendFamily_extends [of EndpointFamilyIPv6 xs aaaa] by auto
  have "EndpointCandidatesFromAnswers a aaaa = xs @ ys"
    using xs ys by (simp add: EndpointCandidatesFromAnswers_def)
  moreover have "numbered (xs @ ys)"
    using appendFamily_numbered [of xs EndpointFamilyIPv6 aaaa]
      appendFamily_numbered [of "[]" EndpointFamilyIPv4 a] xs(1) ys(1) by simp
  ultimately show ?thesis
    using xs(2) ys(2) appendFamily_addresses [of EndpointFamilyIPv6 xs aaaa] appendFamily_addresses [of EndpointFamilyIPv4 "[]" a] xs ys
    by (auto simp: EndpointCandidatesFromAnswers_def list_all_iff)
qed

section \<open>The profile registry and the errors of the parser\<close>

text \<open>The registry is closed under lookup: every profile the user interface lists is found again,
  unchanged, under its own identifier, however that identifier is capitalised.\<close>

theorem ServiceProfiles_lookup:
  "list_all (\<lambda>p. LookupServiceProfile (sp_ID p) = Inr p \<and>
     LookupServiceProfile (map (\<lambda>c. if isLowerC c then char_of (byteOf c - 32) else c) (sp_ID p)) = Inr p)
   ServiceProfiles \<and> length ServiceProfiles = length profileTable"
  by code_simp

text \<open>contradictory requests are refused: when the input names a port and the caller explicitly asks for
  another one, parsing fails with the conflict and never picks one of the two.\<close>

theorem ParseTarget_port_conflict:
  assumes "trimSpace (ti_Input intent) = ti_Input intent" "ti_Input intent \<noteq> []"
    "\<not> list_ex isControlC (ti_Input intent)"
    "parseInput (ti_Input intent) = Inr (host, resource, Some q, prof)"
    "canonicalIdentity host = Inr il" "chooseProfile (ti_Service intent) prof = Inr profile"
    "ti_Port intent = Some p" "p \<noteq> 0" "p \<noteq> q"
  shows "ParseTarget intent = Inl (PortConflict q p)"
proof -
  have "choosePort (ti_Port intent) (Some q) profile = Inl (PortConflict q p)"
    using assms(7-9) by (simp add: choosePort_def)
  then show ?thesis using assms(1-6) by (cases il) (simp add: ParseTarget_def Let_def)
qed

definition conflictIntent :: TargetIntent where
  "conflictIntent = zero_TargetIntent\<lparr>ti_Input := ''host:81'', ti_Port := Some 443\<rparr>"

lemma conflictIntent_fields:
  "ti_Input conflictIntent = ''host:81''" "ti_Port conflictIntent = Some 443" "ti_Service conflictIntent = []"
  by (simp_all add: conflictIntent_def zero_TargetIntent_def)

lemma conflictIntent_input:
  "trimSpace ''host:81'' = ''host:81''" "\<not> list_ex isControlC ''host:81''"
  by (simp_all add: go_strings)

lemma conflictIntent_port: "parsePort ''81'' = Inr 81"
  by (simp add: parsePort_def parseUint_def decVal_def digitVal_def go_strings)

lemma conflictIntent_not_address: "parseAddr ''host:81'' = None"
  by code_simp

lemma conflictIntent_split: "splitHostPort ''host:81'' = Some (''host'', ''81'')"
  by code_simp

lemma conflictIntent_shape:
  "\<not> isUNC ''host:81''" "\<not> containsStr ''://'' ''host:81''" "looksLikeHostPort ''host:81''"
  by (code_simp, code_simp, code_simp)

lemma conflictIntent_parse: "parseInput ''host:81'' = Inr (''host'', [], Some 81, None)"
proof -
  have "\<not> hasPrefix ''['' ''host:81''" by (simp add: hasPrefix_def)
  then show ?thesis
    by (simp add: parseInput_def parseHostInput_def withPort_def isLiteralAddressInput_def hasPrefix_def
        conflictIntent_port conflictIntent_not_address conflictIntent_split conflictIntent_shape)
qed

lemma conflictIntent_identity: "canonicalIdentity ''host'' = Inr (''host'', [])"
  by code_simp

lemma conflictIntent_profile: "\<exists>profile. chooseProfile [] None = Inr profile"
  by (simp add: chooseProfile_def LookupServiceProfile_def serviceProfiles_def profileTable_def
      aliasProfileID_def Let_def go_consts go_strings)

theorem ParseTarget_port_conflict_witness:
  "ParseTarget conflictIntent = Inl (PortConflict 81 443)"
proof -
  obtain profile where "chooseProfile [] None = Inr profile" using conflictIntent_profile by blast
  then show ?thesis
    by (intro ParseTarget_port_conflict [where host = "''host''" and il = "(''host'', [])" and profile = profile])
      (simp_all only: conflictIntent_fields conflictIntent_input conflictIntent_parse conflictIntent_identity, simp_all)
qed

text \<open>A hostname with a trailing dot is stripped after it was checked for being an address, so an
  IPv4 address written with a trailing dot is accepted as a hostname: the target's identity is an address
  while its literal address is empty, although \<open>NormalizeTarget\<close> of the same target fills it in.\<close>

theorem ParseTarget_trailing_dot_literal:
  "\<exists>t. ParseTarget (zero_TargetIntent\<lparr>ti_Input := ''1.2.3.4.''\<rparr>) = Inr t \<and>
     tg_RequestedIdentity t = ''1.2.3.4'' \<and> tg_LiteralIP t = [] \<and>
     tg_LiteralIP (NormalizeTarget t) = ''1.2.3.4''"
proof -
  have "map_sum id (\<lambda>t. (tg_RequestedIdentity t, tg_LiteralIP t, tg_LiteralIP (NormalizeTarget t)))
      (ParseTarget (zero_TargetIntent\<lparr>ti_Input := ''1.2.3.4.''\<rparr>)) = Inr (''1.2.3.4'', [], ''1.2.3.4'')"
    by code_simp
  then show ?thesis by (cases "ParseTarget (zero_TargetIntent\<lparr>ti_Input := ''1.2.3.4.''\<rparr>)") auto
qed

end
