(* ===== verification/ModelReportTypes.thy ===== *)
theory ModelReportTypes
  imports ModelTypes
begin

text \<open>
  The remaining data types of \<open>internal/model\<close>: the enterprise-policy and environment
  observations, and the envelope and reports that collect everything.
\<close>

record EnterpriseProxyConfigurationObservation =
  epc_State :: "string"
  epc_Direct :: "bool"
  epc_StaticProxyConfigured :: "bool"
  epc_ProxyEndpoints :: "string list"
  epc_ProxyBypass :: "string list"
  epc_PACConfigured :: "bool"
  epc_PACURL :: "string"
  epc_AutoDetect :: "bool"
  epc_Error :: "string"
  epc_Certainty :: "ObservationCertainty"
  epc_Provenance :: "string list"
  epc_EvidenceIDs :: "string list"
  epc_Limitations :: "string list"

definition zero_EnterpriseProxyConfigurationObservation :: EnterpriseProxyConfigurationObservation where
  "zero_EnterpriseProxyConfigurationObservation = \<lparr>
    epc_State = [], epc_Direct = False, epc_StaticProxyConfigured = False,
    epc_ProxyEndpoints = [], epc_ProxyBypass = [], epc_PACConfigured = False,
    epc_PACURL = [], epc_AutoDetect = False, epc_Error = [], epc_Certainty = [],
    epc_Provenance = [], epc_EvidenceIDs = [], epc_Limitations = []\<rparr>"

record EnterpriseProxyEffectiveObservation =
  epe_Observed :: "bool"
  epe_Decision :: "string"
  epe_Mode :: "string"
  epe_Endpoint :: "string"
  epe_Bypass :: "string list"
  epe_BypassMatched :: "bool"
  epe_PACUsed :: "bool"
  epe_AutoDetect :: "bool"
  epe_ResolutionAttempted :: "bool"
  epe_ResolutionOK :: "bool"
  epe_Error :: "string"
  epe_Certainty :: "ObservationCertainty"
  epe_Provenance :: "string list"
  epe_EvidenceIDs :: "string list"
  epe_Limitations :: "string list"

definition zero_EnterpriseProxyEffectiveObservation :: EnterpriseProxyEffectiveObservation where
  "zero_EnterpriseProxyEffectiveObservation = \<lparr>
    epe_Observed = False, epe_Decision = [], epe_Mode = [], epe_Endpoint = [],
    epe_Bypass = [], epe_BypassMatched = False, epe_PACUsed = False, epe_AutoDetect = False,
    epe_ResolutionAttempted = False, epe_ResolutionOK = False, epe_Error = [],
    epe_Certainty = [], epe_Provenance = [], epe_EvidenceIDs = [], epe_Limitations = []\<rparr>"

record EnterprisePACObservation =
  epa_Configured :: "bool"
  epa_AutoDetect :: "bool"
  epa_URL :: "string"
  epa_ResolutionObserved :: "bool"
  epa_ResolutionOK :: "bool"
  epa_Used :: "bool"
  epa_Mode :: "string"
  epa_Decision :: "string"
  epa_Endpoint :: "string"
  epa_Bypass :: "string list"
  epa_BypassMatched :: "bool"
  epa_Certainty :: "ObservationCertainty"
  epa_Provenance :: "string list"
  epa_EvidenceIDs :: "string list"
  epa_Limitations :: "string list"

definition zero_EnterprisePACObservation :: EnterprisePACObservation where
  "zero_EnterprisePACObservation = \<lparr>
    epa_Configured = False, epa_AutoDetect = False, epa_URL = [],
    epa_ResolutionObserved = False, epa_ResolutionOK = False, epa_Used = False,
    epa_Mode = [], epa_Decision = [], epa_Endpoint = [], epa_Bypass = [],
    epa_BypassMatched = False, epa_Certainty = [], epa_Provenance = [], epa_EvidenceIDs = [],
    epa_Limitations = []\<rparr>"

record EnterpriseProxyEndpointObservation =
  epp_Endpoint :: "string"
  epp_Reachability :: "string"
  epp_TCPConnected :: "bool"
  epp_ConnectOutcome :: "string"
  epp_StatusCode :: "int"
  epp_Certainty :: "ObservationCertainty"
  epp_Provenance :: "string list"
  epp_EvidenceIDs :: "string list"
  epp_Limitations :: "string list"

definition zero_EnterpriseProxyEndpointObservation :: EnterpriseProxyEndpointObservation where
  "zero_EnterpriseProxyEndpointObservation = \<lparr>
    epp_Endpoint = [], epp_Reachability = [], epp_TCPConnected = False,
    epp_ConnectOutcome = [], epp_StatusCode = 0, epp_Certainty = [], epp_Provenance = [],
    epp_EvidenceIDs = [], epp_Limitations = []\<rparr>"

record EnterpriseProxySourceObservation =
  eps_Source :: "string"
  eps_Configuration :: "EnterpriseProxyConfigurationObservation"
  eps_Effective :: "EnterpriseProxyEffectiveObservation"
  eps_PAC :: "EnterprisePACObservation"
  eps_EndpointReachability :: "EnterpriseProxyEndpointObservation list"
  eps_Certainty :: "ObservationCertainty"
  eps_Provenance :: "string list"
  eps_EvidenceIDs :: "string list"
  eps_Limitations :: "string list"

definition zero_EnterpriseProxySourceObservation :: EnterpriseProxySourceObservation where
  "zero_EnterpriseProxySourceObservation = \<lparr>
    eps_Source = [], eps_Configuration = zero_EnterpriseProxyConfigurationObservation,
    eps_Effective = zero_EnterpriseProxyEffectiveObservation,
    eps_PAC = zero_EnterprisePACObservation, eps_EndpointReachability = [],
    eps_Certainty = [], eps_Provenance = [], eps_EvidenceIDs = [], eps_Limitations = []\<rparr>"

record EnterprisePathObservation =
  ept_Name :: "string"
  ept_Source :: "string"
  ept_Mode :: "string"
  ept_Endpoint :: "string"
  ept_RequestAttempted :: "bool"
  ept_TCPConnected :: "bool"
  ept_ConnectOutcome :: "string"
  ept_ConnectStatusCode :: "int"
  ept_ProxyAuthenticationHint :: "bool"
  ept_HTTPResponse :: "bool"
  ept_HTTPStatusCode :: "int"
  ept_TLSHandshake :: "bool"
  ept_TLSAttempted :: "bool"
  ept_CertificateTrusted :: "bool"
  ept_HostnameVerified :: "bool"
  ept_CertificateSHA256 :: "string"
  ept_CertificateSubject :: "string"
  ept_CertificateIssuer :: "string"
  ept_FailureReason :: "FailureReason"
  ept_Error :: "string"
  ept_Certainty :: "ObservationCertainty"
  ept_Provenance :: "string list"
  ept_EvidenceIDs :: "string list"
  ept_Limitations :: "string list"

definition zero_EnterprisePathObservation :: EnterprisePathObservation where
  "zero_EnterprisePathObservation = \<lparr>
    ept_Name = [], ept_Source = [], ept_Mode = [], ept_Endpoint = [],
    ept_RequestAttempted = False, ept_TCPConnected = False, ept_ConnectOutcome = [],
    ept_ConnectStatusCode = 0, ept_ProxyAuthenticationHint = False, ept_HTTPResponse = False,
    ept_HTTPStatusCode = 0, ept_TLSHandshake = False, ept_TLSAttempted = False,
    ept_CertificateTrusted = False, ept_HostnameVerified = False, ept_CertificateSHA256 = [],
    ept_CertificateSubject = [], ept_CertificateIssuer = [], ept_FailureReason = [],
    ept_Error = [], ept_Certainty = [], ept_Provenance = [], ept_EvidenceIDs = [],
    ept_Limitations = []\<rparr>"

record EnterprisePathComparisonObservation =
  epm_DirectPath :: "string"
  epm_ProxyPaths :: "string list"
  epm_DirectWorks :: "bool"
  epm_DirectWorksKnown :: "bool"
  epm_ProxyWorks :: "bool"
  epm_ProxyWorksKnown :: "bool"
  epm_State :: "string"
  epm_PolicyPossible :: "bool"
  epm_Certainty :: "ObservationCertainty"
  epm_Provenance :: "string list"
  epm_EvidenceIDs :: "string list"
  epm_Limitations :: "string list"

definition zero_EnterprisePathComparisonObservation :: EnterprisePathComparisonObservation where
  "zero_EnterprisePathComparisonObservation = \<lparr>
    epm_DirectPath = [], epm_ProxyPaths = [], epm_DirectWorks = False,
    epm_DirectWorksKnown = False, epm_ProxyWorks = False, epm_ProxyWorksKnown = False,
    epm_State = [], epm_PolicyPossible = False, epm_Certainty = [], epm_Provenance = [],
    epm_EvidenceIDs = [], epm_Limitations = []\<rparr>"

record EnterpriseFirewallProfileObservation =
  efp_Name :: "string"
  efp_FirewallEnabled :: "bool option"
  efp_BlockInboundExceptions :: "bool option"
  efp_PolicyPresent :: "bool"
  efp_EffectiveState :: "string"
  efp_BlockCausality :: "string"
  efp_Certainty :: "ObservationCertainty"
  efp_Provenance :: "string list"
  efp_EvidenceIDs :: "string list"
  efp_Limitations :: "string list"

definition zero_EnterpriseFirewallProfileObservation :: EnterpriseFirewallProfileObservation where
  "zero_EnterpriseFirewallProfileObservation = \<lparr>
    efp_Name = [], efp_FirewallEnabled = None, efp_BlockInboundExceptions = None,
    efp_PolicyPresent = False, efp_EffectiveState = [], efp_BlockCausality = [],
    efp_Certainty = [], efp_Provenance = [], efp_EvidenceIDs = [], efp_Limitations = []\<rparr>"

record EnterpriseFirewallObservation =
  efw_State :: "EnterpriseObservationState"
  efw_Available :: "bool"
  efw_Profiles :: "EnterpriseFirewallProfileObservation list"
  efw_Error :: "string"
  efw_Insufficient :: "bool"
  efw_BlockCausality :: "string"
  efw_Certainty :: "ObservationCertainty"
  efw_Provenance :: "string list"
  efw_EvidenceIDs :: "string list"
  efw_Limitations :: "string list"

definition zero_EnterpriseFirewallObservation :: EnterpriseFirewallObservation where
  "zero_EnterpriseFirewallObservation = \<lparr>
    efw_State = [], efw_Available = False, efw_Profiles = [], efw_Error = [],
    efw_Insufficient = False, efw_BlockCausality = [], efw_Certainty = [],
    efw_Provenance = [], efw_EvidenceIDs = [], efw_Limitations = []\<rparr>"

record EnterpriseAdapterParticipationObservation =
  ead_Index :: "int"
  ead_Name :: "string"
  ead_Type :: "string"
  ead_IfType :: "32 word"
  ead_Operational :: "bool"
  ead_VPN :: "bool"
  ead_Virtual :: "bool"
  ead_Certainty :: "ObservationCertainty"
  ead_Provenance :: "string list"
  ead_EvidenceIDs :: "string list"

definition zero_EnterpriseAdapterParticipationObservation :: EnterpriseAdapterParticipationObservation where
  "zero_EnterpriseAdapterParticipationObservation = \<lparr>
    ead_Index = 0, ead_Name = [], ead_Type = [], ead_IfType = 0, ead_Operational = False,
    ead_VPN = False, ead_Virtual = False, ead_Certainty = [], ead_Provenance = [],
    ead_EvidenceIDs = []\<rparr>"

record EnterpriseNetworkCorrelationObservation =
  enc_AdapterParticipation :: "EnterpriseAdapterParticipationObservation list"
  enc_VPNAdapterPresent :: "bool"
  enc_VPNAdapterPresentKnown :: "bool"
  enc_VirtualAdapterPresent :: "bool"
  enc_VirtualAdapterPresentKnown :: "bool"
  enc_SelectedRouteUsesVPN :: "bool"
  enc_SelectedRouteUsesVPNKnown :: "bool"
  enc_SelectedRouteUsesVirtual :: "bool"
  enc_SelectedRouteUsesVirtualKnown :: "bool"
  enc_RouteDifference :: "bool"
  enc_RouteDifferenceKnown :: "bool"
  enc_NetworkContextReferenced :: "bool"
  enc_NetworkContextCertainty :: "ObservationCertainty"
  enc_NetworkContextEvidenceIDs :: "string list"
  enc_Certainty :: "ObservationCertainty"
  enc_Provenance :: "string list"
  enc_EvidenceIDs :: "string list"
  enc_Limitations :: "string list"

definition zero_EnterpriseNetworkCorrelationObservation :: EnterpriseNetworkCorrelationObservation where
  "zero_EnterpriseNetworkCorrelationObservation = \<lparr>
    enc_AdapterParticipation = [], enc_VPNAdapterPresent = False,
    enc_VPNAdapterPresentKnown = False, enc_VirtualAdapterPresent = False,
    enc_VirtualAdapterPresentKnown = False, enc_SelectedRouteUsesVPN = False,
    enc_SelectedRouteUsesVPNKnown = False, enc_SelectedRouteUsesVirtual = False,
    enc_SelectedRouteUsesVirtualKnown = False, enc_RouteDifference = False,
    enc_RouteDifferenceKnown = False, enc_NetworkContextReferenced = False,
    enc_NetworkContextCertainty = [], enc_NetworkContextEvidenceIDs = [], enc_Certainty = [],
    enc_Provenance = [], enc_EvidenceIDs = [], enc_Limitations = []\<rparr>"

record EnterpriseTLSPolicyObservation =
  etl_State :: "EnterpriseObservationState"
  etl_TrustStoreAvailable :: "bool"
  etl_TrustStoreRootCount :: "int"
  etl_TrustStoreInsufficient :: "bool"
  etl_DirectCertificateSHA256 :: "string"
  etl_ProxyCertificateSHA256 :: "string"
  etl_DirectCertificateSubject :: "string"
  etl_ProxyCertificateSubject :: "string"
  etl_DirectCertificateIssuer :: "string"
  etl_ProxyCertificateIssuer :: "string"
  etl_CertificatesDiffer :: "bool"
  etl_CertificatesDifferKnown :: "bool"
  etl_IssuersDiffer :: "bool"
  etl_IssuersDifferKnown :: "bool"
  etl_BothTrusted :: "bool"
  etl_BothTrustedKnown :: "bool"
  etl_BothHostnameVerified :: "bool"
  etl_BothHostnameKnown :: "bool"
  etl_PossibleInterception :: "bool"
  etl_InterceptionSuspicion :: "string"
  etl_InterceptionBasis :: "string"
  etl_TrustMismatch :: "bool"
  etl_TrustMismatchKnown :: "bool"
  etl_TrustedCorporatePrivateRootKnown :: "bool"
  etl_TrustedCorporatePrivateRoot :: "bool"
  etl_Certainty :: "ObservationCertainty"
  etl_Provenance :: "string list"
  etl_EvidenceIDs :: "string list"
  etl_Limitations :: "string list"
  etl_Conflicts :: "ObservationConflict list"

definition zero_EnterpriseTLSPolicyObservation :: EnterpriseTLSPolicyObservation where
  "zero_EnterpriseTLSPolicyObservation = \<lparr>
    etl_State = [], etl_TrustStoreAvailable = False, etl_TrustStoreRootCount = 0,
    etl_TrustStoreInsufficient = False, etl_DirectCertificateSHA256 = [],
    etl_ProxyCertificateSHA256 = [], etl_DirectCertificateSubject = [],
    etl_ProxyCertificateSubject = [], etl_DirectCertificateIssuer = [],
    etl_ProxyCertificateIssuer = [], etl_CertificatesDiffer = False,
    etl_CertificatesDifferKnown = False, etl_IssuersDiffer = False,
    etl_IssuersDifferKnown = False, etl_BothTrusted = False, etl_BothTrustedKnown = False,
    etl_BothHostnameVerified = False, etl_BothHostnameKnown = False,
    etl_PossibleInterception = False, etl_InterceptionSuspicion = [],
    etl_InterceptionBasis = [], etl_TrustMismatch = False, etl_TrustMismatchKnown = False,
    etl_TrustedCorporatePrivateRootKnown = False, etl_TrustedCorporatePrivateRoot = False,
    etl_Certainty = [], etl_Provenance = [], etl_EvidenceIDs = [], etl_Limitations = [],
    etl_Conflicts = []\<rparr>"

record EnterprisePolicyObservation =
  eno_RequestedIdentity :: "string"
  eno_State :: "EnterpriseObservationState"
  eno_Unsupported :: "bool"
  eno_WinHTTP :: "EnterpriseProxySourceObservation"
  eno_WinINET :: "EnterpriseProxySourceObservation"
  eno_ProxyConfigurationDiverges :: "bool"
  eno_ProxyConfigurationKnown :: "bool"
  eno_EffectiveDecisionDiverges :: "bool"
  eno_EffectiveDecisionKnown :: "bool"
  eno_Paths :: "EnterprisePathObservation list"
  eno_DirectVsProxy :: "EnterprisePathComparisonObservation"
  eno_Firewall :: "EnterpriseFirewallObservation"
  eno_Network :: "EnterpriseNetworkCorrelationObservation"
  eno_TLS :: "EnterpriseTLSPolicyObservation"
  eno_Certainty :: "ObservationCertainty"
  eno_Provenance :: "string list"
  eno_EvidenceIDs :: "string list"
  eno_ProbeNames :: "string list"
  eno_Limitations :: "string list"
  eno_Conflicts :: "ObservationConflict list"

definition zero_EnterprisePolicyObservation :: EnterprisePolicyObservation where
  "zero_EnterprisePolicyObservation = \<lparr>
    eno_RequestedIdentity = [], eno_State = [], eno_Unsupported = False,
    eno_WinHTTP = zero_EnterpriseProxySourceObservation,
    eno_WinINET = zero_EnterpriseProxySourceObservation,
    eno_ProxyConfigurationDiverges = False, eno_ProxyConfigurationKnown = False,
    eno_EffectiveDecisionDiverges = False, eno_EffectiveDecisionKnown = False,
    eno_Paths = [], eno_DirectVsProxy = zero_EnterprisePathComparisonObservation,
    eno_Firewall = zero_EnterpriseFirewallObservation,
    eno_Network = zero_EnterpriseNetworkCorrelationObservation,
    eno_TLS = zero_EnterpriseTLSPolicyObservation, eno_Certainty = [], eno_Provenance = [],
    eno_EvidenceIDs = [], eno_ProbeNames = [], eno_Limitations = [], eno_Conflicts = []\<rparr>"

record EnvironmentAddress =
  va_IP :: "string"
  va_Prefix :: "int"

definition zero_EnvironmentAddress :: EnvironmentAddress where
  "zero_EnvironmentAddress = \<lparr>
    va_IP = [], va_Prefix = 0\<rparr>"

record EnvironmentInterface =
  vi_Index :: "int"
  vi_Name :: "string"
  vi_Description :: "string"
  vi_Type :: "string"
  vi_Hardware :: "string"
  vi_MTU :: "int"
  vi_Up :: "bool"
  vi_Loopback :: "bool"
  vi_VPN :: "bool"
  vi_Virtual :: "bool"
  vi_Addresses :: "EnvironmentAddress list"
  vi_DNSServers :: "string list"
  vi_DNSSuffix :: "string"
  vi_DNSSearchList :: "string list"
  vi_State :: "EnvironmentObservationState"
  vi_Certainty :: "ObservationCertainty"
  vi_Provenance :: "string list"
  vi_EvidenceIDs :: "string list"
  vi_Limitations :: "string list"

definition zero_EnvironmentInterface :: EnvironmentInterface where
  "zero_EnvironmentInterface = \<lparr>
    vi_Index = 0, vi_Name = [], vi_Description = [], vi_Type = [], vi_Hardware = [],
    vi_MTU = 0, vi_Up = False, vi_Loopback = False, vi_VPN = False, vi_Virtual = False,
    vi_Addresses = [], vi_DNSServers = [], vi_DNSSuffix = [], vi_DNSSearchList = [],
    vi_State = [], vi_Certainty = [], vi_Provenance = [], vi_EvidenceIDs = [],
    vi_Limitations = []\<rparr>"

record EnvironmentDNSObservation =
  vd_State :: "EnvironmentObservationState"
  vd_Servers :: "string list"
  vd_Suffixes :: "string list"
  vd_SearchList :: "string list"
  vd_NRPT :: "NameResolutionPolicyRule list"
  vd_HostsFileEntries :: "NameResolutionHostEntry list"
  vd_ResolverError :: "string"
  vd_NRPTError :: "string"
  vd_HostsFileError :: "string"
  vd_Certainty :: "ObservationCertainty"
  vd_Provenance :: "string list"
  vd_EvidenceIDs :: "string list"
  vd_Limitations :: "string list"
  vd_Conflicts :: "ObservationConflict list"

definition zero_EnvironmentDNSObservation :: EnvironmentDNSObservation where
  "zero_EnvironmentDNSObservation = \<lparr>
    vd_State = [], vd_Servers = [], vd_Suffixes = [], vd_SearchList = [], vd_NRPT = [],
    vd_HostsFileEntries = [], vd_ResolverError = [], vd_NRPTError = [],
    vd_HostsFileError = [], vd_Certainty = [], vd_Provenance = [], vd_EvidenceIDs = [],
    vd_Limitations = [], vd_Conflicts = []\<rparr>"

record EnvironmentRoute =
  vr_RoutePrefix :: "string"
  vr_Gateway :: "string"
  vr_NextHop :: "string"
  vr_Interface :: "string"
  vr_InterfaceIndex :: "int"
  vr_SourceAddress :: "string"
  vr_Metric :: "int"
  vr_InterfaceType :: "string"
  vr_VPNOrTunnel :: "bool"
  vr_VirtualAdapter :: "bool"
  vr_Selected :: "bool"

definition zero_EnvironmentRoute :: EnvironmentRoute where
  "zero_EnvironmentRoute = \<lparr>
    vr_RoutePrefix = [], vr_Gateway = [], vr_NextHop = [], vr_Interface = [],
    vr_InterfaceIndex = 0, vr_SourceAddress = [], vr_Metric = 0, vr_InterfaceType = [],
    vr_VPNOrTunnel = False, vr_VirtualAdapter = False, vr_Selected = False\<rparr>"

record EnvironmentRoutingObservation =
  vg_State :: "EnvironmentObservationState"
  vg_Routes :: "EnvironmentRoute list"
  vg_DefaultIPv4 :: "EnvironmentRoute option"
  vg_DefaultIPv6 :: "EnvironmentRoute option"
  vg_RouteTableKnown :: "bool"
  vg_Error :: "string"
  vg_Certainty :: "ObservationCertainty"
  vg_Provenance :: "string list"
  vg_EvidenceIDs :: "string list"
  vg_Limitations :: "string list"
  vg_Conflicts :: "ObservationConflict list"

definition zero_EnvironmentRoutingObservation :: EnvironmentRoutingObservation where
  "zero_EnvironmentRoutingObservation = \<lparr>
    vg_State = [], vg_Routes = [], vg_DefaultIPv4 = None, vg_DefaultIPv6 = None,
    vg_RouteTableKnown = False, vg_Error = [], vg_Certainty = [], vg_Provenance = [],
    vg_EvidenceIDs = [], vg_Limitations = [], vg_Conflicts = []\<rparr>"

record EnvironmentProxySource =
  vps_Source :: "string"
  vps_State :: "EnvironmentObservationState"
  vps_Direct :: "bool"
  vps_StaticProxyConfigured :: "bool"
  vps_ProxyEndpoints :: "string list"
  vps_ProxyBypass :: "string list"
  vps_PACConfigured :: "bool"
  vps_PACURL :: "string"
  vps_AutoDetect :: "bool"
  vps_Error :: "string"
  vps_Certainty :: "ObservationCertainty"
  vps_Provenance :: "string list"
  vps_EvidenceIDs :: "string list"
  vps_Limitations :: "string list"

definition zero_EnvironmentProxySource :: EnvironmentProxySource where
  "zero_EnvironmentProxySource = \<lparr>
    vps_Source = [], vps_State = [], vps_Direct = False, vps_StaticProxyConfigured = False,
    vps_ProxyEndpoints = [], vps_ProxyBypass = [], vps_PACConfigured = False,
    vps_PACURL = [], vps_AutoDetect = False, vps_Error = [], vps_Certainty = [],
    vps_Provenance = [], vps_EvidenceIDs = [], vps_Limitations = []\<rparr>"

record EnvironmentProxyObservation =
  vpx_State :: "EnvironmentObservationState"
  vpx_WinHTTP :: "EnvironmentProxySource"
  vpx_WinINET :: "EnvironmentProxySource"
  vpx_ConfigurationDiverges :: "bool"
  vpx_ConfigurationKnown :: "bool"
  vpx_PACUseObserved :: "bool"
  vpx_EffectiveUseTargetBounded :: "bool"
  vpx_Certainty :: "ObservationCertainty"
  vpx_Provenance :: "string list"
  vpx_EvidenceIDs :: "string list"
  vpx_Limitations :: "string list"
  vpx_Conflicts :: "ObservationConflict list"

definition zero_EnvironmentProxyObservation :: EnvironmentProxyObservation where
  "zero_EnvironmentProxyObservation = \<lparr>
    vpx_State = [], vpx_WinHTTP = zero_EnvironmentProxySource,
    vpx_WinINET = zero_EnvironmentProxySource, vpx_ConfigurationDiverges = False,
    vpx_ConfigurationKnown = False, vpx_PACUseObserved = False,
    vpx_EffectiveUseTargetBounded = False, vpx_Certainty = [], vpx_Provenance = [],
    vpx_EvidenceIDs = [], vpx_Limitations = [], vpx_Conflicts = []\<rparr>"

record EnvironmentVPNObservation =
  vv_State :: "EnvironmentObservationState"
  vv_Present :: "bool"
  vv_PresentKnown :: "bool"
  vv_ActiveAdapters :: "string list"
  vv_VirtualAdapters :: "string list"
  vv_RouteParticipationKnown :: "bool"
  vv_RouteParticipation :: "string list"
  vv_Certainty :: "ObservationCertainty"
  vv_Provenance :: "string list"
  vv_EvidenceIDs :: "string list"
  vv_Limitations :: "string list"

definition zero_EnvironmentVPNObservation :: EnvironmentVPNObservation where
  "zero_EnvironmentVPNObservation = \<lparr>
    vv_State = [], vv_Present = False, vv_PresentKnown = False, vv_ActiveAdapters = [],
    vv_VirtualAdapters = [], vv_RouteParticipationKnown = False, vv_RouteParticipation = [],
    vv_Certainty = [], vv_Provenance = [], vv_EvidenceIDs = [], vv_Limitations = []\<rparr>"

record EnvironmentTrustObservation =
  vt_State :: "EnvironmentObservationState"
  vt_Available :: "bool"
  vt_RootCount :: "int"
  vt_EnterpriseRootSummary :: "string"
  vt_InsufficientPrivilege :: "bool"
  vt_Error :: "string"
  vt_Certainty :: "ObservationCertainty"
  vt_Provenance :: "string list"
  vt_EvidenceIDs :: "string list"
  vt_Limitations :: "string list"

definition zero_EnvironmentTrustObservation :: EnvironmentTrustObservation where
  "zero_EnvironmentTrustObservation = \<lparr>
    vt_State = [], vt_Available = False, vt_RootCount = 0, vt_EnterpriseRootSummary = [],
    vt_InsufficientPrivilege = False, vt_Error = [], vt_Certainty = [], vt_Provenance = [],
    vt_EvidenceIDs = [], vt_Limitations = []\<rparr>"

record EnvironmentCapability =
  vc_Name :: "string"
  vc_State :: "EnvironmentCapabilityState"
  vc_Detail :: "string"

definition zero_EnvironmentCapability :: EnvironmentCapability where
  "zero_EnvironmentCapability = \<lparr>
    vc_Name = [], vc_State = [], vc_Detail = []\<rparr>"

record EnvironmentRuntimeObservation =
  vn_State :: "EnvironmentObservationState"
  vn_OS :: "string"
  vn_Arch :: "string"
  vn_OSVersion :: "string"
  vn_RuntimeVersion :: "string"
  vn_TadoriVersion :: "string"
  vn_Privilege :: "string"
  vn_Capabilities :: "EnvironmentCapability list"
  vn_Provenance :: "string list"
  vn_EvidenceIDs :: "string list"
  vn_Limitations :: "string list"

definition zero_EnvironmentRuntimeObservation :: EnvironmentRuntimeObservation where
  "zero_EnvironmentRuntimeObservation = \<lparr>
    vn_State = [], vn_OS = [], vn_Arch = [], vn_OSVersion = [], vn_RuntimeVersion = [],
    vn_TadoriVersion = [], vn_Privilege = [], vn_Capabilities = [], vn_Provenance = [],
    vn_EvidenceIDs = [], vn_Limitations = []\<rparr>"

record EnvironmentSnapshot =
  vs_SchemaVersion :: "string"
  vs_CapturedAt :: "gotime"
  vs_State :: "EnvironmentObservationState"
  vs_Interfaces :: "EnvironmentInterface list"
  vs_InterfacesState :: "EnvironmentObservationState"
  vs_DNS :: "EnvironmentDNSObservation"
  vs_Routing :: "EnvironmentRoutingObservation"
  vs_Proxy :: "EnvironmentProxyObservation"
  vs_VPN :: "EnvironmentVPNObservation"
  vs_Firewall :: "EnterpriseFirewallObservation"
  vs_Trust :: "EnvironmentTrustObservation"
  vs_Runtime :: "EnvironmentRuntimeObservation"
  vs_Provenance :: "string list"
  vs_EvidenceIDs :: "string list"
  vs_Limitations :: "string list"
  vs_Conflicts :: "ObservationConflict list"

definition zero_EnvironmentSnapshot :: EnvironmentSnapshot where
  "zero_EnvironmentSnapshot = \<lparr>
    vs_SchemaVersion = [], vs_CapturedAt = 0, vs_State = [], vs_Interfaces = [],
    vs_InterfacesState = [], vs_DNS = zero_EnvironmentDNSObservation,
    vs_Routing = zero_EnvironmentRoutingObservation,
    vs_Proxy = zero_EnvironmentProxyObservation, vs_VPN = zero_EnvironmentVPNObservation,
    vs_Firewall = zero_EnterpriseFirewallObservation,
    vs_Trust = zero_EnvironmentTrustObservation,
    vs_Runtime = zero_EnvironmentRuntimeObservation, vs_Provenance = [], vs_EvidenceIDs = [],
    vs_Limitations = [], vs_Conflicts = []\<rparr>"

record Observations =
  ob_Endpoint :: "EndpointObservation"
  ob_NameResolution :: "NameResolutionObservation"
  ob_NetworkContext :: "NetworkContext"
  ob_EnterprisePolicy :: "EnterprisePolicyObservation"
  ob_Environment :: "EnvironmentSnapshot option"
  ob_Transport :: "TransportObservation"
  ob_Security :: "SecurityObservation"
  ob_Application :: "ApplicationObservation"
  ob_BrowserCapture :: "BrowserCaptureObservation option"
  ob_Paths :: "PathObservation list"
  ob_PacketFlows :: "PacketFlowEvidence list"
  ob_PathProvenance :: "ObservationProvenance list"
  ob_PacketFlowProvenance :: "ObservationProvenance list"
  ob_PathCorrelations :: "PathCorrelation list"
  ob_Conflicts :: "ObservationConflict list"
  ob_Divergences :: "ObservationDivergence list"

definition zero_Observations :: Observations where
  "zero_Observations = \<lparr>
    ob_Endpoint = zero_EndpointObservation,
    ob_NameResolution = zero_NameResolutionObservation,
    ob_NetworkContext = zero_NetworkContext,
    ob_EnterprisePolicy = zero_EnterprisePolicyObservation, ob_Environment = None,
    ob_Transport = zero_TransportObservation, ob_Security = zero_SecurityObservation,
    ob_Application = zero_ApplicationObservation, ob_BrowserCapture = None, ob_Paths = [],
    ob_PacketFlows = [], ob_PathProvenance = [], ob_PacketFlowProvenance = [],
    ob_PathCorrelations = [], ob_Conflicts = [], ob_Divergences = []\<rparr>"

record DiagnosticReport =
  dr_SchemaVersion :: "string"
  dr_Target :: "Target"
  dr_SessionID :: "string"
  dr_Status :: "ReportStatus"
  dr_StartedAt :: "gotime option"
  dr_CompletedAt :: "gotime option"
  dr_Probes :: "ProbeResult list"
  dr_Observations :: "Observations"
  dr_Findings :: "DiagnosticFinding list"

definition zero_DiagnosticReport :: DiagnosticReport where
  "zero_DiagnosticReport = \<lparr>
    dr_SchemaVersion = [], dr_Target = zero_Target, dr_SessionID = [], dr_Status = [],
    dr_StartedAt = None, dr_CompletedAt = None, dr_Probes = [],
    dr_Observations = zero_Observations, dr_Findings = []\<rparr>"

record BrowserCaptureReport =
  br_SchemaVersion :: "string"
  br_SessionID :: "string"
  br_Browser :: "string"
  br_State :: "BrowserCaptureState"
  br_StartedAt :: "gotime"
  br_StoppedAt :: "gotime option"
  br_Observations :: "Observations"

definition zero_BrowserCaptureReport :: BrowserCaptureReport where
  "zero_BrowserCaptureReport = \<lparr>
    br_SchemaVersion = [], br_SessionID = [], br_Browser = [], br_State = [],
    br_StartedAt = 0, br_StoppedAt = None, br_Observations = zero_Observations\<rparr>"

end
