(* ===== verification/Diagnosis.thy ===== *)
theory Diagnosis
  imports Target ModelReportTypes
begin

text \<open>
  \<open>internal/diagnosis/diagnosis.go\<close>: the interpretation of the observation envelope. The
  collectors walk the sections of the envelope and add failure candidates and layer successes to
  the diagnosis state, in the code's order; \<open>selectFindings\<close> picks at most one causal finding by
  the ordered rule table or, for reasons outside the table, by layer, and adds the gateway
  finding as support. Each Go function is one definition; a loop that appends to the state is a
  \<open>fold\<close> of its body. The string constants are those of \<open>ModelConstants\<close>.
\<close>

section \<open>State of the diagnosis\<close>

record candidate =
  cd_reason :: FailureReason
  cd_layer :: Layer
  cd_domain :: FaultDomain
  cd_target :: Target
  cd_probeNames :: "string list"
  cd_evidenceIDs :: "string list"
  cd_comparative :: bool
  cd_supporting :: bool

record success =
  su_layer :: Layer
  su_target :: Target
  su_probeNames :: "string list"
  su_evidenceIDs :: "string list"

record diagnosisState =
  ds_value :: Observations
  ds_target :: Target
  ds_candidates :: "candidate list"
  ds_successes :: "success list"

record candidateRefs =
  cr_probeNames :: "string list"
  cr_evidenceIDs :: "string list"

definition appendSuccess :: "diagnosisState \<Rightarrow> Layer \<Rightarrow> Target \<Rightarrow> candidateRefs \<Rightarrow> diagnosisState" where
  "appendSuccess state layer target refs =
     state\<lparr>ds_successes := ds_successes state @ [\<lparr>su_layer = layer, su_target = target,
       su_probeNames = cr_probeNames refs, su_evidenceIDs = cr_evidenceIDs refs\<rparr>]\<rparr>"

definition appendCandidate :: "diagnosisState \<Rightarrow> candidate \<Rightarrow> diagnosisState" where
  "appendCandidate state c = state\<lparr>ds_candidates := ds_candidates state @ [c]\<rparr>"

section \<open>Policy tables\<close>

definition rules :: "FailureReason list" where
  "rules = [
     FailureReasonInterfaceDown, FailureReasonNoIPAddress, FailureReasonNoRoute,
     FailureReasonInvalidRoute, FailureReasonEffectiveRouteDifference, FailureReasonDNSNXDomain,
     FailureReasonDNSNoAnswer, FailureReasonDNSTimeout, FailureReasonDNSResolverFailure,
     FailureReasonProxyAuthenticationRequired, FailureReasonProxyConnectDenied,
     FailureReasonDirectEgressRestricted, FailureReasonProxyConfigurationDivergence,
     FailureReasonProxyConfigurationFailure, FailureReasonProxyUnavailable,
     FailureReasonNetworkUnreachable, FailureReasonFirewallBlocked, FailureReasonTCPTimeout,
     FailureReasonTCPConnectionRefused, FailureReasonTCPConnectionReset,
     FailureReasonTCPSYNNotObserved, FailureReasonTLSInterceptionSuspected,
     FailureReasonTLSTrustStoreMismatch, FailureReasonTLSHandshakeFailure,
     FailureReasonCertificateValidationFailure, FailureReasonHTTPStatusCode,
     FailureReasonHTTPFailure, FailureReasonSSHTimeout, FailureReasonSSHBannerMalformed,
     FailureReasonSSHNonSSHResponse, FailureReasonSSHHandshakeFailure, FailureReasonRDPTimeout,
     FailureReasonRDPNegotiationRejected, FailureReasonRDPNegotiationMalformed,
     FailureReasonRDPNegotiationFailure, FailureReasonProbeExecution]"

definition activeReason :: "FailureReason \<Rightarrow> bool" where
  "activeReason reason \<longleftrightarrow>
     reason \<notin> set [[], FailureReasonNone, FailureReasonUnknown, FailureReasonUnsupported,
       FailureReasonICMPFailure, FailureReasonPathObservation, FailureReasonPathCancellation]"

definition isGenericReason :: "FailureReason \<Rightarrow> bool" where
  "isGenericReason reason =
     (if \<not> activeReason reason \<or> reason = FailureReasonGatewayUnreachable then False
      else list_all (\<lambda>value. value \<noteq> reason) rules)"

definition semantics :: "FailureReason \<Rightarrow> Layer \<times> FaultDomain" where
  "semantics reason =
     (if reason = FailureReasonInterfaceDown then (LayerInterface, FaultDomainLocal)
      else if reason = FailureReasonNoIPAddress then (LayerIPConfiguration, FaultDomainLocal)
      else if reason \<in> set [FailureReasonNoRoute, FailureReasonInvalidRoute,
          FailureReasonEffectiveRouteDifference]
        then (LayerRoute, FaultDomainRouting)
      else if reason = FailureReasonGatewayUnreachable then (LayerGateway, FaultDomainGateway)
      else if reason \<in> set [FailureReasonDNSNXDomain, FailureReasonDNSNoAnswer,
          FailureReasonDNSTimeout, FailureReasonDNSResolverFailure]
        then (LayerDNS, FaultDomainDNS)
      else if reason \<in> set [FailureReasonProxyConfigurationFailure,
          FailureReasonProxyConfigurationDivergence, FailureReasonProxyUnavailable,
          FailureReasonProxyConnectDenied, FailureReasonProxyAuthenticationRequired]
        then (LayerProxy, FaultDomainProxy)
      else if reason = FailureReasonDirectEgressRestricted then (LayerNetwork, FaultDomainPolicy)
      else if reason = FailureReasonNetworkUnreachable then (LayerNetwork, FaultDomainNetwork)
      else if reason = FailureReasonFirewallBlocked then (LayerNetwork, FaultDomainFirewall)
      else if reason = FailureReasonTCPSYNNotObserved then (LayerTCP, FaultDomainLocal)
      else if reason \<in> set [FailureReasonTCPTimeout, FailureReasonTCPConnectionRefused,
          FailureReasonTCPConnectionReset]
        then (LayerTCP, FaultDomainTransport)
      else if reason \<in> set [FailureReasonTLSHandshakeFailure,
          FailureReasonCertificateValidationFailure, FailureReasonTLSTrustStoreMismatch,
          FailureReasonTLSInterceptionSuspected]
        then (LayerTLS, FaultDomainTLS)
      else if reason \<in> set [FailureReasonHTTPStatusCode, FailureReasonHTTPFailure]
        then (LayerHTTP, FaultDomainHTTP)
      else if reason \<in> set [FailureReasonSSHTimeout, FailureReasonSSHBannerMalformed,
          FailureReasonSSHNonSSHResponse, FailureReasonSSHHandshakeFailure]
        then (LayerSSH, FaultDomainSSH)
      else if reason \<in> set [FailureReasonRDPTimeout, FailureReasonRDPNegotiationRejected,
          FailureReasonRDPNegotiationMalformed, FailureReasonRDPNegotiationFailure]
        then (LayerRDP, FaultDomainRDP)
      else if reason \<in> set [FailureReasonSMBTimeout, FailureReasonSMBProtocolRejection,
          FailureReasonSMBMalformedResponse]
        then (LayerSMB, FaultDomainSMB)
      else if reason = FailureReasonSMBConnectionRefused then (LayerTCP, FaultDomainTransport)
      else (LayerUnknown, FaultDomainUnknown))"

definition layerRank :: "Layer \<Rightarrow> int" where
  "layerRank layer =
     (if layer = LayerInterface \<or> layer = LayerIPConfiguration then 10
      else if layer = LayerRoute then 20
      else if layer = LayerGateway then 30
      else if layer = LayerDNS then 40
      else if layer = LayerProxy then 50
      else if layer = LayerNetwork then 60
      else if layer = LayerTCP then 70
      else if layer = LayerTLS then 80
      else if layer = LayerHTTP then 90
      else if layer = LayerSSH \<or> layer = LayerRDP then 95
      else if layer = LayerSMB then 90
      else if layer = LayerDestination then 100
      else if layer = LayerUnknown \<or> layer = [] then 1000
      else if layer = LayerICMP then 2000
      else 1100)"

definition upperLayers :: "Layer list" where
  "upperLayers = [LayerTLS, LayerHTTP, LayerSMB, LayerSSH, LayerRDP]"

definition successfulLayerContradicts :: "FailureReason \<Rightarrow> Layer \<Rightarrow> Layer \<Rightarrow> bool" where
  "successfulLayerContradicts reason failedLayer successfulLayer =
     (if reason \<in> set [FailureReasonDirectEgressRestricted,
          FailureReasonEffectiveRouteDifference, FailureReasonTLSInterceptionSuspected,
          FailureReasonTLSTrustStoreMismatch, FailureReasonProxyConfigurationDivergence]
        then False
      else if failedLayer \<in> set [LayerInterface, LayerIPConfiguration, LayerRoute,
          LayerGateway, LayerNetwork]
        then successfulLayer = LayerTCP \<or> successfulLayer \<in> set upperLayers
      else if failedLayer \<in> set [LayerDNS, LayerProxy] then successfulLayer = failedLayer
      else if failedLayer = LayerTCP
        then successfulLayer = LayerTCP \<or> successfulLayer \<in> set upperLayers
      else if failedLayer = LayerTLS then successfulLayer \<in> set upperLayers
      else if failedLayer = LayerHTTP then successfulLayer = LayerHTTP
      else if failedLayer \<in> set [LayerSSH, LayerRDP] then successfulLayer = failedLayer
      else if failedLayer = LayerSMB then successfulLayer = LayerSMB
      else False)"

definition transportEndpointLayer :: "Layer \<Rightarrow> bool" where
  "transportEndpointLayer layer \<longleftrightarrow>
     layer \<in> set [LayerTCP, LayerTLS, LayerHTTP, LayerSSH, LayerRDP, LayerDestination]"

definition transportReason :: "TransportConnectionOutcome \<Rightarrow> FailureReason" where
  "transportReason outcome =
     (if outcome = TransportConnectionOutcomeTimeout then FailureReasonTCPTimeout
      else if outcome = TransportConnectionOutcomeRefused then FailureReasonTCPConnectionRefused
      else if outcome = TransportConnectionOutcomeReset then FailureReasonTCPConnectionReset
      else if outcome = TransportConnectionOutcomeUnreachable
        then FailureReasonNetworkUnreachable
      else FailureReasonNone)"

section \<open>Small helpers\<close>

text \<open>The adjacent-duplicate loop of \<open>sortedUnique\<close>; \<open>prev\<close> is \<open>result[write-1]\<close>.\<close>

fun dropRepeats :: "string \<Rightarrow> string list \<Rightarrow> string list" where
  "dropRepeats prev [] = []"
| "dropRepeats prev (v # vs) = (if v \<noteq> prev then v # dropRepeats v vs else dropRepeats prev vs)"

definition sortedUnique :: "string list \<Rightarrow> string list" where
  "sortedUnique values =
     (case sortStrings values of [] \<Rightarrow> [] | v # vs \<Rightarrow> v # dropRepeats v vs)"

definition evidenceIDs :: "Evidence list \<Rightarrow> string list" where
  "evidenceIDs values = sortedUnique [ev_ID v. v \<leftarrow> values, ev_ID v \<noteq> []]"

definition provenanceProbeNames :: "string list \<Rightarrow> string list" where
  "provenanceProbeNames values =
     sortedUnique [trimPrefix ''probe:'' v. v \<leftarrow> values,
       hasPrefix ''probe:'' v \<and> length ''probe:'' < length v]"

definition provenanceAt :: "ObservationProvenance list \<Rightarrow> int \<Rightarrow> string list \<times> string list" where
  "provenanceAt values index =
     (if index < 0 \<or> int (length values) \<le> index then ([], [])
      else let value = values ! nat index in
        (if opv_ProbeName value \<noteq> [] then [opv_ProbeName value] else [],
         opv_EvidenceIDs value))"

definition enterpriseConflictEvidenceIDs :: "EnterprisePolicyObservation \<Rightarrow> string list" where
  "enterpriseConflictEvidenceIDs value = sortedUnique (concat (map oc_EvidenceIDs (eno_Conflicts value)))"

definition endpointAttemptsSucceeded :: "EndpointAttempt list \<Rightarrow> bool" where
  "endpointAttemptsSucceeded values =
     list_ex (\<lambda>value. ea_Status value = ProbeStatusPassed
       \<or> ea_FailureReason value = FailureReasonNone) values"

definition transportSucceeded :: "TransportObservation \<Rightarrow> bool" where
  "transportSucceeded value \<longleftrightarrow>
     tpo_Connected value \<or> tpo_ConnectionOutcome value = TransportConnectionOutcomeConnected
     \<or> tpo_TestedEndpoint value \<noteq> None
     \<or> endpointAttemptsSucceeded (tpo_CandidateAttempts value)"

definition packetFlowCanStrengthen ::
    "FailureReason \<Rightarrow> TransportConnectionOutcome \<Rightarrow> FailureReason \<Rightarrow> bool" where
  "packetFlowCanStrengthen reason outcome strengthened =
     (if strengthened = FailureReasonTCPConnectionReset
         \<or> strengthened = FailureReasonTCPSYNNotObserved
      then reason \<in> set [FailureReasonTCPTimeout, FailureReasonProbeExecution,
             FailureReasonUnknown, FailureReasonNone]
           \<or> outcome = TransportConnectionOutcomeTimeout
      else False)"

definition nameResolutionSucceeded :: "NameResolutionObservation \<Rightarrow> bool" where
  "nameResolutionSucceeded value \<longleftrightarrow>
     nro_SelectedAddress value \<noteq> [] \<or> nro_A value \<noteq> [] \<or> nro_AAAA value \<noteq> []
     \<or> (case nro_EffectivePath value of None \<Rightarrow> False
        | Some path \<Rightarrow> nrp_Mechanism path = NameResolutionMechanismLiteralIP)"

definition pathWorks :: "EnterprisePathObservation \<Rightarrow> bool" where
  "pathWorks value =
     (if activeReason (ept_FailureReason value) then False
      else ept_HTTPResponse value \<and> 200 \<le> ept_HTTPStatusCode value
             \<and> ept_HTTPStatusCode value < 400
           \<or> ept_TLSHandshake value \<and> ept_CertificateTrusted value
             \<and> ept_HostnameVerified value)"

definition enterprisePathLayer :: "EnterprisePathObservation \<Rightarrow> Layer \<times> FaultDomain" where
  "enterprisePathLayer value =
     (if containsStr ''proxy'' (toLower (ept_Mode value))
         \<or> containsStr ''proxy'' (toLower (ept_Source value))
      then (LayerProxy, FaultDomainProxy) else (LayerUnknown, FaultDomainUnknown))"

definition firstApplicationDNSFailure ::
    "DNSApplicationTransportObservation \<Rightarrow> DNSApplicationTransportObservation \<Rightarrow> FailureReason" where
  "firstApplicationDNSFailure udp tcp =
     (case filter (\<lambda>lane. activeReason (dt_FailureReason lane)) [udp, tcp] of
        [] \<Rightarrow> FailureReasonNone | lane # _ \<Rightarrow> dt_FailureReason lane)"

definition applicationProtocolResultObserved :: "ApplicationProtocolResult \<Rightarrow> bool" where
  "applicationProtocolResultObserved result \<longleftrightarrow>
     result \<notin> set [[], ApplicationProtocolResultUnknown, ApplicationProtocolResultNotAttempted]"

section \<open>Targets\<close>

definition targetFromObservations :: "Observations \<Rightarrow> Target" where
  "targetFromObservations value =
     (let e = ob_Endpoint value;
          identity = (if eo_RequestedIdentity e = []
            then nro_RequestedName (ob_NameResolution value) else eo_RequestedIdentity e) in
      zero_Target\<lparr>tg_RequestedIdentity := identity, tg_LiteralIP := eo_LiteralIP e,
        tg_Service := eo_Service e, tg_ApplicationProtocol := eo_ApplicationProtocol e,
        tg_TransportProtocol := eo_TransportProtocol e, tg_Port := eo_Port e,
        tg_Resource := eo_Resource e, tg_SelectedEndpoint := eo_SelectedEndpoint e,
        tg_TestedEndpoint := eo_TestedEndpoint e\<rparr>)"

definition targetFromProbes :: "ProbeResult list \<Rightarrow> Target" where
  "targetFromProbes probes =
     fold (\<lambda>probe target.
       let cand = pr_Target probe in
       if tg_RequestedIdentity cand = [] \<and> tg_Port cand = 0 \<and> tg_OriginalInput cand = []
         then target
       else if tg_RequestedIdentity target = [] \<or> tg_Port target = 0 then cand
       else target) probes zero_Target"

definition mergeTarget :: "Target \<Rightarrow> Target \<Rightarrow> Target" where
  "mergeTarget left right = left\<lparr>
     tg_RequestedIdentity := (if tg_RequestedIdentity left = [] then tg_RequestedIdentity right
       else tg_RequestedIdentity left),
     tg_Port := (if tg_Port left = 0 then tg_Port right else tg_Port left),
     tg_LiteralIP := (if tg_LiteralIP left = [] then tg_LiteralIP right else tg_LiteralIP left),
     tg_SelectedEndpoint := (if tg_SelectedEndpoint left = None then tg_SelectedEndpoint right
       else tg_SelectedEndpoint left),
     tg_TestedEndpoint := (if tg_TestedEndpoint left = None then tg_TestedEndpoint right
       else tg_TestedEndpoint left)\<rparr>"

definition compatibilityTarget :: "Target \<Rightarrow> Target \<Rightarrow> Target" where
  "compatibilityTarget base probe =
     (if tg_RequestedIdentity probe \<noteq> [] \<or> tg_Port probe \<noteq> 0 \<or> tg_OriginalInput probe \<noteq> []
      then probe else base)"

definition targetForDestination :: "Target \<Rightarrow> string \<Rightarrow> 16 word \<Rightarrow> Target" where
  "targetForDestination base destination port = base\<lparr>
     tg_RequestedIdentity := (if destination \<noteq> [] then destination
       else tg_RequestedIdentity base),
     tg_Port := (if port \<noteq> 0 then port else tg_Port base)\<rparr>"

definition targetFromEndpoint :: "Endpoint option \<Rightarrow> Endpoint option \<Rightarrow> string \<Rightarrow> Target" where
  "targetFromEndpoint probe tested requested =
     (let target = zero_Target\<lparr>tg_RequestedIdentity := requested\<rparr> in
      case tested of
        Some e \<Rightarrow> target\<lparr>tg_Port := ep_Port e, tg_TestedEndpoint := Some e\<rparr>
      | None \<Rightarrow>
          (case probe of
             Some e \<Rightarrow> target\<lparr>tg_Port := ep_Port e, tg_SelectedEndpoint := Some e\<rparr>
           | None \<Rightarrow> target))"

definition compatibilityTargetSnapshot :: "Target \<Rightarrow> Target" where
  "compatibilityTargetSnapshot target = target\<lparr>tg_TestedEndpoint := None\<rparr>"

definition compatibilityProbeSnapshot :: "ProbeResult list \<Rightarrow> ProbeResult list" where
  "compatibilityProbeSnapshot probes =
     map (\<lambda>p. p\<lparr>pr_Target := compatibilityTargetSnapshot (pr_Target p)\<rparr>) probes"

definition targetIdentity :: "Target \<Rightarrow> string" where
  "targetIdentity value =
     (if tg_RequestedIdentity value \<noteq> [] then tg_RequestedIdentity value
      else case tg_TestedEndpoint value of
        Some e \<Rightarrow> ep_Address e
      | None \<Rightarrow> (case tg_SelectedEndpoint value of
            Some e \<Rightarrow> ep_Address e | None \<Rightarrow> tg_LiteralIP value))"

definition targetAddresses :: "Target \<Rightarrow> string list" where
  "targetAddresses value =
     (if tg_LiteralIP value \<noteq> [] then [tg_LiteralIP value] else [])
     @ (case tg_SelectedEndpoint value of Some e \<Rightarrow> [ep_Address e] | None \<Rightarrow> [])
     @ (case tg_TestedEndpoint value of Some e \<Rightarrow> [ep_Address e] | None \<Rightarrow> [])"

definition targetAddressesCorrelate :: "Target \<Rightarrow> Target \<Rightarrow> bool" where
  "targetAddressesCorrelate left right =
     list_ex (\<lambda>leftValue. list_ex (\<lambda>rightValue.
         equalFold leftValue rightValue \<or> MatchesAddress left rightValue
         \<or> MatchesAddress right leftValue) (targetAddresses right)) (targetAddresses left)"

definition targetsCorrelate :: "Target \<Rightarrow> Target \<Rightarrow> Layer \<Rightarrow> bool" where
  "targetsCorrelate left right layer =
     (let leftIdentity = targetIdentity left; rightIdentity = targetIdentity right in
      if leftIdentity \<noteq> [] \<and> rightIdentity \<noteq> [] \<and> \<not> equalFold leftIdentity rightIdentity
         \<and> \<not> targetAddressesCorrelate left right then False
      else if transportEndpointLayer layer \<and> tg_Port left \<noteq> 0 \<and> tg_Port right \<noteq> 0
         \<and> tg_Port left \<noteq> tg_Port right then False
      else True)"

definition flowCorrelates :: "Target \<Rightarrow> Target \<Rightarrow> Layer \<Rightarrow> bool" where
  "flowCorrelates flow target layer = targetsCorrelate flow target layer"

text \<open>The loop over the packet flows returns at the first correlated one with a decisive outcome.\<close>

fun strongFlowIn :: "PacketFlowEvidence list \<Rightarrow> Target \<Rightarrow> bool" where
  "strongFlowIn [] target = False"
| "strongFlowIn (flow # flows) target =
     (if pkf_CaptureStatus flow \<noteq> PacketCaptureStatusAvailable
         \<or> \<not> flowCorrelates (pkf_Target flow) target LayerTCP then strongFlowIn flows target
      else if pkf_Outcome flow \<in> set [PacketFlowOutcomeTCPHandshakeConfirmed,
          PacketFlowOutcomeTCPSYNACK]
        then pkf_Certainty flow = EvidenceCertaintyConfirmedEndpointResponse
      else if pkf_Outcome flow \<in> set [PacketFlowOutcomeTCPRST, PacketFlowOutcomeProbeNotEmitted]
        then True
      else strongFlowIn flows target)"

definition strongPacketFlow :: "Observations \<Rightarrow> FailureReason \<Rightarrow> Target \<Rightarrow> bool" where
  "strongPacketFlow value reason target =
     (if reason \<notin> set [FailureReasonTCPTimeout, FailureReasonProbeExecution,
          FailureReasonUnknown, FailureReasonNone] then False
      else strongFlowIn (ob_PacketFlows value) target)"

section \<open>Collecting candidates\<close>

definition addReasonCandidate :: "diagnosisState \<Rightarrow> FailureReason \<Rightarrow> Layer \<Rightarrow> FaultDomain \<Rightarrow> Target
    \<Rightarrow> candidateRefs \<Rightarrow> bool \<Rightarrow> diagnosisState" where
  "addReasonCandidate state reason fallbackLayer fallbackDomain target refs comparative =
     (if \<not> activeReason reason then state
      else let (layer0, domain0) = semantics reason;
             (layer, domain1) = (if layer0 = LayerUnknown then (fallbackLayer, fallbackDomain)
               else (layer0, domain0));
             domain = (if domain1 = [] then FaultDomainUnknown else domain1) in
           appendCandidate state \<lparr>cd_reason = reason, cd_layer = layer, cd_domain = domain,
             cd_target = target, cd_probeNames = cr_probeNames refs,
             cd_evidenceIDs = cr_evidenceIDs refs, cd_comparative = comparative,
             cd_supporting = (reason = FailureReasonGatewayUnreachable)\<rparr>)"

definition collectEndpoint :: "diagnosisState \<Rightarrow> EndpointObservation \<Rightarrow> Target \<Rightarrow> diagnosisState" where
  "collectEndpoint state value target0 =
     (let target = mergeTarget target0 (zero_Target\<lparr>
            tg_RequestedIdentity := eo_RequestedIdentity value, tg_Port := eo_Port value\<rparr>);
          refs = \<lparr>cr_probeNames = eo_ProbeNames value, cr_evidenceIDs = eo_EvidenceIDs value\<rparr>;
          state1 = (if eo_TestedEndpoint value \<noteq> None
            then appendSuccess state LayerTCP target refs else state);
          attempts = eo_CandidateAttempts value in
      if attempts = [] \<or> endpointAttemptsSucceeded attempts then state1
      else fold (\<lambda>attempt st.
          if \<not> activeReason (ea_FailureReason attempt) then st
          else let (layer, domain) = semantics (ea_FailureReason attempt);
                 ids = ea_EvidenceIDs attempt @ ec_EvidenceIDs (ea_Candidate attempt) in
               appendCandidate st \<lparr>cd_reason = ea_FailureReason attempt, cd_layer = layer,
                 cd_domain = domain, cd_target = target, cd_probeNames = eo_ProbeNames value,
                 cd_evidenceIDs = ids, cd_comparative = False, cd_supporting = False\<rparr>)
        attempts state1)"

text \<open>
  Both the name-resolution and the network section add a candidate for every value of a
  conflict about a failure reason, except the section's own failure reason.
\<close>

definition conflictReasons :: "diagnosisState \<Rightarrow> ObservationConflict list \<Rightarrow> FailureReason \<Rightarrow> Layer
    \<Rightarrow> FaultDomain \<Rightarrow> Target \<Rightarrow> string list \<Rightarrow> string list \<Rightarrow> diagnosisState" where
  "conflictReasons state conflicts own layer domain target names ids =
     fold (\<lambda>conflict st.
       if \<not> containsStr ''failure_reason'' (oc_Field conflict) then st
       else fold (\<lambda>reason st2.
           if reason = own then st2
           else addReasonCandidate st2 reason layer domain target
             \<lparr>cr_probeNames = names, cr_evidenceIDs = ids @ oc_EvidenceIDs conflict\<rparr> False)
         (oc_Values conflict) st) conflicts state"

definition collectNameResolution ::
    "diagnosisState \<Rightarrow> NameResolutionObservation \<Rightarrow> Target \<Rightarrow> diagnosisState" where
  "collectNameResolution state value target0 =
     (let target = mergeTarget target0
            (zero_Target\<lparr>tg_RequestedIdentity := nro_RequestedName value\<rparr>);
          refs = \<lparr>cr_probeNames = nro_ProbeNames value, cr_evidenceIDs = nro_EvidenceIDs value\<rparr>;
          state1 = (if activeReason (nro_FailureReason value)
            then addReasonCandidate state (nro_FailureReason value) LayerDNS FaultDomainDNS
              target refs False
            else state);
          state2 = conflictReasons state1 (nro_Conflicts value) (nro_FailureReason value) LayerDNS
            FaultDomainDNS target (nro_ProbeNames value) (nro_EvidenceIDs value);
          state3 = (if \<not> activeReason (nro_FailureReason value) \<and> nro_EffectivePath value \<noteq> None
              \<and> nro_A value = [] \<and> nro_AAAA value = []
              \<and> nro_Certainty value = ObservationCertaintyObserved
            then addReasonCandidate state2 FailureReasonDNSNoAnswer LayerDNS FaultDomainDNS
              target refs False
            else state2) in
      if nameResolutionSucceeded value then appendSuccess state3 LayerDNS target refs
      else state3)"

definition collectNetwork :: "diagnosisState \<Rightarrow> NetworkContext \<Rightarrow> Target \<Rightarrow> diagnosisState" where
  "collectNetwork state value target0 =
     (let target = mergeTarget target0
            (zero_Target\<lparr>tg_RequestedIdentity := nc_RequestedIdentity value\<rparr>);
          refs = \<lparr>cr_probeNames = nc_ProbeNames value, cr_evidenceIDs = nc_EvidenceIDs value\<rparr>;
          state1 = (if activeReason (nc_FailureReason value)
              \<and> \<not> (nc_EffectiveRoute value \<noteq> RouteDispositionUnknown
                   \<and> (nc_FailureReason value = FailureReasonNoRoute
                      \<or> nc_FailureReason value = FailureReasonInvalidRoute))
            then addReasonCandidate state (nc_FailureReason value) LayerRoute
              (nc_FaultDomain value) target refs False
            else state);
          state2 = conflictReasons state1 (nc_Conflicts value) (nc_FailureReason value) LayerRoute
            (nc_FaultDomain value) target (nc_ProbeNames value) (nc_EvidenceIDs value) in
      if nc_EffectiveRoute value \<noteq> [] \<and> nc_EffectiveRoute value \<noteq> RouteDispositionUnknown
      then appendSuccess state2 LayerRoute target refs
      else state2)"

definition collectTransport :: "diagnosisState \<Rightarrow> TransportObservation \<Rightarrow> Target \<Rightarrow> diagnosisState" where
  "collectTransport state value target0 =
     (let target = mergeTarget target0 (targetFromEndpoint (tpo_ProbeEndpoint value)
            (tpo_TestedEndpoint value) (tpo_RequestedEndpoint value));
          refs = \<lparr>cr_probeNames = tpo_ProbeNames value, cr_evidenceIDs = tpo_EvidenceIDs value\<rparr> in
      if transportSucceeded value then appendSuccess state LayerTCP target refs
      else let reason = (if \<not> activeReason (tpo_FailureReason value)
                 then transportReason (tpo_ConnectionOutcome value) else tpo_FailureReason value);
               state1 = (if activeReason reason \<and> \<not> strongPacketFlow (ds_value state) reason target
                   \<and> tpo_Applicability value \<noteq> ObservationApplicabilityUnsupported
                   \<and> tpo_Applicability value \<noteq> ObservationApplicabilityInapplicable
                 then addReasonCandidate state reason LayerTCP (tpo_FaultDomain value) target refs False
                 else state) in
           fold (\<lambda>conflict st.
             if oc_Field conflict \<noteq> ''transport.connection_outcome'' then st
             else fold (\<lambda>outcome st2.
                 let conflictReason = transportReason outcome in
                 if activeReason conflictReason
                 then addReasonCandidate st2 conflictReason LayerTCP (tpo_FaultDomain value) target
                   \<lparr>cr_probeNames = tpo_ProbeNames value,
                    cr_evidenceIDs = tpo_EvidenceIDs value @ oc_EvidenceIDs conflict\<rparr> False
                 else st2) (oc_Values conflict) st) (tpo_Conflicts value) state1)"

definition collectPacketFlow ::
    "Observations \<Rightarrow> Target \<Rightarrow> nat \<times> PacketFlowEvidence \<Rightarrow> diagnosisState \<Rightarrow> diagnosisState" where
  "collectPacketFlow value target indexed state =
     (let (index, flow) = indexed;
          flowTarget = mergeTarget target (pkf_Target flow);
          (names, ids0) = provenanceAt (ob_PacketFlowProvenance value) (int index);
          transport = ob_Transport value;
          ids = (if ids0 = [] then tpo_PacketFlowEvidenceIDs transport else ids0);
          refs = \<lparr>cr_probeNames = names, cr_evidenceIDs = ids\<rparr> in
      if pkf_CaptureStatus flow \<noteq> PacketCaptureStatusAvailable
         \<or> \<not> flowCorrelates (pkf_Target flow) flowTarget LayerTCP then state
      else if pkf_Outcome flow \<in> set [PacketFlowOutcomeTCPHandshakeConfirmed,
          PacketFlowOutcomeTCPSYNACK]
        then (if pkf_Certainty flow = EvidenceCertaintyConfirmedEndpointResponse
              then appendSuccess state LayerTCP flowTarget refs else state)
      else if pkf_Outcome flow = PacketFlowOutcomeTCPRST
        then (if pkf_Certainty flow = EvidenceCertaintyConfirmedEndpointResponse
                 \<and> packetFlowCanStrengthen (tpo_FailureReason transport)
                     (tpo_ConnectionOutcome transport) FailureReasonTCPConnectionReset
              then addReasonCandidate state FailureReasonTCPConnectionReset LayerTCP
                FaultDomainTransport flowTarget refs False
              else state)
      else if pkf_Outcome flow = PacketFlowOutcomeProbeNotEmitted
        then (if packetFlowCanStrengthen (tpo_FailureReason transport)
                   (tpo_ConnectionOutcome transport) FailureReasonTCPSYNNotObserved
              then addReasonCandidate state FailureReasonTCPSYNNotObserved LayerTCP
                FaultDomainLocal flowTarget refs False
              else state)
      else state)"

definition collectPacketFlows :: "diagnosisState \<Rightarrow> Observations \<Rightarrow> Target \<Rightarrow> diagnosisState" where
  "collectPacketFlows state value target =
     fold (collectPacketFlow value target) (enumerate 0 (ob_PacketFlows value)) state"

definition collectPath ::
    "Observations \<Rightarrow> Target \<Rightarrow> nat \<times> PathObservation \<Rightarrow> diagnosisState \<Rightarrow> diagnosisState" where
  "collectPath value target indexed state =
     (let (index, path) = indexed;
          pathTarget = targetForDestination target (pto_Destination path) (pto_DestinationPort path);
          (names, ids) = provenanceAt (ob_PathProvenance value) (int index) in
      if pto_Status path \<noteq> PathObservationStatusObserved \<or> \<not> pto_PortAware path
         \<or> pto_Protocol path \<noteq> PathProtocolTCP \<or> \<not> pto_DestinationReached path then state
      else if pto_DestinationTCPConnected path
        then appendSuccess state LayerTCP pathTarget
          \<lparr>cr_probeNames = names, cr_evidenceIDs = ids\<rparr>
      else state)"

definition collectPaths :: "diagnosisState \<Rightarrow> Observations \<Rightarrow> Target \<Rightarrow> diagnosisState" where
  "collectPaths state value target =
     fold (\<lambda>correlation st.
         if ptc_TCPDestinationConnected correlation
         then appendSuccess st LayerTCP (targetForDestination target
             (ptc_Destination correlation) (ptc_DestinationPort correlation))
           \<lparr>cr_probeNames = [], cr_evidenceIDs = []\<rparr>
         else st) (ob_PathCorrelations value)
       (fold (collectPath value target) (enumerate 0 (ob_Paths value)) state)"

definition collectSecurity :: "diagnosisState \<Rightarrow> SecurityObservation \<Rightarrow> Target \<Rightarrow> diagnosisState" where
  "collectSecurity state value target0 =
     (let target = mergeTarget target0 (targetFromEndpoint (so_EndpointUsed value) None []);
          refs = \<lparr>cr_probeNames = so_ProbeNames value, cr_evidenceIDs = so_EvidenceIDs value\<rparr> in
      if so_HandshakeComplete value then appendSuccess state LayerTLS target refs
      else let reason = (if \<not> activeReason (so_FailureReason value)
                 \<and> so_CertificateValidation value \<in> set [CertificateValidationInvalid,
                     CertificateValidationExpired, CertificateValidationHostnameMismatch,
                     CertificateValidationUntrusted, CertificateValidationIncomplete]
               then FailureReasonCertificateValidationFailure else so_FailureReason value) in
        if activeReason reason \<and> so_Applicability value \<noteq> ObservationApplicabilityUnsupported
        then addReasonCandidate state reason LayerTLS (so_FaultDomain value) target refs False
        else state)"

section \<open>Application protocols\<close>

definition collectHTTPApplication ::
    "diagnosisState \<Rightarrow> ApplicationObservation \<Rightarrow> Target \<Rightarrow> candidateRefs \<Rightarrow> diagnosisState" where
  "collectHTTPApplication state value target refs =
     (if ao_ResponseReceived value \<and> ao_Result value = HTTPResultSuccess
         \<and> ao_StatusCode value < 400
      then appendSuccess state LayerHTTP target refs
      else let reason =
             (if activeReason (ao_FailureReason value) then ao_FailureReason value
              else if ao_Result value = HTTPResultStatusFailure then FailureReasonHTTPStatusCode
              else if ao_Result value = HTTPResultRequestFailure then FailureReasonHTTPFailure
              else ao_FailureReason value) in
        if activeReason reason
        then addReasonCandidate state reason LayerHTTP (ao_FaultDomain value) target refs False
        else state)"

definition collectDNSApplication ::
    "diagnosisState \<Rightarrow> ApplicationObservation \<Rightarrow> Target \<Rightarrow> candidateRefs \<Rightarrow> diagnosisState" where
  "collectDNSApplication state value target refs =
     (if (case ao_DNS value of None \<Rightarrow> False
          | Some d \<Rightarrow> da_Result d = DNSApplicationResultSuccess
              \<or> da_Result d = DNSApplicationResultPartial)
      then appendSuccess state LayerDNS target refs
      else let reason =
             (case ao_DNS value of
                None \<Rightarrow> ao_FailureReason value
              | Some d \<Rightarrow>
                  let reason1 = (if \<not> activeReason (ao_FailureReason value)
                    then da_FailureReason d else ao_FailureReason value) in
                  if \<not> activeReason reason1
                  then firstApplicationDNSFailure (da_UDP d) (da_TCP d) else reason1) in
        if activeReason reason
        then addReasonCandidate state reason LayerDNS (ao_FaultDomain value) target refs False
        else state)"

definition collectSMBApplication ::
    "diagnosisState \<Rightarrow> ApplicationObservation \<Rightarrow> Target \<Rightarrow> candidateRefs \<Rightarrow> diagnosisState" where
  "collectSMBApplication state value target refs =
     (if (case ao_SMB value of None \<Rightarrow> False | Some s \<Rightarrow> sm_Result s = SMBResultNegotiated)
      then appendSuccess state LayerSMB target refs
      else let reason =
             (if activeReason (ao_FailureReason value) then ao_FailureReason value
              else case ao_SMB value of
                None \<Rightarrow> ao_FailureReason value
              | Some s \<Rightarrow>
                  if sm_Result s = SMBResultProtocolRejection
                    then FailureReasonSMBProtocolRejection
                  else if sm_Result s = SMBResultMalformedResponse
                    then FailureReasonSMBMalformedResponse
                  else if sm_Result s = SMBResultTimeout then FailureReasonSMBTimeout
                  else if sm_Result s = SMBResultTCPFailure
                    then transportReason (tpo_ConnectionOutcome (ob_Transport (ds_value state)))
                  else ao_FailureReason value) in
        if activeReason reason
        then addReasonCandidate state reason LayerSMB (ao_FaultDomain value) target refs False
        else state)"

definition protocolReason :: "ApplicationObservation \<Rightarrow> ApplicationProtocol \<Rightarrow> FailureReason" where
  "protocolReason value protocol =
     (let result = ao_ProtocolResult value in
      if activeReason (ao_FailureReason value) then ao_FailureReason value
      else if protocol = ApplicationProtocolSSH then
        (if result = ApplicationProtocolResultTimeout then FailureReasonSSHTimeout
         else if result = ApplicationProtocolResultMalformed then FailureReasonSSHBannerMalformed
         else if result = ApplicationProtocolResultFailure then
           (if ao_ResponseReceived value \<and> ao_ServerIdentification value = []
            then FailureReasonSSHNonSSHResponse else FailureReasonSSHHandshakeFailure)
         else ao_FailureReason value)
      else
        (if result = ApplicationProtocolResultTimeout then FailureReasonRDPTimeout
         else if result = ApplicationProtocolResultRejected
           then FailureReasonRDPNegotiationRejected
         else if result = ApplicationProtocolResultMalformed
           then FailureReasonRDPNegotiationMalformed
         else if result = ApplicationProtocolResultFailure
           then FailureReasonRDPNegotiationFailure
         else ao_FailureReason value))"

definition collectProtocolApplication :: "diagnosisState \<Rightarrow> ApplicationObservation \<Rightarrow> Target
    \<Rightarrow> candidateRefs \<Rightarrow> ApplicationProtocol \<Rightarrow> diagnosisState" where
  "collectProtocolApplication state value target refs protocol =
     (let layer = (if protocol = ApplicationProtocolRDP then LayerRDP else LayerSSH) in
      if ao_ProtocolResult value = ApplicationProtocolResultSuccess \<or> ao_HandshakeComplete value
      then appendSuccess state layer target refs
      else let reason = protocolReason value protocol in
        if activeReason reason
        then addReasonCandidate state reason layer (ao_FaultDomain value) target refs False
        else state)"

definition inferredProtocol :: "ApplicationObservation \<Rightarrow> Target \<Rightarrow> ApplicationProtocol" where
  "inferredProtocol value target =
     (let protocol = (if ao_Protocol value = ApplicationProtocolNone
            then tg_ApplicationProtocol target else ao_Protocol value) in
      if protocol \<noteq> ApplicationProtocolNone then protocol
      else if ao_DNS value \<noteq> None then ApplicationProtocolDNS
      else if ao_SMB value \<noteq> None then ApplicationProtocolSMB
      else if ao_ServerIdentification value \<noteq> []
          \<or> applicationProtocolResultObserved (ao_ProtocolResult value)
        then tg_ApplicationProtocol target
      else ApplicationProtocolHTTP)"

definition collectApplication ::
    "diagnosisState \<Rightarrow> ApplicationObservation \<Rightarrow> Target \<Rightarrow> diagnosisState" where
  "collectApplication state value target0 =
     (let target = mergeTarget target0 (targetFromEndpoint (ao_EndpointUsed value) None []);
          refs = \<lparr>cr_probeNames = ao_ProbeNames value, cr_evidenceIDs = ao_EvidenceIDs value\<rparr> in
      if ao_Applicability value \<in> set [ObservationApplicabilityInapplicable,
           ObservationApplicabilityUnsupported, ObservationApplicabilityNotAttempted]
      then state
      else let protocol = inferredProtocol value target in
        if protocol = ApplicationProtocolHTTP \<or> protocol = ApplicationProtocolHTTPS
          then collectHTTPApplication state value target refs
        else if protocol = ApplicationProtocolDNS
          then collectDNSApplication state value target refs
        else if protocol = ApplicationProtocolSMB
          then collectSMBApplication state value target refs
        else if protocol = ApplicationProtocolSSH \<or> protocol = ApplicationProtocolRDP
          then collectProtocolApplication state value target refs protocol
        else if protocol = ApplicationProtocolTLS \<or> protocol = ApplicationProtocolCustom
          then state
        else if activeReason (ao_FailureReason value)
          then addReasonCandidate state (ao_FailureReason value) LayerUnknown
            (ao_FaultDomain value) target refs False
        else state)"

section \<open>Enterprise policy\<close>

definition addEnterprisePathSuccesses :: "diagnosisState \<Rightarrow> EnterprisePathObservation \<Rightarrow> Target
    \<Rightarrow> candidateRefs \<Rightarrow> diagnosisState" where
  "addEnterprisePathSuccesses state path target refs =
     (let state1 = (if ept_TCPConnected path \<or> ept_HTTPResponse path \<or> ept_TLSHandshake path
            then appendSuccess state LayerTCP target refs else state);
          state2 = (if ept_TLSHandshake path \<and> ept_CertificateTrusted path
              \<and> ept_HostnameVerified path
            then appendSuccess state1 LayerTLS target refs else state1) in
      if ept_HTTPResponse path \<and> 200 \<le> ept_HTTPStatusCode path \<and> ept_HTTPStatusCode path < 400
      then appendSuccess state2 LayerHTTP target refs else state2)"

definition collectEnterpriseProxySource ::
    "diagnosisState \<Rightarrow> EnterpriseProxySourceObservation \<Rightarrow> Target \<Rightarrow> diagnosisState" where
  "collectEnterpriseProxySource state value target =
     (let ids0 = eps_EvidenceIDs value @ epc_EvidenceIDs (eps_Configuration value);
          refs = \<lparr>cr_probeNames = [], cr_evidenceIDs = ids0\<rparr>;
          effective = eps_Effective value;
          state1 = (if epc_Error (eps_Configuration value) \<noteq> []
            then addReasonCandidate state FailureReasonProxyConfigurationFailure LayerProxy
              FaultDomainProxy target refs False
            else state);
          state2 = (if epe_Observed effective \<and> \<not> epe_ResolutionOK effective
              \<and> epe_Error effective \<noteq> []
            then addReasonCandidate state1 FailureReasonProxyConfigurationFailure LayerProxy
              FaultDomainProxy target
              \<lparr>cr_probeNames = provenanceProbeNames (epe_Provenance effective),
               cr_evidenceIDs = ids0 @ epe_EvidenceIDs effective\<rparr> False
            else state1) in
      fold (\<lambda>endpoint st.
          if epp_Reachability endpoint = EnterpriseEndpointUnavailable
             \<or> epp_Reachability endpoint = EnterpriseEndpointTimeout
          then addReasonCandidate st FailureReasonProxyUnavailable LayerProxy FaultDomainProxy
            target \<lparr>cr_probeNames = [], cr_evidenceIDs = ids0 @ epp_EvidenceIDs endpoint\<rparr> False
          else st) (eps_EndpointReachability value) state2)"

definition collectEnterprisePath :: "EnterprisePolicyObservation \<Rightarrow> Target
    \<Rightarrow> EnterprisePathObservation \<Rightarrow> diagnosisState \<Rightarrow> diagnosisState" where
  "collectEnterprisePath value enterpriseTarget path state =
     (let pathTarget = mergeTarget enterpriseTarget
            (zero_Target\<lparr>tg_RequestedIdentity := eno_RequestedIdentity value\<rparr>);
          refs = \<lparr>cr_probeNames = provenanceProbeNames (ept_Provenance path),
            cr_evidenceIDs = ept_EvidenceIDs path\<rparr>;
          state1 = (if activeReason (ept_FailureReason path)
            then let (layer, domain) = (if fst (semantics (ept_FailureReason path)) = LayerUnknown
                   then enterprisePathLayer path else semantics (ept_FailureReason path)) in
                 addReasonCandidate state (ept_FailureReason path) layer domain pathTarget refs False
            else state) in
      if pathWorks path then addEnterprisePathSuccesses state1 path pathTarget refs else state1)"

text \<open>The policy comparisons at the head of \<open>collectEnterprise\<close>, before its loop over the paths.\<close>

definition collectEnterprisePolicy ::
    "diagnosisState \<Rightarrow> EnterprisePolicyObservation \<Rightarrow> Target \<Rightarrow> diagnosisState" where
  "collectEnterprisePolicy state value target =
     (let names = eno_ProbeNames value; ids0 = eno_EvidenceIDs value;
          comparison = eno_DirectVsProxy value; tls = eno_TLS value; network = eno_Network value;
          state1 = (if epm_State comparison = EnterprisePathComparisonDirectFailureProxyWorks
              \<and> epm_DirectWorksKnown comparison \<and> epm_ProxyWorksKnown comparison
              \<and> epm_PolicyPossible comparison
            then addReasonCandidate state FailureReasonDirectEgressRestricted LayerNetwork
              FaultDomainPolicy target
              \<lparr>cr_probeNames = names, cr_evidenceIDs = ids0 @ epm_EvidenceIDs comparison\<rparr> True
            else state);
          state2 = (if eno_ProxyConfigurationKnown value \<and> eno_ProxyConfigurationDiverges value
              \<and> epm_State comparison \<noteq> EnterprisePathComparisonUnknown
            then addReasonCandidate state1 FailureReasonProxyConfigurationDivergence LayerProxy
              FaultDomainProxy target
              \<lparr>cr_probeNames = names, cr_evidenceIDs = ids0 @ enterpriseConflictEvidenceIDs value\<rparr>
              False
            else state1);
          state3 = (if enc_RouteDifferenceKnown network \<and> enc_RouteDifference network
            then addReasonCandidate state2 FailureReasonEffectiveRouteDifference LayerRoute
              FaultDomainRouting target
              \<lparr>cr_probeNames = names, cr_evidenceIDs = ids0 @ enc_EvidenceIDs network\<rparr> True
            else state2);
          state4 = (if etl_PossibleInterception tls
              \<and> etl_InterceptionSuspicion tls = EnterpriseInterceptionSuspicionPossible
              \<and> etl_Certainty tls \<noteq> ObservationCertaintyUnsupported
            then addReasonCandidate state3 FailureReasonTLSInterceptionSuspected LayerTLS
              FaultDomainTLS target
              \<lparr>cr_probeNames = names, cr_evidenceIDs = ids0 @ etl_EvidenceIDs tls\<rparr> True
            else state3) in
      if etl_TrustMismatchKnown tls \<and> etl_TrustMismatch tls
         \<and> etl_Certainty tls \<noteq> ObservationCertaintyUnsupported
      then addReasonCandidate state4 FailureReasonTLSTrustStoreMismatch LayerTLS FaultDomainTLS
        target \<lparr>cr_probeNames = names, cr_evidenceIDs = ids0 @ etl_EvidenceIDs tls\<rparr> True
      else state4)"

definition collectEnterprise ::
    "diagnosisState \<Rightarrow> EnterprisePolicyObservation \<Rightarrow> Target \<Rightarrow> diagnosisState" where
  "collectEnterprise state value target0 =
     (let target = mergeTarget target0
            (zero_Target\<lparr>tg_RequestedIdentity := eno_RequestedIdentity value\<rparr>);
          state1 = collectEnterprisePolicy state value target;
          state2 = fold (collectEnterprisePath value target) (eno_Paths value) state1;
          state3 = collectEnterpriseProxySource state2 (eno_WinHTTP value) target in
      collectEnterpriseProxySource state3 (eno_WinINET value) target)"

definition collectCanonical :: "diagnosisState \<Rightarrow> diagnosisState" where
  "collectCanonical state0 =
     (let value = ds_value state0; target = ds_target state0;
          state1 = collectEndpoint state0 (ob_Endpoint value) target;
          state2 = collectNameResolution state1 (ob_NameResolution value) target;
          state3 = collectNetwork state2 (ob_NetworkContext value) target;
          state4 = collectTransport state3 (ob_Transport value) target;
          state5 = collectPacketFlows state4 value target;
          state6 = collectPaths state5 value target;
          state7 = collectSecurity state6 (ob_Security value) target;
          state8 = collectApplication state7 (ob_Application value) target in
      collectEnterprise state8 (ob_EnterprisePolicy value) target)"

section \<open>Compatibility with probe results\<close>

definition transportHasObservation :: "TransportObservation \<Rightarrow> bool" where
  "transportHasObservation value \<longleftrightarrow>
     activeReason (tpo_FailureReason value)
     \<or> tpo_ConnectionOutcome value \<notin> set [[], TransportConnectionOutcomeNotAttempted,
         TransportConnectionOutcomeUnknown]
     \<or> tpo_EvidenceIDs value \<noteq> []
       \<and> length (tpo_PacketFlowEvidenceIDs value) \<noteq> length (tpo_EvidenceIDs value)
     \<or> tpo_CandidateAttempts value \<noteq> [] \<or> tpo_TestedEndpoint value \<noteq> None"

definition securityHasObservation :: "SecurityObservation \<Rightarrow> bool" where
  "securityHasObservation value \<longleftrightarrow>
     so_HandshakeComplete value \<or> activeReason (so_FailureReason value)
     \<or> so_EvidenceIDs value \<noteq> []"

definition applicationHasObservation :: "ApplicationObservation \<Rightarrow> bool" where
  "applicationHasObservation value \<longleftrightarrow>
     ao_RequestAttempted value \<or> ao_ResponseReceived value \<or> ao_HandshakeAttempted value
     \<or> ao_HandshakeComplete value \<or> activeReason (ao_FailureReason value)
     \<or> ao_EvidenceIDs value \<noteq> [] \<or> ao_DNS value \<noteq> None \<or> ao_SMB value \<noteq> None
     \<or> applicationProtocolResultObserved (ao_ProtocolResult value)"

definition applicationProtocol :: "Observations \<Rightarrow> ApplicationProtocol" where
  "applicationProtocol value =
     (let application = ob_Application value;
          protocol = (if ao_Protocol application = ApplicationProtocolNone
            then eo_ApplicationProtocol (ob_Endpoint value) else ao_Protocol application) in
      if protocol \<noteq> ApplicationProtocolNone then protocol
      else if ao_DNS application \<noteq> None then ApplicationProtocolDNS
      else if ao_SMB application \<noteq> None then ApplicationProtocolSMB
      else protocol)"

definition canonicalLayerPresent :: "Observations \<Rightarrow> Layer \<Rightarrow> bool" where
  "canonicalLayerPresent value layer =
     (let names = ob_NameResolution value; network = ob_NetworkContext value;
          application = applicationHasObservation (ob_Application value) in
      if layer = LayerDNS then
        nro_RequestedName names \<noteq> [] \<or> nro_FailureReason names \<noteq> []
        \<or> nro_EvidenceIDs names \<noteq> [] \<or> nameResolutionSucceeded names
        \<or> applicationProtocol value = ApplicationProtocolDNS \<and> application
      else if layer \<in> set [LayerRoute, LayerInterface, LayerIPConfiguration] then
        nc_RequestedIdentity network \<noteq> []
        \<or> nc_EffectiveRoute network \<noteq> [] \<and> nc_EffectiveRoute network \<noteq> RouteDispositionUnknown
        \<or> nc_FailureReason network \<noteq> [] \<or> nc_EvidenceIDs network \<noteq> []
      else if layer = LayerTCP then
        transportHasObservation (ob_Transport value) \<or> ob_PacketFlows value \<noteq> []
        \<or> ob_Paths value \<noteq> [] \<or> eo_TestedEndpoint (ob_Endpoint value) \<noteq> None
        \<or> eo_CandidateAttempts (ob_Endpoint value) \<noteq> []
      else if layer = LayerTLS then
        securityHasObservation (ob_Security value)
        \<or> etl_PossibleInterception (eno_TLS (ob_EnterprisePolicy value))
      else if layer = LayerHTTP then
        (applicationProtocol value = ApplicationProtocolHTTP
         \<or> applicationProtocol value = ApplicationProtocolHTTPS) \<and> application
      else if layer = LayerSSH then
        applicationProtocol value = ApplicationProtocolSSH \<and> application
      else if layer = LayerRDP then
        applicationProtocol value = ApplicationProtocolRDP \<and> application
      else if layer = LayerSMB then
        applicationProtocol value = ApplicationProtocolSMB \<and> application
      else False)"

definition compatibilitySuccessCanFillGap :: "Observations \<Rightarrow> Layer \<Rightarrow> bool" where
  "compatibilitySuccessCanFillGap value layer =
     (if layer \<noteq> LayerDNS then False
      else nro_EvidenceIDs (ob_NameResolution value) = []
        \<and> \<not> nameResolutionSucceeded (ob_NameResolution value))"

definition compatibilityReasonAllowed :: "FailureReason \<Rightarrow> Observations \<Rightarrow> bool" where
  "compatibilityReasonAllowed reason value =
     (let network = ob_NetworkContext value;
          application = applicationHasObservation (ob_Application value) in
      if reason \<in> set [FailureReasonInterfaceDown, FailureReasonNoIPAddress]
        then \<not> activeReason (nc_FailureReason network)
      else if reason \<in> set [FailureReasonNoRoute, FailureReasonInvalidRoute]
        then nc_EffectiveRoute network = RouteDispositionUnknown
          \<and> \<not> activeReason (nc_FailureReason network)
      else if reason = FailureReasonEffectiveRouteDifference
        then \<not> enc_RouteDifferenceKnown (eno_Network (ob_EnterprisePolicy value))
      else if reason \<in> set [FailureReasonDNSNXDomain, FailureReasonDNSNoAnswer,
          FailureReasonDNSTimeout, FailureReasonDNSResolverFailure]
        then \<not> activeReason (nro_FailureReason (ob_NameResolution value))
      else if reason \<in> set [FailureReasonTCPTimeout, FailureReasonTCPConnectionRefused,
          FailureReasonTCPConnectionReset, FailureReasonTCPSYNNotObserved,
          FailureReasonNetworkUnreachable]
        then \<not> transportHasObservation (ob_Transport value)
          \<and> \<not> strongPacketFlow value reason (targetFromObservations value)
          \<and> \<not> application
      else if reason \<in> set [FailureReasonTLSHandshakeFailure,
          FailureReasonCertificateValidationFailure, FailureReasonTLSTrustStoreMismatch,
          FailureReasonTLSInterceptionSuspected]
        then \<not> securityHasObservation (ob_Security value)
          \<and> \<not> etl_PossibleInterception (eno_TLS (ob_EnterprisePolicy value))
      else if reason \<in> set [FailureReasonHTTPStatusCode, FailureReasonHTTPFailure]
        then \<not> application
          \<or> applicationProtocol value \<noteq> ApplicationProtocolHTTP
            \<and> applicationProtocol value \<noteq> ApplicationProtocolHTTPS
      else if reason \<in> set [FailureReasonSSHTimeout, FailureReasonSSHBannerMalformed,
          FailureReasonSSHNonSSHResponse, FailureReasonSSHHandshakeFailure,
          FailureReasonRDPTimeout, FailureReasonRDPNegotiationRejected,
          FailureReasonRDPNegotiationMalformed, FailureReasonRDPNegotiationFailure,
          FailureReasonSMBConnectionRefused, FailureReasonSMBTimeout,
          FailureReasonSMBProtocolRejection, FailureReasonSMBMalformedResponse]
        then \<not> application
      else if hasPrefix ''dns_service_'' reason then \<not> application
      else True)"

definition collectCompatibilityProbe :: "ProbeResult \<Rightarrow> diagnosisState \<Rightarrow> diagnosisState" where
  "collectCompatibilityProbe probe state =
     (let pin = pr_Interpretation probe; reason = pin_FailureReason pin in
      if activeReason reason then
        (if reason \<in> set [FailureReasonICMPFailure, FailureReasonPathObservation,
             FailureReasonPathCancellation]
            \<or> pin_Layer pin = LayerICMP \<or> pin_FaultDomain pin = FaultDomainICMP
            \<or> \<not> compatibilityReasonAllowed reason (ds_value state)
         then state
         else let (layer, domain) = (if fst (semantics reason) = LayerUnknown
                then (pin_Layer pin, pin_FaultDomain pin) else semantics reason) in
              appendCandidate state \<lparr>cd_reason = reason, cd_layer = layer, cd_domain = domain,
                cd_target = compatibilityTarget (ds_target state) (pr_Target probe),
                cd_probeNames = [pr_Name probe], cd_evidenceIDs = evidenceIDs (pr_Evidence probe),
                cd_comparative = False,
                cd_supporting = (reason = FailureReasonGatewayUnreachable)\<rparr>)
      else if pr_Status probe = ProbeStatusPassed \<and> reason = FailureReasonNone then
        (let layer = pin_Layer pin in
         if layer \<noteq> LayerProxy \<and> (\<not> canonicalLayerPresent (ds_value state) layer
            \<or> compatibilitySuccessCanFillGap (ds_value state) layer)
         then appendSuccess state layer (compatibilityTarget (ds_target state) (pr_Target probe))
           \<lparr>cr_probeNames = [pr_Name probe], cr_evidenceIDs = evidenceIDs (pr_Evidence probe)\<rparr>
         else state)
      else state)"

definition collectCompatibility :: "diagnosisState \<Rightarrow> ProbeResult list \<Rightarrow> diagnosisState" where
  "collectCompatibility state probes = fold collectCompatibilityProbe probes state"

definition hasCanonicalObservations :: "Observations \<Rightarrow> bool" where
  "hasCanonicalObservations value \<longleftrightarrow>
     (let e = ob_Endpoint value; n = ob_NameResolution value; c = ob_NetworkContext value;
          t = ob_Transport value; s = ob_Security value; a = ob_Application value in
      eo_RequestedIdentity e \<noteq> [] \<or> eo_Port e \<noteq> 0 \<or> eo_ResolvedCandidates e \<noteq> []
      \<or> eo_CandidateAttempts e \<noteq> [] \<or> nro_RequestedName n \<noteq> [] \<or> nro_EvidenceIDs n \<noteq> []
      \<or> nc_RequestedIdentity c \<noteq> []
      \<or> nc_EffectiveRoute c \<noteq> [] \<and> nc_EffectiveRoute c \<noteq> RouteDispositionUnknown
      \<or> nc_EvidenceIDs c \<noteq> [] \<or> activeReason (tpo_FailureReason t)
      \<or> tpo_ConnectionOutcome t \<noteq> []
        \<and> tpo_ConnectionOutcome t \<noteq> TransportConnectionOutcomeUnknown
      \<or> so_FailureReason s \<noteq> [] \<or> so_Attempted s \<or> applicationHasObservation a
      \<or> ao_Applicability a \<noteq> ObservationApplicabilityUnknown
      \<or> eno_State (ob_EnterprisePolicy value) \<noteq> []
        \<and> eno_State (ob_EnterprisePolicy value) \<noteq> EnterpriseObservationStateUnknown
      \<or> ob_Paths value \<noteq> [] \<or> ob_PacketFlows value \<noteq> [])"

section \<open>Selecting the findings\<close>

definition candidateContradicted :: "candidate \<Rightarrow> success list \<Rightarrow> bool" where
  "candidateContradicted value successes =
     (if cd_comparative value then False
      else list_ex (\<lambda>s. targetsCorrelate (cd_target value) (su_target s) (cd_layer value)
        \<and> successfulLayerContradicts (cd_reason value) (cd_layer value) (su_layer s)) successes)"

definition candidatesForReason :: "candidate list \<Rightarrow> FailureReason \<Rightarrow> candidate list" where
  "candidatesForReason values reason =
     filter (\<lambda>value. cd_reason value = reason \<and> \<not> cd_supporting value) values"

text \<open>
  \<open>mergeCandidates\<close> of the non-empty list \<open>first # rest\<close>; every caller checks the length before,
  so that the zero candidate the code returns for an empty slice is never used.
\<close>

definition mergeCandidates :: "candidate \<Rightarrow> candidate list \<Rightarrow> candidate" where
  "mergeCandidates first rest =
     (let result = fold (\<lambda>value r. r\<lparr>
            cd_probeNames := cd_probeNames r @ cd_probeNames value,
            cd_evidenceIDs := cd_evidenceIDs r @ cd_evidenceIDs value,
            cd_comparative := cd_comparative r \<or> cd_comparative value\<rparr>) rest first in
      result\<lparr>cd_probeNames := sortedUnique (cd_probeNames result),
        cd_evidenceIDs := sortedUnique (cd_evidenceIDs result)\<rparr>)"

definition makeFinding :: "candidate \<Rightarrow> DiagnosticFinding" where
  "makeFinding value =
     (let (layer, domain) = (if fst (semantics (cd_reason value)) = LayerUnknown
            then (cd_layer value, cd_domain value) else semantics (cd_reason value)) in
      \<lparr>df_FailureReason = cd_reason value, df_Layer = layer, df_FaultDomain = domain,
       df_ProbeNames = sortedUnique (cd_probeNames value),
       df_EvidenceIDs = sortedUnique (cd_evidenceIDs value)\<rparr>)"

fun firstRule :: "FailureReason list \<Rightarrow> diagnosisState \<Rightarrow> candidate option" where
  "firstRule [] state = None"
| "firstRule (policy # policies) state =
     (case filter (\<lambda>match. \<not> candidateContradicted match (ds_successes state))
         (candidatesForReason (ds_candidates state) policy) of
        [] \<Rightarrow> firstRule policies state
      | first # rest \<Rightarrow> Some (mergeCandidates first rest))"

definition genericLess :: "candidate \<Rightarrow> candidate \<Rightarrow> bool" where
  "genericLess left right =
     (if layerRank (cd_layer left) \<noteq> layerRank (cd_layer right)
        then layerRank (cd_layer left) < layerRank (cd_layer right)
      else if cd_reason left \<noteq> cd_reason right then cd_reason left < cd_reason right
      else if cd_domain left \<noteq> cd_domain right then cd_domain left < cd_domain right
      else joinStr [CHR 0x00] (sortedUnique (cd_probeNames left))
             < joinStr [CHR 0x00] (sortedUnique (cd_probeNames right)))"

definition genericFailure :: "candidate list \<Rightarrow> success list \<Rightarrow> candidate option" where
  "genericFailure values successes =
     (case sortBy genericLess (filter (\<lambda>value. isGenericReason (cd_reason value)
         \<and> \<not> cd_supporting value \<and> \<not> candidateContradicted value successes) values) of
        [] \<Rightarrow> None
      | first # others \<Rightarrow> Some (mergeCandidates first
          (filter (\<lambda>value. cd_reason value = cd_reason first \<and> cd_layer value = cd_layer first
             \<and> cd_domain value = cd_domain first) others)))"

definition gatewayCandidates :: "diagnosisState \<Rightarrow> candidate list" where
  "gatewayCandidates state =
     (let network = ob_NetworkContext (ds_value state) in
      if nc_EffectiveRoute network = RouteDispositionOnLink then []
      else filter (\<lambda>value. cd_reason value = FailureReasonGatewayUnreachable
          \<and> \<not> (nc_EffectiveRoute network = RouteDispositionRouted \<and> nc_Gateway network = [])
          \<and> \<not> candidateContradicted value (ds_successes state)) (ds_candidates state))"

definition gatewayFindings :: "diagnosisState \<Rightarrow> DiagnosticFinding list" where
  "gatewayFindings state =
     (case gatewayCandidates state of
        [] \<Rightarrow> [] | first # rest \<Rightarrow> [makeFinding (mergeCandidates first rest)])"

definition withGatewaySupport :: "DiagnosticFinding \<Rightarrow> diagnosisState \<Rightarrow> DiagnosticFinding list" where
  "withGatewaySupport finding state = finding # gatewayFindings state"

definition selectFindings :: "diagnosisState \<Rightarrow> DiagnosticFinding list" where
  "selectFindings state =
     (let builtIn = firstRule rules state;
          extension = genericFailure (ds_candidates state) (ds_successes state) in
      case extension of
        Some e \<Rightarrow>
          (case builtIn of
             None \<Rightarrow> withGatewaySupport (makeFinding e) state
           | Some b \<Rightarrow>
               if layerRank (cd_layer e) < layerRank (cd_layer b)
               then withGatewaySupport (makeFinding e) state
               else withGatewaySupport (makeFinding b) state)
      | None \<Rightarrow>
          (case builtIn of
             Some b \<Rightarrow> withGatewaySupport (makeFinding b) state
           | None \<Rightarrow> gatewayFindings state))"

text \<open>The state \<open>diagnoseObservationState\<close> hands to \<open>selectFindings\<close>.\<close>

definition collectedState :: "Observations \<Rightarrow> ProbeResult list \<Rightarrow> bool \<Rightarrow> diagnosisState" where
  "collectedState value probes compatibility =
     (let state0 = \<lparr>ds_value = value, ds_target = targetFromObservations value,
            ds_candidates = [], ds_successes = []\<rparr>;
          state1 = collectCanonical state0 in
      if compatibility then collectCompatibility state1 probes else state1)"

definition diagnoseObservationState ::
    "Observations \<Rightarrow> ProbeResult list \<Rightarrow> bool \<Rightarrow> DiagnosticFinding list" where
  "diagnoseObservationState value probes compatibility =
     selectFindings (collectedState value probes compatibility)"

end
