(* ===== verification/DiagnosisFacts.thy ===== *)
theory DiagnosisFacts
  imports Diagnosis
begin

text \<open>
  Facts about the diagnosis: what the collectors may add to the state, what the sorted, merged
  name lists hold, and which candidate becomes the finding.
\<close>

section \<open>Sorted unique lists\<close>

lemma set_dropRepeats: "set (dropRepeats prev vs) \<union> {prev} = set vs \<union> {prev}"
  by (induction vs arbitrary: prev) auto

lemma dropRepeats_strict:
  "sorted (prev # vs) \<Longrightarrow> sorted_wrt (<) (prev # dropRepeats prev vs)"
proof (induction vs arbitrary: prev)
  case Nil
  show ?case by simp
next
  case (Cons v vs)
  show ?case
  proof (cases "v = prev")
    case True
    with Cons show ?thesis by simp
  next
    case False
    have strict: "sorted_wrt (<) (v # dropRepeats v vs)" using Cons by simp
    have "prev < v" using Cons.prems False by auto
    moreover from this strict have "\<forall>w\<in>set (dropRepeats v vs). prev < w" by auto
    ultimately show ?thesis using strict False by simp
  qed
qed

lemma sortedUnique_strict: "sorted_wrt (<) (sortedUnique xs)"
proof (cases "sortStrings xs")
  case (Cons v vs)
  then have "sorted (v # vs)" using sorted_sortStrings [of xs] by simp
  then show ?thesis using dropRepeats_strict [of v vs] Cons by (simp add: sortedUnique_def)
qed (simp add: sortedUnique_def)

lemma set_sortedUnique [simp]: "set (sortedUnique xs) = set xs"
proof (cases "sortStrings xs")
  case Nil
  then have "set xs = {}" using set_sortStrings [of xs] by simp
  then show ?thesis using Nil by (simp add: sortedUnique_def)
next
  case (Cons v vs)
  have "set xs = insert v (set vs)" using set_sortStrings [of xs] Cons by simp
  then show ?thesis using Cons set_dropRepeats [of v vs] by (auto simp: sortedUnique_def)
qed

lemma sortedUnique_sorted: "sorted (sortedUnique xs)"
  and sortedUnique_distinct: "distinct (sortedUnique xs)"
  using sortedUnique_strict [of xs] by (simp_all add: sorted_wrt_less_linorder)

lemma sortedUnique_eq_iff: "sortedUnique xs = sortedUnique ys \<longleftrightarrow> set xs = set ys"
  by (metis set_sortedUnique sorted_distinct_set_unique sortedUnique_distinct sortedUnique_sorted)

lemma sortedUnique_idem [simp]: "sortedUnique (sortedUnique xs) = sortedUnique xs"
  by (simp add: sortedUnique_eq_iff)

section \<open>What the collectors add\<close>

text \<open>
  The reasons of the policy comparisons: a success of a layer never contradicts them, and only
  candidates with one of them are comparative.
\<close>

definition comparisonReasons :: "FailureReason list" where
  "comparisonReasons = [FailureReasonDirectEgressRestricted,
     FailureReasonEffectiveRouteDifference, FailureReasonTLSInterceptionSuspected,
     FailureReasonTLSTrustStoreMismatch, FailureReasonProxyConfigurationDivergence]"

definition sound :: "candidate \<Rightarrow> bool" where
  "sound c \<longleftrightarrow> activeReason (cd_reason c)
     \<and> (fst (semantics (cd_reason c)) \<noteq> LayerUnknown
        \<longrightarrow> (cd_layer c, cd_domain c) = semantics (cd_reason c))
     \<and> (cd_comparative c \<longrightarrow> cd_reason c \<in> set comparisonReasons)
     \<and> (cd_supporting c \<longrightarrow> cd_reason c = FailureReasonGatewayUnreachable)"

text \<open>\<open>grows s s'\<close>: a collector only appends, and appends only sound candidates.\<close>

definition grows :: "diagnosisState \<Rightarrow> diagnosisState \<Rightarrow> bool" where
  "grows s s' \<longleftrightarrow> ds_value s' = ds_value s \<and> ds_target s' = ds_target s
     \<and> (\<exists>cs. ds_candidates s' = ds_candidates s @ cs \<and> list_all sound cs)
     \<and> (\<exists>ss. ds_successes s' = ds_successes s @ ss)"

named_theorems grows_intros "every collector appends sound candidates only"

lemma grows_refl [grows_intros]: "grows s s"
  by (simp add: grows_def)

lemma grows_trans: "grows s t \<Longrightarrow> grows t u \<Longrightarrow> grows s u"
  by (auto simp: grows_def)

lemma grows_fold: "(\<And>x s. grows s (f x s)) \<Longrightarrow> grows s (fold f xs s)"
  by (induction xs arbitrary: s) (auto intro: grows_refl grows_trans)

lemma grows_foldI: "(\<And>x s. grows s (f x s)) \<Longrightarrow> grows s0 s \<Longrightarrow> grows s0 (fold f xs s)"
  using grows_fold grows_trans by blast

lemma grows_appendSuccess: "grows s0 s \<Longrightarrow> grows s0 (appendSuccess s layer target refs)"
  by (auto simp: grows_def appendSuccess_def)

lemma grows_appendCandidate: "sound c \<Longrightarrow> grows s0 s \<Longrightarrow> grows s0 (appendCandidate s c)"
  by (auto simp: grows_def appendCandidate_def)

lemma semantics_domain: "snd (semantics reason) \<noteq> []"
  by (simp add: semantics_def FaultDomainLocal_def FaultDomainRouting_def FaultDomainGateway_def
      FaultDomainDNS_def FaultDomainProxy_def FaultDomainPolicy_def FaultDomainNetwork_def
      FaultDomainFirewall_def FaultDomainTransport_def FaultDomainTLS_def FaultDomainHTTP_def
      FaultDomainSSH_def FaultDomainRDP_def FaultDomainSMB_def FaultDomainUnknown_def)

lemma grows_addReasonCandidate:
  assumes "comparative \<longrightarrow> reason \<in> set comparisonReasons" "grows s0 s"
  shows "grows s0 (addReasonCandidate s reason layer domain target refs comparative)"
proof (cases "activeReason reason")
  case True
  obtain l d where sem: "semantics reason = (l, d)" by (cases "semantics reason")
  then have "d \<noteq> []" using semantics_domain [of reason] by simp
  then show ?thesis
    using assms True sem
    by (auto simp: addReasonCandidate_def sound_def Let_def intro!: grows_appendCandidate)
next
  case False
  with assms show ?thesis by (simp add: addReasonCandidate_def)
qed

lemma grows_addPlain:
  "grows s0 s \<Longrightarrow> grows s0 (addReasonCandidate s reason layer domain target refs False)"
  by (rule grows_addReasonCandidate) simp

lemmas grows_steps = grows_appendSuccess grows_addPlain grows_foldI

lemma grows_collectEndpoint: "grows s (collectEndpoint s value target)"
proof -
  have body: "grows s0 (let (layer, domain) = semantics (ea_FailureReason a) in
      appendCandidate s0 \<lparr>cd_reason = ea_FailureReason a, cd_layer = layer, cd_domain = domain,
        cd_target = t, cd_probeNames = ns, cd_evidenceIDs = ids, cd_comparative = False,
        cd_supporting = False\<rparr>)" if "activeReason (ea_FailureReason a)" for s0 a t ns ids
    using that by (cases "semantics (ea_FailureReason a)")
      (auto simp: sound_def intro!: grows_appendCandidate grows_refl)
  show ?thesis
    unfolding collectEndpoint_def Let_def
    by (auto intro!: grows_steps grows_refl body [unfolded Let_def])
qed

lemma grows_conflictReasons:
  "grows s0 s \<Longrightarrow> grows s0 (conflictReasons s conflicts own layer domain target names ids)"
  unfolding conflictReasons_def by (auto intro!: grows_steps grows_refl)

lemma grows_collectNameResolution: "grows s (collectNameResolution s value target)"
  unfolding collectNameResolution_def Let_def
  by (auto intro!: grows_steps grows_conflictReasons grows_refl)

lemma grows_collectNetwork: "grows s (collectNetwork s value target)"
  unfolding collectNetwork_def Let_def
  by (auto intro!: grows_steps grows_conflictReasons grows_refl)

lemma grows_collectTransport: "grows s (collectTransport s value target)"
  unfolding collectTransport_def Let_def by (auto intro!: grows_steps grows_refl)

lemma grows_collectPacketFlow: "grows s (collectPacketFlow value target flow s)"
  unfolding collectPacketFlow_def Let_def by (auto split: prod.split intro!: grows_steps grows_refl)

lemma grows_collectPath: "grows s (collectPath value target path s)"
  unfolding collectPath_def Let_def by (auto split: prod.split intro!: grows_steps grows_refl)

lemma grows_collectPacketFlows: "grows s (collectPacketFlows s value target)"
  unfolding collectPacketFlows_def by (intro grows_foldI grows_collectPacketFlow grows_refl)

lemma grows_collectPaths: "grows s (collectPaths s value target)"
  unfolding collectPaths_def
  by (auto intro!: grows_steps grows_collectPath grows_refl)

lemma grows_collectSecurity: "grows s (collectSecurity s value target)"
  unfolding collectSecurity_def Let_def by (auto intro!: grows_steps grows_refl)

lemma grows_applications:
  "grows s (collectHTTPApplication s value target refs)"
  "grows s (collectDNSApplication s value target refs)"
  "grows s (collectSMBApplication s value target refs)"
  "grows s (collectProtocolApplication s value target refs protocol)"
  unfolding collectHTTPApplication_def collectDNSApplication_def collectSMBApplication_def
    collectProtocolApplication_def Let_def
  by (auto intro!: grows_steps grows_refl)

lemma grows_collectApplication: "grows s (collectApplication s value target)"
  unfolding collectApplication_def Let_def
  by (auto intro!: grows_applications grows_steps grows_refl)

lemma grows_addEnterprisePathSuccesses:
  "grows s0 s \<Longrightarrow> grows s0 (addEnterprisePathSuccesses s path target refs)"
  unfolding addEnterprisePathSuccesses_def Let_def by (auto intro!: grows_steps)

lemma grows_collectEnterpriseProxySource: "grows s (collectEnterpriseProxySource s value target)"
  unfolding collectEnterpriseProxySource_def Let_def by (auto intro!: grows_steps grows_refl)

lemma grows_collectEnterprisePath: "grows s (collectEnterprisePath value target path s)"
  unfolding collectEnterprisePath_def Let_def
  by (auto split: prod.split intro!: grows_steps grows_addEnterprisePathSuccesses grows_refl)

lemma grows_if: "grows s0 a \<Longrightarrow> grows s0 b \<Longrightarrow> grows s0 (if c then a else b)"
  by simp

lemma grows_collectEnterprisePolicy: "grows s (collectEnterprisePolicy s value target)"
  unfolding collectEnterprisePolicy_def Let_def
  by (intro grows_if grows_addReasonCandidate grows_refl) (simp_all add: comparisonReasons_def)

lemma grows_collectEnterprise: "grows s (collectEnterprise s value target)"
  unfolding collectEnterprise_def Let_def
  by (intro grows_trans [OF _ grows_collectEnterpriseProxySource]
      grows_foldI grows_collectEnterprisePath grows_collectEnterprisePolicy)

lemma grows_collectCanonical: "grows s (collectCanonical s)"
  unfolding collectCanonical_def Let_def
  by (intro grows_trans [OF _ grows_collectEnterprise] grows_trans [OF _ grows_collectApplication]
      grows_trans [OF _ grows_collectSecurity] grows_trans [OF _ grows_collectPaths]
      grows_trans [OF _ grows_collectPacketFlows] grows_trans [OF _ grows_collectTransport]
      grows_trans [OF _ grows_collectNetwork] grows_trans [OF _ grows_collectNameResolution]
      grows_collectEndpoint)

lemma grows_collectCompatibilityProbe: "grows s (collectCompatibilityProbe probe s)"
proof (cases "activeReason (pin_FailureReason (pr_Interpretation probe))")
  case True
  then show ?thesis
    unfolding collectCompatibilityProbe_def Let_def
    by (auto simp: sound_def split: prod.split intro!: grows_appendCandidate grows_refl)
next
  case False
  then show ?thesis
    unfolding collectCompatibilityProbe_def Let_def by (auto intro!: grows_steps grows_refl)
qed

lemma grows_collectedState:
  "grows \<lparr>ds_value = value, ds_target = targetFromObservations value,
     ds_candidates = [], ds_successes = []\<rparr> (collectedState value probes compatibility)"
  unfolding collectedState_def collectCompatibility_def Let_def
  by (auto intro: grows_collectCanonical grows_foldI grows_collectCompatibilityProbe)

lemma collected_sound: "list_all sound (ds_candidates (collectedState value probes compatibility))"
  and collected_value: "ds_value (collectedState value probes compatibility) = value"
  using grows_collectedState [of "value" probes compatibility] by (auto simp: grows_def)

section \<open>The rule table\<close>

lemma gateway_not_rule: "FailureReasonGatewayUnreachable \<notin> set rules"
  by code_simp

lemma rules_active: "list_all activeReason rules"
  by code_simp

lemma rules_distinct: "distinct rules"
  by code_simp

lemma isGenericReason_iff:
  "isGenericReason r \<longleftrightarrow> activeReason r \<and> r \<noteq> FailureReasonGatewayUnreachable \<and> r \<notin> set rules"
  by (auto simp: isGenericReason_def list_all_iff)

lemma active_cases:
  "activeReason r \<Longrightarrow> r \<in> set rules \<or> r = FailureReasonGatewayUnreachable \<or> isGenericReason r"
  by (auto simp: isGenericReason_iff)

section \<open>Merging and presenting candidates\<close>

lemma fold_merge:
  fixes first :: candidate and rest :: "candidate list"
  defines "m \<equiv> fold (\<lambda>value r. r\<lparr>
            cd_probeNames := cd_probeNames r @ cd_probeNames value,
            cd_evidenceIDs := cd_evidenceIDs r @ cd_evidenceIDs value,
            cd_comparative := cd_comparative r \<or> cd_comparative value\<rparr>) rest first"
  shows "cd_reason m = cd_reason first" "cd_layer m = cd_layer first"
    "cd_domain m = cd_domain first"
    "set (cd_probeNames m) = (\<Union>c\<in>set (first # rest). set (cd_probeNames c))"
    "set (cd_evidenceIDs m) = (\<Union>c\<in>set (first # rest). set (cd_evidenceIDs c))"
  unfolding m_def by (induction rest arbitrary: first) (auto simp: Un_assoc)

lemma mergeCandidates_simps [simp]:
  "cd_reason (mergeCandidates first rest) = cd_reason first"
  "cd_layer (mergeCandidates first rest) = cd_layer first"
  "cd_domain (mergeCandidates first rest) = cd_domain first"
  "set (cd_probeNames (mergeCandidates first rest)) = (\<Union>c\<in>set (first # rest). set (cd_probeNames c))"
  "set (cd_evidenceIDs (mergeCandidates first rest)) = (\<Union>c\<in>set (first # rest). set (cd_evidenceIDs c))"
  by (simp_all add: mergeCandidates_def Let_def fold_merge)

lemma makeFinding_simps [simp]:
  "df_FailureReason (makeFinding c) = cd_reason c"
  "set (df_ProbeNames (makeFinding c)) = set (cd_probeNames c)"
  "set (df_EvidenceIDs (makeFinding c)) = set (cd_evidenceIDs c)"
  by (simp_all add: makeFinding_def Let_def split: prod.split)

lemma makeFinding_strict:
  "sorted_wrt (<) (df_ProbeNames (makeFinding c)) \<and> sorted_wrt (<) (df_EvidenceIDs (makeFinding c))"
  by (simp add: makeFinding_def Let_def sortedUnique_strict split: prod.split)

lemma makeFinding_layer:
  "(df_Layer (makeFinding c), df_FaultDomain (makeFinding c)) =
     (if fst (semantics (cd_reason c)) = LayerUnknown then (cd_layer c, cd_domain c)
      else semantics (cd_reason c))"
  by (simp add: makeFinding_def Let_def split: prod.split)

section \<open>Which candidate is selected\<close>

definition viable :: "diagnosisState \<Rightarrow> FailureReason \<Rightarrow> candidate list" where
  "viable state reason = filter (\<lambda>c. \<not> candidateContradicted c (ds_successes state))
     (candidatesForReason (ds_candidates state) reason)"

lemma set_viable: "set (viable state r) = {c \<in> set (ds_candidates state). cd_reason c = r
    \<and> \<not> cd_supporting c \<and> \<not> candidateContradicted c (ds_successes state)}"
  by (auto simp: viable_def candidatesForReason_def)

lemma viable_reason: "viable state r = first # rest \<Longrightarrow> cd_reason first = r"
  using set_viable [of state r] by auto

lemma firstRule_None: "firstRule ps state = None \<longleftrightarrow> (\<forall>p\<in>set ps. viable state p = [])"
  by (induction ps) (auto simp: viable_def split: list.split)

lemma firstRule_Some:
  "firstRule ps state = Some b \<Longrightarrow> \<exists>i first rest. i < length ps
     \<and> (\<forall>j<i. viable state (ps ! j) = []) \<and> viable state (ps ! i) = first # rest
     \<and> b = mergeCandidates first rest"
proof (induction ps)
  case Nil
  then show ?case by simp
next
  case (Cons p ps)
  show ?case
  proof (cases "viable state p")
    case Nil
    with Cons obtain i first rest where "i < length ps" "\<forall>j<i. viable state (ps ! j) = []"
      "viable state (ps ! i) = first # rest" "b = mergeCandidates first rest"
      by (auto simp: viable_def)
    with Nil show ?thesis
      by (intro exI [of _ "Suc i"] exI [of _ first] exI [of _ rest])
        (auto simp: nth_Cons split: nat.split)
  next
    case (Cons first rest)
    with Cons.prems have "b = mergeCandidates first rest" by (simp add: viable_def)
    with Cons show ?thesis by (intro exI [of _ 0] exI [of _ first] exI [of _ rest]) simp
  qed
qed

text \<open>The order of \<open>genericFailure\<close> is a less-function: the contract of \<open>sort.SliceStable\<close>.\<close>

interpretation generic_less: go_less genericLess
proof
  fix x y
  show "genericLess x y \<Longrightarrow> \<not> genericLess y x"
    by (auto simp: genericLess_def dest: less_asym split: if_splits)
next
  fix x y z
  assume "\<not> genericLess x y" "\<not> genericLess y z"
  then show "\<not> genericLess x z"
    unfolding genericLess_def by (auto split: if_splits)
qed

definition generics :: "diagnosisState \<Rightarrow> candidate list" where
  "generics state = filter (\<lambda>c. isGenericReason (cd_reason c) \<and> \<not> cd_supporting c
     \<and> \<not> candidateContradicted c (ds_successes state)) (ds_candidates state)"

lemma genericFailure_None:
  "genericFailure (ds_candidates state) (ds_successes state) = None \<longleftrightarrow> generics state = []"
  by (cases "sortBy genericLess (generics state)")
    (auto simp: genericFailure_def generics_def [symmetric])

lemma genericFailure_Some:
  assumes "genericFailure (ds_candidates state) (ds_successes state) = Some e"
  obtains first rest where "e = mergeCandidates first rest" "first \<in> set (generics state)"
    "set (first # rest) = {c \<in> set (generics state). cd_reason c = cd_reason first
        \<and> cd_layer c = cd_layer first \<and> cd_domain c = cd_domain first}"
    "\<forall>c\<in>set (generics state). layerRank (cd_layer first) \<le> layerRank (cd_layer c)"
proof -
  obtain first others where sorted: "sortBy genericLess (generics state) = first # others"
    using assms by (cases "sortBy genericLess (generics state)")
      (simp_all add: genericFailure_def generics_def)
  let ?rest = "filter (\<lambda>value. cd_reason value = cd_reason first \<and> cd_layer value = cd_layer first
             \<and> cd_domain value = cd_domain first) others"
  have members: "set (first # others) = set (generics state)"
    using sorted set_sortBy [of genericLess "generics state"] by simp
  have "e = mergeCandidates first ?rest"
    using assms sorted by (simp add: genericFailure_def generics_def)
  moreover have "first \<in> set (generics state)" using members by auto
  moreover have "set (first # ?rest) = {c \<in> set (generics state). cd_reason c = cd_reason first
        \<and> cd_layer c = cd_layer first \<and> cd_domain c = cd_domain first}"
    unfolding members [symmetric] by auto
  moreover have "\<forall>c\<in>set (generics state). layerRank (cd_layer first) \<le> layerRank (cd_layer c)"
  proof
    fix c assume "c \<in> set (generics state)"
    then have "\<not> genericLess c first" using generic_less.hd_sortBy_least [of c "generics state"] sorted
      by simp
    then show "layerRank (cd_layer first) \<le> layerRank (cd_layer c)"
      by (simp add: genericLess_def split: if_splits)
  qed
  ultimately show ?thesis by (rule that)
qed

lemma gatewayCandidates_reason:
  "c \<in> set (gatewayCandidates state) \<Longrightarrow> cd_reason c = FailureReasonGatewayUnreachable
     \<and> c \<in> set (ds_candidates state) \<and> \<not> candidateContradicted c (ds_successes state)"
  by (auto simp: gatewayCandidates_def Let_def split: if_splits)

lemma gatewayFindings_cases:
  obtains "gatewayCandidates state = []" "gatewayFindings state = []"
  | first rest where "gatewayCandidates state = first # rest"
      "gatewayFindings state = [makeFinding (mergeCandidates first rest)]"
      "cd_reason first = FailureReasonGatewayUnreachable"
proof (cases "gatewayCandidates state")
  case Nil
  then show ?thesis using that(1) by (simp add: gatewayFindings_def)
next
  case (Cons first rest)
  then show ?thesis using that(2) gatewayCandidates_reason [of first state]
    by (simp add: gatewayFindings_def)
qed

text \<open>The four ways \<open>selectFindings\<close> ends.\<close>

lemma selectFindings_cases [case_names rule generic none]:
  obtains
    (rule) b where "firstRule rules state = Some b"
      "selectFindings state = makeFinding b # gatewayFindings state"
  | (generic) e where "genericFailure (ds_candidates state) (ds_successes state) = Some e"
      "selectFindings state = makeFinding e # gatewayFindings state"
      "\<forall>b. firstRule rules state = Some b \<longrightarrow> layerRank (cd_layer e) < layerRank (cd_layer b)"
  | (none) "firstRule rules state = None"
      "genericFailure (ds_candidates state) (ds_successes state) = None"
      "selectFindings state = gatewayFindings state"
proof (cases "genericFailure (ds_candidates state) (ds_successes state)")
  case None
  then show ?thesis using rule none
    by (cases "firstRule rules state") (simp_all add: selectFindings_def withGatewaySupport_def)
next
  case (Some e)
  show ?thesis
  proof (cases "firstRule rules state")
    case None
    with Some generic show ?thesis by (simp add: selectFindings_def withGatewaySupport_def)
  next
    case (Some b)
    with \<open>genericFailure _ _ = Some e\<close> rule generic show ?thesis
      by (cases "layerRank (cd_layer e) < layerRank (cd_layer b)")
        (simp_all add: selectFindings_def withGatewaySupport_def)
  qed
qed

section \<open>Correlation of targets\<close>

lemma targetAddressesCorrelate_iff:
  "targetAddressesCorrelate left right \<longleftrightarrow>
     (\<exists>a\<in>set (targetAddresses left). \<exists>b\<in>set (targetAddresses right).
        equalFold a b \<or> MatchesAddress left b \<or> MatchesAddress right a)"
  by (simp add: targetAddressesCorrelate_def list_ex_iff)

lemma targetAddressesCorrelate_sym:
  "targetAddressesCorrelate left right = targetAddressesCorrelate right left"
  unfolding targetAddressesCorrelate_iff using equalFold_sym by blast

text \<open>Every finding is the presentation of a merge of candidates with one reason.\<close>

definition fromState :: "diagnosisState \<Rightarrow> DiagnosticFinding \<Rightarrow> candidate \<Rightarrow> candidate list \<Rightarrow> bool" where
  "fromState state f first rest \<longleftrightarrow> f = makeFinding (mergeCandidates first rest)
     \<and> (\<forall>c\<in>set (first # rest). c \<in> set (ds_candidates state)
        \<and> \<not> candidateContradicted c (ds_successes state) \<and> cd_reason c = cd_reason first)"

lemma fromState_reason: "fromState state f first rest \<Longrightarrow> df_FailureReason f = cd_reason first"
  by (simp add: fromState_def)

lemma gateway_origin:
  assumes "f \<in> set (gatewayFindings state)"
  shows "\<exists>first rest. fromState state f first rest
    \<and> cd_reason first = FailureReasonGatewayUnreachable"
proof (rule gatewayFindings_cases [of state])
  assume "gatewayFindings state = []"
  with assms show ?thesis by simp
next
  fix first rest
  assume *: "gatewayCandidates state = first # rest"
    "gatewayFindings state = [makeFinding (mergeCandidates first rest)]"
    "cd_reason first = FailureReasonGatewayUnreachable"
  then have "fromState state f first rest"
    using assms gatewayCandidates_reason [of _ state] by (simp add: fromState_def)
  with * show ?thesis by blast
qed

lemma rule_origin:
  assumes "firstRule ps state = Some b"
  shows "\<exists>first rest. fromState state (makeFinding b) first rest \<and> cd_reason first \<in> set ps"
proof -
  from firstRule_Some [OF assms] obtain i first rest where
    *: "i < length ps" "viable state (ps ! i) = first # rest" "b = mergeCandidates first rest"
    by blast
  then have "fromState state (makeFinding b) first rest"
    using set_viable [of state "ps ! i"] viable_reason [OF *(2)] by (auto simp: fromState_def)
  moreover have "cd_reason first \<in> set ps" using viable_reason [OF *(2)] * by simp
  ultimately show ?thesis by blast
qed

lemma generic_origin:
  assumes "genericFailure (ds_candidates state) (ds_successes state) = Some e"
  shows "\<exists>first rest. fromState state (makeFinding e) first rest \<and> isGenericReason (cd_reason first)"
proof (rule genericFailure_Some [OF assms])
  fix first rest
  assume *: "e = mergeCandidates first rest" "first \<in> set (generics state)"
    "set (first # rest) = {c \<in> set (generics state). cd_reason c = cd_reason first
        \<and> cd_layer c = cd_layer first \<and> cd_domain c = cd_domain first}"
  then have "\<forall>c\<in>set (first # rest). c \<in> set (generics state) \<and> cd_reason c = cd_reason first"
    by blast
  then have "fromState state (makeFinding e) first rest"
    using *(1) by (auto simp: fromState_def generics_def)
  with * show ?thesis by (auto simp: generics_def)
qed

lemma finding_origin:
  assumes "f \<in> set (selectFindings state)"
  shows "\<exists>first rest. fromState state f first rest"
proof (cases rule: selectFindings_cases [of state])
  case (rule b)
  with assms rule_origin [OF rule(1)] gateway_origin [of f state] show ?thesis by auto
next
  case (generic e)
  with assms generic_origin [OF generic(1)] gateway_origin [of f state] show ?thesis by auto
next
  case none
  with assms gateway_origin [of f state] show ?thesis by auto
qed

lemma head_reason:
  assumes "selectFindings state = f # fs"
  shows "df_FailureReason f \<in> set rules \<Longrightarrow> \<exists>b. firstRule rules state = Some b \<and> f = makeFinding b"
    and "isGenericReason (df_FailureReason f) \<Longrightarrow>
      \<exists>e. genericFailure (ds_candidates state) (ds_successes state) = Some e \<and> f = makeFinding e
        \<and> (\<forall>b. firstRule rules state = Some b \<longrightarrow> layerRank (cd_layer e) < layerRank (cd_layer b))"
proof -
  have gw: "df_FailureReason f = FailureReasonGatewayUnreachable" if "f \<in> set (gatewayFindings state)"
    using gateway_origin [OF that] by (auto simp: fromState_def)
  have reasons: "(\<exists>b. firstRule rules state = Some b \<and> f = makeFinding b \<and> cd_reason b \<in> set rules)
      \<or> (\<exists>e. genericFailure (ds_candidates state) (ds_successes state) = Some e \<and> f = makeFinding e
          \<and> isGenericReason (cd_reason e)
          \<and> (\<forall>b. firstRule rules state = Some b \<longrightarrow> layerRank (cd_layer e) < layerRank (cd_layer b)))
      \<or> df_FailureReason f = FailureReasonGatewayUnreachable"
  proof (cases rule: selectFindings_cases [of state])
    case (rule b)
    with assms rule_origin [OF rule(1)] show ?thesis
      by (metis (no_types, lifting) firstRule_Some list.inject mergeCandidates_simps(1) nth_mem viable_reason)
  next
    case (generic e)
    with assms generic_origin [OF generic(1)] show ?thesis
      by (metis (no_types, lifting) fromState_def list.inject makeFinding_simps(1) mergeCandidates_simps(1))
  next
    case none
    with assms gw show ?thesis by simp
  qed
  show "df_FailureReason f \<in> set rules \<Longrightarrow> \<exists>b. firstRule rules state = Some b \<and> f = makeFinding b"
    using reasons gateway_not_rule by (auto simp: isGenericReason_iff)
  show "isGenericReason (df_FailureReason f) \<Longrightarrow>
      \<exists>e. genericFailure (ds_candidates state) (ds_successes state) = Some e \<and> f = makeFinding e
        \<and> (\<forall>b. firstRule rules state = Some b \<longrightarrow> layerRank (cd_layer e) < layerRank (cd_layer b))"
    using reasons by (auto simp: isGenericReason_iff)
qed

lemma fromState_members:
  "fromState s f first rest \<Longrightarrow> c \<in> set (first # rest) \<Longrightarrow> c \<in> set (ds_candidates s)"
  "fromState s f first rest \<Longrightarrow> c \<in> set (first # rest) \<Longrightarrow> \<not> candidateContradicted c (ds_successes s)"
  unfolding fromState_def by blast+

lemma fromState_sets:
  assumes "fromState s f first rest"
  shows "set (df_EvidenceIDs f) = (\<Union>c\<in>set (first # rest). set (cd_evidenceIDs c))"
    and "set (df_ProbeNames f) = (\<Union>c\<in>set (first # rest). set (cd_probeNames c))"
    and "(df_Layer f, df_FaultDomain f) =
       (if fst (semantics (cd_reason first)) = LayerUnknown then (cd_layer first, cd_domain first)
        else semantics (cd_reason first))"
proof -
  have f: "f = makeFinding (mergeCandidates first rest)"
    using assms unfolding fromState_def by (rule conjunct1)
  show "set (df_EvidenceIDs f) = (\<Union>c\<in>set (first # rest). set (cd_evidenceIDs c))"
    "set (df_ProbeNames f) = (\<Union>c\<in>set (first # rest). set (cd_probeNames c))"
    unfolding f makeFinding_simps mergeCandidates_simps by (rule refl)+
  show "(df_Layer f, df_FaultDomain f) =
       (if fst (semantics (cd_reason first)) = LayerUnknown then (cd_layer first, cd_domain first)
        else semantics (cd_reason first))"
    unfolding f by (rule makeFinding_layer [of "mergeCandidates first rest", unfolded mergeCandidates_simps])
qed

lemma fromState_facts:
  assumes "fromState s f first rest"
  shows "first \<in> set (ds_candidates s)"
    and "\<not> candidateContradicted first (ds_successes s)"
    and "(df_Layer f, df_FaultDomain f) =
       (if fst (semantics (df_FailureReason f)) = LayerUnknown then (cd_layer first, cd_domain first)
        else semantics (df_FailureReason f))"
    and "set (df_EvidenceIDs f) \<subseteq> (\<Union>c\<in>set (ds_candidates s). set (cd_evidenceIDs c))"
    and "set (df_ProbeNames f) \<subseteq> (\<Union>c\<in>set (ds_candidates s). set (cd_probeNames c))"
  unfolding fromState_reason [OF assms] fromState_sets [OF assms]
  using fromState_members [OF assms] by auto

section \<open>Properties\<close>

text \<open>C3: a diagnosis is traceable. Every finding has an active failure reason, is backed by a
  candidate with that reason that the collectors took from the envelope (or a probe) and that no
  correlated success of the envelope contradicts, and names only probes and evidence that some
  candidate carried; its layer and fault domain are those the policy table gives the reason, or
  the candidate's where the table leaves them unknown.\<close>

theorem diagnose_traceable:
  "\<forall>f\<in>set (diagnoseObservationState value probes compatibility).
     activeReason (df_FailureReason f)
     \<and> (\<exists>c\<in>set (ds_candidates (collectedState value probes compatibility)).
          cd_reason c = df_FailureReason f
          \<and> \<not> candidateContradicted c (ds_successes (collectedState value probes compatibility))
          \<and> (df_Layer f, df_FaultDomain f) =
             (if fst (semantics (df_FailureReason f)) = LayerUnknown then (cd_layer c, cd_domain c)
              else semantics (df_FailureReason f)))
     \<and> set (df_EvidenceIDs f) \<subseteq> (\<Union>c\<in>set (ds_candidates (collectedState value probes compatibility)).
          set (cd_evidenceIDs c))
     \<and> set (df_ProbeNames f) \<subseteq> (\<Union>c\<in>set (ds_candidates (collectedState value probes compatibility)).
          set (cd_probeNames c))"
proof
  let ?s = "collectedState value probes compatibility"
  fix f assume "f \<in> set (diagnoseObservationState value probes compatibility)"
  then obtain first rest where origin: "fromState ?s f first rest"
    using finding_origin [of f ?s] unfolding diagnoseObservationState_def by blast
  note facts = fromState_facts [OF origin]
  have "sound first" using facts(1) collected_sound [of "value" probes compatibility]
    unfolding list_all_iff by blast
  then have active: "activeReason (df_FailureReason f)"
    unfolding fromState_reason [OF origin] sound_def by blast
  show "activeReason (df_FailureReason f)
     \<and> (\<exists>c\<in>set (ds_candidates ?s). cd_reason c = df_FailureReason f
          \<and> \<not> candidateContradicted c (ds_successes ?s)
          \<and> (df_Layer f, df_FaultDomain f) =
             (if fst (semantics (df_FailureReason f)) = LayerUnknown then (cd_layer c, cd_domain c)
              else semantics (df_FailureReason f)))
     \<and> set (df_EvidenceIDs f) \<subseteq> (\<Union>c\<in>set (ds_candidates ?s). set (cd_evidenceIDs c))
     \<and> set (df_ProbeNames f) \<subseteq> (\<Union>c\<in>set (ds_candidates ?s). set (cd_probeNames c))"
    by (intro conjI active facts(4,5) bexI [OF _ facts(1)] facts(2,3)
        fromState_reason [OF origin, symmetric])
qed

text \<open>C4: a finding never misses a failure. The diagnosis is empty exactly when every candidate
  the collectors took is contradicted by a correlated success or is about the gateway, and no
  gateway candidate stands.\<close>

theorem diagnose_complete:
  "diagnoseObservationState value probes compatibility = [] \<longleftrightarrow>
     (\<forall>c\<in>set (ds_candidates (collectedState value probes compatibility)).
        cd_reason c = FailureReasonGatewayUnreachable
        \<or> candidateContradicted c (ds_successes (collectedState value probes compatibility)))
     \<and> gatewayCandidates (collectedState value probes compatibility) = []"
proof -
  let ?s = "collectedState value probes compatibility"
  have shape: "selectFindings ?s = [] \<longleftrightarrow> firstRule rules ?s = None
      \<and> genericFailure (ds_candidates ?s) (ds_successes ?s) = None \<and> gatewayFindings ?s = []"
    by (auto simp: selectFindings_def withGatewaySupport_def Let_def split: option.splits)
  have gateway: "gatewayFindings ?s = [] \<longleftrightarrow> gatewayCandidates ?s = []"
    by (simp add: gatewayFindings_def split: list.split)
  have none: "firstRule rules ?s = None
      \<and> genericFailure (ds_candidates ?s) (ds_successes ?s) = None \<longleftrightarrow>
    (\<forall>c\<in>set (ds_candidates ?s). cd_reason c = FailureReasonGatewayUnreachable
        \<or> candidateContradicted c (ds_successes ?s))" (is "?L \<longleftrightarrow> ?R")
  proof
    assume ?L
    then have rules: "\<forall>p\<in>set rules. set (viable ?s p) = {}" and gen: "set (generics ?s) = {}"
      by (simp_all add: firstRule_None genericFailure_None)
    show ?R
    proof (intro ballI)
      fix c assume c: "c \<in> set (ds_candidates ?s)"
      then have "sound c" using collected_sound [of "value" probes compatibility]
        by (simp add: list_all_iff)
      with c rules gen active_cases [of "cd_reason c"]
      show "cd_reason c = FailureReasonGatewayUnreachable
          \<or> candidateContradicted c (ds_successes ?s)"
        by (auto simp: sound_def set_viable generics_def)
    qed
  next
    assume ?R
    then have "\<forall>p\<in>set rules. set (viable ?s p) = {}" "set (generics ?s) = {}"
      using gateway_not_rule by (auto simp: set_viable generics_def isGenericReason_iff)
    then show ?L by (simp add: firstRule_None genericFailure_None)
  qed
  show ?thesis unfolding diagnoseObservationState_def shape gateway using none by blast
qed

text \<open>C5: the rule table is obeyed. When the leading finding has the reason of rule \<open>i\<close>, no
  earlier rule has an uncontradicted candidate, and the finding names exactly the probes and the
  evidence of all uncontradicted candidates of that reason.\<close>

theorem selectFindings_earliest_rule:
  assumes "selectFindings state = f # fs" "i < length rules" "df_FailureReason f = rules ! i"
  shows "(\<forall>j<i. \<forall>c\<in>set (candidatesForReason (ds_candidates state) (rules ! j)).
            candidateContradicted c (ds_successes state))
    \<and> set (df_EvidenceIDs f) = (\<Union>c\<in>{c \<in> set (candidatesForReason (ds_candidates state) (rules ! i)).
            \<not> candidateContradicted c (ds_successes state)}. set (cd_evidenceIDs c))
    \<and> set (df_ProbeNames f) = (\<Union>c\<in>{c \<in> set (candidatesForReason (ds_candidates state) (rules ! i)).
            \<not> candidateContradicted c (ds_successes state)}. set (cd_probeNames c))"
proof -
  have "df_FailureReason f \<in> set rules" using assms(2,3) by simp
  with head_reason(1) [OF assms(1)] obtain b where b: "firstRule rules state = Some b"
    "f = makeFinding b" by blast
  from firstRule_Some [OF b(1)] obtain k first rest where k: "k < length rules"
    "\<forall>j<k. viable state (rules ! j) = []" "viable state (rules ! k) = first # rest"
    "b = mergeCandidates first rest" by blast
  then have "rules ! k = rules ! i" using viable_reason [OF k(3)] b assms(3) by simp
  then have "k = i" using rules_distinct k(1) assms(2) by (simp add: nth_eq_iff_index_eq)
  have empty: "\<forall>j<i. \<forall>c\<in>set (candidatesForReason (ds_candidates state) (rules ! j)).
            candidateContradicted c (ds_successes state)"
    using k(2) unfolding \<open>k = i\<close> viable_def filter_empty_conv by blast
  have "set (first # rest) = {c \<in> set (candidatesForReason (ds_candidates state) (rules ! i)).
            \<not> candidateContradicted c (ds_successes state)}"
    unfolding k(3) [symmetric] \<open>k = i\<close> viable_def by auto
  then show ?thesis using empty b k(4) by (metis makeFinding_simps(2,3) mergeCandidates_simps(4,5))
qed

text \<open>a reason outside the rule table leads the diagnosis only from a strictly earlier layer
  than the built-in finding, and no other uncontradicted candidate outside the table is at an
  earlier layer.\<close>

theorem selectFindings_extension:
  assumes "selectFindings state = f # fs" "isGenericReason (df_FailureReason f)"
  shows "\<exists>e. f = makeFinding e
    \<and> (\<forall>b. firstRule rules state = Some b \<longrightarrow> layerRank (cd_layer e) < layerRank (cd_layer b))
    \<and> (\<forall>c\<in>set (ds_candidates state). isGenericReason (cd_reason c) \<and> \<not> cd_supporting c
         \<and> \<not> candidateContradicted c (ds_successes state)
         \<longrightarrow> layerRank (cd_layer e) \<le> layerRank (cd_layer c))"
proof -
  from head_reason(2) [OF assms] obtain e where
    e: "genericFailure (ds_candidates state) (ds_successes state) = Some e" "f = makeFinding e"
      "\<forall>b. firstRule rules state = Some b \<longrightarrow> layerRank (cd_layer e) < layerRank (cd_layer b)"
    by blast
  from genericFailure_Some [OF e(1)] have
    "\<forall>c\<in>set (generics state). layerRank (cd_layer e) \<le> layerRank (cd_layer c)"
    by (metis mergeCandidates_simps(2))
  then show ?thesis using e by (intro exI [of _ e]) (simp add: generics_def)
qed

text \<open>the shape of a diagnosis. There are at most two findings, every finding after the
  first is the gateway's, each lists its probes and its evidence in strictly increasing order,
  and on an on-link route there is no gateway finding at all.\<close>

theorem diagnose_shape:
  "length (diagnoseObservationState value probes compatibility) \<le> 2
   \<and> (\<forall>f\<in>set (tl (diagnoseObservationState value probes compatibility)).
        df_FailureReason f = FailureReasonGatewayUnreachable)
   \<and> (\<forall>f\<in>set (diagnoseObservationState value probes compatibility).
        sorted_wrt (<) (df_ProbeNames f) \<and> sorted_wrt (<) (df_EvidenceIDs f)
        \<and> (nc_EffectiveRoute (ob_NetworkContext value) = RouteDispositionOnLink
           \<longrightarrow> df_FailureReason f \<noteq> FailureReasonGatewayUnreachable))"
proof -
  let ?s = "collectedState value probes compatibility"
  have gw: "length (gatewayFindings ?s) \<le> 1"
    "\<forall>f\<in>set (gatewayFindings ?s). df_FailureReason f = FailureReasonGatewayUnreachable"
    by (rule gatewayFindings_cases [of ?s]; simp)+
  have strict: "\<forall>f\<in>set (selectFindings ?s).
      sorted_wrt (<) (df_ProbeNames f) \<and> sorted_wrt (<) (df_EvidenceIDs f)"
    using finding_origin [of _ ?s] makeFinding_strict by (metis fromState_def)
  have none: "nc_EffectiveRoute (ob_NetworkContext value) = RouteDispositionOnLink
      \<Longrightarrow> gatewayFindings ?s = []"
    by (simp add: gatewayFindings_def gatewayCandidates_def collected_value Let_def)
  have heads: "df_FailureReason f \<noteq> FailureReasonGatewayUnreachable"
    if "f \<in> set (selectFindings ?s)" "gatewayFindings ?s = []" for f
  proof (cases rule: selectFindings_cases [of ?s])
    case (rule b)
    then have "f = makeFinding b" using that by simp
    then show ?thesis using rule_origin [OF rule(1)] gateway_not_rule by (metis fromState_reason)
  next
    case (generic e)
    then have "f = makeFinding e" using that by simp
    then show ?thesis using generic_origin [OF generic(1)]
      by (metis fromState_reason isGenericReason_iff)
  next
    case none
    then show ?thesis using that by simp
  qed
  have "length (selectFindings ?s) \<le> 2 \<and> (\<forall>f\<in>set (tl (selectFindings ?s)).
        df_FailureReason f = FailureReasonGatewayUnreachable)"
  proof (cases rule: selectFindings_cases [of ?s])
    case none
    then show ?thesis using gw by (metis list.set_sel(2) list.sel(2) le_trans one_le_numeral)
  qed (use gw in simp_all)
  then show ?thesis using strict heads none by (simp add: diagnoseObservationState_def)
qed

section \<open>Suppression by a connected transport\<close>

definition transportTarget :: "Observations \<Rightarrow> Target" where
  "transportTarget value = mergeTarget (targetFromObservations value)
     (targetFromEndpoint (tpo_ProbeEndpoint (ob_Transport value))
       (tpo_TestedEndpoint (ob_Transport value)) (tpo_RequestedEndpoint (ob_Transport value)))"

definition belowTransport :: "Layer list" where
  "belowTransport = [LayerInterface, LayerIPConfiguration, LayerRoute, LayerGateway, LayerNetwork,
     LayerTCP]"

lemma grows_successes: "grows s s' \<Longrightarrow> set (ds_successes s) \<subseteq> set (ds_successes s')"
  by (auto simp: grows_def)

lemma grows_value: "grows s s' \<Longrightarrow> ds_value s' = ds_value s \<and> ds_target s' = ds_target s"
  by (simp add: grows_def)

lemma canonical_transport_success:
  assumes "transportSucceeded (ob_Transport (ds_value s))" "ds_target s = targetFromObservations (ds_value s)"
  shows "\<exists>u\<in>set (ds_successes (collectCanonical s)).
    su_layer u = LayerTCP \<and> su_target u = transportTarget (ds_value s)"
proof -
  let ?v = "ds_value s" and ?t = "ds_target s"
  let ?before = "collectNetwork (collectNameResolution (collectEndpoint s (ob_Endpoint ?v) ?t)
      (ob_NameResolution ?v) ?t) (ob_NetworkContext ?v) ?t"
  let ?at = "collectTransport ?before (ob_Transport ?v) ?t"
  have "\<exists>u\<in>set (ds_successes ?at). su_layer u = LayerTCP \<and> su_target u = transportTarget ?v"
    using assms by (simp add: collectTransport_def transportTarget_def appendSuccess_def Let_def)
  moreover have "grows ?at (collectCanonical s)"
    unfolding collectCanonical_def Let_def
    by (intro grows_trans [OF _ grows_collectEnterprise] grows_trans [OF _ grows_collectApplication]
        grows_trans [OF _ grows_collectSecurity] grows_trans [OF _ grows_collectPaths]
        grows_collectPacketFlows)
  ultimately show ?thesis using grows_successes by blast
qed

lemma collected_transport_success:
  assumes "transportSucceeded (ob_Transport value)"
  shows "\<exists>u\<in>set (ds_successes (collectedState value probes compatibility)).
    su_layer u = LayerTCP \<and> su_target u = transportTarget value"
proof -
  let ?s0 = "\<lparr>ds_value = value, ds_target = targetFromObservations value,
    ds_candidates = [], ds_successes = []\<rparr>"
  have "grows (collectCanonical ?s0) (collectedState value probes compatibility)"
    unfolding collectedState_def collectCompatibility_def Let_def
    by (intro grows_if grows_foldI grows_collectCompatibilityProbe grows_refl)
  then show ?thesis
    using canonical_transport_success [of ?s0] assms grows_successes by fastforce
qed

lemma tcp_contradicts:
  assumes "reason \<notin> set comparisonReasons" "layer \<in> set belowTransport"
  shows "successfulLayerContradicts reason layer LayerTCP"
proof -
  have "layer \<in> set [LayerInterface, LayerIPConfiguration, LayerRoute, LayerGateway, LayerNetwork] \<or> layer = LayerTCP"
    using assms(2) by (auto simp: belowTransport_def)
  moreover have "LayerTCP \<notin> set [LayerDNS, LayerProxy]" by (simp add: go_consts)
  ultimately show ?thesis
    using assms(1) unfolding successfulLayerContradicts_def comparisonReasons_def by presburger
qed

text \<open>a connected transport silences the layers below. When the envelope's transport
  connected, a finding about the interface, the address, the route, the gateway, the network or
  TCP that is not one of the policy comparisons can only come from a candidate for another
  target.\<close>

theorem transport_success_suppresses:
  assumes "transportSucceeded (ob_Transport value)"
    "f \<in> set (diagnoseObservationState value probes compatibility)"
    "df_FailureReason f \<notin> set comparisonReasons"
    "fst (semantics (df_FailureReason f)) \<in> set belowTransport"
  shows "\<exists>c\<in>set (ds_candidates (collectedState value probes compatibility)).
    cd_reason c = df_FailureReason f
    \<and> \<not> targetsCorrelate (cd_target c) (transportTarget value) (cd_layer c)"
proof -
  let ?s = "collectedState value probes compatibility"
  obtain first rest where origin: "fromState ?s f first rest"
    using finding_origin [of f ?s] assms(2) unfolding diagnoseObservationState_def by blast
  note facts = fromState_facts [OF origin] and reason = fromState_reason [OF origin]
  have "sound first" using facts(1) collected_sound [of "value" probes compatibility]
    unfolding list_all_iff by blast
  have "LayerUnknown \<notin> set belowTransport" by code_simp
  then have "fst (semantics (cd_reason first)) \<noteq> LayerUnknown" using assms(4) reason by auto
  with \<open>sound first\<close> have "cd_layer first \<in> set belowTransport"
    using assms(4) reason unfolding sound_def by (metis fst_conv)
  then have contradicts: "successfulLayerContradicts (cd_reason first) (cd_layer first) LayerTCP"
    using tcp_contradicts assms(3) reason by simp
  have "\<not> cd_comparative first" using \<open>sound first\<close> assms(3) reason by (simp add: sound_def)
  moreover obtain u where "u \<in> set (ds_successes ?s)" "su_layer u = LayerTCP"
    "su_target u = transportTarget value"
    using collected_transport_success [OF assms(1)] by blast
  ultimately have "\<not> targetsCorrelate (cd_target first) (transportTarget value) (cd_layer first)"
    using facts(2) contradicts unfolding candidateContradicted_def list_ex_iff by metis
  then show ?thesis using facts(1) reason by auto
qed

text \<open>correlation of targets is symmetric, and a port difference separates two targets of
  the same identity at the layers that belong to one endpoint.\<close>

theorem targetsCorrelate_spec:
  "targetsCorrelate left right layer = targetsCorrelate right left layer
   \<and> (targetIdentity left = targetIdentity right \<longrightarrow>
        targetsCorrelate left right layer =
          (\<not> transportEndpointLayer layer \<or> tg_Port left = 0 \<or> tg_Port right = 0
           \<or> tg_Port left = tg_Port right))"
  unfolding targetsCorrelate_def Let_def
  using targetAddressesCorrelate_sym [of left right] equalFold_sym [of "targetIdentity left"]
  by (auto simp: equalFold_def)

text \<open>the rule table is a policy. Its reasons are distinct, active and not the gateway's,
  the table of layers knows every one of them except the probe-execution failure, and with the
  direct-egress comparison left out it never goes back to an earlier layer.\<close>

theorem rules_policy:
  "distinct rules \<and> list_all activeReason rules \<and> FailureReasonGatewayUnreachable \<notin> set rules
   \<and> list_all (\<lambda>r. fst (semantics r) \<noteq> LayerUnknown) (butlast rules)
   \<and> last rules = FailureReasonProbeExecution
   \<and> sorted (map (\<lambda>r. layerRank (fst (semantics r)))
       (filter (\<lambda>r. r \<noteq> FailureReasonDirectEgressRestricted) rules))
   \<and> \<not> sorted (map (\<lambda>r. layerRank (fst (semantics r))) rules)"
  by code_simp

section \<open>A sample envelope\<close>

definition sampleObservations :: Observations where
  "sampleObservations = zero_Observations\<lparr>
     ob_Endpoint := zero_EndpointObservation\<lparr>eo_RequestedIdentity := ''db'', eo_Port := 443\<rparr>,
     ob_NetworkContext := zero_NetworkContext\<lparr>nc_EffectiveRoute := RouteDispositionRouted,
       nc_Gateway := ''gw'', nc_FailureReason := FailureReasonGatewayUnreachable,
       nc_EvidenceIDs := [''e1'']\<rparr>,
     ob_Transport := zero_TransportObservation\<lparr>
       tpo_ConnectionOutcome := TransportConnectionOutcomeTimeout,
       tpo_ProbeNames := [''tcp''], tpo_EvidenceIDs := [''e3'', ''e2'', ''e3'']\<rparr>\<rparr>"

definition sampleFindings :: "DiagnosticFinding list" where
  "sampleFindings =
     [\<lparr>df_FailureReason = FailureReasonTCPTimeout, df_Layer = LayerTCP,
       df_FaultDomain = FaultDomainTransport, df_ProbeNames = [''tcp''],
       df_EvidenceIDs = [''e2'', ''e3'']\<rparr>,
      \<lparr>df_FailureReason = FailureReasonGatewayUnreachable, df_Layer = LayerGateway,
       df_FaultDomain = FaultDomainGateway, df_ProbeNames = [], df_EvidenceIDs = [''e1'']\<rparr>]"

lemma sample_diagnosis: "diagnoseObservationState sampleObservations [] False = sampleFindings"
  by code_simp

theorem diagnose_traceable_witness:
  "\<exists>c\<in>set (ds_candidates (collectedState sampleObservations [] False)).
     cd_reason c = FailureReasonTCPTimeout"
  using diagnose_traceable [of sampleObservations "[]" False]
  unfolding sample_diagnosis sampleFindings_def by auto

theorem selectFindings_earliest_rule_witness:
  "list_all (\<lambda>r. list_all
       (\<lambda>c. candidateContradicted c (ds_successes (collectedState sampleObservations [] False)))
       (candidatesForReason (ds_candidates (collectedState sampleObservations [] False)) r))
     (take 17 rules)"
proof -
  have r: "rules ! 17 = FailureReasonTCPTimeout" "17 < length rules" by (simp_all add: rules_def)
  moreover have "selectFindings (collectedState sampleObservations [] False) =
      hd sampleFindings # tl sampleFindings"
    using sample_diagnosis by (simp add: diagnoseObservationState_def sampleFindings_def)
  ultimately have "\<forall>j<17. \<forall>c\<in>set (candidatesForReason
        (ds_candidates (collectedState sampleObservations [] False)) (rules ! j)).
      candidateContradicted c (ds_successes (collectedState sampleObservations [] False))"
    using selectFindings_earliest_rule [of "collectedState sampleObservations [] False" _ _ 17]
    by (simp add: sampleFindings_def)
  then show ?thesis
    using r(2) by (simp add: list_all_length [of _ "take 17 rules"]) (simp add: list_all_iff)
qed

definition extensionObservations :: Observations where
  "extensionObservations = zero_Observations\<lparr>
     ob_NetworkContext := zero_NetworkContext\<lparr>nc_FailureReason := ''vendor_quarantine''\<rparr>,
     ob_Transport := zero_TransportObservation\<lparr>
       tpo_ConnectionOutcome := TransportConnectionOutcomeTimeout\<rparr>\<rparr>"

lemma extension_state:
  "(\<lambda>s. map df_FailureReason (selectFindings s) = [''vendor_quarantine''] \<and> gatewayCandidates s = [])
     (collectedState extensionObservations [] False)"
  by code_simp

lemma extension_diagnosis: "map df_FailureReason
    (diagnoseObservationState extensionObservations [] False) = [''vendor_quarantine'']"
  using extension_state by (simp add: diagnoseObservationState_def)

theorem diagnose_complete_witness:
  "\<exists>c\<in>set (ds_candidates (collectedState extensionObservations [] False)).
     cd_reason c \<noteq> FailureReasonGatewayUnreachable
     \<and> \<not> candidateContradicted c (ds_successes (collectedState extensionObservations [] False))"
proof -
  have "gatewayCandidates (collectedState extensionObservations [] False) = []" using extension_state by simp
  moreover have "diagnoseObservationState extensionObservations [] False \<noteq> []"
    using extension_diagnosis by auto
  ultimately show ?thesis
    using diagnose_complete [of extensionObservations "[]" False] by blast
qed

theorem selectFindings_extension_witness:
  "\<exists>e. hd (selectFindings (collectedState extensionObservations [] False)) = makeFinding e
    \<and> (\<forall>b. firstRule rules (collectedState extensionObservations [] False) = Some b
         \<longrightarrow> layerRank (cd_layer e) < layerRank (cd_layer b))"
proof -
  let ?l = "selectFindings (collectedState extensionObservations [] False)"
  have "map df_FailureReason ?l = [''vendor_quarantine'']"
    using extension_diagnosis by (simp only: diagnoseObservationState_def)
  then obtain f where f: "?l = [f]" "df_FailureReason f = ''vendor_quarantine''" by auto
  have "isGenericReason ''vendor_quarantine''" by code_simp
  then show ?thesis using selectFindings_extension [OF f(1)] f by auto
qed

theorem diagnose_shape_witness:
  "length sampleFindings \<le> 2 \<and> sorted_wrt (<) (df_EvidenceIDs (hd sampleFindings))"
  using diagnose_shape [of sampleObservations "[]" False]
  unfolding sample_diagnosis by (simp add: sampleFindings_def)

definition otherTargetObservations :: Observations where
  "otherTargetObservations = zero_Observations\<lparr>
     ob_Endpoint := zero_EndpointObservation\<lparr>eo_RequestedIdentity := ''db'', eo_Port := 443\<rparr>,
     ob_Transport := zero_TransportObservation\<lparr>tpo_Connected := True\<rparr>\<rparr>"

definition otherProbe :: ProbeResult where
  "otherProbe = zero_ProbeResult\<lparr>pr_Name := ''firewall'',
     pr_Target := zero_Target\<lparr>tg_RequestedIdentity := ''other''\<rparr>,
     pr_Interpretation := zero_ProbeInterpretation\<lparr>
       pin_FailureReason := FailureReasonFirewallBlocked\<rparr>\<rparr>"

theorem transport_success_suppresses_witness:
  "\<exists>c\<in>set (ds_candidates (collectedState otherTargetObservations [otherProbe] True)).
    cd_reason c = FailureReasonFirewallBlocked
    \<and> \<not> targetsCorrelate (cd_target c) (transportTarget otherTargetObservations) (cd_layer c)"
proof -
  let ?l = "diagnoseObservationState otherTargetObservations [otherProbe] True"
  have "map df_FailureReason ?l = [FailureReasonFirewallBlocked]" by code_simp
  then obtain f where f: "?l = [f]" "df_FailureReason f = FailureReasonFirewallBlocked" by auto
  have "transportSucceeded (ob_Transport otherTargetObservations)" by code_simp
  moreover have "FailureReasonFirewallBlocked \<notin> set comparisonReasons" by code_simp
  moreover have "fst (semantics FailureReasonFirewallBlocked) \<in> set belowTransport" by code_simp
  ultimately show ?thesis
    using transport_success_suppresses [of otherTargetObservations f "[otherProbe]" True] f by simp
qed

theorem targetsCorrelate_spec_witness:
  "\<not> targetsCorrelate (zero_Target\<lparr>tg_RequestedIdentity := ''db'', tg_Port := 443\<rparr>)
       (zero_Target\<lparr>tg_RequestedIdentity := ''db'', tg_Port := 80\<rparr>) LayerTCP"
  using targetsCorrelate_spec [of "zero_Target\<lparr>tg_RequestedIdentity := ''db'', tg_Port := 443\<rparr>"
      "zero_Target\<lparr>tg_RequestedIdentity := ''db'', tg_Port := 80\<rparr>" LayerTCP]
  by (auto simp: targetIdentity_def transportEndpointLayer_def)

end
