(* ===== verification/Session.thy ===== *)
theory Session
  imports Target ModelReportTypes
begin

text \<open>
  \<open>internal/session/session.go\<close>: the manager of diagnostic sessions. Every operation on a
  session is one critical section under its mutex, and is modelled as one function from session
  to session; the goroutines interleave at these boundaries, so \<open>SessionRuns\<close> builds the step
  relations from them. A Go channel is a bounded buffer with a closed flag; \<open>ch_taken\<close> is what its
  reader has received. The clock (\<open>now\<close>), the identifier sources and the result of the runner are
  arguments of the operations.
\<close>

section \<open>Constants\<close>

definition DefaultOverallTimeout :: int where
  "DefaultOverallTimeout = 30 * 1000000000"
definition DefaultMaxConcurrentSessions :: int where
  "DefaultMaxConcurrentSessions = 2"
definition maxEventHistory :: nat where
  "maxEventHistory = 4096"
definition subscriberBuffer :: nat where
  "subscriberBuffer = 256"

datatype sessionError = ErrNotFound | ErrBusy | ErrClosed

type_synonym State = string
definition StateRunning :: State where [go_consts]: "StateRunning = ''running''"
definition StateCancelling :: State where [go_consts]: "StateCancelling = ''cancelling''"
definition StateCompleted :: State where [go_consts]: "StateCompleted = ''completed''"
definition StateCancelled :: State where [go_consts]: "StateCancelled = ''cancelled''"
definition StateFailed :: State where [go_consts]: "StateFailed = ''failed''"

type_synonym EventType = string
definition EventDiagnosisStarted :: EventType where
  [go_consts]: "EventDiagnosisStarted = ''diagnosis_started''"
definition EventProbeStarted :: EventType where
  [go_consts]: "EventProbeStarted = ''probe_started''"
definition EventProbeCompleted :: EventType where
  [go_consts]: "EventProbeCompleted = ''probe_completed''"
definition EventResultUpdated :: EventType where
  [go_consts]: "EventResultUpdated = ''result_updated''"
definition EventFindingUpdated :: EventType where
  [go_consts]: "EventFindingUpdated = ''finding_updated''"
definition EventDiagnosisCompleted :: EventType where
  [go_consts]: "EventDiagnosisCompleted = ''diagnosis_completed''"
definition EventDiagnosisCancelled :: EventType where
  [go_consts]: "EventDiagnosisCancelled = ''diagnosis_cancelled''"

definition EventSchemaVersion :: string where [go_consts]: "EventSchemaVersion = ''1''"

section \<open>State\<close>

record Event =
  evt_SchemaVersion :: string
  evt_Sequence :: "64 word"
  evt_Type :: EventType
  evt_SessionID :: string
  evt_Timestamp :: gotime
  evt_Target :: "Target option"
  evt_ProbeName :: string
  evt_Result :: "ProbeResult option"
  evt_Finding :: "DiagnosticFinding option"
  evt_Report :: "DiagnosticReport option"
  evt_Data :: string

definition zero_Event :: Event where
  "zero_Event = \<lparr>evt_SchemaVersion = [], evt_Sequence = 0, evt_Type = [], evt_SessionID = [],
     evt_Timestamp = 0, evt_Target = None, evt_ProbeName = [], evt_Result = None,
     evt_Finding = None, evt_Report = None, evt_Data = []\<rparr>"

record Snapshot =
  sn_ID :: string
  sn_Target :: Target
  sn_State :: State
  sn_StartedAt :: "gotime option"
  sn_CompletedAt :: "gotime option"
  sn_CancelRequested :: bool
  sn_Report :: "DiagnosticReport option"

record channel =
  ch_capacity :: nat
  ch_buffer :: "Event list"
  ch_taken :: "Event list"
  ch_closed :: bool

text \<open>
  \<open>ms_channels\<close> holds every channel ever made for the session, named by its index, and
  \<open>ms_subscribers\<close> the indices of those in the code's \<open>subscribers\<close> map. \<open>ms_ctxCancelled\<close> says
  that the session's cancel function was called, \<open>ms_done\<close> that \<open>done\<close> is closed.
\<close>

record managedSession =
  ms_id :: string
  ms_target :: Target
  ms_state :: State
  ms_startedAt :: "gotime option"
  ms_completedAt :: "gotime option"
  ms_cancelRequested :: bool
  ms_report :: "DiagnosticReport option"
  ms_ctxCancelled :: bool
  ms_done :: bool
  ms_events :: "Event list"
  ms_nextSequence :: "64 word"
  ms_subscribers :: "nat list"
  ms_channels :: "channel list"

text \<open>
  The manager: its sessions by identifier, the occupancy and size of its capacity channel, and
  the number of \<open>Create\<close> calls and the \<open>execute\<close> goroutines that hold a slot, and the sessions
  the loop of \<open>Close\<close> has yet to cancel.
\<close>

record manager =
  mg_sessions :: "(string \<times> managedSession) list"
  mg_capacity :: nat
  mg_used :: nat
  mg_closed :: bool
  mg_timeout :: int
  mg_creating :: nat
  mg_executing :: "string list"
  mg_closing :: "string list"

record Options =
  op_OverallTimeout :: int
  op_MaxConcurrentSessions :: int

definition NewManager :: "Options \<Rightarrow> manager" where
  "NewManager opts =
     (let maxConcurrent = (if op_MaxConcurrentSessions opts \<le> 0 then DefaultMaxConcurrentSessions
            else op_MaxConcurrentSessions opts);
          timeout = (if op_OverallTimeout opts \<le> 0 then DefaultOverallTimeout
            else op_OverallTimeout opts) in
      \<lparr>mg_sessions = [], mg_capacity = nat maxConcurrent, mg_used = 0, mg_closed = False,
       mg_timeout = timeout, mg_creating = 0, mg_executing = [], mg_closing = []\<rparr>)"

section \<open>Sessions\<close>

definition terminal :: "State \<Rightarrow> bool" where
  "terminal state \<longleftrightarrow> state = StateCompleted \<or> state = StateCancelled \<or> state = StateFailed"

definition cloneTime :: "gotime option \<Rightarrow> gotime option" where
  "cloneTime value = (case value of None \<Rightarrow> None | Some t \<Rightarrow> Some t)"

definition snapshotLocked :: "managedSession \<Rightarrow> Snapshot" where
  "snapshotLocked s =
     \<lparr>sn_ID = ms_id s, sn_Target = ms_target s, sn_State = ms_state s,
      sn_StartedAt = cloneTime (ms_startedAt s), sn_CompletedAt = cloneTime (ms_completedAt s),
      sn_CancelRequested = ms_cancelRequested s, sn_Report = ms_report s\<rparr>"

definition eventTimestamp :: "gotime \<Rightarrow> gotime \<Rightarrow> gotime" where
  "eventTimestamp timestamp now = (if isZeroTime timestamp then now else timestamp)"

definition closeChannel :: "nat \<Rightarrow> managedSession \<Rightarrow> managedSession" where
  "closeChannel i s = s\<lparr>
     ms_subscribers := removeAll i (ms_subscribers s),
     ms_channels := (ms_channels s)[i := (ms_channels s ! i)\<lparr>ch_closed := True\<rparr>]\<rparr>"

text \<open>
  The non-blocking send of one event to one subscriber. The code ranges over a map; the sends
  touch different channels, so their order does not matter and the list's order is taken.
\<close>

definition deliver :: "Event \<Rightarrow> nat \<Rightarrow> managedSession \<Rightarrow> managedSession" where
  "deliver event i s =
     (let ch = ms_channels s ! i in
      if length (ch_buffer ch) < ch_capacity ch
      then s\<lparr>ms_channels := (ms_channels s)[i := ch\<lparr>ch_buffer := ch_buffer ch @ [event]\<rparr>]\<rparr>
      else closeChannel i s)"

definition emitLocked :: "gotime \<Rightarrow> Event \<Rightarrow> managedSession \<Rightarrow> managedSession" where
  "emitLocked now event0 s0 =
     (let s1 = s0\<lparr>ms_nextSequence := ms_nextSequence s0 + 1\<rparr>;
          event = event0\<lparr>evt_SchemaVersion := EventSchemaVersion,
            evt_Sequence := ms_nextSequence s1, evt_SessionID := ms_id s1,
            evt_Timestamp := eventTimestamp (evt_Timestamp event0) now\<rparr>;
          s2 = (if length (ms_events s1) = maxEventHistory
            then s1\<lparr>ms_events := tl (ms_events s1) @ [event]\<rparr>
            else s1\<lparr>ms_events := ms_events s1 @ [event]\<rparr>) in
      fold (deliver event) (ms_subscribers s2) s2)"

definition emit :: "gotime \<Rightarrow> Event \<Rightarrow> managedSession \<Rightarrow> managedSession" where
  "emit now event s = emitLocked now event s"

text \<open>The critical section of \<open>Cancel\<close> and of the loop of \<open>Close\<close>, with the call of \<open>cancel\<close>.\<close>

definition cancelSession :: "managedSession \<Rightarrow> managedSession" where
  "cancelSession s =
     (if \<not> terminal (ms_state s)
      then s\<lparr>ms_cancelRequested := True,
             ms_state := (if ms_state s = StateRunning then StateCancelling else ms_state s),
             ms_ctxCancelled := True\<rparr>
      else s)"

definition eventsAfter :: "64 word \<Rightarrow> managedSession \<Rightarrow> Event list" where
  "eventsAfter after s = filter (\<lambda>event. after < evt_Sequence event) (ms_events s)"

definition subscribe :: "64 word \<Rightarrow> managedSession \<Rightarrow> managedSession \<times> nat" where
  "subscribe after s =
     (let bufferSize = (if length (ms_events s) + 1 > subscriberBuffer
            then length (ms_events s) + 1 else subscriberBuffer);
          i = length (ms_channels s);
          ch = \<lparr>ch_capacity = bufferSize, ch_buffer = eventsAfter after s, ch_taken = [],
            ch_closed = terminal (ms_state s)\<rparr>;
          s1 = s\<lparr>ms_channels := ms_channels s @ [ch]\<rparr> in
      if terminal (ms_state s) then (s1, i)
      else (s1\<lparr>ms_subscribers := ms_subscribers s1 @ [i]\<rparr>, i))"

definition unsubscribe :: "nat \<Rightarrow> managedSession \<Rightarrow> managedSession" where
  "unsubscribe i s = (if i \<in> set (ms_subscribers s) then closeChannel i s else s)"

text \<open>The reader of a channel takes the oldest buffered event.\<close>

definition receive :: "nat \<Rightarrow> managedSession \<Rightarrow> managedSession" where
  "receive i s =
     (case ch_buffer (ms_channels s ! i) of
        [] \<Rightarrow> s
      | event # rest \<Rightarrow> s\<lparr>ms_channels := (ms_channels s)[i := (ms_channels s ! i)\<lparr>
          ch_buffer := rest, ch_taken := ch_taken (ms_channels s ! i) @ [event]\<rparr>]\<rparr>)"

section \<open>Execution\<close>

text \<open>What the runner did: it returned a report, or it panicked.\<close>

datatype runOutcome = Returned DiagnosticReport | Panicked

definition runSafely :: "runOutcome \<Rightarrow> Target \<Rightarrow> gotime \<Rightarrow> gotime \<Rightarrow> DiagnosticReport \<times> bool" where
  "runSafely outcome target started completed =
     (case outcome of
        Returned report \<Rightarrow> (report, False)
      | Panicked \<Rightarrow> (zero_DiagnosticReport\<lparr>dr_SchemaVersion := DiagnosticSchemaVersion,
          dr_Target := target, dr_Status := ReportStatusError, dr_StartedAt := Some started,
          dr_CompletedAt := Some completed\<rparr>, True))"

definition executeStart :: "gotime \<Rightarrow> managedSession \<Rightarrow> managedSession" where
  "executeStart now s = emit now
     (zero_Event\<lparr>evt_Type := EventDiagnosisStarted, evt_Target := Some (ms_target s)\<rparr>) s"

definition probeStarted :: "gotime \<Rightarrow> string \<Rightarrow> managedSession \<Rightarrow> managedSession" where
  "probeStarted now name s =
     emit now (zero_Event\<lparr>evt_Type := EventProbeStarted, evt_ProbeName := name\<rparr>) s"

definition probeCompleted :: "gotime \<Rightarrow> ProbeResult \<Rightarrow> managedSession \<Rightarrow> managedSession" where
  "probeCompleted now result s =
     emit now (zero_Event\<lparr>evt_Type := EventProbeCompleted, evt_ProbeName := pr_Name result,
       evt_Result := Some result\<rparr>) s"

definition finalReport :: "DiagnosticReport \<Rightarrow> bool \<Rightarrow> DiagnosticReport" where
  "finalReport report deadlineExceeded =
     (if deadlineExceeded \<and> dr_Status report = ReportStatusComplete
      then report\<lparr>dr_Status := ReportStatusIncomplete\<rparr> else report)"

text \<open>
  The critical section that ends \<open>execute\<close>: the final state, one event per finding, the
  terminal event, the closing of the subscribers and of \<open>done\<close>. The deferred
  \<open>s.cancel\<close> and the release of the slot follow as \<open>executeRelease\<close>.
\<close>

definition executeFinish ::
    "gotime \<Rightarrow> runOutcome \<Rightarrow> bool \<Rightarrow> managedSession \<Rightarrow> managedSession" where
  "executeFinish now outcome deadlineExceeded s0 =
     (let (report0, panicked) = runSafely outcome (ms_target s0) now now;
          report = finalReport report0 deadlineExceeded;
          s1 = s0\<lparr>ms_completedAt := Some now, ms_report := Some report,
            ms_state := (if ms_cancelRequested s0 then StateCancelled
              else if panicked \<or> deadlineExceeded then StateFailed else StateCompleted)\<rparr>;
          s2 = fold (\<lambda>finding. emitLocked now
              (zero_Event\<lparr>evt_Type := EventFindingUpdated, evt_Finding := Some finding\<rparr>))
            (dr_Findings report) s1;
          s3 = (if ms_state s2 = StateCancelled
            then emitLocked now (zero_Event\<lparr>evt_Type := EventDiagnosisCancelled,
              evt_Report := Some report\<rparr>) s2
            else emitLocked now (zero_Event\<lparr>evt_Type := EventDiagnosisCompleted,
              evt_Report := Some report\<rparr>) s2);
          s4 = fold closeChannel (ms_subscribers s3) s3 in
      s4\<lparr>ms_done := True\<rparr>)"

section \<open>The manager's operations\<close>

definition lookup :: "manager \<Rightarrow> string \<Rightarrow> sessionError + managedSession" where
  "lookup m sid = (case map_of (mg_sessions m) sid of None \<Rightarrow> Inl ErrNotFound | Some s \<Rightarrow> Inr s)"

definition putSession :: "string \<Rightarrow> managedSession \<Rightarrow> manager \<Rightarrow> manager" where
  "putSession sid s m = m\<lparr>mg_sessions := AList.update sid s (mg_sessions m)\<rparr>"

text \<open>
  \<open>uniqueIDLocked\<close>. \<open>newID i\<close> and \<open>defaultID i\<close> are the results of the \<open>i\<close>th calls of the two
  identifier sources; \<open>exists\<close> tells the identifiers in use. Its second loop has no bound, so it is
  a partial function whose value is None when no call ever yields an unused identifier.
\<close>

fun attemptIDs :: "(nat \<Rightarrow> string) \<Rightarrow> (nat \<Rightarrow> string) \<Rightarrow> (string \<Rightarrow> bool) \<Rightarrow> nat \<Rightarrow> nat \<Rightarrow> nat
    \<Rightarrow> string option \<times> nat" where
  "attemptIDs newID defaultID exists 0 i d = (None, d)"
| "attemptIDs newID defaultID exists (Suc attempts) i d =
     (let (sid, d') = (if newID i = [] then (defaultID d, Suc d) else (newID i, d)) in
      if \<not> exists sid then (Some sid, d')
      else attemptIDs newID defaultID exists attempts (Suc i) d')"

partial_function (option) defaultIDLoop ::
    "(nat \<Rightarrow> string) \<Rightarrow> (string \<Rightarrow> bool) \<Rightarrow> nat \<Rightarrow> string option" where
  "defaultIDLoop defaultID exists d =
     (if \<not> exists (defaultID d) then Some (defaultID d)
      else defaultIDLoop defaultID exists (Suc d))"

definition uniqueIDLocked ::
    "(nat \<Rightarrow> string) \<Rightarrow> (nat \<Rightarrow> string) \<Rightarrow> manager \<Rightarrow> string option" where
  "uniqueIDLocked newID defaultID m =
     (let exists = (\<lambda>sid. map_of (mg_sessions m) sid \<noteq> None) in
      case attemptIDs newID defaultID exists 16 0 0 of
        (Some sid, d) \<Rightarrow> Some sid
      | (None, d) \<Rightarrow> defaultIDLoop defaultID exists d)"

definition newSession :: "string \<Rightarrow> Target \<Rightarrow> gotime \<Rightarrow> managedSession" where
  "newSession sid target started =
     \<lparr>ms_id = sid, ms_target = target, ms_state = StateRunning, ms_startedAt = Some started,
      ms_completedAt = None, ms_cancelRequested = False, ms_report = None,
      ms_ctxCancelled = False, ms_done = False, ms_events = [], ms_nextSequence = 0,
      ms_subscribers = [], ms_channels = []\<rparr>"

text \<open>
  \<open>Create\<close> takes a slot without blocking, then registers the session under the manager's mutex
  and starts \<open>execute\<close>; other goroutines may run in between. The snapshot it returns is that
  of the moment of registration (the code takes it after it has started \<open>execute\<close>, so it may
  already show a later state of the same session).
\<close>

definition createReserve :: "manager \<Rightarrow> sessionError + manager" where
  "createReserve m =
     (if mg_used m < mg_capacity m
      then Inr (m\<lparr>mg_used := mg_used m + 1, mg_creating := mg_creating m + 1\<rparr>)
      else Inl ErrBusy)"

definition createRegister :: "(nat \<Rightarrow> string) \<Rightarrow> (nat \<Rightarrow> string) \<Rightarrow> gotime \<Rightarrow> Target \<Rightarrow> manager
    \<Rightarrow> (manager \<times> (sessionError + Snapshot)) option" where
  "createRegister newID defaultID started target m =
     (if mg_closed m
      then Some (m\<lparr>mg_used := mg_used m - 1, mg_creating := mg_creating m - 1\<rparr>, Inl ErrClosed)
      else case uniqueIDLocked newID defaultID m of
        None \<Rightarrow> None
      | Some sid \<Rightarrow>
          let s = newSession sid (NormalizeTarget target) started in
          Some ((putSession sid s m)\<lparr>mg_creating := mg_creating m - 1,
              mg_executing := mg_executing m @ [sid]\<rparr>,
            Inr (snapshotLocked s)))"

definition Create :: "(nat \<Rightarrow> string) \<Rightarrow> (nat \<Rightarrow> string) \<Rightarrow> gotime \<Rightarrow> Target \<Rightarrow> manager
    \<Rightarrow> (manager \<times> (sessionError + Snapshot)) option" where
  "Create newID defaultID started target m =
     (case createReserve m of
        Inl e \<Rightarrow> Some (m, Inl e)
      | Inr m' \<Rightarrow> createRegister newID defaultID started target m')"

definition Get :: "string \<Rightarrow> manager \<Rightarrow> sessionError + Snapshot" where
  "Get sid m = (case lookup m sid of Inl e \<Rightarrow> Inl e | Inr s \<Rightarrow> Inr (snapshotLocked s))"

definition Cancel :: "string \<Rightarrow> manager \<Rightarrow> manager \<times> (sessionError + Snapshot)" where
  "Cancel sid m =
     (case lookup m sid of
        Inl e \<Rightarrow> (m, Inl e)
      | Inr s \<Rightarrow> (putSession sid (cancelSession s) m, Inr (snapshotLocked (cancelSession s))))"

definition Events :: "string \<Rightarrow> 64 word \<Rightarrow> manager \<Rightarrow> sessionError + Event list" where
  "Events sid after m = (case lookup m sid of Inl e \<Rightarrow> Inl e | Inr s \<Rightarrow> Inr (eventsAfter after s))"

definition Subscribe :: "string \<Rightarrow> 64 word \<Rightarrow> manager \<Rightarrow> manager \<times> (sessionError + nat)" where
  "Subscribe sid after m =
     (case lookup m sid of
        Inl e \<Rightarrow> (m, Inl e)
      | Inr s \<Rightarrow> let (s', i) = subscribe after s in (putSession sid s' m, Inr i))"

text \<open>
  \<open>Wait\<close> returns the snapshot once \<open>done\<close> is closed, or the context's error; None is still
  waiting. When both are ready Go picks either, so the reader's choice is an argument.
\<close>

definition Wait :: "bool \<Rightarrow> 'e option \<Rightarrow> string \<Rightarrow> manager
    \<Rightarrow> (sessionError + 'e + Snapshot) option" where
  "Wait preferDone ctxErr sid m =
     (case lookup m sid of
        Inl e \<Rightarrow> Some (Inl e)
      | Inr s \<Rightarrow>
          (case ctxErr of
             None \<Rightarrow> if ms_done s then Some (Inr (Inr (snapshotLocked s))) else None
           | Some e \<Rightarrow> if ms_done s \<and> preferDone then Some (Inr (Inr (snapshotLocked s)))
               else Some (Inr (Inl e))))"

definition onSession :: "(managedSession \<Rightarrow> managedSession) \<Rightarrow> string \<Rightarrow> manager \<Rightarrow> manager" where
  "onSession f sid m =
     (case lookup m sid of Inl e \<Rightarrow> m | Inr s \<Rightarrow> putSession sid (f s) m)"

text \<open>The first critical section of \<open>Close\<close>, one turn of its loop, and the whole of it.\<close>

definition closeMark :: "manager \<Rightarrow> manager" where
  "closeMark m =
     (if mg_closed m then m
      else m\<lparr>mg_closed := True, mg_closing := map fst (mg_sessions m)\<rparr>)"

definition closeNext :: "manager \<Rightarrow> manager" where
  "closeNext m =
     (case mg_closing m of
        [] \<Rightarrow> m
      | sid # rest \<Rightarrow> (onSession cancelSession sid m)\<lparr>mg_closing := rest\<rparr>)"

definition Close :: "manager \<Rightarrow> manager" where
  "Close m =
     (if mg_closed m then m
      else let m' = closeMark m in (closeNext ^^ length (mg_closing m')) m')"

definition executeRelease :: "string \<Rightarrow> manager \<Rightarrow> manager" where
  "executeRelease sid m =
     (onSession (\<lambda>s. s\<lparr>ms_ctxCancelled := True\<rparr>) sid m)\<lparr>mg_used := mg_used m - 1,
        mg_executing := removeAll sid (mg_executing m)\<rparr>"

end
