(* ===== verification/SessionRuns.thy ===== *)
theory SessionRuns
  imports Session
begin

text \<open>
  How sessions evolve. \<open>sstep\<close> is one critical section on one session, \<open>sreach\<close> the sessions that
  any interleaving of them reaches from creation; \<open>session_invariant\<close> is the proof rule for what
  they keep. Its interpretations give the lifecycle, the event log and the subscriber contract.
\<close>

section \<open>Steps of one session\<close>

text \<open>
  Emissions are the progress callbacks; nothing in the code ties them to the time before the
  final report, so a leaked callback may emit later. \<open>execute\<close> finishes once.
\<close>

inductive sstep :: "managedSession \<Rightarrow> managedSession \<Rightarrow> bool" where
  Emit: "sstep s (emit now event s)"
| Cancel: "sstep s (cancelSession s)"
| Subscribe: "sstep s (fst (subscribe after s))"
| Unsubscribe: "sstep s (unsubscribe i s)"
| Receive: "i < length (ms_channels s) \<Longrightarrow> sstep s (receive i s)"
| Finish: "\<not> ms_done s \<Longrightarrow> sstep s (executeFinish now outcome deadlineExceeded s)"
| Release: "ms_done s \<Longrightarrow> sstep s (s\<lparr>ms_ctxCancelled := True\<rparr>)"

inductive_cases sstepE: "sstep s s'"

inductive sreach :: "managedSession \<Rightarrow> bool" where
  Start: "sreach (newSession sid target started)"
| Step: "sreach s \<Longrightarrow> sstep s s' \<Longrightarrow> sreach s'"

locale session_invariant =
  fixes I :: "managedSession \<Rightarrow> bool"
  assumes init: "I (newSession sid target started)"
    and step: "I s \<Longrightarrow> sstep s s' \<Longrightarrow> I s'"
begin

lemma reachable: "sreach s \<Longrightarrow> I s"
  by (induction rule: sreach.induct) (auto intro: init step)

end

section \<open>Delivery to the subscribers\<close>

definition delivered :: "Event \<Rightarrow> channel \<Rightarrow> channel" where
  "delivered event ch =
     (if length (ch_buffer ch) < ch_capacity ch then ch\<lparr>ch_buffer := ch_buffer ch @ [event]\<rparr>
      else ch\<lparr>ch_closed := True\<rparr>)"

definition hasSpace :: "channel \<Rightarrow> bool" where
  "hasSpace ch \<longleftrightarrow> length (ch_buffer ch) < ch_capacity ch"

text \<open>What a delivery or a closing leaves alone: everything but subscribers and channels.\<close>

definition sameRest :: "managedSession \<Rightarrow> managedSession \<Rightarrow> bool" where
  "sameRest s s' \<longleftrightarrow> ms_id s' = ms_id s \<and> ms_target s' = ms_target s \<and> ms_state s' = ms_state s
     \<and> ms_startedAt s' = ms_startedAt s \<and> ms_completedAt s' = ms_completedAt s
     \<and> ms_cancelRequested s' = ms_cancelRequested s \<and> ms_report s' = ms_report s
     \<and> ms_ctxCancelled s' = ms_ctxCancelled s \<and> ms_done s' = ms_done s
     \<and> ms_events s' = ms_events s \<and> ms_nextSequence s' = ms_nextSequence s"

lemma sameRest_refl [simp]: "sameRest s s"
  by (simp add: sameRest_def)

lemma sameRest_trans: "sameRest s t \<Longrightarrow> sameRest t u \<Longrightarrow> sameRest s u"
  by (simp add: sameRest_def)

lemma sameRest_channels [simp]: "sameRest s (s\<lparr>ms_channels := cs\<rparr>)"
  and sameRest_subscribers [simp]: "sameRest s (s\<lparr>ms_subscribers := subs\<rparr>)"
  by (simp_all add: sameRest_def)

lemma sameRest_closeChannel: "sameRest s (closeChannel i s)"
  by (simp add: closeChannel_def sameRest_def)

lemma deliver_effect:
  shows "sameRest s (deliver event i s)"
    and "ms_channels (deliver event i s) = (ms_channels s)[i := delivered event (ms_channels s ! i)]"
    and "ms_subscribers (deliver event i s) =
      (if hasSpace (ms_channels s ! i) then ms_subscribers s else removeAll i (ms_subscribers s))"
proof -
  show "sameRest s (deliver event i s)"
    by (simp add: deliver_def sameRest_closeChannel Let_def)
  show "ms_channels (deliver event i s) = (ms_channels s)[i := delivered event (ms_channels s ! i)]"
    by (simp add: deliver_def closeChannel_def delivered_def Let_def)
  show "ms_subscribers (deliver event i s) =
      (if hasSpace (ms_channels s ! i) then ms_subscribers s else removeAll i (ms_subscribers s))"
    by (simp add: deliver_def closeChannel_def hasSpace_def Let_def)
qed

lemma fold_deliver:
  assumes "distinct is" "\<forall>i\<in>set is. i < length (ms_channels s)"
  shows "sameRest s (fold (deliver event) is s)
    \<and> length (ms_channels (fold (deliver event) is s)) = length (ms_channels s)
    \<and> (\<forall>i<length (ms_channels s). ms_channels (fold (deliver event) is s) ! i =
         (if i \<in> set is then delivered event (ms_channels s ! i) else ms_channels s ! i))
    \<and> ms_subscribers (fold (deliver event) is s) =
         filter (\<lambda>i. i \<in> set is \<longrightarrow> hasSpace (ms_channels s ! i)) (ms_subscribers s)"
  using assms
proof (induction "is" arbitrary: s)
  case Nil
  then show ?case by simp
next
  case (Cons j js)
  let ?s = "deliver event j s"
  have j: "j < length (ms_channels s)" using Cons.prems by simp
  note eff = deliver_effect [where s = s and event = event and i = j]
  have chans: "ms_channels ?s ! i = ms_channels s ! i" if "i \<in> set js" for i
    using that Cons.prems eff(2) by (metis distinct.simps(2) nth_list_update_neq)
  have IH: "sameRest ?s (fold (deliver event) js ?s)
    \<and> length (ms_channels (fold (deliver event) js ?s)) = length (ms_channels ?s)
    \<and> (\<forall>i<length (ms_channels ?s). ms_channels (fold (deliver event) js ?s) ! i =
         (if i \<in> set js then delivered event (ms_channels ?s ! i) else ms_channels ?s ! i))
    \<and> ms_subscribers (fold (deliver event) js ?s) =
         filter (\<lambda>i. i \<in> set js \<longrightarrow> hasSpace (ms_channels ?s ! i)) (ms_subscribers ?s)"
    using Cons.prems eff(2) by (intro Cons.IH) auto
  have subs: "filter (\<lambda>i. i \<in> set js \<longrightarrow> hasSpace (ms_channels ?s ! i)) (ms_subscribers ?s) =
      filter (\<lambda>i. i \<in> set (j # js) \<longrightarrow> hasSpace (ms_channels s ! i)) (ms_subscribers s)"
    using chans Cons.prems eff(3)
    by (auto simp: removeAll_filter_not_eq filter_filter intro!: filter_cong)
  show ?case
    using IH subs sameRest_trans [OF eff(1)] eff(2) Cons.prems
    by (auto simp: nth_list_update)
qed

definition subsOk :: "managedSession \<Rightarrow> bool" where
  "subsOk s \<longleftrightarrow> distinct (ms_subscribers s)
     \<and> (\<forall>i\<in>set (ms_subscribers s). i < length (ms_channels s))"

lemma closeChannel_effect:
  shows "ms_channels (closeChannel i s) = (ms_channels s)[i := (ms_channels s ! i)\<lparr>ch_closed := True\<rparr>]"
    and "ms_subscribers (closeChannel i s) = removeAll i (ms_subscribers s)"
  by (simp_all add: closeChannel_def)

lemma fold_closeChannel:
  assumes "distinct is" "\<forall>i\<in>set is. i < length (ms_channels s)"
  shows "sameRest s (fold closeChannel is s)
    \<and> length (ms_channels (fold closeChannel is s)) = length (ms_channels s)
    \<and> (\<forall>i<length (ms_channels s). ms_channels (fold closeChannel is s) ! i =
         (if i \<in> set is then (ms_channels s ! i)\<lparr>ch_closed := True\<rparr> else ms_channels s ! i))
    \<and> ms_subscribers (fold closeChannel is s) = filter (\<lambda>i. i \<notin> set is) (ms_subscribers s)"
  using assms
proof (induction "is" arbitrary: s)
  case Nil
  then show ?case by simp
next
  case (Cons j js)
  let ?s = "closeChannel j s"
  note eff = closeChannel_effect [of j s]
  have chans: "ms_channels ?s ! i = ms_channels s ! i" if "i \<in> set js" for i
    using that Cons.prems eff(1) by (metis distinct.simps(2) nth_list_update_neq)
  have IH: "sameRest ?s (fold closeChannel js ?s)
    \<and> length (ms_channels (fold closeChannel js ?s)) = length (ms_channels ?s)
    \<and> (\<forall>i<length (ms_channels ?s). ms_channels (fold closeChannel js ?s) ! i =
         (if i \<in> set js then (ms_channels ?s ! i)\<lparr>ch_closed := True\<rparr> else ms_channels ?s ! i))
    \<and> ms_subscribers (fold closeChannel js ?s) = filter (\<lambda>i. i \<notin> set js) (ms_subscribers ?s)"
    using Cons.prems eff(1) by (intro Cons.IH) auto
  have subs: "filter (\<lambda>i. i \<notin> set js) (ms_subscribers ?s) =
      filter (\<lambda>i. i \<notin> set (j # js)) (ms_subscribers s)"
    using eff(2) by (auto simp: removeAll_filter_not_eq filter_filter intro!: filter_cong)
  show ?case
    using IH subs sameRest_trans [OF sameRest_closeChannel] eff(1) Cons.prems
    by (auto simp: nth_list_update)
qed

section \<open>The event log\<close>

definition lastN :: "nat \<Rightarrow> 'a list \<Rightarrow> 'a list" where
  "lastN n xs = drop (length xs - n) xs"

lemma lastN_snoc:
  "lastN n (xs @ [x]) = (if n = 0 then [] else if length (lastN n xs) = n then tl (lastN n xs) @ [x]
     else lastN n xs @ [x])"
  by (auto simp: lastN_def Suc_diff_le tl_drop drop_Suc)

lemma length_lastN [simp]: "length (lastN n xs) = min n (length xs)"
  by (simp add: lastN_def)

lemma filter_threshold:
  "(\<And>i. i < length xs \<Longrightarrow> P (xs ! i) \<longleftrightarrow> a \<le> i) \<Longrightarrow> filter P xs = drop a xs"
proof (induction xs arbitrary: a)
  case Nil
  then show ?case by simp
next
  case (Cons x xs)
  have tail: "P (xs ! i) \<longleftrightarrow> a - 1 \<le> i" if "i < length xs" for i
    using Cons.prems [of "Suc i"] that by auto
  have head: "P x \<longleftrightarrow> a = 0" using Cons.prems [of 0] by simp
  show ?case using Cons.IH [of "a - 1"] tail head by (cases a) auto
qed

definition stampedLog :: "string \<Rightarrow> Event list \<Rightarrow> bool" where
  "stampedLog sid log \<longleftrightarrow> (\<forall>i<length log. evt_Sequence (log ! i) = of_nat (Suc i)
     \<and> evt_SessionID (log ! i) = sid \<and> evt_SchemaVersion (log ! i) = EventSchemaVersion)"

text \<open>
  \<open>log\<close> is everything the session ever emitted; the session keeps its last 4096 events.
\<close>

definition historyOk :: "Event list \<Rightarrow> managedSession \<Rightarrow> bool" where
  "historyOk log s \<longleftrightarrow> stampedLog (ms_id s) log \<and> ms_nextSequence s = of_nat (length log)
     \<and> ms_events s = lastN maxEventHistory log"

text \<open>
  What the reader took plus what is buffered is one gap-free stretch of the log, which for an
  open channel reaches up to the newest event.
\<close>

definition channelOk :: "Event list \<Rightarrow> bool \<Rightarrow> channel \<Rightarrow> bool" where
  "channelOk log isOpen ch \<longleftrightarrow> ch_closed ch = (\<not> isOpen)
     \<and> length (ch_buffer ch) \<le> ch_capacity ch
     \<and> (\<exists>k m. m \<le> length log \<and> ch_taken ch @ ch_buffer ch = drop k (take m log)
          \<and> k \<le> m \<and> (isOpen \<longrightarrow> m = length log))"

definition logInv :: "managedSession \<Rightarrow> bool" where
  "logInv s \<longleftrightarrow> subsOk s \<and> (\<exists>log. historyOk log s \<and> (length log < 2 ^ 64 \<longrightarrow>
     (\<forall>i<length (ms_channels s). channelOk log (i \<in> set (ms_subscribers s)) (ms_channels s ! i))))"

lemma unat_64: "n < 2 ^ 64 \<Longrightarrow> unat (of_nat n :: 64 word) = n"
  by (simp add: unat_of_nat)

lemma eventsAfter_log:
  assumes "historyOk log s" "length log < 2 ^ 64"
  shows "eventsAfter after s = drop (max (unat after) (length log - maxEventHistory)) log"
proof -
  let ?j = "length log - maxEventHistory"
  have seq: "after < evt_Sequence (log ! i) \<longleftrightarrow> unat after \<le> i" if "i < length log" for i
  proof -
    have "evt_Sequence (log ! i) = of_nat (Suc i)"
      using assms(1) that by (simp add: historyOk_def stampedLog_def)
    moreover have "unat (of_nat (Suc i) :: 64 word) = Suc i"
      by (rule unat_64) (use that assms(2) in linarith)
    ultimately show ?thesis by (simp add: word_less_nat_alt less_Suc_eq_le)
  qed
  have "eventsAfter after s = filter (\<lambda>e. after < evt_Sequence e) (drop ?j log)"
    using assms(1) by (simp add: eventsAfter_def historyOk_def lastN_def)
  also have "\<dots> = drop (unat after - ?j) (drop ?j log)"
    by (rule filter_threshold) (auto simp: seq)
  also have "\<dots> = drop (max (unat after) ?j) log"
    by (simp add: max_def)
  finally show ?thesis .
qed

section \<open>Emission\<close>

definition stampEvent :: "gotime \<Rightarrow> Event \<Rightarrow> managedSession \<Rightarrow> Event" where
  "stampEvent now event s = event\<lparr>evt_SchemaVersion := EventSchemaVersion,
     evt_Sequence := ms_nextSequence s + 1, evt_SessionID := ms_id s,
     evt_Timestamp := eventTimestamp (evt_Timestamp event) now\<rparr>"

definition record_event :: "Event \<Rightarrow> managedSession \<Rightarrow> managedSession" where
  "record_event event s = s\<lparr>ms_nextSequence := ms_nextSequence s + 1,
     ms_events := (if length (ms_events s) = maxEventHistory then tl (ms_events s) @ [event]
       else ms_events s @ [event])\<rparr>"

lemma emitLocked_alt:
  "emitLocked now event s = fold (deliver (stampEvent now event s)) (ms_subscribers s)
     (record_event (stampEvent now event s) s)"
  by (simp add: emitLocked_def stampEvent_def record_event_def Let_def)

lemma record_event_simps [simp]:
  "ms_subscribers (record_event e s) = ms_subscribers s"
  "ms_channels (record_event e s) = ms_channels s"
  "ms_id (record_event e s) = ms_id s"
  "ms_state (record_event e s) = ms_state s"
  "ms_report (record_event e s) = ms_report s"
  "ms_completedAt (record_event e s) = ms_completedAt s"
  "ms_cancelRequested (record_event e s) = ms_cancelRequested s"
  "ms_ctxCancelled (record_event e s) = ms_ctxCancelled s"
  "ms_done (record_event e s) = ms_done s"
  "ms_target (record_event e s) = ms_target s"
  "ms_startedAt (record_event e s) = ms_startedAt s"
  by (simp_all add: record_event_def)

lemma stampedLog_snoc:
  "stampedLog sid (log @ [e]) \<longleftrightarrow> stampedLog sid log \<and> evt_Sequence e = of_nat (Suc (length log))
     \<and> evt_SessionID e = sid \<and> evt_SchemaVersion e = EventSchemaVersion"
  unfolding stampedLog_def by (auto simp: nth_append less_Suc_eq)

lemma historyOk_record:
  assumes "historyOk log s"
  shows "historyOk (log @ [stampEvent now event s]) (record_event (stampEvent now event s) s)"
proof -
  have "stampedLog (ms_id s) (log @ [stampEvent now event s])"
    using assms by (simp add: historyOk_def stampedLog_snoc stampEvent_def add.commute)
  then show ?thesis
    using assms lastN_snoc [of maxEventHistory log "stampEvent now event s"]
    by (simp add: historyOk_def record_event_def maxEventHistory_def add.commute)
qed

lemma historyOk_sameRest: "historyOk log s \<Longrightarrow> sameRest s s' \<Longrightarrow> historyOk log s'"
  by (simp add: historyOk_def sameRest_def)

lemma channelOkI:
  assumes "ch_closed ch = (\<not> isOpen)" "length (ch_buffer ch) \<le> ch_capacity ch" "m \<le> length log"
    "ch_taken ch @ ch_buffer ch = drop k (take m log)" "k \<le> m" "isOpen \<longrightarrow> m = length log"
  shows "channelOk log isOpen ch"
  unfolding channelOk_def using assms by blast

lemma channelOkE:
  assumes "channelOk log isOpen ch"
  obtains k m where "ch_closed ch = (\<not> isOpen)" "length (ch_buffer ch) \<le> ch_capacity ch"
    "m \<le> length log" "ch_taken ch @ ch_buffer ch = drop k (take m log)" "k \<le> m"
    "isOpen \<longrightarrow> m = length log"
  using assms unfolding channelOk_def by blast

lemma delivered_simps:
  "hasSpace ch \<Longrightarrow> delivered e ch = ch\<lparr>ch_buffer := ch_buffer ch @ [e]\<rparr>"
  "\<not> hasSpace ch \<Longrightarrow> delivered e ch = ch\<lparr>ch_closed := True\<rparr>"
  by (simp_all add: delivered_def hasSpace_def)

lemma channelOk_delivered:
  assumes "channelOk log True ch"
  shows "channelOk (log @ [e]) (hasSpace ch) (delivered e ch)"
proof (rule channelOkE [OF assms])
  fix k m
  assume ch: "ch_closed ch = (\<not> True)" "length (ch_buffer ch) \<le> ch_capacity ch"
    "ch_taken ch @ ch_buffer ch = drop k (take m log)" "k \<le> m" "True \<longrightarrow> m = length log"
  show ?thesis
  proof (cases "hasSpace ch")
    case True
    have "(ch_taken ch @ ch_buffer ch) @ [e] = drop k (log @ [e])"
      using ch(3-5) by simp
    then show ?thesis unfolding delivered_simps(1) [OF True]
      by (intro channelOkI [where k = k and m = "Suc (length log)"])
        (use ch True in \<open>simp_all add: hasSpace_def\<close>)
  next
    case False
    show ?thesis unfolding delivered_simps(2) [OF False]
      by (intro channelOkI [where k = k and m = "length log"]) (use ch False in simp_all)
  qed
qed

lemma channelOk_closed_snoc: "channelOk log False ch \<Longrightarrow> channelOk (log @ [e]) False ch"
proof -
  assume "channelOk log False ch"
  then obtain k m where *: "m \<le> length log" "ch_taken ch @ ch_buffer ch = drop k (take m log)" "k \<le> m"
    "ch_closed ch" "length (ch_buffer ch) \<le> ch_capacity ch"
    by (auto simp: channelOk_def)
  then show ?thesis
    unfolding channelOk_def by (intro conjI exI [of _ k] exI [of _ m]) simp_all
qed

lemma channelOk_close:
  "channelOk log isOpen ch \<Longrightarrow> channelOk log False (ch\<lparr>ch_closed := True\<rparr>)"
  unfolding channelOk_def by auto

text \<open>One emission, seen from the outside.\<close>

lemma emitLocked_effect:
  fixes now event s
  assumes "subsOk s"
  defines "e \<equiv> stampEvent now event s"
  shows "sameRest (record_event e s) (emitLocked now event s)"
    and "length (ms_channels (emitLocked now event s)) = length (ms_channels s)"
    and "i < length (ms_channels s) \<Longrightarrow> ms_channels (emitLocked now event s) ! i =
       (if i \<in> set (ms_subscribers s) then delivered e (ms_channels s ! i) else ms_channels s ! i)"
    and "ms_subscribers (emitLocked now event s) =
       filter (\<lambda>i. hasSpace (ms_channels s ! i)) (ms_subscribers s)"
proof -
  have "filter (\<lambda>i. i \<in> set (ms_subscribers s) \<longrightarrow> hasSpace (ms_channels s ! i)) (ms_subscribers s) =
      filter (\<lambda>i. hasSpace (ms_channels s ! i)) (ms_subscribers s)"
    by (rule filter_cong) simp_all
  then show "sameRest (record_event e s) (emitLocked now event s)"
    "length (ms_channels (emitLocked now event s)) = length (ms_channels s)"
    "i < length (ms_channels s) \<Longrightarrow> ms_channels (emitLocked now event s) ! i =
       (if i \<in> set (ms_subscribers s) then delivered e (ms_channels s ! i) else ms_channels s ! i)"
    "ms_subscribers (emitLocked now event s) =
       filter (\<lambda>i. hasSpace (ms_channels s ! i)) (ms_subscribers s)"
    using assms fold_deliver [of "ms_subscribers s" "record_event e s" e]
    by (simp_all add: subsOk_def emitLocked_alt)
qed

lemma subsOk_emitLocked: "subsOk s \<Longrightarrow> subsOk (emitLocked now event s)"
  using emitLocked_effect(2,4) [of s now event] by (auto simp: subsOk_def)

lemma historyOk_emitLocked:
  "historyOk log s \<Longrightarrow> subsOk s \<Longrightarrow> historyOk (log @ [stampEvent now event s]) (emitLocked now event s)"
  using historyOk_record historyOk_sameRest emitLocked_effect(1) by blast

lemma logInvI:
  assumes "subsOk s" "historyOk log s"
    "\<And>i. length log < 2 ^ 64 \<Longrightarrow> i < length (ms_channels s)
      \<Longrightarrow> channelOk log (i \<in> set (ms_subscribers s)) (ms_channels s ! i)"
  shows "logInv s"
  unfolding logInv_def using assms by blast

lemma logInvE:
  assumes "logInv s"
  obtains log where "subsOk s" "historyOk log s"
    "\<And>i. length log < 2 ^ 64 \<Longrightarrow> i < length (ms_channels s)
      \<Longrightarrow> channelOk log (i \<in> set (ms_subscribers s)) (ms_channels s ! i)"
  using assms unfolding logInv_def by blast

lemma logInv_emitLocked:
  assumes "logInv s"
  shows "logInv (emitLocked now event s)"
proof (rule logInvE [OF assms])
  fix log
  let ?s = "emitLocked now event s" and ?log = "log @ [stampEvent now event s]"
  assume subs: "subsOk s" and history: "historyOk log s"
    and chans: "\<And>i. length log < 2 ^ 64 \<Longrightarrow> i < length (ms_channels s)
      \<Longrightarrow> channelOk log (i \<in> set (ms_subscribers s)) (ms_channels s ! i)"
  note eff = emitLocked_effect [OF subs, where now = now and event = event]
  show "logInv ?s"
  proof (rule logInvI [OF subsOk_emitLocked [OF subs] historyOk_emitLocked [OF history subs]])
    fix i assume "length ?log < 2 ^ 64" "i < length (ms_channels ?s)"
    then have i: "length log < 2 ^ 64" "i < length (ms_channels s)" using eff(2) by simp_all
    note ch = chans [OF this]
    show "channelOk ?log (i \<in> set (ms_subscribers ?s)) (ms_channels ?s ! i)"
    proof (cases "i \<in> set (ms_subscribers s)")
      case True
      then show ?thesis using eff(3) [OF i(2)] eff(4) ch channelOk_delivered by simp
    next
      case False
      then show ?thesis using eff(3) [OF i(2)] eff(4) ch channelOk_closed_snoc by simp
    qed
  qed
qed

lemma logInv_fold_emitLocked: "logInv s \<Longrightarrow> logInv (fold (\<lambda>x. emitLocked now (f x)) xs s)"
  by (induction xs arbitrary: s) (simp_all add: logInv_emitLocked)

section \<open>The other operations on the log\<close>

text \<open>Changing only what the log does not mention.\<close>

definition sameLog :: "managedSession \<Rightarrow> managedSession \<Rightarrow> bool" where
  "sameLog s s' \<longleftrightarrow> ms_id s' = ms_id s \<and> ms_events s' = ms_events s
     \<and> ms_nextSequence s' = ms_nextSequence s \<and> ms_subscribers s' = ms_subscribers s
     \<and> ms_channels s' = ms_channels s"

lemma logInv_sameLog: "logInv s \<Longrightarrow> sameLog s s' \<Longrightarrow> logInv s'"
  by (simp add: logInv_def sameLog_def historyOk_def subsOk_def)

lemma sameLog_cancelSession: "sameLog s (cancelSession s)"
  by (simp add: sameLog_def cancelSession_def)

lemma logInv_closeAll:
  assumes "logInv s"
  shows "logInv (fold closeChannel (ms_subscribers s) s)"
proof (rule logInvE [OF assms])
  fix log
  let ?s = "fold closeChannel (ms_subscribers s) s"
  assume subs: "subsOk s" and history: "historyOk log s"
    and chans: "\<And>i. length log < 2 ^ 64 \<Longrightarrow> i < length (ms_channels s)
      \<Longrightarrow> channelOk log (i \<in> set (ms_subscribers s)) (ms_channels s ! i)"
  have eff: "sameRest s ?s" "length (ms_channels ?s) = length (ms_channels s)"
    "ms_subscribers ?s = []"
    "\<And>i. i < length (ms_channels s) \<Longrightarrow> ms_channels ?s ! i =
       (if i \<in> set (ms_subscribers s) then (ms_channels s ! i)\<lparr>ch_closed := True\<rparr>
        else ms_channels s ! i)"
    using fold_closeChannel [of "ms_subscribers s" s] subs by (simp_all add: subsOk_def)
  show "logInv ?s"
  proof (rule logInvI [OF _ historyOk_sameRest [OF history eff(1)]])
    show "subsOk ?s" using eff(3) by (simp add: subsOk_def)
    fix i assume "length log < 2 ^ 64" "i < length (ms_channels ?s)"
    then have i: "i < length (ms_channels s)" and ch: "channelOk log (i \<in> set (ms_subscribers s)) (ms_channels s ! i)"
      using eff(2) chans by simp_all
    show "channelOk log (i \<in> set (ms_subscribers ?s)) (ms_channels ?s ! i)"
      using ch channelOk_close eff(3) eff(4) [OF i]
      by (cases "i \<in> set (ms_subscribers s)") simp_all
  qed
qed

lemma logInv_unsubscribe:
  assumes "logInv s"
  shows "logInv (unsubscribe i s)"
proof (cases "i \<in> set (ms_subscribers s)")
  case True
  show ?thesis
  proof (rule logInvE [OF assms])
    fix log
    let ?s = "closeChannel i s"
    assume subs: "subsOk s" and history: "historyOk log s"
      and chans: "\<And>j. length log < 2 ^ 64 \<Longrightarrow> j < length (ms_channels s)
        \<Longrightarrow> channelOk log (j \<in> set (ms_subscribers s)) (ms_channels s ! j)"
    have "logInv ?s"
    proof (rule logInvI [OF _ historyOk_sameRest [OF history sameRest_closeChannel]])
      show "subsOk ?s" using subs by (auto simp: subsOk_def closeChannel_effect distinct_removeAll)
      fix j assume "length log < 2 ^ 64" "j < length (ms_channels ?s)"
      then have j: "j < length (ms_channels s)"
        and ch: "channelOk log (j \<in> set (ms_subscribers s)) (ms_channels s ! j)"
        using chans by (simp_all add: closeChannel_effect)
      then show "channelOk log (j \<in> set (ms_subscribers ?s)) (ms_channels ?s ! j)"
        using channelOk_close [OF ch]
        by (cases "j = i") (simp_all add: closeChannel_effect)
    qed
    then show ?thesis using True by (simp add: unsubscribe_def)
  qed
qed (use assms in \<open>simp add: unsubscribe_def\<close>)

lemma eventsAfter_length: "length (eventsAfter after s) \<le> length (ms_events s)"
  by (simp add: eventsAfter_def)

lemma subscribe_channels:
  "\<exists>ch. ms_channels (fst (subscribe after s)) = ms_channels s @ [ch]
     \<and> ch_buffer ch = eventsAfter after s \<and> ch_taken ch = []
     \<and> ch_closed ch = (\<not> \<not> terminal (ms_state s)) \<and> length (ms_events s) \<le> ch_capacity ch"
  by (cases "terminal (ms_state s)") (simp_all add: subscribe_def Let_def)

lemma logInv_subscribe:
  assumes "logInv s"
  shows "logInv (fst (subscribe after s))"
proof (rule logInvE [OF assms])
  fix log
  let ?s = "fst (subscribe after s)" and ?n = "length (ms_channels s)"
  let ?open = "\<not> terminal (ms_state s)"
  assume subs: "subsOk s" and history: "historyOk log s"
    and chans: "\<And>i. length log < 2 ^ 64 \<Longrightarrow> i < length (ms_channels s)
      \<Longrightarrow> channelOk log (i \<in> set (ms_subscribers s)) (ms_channels s ! i)"
  obtain ch where ch: "ms_channels ?s = ms_channels s @ [ch]" "ch_buffer ch = eventsAfter after s"
    "ch_taken ch = []" "ch_closed ch = (\<not> ?open)" "length (ms_events s) \<le> ch_capacity ch"
    using subscribe_channels [of after s] by blast
  have new: "ms_subscribers ?s = (if ?open then ms_subscribers s @ [?n] else ms_subscribers s)"
    and rest: "ms_id ?s = ms_id s" "ms_nextSequence ?s = ms_nextSequence s" "ms_events ?s = ms_events s"
    by (simp_all add: subscribe_def Let_def)
  show "logInv ?s"
  proof (rule logInvI)
    show "subsOk ?s" using subs new ch(1) by (auto simp: subsOk_def less_Suc_eq)
    show "historyOk log ?s" using history rest by (simp add: historyOk_def)
    fix i assume small: "length log < 2 ^ 64" and "i < length (ms_channels ?s)"
    then consider "i < ?n" | "i = ?n" using ch(1) by fastforce
    then show "channelOk log (i \<in> set (ms_subscribers ?s)) (ms_channels ?s ! i)"
    proof cases
      case 1
      then show ?thesis using chans [OF small] new ch(1) by (simp add: nth_append)
    next
      case 2
      let ?k = "min (length log) (max (unat after) (length log - maxEventHistory))"
      have "ch_taken ch @ ch_buffer ch = drop ?k (take (length log) log)"
        using eventsAfter_log [OF history small] ch(2,3) by (simp add: min_def)
      moreover have "length (ch_buffer ch) \<le> ch_capacity ch"
        using ch(2,5) eventsAfter_length [of after s] by simp
      moreover have "?n \<notin> set (ms_subscribers s)" using subs by (auto simp: subsOk_def)
      ultimately have "channelOk log ?open ch"
        using ch(4) by (intro channelOkI [where k = ?k and m = "length log"]) simp_all
      then show ?thesis using 2 new ch(1) \<open>?n \<notin> set (ms_subscribers s)\<close>
        by (cases "terminal (ms_state s)") simp_all
    qed
  qed
qed

lemma channelOk_receive:
  "channelOk log isOpen ch \<Longrightarrow> ch_buffer ch = e # rest \<Longrightarrow>
    channelOk log isOpen (ch\<lparr>ch_buffer := rest, ch_taken := ch_taken ch @ [e]\<rparr>)"
proof (erule channelOkE)
  fix k m
  assume "ch_buffer ch = e # rest" "ch_closed ch = (\<not> isOpen)"
    "length (ch_buffer ch) \<le> ch_capacity ch" "m \<le> length log"
    "ch_taken ch @ ch_buffer ch = drop k (take m log)" "k \<le> m" "isOpen \<longrightarrow> m = length log"
  then show ?thesis by (intro channelOkI [where k = k and m = m]) simp_all
qed

lemma logInv_receive:
  assumes "logInv s"
  shows "logInv (receive i s)"
proof (cases "ch_buffer (ms_channels s ! i)")
  case Nil
  with assms show ?thesis by (simp add: receive_def)
next
  case (Cons e rest)
  show ?thesis
  proof (rule logInvE [OF assms])
    fix log
    assume subs: "subsOk s" and history: "historyOk log s"
      and chans: "\<And>j. length log < 2 ^ 64 \<Longrightarrow> j < length (ms_channels s)
        \<Longrightarrow> channelOk log (j \<in> set (ms_subscribers s)) (ms_channels s ! j)"
    show ?thesis
    proof (rule logInvI)
      show "subsOk (receive i s)" using subs Cons by (simp add: subsOk_def receive_def)
      show "historyOk log (receive i s)" using history Cons by (simp add: historyOk_def receive_def)
      fix j assume "length log < 2 ^ 64" "j < length (ms_channels (receive i s))"
      then have j: "j < length (ms_channels s)"
        and ch: "channelOk log (j \<in> set (ms_subscribers s)) (ms_channels s ! j)"
        using chans Cons by (simp_all add: receive_def)
      then show "channelOk log (j \<in> set (ms_subscribers (receive i s))) (ms_channels (receive i s) ! j)"
        using Cons channelOk_receive [OF _ Cons]
        by (cases "i = j") (simp_all add: receive_def)
    qed
  qed
qed

section \<open>Finishing\<close>

lemma sameRest_fold_deliver: "sameRest s (fold (deliver e) subs s)"
  by (induction subs arbitrary: s) (auto intro: sameRest_trans deliver_effect(1))

lemma sameRest_fold_close: "sameRest s (fold closeChannel subs s)"
  by (induction subs arbitrary: s) (auto intro: sameRest_trans sameRest_closeChannel)

lemma emitLocked_fields [simp]:
  "ms_id (emitLocked now event s) = ms_id s"
  "ms_target (emitLocked now event s) = ms_target s"
  "ms_state (emitLocked now event s) = ms_state s"
  "ms_startedAt (emitLocked now event s) = ms_startedAt s"
  "ms_completedAt (emitLocked now event s) = ms_completedAt s"
  "ms_cancelRequested (emitLocked now event s) = ms_cancelRequested s"
  "ms_report (emitLocked now event s) = ms_report s"
  "ms_ctxCancelled (emitLocked now event s) = ms_ctxCancelled s"
  "ms_done (emitLocked now event s) = ms_done s"
  using sameRest_fold_deliver [of "record_event (stampEvent now event s) s"
      "stampEvent now event s" "ms_subscribers s"]
  by (simp_all add: emitLocked_alt sameRest_def)

text \<open>What the final critical section records: the report, the state and the events.\<close>

definition finishReport :: "runOutcome \<Rightarrow> bool \<Rightarrow> gotime \<Rightarrow> managedSession \<Rightarrow> DiagnosticReport" where
  "finishReport outcome deadlineExceeded now s =
     finalReport (fst (runSafely outcome (ms_target s) now now)) deadlineExceeded"

definition finishState :: "runOutcome \<Rightarrow> bool \<Rightarrow> managedSession \<Rightarrow> State" where
  "finishState outcome deadlineExceeded s =
     (if ms_cancelRequested s then StateCancelled
      else if outcome = Panicked \<or> deadlineExceeded then StateFailed else StateCompleted)"

definition finishEvents :: "DiagnosticReport \<Rightarrow> bool \<Rightarrow> Event list" where
  "finishEvents report cancelled =
     map (\<lambda>finding. zero_Event\<lparr>evt_Type := EventFindingUpdated, evt_Finding := Some finding\<rparr>)
       (dr_Findings report)
     @ [zero_Event\<lparr>evt_Type := (if cancelled then EventDiagnosisCancelled
         else EventDiagnosisCompleted), evt_Report := Some report\<rparr>]"

definition finishMark :: "gotime \<Rightarrow> runOutcome \<Rightarrow> bool \<Rightarrow> managedSession \<Rightarrow> managedSession" where
  "finishMark now outcome deadlineExceeded s = s\<lparr>ms_completedAt := Some now,
     ms_report := Some (finishReport outcome deadlineExceeded now s),
     ms_state := finishState outcome deadlineExceeded s\<rparr>"

definition finishEmitted :: "gotime \<Rightarrow> runOutcome \<Rightarrow> bool \<Rightarrow> managedSession \<Rightarrow> managedSession" where
  "finishEmitted now outcome deadlineExceeded s =
     fold (emitLocked now) (finishEvents (finishReport outcome deadlineExceeded now s)
         (finishState outcome deadlineExceeded s = StateCancelled))
       (finishMark now outcome deadlineExceeded s)"

lemma fold_emitLocked_fields [simp]:
  "ms_id (fold (emitLocked now) es s) = ms_id s"
  "ms_target (fold (emitLocked now) es s) = ms_target s"
  "ms_state (fold (emitLocked now) es s) = ms_state s"
  "ms_startedAt (fold (emitLocked now) es s) = ms_startedAt s"
  "ms_completedAt (fold (emitLocked now) es s) = ms_completedAt s"
  "ms_cancelRequested (fold (emitLocked now) es s) = ms_cancelRequested s"
  "ms_report (fold (emitLocked now) es s) = ms_report s"
  "ms_ctxCancelled (fold (emitLocked now) es s) = ms_ctxCancelled s"
  "ms_done (fold (emitLocked now) es s) = ms_done s"
  by (induction es arbitrary: s) simp_all

lemma panicked_iff: "snd (runSafely outcome target a b) \<longleftrightarrow> outcome = Panicked"
  by (cases outcome) (simp_all add: runSafely_def)

lemma executeFinish_alt:
  "executeFinish now outcome deadlineExceeded s =
     (let s3 = finishEmitted now outcome deadlineExceeded s in
      (fold closeChannel (ms_subscribers s3) s3)\<lparr>ms_done := True\<rparr>)"
proof -
  have mark: "finishMark now outcome deadlineExceeded s = s\<lparr>ms_completedAt := Some now,
      ms_report := Some (finalReport (fst (runSafely outcome (ms_target s) now now)) deadlineExceeded),
      ms_state := (if ms_cancelRequested s then StateCancelled
        else if snd (runSafely outcome (ms_target s) now now) \<or> deadlineExceeded then StateFailed
        else StateCompleted)\<rparr>"
    by (simp add: finishMark_def finishReport_def finishState_def panicked_iff)
  have state: "ms_state (fold (\<lambda>finding. emitLocked now
        (zero_Event\<lparr>evt_Type := EventFindingUpdated, evt_Finding := Some finding\<rparr>)) xs t) = ms_state t" for xs t
    by (induction xs arbitrary: t) simp_all
  have marked: "ms_state (finishMark now outcome deadlineExceeded s) =
      finishState outcome deadlineExceeded s"
    by (simp add: finishMark_def)
  show ?thesis
    unfolding executeFinish_def finishEmitted_def finishEvents_def Let_def case_prod_unfold
      mark [symmetric] state marked
    by (simp add: fold_map o_def finishReport_def)
qed

lemma subsOk_finishEmitted:
  "subsOk s \<Longrightarrow> subsOk (fold (emitLocked now) es s)"
  by (induction es arbitrary: s) (simp_all add: subsOk_emitLocked)

lemma executeFinish_fields:
  "ms_done (executeFinish now outcome dl s)"
  "ms_id (executeFinish now outcome dl s) = ms_id s"
  "ms_state (executeFinish now outcome dl s) = finishState outcome dl s"
  "ms_report (executeFinish now outcome dl s) = Some (finishReport outcome dl now s)"
  "ms_completedAt (executeFinish now outcome dl s) = Some now"
  "ms_cancelRequested (executeFinish now outcome dl s) = ms_cancelRequested s"
  "ms_ctxCancelled (executeFinish now outcome dl s) = ms_ctxCancelled s"
  "ms_target (executeFinish now outcome dl s) = ms_target s"
  using sameRest_fold_close [of "finishEmitted now outcome dl s"
      "ms_subscribers (finishEmitted now outcome dl s)"]
  by (simp_all add: executeFinish_alt Let_def sameRest_def)
    (simp_all add: finishEmitted_def finishMark_def)

lemma logInv_executeFinish:
  assumes "logInv s"
  shows "logInv (executeFinish now outcome dl s)"
proof -
  have "logInv (finishMark now outcome dl s)"
    by (rule logInv_sameLog [OF assms]) (simp add: sameLog_def finishMark_def)
  then have "logInv (finishEmitted now outcome dl s)"
    using logInv_fold_emitLocked [of _ now "\<lambda>e. e"] by (simp add: finishEmitted_def)
  then have "logInv (fold closeChannel (ms_subscribers (finishEmitted now outcome dl s))
      (finishEmitted now outcome dl s))" by (rule logInv_closeAll)
  then show ?thesis
    unfolding executeFinish_alt Let_def by (rule logInv_sameLog) (simp add: sameLog_def)
qed

interpretation log: session_invariant logInv
proof
  fix sid target started
  show "logInv (newSession sid target started)"
    by (rule logInvI [of _ "[]"])
      (simp_all add: newSession_def subsOk_def historyOk_def stampedLog_def lastN_def)
next
  fix s s'
  assume inv: "logInv s" and "sstep s s'"
  from \<open>sstep s s'\<close> show "logInv s'"
  proof cases
    case (Emit now event)
    with inv show ?thesis by (simp add: emit_def logInv_emitLocked)
  next
    case Cancel
    with inv show ?thesis using logInv_sameLog sameLog_cancelSession by blast
  next
    case Release
    with inv show ?thesis using logInv_sameLog [OF inv, of s'] by (simp add: sameLog_def)
  qed (simp_all add: inv logInv_subscribe logInv_unsubscribe logInv_receive logInv_executeFinish)
qed

section \<open>The lifecycle\<close>

definition lifecycleInv :: "managedSession \<Rightarrow> bool" where
  "lifecycleInv s \<longleftrightarrow>
     ms_state s \<in> {StateRunning, StateCancelling, StateCompleted, StateCancelled, StateFailed}
     \<and> (ms_done s \<longleftrightarrow> terminal (ms_state s)) \<and> (ms_done s \<longleftrightarrow> ms_report s \<noteq> None)
     \<and> (ms_done s \<longleftrightarrow> ms_completedAt s \<noteq> None) \<and> (ms_done s \<longrightarrow> ms_subscribers s = [])
     \<and> (ms_state s = StateCancelling \<or> ms_state s = StateCancelled \<longleftrightarrow> ms_cancelRequested s)
     \<and> (ms_cancelRequested s \<longrightarrow> ms_ctxCancelled s)"

lemma states_distinct [simp]:
  "StateRunning \<noteq> StateCancelling" "StateCancelling \<noteq> StateRunning"
  "StateRunning \<noteq> StateCompleted" "StateRunning \<noteq> StateCancelled" "StateRunning \<noteq> StateFailed"
  "StateCancelling \<noteq> StateCompleted" "StateCancelling \<noteq> StateCancelled" "StateCancelling \<noteq> StateFailed"
  "StateCompleted \<noteq> StateCancelled" "StateCompleted \<noteq> StateFailed" "StateCancelled \<noteq> StateFailed"
  "StateCancelled \<noteq> StateCancelling" "StateCancelled \<noteq> StateCompleted" "StateFailed \<noteq> StateCompleted"
  "StateCompleted \<noteq> StateCancelling" "StateFailed \<noteq> StateCancelling" "StateFailed \<noteq> StateCancelled"
  by (simp_all add: StateRunning_def StateCancelling_def StateCompleted_def StateCancelled_def
      StateFailed_def)

lemma terminal_simps [simp]:
  "\<not> terminal StateRunning" "\<not> terminal StateCancelling"
  "terminal StateCompleted" "terminal StateCancelled" "terminal StateFailed"
  by (simp_all add: terminal_def)

lemma fold_closeChannel_subscribers:
  "ms_subscribers (fold closeChannel subs s) = filter (\<lambda>i. i \<notin> set subs) (ms_subscribers s)"
proof (induction subs arbitrary: s)
  case Nil
  then show ?case by simp
next
  case (Cons j js)
  then show ?case
    by (auto simp: closeChannel_effect removeAll_filter_not_eq filter_filter intro!: filter_cong)
qed

lemma executeFinish_subscribers: "ms_subscribers (executeFinish now outcome dl s) = []"
  by (simp add: executeFinish_alt Let_def fold_closeChannel_subscribers filter_empty_conv)

text \<open>The fields the lifecycle is about, for the operations that only touch log and channels.\<close>

definition sameLife :: "managedSession \<Rightarrow> managedSession \<Rightarrow> bool" where
  "sameLife s s' \<longleftrightarrow> ms_state s' = ms_state s \<and> ms_done s' = ms_done s
     \<and> ms_report s' = ms_report s \<and> ms_completedAt s' = ms_completedAt s
     \<and> ms_cancelRequested s' = ms_cancelRequested s \<and> ms_ctxCancelled s' = ms_ctxCancelled s"

lemma sameLife_ops:
  "sameLife s (emit now event s)" "sameLife s (fst (subscribe after s))"
  "sameLife s (unsubscribe i s)" "sameLife s (receive i s)"
  by (simp_all add: sameLife_def emit_def subscribe_def unsubscribe_def closeChannel_def
      receive_def Let_def split: list.split)

lemma lifecycleInv_sameLife:
  "lifecycleInv s \<Longrightarrow> sameLife s s' \<Longrightarrow> (ms_done s \<Longrightarrow> ms_subscribers s' = []) \<Longrightarrow> lifecycleInv s'"
  unfolding lifecycleInv_def sameLife_def by auto

lemma done_subscribers:
  assumes "ms_subscribers s = []"
  shows "ms_subscribers (emit now event s) = []" "ms_subscribers (unsubscribe i s) = []"
    "ms_subscribers (receive i s) = []"
    "terminal (ms_state s) \<Longrightarrow> ms_subscribers (fst (subscribe after s)) = []"
  using assms by (simp_all add: emit_def emitLocked_alt unsubscribe_def receive_def subscribe_def
      Let_def split: list.split)

lemma lifecycleInv_cancel: "lifecycleInv s \<Longrightarrow> lifecycleInv (cancelSession s)"
  unfolding lifecycleInv_def cancelSession_def
  by (cases "terminal (ms_state s)") (auto simp: terminal_def)

lemma lifecycleInv_finish:
  assumes "lifecycleInv s"
  shows "lifecycleInv (executeFinish now outcome dl s)"
proof -
  have "ms_cancelRequested s \<longrightarrow> ms_ctxCancelled s" using assms by (simp add: lifecycleInv_def)
  then show ?thesis
    by (simp add: lifecycleInv_def executeFinish_fields executeFinish_subscribers finishState_def)
qed

interpretation life: session_invariant lifecycleInv
proof
  fix sid target started
  show "lifecycleInv (newSession sid target started)"
    by (simp add: lifecycleInv_def newSession_def)
next
  fix s s'
  assume inv: "lifecycleInv s" and "sstep s s'"
  then have empty: "ms_done s \<Longrightarrow> ms_subscribers s = []" and fin: "ms_done s \<longleftrightarrow> terminal (ms_state s)"
    by (simp_all add: lifecycleInv_def)
  from \<open>sstep s s'\<close> show "lifecycleInv s'"
  proof cases
    case (Emit now event)
    then show ?thesis
      using lifecycleInv_sameLife [OF inv] sameLife_ops(1) done_subscribers(1) empty by blast
  next
    case Cancel
    then show ?thesis using lifecycleInv_cancel [OF inv] by simp
  next
    case (Subscribe after)
    then show ?thesis
      using lifecycleInv_sameLife [OF inv] sameLife_ops(2) done_subscribers(4) empty fin by blast
  next
    case (Unsubscribe i)
    then show ?thesis
      using lifecycleInv_sameLife [OF inv] sameLife_ops(3) done_subscribers(2) empty by blast
  next
    case (Receive i)
    then show ?thesis
      using lifecycleInv_sameLife [OF inv] sameLife_ops(4) done_subscribers(3) empty by blast
  next
    case (Finish now outcome dl)
    then show ?thesis using lifecycleInv_finish [OF inv] by simp
  next
    case Release
    then show ?thesis using inv by (simp add: lifecycleInv_def)
  qed
qed

text \<open>A finished session never changes its outcome.\<close>

lemma finished_step:
  assumes "lifecycleInv s" "ms_done s" "sstep s s'"
  shows "ms_done s' \<and> ms_state s' = ms_state s \<and> ms_report s' = ms_report s
    \<and> ms_completedAt s' = ms_completedAt s"
  using assms(3)
proof cases
  case Cancel
  then show ?thesis using assms by (simp add: cancelSession_def lifecycleInv_def)
next
  case (Finish now outcome dl)
  then show ?thesis using assms by simp
next
  case (Emit now event)
  then show ?thesis using sameLife_ops(1) assms(2) by (simp add: sameLife_def)
next
  case (Subscribe after)
  then show ?thesis using sameLife_ops(2) assms(2) by (simp add: sameLife_def)
next
  case (Unsubscribe i)
  then show ?thesis using sameLife_ops(3) assms(2) by (simp add: sameLife_def)
next
  case (Receive i)
  then show ?thesis using sameLife_ops(4) assms(2) by (simp add: sameLife_def)
next
  case Release
  then show ?thesis using assms(2) by simp
qed

section \<open>Properties of one session\<close>

text \<open>C6: the event history is the tail of one gap-free log. Whatever the interleaving, there is
  a log of all events the session emitted, numbered 1, 2, 3 and so on, stamped with the session's
  identifier and the schema version; the session keeps its last 4096 events, and as long as the
  64-bit counter has not wrapped \<open>Events(after)\<close> returns exactly the retained events with a
  larger number, in order.\<close>

theorem session_history:
  assumes "sreach s"
  shows "\<exists>log. stampedLog (ms_id s) log \<and> ms_events s = lastN maxEventHistory log
    \<and> ms_nextSequence s = of_nat (length log)
    \<and> (length log < 2 ^ 64 \<longrightarrow> (\<forall>after. eventsAfter after s =
         drop (max (unat after) (length log - maxEventHistory)) log))"
proof (rule logInvE [OF log.reachable [OF assms]])
  fix log assume "historyOk log s"
  then show ?thesis
    using eventsAfter_log by (intro exI [of _ log]) (simp add: historyOk_def)
qed



text \<open>a terminal outcome is final. Once a reachable session is done, no further operation in
  any order (late emissions, cancellation, subscriptions) changes its state, its report or its
  completion time.\<close>

theorem session_outcome_final:
  assumes "sreach s" "ms_done s" "sstep\<^sup>*\<^sup>* s s'"
  shows "ms_done s' \<and> ms_state s' = ms_state s \<and> ms_report s' = ms_report s
    \<and> ms_completedAt s' = ms_completedAt s"
proof -
  from assms(3) have "sreach s' \<and> ms_done s' \<and> ms_state s' = ms_state s
      \<and> ms_report s' = ms_report s \<and> ms_completedAt s' = ms_completedAt s"
  proof (induction rule: rtranclp_induct)
    case base
    show ?case using assms by simp
  next
    case (step t u)
    then show ?case using finished_step [OF life.reachable, of t u] sreach.Step [of t u] by simp
  qed
  then show ?thesis by simp
qed

lemma historyOk_fold_emitLocked:
  assumes "historyOk log s" "subsOk s"
  shows "\<exists>es. historyOk (log @ es) (fold (emitLocked now) evs s) \<and> map evt_Type es = map evt_Type evs
    \<and> map evt_Finding es = map evt_Finding evs \<and> map evt_Report es = map evt_Report evs"
  using assms
proof (induction evs arbitrary: log s)
  case Nil
  then show ?case by (intro exI [of _ "[]"]) simp
next
  case (Cons e evs)
  from Cons.IH [OF historyOk_emitLocked [OF Cons.prems] subsOk_emitLocked [OF Cons.prems(2)], of now e]
  obtain es where "historyOk ((log @ [stampEvent now e s]) @ es) (fold (emitLocked now) evs (emitLocked now e s))"
    "map evt_Type es = map evt_Type evs" "map evt_Finding es = map evt_Finding evs"
    "map evt_Report es = map evt_Report evs" by blast
  then show ?case
    by (intro exI [of _ "stampEvent now e s # es"]) (simp add: stampEvent_def)
qed

text \<open>finishing a session. The final section appends to the log one finding event per
  finding of the final report and then exactly one terminal event that carries the report; the
  state is cancelled if cancellation was requested, else failed on a panic or a deadline, else
  completed; and a report that came back after the deadline never claims completeness.\<close>

theorem executeFinish_outcome:
  assumes "historyOk log s" "subsOk s"
  shows "\<exists>es report. historyOk (log @ es) (executeFinish now outcome deadlineExceeded s)
    \<and> ms_report (executeFinish now outcome deadlineExceeded s) = Some report
    \<and> map evt_Finding (butlast es) = map Some (dr_Findings report)
    \<and> map evt_Type (butlast es) = replicate (length (dr_Findings report)) EventFindingUpdated
    \<and> evt_Report (last es) = Some report
    \<and> evt_Type (last es) = (if ms_cancelRequested s then EventDiagnosisCancelled
         else EventDiagnosisCompleted)
    \<and> ms_state (executeFinish now outcome deadlineExceeded s) =
         (if ms_cancelRequested s then StateCancelled
          else if outcome = Panicked \<or> deadlineExceeded then StateFailed else StateCompleted)
    \<and> (deadlineExceeded \<longrightarrow> dr_Status report \<noteq> ReportStatusComplete)"
proof -
  let ?report = "finishReport outcome deadlineExceeded now s"
  let ?s' = "executeFinish now outcome deadlineExceeded s"
  let ?evs = "finishEvents ?report (finishState outcome deadlineExceeded s = StateCancelled)"
  have "historyOk log (finishMark now outcome deadlineExceeded s)"
    "subsOk (finishMark now outcome deadlineExceeded s)"
    using assms by (simp_all add: historyOk_def subsOk_def finishMark_def)
  from historyOk_fold_emitLocked [OF this, of now ?evs] obtain es where
    es: "historyOk (log @ es) (finishEmitted now outcome deadlineExceeded s)"
      "map evt_Type es = map evt_Type ?evs" "map evt_Finding es = map evt_Finding ?evs"
      "map evt_Report es = map evt_Report ?evs"
    by (auto simp: finishEmitted_def)
  have "historyOk (log @ es) ?s'"
    using historyOk_sameRest [OF es(1) sameRest_fold_close]
    by (simp add: executeFinish_alt Let_def historyOk_def)
  moreover have "es \<noteq> []" using es(2) by (auto simp: finishEvents_def)
  then have "map evt_Finding (butlast es) = butlast (map evt_Finding es)"
    "map evt_Type (butlast es) = butlast (map evt_Type es)"
    "evt_Report (last es) = last (map evt_Report es)" "evt_Type (last es) = last (map evt_Type es)"
    by (simp_all add: map_butlast last_map)
  moreover have cancelled: "finishState outcome deadlineExceeded s = StateCancelled
      \<longleftrightarrow> ms_cancelRequested s"
    by (simp add: finishState_def)
  moreover have "dr_Status ?report \<noteq> ReportStatusComplete" if deadlineExceeded
    using that by (simp add: finishReport_def finalReport_def ReportStatusComplete_def
        ReportStatusIncomplete_def)
  ultimately show ?thesis
    unfolding executeFinish_fields
    by (intro exI [of _ es] exI [of _ ?report] conjI)
      (simp_all add: es finishEvents_def o_def map_replicate_const cancelled finishState_def)
qed

section \<open>A sample session\<close>

definition sampleSession :: managedSession where
  "sampleSession = fst (subscribe 0 (executeStart 5 (newSession ''s1'' zero_Target 1)))"

definition finishedSession :: managedSession where
  "finishedSession = executeFinish 9 (Returned zero_DiagnosticReport) True (receive 0 sampleSession)"

lemma sreach_sampleSession: "sreach sampleSession"
  unfolding sampleSession_def executeStart_def
  by (intro sreach.Step [OF _ sstep.Subscribe] sreach.Step [OF _ sstep.Emit] sreach.Start)

lemma sampleSession_fields:
  "ms_id sampleSession = ''s1''" "length (ms_channels sampleSession) = 1"
  "ms_subscribers sampleSession = [0]" "\<not> ms_done sampleSession"
  "ms_nextSequence sampleSession = 1" "ms_cancelRequested sampleSession = False"
  by (simp_all add: sampleSession_def subscribe_def executeStart_def emit_def emitLocked_def
      newSession_def maxEventHistory_def Let_def)

lemma sreach_finishedSession: "sreach finishedSession"
  unfolding finishedSession_def
  by (rule sreach.Step [OF sreach.Step [OF sreach_sampleSession sstep.Receive] sstep.Finish])
    (simp_all add: sampleSession_fields receive_def split: list.split)

lemma finishedSession_done: "ms_done finishedSession"
  by (simp add: finishedSession_def executeFinish_fields)

theorem session_history_witness:
  "\<exists>log. stampedLog ''s1'' log \<and> ms_events sampleSession = lastN maxEventHistory log
    \<and> (1 :: 64 word) = of_nat (length log)"
  using session_history [OF sreach_sampleSession] sampleSession_fields by metis



theorem session_outcome_final_witness:
  "ms_report (cancelSession finishedSession) = ms_report finishedSession"
  using session_outcome_final [OF sreach_finishedSession finishedSession_done,
      of "cancelSession finishedSession"] sstep.Cancel by blast

theorem executeFinish_outcome_witness:
  "ms_state (executeFinish 9 Panicked False sampleSession) = StateFailed"
proof (rule logInvE [OF log.reachable [OF sreach_sampleSession]])
  fix log assume "historyOk log sampleSession" "subsOk sampleSession"
  from executeFinish_outcome [OF this, of 9 Panicked False] show ?thesis
    by (auto simp: sampleSession_fields)
qed

end
