(* ===== verification/SessionManager.thy ===== *)
theory SessionManager
  imports SessionRuns
begin

text \<open>
  The session manager under every interleaving of its callers, of \<open>Close\<close> and of the \<open>execute\<close>
  goroutines: the slot accounting that bounds concurrency, the identity of the stored sessions,
  and what closing guarantees. The store of sessions is used through the contract
  \<open>session_store\<close>.
\<close>

section \<open>The store\<close>

locale session_store =
  fixes look :: "'m \<Rightarrow> string \<Rightarrow> 'e + 's"
    and put :: "string \<Rightarrow> 's \<Rightarrow> 'm \<Rightarrow> 'm"
    and absent :: 'e
  assumes look_put_same: "look (put sid s m) sid = Inr s"
    and look_put_other: "sid \<noteq> other \<Longrightarrow> look (put sid s m) other = look m other"
    and look_error: "look m sid = Inl e \<Longrightarrow> e = absent"
begin

definition update_at :: "('s \<Rightarrow> 's) \<Rightarrow> string \<Rightarrow> 'm \<Rightarrow> 'm" where
  "update_at f sid m = (case look m sid of Inl e \<Rightarrow> m | Inr s \<Rightarrow> put sid (f s) m)"

lemma look_update_at:
  "look (update_at f sid m) other =
     (if other = sid then map_sum id f (look m other) else look m other)"
  by (auto simp: update_at_def look_put_same look_put_other split: sum.split)

lemma update_at_absent: "look m sid = Inl e \<Longrightarrow> update_at f sid m = m"
  by (simp add: update_at_def)

end

interpretation store: session_store lookup putSession ErrNotFound
  by unfold_locales (auto simp: lookup_def putSession_def map_of_update split: option.splits)

lemma onSession_update_at: "onSession f sid m = store.update_at f sid m"
  by (simp add: onSession_def store.update_at_def)

lemmas lookup_onSession = store.look_update_at [folded onSession_update_at]

lemma lookup_Inr: "lookup m sid = Inr s \<longleftrightarrow> map_of (mg_sessions m) sid = Some s"
  by (simp add: lookup_def split: option.split)

section \<open>Unique identifiers\<close>

lemma attemptIDs_fresh: "attemptIDs newID defaultID taken n i d = (Some sid, d') \<Longrightarrow> \<not> taken sid"
  by (induction n arbitrary: i d) (auto simp: Let_def split: if_splits)

lemma attemptIDs_default: "attemptIDs newID defaultID taken n i d = (r, d') \<Longrightarrow> d' \<le> d + n"
proof (induction n arbitrary: i d)
  case 0
  then show ?case by simp
next
  case (Suc n)
  from Suc.prems show ?case
    using Suc.IH [of "Suc i" d] Suc.IH [of "Suc i" "Suc d"]
    by (auto simp: Let_def split: if_splits)
qed

lemma defaultIDLoop_fresh: "defaultIDLoop defaultID taken d = Some sid \<Longrightarrow> \<not> taken sid"
  by (rule defaultIDLoop.raw_induct [where P = "\<lambda>defaultID taken d sid. \<not> taken sid"])
    (auto split: if_splits)

lemma defaultIDLoop_total:
  "\<not> taken (defaultID (d + k)) \<Longrightarrow> \<exists>sid. defaultIDLoop defaultID taken d = Some sid"
proof (induction k arbitrary: d)
  case 0
  then show ?case by (subst defaultIDLoop.simps) simp
next
  case (Suc k)
  show ?case
  proof (cases "taken (defaultID d)")
    case True
    with Suc.IH [of "Suc d"] Suc.prems show ?thesis by (subst defaultIDLoop.simps) simp
  next
    case False
    then show ?thesis by (subst defaultIDLoop.simps) simp
  qed
qed

section \<open>Steps of the manager\<close>

inductive mstep :: "manager \<Rightarrow> manager \<Rightarrow> bool" where
  Reserve: "createReserve m = Inr m' \<Longrightarrow> mstep m m'"
| Register: "0 < mg_creating m \<Longrightarrow> createRegister newID defaultID started target m = Some (m', r)
    \<Longrightarrow> mstep m m'"
| OnSession: "lookup m sid = Inr s \<Longrightarrow> sstep s s' \<Longrightarrow> mstep m (putSession sid s' m)"
| CloseMark: "mstep m (closeMark m)"
| CloseNext: "mstep m (closeNext m)"
| ReleaseSlot: "sid \<in> set (mg_executing m) \<Longrightarrow> lookup m sid = Inr s \<Longrightarrow> ms_done s
    \<Longrightarrow> mstep m (executeRelease sid m)"

inductive_cases mstepE: "mstep m m'"

inductive mreach :: "manager \<Rightarrow> bool" where
  Start: "mreach (NewManager opts)"
| Step: "mreach m \<Longrightarrow> mstep m m' \<Longrightarrow> mreach m'"

text \<open>
  The invariant: every slot in use belongs to a \<open>Create\<close> in progress or to one \<open>execute\<close>
  goroutine, every unfinished session has its goroutine, every stored session is reachable and
  stored under its own identifier, and once closed every session is either still to be cancelled
  by the loop of \<open>Close\<close>, or cancelled, or finished.
\<close>

definition settled :: "managedSession \<Rightarrow> bool" where
  "settled s \<longleftrightarrow> terminal (ms_state s) \<or> ms_cancelRequested s"

definition slotsOk :: "manager \<Rightarrow> bool" where
  "slotsOk m \<longleftrightarrow> mg_used m = mg_creating m + length (mg_executing m) \<and> mg_used m \<le> mg_capacity m
     \<and> distinct (mg_executing m)"

definition storedOk :: "manager \<Rightarrow> bool" where
  "storedOk m \<longleftrightarrow> distinct (map fst (mg_sessions m)) \<and> (\<forall>sid s. lookup m sid = Inr s \<longrightarrow>
     sreach s \<and> ms_id s = sid \<and> (\<not> ms_done s \<longrightarrow> sid \<in> set (mg_executing m))
     \<and> (mg_closed m \<longrightarrow> sid \<in> set (mg_closing m) \<or> settled s))
     \<and> (\<forall>sid\<in>set (mg_executing m). \<exists>s. lookup m sid = Inr s)"

definition managerInv :: "manager \<Rightarrow> bool" where
  "managerInv m \<longleftrightarrow> slotsOk m \<and> storedOk m"

lemma putSession_simps [simp]:
  "mg_capacity (putSession sid s m) = mg_capacity m" "mg_used (putSession sid s m) = mg_used m"
  "mg_closed (putSession sid s m) = mg_closed m" "mg_creating (putSession sid s m) = mg_creating m"
  "mg_executing (putSession sid s m) = mg_executing m"
  "mg_closing (putSession sid s m) = mg_closing m"
  by (simp_all add: putSession_def)

lemma onSession_simps [simp]:
  "mg_capacity (onSession f sid m) = mg_capacity m" "mg_used (onSession f sid m) = mg_used m"
  "mg_closed (onSession f sid m) = mg_closed m" "mg_creating (onSession f sid m) = mg_creating m"
  "mg_executing (onSession f sid m) = mg_executing m"
  "mg_closing (onSession f sid m) = mg_closing m"
  by (simp_all add: onSession_def split: sum.split)

lemma distinct_putSession:
  "distinct (map fst (mg_sessions m)) \<Longrightarrow> distinct (map fst (mg_sessions (putSession sid s m)))"
  by (simp add: putSession_def distinct_update)

lemma distinct_onSession:
  "distinct (map fst (mg_sessions m)) \<Longrightarrow> distinct (map fst (mg_sessions (onSession f sid m)))"
  by (simp add: onSession_def distinct_putSession split: sum.split)

lemma sstep_id: "sstep s s' \<Longrightarrow> ms_id s' = ms_id s"
  by (cases rule: sstep.cases, assumption)
    (simp_all add: emit_def cancelSession_def subscribe_def unsubscribe_def closeChannel_def
      receive_def executeFinish_fields Let_def split: list.split)

lemma sstep_done: "sstep s s' \<Longrightarrow> ms_done s \<Longrightarrow> ms_done s'"
  by (cases rule: sstep.cases, assumption)
    (simp_all add: emit_def cancelSession_def subscribe_def unsubscribe_def closeChannel_def
      receive_def executeFinish_fields Let_def split: list.split)

lemma sstep_cancelRequested: "sstep s s' \<Longrightarrow> ms_cancelRequested s \<Longrightarrow> ms_cancelRequested s'"
  by (cases rule: sstep.cases, assumption)
    (simp_all add: emit_def cancelSession_def subscribe_def unsubscribe_def closeChannel_def
      receive_def executeFinish_fields Let_def split: list.split)

lemma settled_step:
  assumes "sreach s" "settled s" "sstep s s'"
  shows "settled s'"
proof (cases "ms_cancelRequested s")
  case True
  then show ?thesis using sstep_cancelRequested assms(3) by (simp add: settled_def)
next
  case False
  then have "ms_done s" using assms(1,2) life.reachable by (auto simp: settled_def lifecycleInv_def)
  then have "ms_done s'" using sstep_done assms(3) by blast
  then show ?thesis
    using life.reachable [OF sreach.Step [OF assms(1,3)]] by (simp add: settled_def lifecycleInv_def)
qed

lemma settled_cancelSession: "settled (cancelSession s)"
  by (simp add: settled_def cancelSession_def)

lemma uniqueIDLocked_fresh:
  assumes "uniqueIDLocked newID defaultID m = Some sid"
  shows "lookup m sid = Inl ErrNotFound"
proof -
  let ?taken = "\<lambda>sid. map_of (mg_sessions m) sid \<noteq> None"
  obtain r d where r: "attemptIDs newID defaultID ?taken 16 0 0 = (r, d)" by fastforce
  have "\<not> ?taken sid"
  proof (cases r)
    case None
    then show ?thesis using assms r defaultIDLoop_fresh [of defaultID ?taken d sid]
      by (simp add: uniqueIDLocked_def Let_def)
  next
    case (Some x)
    then show ?thesis using assms r attemptIDs_fresh [of newID defaultID ?taken 16 0 0 x d]
      by (simp add: uniqueIDLocked_def Let_def)
  qed
  then show ?thesis by (simp add: lookup_def)
qed

section \<open>Preservation of the invariant\<close>

lemma lookup_sessions: "mg_sessions m' = mg_sessions m \<Longrightarrow> lookup m' = lookup m"
  by (simp add: lookup_def fun_eq_iff)

lemma storedOk_counters:
  assumes "storedOk m" "mg_sessions m' = mg_sessions m" "mg_executing m' = mg_executing m"
    "mg_closed m' = mg_closed m" "mg_closing m' = mg_closing m"
  shows "storedOk m'"
  using assms(1) unfolding storedOk_def lookup_sessions [OF assms(2)] assms(2-5) .

lemma stored:
  assumes "storedOk m" "lookup m sid = Inr s"
  shows "sreach s" "ms_id s = sid" "\<not> ms_done s \<Longrightarrow> sid \<in> set (mg_executing m)"
    "mg_closed m \<Longrightarrow> sid \<in> set (mg_closing m) \<or> settled s"
  using assms by (auto simp: storedOk_def)

lemma storedI:
  assumes "distinct (map fst (mg_sessions m))"
    "\<And>sid s. lookup m sid = Inr s \<Longrightarrow> sreach s \<and> ms_id s = sid
      \<and> (\<not> ms_done s \<longrightarrow> sid \<in> set (mg_executing m))
      \<and> (mg_closed m \<longrightarrow> sid \<in> set (mg_closing m) \<or> settled s)"
    "\<And>sid. sid \<in> set (mg_executing m) \<Longrightarrow> \<exists>s. lookup m sid = Inr s"
  shows "storedOk m"
  using assms by (simp add: storedOk_def)

lemma inv_Reserve:
  assumes "managerInv m" "createReserve m = Inr m'"
  shows "managerInv m'"
proof -
  have less: "mg_used m < mg_capacity m"
    and m': "m' = m\<lparr>mg_used := mg_used m + 1, mg_creating := mg_creating m + 1\<rparr>"
    using assms(2) by (auto simp: createReserve_def split: if_splits)
  have st: "storedOk m" and sl: "slotsOk m" using assms(1) by (simp_all add: managerInv_def)
  have "storedOk m'" by (rule storedOk_counters [OF st]) (simp_all add: m')
  moreover have "slotsOk m'" using sl less by (simp add: slotsOk_def m')
  ultimately show ?thesis by (simp add: managerInv_def)
qed

lemma inv_Register:
  assumes inv: "managerInv m" and creating: "0 < mg_creating m"
    and reg: "createRegister newID defaultID started target m = Some (m', r)"
  shows "managerInv m'"
proof (cases "mg_closed m")
  case True
  then have m': "m' = m\<lparr>mg_used := mg_used m - 1, mg_creating := mg_creating m - 1\<rparr>"
    using reg by (simp add: createRegister_def)
  have st: "storedOk m" and sl: "slotsOk m" using inv by (simp_all add: managerInv_def)
  have "storedOk m'" by (rule storedOk_counters [OF st]) (simp_all add: m')
  moreover have "slotsOk m'" using sl creating by (auto simp: m' slotsOk_def)
  ultimately show ?thesis by (simp add: managerInv_def)
next
  case False
  then obtain sid where sid: "uniqueIDLocked newID defaultID m = Some sid"
    using reg by (auto simp: createRegister_def split: option.splits)
  let ?s = "newSession sid (NormalizeTarget target) started"
  have m': "m' = (putSession sid ?s m)\<lparr>mg_creating := mg_creating m - 1,
      mg_executing := mg_executing m @ [sid]\<rparr>"
    using reg False sid by (simp add: createRegister_def Let_def)
  have fresh: "lookup m sid = Inl ErrNotFound" by (rule uniqueIDLocked_fresh [OF sid])
  have look: "lookup m' other = (if other = sid then Inr ?s else lookup m other)" for other
    using store.look_put_same store.look_put_other lookup_sessions [of m' "putSession sid ?s m"]
    by (simp add: m')
  have exec: "mg_executing m' = mg_executing m @ [sid]" "mg_closed m' = mg_closed m"
    by (simp_all add: m')
  have st: "storedOk m" and sl: "slotsOk m" using inv by (simp_all add: managerInv_def)
  have "sid \<notin> set (mg_executing m)" using st fresh by (auto simp: storedOk_def)
  then have "slotsOk m'" using sl creating by (auto simp: slotsOk_def m')
  moreover have "storedOk m'"
  proof (rule storedI)
    show "distinct (map fst (mg_sessions m'))"
      using st distinct_putSession [of m sid ?s] by (simp add: storedOk_def m')
  next
    fix other s assume s: "lookup m' other = Inr s"
    have start: "sreach ?s" "ms_id ?s = sid" by (rule sreach.Start) (simp add: newSession_def)
    show "sreach s \<and> ms_id s = other \<and> (\<not> ms_done s \<longrightarrow> other \<in> set (mg_executing m'))
      \<and> (mg_closed m' \<longrightarrow> other \<in> set (mg_closing m') \<or> settled s)"
    proof (cases "other = sid")
      case True
      then have "s = ?s" using s look by simp
      then show ?thesis using True start exec False by simp
    next
      case other: False
      then show ?thesis using s look stored [OF st, of other s] exec False by auto
    qed
  next
    fix other assume "other \<in> set (mg_executing m')"
    then show "\<exists>s. lookup m' other = Inr s" using st exec by (auto simp: look storedOk_def)
  qed
  ultimately show ?thesis by (simp add: managerInv_def)
qed

lemma inv_OnSession:
  assumes inv: "managerInv m" and s: "lookup m sid = Inr s" and step: "sstep s s'"
  shows "managerInv (putSession sid s' m)"
proof -
  have st: "storedOk m" and sl: "slotsOk m" using inv by (simp_all add: managerInv_def)
  have look: "lookup (putSession sid s' m) other = (if other = sid then Inr s' else lookup m other)" for other
    using store.look_put_same store.look_put_other by simp
  note old = stored [OF st s]
  have "storedOk (putSession sid s' m)"
  proof (rule storedI)
    show "distinct (map fst (mg_sessions (putSession sid s' m)))"
      using st by (intro distinct_putSession) (simp add: storedOk_def)
  next
    fix other t assume t: "lookup (putSession sid s' m) other = Inr t"
    show "sreach t \<and> ms_id t = other
      \<and> (\<not> ms_done t \<longrightarrow> other \<in> set (mg_executing (putSession sid s' m)))
      \<and> (mg_closed (putSession sid s' m) \<longrightarrow> other \<in> set (mg_closing (putSession sid s' m)) \<or> settled t)"
    proof (cases "other = sid")
      case True
      then have "t = s'" using t look by simp
      then show ?thesis
        using True old sreach.Step [OF old(1) step] sstep_id [OF step] sstep_done [OF step]
          settled_step [OF old(1) _ step] by auto
    next
      case False
      then show ?thesis using t look stored [OF st, of other t] by auto
    qed
  next
    fix other assume "other \<in> set (mg_executing (putSession sid s' m))"
    then show "\<exists>t. lookup (putSession sid s' m) other = Inr t"
      using st by (auto simp: look storedOk_def)
  qed
  moreover have "slotsOk (putSession sid s' m)" using sl by (simp add: slotsOk_def)
  ultimately show ?thesis by (simp add: managerInv_def)
qed

lemma inv_CloseMark:
  assumes inv: "managerInv m"
  shows "managerInv (closeMark m)"
proof (cases "mg_closed m")
  case True
  then show ?thesis using inv by (simp add: closeMark_def)
next
  case False
  let ?m = "m\<lparr>mg_closed := True, mg_closing := map fst (mg_sessions m)\<rparr>"
  have st: "storedOk m" and sl: "slotsOk m" using inv by (simp_all add: managerInv_def)
  have look: "lookup ?m = lookup m" by (rule lookup_sessions) simp
  have member: "sid \<in> fst ` set (mg_sessions m)" if "lookup m sid = Inr s" for sid s
    using that by (force simp: lookup_Inr dest: map_of_SomeD)
  have "storedOk ?m"
    by (rule storedI) (use st member stored [OF st] in \<open>auto simp: look storedOk_def\<close>)
  moreover have "slotsOk ?m" using sl by (simp add: slotsOk_def)
  ultimately show ?thesis using False by (simp add: closeMark_def managerInv_def)
qed

lemma inv_CloseNext:
  assumes inv: "managerInv m"
  shows "managerInv (closeNext m)"
proof (cases "mg_closing m")
  case Nil
  then show ?thesis using inv by (simp add: closeNext_def)
next
  case (Cons sid rest)
  let ?m = "(onSession cancelSession sid m)\<lparr>mg_closing := rest\<rparr>"
  have st: "storedOk m" and sl: "slotsOk m" using inv by (simp_all add: managerInv_def)
  have look: "lookup ?m other = (if other = sid then map_sum id cancelSession (lookup m other)
      else lookup m other)" for other
    using lookup_sessions [of ?m "onSession cancelSession sid m"] by (simp add: lookup_onSession)
  have "storedOk ?m"
  proof (rule storedI)
    show "distinct (map fst (mg_sessions ?m))"
      using st distinct_onSession [of m cancelSession sid] by (simp add: storedOk_def)
  next
    fix other t assume t: "lookup ?m other = Inr t"
    show "sreach t \<and> ms_id t = other \<and> (\<not> ms_done t \<longrightarrow> other \<in> set (mg_executing ?m))
      \<and> (mg_closed ?m \<longrightarrow> other \<in> set (mg_closing ?m) \<or> settled t)"
    proof (cases "other = sid")
      case True
      then obtain s where s: "lookup m sid = Inr s" "t = cancelSession s"
        using t look by (cases "lookup m sid") auto
      note old = stored [OF st s(1)]
      have step: "sstep s t" using s(2) sstep.Cancel by simp
      show ?thesis
        using True s(2) old sreach.Step [OF old(1) step] sstep_id [OF step] sstep_done [OF step]
          settled_cancelSession by auto
    next
      case False
      then show ?thesis using t look stored [OF st, of other t] Cons by auto
    qed
  next
    fix other assume "other \<in> set (mg_executing ?m)"
    then obtain s where "lookup m other = Inr s" using st by (auto simp: storedOk_def)
    then show "\<exists>t. lookup ?m other = Inr t" using look by auto
  qed
  moreover have "slotsOk ?m" using sl by (simp add: slotsOk_def)
  ultimately show ?thesis using Cons by (simp add: closeNext_def managerInv_def)
qed

lemma inv_ReleaseSlot:
  assumes inv: "managerInv m" and "sid \<in> set (mg_executing m)" "lookup m sid = Inr s" "ms_done s"
  shows "managerInv (executeRelease sid m)"
proof -
  let ?f = "\<lambda>s. s\<lparr>ms_ctxCancelled := True\<rparr>" and ?m = "executeRelease sid m"
  have st: "storedOk m" and sl: "slotsOk m" using inv by (simp_all add: managerInv_def)
  have look: "lookup ?m other = (if other = sid then map_sum id ?f (lookup m other)
      else lookup m other)" for other
    using lookup_sessions [of ?m "onSession ?f sid m"]
    by (simp add: executeRelease_def lookup_onSession)
  have step: "sstep s (?f s)" using assms(4) by (rule sstep.Release)
  note old = stored [OF st assms(3)]
  have settled: "settled s" using assms(4) life.reachable [OF old(1)]
    by (simp add: settled_def lifecycleInv_def)
  have exec: "mg_executing ?m = removeAll sid (mg_executing m)" "mg_closed ?m = mg_closed m"
    "mg_closing ?m = mg_closing m"
    by (simp_all add: executeRelease_def)
  have "storedOk ?m"
  proof (rule storedI)
    show "distinct (map fst (mg_sessions ?m))"
      using st distinct_onSession [of m ?f sid] by (simp add: storedOk_def executeRelease_def)
  next
    fix other t assume t: "lookup ?m other = Inr t"
    show "sreach t \<and> ms_id t = other \<and> (\<not> ms_done t \<longrightarrow> other \<in> set (mg_executing ?m))
      \<and> (mg_closed ?m \<longrightarrow> other \<in> set (mg_closing ?m) \<or> settled t)"
    proof (cases "other = sid")
      case True
      then have "t = ?f s" using t look assms(3) by simp
      then show ?thesis
        using True old sreach.Step [OF old(1) step] assms(4) settled
        by (simp add: settled_def)
    next
      case False
      then show ?thesis using t look stored [OF st, of other t] exec by auto
    qed
  next
    fix other assume "other \<in> set (mg_executing ?m)"
    then obtain s where "lookup m other = Inr s" using st exec by (auto simp: storedOk_def)
    then show "\<exists>t. lookup ?m other = Inr t" using look by auto
  qed
  moreover have "slotsOk ?m"
  proof -
    have "distinct (mg_executing m)" using sl by (simp add: slotsOk_def)
    then have "length (removeAll sid (mg_executing m)) = length (mg_executing m) - 1"
      "0 < length (mg_executing m)"
      using assms(2) by (simp add: distinct_remove1_removeAll [symmetric] length_remove1,
          simp only: length_pos_if_in_set)
    then obtain n where "length (mg_executing m) = Suc n"
      "length (removeAll sid (mg_executing m)) = n" by (metis Suc_pred diff_Suc_1 One_nat_def)
    then show ?thesis using sl by (simp add: slotsOk_def executeRelease_def distinct_removeAll)
  qed
  ultimately show ?thesis by (simp add: managerInv_def)
qed

lemma mreach_inv: "mreach m \<Longrightarrow> managerInv m"
proof (induction rule: mreach.induct)
  case (Start opts)
  then show ?case
    by (simp add: managerInv_def slotsOk_def storedOk_def NewManager_def lookup_def Let_def)
next
  case (Step m m')
  from Step.hyps(2) Step.IH show ?case
    by (cases rule: mstep.cases) (auto intro: inv_Reserve inv_Register inv_OnSession inv_CloseMark
        inv_CloseNext inv_ReleaseSlot)
qed

section \<open>Properties of the manager\<close>

lemma unfinished_bounded:
  assumes "managerInv m"
  shows "length (filter (\<lambda>(sid, s). \<not> terminal (ms_state s)) (mg_sessions m)) \<le> length (mg_executing m)"
proof -
  let ?l = "map fst (filter (\<lambda>(sid, s). \<not> terminal (ms_state s)) (mg_sessions m))"
  have st: "storedOk m" using assms by (simp add: managerInv_def)
  then have d: "distinct (map fst (mg_sessions m))" by (simp add: storedOk_def)
  have "sid \<in> set (mg_executing m)" if "(sid, s) \<in> set (mg_sessions m)" "\<not> terminal (ms_state s)" for sid s
  proof -
    have look: "lookup m sid = Inr s" using that(1) d by (simp add: lookup_Inr)
    have "\<not> ms_done s"
      using life.reachable [OF stored(1) [OF st look]] that(2) by (simp add: lifecycleInv_def)
    then show ?thesis using stored(3) [OF st look] by simp
  qed
  then have "set ?l \<subseteq> set (mg_executing m)" by auto
  then have "card (set ?l) \<le> card (set (mg_executing m))" by (intro card_mono) simp_all
  moreover have "card (set ?l) = length ?l"
    by (rule distinct_card) (rule distinct_map_filter [OF d])
  ultimately have "length ?l \<le> length (mg_executing m)"
    using card_length [of "mg_executing m"] by linarith
  then show ?thesis by simp
qed

text \<open>C9: concurrency is bounded. Under every interleaving of creations, cancellations, closings
  and executions, the slots in use never exceed the capacity, and at most that many stored
  sessions are not terminal; a creation is refused as busy exactly when all slots are taken.\<close>

theorem capacity_bounded:
  assumes "mreach m"
  shows "mg_used m \<le> mg_capacity m
    \<and> length (filter (\<lambda>(sid, s). \<not> terminal (ms_state s)) (mg_sessions m)) \<le> mg_capacity m
    \<and> (createReserve m = Inl ErrBusy \<longleftrightarrow> mg_used m = mg_capacity m)"
  using mreach_inv [OF assms] unfinished_bounded [of m]
  by (auto simp: managerInv_def slotsOk_def createReserve_def)

text \<open>the store is sound. Every stored session is one that the session steps reach, is
  stored under its own identifier, and identifiers are not repeated; while it is not terminal a
  goroutine holds its slot.\<close>

theorem stored_sessions:
  assumes "mreach m" "lookup m sid = Inr s"
  shows "sreach s \<and> ms_id s = sid \<and> distinct (map fst (mg_sessions m))
    \<and> (\<not> terminal (ms_state s) \<longrightarrow> sid \<in> set (mg_executing m))"
proof -
  have st: "storedOk m" using mreach_inv [OF assms(1)] by (simp add: managerInv_def)
  have "ms_done s = terminal (ms_state s)"
    using life.reachable [OF stored(1) [OF st assms(2)]] by (simp add: lifecycleInv_def)
  then show ?thesis using st stored [OF st assms(2)] by (simp add: storedOk_def)
qed

lemma closeNext_closing: "mg_closing (closeNext m) = tl (mg_closing m)"
  "mg_closed (closeNext m) = mg_closed m"
  by (simp_all add: closeNext_def split: list.split)

lemma closeNext_run:
  "mreach m \<Longrightarrow> mreach ((closeNext ^^ n) m) \<and> mg_closed ((closeNext ^^ n) m) = mg_closed m
     \<and> mg_closing ((closeNext ^^ n) m) = drop n (mg_closing m)"
proof (induction n)
  case 0
  then show ?case by simp
next
  case (Suc n)
  then show ?case
    using mreach.Step [OF _ mstep.CloseNext, of "(closeNext ^^ n) m"]
    by (simp add: closeNext_closing tl_drop drop_Suc)
qed

lemma Close_result:
  assumes "mreach m" "\<not> mg_closed m"
  shows "mreach (Close m)" "mg_closed (Close m)" "mg_closing (Close m) = []"
proof -
  have "mreach (closeMark m)" using mreach.Step [OF assms(1) mstep.CloseMark] .
  moreover have "mg_closed (closeMark m)" by (simp add: closeMark_def)
  ultimately show "mreach (Close m)" "mg_closed (Close m)" "mg_closing (Close m) = []"
    using closeNext_run [of "closeMark m" "length (mg_closing (closeMark m))"] assms(2)
    by (simp_all add: Close_def Let_def)
qed

text \<open>C10: closing leaves nothing running unasked. After \<open>Close\<close> of a reachable open manager every
  session is terminal or has its cancellation requested and its context cancelled, and every
  later creation fails and gives its slot back.\<close>

theorem Close_spec:
  assumes "mreach m" "\<not> mg_closed m"
  shows "(\<forall>sid s. lookup (Close m) sid = Inr s \<longrightarrow>
      terminal (ms_state s) \<or> ms_cancelRequested s \<and> ms_ctxCancelled s)
    \<and> Create newID defaultID started target (Close m) =
      Some (Close m, Inl (if mg_used (Close m) < mg_capacity (Close m) then ErrClosed else ErrBusy))"
proof
  note closed = Close_result [OF assms]
  have st: "storedOk (Close m)" using mreach_inv [OF closed(1)] by (simp add: managerInv_def)
  show "\<forall>sid s. lookup (Close m) sid = Inr s \<longrightarrow>
      terminal (ms_state s) \<or> ms_cancelRequested s \<and> ms_ctxCancelled s"
  proof (intro allI impI)
    fix sid s assume "lookup (Close m) sid = Inr s"
    note old = stored [OF st this]
    show "terminal (ms_state s) \<or> ms_cancelRequested s \<and> ms_ctxCancelled s"
      using old(4) closed(2,3) life.reachable [OF old(1)] by (auto simp: settled_def lifecycleInv_def)
  qed
  show "Create newID defaultID started target (Close m) =
      Some (Close m, Inl (if mg_used (Close m) < mg_capacity (Close m) then ErrClosed else ErrBusy))"
    using closed(2) by (simp add: Create_def createReserve_def createRegister_def)
qed


text \<open>cancellation is local and visible. \<open>Cancel\<close> of a stored session returns the snapshot
  that \<open>Get\<close> then returns, leaves every other session alone, and turns a running session into a
  cancelling one with its context cancelled; a terminal session keeps its snapshot.\<close>

theorem Cancel_spec:
  assumes "lookup m sid = Inr s"
  shows "snd (Cancel sid m) = Get sid (fst (Cancel sid m))
    \<and> (\<forall>other. other \<noteq> sid \<longrightarrow> lookup (fst (Cancel sid m)) other = lookup m other)
    \<and> (ms_state s = StateRunning \<longrightarrow> (\<exists>s'. lookup (fst (Cancel sid m)) sid = Inr s'
         \<and> ms_state s' = StateCancelling \<and> ms_cancelRequested s' \<and> ms_ctxCancelled s'))
    \<and> (terminal (ms_state s) \<longrightarrow> snd (Cancel sid m) = Get sid m)"
  using assms by (auto simp: Cancel_def Get_def cancelSession_def store.look_put_same
      store.look_put_other)

text \<open>\<open>Wait\<close> returns final results. On a reachable manager a snapshot that \<open>Wait\<close> returns is
  terminal and carries a report and a completion time; if the session is done \<open>Wait\<close> returns.\<close>

theorem Wait_terminal:
  assumes "mreach m" "lookup m sid = Inr s"
  shows "(ms_done s \<longrightarrow> Wait preferDone ctxErr sid m \<noteq> None)
    \<and> (\<forall>snap. Wait preferDone ctxErr sid m = Some (Inr (Inr snap)) \<longrightarrow>
         terminal (sn_State snap) \<and> sn_Report snap \<noteq> None \<and> sn_CompletedAt snap \<noteq> None
         \<and> sn_ID snap = sid)"
proof -
  have st: "storedOk m" using mreach_inv [OF assms(1)] by (simp add: managerInv_def)
  note old = stored [OF st assms(2)]
  have life: "ms_done s \<longrightarrow> terminal (ms_state s) \<and> ms_report s \<noteq> None \<and> ms_completedAt s \<noteq> None"
    using life.reachable [OF old(1)] unfolding lifecycleInv_def by blast
  show ?thesis
    using assms(2) life old(2)
    by (cases ctxErr) (auto simp: Wait_def snapshotLocked_def cloneTime_def)
qed

section \<open>A sample manager\<close>

definition sampleManager :: manager where
  "sampleManager =
     (let m = NewManager \<lparr>op_OverallTimeout = 0, op_MaxConcurrentSessions = 0\<rparr> in
      (putSession ''s1'' (newSession ''s1'' (NormalizeTarget zero_Target) 1)
         (m\<lparr>mg_used := 1, mg_creating := 1\<rparr>))\<lparr>mg_creating := 0, mg_executing := [''s1'']\<rparr>)"

lemma mreach_sampleManager: "mreach sampleManager"
proof -
  let ?m0 = "NewManager \<lparr>op_OverallTimeout = 0, op_MaxConcurrentSessions = 0\<rparr>"
  let ?m1 = "?m0\<lparr>mg_used := 1, mg_creating := 1\<rparr>"
  let ?src = "\<lambda>_::nat. ''s1''"
  have "createReserve ?m0 = Inr ?m1"
    by (simp add: createReserve_def NewManager_def DefaultMaxConcurrentSessions_def)
  then have m1: "mreach ?m1" using mreach.Step [OF mreach.Start mstep.Reserve] by blast
  have "uniqueIDLocked ?src ?src ?m1 = Some ''s1''"
    by (simp add: uniqueIDLocked_def NewManager_def numeral_eq_Suc)
  then have "createRegister ?src ?src 1 zero_Target ?m1 =
      Some (sampleManager, Inr (snapshotLocked (newSession ''s1'' (NormalizeTarget zero_Target) 1)))"
    by (simp add: createRegister_def sampleManager_def NewManager_def Let_def)
  then show ?thesis
    using mreach.Step [OF m1 mstep.Register [of ?m1 ?src ?src 1 zero_Target]]
    by (simp add: NewManager_def)
qed

lemma sampleManager_lookup:
  "lookup sampleManager ''s1'' = Inr (newSession ''s1'' (NormalizeTarget zero_Target) 1)"
  by (simp add: sampleManager_def lookup_def putSession_def NewManager_def Let_def)

lemma sampleManager_open: "\<not> mg_closed sampleManager"
  by (simp add: sampleManager_def NewManager_def Let_def)

theorem capacity_bounded_witness:
  "mg_used sampleManager \<le> mg_capacity sampleManager"
  using capacity_bounded [OF mreach_sampleManager] by simp

theorem stored_sessions_witness:
  "sreach (newSession ''s1'' (NormalizeTarget zero_Target) 1)"
  using stored_sessions [OF mreach_sampleManager sampleManager_lookup] by simp

theorem Close_spec_witness:
  "Create (\<lambda>_. ''a'') (\<lambda>_. ''a'') 2 zero_Target (Close sampleManager) =
      Some (Close sampleManager, Inl (if mg_used (Close sampleManager) < mg_capacity (Close sampleManager)
        then ErrClosed else ErrBusy))"
  using Close_spec [OF mreach_sampleManager sampleManager_open] by simp


theorem Cancel_spec_witness:
  "snd (Cancel ''s1'' sampleManager) = Get ''s1'' (fst (Cancel ''s1'' sampleManager))"
  using Cancel_spec [OF sampleManager_lookup] by blast

definition finishedManager :: manager where
  "finishedManager = putSession ''s1'' (executeFinish 9 (Returned zero_DiagnosticReport) True
     (newSession ''s1'' (NormalizeTarget zero_Target) 1)) sampleManager"

lemma mreach_finishedManager: "mreach finishedManager"
proof -
  have "\<not> ms_done (newSession ''s1'' (NormalizeTarget zero_Target) 1)" by (simp add: newSession_def)
  then show ?thesis
    unfolding finishedManager_def
    by (intro mreach.Step [OF mreach_sampleManager mstep.OnSession [OF sampleManager_lookup]] sstep.Finish)
qed

lemma finishedManager_lookup: "lookup finishedManager ''s1'' =
    Inr (executeFinish 9 (Returned zero_DiagnosticReport) True
      (newSession ''s1'' (NormalizeTarget zero_Target) 1))"
  by (simp add: finishedManager_def lookup_def putSession_def map_of_update)

theorem Wait_terminal_witness:
  "\<exists>snap. Wait True (None :: string option) ''s1'' finishedManager = Some (Inr (Inr snap))
     \<and> terminal (sn_State snap) \<and> sn_Report snap \<noteq> None"
proof -
  have "ms_done (executeFinish 9 (Returned zero_DiagnosticReport) True
      (newSession ''s1'' (NormalizeTarget zero_Target) 1))"
    by (simp add: executeFinish_fields)
  then obtain snap where "Wait True (None :: string option) ''s1'' finishedManager = Some (Inr (Inr snap))"
    using finishedManager_lookup by (simp add: Wait_def)
  then show ?thesis
    using Wait_terminal [OF mreach_finishedManager finishedManager_lookup, of True "None :: string option"]
    by blast
qed

end
