(* ===== verification/BatchPlan.thy ===== *)
theory BatchPlan
  imports Target ModelReportTypes
begin

text \<open>
  \<open>internal/batch/plan.go\<close>: the plan of validation work that a browser-capture report yields.
  Go's map from keys to entries is an association list in insertion order; the order in which the
  code ranges over it is arbitrary, so \<open>BuildPlan\<close> takes the arrangement as an argument.
  \<open>UnsupportedReason\<close> holds the error itself where the code holds its text.
\<close>

section \<open>Types\<close>

type_synonym SelectionMode = string
definition SelectionAll :: SelectionMode where [go_consts]: "SelectionAll = ''all''"
definition SelectionFailedOnly :: SelectionMode where
  [go_consts]: "SelectionFailedOnly = ''failed_only''"
definition SelectionSelected :: SelectionMode where [go_consts]: "SelectionSelected = ''selected''"

datatype planError =
  ErrCaptureObservationsMissing | ErrEmptySelection | ErrInvalidSelectionMode string
  | ErrEmptyValidationPlan

datatype unsupportedReason =
  Supported | MechanismUnsupported string | TargetRejected TargetError

record Request =
  rq_Selection :: SelectionMode
  rq_Selected :: "string list"
  rq_Concurrency :: int

record CaptureProvenance =
  cp_SessionID :: string
  cp_Browser :: string
  cp_Observed :: BrowserCaptureDestination

record PlanEntry =
  pe_ID :: string
  pe_RequestedHostname :: string
  pe_RequestedIdentity :: string
  pe_Port :: "16 word"
  pe_Service :: ServiceProfile
  pe_Target :: "Target option"
  pe_CaptureMechanism :: BrowserCaptureMechanism
  pe_CaptureOutcome :: BrowserCaptureOutcome
  pe_CaptureFailed :: bool
  pe_CaptureObservationCount :: "64 word"
  pe_CaptureConnectionCount :: "64 word"
  pe_CaptureSuccessCount :: "64 word"
  pe_CaptureFailureCount :: "64 word"
  pe_Capture :: CaptureProvenance
  pe_CaptureObservations :: "BrowserCaptureDestination list"
  pe_Unsupported :: bool
  pe_UnsupportedReason :: unsupportedReason

record Plan =
  pl_SchemaVersion :: string
  pl_CaptureSessionID :: string
  pl_CaptureBrowser :: string
  pl_CaptureState :: BrowserCaptureState
  pl_Selection :: SelectionMode
  pl_Requested :: "string list"
  pl_Concurrency :: int
  pl_Entries :: "PlanEntry list"

definition PlanSchemaVersion :: string where [go_consts]: "PlanSchemaVersion = ''1''"

section \<open>Helpers\<close>

fun firstNonEmpty :: "string list \<Rightarrow> string" where
  "firstNonEmpty [] = []"
| "firstNonEmpty (v # vs) = (if v \<noteq> [] then v else firstNonEmpty vs)"

definition firstNonEmptyCaptureState :: "BrowserCaptureState list \<Rightarrow> BrowserCaptureState" where
  "firstNonEmptyCaptureState values = firstNonEmpty values"

definition uniqueStrings :: "string list \<Rightarrow> string list" where
  "uniqueStrings values = uniqueBy id [] (filter (\<lambda>v. v \<noteq> []) (map trimSpace values))"

definition cloneCaptureDestination :: "BrowserCaptureDestination \<Rightarrow> BrowserCaptureDestination" where
  "cloneCaptureDestination value = value\<lparr>bd_Mechanisms := [] @ bd_Mechanisms value,
     bd_ResolvedAddressCandidates := [] @ bd_ResolvedAddressCandidates value,
     bd_ConnectedEndpoints := [] @ bd_ConnectedEndpoints value,
     bd_FailureReasons := [] @ bd_FailureReasons value\<rparr>"

definition observationSessionID :: "Observations \<Rightarrow> string" where
  "observationSessionID observations =
     (case ob_BrowserCapture observations of None \<Rightarrow> [] | Some b \<Rightarrow> bo_SessionID b)"

definition observationBrowser :: "Observations \<Rightarrow> string" where
  "observationBrowser observations =
     (case ob_BrowserCapture observations of None \<Rightarrow> [] | Some b \<Rightarrow> bo_Browser b)"

definition hasConcreteFailureReason :: "string \<Rightarrow> bool" where
  "hasConcreteFailureReason value \<longleftrightarrow>
     toLower (trimSpace value) \<notin> set [[], FailureReasonNone, FailureReasonUnknown]"

definition captureFailed :: "BrowserCaptureDestination \<Rightarrow> bool" where
  "captureFailed destination =
     (if bd_FailureCount destination > 0
         \<or> hasConcreteFailureReason (bd_FailureReason destination) then True
      else if list_ex hasConcreteFailureReason (bd_FailureReasons destination) then True
      else if bd_Outcome destination = BrowserCaptureOutcomeConnected then False
      else True)"

definition captureOutcomeIsFailure :: "BrowserCaptureOutcome \<Rightarrow> bool" where
  "captureOutcomeIsFailure value \<longleftrightarrow> value \<noteq> [] \<and> value \<noteq> BrowserCaptureOutcomeConnected"

definition mergeCaptureOutcome ::
    "BrowserCaptureOutcome \<Rightarrow> BrowserCaptureOutcome \<Rightarrow> BrowserCaptureOutcome" where
  "mergeCaptureOutcome left right =
     (if left = [] then right
      else if right = [] \<or> left = right then left
      else if (left = BrowserCaptureOutcomeConnected \<and> captureOutcomeIsFailure right)
          \<or> (right = BrowserCaptureOutcomeConnected \<and> captureOutcomeIsFailure left)
        then BrowserCaptureOutcomeMixed
      else BrowserCaptureOutcomeMixed)"

definition normalizeSelection :: "SelectionMode \<Rightarrow> planError + SelectionMode" where
  "normalizeSelection value =
     (let v = toLower (trimSpace value) in
      if v \<in> set [[], ''all''] then Inr SelectionAll
      else if v \<in> set [''failed'', ''failed-only'', ''failed_only''] then Inr SelectionFailedOnly
      else if v \<in> set [''selected'', ''manual''] then Inr SelectionSelected
      else Inl (ErrInvalidSelectionMode value))"

definition serviceScheme :: "ServiceProfileID \<Rightarrow> string" where
  "serviceScheme service =
     (if service = ServiceProfileHTTP then ''http''
      else if service = ServiceProfileHTTPS then ''https''
      else if service = ServiceProfileSMB then ''smb''
      else if service = ServiceProfileRDP then ''rdp''
      else if service = ServiceProfileSSH then ''ssh''
      else if service = ServiceProfileDNS then ''dns''
      else if service = ServiceProfileCustomTCP then ''tcp''
      else if service = ServiceProfileCustomTLS then ''tls''
      else [])"

definition TargetIdentity :: "PlanEntry \<Rightarrow> string" where
  "TargetIdentity entry =
     (let scheme = serviceScheme (sp_ID (pe_Service entry));
          authority = joinHostPort (pe_RequestedHostname entry) (portText (pe_Port entry)) in
      if scheme \<noteq> [] then scheme @ ''://'' @ authority else authority)"

section \<open>Entries\<close>

definition serviceForMechanism ::
    "BrowserCaptureMechanism \<Rightarrow> ServiceProfileID \<times> (unsupportedReason + ServiceProfile)" where
  "serviceForMechanism mechanism =
     (let found = (\<lambda>s. case LookupServiceProfile s of
            Inl e \<Rightarrow> Inl (TargetRejected e) | Inr service \<Rightarrow> Inr service) in
      if mechanism = BrowserCaptureMechanismHTTP then (ServiceProfileHTTP, found ServiceProfileHTTP)
      else if mechanism = BrowserCaptureMechanismCONNECT
        then (ServiceProfileHTTPS, found ServiceProfileHTTPS)
      else (''unsupported'', Inl (MechanismUnsupported mechanism)))"

definition planKey :: "string \<Rightarrow> string \<Rightarrow> 16 word \<Rightarrow> string" where
  "planKey host service port = joinStr [CHR 0x00] [host, service, portText port]"

definition destinationMechanisms :: "BrowserCaptureDestination \<Rightarrow> BrowserCaptureMechanism list" where
  "destinationMechanisms destination =
     (let result = uniqueBy id []
            (filter (\<lambda>v. v \<noteq> []) (bd_Mechanism destination # bd_Mechanisms destination)) in
      if result = [] then [[]] else result)"

definition captureProvenance ::
    "BrowserCaptureReport \<Rightarrow> BrowserCaptureDestination \<Rightarrow> CaptureProvenance" where
  "captureProvenance report destination =
     \<lparr>cp_SessionID = firstNonEmpty [br_SessionID report, observationSessionID (br_Observations report)],
      cp_Browser = firstNonEmpty [br_Browser report, observationBrowser (br_Observations report)],
      cp_Observed = destination\<rparr>"

definition planEntryForDestination :: "BrowserCaptureReport \<Rightarrow> BrowserCaptureDestination
    \<Rightarrow> BrowserCaptureMechanism \<Rightarrow> PlanEntry \<times> string" where
  "planEntryForDestination report destination mechanism =
     (let host = toLower (trimSuffix ''.'' (trimSpace (bd_RequestedHostname destination)));
          port = bd_Port destination;
          (serviceID, found) = serviceForMechanism mechanism;
          entry = \<lparr>pe_ID = [], pe_RequestedHostname = host, pe_RequestedIdentity = [],
            pe_Port = port, pe_Service = zero_ServiceProfile, pe_Target = None,
            pe_CaptureMechanism = mechanism, pe_CaptureOutcome = bd_Outcome destination,
            pe_CaptureFailed = captureFailed destination, pe_CaptureObservationCount = 0,
            pe_CaptureConnectionCount = 0, pe_CaptureSuccessCount = 0,
            pe_CaptureFailureCount = 0, pe_Capture = captureProvenance report destination,
            pe_CaptureObservations = [], pe_Unsupported = False,
            pe_UnsupportedReason = Supported\<rparr> in
      case found of
        Inl e \<Rightarrow> (entry\<lparr>pe_Unsupported := True, pe_UnsupportedReason := e,
            pe_RequestedIdentity := host\<rparr>, planKey host serviceID port)
      | Inr service \<Rightarrow>
          let entry1 = entry\<lparr>pe_Service := service\<rparr> in
          (case ParseTarget (zero_TargetIntent\<lparr>ti_Input := host, ti_Service := sp_ID service,
               ti_Port := Some port\<rparr>) of
             Inl e \<Rightarrow> (entry1\<lparr>pe_Unsupported := True, pe_UnsupportedReason := TargetRejected e,
                 pe_RequestedIdentity := host\<rparr>, planKey host (sp_ID service) port)
           | Inr target \<Rightarrow>
               (entry1\<lparr>pe_Target := Some target,
                  pe_RequestedHostname := tg_RequestedIdentity target,
                  pe_RequestedIdentity := tg_RequestedIdentity target\<rparr>,
                planKey (tg_RequestedIdentity target) (sp_ID service) (tg_Port target))))"

definition mergePlanEntry :: "PlanEntry \<Rightarrow> BrowserCaptureDestination \<Rightarrow> BrowserCaptureReport
    \<Rightarrow> PlanEntry" where
  "mergePlanEntry entry0 destination report =
     (let entry1 = entry0\<lparr>
            pe_CaptureObservations := pe_CaptureObservations entry0 @ [destination],
            pe_CaptureObservationCount :=
              pe_CaptureObservationCount entry0 + bd_ObservationCount destination,
            pe_CaptureConnectionCount :=
              pe_CaptureConnectionCount entry0 + bd_ConnectionCount destination,
            pe_CaptureSuccessCount := pe_CaptureSuccessCount entry0 + bd_SuccessCount destination,
            pe_CaptureFailureCount := pe_CaptureFailureCount entry0 + bd_FailureCount destination\<rparr>;
          entry2 = entry1\<lparr>
            pe_CaptureFailed := (if pe_CaptureFailureCount entry1 > 0 \<or> captureFailed destination
              then True else pe_CaptureFailed entry1),
            pe_CaptureOutcome := mergeCaptureOutcome (pe_CaptureOutcome entry1) (bd_Outcome destination)\<rparr> in
      if bd_RequestedHostname (cp_Observed (pe_Capture entry2)) = []
      then entry2\<lparr>pe_Capture := captureProvenance report destination\<rparr>
      else entry2)"

section \<open>Selection\<close>

definition selectorMatches :: "PlanEntry \<Rightarrow> string \<Rightarrow> bool" where
  "selectorMatches entry selector =
     (let value = toLower (trimSuffix ''.'' (trimSpace selector)) in
      if value = [] then False
      else if value = toLower (pe_ID entry) \<or> value = toLower (pe_RequestedIdentity entry)
          \<or> value = toLower (pe_RequestedHostname entry) \<or> value = toLower (TargetIdentity entry)
        then True
      else value = toLower (joinHostPort (pe_RequestedHostname entry) (portText (pe_Port entry))))"

definition selectedDestination :: "PlanEntry \<Rightarrow> SelectionMode \<Rightarrow> string list \<Rightarrow> bool" where
  "selectedDestination entry selection selected =
     (if selection = SelectionAll then True
      else if selection = SelectionFailedOnly then pe_CaptureFailed entry
      else if selection = SelectionSelected then list_ex (selectorMatches entry) selected
      else False)"

section \<open>The plan\<close>

definition planLess :: "PlanEntry \<Rightarrow> PlanEntry \<Rightarrow> bool" where
  "planLess left right =
     (if pe_RequestedIdentity left \<noteq> pe_RequestedIdentity right
        then pe_RequestedIdentity left < pe_RequestedIdentity right
      else if sp_ID (pe_Service left) \<noteq> sp_ID (pe_Service right)
        then sp_ID (pe_Service left) < sp_ID (pe_Service right)
      else pe_Port left < pe_Port right)"

text \<open>\<open>fmt.Sprintf("endpoint-%03d", n)\<close>\<close>

definition entryID :: "nat \<Rightarrow> string" where
  "entryID n = ''endpoint-'' @ replicate (3 - length (itoa n)) CHR ''0'' @ itoa n"

text \<open>One turn of the inner loop of \<open>BuildPlan\<close>, and its two loops.\<close>

definition addMechanism :: "BrowserCaptureReport \<Rightarrow> SelectionMode \<Rightarrow> string list
    \<Rightarrow> BrowserCaptureDestination \<Rightarrow> BrowserCaptureMechanism
    \<Rightarrow> (string \<times> PlanEntry) list \<Rightarrow> (string \<times> PlanEntry) list" where
  "addMechanism report selection selected destination mechanism entries =
     (let (entry, key) = planEntryForDestination report destination mechanism in
      if \<not> selectedDestination entry selection selected then entries
      else let current = (case map_of entries key of None \<Rightarrow> entry | Some e \<Rightarrow> e) in
           AList.update key (mergePlanEntry current destination report) entries)"

definition addDestination :: "BrowserCaptureReport \<Rightarrow> SelectionMode \<Rightarrow> string list
    \<Rightarrow> BrowserCaptureDestination \<Rightarrow> (string \<times> PlanEntry) list \<Rightarrow> (string \<times> PlanEntry) list" where
  "addDestination report selection selected source entries =
     (let destination = cloneCaptureDestination source in
      fold (addMechanism report selection selected destination)
        (destinationMechanisms destination) entries)"

definition planEntries :: "BrowserCaptureReport \<Rightarrow> SelectionMode \<Rightarrow> string list
    \<Rightarrow> BrowserCaptureDestination list \<Rightarrow> (string \<times> PlanEntry) list" where
  "planEntries report selection selected destinations =
     fold (addDestination report selection selected) destinations []"

definition BuildPlan :: "(PlanEntry list \<Rightarrow> PlanEntry list) \<Rightarrow> BrowserCaptureReport \<Rightarrow> Request
    \<Rightarrow> planError + Plan" where
  "BuildPlan arrange report request =
     (case ob_BrowserCapture (br_Observations report) of
        None \<Rightarrow> Inl ErrCaptureObservationsMissing
      | Some observation \<Rightarrow>
          (case normalizeSelection (rq_Selection request) of
             Inl e \<Rightarrow> Inl e
           | Inr selection \<Rightarrow>
               if selection = SelectionSelected \<and> rq_Selected request = [] then Inl ErrEmptySelection
               else let entries = planEntries report selection (rq_Selected request)
                          (bo_Destinations observation);
                        sorted = sortBy planLess (arrange (map snd entries));
                        numbered = map (\<lambda>(i, e). e\<lparr>pe_ID := entryID (i + 1)\<rparr>) (enumerate 0 sorted) in
                 if numbered = [] then Inl ErrEmptyValidationPlan
                 else Inr \<lparr>pl_SchemaVersion = PlanSchemaVersion,
                   pl_CaptureSessionID = firstNonEmpty [br_SessionID report, bo_SessionID observation],
                   pl_CaptureBrowser = firstNonEmpty [br_Browser report, bo_Browser observation],
                   pl_CaptureState = firstNonEmptyCaptureState [br_State report, bo_State observation],
                   pl_Selection = selection, pl_Requested = uniqueStrings (rq_Selected request),
                   pl_Concurrency = rq_Concurrency request, pl_Entries = numbered\<rparr>))"

end
