(* ===== verification/GoMaps.thy ===== *)
theory GoMaps
  imports Prelude "HOL-Library.Multiset"
begin

text \<open>
  The idiom by which the program makes the content of a Go map deterministic: values are
  accumulated under a key, the map is ranged over in whatever order the runtime chooses, and the
  result is sorted by a less-function that tells the values apart. The lemmas here show once that
  the arbitrary order cannot be seen, and what ends up under each key.
\<close>

section \<open>Less-functions that compare one key after another\<close>

lemma go_less_lex:
  fixes f :: "'a \<Rightarrow> 'k :: linorder"
  assumes "go_less lt"
  shows "go_less (\<lambda>a b. if f a \<noteq> f b then f a < f b else lt a b)"
proof
  fix x y z
  show "(if f x \<noteq> f y then f x < f y else lt x y) \<Longrightarrow> \<not> (if f y \<noteq> f x then f y < f x else lt y x)"
    using go_less.asym [OF assms] by (auto split: if_splits)
  show "\<not> (if f x \<noteq> f y then f x < f y else lt x y) \<Longrightarrow> \<not> (if f y \<noteq> f z then f y < f z else lt y z)
      \<Longrightarrow> \<not> (if f x \<noteq> f z then f x < f z else lt x z)"
    using go_less.negtrans [OF assms, of x y z] by (auto split: if_splits)
qed

lemma go_less_key: "go_less (\<lambda>a b. (f a :: 'k :: linorder) < f b)"
  by unfold_locales auto

context go_less
begin

lemma strict_sorted:
  assumes "sorted_wrt (\<lambda>a b. \<not> lt b a) xs" "distinct xs"
    "\<And>a b. a \<in> set xs \<Longrightarrow> b \<in> set xs \<Longrightarrow> \<not> lt a b \<Longrightarrow> \<not> lt b a \<Longrightarrow> a = b"
  shows "sorted_wrt lt xs"
  using assms
proof (induction xs)
  case Nil
  show ?case by simp
next
  case (Cons x xs)
  have "lt x y" if "y \<in> set xs" for y
    using Cons.prems(1,2) Cons.prems(3) [of x y] that by auto
  then show ?case using Cons by simp
qed

lemma strict_sortBy:
  assumes "distinct xs"
    "\<And>a b. a \<in> set xs \<Longrightarrow> b \<in> set xs \<Longrightarrow> \<not> lt a b \<Longrightarrow> \<not> lt b a \<Longrightarrow> a = b"
  shows "sorted_wrt lt (sortBy lt xs)"
proof (rule strict_sorted [OF sorted_sortBy])
  show "distinct (sortBy lt xs)" using assms(1) distinct_map_sortBy [of id lt xs] by simp
  show "a = b" if "a \<in> set (sortBy lt xs)" "b \<in> set (sortBy lt xs)" "\<not> lt a b" "\<not> lt b a" for a b
    using that assms(2) by simp
qed

text \<open>A range over a map: any arrangement of the values sorts to the same list.\<close>

lemma sortBy_range:
  assumes "mset ys = mset xs" "distinct xs"
    "\<And>a b. a \<in> set xs \<Longrightarrow> b \<in> set xs \<Longrightarrow> \<not> lt a b \<Longrightarrow> \<not> lt b a \<Longrightarrow> a = b"
  shows "sortBy lt ys = sortBy lt xs"
proof (rule sortBy_arrangement)
  show "set ys = set xs" using assms(1) by (rule mset_eq_setD)
  then show "a = b" if "a \<in> set ys" "b \<in> set ys" "\<not> lt a b" "\<not> lt b a" for a b
    using that assms(3) by simp
  show "distinct ys" using assms(1,2) by (metis mset_eq_imp_distinct_iff)
qed (rule assms(2))

end

lemma mset_insertBy [simp]: "mset (insertBy lt x ys) = add_mset x (mset ys)"
  by (induction ys) auto

lemma mset_sortBy [simp]: "mset (sortBy lt xs) = mset xs"
  by (induction xs) (simp_all add: sortBy_Cons)

section \<open>Accumulating values under a key\<close>

text \<open>
  \<open>for _, x := range xs { g := groups[key(x)]; if g == nil { g = fresh(x) }; add(g, x) }\<close>
\<close>

definition accumulate :: "('x \<Rightarrow> 'k) \<Rightarrow> ('x \<Rightarrow> 'g) \<Rightarrow> ('x \<Rightarrow> 'g \<Rightarrow> 'g) \<Rightarrow> 'x list \<Rightarrow> ('k \<times> 'g) list" where
  "accumulate key fresh add xs = fold (\<lambda>x groups. AList.update (key x)
     (add x (case map_of groups (key x) of None \<Rightarrow> fresh x | Some g \<Rightarrow> g)) groups) xs []"

lemma accumulate_snoc: "accumulate key fresh add (xs @ [x]) = AList.update (key x)
    (add x (case map_of (accumulate key fresh add xs) (key x) of None \<Rightarrow> fresh x | Some g \<Rightarrow> g))
    (accumulate key fresh add xs)"
  by (simp add: accumulate_def)

lemma distinct_accumulate: "distinct (map fst (accumulate key fresh add xs))"
proof (induction xs rule: rev_induct)
  case Nil
  show ?case by (simp add: accumulate_def)
next
  case (snoc x xs)
  then show ?case by (simp add: accumulate_snoc distinct_update)
qed

lemma map_of_accumulate: "map_of (accumulate key fresh add xs) k =
    (case filter (\<lambda>x. key x = k) xs of [] \<Rightarrow> None | y # ys \<Rightarrow> Some (fold add (y # ys) (fresh y)))"
proof (induction xs arbitrary: k rule: rev_induct)
  case Nil
  show ?case by (simp add: accumulate_def)
next
  case (snoc x xs)
  show ?case
    by (cases "filter (\<lambda>x. key x = k) xs")
      (auto simp: accumulate_snoc map_of_update snoc.IH split: list.split)
qed

lemma accumulate_values: "g \<in> snd ` set (accumulate key fresh add xs) \<longleftrightarrow>
    (\<exists>k y ys. filter (\<lambda>x. key x = k) xs = y # ys \<and> g = fold add (y # ys) (fresh y))"
proof -
  have "g \<in> snd ` set (accumulate key fresh add xs) \<longleftrightarrow>
      (\<exists>k. map_of (accumulate key fresh add xs) k = Some g)"
    using distinct_accumulate [of key fresh add xs] by force
  also have "\<dots> \<longleftrightarrow> (\<exists>k y ys. filter (\<lambda>x. key x = k) xs = y # ys \<and> g = fold add (y # ys) (fresh y))"
    unfolding map_of_accumulate
  proof (rule ex_cong1)
    fix k
    show "(case filter (\<lambda>x. key x = k) xs of [] \<Rightarrow> None | y # ys \<Rightarrow> Some (fold add (y # ys) (fresh y)))
        = Some g \<longleftrightarrow> (\<exists>y ys. filter (\<lambda>x. key x = k) xs = y # ys \<and> g = fold add (y # ys) (fresh y))"
      by (cases "filter (\<lambda>x. key x = k) xs") auto
  qed
  finally show ?thesis .
qed

text \<open>The values are distinct when something recovers the key from each of them.\<close>

lemma distinct_values:
  assumes "distinct (map fst entries)" "\<And>k v. (k, v) \<in> set entries \<Longrightarrow> key v = k"
  shows "distinct (map snd entries)"
  using assms
proof (induction entries)
  case Nil
  show ?case by simp
next
  case (Cons e entries)
  have "snd e \<notin> snd ` set entries"
  proof
    assume "snd e \<in> snd ` set entries"
    then obtain k where "(k, snd e) \<in> set entries" by auto
    moreover then have "key (snd e) = k" "key (snd e) = fst e"
      using Cons.prems(2) [of k "snd e"] Cons.prems(2) [of "fst e" "snd e"] by simp_all
    ultimately show False using Cons.prems(1) by (auto simp: image_iff)
  qed
  moreover have "distinct (map snd entries)" using Cons by simp
  ultimately show ?case by simp
qed

end
