(* ===== verification/BatchPlanFacts.thy ===== *)
theory BatchPlanFacts
  imports BatchPlan TargetFacts GoMaps
begin

text \<open>
  Facts about the batch plan: keys tell entries apart, merging keeps the counts equal to the sums
  over the merged observations, no observation is lost or invented, and the plan does not depend
  on the order in which the code ranges over its map.
\<close>

section \<open>Keys and identifiers\<close>

lemma portText_inject [simp]: "portText p = portText q \<longleftrightarrow> p = q"
  by (simp add: portText_def word_unat_eq_iff)

lemma portText_no_NUL: "CHR 0x00 \<notin> set (portText p)"
  by (simp add: portText_def)

lemma planKey_alt: "planKey host service port = (host @ CHR 0x00 # service) @ CHR 0x00 # portText port"
  by (simp add: planKey_def)

lemma planKey_inject:
  assumes "planKey h s p = planKey h' s' p'" "CHR 0x00 \<notin> set s" "CHR 0x00 \<notin> set s'"
  shows "h = h' \<and> s = s' \<and> p = p'"
proof -
  from append_last_sep [OF assms(1) [unfolded planKey_alt] portText_no_NUL portText_no_NUL]
  have "h @ CHR 0x00 # s = h' @ CHR 0x00 # s'" "portText p = portText p'" by simp_all
  then show ?thesis using append_last_sep [OF _ assms(2,3)] by simp
qed

lemma decVal_zeros: "decVal (replicate k CHR ''0'' @ s) = decVal s"
proof (induction k)
  case 0
  show ?case by simp
next
  case (Suc k)
  have "digitVal CHR ''0'' = 0" by (simp add: digitVal_def byteOf_def)
  with Suc show ?case by (simp add: decVal_def)
qed

lemma entryID_inject [simp]: "entryID m = entryID n \<longleftrightarrow> m = n"
proof
  assume "entryID m = entryID n"
  then have "decVal (replicate (3 - length (itoa m)) CHR ''0'' @ itoa m) =
      decVal (replicate (3 - length (itoa n)) CHR ''0'' @ itoa n)"
    by (simp add: entryID_def)
  then show "m = n" by (simp add: decVal_zeros)
qed simp

section \<open>What an entry records\<close>

definition serviceKey :: "PlanEntry \<Rightarrow> string" where
  "serviceKey e = (if sp_ID (pe_Service e) = [] then ''unsupported'' else sp_ID (pe_Service e))"

definition entryTarget :: "PlanEntry \<Rightarrow> bool" where
  "entryTarget e \<longleftrightarrow> (case pe_Target e of
      None \<Rightarrow> pe_Unsupported e \<and> pe_UnsupportedReason e \<noteq> Supported
    | Some t \<Rightarrow> \<not> pe_Unsupported e \<and> ParseTarget (zero_TargetIntent\<lparr>ti_Input := tg_OriginalInput t,
          ti_Service := sp_ID (pe_Service e), ti_Port := Some (pe_Port e)\<rparr>) = Inr t
        \<and> tg_RequestedIdentity t = pe_RequestedIdentity e
        \<and> pe_RequestedHostname e = pe_RequestedIdentity e \<and> tg_Port t = pe_Port e
        \<and> sp_ID (tg_Service t) = sp_ID (pe_Service e))"

definition entryCounts :: "PlanEntry \<Rightarrow> bool" where
  "entryCounts e \<longleftrightarrow>
     pe_CaptureObservationCount e = sum_list (map bd_ObservationCount (pe_CaptureObservations e))
     \<and> pe_CaptureConnectionCount e = sum_list (map bd_ConnectionCount (pe_CaptureObservations e))
     \<and> pe_CaptureSuccessCount e = sum_list (map bd_SuccessCount (pe_CaptureObservations e))
     \<and> pe_CaptureFailureCount e = sum_list (map bd_FailureCount (pe_CaptureObservations e))"

definition entryOk :: "string \<Rightarrow> PlanEntry \<Rightarrow> bool" where
  "entryOk key e \<longleftrightarrow> key = planKey (pe_RequestedIdentity e) (serviceKey e) (pe_Port e)
     \<and> sp_ID (pe_Service e) \<in> {[], ServiceProfileHTTP, ServiceProfileHTTPS}
     \<and> entryTarget e \<and> entryCounts e \<and> pe_CaptureObservations e \<noteq> []
     \<and> pe_CaptureFailed e = list_ex captureFailed (pe_CaptureObservations e)"

lemma serviceForMechanism_cases:
  obtains s where "serviceForMechanism m = (sp_ID s, Inr s)" "sp_ID s \<in> {ServiceProfileHTTP, ServiceProfileHTTPS}"
      "LookupServiceProfile (sp_ID s) = Inr s"
  | "serviceForMechanism m = (''unsupported'', Inl (MechanismUnsupported m))"
proof -
  have found: "case LookupServiceProfile i of Inl e \<Rightarrow> False | Inr s \<Rightarrow> sp_ID s = i"
    if "i \<in> set [ServiceProfileHTTP, ServiceProfileHTTPS]" for i
  proof -
    have "list_all (\<lambda>i. case LookupServiceProfile i of Inl e \<Rightarrow> False | Inr s \<Rightarrow> sp_ID s = i)
        [ServiceProfileHTTP, ServiceProfileHTTPS]" by code_simp
    then show ?thesis using that by auto
  qed
  have ne: "BrowserCaptureMechanismCONNECT \<noteq> BrowserCaptureMechanismHTTP"
    by (simp add: BrowserCaptureMechanismCONNECT_def BrowserCaptureMechanismHTTP_def)
  show ?thesis
  proof (cases "m = BrowserCaptureMechanismHTTP \<or> m = BrowserCaptureMechanismCONNECT")
    case True
    then show ?thesis
      using that(1) found [of ServiceProfileHTTP] found [of ServiceProfileHTTPS] ne
      by (auto simp: serviceForMechanism_def Let_def split: sum.splits)
  next
    case False
    then show ?thesis using that(2) by (simp add: serviceForMechanism_def)
  qed
qed

text \<open>A fresh entry merged with its own destination, and an entry merged with another one.\<close>

lemma sum_zero: "(\<And>d. d \<in> set ds \<Longrightarrow> f d = 0) \<Longrightarrow> sum_list (map f ds) = (0 :: 64 word)"
  by (induction ds) auto

lemma failure_count_failed:
  assumes "sum_list (map bd_FailureCount ds) > 0"
  shows "list_ex captureFailed ds"
proof (rule ccontr)
  assume "\<not> list_ex captureFailed ds"
  then have "\<And>d. d \<in> set ds \<Longrightarrow> bd_FailureCount d = 0"
    by (auto simp: list_ex_iff captureFailed_def word_gt_0 split: if_splits)
  then show False using assms sum_zero [of ds bd_FailureCount] by simp
qed

lemma merge_fields [simp]:
  "pe_ID (mergePlanEntry e d r) = pe_ID e"
  "pe_RequestedHostname (mergePlanEntry e d r) = pe_RequestedHostname e"
  "pe_RequestedIdentity (mergePlanEntry e d r) = pe_RequestedIdentity e"
  "pe_Port (mergePlanEntry e d r) = pe_Port e" "pe_Service (mergePlanEntry e d r) = pe_Service e"
  "pe_Target (mergePlanEntry e d r) = pe_Target e"
  "pe_Unsupported (mergePlanEntry e d r) = pe_Unsupported e"
  "pe_UnsupportedReason (mergePlanEntry e d r) = pe_UnsupportedReason e"
  "pe_CaptureObservations (mergePlanEntry e d r) = pe_CaptureObservations e @ [d]"
  "pe_CaptureObservationCount (mergePlanEntry e d r) = pe_CaptureObservationCount e + bd_ObservationCount d"
  "pe_CaptureConnectionCount (mergePlanEntry e d r) = pe_CaptureConnectionCount e + bd_ConnectionCount d"
  "pe_CaptureSuccessCount (mergePlanEntry e d r) = pe_CaptureSuccessCount e + bd_SuccessCount d"
  "pe_CaptureFailureCount (mergePlanEntry e d r) = pe_CaptureFailureCount e + bd_FailureCount d"
  "pe_CaptureFailed (mergePlanEntry e d r) =
     (pe_CaptureFailureCount e + bd_FailureCount d > 0 \<or> captureFailed d \<or> pe_CaptureFailed e)"
  by (auto simp: mergePlanEntry_def Let_def)

lemma merge_target: "entryTarget e \<Longrightarrow> entryTarget (mergePlanEntry e d r)"
  unfolding entryTarget_def merge_fields .

lemma merge_counts: "entryCounts e \<Longrightarrow> entryCounts (mergePlanEntry e d r)"
  by (simp add: entryCounts_def)

lemma merge_failed:
  assumes "entryCounts e" "pe_CaptureFailed e = list_ex captureFailed (pe_CaptureObservations e)
      \<or> pe_CaptureFailed e = captureFailed d \<and> pe_CaptureObservations e = []"
  shows "pe_CaptureFailed (mergePlanEntry e d r) =
    list_ex captureFailed (pe_CaptureObservations (mergePlanEntry e d r))"
  using assms failure_count_failed [of "pe_CaptureObservations e @ [d]"]
  by (auto simp: entryCounts_def)

lemma entryOk_merge: "entryOk k e \<Longrightarrow> entryOk k (mergePlanEntry e d r)"
  using merge_failed [of e d r] merge_target [of e d r] merge_counts [of e d r]
  by (simp add: entryOk_def serviceKey_def)

text \<open>What \<open>planEntryForDestination\<close> returns, whichever of its three exits it takes.\<close>

lemma fresh_entry_all:
  assumes "planEntryForDestination r d m = (e, k)"
  shows "k = planKey (pe_RequestedIdentity e) (serviceKey e) (pe_Port e)
      \<and> sp_ID (pe_Service e) \<in> {[], ServiceProfileHTTP, ServiceProfileHTTPS}
      \<and> entryTarget e \<and> pe_CaptureObservations e = [] \<and> entryCounts e
      \<and> pe_CaptureFailed e = captureFailed d \<and> pe_ID e = [] \<and> pe_Port e = bd_Port d"
proof (cases rule: serviceForMechanism_cases [of m])
  case (1 s)
  let ?host = "toLower (trimSuffix ''.'' (trimSpace (bd_RequestedHostname d)))"
  let ?intent = "zero_TargetIntent\<lparr>ti_Input := ?host, ti_Service := sp_ID s, ti_Port := Some (bd_Port d)\<rparr>"
  have ne: "sp_ID s \<noteq> []" using 1(2) by (auto simp: ServiceProfileHTTP_def ServiceProfileHTTPS_def)
  show ?thesis
  proof (cases "ParseTarget ?intent")
    case (Inl x)
    then show ?thesis using assms 1 ne
      by (auto simp: planEntryForDestination_def Let_def serviceKey_def entryTarget_def entryCounts_def)
  next
    case (Inr t)
    have "tg_Port t = bd_Port d" "tg_OriginalInput t = ?host" "tg_Service t = s"
      using ParseTarget_shape(6-8) [OF Inr] ne 1(3)
      by (simp_all add: zero_TargetIntent_def)
    then show ?thesis using assms 1 ne Inr
      by (auto simp: planEntryForDestination_def Let_def serviceKey_def entryTarget_def entryCounts_def)
  qed
next
  case 2
  then show ?thesis using assms
    by (auto simp: planEntryForDestination_def Let_def serviceKey_def entryTarget_def
        entryCounts_def zero_ServiceProfile_def)
qed

lemma fresh_entry:
  assumes "planEntryForDestination r d m = (e, k)"
  shows "k = planKey (pe_RequestedIdentity e) (serviceKey e) (pe_Port e)"
    "sp_ID (pe_Service e) \<in> {[], ServiceProfileHTTP, ServiceProfileHTTPS}"
    "entryTarget e" "pe_CaptureObservations e = []" "entryCounts e"
    "pe_CaptureFailed e = captureFailed d" "pe_ID e = []" "pe_Port e = bd_Port d"
  using fresh_entry_all [OF assms] by blast+

lemma entryOk_fresh:
  assumes "planEntryForDestination r d m = (e, k)"
  shows "entryOk k (mergePlanEntry e d r)"
  using fresh_entry [OF assms] merge_failed [of e d r] merge_target [of e d r] merge_counts [of e d r]
  by (simp add: entryOk_def serviceKey_def)

section \<open>The map of entries\<close>

definition entriesOk :: "BrowserCaptureDestination set \<Rightarrow> (string \<times> PlanEntry) list \<Rightarrow> bool" where
  "entriesOk seen entries \<longleftrightarrow> distinct (map fst entries) \<and> (\<forall>k e. map_of entries k = Some e \<longrightarrow>
     entryOk k e \<and> pe_ID e = [] \<and> set (pe_CaptureObservations e) \<subseteq> seen)"

lemma entriesOk_mono: "entriesOk seen entries \<Longrightarrow> seen \<subseteq> seen' \<Longrightarrow> entriesOk seen' entries"
  unfolding entriesOk_def by blast

lemma entriesOk_update:
  assumes "entriesOk seen entries" "entryOk k e" "pe_ID e = []" "set (pe_CaptureObservations e) \<subseteq> seen"
  shows "entriesOk seen (AList.update k e entries)"
  unfolding entriesOk_def
proof (intro conjI allI impI)
  show "distinct (map fst (AList.update k e entries))"
    using assms(1) by (intro distinct_update) (simp add: entriesOk_def)
  fix k' e' assume "map_of (AList.update k e entries) k' = Some e'"
  then have "k' = k \<and> e' = e \<or> map_of entries k' = Some e'"
    by (simp only: map_of_update fun_upd_apply split: if_splits) simp_all
  then show "entryOk k' e'" "pe_ID e' = []" "set (pe_CaptureObservations e') \<subseteq> seen"
    using assms unfolding entriesOk_def by blast+
qed

text \<open>One step either skips the destination or merges it into the entry of its key.\<close>

lemma addMechanism_cases:
  assumes "planEntryForDestination r d m = (e, k)"
  shows "addMechanism r sel names d m entries =
    (if selectedDestination e sel names
     then AList.update k (mergePlanEntry (case map_of entries k of None \<Rightarrow> e | Some c \<Rightarrow> c) d r) entries
     else entries)"
  using assms by (simp add: addMechanism_def Let_def)

lemma entriesOk_addMechanism:
  assumes ok: "entriesOk seen entries" and d: "d \<in> seen"
  shows "entriesOk seen (addMechanism r sel names d m entries)"
proof -
  obtain e k where ek: "planEntryForDestination r d m = (e, k)" by fastforce
  let ?c = "case map_of entries k of None \<Rightarrow> e | Some c \<Rightarrow> c"
  have "entryOk k (mergePlanEntry ?c d r) \<and> pe_ID ?c = []
      \<and> set (pe_CaptureObservations (mergePlanEntry ?c d r)) \<subseteq> seen"
  proof (cases "map_of entries k")
    case None
    then show ?thesis using entryOk_fresh [OF ek] fresh_entry(4,7) [OF ek] d by simp
  next
    case (Some c)
    then have "entryOk k c" "pe_ID c = []" "set (pe_CaptureObservations c) \<subseteq> seen"
      using ok by (auto simp: entriesOk_def)
    then show ?thesis using Some entryOk_merge d by simp
  qed
  then show ?thesis
    using ok entriesOk_update unfolding addMechanism_cases [OF ek] by simp
qed

lemma entriesOk_addDestination:
  assumes "entriesOk seen entries" "d \<in> seen"
  shows "entriesOk seen (addDestination r sel names d entries)"
proof -
  have clone: "cloneCaptureDestination d = d" by (simp add: cloneCaptureDestination_def)
  have "entriesOk seen (fold (addMechanism r sel names d) ms entries)" for ms
    using assms(1) by (induction ms arbitrary: entries) (simp_all add: entriesOk_addMechanism assms(2))
  then show ?thesis by (simp add: addDestination_def clone)
qed

lemma entriesOk_planEntries: "entriesOk (set ds) (planEntries r sel names ds)"
proof -
  have "entriesOk seen (fold (addDestination r sel names) ds entries)"
    if "entriesOk seen entries" "set ds \<subseteq> seen" for seen entries
    using that by (induction ds arbitrary: entries) (simp_all add: entriesOk_addDestination)
  moreover have "entriesOk (set ds) []" by (simp add: entriesOk_def)
  ultimately show ?thesis by (simp add: planEntries_def)
qed

section \<open>Nothing selected is lost\<close>

definition recorded :: "BrowserCaptureDestination \<Rightarrow> (string \<times> PlanEntry) list \<Rightarrow> bool" where
  "recorded d entries \<longleftrightarrow> (\<exists>k e. map_of entries k = Some e \<and> d \<in> set (pe_CaptureObservations e))"

lemma recorded_addMechanism:
  "recorded x entries \<Longrightarrow> recorded x (addMechanism r sel names d m entries)"
proof -
  assume "recorded x entries"
  then obtain k' e' where old: "map_of entries k' = Some e'" "x \<in> set (pe_CaptureObservations e')"
    by (auto simp: recorded_def)
  obtain e k where ek: "planEntryForDestination r d m = (e, k)" by fastforce
  let ?upd = "AList.update k (mergePlanEntry (case map_of entries k of None \<Rightarrow> e | Some c \<Rightarrow> c) d r) entries"
  have "recorded x ?upd"
  proof (cases "k' = k")
    case True
    then show ?thesis using old unfolding recorded_def map_of_update by (intro exI [of _ k]) auto
  next
    case False
    then show ?thesis using old unfolding recorded_def map_of_update by (intro exI [of _ k']) auto
  qed
  then show ?thesis using \<open>recorded x entries\<close> unfolding addMechanism_cases [OF ek] by simp
qed

lemma recorded_addMechanism_new:
  assumes "selectedDestination (fst (planEntryForDestination r d m)) sel names"
  shows "recorded d (addMechanism r sel names d m entries)"
proof -
  obtain e k where ek: "planEntryForDestination r d m = (e, k)" by fastforce
  then have "addMechanism r sel names d m entries = AList.update k
      (mergePlanEntry (case map_of entries k of None \<Rightarrow> e | Some c \<Rightarrow> c) d r) entries"
    using assms addMechanism_cases [OF ek, of sel names entries] by simp
  then show ?thesis unfolding recorded_def by (intro exI [of _ k]) (simp add: map_of_update)
qed

lemma recorded_mechanisms:
  "recorded x entries \<Longrightarrow> recorded x (fold (addMechanism r sel names d) ms entries)"
  by (induction ms arbitrary: entries) (simp_all add: recorded_addMechanism)

lemma recorded_addDestination:
  "recorded x entries \<Longrightarrow> recorded x (addDestination r sel names d entries)"
  by (simp add: addDestination_def recorded_mechanisms Let_def)

lemma destinationMechanisms_not_Nil: "destinationMechanisms d \<noteq> []"
  by (simp add: destinationMechanisms_def Let_def)

lemma recorded_addDestination_new:
  assumes "\<And>m. selectedDestination (fst (planEntryForDestination r d m)) sel names"
  shows "recorded d (addDestination r sel names d entries)"
proof -
  have clone: "cloneCaptureDestination d = d" by (simp add: cloneCaptureDestination_def)
  obtain m ms where "destinationMechanisms d = m # ms"
    using destinationMechanisms_not_Nil [of d] by (cases "destinationMechanisms d") auto
  then show ?thesis
    using recorded_mechanisms [OF recorded_addMechanism_new [OF assms]]
    by (simp add: addDestination_def clone Let_def)
qed

lemma recorded_planEntries:
  assumes "d \<in> set ds" "\<And>m. selectedDestination (fst (planEntryForDestination r d m)) sel names"
  shows "recorded d (planEntries r sel names ds)"
proof -
  have keep: "recorded x entries \<Longrightarrow> recorded x (fold (addDestination r sel names) ds entries)"
    for x ds entries by (induction ds arbitrary: entries) (simp_all add: recorded_addDestination)
  have "recorded d (fold (addDestination r sel names) ds entries)" for entries
    using assms(1)
  proof (induction ds arbitrary: entries)
    case Nil
    then show ?case by simp
  next
    case (Cons x xs)
    then show ?case
      using keep [OF recorded_addDestination_new [OF assms(2)], of xs entries] by auto
  qed
  then show ?thesis by (simp add: planEntries_def)
qed

section \<open>Order\<close>

interpretation plan_less: go_less planLess
proof
  fix x y
  show "planLess x y \<Longrightarrow> \<not> planLess y x"
    by (auto simp: planLess_def dest: less_asym split: if_splits)
next
  fix x y z
  assume "\<not> planLess x y" "\<not> planLess y z"
  then show "\<not> planLess x z" unfolding planLess_def by (auto split: if_splits)
qed

lemma planLess_tie:
  "\<not> planLess a b \<Longrightarrow> \<not> planLess b a \<Longrightarrow> pe_RequestedIdentity a = pe_RequestedIdentity b
    \<and> sp_ID (pe_Service a) = sp_ID (pe_Service b) \<and> pe_Port a = pe_Port b"
  by (auto simp: planLess_def split: if_splits)

lemma serviceKey_eq: "sp_ID (pe_Service a) = sp_ID (pe_Service b) \<Longrightarrow> serviceKey a = serviceKey b"
  by (simp add: serviceKey_def)

lemma entries_no_ties:
  assumes ok: "entriesOk seen entries" and "a \<in> snd ` set entries" "b \<in> snd ` set entries"
    "\<not> planLess a b" "\<not> planLess b a"
  shows "a = b"
proof -
  have d: "distinct (map fst entries)" using ok by (simp add: entriesOk_def)
  obtain k l where "(k, a) \<in> set entries" "(l, b) \<in> set entries" using assms(2,3) by auto
  then have kl: "map_of entries k = Some a" "map_of entries l = Some b" using d by simp_all
  then have "entryOk k a" "entryOk l b" using ok unfolding entriesOk_def by blast+
  then have "k = l"
    using planLess_tie [OF assms(4,5)] serviceKey_eq [of a b] by (simp add: entryOk_def)
  then show ?thesis using kl by simp
qed

lemma entries_values_distinct:
  assumes ok: "entriesOk seen entries"
  shows "distinct (map snd entries)"
proof -
  have d: "distinct (map fst entries)" using ok by (simp add: entriesOk_def)
  have "inj_on snd (set entries)"
  proof (rule inj_onI)
    fix x y assume x: "x \<in> set entries" and y: "y \<in> set entries" and eq: "snd x = snd y"
    have "map_of entries (fst x) = Some (snd x)" "map_of entries (fst y) = Some (snd y)"
      using x y d by simp_all
    then have "entryOk (fst x) (snd x)" "entryOk (fst y) (snd x)"
      using ok eq unfolding entriesOk_def by metis+
    then have "fst x = fst y" by (simp add: entryOk_def)
    then show "x = y" using eq by (simp add: prod_eq_iff)
  qed
  then show ?thesis using d by (simp add: distinct_map)
qed

text \<open>The sorted entries, whatever the order of the code's range over the map.\<close>

lemma sorted_entries_arrangement:
  assumes ok: "entriesOk seen entries" and perm: "mset (arrange (map snd entries)) = mset (map snd entries)"
  shows "sortBy planLess (arrange (map snd entries)) = sortBy planLess (map snd entries)"
  by (rule plan_less.sortBy_range [OF perm entries_values_distinct [OF ok]])
    (rule entries_no_ties [OF ok], simp_all)

lemma sorted_entries_strict:
  assumes ok: "entriesOk seen entries"
  shows "sorted_wrt planLess (sortBy planLess (map snd entries))"
  by (rule plan_less.strict_sortBy [OF entries_values_distinct [OF ok]])
    (rule entries_no_ties [OF ok], simp_all)

section \<open>The finished plan\<close>

definition numberEntries :: "PlanEntry list \<Rightarrow> PlanEntry list" where
  "numberEntries xs = map (\<lambda>(i, e). e\<lparr>pe_ID := entryID (i + 1)\<rparr>) (enumerate 0 xs)"

lemma length_numberEntries [simp]: "length (numberEntries xs) = length xs"
  by (simp add: numberEntries_def)

lemma nth_numberEntries: "i < length xs \<Longrightarrow> numberEntries xs ! i = (xs ! i)\<lparr>pe_ID := entryID (Suc i)\<rparr>"
  by (simp add: numberEntries_def nth_enumerate_eq)

lemma numberEntries_ids: "map pe_ID (numberEntries xs) = map entryID [1..<Suc (length xs)]"
  by (rule nth_equalityI) (simp_all del: upt_Suc add: nth_numberEntries)

lemma planLess_ids: "planLess (a\<lparr>pe_ID := i\<rparr>) (b\<lparr>pe_ID := j\<rparr>) = planLess a b"
  by (simp add: planLess_def)

lemma numberEntries_strict: "sorted_wrt planLess xs \<Longrightarrow> sorted_wrt planLess (numberEntries xs)"
  by (simp add: sorted_wrt_iff_nth_less nth_numberEntries planLess_ids)

lemma numberEntries_set: "e \<in> set (numberEntries xs) \<Longrightarrow> \<exists>e0\<in>set xs. \<exists>i. e = e0\<lparr>pe_ID := i\<rparr>"
  by (metis in_set_conv_nth length_numberEntries nth_numberEntries)

lemma numberEntries_set': "e0 \<in> set xs \<Longrightarrow> \<exists>i. e0\<lparr>pe_ID := i\<rparr> \<in> set (numberEntries xs)"
  by (metis in_set_conv_nth length_numberEntries nth_numberEntries)

lemma BuildPlan_Inr:
  assumes "BuildPlan arrange report request = Inr plan"
  obtains observation selection where "ob_BrowserCapture (br_Observations report) = Some observation"
    "normalizeSelection (rq_Selection request) = Inr selection" "pl_Selection plan = selection"
    "pl_Entries plan = numberEntries (sortBy planLess (arrange (map snd
       (planEntries report selection (rq_Selected request) (bo_Destinations observation)))))"
    "pl_Entries plan \<noteq> []"
  using assms by (auto simp: BuildPlan_def numberEntries_def Let_def
      split: option.splits sum.splits if_splits)

text \<open>the plan is deterministic. The code ranges over a Go map, whose order is arbitrary; no
  arrangement of the map's entries changes the plan, because the keys that tell entries apart are
  exactly what the final sort compares.\<close>

theorem BuildPlan_deterministic:
  assumes "\<And>xs. mset (arrange xs) = mset xs"
  shows "BuildPlan arrange report request = BuildPlan id report request"
proof -
  have "sortBy planLess (arrange (map snd (planEntries report sel names ds))) =
      sortBy planLess (map snd (planEntries report sel names ds))" for sel names ds
    by (rule sorted_entries_arrangement [OF entriesOk_planEntries]) (rule assms)
  note eq = this
  show ?thesis unfolding BuildPlan_def Let_def eq id_apply by (rule refl)
qed

text \<open>The plan is in order. Its entries strictly increase in identity, service and port, so no
  endpoint is diagnosed twice, and they are numbered endpoint-001, endpoint-002 and so on without
  a repetition.\<close>

theorem BuildPlan_ordered:
  assumes "BuildPlan arrange report request = Inr plan" "\<And>xs. mset (arrange xs) = mset xs"
  shows "sorted_wrt planLess (pl_Entries plan) \<and> distinct (map pe_ID (pl_Entries plan))
    \<and> map pe_ID (pl_Entries plan) = map entryID [1..<Suc (length (pl_Entries plan))]
    \<and> pl_Entries plan \<noteq> []"
proof (rule BuildPlan_Inr [OF assms(1)])
  fix observation selection
  let ?es = "planEntries report selection (rq_Selected request) (bo_Destinations observation)"
  assume entries: "pl_Entries plan = numberEntries (sortBy planLess (arrange (map snd ?es)))"
    and ne: "pl_Entries plan \<noteq> []"
  have "sortBy planLess (arrange (map snd ?es)) = sortBy planLess (map snd ?es)"
    by (rule sorted_entries_arrangement [OF entriesOk_planEntries]) (rule assms(2))
  then have "sorted_wrt planLess (pl_Entries plan)"
    using entries numberEntries_strict [OF sorted_entries_strict [OF entriesOk_planEntries]] by simp
  moreover have ids: "map pe_ID (pl_Entries plan) = map entryID [1..<Suc (length (pl_Entries plan))]"
    unfolding entries by (subst numberEntries_ids) simp
  moreover have "distinct (map entryID [1..<n])" for n by (simp add: distinct_map inj_on_def)
  then have "distinct (map pe_ID (pl_Entries plan))" by (simp only: ids)
  ultimately show ?thesis using ne by blast
qed

lemma entryOk_id: "entryOk k e \<Longrightarrow> entryOk k (e\<lparr>pe_ID := i\<rparr>)"
  by (simp add: entryOk_def entryTarget_def entryCounts_def serviceKey_def split: option.splits)

lemma plan_entries_ok:
  assumes "BuildPlan arrange report request = Inr plan" "\<And>xs. mset (arrange xs) = mset xs"
    "ob_BrowserCapture (br_Observations report) = Some observation" "e \<in> set (pl_Entries plan)"
  shows "\<exists>k. entryOk k e" "set (pe_CaptureObservations e) \<subseteq> set (bo_Destinations observation)"
proof (atomize (full), rule BuildPlan_Inr [OF assms(1)])
  fix obs selection
  assume "ob_BrowserCapture (br_Observations report) = Some obs"
  then have obs: "obs = observation" using assms(3) by simp
  let ?es = "planEntries report selection (rq_Selected request) (bo_Destinations observation)"
  assume "pl_Entries plan = numberEntries (sortBy planLess (arrange (map snd
      (planEntries report selection (rq_Selected request) (bo_Destinations obs)))))"
  then obtain e0 i where e: "e0 \<in> set (arrange (map snd ?es))" "e = e0\<lparr>pe_ID := i\<rparr>"
    using numberEntries_set assms(4) obs by force
  have ok: "entriesOk (set (bo_Destinations observation)) ?es" by (rule entriesOk_planEntries)
  have "e0 \<in> snd ` set ?es"
    using e(1) mset_eq_setD [OF assms(2), of "map snd ?es"] by simp
  then obtain k where "(k, e0) \<in> set ?es" by auto
  then have "map_of ?es k = Some e0" using ok by (simp add: entriesOk_def)
  then have "entryOk k e0" "set (pe_CaptureObservations e0) \<subseteq> set (bo_Destinations observation)"
    using ok unfolding entriesOk_def by blast+
  then show "(\<exists>k. entryOk k e) \<and> set (pe_CaptureObservations e) \<subseteq> set (bo_Destinations observation)"
    unfolding e(2) by (intro conjI exI [of _ k] entryOk_id) simp_all
qed


lemma selected_all: "selectedDestination e SelectionAll names"
  by (simp add: selectedDestination_def)

lemma selected_failed:
  "captureFailed d \<Longrightarrow> selectedDestination (fst (planEntryForDestination r d m)) SelectionFailedOnly names"
proof -
  obtain e k where ek: "planEntryForDestination r d m = (e, k)" by fastforce
  have "SelectionFailedOnly \<noteq> SelectionAll" by (simp add: SelectionFailedOnly_def SelectionAll_def)
  then show "captureFailed d \<Longrightarrow> ?thesis"
    using fresh_entry(6) [OF ek] ek by (simp add: selectedDestination_def)
qed

text \<open>no captured endpoint disappears. When everything is selected, every captured destination
  is an observation of some entry of the plan, unsupported ones included; when only failures are
  selected, every failed one is.\<close>

theorem BuildPlan_complete:
  assumes "BuildPlan arrange report request = Inr plan" "\<And>xs. mset (arrange xs) = mset xs"
    "ob_BrowserCapture (br_Observations report) = Some observation"
    "d \<in> set (bo_Destinations observation)"
    "pl_Selection plan = SelectionAll \<or> pl_Selection plan = SelectionFailedOnly \<and> captureFailed d"
  shows "\<exists>e\<in>set (pl_Entries plan). d \<in> set (pe_CaptureObservations e)"
proof (rule BuildPlan_Inr [OF assms(1)])
  fix obs selection
  assume "ob_BrowserCapture (br_Observations report) = Some obs" and sel: "pl_Selection plan = selection"
  then have obs: "obs = observation" using assms(3) by simp
  let ?es = "planEntries report selection (rq_Selected request) (bo_Destinations observation)"
  assume entries: "pl_Entries plan = numberEntries (sortBy planLess (arrange (map snd
      (planEntries report selection (rq_Selected request) (bo_Destinations obs)))))"
  have "recorded d ?es"
    using recorded_planEntries [OF assms(4)] selected_all selected_failed assms(5) sel by metis
  then obtain k e where "map_of ?es k = Some e" "d \<in> set (pe_CaptureObservations e)"
    by (auto simp: recorded_def)
  then have "e \<in> set (sortBy planLess (arrange (map snd ?es)))"
    using mset_eq_setD [OF assms(2), of "map snd ?es"] by (force dest: map_of_SomeD)
  then obtain i where "e\<lparr>pe_ID := i\<rparr> \<in> set (pl_Entries plan)"
    using numberEntries_set' [of e "sortBy planLess (arrange (map snd ?es))"] unfolding entries obs by fast
  then show ?thesis using \<open>d \<in> set (pe_CaptureObservations e)\<close> by (intro bexI) auto
qed

section \<open>Samples, and two behaviours that the comments do not say\<close>

definition sampleDestination :: BrowserCaptureDestination where
  "sampleDestination = zero_BrowserCaptureDestination\<lparr>bd_RequestedHostname := ''db.test'',
     bd_Port := 443, bd_Mechanism := BrowserCaptureMechanismCONNECT,
     bd_Outcome := BrowserCaptureOutcomeFailed, bd_ObservationCount := 2\<rparr>"

definition sampleCapture :: "BrowserCaptureDestination \<Rightarrow> BrowserCaptureReport" where
  "sampleCapture d = zero_BrowserCaptureReport\<lparr>br_Observations := zero_Observations\<lparr>
     ob_BrowserCapture := Some (zero_BrowserCaptureObservation\<lparr>bo_Destinations := [d]\<rparr>)\<rparr>\<rparr>"

definition requestFor :: "string \<Rightarrow> string list \<Rightarrow> Request" where
  "requestFor selection selected =
     \<lparr>rq_Selection = selection, rq_Selected = selected, rq_Concurrency = 0\<rparr>"

definition planIDs :: "planError + Plan \<Rightarrow> string list" where
  "planIDs r = (case r of Inl e \<Rightarrow> [] | Inr plan \<Rightarrow> map pe_ID (pl_Entries plan))"

text \<open>A plan identifier selects nothing. The request's comment says that selected values may be
  plan IDs, but identifiers are assigned only after the selection: the plan of a capture lists
  endpoint-001, and selecting endpoint-001 from the same capture fails as an empty plan.\<close>

theorem plan_id_selects_nothing:
  "planIDs (BuildPlan id (sampleCapture sampleDestination) (requestFor [] [])) = [''endpoint-001'']
   \<and> BuildPlan id (sampleCapture sampleDestination) (requestFor SelectionSelected [''endpoint-001'']) =
     Inl ErrEmptyValidationPlan"
  by code_simp

definition oddDestination :: BrowserCaptureDestination where
  "oddDestination = sampleDestination\<lparr>bd_Mechanism := ''socks'', bd_Mechanisms := [''ftp'']\<rparr>"

text \<open>One destination with two unsupported mechanisms is counted twice: both mechanisms have
  the same key, so the destination is merged into the one entry once for each.\<close>

theorem unsupported_counted_twice:
  "(case BuildPlan id (sampleCapture oddDestination) (requestFor [] []) of
      Inl e \<Rightarrow> False
    | Inr plan \<Rightarrow> map pe_CaptureObservationCount (pl_Entries plan) = [2 * bd_ObservationCount oddDestination]
        \<and> map (\<lambda>e. length (pe_CaptureObservations e)) (pl_Entries plan) = [2])"
  by code_simp

section \<open>The properties at the sample capture\<close>

definition samplePlan :: Plan where
  "samplePlan = projr (BuildPlan rev (sampleCapture sampleDestination) (requestFor [] []))"

lemma samplePlan_checks:
  "(case BuildPlan rev (sampleCapture sampleDestination) (requestFor [] []) of
      Inl e \<Rightarrow> False
    | Inr plan \<Rightarrow> pl_Selection plan = SelectionAll
        \<and> (case pl_Entries plan of [] \<Rightarrow> False | e # es \<Rightarrow> length (pe_CaptureObservations e) = 1))"
  by code_simp

lemma samplePlan: "BuildPlan rev (sampleCapture sampleDestination) (requestFor [] []) = Inr samplePlan"
  using samplePlan_checks by (simp add: samplePlan_def split: sum.splits)

lemma samplePlan_values:
  "pl_Selection samplePlan = SelectionAll" "pl_Entries samplePlan \<noteq> []"
  "length (pe_CaptureObservations (hd (pl_Entries samplePlan))) = 1"
  using samplePlan_checks by (simp_all add: samplePlan split: list.splits)

lemma samplePlan_entry: "hd (pl_Entries samplePlan) \<in> set (pl_Entries samplePlan)"
  using samplePlan_values(2) by simp

lemma sampleCapture_observation: "ob_BrowserCapture (br_Observations (sampleCapture d)) =
    Some (zero_BrowserCaptureObservation\<lparr>bo_Destinations := [d]\<rparr>)"
  by (simp add: sampleCapture_def)

theorem BuildPlan_deterministic_witness:
  "BuildPlan rev (sampleCapture sampleDestination) (requestFor [] []) =
   BuildPlan id (sampleCapture sampleDestination) (requestFor [] [])"
  by (rule BuildPlan_deterministic) simp

theorem BuildPlan_ordered_witness:
  "sorted_wrt planLess (pl_Entries samplePlan) \<and> distinct (map pe_ID (pl_Entries samplePlan))
    \<and> map pe_ID (pl_Entries samplePlan) = map entryID [1..<Suc (length (pl_Entries samplePlan))]
    \<and> pl_Entries samplePlan \<noteq> []"
  by (rule BuildPlan_ordered [OF samplePlan]) simp


theorem BuildPlan_complete_witness:
  "\<exists>e\<in>set (pl_Entries samplePlan). sampleDestination \<in> set (pe_CaptureObservations e)"
proof -
  show ?thesis
    using samplePlan_values(1) BuildPlan_complete [OF samplePlan _ sampleCapture_observation, of sampleDestination] by simp
qed

end
