(* ===== verification/Normalize.thy ===== *)
theory Normalize
  imports Target ModelReportTypes
begin

text \<open>
  Normalisation of the report-level observations: \<open>NormalizeObservations\<close> of
  \<open>internal/model/observations.go\<close> and the functions it calls, from \<open>name_resolution.go\<close>,
  \<open>transport_observations.go\<close>, \<open>enterprise.go\<close> and \<open>environment.go\<close>; the policy-rule match of
  \<open>name_resolution.go\<close>; the path correlation of \<open>path.go\<close>; and the normalisation of packet
  observations of \<open>packet.go\<close>.

  The \<open>clone\<close> functions of the source copy slices so that the result shares no memory with the
  argument. A value of this model has no sharing, so a copy \<open>append([]T(nil), xs...)\<close> is the same
  list; the definitions still name every field that the code copies, in the code's order. The
  time of an observation is an instant, on which \<open>UTC()\<close> does nothing.
\<close>

section \<open>Name resolution\<close>

definition normalizeNameValue :: "string \<Rightarrow> string" where
  "normalizeNameValue value = toLower (trimSuffix ''.'' (trimSpace value))"

definition normalizeAddressText :: "string \<Rightarrow> string" where
  "normalizeAddressText value0 =
     (let value = trimSet ''[]'' (trimSpace value0) in
      case parseAddr value of Some address \<Rightarrow> addrString (NormalizeAddr address) | None \<Rightarrow> value)"

text \<open>
  The loop that the three \<open>unique...Values\<close> functions share: normalise every value, skip the
  empty ones and those already seen.
\<close>

definition uniqueNormalized :: "(string \<Rightarrow> string) \<Rightarrow> string list \<Rightarrow> string list" where
  "uniqueNormalized f values = uniqueBy id [] (filter (\<lambda>v. v \<noteq> []) (map f values))"

definition uniqueIPValues :: "string list \<Rightarrow> string list" where
  "uniqueIPValues = uniqueNormalized normalizeAddressText"

definition uniqueNameValues :: "string list \<Rightarrow> string list" where
  "uniqueNameValues = uniqueNormalized normalizeNameValue"

definition uniqueStringValues :: "string list \<Rightarrow> string list" where
  "uniqueStringValues = uniqueNormalized trimSpace"

definition normalizeNameResolutionPath :: "NameResolutionPath \<Rightarrow> NameResolutionPath" where
  "normalizeNameResolutionPath path = path\<lparr>
     nrp_Resolver := normalizeAddressText (nrp_Resolver path),
     nrp_A := uniqueIPValues (nrp_A path),
     nrp_AAAA := uniqueIPValues (nrp_AAAA path),
     nrp_Namespaces := uniqueNameValues (nrp_Namespaces path),
     nrp_Namespace := normalizeNameValue (nrp_Namespace path),
     nrp_EvidenceIDs := uniqueStringValues (nrp_EvidenceIDs path)\<rparr>"

definition normalizeHostEntry :: "NameResolutionHostEntry \<Rightarrow> NameResolutionHostEntry" where
  "normalizeHostEntry e = e\<lparr>
     nrh_Name := normalizeNameValue (nrh_Name e),
     nrh_Addresses := uniqueIPValues (nrh_Addresses e)\<rparr>"

definition NormalizeNameResolutionObservation ::
    "NameResolutionObservation \<Rightarrow> NameResolutionObservation" where
  "NormalizeNameResolutionObservation observation = observation\<lparr>
     nro_RequestedName := normalizeNameValue (nro_RequestedName observation),
     nro_CandidateNames := uniqueNameValues (nro_CandidateNames observation),
     nro_CandidateSuffixes := uniqueNameValues (nro_CandidateSuffixes observation),
     nro_CandidateNamespaces := uniqueNameValues (nro_CandidateNamespaces observation),
     nro_A := uniqueIPValues (nro_A observation),
     nro_AAAA := uniqueIPValues (nro_AAAA observation),
     nro_SelectedAddress := normalizeAddressText (nro_SelectedAddress observation),
     nro_Limitations := uniqueStringValues (nro_Limitations observation),
     nro_EvidenceIDs := uniqueStringValues (nro_EvidenceIDs observation),
     nro_Provenance := uniqueStringValues (nro_Provenance observation),
     nro_ProbeNames := uniqueStringValues (nro_ProbeNames observation),
     nro_Conflicts := cloneObservationConflicts (nro_Conflicts observation),
     nro_Paths := map normalizeNameResolutionPath (nro_Paths observation),
     nro_EffectivePath := map_option normalizeNameResolutionPath (nro_EffectivePath observation),
     nro_HostsFileEntries := map normalizeHostEntry (nro_HostsFileEntries observation)\<rparr>"

definition nameMatchesNamespace :: "string \<Rightarrow> string \<Rightarrow> bool" where
  "nameMatchesNamespace name0 namespace0 =
     (let name = normalizeNameValue name0;
          namespace = trimPrefix ''.'' (normalizeNameValue namespace0) in
      if namespace = [] then False
      else name = namespace \<or> hasSuffix (''.'' @ namespace) name)"

definition longestNamespace :: "NameResolutionPolicyRule \<Rightarrow> nat" where
  "longestNamespace rule =
     fold (\<lambda>namespace longest. max longest (length (normalizeNameValue namespace)))
       (nrr_Namespaces rule) 0"

definition policyKey :: "NameResolutionPolicyRule \<Rightarrow> string" where
  "policyKey rule = nrr_Source rule @ [CHR 0x00] @ nrr_RuleID rule"

definition policyLess :: "NameResolutionPolicyRule \<Rightarrow> NameResolutionPolicyRule \<Rightarrow> bool" where
  "policyLess a b =
     (let left = longestNamespace a; right = longestNamespace b in
      if left \<noteq> right then left > right
      else if nrr_Source a \<noteq> nrr_Source b then nrr_Source a < nrr_Source b
      else nrr_RuleID a < nrr_RuleID b)"

definition NameResolutionPoliciesForNames ::
    "string list \<Rightarrow> NameResolutionPolicyRule list \<Rightarrow> NameResolutionPolicyRule list" where
  "NameResolutionPoliciesForNames names rules =
     (let normalizedNames = uniqueNameValues names;
          matches = uniqueBy policyKey []
            (concat (map (\<lambda>name. filter (\<lambda>rule. list_ex (nameMatchesNamespace name) (nrr_Namespaces rule)) rules)
               normalizedNames)) in
      sortBy policyLess matches)"

definition NameResolutionPoliciesForName ::
    "string \<Rightarrow> NameResolutionPolicyRule list \<Rightarrow> NameResolutionPolicyRule list" where
  "NameResolutionPoliciesForName name rules = NameResolutionPoliciesForNames [name] rules"

section \<open>Endpoints, transport, security and application\<close>

definition cloneCandidate :: "EndpointCandidate \<Rightarrow> EndpointCandidate" where
  "cloneCandidate v = v\<lparr>ec_EvidenceIDs := [] @ ec_EvidenceIDs v\<rparr>"

definition cloneEndpointCandidates :: "EndpointCandidate list \<Rightarrow> EndpointCandidate list" where
  "cloneEndpointCandidates values = map cloneCandidate values"

definition cloneAttempt :: "EndpointAttempt \<Rightarrow> EndpointAttempt" where
  "cloneAttempt v = v\<lparr>
     ea_Candidate := cloneCandidate (ea_Candidate v), ea_EvidenceIDs := [] @ ea_EvidenceIDs v\<rparr>"

definition cloneEndpointAttempts :: "EndpointAttempt list \<Rightarrow> EndpointAttempt list" where
  "cloneEndpointAttempts values = map cloneAttempt values"

definition normalizeEndpointObservation :: "EndpointObservation \<Rightarrow> EndpointObservation" where
  "normalizeEndpointObservation endpoint = endpoint\<lparr>
     eo_Service := cloneServiceProfile (eo_Service endpoint),
     eo_ResolvedCandidates := cloneEndpointCandidates (eo_ResolvedCandidates endpoint),
     eo_ProbeCandidates := cloneEndpointCandidates (eo_ProbeCandidates endpoint),
     eo_CandidateAttempts := cloneEndpointAttempts (eo_CandidateAttempts endpoint),
     eo_Provenance := [] @ eo_Provenance endpoint,
     eo_ProbeNames := [] @ eo_ProbeNames endpoint,
     eo_EvidenceIDs := [] @ eo_EvidenceIDs endpoint,
     eo_Limitations := [] @ eo_Limitations endpoint,
     eo_Conflicts := cloneObservationConflicts (eo_Conflicts endpoint),
     eo_SelectedEndpoint := map_option cloneEndpoint (eo_SelectedEndpoint endpoint),
     eo_TestedEndpoint := map_option cloneEndpoint (eo_TestedEndpoint endpoint)\<rparr>"

definition NormalizeTransportObservation :: "TransportObservation \<Rightarrow> TransportObservation" where
  "NormalizeTransportObservation value = value\<lparr>
     tpo_Provenance := [] @ tpo_Provenance value,
     tpo_ProbeNames := [] @ tpo_ProbeNames value,
     tpo_EvidenceIDs := [] @ tpo_EvidenceIDs value,
     tpo_PacketFlowEvidenceIDs := [] @ tpo_PacketFlowEvidenceIDs value,
     tpo_Limitations := [] @ tpo_Limitations value,
     tpo_CandidateAttempts := cloneEndpointAttempts (tpo_CandidateAttempts value),
     tpo_Conflicts := cloneObservationConflicts (tpo_Conflicts value),
     tpo_ProbeEndpoint := map_option cloneEndpoint (tpo_ProbeEndpoint value),
     tpo_TestedEndpoint := map_option cloneEndpoint (tpo_TestedEndpoint value),
     tpo_RemoteEndpoint := map_option cloneEndpoint (tpo_RemoteEndpoint value)\<rparr>"

definition normalizeTLSInspectionAssessment ::
    "TLSInspectionAssessment \<Rightarrow> TLSInspectionAssessment" where
  "normalizeTLSInspectionAssessment value = value\<lparr>
     tia_State := (if tia_State value = [] then TLSInspectionNotObserved else tia_State value),
     tia_Certainty :=
       (if tia_Certainty value = [] then ObservationCertaintyUnknown else tia_Certainty value),
     tia_CertificateValidation :=
       (if tia_CertificateValidation value = [] then CertificateValidationUnknown
        else tia_CertificateValidation value),
     tia_PresentedLeafSANs := uniqueStringValues (tia_PresentedLeafSANs value),
     tia_PresentedIssuerChain := uniqueStringValues (tia_PresentedIssuerChain value),
     tia_Signals := uniqueStringValues (tia_Signals value),
     tia_Provenance := uniqueStringValues (tia_Provenance value),
     tia_EvidenceIDs := uniqueStringValues (tia_EvidenceIDs value),
     tia_Limitations := uniqueStringValues (tia_Limitations value),
     tia_Conflicts := cloneObservationConflicts (tia_Conflicts value)\<rparr>"

definition cloneCertificate :: "TLSCertificateObservation \<Rightarrow> TLSCertificateObservation" where
  "cloneCertificate v = v\<lparr>
     tc_DNSNames := [] @ tc_DNSNames v, tc_IPAddresses := [] @ tc_IPAddresses v,
     tc_EmailAddresses := [] @ tc_EmailAddresses v\<rparr>"

definition NormalizeSecurityObservation :: "SecurityObservation \<Rightarrow> SecurityObservation" where
  "NormalizeSecurityObservation value = value\<lparr>
     so_Provenance := [] @ so_Provenance value,
     so_ProbeNames := [] @ so_ProbeNames value,
     so_EvidenceIDs := [] @ so_EvidenceIDs value,
     so_TrustEvidenceIDs := [] @ so_TrustEvidenceIDs value,
     so_InterceptionEvidenceIDs := [] @ so_InterceptionEvidenceIDs value,
     so_Limitations := [] @ so_Limitations value,
     so_Conflicts := cloneObservationConflicts (so_Conflicts value),
     so_Certificates := map cloneCertificate (so_Certificates value),
     so_TLSInspection := normalizeTLSInspectionAssessment (so_TLSInspection value),
     so_EndpointUsed := map_option cloneEndpoint (so_EndpointUsed value)\<rparr>"

definition normalizeDNSApplicationTransportObservation ::
    "DNSApplicationTransportObservation \<Rightarrow> DNSApplicationTransportObservation" where
  "normalizeDNSApplicationTransportObservation value = value\<lparr>
     dt_Provenance := [] @ dt_Provenance value, dt_ProbeNames := [] @ dt_ProbeNames value,
     dt_EvidenceIDs := [] @ dt_EvidenceIDs value, dt_Limitations := [] @ dt_Limitations value,
     dt_EndpointUsed := map_option cloneEndpoint (dt_EndpointUsed value)\<rparr>"

definition normalizeDNSApplication :: "DNSApplicationObservation \<Rightarrow> DNSApplicationObservation" where
  "normalizeDNSApplication dns = dns\<lparr>
     da_Provenance := [] @ da_Provenance dns, da_ProbeNames := [] @ da_ProbeNames dns,
     da_EvidenceIDs := [] @ da_EvidenceIDs dns, da_Limitations := [] @ da_Limitations dns,
     da_UDP := normalizeDNSApplicationTransportObservation (da_UDP dns),
     da_TCP := normalizeDNSApplicationTransportObservation (da_TCP dns)\<rparr>"

definition NormalizeApplicationObservation :: "ApplicationObservation \<Rightarrow> ApplicationObservation" where
  "NormalizeApplicationObservation value = value\<lparr>
     ao_Provenance := [] @ ao_Provenance value,
     ao_ProbeNames := [] @ ao_ProbeNames value,
     ao_EvidenceIDs := [] @ ao_EvidenceIDs value,
     ao_RequestedSecurityProtocols := [] @ ao_RequestedSecurityProtocols value,
     ao_Limitations := [] @ ao_Limitations value,
     ao_Conflicts := cloneObservationConflicts (ao_Conflicts value),
     ao_Redirects := [] @ ao_Redirects value,
     ao_EndpointUsed := map_option cloneEndpoint (ao_EndpointUsed value),
     ao_DNS := map_option normalizeDNSApplication (ao_DNS value),
     ao_SMB := map_option (\<lambda>smb. smb\<lparr>sm_Capabilities := [] @ sm_Capabilities smb\<rparr>) (ao_SMB value)\<rparr>"

section \<open>Enterprise policy\<close>

definition boundedObservationText :: "string \<Rightarrow> string" where
  "boundedObservationText value0 =
     (let value = trimSpace value0 in if length value > 256 then take 256 value else value)"

definition normalizeEnterpriseProxyConfiguration ::
    "EnterpriseProxyConfigurationObservation \<Rightarrow> EnterpriseProxyConfigurationObservation" where
  "normalizeEnterpriseProxyConfiguration value = value\<lparr>
     epc_State := trimSpace (epc_State value),
     epc_ProxyEndpoints := uniqueStringValues (epc_ProxyEndpoints value),
     epc_ProxyBypass := uniqueStringValues (epc_ProxyBypass value),
     epc_Error := boundedObservationText (epc_Error value),
     epc_Provenance := uniqueStringValues (epc_Provenance value),
     epc_EvidenceIDs := uniqueStringValues (epc_EvidenceIDs value),
     epc_Limitations := uniqueStringValues (epc_Limitations value)\<rparr>"

text \<open>\<open>strings.TrimSpace\<close> of a decision, with the unknown decision for an empty one.\<close>

definition decisionOr :: "string \<Rightarrow> string" where
  "decisionOr decision =
     (if trimSpace decision = [] then EnterpriseProxyDecisionUnknown else trimSpace decision)"

definition normalizeEnterpriseProxyEffective ::
    "EnterpriseProxyEffectiveObservation \<Rightarrow> EnterpriseProxyEffectiveObservation" where
  "normalizeEnterpriseProxyEffective value = value\<lparr>
     epe_Decision := decisionOr (epe_Decision value),
     epe_Mode := trimSpace (epe_Mode value),
     epe_Endpoint := trimSpace (epe_Endpoint value),
     epe_Bypass := uniqueStringValues (epe_Bypass value),
     epe_Error := boundedObservationText (epe_Error value),
     epe_Provenance := uniqueStringValues (epe_Provenance value),
     epe_EvidenceIDs := uniqueStringValues (epe_EvidenceIDs value),
     epe_Limitations := uniqueStringValues (epe_Limitations value)\<rparr>"

definition normalizeEnterprisePAC :: "EnterprisePACObservation \<Rightarrow> EnterprisePACObservation" where
  "normalizeEnterprisePAC value = value\<lparr>
     epa_URL := trimSpace (epa_URL value),
     epa_Mode := trimSpace (epa_Mode value),
     epa_Decision := decisionOr (epa_Decision value),
     epa_Endpoint := trimSpace (epa_Endpoint value),
     epa_Bypass := uniqueStringValues (epa_Bypass value),
     epa_Provenance := uniqueStringValues (epa_Provenance value),
     epa_EvidenceIDs := uniqueStringValues (epa_EvidenceIDs value),
     epa_Limitations := uniqueStringValues (epa_Limitations value)\<rparr>"

definition normalizeProxyEndpoint ::
    "EnterpriseProxyEndpointObservation \<Rightarrow> EnterpriseProxyEndpointObservation" where
  "normalizeProxyEndpoint value = value\<lparr>
     epp_Endpoint := trimSpace (epp_Endpoint value),
     epp_Provenance := uniqueStringValues (epp_Provenance value),
     epp_EvidenceIDs := uniqueStringValues (epp_EvidenceIDs value),
     epp_Limitations := uniqueStringValues (epp_Limitations value)\<rparr>"

definition cloneEnterpriseEndpoints ::
    "EnterpriseProxyEndpointObservation list \<Rightarrow> EnterpriseProxyEndpointObservation list" where
  "cloneEnterpriseEndpoints values = map normalizeProxyEndpoint values"

definition normalizeEnterpriseProxySource ::
    "EnterpriseProxySourceObservation \<Rightarrow> EnterpriseProxySourceObservation" where
  "normalizeEnterpriseProxySource value = value\<lparr>
     eps_Source := normalizeNameValue (eps_Source value),
     eps_Configuration := normalizeEnterpriseProxyConfiguration (eps_Configuration value),
     eps_Effective := normalizeEnterpriseProxyEffective (eps_Effective value),
     eps_PAC := normalizeEnterprisePAC (eps_PAC value),
     eps_EndpointReachability := cloneEnterpriseEndpoints (eps_EndpointReachability value),
     eps_Provenance := uniqueStringValues (eps_Provenance value),
     eps_EvidenceIDs := uniqueStringValues (eps_EvidenceIDs value),
     eps_Limitations := uniqueStringValues (eps_Limitations value)\<rparr>"

definition normalizeEnterprisePath :: "EnterprisePathObservation \<Rightarrow> EnterprisePathObservation" where
  "normalizeEnterprisePath value = value\<lparr>
     ept_Provenance := uniqueStringValues (ept_Provenance value),
     ept_EvidenceIDs := uniqueStringValues (ept_EvidenceIDs value),
     ept_Limitations := uniqueStringValues (ept_Limitations value),
     ept_Error := boundedObservationText (ept_Error value)\<rparr>"

definition cloneEnterprisePaths :: "EnterprisePathObservation list \<Rightarrow> EnterprisePathObservation list" where
  "cloneEnterprisePaths values = map normalizeEnterprisePath values"

definition normalizeEnterprisePathComparison ::
    "EnterprisePathComparisonObservation \<Rightarrow> EnterprisePathComparisonObservation" where
  "normalizeEnterprisePathComparison value = value\<lparr>
     epm_ProxyPaths := uniqueStringValues (epm_ProxyPaths value),
     epm_Provenance := uniqueStringValues (epm_Provenance value),
     epm_EvidenceIDs := uniqueStringValues (epm_EvidenceIDs value),
     epm_Limitations := uniqueStringValues (epm_Limitations value)\<rparr>"

definition normalizeFirewallProfile ::
    "EnterpriseFirewallProfileObservation \<Rightarrow> EnterpriseFirewallProfileObservation" where
  "normalizeFirewallProfile value = value\<lparr>
     efp_Name := trimSpace (efp_Name value),
     efp_EffectiveState := trimSpace (efp_EffectiveState value),
     efp_BlockCausality := trimSpace (efp_BlockCausality value),
     efp_Provenance := uniqueStringValues (efp_Provenance value),
     efp_EvidenceIDs := uniqueStringValues (efp_EvidenceIDs value),
     efp_Limitations := uniqueStringValues (efp_Limitations value)\<rparr>"

definition normalizeEnterpriseFirewall ::
    "EnterpriseFirewallObservation \<Rightarrow> EnterpriseFirewallObservation" where
  "normalizeEnterpriseFirewall value = value\<lparr>
     efw_Error := boundedObservationText (efw_Error value),
     efw_BlockCausality := trimSpace (efw_BlockCausality value),
     efw_Provenance := uniqueStringValues (efw_Provenance value),
     efw_EvidenceIDs := uniqueStringValues (efw_EvidenceIDs value),
     efw_Limitations := uniqueStringValues (efw_Limitations value),
     efw_Profiles := map normalizeFirewallProfile (efw_Profiles value)\<rparr>"

definition normalizeAdapterParticipation ::
    "EnterpriseAdapterParticipationObservation \<Rightarrow> EnterpriseAdapterParticipationObservation" where
  "normalizeAdapterParticipation value = value\<lparr>
     ead_Name := trimSpace (ead_Name value), ead_Type := trimSpace (ead_Type value),
     ead_Provenance := uniqueStringValues (ead_Provenance value),
     ead_EvidenceIDs := uniqueStringValues (ead_EvidenceIDs value)\<rparr>"

definition normalizeEnterpriseNetwork ::
    "EnterpriseNetworkCorrelationObservation \<Rightarrow> EnterpriseNetworkCorrelationObservation" where
  "normalizeEnterpriseNetwork value = value\<lparr>
     enc_NetworkContextEvidenceIDs := uniqueStringValues (enc_NetworkContextEvidenceIDs value),
     enc_Provenance := uniqueStringValues (enc_Provenance value),
     enc_EvidenceIDs := uniqueStringValues (enc_EvidenceIDs value),
     enc_Limitations := uniqueStringValues (enc_Limitations value),
     enc_AdapterParticipation := map normalizeAdapterParticipation (enc_AdapterParticipation value)\<rparr>"

definition normalizeEnterpriseTLS ::
    "EnterpriseTLSPolicyObservation \<Rightarrow> EnterpriseTLSPolicyObservation" where
  "normalizeEnterpriseTLS value = value\<lparr>
     etl_InterceptionSuspicion := trimSpace (etl_InterceptionSuspicion value),
     etl_Provenance := uniqueStringValues (etl_Provenance value),
     etl_EvidenceIDs := uniqueStringValues (etl_EvidenceIDs value),
     etl_Limitations := uniqueStringValues (etl_Limitations value),
     etl_Conflicts := cloneObservationConflicts (etl_Conflicts value)\<rparr>"

definition NormalizeEnterprisePolicyObservation ::
    "EnterprisePolicyObservation \<Rightarrow> EnterprisePolicyObservation" where
  "NormalizeEnterprisePolicyObservation observation = observation\<lparr>
     eno_Provenance := uniqueStringValues (eno_Provenance observation),
     eno_EvidenceIDs := uniqueStringValues (eno_EvidenceIDs observation),
     eno_ProbeNames := uniqueStringValues (eno_ProbeNames observation),
     eno_Limitations := uniqueStringValues (eno_Limitations observation),
     eno_Conflicts := cloneObservationConflicts (eno_Conflicts observation),
     eno_WinHTTP := normalizeEnterpriseProxySource (eno_WinHTTP observation),
     eno_WinINET := normalizeEnterpriseProxySource (eno_WinINET observation),
     eno_Paths := cloneEnterprisePaths (eno_Paths observation),
     eno_DirectVsProxy := normalizeEnterprisePathComparison (eno_DirectVsProxy observation),
     eno_Firewall := normalizeEnterpriseFirewall (eno_Firewall observation),
     eno_Network := normalizeEnterpriseNetwork (eno_Network observation),
     eno_TLS := normalizeEnterpriseTLS (eno_TLS observation)\<rparr>"

section \<open>The environment snapshot\<close>

definition uniqueSorted :: "string list \<Rightarrow> string list" where
  "uniqueSorted values =
     (if values = [] then [] else sortStrings (uniqueNormalized trimSpace values))"

definition environmentRouteKey :: "EnvironmentRoute \<Rightarrow> string" where
  "environmentRouteKey value = joinStr ''|''
     [vr_RoutePrefix value, vr_Gateway value, vr_Interface value, vr_SourceAddress value,
      vr_InterfaceType value]"

definition cloneEnvironmentRoute :: "EnvironmentRoute option \<Rightarrow> EnvironmentRoute option" where
  "cloneEnvironmentRoute value = map_option (\<lambda>route. route) value"

definition modelEnterpriseOnly :: "EnterpriseFirewallObservation \<Rightarrow> EnterprisePolicyObservation" where
  "modelEnterpriseOnly firewall = zero_EnterprisePolicyObservation\<lparr>eno_Firewall := firewall\<rparr>"

definition normalizeEnvironmentProxySource :: "EnvironmentProxySource \<Rightarrow> EnvironmentProxySource" where
  "normalizeEnvironmentProxySource value = value\<lparr>
     vps_Source := trimSpace (vps_Source value),
     vps_ProxyEndpoints := uniqueSorted (vps_ProxyEndpoints value),
     vps_ProxyBypass := uniqueSorted (vps_ProxyBypass value),
     vps_Provenance := uniqueSorted (vps_Provenance value),
     vps_EvidenceIDs := uniqueSorted (vps_EvidenceIDs value),
     vps_Limitations := uniqueSorted (vps_Limitations value)\<rparr>"

definition normalizeEnvironmentProxy :: "EnvironmentProxyObservation \<Rightarrow> EnvironmentProxyObservation" where
  "normalizeEnvironmentProxy value = value\<lparr>
     vpx_WinHTTP := normalizeEnvironmentProxySource (vpx_WinHTTP value),
     vpx_WinINET := normalizeEnvironmentProxySource (vpx_WinINET value),
     vpx_Provenance := uniqueSorted (vpx_Provenance value),
     vpx_EvidenceIDs := uniqueSorted (vpx_EvidenceIDs value),
     vpx_Limitations := uniqueSorted (vpx_Limitations value),
     vpx_Conflicts := cloneObservationConflicts (vpx_Conflicts value)\<rparr>"

definition normalizeInterface :: "EnvironmentInterface \<Rightarrow> EnvironmentInterface" where
  "normalizeInterface value = value\<lparr>
     vi_Addresses := [] @ vi_Addresses value,
     vi_DNSServers := uniqueSorted (vi_DNSServers value),
     vi_DNSSearchList := uniqueSorted (vi_DNSSearchList value),
     vi_Provenance := uniqueSorted (vi_Provenance value),
     vi_EvidenceIDs := uniqueSorted (vi_EvidenceIDs value),
     vi_Limitations := uniqueSorted (vi_Limitations value)\<rparr>"

definition interfaceLess :: "EnvironmentInterface \<Rightarrow> EnvironmentInterface \<Rightarrow> bool" where
  "interfaceLess a b =
     (if vi_Index a \<noteq> vi_Index b then vi_Index a < vi_Index b else vi_Name a < vi_Name b)"

definition normalizeEnvironmentDNS :: "EnvironmentDNSObservation \<Rightarrow> EnvironmentDNSObservation" where
  "normalizeEnvironmentDNS value = value\<lparr>
     vd_Servers := uniqueSorted (vd_Servers value),
     vd_Suffixes := uniqueSorted (vd_Suffixes value),
     vd_SearchList := uniqueSorted (vd_SearchList value),
     vd_Provenance := uniqueSorted (vd_Provenance value),
     vd_EvidenceIDs := uniqueSorted (vd_EvidenceIDs value),
     vd_Limitations := uniqueSorted (vd_Limitations value),
     vd_Conflicts := cloneObservationConflicts (vd_Conflicts value)\<rparr>"

definition normalizeRouting :: "EnvironmentRoutingObservation \<Rightarrow> EnvironmentRoutingObservation" where
  "normalizeRouting value = value\<lparr>
     vg_Routes := sortBy (\<lambda>a b. environmentRouteKey a < environmentRouteKey b) (vg_Routes value),
     vg_Provenance := uniqueSorted (vg_Provenance value),
     vg_EvidenceIDs := uniqueSorted (vg_EvidenceIDs value),
     vg_Limitations := uniqueSorted (vg_Limitations value),
     vg_Conflicts := cloneObservationConflicts (vg_Conflicts value),
     vg_DefaultIPv4 := cloneEnvironmentRoute (vg_DefaultIPv4 value),
     vg_DefaultIPv6 := cloneEnvironmentRoute (vg_DefaultIPv6 value)\<rparr>"

definition normalizeVPN :: "EnvironmentVPNObservation \<Rightarrow> EnvironmentVPNObservation" where
  "normalizeVPN value = value\<lparr>
     vv_ActiveAdapters := uniqueSorted (vv_ActiveAdapters value),
     vv_VirtualAdapters := uniqueSorted (vv_VirtualAdapters value),
     vv_RouteParticipation := uniqueSorted (vv_RouteParticipation value),
     vv_Provenance := uniqueSorted (vv_Provenance value),
     vv_EvidenceIDs := uniqueSorted (vv_EvidenceIDs value),
     vv_Limitations := uniqueSorted (vv_Limitations value)\<rparr>"

definition normalizeTrust :: "EnvironmentTrustObservation \<Rightarrow> EnvironmentTrustObservation" where
  "normalizeTrust value = value\<lparr>
     vt_Provenance := uniqueSorted (vt_Provenance value),
     vt_EvidenceIDs := uniqueSorted (vt_EvidenceIDs value),
     vt_Limitations := uniqueSorted (vt_Limitations value)\<rparr>"

definition normalizeRuntime :: "EnvironmentRuntimeObservation \<Rightarrow> EnvironmentRuntimeObservation" where
  "normalizeRuntime value = value\<lparr>
     vn_Capabilities := sortBy (\<lambda>a b. vc_Name a < vc_Name b) (vn_Capabilities value),
     vn_Provenance := uniqueSorted (vn_Provenance value),
     vn_EvidenceIDs := uniqueSorted (vn_EvidenceIDs value),
     vn_Limitations := uniqueSorted (vn_Limitations value)\<rparr>"

definition normalizeSnapshot :: "EnvironmentSnapshot \<Rightarrow> EnvironmentSnapshot" where
  "normalizeSnapshot snapshot = snapshot\<lparr>
     vs_SchemaVersion := (if vs_SchemaVersion snapshot = [] then EnvironmentSnapshotSchemaVersion
       else vs_SchemaVersion snapshot),
     vs_Interfaces := sortBy interfaceLess (map normalizeInterface (vs_Interfaces snapshot)),
     vs_DNS := normalizeEnvironmentDNS (vs_DNS snapshot),
     vs_Routing := normalizeRouting (vs_Routing snapshot),
     vs_Proxy := normalizeEnvironmentProxy (vs_Proxy snapshot),
     vs_VPN := normalizeVPN (vs_VPN snapshot),
     vs_Firewall := eno_Firewall
       (NormalizeEnterprisePolicyObservation (modelEnterpriseOnly (vs_Firewall snapshot))),
     vs_Trust := normalizeTrust (vs_Trust snapshot),
     vs_Runtime := normalizeRuntime (vs_Runtime snapshot),
     vs_Provenance := uniqueSorted (vs_Provenance snapshot),
     vs_EvidenceIDs := uniqueSorted (vs_EvidenceIDs snapshot),
     vs_Limitations := uniqueSorted (vs_Limitations snapshot),
     vs_Conflicts := cloneObservationConflicts (vs_Conflicts snapshot)\<rparr>"

definition NormalizeEnvironmentSnapshot ::
    "EnvironmentSnapshot option \<Rightarrow> EnvironmentSnapshot option" where
  "NormalizeEnvironmentSnapshot snapshot = map_option normalizeSnapshot snapshot"

section \<open>The envelope\<close>

definition cloneBrowserCaptureDestinations ::
    "BrowserCaptureDestination list \<Rightarrow> BrowserCaptureDestination list" where
  "cloneBrowserCaptureDestinations values = map (\<lambda>value. value\<lparr>
     bd_Mechanisms := [] @ bd_Mechanisms value,
     bd_ResolvedAddressCandidates := [] @ bd_ResolvedAddressCandidates value,
     bd_ConnectedEndpoints := [] @ bd_ConnectedEndpoints value,
     bd_FailureReasons := [] @ bd_FailureReasons value\<rparr>) values"

definition cloneObservationProvenance :: "ObservationProvenance list \<Rightarrow> ObservationProvenance list" where
  "cloneObservationProvenance values =
     map (\<lambda>value. value\<lparr>opv_EvidenceIDs := [] @ opv_EvidenceIDs value\<rparr>) values"

definition clonePathObservations :: "PathObservation list \<Rightarrow> PathObservation list" where
  "clonePathObservations values = map (\<lambda>value. value\<lparr>
     pto_Hops := map (\<lambda>hop. hop\<lparr>pth_Responders := [] @ pth_Responders hop\<rparr>) (pto_Hops value),
     pto_Segments := map (\<lambda>s. s\<lparr>pts_Responders := [] @ pts_Responders s\<rparr>) (pto_Segments value)\<rparr>) values"

definition clonePacketFlows :: "PacketFlowEvidence list \<Rightarrow> PacketFlowEvidence list" where
  "clonePacketFlows values = map (\<lambda>value. value\<lparr>
     pkf_MatchedObservationIDs := [] @ pkf_MatchedObservationIDs value,
     pkf_Observations := [] @ pkf_Observations value\<rparr>) values"

definition clonePathCorrelations :: "PathCorrelation list \<Rightarrow> PathCorrelation list" where
  "clonePathCorrelations values = map (\<lambda>value. value\<lparr>
     ptc_Observations := clonePathObservations (ptc_Observations value)\<rparr>) values"

definition cloneObservationDivergences :: "ObservationDivergence list \<Rightarrow> ObservationDivergence list" where
  "cloneObservationDivergences values = map (\<lambda>value. value\<lparr>
     od_PathValues := [] @ od_PathValues value,
     od_PacketFlowValues := [] @ od_PacketFlowValues value,
     od_PathProvenance := [] @ od_PathProvenance value,
     od_PacketFlowProvenance := [] @ od_PacketFlowProvenance value,
     od_PathEvidenceIDs := [] @ od_PathEvidenceIDs value,
     od_PacketFlowEvidenceIDs := [] @ od_PacketFlowEvidenceIDs value\<rparr>) values"

definition cloneCaptureObservation :: "BrowserCaptureObservation \<Rightarrow> BrowserCaptureObservation" where
  "cloneCaptureObservation value = value\<lparr>
     bo_Destinations := cloneBrowserCaptureDestinations (bo_Destinations value),
     bo_Limitations := [] @ bo_Limitations value\<rparr>"

definition NormalizeObservations :: "Observations \<Rightarrow> Observations" where
  "NormalizeObservations observations =
     (let name = NormalizeNameResolutionObservation (ob_NameResolution observations) in
      \<lparr>ob_Endpoint = normalizeEndpointObservation (ob_Endpoint observations),
       ob_NameResolution = name\<lparr>
         nro_Provenance := [] @ nro_Provenance name, nro_ProbeNames := [] @ nro_ProbeNames name,
         nro_Conflicts := cloneObservationConflicts (nro_Conflicts name)\<rparr>,
       ob_NetworkContext = cloneNetworkContext (ob_NetworkContext observations),
       ob_EnterprisePolicy = NormalizeEnterprisePolicyObservation (ob_EnterprisePolicy observations),
       ob_Environment = NormalizeEnvironmentSnapshot (ob_Environment observations),
       ob_Transport = NormalizeTransportObservation (ob_Transport observations),
       ob_Security = NormalizeSecurityObservation (ob_Security observations),
       ob_Application = NormalizeApplicationObservation (ob_Application observations),
       ob_BrowserCapture = map_option cloneCaptureObservation (ob_BrowserCapture observations),
       ob_Paths = clonePathObservations (ob_Paths observations),
       ob_PacketFlows = clonePacketFlows (ob_PacketFlows observations),
       ob_PathProvenance = cloneObservationProvenance (ob_PathProvenance observations),
       ob_PacketFlowProvenance = cloneObservationProvenance (ob_PacketFlowProvenance observations),
       ob_PathCorrelations = clonePathCorrelations (ob_PathCorrelations observations),
       ob_Conflicts = cloneObservationConflicts (ob_Conflicts observations),
       ob_Divergences = cloneObservationDivergences (ob_Divergences observations)\<rparr>)"

section \<open>Paths\<close>

definition canonicalPathDestination :: "string \<Rightarrow> string" where
  "canonicalPathDestination destination =
     (case parseAddr destination of
        Some parsed \<Rightarrow> addrString (NormalizeAddr parsed) | None \<Rightarrow> destination)"

definition NormalizePathResponder :: "PathResponder \<Rightarrow> PathResponder" where
  "NormalizePathResponder responder =
     (case parseAddr (trimSuffix ''.'' (ptr_Address responder)) of
        Some parsed \<Rightarrow> responder\<lparr>ptr_Address := addrString (NormalizeAddr parsed)\<rparr>
      | None \<Rightarrow> responder)"

definition pathMatchesTarget :: "PathObservation \<Rightarrow> Target \<Rightarrow> bool" where
  "pathMatchesTarget observation target \<longleftrightarrow>
     MatchesAddress target (pto_Destination observation) \<and> pto_DestinationPort observation = tg_Port target"

definition pathObservationLess :: "PathObservation \<Rightarrow> PathObservation \<Rightarrow> bool" where
  "pathObservationLess left right =
     (if pto_Protocol left \<noteq> pto_Protocol right then pto_Protocol left < pto_Protocol right
      else if pto_Status left \<noteq> pto_Status right then pto_Status left < pto_Status right
      else if pto_DestinationReached left \<noteq> pto_DestinationReached right
        then \<not> pto_DestinationReached left
      else if pto_MaxTTL left \<noteq> pto_MaxTTL right then pto_MaxTTL left < pto_MaxTTL right
      else pto_AttemptsPerTTL left < pto_AttemptsPerTTL right)"

definition correlationLess :: "PathCorrelation \<Rightarrow> PathCorrelation \<Rightarrow> bool" where
  "correlationLess a b =
     (if ptc_Destination a \<noteq> ptc_Destination b then ptc_Destination a < ptc_Destination b
      else ptc_DestinationPort a < ptc_DestinationPort b)"

definition correlationKey :: "string \<Rightarrow> 16 word \<Rightarrow> string" where
  "correlationKey destination port = destination @ [CHR 0x00] @ itoa (unat port)"

definition addToGroup :: "PathObservation \<Rightarrow> PathCorrelation \<Rightarrow> PathCorrelation" where
  "addToGroup observation grp = grp\<lparr>
     ptc_Observations := ptc_Observations grp @ [observation],
     ptc_TCPDestinationReached := (ptc_TCPDestinationReached grp \<or>
       pto_Protocol observation = PathProtocolTCP \<and> pto_PortAware observation
         \<and> pto_DestinationReached observation),
     ptc_TCPDestinationConnected := (ptc_TCPDestinationConnected grp \<or>
       pto_Protocol observation = PathProtocolTCP \<and> pto_PortAware observation
         \<and> pto_DestinationTCPConnected observation),
     ptc_ICMPDestinationReached := (ptc_ICMPDestinationReached grp \<or>
       pto_Protocol observation = PathProtocolICMP \<and> pto_DestinationReached observation)\<rparr>"

definition correlateStep ::
    "PathObservation \<Rightarrow> (string \<times> PathCorrelation) list \<Rightarrow> (string \<times> PathCorrelation) list" where
  "correlateStep observation0 groups =
     (let observation = observation0\<lparr>pto_Destination := canonicalPathDestination (pto_Destination observation0)\<rparr>;
          key = correlationKey (pto_Destination observation) (pto_DestinationPort observation);
          grp = (case map_of groups key of
             None \<Rightarrow> zero_PathCorrelation\<lparr>ptc_Destination := pto_Destination observation,
               ptc_DestinationPort := pto_DestinationPort observation\<rparr>
           | Some g \<Rightarrow> g) in
      AList.update key (addToGroup observation grp) groups)"

text \<open>
  The range over the map of groups visits them in an arbitrary order, the argument \<open>arrange\<close>;
  the final sort is by destination and port.
\<close>

definition CorrelatePathObservations ::
    "(PathCorrelation list \<Rightarrow> PathCorrelation list) \<Rightarrow> PathObservation list \<Rightarrow> PathCorrelation list" where
  "CorrelatePathObservations arrange observations =
     (let groups = fold correlateStep observations [];
          result = map (\<lambda>g. g\<lparr>ptc_Observations := sortBy pathObservationLess (ptc_Observations g)\<rparr>)
            (arrange (map snd groups)) in
      sortBy correlationLess result)"

section \<open>Packet observations\<close>

definition normalizePacketAddress :: "string \<Rightarrow> string" where
  "normalizePacketAddress address0 =
     (let address = trimSpace (trimSet ''[]'' address0) in
      case parseAddr address of Some parsed \<Rightarrow> addrString (NormalizeAddr parsed) | None \<Rightarrow> address)"

definition ClassifyPacketCertainty :: "PacketObservation \<Rightarrow> EvidenceCertainty" where
  "ClassifyPacketCertainty observation =
     (let kind = pko_Kind observation in
      if kind \<in> set [PacketObservationInboundTCPSYNACK, PacketObservationInboundICMPEcho,
          PacketObservationTCPHandshakeConfirmed] then EvidenceCertaintyConfirmedEndpointResponse
      else if kind = PacketObservationTCPRST then
        (if pko_Direction observation = PacketDirectionInbound
         then EvidenceCertaintyConfirmedEndpointResponse
         else EvidenceCertaintyDirectlyObservedLocalPacket)
      else if kind \<in> set [PacketObservationICMPTimeExceeded, PacketObservationICMPUnreachable]
        then EvidenceCertaintyObservedTTLResponder
      else if kind \<in> set [PacketObservationOutboundTCPSYN, PacketObservationOutboundICMPEcho]
        then EvidenceCertaintyDirectlyObservedLocalPacket
      else EvidenceCertaintyUnobservableSegment)"

definition ClassifyPathCertainty :: "PathSegmentKind \<Rightarrow> EvidenceCertainty" where
  "ClassifyPathCertainty segment =
     (if segment = PathSegmentObservedResponder then EvidenceCertaintyObservedTTLResponder
      else if segment = PathSegmentInferred then EvidenceCertaintyInferredTransitSegment
      else EvidenceCertaintyUnobservableSegment)"

definition kindProtocol :: "PacketObservationKind \<Rightarrow> PacketProtocol \<Rightarrow> PacketProtocol" where
  "kindProtocol kind protocol =
     (if kind \<in> set [PacketObservationOutboundTCPSYN, PacketObservationInboundTCPSYNACK,
          PacketObservationTCPRST, PacketObservationTCPHandshakeConfirmed] then PacketProtocolTCP
      else if kind \<in> set [PacketObservationICMPTimeExceeded, PacketObservationICMPUnreachable,
          PacketObservationOutboundICMPEcho, PacketObservationInboundICMPEcho] then PacketProtocolICMP
      else protocol)"

definition NormalizePacketObservation :: "PacketObservation \<Rightarrow> PacketObservation" where
  "NormalizePacketObservation observation0 =
     (let observation = observation0\<lparr>
            pko_LocalAddress := normalizePacketAddress (pko_LocalAddress observation0),
            pko_SourceAddress := normalizePacketAddress (pko_SourceAddress observation0),
            pko_DestinationAddress := normalizePacketAddress (pko_DestinationAddress observation0),
            pko_QuotedSourceAddress := normalizePacketAddress (pko_QuotedSourceAddress observation0),
            pko_QuotedDestinationAddress :=
              normalizePacketAddress (pko_QuotedDestinationAddress observation0)\<rparr>;
          observation = (if pko_Protocol observation = []
            then observation\<lparr>pko_Protocol := kindProtocol (pko_Kind observation) (pko_Protocol observation)\<rparr>
            else observation) in
      if pko_Certainty observation = []
      then observation\<lparr>pko_Certainty := ClassifyPacketCertainty observation\<rparr>
      else observation)"

end
