(* ===== verification/NormalizeFacts.thy ===== *)
theory NormalizeFacts
  imports Normalize GoMaps
begin

text \<open>
  Facts about normalisation: the path correlation partitions its observations by canonical
  endpoint whatever order the code's map is visited in, and the policy-rule match returns every
  matching rule once, in order.
\<close>

section \<open>Less-functions\<close>

interpretation path_less: go_less pathObservationLess
proof -
  have eq: "pathObservationLess = (\<lambda>a b. if pto_Protocol a \<noteq> pto_Protocol b then pto_Protocol a < pto_Protocol b
      else if pto_Status a \<noteq> pto_Status b then pto_Status a < pto_Status b
      else if pto_DestinationReached a \<noteq> pto_DestinationReached b
        then pto_DestinationReached a < pto_DestinationReached b
      else if pto_MaxTTL a \<noteq> pto_MaxTTL b then pto_MaxTTL a < pto_MaxTTL b
      else pto_AttemptsPerTTL a < pto_AttemptsPerTTL b)"
    by (auto simp: pathObservationLess_def fun_eq_iff)
  show "go_less pathObservationLess" unfolding eq by (intro go_less_lex go_less_key)
qed

interpretation correlation_less: go_less correlationLess
  unfolding correlationLess_def [abs_def] by (intro go_less_lex go_less_key)

section \<open>Path correlation\<close>

definition canonicalPath :: "PathObservation \<Rightarrow> PathObservation" where
  "canonicalPath o1 = o1\<lparr>pto_Destination := canonicalPathDestination (pto_Destination o1)\<rparr>"

definition pathKey :: "PathObservation \<Rightarrow> string" where
  "pathKey o1 = correlationKey (pto_Destination o1) (pto_DestinationPort o1)"

definition freshGroup :: "PathObservation \<Rightarrow> PathCorrelation" where
  "freshGroup o1 = zero_PathCorrelation\<lparr>ptc_Destination := pto_Destination o1,
     ptc_DestinationPort := pto_DestinationPort o1\<rparr>"

lemma correlationKey_inject: "correlationKey d p = correlationKey e q \<longleftrightarrow> d = e \<and> p = q"
  using append_last_sep [of d "CHR 0x00" "itoa (unat p)" e "itoa (unat q)"]
  by (auto simp: correlationKey_def word_unat_eq_iff)

lemma correlateStep_alt: "correlateStep o1 groups = AList.update (pathKey (canonicalPath o1))
    (addToGroup (canonicalPath o1) (case map_of groups (pathKey (canonicalPath o1)) of
       None \<Rightarrow> freshGroup (canonicalPath o1) | Some g \<Rightarrow> g)) groups"
  unfolding correlateStep_def Let_def canonicalPath_def [symmetric] pathKey_def [symmetric] freshGroup_def
  by (rule refl)

lemma groups_accumulate:
  "fold correlateStep observations [] = accumulate pathKey freshGroup addToGroup (map canonicalPath observations)"
  by (simp add: accumulate_def fold_map o_def correlateStep_alt [abs_def])

lemma addToGroup_simps [simp]:
  "ptc_Destination (addToGroup o1 g) = ptc_Destination g"
  "ptc_DestinationPort (addToGroup o1 g) = ptc_DestinationPort g"
  "ptc_Observations (addToGroup o1 g) = ptc_Observations g @ [o1]"
  by (simp_all add: addToGroup_def)

lemma fold_addToGroup:
  "ptc_Destination (fold addToGroup os g) = ptc_Destination g"
  "ptc_DestinationPort (fold addToGroup os g) = ptc_DestinationPort g"
  "ptc_Observations (fold addToGroup os g) = ptc_Observations g @ os"
  by (induction os arbitrary: g) simp_all

text \<open>What the three flags of a group say about the observations in it.\<close>

definition groupFlags :: "PathCorrelation \<Rightarrow> bool" where
  "groupFlags g \<longleftrightarrow>
     (ptc_TCPDestinationReached g \<longleftrightarrow> (\<exists>o1\<in>set (ptc_Observations g).
        pto_Protocol o1 = PathProtocolTCP \<and> pto_PortAware o1 \<and> pto_DestinationReached o1))
   \<and> (ptc_TCPDestinationConnected g \<longleftrightarrow> (\<exists>o1\<in>set (ptc_Observations g).
        pto_Protocol o1 = PathProtocolTCP \<and> pto_PortAware o1 \<and> pto_DestinationTCPConnected o1))
   \<and> (ptc_ICMPDestinationReached g \<longleftrightarrow> (\<exists>o1\<in>set (ptc_Observations g).
        pto_Protocol o1 = PathProtocolICMP \<and> pto_DestinationReached o1))"

lemma groupFlags_add: "groupFlags g \<Longrightarrow> groupFlags (addToGroup o1 g)"
  by (auto simp: groupFlags_def addToGroup_def)

lemma groupFlags_fold: "groupFlags g \<Longrightarrow> groupFlags (fold addToGroup os g)"
  by (induction os arbitrary: g) (simp_all add: groupFlags_add)

lemma freshGroup_simps [simp]:
  "ptc_Destination (freshGroup o1) = pto_Destination o1"
  "ptc_DestinationPort (freshGroup o1) = pto_DestinationPort o1"
  "ptc_Observations (freshGroup o1) = []" "groupFlags (freshGroup o1)"
  by (simp_all add: freshGroup_def zero_PathCorrelation_def groupFlags_def)

definition atEndpoint :: "string \<Rightarrow> 16 word \<Rightarrow> PathObservation \<Rightarrow> bool" where
  "atEndpoint d p o1 \<longleftrightarrow> pto_Destination o1 = d \<and> pto_DestinationPort o1 = p"

text \<open>A group as the loop leaves it: the observations of one endpoint, in their input order.\<close>

definition groupOf :: "PathObservation list \<Rightarrow> PathCorrelation \<Rightarrow> bool" where
  "groupOf cs g \<longleftrightarrow>
     ptc_Observations g = filter (atEndpoint (ptc_Destination g) (ptc_DestinationPort g)) cs
     \<and> ptc_Observations g \<noteq> [] \<and> groupFlags g"

lemma groups_key_both:
  assumes "(k, g) \<in> set (accumulate pathKey freshGroup addToGroup cs)"
  shows "k = correlationKey (ptc_Destination g) (ptc_DestinationPort g) \<and> groupOf cs g"
proof -
  have "map_of (accumulate pathKey freshGroup addToGroup cs) k = Some g"
    using assms by (rule map_of_is_SomeI [OF distinct_accumulate])
  then obtain y ys where f: "filter (\<lambda>x. pathKey x = k) cs = y # ys"
    and g: "g = fold addToGroup (y # ys) (freshGroup y)"
    unfolding map_of_accumulate by (auto split: list.splits)
  have "y \<in> set (filter (\<lambda>x. pathKey x = k) cs)" using f by simp
  then have k: "k = correlationKey (pto_Destination y) (pto_DestinationPort y)"
    by (simp add: pathKey_def)
  have "(\<lambda>x. pathKey x = k) = atEndpoint (pto_Destination y) (pto_DestinationPort y)"
    unfolding k by (auto simp: pathKey_def correlationKey_inject atEndpoint_def)
  then have "filter (atEndpoint (pto_Destination y) (pto_DestinationPort y)) cs = y # ys"
    using f by simp
  then show ?thesis
    unfolding g groupOf_def by (simp add: fold_addToGroup k groupFlags_fold groupFlags_add)
qed

lemmas groups_key = groups_key_both [THEN conjunct1] groups_key_both [THEN conjunct2]

lemma groups_distinct: "distinct (map snd (accumulate pathKey freshGroup addToGroup cs))"
  by (rule distinct_values [OF distinct_accumulate]) (rule groups_key(1) [symmetric])

lemma group_of_observation:
  assumes "o1 \<in> set cs"
  shows "\<exists>g \<in> snd ` set (accumulate pathKey freshGroup addToGroup cs). o1 \<in> set (ptc_Observations g)"
proof -
  have "o1 \<in> set (filter (\<lambda>x. pathKey x = pathKey o1) cs)" using assms by simp
  then obtain y ys where f: "filter (\<lambda>x. pathKey x = pathKey o1) cs = y # ys"
    by (cases "filter (\<lambda>x. pathKey x = pathKey o1) cs") simp_all
  have "o1 \<in> set (y # ys)" using assms f [symmetric] by simp
  then show ?thesis
    using f by (intro bexI [of _ "fold addToGroup (y # ys) (freshGroup y)"])
      (auto simp: fold_addToGroup accumulate_values)
qed

definition sortGroup :: "PathCorrelation \<Rightarrow> PathCorrelation" where
  "sortGroup g = g\<lparr>ptc_Observations := sortBy pathObservationLess (ptc_Observations g)\<rparr>"

lemma sortGroup_simps [simp]:
  "ptc_Destination (sortGroup g) = ptc_Destination g"
  "ptc_DestinationPort (sortGroup g) = ptc_DestinationPort g"
  "ptc_Observations (sortGroup g) = sortBy pathObservationLess (ptc_Observations g)"
  "groupFlags (sortGroup g) = groupFlags g"
  by (simp_all add: sortGroup_def groupFlags_def)

lemma correlate_alt: "CorrelatePathObservations arrange observations = sortBy correlationLess
    (map sortGroup (arrange (map snd (accumulate pathKey freshGroup addToGroup (map canonicalPath observations)))))"
  by (simp add: CorrelatePathObservations_def groups_accumulate Let_def sortGroup_def [abs_def])

lemma groups_endpoint_inj:
  assumes "a \<in> snd ` set (accumulate pathKey freshGroup addToGroup cs)"
    "b \<in> snd ` set (accumulate pathKey freshGroup addToGroup cs)"
    "ptc_Destination a = ptc_Destination b" "ptc_DestinationPort a = ptc_DestinationPort b"
  shows "a = b"
proof -
  obtain k l where kl: "(k, a) \<in> set (accumulate pathKey freshGroup addToGroup cs)"
      "(l, b) \<in> set (accumulate pathKey freshGroup addToGroup cs)" using assms(1,2) by auto
  then have "k = l" using groups_key(1) assms(3,4) by metis
  then show ?thesis using kl distinct_accumulate [of pathKey freshGroup addToGroup cs]
    by (metis eq_key_imp_eq_value)
qed

lemma correlation_tie:
  "\<not> correlationLess a b \<Longrightarrow> \<not> correlationLess b a \<Longrightarrow>
     ptc_Destination a = ptc_Destination b \<and> ptc_DestinationPort a = ptc_DestinationPort b"
  by (auto simp: correlationLess_def split: if_splits)

lemma sorted_groups_inj:
  assumes "a \<in> set (map sortGroup (map snd (accumulate pathKey freshGroup addToGroup cs)))"
    "b \<in> set (map sortGroup (map snd (accumulate pathKey freshGroup addToGroup cs)))"
    "\<not> correlationLess a b" "\<not> correlationLess b a"
  shows "a = b"
proof -
  obtain x y where "a = sortGroup x" "b = sortGroup y"
      "x \<in> snd ` set (accumulate pathKey freshGroup addToGroup cs)"
      "y \<in> snd ` set (accumulate pathKey freshGroup addToGroup cs)" using assms(1,2) by auto
  then show ?thesis using correlation_tie [OF assms(3,4)] groups_endpoint_inj [of x cs y] by simp
qed

lemma sorted_groups_distinct:
  "distinct (map sortGroup (map snd (accumulate pathKey freshGroup addToGroup cs)))"
proof -
  have "inj_on sortGroup (snd ` set (accumulate pathKey freshGroup addToGroup cs))"
    by (rule inj_onI) (metis groups_endpoint_inj sortGroup_simps(1,2))
  then show ?thesis using groups_distinct [of cs]
    by (simp only: distinct_map [of sortGroup] set_map)
qed

text \<open>C13: path correlation is a partition by canonical endpoint. The groups strictly increase in
  destination and port; each holds exactly the observations of its endpoint, sorted, with flags
  that say what some observation in it says; no observation is lost; and the result does not
  depend on the order in which the code ranges over the map of groups.\<close>

theorem correlate_partition:
  assumes "\<And>xs. mset (arrange xs) = mset xs"
  shows "CorrelatePathObservations arrange observations = CorrelatePathObservations id observations
    \<and> sorted_wrt correlationLess (CorrelatePathObservations arrange observations)
    \<and> (\<forall>g\<in>set (CorrelatePathObservations arrange observations).
         mset (ptc_Observations g) = mset (filter (atEndpoint (ptc_Destination g) (ptc_DestinationPort g))
           (map canonicalPath observations))
         \<and> sorted_wrt (\<lambda>a b. \<not> pathObservationLess b a) (ptc_Observations g)
         \<and> ptc_Observations g \<noteq> [] \<and> groupFlags g)
    \<and> (\<forall>o1\<in>set observations. \<exists>g\<in>set (CorrelatePathObservations arrange observations).
         canonicalPath o1 \<in> set (ptc_Observations g))"
proof -
  let ?cs = "map canonicalPath observations"
  let ?gs = "map snd (accumulate pathKey freshGroup addToGroup ?cs)"
  have eq: "CorrelatePathObservations arrange observations = sortBy correlationLess (map sortGroup ?gs)"
    unfolding correlate_alt
    by (rule correlation_less.sortBy_range [OF _ sorted_groups_distinct])
      (simp only: mset_map assms, erule (3) sorted_groups_inj)
  have members: "set (CorrelatePathObservations arrange observations) = sortGroup ` set ?gs"
    unfolding eq by (simp only: set_sortBy set_map [of sortGroup])
  have strict: "sorted_wrt correlationLess (CorrelatePathObservations arrange observations)"
    unfolding eq by (rule correlation_less.strict_sortBy [OF sorted_groups_distinct sorted_groups_inj])
  have groups: "\<forall>g\<in>set ?gs. mset (ptc_Observations (sortGroup g)) =
        mset (filter (atEndpoint (ptc_Destination g) (ptc_DestinationPort g)) ?cs)
      \<and> ptc_Observations (sortGroup g) \<noteq> [] \<and> groupFlags (sortGroup g)"
  proof
    fix g assume "g \<in> set ?gs"
    then have "groupOf ?cs g" using groups_key(2) by force
    then show "mset (ptc_Observations (sortGroup g)) =
        mset (filter (atEndpoint (ptc_Destination g) (ptc_DestinationPort g)) ?cs)
      \<and> ptc_Observations (sortGroup g) \<noteq> [] \<and> groupFlags (sortGroup g)"
      unfolding groupOf_def sortGroup_simps mset_sortBy sortBy_Nil_iff by metis
  qed
  have all: "\<exists>g\<in>set ?gs. canonicalPath o1 \<in> set (ptc_Observations (sortGroup g))"
    if "o1 \<in> set observations" for o1
    using group_of_observation [of "canonicalPath o1" ?cs] that by simp
  show ?thesis
  proof (intro conjI)
    show "CorrelatePathObservations arrange observations = CorrelatePathObservations id observations"
      unfolding eq by (simp add: correlate_alt)
  qed (use strict groups all in \<open>simp_all add: members path_less.sorted_sortBy del: map_map\<close>)
qed

section \<open>Policy rules\<close>

interpretation policy_less: go_less policyLess
proof -
  have eq: "policyLess = (\<lambda>a b. if - int (longestNamespace a) \<noteq> - int (longestNamespace b)
      then - int (longestNamespace a) < - int (longestNamespace b)
      else if nrr_Source a \<noteq> nrr_Source b then nrr_Source a < nrr_Source b
      else nrr_RuleID a < nrr_RuleID b)"
    by (auto simp: policyLess_def Let_def fun_eq_iff)
  show "go_less policyLess" unfolding eq by (intro go_less_lex go_less_key)
qed

definition policyMatches :: "string list \<Rightarrow> NameResolutionPolicyRule \<Rightarrow> bool" where
  "policyMatches names rule \<longleftrightarrow> (\<exists>name\<in>set (uniqueNameValues names).
     \<exists>namespace\<in>set (nrr_Namespaces rule). nameMatchesNamespace name namespace)"

lemma set_uniqueBy_id [simp]: "set (uniqueBy id [] xs) = set xs"
  using uniqueBy_keys [of id "[]" xs] by simp

lemma uniqueBy_inj:
  assumes "inj_on k (set xs)"
  shows "set (uniqueBy k [] xs) = set xs"
proof
  show "set (uniqueBy k [] xs) \<subseteq> set xs" by (rule uniqueBy_set_subset)
  show "set xs \<subseteq> set (uniqueBy k [] xs)"
  proof
    fix x assume x: "x \<in> set xs"
    then have "k x \<in> k ` set (uniqueBy k [] xs)" by (simp add: uniqueBy_keys)
    then obtain y where "y \<in> set (uniqueBy k [] xs)" "k y = k x" by force
    moreover then have "y \<in> set xs" using uniqueBy_set_subset [of k "[]" xs] by blast
    ultimately show "x \<in> set (uniqueBy k [] xs)" using assms x by (metis inj_on_eq_iff)
  qed
qed

definition allMatches :: "string list \<Rightarrow> NameResolutionPolicyRule list \<Rightarrow> NameResolutionPolicyRule list" where
  "allMatches names rules = concat (map (\<lambda>name. filter (\<lambda>rule. list_ex (nameMatchesNamespace name)
     (nrr_Namespaces rule)) rules) (uniqueNameValues names))"

lemma policies_alt: "NameResolutionPoliciesForNames names rules =
    sortBy policyLess (uniqueBy policyKey [] (allMatches names rules))"
  by (simp add: NameResolutionPoliciesForNames_def allMatches_def Let_def)

lemma set_allMatches: "set (allMatches names rules) = {r \<in> set rules. policyMatches names r}"
  by (auto simp: allMatches_def policyMatches_def list_ex_iff)

lemma policy_tie: "\<not> policyLess a b \<Longrightarrow> \<not> policyLess b a \<Longrightarrow> policyKey a = policyKey b"
  by (auto simp: policyLess_def policyKey_def Let_def split: if_splits)

lemma unique_no_tie:
  "a \<in> set (uniqueBy policyKey [] xs) \<Longrightarrow> b \<in> set (uniqueBy policyKey [] xs)
   \<Longrightarrow> \<not> policyLess a b \<Longrightarrow> \<not> policyLess b a \<Longrightarrow> a = b"
  using policy_tie uniqueBy_distinct [of policyKey "[]" xs] by (metis distinct_map inj_onD)

text \<open>the policy match returns every matching rule. The result is strictly ordered, longest
  namespace first; it holds one rule for every identity (source and rule identifier) that some
  matching rule has, and only matching rules; and when the given rules have distinct identities,
  neither the order of the rules nor the order or repetition of the names can be seen in it.\<close>

theorem policies_match:
  "sorted_wrt policyLess (NameResolutionPoliciesForNames names rules)
   \<and> distinct (map policyKey (NameResolutionPoliciesForNames names rules))
   \<and> set (NameResolutionPoliciesForNames names rules) \<subseteq> {r \<in> set rules. policyMatches names r}
   \<and> policyKey ` set (NameResolutionPoliciesForNames names rules) =
       policyKey ` {r \<in> set rules. policyMatches names r}
   \<and> (inj_on policyKey (set rules) \<and> set rules' = set rules \<and> set names' = set names \<longrightarrow>
       NameResolutionPoliciesForNames names' rules' = NameResolutionPoliciesForNames names rules)"
proof (intro conjI)
  let ?u = "uniqueBy policyKey [] (allMatches names rules)"
  have d: "distinct ?u" using uniqueBy_distinct [of policyKey "[]"] by (metis distinct_map)
  show "sorted_wrt policyLess (NameResolutionPoliciesForNames names rules)"
    unfolding policies_alt by (rule policy_less.strict_sortBy [OF d]) (rule unique_no_tie)
  show "distinct (map policyKey (NameResolutionPoliciesForNames names rules))"
    unfolding policies_alt by (simp add: uniqueBy_distinct)
  show "set (NameResolutionPoliciesForNames names rules) \<subseteq> {r \<in> set rules. policyMatches names r}"
    using uniqueBy_set_subset [of policyKey "[]" "allMatches names rules"]
    by (simp add: policies_alt set_allMatches)
  show "policyKey ` set (NameResolutionPoliciesForNames names rules) =
      policyKey ` {r \<in> set rules. policyMatches names r}"
    by (simp add: policies_alt uniqueBy_keys set_allMatches)
  show "inj_on policyKey (set rules) \<and> set rules' = set rules \<and> set names' = set names \<longrightarrow>
      NameResolutionPoliciesForNames names' rules' = NameResolutionPoliciesForNames names rules"
  proof (intro impI, elim conjE)
    assume inj: "inj_on policyKey (set rules)" and same: "set rules' = set rules" "set names' = set names"
    let ?v = "uniqueBy policyKey [] (allMatches names' rules')"
    have "policyMatches names' = policyMatches names"
      using same(2) by (auto simp: policyMatches_def uniqueNameValues_def uniqueNormalized_def fun_eq_iff)
    then have ms: "set (allMatches names' rules') = set (allMatches names rules)"
      using same(1) by (simp add: set_allMatches)
    have "inj_on policyKey (set (allMatches names rules))"
      by (rule inj_on_subset [OF inj]) (auto simp: set_allMatches)
    then have "set ?v = set ?u" using uniqueBy_inj ms by metis
    moreover have "distinct ?v" using uniqueBy_distinct [of policyKey "[]"] by (metis distinct_map)
    ultimately show "NameResolutionPoliciesForNames names' rules' = NameResolutionPoliciesForNames names rules"
      unfolding policies_alt by (intro policy_less.sortBy_arrangement d) (auto intro: unique_no_tie)
  qed
qed

text \<open>
  The comment of the function promises the most specific matching namespace first, but the sort
  takes the longest namespace of a rule whether or not that one matches.
\<close>

definition broadRule :: NameResolutionPolicyRule where
  "broadRule = \<lparr>nrr_Namespaces = [''test'', ''unrelated.example''], nrr_NameServers = [], nrr_Source = [],
     nrr_RuleID = ''broad'', nrr_VPNRequired = False, nrr_DNSSECValidationRequired = False\<rparr>"

definition specificRule :: NameResolutionPolicyRule where
  "specificRule = broadRule\<lparr>nrr_Namespaces := [''corp.test''], nrr_RuleID := ''specific''\<rparr>"

lemma unmatched_namespace_wins:
  "map nrr_RuleID (NameResolutionPoliciesForNames [''db.corp.test''] [specificRule, broadRule]) =
   [''broad'', ''specific'']"
  by code_simp

section \<open>Idempotence\<close>

lemma uniqueNormalized_set: "set (uniqueNormalized f xs) = {v \<in> f ` set xs. v \<noteq> []}"
  by (auto simp: uniqueNormalized_def)

lemma distinct_uniqueNormalized [simp]: "distinct (uniqueNormalized f xs)"
  using uniqueBy_distinct [of id "[]"] by (simp add: uniqueNormalized_def)

lemma uniqueNormalized_id:
  assumes "distinct xs" "\<And>x. x \<in> set xs \<Longrightarrow> f x = x \<and> x \<noteq> []"
  shows "uniqueNormalized f xs = xs"
proof -
  have "map f xs = xs" "filter (\<lambda>v. v \<noteq> []) xs = xs" using assms(2) by (simp_all add: map_idI)
  then show ?thesis using uniqueBy_id [of id xs "[]"] assms(1) by (simp add: uniqueNormalized_def)
qed

lemma uniqueStringValues_idem [simp]: "uniqueStringValues (uniqueStringValues xs) = uniqueStringValues xs"
  unfolding uniqueStringValues_def by (rule uniqueNormalized_id) (auto simp: uniqueNormalized_set trimSpace_idem)

lemma uniqueSorted_idem [simp]: "uniqueSorted (uniqueSorted xs) = uniqueSorted xs"
proof -
  have "uniqueNormalized trimSpace (sortStrings (uniqueNormalized trimSpace xs)) =
      sortStrings (uniqueNormalized trimSpace xs)"
    by (rule uniqueNormalized_id) (auto simp: uniqueNormalized_set trimSpace_idem)
  moreover have "sortStrings (sortStrings ys) = sortStrings ys" for ys
    unfolding sortStrings_def using key_less.sortBy_idem [of "\<lambda>x :: string. x"] by simp
  ultimately show ?thesis by (simp add: uniqueSorted_def)
qed

lemma decisionOr_idem [simp]: "decisionOr (decisionOr s) = decisionOr s"
proof -
  have "trimSpace EnterpriseProxyDecisionUnknown = EnterpriseProxyDecisionUnknown" by code_simp
  moreover have "EnterpriseProxyDecisionUnknown \<noteq> []" by (simp add: EnterpriseProxyDecisionUnknown_def)
  ultimately show ?thesis by (simp add: decisionOr_def trimSpace_idem)
qed

lemma clone_ids [simp]:
  "cloneObservationConflicts cs = cs" "cloneEnvironmentRoute r = r"
  by (simp_all add: cloneObservationConflicts_def cloneConflict_def map_idI cloneEnvironmentRoute_def
      option.map_ident)

lemma boundedObservationText_short:
  "length (trimSpace s) \<le> 256 \<Longrightarrow> boundedObservationText s = trimSpace s"
  by (simp add: boundedObservationText_def)

lemma sortBy_map_idem:
  assumes "go_less lt" "\<And>x. f (f x) = f x" "\<And>x y. lt (f x) (f y) = lt x y"
  shows "sortBy lt (map f (sortBy lt (map f xs))) = sortBy lt (map f xs)"
proof -
  have "map f (sortBy lt (map f xs)) = sortBy lt (map f xs)"
    using assms(2) by (intro map_idI) auto
  then show ?thesis by (simp add: go_less.sortBy_idem [OF assms(1)])
qed

lemma interface_less: "go_less interfaceLess"
  unfolding interfaceLess_def [abs_def] by (intro go_less_lex go_less_key)

lemma normalizeInterface_idem [simp]: "normalizeInterface (normalizeInterface i) = normalizeInterface i"
  by (simp add: normalizeInterface_def)

lemma sortBy_key_idem: "sortBy (\<lambda>a b. (f a :: string) < f b) (sortBy (\<lambda>a b. f a < f b) xs) =
    sortBy (\<lambda>a b. f a < f b) xs"
  by (rule key_less.sortBy_idem)

lemma environment_parts_idem [simp]:
  "normalizeEnvironmentDNS (normalizeEnvironmentDNS d) = normalizeEnvironmentDNS d"
  "normalizeRouting (normalizeRouting r) = normalizeRouting r"
  "normalizeEnvironmentProxySource (normalizeEnvironmentProxySource ps) = normalizeEnvironmentProxySource ps"
  "normalizeVPN (normalizeVPN v) = normalizeVPN v"
  "normalizeTrust (normalizeTrust t) = normalizeTrust t"
  "normalizeRuntime (normalizeRuntime n) = normalizeRuntime n"
  by (simp_all add: normalizeEnvironmentDNS_def normalizeRouting_def normalizeEnvironmentProxySource_def
      normalizeVPN_def normalizeTrust_def normalizeRuntime_def sortBy_key_idem trimSpace_idem)

lemma normalizeEnvironmentProxy_idem [simp]:
  "normalizeEnvironmentProxy (normalizeEnvironmentProxy p) = normalizeEnvironmentProxy p"
  by (simp add: normalizeEnvironmentProxy_def)

lemma normalizeFirewallProfile_idem [simp]:
  "normalizeFirewallProfile (normalizeFirewallProfile p) = normalizeFirewallProfile p"
  by (simp add: normalizeFirewallProfile_def trimSpace_idem)

lemma firewall_of_policy: "eno_Firewall (NormalizeEnterprisePolicyObservation (modelEnterpriseOnly f)) =
    normalizeEnterpriseFirewall f"
  by (simp add: NormalizeEnterprisePolicyObservation_def modelEnterpriseOnly_def)

lemma normalizeEnterpriseFirewall_idem:
  "length (trimSpace (efw_Error f)) \<le> 256 \<Longrightarrow>
     normalizeEnterpriseFirewall (normalizeEnterpriseFirewall f) = normalizeEnterpriseFirewall f"
  by (simp add: normalizeEnterpriseFirewall_def boundedObservationText_short trimSpace_idem o_def)

text \<open>the environment snapshot is canonical. Normalising a normalised snapshot changes nothing,
  provided the firewall's error text needs no cut to 256 bytes; and the lists of strings in it
  depend on the set of the given strings only.\<close>

theorem environment_idempotent:
  assumes "length (trimSpace (efw_Error (vs_Firewall s))) \<le> 256"
  shows "NormalizeEnvironmentSnapshot (NormalizeEnvironmentSnapshot (Some s)) =
      NormalizeEnvironmentSnapshot (Some s)
    \<and> (\<forall>xs ys. set xs = set ys \<longrightarrow> uniqueSorted xs = uniqueSorted ys)"
proof (intro conjI allI impI)
  have interfaces: "sortBy interfaceLess (map normalizeInterface
      (sortBy interfaceLess (map normalizeInterface is))) = sortBy interfaceLess (map normalizeInterface is)" for "is"
    by (rule sortBy_map_idem [OF interface_less]) (simp_all add: interfaceLess_def normalizeInterface_def)
  have "EnvironmentSnapshotSchemaVersion \<noteq> []" by (simp add: EnvironmentSnapshotSchemaVersion_def)
  then show "NormalizeEnvironmentSnapshot (NormalizeEnvironmentSnapshot (Some s)) =
      NormalizeEnvironmentSnapshot (Some s)"
    using normalizeEnterpriseFirewall_idem [OF assms]
    by (simp add: NormalizeEnvironmentSnapshot_def normalizeSnapshot_def firewall_of_policy interfaces)
next
  fix xs ys :: "string list"
  assume same: "set xs = set ys"
  have "sortStrings (uniqueNormalized trimSpace xs) = sortStrings (uniqueNormalized trimSpace ys)"
    by (rule sortStrings_unique) (simp_all add: sorted_sortStrings uniqueNormalized_set same)
  then show "uniqueSorted xs = uniqueSorted ys" using same by (auto simp: uniqueSorted_def)
qed

text \<open>
  The whole envelope is not stable under a second normalisation: a name loses one trailing dot
  each time.
\<close>

lemma name_loses_dot_each_time:
  "nro_RequestedName (NormalizeNameResolutionObservation
     (zero_NameResolutionObservation\<lparr>nro_RequestedName := ''a..''\<rparr>)) = ''a.''
   \<and> nro_RequestedName (NormalizeNameResolutionObservation (NormalizeNameResolutionObservation
     (zero_NameResolutionObservation\<lparr>nro_RequestedName := ''a..''\<rparr>))) = ''a''"
  by code_simp

section \<open>The properties at sample inputs\<close>

definition samplePaths :: "PathObservation list" where
  "samplePaths = [zero_PathObservation\<lparr>pto_Destination := ''::ffff:10.0.0.1'', pto_DestinationPort := 443\<rparr>,
     zero_PathObservation\<lparr>pto_Destination := ''10.0.0.1'', pto_DestinationPort := 443,
       pto_Protocol := PathProtocolICMP, pto_DestinationReached := True\<rparr>,
     zero_PathObservation\<lparr>pto_Destination := ''10.0.0.2'', pto_DestinationPort := 80\<rparr>]"

theorem correlate_partition_witness:
  "CorrelatePathObservations rev samplePaths = CorrelatePathObservations id samplePaths
   \<and> sorted_wrt correlationLess (CorrelatePathObservations rev samplePaths)
   \<and> (\<exists>g\<in>set (CorrelatePathObservations rev samplePaths).
         canonicalPath (hd samplePaths) \<in> set (ptc_Observations g))"
proof -
  have "hd samplePaths \<in> set samplePaths" "\<And>xs :: PathCorrelation list. mset (rev xs) = mset xs"
    by (simp_all add: samplePaths_def)
  then show ?thesis using correlate_partition [of rev samplePaths] by blast
qed

theorem policies_match_witness:
  "NameResolutionPoliciesForNames [''db.corp.test''] [specificRule, broadRule] =
   NameResolutionPoliciesForNames [''db.corp.test'', ''db.corp.test''] [broadRule, specificRule]"
proof -
  have "inj_on policyKey (set [broadRule, specificRule])"
    by (auto simp: policyKey_def broadRule_def specificRule_def)
  moreover have "set [specificRule, broadRule] = set [broadRule, specificRule]" by auto
  moreover have "set [''db.corp.test''] = set [''db.corp.test'', ''db.corp.test'']" by simp
  ultimately show ?thesis
    using policies_match [of "[''db.corp.test'', ''db.corp.test'']" "[broadRule, specificRule]"
        "[specificRule, broadRule]" "[''db.corp.test'']"] by blast
qed

theorem environment_idempotent_witness:
  "NormalizeEnvironmentSnapshot (NormalizeEnvironmentSnapshot (Some zero_EnvironmentSnapshot)) =
     NormalizeEnvironmentSnapshot (Some zero_EnvironmentSnapshot)
   \<and> uniqueSorted ['' b'', ''a'', ''b''] = uniqueSorted [''a'', '' b'', ''a'', ''b'']"
proof -
  have "length (trimSpace (efw_Error (vs_Firewall zero_EnvironmentSnapshot))) \<le> 256" by code_simp
  moreover have "set ['' b'', ''a'', ''b''] = set [''a'', '' b'', ''a'', ''b'']" by auto
  ultimately show ?thesis using environment_idempotent [of zero_EnvironmentSnapshot] by blast
qed

end
