(* ===== verification/DestinationStatus.thy ===== *)
theory DestinationStatus
  imports Normalize
begin

text \<open>
  \<open>internal/report/destination_status.go\<close>: the projection of the observations onto one status of the
  requested service, with \<open>serviceLabel\<close> and \<open>firstNonEmpty\<close> of \<open>html.go\<close>.

  The functions of the source share one \<open>*DestinationStatus\<close>, to which each adds the references
  it consulted, whether or not it then decides. Here the status is passed through: a function that
  in the code returns \<open>(DestinationStatus, bool)\<close> gives the updated shared status and, where the
  flag is true, the decision.
\<close>

type_synonym DestinationStatusState = string
definition DestinationStatusReachable :: DestinationStatusState where [go_consts]:
  "DestinationStatusReachable = ''reachable''"
definition DestinationStatusUnreachable :: DestinationStatusState where [go_consts]:
  "DestinationStatusUnreachable = ''unreachable''"
definition DestinationStatusDegraded :: DestinationStatusState where [go_consts]:
  "DestinationStatusDegraded = ''degraded''"
definition DestinationStatusIndeterminate :: DestinationStatusState where [go_consts]:
  "DestinationStatusIndeterminate = ''indeterminate''"

record DestinationStatus =
  ds_Status :: DestinationStatusState
  ds_Label :: string
  ds_Detail :: string
  ds_RequestedIdentity :: string
  ds_RequestedService :: string
  ds_EffectiveEndpoint :: "Endpoint option"
  ds_FailureReason :: FailureReason
  ds_ProbeNames :: "string list"
  ds_EvidenceIDs :: "string list"
  ds_Provenance :: "string list"

section \<open>Text\<close>

text \<open>\<open>strings.ToUpper\<close> on ASCII, which the protocol names are.\<close>

definition toUpperC :: "char \<Rightarrow> char" where
  "toUpperC c = (if isLowerC c then char_of (byteOf c - 32) else c)"

definition toUpper :: "string \<Rightarrow> string" where
  "toUpper = map toUpperC"

fun firstNonEmptyText :: "string list \<Rightarrow> string" where
  "firstNonEmptyText [] = []"
| "firstNonEmptyText (value # values) = (if value \<noteq> [] then value else firstNonEmptyText values)"

definition serviceLabel :: "ServiceProfile \<Rightarrow> string" where
  "serviceLabel value = (if sp_Label value \<noteq> [] then sp_Label value else sp_ID value)"

definition destinationStatusLabel :: "DestinationStatusState \<Rightarrow> string" where
  "destinationStatusLabel state =
     (if state = DestinationStatusReachable then ''Reachable''
      else if state = DestinationStatusUnreachable then ''Unreachable''
      else if state = DestinationStatusDegraded then ''Degraded''
      else ''Indeterminate'')"

definition httpSuccessDetail :: "int \<Rightarrow> string" where
  "httpSuccessDetail statusCode =
     (if statusCode \<noteq> 0 then ''HTTP returned '' @ formatInt statusCode @ ''.''
      else ''HTTP service responded successfully.'')"

section \<open>References\<close>

definition appendUniqueDestination :: "string list \<Rightarrow> string list \<Rightarrow> string list" where
  "appendUniqueDestination values additions =
     fold (\<lambda>value values. if value = [] \<or> value \<in> set values then values else values @ [value])
       additions values"

definition uniqueDestination :: "string list \<Rightarrow> string list" where
  "uniqueDestination values = appendUniqueDestination [] values"

definition addObservationRefs ::
    "string list \<Rightarrow> string list \<Rightarrow> string list \<Rightarrow> DestinationStatus \<Rightarrow> DestinationStatus" where
  "addObservationRefs provenance probeNames evidenceIDs status = status\<lparr>
     ds_Provenance := appendUniqueDestination (ds_Provenance status) provenance,
     ds_ProbeNames := appendUniqueDestination (ds_ProbeNames status) probeNames,
     ds_EvidenceIDs := appendUniqueDestination (ds_EvidenceIDs status) evidenceIDs\<rparr>"

definition addNameResolutionRefs ::
    "NameResolutionObservation \<Rightarrow> DestinationStatus \<Rightarrow> DestinationStatus" where
  "addNameResolutionRefs observation =
     addObservationRefs (nro_Provenance observation) (nro_ProbeNames observation)
       (nro_EvidenceIDs observation)"

definition observationProvenanceAt :: "ObservationProvenance list \<Rightarrow> nat \<Rightarrow> ObservationProvenance" where
  "observationProvenanceAt values index =
     (if index < length values then values ! index else zero_ObservationProvenance)"

definition observationEvidenceIDsAt :: "ObservationProvenance list \<Rightarrow> nat \<Rightarrow> string list" where
  "observationEvidenceIDsAt values index =
     [] @ opv_EvidenceIDs (observationProvenanceAt values index)"

definition addProvenanceRefs :: "ObservationProvenance list \<Rightarrow> nat \<Rightarrow> DestinationStatus \<Rightarrow> DestinationStatus" where
  "addProvenanceRefs values index =
     addObservationRefs [] [opv_ProbeName (observationProvenanceAt values index)]
       (opv_EvidenceIDs (observationProvenanceAt values index))"

definition addPathObservationRefs :: "Observations \<Rightarrow> DestinationStatus \<Rightarrow> DestinationStatus" where
  "addPathObservationRefs observations status =
     fold (addProvenanceRefs (ob_PacketFlowProvenance observations))
       [0..<length (ob_PacketFlows observations)]
       (fold (addProvenanceRefs (ob_PathProvenance observations))
         [0..<length (ob_Paths observations)] status)"

definition finishDestinationStatus ::
    "DestinationStatus \<Rightarrow> DestinationStatusState \<Rightarrow> string \<Rightarrow> FailureReason \<Rightarrow> DestinationStatus" where
  "finishDestinationStatus status state detail reason = status\<lparr>
     ds_Status := state,
     ds_Label := destinationStatusLabel state,
     ds_Detail := detail,
     ds_FailureReason :=
       (if reason = [] \<or> reason = FailureReasonUnknown then FailureReasonNone else reason),
     ds_ProbeNames := uniqueDestination (ds_ProbeNames status),
     ds_EvidenceIDs := uniqueDestination (ds_EvidenceIDs status),
     ds_Provenance := uniqueDestination (ds_Provenance status)\<rparr>"

section \<open>The starting point\<close>

fun firstEndpoint :: "Endpoint option list \<Rightarrow> Endpoint option" where
  "firstEndpoint [] = None"
| "firstEndpoint (None # endpoints) = firstEndpoint endpoints"
| "firstEndpoint (Some endpoint # endpoints) =
     Some (endpoint\<lparr>ep_EvidenceIDs := [] @ ep_EvidenceIDs endpoint\<rparr>)"

definition effectiveDestinationEndpoint :: "Observations \<Rightarrow> Endpoint option" where
  "effectiveDestinationEndpoint observations = firstEndpoint
     [ao_EndpointUsed (ob_Application observations), so_EndpointUsed (ob_Security observations),
      tpo_TestedEndpoint (ob_Transport observations), eo_TestedEndpoint (ob_Endpoint observations),
      eo_SelectedEndpoint (ob_Endpoint observations)]"

definition baseDestinationStatus :: "Observations \<Rightarrow> DestinationStatus" where
  "baseDestinationStatus observations =
     (let label = serviceLabel (eo_Service (ob_Endpoint observations));
          service = (if label = [] \<and> ao_Protocol (ob_Application observations) \<noteq> []
            then toUpper (ao_Protocol (ob_Application observations)) else label);
          endpoint = effectiveDestinationEndpoint observations;
          status = \<lparr>ds_Status = DestinationStatusIndeterminate, ds_Label = ''Indeterminate'',
            ds_Detail = ''Reachability could not be established from the available evidence.'',
            ds_RequestedIdentity = firstNonEmptyText [eo_RequestedIdentity (ob_Endpoint observations),
              nro_RequestedName (ob_NameResolution observations)],
            ds_RequestedService = service, ds_EffectiveEndpoint = endpoint,
            ds_FailureReason = FailureReasonNone, ds_ProbeNames = [], ds_EvidenceIDs = [],
            ds_Provenance = []\<rparr> in
      case endpoint of None \<Rightarrow> status
      | Some e \<Rightarrow> status\<lparr>
          ds_EvidenceIDs := appendUniqueDestination (ds_EvidenceIDs status) (ep_EvidenceIDs e),
          ds_Provenance := (if ep_Provenance e \<noteq> []
            then appendUniqueDestination (ds_Provenance status) [ep_Provenance e]
            else ds_Provenance status)\<rparr>)"

section \<open>Transport and paths\<close>

definition isConcreteTransportFailure :: "TransportObservation \<Rightarrow> bool" where
  "isConcreteTransportFailure observation \<longleftrightarrow>
     tpo_ConnectionOutcome observation \<in> set [TransportConnectionOutcomeRefused,
       TransportConnectionOutcomeReset, TransportConnectionOutcomeTimeout,
       TransportConnectionOutcomeUnreachable, TransportConnectionOutcomeFailed]
     \<or> tpo_FailureReason observation \<in> set [FailureReasonTCPConnectionRefused,
       FailureReasonTCPConnectionReset, FailureReasonTCPTimeout, FailureReasonNetworkUnreachable]"

definition transportFailureReason :: "TransportObservation \<Rightarrow> FailureReason" where
  "transportFailureReason observation =
     (if tpo_FailureReason observation \<noteq> FailureReasonNone
         \<and> tpo_FailureReason observation \<noteq> FailureReasonUnknown then tpo_FailureReason observation
      else let outcome = tpo_ConnectionOutcome observation in
        if outcome = TransportConnectionOutcomeRefused then FailureReasonTCPConnectionRefused
        else if outcome = TransportConnectionOutcomeReset then FailureReasonTCPConnectionReset
        else if outcome = TransportConnectionOutcomeTimeout then FailureReasonTCPTimeout
        else if outcome = TransportConnectionOutcomeUnreachable then FailureReasonNetworkUnreachable
        else FailureReasonUnknown)"

definition transportFailureDetail :: "TransportObservation \<Rightarrow> string" where
  "transportFailureDetail observation =
     (let reason = transportFailureReason observation in
      if reason = FailureReasonTCPConnectionRefused then ''TCP connection was refused.''
      else if reason = FailureReasonTCPConnectionReset then ''TCP connection was reset.''
      else if reason = FailureReasonNetworkUnreachable
        then ''The network reported the destination as unreachable.''
      else if reason = FailureReasonTCPTimeout then ''TCP connection timed out.''
      else ''Transport connection failed.'')"

definition transportDestinationStatus ::
    "DestinationStatus \<Rightarrow> Observations \<Rightarrow> DestinationStatus \<times> DestinationStatus option" where
  "transportDestinationStatus status0 observations =
     (let transport = ob_Transport observations;
          status = addObservationRefs (tpo_Provenance transport) (tpo_ProbeNames transport)
            (tpo_EvidenceIDs transport) status0 in
      if tpo_Connected transport \<or> tpo_ConnectionOutcome transport = TransportConnectionOutcomeConnected
      then (status, Some (finishDestinationStatus status DestinationStatusReachable
        ''Transport connection established.'' FailureReasonNone))
      else if isConcreteTransportFailure transport
      then (status, Some (finishDestinationStatus status DestinationStatusUnreachable
        (transportFailureDetail transport) (transportFailureReason transport)))
      else (status, None))"

text \<open>The two loops of \<open>pathDestinationStatus\<close>, over the paths and over the packet flows.\<close>

fun pathLoop :: "ObservationProvenance list \<Rightarrow> (nat \<times> PathObservation) list \<Rightarrow> DestinationStatus
    \<Rightarrow> DestinationStatus \<times> DestinationStatus option" where
  "pathLoop provenance [] status = (status, None)"
| "pathLoop provenance ((index, path) # paths) status =
     (if pto_Protocol path \<noteq> PathProtocolTCP \<or> \<not> pto_PortAware path
      then pathLoop provenance paths status
      else let status = addProvenanceRefs provenance index status in
        if pto_DestinationTCPConnected path
        then (status, Some (finishDestinationStatus status DestinationStatusReachable
          ''TCP destination connection established.'' FailureReasonNone))
        else if pto_DestinationReached path
        then (status, Some (finishDestinationStatus status DestinationStatusUnreachable
          ''TCP destination responded without establishing a connection.''
          FailureReasonTCPConnectionRefused))
        else pathLoop provenance paths status)"

fun flowLoop :: "ObservationProvenance list \<Rightarrow> (nat \<times> PacketFlowEvidence) list \<Rightarrow> DestinationStatus
    \<Rightarrow> DestinationStatus \<times> DestinationStatus option" where
  "flowLoop provenance [] status = (status, None)"
| "flowLoop provenance ((index, flow) # flows) status =
     (if pkf_CaptureStatus flow \<noteq> PacketCaptureStatusAvailable
         \<or> pkf_Certainty flow \<noteq> EvidenceCertaintyConfirmedEndpointResponse
      then flowLoop provenance flows status
      else let status = addProvenanceRefs provenance index status in
        if pkf_Outcome flow \<in> set [PacketFlowOutcomeTCPHandshakeConfirmed, PacketFlowOutcomeTCPSYNACK]
        then (status, Some (finishDestinationStatus status DestinationStatusReachable
          ''TCP destination connection established.'' FailureReasonNone))
        else if pkf_Outcome flow = PacketFlowOutcomeTCPRST
        then (status, Some (finishDestinationStatus status DestinationStatusUnreachable
          ''TCP destination reset the connection.'' FailureReasonTCPConnectionReset))
        else flowLoop provenance flows status)"

definition pathDestinationStatus ::
    "DestinationStatus \<Rightarrow> Observations \<Rightarrow> DestinationStatus \<times> DestinationStatus option" where
  "pathDestinationStatus status0 observations =
     (case pathLoop (ob_PathProvenance observations) (enumerate 0 (ob_Paths observations)) status0 of
        (status, Some result) \<Rightarrow> (status, Some result)
      | (status, None) \<Rightarrow> flowLoop (ob_PacketFlowProvenance observations)
          (enumerate 0 (ob_PacketFlows observations)) status)"

section \<open>Security\<close>

definition securityDestinationStatus ::
    "DestinationStatus \<Rightarrow> Observations \<Rightarrow> DestinationStatus \<times> DestinationStatus option" where
  "securityDestinationStatus status0 observations =
     (let security = ob_Security observations in
      if \<not> so_Attempted security \<and> \<not> so_HandshakeComplete security
         \<and> so_Applicability security \<noteq> ObservationApplicabilityApplicable
      then (status0, None)
      else let status = addObservationRefs (so_Provenance security) (so_ProbeNames security)
             (so_EvidenceIDs security) status0 in
        if so_HandshakeComplete security
        then (status, Some (finishDestinationStatus status DestinationStatusReachable
          ''TLS handshake succeeded.'' FailureReasonNone))
        else if so_Attempted security \<or> so_HandshakeComplete security then
          (if tpo_Connected (ob_Transport observations) \<or> so_EndpointUsed security \<noteq> None
           then (status, Some (finishDestinationStatus status DestinationStatusDegraded
             ''TLS handshake failed after transport connection.'' (so_FailureReason security)))
           else transportDestinationStatus status observations)
        else (status, None))"

section \<open>Application\<close>

definition applicationAttempted :: "ApplicationObservation \<Rightarrow> bool" where
  "applicationAttempted application \<longleftrightarrow>
     ao_RequestAttempted application \<or> ao_ResponseReceived application
     \<or> ao_HandshakeAttempted application
     \<or> ao_ProtocolResult application \<noteq> []
       \<and> ao_ProtocolResult application \<noteq> ApplicationProtocolResultNotAttempted
     \<or> ao_Result application \<noteq> [] \<and> ao_Result application \<noteq> HTTPResultNotAttempted"

definition requiresApplicationBoundary :: "ApplicationProtocol \<Rightarrow> bool" where
  "requiresApplicationBoundary protocol \<longleftrightarrow> protocol \<in> set [ApplicationProtocolHTTP,
     ApplicationProtocolHTTPS, ApplicationProtocolSMB, ApplicationProtocolSSH,
     ApplicationProtocolRDP, ApplicationProtocolDNS, ApplicationProtocolTLS]"

definition addApplicationRefs :: "ApplicationObservation \<Rightarrow> DestinationStatus \<Rightarrow> DestinationStatus" where
  "addApplicationRefs application = addObservationRefs (ao_Provenance application)
     (ao_ProbeNames application) (ao_EvidenceIDs application)"

text \<open>The branch for a boundary that was required but not attempted.\<close>

definition notAttemptedStatus ::
    "DestinationStatus \<Rightarrow> Observations \<Rightarrow> DestinationStatus \<times> DestinationStatus option" where
  "notAttemptedStatus status0 observations =
     (let application = ob_Application observations;
          protocol = ao_Protocol application;
          security = ob_Security observations in
      if (protocol = ApplicationProtocolHTTPS \<or> protocol = ApplicationProtocolTLS)
         \<and> (so_Attempted security \<or> so_HandshakeComplete security)
      then (status0, None)
      else case pathDestinationStatus (addApplicationRefs application status0) observations of
          (status, pathResult) \<Rightarrow>
            (let after = (case pathResult of
               Some result \<Rightarrow>
                 if ds_Status result \<noteq> DestinationStatusReachable then (status, Some result)
                 else (status, None)
             | None \<Rightarrow>
                 (case transportDestinationStatus status observations of
                    (status, Some result) \<Rightarrow>
                      if ds_Status result = DestinationStatusUnreachable then (status, Some result)
                      else (status, None)
                  | (status, None) \<Rightarrow> (status, None))) in
             case after of
               (status, Some result) \<Rightarrow> (status, Some result)
             | (status, None) \<Rightarrow>
                 (let status = addPathObservationRefs observations status in
                  (status, Some (finishDestinationStatus status DestinationStatusIndeterminate
                    ''The requested application service was not attempted.'' FailureReasonNone)))))"

definition smbStatus ::
    "DestinationStatus \<Rightarrow> Observations \<Rightarrow> DestinationStatus \<times> DestinationStatus option" where
  "smbStatus status0 observations =
     (let application = ob_Application observations;
          smbResult = (\<lambda>r. case ao_SMB application of None \<Rightarrow> False | Some smb \<Rightarrow> sm_Result smb = r);
          negotiated = (case ao_SMB application of None \<Rightarrow> False | Some smb \<Rightarrow> sm_Negotiated smb);
          status = addApplicationRefs application status0 in
      if negotiated \<or> smbResult SMBResultNegotiated
      then (status, Some (finishDestinationStatus status DestinationStatusReachable
        ''SMB negotiation succeeded.'' FailureReasonNone))
      else if smbResult SMBResultTCPFailure then
        (case transportDestinationStatus status observations of
           (status, Some result) \<Rightarrow> (status, Some result)
         | (status, None) \<Rightarrow> (status, Some (finishDestinationStatus status
             DestinationStatusIndeterminate ''SMB transport evidence is insufficient.''
             (ao_FailureReason application))))
      else if (applicationAttempted application
          \<or> ao_SMB application \<noteq> None \<and> \<not> smbResult SMBResultUnknown \<and> \<not> smbResult SMBResultNotAttempted)
        \<and> (ao_ResponseReceived application \<or> ao_TransportConnected application
          \<or> tpo_Connected (ob_Transport observations))
      then (status, Some (finishDestinationStatus status DestinationStatusDegraded
        ''SMB protocol negotiation was rejected or failed.'' (ao_FailureReason application)))
      else (status, None))"

definition httpStatus ::
    "DestinationStatus \<Rightarrow> Observations \<Rightarrow> DestinationStatus \<times> DestinationStatus option" where
  "httpStatus status0 observations =
     (let application = ob_Application observations;
          code = ao_StatusCode application;
          result = ao_Result application;
          status = addApplicationRefs application status0 in
      if ao_ResponseReceived application \<and> (code \<ge> 400 \<or> result = HTTPResultStatusFailure)
      then (status, Some (finishDestinationStatus status DestinationStatusDegraded
        (''HTTP returned '' @ formatInt code @ ''.'')
        (if ao_FailureReason application = FailureReasonNone
            \<or> ao_FailureReason application = FailureReasonUnknown
         then FailureReasonHTTPStatusCode else ao_FailureReason application)))
      else if ao_ResponseReceived application
        \<and> (result = HTTPResultSuccess \<or> code \<ge> 200 \<and> code < 400)
      then (status, Some (finishDestinationStatus status DestinationStatusReachable
        (httpSuccessDetail code) FailureReasonNone))
      else if applicationAttempted application \<or> result = HTTPResultRequestFailure then
        (if ao_TransportConnected application \<or> tpo_Connected (ob_Transport observations)
         then (status, Some (finishDestinationStatus status DestinationStatusDegraded
           ''HTTP request failed after transport connection.'' (ao_FailureReason application)))
         else transportDestinationStatus status observations)
      else (status, None))"

definition handshakeStatus ::
    "DestinationStatus \<Rightarrow> Observations \<Rightarrow> DestinationStatus \<times> DestinationStatus option" where
  "handshakeStatus status0 observations =
     (let application = ob_Application observations;
          protocol = ao_Protocol application;
          status = addApplicationRefs application status0 in
      if ao_HandshakeComplete application
         \<or> ao_ProtocolResult application = ApplicationProtocolResultSuccess
      then (status, Some (finishDestinationStatus status DestinationStatusReachable
        (toUpper protocol @ '' handshake succeeded.'') FailureReasonNone))
      else if applicationAttempted application then
        (if ao_TransportConnected application \<or> ao_ResponseReceived application
            \<or> ao_EndpointUsed application \<noteq> None \<or> tpo_Connected (ob_Transport observations)
         then (status, Some (finishDestinationStatus status DestinationStatusDegraded
           (toUpper protocol @ '' protocol handshake was rejected or malformed.'')
           (ao_FailureReason application)))
         else transportDestinationStatus status observations)
      else (status, None))"

definition otherApplicationStatus ::
    "DestinationStatus \<Rightarrow> Observations \<Rightarrow> DestinationStatus \<times> DestinationStatus option" where
  "otherApplicationStatus status0 observations =
     (let application = ob_Application observations in
      if ao_RequestAttempted application \<or> ao_ResponseReceived application
         \<or> ao_HandshakeAttempted application then
        (let status = addApplicationRefs application status0 in
         if ao_ResponseReceived application \<or> ao_TransportConnected application
            \<or> tpo_Connected (ob_Transport observations)
         then (status, Some (finishDestinationStatus status DestinationStatusDegraded
           ''The requested application service did not complete successfully.''
           (ao_FailureReason application)))
         else (status, None))
      else (status0, None))"

definition applicationDestinationStatus ::
    "DestinationStatus \<Rightarrow> Observations \<Rightarrow> DestinationStatus \<times> DestinationStatus option" where
  "applicationDestinationStatus status0 observations =
     (let application = ob_Application observations;
          protocol = ao_Protocol application;
          result = ao_Result application in
      if protocol = [] \<and> ao_SMB application = None \<and> \<not> applicationAttempted application
      then (status0, None)
      else if ao_Applicability application = ObservationApplicabilityUnsupported
        \<or> result = HTTPResultUnsupported
        \<or> ao_ProtocolResult application = ApplicationProtocolResultUnsupported
      then (let status = addApplicationRefs application status0 in
        (status, Some (finishDestinationStatus status DestinationStatusIndeterminate
          ''The requested application protocol is unsupported.'' FailureReasonUnsupported)))
      else if requiresApplicationBoundary protocol \<and> \<not> applicationAttempted application
      then notAttemptedStatus status0 observations
      else if ao_SMB application \<noteq> None \<or> protocol = ApplicationProtocolSMB
      then smbStatus status0 observations
      else if protocol = ApplicationProtocolHTTP \<or> protocol = ApplicationProtocolHTTPS
        \<or> ao_StatusCode application \<noteq> 0 \<or> result = HTTPResultSuccess
        \<or> result = HTTPResultStatusFailure \<or> result = HTTPResultRequestFailure
      then httpStatus status0 observations
      else if protocol = ApplicationProtocolSSH \<or> protocol = ApplicationProtocolRDP
      then handshakeStatus status0 observations
      else otherApplicationStatus status0 observations)"

section \<open>The projection\<close>

definition destinationFromNormalized :: "Observations \<Rightarrow> DestinationStatus" where
  "destinationFromNormalized observations =
     (case applicationDestinationStatus (baseDestinationStatus observations) observations of
        (status, Some result) \<Rightarrow> result
      | (status, None) \<Rightarrow>
     (case securityDestinationStatus status observations of
        (status, Some result) \<Rightarrow> result
      | (status, None) \<Rightarrow>
     (case pathDestinationStatus status observations of (status, pathResult) \<Rightarrow>
      if (case pathResult of None \<Rightarrow> False | Some r \<Rightarrow> ds_Status r = DestinationStatusReachable)
      then the pathResult
      else case transportDestinationStatus status observations of
        (status, Some result) \<Rightarrow> result
      | (status, None) \<Rightarrow>
      (case pathResult of Some result \<Rightarrow> result
       | None \<Rightarrow>
          (let name = ob_NameResolution observations;
               status = addNameResolutionRefs name status in
           if nro_FailureReason name \<noteq> [] \<and> nro_FailureReason name \<noteq> FailureReasonNone
                \<and> nro_FailureReason name \<noteq> FailureReasonUnknown
              \<or> nro_Certainty name = ObservationCertaintyObserved \<and> nro_A name = [] \<and> nro_AAAA name = []
           then finishDestinationStatus status DestinationStatusIndeterminate
             ''Name resolution did not establish a usable endpoint.'' (nro_FailureReason name)
           else finishDestinationStatus status DestinationStatusIndeterminate
             ''Reachability could not be established from the available evidence.''
             FailureReasonNone)))))"

definition DestinationStatusFromObservations :: "Observations \<Rightarrow> DestinationStatus" where
  "DestinationStatusFromObservations value = destinationFromNormalized (NormalizeObservations value)"

definition DestinationStatusForReport :: "DiagnosticReport \<Rightarrow> DestinationStatus" where
  "DestinationStatusForReport diagnosticReport =
     DestinationStatusFromObservations (dr_Observations diagnosticReport)"

end
