(* ===== verification/DestinationFacts.thy ===== *)
theory DestinationFacts
  imports DestinationStatus
begin

text \<open>
  Facts about the destination status: what evidence each verdict rests on, the shape of every
  result, that references are never invented, and the precedence of the layers.
\<close>

section \<open>References\<close>

lemma set_appendUniqueDestination:
  "set (appendUniqueDestination values additions) = set values \<union> {v \<in> set additions. v \<noteq> []}"
  unfolding appendUniqueDestination_def by (induction additions arbitrary: "values") auto

lemma distinct_appendUniqueDestination:
  "distinct values \<Longrightarrow> distinct (appendUniqueDestination values additions)"
  unfolding appendUniqueDestination_def by (induction additions arbitrary: "values") auto

lemma set_uniqueDestination: "set (uniqueDestination values) = {v \<in> set values. v \<noteq> []}"
  by (simp add: uniqueDestination_def set_appendUniqueDestination)

lemma distinct_uniqueDestination: "distinct (uniqueDestination values)"
  by (simp add: uniqueDestination_def distinct_appendUniqueDestination)

text \<open>Every identifier and probe name that the projection may refer to.\<close>

definition knownEvidence :: "Observations \<Rightarrow> string set" where
  "knownEvidence obs = set (ao_EvidenceIDs (ob_Application obs)) \<union> set (so_EvidenceIDs (ob_Security obs))
     \<union> set (tpo_EvidenceIDs (ob_Transport obs)) \<union> set (nro_EvidenceIDs (ob_NameResolution obs))
     \<union> (\<Union>p\<in>set (ob_PathProvenance obs) \<union> set (ob_PacketFlowProvenance obs). set (opv_EvidenceIDs p))
     \<union> (case effectiveDestinationEndpoint obs of None \<Rightarrow> {} | Some e \<Rightarrow> set (ep_EvidenceIDs e))"

definition knownProbes :: "Observations \<Rightarrow> string set" where
  "knownProbes obs = set (ao_ProbeNames (ob_Application obs)) \<union> set (so_ProbeNames (ob_Security obs))
     \<union> set (tpo_ProbeNames (ob_Transport obs)) \<union> set (nro_ProbeNames (ob_NameResolution obs))
     \<union> opv_ProbeName ` (set (ob_PathProvenance obs) \<union> set (ob_PacketFlowProvenance obs))"

definition traced :: "Observations \<Rightarrow> DestinationStatus \<Rightarrow> bool" where
  "traced obs s \<longleftrightarrow> set (ds_EvidenceIDs s) \<subseteq> knownEvidence obs \<and> set (ds_ProbeNames s) \<subseteq> knownProbes obs"

lemma traced_add:
  assumes "traced obs s" "set probes - {[]} \<subseteq> knownProbes obs" "set ids - {[]} \<subseteq> knownEvidence obs"
  shows "traced obs (addObservationRefs provenance probes ids s)"
  using assms by (auto simp: traced_def addObservationRefs_def set_appendUniqueDestination)

lemma traced_layers [intro]:
  "traced obs s \<Longrightarrow> traced obs (addApplicationRefs (ob_Application obs) s)"
  "traced obs s \<Longrightarrow> traced obs (addNameResolutionRefs (ob_NameResolution obs) s)"
  "traced obs s \<Longrightarrow> traced obs (addObservationRefs (so_Provenance (ob_Security obs))
     (so_ProbeNames (ob_Security obs)) (so_EvidenceIDs (ob_Security obs)) s)"
  "traced obs s \<Longrightarrow> traced obs (addObservationRefs (tpo_Provenance (ob_Transport obs))
     (tpo_ProbeNames (ob_Transport obs)) (tpo_EvidenceIDs (ob_Transport obs)) s)"
  unfolding addApplicationRefs_def addNameResolutionRefs_def
  by (rule traced_add, assumption, force simp: knownProbes_def, force simp: knownEvidence_def)+

lemma provenance_known:
  assumes "values = ob_PathProvenance obs \<or> values = ob_PacketFlowProvenance obs"
  shows "set (opv_EvidenceIDs (observationProvenanceAt values index)) \<subseteq> knownEvidence obs"
    "opv_ProbeName (observationProvenanceAt values index) \<in> knownProbes obs \<union> {[]}"
  using assms nth_mem [of index "values"]
  by (auto simp: observationProvenanceAt_def knownEvidence_def knownProbes_def zero_ObservationProvenance_def)

lemma traced_provenance_at:
  assumes "values = ob_PathProvenance obs \<or> values = ob_PacketFlowProvenance obs" "traced obs s"
  shows "traced obs (addProvenanceRefs values index s)"
  unfolding addProvenanceRefs_def
proof (rule traced_add [OF assms(2)])
  show "set [opv_ProbeName (observationProvenanceAt values index)] - {[]} \<subseteq> knownProbes obs"
    using provenance_known(2) [OF assms(1), of index] by auto
  show "set (opv_EvidenceIDs (observationProvenanceAt values index)) - {[]} \<subseteq> knownEvidence obs"
    using provenance_known(1) [OF assms(1), of index] by blast
qed

lemmas traced_provenance [intro] =
  traced_provenance_at [OF disjI1 [OF refl]] traced_provenance_at [OF disjI2 [OF refl]]

lemma traced_fold [intro]:
  "traced obs s \<Longrightarrow> traced obs (fold (addProvenanceRefs (ob_PathProvenance obs)) xs s)"
  "traced obs s \<Longrightarrow> traced obs (fold (addProvenanceRefs (ob_PacketFlowProvenance obs)) xs s)"
  by (induction xs arbitrary: s) auto

lemma traced_paths [intro]: "traced obs s \<Longrightarrow> traced obs (addPathObservationRefs obs s)"
  by (auto simp: addPathObservationRefs_def)

lemma traced_finish: "traced obs s \<Longrightarrow> traced obs (finishDestinationStatus s st detail reason)"
  by (auto simp: traced_def finishDestinationStatus_def set_uniqueDestination)

lemma base_simps:
  "ds_ProbeNames (baseDestinationStatus obs) = []"
  "ds_EvidenceIDs (baseDestinationStatus obs) = (case effectiveDestinationEndpoint obs of
     None \<Rightarrow> [] | Some e \<Rightarrow> appendUniqueDestination [] (ep_EvidenceIDs e))"
  unfolding baseDestinationStatus_def Let_def
  by (cases "effectiveDestinationEndpoint obs"; simp only: option.case DestinationStatus.simps)+

lemma traced_base: "traced obs (baseDestinationStatus obs)"
  unfolding traced_def base_simps
  by (cases "effectiveDestinationEndpoint obs") (auto simp: knownEvidence_def set_appendUniqueDestination)

section \<open>The evidence behind a verdict\<close>

definition applicationReached :: "Observations \<Rightarrow> bool" where
  "applicationReached obs \<longleftrightarrow> (let a = ob_Application obs in
     (\<exists>smb. ao_SMB a = Some smb \<and> (sm_Negotiated smb \<or> sm_Result smb = SMBResultNegotiated))
     \<or> ao_ResponseReceived a \<and> ao_StatusCode a < 400 \<and> ao_Result a \<noteq> HTTPResultStatusFailure
         \<and> (ao_Result a = HTTPResultSuccess \<or> ao_StatusCode a \<ge> 200)
     \<or> ao_HandshakeComplete a \<or> ao_ProtocolResult a = ApplicationProtocolResultSuccess)"

definition connectionSeen :: "Observations \<Rightarrow> bool" where
  "connectionSeen obs \<longleftrightarrow> tpo_Connected (ob_Transport obs)
     \<or> tpo_ConnectionOutcome (ob_Transport obs) = TransportConnectionOutcomeConnected
     \<or> (\<exists>p\<in>set (ob_Paths obs). pto_Protocol p = PathProtocolTCP \<and> pto_PortAware p
          \<and> pto_DestinationTCPConnected p)
     \<or> (\<exists>f\<in>set (ob_PacketFlows obs). pkf_CaptureStatus f = PacketCaptureStatusAvailable
          \<and> pkf_Certainty f = EvidenceCertaintyConfirmedEndpointResponse
          \<and> pkf_Outcome f \<in> {PacketFlowOutcomeTCPHandshakeConfirmed, PacketFlowOutcomeTCPSYNACK})"

definition reachedEvidence :: "Observations \<Rightarrow> bool" where
  "reachedEvidence obs \<longleftrightarrow>
     applicationReached obs \<or> so_HandshakeComplete (ob_Security obs) \<or> connectionSeen obs"

definition refusedEvidence :: "Observations \<Rightarrow> bool" where
  "refusedEvidence obs \<longleftrightarrow> isConcreteTransportFailure (ob_Transport obs)
     \<or> (\<exists>p\<in>set (ob_Paths obs). pto_Protocol p = PathProtocolTCP \<and> pto_PortAware p
          \<and> pto_DestinationReached p \<and> \<not> pto_DestinationTCPConnected p)
     \<or> (\<exists>f\<in>set (ob_PacketFlows obs). pkf_CaptureStatus f = PacketCaptureStatusAvailable
          \<and> pkf_Certainty f = EvidenceCertaintyConfirmedEndpointResponse
          \<and> pkf_Outcome f = PacketFlowOutcomeTCPRST)"

text \<open>Somebody answered or was spoken to, but the requested service did not complete.\<close>

definition degradedEvidence :: "Observations \<Rightarrow> bool" where
  "degradedEvidence obs \<longleftrightarrow> ao_ResponseReceived (ob_Application obs)
     \<or> ao_TransportConnected (ob_Application obs) \<or> ao_EndpointUsed (ob_Application obs) \<noteq> None
     \<or> tpo_Connected (ob_Transport obs) \<or> so_EndpointUsed (ob_Security obs) \<noteq> None"

definition verdict :: "Observations \<Rightarrow> DestinationStatus \<Rightarrow> bool" where
  "verdict obs r \<longleftrightarrow>
     (ds_Status r = DestinationStatusReachable \<and> reachedEvidence obs
       \<or> ds_Status r = DestinationStatusUnreachable \<and> refusedEvidence obs
       \<or> ds_Status r = DestinationStatusDegraded \<and> degradedEvidence obs
       \<or> ds_Status r = DestinationStatusIndeterminate)"

definition wellFormed :: "DestinationStatus \<Rightarrow> bool" where
  "wellFormed r \<longleftrightarrow>
     ds_Status r \<in> {DestinationStatusReachable, DestinationStatusUnreachable,
       DestinationStatusDegraded, DestinationStatusIndeterminate}
     \<and> ds_Label r = destinationStatusLabel (ds_Status r)
     \<and> ds_FailureReason r \<noteq> [] \<and> ds_FailureReason r \<noteq> FailureReasonUnknown
     \<and> (\<forall>refs\<in>{ds_ProbeNames r, ds_EvidenceIDs r, ds_Provenance r}. distinct refs \<and> [] \<notin> set refs)"

text \<open>
  What every function of the projection guarantees: a traced shared status stays traced, and a
  decision is traced, well formed and rests on evidence.
\<close>

definition decides :: "Observations \<Rightarrow> DestinationStatus \<times> DestinationStatus option \<Rightarrow> bool" where
  "decides obs = (\<lambda>(s, r). traced obs s
     \<and> (\<forall>result. r = Some result \<longrightarrow> traced obs result \<and> verdict obs result \<and> wellFormed result))"

lemma destination_states_distinct [simp]:
  "DestinationStatusReachable \<noteq> DestinationStatusUnreachable"
  "DestinationStatusReachable \<noteq> DestinationStatusDegraded"
  "DestinationStatusReachable \<noteq> DestinationStatusIndeterminate"
  "DestinationStatusUnreachable \<noteq> DestinationStatusReachable"
  "DestinationStatusUnreachable \<noteq> DestinationStatusDegraded"
  "DestinationStatusUnreachable \<noteq> DestinationStatusIndeterminate"
  "DestinationStatusDegraded \<noteq> DestinationStatusReachable"
  "DestinationStatusDegraded \<noteq> DestinationStatusUnreachable"
  "DestinationStatusDegraded \<noteq> DestinationStatusIndeterminate"
  "DestinationStatusIndeterminate \<noteq> DestinationStatusReachable"
  "DestinationStatusIndeterminate \<noteq> DestinationStatusUnreachable"
  "DestinationStatusIndeterminate \<noteq> DestinationStatusDegraded"
  by (simp_all add: DestinationStatusReachable_def DestinationStatusUnreachable_def
      DestinationStatusDegraded_def DestinationStatusIndeterminate_def)

lemma finish_status [simp]: "ds_Status (finishDestinationStatus s st detail reason) = st"
  by (simp add: finishDestinationStatus_def)

lemma wellFormed_finish:
  assumes "st \<in> {DestinationStatusReachable, DestinationStatusUnreachable,
    DestinationStatusDegraded, DestinationStatusIndeterminate}"
  shows "wellFormed (finishDestinationStatus s st detail reason)"
proof -
  have "FailureReasonNone \<noteq> []" "FailureReasonNone \<noteq> FailureReasonUnknown"
    by (simp_all add: FailureReasonNone_def FailureReasonUnknown_def)
  then show ?thesis using assms
    by (auto simp: wellFormed_def finishDestinationStatus_def distinct_uniqueDestination set_uniqueDestination)
qed

lemma decides_if:
  "(c \<Longrightarrow> decides obs a) \<Longrightarrow> (\<not> c \<Longrightarrow> decides obs b) \<Longrightarrow> decides obs (if c then a else b)"
  by simp

lemma decides_None: "traced obs s \<Longrightarrow> decides obs (s, None)"
  by (simp add: decides_def)

lemma decides_finish:
  assumes "traced obs s"
    "st = DestinationStatusReachable \<and> reachedEvidence obs
     \<or> st = DestinationStatusUnreachable \<and> refusedEvidence obs
     \<or> st = DestinationStatusDegraded \<and> degradedEvidence obs \<or> st = DestinationStatusIndeterminate"
  shows "decides obs (s, Some (finishDestinationStatus s st detail reason))"
proof -
  have "wellFormed (finishDestinationStatus s st detail reason)" using assms(2) by (auto intro: wellFormed_finish)
  then show ?thesis using assms by (simp add: decides_def traced_finish verdict_def)
qed

lemma decides_transport: "traced obs s \<Longrightarrow> decides obs (transportDestinationStatus s obs)"
  unfolding transportDestinationStatus_def Let_def
  by (auto intro!: decides_finish decides_None simp: reachedEvidence_def connectionSeen_def refusedEvidence_def)

lemma decides_pathLoop:
  "traced obs s \<Longrightarrow> snd ` set ps \<subseteq> set (ob_Paths obs) \<Longrightarrow> decides obs (pathLoop (ob_PathProvenance obs) ps s)"
proof (induction ps arbitrary: s)
  case Nil
  then show ?case by (simp add: decides_None)
next
  case (Cons p ps)
  obtain i path where p: "p = (i, path)" by fastforce
  have "reachedEvidence obs" if "pto_Protocol path = PathProtocolTCP" "pto_PortAware path"
      "pto_DestinationTCPConnected path"
    using that Cons.prems(2) by (auto simp: p reachedEvidence_def connectionSeen_def)
  moreover have "refusedEvidence obs" if "pto_Protocol path = PathProtocolTCP" "pto_PortAware path"
      "\<not> pto_DestinationTCPConnected path" "pto_DestinationReached path"
    using that Cons.prems(2) by (auto simp: p refusedEvidence_def)
  ultimately show ?case
    using Cons by (auto simp: p Let_def intro!: decides_finish)
qed

lemma decides_flowLoop:
  "traced obs s \<Longrightarrow> snd ` set fs \<subseteq> set (ob_PacketFlows obs) \<Longrightarrow>
     decides obs (flowLoop (ob_PacketFlowProvenance obs) fs s)"
proof (induction fs arbitrary: s)
  case Nil
  then show ?case by (simp add: decides_None)
next
  case (Cons p fs)
  obtain i flow where p: "p = (i, flow)" by fastforce
  have "reachedEvidence obs" if "pkf_CaptureStatus flow = PacketCaptureStatusAvailable"
      "pkf_Certainty flow = EvidenceCertaintyConfirmedEndpointResponse"
      "pkf_Outcome flow = PacketFlowOutcomeTCPHandshakeConfirmed \<or> pkf_Outcome flow = PacketFlowOutcomeTCPSYNACK"
    using that Cons.prems(2) by (auto simp: p reachedEvidence_def connectionSeen_def)
  moreover have "refusedEvidence obs" if "pkf_CaptureStatus flow = PacketCaptureStatusAvailable"
      "pkf_Certainty flow = EvidenceCertaintyConfirmedEndpointResponse"
      "pkf_Outcome flow = PacketFlowOutcomeTCPRST"
    using that Cons.prems(2) by (auto simp: p refusedEvidence_def)
  ultimately show ?case
    using Cons by (auto simp: p Let_def intro!: decides_finish)
qed

lemma snd_enumerate: "snd ` set (enumerate n xs) = set xs"
  by (metis list.set_map map_snd_enumerate)

lemma decides_path:
  assumes "traced obs s"
  shows "decides obs (pathDestinationStatus s obs)"
proof -
  obtain s' r where p: "pathLoop (ob_PathProvenance obs) (enumerate 0 (ob_Paths obs)) s = (s', r)"
    by fastforce
  have d: "decides obs (s', r)" unfolding p [symmetric]
    by (rule decides_pathLoop [OF assms]) (simp add: snd_enumerate)
  then have "traced obs s'" by (simp add: decides_def)
  then have "decides obs (flowLoop (ob_PacketFlowProvenance obs) (enumerate 0 (ob_PacketFlows obs)) s')"
    by (rule decides_flowLoop) (simp add: snd_enumerate)
  then show ?thesis using d by (cases r) (simp_all add: pathDestinationStatus_def p)
qed

lemma decides_security: "traced obs s \<Longrightarrow> decides obs (securityDestinationStatus s obs)"
  unfolding securityDestinationStatus_def Let_def
  by (auto intro!: decides_finish decides_None decides_transport
      simp: reachedEvidence_def degradedEvidence_def)

lemma decides_result:
  assumes "decides obs (s, r)"
  shows "traced obs s" "r = Some result \<Longrightarrow> decides obs (s', Some result) \<longleftrightarrow> traced obs s'"
    "r = Some result \<Longrightarrow> traced obs result \<and> verdict obs result \<and> wellFormed result"
  using assms by (auto simp: decides_def)

lemma decides_notAttempted:
  assumes t: "traced obs s"
  shows "decides obs (notAttemptedStatus s obs)"
proof -
  let ?s = "addApplicationRefs (ob_Application obs) s"
  obtain s1 r1 where p: "pathDestinationStatus ?s obs = (s1, r1)" by fastforce
  have "traced obs ?s" using t by auto
  from decides_path [OF this] have d1: "decides obs (s1, r1)" by (simp add: p)
  obtain s2 r2 where q: "transportDestinationStatus s1 obs = (s2, r2)" by fastforce
  from decides_transport [OF decides_result(1) [OF d1]] have d2: "decides obs (s2, r2)" by (simp add: q)
  have last: "decides obs (let s = addPathObservationRefs obs u in
      (s, Some (finishDestinationStatus s DestinationStatusIndeterminate d reason)))"
    if "traced obs u" for u d reason
    unfolding Let_def by (rule decides_finish) (use that in auto)
  show ?thesis
    unfolding notAttemptedStatus_def Let_def p prod.case
    using t d1 d2 last [OF decides_result(1) [OF d1]] last [OF decides_result(1) [OF d2]]
    by (cases r1; cases r2) (simp_all add: q Let_def decides_None)
qed

lemma decides_smb:
  assumes t: "traced obs s"
  shows "decides obs (smbStatus s obs)"
proof -
  let ?s = "addApplicationRefs (ob_Application obs) s"
  have t': "traced obs ?s" using t by auto
  obtain s1 r1 where q: "transportDestinationStatus ?s obs = (s1, r1)" by fastforce
  from decides_transport [OF t'] have d1: "decides obs (s1, r1)" by (simp add: q)
  have fallback: "decides obs (case (s1, r1) of (s, Some result) \<Rightarrow> (s, Some result)
      | (s, None) \<Rightarrow> (s, Some (finishDestinationStatus s DestinationStatusIndeterminate d reason)))" for d reason
    using d1 decides_result(1) [OF d1] by (cases r1) (auto intro!: decides_finish)
  show ?thesis
    unfolding smbStatus_def Let_def q
    using t' fallback
    by (auto intro!: decides_finish decides_None simp: reachedEvidence_def applicationReached_def
        degradedEvidence_def Let_def split: option.splits)
qed

lemma decides_http: "traced obs s \<Longrightarrow> decides obs (httpStatus s obs)"
  unfolding httpStatus_def Let_def
  by (intro decides_if decides_finish decides_None decides_transport traced_layers;
      (assumption | (simp add: reachedEvidence_def applicationReached_def degradedEvidence_def Let_def; blast)))

lemma decides_handshake: "traced obs s \<Longrightarrow> decides obs (handshakeStatus s obs)"
  unfolding handshakeStatus_def Let_def
  by (intro decides_if decides_finish decides_None decides_transport traced_layers;
      (assumption | (simp add: reachedEvidence_def applicationReached_def degradedEvidence_def Let_def; blast)))

lemma decides_other: "traced obs s \<Longrightarrow> decides obs (otherApplicationStatus s obs)"
  unfolding otherApplicationStatus_def Let_def
  by (auto intro!: decides_finish decides_None simp: degradedEvidence_def)

lemma decides_application: "traced obs s \<Longrightarrow> decides obs (applicationDestinationStatus s obs)"
  unfolding applicationDestinationStatus_def Let_def
  by (intro decides_if decides_None decides_notAttempted decides_smb decides_http decides_handshake
      decides_other decides_finish traced_layers disjI2 refl)

lemma final_sound:
  assumes "traced obs s"
  shows "traced obs (finishDestinationStatus s DestinationStatusIndeterminate d reason)"
    "verdict obs (finishDestinationStatus s DestinationStatusIndeterminate d reason)"
    "wellFormed (finishDestinationStatus s DestinationStatusIndeterminate d reason)"
  using assms by (simp_all add: traced_finish verdict_def wellFormed_finish)

lemma destination_sound:
  "traced obs (destinationFromNormalized obs) \<and> verdict obs (destinationFromNormalized obs)
   \<and> wellFormed (destinationFromNormalized obs)"
proof -
  obtain s1 r1 where a: "applicationDestinationStatus (baseDestinationStatus obs) obs = (s1, r1)" by fastforce
  obtain s2 r2 where b: "securityDestinationStatus s1 obs = (s2, r2)" by fastforce
  obtain s3 r3 where c: "pathDestinationStatus s2 obs = (s3, r3)" by fastforce
  obtain s4 r4 where d: "transportDestinationStatus s3 obs = (s4, r4)" by fastforce
  have d1: "decides obs (s1, r1)" using decides_application [OF traced_base, of obs] by (simp add: a)
  have d2: "decides obs (s2, r2)" using decides_security [OF decides_result(1) [OF d1]] by (simp add: b)
  have d3: "decides obs (s3, r3)" using decides_path [OF decides_result(1) [OF d2]] by (simp add: c)
  have d4: "decides obs (s4, r4)" using decides_transport [OF decides_result(1) [OF d3]] by (simp add: d)
  have "traced obs (addNameResolutionRefs (ob_NameResolution obs) s4)"
    using decides_result(1) [OF d4] by auto
  note final = final_sound [OF this]
  show ?thesis
    unfolding destinationFromNormalized_def a
    using decides_result(3) [OF d1] decides_result(3) [OF d2] decides_result(3) [OF d3]
      decides_result(3) [OF d4] final
    by (cases r1; cases r2; cases r3; cases r4) (simp_all add: b c d Let_def)
qed

section \<open>Normalisation keeps the evidence\<close>

lemma normalized_fields:
  "ob_Transport (NormalizeObservations v) = NormalizeTransportObservation (ob_Transport v)"
  "ob_Security (NormalizeObservations v) = NormalizeSecurityObservation (ob_Security v)"
  "ob_Application (NormalizeObservations v) = NormalizeApplicationObservation (ob_Application v)"
  "ob_Paths (NormalizeObservations v) = clonePathObservations (ob_Paths v)"
  "ob_PacketFlows (NormalizeObservations v) = clonePacketFlows (ob_PacketFlows v)"
  by (simp_all add: NormalizeObservations_def Let_def)

lemma normalized_application [simp]:
  "ao_ResponseReceived (NormalizeApplicationObservation a) = ao_ResponseReceived a"
  "ao_TransportConnected (NormalizeApplicationObservation a) = ao_TransportConnected a"
  "ao_RequestAttempted (NormalizeApplicationObservation a) = ao_RequestAttempted a"
  "ao_HandshakeAttempted (NormalizeApplicationObservation a) = ao_HandshakeAttempted a"
  "ao_HandshakeComplete (NormalizeApplicationObservation a) = ao_HandshakeComplete a"
  "ao_ProtocolResult (NormalizeApplicationObservation a) = ao_ProtocolResult a"
  "ao_Applicability (NormalizeApplicationObservation a) = ao_Applicability a"
  "ao_Protocol (NormalizeApplicationObservation a) = ao_Protocol a"
  "ao_StatusCode (NormalizeApplicationObservation a) = ao_StatusCode a"
  "ao_Result (NormalizeApplicationObservation a) = ao_Result a"
  "ao_FailureReason (NormalizeApplicationObservation a) = ao_FailureReason a"
  "ao_EndpointUsed (NormalizeApplicationObservation a) = map_option cloneEndpoint (ao_EndpointUsed a)"
  "ao_SMB (NormalizeApplicationObservation a) =
     map_option (\<lambda>smb. smb\<lparr>sm_Capabilities := [] @ sm_Capabilities smb\<rparr>) (ao_SMB a)"
  by (simp_all add: NormalizeApplicationObservation_def)

lemma normalized_lower [simp]:
  "so_HandshakeComplete (NormalizeSecurityObservation s) = so_HandshakeComplete s"
  "so_EndpointUsed (NormalizeSecurityObservation s) = map_option cloneEndpoint (so_EndpointUsed s)"
  "tpo_Connected (NormalizeTransportObservation t) = tpo_Connected t"
  "tpo_ConnectionOutcome (NormalizeTransportObservation t) = tpo_ConnectionOutcome t"
  "tpo_FailureReason (NormalizeTransportObservation t) = tpo_FailureReason t"
  by (simp_all add: NormalizeSecurityObservation_def NormalizeTransportObservation_def)

lemma normalized_connection: "connectionSeen (NormalizeObservations v) = connectionSeen v"
  by (simp add: connectionSeen_def normalized_fields clonePathObservations_def clonePacketFlows_def)

lemma normalized_reached: "reachedEvidence (NormalizeObservations v) = reachedEvidence v"
  by (auto simp: reachedEvidence_def normalized_connection applicationReached_def normalized_fields Let_def)

lemma normalized_refused: "refusedEvidence (NormalizeObservations v) = refusedEvidence v"
  by (simp add: refusedEvidence_def normalized_fields clonePathObservations_def clonePacketFlows_def
      isConcreteTransportFailure_def)

lemma normalized_degraded: "degradedEvidence (NormalizeObservations v) = degradedEvidence v"
  by (auto simp: degradedEvidence_def normalized_fields)

section \<open>The properties\<close>



text \<open>An HTTP response is what the application observation says, whatever the lower layers say.\<close>

definition httpResponse :: "ApplicationObservation \<Rightarrow> bool" where
  "httpResponse a \<longleftrightarrow> ao_Protocol a \<in> {ApplicationProtocolHTTP, ApplicationProtocolHTTPS}
     \<and> ao_SMB a = None \<and> ao_Applicability a \<noteq> ObservationApplicabilityUnsupported
     \<and> ao_Result a \<noteq> HTTPResultUnsupported
     \<and> ao_ProtocolResult a \<noteq> ApplicationProtocolResultUnsupported \<and> ao_ResponseReceived a"

lemma http_not_smb: "ApplicationProtocolHTTP \<noteq> ApplicationProtocolSMB"
    "ApplicationProtocolHTTPS \<noteq> ApplicationProtocolSMB" "ApplicationProtocolHTTP \<noteq> []"
    "ApplicationProtocolHTTPS \<noteq> []"
  by (simp_all add: ApplicationProtocolHTTP_def ApplicationProtocolHTTPS_def ApplicationProtocolSMB_def)

lemma http_decides:
  assumes "httpResponse (ob_Application obs)"
  shows "applicationDestinationStatus s obs = httpStatus s obs"
proof -
  have "applicationAttempted (ob_Application obs)"
    using assms by (simp add: httpResponse_def applicationAttempted_def)
  then show ?thesis
    using assms http_not_smb unfolding httpResponse_def applicationDestinationStatus_def Let_def by auto
qed

text \<open>the application outranks every lower layer. When an HTTP response was received, an error
  status or result makes the destination degraded, with a concrete reason, even over a working
  TCP and TLS connection; a success makes it reachable, even against failures recorded below.\<close>

theorem application_precedence:
  assumes "httpResponse (ob_Application value)"
  shows "(400 \<le> ao_StatusCode (ob_Application value) \<or> ao_Result (ob_Application value) = HTTPResultStatusFailure \<longrightarrow>
      ds_Status (DestinationStatusFromObservations value) = DestinationStatusDegraded
      \<and> ds_FailureReason (DestinationStatusFromObservations value) =
          (if ao_FailureReason (ob_Application value) = FailureReasonNone
              \<or> ao_FailureReason (ob_Application value) = FailureReasonUnknown
           then FailureReasonHTTPStatusCode
           else if ao_FailureReason (ob_Application value) = [] then FailureReasonNone
           else ao_FailureReason (ob_Application value)))
    \<and> (ao_StatusCode (ob_Application value) < 400 \<and> ao_Result (ob_Application value) \<noteq> HTTPResultStatusFailure
        \<and> (ao_Result (ob_Application value) = HTTPResultSuccess \<or> 200 \<le> ao_StatusCode (ob_Application value)) \<longrightarrow>
      ds_Status (DestinationStatusFromObservations value) = DestinationStatusReachable
      \<and> ds_FailureReason (DestinationStatusFromObservations value) = FailureReasonNone)"
proof -
  let ?obs = "NormalizeObservations value"
  have h: "httpResponse (ob_Application ?obs)"
    using assms by (simp add: httpResponse_def normalized_fields)
  have r: "ao_ResponseReceived (ob_Application ?obs)" using h by (simp add: httpResponse_def)
  have distinct: "FailureReasonHTTPStatusCode \<noteq> []" "FailureReasonHTTPStatusCode \<noteq> FailureReasonUnknown"
      "FailureReasonNone \<noteq> []" "FailureReasonNone \<noteq> FailureReasonUnknown"
    by (simp_all add: FailureReasonHTTPStatusCode_def FailureReasonUnknown_def FailureReasonNone_def)
  show ?thesis
    unfolding DestinationStatusFromObservations_def destinationFromNormalized_def http_decides [OF h]
    using r distinct
    by (auto simp: httpStatus_def Let_def finishDestinationStatus_def normalized_fields)
qed

text \<open>
  The HTTP branch also takes every other protocol whose result is a success, so an answered DNS
  service is reported in the words of an HTTP service.
\<close>

lemma dns_success_called_http:
  "ds_Detail (DestinationStatusFromObservations (zero_Observations\<lparr>
     ob_Application := zero_ApplicationObservation\<lparr>ao_Protocol := ApplicationProtocolDNS,
       ao_RequestAttempted := True, ao_ResponseReceived := True, ao_Result := HTTPResultSuccess\<rparr>\<rparr>)) =
   ''HTTP service responded successfully.''"
  by code_simp

section \<open>The properties at sample inputs\<close>

definition connectedButFailing :: Observations where
  "connectedButFailing = zero_Observations\<lparr>
     ob_Transport := zero_TransportObservation\<lparr>tpo_Connected := True\<rparr>,
     ob_Application := zero_ApplicationObservation\<lparr>ao_Protocol := ApplicationProtocolHTTP,
       ao_ResponseReceived := True, ao_StatusCode := 503\<rparr>\<rparr>"

theorem application_precedence_witness:
  "ds_Status (DestinationStatusFromObservations connectedButFailing) = DestinationStatusDegraded"
proof -
  have "httpResponse (ob_Application connectedButFailing)"
    by (simp add: httpResponse_def connectedButFailing_def zero_ApplicationObservation_def
        ObservationApplicabilityUnsupported_def HTTPResultUnsupported_def ApplicationProtocolResultUnsupported_def)
  moreover have "400 \<le> ao_StatusCode (ob_Application connectedButFailing)"
    by (simp add: connectedButFailing_def)
  ultimately show ?thesis using application_precedence by blast
qed


end
