(* ===== verification/BatchManager.thy ===== *)
theory BatchManager
  imports BatchPlan DestinationStatus Normalize
begin

text \<open>
  \<open>internal/batch/manager.go\<close>: the bounded, in-memory execution of a validation plan.

  A batch runs its entries on a fixed number of workers that take indices from a closed, buffered
  channel. Every access to the batch is a critical section under its mutex; each is a function
  here, and a worker's progress between two of them is its \<open>worker\<close> value, so that the step
  relation of \<open>BatchRuns\<close> can interleave workers, cancellation and the final section.

  Outside the model and therefore arguments: the diagnostic runner (its outcome), the clock, the
  context's error at the moments it is read, the source of identifiers, and the copy that
  \<open>encoding/json\<close> makes of a plan or report (\<open>None\<close> where encoding or decoding fails).
  Names that the session manager or the plan already use carry the suffix or prefix \<open>Batch\<close>.
\<close>

section \<open>Constants and types\<close>

definition DefaultConcurrency :: nat where "DefaultConcurrency = 4"
definition DefaultItemTimeout :: int where "DefaultItemTimeout = 30 * 10 ^ 9"
definition DefaultMaxConcurrentBatches :: nat where "DefaultMaxConcurrentBatches = 1"

datatype batchError =
  ErrBatchNotFound | ErrBatchBusy | ErrBatchClosed | ErrEndpointReportUnavailable string
  | ErrBatchEmptyPlan

type_synonym BatchState = string
definition BatchStarting :: BatchState where [go_consts]: "BatchStarting = ''starting''"
definition BatchRunning :: BatchState where [go_consts]: "BatchRunning = ''running''"
definition BatchCancelling :: BatchState where [go_consts]: "BatchCancelling = ''cancelling''"
definition BatchCompleted :: BatchState where [go_consts]: "BatchCompleted = ''completed''"
definition BatchCancelled :: BatchState where [go_consts]: "BatchCancelled = ''cancelled''"
definition BatchFailed :: BatchState where [go_consts]: "BatchFailed = ''failed''"

type_synonym EntryState = string
definition EntryQueued :: EntryState where [go_consts]: "EntryQueued = ''queued''"
definition EntryRunning :: EntryState where [go_consts]: "EntryRunning = ''running''"
definition EntryCompleted :: EntryState where [go_consts]: "EntryCompleted = ''completed''"
definition EntryCancelled :: EntryState where [go_consts]: "EntryCancelled = ''cancelled''"
definition EntryUnsupported :: EntryState where [go_consts]: "EntryUnsupported = ''unsupported''"

type_synonym ValidationOutcome = string
definition ValidationPassed :: ValidationOutcome where [go_consts]: "ValidationPassed = ''passed''"
definition ValidationFailed :: ValidationOutcome where [go_consts]: "ValidationFailed = ''failed''"
definition ValidationPartial :: ValidationOutcome where [go_consts]: "ValidationPartial = ''partial''"
definition ValidationUnsupported :: ValidationOutcome where [go_consts]:
  "ValidationUnsupported = ''unsupported''"
definition ValidationCancelled :: ValidationOutcome where [go_consts]:
  "ValidationCancelled = ''cancelled''"
definition ValidationNotRun :: ValidationOutcome where [go_consts]: "ValidationNotRun = ''not_run''"

record FailureBoundary =
  fb_Reason :: FailureReason
  fb_Layer :: Layer
  fb_FaultDomain :: FaultDomain
  fb_Detail :: string
  fb_ProbeNames :: "string list"
  fb_EvidenceIDs :: "string list"

text \<open>The \<open>Error\<close> text of a result, by what produces it.\<close>

datatype resultError =
  NoResultError | EntryUnsupportedError unsupportedReason | CancelledError | TimedOutError | PanickedError

definition zero_DestinationStatus :: DestinationStatus where
  "zero_DestinationStatus = \<lparr>ds_Status = [], ds_Label = [], ds_Detail = [], ds_RequestedIdentity = [],
     ds_RequestedService = [], ds_EffectiveEndpoint = None, ds_FailureReason = [], ds_ProbeNames = [],
     ds_EvidenceIDs = [], ds_Provenance = []\<rparr>"

definition zero_FailureBoundary :: FailureBoundary where
  "zero_FailureBoundary = \<lparr>fb_Reason = [], fb_Layer = [], fb_FaultDomain = [], fb_Detail = [],
     fb_ProbeNames = [], fb_EvidenceIDs = []\<rparr>"

record BatchResult =
  rs_ID :: string
  rs_RequestedHostname :: string
  rs_RequestedIdentity :: string
  rs_Port :: "16 word"
  rs_Service :: ServiceProfile
  rs_CaptureMechanism :: BrowserCaptureMechanism
  rs_CaptureOutcome :: BrowserCaptureOutcome
  rs_CaptureFailed :: bool
  rs_CaptureObservationCount :: "64 word"
  rs_CaptureConnectionCount :: "64 word"
  rs_CaptureSuccessCount :: "64 word"
  rs_CaptureFailureCount :: "64 word"
  rs_Capture :: CaptureProvenance
  rs_State :: EntryState
  rs_Outcome :: ValidationOutcome
  rs_ReportStatus :: ReportStatus
  rs_Destination :: DestinationStatus
  rs_FailureBoundary :: FailureBoundary
  rs_DNS :: "NameResolutionObservation option"
  rs_TCP :: "TransportObservation option"
  rs_TLS :: "SecurityObservation option"
  rs_Application :: "ApplicationObservation option"
  rs_Report :: "DiagnosticReport option"
  rs_Error :: resultError
  rs_StartedAt :: "gotime option"
  rs_CompletedAt :: "gotime option"

record Summary =
  su_Total :: nat
  su_Queued :: nat
  su_Running :: nat
  su_Completed :: nat
  su_Passed :: nat
  su_Failed :: nat
  su_Partial :: nat
  su_Unsupported :: nat
  su_Cancelled :: nat
  su_CapturedFailureCount :: nat
  su_ValidationFailureCount :: nat
  su_FailedEndpointIDs :: "string list"
  su_FailedIdentities :: "string list"

record BatchReport =
  bt_SchemaVersion :: string
  bt_ID :: string
  bt_CaptureSessionID :: string
  bt_CaptureBrowser :: string
  bt_Selection :: SelectionMode
  bt_State :: BatchState
  bt_StartedAt :: "gotime option"
  bt_CompletedAt :: "gotime option"
  bt_Plan :: Plan
  bt_Results :: "BatchResult list"
  bt_Summary :: Summary
  bt_Error :: string

definition BatchReportSchemaVersion :: string where [go_consts]: "BatchReportSchemaVersion = ''1''"

text \<open>
  A worker between two critical sections: waiting for an index, holding one, having found the
  batch cancelled or not, running the entry, holding its result, or gone.
\<close>

datatype worker =
  Idle | Taken nat | Dropping nat | Cleared nat | Executing nat | Holding nat BatchResult | Exited

record managedBatch =
  mb_id :: string
  mb_plan :: Plan
  mb_state :: BatchState
  mb_startedAt :: "gotime option"
  mb_completedAt :: "gotime option"
  mb_results :: "BatchResult list"
  mb_summary :: Summary
  mb_error :: string
  mb_ctxDone :: bool
  mb_done :: bool
  mb_cancelRequested :: bool
  mb_launched :: bool
  mb_jobs :: "nat list"
  mb_workers :: "worker list"

section \<open>Results\<close>

definition resultForEntry :: "PlanEntry \<Rightarrow> BatchResult" where
  "resultForEntry entry = \<lparr>
     rs_ID = pe_ID entry, rs_RequestedHostname = pe_RequestedHostname entry,
     rs_RequestedIdentity = pe_RequestedIdentity entry, rs_Port = pe_Port entry,
     rs_Service = pe_Service entry, rs_CaptureMechanism = pe_CaptureMechanism entry,
     rs_CaptureOutcome = pe_CaptureOutcome entry, rs_CaptureFailed = pe_CaptureFailed entry,
     rs_CaptureObservationCount = pe_CaptureObservationCount entry,
     rs_CaptureConnectionCount = pe_CaptureConnectionCount entry,
     rs_CaptureSuccessCount = pe_CaptureSuccessCount entry,
     rs_CaptureFailureCount = pe_CaptureFailureCount entry, rs_Capture = pe_Capture entry,
     rs_State = EntryQueued, rs_Outcome = ValidationNotRun, rs_ReportStatus = [],
     rs_Destination = zero_DestinationStatus, rs_FailureBoundary = zero_FailureBoundary,
     rs_DNS = None, rs_TCP = None, rs_TLS = None, rs_Application = None, rs_Report = None,
     rs_Error = NoResultError, rs_StartedAt = None, rs_CompletedAt = None\<rparr>"

definition initialResults :: "Plan \<Rightarrow> BatchResult list" where
  "initialResults plan = map resultForEntry (pl_Entries plan)"

definition unsupportedResult :: "gotime \<Rightarrow> PlanEntry \<Rightarrow> BatchResult" where
  "unsupportedResult now entry = (resultForEntry entry)\<lparr>
     rs_State := EntryUnsupported, rs_Outcome := ValidationUnsupported,
     rs_Error := EntryUnsupportedError (pe_UnsupportedReason entry), rs_CompletedAt := Some now\<rparr>"

definition cancelledResult :: "gotime \<Rightarrow> PlanEntry \<Rightarrow> BatchResult" where
  "cancelledResult now entry = (resultForEntry entry)\<lparr>
     rs_State := EntryCancelled, rs_Outcome := ValidationCancelled,
     rs_Error := CancelledError, rs_CompletedAt := Some now\<rparr>"

definition classifyOutcome :: "DiagnosticReport \<Rightarrow> DestinationStatus \<Rightarrow> ValidationOutcome" where
  "classifyOutcome diagnostic destination =
     (let status = ds_Status destination; reason = ds_FailureReason destination in
      if dr_Status diagnostic = ReportStatusError \<or> dr_Status diagnostic = ReportStatusUnknown then
        (if status = DestinationStatusUnreachable \<or> status = DestinationStatusDegraded
         then ValidationFailed else ValidationPartial)
      else if dr_Status diagnostic = ReportStatusIncomplete then ValidationPartial
      else if status = DestinationStatusReachable then ValidationPassed
      else if status = DestinationStatusUnreachable \<or> status = DestinationStatusDegraded
        then ValidationFailed
      else if reason = FailureReasonUnsupported then ValidationUnsupported
      else if reason \<noteq> [] \<and> reason \<noteq> FailureReasonNone \<and> reason \<noteq> FailureReasonUnknown
        then ValidationFailed
      else ValidationPartial)"

definition observationPointers :: "DiagnosticReport \<Rightarrow> PlanEntry \<Rightarrow>
    NameResolutionObservation option \<times> TransportObservation option \<times> SecurityObservation option
    \<times> ApplicationObservation option" where
  "observationPointers diagnostic entry =
     (let observations = NormalizeObservations (dr_Observations diagnostic);
          security = ob_Security observations; application = ob_Application observations;
          service = sp_ID (pe_Service entry) in
      (Some (ob_NameResolution observations), Some (ob_Transport observations),
       if service = ServiceProfileHTTPS \<or> service = ServiceProfileCustomTLS
          \<or> so_Attempted security \<or> so_HandshakeComplete security then Some security else None,
       if service \<noteq> ServiceProfileCustomTCP \<or> ao_RequestAttempted application
          \<or> ao_ResponseReceived application \<or> ao_Protocol application \<noteq> []
       then Some application else None))"

definition appendUniqueText :: "string list \<Rightarrow> string list \<Rightarrow> string list" where
  "appendUniqueText values additions =
     fold (\<lambda>addition values. if addition = [] \<or> addition \<in> set values then values
       else values @ [addition]) additions values"

text \<open>The first of the four layers of \<open>failureBoundary\<close> whose reason counts.\<close>

fun boundaryFrom :: "FailureReason \<Rightarrow> FailureBoundary
    \<Rightarrow> (FailureReason \<times> Layer \<times> FaultDomain \<times> string list \<times> string list) list \<Rightarrow> FailureBoundary" where
  "boundaryFrom wanted boundary [] = boundary"
| "boundaryFrom wanted boundary ((reason, layer, domain, provenance, ids) # rest) =
     (if reason = [] \<or> reason = FailureReasonNone \<or> (wanted \<noteq> [] \<and> reason \<noteq> wanted)
      then boundaryFrom wanted boundary rest
      else boundary\<lparr>fb_Layer := layer, fb_FaultDomain := domain,
        fb_ProbeNames := appendUniqueText (fb_ProbeNames boundary) provenance,
        fb_EvidenceIDs := appendUniqueText (fb_EvidenceIDs boundary) ids\<rparr>)"

definition failureBoundary :: "DiagnosticReport \<Rightarrow> DestinationStatus \<Rightarrow> FailureBoundary" where
  "failureBoundary diagnostic destination =
     (let wanted = ds_FailureReason destination;
          boundary = zero_FailureBoundary\<lparr>fb_Reason := wanted, fb_Detail := ds_Detail destination,
            fb_ProbeNames := [] @ ds_ProbeNames destination,
            fb_EvidenceIDs := [] @ ds_EvidenceIDs destination\<rparr>;
          observations = dr_Observations diagnostic in
      case filter (\<lambda>finding. \<not> (wanted \<noteq> [] \<and> df_FailureReason finding \<noteq> wanted)) (dr_Findings diagnostic) of
        finding # rest \<Rightarrow> boundary\<lparr>
          fb_Layer := df_Layer finding, fb_FaultDomain := df_FaultDomain finding,
          fb_ProbeNames := (if fb_ProbeNames boundary = [] then [] @ df_ProbeNames finding
            else fb_ProbeNames boundary),
          fb_EvidenceIDs := (if fb_EvidenceIDs boundary = [] then [] @ df_EvidenceIDs finding
            else fb_EvidenceIDs boundary)\<rparr>
      | [] \<Rightarrow> boundaryFrom wanted boundary
          [(ao_FailureReason (ob_Application observations), LayerHTTP,
            ao_FaultDomain (ob_Application observations), ao_ProbeNames (ob_Application observations),
            ao_EvidenceIDs (ob_Application observations)),
           (so_FailureReason (ob_Security observations), LayerTLS,
            so_FaultDomain (ob_Security observations), so_ProbeNames (ob_Security observations),
            so_EvidenceIDs (ob_Security observations)),
           (tpo_FailureReason (ob_Transport observations), LayerTCP,
            tpo_FaultDomain (ob_Transport observations), tpo_ProbeNames (ob_Transport observations),
            tpo_EvidenceIDs (ob_Transport observations)),
           (nro_FailureReason (ob_NameResolution observations), LayerDNS,
            nro_FaultDomain (ob_NameResolution observations), nro_ProbeNames (ob_NameResolution observations),
            nro_EvidenceIDs (ob_NameResolution observations))])"

definition targetForResult :: "BatchResult \<Rightarrow> Target option" where
  "targetForResult result = map_option dr_Target (rs_Report result)"

text \<open>The entry that \<open>summarize\<close> builds to name a failed result.\<close>

definition failedIdentity :: "BatchResult \<Rightarrow> string" where
  "failedIdentity result = TargetIdentity \<lparr>
     pe_ID = [], pe_RequestedHostname = rs_RequestedHostname result,
     pe_RequestedIdentity = rs_RequestedIdentity result, pe_Port = rs_Port result,
     pe_Service = rs_Service result, pe_Target = targetForResult result,
     pe_CaptureMechanism = [], pe_CaptureOutcome = [], pe_CaptureFailed = False,
     pe_CaptureObservationCount = 0, pe_CaptureConnectionCount = 0, pe_CaptureSuccessCount = 0,
     pe_CaptureFailureCount = 0,
     pe_Capture = \<lparr>cp_SessionID = [], cp_Browser = [], cp_Observed = zero_BrowserCaptureDestination\<rparr>,
     pe_CaptureObservations = [], pe_Unsupported = False, pe_UnsupportedReason = Supported\<rparr>"

definition summarizeState :: "BatchResult \<Rightarrow> Summary \<Rightarrow> Summary" where
  "summarizeState result summary =
     (let state = rs_State result in
      if state = EntryQueued then summary\<lparr>su_Queued := su_Queued summary + 1\<rparr>
      else if state = EntryRunning then summary\<lparr>su_Running := su_Running summary + 1\<rparr>
      else if state = EntryCompleted \<or> state = EntryUnsupported \<or> state = EntryCancelled
        then summary\<lparr>su_Completed := su_Completed summary + 1\<rparr>
      else summary)"

definition summarizeOutcome :: "BatchResult \<Rightarrow> Summary \<Rightarrow> Summary" where
  "summarizeOutcome result summary =
     (let outcome = rs_Outcome result in
      if outcome = ValidationPassed then summary\<lparr>su_Passed := su_Passed summary + 1\<rparr>
      else if outcome = ValidationFailed then summary\<lparr>
        su_Failed := su_Failed summary + 1,
        su_ValidationFailureCount := su_ValidationFailureCount summary + 1,
        su_FailedEndpointIDs := su_FailedEndpointIDs summary @ [rs_ID result],
        su_FailedIdentities := su_FailedIdentities summary @ [failedIdentity result]\<rparr>
      else if outcome = ValidationPartial then summary\<lparr>su_Partial := su_Partial summary + 1\<rparr>
      else if outcome = ValidationUnsupported
        then summary\<lparr>su_Unsupported := su_Unsupported summary + 1\<rparr>
      else if outcome = ValidationCancelled then summary\<lparr>su_Cancelled := su_Cancelled summary + 1\<rparr>
      else summary)"

definition summarizeResult :: "BatchResult \<Rightarrow> Summary \<Rightarrow> Summary" where
  "summarizeResult result summary0 =
     (let summary = summarizeState result summary0;
          summary = (if rs_CaptureFailed result
            then summary\<lparr>su_CapturedFailureCount := su_CapturedFailureCount summary + 1\<rparr>
            else summary) in
      summarizeOutcome result summary)"

definition summarize :: "BatchResult list \<Rightarrow> Summary" where
  "summarize results = fold summarizeResult results
     \<lparr>su_Total = length results, su_Queued = 0, su_Running = 0, su_Completed = 0, su_Passed = 0,
      su_Failed = 0, su_Partial = 0, su_Unsupported = 0, su_Cancelled = 0,
      su_CapturedFailureCount = 0, su_ValidationFailureCount = 0, su_FailedEndpointIDs = [],
      su_FailedIdentities = []\<rparr>"

section \<open>Running one entry\<close>

datatype ctxError = ContextCanceled | ContextDeadlineExceeded

datatype runnerOutcome = RunnerReturned DiagnosticReport | RunnerPanicked string

definition errorReport :: "Target \<Rightarrow> gotime \<Rightarrow> gotime \<Rightarrow> string \<Rightarrow> DiagnosticReport" where
  "errorReport target started completed message = zero_DiagnosticReport\<lparr>
     dr_SchemaVersion := DiagnosticSchemaVersion, dr_Target := TargetIntentOnly target,
     dr_Status := ReportStatusError, dr_StartedAt := Some started, dr_CompletedAt := Some completed,
     dr_Probes := [],
     dr_Observations := zero_Observations\<lparr>ob_Endpoint := zero_EndpointObservation\<lparr>
       eo_OriginalInput := tg_OriginalInput target,
       eo_RequestedIdentity := tg_RequestedIdentity target, eo_Service := tg_Service target,
       eo_ApplicationProtocol := tg_ApplicationProtocol target,
       eo_TransportProtocol := tg_TransportProtocol target, eo_Port := tg_Port target\<rparr>\<rparr>,
     dr_Findings := [\<lparr>df_FailureReason = FailureReasonProbeExecution, df_Layer = LayerUnknown,
       df_FaultDomain = FaultDomainUnknown, df_ProbeNames = [message], df_EvidenceIDs = []\<rparr>]\<rparr>"

text \<open>
  \<open>runEntry\<close>. An entry without a target dereferences a nil pointer, in the runner's call and again
  in the recovering function, which ends the process: no result. The context's error is read
  twice, so there are two readings; the second one is the first where that is set.
\<close>

definition runEntry :: "(nat \<Rightarrow> gotime) \<Rightarrow> ctxError option \<Rightarrow> ctxError option \<Rightarrow> runnerOutcome
    \<Rightarrow> PlanEntry \<Rightarrow> BatchResult option" where
  "runEntry now err1 err2 outcome entry =
     (case pe_Target entry of None \<Rightarrow> None
      | Some target \<Rightarrow>
        (let panicked = (case outcome of RunnerReturned r \<Rightarrow> False | RunnerPanicked m \<Rightarrow> True);
             diagnostic = (case outcome of RunnerReturned r \<Rightarrow> r
               | RunnerPanicked m \<Rightarrow> errorReport target (now 1) (now 2)
                   (''diagnostic runner panic: '' @ m));
             destination = DestinationStatusForReport diagnostic;
             (dns, tcp, tls, application) = observationPointers diagnostic entry;
             result = (resultForEntry entry)\<lparr>
               rs_StartedAt := Some (now 0), rs_CompletedAt := Some (now 3),
               rs_Report := Some diagnostic, rs_ReportStatus := dr_Status diagnostic,
               rs_Destination := destination,
               rs_FailureBoundary := failureBoundary diagnostic destination,
               rs_DNS := dns, rs_TCP := tcp, rs_TLS := tls, rs_Application := application\<rparr> in
         Some (if err1 = Some ContextCanceled \<and> \<not> panicked
           then result\<lparr>rs_State := EntryCancelled, rs_Outcome := ValidationCancelled,
             rs_Error := CancelledError\<rparr>
           else if err2 = Some ContextDeadlineExceeded \<and> dr_Status diagnostic = ReportStatusComplete
           then result\<lparr>rs_ReportStatus := ReportStatusIncomplete, rs_Outcome := ValidationPartial,
             rs_Error := TimedOutError\<rparr>
           else result\<lparr>rs_State := EntryCompleted, rs_Outcome := classifyOutcome diagnostic destination,
             rs_Error := (if panicked then PanickedError else rs_Error result)\<rparr>)))"

section \<open>The batch\<close>

definition terminalBatch :: "BatchState \<Rightarrow> bool" where
  "terminalBatch value \<longleftrightarrow> value = BatchCompleted \<or> value = BatchCancelled \<or> value = BatchFailed"

definition terminalEntry :: "EntryState \<Rightarrow> bool" where
  "terminalEntry value \<longleftrightarrow> value = EntryCompleted \<or> value = EntryCancelled \<or> value = EntryUnsupported"

definition markRunning :: "nat \<Rightarrow> gotime \<Rightarrow> managedBatch \<Rightarrow> managedBatch" where
  "markRunning index now b =
     (if index \<ge> length (mb_results b) \<or> terminalEntry (rs_State (mb_results b ! index)) then b
      else let results = (mb_results b)[index := (mb_results b ! index)\<lparr>
             rs_State := EntryRunning, rs_StartedAt := Some now\<rparr>] in
        b\<lparr>mb_results := results, mb_summary := summarize results\<rparr>)"

definition finishEntry :: "nat \<Rightarrow> BatchResult \<Rightarrow> managedBatch \<Rightarrow> managedBatch" where
  "finishEntry index result b =
     (if index \<ge> length (mb_results b) then b
      else let results = (mb_results b)[index := result] in
        b\<lparr>mb_results := results, mb_summary := summarize results\<rparr>)"

definition contextCancelled :: "managedBatch \<Rightarrow> bool" where
  "contextCancelled b \<longleftrightarrow> mb_cancelRequested b \<or> mb_ctxDone b"

definition cancelBatch :: "managedBatch \<Rightarrow> managedBatch" where
  "cancelBatch b =
     (if terminalBatch (mb_state b) then b
      else b\<lparr>mb_cancelRequested := True,
        mb_state := (if mb_state b = BatchStarting \<or> mb_state b = BatchRunning then BatchCancelling
          else mb_state b)\<rparr>)"

text \<open>The critical section of \<open>Close\<close> for one batch.\<close>

definition closeBatch :: "managedBatch \<Rightarrow> managedBatch" where
  "closeBatch b =
     (if terminalBatch (mb_state b) then b
      else b\<lparr>mb_cancelRequested := True, mb_state := BatchCancelling\<rparr>)"

definition cloneTimeOption :: "gotime option \<Rightarrow> gotime option" where
  "cloneTimeOption value = map_option (\<lambda>t. t) value"

definition cloneReport :: "(BatchReport \<Rightarrow> BatchReport option) \<Rightarrow> BatchReport \<Rightarrow> BatchReport" where
  "cloneReport copyJSON value = (case copyJSON value of None \<Rightarrow> value | Some copied \<Rightarrow> copied)"

definition batchSnapshotLocked :: "(BatchReport \<Rightarrow> BatchReport option) \<Rightarrow> managedBatch \<Rightarrow> BatchReport" where
  "batchSnapshotLocked copyJSON b = cloneReport copyJSON \<lparr>
     bt_SchemaVersion = BatchReportSchemaVersion, bt_ID = mb_id b,
     bt_CaptureSessionID = pl_CaptureSessionID (mb_plan b),
     bt_CaptureBrowser = pl_CaptureBrowser (mb_plan b), bt_Selection = pl_Selection (mb_plan b),
     bt_State = mb_state b, bt_StartedAt = cloneTimeOption (mb_startedAt b),
     bt_CompletedAt = cloneTimeOption (mb_completedAt b), bt_Plan = mb_plan b,
     bt_Results = mb_results b, bt_Summary = mb_summary b, bt_Error = mb_error b\<rparr>"

text \<open>The sections of \<open>execute\<close>: the start, which also fills the jobs and starts the workers, and the end.\<close>

definition batchConcurrency :: "nat \<Rightarrow> Plan \<Rightarrow> nat" where
  "batchConcurrency maxConcurrency plan =
     (let concurrency = (if pl_Concurrency plan \<le> 0 \<or> pl_Concurrency plan > int maxConcurrency
            then maxConcurrency else nat (pl_Concurrency plan)) in
      min concurrency (length (pl_Entries plan)))"

definition launchBatch :: "nat \<Rightarrow> managedBatch \<Rightarrow> managedBatch" where
  "launchBatch maxConcurrency b = b\<lparr>
     mb_state := (if mb_state b = BatchStarting then BatchRunning else mb_state b),
     mb_jobs := [0..<length (pl_Entries (mb_plan b))],
     mb_workers := replicate (batchConcurrency maxConcurrency (mb_plan b)) Idle,
     mb_launched := True\<rparr>"

definition completeBatch :: "gotime \<Rightarrow> managedBatch \<Rightarrow> managedBatch" where
  "completeBatch now b = b\<lparr>
     mb_completedAt := Some now,
     mb_state := (if mb_cancelRequested b \<or> mb_ctxDone b then BatchCancelled else BatchCompleted),
     mb_summary := summarize (mb_results b),
     mb_done := True\<rparr>"

section \<open>Plans\<close>

definition PlanSchemaNormalize :: "Plan \<Rightarrow> Plan" where
  "PlanSchemaNormalize p = p\<lparr>
     pl_SchemaVersion := (if pl_SchemaVersion p = [] then PlanSchemaVersion else pl_SchemaVersion p),
     pl_Selection := (if pl_Selection p = [] then SelectionAll else pl_Selection p),
     pl_Entries := map (\<lambda>(index, entry). if pe_ID entry = [] then entry\<lparr>pe_ID := entryID (index + 1)\<rparr>
       else entry) (enumerate 0 (pl_Entries p))\<rparr>"

definition clonePlan :: "(Plan \<Rightarrow> Plan option) \<Rightarrow> Plan \<Rightarrow> Plan" where
  "clonePlan copyJSON value = (case copyJSON value of None \<Rightarrow> value | Some copied \<Rightarrow> copied)"

definition normalizePlan :: "(Plan \<Rightarrow> Plan option) \<Rightarrow> nat \<Rightarrow> Plan \<Rightarrow> Plan" where
  "normalizePlan copyJSON maxConcurrency plan0 =
     (let plan = PlanSchemaNormalize (clonePlan copyJSON plan0) in
      if pl_Concurrency plan \<le> 0 \<or> pl_Concurrency plan > int maxConcurrency
      then plan\<lparr>pl_Concurrency := int maxConcurrency\<rparr> else plan)"

definition newBatch :: "string \<Rightarrow> Plan \<Rightarrow> gotime \<Rightarrow> bool \<Rightarrow> managedBatch" where
  "newBatch bid plan started ctxDone = \<lparr>
     mb_id = bid, mb_plan = plan, mb_state = BatchStarting, mb_startedAt = Some started,
     mb_completedAt = None, mb_results = initialResults plan,
     mb_summary = summarize (initialResults plan), mb_error = [], mb_ctxDone = ctxDone,
     mb_done = False, mb_cancelRequested = False, mb_launched = False, mb_jobs = [], mb_workers = []\<rparr>"

section \<open>The manager\<close>

record batchManager =
  bm_batches :: "(string \<times> managedBatch) list"
  bm_capacity :: nat
  bm_used :: nat
  bm_closed :: bool
  bm_maxConcurrency :: nat
  bm_itemTimeout :: int
  bm_idSequence :: "64 word"

record BatchOptions =
  bo_MaxConcurrency :: int
  bo_MaxConcurrentBatches :: int
  bo_ItemTimeout :: int

definition NewBatchManager :: "BatchOptions \<Rightarrow> batchManager" where
  "NewBatchManager opts = \<lparr>
     bm_batches = [],
     bm_capacity = (if bo_MaxConcurrentBatches opts \<le> 0 then DefaultMaxConcurrentBatches
       else nat (bo_MaxConcurrentBatches opts)),
     bm_used = 0, bm_closed = False,
     bm_maxConcurrency = (if bo_MaxConcurrency opts \<le> 0 then DefaultConcurrency
       else nat (bo_MaxConcurrency opts)),
     bm_itemTimeout = (if bo_ItemTimeout opts \<le> 0 then DefaultItemTimeout else bo_ItemTimeout opts),
     bm_idSequence = 0\<rparr>"

definition lookupBatch :: "batchManager \<Rightarrow> string \<Rightarrow> batchError + managedBatch" where
  "lookupBatch m bid = (case map_of (bm_batches m) bid of None \<Rightarrow> Inl ErrBatchNotFound | Some b \<Rightarrow> Inr b)"

definition putBatch :: "string \<Rightarrow> managedBatch \<Rightarrow> batchManager \<Rightarrow> batchManager" where
  "putBatch bid b m = m\<lparr>bm_batches := AList.update bid b (bm_batches m)\<rparr>"

text \<open>
  The loop of \<open>uniqueIDLocked\<close>: \<open>newID n\<close> is the \<open>n\<close>-th identifier of the source, and the
  sequence counter is returned with the identifier.
\<close>

partial_function (option) uniqueBatchID ::
    "(nat \<Rightarrow> string) \<Rightarrow> (string \<Rightarrow> bool) \<Rightarrow> nat \<Rightarrow> 64 word \<Rightarrow> (string \<times> 64 word) option" where
  "uniqueBatchID newID taken n idSequence =
     (let (bid, idSequence) =
        (if newID n = [] then (''validation-'' @ itoa (unat (idSequence + 1)), idSequence + 1)
         else (newID n, idSequence)) in
      if \<not> taken bid then Some (bid, idSequence)
      else let idSequence = idSequence + 1; bid = bid @ ''-'' @ itoa (unat idSequence) in
        if \<not> taken bid then Some (bid, idSequence)
        else uniqueBatchID newID taken (Suc n) idSequence)"

text \<open>
  \<open>Start\<close> in its three steps: taking a slot without blocking, registering the batch under the
  manager's mutex and starting its goroutine, and the snapshot for the caller. That goroutine may
  already have run when the snapshot is taken; what it did to the batch is the argument
  \<open>progress\<close>, a run of the steps of \<open>BatchRuns\<close>.
\<close>

definition startReserve :: "Plan \<Rightarrow> batchManager \<Rightarrow> batchError + batchManager" where
  "startReserve plan m =
     (if pl_Entries plan = [] then Inl ErrBatchEmptyPlan
      else if bm_used m < bm_capacity m then Inr (m\<lparr>bm_used := bm_used m + 1\<rparr>)
      else Inl ErrBatchBusy)"

definition startRegister :: "(Plan \<Rightarrow> Plan option) \<Rightarrow> (nat \<Rightarrow> string) \<Rightarrow> gotime \<Rightarrow> bool
    \<Rightarrow> Plan \<Rightarrow> batchManager \<Rightarrow> (batchManager \<times> (batchError + string)) option" where
  "startRegister copyPlan newID started ctxDone plan0 m =
     (let plan = normalizePlan copyPlan (bm_maxConcurrency m) plan0 in
      if bm_closed m then Some (m\<lparr>bm_used := bm_used m - 1\<rparr>, Inl ErrBatchClosed)
      else case uniqueBatchID newID (\<lambda>bid. map_of (bm_batches m) bid \<noteq> None) 0 (bm_idSequence m) of
          None \<Rightarrow> None
        | Some (bid, idSequence) \<Rightarrow>
            Some (putBatch bid (newBatch bid plan started ctxDone) (m\<lparr>bm_idSequence := idSequence\<rparr>), Inr bid))"

definition StartBatch :: "(Plan \<Rightarrow> Plan option) \<Rightarrow> (BatchReport \<Rightarrow> BatchReport option)
    \<Rightarrow> (nat \<Rightarrow> string) \<Rightarrow> gotime \<Rightarrow> bool \<Rightarrow> (managedBatch \<Rightarrow> managedBatch) \<Rightarrow> Plan \<Rightarrow> batchManager
    \<Rightarrow> (batchManager \<times> (batchError + BatchReport)) option" where
  "StartBatch copyPlan copyReport newID started ctxDone progress plan m =
     (case startReserve plan m of
        Inl e \<Rightarrow> Some (m, Inl e)
      | Inr reserved \<Rightarrow>
        (case startRegister copyPlan newID started ctxDone plan reserved of
           None \<Rightarrow> None
         | Some (m', Inl e) \<Rightarrow> Some (m', Inl e)
         | Some (m', Inr bid) \<Rightarrow>
             (case lookupBatch m' bid of Inl e \<Rightarrow> Some (m', Inl e)
              | Inr b \<Rightarrow> Some (putBatch bid (progress b) m',
                  Inr (batchSnapshotLocked copyReport (progress b))))))"

text \<open>The deferred calls of \<open>execute\<close>: the context is cancelled, then the slot is given back.\<close>

definition releaseBatch :: "string \<Rightarrow> batchManager \<Rightarrow> batchManager" where
  "releaseBatch bid m =
     (case lookupBatch m bid of Inl e \<Rightarrow> m
      | Inr b \<Rightarrow> (putBatch bid (b\<lparr>mb_ctxDone := True\<rparr>) m)\<lparr>bm_used := bm_used m - 1\<rparr>)"

definition GetBatch :: "(BatchReport \<Rightarrow> BatchReport option) \<Rightarrow> string \<Rightarrow> batchManager
    \<Rightarrow> batchError + BatchReport" where
  "GetBatch copyJSON bid m =
     (case lookupBatch m bid of Inl e \<Rightarrow> Inl e | Inr b \<Rightarrow> Inr (batchSnapshotLocked copyJSON b))"

definition ReportBatch :: "(BatchReport \<Rightarrow> BatchReport option) \<Rightarrow> string \<Rightarrow> batchManager
    \<Rightarrow> batchError + BatchReport" where
  "ReportBatch copyJSON bid m =
     (case lookupBatch m bid of Inl e \<Rightarrow> Inl e | Inr b \<Rightarrow> Inr (batchSnapshotLocked copyJSON b))"

definition EndpointReport :: "(BatchReport \<Rightarrow> BatchReport option) \<Rightarrow> string \<Rightarrow> string \<Rightarrow> batchManager
    \<Rightarrow> batchError + DiagnosticReport" where
  "EndpointReport copyJSON batchID wantedID m =
     (case lookupBatch m batchID of Inl e \<Rightarrow> Inl e
      | Inr b \<Rightarrow>
        (case filter (\<lambda>result. rs_ID result = wantedID) (bt_Results (batchSnapshotLocked copyJSON b)) of
           [] \<Rightarrow> Inl ErrBatchNotFound
         | result # rest \<Rightarrow> (case rs_Report result of
             None \<Rightarrow> Inl (ErrEndpointReportUnavailable wantedID) | Some report \<Rightarrow> Inr report)))"

definition FailedIdentities :: "(BatchReport \<Rightarrow> BatchReport option) \<Rightarrow> string \<Rightarrow> batchManager
    \<Rightarrow> batchError + string list" where
  "FailedIdentities copyJSON bid m =
     (case GetBatch copyJSON bid m of Inl e \<Rightarrow> Inl e
      | Inr snapshot \<Rightarrow> Inr ([] @ su_FailedIdentities (bt_Summary snapshot)))"

text \<open>
  \<open>Cancel\<close> takes the snapshot inside the critical section and cancels the context after it,
  unless the batch was terminal.
\<close>

definition CancelBatch :: "(BatchReport \<Rightarrow> BatchReport option) \<Rightarrow> string \<Rightarrow> batchManager
    \<Rightarrow> batchManager \<times> (batchError + BatchReport)" where
  "CancelBatch copyJSON bid m =
     (case lookupBatch m bid of Inl e \<Rightarrow> (m, Inl e)
      | Inr b \<Rightarrow>
        (let b' = cancelBatch b; snapshot = batchSnapshotLocked copyJSON b' in
         (putBatch bid (if terminalBatch (mb_state b) then b' else b'\<lparr>mb_ctxDone := True\<rparr>) m,
          Inr snapshot)))"

text \<open>\<open>Wait\<close>: \<open>preferDone\<close> is the choice of \<open>select\<close> when both channels are ready; \<open>None\<close> is blocking.\<close>

definition WaitBatch :: "(BatchReport \<Rightarrow> BatchReport option) \<Rightarrow> bool \<Rightarrow> 'e option \<Rightarrow> string \<Rightarrow> batchManager
    \<Rightarrow> (batchError + 'e + BatchReport) option" where
  "WaitBatch copyJSON preferDone ctxErr bid m =
     (case lookupBatch m bid of Inl e \<Rightarrow> Some (Inl e)
      | Inr b \<Rightarrow>
        (case ctxErr of
           None \<Rightarrow> if mb_done b then Some (Inr (Inr (batchSnapshotLocked copyJSON b))) else None
         | Some e \<Rightarrow> if mb_done b \<and> preferDone then Some (Inr (Inr (batchSnapshotLocked copyJSON b)))
             else Some (Inr (Inl e))))"

text \<open>
  \<open>Close\<close>: the batches are marked one after the other, each under its own mutex, and their
  sections touch nothing else, so that they are mapped over the table here.
\<close>

definition CloseBatches :: "batchManager \<Rightarrow> batchManager" where
  "CloseBatches m =
     (if bm_closed m then m
      else m\<lparr>bm_closed := True, bm_batches := map (\<lambda>(bid, b). (bid,
        if terminalBatch (mb_state b) then closeBatch b else (closeBatch b)\<lparr>mb_ctxDone := True\<rparr>))
        (bm_batches m)\<rparr>)"

end
