(* ===== verification/BatchRuns.thy ===== *)
theory BatchRuns
  imports BatchManager
begin

text \<open>
  The executions of one batch: its critical sections and the workers' moves between them as a
  step relation, the invariant of every interleaving, and the abstract specification that the
  worker pool refines: a list of jobs, each pending, active or final.
\<close>

section \<open>Steps\<close>

text \<open>
  A step is a move of one worker, which the worker list names by a split, or of the outside:
  cancellation, the closing of the manager, the end of a context. The index a worker holds is
  the last element that it took from the jobs channel.
\<close>

inductive bstep :: "nat \<Rightarrow> managedBatch \<Rightarrow> managedBatch \<Rightarrow> bool" for maxConcurrency where
  Launch: "\<not> mb_launched b \<Longrightarrow> bstep maxConcurrency b (launchBatch maxConcurrency b)"
| Take: "mb_workers b = us @ Idle # vs \<Longrightarrow> mb_jobs b = i # jobs \<Longrightarrow>
    bstep maxConcurrency b (b\<lparr>mb_jobs := jobs, mb_workers := us @ Taken i # vs\<rparr>)"
| Exit: "mb_workers b = us @ Idle # vs \<Longrightarrow> mb_jobs b = [] \<Longrightarrow>
    bstep maxConcurrency b (b\<lparr>mb_workers := us @ Exited # vs\<rparr>)"
| Unsupported: "mb_workers b = us @ Taken i # vs \<Longrightarrow> pe_Unsupported (pl_Entries (mb_plan b) ! i) \<Longrightarrow>
    bstep maxConcurrency b
      ((finishEntry i (unsupportedResult now (pl_Entries (mb_plan b) ! i)) b)\<lparr>mb_workers := us @ Idle # vs\<rparr>)"
| SeeCancelled: "mb_workers b = us @ Taken i # vs \<Longrightarrow> \<not> pe_Unsupported (pl_Entries (mb_plan b) ! i) \<Longrightarrow>
    contextCancelled b \<Longrightarrow> bstep maxConcurrency b (b\<lparr>mb_workers := us @ Dropping i # vs\<rparr>)"
| Drop: "mb_workers b = us @ Dropping i # vs \<Longrightarrow> bstep maxConcurrency b
    ((finishEntry i (cancelledResult now (pl_Entries (mb_plan b) ! i)) b)\<lparr>mb_workers := us @ Idle # vs\<rparr>)"
| SeeLive: "mb_workers b = us @ Taken i # vs \<Longrightarrow> \<not> pe_Unsupported (pl_Entries (mb_plan b) ! i) \<Longrightarrow>
    \<not> contextCancelled b \<Longrightarrow> bstep maxConcurrency b (b\<lparr>mb_workers := us @ Cleared i # vs\<rparr>)"
| Mark: "mb_workers b = us @ Cleared i # vs \<Longrightarrow>
    bstep maxConcurrency b ((markRunning i now b)\<lparr>mb_workers := us @ Executing i # vs\<rparr>)"
| Run: "mb_workers b = us @ Executing i # vs \<Longrightarrow>
    runEntry clock err1 err2 outcome (pl_Entries (mb_plan b) ! i) = Some r \<Longrightarrow>
    (err1 = Some ContextCanceled \<longrightarrow> mb_ctxDone b) \<Longrightarrow> (err1 \<noteq> None \<longrightarrow> err2 = err1) \<Longrightarrow>
    bstep maxConcurrency b (b\<lparr>mb_workers := us @ Holding i r # vs\<rparr>)"
| Finish: "mb_workers b = us @ Holding i r # vs \<Longrightarrow>
    bstep maxConcurrency b ((finishEntry i r b)\<lparr>mb_workers := us @ Idle # vs\<rparr>)"
| Complete: "mb_launched b \<Longrightarrow> \<not> mb_done b \<Longrightarrow> set (mb_workers b) \<subseteq> {Exited} \<Longrightarrow>
    bstep maxConcurrency b (completeBatch now b)"
| Cancel: "bstep maxConcurrency b (cancelBatch b)"
| Close: "bstep maxConcurrency b (closeBatch b)"
| ContextDone: "bstep maxConcurrency b (b\<lparr>mb_ctxDone := True\<rparr>)"

inductive_cases bstepE: "bstep maxConcurrency b b'"

inductive breach :: "nat \<Rightarrow> managedBatch \<Rightarrow> bool" for maxConcurrency where
  Start: "breach maxConcurrency (newBatch bid plan started ctxDone)"
| Step: "breach maxConcurrency b \<Longrightarrow> bstep maxConcurrency b b' \<Longrightarrow> breach maxConcurrency b'"

section \<open>What a result keeps, and what a finished one is\<close>

text \<open>The fields that record the capture, which validation must never touch.\<close>

definition captureView where
  "captureView r = (rs_ID r, rs_RequestedHostname r, rs_RequestedIdentity r, rs_Port r, rs_Service r,
     rs_CaptureMechanism r, rs_CaptureOutcome r, rs_CaptureFailed r, rs_CaptureObservationCount r,
     rs_CaptureConnectionCount r, rs_CaptureSuccessCount r, rs_CaptureFailureCount r, rs_Capture r)"

definition runningResult :: "gotime \<Rightarrow> PlanEntry \<Rightarrow> BatchResult" where
  "runningResult t entry = (resultForEntry entry)\<lparr>rs_State := EntryRunning, rs_StartedAt := Some t\<rparr>"

definition settledResult :: "PlanEntry \<Rightarrow> BatchResult \<Rightarrow> bool" where
  "settledResult entry r \<longleftrightarrow>
     (if pe_Unsupported entry then \<exists>t. r = unsupportedResult t entry
      else (\<exists>t. r = cancelledResult t entry)
        \<or> (\<exists>clock err1 err2 outcome. runEntry clock err1 err2 outcome entry = Some r))"

lemma captureView_runEntry:
  assumes "runEntry clock err1 err2 outcome entry = Some r"
  shows "captureView r = captureView (resultForEntry entry)"
proof -
  have "map_option captureView (runEntry clock err1 err2 outcome entry) \<in> {None, Some (captureView (resultForEntry entry))}"
    by (cases "pe_Target entry") (simp_all add: runEntry_def Let_def captureView_def split_def)
  then show ?thesis using assms by simp
qed

lemma captureView_settled: "settledResult entry r \<Longrightarrow> captureView r = captureView (resultForEntry entry)"
  by (auto simp: settledResult_def captureView_runEntry split: if_splits)
    (simp_all add: captureView_def unsupportedResult_def cancelledResult_def)

lemma captureView_running: "captureView (runningResult t entry) = captureView (resultForEntry entry)"
  by (simp add: captureView_def runningResult_def)

section \<open>The invariant of every interleaving\<close>

fun heldBy :: "worker \<Rightarrow> nat list" where
  "heldBy Idle = []" | "heldBy (Taken i) = [i]" | "heldBy (Dropping i) = [i]" | "heldBy (Cleared i) = [i]"
| "heldBy (Executing i) = [i]" | "heldBy (Holding i r) = [i]" | "heldBy Exited = []"

definition held :: "worker list \<Rightarrow> nat list" where
  "held ws = concat (map heldBy ws)"

fun workerOk :: "PlanEntry list \<Rightarrow> BatchResult list \<Rightarrow> worker \<Rightarrow> bool" where
  "workerOk es rs (Taken i) \<longleftrightarrow> rs ! i = resultForEntry (es ! i)"
| "workerOk es rs (Dropping i) \<longleftrightarrow> rs ! i = resultForEntry (es ! i) \<and> \<not> pe_Unsupported (es ! i)"
| "workerOk es rs (Cleared i) \<longleftrightarrow> rs ! i = resultForEntry (es ! i) \<and> \<not> pe_Unsupported (es ! i)"
| "workerOk es rs (Executing i) \<longleftrightarrow> (\<exists>t. rs ! i = runningResult t (es ! i)) \<and> \<not> pe_Unsupported (es ! i)"
| "workerOk es rs (Holding i r) \<longleftrightarrow> (\<exists>t. rs ! i = runningResult t (es ! i)) \<and> settledResult (es ! i) r"
| "workerOk es rs _ \<longleftrightarrow> True"

text \<open>Every index is in the channel, with one worker, or finished.\<close>

definition poolOk :: "PlanEntry list \<Rightarrow> BatchResult list \<Rightarrow> nat list \<Rightarrow> worker list \<Rightarrow> bool" where
  "poolOk es rs jobs ws \<longleftrightarrow> length rs = length es \<and> distinct (jobs @ held ws)
     \<and> set jobs \<union> set (held ws) \<subseteq> {..<length es}
     \<and> (\<forall>i\<in>set jobs. rs ! i = resultForEntry (es ! i)) \<and> (\<forall>w\<in>set ws. workerOk es rs w)
     \<and> (\<forall>i<length es. i \<notin> set jobs \<and> i \<notin> set (held ws) \<longrightarrow> settledResult (es ! i) (rs ! i))
     \<and> (Exited \<in> set ws \<longrightarrow> jobs = [])"

definition batchInv :: "nat \<Rightarrow> managedBatch \<Rightarrow> bool" where
  "batchInv maxConcurrency b \<longleftrightarrow> mb_summary b = summarize (mb_results b)
     \<and> (if mb_launched b
        then poolOk (pl_Entries (mb_plan b)) (mb_results b) (mb_jobs b) (mb_workers b)
          \<and> length (mb_workers b) = batchConcurrency maxConcurrency (mb_plan b)
          \<and> (mb_done b \<longrightarrow> set (mb_workers b) \<subseteq> {Exited} \<and> mb_completedAt b \<noteq> None)
        else mb_results b = initialResults (mb_plan b) \<and> mb_jobs b = [] \<and> mb_workers b = [] \<and> \<not> mb_done b)"

lemma held_simps [simp]: "held [] = []" "held (w # ws) = heldBy w @ held ws" "held (us @ vs) = held us @ held vs"
  by (simp_all add: held_def)

lemma workerOk_update:
  "workerOk es rs w \<Longrightarrow> i \<notin> set (heldBy w) \<Longrightarrow> workerOk es (rs[i := r]) w"
  by (cases w) auto

lemma workersOk_update:
  "\<forall>w\<in>set ws. workerOk es rs w \<Longrightarrow> i \<notin> set (held ws) \<Longrightarrow> \<forall>w\<in>set ws. workerOk es (rs[i := r]) w"
  by (auto simp: held_def intro: workerOk_update)

text \<open>A worker that holds an index ends with it: the three ways to finish an entry.\<close>

lemma poolOk_finish:
  assumes "poolOk es rs jobs (us @ w # vs)" "heldBy w = [i]" "settledResult (es ! i) r"
  shows "poolOk es (rs[i := r]) jobs (us @ Idle # vs)"
proof -
  have i: "i < length es" "i \<notin> set jobs" "i \<notin> set (held us)" "i \<notin> set (held vs)" "length rs = length es"
    using assms(1,2) by (auto simp: poolOk_def)
  have w: "\<forall>w\<in>set us. workerOk es rs w" "\<forall>w\<in>set vs. workerOk es rs w"
    using assms(1) by (auto simp: poolOk_def)
  have "Exited \<notin> {w}" using assms(2) by auto
  then show ?thesis
    using assms i workersOk_update [OF w(1) i(3)] workersOk_update [OF w(2) i(4)]
    by (auto simp: poolOk_def nth_list_update)
qed

lemma poolOk_move:
  assumes "poolOk es rs jobs (us @ w # vs)" "heldBy w' = heldBy w" "workerOk es rs w'" "w' \<noteq> Exited"
  shows "poolOk es rs jobs (us @ w' # vs)"
  using assms by (auto simp: poolOk_def)

lemma poolOk_mark:
  assumes "poolOk es rs jobs (us @ Cleared i # vs)"
  shows "poolOk es (rs[i := runningResult t (es ! i)]) jobs (us @ Executing i # vs)"
proof -
  have i: "i < length es" "i \<notin> set jobs" "i \<notin> set (held us)" "i \<notin> set (held vs)" "length rs = length es"
    using assms by (auto simp: poolOk_def)
  have w: "\<forall>w\<in>set us. workerOk es rs w" "\<forall>w\<in>set vs. workerOk es rs w"
    using assms by (auto simp: poolOk_def)
  show ?thesis
    using assms i workersOk_update [OF w(1) i(3)] workersOk_update [OF w(2) i(4)]
    by (auto simp: poolOk_def nth_list_update)
qed

lemma poolOk_take: "poolOk es rs (i # jobs) (us @ Idle # vs) \<Longrightarrow> poolOk es rs jobs (us @ Taken i # vs)"
  by (auto simp: poolOk_def)

lemma poolOk_exit: "poolOk es rs [] (us @ Idle # vs) \<Longrightarrow> poolOk es rs [] (us @ Exited # vs)"
  by (auto simp: poolOk_def)

lemma poolOk_launch: "poolOk es (map resultForEntry es) [0..<length es] (replicate n Idle)"
proof -
  have "held (replicate n Idle) = []" by (induction n) auto
  then show ?thesis by (auto simp: poolOk_def)
qed

lemma batchInv_pool:
  assumes "batchInv maxConcurrency b" "mb_workers b = us @ w # vs"
  shows "mb_launched b" "poolOk (pl_Entries (mb_plan b)) (mb_results b) (mb_jobs b) (us @ w # vs)"
    "length (us @ w # vs) = batchConcurrency maxConcurrency (mb_plan b)" "mb_done b \<Longrightarrow> w = Exited"
  using assms by (auto simp: batchInv_def split: if_splits)

lemma not_done: "batchInv maxConcurrency b \<Longrightarrow> mb_workers b = us @ w # vs \<Longrightarrow> w \<noteq> Exited \<Longrightarrow> \<not> mb_done b"
  using batchInv_pool(4) by blast

lemma finishEntry_simps [simp]:
  "mb_plan (finishEntry i r b) = mb_plan b" "mb_jobs (finishEntry i r b) = mb_jobs b"
  "mb_launched (finishEntry i r b) = mb_launched b" "mb_done (finishEntry i r b) = mb_done b"
  "mb_workers (finishEntry i r b) = mb_workers b" "mb_completedAt (finishEntry i r b) = mb_completedAt b"
  "mb_results (finishEntry i r b) = (mb_results b)[i := r]"
  "mb_summary b = summarize (mb_results b) \<Longrightarrow> mb_summary (finishEntry i r b) = summarize ((mb_results b)[i := r])"
  by (auto simp: finishEntry_def Let_def list_update_beyond)

lemma batchInv_finish:
  assumes inv: "batchInv maxConcurrency b" "mb_workers b = us @ w # vs" and "heldBy w = [i]"
    "settledResult (pl_Entries (mb_plan b) ! i) r"
  shows "batchInv maxConcurrency ((finishEntry i r b)\<lparr>mb_workers := us @ Idle # vs\<rparr>)"
proof -
  note p = batchInv_pool [OF inv]
  have "w \<noteq> Exited" using assms(3) by auto
  then have "\<not> mb_done b" using not_done [OF inv] by blast
  moreover have "mb_summary b = summarize (mb_results b)" using inv(1) by (simp add: batchInv_def)
  ultimately show ?thesis
    using p(1,3) poolOk_finish [OF p(2) assms(3,4)] by (simp add: batchInv_def)
qed

lemma batchInv_move:
  assumes inv: "batchInv maxConcurrency b" "mb_workers b = us @ w # vs" and "heldBy w' = heldBy w"
    "workerOk (pl_Entries (mb_plan b)) (mb_results b) w'" "w' \<noteq> Exited" "w \<noteq> Exited"
  shows "batchInv maxConcurrency (b\<lparr>mb_workers := us @ w' # vs\<rparr>)"
proof -
  note p = batchInv_pool [OF inv]
  show ?thesis
    using p(1,3) poolOk_move [OF p(2) assms(3,4,5)] not_done [OF inv assms(6)] inv(1)
    by (simp add: batchInv_def)
qed

lemma batchInv_worker: "batchInv maxConcurrency b \<Longrightarrow> mb_workers b = us @ w # vs \<Longrightarrow>
    workerOk (pl_Entries (mb_plan b)) (mb_results b) w"
  using batchInv_pool(2) by (fastforce simp: poolOk_def)

lemma batchInv_outside:
  assumes "batchInv maxConcurrency b" "mb_plan b' = mb_plan b" "mb_results b' = mb_results b"
    "mb_summary b' = mb_summary b" "mb_jobs b' = mb_jobs b" "mb_workers b' = mb_workers b"
    "mb_launched b' = mb_launched b" "mb_done b' = mb_done b" "mb_completedAt b' = mb_completedAt b"
  shows "batchInv maxConcurrency b'"
  using assms by (simp add: batchInv_def)

lemma entry_states_distinct [simp]:
  "\<not> terminalEntry EntryQueued" "\<not> terminalEntry EntryRunning" "EntryQueued \<noteq> EntryRunning"
  "terminalEntry EntryCompleted" "terminalEntry EntryCancelled" "terminalEntry EntryUnsupported"
  by (simp_all add: terminalEntry_def EntryQueued_def EntryRunning_def EntryCompleted_def
      EntryCancelled_def EntryUnsupported_def)

lemma markRunning_queued:
  assumes "i < length (mb_results b)" "mb_results b ! i = resultForEntry e"
  shows "markRunning i now b = b\<lparr>mb_results := (mb_results b)[i := runningResult now e],
    mb_summary := summarize ((mb_results b)[i := runningResult now e])\<rparr>"
proof -
  have "rs_State (resultForEntry e) = EntryQueued" by (simp add: resultForEntry_def)
  then show ?thesis using assms by (simp add: markRunning_def runningResult_def Let_def)
qed

lemma batchInv_step: "bstep maxConcurrency b b' \<Longrightarrow> batchInv maxConcurrency b \<Longrightarrow> batchInv maxConcurrency b'"
proof (induction rule: bstep.induct)
  case (Launch b)
  then have "\<not> mb_done b" by (simp add: batchInv_def)
  then show ?case
    using Launch poolOk_launch by (simp add: batchInv_def launchBatch_def initialResults_def)
next
  case (Take b us vs i jobs)
  note p = batchInv_pool [OF Take.prems Take.hyps(1)]
  show ?case
    using p(1,3) poolOk_take [of _ _ i jobs us vs] p(2) Take.hyps(2)
      not_done [OF Take.prems Take.hyps(1)] Take.prems by (simp add: batchInv_def)
next
  case (Exit b us vs)
  note p = batchInv_pool [OF Exit.prems Exit.hyps(1)]
  show ?case
    using p(1,3) poolOk_exit [of _ _ us vs] p(2) Exit.hyps(2)
      not_done [OF Exit.prems Exit.hyps(1)] Exit.prems by (simp add: batchInv_def)
next
  case (Unsupported b us i vs now)
  then show ?case by (intro batchInv_finish) (auto simp: settledResult_def)
next
  case (SeeCancelled b us i vs)
  then show ?case using batchInv_worker [OF SeeCancelled.prems SeeCancelled.hyps(1)]
    by (intro batchInv_move) auto
next
  case (Drop b us i vs now)
  then show ?case using batchInv_worker [OF Drop.prems Drop.hyps(1)]
    by (intro batchInv_finish) (auto simp: settledResult_def)
next
  case (SeeLive b us i vs)
  then show ?case using batchInv_worker [OF SeeLive.prems SeeLive.hyps(1)]
    by (intro batchInv_move) auto
next
  case (Mark b us i vs now)
  note p = batchInv_pool [OF Mark.prems Mark.hyps(1)]
  have "i < length (mb_results b)" "mb_results b ! i = resultForEntry (pl_Entries (mb_plan b) ! i)"
    using p(2) by (auto simp: poolOk_def)
  then show ?case
    using p(1,3) poolOk_mark [OF p(2)] not_done [OF Mark.prems Mark.hyps(1)]
    by (simp add: markRunning_queued batchInv_def)
next
  case (Run b us i vs clock err1 err2 outcome r)
  have "workerOk (pl_Entries (mb_plan b)) (mb_results b) (Executing i)"
    by (rule batchInv_worker [OF Run.prems Run.hyps(1)])
  then show ?case using Run by (intro batchInv_move) (auto simp: settledResult_def)
next
  case (Finish b us i r vs)
  then show ?case using batchInv_worker [OF Finish.prems Finish.hyps(1)]
    by (intro batchInv_finish) auto
next
  case (Complete b now)
  then show ?case by (simp add: batchInv_def completeBatch_def)
next
  case (Cancel b)
  then show ?case by (rule batchInv_outside) (simp_all add: cancelBatch_def)
next
  case (Close b)
  then show ?case by (rule batchInv_outside) (simp_all add: closeBatch_def)
next
  case (ContextDone b)
  then show ?case by (rule batchInv_outside) simp_all
qed

lemma batchInv_reachable: "breach maxConcurrency b \<Longrightarrow> batchInv maxConcurrency b"
proof (induction rule: breach.induct)
  case (Start bid plan started ctxDone)
  then show ?case by (simp add: batchInv_def newBatch_def)
next
  case (Step b b')
  then show ?case using batchInv_step by blast
qed

section \<open>Complete runs of one entry\<close>

definition batchOf :: "Plan \<Rightarrow> worker \<Rightarrow> nat list \<Rightarrow> BatchResult \<Rightarrow> managedBatch" where
  "batchOf plan w jobs r = (newBatch ''v1'' plan 1 False)\<lparr>mb_state := BatchRunning, mb_launched := True,
     mb_jobs := jobs, mb_workers := [w], mb_results := [r], mb_summary := summarize [r]\<rparr>"

lemma batchOf_launched:
  assumes "pl_Entries plan = [e]"
  shows "breach 1 (batchOf plan Idle [0] (resultForEntry e))"
proof -
  have "batchConcurrency 1 plan = 1"
    using assms by (auto simp: batchConcurrency_def Let_def min_def)
  then have "launchBatch 1 (newBatch ''v1'' plan 1 False) = batchOf plan Idle [0] (resultForEntry e)"
    using assms by (simp add: launchBatch_def newBatch_def batchOf_def initialResults_def)
  moreover have "bstep 1 (newBatch ''v1'' plan 1 False) (launchBatch 1 (newBatch ''v1'' plan 1 False))"
    by (rule bstep.Launch) (simp add: newBatch_def)
  ultimately show ?thesis using breach.Start breach.Step by metis
qed

lemma batchOf_fields [simp]:
  "mb_workers (batchOf plan w jobs r) = [w]" "mb_jobs (batchOf plan w jobs r) = jobs"
  "mb_results (batchOf plan w jobs r) = [r]" "mb_plan (batchOf plan w jobs r) = plan"
  "mb_launched (batchOf plan w jobs r)" "\<not> mb_done (batchOf plan w jobs r)"
  "mb_summary (batchOf plan w jobs r) = summarize [r]" "\<not> contextCancelled (batchOf plan w jobs r)"
  by (simp_all add: batchOf_def newBatch_def contextCancelled_def)

lemma batchOf_moves:
  "(batchOf plan w jobs r)\<lparr>mb_workers := [w']\<rparr> = batchOf plan w' jobs r"
  "(batchOf plan w jobs r)\<lparr>mb_jobs := jobs', mb_workers := [w']\<rparr> = batchOf plan w' jobs' r"
  "(finishEntry 0 r' (batchOf plan w jobs r))\<lparr>mb_workers := [w']\<rparr> = batchOf plan w' jobs r'"
  by (simp_all add: batchOf_def finishEntry_def newBatch_def Let_def)

lemma batchOf_taken:
  assumes "pl_Entries plan = [e]"
  shows "breach 1 (batchOf plan (Taken 0) [] (resultForEntry e))"
  using breach.Step [OF batchOf_launched [OF assms] bstep.Take [of _ "[]" "[]" 0 "[]"]]
  by (simp add: batchOf_moves)

lemma batchOf_completed:
  assumes "breach 1 (batchOf plan Idle [] r)"
  shows "breach 1 (completeBatch 9 (batchOf plan Exited [] r))"
proof -
  have "breach 1 (batchOf plan Exited [] r)"
    using breach.Step [OF assms bstep.Exit [of _ "[]" "[]"]] by (simp add: batchOf_moves)
  then show ?thesis by (rule breach.Step) (intro bstep.Complete; simp)
qed

lemma run_unsupported:
  assumes "pl_Entries plan = [e]" "pe_Unsupported e"
  shows "breach 1 (completeBatch 9 (batchOf plan Exited [] (unsupportedResult 2 e)))"
  using breach.Step [OF batchOf_taken [OF assms(1)] bstep.Unsupported [of _ "[]" 0 "[]" _ 2]] assms
  by (intro batchOf_completed) (simp add: batchOf_moves)

lemma run_supported:
  assumes "pl_Entries plan = [e]" "\<not> pe_Unsupported e" "runEntry clock None err2 outcome e = Some r"
  shows "breach 1 (batchOf plan (Executing 0) [] (runningResult 2 e))"
    "breach 1 (batchOf plan Idle [] r)"
    "breach 1 (completeBatch 9 (batchOf plan Exited [] r))"
proof -
  have "breach 1 (batchOf plan (Cleared 0) [] (resultForEntry e))"
    using breach.Step [OF batchOf_taken [OF assms(1)] bstep.SeeLive [of _ "[]" 0 "[]"]] assms(1,2)
    by (simp add: batchOf_moves)
  then have "breach 1 ((markRunning 0 2 (batchOf plan (Cleared 0) [] (resultForEntry e)))\<lparr>mb_workers := [] @ Executing 0 # []\<rparr>)"
    by (rule breach.Step) (intro bstep.Mark; simp)
  moreover have "(markRunning 0 2 (batchOf plan (Cleared 0) [] (resultForEntry e)))\<lparr>mb_workers := [] @ Executing 0 # []\<rparr> =
      batchOf plan (Executing 0) [] (runningResult 2 e)"
    by (subst markRunning_queued [of _ _ e]) (simp_all add: batchOf_def)
  ultimately show executing: "breach 1 (batchOf plan (Executing 0) [] (runningResult 2 e))" by simp
  have "breach 1 (batchOf plan (Holding 0 r) [] (runningResult 2 e))"
    using breach.Step [OF executing bstep.Run [of _ "[]" 0 "[]" clock None err2 outcome r]] assms
    by (simp add: batchOf_moves)
  then show "breach 1 (batchOf plan Idle [] r)"
    using breach.Step [OF _ bstep.Finish [of _ "[]" 0 r "[]"]] by (fastforce simp: batchOf_moves)
  then show "breach 1 (completeBatch 9 (batchOf plan Exited [] r))" by (rule batchOf_completed)
qed

text \<open>A plan of one entry that the capture saw fail, with runs of it.\<close>

definition failedEntry :: PlanEntry where
  "failedEntry = \<lparr>
     pe_ID = ''endpoint-1'', pe_RequestedHostname = ''a'', pe_RequestedIdentity = ''a'', pe_Port = 443,
     pe_Service = zero_ServiceProfile, pe_Target = Some zero_Target, pe_CaptureMechanism = ''connect'',
     pe_CaptureOutcome = ''failed'', pe_CaptureFailed = True, pe_CaptureObservationCount = 2,
     pe_CaptureConnectionCount = 2, pe_CaptureSuccessCount = 0, pe_CaptureFailureCount = 2,
     pe_Capture = \<lparr>cp_SessionID = ''c1'', cp_Browser = ''firefox'', cp_Observed = zero_BrowserCaptureDestination\<rparr>,
     pe_CaptureObservations = [], pe_Unsupported = False, pe_UnsupportedReason = Supported\<rparr>"

definition failedPlan :: Plan where
  "failedPlan = \<lparr>pl_SchemaVersion = PlanSchemaVersion, pl_CaptureSessionID = ''c1'',
     pl_CaptureBrowser = ''firefox'', pl_CaptureState = [], pl_Selection = SelectionAll, pl_Requested = [],
     pl_Concurrency = 0, pl_Entries = [failedEntry]\<rparr>"

lemma failedPlan_simps [simp]:
  "pl_Entries failedPlan = [failedEntry]" "\<not> pe_Unsupported failedEntry"
  "pe_Target failedEntry = Some zero_Target" "pe_CaptureFailed failedEntry" "pe_ID failedEntry = ''endpoint-1''"
  by (simp_all add: failedPlan_def failedEntry_def)

definition panickedResult :: BatchResult where
  "panickedResult = the (runEntry (\<lambda>_. 5) None None (RunnerPanicked ''nil map'') failedEntry)"

lemma panickedResult: "runEntry (\<lambda>_. 5) None None (RunnerPanicked ''nil map'') failedEntry = Some panickedResult"
  by (simp add: panickedResult_def runEntry_def Let_def split: prod.splits)

lemma failedPlan_executing: "breach 1 (batchOf failedPlan (Executing 0) [] (runningResult 2 failedEntry))"
  and failedPlan_idle: "breach 1 (batchOf failedPlan Idle [] panickedResult)"
  and failedPlan_done: "breach 1 (completeBatch 9 (batchOf failedPlan Exited [] panickedResult))"
  using run_supported [of failedPlan, OF _ _ panickedResult] by simp_all

lemma exitRun: "(bstep 1)\<^sup>*\<^sup>* (batchOf failedPlan Idle [] panickedResult)
    (completeBatch 9 (batchOf failedPlan Exited [] panickedResult))"
proof -
  have "bstep 1 (batchOf failedPlan Idle [] panickedResult) (batchOf failedPlan Exited [] panickedResult)"
    using bstep.Exit [of "batchOf failedPlan Idle [] panickedResult" "[]" "[]"] by (simp add: batchOf_moves)
  moreover have "bstep 1 (batchOf failedPlan Exited [] panickedResult)
      (completeBatch 9 (batchOf failedPlan Exited [] panickedResult))"
    by (intro bstep.Complete; simp)
  ultimately show ?thesis by (meson converse_rtranclp_into_rtranclp r_into_rtranclp)
qed

end
