(* ===== verification/BatchFacts.thy ===== *)
theory BatchFacts
  imports BatchRuns
begin

text \<open>
  The properties of a running batch: what a snapshot of it may show, the abstract job list that
  the worker pool refines, the bound on running entries, and that every batch can finish. The
  \<open>refinement\<close> locale holds the simulation argument once, for any concrete system with an
  invariant and an abstraction function.
\<close>

section \<open>Counting\<close>

lemma summarizeState_fields:
  "su_Total (summarizeState r s) = su_Total s"
  "su_Queued (summarizeState r s) = (if rs_State r = EntryQueued then 1 else 0) + su_Queued s"
  "su_Running (summarizeState r s) = (if rs_State r = EntryRunning then 1 else 0) + su_Running s"
  "su_Completed (summarizeState r s) =
     (if rs_State r \<in> set [EntryCompleted, EntryUnsupported, EntryCancelled] then 1 else 0) + su_Completed s"
  "su_Passed (summarizeState r s) = su_Passed s" "su_Failed (summarizeState r s) = su_Failed s"
  "su_Partial (summarizeState r s) = su_Partial s" "su_Unsupported (summarizeState r s) = su_Unsupported s"
  "su_Cancelled (summarizeState r s) = su_Cancelled s"
  "su_ValidationFailureCount (summarizeState r s) = su_ValidationFailureCount s"
  "su_CapturedFailureCount (summarizeState r s) = su_CapturedFailureCount s"
  "su_FailedEndpointIDs (summarizeState r s) = su_FailedEndpointIDs s"
  "su_FailedIdentities (summarizeState r s) = su_FailedIdentities s"
  by (simp_all add: summarizeState_def Let_def go_consts)

lemma summarizeOutcome_fields:
  "su_Total (summarizeOutcome r s) = su_Total s" "su_Queued (summarizeOutcome r s) = su_Queued s"
  "su_Running (summarizeOutcome r s) = su_Running s" "su_Completed (summarizeOutcome r s) = su_Completed s"
  "su_Passed (summarizeOutcome r s) = (if rs_Outcome r = ValidationPassed then 1 else 0) + su_Passed s"
  "su_Failed (summarizeOutcome r s) = (if rs_Outcome r = ValidationFailed then 1 else 0) + su_Failed s"
  "su_Partial (summarizeOutcome r s) = (if rs_Outcome r = ValidationPartial then 1 else 0) + su_Partial s"
  "su_Unsupported (summarizeOutcome r s) =
     (if rs_Outcome r = ValidationUnsupported then 1 else 0) + su_Unsupported s"
  "su_Cancelled (summarizeOutcome r s) = (if rs_Outcome r = ValidationCancelled then 1 else 0) + su_Cancelled s"
  "su_ValidationFailureCount (summarizeOutcome r s) =
     (if rs_Outcome r = ValidationFailed then 1 else 0) + su_ValidationFailureCount s"
  "su_CapturedFailureCount (summarizeOutcome r s) = su_CapturedFailureCount s"
  "su_FailedEndpointIDs (summarizeOutcome r s) =
     su_FailedEndpointIDs s @ (if rs_Outcome r = ValidationFailed then [rs_ID r] else [])"
  "su_FailedIdentities (summarizeOutcome r s) =
     su_FailedIdentities s @ (if rs_Outcome r = ValidationFailed then [failedIdentity r] else [])"
  by (simp_all add: summarizeOutcome_def Let_def go_consts)

lemma summarizeResult_fields:
  "su_Total (summarizeResult r s) = su_Total s"
  "su_Queued (summarizeResult r s) = (if rs_State r = EntryQueued then 1 else 0) + su_Queued s"
  "su_Running (summarizeResult r s) = (if rs_State r = EntryRunning then 1 else 0) + su_Running s"
  "su_Completed (summarizeResult r s) =
     (if rs_State r \<in> set [EntryCompleted, EntryUnsupported, EntryCancelled] then 1 else 0) + su_Completed s"
  "su_Passed (summarizeResult r s) = (if rs_Outcome r = ValidationPassed then 1 else 0) + su_Passed s"
  "su_Failed (summarizeResult r s) = (if rs_Outcome r = ValidationFailed then 1 else 0) + su_Failed s"
  "su_Partial (summarizeResult r s) = (if rs_Outcome r = ValidationPartial then 1 else 0) + su_Partial s"
  "su_Unsupported (summarizeResult r s) =
     (if rs_Outcome r = ValidationUnsupported then 1 else 0) + su_Unsupported s"
  "su_Cancelled (summarizeResult r s) = (if rs_Outcome r = ValidationCancelled then 1 else 0) + su_Cancelled s"
  "su_ValidationFailureCount (summarizeResult r s) =
     (if rs_Outcome r = ValidationFailed then 1 else 0) + su_ValidationFailureCount s"
  "su_CapturedFailureCount (summarizeResult r s) =
     (if rs_CaptureFailed r then 1 else 0) + su_CapturedFailureCount s"
  "su_FailedEndpointIDs (summarizeResult r s) =
     su_FailedEndpointIDs s @ (if rs_Outcome r = ValidationFailed then [rs_ID r] else [])"
  "su_FailedIdentities (summarizeResult r s) =
     su_FailedIdentities s @ (if rs_Outcome r = ValidationFailed then [failedIdentity r] else [])"
  by (simp_all add: summarizeResult_def Let_def summarizeState_fields summarizeOutcome_fields del: list.set)

lemma fold_count:
  assumes "\<And>r s. f (g r s) = (if P r then 1 else 0) + f s"
  shows "f (fold g rs s) = length (filter P rs) + f s"
  by (induction rs arbitrary: s) (simp_all add: assms)

lemma fold_collect:
  assumes "\<And>r s. f (g r s) = f s @ (if P r then [h r] else [])"
  shows "f (fold g rs s) = f s @ map h (filter P rs)"
  by (induction rs arbitrary: s) (simp_all add: assms)

lemma fold_keep:
  assumes "\<And>r s. f (g r s) = f s"
  shows "f (fold g rs s) = f s"
  by (induction rs arbitrary: s) (simp_all add: assms)

lemmas summarize_counts =
  fold_keep [where f = su_Total, OF summarizeResult_fields(1)]
  fold_count [where f = su_Queued, OF summarizeResult_fields(2)]
  fold_count [where f = su_Running, OF summarizeResult_fields(3)]
  fold_count [where f = su_Completed, OF summarizeResult_fields(4)]
  fold_count [where f = su_Passed, OF summarizeResult_fields(5)]
  fold_count [where f = su_Failed, OF summarizeResult_fields(6)]
  fold_count [where f = su_Partial, OF summarizeResult_fields(7)]
  fold_count [where f = su_Unsupported, OF summarizeResult_fields(8)]
  fold_count [where f = su_Cancelled, OF summarizeResult_fields(9)]
  fold_count [where f = su_ValidationFailureCount, OF summarizeResult_fields(10)]
  fold_count [where f = su_CapturedFailureCount, OF summarizeResult_fields(11)]
  fold_collect [where f = su_FailedEndpointIDs, OF summarizeResult_fields(12)]
  fold_collect [where f = su_FailedIdentities, OF summarizeResult_fields(13)]

section \<open>What every result is\<close>

lemma not_held: "i \<in> set (heldBy w) \<Longrightarrow> w \<in> set ws \<Longrightarrow> i \<in> set (held ws)"
  by (auto simp: held_def)

lemma held_worker: "i \<in> set (held ws) \<Longrightarrow> \<exists>w\<in>set ws. heldBy w = [i]"
proof (induction ws)
  case (Cons w ws)
  then show ?case by (cases w) auto
qed simp

lemma result_cases:
  assumes "batchInv maxConcurrency b" "i < length (pl_Entries (mb_plan b))"
  obtains (queued) "mb_results b ! i = resultForEntry (pl_Entries (mb_plan b) ! i)"
  | (running) t where "mb_results b ! i = runningResult t (pl_Entries (mb_plan b) ! i)" "i \<in> set (held (mb_workers b))"
  | (settled) "settledResult (pl_Entries (mb_plan b) ! i) (mb_results b ! i)"
proof (cases "mb_launched b")
  case False
  then show ?thesis using assms that(1) by (simp add: batchInv_def initialResults_def)
next
  case True
  then have p: "poolOk (pl_Entries (mb_plan b)) (mb_results b) (mb_jobs b) (mb_workers b)"
    using assms(1) by (simp add: batchInv_def)
  show ?thesis
  proof (cases "i \<in> set (held (mb_workers b))")
    case True
    then obtain w where w: "w \<in> set (mb_workers b)" "heldBy w = [i]" using held_worker by blast
    then have "workerOk (pl_Entries (mb_plan b)) (mb_results b) w" using p by (simp add: poolOk_def)
    then show ?thesis using w(2) True that(1,2) by (cases w) auto
  next
    case False
    then show ?thesis using p assms(2) that(1,3) unfolding poolOk_def by blast
  qed
qed

lemma results_length: "batchInv maxConcurrency b \<Longrightarrow> length (mb_results b) = length (pl_Entries (mb_plan b))"
  by (auto simp: batchInv_def poolOk_def initialResults_def split: if_splits)

lemma runEntry_state:
  "runEntry clock err1 err2 outcome entry = Some r \<Longrightarrow>
    rs_State r \<in> {EntryCancelled, EntryCompleted} \<or>
    rs_State r = EntryQueued \<and> rs_Outcome r = ValidationPartial \<and> rs_Error r = TimedOutError
      \<and> err2 = Some ContextDeadlineExceeded"
  unfolding runEntry_def Let_def
  by (auto simp: resultForEntry_def split: option.splits prod.splits if_splits)

lemma settled_not_running: "settledResult entry r \<Longrightarrow> rs_State r \<noteq> EntryRunning"
  by (auto simp: settledResult_def unsupportedResult_def cancelledResult_def go_consts
      dest!: runEntry_state split: if_splits)

section \<open>Capture evidence\<close>

lemma captureViews:
  assumes inv: "batchInv maxConcurrency b"
  shows "map captureView (mb_results b) = map (captureView \<circ> resultForEntry) (pl_Entries (mb_plan b))"
proof (rule nth_equalityI)
  show "length (map captureView (mb_results b)) =
      length (map (captureView \<circ> resultForEntry) (pl_Entries (mb_plan b)))"
    using results_length [OF inv] by simp
  fix i assume "i < length (map captureView (mb_results b))"
  then have i: "i < length (pl_Entries (mb_plan b))" using results_length [OF inv] by simp
  have "captureView (mb_results b ! i) = captureView (resultForEntry (pl_Entries (mb_plan b) ! i))"
    by (rule result_cases [OF inv i]) (simp_all add: captureView_running captureView_settled)
  then show "map captureView (mb_results b) ! i =
      map (captureView \<circ> resultForEntry) (pl_Entries (mb_plan b)) ! i"
    using i results_length [OF inv] by simp
qed

text \<open>validation never touches what the capture recorded. In every reachable state of a batch,
  under every interleaving of workers, cancellation and shutdown, the results are in the order of
  the plan's entries and carry exactly their identifier, endpoint, service, capture mechanism,
  capture outcome, counters and provenance.\<close>

theorem capture_preserved:
  assumes "breach maxConcurrency b"
  shows "map captureView (mb_results b) = map (captureView \<circ> resultForEntry) (pl_Entries (mb_plan b))"
  using captureViews [OF batchInv_reachable [OF assms]] .

theorem capture_preserved_witness:
  "map captureView (mb_results (completeBatch 9 (batchOf failedPlan Exited [] panickedResult)))
    = [captureView (resultForEntry failedEntry)]"
  using capture_preserved [OF failedPlan_done] by (simp add: completeBatch_def)

section \<open>The summary\<close>

lemma filter_three:
  "list_all (\<lambda>x. f x \<in> A \<union> B \<union> C) xs \<Longrightarrow> A \<inter> B = {} \<Longrightarrow> A \<inter> C = {} \<Longrightarrow> B \<inter> C = {} \<Longrightarrow>
    length (filter (\<lambda>x. f x \<in> A) xs) + length (filter (\<lambda>x. f x \<in> B) xs)
      + length (filter (\<lambda>x. f x \<in> C) xs) = length xs"
  by (induction xs) auto

lemma state_sum:
  assumes "list_all (\<lambda>r. rs_State r \<in> {EntryQueued, EntryRunning, EntryCompleted, EntryUnsupported, EntryCancelled}) rs"
  shows "su_Queued (summarize rs) + su_Running (summarize rs) + su_Completed (summarize rs) = length rs"
proof -
  have "list_all (\<lambda>r. rs_State r \<in> {EntryQueued} \<union> {EntryRunning} \<union>
      set [EntryCompleted, EntryUnsupported, EntryCancelled]) rs"
    using assms by (simp add: insert_commute)
  then show ?thesis
    using filter_three [of rs_State "{EntryQueued}" "{EntryRunning}"
        "set [EntryCompleted, EntryUnsupported, EntryCancelled]" rs]
    by (simp add: summarize_def summarize_counts go_consts)
qed

lemma results_states:
  assumes "batchInv maxConcurrency b"
  shows "list_all (\<lambda>r. rs_State r \<in> {EntryQueued, EntryRunning, EntryCompleted, EntryUnsupported, EntryCancelled})
    (mb_results b)"
proof -
  have "rs_State (mb_results b ! i) \<in> {EntryQueued, EntryRunning, EntryCompleted, EntryUnsupported, EntryCancelled}"
    if "i < length (pl_Entries (mb_plan b))" for i
    by (rule result_cases [OF assms that])
      (auto simp: resultForEntry_def runningResult_def settledResult_def unsupportedResult_def
        cancelledResult_def dest!: runEntry_state split: if_splits)
  then show ?thesis using results_length [OF assms] by (simp add: list_all_length)
qed

lemma map_filter_length: "map f xs = map g ys \<Longrightarrow> (\<And>x y. f x = g y \<Longrightarrow> P x = Q y) \<Longrightarrow>
    length (filter P xs) = length (filter Q ys)"
proof (induction xs arbitrary: ys)
  case (Cons x xs)
  then show ?case by (cases ys) auto
qed simp

text \<open>the summary of a batch always describes its results: it counts every entry once as
  queued, running or completed, the failed endpoint identifiers are those of the failed results
  in plan order, and the captured failures are those of the plan, whatever the validation found.\<close>

theorem summary_consistent:
  assumes "breach maxConcurrency b"
  shows "su_Total (mb_summary b) = length (pl_Entries (mb_plan b))
    \<and> su_Queued (mb_summary b) + su_Running (mb_summary b) + su_Completed (mb_summary b) = su_Total (mb_summary b)
    \<and> su_FailedEndpointIDs (mb_summary b) =
        map rs_ID (filter (\<lambda>r. rs_Outcome r = ValidationFailed) (mb_results b))
    \<and> su_Failed (mb_summary b) = length (su_FailedEndpointIDs (mb_summary b))
    \<and> length (su_FailedIdentities (mb_summary b)) = su_Failed (mb_summary b)
    \<and> su_ValidationFailureCount (mb_summary b) = su_Failed (mb_summary b)
    \<and> su_CapturedFailureCount (mb_summary b) = length (filter pe_CaptureFailed (pl_Entries (mb_plan b)))"
proof -
  note inv = batchInv_reachable [OF assms]
  have s: "mb_summary b = summarize (mb_results b)" using inv by (simp add: batchInv_def)
  have captured: "length (filter rs_CaptureFailed (mb_results b)) =
      length (filter pe_CaptureFailed (pl_Entries (mb_plan b)))"
    using captureViews [OF inv]
    by (rule map_filter_length) (simp add: captureView_def resultForEntry_def)
  show ?thesis
    using state_sum [OF results_states [OF inv]] results_length [OF inv] captured unfolding s
    by (simp add: summarize_def summarize_counts)
qed

theorem summary_consistent_witness:
  "su_CapturedFailureCount (mb_summary (batchOf failedPlan (Executing 0) [] (runningResult 2 failedEntry))) = 1"
  using summary_consistent [OF failedPlan_executing] by simp

section \<open>The list of jobs that the worker pool refines\<close>

text \<open>A concrete system with an invariant, whose every step is an abstract step or invisible.\<close>

locale refinement =
  fixes cstep :: "'c \<Rightarrow> 'c \<Rightarrow> bool" and astep :: "'a \<Rightarrow> 'a \<Rightarrow> bool"
    and inv :: "'c \<Rightarrow> bool" and abs :: "'c \<Rightarrow> 'a"
  assumes inv_step: "inv c \<Longrightarrow> cstep c c' \<Longrightarrow> inv c'"
    and simulated: "inv c \<Longrightarrow> cstep c c' \<Longrightarrow> abs c' = abs c \<or> astep (abs c) (abs c')"
begin

lemma inv_run: "cstep\<^sup>*\<^sup>* c c' \<Longrightarrow> inv c \<Longrightarrow> inv c'"
  by (induction rule: rtranclp_induct) (auto intro: inv_step)

lemma runs_simulated: "cstep\<^sup>*\<^sup>* c c' \<Longrightarrow> inv c \<Longrightarrow> astep\<^sup>*\<^sup>* (abs c) (abs c')"
proof (induction rule: rtranclp_induct)
  case (step c' c'')
  then have "inv c'" using inv_run by blast
  then show ?case using step simulated by (metis rtranclp.rtrancl_into_rtrancl)
qed simp

lemma stable_run:
  assumes "\<And>a a'. astep a a' \<Longrightarrow> P a \<Longrightarrow> P a'" "cstep\<^sup>*\<^sup>* c c'" "inv c" "P (abs c)"
  shows "P (abs c')"
proof -
  have "astep\<^sup>*\<^sup>* (abs c) (abs c')" using runs_simulated assms(2,3) .
  then show ?thesis by (induction rule: rtranclp_induct) (auto intro: assms(1,4))
qed

end

datatype job = JPending | JActive | JFinal BatchResult

text \<open>
  The specification of a batch over its plan entries: a pending job of an entry that can be
  validated may become active, and a job that is not final may get its one final result.
\<close>

inductive jobStep :: "PlanEntry list \<Rightarrow> job list \<Rightarrow> job list \<Rightarrow> bool" for entries where
  Activate: "i < length js \<Longrightarrow> js ! i = JPending \<Longrightarrow> \<not> pe_Unsupported (entries ! i) \<Longrightarrow>
    jobStep entries js (js[i := JActive])"
| Finalize: "i < length js \<Longrightarrow> js ! i = JPending \<or> js ! i = JActive \<Longrightarrow> settledResult (entries ! i) r \<Longrightarrow>
    jobStep entries js (js[i := JFinal r])"

inductive_cases jobStepE: "jobStep entries js js'"

fun waitingBy :: "worker \<Rightarrow> nat list" where
  "waitingBy (Taken i) = [i]" | "waitingBy (Dropping i) = [i]" | "waitingBy (Cleared i) = [i]"
| "waitingBy w = []"

fun activeBy :: "worker \<Rightarrow> nat list" where
  "activeBy (Executing i) = [i]" | "activeBy (Holding i r) = [i]" | "activeBy w = []"

definition waitingIn :: "managedBatch \<Rightarrow> nat set" where
  "waitingIn b = set (mb_jobs b) \<union> (\<Union>w\<in>set (mb_workers b). set (waitingBy w))"

definition activeIn :: "managedBatch \<Rightarrow> nat set" where
  "activeIn b = (\<Union>w\<in>set (mb_workers b). set (activeBy w))"

definition jobOf :: "managedBatch \<Rightarrow> nat \<Rightarrow> job" where
  "jobOf b i = (if \<not> mb_launched b \<or> i \<in> waitingIn b then JPending
     else if i \<in> activeIn b then JActive else JFinal (mb_results b ! i))"

definition jobsOf :: "managedBatch \<Rightarrow> job list" where
  "jobsOf b = map (jobOf b) [0..<length (pl_Entries (mb_plan b))]"

lemma jobsOf_nth: "i < length (pl_Entries (mb_plan b)) \<Longrightarrow> jobsOf b ! i = jobOf b i"
  by (simp add: jobsOf_def)

lemma jobsOf_length: "length (jobsOf b) = length (pl_Entries (mb_plan b))"
  by (simp add: jobsOf_def)

lemma heldBy_split: "set (heldBy w) = set (waitingBy w) \<union> set (activeBy w)"
  by (cases w) auto

lemma waiting_workers [simp]:
  "waitingIn (b\<lparr>mb_workers := us @ w # vs\<rparr>) =
     set (mb_jobs b) \<union> set (waitingBy w) \<union> (\<Union>w\<in>set us \<union> set vs. set (waitingBy w))"
  "activeIn (b\<lparr>mb_workers := us @ w # vs\<rparr>) = set (activeBy w) \<union> (\<Union>w\<in>set us \<union> set vs. set (activeBy w))"
  by (auto simp: waitingIn_def activeIn_def)

lemma rest_held: "(\<Union>w\<in>set us \<union> set vs. set (waitingBy w)) \<union> (\<Union>w\<in>set us \<union> set vs. set (activeBy w)) =
    set (held us) \<union> set (held vs)"
  using heldBy_split by (fastforce simp: held_def)

text \<open>The jobs of a batch whose one worker at the split changes.\<close>

lemma jobsOf_worker:
  assumes "batchInv maxConcurrency b" "mb_workers b = us @ w # vs" "heldBy w = [i]"
    "mb_plan b' = mb_plan b" "mb_launched b'" "waitingIn b' = waitingIn (b\<lparr>mb_workers := us @ w' # vs\<rparr>)"
    "activeIn b' = activeIn (b\<lparr>mb_workers := us @ w' # vs\<rparr>)"
    "\<And>j. j \<noteq> i \<Longrightarrow> mb_results b' ! j = mb_results b ! j" "set (heldBy w') \<subseteq> {i}"
  shows "jobsOf b' = (jobsOf b)[i := jobOf b' i]"
proof (rule nth_equalityI)
  show "length (jobsOf b') = length ((jobsOf b)[i := jobOf b' i])" using assms(4) by (simp add: jobsOf_def)
  fix j assume "j < length (jobsOf b')"
  then have j: "j < length (pl_Entries (mb_plan b))" using assms(4) by (simp add: jobsOf_def)
  have b: "waitingIn b = set (mb_jobs b) \<union> set (waitingBy w) \<union> (\<Union>w\<in>set us \<union> set vs. set (waitingBy w))"
    "activeIn b = set (activeBy w) \<union> (\<Union>w\<in>set us \<union> set vs. set (activeBy w))"
    using assms(2) by (auto simp: waitingIn_def activeIn_def)
  have "waitingBy w = [] \<or> waitingBy w = [i]" "activeBy w = [] \<or> activeBy w = [i]"
    "set (waitingBy w') \<subseteq> {i}" "set (activeBy w') \<subseteq> {i}"
    using assms(3,9) by (cases w; simp; cases w'; simp)+
  then have "j \<in> waitingIn b' \<longleftrightarrow> j \<in> waitingIn b" "j \<in> activeIn b' \<longleftrightarrow> j \<in> activeIn b" if "j \<noteq> i"
    using that unfolding assms(6,7) b waiting_workers by auto
  then have "jobOf b' j = jobOf b j" if "j \<noteq> i"
    using that assms(5,8) batchInv_pool(1) [OF assms(1,2)] by (simp add: jobOf_def)
  then show "jobsOf b' ! j = (jobsOf b)[i := jobOf b' i] ! j"
    using j assms(4) by (cases "j = i") (simp_all add: jobsOf_nth jobsOf_length)
qed

text \<open>A step that touches neither the split of the indices nor a final result is invisible.\<close>

lemma jobsOf_same:
  assumes "mb_plan b' = mb_plan b" "mb_launched b' = mb_launched b" "waitingIn b' = waitingIn b"
    "activeIn b' = activeIn b" "mb_results b' = mb_results b"
  shows "jobsOf b' = jobsOf b"
  using assms by (simp add: jobsOf_def jobOf_def)

lemma jobsOf_replace:
  assumes "mb_workers b = us @ w # vs" "waitingBy w' = waitingBy w" "activeBy w' = activeBy w"
  shows "jobsOf (b\<lparr>mb_workers := us @ w' # vs\<rparr>) = jobsOf b"
proof (rule jobsOf_same)
  show "waitingIn (b\<lparr>mb_workers := us @ w' # vs\<rparr>) = waitingIn b"
    "activeIn (b\<lparr>mb_workers := us @ w' # vs\<rparr>) = activeIn b"
    using assms by (auto simp: waitingIn_def activeIn_def)
qed simp_all

lemma jobsOf_finish:
  assumes inv: "batchInv maxConcurrency b" "mb_workers b = us @ w # vs" and "heldBy w = [i]"
    "settledResult (pl_Entries (mb_plan b) ! i) r"
  shows "jobStep (pl_Entries (mb_plan b)) (jobsOf b)
    (jobsOf ((finishEntry i r b)\<lparr>mb_workers := us @ Idle # vs\<rparr>))"
proof -
  let ?b = "(finishEntry i r b)\<lparr>mb_workers := us @ Idle # vs\<rparr>"
  have p: "mb_launched b" "poolOk (pl_Entries (mb_plan b)) (mb_results b) (mb_jobs b) (us @ w # vs)"
    using batchInv_pool(1,2) [OF inv] .
  then have i: "i < length (pl_Entries (mb_plan b))" "i \<notin> set (mb_jobs b)" "i \<notin> set (held us)"
      "i \<notin> set (held vs)" "i < length (mb_results b)"
    using assms(3) by (auto simp: poolOk_def)
  have "i \<notin> waitingIn ?b" "i \<notin> activeIn ?b"
    using i(2,3,4) rest_held [of us vs] by auto
  then have "jobOf ?b i = JFinal r" using p(1) i(5) by (simp add: jobOf_def)
  moreover have "jobsOf ?b = (jobsOf b)[i := jobOf ?b i]"
    by (rule jobsOf_worker [OF assms(1-3), of _ Idle]) (simp_all add: p(1) nth_list_update)
  moreover have "jobOf b i = JPending \<or> jobOf b i = JActive"
  proof -
    have "i \<in> set (waitingBy w) \<union> set (activeBy w)" using heldBy_split [of w] assms(3) by auto
    then show ?thesis using inv(2) by (auto simp: jobOf_def waitingIn_def activeIn_def)
  qed
  ultimately show ?thesis
    using jobStep.Finalize [of i "jobsOf b"] i(1) assms(4) by (simp add: jobsOf_length jobsOf_nth)
qed

lemma jobsOf_mark:
  assumes inv: "batchInv maxConcurrency b" "mb_workers b = us @ Cleared i # vs"
  shows "jobStep (pl_Entries (mb_plan b)) (jobsOf b)
    (jobsOf ((markRunning i now b)\<lparr>mb_workers := us @ Executing i # vs\<rparr>))"
proof -
  let ?b = "(markRunning i now b)\<lparr>mb_workers := us @ Executing i # vs\<rparr>"
  have p: "mb_launched b" "poolOk (pl_Entries (mb_plan b)) (mb_results b) (mb_jobs b) (us @ Cleared i # vs)"
    using batchInv_pool(1,2) [OF inv] .
  then have i: "i < length (pl_Entries (mb_plan b))" "i \<notin> set (mb_jobs b)" "i \<notin> set (held us)"
      "i \<notin> set (held vs)" "i < length (mb_results b)" "\<not> pe_Unsupported (pl_Entries (mb_plan b) ! i)"
      "mb_results b ! i = resultForEntry (pl_Entries (mb_plan b) ! i)"
    by (auto simp: poolOk_def)
  note mark = markRunning_queued [OF i(5,7), of now]
  have "i \<notin> waitingIn ?b" "i \<in> activeIn ?b"
    using i(2,3,4) rest_held [of us vs] by (auto simp: mark)
  then have "jobOf ?b i = JActive" using p(1) by (simp add: jobOf_def mark)
  moreover have "jobsOf ?b = (jobsOf b)[i := jobOf ?b i]"
    by (rule jobsOf_worker [OF inv, of i _ "Executing i"])
      (simp_all add: p(1) mark nth_list_update waitingIn_def activeIn_def)
  moreover have "jobOf b i = JPending" using inv(2) by (auto simp: jobOf_def waitingIn_def)
  ultimately show ?thesis
    using jobStep.Activate [of i "jobsOf b"] i(1,6) by (simp add: jobsOf_length jobsOf_nth)
qed

lemma bstep_simulated:
  "bstep maxConcurrency b b' \<Longrightarrow> batchInv maxConcurrency b \<Longrightarrow>
    jobsOf b' = jobsOf b \<or> jobStep (pl_Entries (mb_plan b)) (jobsOf b) (jobsOf b')"
proof (induction rule: bstep.induct)
  case (Launch b)
  have "jobsOf (launchBatch maxConcurrency b) = jobsOf b"
    unfolding jobsOf_def
    using Launch by (intro map_cong) (auto simp: jobOf_def waitingIn_def launchBatch_def)
  then show ?case by simp
next
  case (Take b us vs i jobs)
  have "jobsOf (b\<lparr>mb_jobs := jobs, mb_workers := us @ Taken i # vs\<rparr>) = jobsOf b"
    using Take.hyps by (intro jobsOf_same) (auto simp: waitingIn_def activeIn_def)
  then show ?case by simp
next
  case (Exit b us vs)
  then show ?case using jobsOf_replace by simp
next
  case (Unsupported b us i vs now)
  then show ?case by (intro disjI2 jobsOf_finish) (auto simp: settledResult_def)
next
  case (SeeCancelled b us i vs)
  then show ?case using jobsOf_replace by simp
next
  case (Drop b us i vs now)
  then show ?case using batchInv_worker [OF Drop.prems Drop.hyps(1)]
    by (intro disjI2 jobsOf_finish) (auto simp: settledResult_def)
next
  case (SeeLive b us i vs)
  then show ?case using jobsOf_replace by simp
next
  case (Mark b us i vs now)
  then show ?case using jobsOf_mark by blast
next
  case (Run b us i vs clock err1 err2 outcome r)
  then show ?case using jobsOf_replace by simp
next
  case (Finish b us i r vs)
  then show ?case using batchInv_worker [OF Finish.prems Finish.hyps(1)]
    by (intro disjI2 jobsOf_finish) auto
next
  case (Complete b now)
  have "jobsOf (completeBatch now b) = jobsOf b"
    by (rule jobsOf_same) (simp_all add: waitingIn_def activeIn_def completeBatch_def)
  then show ?case by simp
next
  case (Cancel b)
  have "jobsOf (cancelBatch b) = jobsOf b"
    by (rule jobsOf_same) (simp_all add: waitingIn_def activeIn_def cancelBatch_def)
  then show ?case by simp
next
  case (Close b)
  have "jobsOf (closeBatch b) = jobsOf b"
    by (rule jobsOf_same) (simp_all add: waitingIn_def activeIn_def closeBatch_def)
  then show ?case by simp
next
  case (ContextDone b)
  have "jobsOf (b\<lparr>mb_ctxDone := True\<rparr>) = jobsOf b"
    by (rule jobsOf_same) (simp_all add: waitingIn_def activeIn_def)
  then show ?case by simp
qed

lemma bstep_plan: "bstep maxConcurrency b b' \<Longrightarrow> mb_plan b' = mb_plan b"
  by (induction rule: bstep.induct)
    (simp_all add: launchBatch_def completeBatch_def cancelBatch_def closeBatch_def markRunning_def Let_def)

text \<open>
  The interpretation: a batch of a fixed plan, its steps, its invariant and its jobs.
\<close>

interpretation pool: refinement "bstep maxConcurrency" "jobStep (pl_Entries plan)"
    "\<lambda>b. batchInv maxConcurrency b \<and> mb_plan b = plan" jobsOf
  for maxConcurrency plan
  using batchInv_step bstep_plan bstep_simulated by unfold_locales blast+

lemma final_stable: "jobStep entries js js' \<Longrightarrow> i < length js \<and> js ! i = JFinal r \<Longrightarrow>
    i < length js' \<and> js' ! i = JFinal r"
  by (erule jobStepE) (auto simp: nth_list_update)

lemma jobOf_view:
  assumes "batchInv maxConcurrency b" "i < length (pl_Entries (mb_plan b))"
  shows "case jobOf b i of
      JPending \<Rightarrow> mb_results b ! i = resultForEntry (pl_Entries (mb_plan b) ! i)
    | JActive \<Rightarrow> (\<exists>t. mb_results b ! i = runningResult t (pl_Entries (mb_plan b) ! i))
    | JFinal r \<Rightarrow> mb_results b ! i = r \<and> settledResult (pl_Entries (mb_plan b) ! i) r"
proof (cases "mb_launched b")
  case False
  then show ?thesis using assms by (simp add: jobOf_def batchInv_def initialResults_def)
next
  case True
  then have p: "poolOk (pl_Entries (mb_plan b)) (mb_results b) (mb_jobs b) (mb_workers b)"
    using assms(1) by (simp add: batchInv_def)
  have w: "workerOk (pl_Entries (mb_plan b)) (mb_results b) w" if "w \<in> set (mb_workers b)" for w
    using p that by (simp add: poolOk_def)
  consider "i \<in> waitingIn b" | "i \<notin> waitingIn b" "i \<in> activeIn b"
    | "i \<notin> waitingIn b" "i \<notin> activeIn b" by blast
  then show ?thesis
  proof cases
    case 1
    then have "mb_results b ! i = resultForEntry (pl_Entries (mb_plan b) ! i)"
    proof (cases "i \<in> set (mb_jobs b)")
      case False
      then obtain v where "v \<in> set (mb_workers b)" "i \<in> set (waitingBy v)"
        using 1 by (auto simp: waitingIn_def)
      then show ?thesis using w [of v] by - (cases v; simp)
    qed (use p in \<open>auto simp: poolOk_def\<close>)
    then show ?thesis using 1 by (simp add: jobOf_def)
  next
    case 2
    then obtain v where "v \<in> set (mb_workers b)" "i \<in> set (activeBy v)" by (auto simp: activeIn_def)
    then show ?thesis using w [of v] 2 True by - (cases v; auto simp: jobOf_def)
  next
    case 3
    have "i \<notin> set (held (mb_workers b))"
      using 3 heldBy_split by (auto simp: held_def waitingIn_def activeIn_def)
    moreover have "i \<notin> set (mb_jobs b)" using 3 by (simp add: waitingIn_def)
    ultimately show ?thesis using p assms(2) True 3 by (simp add: poolOk_def jobOf_def)
  qed
qed

lemma terminal_job:
  assumes "batchInv maxConcurrency b" "i < length (pl_Entries (mb_plan b))"
    "terminalEntry (rs_State (mb_results b ! i))"
  shows "jobOf b i = JFinal (mb_results b ! i)"
  using jobOf_view [OF assms(1,2)] assms(3)
  by (auto simp: resultForEntry_def runningResult_def split: job.splits)

text \<open>C16: a batch implements its specification. Along every run of the real steps, workers taking
  indices, finding the batch cancelled, running entries and storing results, together with
  cancellation, shutdown and the final section, the jobs change only as the specification allows:
  from pending to active, and once to a final result that is the unsupported, the cancelled or
  the computed result of that entry.\<close>

theorem batch_refines_jobs:
  assumes "breach maxConcurrency b" "(bstep maxConcurrency)\<^sup>*\<^sup>* b b'"
  shows "(jobStep (pl_Entries (mb_plan b)))\<^sup>*\<^sup>* (jobsOf b) (jobsOf b')"
  using pool.runs_simulated [OF assms(2)] batchInv_reachable [OF assms(1)] by simp

theorem batch_refines_jobs_witness:
  "(jobStep [failedEntry])\<^sup>*\<^sup>* [JActive] (jobsOf (batchOf failedPlan (Holding 0 panickedResult) [] (runningResult 2 failedEntry)))"
proof -
  let ?b = "batchOf failedPlan (Executing 0) [] (runningResult 2 failedEntry)"
  have "bstep 1 ?b (batchOf failedPlan (Holding 0 panickedResult) [] (runningResult 2 failedEntry))"
    using bstep.Run [of ?b "[]" 0 "[]" _ None None _ panickedResult] panickedResult by (simp add: batchOf_moves)
  moreover have "jobsOf ?b = [JActive]" by (simp add: jobsOf_def jobOf_def waitingIn_def activeIn_def)
  ultimately show ?thesis
    using batch_refines_jobs [OF failedPlan_executing,
        of "batchOf failedPlan (Holding 0 panickedResult) [] (runningResult 2 failedEntry)"]
    by (simp add: r_into_rtranclp)
qed

text \<open>a finished entry stays finished. Once the result of an entry is completed, cancelled or
  unsupported, no later step of a worker, no cancellation and no shutdown changes any field of it.\<close>

theorem terminal_result_final:
  assumes "breach maxConcurrency b" "(bstep maxConcurrency)\<^sup>*\<^sup>* b b'"
    "i < length (mb_results b)" "terminalEntry (rs_State (mb_results b ! i))"
  shows "mb_results b' ! i = mb_results b ! i"
proof -
  note inv = batchInv_reachable [OF assms(1)]
  have inv': "batchInv maxConcurrency b' \<and> mb_plan b' = mb_plan b"
    using pool.inv_run [OF assms(2)] inv by simp
  have i: "i < length (pl_Entries (mb_plan b))" using assms(3) results_length [OF inv] by simp
  have "i < length (jobsOf b) \<and> jobsOf b ! i = JFinal (mb_results b ! i)"
    using terminal_job [OF inv i assms(4)] i by (simp add: jobsOf_nth jobsOf_length)
  then have "jobsOf b' ! i = JFinal (mb_results b ! i)"
    using pool.stable_run [where P = "\<lambda>js. i < length js \<and> js ! i = JFinal (mb_results b ! i)",
        OF final_stable assms(2)] inv by simp
  then have "jobOf b' i = JFinal (mb_results b ! i)" using i inv' by (simp add: jobsOf_nth)
  then show ?thesis using jobOf_view [of _ b' i] inv' i by force
qed

theorem terminal_result_final_witness:
  "mb_results (completeBatch 9 (batchOf failedPlan Exited [] panickedResult)) ! 0 = panickedResult"
proof -
  have "terminalEntry (rs_State panickedResult)"
    using runEntry_state [OF panickedResult] by auto
  then show ?thesis using terminal_result_final [OF failedPlan_idle exitRun, of 0] by simp
qed

section \<open>A finished batch\<close>

lemma done_settled:
  assumes inv: "batchInv maxConcurrency b" and "0 < maxConcurrency" "mb_done b"
  shows "list_all2 settledResult (pl_Entries (mb_plan b)) (mb_results b)"
proof (rule list_all2_all_nthI)
  show "length (pl_Entries (mb_plan b)) = length (mb_results b)" using results_length [OF inv] by simp
  fix i assume i: "i < length (pl_Entries (mb_plan b))"
  have p: "mb_launched b" "poolOk (pl_Entries (mb_plan b)) (mb_results b) (mb_jobs b) (mb_workers b)"
    "length (mb_workers b) = batchConcurrency maxConcurrency (mb_plan b)" "set (mb_workers b) \<subseteq> {Exited}"
    using assms by (auto simp: batchInv_def split: if_splits)
  have "0 < length (mb_workers b)" using i assms(2) p(3) by (auto simp: batchConcurrency_def Let_def)
  then have "Exited \<in> set (mb_workers b)" using p(4) by (cases "mb_workers b") auto
  then have "mb_jobs b = []" using p(2) by (simp add: poolOk_def)
  moreover have "set (held (mb_workers b)) = {}" using p(4) by (auto simp: held_def)
  ultimately show "settledResult (pl_Entries (mb_plan b) ! i) (mb_results b ! i)"
    using p(2) i by (simp add: poolOk_def)
qed

text \<open>when a batch is done, every entry of the plan has been dealt with: an unsupported entry
  has its reason as its result, every other one either the explicit cancelled result or the
  result computed from the diagnostic report of its target. The completion time is set and no
  worker or queued index is left.\<close>

theorem done_all_settled:
  assumes "breach maxConcurrency b" "0 < maxConcurrency" "mb_done b"
  shows "list_all2 settledResult (pl_Entries (mb_plan b)) (mb_results b)
    \<and> mb_completedAt b \<noteq> None \<and> set (mb_workers b) \<subseteq> {Exited}"
  using done_settled [OF batchInv_reachable [OF assms(1)] assms(2,3)] batchInv_reachable [OF assms(1)]
    assms(3) by (simp add: batchInv_def split: if_splits)

theorem done_all_settled_witness:
  "list_all2 settledResult [failedEntry] (mb_results (completeBatch 9 (batchOf failedPlan Exited [] panickedResult)))"
  using done_all_settled [OF failedPlan_done] by (simp add: completeBatch_def)

section \<open>The bound on running entries\<close>

lemma held_length: "length (held ws) \<le> length ws"
proof (induction ws)
  case (Cons w ws)
  then show ?case by (cases w) auto
qed simp

lemma card_filter_nth: "length (filter P xs) = card {i. i < length xs \<and> P (xs ! i)}"
  by (rule length_filter_conv_card)

text \<open>at every moment at most as many entries are running as there are workers, and their
  number is the plan's concurrency where the manager allows it and the manager's bound otherwise,
  never more than there are entries.\<close>

theorem running_bounded:
  assumes "breach maxConcurrency b"
  shows "su_Running (mb_summary b) \<le> length (mb_workers b) \<and> length (mb_workers b) \<le> maxConcurrency
    \<and> length (mb_workers b) \<le> length (pl_Entries (mb_plan b))"
proof -
  note inv = batchInv_reachable [OF assms]
  have workers: "length (mb_workers b) \<le> batchConcurrency maxConcurrency (mb_plan b)"
    using inv by (simp add: batchInv_def split: if_splits)
  have "{i. i < length (mb_results b) \<and> rs_State (mb_results b ! i) = EntryRunning} \<subseteq> set (held (mb_workers b))"
  proof clarify
    fix i assume i: "i < length (mb_results b)" "rs_State (mb_results b ! i) = EntryRunning"
    then have "i < length (pl_Entries (mb_plan b))" using results_length [OF inv] by simp
    then show "i \<in> set (held (mb_workers b))"
    proof (rule result_cases [OF inv])
      assume "mb_results b ! i = resultForEntry (pl_Entries (mb_plan b) ! i)"
      then show ?thesis using i(2) by (simp add: resultForEntry_def)
    next
      assume "settledResult (pl_Entries (mb_plan b) ! i) (mb_results b ! i)"
      then show ?thesis using i(2) settled_not_running by blast
    qed
  qed
  then have "card {i. i < length (mb_results b) \<and> rs_State (mb_results b ! i) = EntryRunning}
      \<le> length (held (mb_workers b))"
    by (meson card_length card_mono finite_set order_trans)
  then have "su_Running (summarize (mb_results b)) \<le> length (mb_workers b)"
    using held_length [of "mb_workers b"] card_filter_nth [of "\<lambda>r. rs_State r = EntryRunning" "mb_results b"]
    by (simp add: summarize_def summarize_counts)
  moreover have "mb_summary b = summarize (mb_results b)" using inv by (simp add: batchInv_def)
  moreover have "batchConcurrency maxConcurrency (mb_plan b) \<le> maxConcurrency"
    "batchConcurrency maxConcurrency (mb_plan b) \<le> length (pl_Entries (mb_plan b))"
    by (auto simp: batchConcurrency_def Let_def)
  ultimately show ?thesis using workers by simp
qed

theorem running_bounded_witness:
  "su_Running (mb_summary (batchOf failedPlan (Executing 0) [] (runningResult 2 failedEntry))) \<le> 1"
  using running_bounded [OF failedPlan_executing] by simp

end
