(* ===== verification/BatchProgress.thy ===== *)
theory BatchProgress
  imports BatchFacts BatchPlanFacts
begin

text \<open>
  That every batch can finish: a measure that each move of a worker decreases and no outside
  event increases, and a decreasing move in every state that is not done. At the end, what the
  summary of a finished batch says of an entry whose time ran out.
\<close>

section \<open>The measure\<close>

fun workerWeight :: "worker \<Rightarrow> nat" where
  "workerWeight Exited = 0" | "workerWeight Idle = 1" | "workerWeight (Holding i r) = 2"
| "workerWeight (Executing i) = 3" | "workerWeight (Cleared i) = 4" | "workerWeight (Dropping i) = 4"
| "workerWeight (Taken i) = 5"

definition batchMeasure :: "nat \<Rightarrow> managedBatch \<Rightarrow> nat" where
  "batchMeasure maxConcurrency b =
     (if mb_launched b then 0
      else 1 + 5 * length (pl_Entries (mb_plan b)) + batchConcurrency maxConcurrency (mb_plan b))
     + 5 * length (mb_jobs b) + sum_list (map workerWeight (mb_workers b)) + (if mb_done b then 0 else 1)"

text \<open>The steps that come from outside the batch.\<close>

definition outsideMove :: "managedBatch \<Rightarrow> managedBatch \<Rightarrow> bool" where
  "outsideMove b b' \<longleftrightarrow> b' = cancelBatch b \<or> b' = closeBatch b \<or> b' = b\<lparr>mb_ctxDone := True\<rparr>"

lemma weight_replicate [simp]: "sum_list (map workerWeight (replicate n Idle)) = n"
  by (induction n) auto

lemma markRunning_fields [simp]:
  "mb_plan (markRunning i now b) = mb_plan b" "mb_jobs (markRunning i now b) = mb_jobs b"
  "mb_launched (markRunning i now b) = mb_launched b" "mb_done (markRunning i now b) = mb_done b"
  by (simp_all add: markRunning_def Let_def)

lemma outside_fields [simp]:
  "mb_plan (cancelBatch b) = mb_plan b" "mb_jobs (cancelBatch b) = mb_jobs b"
  "mb_launched (cancelBatch b) = mb_launched b" "mb_done (cancelBatch b) = mb_done b"
  "mb_workers (cancelBatch b) = mb_workers b" "mb_plan (closeBatch b) = mb_plan b"
  "mb_jobs (closeBatch b) = mb_jobs b" "mb_launched (closeBatch b) = mb_launched b"
  "mb_done (closeBatch b) = mb_done b" "mb_workers (closeBatch b) = mb_workers b"
  by (simp_all add: cancelBatch_def closeBatch_def)

lemma measure_outside: "outsideMove b b' \<Longrightarrow> batchMeasure maxConcurrency b' = batchMeasure maxConcurrency b"
  by (auto simp: outsideMove_def batchMeasure_def)

lemma measure_step:
  "bstep maxConcurrency b b' \<Longrightarrow> batchInv maxConcurrency b \<Longrightarrow>
    outsideMove b b' \<or> batchMeasure maxConcurrency b' < batchMeasure maxConcurrency b"
proof (induction rule: bstep.induct)
  case (Launch b)
  then have "mb_jobs b = []" "mb_workers b = []" by (simp_all add: batchInv_def)
  then show ?case using Launch by (simp add: batchMeasure_def launchBatch_def sum_list_replicate)
next
  case (Complete b now)
  then show ?case by (simp add: batchMeasure_def completeBatch_def)
qed (simp_all add: outsideMove_def batchMeasure_def)

section \<open>Progress\<close>

definition runnable :: "PlanEntry list \<Rightarrow> bool" where
  "runnable entries \<longleftrightarrow> list_all (\<lambda>e. pe_Unsupported e \<or> pe_Target e \<noteq> None) entries"

text \<open>Every plan that \<open>BuildPlan\<close> returns is runnable.\<close>

lemma BuildPlan_runnable:
  assumes "BuildPlan arrange report request = Inr plan" "\<And>xs. mset (arrange xs) = mset xs"
    "ob_BrowserCapture (br_Observations report) = Some observation"
  shows "runnable (pl_Entries plan)"
proof -
  have "pe_Unsupported e \<or> pe_Target e \<noteq> None" if "e \<in> set (pl_Entries plan)" for e
    using plan_entries_ok(1) [OF assms that]
    by (auto simp: entryOk_def entryTarget_def split: option.splits)
  then show ?thesis by (simp add: runnable_def list_all_iff)
qed

lemma runEntry_runs: "pe_Target entry \<noteq> None \<Longrightarrow> \<exists>r. runEntry clock err1 err2 outcome entry = Some r"
  by (auto simp: runEntry_def Let_def split: prod.splits)

lemma worker_moves:
  assumes inv: "batchInv maxConcurrency b" "mb_workers b = us @ w # vs" and "w \<noteq> Exited"
    "runnable (pl_Entries (mb_plan b))"
  shows "\<exists>b'. bstep maxConcurrency b b' \<and> batchMeasure maxConcurrency b' < batchMeasure maxConcurrency b"
proof -
  have weight: "?thesis" if "bstep maxConcurrency b b'"
    "batchMeasure maxConcurrency b' < batchMeasure maxConcurrency b" for b'
    using that by blast
  have ok: "workerOk (pl_Entries (mb_plan b)) (mb_results b) w" by (rule batchInv_worker [OF inv])
  show ?thesis
  proof (cases w)
    case Idle
    show ?thesis
    proof (cases "mb_jobs b")
      case Nil
      then show ?thesis using inv(2) Idle by (intro weight [OF bstep.Exit]) (auto simp: batchMeasure_def)
    next
      case (Cons i jobs)
      then show ?thesis using inv(2) Idle by (intro weight [OF bstep.Take]) (auto simp: batchMeasure_def)
    qed
  next
    case (Taken i)
    then consider "pe_Unsupported (pl_Entries (mb_plan b) ! i)"
      | "\<not> pe_Unsupported (pl_Entries (mb_plan b) ! i)" "contextCancelled b"
      | "\<not> pe_Unsupported (pl_Entries (mb_plan b) ! i)" "\<not> contextCancelled b" by blast
    then show ?thesis
    proof cases
      case 1
      then show ?thesis using inv(2) Taken by (intro weight [OF bstep.Unsupported]) (auto simp: batchMeasure_def)
    next
      case 2
      then show ?thesis using inv(2) Taken by (intro weight [OF bstep.SeeCancelled]) (auto simp: batchMeasure_def)
    next
      case 3
      then show ?thesis using inv(2) Taken by (intro weight [OF bstep.SeeLive]) (auto simp: batchMeasure_def)
    qed
  next
    case (Dropping i)
    then show ?thesis using inv(2) by (intro weight [OF bstep.Drop]) (auto simp: batchMeasure_def)
  next
    case (Cleared i)
    then show ?thesis using inv(2) by (intro weight [OF bstep.Mark]) (auto simp: batchMeasure_def)
  next
    case (Executing i)
    have "i < length (pl_Entries (mb_plan b))" using batchInv_pool(2) [OF inv] Executing by (simp add: poolOk_def)
    then have "pe_Target (pl_Entries (mb_plan b) ! i) \<noteq> None"
      using assms(4) ok Executing by (auto simp: runnable_def list_all_length)
    then obtain r where "runEntry (\<lambda>_. 0) None None (RunnerPanicked []) (pl_Entries (mb_plan b) ! i) = Some r"
      using runEntry_runs by blast
    then show ?thesis using inv(2) Executing by (intro weight [OF bstep.Run]) (auto simp: batchMeasure_def)
  next
    case (Holding i r)
    then show ?thesis using inv(2) by (intro weight [OF bstep.Finish]) (auto simp: batchMeasure_def)
  qed (use assms(3) in simp)
qed

lemma batch_moves:
  assumes inv: "batchInv maxConcurrency b" and "\<not> mb_done b" "runnable (pl_Entries (mb_plan b))"
  shows "\<exists>b'. bstep maxConcurrency b b' \<and> batchMeasure maxConcurrency b' < batchMeasure maxConcurrency b"
proof (cases "set (mb_workers b) \<subseteq> {Exited}")
  case False
  then obtain w where "w \<in> set (mb_workers b)" "w \<noteq> Exited" by auto
  then show ?thesis using worker_moves [OF inv _ _ assms(3)] by (metis split_list)
next
  case True
  have "\<exists>b'. bstep maxConcurrency b b' \<and> \<not> outsideMove b b'"
  proof (cases "mb_launched b")
    case False
    then have "mb_launched (launchBatch maxConcurrency b)" "\<not> mb_launched b" by (simp_all add: launchBatch_def)
    then have "\<not> outsideMove b (launchBatch maxConcurrency b)"
      by (auto simp: outsideMove_def)
    then show ?thesis using bstep.Launch [OF False] by blast
  next
    case launched: True
    have "mb_done (completeBatch 0 b)" by (simp add: completeBatch_def)
    then have "\<not> outsideMove b (completeBatch 0 b)"
      using assms(2) by (auto simp: outsideMove_def)
    then show ?thesis using bstep.Complete [where maxConcurrency = maxConcurrency and now = 0, OF launched assms(2) True]
      by blast
  qed
  then show ?thesis using measure_step inv by blast
qed

text \<open>C17: a batch always can finish, and does when its workers keep moving. If every supported entry
  has a target, a state that is not done has a step that decreases the measure; every step that is
  not a cancellation, a shutdown or the end of the context decreases it, and those leave it as it
  is, so no run makes more moves than the measure of its first state; and from every state some
  run reaches a done one.\<close>

theorem batch_finishes:
  assumes "breach maxConcurrency b" "runnable (pl_Entries (mb_plan b))"
  shows "(\<not> mb_done b \<longrightarrow> (\<exists>b'. bstep maxConcurrency b b' \<and> batchMeasure maxConcurrency b' < batchMeasure maxConcurrency b))
    \<and> (\<forall>b'. bstep maxConcurrency b b' \<longrightarrow> batchMeasure maxConcurrency b' < batchMeasure maxConcurrency b
        \<or> outsideMove b b' \<and> batchMeasure maxConcurrency b' = batchMeasure maxConcurrency b)
    \<and> (\<exists>b'. (bstep maxConcurrency)\<^sup>*\<^sup>* b b' \<and> mb_done b')"
proof (intro conjI)
  note inv = batchInv_reachable [OF assms(1)]
  show "\<not> mb_done b \<longrightarrow> (\<exists>b'. bstep maxConcurrency b b' \<and> batchMeasure maxConcurrency b' < batchMeasure maxConcurrency b)"
    using batch_moves inv assms(2) by blast
  show "\<forall>b'. bstep maxConcurrency b b' \<longrightarrow> batchMeasure maxConcurrency b' < batchMeasure maxConcurrency b
        \<or> outsideMove b b' \<and> batchMeasure maxConcurrency b' = batchMeasure maxConcurrency b"
    using measure_step measure_outside inv by blast
  show "\<exists>b'. (bstep maxConcurrency)\<^sup>*\<^sup>* b b' \<and> mb_done b'"
    using inv assms(2)
  proof (induction "batchMeasure maxConcurrency b" arbitrary: b rule: less_induct)
    case less
    show ?case
    proof (cases "mb_done b")
      case False
      then obtain c where c: "bstep maxConcurrency b c" "batchMeasure maxConcurrency c < batchMeasure maxConcurrency b"
        using batch_moves less.prems by blast
      then have "batchInv maxConcurrency c" "runnable (pl_Entries (mb_plan c))"
        using batchInv_step bstep_plan less.prems by metis+
      then show ?thesis using less.hyps [OF c(2)] c(1) by (meson converse_rtranclp_into_rtranclp)
    qed blast
  qed
qed

theorem batch_finishes_witness:
  "\<exists>b'. (bstep 1)\<^sup>*\<^sup>* (batchOf failedPlan (Executing 0) [] (runningResult 2 failedEntry)) b' \<and> mb_done b'"
  using batch_finishes [OF failedPlan_executing] by (simp add: runnable_def)

section \<open>An entry whose time runs out\<close>

text \<open>
  An entry whose context reaches its deadline while the runner still returns a complete report is
  left in the state it was created with: the finished batch counts it as queued and not as
  completed, although it has a completion time and an outcome.
\<close>

theorem timed_out_stays_queued:
  fixes report :: DiagnosticReport
  assumes "pl_Entries plan = [e]" "\<not> pe_Unsupported e" "pe_Target e = Some t"
    "dr_Status report = ReportStatusComplete"
  shows "\<exists>b. breach 1 b \<and> mb_plan b = plan \<and> mb_done b \<and> mb_state b = BatchCompleted
    \<and> su_Queued (mb_summary b) = 1 \<and> su_Completed (mb_summary b) = 0 \<and> su_Partial (mb_summary b) = 1
    \<and> rs_CompletedAt (mb_results b ! 0) \<noteq> None"
proof -
  obtain dns tcp tls application where "observationPointers report e = (dns, tcp, tls, application)"
    by (metis prod_cases4)
  then obtain r where r: "runEntry (\<lambda>_. 5) None (Some ContextDeadlineExceeded) (RunnerReturned report) e = Some r"
      "rs_State r = EntryQueued" "rs_Outcome r = ValidationPartial" "rs_CompletedAt r = Some 5"
    using assms(3,4)
    by (simp add: runEntry_def Let_def resultForEntry_def)
  let ?b = "completeBatch 9 (batchOf plan Exited [] r)"
  have "breach 1 ?b" by (rule run_supported(3) [OF assms(1,2) r(1)])
  moreover have "mb_plan ?b = plan" "mb_done ?b" "mb_results ?b = [r]" "mb_summary ?b = summarize [r]"
      "mb_state ?b = BatchCompleted"
    by (simp_all add: completeBatch_def batchOf_def newBatch_def)
  moreover have "su_Queued (summarize [r]) = 1" "su_Completed (summarize [r]) = 0" "su_Partial (summarize [r]) = 1"
    using r(2,3) by (simp_all add: summarize_def summarizeResult_fields go_consts)
  ultimately show ?thesis using r(4) by (intro exI [of _ ?b]) simp
qed

end
