(* ===== verification/ProbeEvidence.thy ===== *)
theory ProbeEvidence
  imports ModelReportTypes GoNet
begin

text \<open>
  The payloads of evidence: what the probes write into \<open>Evidence.Raw\<close> and the builder of
  \<open>internal/observations\<close> reads back, one record per Go struct (of \<open>internal/probe/dns\<close>, \<open>tls\<close>,
  \<open>smb\<close>, \<open>interfacecfg\<close> and of \<open>builder.go\<close> itself), and \<open>jsonCodec\<close>: what the builder uses of
  \<open>encoding/json\<close>. A decoder is a function of the raw bytes into the struct or the text of the
  error; an encoder is the text of the value. Both are arguments of the model.
\<close>

type_synonym DNSServiceOutcome = string
type_synonym Phase = string

section \<open>Constants\<close>

definition FailureReasonDNSServiceTransportFailure :: FailureReason where [go_consts]: "FailureReasonDNSServiceTransportFailure = ''dns_service_transport_failure''"
definition FailureReasonDNSServiceProtocolFailure :: FailureReason where [go_consts]: "FailureReasonDNSServiceProtocolFailure = ''dns_service_protocol_failure''"
definition FailureReasonDNSServiceRefused :: FailureReason where [go_consts]: "FailureReasonDNSServiceRefused = ''dns_service_refused''"
definition FailureReasonDNSServiceServfail :: FailureReason where [go_consts]: "FailureReasonDNSServiceServfail = ''dns_service_servfail''"
definition FailureReasonDNSServiceTimeout :: FailureReason where [go_consts]: "FailureReasonDNSServiceTimeout = ''dns_service_timeout''"
definition FailureReasonDNSServiceMalformedResponse :: FailureReason where [go_consts]: "FailureReasonDNSServiceMalformedResponse = ''dns_service_malformed_response''"
definition FailureReasonDNSServiceTruncatedResponse :: FailureReason where [go_consts]: "FailureReasonDNSServiceTruncatedResponse = ''dns_service_truncated_response''"
definition FailureReasonDNSServiceNoEndpoint :: FailureReason where [go_consts]: "FailureReasonDNSServiceNoEndpoint = ''dns_service_no_resolved_endpoint''"
definition FailureReasonDNSServiceCancellation :: FailureReason where [go_consts]: "FailureReasonDNSServiceCancellation = ''dns_service_cancellation''"
definition DNSServiceOutcomeUnknown :: DNSServiceOutcome where [go_consts]: "DNSServiceOutcomeUnknown = ''unknown''"
definition DNSServiceOutcomeSuccess :: DNSServiceOutcome where [go_consts]: "DNSServiceOutcomeSuccess = ''success''"
definition DNSServiceOutcomeNegativeResponse :: DNSServiceOutcome where [go_consts]: "DNSServiceOutcomeNegativeResponse = ''negative_response''"
definition DNSServiceOutcomeRefused :: DNSServiceOutcome where [go_consts]: "DNSServiceOutcomeRefused = ''refused''"
definition DNSServiceOutcomeServfail :: DNSServiceOutcome where [go_consts]: "DNSServiceOutcomeServfail = ''servfail''"
definition DNSServiceOutcomeProtocolFailure :: DNSServiceOutcome where [go_consts]: "DNSServiceOutcomeProtocolFailure = ''protocol_failure''"
definition DNSServiceOutcomeMalformedResponse :: DNSServiceOutcome where [go_consts]: "DNSServiceOutcomeMalformedResponse = ''malformed_response''"
definition DNSServiceOutcomeTruncatedResponse :: DNSServiceOutcome where [go_consts]: "DNSServiceOutcomeTruncatedResponse = ''truncated_response''"
definition DNSServiceOutcomeTimeout :: DNSServiceOutcome where [go_consts]: "DNSServiceOutcomeTimeout = ''timeout''"
definition DNSServiceOutcomeTransportFailure :: DNSServiceOutcome where [go_consts]: "DNSServiceOutcomeTransportFailure = ''transport_failure''"
definition DNSServiceOutcomeNotAttempted :: DNSServiceOutcome where [go_consts]: "DNSServiceOutcomeNotAttempted = ''not_attempted''"
definition DNSServiceOutcomeCancellation :: DNSServiceOutcome where [go_consts]: "DNSServiceOutcomeCancellation = ''cancellation''"
definition DNSServiceOutcomeNoResolvedEndpoint :: DNSServiceOutcome where [go_consts]: "DNSServiceOutcomeNoResolvedEndpoint = ''no_resolved_endpoint''"
definition DiagnosticQueryName :: string where [go_consts]: "DiagnosticQueryName = ''tadori.diagnostic.''"
definition DiagnosticQueryType :: string where [go_consts]: "DiagnosticQueryType = ''A''"
definition EvidenceKindHTTPError :: EvidenceKind where [go_consts]: "EvidenceKindHTTPError = ''http_error''"

section \<open>Payloads\<close>

record DNSFamilyResult =
  dfr_Family :: "string"
  dfr_Addresses :: "string list"
  dfr_Error :: "string"
  dfr_ErrorKind :: "string"

definition zero_DNSFamilyResult :: DNSFamilyResult where
  "zero_DNSFamilyResult = \<lparr>
    dfr_Family = [], dfr_Addresses = [], dfr_Error = [], dfr_ErrorKind = []\<rparr>"

record DNSResolutionEvidence =
  dre_Host :: "string"
  dre_Resolvers :: "string list"
  dre_A :: "string list"
  dre_AAAA :: "string list"
  dre_Results :: "DNSFamilyResult list"

definition zero_DNSResolutionEvidence :: DNSResolutionEvidence where
  "zero_DNSResolutionEvidence = \<lparr>
    dre_Host = [], dre_Resolvers = [], dre_A = [], dre_AAAA = [], dre_Results = []\<rparr>"

record ResolutionInterface =
  dri_Index :: "int"
  dri_Name :: "string"
  dri_Up :: "bool"
  dri_Loopback :: "bool"
  dri_VirtualAdapter :: "bool"
  dri_VPN :: "bool"
  dri_DNSServers :: "string list"
  dri_DNSSuffix :: "string"
  dri_DNSSearchList :: "string list"

definition zero_ResolutionInterface :: ResolutionInterface where
  "zero_ResolutionInterface = \<lparr>
    dri_Index = 0, dri_Name = [], dri_Up = False, dri_Loopback = False,
    dri_VirtualAdapter = False, dri_VPN = False, dri_DNSServers = [], dri_DNSSuffix = [],
    dri_DNSSearchList = []\<rparr>"

record ResolutionEnvironment =
  drn_Interfaces :: "ResolutionInterface list"
  drn_CandidateSuffixes :: "string list"
  drn_SearchList :: "string list"
  drn_NRPT :: "NameResolutionPolicyRule list"
  drn_HostsFileEntries :: "NameResolutionHostEntry list"
  drn_Source :: "string"
  drn_Error :: "string"
  drn_ResolverError :: "string"
  drn_PolicyError :: "string"
  drn_HostsFileError :: "string"

definition zero_ResolutionEnvironment :: ResolutionEnvironment where
  "zero_ResolutionEnvironment = \<lparr>
    drn_Interfaces = [], drn_CandidateSuffixes = [], drn_SearchList = [], drn_NRPT = [],
    drn_HostsFileEntries = [], drn_Source = [], drn_Error = [], drn_ResolverError = [],
    drn_PolicyError = [], drn_HostsFileError = []\<rparr>"

record DNSConfigurationEvidence =
  dce_Configured :: "bool"
  dce_Resolvers :: "string list"
  dce_Source :: "string"
  dce_Environment :: "ResolutionEnvironment option"
  dce_Error :: "string"
  dce_ErrorKind :: "string"

definition zero_DNSConfigurationEvidence :: DNSConfigurationEvidence where
  "zero_DNSConfigurationEvidence = \<lparr>
    dce_Configured = False, dce_Resolvers = [], dce_Source = [], dce_Environment = None,
    dce_Error = [], dce_ErrorKind = []\<rparr>"

record DNSServiceAttempt =
  dsa_Candidate :: "string"
  dsa_RequestedEndpoint :: "string"
  dsa_Attempt :: "int"
  dsa_ResponseReceived :: "bool"
  dsa_ResponseBytes :: "int"
  dsa_QuestionCount :: "int"
  dsa_AnswerCount :: "int"
  dsa_AuthorityCount :: "int"
  dsa_AdditionalCount :: "int"
  dsa_TransactionID :: "16 word"
  dsa_ResponseTransactionID :: "16 word"
  dsa_RCode :: "int"
  dsa_RCodeName :: "string"
  dsa_Truncated :: "bool"
  dsa_Outcome :: "DNSServiceOutcome"
  dsa_Success :: "bool"
  dsa_ErrorKind :: "string"
  dsa_Error :: "string"
  dsa_ErrorType :: "string"
  dsa_Endpoint :: "string"

definition zero_DNSServiceAttempt :: DNSServiceAttempt where
  "zero_DNSServiceAttempt = \<lparr>
    dsa_Candidate = [], dsa_RequestedEndpoint = [], dsa_Attempt = 0,
    dsa_ResponseReceived = False, dsa_ResponseBytes = 0, dsa_QuestionCount = 0,
    dsa_AnswerCount = 0, dsa_AuthorityCount = 0, dsa_AdditionalCount = 0,
    dsa_TransactionID = 0, dsa_ResponseTransactionID = 0, dsa_RCode = 0, dsa_RCodeName = [],
    dsa_Truncated = False, dsa_Outcome = [], dsa_Success = False, dsa_ErrorKind = [],
    dsa_Error = [], dsa_ErrorType = [], dsa_Endpoint = []\<rparr>"

record DNSServiceEvidence =
  dse_Transport :: "string"
  dse_RequestedEndpoint :: "string"
  dse_ResolvedAddress :: "string"
  dse_Endpoint :: "string"
  dse_Port :: "16 word"
  dse_QueryName :: "string"
  dse_QueryType :: "string"
  dse_TransactionID :: "16 word"
  dse_ResponseTransactionID :: "16 word"
  dse_QueryBytes :: "int"
  dse_ResponseReceived :: "bool"
  dse_ResponseBytes :: "int"
  dse_QuestionCount :: "int"
  dse_AnswerCount :: "int"
  dse_AuthorityCount :: "int"
  dse_AdditionalCount :: "int"
  dse_RCode :: "int"
  dse_RCodeName :: "string"
  dse_Truncated :: "bool"
  dse_Outcome :: "DNSServiceOutcome"
  dse_Success :: "bool"
  dse_Attempts :: "int"
  dse_CandidateAttempts :: "DNSServiceAttempt list"
  dse_Fallback :: "bool"
  dse_FallbackReason :: "string"
  dse_ErrorKind :: "string"
  dse_Error :: "string"
  dse_ErrorType :: "string"
  dse_DurationMS :: "int"

definition zero_DNSServiceEvidence :: DNSServiceEvidence where
  "zero_DNSServiceEvidence = \<lparr>
    dse_Transport = [], dse_RequestedEndpoint = [], dse_ResolvedAddress = [],
    dse_Endpoint = [], dse_Port = 0, dse_QueryName = [], dse_QueryType = [],
    dse_TransactionID = 0, dse_ResponseTransactionID = 0, dse_QueryBytes = 0,
    dse_ResponseReceived = False, dse_ResponseBytes = 0, dse_QuestionCount = 0,
    dse_AnswerCount = 0, dse_AuthorityCount = 0, dse_AdditionalCount = 0, dse_RCode = 0,
    dse_RCodeName = [], dse_Truncated = False, dse_Outcome = [], dse_Success = False,
    dse_Attempts = 0, dse_CandidateAttempts = [], dse_Fallback = False,
    dse_FallbackReason = [], dse_ErrorKind = [], dse_Error = [], dse_ErrorType = [],
    dse_DurationMS = 0\<rparr>"

record HandshakeEvidence =
  the_Phase :: "Phase"
  the_Address :: "string"
  the_ServerName :: "string"
  the_NegotiatedProtocol :: "string"
  the_NegotiatedProtocolID :: "string"
  the_CipherSuite :: "string"
  the_CipherSuiteID :: "16 word"
  the_TLSVersion :: "string"
  the_TLSVersionID :: "16 word"
  the_HandshakeComplete :: "bool"
  the_PeerCertificateCount :: "int"
  the_ErrorType :: "string"
  the_Error :: "string"

definition zero_HandshakeEvidence :: HandshakeEvidence where
  "zero_HandshakeEvidence = \<lparr>
    the_Phase = [], the_Address = [], the_ServerName = [], the_NegotiatedProtocol = [],
    the_NegotiatedProtocolID = [], the_CipherSuite = [], the_CipherSuiteID = 0,
    the_TLSVersion = [], the_TLSVersionID = 0, the_HandshakeComplete = False,
    the_PeerCertificateCount = 0, the_ErrorType = [], the_Error = []\<rparr>"

record CertificateMetadata =
  tcm_ChainIndex :: "int"
  tcm_Subject :: "string"
  tcm_Issuer :: "string"
  tcm_SerialNumber :: "string"
  tcm_Version :: "int"
  tcm_NotBefore :: "string"
  tcm_NotAfter :: "string"
  tcm_DNSNames :: "string list"
  tcm_IPAddresses :: "string list"
  tcm_EmailAddresses :: "string list"
  tcm_IsCA :: "bool"
  tcm_PublicKeyAlgorithm :: "string"
  tcm_SignatureAlgorithm :: "string"
  tcm_SHA256 :: "string"

definition zero_CertificateMetadata :: CertificateMetadata where
  "zero_CertificateMetadata = \<lparr>
    tcm_ChainIndex = 0, tcm_Subject = [], tcm_Issuer = [], tcm_SerialNumber = [],
    tcm_Version = 0, tcm_NotBefore = [], tcm_NotAfter = [], tcm_DNSNames = [],
    tcm_IPAddresses = [], tcm_EmailAddresses = [], tcm_IsCA = False,
    tcm_PublicKeyAlgorithm = [], tcm_SignatureAlgorithm = [], tcm_SHA256 = []\<rparr>"

record NegotiationEvidence =
  sne_RequestedEndpoint :: "string"
  sne_TestedEndpoint :: "string"
  sne_Connected :: "bool"
  sne_ResponseReceived :: "bool"
  sne_Negotiated :: "bool"
  sne_Dialect :: "string"
  sne_DialectRevision :: "16 word"
  sne_Capabilities :: "string list"
  sne_ServerGUID :: "string"
  sne_SecurityMode :: "16 word"
  sne_MaxTransactSize :: "32 word"
  sne_MaxReadSize :: "32 word"
  sne_MaxWriteSize :: "32 word"
  sne_ResponseBytes :: "int"
  sne_NetBIOSLength :: "int"
  sne_Protocol :: "string"
  sne_FailureReason :: "FailureReason"
  sne_Phase :: "string"
  sne_Error :: "string"

definition zero_NegotiationEvidence :: NegotiationEvidence where
  "zero_NegotiationEvidence = \<lparr>
    sne_RequestedEndpoint = [], sne_TestedEndpoint = [], sne_Connected = False,
    sne_ResponseReceived = False, sne_Negotiated = False, sne_Dialect = [],
    sne_DialectRevision = 0, sne_Capabilities = [], sne_ServerGUID = [],
    sne_SecurityMode = 0, sne_MaxTransactSize = 0, sne_MaxReadSize = 0, sne_MaxWriteSize = 0,
    sne_ResponseBytes = 0, sne_NetBIOSLength = 0, sne_Protocol = [], sne_FailureReason = [],
    sne_Phase = [], sne_Error = []\<rparr>"

record InterfaceAddress =
  ifa_IP :: "Addr"
  ifa_Prefix :: "int"

definition zero_InterfaceAddress :: InterfaceAddress where
  "zero_InterfaceAddress = \<lparr>
    ifa_IP = NoAddr, ifa_Prefix = 0\<rparr>"

record InterfaceState =
  ifs_Index :: "int"
  ifs_Name :: "string"
  ifs_Description :: "string"
  ifs_Type :: "string"
  ifs_Hardware :: "string"
  ifs_MTU :: "int"
  ifs_Up :: "bool"
  ifs_Loopback :: "bool"
  ifs_VPN :: "bool"
  ifs_Virtual :: "bool"
  ifs_Addresses :: "InterfaceAddress list"
  ifs_DNSServers :: "Addr list"
  ifs_DNSSuffix :: "string"
  ifs_DNSSearchList :: "string list"

definition zero_InterfaceState :: InterfaceState where
  "zero_InterfaceState = \<lparr>
    ifs_Index = 0, ifs_Name = [], ifs_Description = [], ifs_Type = [], ifs_Hardware = [],
    ifs_MTU = 0, ifs_Up = False, ifs_Loopback = False, ifs_VPN = False, ifs_Virtual = False,
    ifs_Addresses = [], ifs_DNSServers = [], ifs_DNSSuffix = [], ifs_DNSSearchList = []\<rparr>"

record tcpEndpointEvidence =
  tee_RemoteEndpoint :: "string"
  tee_TestedEndpoint :: "string"
  tee_CandidateAttempts :: "EndpointAttempt list"

definition zero_tcpEndpointEvidence :: tcpEndpointEvidence where
  "zero_tcpEndpointEvidence = \<lparr>
    tee_RemoteEndpoint = [], tee_TestedEndpoint = [], tee_CandidateAttempts = []\<rparr>"

record tcpTransportEvidence =
  tte_RequestedEndpoint :: "string"
  tte_LocalEndpoint :: "string"
  tte_RemoteEndpoint :: "string"
  tte_SelectedEndpoint :: "string"
  tte_TestedEndpoint :: "string"
  tte_CandidateAttempts :: "EndpointAttempt list"

definition zero_tcpTransportEvidence :: tcpTransportEvidence where
  "zero_tcpTransportEvidence = \<lparr>
    tte_RequestedEndpoint = [], tte_LocalEndpoint = [], tte_RemoteEndpoint = [],
    tte_SelectedEndpoint = [], tte_TestedEndpoint = [], tte_CandidateAttempts = []\<rparr>"

record httpResponseEvidence =
  hre_ResponseReceived :: "bool"
  hre_URL :: "string"
  hre_StatusCode :: "int"
  hre_Status :: "string"
  hre_Protocol :: "string"
  hre_Redirects :: "HTTPRedirectObservation list"

definition zero_httpResponseEvidence :: httpResponseEvidence where
  "zero_httpResponseEvidence = \<lparr>
    hre_ResponseReceived = False, hre_URL = [], hre_StatusCode = 0, hre_Status = [],
    hre_Protocol = [], hre_Redirects = []\<rparr>"

record httpErrorEvidence =
  hee_ResponseReceived :: "bool"
  hee_URL :: "string"
  hee_ErrorKind :: "string"
  hee_Error :: "string"
  hee_Redirects :: "HTTPRedirectObservation list"

definition zero_httpErrorEvidence :: httpErrorEvidence where
  "zero_httpErrorEvidence = \<lparr>
    hee_ResponseReceived = False, hee_URL = [], hee_ErrorKind = [], hee_Error = [],
    hee_Redirects = []\<rparr>"

record sshApplicationEvidence =
  sae_TransportConnected :: "bool"
  sae_BannerReceived :: "bool"
  sae_BannerValid :: "bool"
  sae_ServerIdentification :: "string"
  sae_ResponseClass :: "string"

definition zero_sshApplicationEvidence :: sshApplicationEvidence where
  "zero_sshApplicationEvidence = \<lparr>
    sae_TransportConnected = False, sae_BannerReceived = False, sae_BannerValid = False,
    sae_ServerIdentification = [], sae_ResponseClass = []\<rparr>"

record rdpApplicationEvidence =
  rae_TransportConnected :: "bool"
  rae_NegotiationAttempted :: "bool"
  rae_NegotiationComplete :: "bool"
  rae_RequestedProtocols :: "string list"
  rae_NegotiatedProtocol :: "string"
  rae_ResponseType :: "string"

definition zero_rdpApplicationEvidence :: rdpApplicationEvidence where
  "zero_rdpApplicationEvidence = \<lparr>
    rae_TransportConnected = False, rae_NegotiationAttempted = False,
    rae_NegotiationComplete = False, rae_RequestedProtocols = [],
    rae_NegotiatedProtocol = [], rae_ResponseType = []\<rparr>"

record interfaceDNSConfigurationEvidence =
  ide_Servers :: "Addr list"
  ide_Interfaces :: "InterfaceState list"
  ide_Suffixes :: "string list"
  ide_SearchList :: "string list"
  ide_NRPT :: "NameResolutionPolicyRule list"
  ide_NRPTError :: "string"
  ide_HostsFileEntries :: "NameResolutionHostEntry list"
  ide_HostsFileError :: "string"
  ide_Source :: "string"
  ide_Error :: "string"

definition zero_interfaceDNSConfigurationEvidence :: interfaceDNSConfigurationEvidence where
  "zero_interfaceDNSConfigurationEvidence = \<lparr>
    ide_Servers = [], ide_Interfaces = [], ide_Suffixes = [], ide_SearchList = [],
    ide_NRPT = [], ide_NRPTError = [], ide_HostsFileEntries = [], ide_HostsFileError = [],
    ide_Source = [], ide_Error = []\<rparr>"

text \<open>The anonymous struct of \<open>explicitInterceptionEvidence\<close>.\<close>

record interceptionEvidence =
  ice_Interception :: bool
  ice_Intercepted :: bool
  ice_MITM :: bool
  ice_TrustStore :: string
  ice_TrustSource :: string

section \<open>The codec\<close>

record jsonCodec =
  jd_DNSResolution :: "string \<Rightarrow> DNSResolutionEvidence result"
  jd_DNSConfiguration :: "string \<Rightarrow> DNSConfigurationEvidence result"
  jd_LegacyDNSConfiguration :: "string \<Rightarrow> interfaceDNSConfigurationEvidence result"
  jd_DNSService :: "string \<Rightarrow> DNSServiceEvidence result"
  jd_TCPEndpoint :: "string \<Rightarrow> tcpEndpointEvidence result"
  jd_TCPTransport :: "string \<Rightarrow> tcpTransportEvidence result"
  jd_Handshake :: "string \<Rightarrow> HandshakeEvidence result"
  jd_Certificate :: "string \<Rightarrow> CertificateMetadata result"
  jd_Interception :: "string \<Rightarrow> interceptionEvidence result"
  jd_SMB :: "string \<Rightarrow> NegotiationEvidence result"
  jd_HTTPResponse :: "string \<Rightarrow> httpResponseEvidence result"
  jd_HTTPError :: "string \<Rightarrow> httpErrorEvidence result"
  jd_SSH :: "string \<Rightarrow> sshApplicationEvidence result"
  jd_RDP :: "string \<Rightarrow> rdpApplicationEvidence result"
  jd_Path :: "string \<Rightarrow> PathObservation result"
  jd_PacketFlow :: "string \<Rightarrow> PacketFlowEvidence result"
  je_Path :: "PathObservation \<Rightarrow> string"
  je_PacketFlow :: "PacketFlowEvidence \<Rightarrow> string"

end
