(* ===== verification/BuilderBase.thy ===== *)
theory BuilderBase
  imports ProbeEvidence Normalize
begin

text \<open>
  \<open>internal/observations/builder.go\<close>, the helpers: the order of probes and evidence, lists without
  repetitions, endpoints and candidates with their metadata, provenance, source values and the
  conflicts between them. A helper that updates a field through a pointer is a function of the
  field's value here. Names that other packages use too carry a suffix.
\<close>

section \<open>Lists and addresses\<close>

definition appendUnique :: "string list \<Rightarrow> string list \<Rightarrow> string list" where
  "appendUnique values additions =
     fold (\<lambda>v values. if v = [] \<or> v \<in> set values then values else values @ [v]) additions values"

definition foldedName :: "string \<Rightarrow> string" where
  "foldedName value = toLower (trimSuffix ''.'' (trimSpace value))"

definition appendUniqueFold :: "string list \<Rightarrow> string list \<Rightarrow> string list" where
  "appendUniqueFold values additions =
     fold (\<lambda>value values. let v = foldedName value in
       if v = [] \<or> list_ex (\<lambda>existing. equalFold existing v) values then values else values @ [v])
       additions values"

definition normalizeAddress :: "string \<Rightarrow> string" where
  "normalizeAddress value0 =
     (let value = trimSet ''[]'' (trimSpace value0) in
      case parseAddr value of Some address \<Rightarrow> addrString (NormalizeAddr address) | None \<Rightarrow> value)"

definition firstNonEmptyValue :: "string list \<Rightarrow> string" where
  "firstNonEmptyValue values = (case filter (\<lambda>v. v \<noteq> []) values of [] \<Rightarrow> [] | v # rest \<Rightarrow> v)"

definition endpointFamily :: "Addr \<Rightarrow> EndpointFamily" where
  "endpointFamily address =
     (if is4 address \<or> is4 (unmap address) then EndpointFamilyIPv4 else EndpointFamilyIPv6)"

definition portString :: "16 word \<Rightarrow> string" where
  "portString port = itoa (unat port)"

definition requestedEndpoint :: "Target \<Rightarrow> string" where
  "requestedEndpoint target =
     (let host = (if tg_LiteralIP target \<noteq> [] then trimSet ''[]'' (trimSpace (tg_LiteralIP target))
        else trimSet ''[]'' (trimSpace (tg_RequestedIdentity target))) in
      if host = [] then []
      else if tg_Port target = 0 then host
      else joinHostPort host (portString (tg_Port target)))"

definition boolString :: "bool \<Rightarrow> string" where
  "boolString value = (if value then ''true'' else ''false'')"

section \<open>Evidence and probes\<close>

definition evidenceLess :: "Evidence \<Rightarrow> Evidence \<Rightarrow> bool" where
  "evidenceLess a b =
     (if ev_ID a \<noteq> ev_ID b then ev_ID a < ev_ID b
      else if ev_Kind a \<noteq> ev_Kind b then ev_Kind a < ev_Kind b
      else ev_Source a < ev_Source b)"

definition orderedEvidence :: "Evidence list \<Rightarrow> Evidence list" where
  "orderedEvidence evidence = sortBy evidenceLess evidence"

definition probeOrderKey :: "ProbeResult \<Rightarrow> string" where
  "probeOrderKey probe =
     (case pr_NameResolution probe of None \<Rightarrow> [] | Some n \<Rightarrow> nro_SelectedAddress n)
     @ concat (map (\<lambda>e. ''|'' @ ev_ID e @ '':'' @ ev_Kind e) (pr_Evidence probe))"

definition probeLess :: "ProbeResult \<Rightarrow> ProbeResult \<Rightarrow> bool" where
  "probeLess left right =
     (if pr_Name left \<noteq> pr_Name right then pr_Name left < pr_Name right
      else if pr_ProbeID left \<noteq> pr_ProbeID right then pr_ProbeID left < pr_ProbeID right
      else if pr_CorrelationID left \<noteq> pr_CorrelationID right
        then pr_CorrelationID left < pr_CorrelationID right
      else probeOrderKey left < probeOrderKey right)"

definition orderedProbes :: "ProbeResult list \<Rightarrow> ProbeResult list" where
  "orderedProbes probes =
     map (\<lambda>probe. probe\<lparr>pr_Evidence := orderedEvidence (pr_Evidence probe)\<rparr>) (sortBy probeLess probes)"

definition evidenceIDsOf :: "Evidence list \<Rightarrow> string list" where
  "evidenceIDsOf evidence = fold (\<lambda>value result. appendUnique result [ev_ID value]) evidence []"

definition probeEvidenceIDs :: "ProbeResult \<Rightarrow> string list" where
  "probeEvidenceIDs probe = evidenceIDsOf (pr_Evidence probe)"

definition firstEvidenceID :: "string list \<Rightarrow> string" where
  "firstEvidenceID values = (case values of [] \<Rightarrow> [] | v # rest \<Rightarrow> v)"

definition hasEvidence :: "EvidenceKind list \<Rightarrow> ProbeResult list \<Rightarrow> bool" where
  "hasEvidence kinds probes =
     list_ex (\<lambda>probe. list_ex (\<lambda>evidence. ev_Kind evidence \<in> set kinds) (pr_Evidence probe)) probes"

text \<open>The loop over the evidence of all probes, in order, with its state.\<close>

definition foldEvidence :: "(ProbeResult \<Rightarrow> Evidence \<Rightarrow> 's \<Rightarrow> 's) \<Rightarrow> ProbeResult list \<Rightarrow> 's \<Rightarrow> 's" where
  "foldEvidence step probes s = fold (\<lambda>probe s. fold (step probe) (pr_Evidence probe) s) probes s"

section \<open>Provenance and timing\<close>

definition addObservationProvenance :: "ProbeResult \<Rightarrow> Evidence \<Rightarrow> string list \<Rightarrow> string list" where
  "addObservationProvenance probe evidence provenance =
     (let p = appendUnique provenance [''probe:'' @ pr_Name probe];
          p = (if pr_ProbeID probe \<noteq> [] then appendUnique p [''probe_id:'' @ pr_ProbeID probe] else p);
          p = (if pr_CorrelationID probe \<noteq> [] then appendUnique p [''correlation:'' @ pr_CorrelationID probe] else p) in
      if ev_Source evidence \<noteq> [] then appendUnique p [''source:'' @ ev_Source evidence] else p)"

definition addEndpointProvenance :: "ProbeResult \<Rightarrow> Evidence \<Rightarrow> EndpointObservation \<Rightarrow> EndpointObservation" where
  "addEndpointProvenance probe evidence observation =
     (let p = appendUnique (eo_Provenance observation) [''probe:'' @ pr_Name probe] in
      observation\<lparr>
        eo_Provenance := (if ev_Source evidence \<noteq> [] then appendUnique p [''source:'' @ ev_Source evidence] else p),
        eo_EvidenceIDs := appendUnique (eo_EvidenceIDs observation) [ev_ID evidence]\<rparr>)"

definition addNameResolutionProvenance ::
    "ProbeResult \<Rightarrow> NameResolutionObservation \<Rightarrow> EndpointObservation \<Rightarrow> EndpointObservation" where
  "addNameResolutionProvenance probe name observation = observation\<lparr>
     eo_Provenance := appendUnique (eo_Provenance observation) (nro_Provenance name),
     eo_EvidenceIDs := appendUnique (eo_EvidenceIDs observation) (nro_EvidenceIDs name),
     eo_ProbeNames := appendUnique (eo_ProbeNames observation) [pr_Name probe]\<rparr>"

definition mergeObservationTiming :: "Timing \<Rightarrow> Timing \<Rightarrow> Timing" where
  "mergeObservationTiming destination timing = destination\<lparr>
     tm_StartedAt := (if tm_StartedAt destination = None then tm_StartedAt timing else tm_StartedAt destination),
     tm_CompletedAt := (if tm_CompletedAt destination = None then tm_CompletedAt timing else tm_CompletedAt destination),
     tm_DurationMS := (if tm_DurationMS destination = 0 then tm_DurationMS timing else tm_DurationMS destination)\<rparr>"

section \<open>Source values and conflicts\<close>

record sourceValue =
  sv_value :: string
  sv_probe :: string
  sv_evidenceID :: string

definition sourceOf :: "string \<Rightarrow> ProbeResult \<Rightarrow> string \<Rightarrow> sourceValue" where
  "sourceOf value probe evidenceID = \<lparr>sv_value = value, sv_probe = pr_Name probe, sv_evidenceID = evidenceID\<rparr>"

definition distinctSourceValues :: "sourceValue list \<Rightarrow> string list" where
  "distinctSourceValues values = uniqueBy id [] (filter (\<lambda>v. v \<noteq> []) (map sv_value values))"

definition conflict :: "string \<Rightarrow> string list \<Rightarrow> sourceValue list \<Rightarrow> ObservationConflict" where
  "conflict field values sources = \<lparr>oc_Field = field, oc_Values = [] @ values,
     oc_Provenance = fold (\<lambda>source p. appendUnique p [''probe:'' @ sv_probe source]) sources [],
     oc_EvidenceIDs = fold (\<lambda>source ids. appendUnique ids [sv_evidenceID source]) sources []\<rparr>"

text \<open>The idiom \<open>if values := distinctSourceValues(s); len(values) > 1 { conflicts = append(...) }\<close>.\<close>

definition noteConflict :: "string \<Rightarrow> sourceValue list \<Rightarrow> ObservationConflict list \<Rightarrow> ObservationConflict list" where
  "noteConflict field sources conflicts =
     (let values = distinctSourceValues sources in
      if length values > 1 then conflicts @ [conflict field values sources] else conflicts)"

definition detectSourceConflicts ::
    "sourceValue list \<Rightarrow> sourceValue list \<Rightarrow> EndpointObservation \<Rightarrow> EndpointObservation" where
  "detectSourceConflicts selected tested observation = observation\<lparr>
     eo_Conflicts := noteConflict ''endpoint.tested_endpoint'' tested
       (noteConflict ''endpoint.resolved_address'' selected (eo_Conflicts observation))\<rparr>"

section \<open>Endpoints\<close>

definition concreteEndpoint :: "string \<Rightarrow> 16 word \<Rightarrow> Endpoint option" where
  "concreteEndpoint raw defaultPort =
     (let (host, ptext) = (case splitHostPort raw of
            Some (host, ptext) \<Rightarrow> (host, ptext)
          | None \<Rightarrow> (trimSet ''[]'' (trimSpace raw), portString defaultPort)) in
      if host = [] then None
      else case parseUint 65536 ptext of
          None \<Rightarrow> None
        | Some port \<Rightarrow>
            if port = 0 then None
            else case parseAddr (trimSet ''[]'' host) of
                None \<Rightarrow> None
              | Some parsed \<Rightarrow>
                  let address = NormalizeAddr parsed in
                  Some (zero_Endpoint\<lparr>ep_Address := addrString address, ep_Port := of_nat port,
                    ep_Family := endpointFamily address, ep_SelectionReason := EndpointSelectionTransport\<rparr>))"

definition endpointFromRaw :: "string \<Rightarrow> 16 word \<Rightarrow> Endpoint option" where
  "endpointFromRaw raw defaultPort = (if raw = [] then None else concreteEndpoint raw defaultPort)"

definition cloneEndpointValue :: "Endpoint \<Rightarrow> Endpoint" where
  "cloneEndpointValue value = value\<lparr>ep_EvidenceIDs := [] @ ep_EvidenceIDs value\<rparr>"

definition cloneEndpointPointer :: "Endpoint option \<Rightarrow> Endpoint option" where
  "cloneEndpointPointer value = map_option cloneEndpointValue value"

definition endpointKey :: "Endpoint \<Rightarrow> string" where
  "endpointKey endpoint =
     (if ep_Address endpoint = [] then []
      else joinHostPort (normalizeAddress (ep_Address endpoint)) (portString (ep_Port endpoint)))"

definition endpointWithMetadata :: "Endpoint \<Rightarrow> ObservationCertainty \<Rightarrow> string \<Rightarrow> string list \<Rightarrow> Endpoint" where
  "endpointWithMetadata value0 certainty provenance evidenceIDs =
     (let value = (if ep_Address value0 = [] then value0
            else case parseAddr (trimSet ''[]'' (ep_Address value0)) of
                None \<Rightarrow> value0
              | Some parsed \<Rightarrow>
                  let address = NormalizeAddr parsed in
                  value0\<lparr>ep_Address := addrString address,
                    ep_Family := (if ep_Family value0 = [] then endpointFamily address else ep_Family value0)\<rparr>) in
      value\<lparr>
        ep_Certainty := (if ep_Certainty value = [] then certainty else ep_Certainty value),
        ep_Provenance := (if ep_Provenance value = [] then provenance else ep_Provenance value),
        ep_EvidenceIDs := appendUnique (ep_EvidenceIDs value) evidenceIDs\<rparr>)"

definition endpointPointerWithMetadata ::
    "Endpoint \<Rightarrow> ObservationCertainty \<Rightarrow> string \<Rightarrow> string list \<Rightarrow> Endpoint option" where
  "endpointPointerWithMetadata value certainty provenance evidenceIDs =
     Some (endpointWithMetadata value certainty provenance evidenceIDs)"

section \<open>Candidates\<close>

definition candidateWithMetadata ::
    "EndpointCandidate \<Rightarrow> ObservationCertainty \<Rightarrow> string \<Rightarrow> string list \<Rightarrow> EndpointCandidate" where
  "candidateWithMetadata value0 certainty provenance evidenceIDs =
     (let text = normalizeAddress (ec_Address value0);
          value = value0\<lparr>ec_Address := text,
            ec_Family := (if text \<noteq> [] \<and> ec_Family value0 = []
              then (case parseAddr text of Some address \<Rightarrow> endpointFamily address | None \<Rightarrow> ec_Family value0)
              else ec_Family value0)\<rparr> in
      value\<lparr>
        ec_Certainty := (if ec_Certainty value = [] then certainty else ec_Certainty value),
        ec_Provenance := (if ec_Provenance value = [] then provenance else ec_Provenance value),
        ec_EvidenceIDs := appendUnique (ec_EvidenceIDs value) evidenceIDs\<rparr>)"

definition cloneCandidates :: "EndpointCandidate list \<Rightarrow> EndpointCandidate list" where
  "cloneCandidates values = map (\<lambda>value. value\<lparr>ec_EvidenceIDs := [] @ ec_EvidenceIDs value\<rparr>) values"

definition cloneCandidatesWithMetadata ::
    "EndpointCandidate list \<Rightarrow> ObservationCertainty \<Rightarrow> string \<Rightarrow> string list \<Rightarrow> EndpointCandidate list" where
  "cloneCandidatesWithMetadata values certainty provenance evidenceIDs =
     map (\<lambda>(index, value). (candidateWithMetadata value certainty provenance evidenceIDs)\<lparr>
       ec_Order := int index + 1\<rparr>) (enumerate 0 values)"

text \<open>The inner loop of \<open>mergeCandidates\<close>: the first candidate with the address takes the evidence.\<close>

fun absorbCandidate :: "EndpointCandidate \<Rightarrow> EndpointCandidate list \<Rightarrow> EndpointCandidate list option" where
  "absorbCandidate value [] = None"
| "absorbCandidate value (c # cs) =
     (if ec_Address c \<noteq> ec_Address value then map_option ((#) c) (absorbCandidate value cs)
      else Some (c\<lparr>ec_EvidenceIDs := appendUnique (ec_EvidenceIDs c) (ec_EvidenceIDs value),
        ec_Provenance := (if ec_Provenance c = [] then ec_Provenance value else ec_Provenance c)\<rparr> # cs))"

definition mergeCandidatesInto ::
    "EndpointCandidate list \<Rightarrow> ObservationCertainty \<Rightarrow> string \<Rightarrow> string list
      \<Rightarrow> EndpointCandidate list \<Rightarrow> EndpointCandidate list" where
  "mergeCandidatesInto values certainty provenance evidenceIDs destination =
     fold (\<lambda>value0 destination.
       let value = candidateWithMetadata value0 certainty provenance evidenceIDs in
       case absorbCandidate value destination of
         Some merged \<Rightarrow> merged
       | None \<Rightarrow> destination @ [value\<lparr>ec_Order := int (length destination) + 1\<rparr>])
       values destination"

definition cloneAttempts :: "EndpointAttempt list \<Rightarrow> EndpointAttempt list" where
  "cloneAttempts values = map (\<lambda>value. value\<lparr>
     ea_Candidate := candidateWithMetadata (ea_Candidate value) ObservationCertaintyObserved
       ''transport candidate attempt'' (ea_EvidenceIDs value),
     ea_EvidenceIDs := [] @ ea_EvidenceIDs value,
     ea_Certainty := (if ea_Certainty value = [] then ObservationCertaintyObserved
       else ea_Certainty value)\<rparr>) values"

definition targetWithEndpointObservation :: "Target \<Rightarrow> EndpointObservation \<Rightarrow> Target" where
  "targetWithEndpointObservation target endpoint = target\<lparr>
     tg_ResolvedCandidates := cloneCandidates (eo_ResolvedCandidates endpoint),
     tg_ProbeCandidates := cloneCandidates (eo_ProbeCandidates endpoint),
     tg_CandidateAttempts := cloneAttempts (eo_CandidateAttempts endpoint),
     tg_SelectedEndpoint := (case eo_SelectedEndpoint endpoint of
       Some e \<Rightarrow> Some e | None \<Rightarrow> tg_SelectedEndpoint target),
     tg_TestedEndpoint := (case eo_TestedEndpoint endpoint of
       Some e \<Rightarrow> Some e | None \<Rightarrow> tg_TestedEndpoint target)\<rparr>"

end
