(* ===== verification/BuilderEndpoint.thy ===== *)
theory BuilderEndpoint
  imports BuilderBase
begin

text \<open>
  \<open>internal/observations/builder.go\<close>, endpoint and transport: \<open>buildEndpointObservation\<close>, which
  gathers the resolved, probed, selected and tested endpoints from the target and the probes, and
  \<open>buildTransportObservation\<close>, the one view of all TCP results. Each loop is a step on the record
  of the variables that the loop changes.
\<close>

section \<open>The endpoint\<close>

record endpointState =
  es_observation :: EndpointObservation
  es_selectedValues :: "sourceValue list"
  es_testedValues :: "sourceValue list"

definition mergeProbeTargetEndpoint ::
    "Target \<Rightarrow> string \<Rightarrow> string list \<Rightarrow> EndpointObservation \<Rightarrow> EndpointObservation" where
  "mergeProbeTargetEndpoint target probeName evidenceIDs o0 =
     (let o1 = (if tg_ResolvedCandidates target \<noteq> []
            then o0\<lparr>eo_ResolvedCandidates := mergeCandidatesInto (tg_ResolvedCandidates target)
              ObservationCertaintyDerived ''probe target endpoint state'' evidenceIDs (eo_ResolvedCandidates o0)\<rparr>
            else o0);
          o2 = (if tg_ProbeCandidates target \<noteq> [] \<and> eo_ProbeCandidates o1 = []
            then o1\<lparr>eo_ProbeCandidates := cloneCandidatesWithMetadata (tg_ProbeCandidates target)
              ObservationCertaintyDerived ''probe target endpoint state'' evidenceIDs\<rparr>
            else o1);
          o3 = (case (tg_SelectedEndpoint target, eo_SelectedEndpoint o2) of
              (Some e, None) \<Rightarrow> o2\<lparr>eo_SelectedEndpoint := Some (endpointWithMetadata e
                ObservationCertaintyDerived (ep_Provenance e) evidenceIDs)\<rparr>
            | _ \<Rightarrow> o2);
          o4 = (case (tg_TestedEndpoint target, eo_TestedEndpoint o3) of
              (Some e, None) \<Rightarrow> o3\<lparr>eo_TestedEndpoint := Some (endpointWithMetadata e
                ObservationCertaintyObserved (ep_Provenance e) evidenceIDs)\<rparr>
            | _ \<Rightarrow> o3);
          o5 = (if tg_CandidateAttempts target \<noteq> [] \<and> eo_CandidateAttempts o4 = []
            then o4\<lparr>eo_CandidateAttempts := cloneAttempts (tg_CandidateAttempts target)\<rparr> else o4) in
      if probeName \<noteq> [] then o5\<lparr>eo_ProbeNames := appendUnique (eo_ProbeNames o5) [probeName]\<rparr> else o5)"

text \<open>The candidates of a name resolution replace an empty list and are merged into another one.\<close>

definition resolveCandidates ::
    "string list \<Rightarrow> string list \<Rightarrow> string \<Rightarrow> string list \<Rightarrow> EndpointObservation \<Rightarrow> EndpointObservation" where
  "resolveCandidates a aaaa provenance evidenceIDs observation =
     (let candidates = EndpointCandidatesFromAnswers a aaaa in
      observation\<lparr>eo_ResolvedCandidates :=
        (if eo_ResolvedCandidates observation = []
         then cloneCandidatesWithMetadata candidates ObservationCertaintyObserved provenance evidenceIDs
         else mergeCandidatesInto candidates ObservationCertaintyObserved provenance evidenceIDs
           (eo_ResolvedCandidates observation))\<rparr>)"

definition limitEndpoint :: "string \<Rightarrow> EndpointObservation \<Rightarrow> EndpointObservation" where
  "limitEndpoint text observation = observation\<lparr>eo_Limitations := appendUnique (eo_Limitations observation) [text]\<rparr>"

definition testedFromRaw :: "string \<Rightarrow> 16 word \<Rightarrow> ProbeResult \<Rightarrow> Evidence \<Rightarrow> endpointState \<Rightarrow> endpointState" where
  "testedFromRaw raw port probe evidence s =
     (case concreteEndpoint raw port of
        None \<Rightarrow> s
      | Some found \<Rightarrow>
          (let endpoint = endpointWithMetadata found ObservationCertaintyObserved
                 ''transport conn.RemoteAddr observation'' [ev_ID evidence];
               observation = es_observation s in
           s\<lparr>es_testedValues := es_testedValues s @
               [sourceOf (ep_Address endpoint @ '':'' @ portString (ep_Port endpoint)) probe (ev_ID evidence)],
             es_observation := (if eo_TestedEndpoint observation = None
               then observation\<lparr>eo_TestedEndpoint := Some endpoint\<rparr> else observation)\<rparr>))"

definition endpointEvidenceStep ::
    "jsonCodec \<Rightarrow> Target \<Rightarrow> ProbeResult \<Rightarrow> Evidence \<Rightarrow> endpointState \<Rightarrow> endpointState" where
  "endpointEvidenceStep codec target probe evidence s =
     (if ev_Kind evidence = EvidenceKindDNSResolution then
        (case jd_DNSResolution codec (ev_Raw evidence) of
           Inl err \<Rightarrow> s\<lparr>es_observation := limitEndpoint (''DNS evidence decode: '' @ err) (es_observation s)\<rparr>
         | Inr value \<Rightarrow> s\<lparr>es_observation := addEndpointProvenance probe evidence
             (resolveCandidates (dre_A value) (dre_AAAA value) ''DNS resolution evidence'' [ev_ID evidence]
               (es_observation s))\<rparr>)
      else if ev_Kind evidence \<noteq> EvidenceKindTCPConnection then s
      else
        (case jd_TCPEndpoint codec (ev_Raw evidence) of
           Inl err \<Rightarrow> s\<lparr>es_observation := limitEndpoint (''TCP evidence decode: '' @ err) (es_observation s)\<rparr>
         | Inr value \<Rightarrow>
             (let observation = es_observation s;
                  s1 = s\<lparr>es_observation := (if tee_CandidateAttempts value \<noteq> [] \<and> eo_CandidateAttempts observation = []
                    then observation\<lparr>eo_CandidateAttempts := cloneAttempts (tee_CandidateAttempts value)\<rparr>
                    else observation)\<rparr>;
                  s2 = (if tee_TestedEndpoint value \<noteq> []
                    then testedFromRaw (tee_TestedEndpoint value) (tg_Port target) probe evidence s1
                    else if tee_RemoteEndpoint value \<noteq> [] \<and> pr_Status probe = ProbeStatusPassed
                    then testedFromRaw (tee_RemoteEndpoint value) (tg_Port target) probe evidence s1
                    else s1) in
              s2\<lparr>es_observation := addEndpointProvenance probe evidence (es_observation s2)\<rparr>)))"

definition endpointProbeStep :: "jsonCodec \<Rightarrow> Target \<Rightarrow> ProbeResult \<Rightarrow> endpointState \<Rightarrow> endpointState" where
  "endpointProbeStep codec target probe s0 =
     (let observation = es_observation s0;
          s1 = s0\<lparr>es_observation := observation\<lparr>eo_ProbeNames := appendUnique (eo_ProbeNames observation) [pr_Name probe]\<rparr>\<rparr>;
          s2 = fold (endpointEvidenceStep codec target probe) (pr_Evidence probe) s1;
          s3 = (case pr_NameResolution probe of
              None \<Rightarrow> s2
            | Some name \<Rightarrow> s2\<lparr>
                es_selectedValues := (if nro_SelectedAddress name \<noteq> []
                  then es_selectedValues s2 @ [sourceOf (normalizeAddress (nro_SelectedAddress name)) probe
                    (firstEvidenceID (nro_EvidenceIDs name))]
                  else es_selectedValues s2),
                es_observation := addNameResolutionProvenance probe name
                  (resolveCandidates (nro_A name) (nro_AAAA name) ''probe name-resolution observation''
                    (nro_EvidenceIDs name) (es_observation s2))\<rparr>) in
      s3\<lparr>es_observation := mergeProbeTargetEndpoint (pr_Target probe) (pr_Name probe)
        (probeEvidenceIDs probe) (es_observation s3)\<rparr>)"

definition initialEndpoint :: "Target \<Rightarrow> EndpointObservation" where
  "initialEndpoint target =
     (let o0 = zero_EndpointObservation\<lparr>
            eo_OriginalInput := tg_OriginalInput target, eo_RequestedIdentity := tg_RequestedIdentity target,
            eo_LiteralIP := tg_LiteralIP target, eo_Service := tg_Service target,
            eo_ApplicationProtocol := tg_ApplicationProtocol target,
            eo_TransportProtocol := tg_TransportProtocol target, eo_Port := tg_Port target,
            eo_Resource := tg_Resource target, eo_Certainty := ObservationCertaintyUnknown\<rparr>;
          o1 = (if tg_ResolvedCandidates target \<noteq> [] then o0\<lparr>eo_ResolvedCandidates :=
            cloneCandidatesWithMetadata (tg_ResolvedCandidates target) ObservationCertaintyDerived
              ''target runtime endpoint state'' []\<rparr> else o0);
          o2 = (if tg_ProbeCandidates target \<noteq> [] then o1\<lparr>eo_ProbeCandidates :=
            cloneCandidatesWithMetadata (tg_ProbeCandidates target) ObservationCertaintyDerived
              ''target runtime endpoint state'' []\<rparr> else o1);
          o3 = (case tg_SelectedEndpoint target of
              None \<Rightarrow> o2
            | Some e \<Rightarrow> o2\<lparr>
                eo_SelectedEndpoint := Some (endpointWithMetadata e ObservationCertaintyDerived (ep_Provenance e) []),
                eo_Provenance := appendUnique (eo_Provenance o2) [ep_Provenance e]\<rparr>);
          o4 = (case tg_TestedEndpoint target of
              None \<Rightarrow> o3
            | Some e \<Rightarrow> o3\<lparr>eo_TestedEndpoint :=
                Some (endpointWithMetadata e ObservationCertaintyObserved (ep_Provenance e) [])\<rparr>) in
      o4\<lparr>eo_CandidateAttempts := eo_CandidateAttempts o4 @ cloneAttempts (tg_CandidateAttempts target)\<rparr>)"

text \<open>After the loop: the literal of the target, the bounded selection, and the tested endpoints.\<close>

definition literalCandidate :: "Target \<Rightarrow> EndpointObservation \<Rightarrow> EndpointObservation" where
  "literalCandidate target observation =
     (if eo_ResolvedCandidates observation = [] \<and> tg_LiteralIP target \<noteq> [] then
        (case parseAddr (tg_LiteralIP target) of
           None \<Rightarrow> observation
         | Some address \<Rightarrow> observation\<lparr>
             eo_ResolvedCandidates := [candidateWithMetadata
               (zero_EndpointCandidate\<lparr>ec_Address := addrString (NormalizeAddr address),
                 ec_Family := endpointFamily address, ec_Order := 1\<rparr>)
               ObservationCertaintyObserved ''canonical target literal; DNS was skipped'' [''dns-resolution'']],
             eo_EvidenceIDs := appendUnique (eo_EvidenceIDs observation) [''dns-resolution''],
             eo_Provenance := appendUnique (eo_Provenance observation)
               [''canonical target literal; DNS was skipped'']\<rparr>)
      else observation)"

definition selectCandidate :: "Target \<Rightarrow> EndpointObservation \<Rightarrow> EndpointObservation" where
  "selectCandidate target o0 =
     (let o1 = (if eo_ProbeCandidates o0 = [] \<and> eo_ResolvedCandidates o0 \<noteq> []
            then o0\<lparr>eo_ProbeCandidates := cloneCandidatesWithMetadata
              (LimitEndpointCandidates (eo_ResolvedCandidates o0) MaxEndpointCandidates)
              ObservationCertaintyDerived ''bounded probe candidate selection'' []\<rparr>
            else o0) in
      case (eo_SelectedEndpoint o1, eo_ProbeCandidates o1) of
        (None, candidate # rest) \<Rightarrow> o1\<lparr>eo_SelectedEndpoint := Some (zero_Endpoint\<lparr>
          ep_Address := ec_Address candidate, ep_Port := tg_Port target, ep_Family := ec_Family candidate,
          ep_SelectionReason := EndpointSelectionDeterministic,
          ep_Provenance := ''tadori bounded deterministic candidate selection'',
          ep_Certainty := ObservationCertaintyDerived\<rparr>)\<rparr>
      | _ \<Rightarrow> o1)"

definition probeTestedValues :: "ProbeResult list \<Rightarrow> sourceValue list" where
  "probeTestedValues probes = concat (map (\<lambda>probe. case tg_TestedEndpoint (pr_Target probe) of
     None \<Rightarrow> []
   | Some e \<Rightarrow> [sourceOf (normalizeAddress (ep_Address e) @ '':'' @ portString (ep_Port e)) probe
       (firstEvidenceID (probeEvidenceIDs probe))]) probes)"

definition buildEndpointObservation :: "jsonCodec \<Rightarrow> Target \<Rightarrow> ProbeResult list \<Rightarrow> EndpointObservation" where
  "buildEndpointObservation codec target probes =
     (let s = fold (endpointProbeStep codec target) probes
            \<lparr>es_observation = initialEndpoint target, es_selectedValues = [], es_testedValues = []\<rparr>;
          o1 = selectCandidate target (literalCandidate target (es_observation s));
          o2 = (case eo_TestedEndpoint o1 of
              None \<Rightarrow> o1
            | Some e \<Rightarrow> o1\<lparr>eo_TestedEndpoint := endpointPointerWithMetadata e ObservationCertaintyObserved
                (ep_Provenance e) (ep_EvidenceIDs e)\<rparr>);
          o3 = detectSourceConflicts (es_selectedValues s) (es_testedValues s @ probeTestedValues probes) o2 in
      o3\<lparr>eo_Certainty :=
        (if eo_TestedEndpoint o3 \<noteq> None \<or> eo_SelectedEndpoint o3 \<noteq> None \<or> eo_ResolvedCandidates o3 \<noteq> []
         then ObservationCertaintyDerived
         else if tg_RequestedIdentity target \<noteq> [] then ObservationCertaintyObserved
         else eo_Certainty o3)\<rparr>)"

section \<open>The transport\<close>

definition transportApplicability :: "Target \<Rightarrow> ObservationApplicability" where
  "transportApplicability target =
     (if tg_TransportProtocol target = TransportUDP then ObservationApplicabilityUnsupported
      else ObservationApplicabilityApplicable)"

definition transportOutcome :: "ProbeResult \<Rightarrow> TransportConnectionOutcome" where
  "transportOutcome probe =
     (let reason = pin_FailureReason (pr_Interpretation probe) in
      if pr_Status probe = ProbeStatusPassed \<and> reason = FailureReasonNone
        then TransportConnectionOutcomeConnected
      else if reason = FailureReasonTCPConnectionRefused then TransportConnectionOutcomeRefused
      else if reason = FailureReasonTCPConnectionReset then TransportConnectionOutcomeReset
      else if reason = FailureReasonTCPTimeout then TransportConnectionOutcomeTimeout
      else if reason = ''tcp_host_unreachable'' \<or> reason = FailureReasonNetworkUnreachable
        then TransportConnectionOutcomeUnreachable
      else if reason = ''tcp_cancellation'' \<or> reason = ''cancellation''
        then TransportConnectionOutcomeCanceled
      else if reason = FailureReasonUnsupported then TransportConnectionOutcomeUnsupported
      else TransportConnectionOutcomeFailed)"

definition packetFlowMatches :: "PacketFlowEvidence \<Rightarrow> Target \<Rightarrow> ProbeResult \<Rightarrow> bool" where
  "packetFlowMatches flow target probe \<longleftrightarrow>
     pkf_ProbeID flow \<noteq> [] \<and> pr_ProbeID probe \<noteq> [] \<and> pkf_ProbeID flow = pr_ProbeID probe
     \<or> pkf_CorrelationID flow \<noteq> [] \<and> pr_CorrelationID probe \<noteq> [] \<and> pkf_CorrelationID flow = pr_CorrelationID probe
     \<or> tg_RequestedIdentity (pkf_Target flow) \<noteq> [] \<and> tg_RequestedIdentity target \<noteq> []
       \<and> equalFold (tg_RequestedIdentity (pkf_Target flow)) (tg_RequestedIdentity target)
       \<and> tg_Port (pkf_Target flow) = tg_Port target
     \<or> pr_Name probe = ''tcp''"

definition DecodePacketFlowEvidence :: "jsonCodec \<Rightarrow> Evidence \<Rightarrow> PacketFlowEvidence result" where
  "DecodePacketFlowEvidence codec evidence =
     (if ev_Kind evidence \<noteq> EvidenceKindPacketFlow
      then Inl (''evidence '' @ quote (ev_Kind evidence) @ '' is not packet flow evidence'')
      else case jd_PacketFlow codec (ev_Raw evidence) of
          Inl err \<Rightarrow> Inl (''decode packet flow evidence: '' @ err)
        | Inr flow \<Rightarrow> Inr (flow\<lparr>pkf_Observations := map NormalizePacketObservation (pkf_Observations flow)\<rparr>))"

record transportState =
  ts_observation :: TransportObservation
  ts_outcomes :: "sourceValue list"
  ts_testedEndpoints :: "sourceValue list"
  ts_seenTCP :: bool

definition notedTransport :: "ProbeResult \<Rightarrow> Evidence \<Rightarrow> TransportObservation \<Rightarrow> TransportObservation" where
  "notedTransport probe evidence observation = observation\<lparr>
     tpo_ProbeNames := appendUnique (tpo_ProbeNames observation) [pr_Name probe],
     tpo_EvidenceIDs := appendUnique (tpo_EvidenceIDs observation) [ev_ID evidence],
     tpo_Provenance := addObservationProvenance probe evidence (tpo_Provenance observation)\<rparr>"

definition limitTransport :: "string \<Rightarrow> TransportObservation \<Rightarrow> TransportObservation" where
  "limitTransport text observation =
     observation\<lparr>tpo_Limitations := appendUnique (tpo_Limitations observation) [text]\<rparr>"

text \<open>The endpoint that a TCP result names as tested, or as remote when the probe passed.\<close>

definition transportTested :: "16 word \<Rightarrow> ProbeResult \<Rightarrow> tcpTransportEvidence \<Rightarrow> Endpoint option" where
  "transportTested port probe value =
     (case endpointFromRaw (tte_TestedEndpoint value) port of
        Some e \<Rightarrow> Some e
      | None \<Rightarrow> (if pr_Status probe = ProbeStatusPassed
          then endpointFromRaw (tte_RemoteEndpoint value) port else None))"

definition transportFields ::
    "Target \<Rightarrow> ProbeResult \<Rightarrow> tcpTransportEvidence \<Rightarrow> TransportObservation \<Rightarrow> TransportObservation" where
  "transportFields target probe value observation =
     (let tested = transportTested (tg_Port target) probe value;
          o1 = observation\<lparr>
            tpo_RequestedEndpoint := (if tpo_RequestedEndpoint observation = [] \<and> tte_RequestedEndpoint value \<noteq> []
              then tte_RequestedEndpoint value else tpo_RequestedEndpoint observation),
            tpo_LocalEndpoint := (if tpo_LocalEndpoint observation = [] then tte_LocalEndpoint value
              else tpo_LocalEndpoint observation),
            tpo_ProbeEndpoint := (if tpo_ProbeEndpoint observation = None
              then endpointFromRaw (tte_SelectedEndpoint value) (tg_Port target)
              else tpo_ProbeEndpoint observation)\<rparr>;
          o2 = (if tested \<noteq> None \<and> tpo_TestedEndpoint o1 = None
            then o1\<lparr>tpo_TestedEndpoint := tested, tpo_RemoteEndpoint := cloneEndpointPointer tested\<rparr>
            else o1) in
      if tte_CandidateAttempts value \<noteq> [] \<and> tpo_CandidateAttempts o2 = []
      then o2\<lparr>tpo_CandidateAttempts := cloneAttempts (tte_CandidateAttempts value)\<rparr> else o2)"

definition openOutcome :: "TransportObservation \<Rightarrow> bool" where
  "openOutcome observation \<longleftrightarrow> tpo_ConnectionOutcome observation = TransportConnectionOutcomeNotAttempted
     \<or> tpo_ConnectionOutcome observation = TransportConnectionOutcomeUnknown"

definition transportResult :: "ProbeResult \<Rightarrow> TransportObservation \<Rightarrow> TransportObservation" where
  "transportResult probe observation =
     (let outcome = transportOutcome probe; interpretation = pr_Interpretation probe;
          o1 = (if openOutcome observation then observation\<lparr>tpo_ConnectionOutcome := outcome,
            tpo_Connected := (outcome = TransportConnectionOutcomeConnected)\<rparr> else observation) in
      o1\<lparr>
        tpo_FailureReason := (if tpo_FailureReason o1 = FailureReasonNone \<or> tpo_FailureReason o1 = FailureReasonUnknown
          then pin_FailureReason interpretation else tpo_FailureReason o1),
        tpo_FaultDomain := (if pin_FaultDomain interpretation \<noteq> [] then pin_FaultDomain interpretation
          else tpo_FaultDomain o1),
        tpo_Timing := mergeObservationTiming (tpo_Timing o1) (pr_Timing probe)\<rparr>)"

definition transportEvidenceStep ::
    "jsonCodec \<Rightarrow> Target \<Rightarrow> ProbeResult \<Rightarrow> Evidence \<Rightarrow> transportState \<Rightarrow> transportState" where
  "transportEvidenceStep codec target probe evidence s =
     (if ev_Kind evidence = EvidenceKindTCPConnection then
        (let s1 = s\<lparr>ts_seenTCP := True, ts_observation := notedTransport probe evidence (ts_observation s)\<rparr> in
         case jd_TCPTransport codec (ev_Raw evidence) of
           Inl err \<Rightarrow> s1\<lparr>ts_observation := limitTransport (''TCP evidence decode: '' @ err) (ts_observation s1)\<rparr>
         | Inr value \<Rightarrow> s1\<lparr>
             ts_testedEndpoints := ts_testedEndpoints s1 @
               (case transportTested (tg_Port target) probe value of
                  None \<Rightarrow> [] | Some e \<Rightarrow> [sourceOf (endpointKey e) probe (ev_ID evidence)]),
             ts_outcomes := ts_outcomes s1 @ [sourceOf (transportOutcome probe) probe (ev_ID evidence)],
             ts_observation := transportResult probe (transportFields target probe value (ts_observation s1))\<rparr>)
      else if ev_Kind evidence = EvidenceKindPacketFlow then
        (case DecodePacketFlowEvidence codec evidence of
           Inl err \<Rightarrow> s\<lparr>ts_observation := limitTransport (''packet-flow evidence decode: '' @ err) (ts_observation s)\<rparr>
         | Inr flow \<Rightarrow>
             (if packetFlowMatches flow target probe
              then s\<lparr>ts_observation := notedTransport probe evidence ((ts_observation s)\<lparr>
                tpo_PacketFlowEvidenceIDs := appendUnique (tpo_PacketFlowEvidenceIDs (ts_observation s)) [ev_ID evidence]\<rparr>)\<rparr>
              else s))
      else s)"

definition transportProbeStep ::
    "jsonCodec \<Rightarrow> Target \<Rightarrow> ProbeResult \<Rightarrow> transportState \<Rightarrow> transportState" where
  "transportProbeStep codec target probe s0 =
     (let s = fold (transportEvidenceStep codec target probe) (pr_Evidence probe) s0 in
      case tg_TestedEndpoint (pr_Target probe) of
        Some e \<Rightarrow> (if pr_Name probe = ''tcp''
          then s\<lparr>ts_testedEndpoints := ts_testedEndpoints s @
            [sourceOf (endpointKey e) probe (firstEvidenceID (evidenceIDsOf (pr_Evidence probe)))]\<rparr>
          else s)
      | None \<Rightarrow> s)"

definition initialTransport :: "Target \<Rightarrow> EndpointObservation \<Rightarrow> TransportObservation" where
  "initialTransport target endpoint =
     (let o1 = zero_TransportObservation\<lparr>
            tpo_Applicability := transportApplicability target,
            tpo_RequestedEndpoint := requestedEndpoint target,
            tpo_ConnectionOutcome := TransportConnectionOutcomeNotAttempted,
            tpo_FailureReason := FailureReasonNone, tpo_FaultDomain := FaultDomainTransport,
            tpo_Certainty := ObservationCertaintyUnknown,
            tpo_ProbeEndpoint := cloneEndpointPointer (eo_SelectedEndpoint endpoint)\<rparr>;
          o2 = (case eo_TestedEndpoint endpoint of
              None \<Rightarrow> o1
            | Some e \<Rightarrow> o1\<lparr>tpo_TestedEndpoint := Some (cloneEndpointValue e),
                tpo_RemoteEndpoint := Some (cloneEndpointValue e), tpo_Connected := True,
                tpo_ConnectionOutcome := TransportConnectionOutcomeConnected\<rparr>) in
      o2\<lparr>tpo_CandidateAttempts := cloneAttempts (eo_CandidateAttempts endpoint)\<rparr>)"

definition settleTransport :: "bool \<Rightarrow> TransportObservation \<Rightarrow> TransportObservation" where
  "settleTransport seenTCP observation =
     (let o1 = (if seenTCP then observation\<lparr>tpo_Applicability := ObservationApplicabilityApplicable,
              tpo_Certainty := ObservationCertaintyObserved\<rparr>
            else if tpo_TestedEndpoint observation \<noteq> None \<or> tpo_ProbeEndpoint observation \<noteq> None
              then observation\<lparr>tpo_Certainty := ObservationCertaintyDerived\<rparr>
            else if tpo_Applicability observation = ObservationApplicabilityUnsupported
              then observation\<lparr>tpo_ConnectionOutcome := TransportConnectionOutcomeUnsupported,
                tpo_FailureReason := FailureReasonUnsupported\<rparr>
            else observation\<lparr>tpo_ConnectionOutcome := TransportConnectionOutcomeNotAttempted\<rparr>) in
      if tpo_TestedEndpoint o1 = None then o1
      else let o2 = o1\<lparr>tpo_TestedEndpoint := cloneEndpointPointer (tpo_TestedEndpoint o1),
               tpo_RemoteEndpoint := cloneEndpointPointer (cloneEndpointPointer (tpo_TestedEndpoint o1))\<rparr> in
        if openOutcome o2 then o2\<lparr>tpo_ConnectionOutcome := TransportConnectionOutcomeConnected,
          tpo_Connected := True\<rparr> else o2)"

definition buildTransportObservation ::
    "jsonCodec \<Rightarrow> Target \<Rightarrow> EndpointObservation \<Rightarrow> ProbeResult list \<Rightarrow> TransportObservation" where
  "buildTransportObservation codec target endpoint probes =
     (let s = fold (transportProbeStep codec target) probes \<lparr>ts_observation = initialTransport target endpoint,
            ts_outcomes = [], ts_testedEndpoints = [], ts_seenTCP = False\<rparr>;
          tested = (case eo_TestedEndpoint endpoint of
              None \<Rightarrow> ts_testedEndpoints s
            | Some e \<Rightarrow> \<lparr>sv_value = endpointKey e, sv_probe = ''endpoint-observation'',
                sv_evidenceID = firstEvidenceID (eo_EvidenceIDs endpoint)\<rparr> # ts_testedEndpoints s);
          observation = (ts_observation s)\<lparr>
            tpo_Conflicts := noteConflict ''transport.connection_outcome'' (ts_outcomes s)
              (noteConflict ''transport.tested_endpoint'' tested (tpo_Conflicts (ts_observation s)))\<rparr> in
      NormalizeTransportObservation (settleTransport (ts_seenTCP s) observation))"

end
