(* ===== verification/EnterpriseEvidence.thy ===== *)
theory EnterpriseEvidence
  imports ProbeEvidence
begin

text \<open>
  The data of \<open>internal/probe/proxy\<close> and \<open>internal/probe/enterprise\<close>: what the native sources answer,
  the observations that go into evidence, and the payloads that \<open>builder.go\<close> and
  \<open>environment.go\<close> read back; one record per struct, with its zero value. \<open>PathObservation\<close>,
  \<open>RouteObservation\<close>, \<open>Snapshot\<close> and \<open>EnvironmentSnapshot\<close> of the enterprise package are
  \<open>EnterprisePath\<close>, \<open>EnterpriseRoute\<close>, \<open>EnterpriseSnapshot\<close> and \<open>LocalSnapshot\<close>; \<open>Discovery\<close> is
  \<open>ProxyDiscovery\<close> and \<open>interfacecfg.Snapshot\<close> is \<open>InterfaceSnapshot\<close>. A map is the list of its entries.
\<close>

type_synonym ConfigurationState = string

section \<open>Constants\<close>

definition PathApplicationDirect :: string where [go_consts]: "PathApplicationDirect = ''application_direct''"
definition PathBrowserWinINET :: string where [go_consts]: "PathBrowserWinINET = ''browser_wininet''"
definition PathServiceWinHTTP :: string where [go_consts]: "PathServiceWinHTTP = ''service_winhttp''"
definition PathModeDirect :: string where [go_consts]: "PathModeDirect = ''direct''"
definition PathModeProxy :: string where [go_consts]: "PathModeProxy = ''proxy''"
definition PathModePAC :: string where [go_consts]: "PathModePAC = ''pac''"
definition PathModeUnknown :: string where [go_consts]: "PathModeUnknown = ''unknown''"
definition ConnectNotApplicable :: string where [go_consts]: "ConnectNotApplicable = ''not_applicable''"
definition ConnectSucceeded :: string where [go_consts]: "ConnectSucceeded = ''succeeded''"
definition ConnectDenied :: string where [go_consts]: "ConnectDenied = ''denied''"
definition ConnectAuthRequired :: string where [go_consts]: "ConnectAuthRequired = ''authentication_required''"
definition ConnectUnavailable :: string where [go_consts]: "ConnectUnavailable = ''unavailable''"
definition ConnectTimeout :: string where [go_consts]: "ConnectTimeout = ''timeout''"
definition ConnectNotTested :: string where [go_consts]: "ConnectNotTested = ''not_tested''"
definition StateDirect :: ConfigurationState where [go_consts]: "StateDirect = ''direct''"
definition StateStaticProxyConfigured :: ConfigurationState where [go_consts]: "StateStaticProxyConfigured = ''static_proxy_configured''"
definition StatePACConfigured :: ConfigurationState where [go_consts]: "StatePACConfigured = ''pac_configured''"
definition StateConfigurationUnavailable :: ConfigurationState where [go_consts]: "StateConfigurationUnavailable = ''proxy_configuration_unavailable''"
definition StateMalformedProxyEndpoint :: ConfigurationState where [go_consts]: "StateMalformedProxyEndpoint = ''malformed_proxy_endpoint''"
definition StateProxyEndpointUnreachable :: ConfigurationState where [go_consts]: "StateProxyEndpointUnreachable = ''proxy_endpoint_unreachable''"
definition StateProxyEndpointTimeout :: ConfigurationState where [go_consts]: "StateProxyEndpointTimeout = ''proxy_endpoint_timeout''"
definition StateUnsupportedPlatform :: ConfigurationState where [go_consts]: "StateUnsupportedPlatform = ''unsupported_platform''"
definition EnterpriseProbeName :: string where [go_consts]: "EnterpriseProbeName = ''windows_enterprise''"
definition ProxyProbeName :: string where [go_consts]: "ProxyProbeName = ''proxy_discovery''"
definition InterfaceProbeName :: string where [go_consts]: "InterfaceProbeName = ''interface_state''"
definition DNSProbeName :: string where [go_consts]: "DNSProbeName = ''dns_configuration''"

section \<open>Data\<close>

record SourceConfiguration =
  psc_Available :: "bool"
  psc_Proxy :: "string"
  psc_Bypass :: "string list"
  psc_PACURL :: "string"
  psc_AutoDetect :: "bool"
  psc_Error :: "string"

definition zero_SourceConfiguration :: SourceConfiguration where
  "zero_SourceConfiguration = \<lparr>
    psc_Available = False, psc_Proxy = [], psc_Bypass = [], psc_PACURL = [],
    psc_AutoDetect = False, psc_Error = []\<rparr>"

record ProxyDiscovery =
  pdy_WinHTTP :: "SourceConfiguration"
  pdy_WinINET :: "SourceConfiguration"

definition zero_ProxyDiscovery :: ProxyDiscovery where
  "zero_ProxyDiscovery = \<lparr>
    pdy_WinHTTP = zero_SourceConfiguration, pdy_WinINET = zero_SourceConfiguration\<rparr>"

record ConfigurationObservation =
  pco_State :: "ConfigurationState"
  pco_Direct :: "bool"
  pco_StaticProxyConfigured :: "bool"
  pco_ProxyEndpoints :: "string list"
  pco_ProxyBypass :: "string list"
  pco_PACConfigured :: "bool"
  pco_PACURL :: "string"
  pco_AutoDetect :: "bool"
  pco_Error :: "string"

definition zero_ConfigurationObservation :: ConfigurationObservation where
  "zero_ConfigurationObservation = \<lparr>
    pco_State = [], pco_Direct = False, pco_StaticProxyConfigured = False,
    pco_ProxyEndpoints = [], pco_ProxyBypass = [], pco_PACConfigured = False,
    pco_PACURL = [], pco_AutoDetect = False, pco_Error = []\<rparr>"

record URLProxyResolution =
  pur_Direct :: "bool"
  pur_Proxy :: "string"
  pur_Bypass :: "string list"
  pur_BypassMatched :: "bool"
  pur_UsedPAC :: "bool"
  pur_AutoDetect :: "bool"
  pur_Configuration :: "string"

definition zero_URLProxyResolution :: URLProxyResolution where
  "zero_URLProxyResolution = \<lparr>
    pur_Direct = False, pur_Proxy = [], pur_Bypass = [], pur_BypassMatched = False,
    pur_UsedPAC = False, pur_AutoDetect = False, pur_Configuration = []\<rparr>"

record endpointResult =
  per_Endpoint :: "string"
  per_Status :: "string"
  per_Error :: "string"

definition zero_endpointResult :: endpointResult where
  "zero_endpointResult = \<lparr>
    per_Endpoint = [], per_Status = [], per_Error = []\<rparr>"

record normalizedConfiguration =
  pnc_state :: "ConfigurationState"
  pnc_proxy :: "string"
  pnc_endpoints :: "string list"
  pnc_bypass :: "string list"
  pnc_pacURL :: "string"
  pnc_pacPresent :: "bool"
  pnc_autoDetect :: "bool"
  pnc_endpointReachability :: "endpointResult list"
  pnc_err :: "string"

definition zero_normalizedConfiguration :: normalizedConfiguration where
  "zero_normalizedConfiguration = \<lparr>
    pnc_state = [], pnc_proxy = [], pnc_endpoints = [], pnc_bypass = [], pnc_pacURL = [],
    pnc_pacPresent = False, pnc_autoDetect = False, pnc_endpointReachability = [],
    pnc_err = []\<rparr>"

record sourceEvidence =
  pse_State :: "string"
  pse_Direct :: "bool"
  pse_StaticProxyConfigured :: "bool"
  pse_ProxyEndpoints :: "string list"
  pse_ProxyBypass :: "string list"
  pse_PACConfigured :: "bool"
  pse_PACURL :: "string"
  pse_AutoDetect :: "bool"
  pse_EndpointReachability :: "endpointResult list"
  pse_Error :: "string"

definition zero_sourceEvidence :: sourceEvidence where
  "zero_sourceEvidence = \<lparr>
    pse_State = [], pse_Direct = False, pse_StaticProxyConfigured = False,
    pse_ProxyEndpoints = [], pse_ProxyBypass = [], pse_PACConfigured = False,
    pse_PACURL = [], pse_AutoDetect = False, pse_EndpointReachability = [], pse_Error = []\<rparr>"

record pacEvidence =
  ppe_Configured :: "bool"
  ppe_URL :: "string"
  ppe_AutoDetect :: "bool"
  ppe_Executed :: "bool"

definition zero_pacEvidence :: pacEvidence where
  "zero_pacEvidence = \<lparr>
    ppe_Configured = False, ppe_URL = [], ppe_AutoDetect = False, ppe_Executed = False\<rparr>"

record EffectiveProxy =
  efx_Source :: "string"
  efx_Decision :: "string"
  efx_Mode :: "string"
  efx_Endpoint :: "string"
  efx_Bypass :: "string list"
  efx_BypassMatched :: "bool"
  efx_PACUsed :: "bool"
  efx_AutoDetect :: "bool"
  efx_ResolutionAttempted :: "bool"
  efx_ResolutionOK :: "bool"
  efx_Error :: "string"

definition zero_EffectiveProxy :: EffectiveProxy where
  "zero_EffectiveProxy = \<lparr>
    efx_Source = [], efx_Decision = [], efx_Mode = [], efx_Endpoint = [], efx_Bypass = [],
    efx_BypassMatched = False, efx_PACUsed = False, efx_AutoDetect = False,
    efx_ResolutionAttempted = False, efx_ResolutionOK = False, efx_Error = []\<rparr>"

record CertificateObservation =
  cob_ChainIndex :: "int"
  cob_Subject :: "string"
  cob_Issuer :: "string"
  cob_SerialNumber :: "string"
  cob_NotBefore :: "string"
  cob_NotAfter :: "string"
  cob_DNSNames :: "string list"
  cob_SHA256 :: "string"

definition zero_CertificateObservation :: CertificateObservation where
  "zero_CertificateObservation = \<lparr>
    cob_ChainIndex = 0, cob_Subject = [], cob_Issuer = [], cob_SerialNumber = [],
    cob_NotBefore = [], cob_NotAfter = [], cob_DNSNames = [], cob_SHA256 = []\<rparr>"

record EnterprisePath =
  enp_Name :: "string"
  enp_Source :: "string"
  enp_Mode :: "string"
  enp_Endpoint :: "string"
  enp_RequestAttempted :: "bool"
  enp_TCPConnected :: "bool"
  enp_ConnectOutcome :: "string"
  enp_ConnectStatusCode :: "int"
  enp_ProxyAuthenticationHint :: "bool"
  enp_HTTPResponse :: "bool"
  enp_HTTPStatusCode :: "int"
  enp_TLSHandshake :: "bool"
  enp_TLSAttempted :: "bool"
  enp_CertificateTrusted :: "bool"
  enp_HostnameVerified :: "bool"
  enp_Certificate :: "CertificateObservation option"
  enp_FailureReason :: "FailureReason"
  enp_Error :: "string"

definition zero_EnterprisePath :: EnterprisePath where
  "zero_EnterprisePath = \<lparr>
    enp_Name = [], enp_Source = [], enp_Mode = [], enp_Endpoint = [],
    enp_RequestAttempted = False, enp_TCPConnected = False, enp_ConnectOutcome = [],
    enp_ConnectStatusCode = 0, enp_ProxyAuthenticationHint = False, enp_HTTPResponse = False,
    enp_HTTPStatusCode = 0, enp_TLSHandshake = False, enp_TLSAttempted = False,
    enp_CertificateTrusted = False, enp_HostnameVerified = False, enp_Certificate = None,
    enp_FailureReason = [], enp_Error = []\<rparr>"

record TLSComparison =
  tco_DirectCertificateSHA256 :: "string"
  tco_ProxyCertificateSHA256 :: "string"
  tco_DirectCertificateSubject :: "string"
  tco_ProxyCertificateSubject :: "string"
  tco_DirectCertificateIssuer :: "string"
  tco_ProxyCertificateIssuer :: "string"
  tco_CertificatesDiffer :: "bool"
  tco_CertificatesDifferKnown :: "bool"
  tco_IssuersDiffer :: "bool"
  tco_IssuersDifferKnown :: "bool"
  tco_BothTrusted :: "bool"
  tco_BothTrustedKnown :: "bool"
  tco_BothHostnameVerified :: "bool"
  tco_BothHostnameKnown :: "bool"
  tco_PossibleInterception :: "bool"
  tco_InterceptionBasis :: "string"
  tco_TrustMismatch :: "bool"

definition zero_TLSComparison :: TLSComparison where
  "zero_TLSComparison = \<lparr>
    tco_DirectCertificateSHA256 = [], tco_ProxyCertificateSHA256 = [],
    tco_DirectCertificateSubject = [], tco_ProxyCertificateSubject = [],
    tco_DirectCertificateIssuer = [], tco_ProxyCertificateIssuer = [],
    tco_CertificatesDiffer = False, tco_CertificatesDifferKnown = False,
    tco_IssuersDiffer = False, tco_IssuersDifferKnown = False, tco_BothTrusted = False,
    tco_BothTrustedKnown = False, tco_BothHostnameVerified = False,
    tco_BothHostnameKnown = False, tco_PossibleInterception = False,
    tco_InterceptionBasis = [], tco_TrustMismatch = False\<rparr>"

record TrustStoreObservation =
  tso_Source :: "string"
  tso_Available :: "bool"
  tso_RootCount :: "int"
  tso_TrustedCorporatePrivateRootKnown :: "bool"
  tso_TrustedCorporatePrivateRoot :: "bool"
  tso_Error :: "string"
  tso_Insufficient :: "bool"

definition zero_TrustStoreObservation :: TrustStoreObservation where
  "zero_TrustStoreObservation = \<lparr>
    tso_Source = [], tso_Available = False, tso_RootCount = 0,
    tso_TrustedCorporatePrivateRootKnown = False, tso_TrustedCorporatePrivateRoot = False,
    tso_Error = [], tso_Insufficient = False\<rparr>"

record FirewallProfile =
  fwp_Name :: "string"
  fwp_FirewallEnabled :: "bool option"
  fwp_BlockInboundExceptions :: "bool option"
  fwp_PolicyPresent :: "bool"

definition zero_FirewallProfile :: FirewallProfile where
  "zero_FirewallProfile = \<lparr>
    fwp_Name = [], fwp_FirewallEnabled = None, fwp_BlockInboundExceptions = None,
    fwp_PolicyPresent = False\<rparr>"

record FirewallObservation =
  fwo_Source :: "string"
  fwo_Available :: "bool"
  fwo_Profiles :: "FirewallProfile list"
  fwo_Error :: "string"
  fwo_Insufficient :: "bool"

definition zero_FirewallObservation :: FirewallObservation where
  "zero_FirewallObservation = \<lparr>
    fwo_Source = [], fwo_Available = False, fwo_Profiles = [], fwo_Error = [],
    fwo_Insufficient = False\<rparr>"

record AdapterObservation =
  ado_Index :: "int"
  ado_Name :: "string"
  ado_Type :: "string"
  ado_IfType :: "32 word"
  ado_Operational :: "bool"
  ado_VPN :: "bool"
  ado_Virtual :: "bool"

definition zero_AdapterObservation :: AdapterObservation where
  "zero_AdapterObservation = \<lparr>
    ado_Index = 0, ado_Name = [], ado_Type = [], ado_IfType = 0, ado_Operational = False,
    ado_VPN = False, ado_Virtual = False\<rparr>"

record EnterpriseRoute =
  enr_Path :: "string"
  enr_Destination :: "string"
  enr_Interface :: "string"
  enr_InterfaceIndex :: "int"
  enr_NextHop :: "string"
  enr_Available :: "bool"
  enr_Error :: "string"

definition zero_EnterpriseRoute :: EnterpriseRoute where
  "zero_EnterpriseRoute = \<lparr>
    enr_Path = [], enr_Destination = [], enr_Interface = [], enr_InterfaceIndex = 0,
    enr_NextHop = [], enr_Available = False, enr_Error = []\<rparr>"

record ObservationIssue =
  obi_Subsystem :: "string"
  obi_Kind :: "string"
  obi_Error :: "string"
  obi_Unsupported :: "bool"
  obi_Insufficient :: "bool"

definition zero_ObservationIssue :: ObservationIssue where
  "zero_ObservationIssue = \<lparr>
    obi_Subsystem = [], obi_Kind = [], obi_Error = [], obi_Unsupported = False,
    obi_Insufficient = False\<rparr>"

record EnterpriseSnapshot =
  ens_Proxy :: "ProxyDiscovery"
  ens_EffectiveProxy :: "EffectiveProxy list"
  ens_Paths :: "EnterprisePath list"
  ens_TLS :: "TLSComparison"
  ens_TrustStore :: "TrustStoreObservation"
  ens_Firewall :: "FirewallObservation"
  ens_Adapters :: "AdapterObservation list"
  ens_Routes :: "EnterpriseRoute list"
  ens_Issues :: "ObservationIssue list"

definition zero_EnterpriseSnapshot :: EnterpriseSnapshot where
  "zero_EnterpriseSnapshot = \<lparr>
    ens_Proxy = zero_ProxyDiscovery, ens_EffectiveProxy = [], ens_Paths = [],
    ens_TLS = zero_TLSComparison, ens_TrustStore = zero_TrustStoreObservation,
    ens_Firewall = zero_FirewallObservation, ens_Adapters = [], ens_Routes = [],
    ens_Issues = []\<rparr>"

record LocalSnapshot =
  els_Proxy :: "ProxyDiscovery"
  els_TrustStore :: "TrustStoreObservation"
  els_Firewall :: "FirewallObservation"
  els_Adapters :: "AdapterObservation list"
  els_Issues :: "ObservationIssue list"

definition zero_LocalSnapshot :: LocalSnapshot where
  "zero_LocalSnapshot = \<lparr>
    els_Proxy = zero_ProxyDiscovery, els_TrustStore = zero_TrustStoreObservation,
    els_Firewall = zero_FirewallObservation, els_Adapters = [], els_Issues = []\<rparr>"

record enterpriseConnectivityEvidence =
  eco_EffectiveProxy :: "EffectiveProxy list"
  eco_Paths :: "EnterprisePath list"

definition zero_enterpriseConnectivityEvidence :: enterpriseConnectivityEvidence where
  "zero_enterpriseConnectivityEvidence = \<lparr>
    eco_EffectiveProxy = [], eco_Paths = []\<rparr>"

record enterpriseTLSEvidence =
  ete_Comparison :: "TLSComparison"
  ete_TrustStore :: "TrustStoreObservation"
  ete_Certificates :: "(string \<times> CertificateObservation) list"

definition zero_enterpriseTLSEvidence :: enterpriseTLSEvidence where
  "zero_enterpriseTLSEvidence = \<lparr>
    ete_Comparison = zero_TLSComparison, ete_TrustStore = zero_TrustStoreObservation,
    ete_Certificates = []\<rparr>"

record enterpriseRoutingEvidence =
  ero_Adapters :: "AdapterObservation list"
  ero_Routes :: "EnterpriseRoute list"

definition zero_enterpriseRoutingEvidence :: enterpriseRoutingEvidence where
  "zero_enterpriseRoutingEvidence = \<lparr>
    ero_Adapters = [], ero_Routes = []\<rparr>"

record enterpriseCorrelationEvidence =
  ecr_EffectiveRouteDiffers :: "bool"
  ecr_IntentionalPolicyPossible :: "bool"

definition zero_enterpriseCorrelationEvidence :: enterpriseCorrelationEvidence where
  "zero_enterpriseCorrelationEvidence = \<lparr>
    ecr_EffectiveRouteDiffers = False, ecr_IntentionalPolicyPossible = False\<rparr>"

record enterprisePACEvidence =
  epv_Configured :: "bool"
  epv_URL :: "string"
  epv_AutoDetect :: "bool"
  epv_Executed :: "bool"

definition zero_enterprisePACEvidence :: enterprisePACEvidence where
  "zero_enterprisePACEvidence = \<lparr>
    epv_Configured = False, epv_URL = [], epv_AutoDetect = False, epv_Executed = False\<rparr>"

record InterfaceSnapshot =
  ics_Interfaces :: "InterfaceState list"
  ics_DNSServers :: "Addr list"
  ics_DNSSuffixes :: "string list"
  ics_SearchList :: "string list"
  ics_NRPT :: "NameResolutionPolicyRule list"
  ics_NRPTError :: "string"
  ics_HostsFileEntries :: "NameResolutionHostEntry list"
  ics_HostsFileError :: "string"
  ics_Source :: "string"
  ics_ResolverError :: "string"
  ics_ResolverErrorKind :: "string"
  ics_CapturedAt :: "gotime"

definition zero_InterfaceSnapshot :: InterfaceSnapshot where
  "zero_InterfaceSnapshot = \<lparr>
    ics_Interfaces = [], ics_DNSServers = [], ics_DNSSuffixes = [], ics_SearchList = [],
    ics_NRPT = [], ics_NRPTError = [], ics_HostsFileEntries = [], ics_HostsFileError = [],
    ics_Source = [], ics_ResolverError = [], ics_ResolverErrorKind = [], ics_CapturedAt = 0\<rparr>"

section \<open>The codec\<close>

record enterpriseCodec =
  jx_Configuration :: "string \<Rightarrow> ConfigurationObservation result"
  jx_PAC :: "string \<Rightarrow> enterprisePACEvidence result"
  jx_Connectivity :: "string \<Rightarrow> enterpriseConnectivityEvidence result"
  jx_Firewall :: "string \<Rightarrow> FirewallObservation result"
  jx_Routing :: "string \<Rightarrow> enterpriseRoutingEvidence result"
  jx_TLS :: "string \<Rightarrow> enterpriseTLSEvidence result"
  jx_Correlation :: "string \<Rightarrow> enterpriseCorrelationEvidence result"
  jx_Issues :: "string \<Rightarrow> ObservationIssue list result"
  jx_fingerprint :: "EnterpriseProxyConfigurationObservation \<Rightarrow> string"

end
