(* ===== verification/BuilderSecurity.thy ===== *)
theory BuilderSecurity
  imports BuilderEndpoint EnterpriseEvidence
begin

text \<open>
  \<open>internal/observations/builder.go\<close>: the security observation that is built from the TLS
  handshakes, certificates and trust evidence of the probes, and the assessment of TLS inspection,
  which correlates it with the policy of the enterprise probe.
\<close>

section \<open>Certificates and applicability\<close>

definition tlsEvidenceKind :: "EvidenceKind \<Rightarrow> bool" where
  "tlsEvidenceKind kind \<longleftrightarrow> kind = EvidenceKindTLSHandshake \<or> kind = EvidenceKindCertificate
     \<or> kind = EvidenceKindTLSTrust"

definition tlsApplicability :: "Target \<Rightarrow> ProbeResult list \<Rightarrow> ObservationApplicability" where
  "tlsApplicability target probes =
     (if tg_ApplicationProtocol target = ApplicationProtocolHTTPS
        \<or> tg_ApplicationProtocol target = ApplicationProtocolTLS
        \<or> sp_ID (tg_Service target) = ServiceProfileHTTPS
        \<or> sp_ID (tg_Service target) = ServiceProfileCustomTLS
      then ObservationApplicabilityApplicable
      else if hasEvidence [EvidenceKindTLSHandshake, EvidenceKindCertificate, EvidenceKindTLSTrust] probes
      then ObservationApplicabilityApplicable
      else ObservationApplicabilityInapplicable)"

definition certificateValidation :: "FailureReason \<Rightarrow> string \<Rightarrow> CertificateValidationState" where
  "certificateValidation reason message0 =
     (if reason = FailureReasonNone then CertificateValidationValid
      else if reason \<noteq> FailureReasonCertificateValidationFailure then CertificateValidationUnknown
      else let message = toLower message0 in
        if containsStr ''expired'' message \<or> containsStr ''not yet valid'' message
          then CertificateValidationExpired
        else if containsStr ''not valid for'' message \<or> containsStr ''hostname'' message
          then CertificateValidationHostnameMismatch
        else if containsStr ''unknown authority'' message \<or> containsStr ''trust'' message
          then CertificateValidationUntrusted
        else CertificateValidationInvalid)"

definition certificateAlreadyPresent ::
    "TLSCertificateObservation list \<Rightarrow> TLSCertificateObservation \<Rightarrow> bool" where
  "certificateAlreadyPresent values candidate = list_ex (\<lambda>v.
     tc_SHA256 candidate \<noteq> [] \<and> tc_SHA256 v = tc_SHA256 candidate
     \<or> tc_SHA256 candidate = [] \<and> tc_ChainIndex v = tc_ChainIndex candidate
       \<and> tc_Subject v = tc_Subject candidate) values"

definition explicitInterceptionEvidence :: "jsonCodec \<Rightarrow> string \<Rightarrow> bool" where
  "explicitInterceptionEvidence codec raw =
     (case jd_Interception codec raw of
        Inl err \<Rightarrow> False
      | Inr v \<Rightarrow> ice_Interception v \<or> ice_Intercepted v \<or> ice_MITM v
          \<or> containsStr ''intercept'' (toLower (ice_TrustStore v))
          \<or> containsStr ''intercept'' (toLower (ice_TrustSource v)))"

definition certificateFrom :: "CertificateMetadata \<Rightarrow> TLSCertificateObservation" where
  "certificateFrom v = \<lparr>
     tc_ChainIndex = tcm_ChainIndex v, tc_Subject = tcm_Subject v, tc_Issuer = tcm_Issuer v,
     tc_SerialNumber = tcm_SerialNumber v, tc_Version = tcm_Version v, tc_NotBefore = tcm_NotBefore v,
     tc_NotAfter = tcm_NotAfter v, tc_DNSNames = [] @ tcm_DNSNames v,
     tc_IPAddresses = [] @ tcm_IPAddresses v, tc_EmailAddresses = [] @ tcm_EmailAddresses v,
     tc_IsCA = tcm_IsCA v, tc_PublicKeyAlgorithm = tcm_PublicKeyAlgorithm v,
     tc_SignatureAlgorithm = tcm_SignatureAlgorithm v, tc_SHA256 = tcm_SHA256 v\<rparr>"

section \<open>The security observation\<close>

record securityState =
  ss_observation :: SecurityObservation
  ss_versions :: "sourceValue list"
  ss_ciphers :: "sourceValue list"
  ss_validations :: "sourceValue list"
  ss_endpoints :: "sourceValue list"
  ss_certificateLeaves :: "sourceValue list"
  ss_certificateIssuers :: "sourceValue list"
  ss_seenTLS :: bool

definition usedEndpoint :: "TransportObservation \<Rightarrow> EndpointObservation \<Rightarrow> Endpoint option" where
  "usedEndpoint transport endpoint =
     (case tpo_TestedEndpoint transport of
        Some e \<Rightarrow> Some (cloneEndpointValue e)
      | None \<Rightarrow> map_option cloneEndpointValue (eo_TestedEndpoint endpoint))"

definition initialSecurity ::
    "Target \<Rightarrow> EndpointObservation \<Rightarrow> TransportObservation \<Rightarrow> ProbeResult list \<Rightarrow> SecurityObservation" where
  "initialSecurity target endpoint transport probes = zero_SecurityObservation\<lparr>
     so_Applicability := tlsApplicability target probes,
     so_CertificateValidation := CertificateValidationUnknown,
     so_FailureReason := FailureReasonNone,
     so_FaultDomain := FaultDomainTLS,
     so_Certainty := ObservationCertaintyUnknown,
     so_EndpointUsed := usedEndpoint transport endpoint\<rparr>"

definition notedSecurity :: "ProbeResult \<Rightarrow> Evidence \<Rightarrow> SecurityObservation \<Rightarrow> SecurityObservation" where
  "notedSecurity probe evidence observation = observation\<lparr>
     so_EvidenceIDs := appendUnique (so_EvidenceIDs observation) [ev_ID evidence],
     so_ProbeNames := appendUnique (so_ProbeNames observation) [pr_Name probe],
     so_Provenance := addObservationProvenance probe evidence (so_Provenance observation)\<rparr>"

definition limitSecurity :: "string \<Rightarrow> SecurityObservation \<Rightarrow> SecurityObservation" where
  "limitSecurity text observation =
     observation\<lparr>so_Limitations := appendUnique (so_Limitations observation) [text]\<rparr>"

text \<open>The assignments \<open>if observation.X == "" { observation.X = value.X }\<close>.\<close>

definition orText :: "string \<Rightarrow> string \<Rightarrow> string" where
  "orText current new = (if current = [] then new else current)"

definition orWord :: "'a::len word \<Rightarrow> 'a word \<Rightarrow> 'a word" where
  "orWord current new = (if current = 0 then new else current)"

definition openReason :: "FailureReason \<Rightarrow> bool" where
  "openReason reason \<longleftrightarrow> reason = FailureReasonNone \<or> reason = FailureReasonUnknown"

definition handshakeFields :: "16 word \<Rightarrow> HandshakeEvidence \<Rightarrow> SecurityObservation \<Rightarrow> SecurityObservation" where
  "handshakeFields port v o0 = o0\<lparr>
     so_ServerName := orText (so_ServerName o0) (the_ServerName v),
     so_NegotiatedProtocol := orText (so_NegotiatedProtocol o0) (the_NegotiatedProtocol v),
     so_NegotiatedProtocolID := orText (so_NegotiatedProtocolID o0) (the_NegotiatedProtocolID v),
     so_TLSVersion := orText (so_TLSVersion o0) (the_TLSVersion v),
     so_TLSVersionID := orWord (so_TLSVersionID o0) (the_TLSVersionID v),
     so_CipherSuite := orText (so_CipherSuite o0) (the_CipherSuite v),
     so_CipherSuiteID := orWord (so_CipherSuiteID o0) (the_CipherSuiteID v),
     so_PeerCertificateCount := (if so_PeerCertificateCount o0 = 0 then the_PeerCertificateCount v
       else so_PeerCertificateCount o0),
     so_HandshakeComplete := so_HandshakeComplete o0 \<or> the_HandshakeComplete v,
     so_EndpointUsed := (if so_EndpointUsed o0 = None then endpointFromRaw (the_Address v) port
       else so_EndpointUsed o0)\<rparr>"

definition handshakeResult ::
    "ProbeResult \<Rightarrow> CertificateValidationState \<Rightarrow> SecurityObservation \<Rightarrow> SecurityObservation" where
  "handshakeResult probe validation o0 = o0\<lparr>
     so_CertificateValidation :=
       (if so_CertificateValidation o0 = CertificateValidationUnknown \<or> validation \<noteq> CertificateValidationUnknown
        then validation else so_CertificateValidation o0),
     so_FailureReason := (if openReason (so_FailureReason o0)
       then pin_FailureReason (pr_Interpretation probe) else so_FailureReason o0),
     so_FaultDomain := (if pin_FaultDomain (pr_Interpretation probe) \<noteq> []
       then pin_FaultDomain (pr_Interpretation probe) else so_FaultDomain o0),
     so_Timing := mergeObservationTiming (so_Timing o0) (pr_Timing probe)\<rparr>"

definition handshakeStep ::
    "jsonCodec \<Rightarrow> Target \<Rightarrow> ProbeResult \<Rightarrow> Evidence \<Rightarrow> securityState \<Rightarrow> securityState" where
  "handshakeStep codec target probe evidence s0 =
     (let s = s0\<lparr>ss_seenTLS := True, ss_observation := (ss_observation s0)\<lparr>so_Attempted := True\<rparr>\<rparr>;
          source = (\<lambda>v. sourceOf v probe (ev_ID evidence)) in
      case jd_Handshake codec (ev_Raw evidence) of
        Inl err \<Rightarrow> s\<lparr>ss_observation := limitSecurity (''TLS handshake evidence decode: '' @ err) (ss_observation s)\<rparr>
      | Inr v \<Rightarrow>
          let validation = certificateValidation (pin_FailureReason (pr_Interpretation probe)) (the_Error v) in
          s\<lparr>ss_versions := ss_versions s @ (if the_TLSVersion v \<noteq> [] then [source (the_TLSVersion v)] else []),
            ss_ciphers := ss_ciphers s @ (if the_CipherSuite v \<noteq> [] then [source (the_CipherSuite v)] else []),
            ss_endpoints := ss_endpoints s @ (case endpointFromRaw (the_Address v) (tg_Port target) of
              None \<Rightarrow> [] | Some e \<Rightarrow> [source (endpointKey e)]),
            ss_validations := ss_validations s @ [source validation],
            ss_observation := handshakeResult probe validation
              (handshakeFields (tg_Port target) v (ss_observation s))\<rparr>)"

definition certificateStep :: "jsonCodec \<Rightarrow> ProbeResult \<Rightarrow> Evidence \<Rightarrow> securityState \<Rightarrow> securityState" where
  "certificateStep codec probe evidence s =
     (case jd_Certificate codec (ev_Raw evidence) of
        Inl err \<Rightarrow> s\<lparr>ss_observation := limitSecurity (''TLS certificate evidence decode: '' @ err) (ss_observation s)\<rparr>
      | Inr v \<Rightarrow>
          let certificate = certificateFrom v; o0 = ss_observation s;
              source = (\<lambda>v. sourceOf v probe (ev_ID evidence)) in
          s\<lparr>ss_observation := (if certificateAlreadyPresent (so_Certificates o0) certificate then o0
              else o0\<lparr>so_Certificates := so_Certificates o0 @ [certificate]\<rparr>),
            ss_certificateLeaves := ss_certificateLeaves s @
              (if tcm_ChainIndex v = 0 \<and> tcm_SHA256 v \<noteq> [] then [source (tcm_SHA256 v)] else []),
            ss_certificateIssuers := ss_certificateIssuers s @
              (if tcm_ChainIndex v = 0 \<and> tcm_Issuer v \<noteq> [] then [source (tcm_Issuer v)] else [])\<rparr>)"

definition trustStep :: "jsonCodec \<Rightarrow> Evidence \<Rightarrow> securityState \<Rightarrow> securityState" where
  "trustStep codec evidence s =
     (let o0 = ss_observation s in
      s\<lparr>ss_observation := o0\<lparr>so_Attempted := True,
        so_TrustEvidenceIDs := appendUnique (so_TrustEvidenceIDs o0) [ev_ID evidence],
        so_InterceptionEvidenceIDs := (if explicitInterceptionEvidence codec (ev_Raw evidence)
          then appendUnique (so_InterceptionEvidenceIDs o0) [ev_ID evidence]
          else so_InterceptionEvidenceIDs o0)\<rparr>\<rparr>)"

definition securityEvidenceStep ::
    "jsonCodec \<Rightarrow> Target \<Rightarrow> ProbeResult \<Rightarrow> Evidence \<Rightarrow> securityState \<Rightarrow> securityState" where
  "securityEvidenceStep codec target probe evidence s0 =
     (if \<not> tlsEvidenceKind (ev_Kind evidence) then s0
      else let s = s0\<lparr>ss_observation := notedSecurity probe evidence (ss_observation s0)\<rparr> in
        if ev_Kind evidence = EvidenceKindTLSHandshake then handshakeStep codec target probe evidence s
        else if ev_Kind evidence = EvidenceKindCertificate then certificateStep codec probe evidence s
        else trustStep codec evidence s)"

definition securityProbeStep :: "jsonCodec \<Rightarrow> Target \<Rightarrow> ProbeResult \<Rightarrow> securityState \<Rightarrow> securityState" where
  "securityProbeStep codec target probe s0 =
     (let s = fold (securityEvidenceStep codec target probe) (pr_Evidence probe) s0; o0 = ss_observation s in
      if pr_Name probe = ''tls'' \<and> \<not> ss_seenTLS s
      then s\<lparr>ss_observation := o0\<lparr>so_Attempted := True,
        so_FailureReason := (if openReason (so_FailureReason o0)
          then pin_FailureReason (pr_Interpretation probe) else so_FailureReason o0),
        so_Timing := mergeObservationTiming (so_Timing o0) (pr_Timing probe)\<rparr>\<rparr>
      else s)"

definition securityConflicts :: "securityState \<Rightarrow> ObservationConflict list \<Rightarrow> ObservationConflict list" where
  "securityConflicts s conflicts =
     noteConflict ''security.presented_leaf_issuer'' (ss_certificateIssuers s)
       (noteConflict ''security.presented_leaf_certificate'' (ss_certificateLeaves s)
         (noteConflict ''security.endpoint_used'' (ss_endpoints s)
           (noteConflict ''security.certificate_validation'' (ss_validations s)
             (noteConflict ''security.cipher_suite'' (ss_ciphers s)
               (noteConflict ''security.tls_version'' (ss_versions s) conflicts)))))"

definition settleSecurity :: "bool \<Rightarrow> SecurityObservation \<Rightarrow> SecurityObservation" where
  "settleSecurity seenTLS o0 =
     (if seenTLS \<or> so_Certificates o0 \<noteq> [] \<or> so_TrustEvidenceIDs o0 \<noteq> []
      then o0\<lparr>so_Applicability := ObservationApplicabilityApplicable, so_Certainty := ObservationCertaintyObserved\<rparr>
      else if so_Applicability o0 = ObservationApplicabilityUnsupported
      then o0\<lparr>so_FailureReason := FailureReasonUnsupported, so_Certainty := ObservationCertaintyUnsupported\<rparr>
      else if so_Applicability o0 = ObservationApplicabilityInapplicable
      then o0\<lparr>so_Certainty := ObservationCertaintyDerived\<rparr>
      else o0\<lparr>so_Applicability := ObservationApplicabilityNotAttempted\<rparr>)"

definition buildSecurityObservation ::
    "jsonCodec \<Rightarrow> Target \<Rightarrow> EndpointObservation \<Rightarrow> TransportObservation \<Rightarrow> ProbeResult list \<Rightarrow> SecurityObservation" where
  "buildSecurityObservation codec target endpoint transport probes =
     (let s = fold (securityProbeStep codec target) probes
            \<lparr>ss_observation = initialSecurity target endpoint transport probes, ss_versions = [], ss_ciphers = [],
             ss_validations = [], ss_endpoints = [], ss_certificateLeaves = [], ss_certificateIssuers = [],
             ss_seenTLS = False\<rparr>;
          o0 = ss_observation s;
          o1 = (if so_EndpointUsed o0 = None \<and> so_Attempted o0
            then o0\<lparr>so_EndpointUsed := map_option cloneEndpointValue (eo_SelectedEndpoint endpoint)\<rparr> else o0) in
      NormalizeSecurityObservation (settleSecurity (ss_seenTLS s)
        (o1\<lparr>so_Conflicts := securityConflicts s (so_Conflicts o1)\<rparr>)))"

section \<open>TLS inspection\<close>

definition isTLSInspectionConflict :: "string \<Rightarrow> bool" where
  "isTLSInspectionConflict field0 =
     (let field = toLower field0 in containsStr ''certificate'' field \<or> containsStr ''issuer'' field
        \<or> containsStr ''interception'' field)"

definition assessPresented :: "Target \<Rightarrow> SecurityObservation \<Rightarrow> TLSInspectionAssessment" where
  "assessPresented target security =
     (let a = zero_TLSInspectionAssessment\<lparr>
            tia_State := TLSInspectionNotObserved,
            tia_Certainty := ObservationCertaintyUnknown,
            tia_RequestedHostname := firstNonEmptyValue [so_ServerName security, tg_RequestedIdentity target],
            tia_CertificateValidation := so_CertificateValidation security,
            tia_Provenance := [''assessment:tls_inspection''],
            tia_EvidenceIDs := appendUnique [] (so_EvidenceIDs security),
            tia_Limitations := appendUnique [] (so_Limitations security)\<rparr>;
          validation = so_CertificateValidation security;
          b = (case so_Certificates security of
              [] \<Rightarrow> a
            | leaf # rest \<Rightarrow> a\<lparr>
                tia_PresentedLeafSubject := tc_Subject leaf, tia_PresentedLeafSANs := [] @ tc_DNSNames leaf,
                tia_PresentedLeafIssuer := tc_Issuer leaf, tia_PresentedLeafSHA256 := tc_SHA256 leaf,
                tia_PresentedIssuerChain := fold (\<lambda>c chain.
                    if tc_Issuer c \<noteq> [] then appendUnique chain [tc_Issuer c] else chain)
                  (so_Certificates security) (tia_PresentedIssuerChain a)\<rparr>) in
      if validation = CertificateValidationValid \<or> validation = CertificateValidationHostnameMismatch
      then b\<lparr>tia_LocalTrustKnown := True, tia_LocallyTrusted := True\<rparr>
      else if validation = CertificateValidationUntrusted \<or> validation = CertificateValidationInvalid
        \<or> validation = CertificateValidationExpired
      then b\<lparr>tia_LocalTrustKnown := True, tia_LocallyTrusted := False\<rparr>
      else b)"

definition assessTLSPolicy ::
    "EnterpriseTLSPolicyObservation \<Rightarrow> TLSInspectionAssessment \<Rightarrow> TLSInspectionAssessment" where
  "assessTLSPolicy p a = a\<lparr>
     tia_TrustedCorporatePrivateRootKnown := etl_TrustedCorporatePrivateRootKnown p,
     tia_TrustedCorporatePrivateRoot := etl_TrustedCorporatePrivateRoot p,
     tia_OriginLeafSHA256 := etl_DirectCertificateSHA256 p,
     tia_OriginComparisonKnown := etl_CertificatesDifferKnown p \<or> etl_IssuersDifferKnown p
       \<or> etl_DirectCertificateSHA256 p = [] \<and> etl_DirectCertificateSubject p \<noteq> [],
     tia_PresentedLeafSHA256 := (if etl_ProxyCertificateSHA256 p \<noteq> [] then etl_ProxyCertificateSHA256 p
       else tia_PresentedLeafSHA256 a),
     tia_PresentedLeafSubject := (if etl_ProxyCertificateSubject p \<noteq> [] then etl_ProxyCertificateSubject p
       else tia_PresentedLeafSubject a),
     tia_PresentedLeafIssuer := (if etl_ProxyCertificateIssuer p \<noteq> [] then etl_ProxyCertificateIssuer p
       else tia_PresentedLeafIssuer a),
     tia_LocalTrustKnown := tia_LocalTrustKnown a \<or> etl_BothTrustedKnown p,
     tia_LocallyTrusted := (if etl_BothTrustedKnown p then etl_BothTrusted p else tia_LocallyTrusted a),
     tia_ChainDivergenceKnown := etl_CertificatesDifferKnown p \<or> etl_IssuersDifferKnown p
       \<or> etl_DirectCertificateSHA256 p \<noteq> [] \<and> etl_ProxyCertificateSHA256 p \<noteq> []
       \<or> etl_DirectCertificateIssuer p \<noteq> [] \<and> etl_ProxyCertificateIssuer p \<noteq> [],
     tia_ChainDiverges := etl_CertificatesDiffer p \<or> etl_IssuersDiffer p,
     tia_IssuerChangeKnown := etl_IssuersDifferKnown p
       \<or> etl_DirectCertificateIssuer p \<noteq> [] \<and> etl_ProxyCertificateIssuer p \<noteq> [],
     tia_IssuerChanged := etl_IssuersDiffer p,
     tia_EvidenceIDs := appendUnique (tia_EvidenceIDs a) (etl_EvidenceIDs p),
     tia_Provenance := appendUnique (tia_Provenance a) (etl_Provenance p),
     tia_Limitations := appendUnique (tia_Limitations a) (etl_Limitations p)\<rparr>"

definition assessCite :: "string list \<Rightarrow> string list \<Rightarrow> TLSInspectionAssessment \<Rightarrow> TLSInspectionAssessment" where
  "assessCite evidenceIDs provenance a = a\<lparr>
     tia_EvidenceIDs := appendUnique (tia_EvidenceIDs a) evidenceIDs,
     tia_Provenance := appendUnique (tia_Provenance a) provenance\<rparr>"

definition assessSource ::
    "EnterpriseProxySourceObservation \<Rightarrow> TLSInspectionAssessment \<Rightarrow> TLSInspectionAssessment" where
  "assessSource source a =
     (let effective = eps_Effective source in
      if \<not> epe_Observed effective then a
      else assessCite (epe_EvidenceIDs effective) (epe_Provenance effective) (a\<lparr>
        tia_EnterpriseProxyKnown := True,
        tia_EnterpriseProxyObserved := tia_EnterpriseProxyObserved a
          \<or> epe_Mode effective = EnterpriseProxyModeProxy \<or> epe_Mode effective = EnterpriseProxyModePAC\<rparr>))"

definition assessPath :: "EnterprisePathObservation \<Rightarrow> TLSInspectionAssessment \<Rightarrow> TLSInspectionAssessment" where
  "assessPath path a =
     (if ept_Mode path \<noteq> PathModeProxy \<and> ept_Mode path \<noteq> PathModePAC then a
      else assessCite (ept_EvidenceIDs path) (ept_Provenance path) (a\<lparr>
        tia_EnterpriseProxyKnown := True,
        tia_EnterpriseProxyObserved := tia_EnterpriseProxyObserved a \<or> ept_RequestAttempted path
          \<or> ept_TCPConnected path \<or> ept_TLSAttempted path \<or> ept_HTTPResponse path\<rparr>))"

definition assessEnterprise ::
    "EnterprisePolicyObservation \<Rightarrow> TLSInspectionAssessment \<Rightarrow> TLSInspectionAssessment" where
  "assessEnterprise enterprise a0 =
     (let p = eno_TLS enterprise;
          a1 = assessCite (eno_EvidenceIDs enterprise) (eno_Provenance enterprise) (a0\<lparr>
            tia_EnterprisePolicyKnown := eno_EvidenceIDs enterprise \<noteq> []
              \<or> eno_State enterprise \<noteq> EnterpriseObservationStateUnknown,
            tia_EnterprisePolicyObserved := eno_State enterprise = EnterpriseObservationStateObserved
              \<or> eno_State enterprise = EnterpriseObservationStatePartial\<rparr>);
          a2 = fold assessPath (eno_Paths enterprise)
            (assessSource (eno_WinINET enterprise) (assessSource (eno_WinHTTP enterprise) a1)) in
      if tia_OriginComparisonKnown a2 \<and> (etl_ProxyCertificateSHA256 p \<noteq> [] \<or> etl_ProxyCertificateIssuer p \<noteq> [])
      then a2\<lparr>tia_EnterpriseProxyKnown := True, tia_EnterpriseProxyObserved := True\<rparr> else a2)"

definition assessConflicts ::
    "SecurityObservation \<Rightarrow> EnterpriseTLSPolicyObservation \<Rightarrow> TLSInspectionAssessment \<Rightarrow> TLSInspectionAssessment" where
  "assessConflicts security p a = a\<lparr>
     tia_Conflicts := tia_Conflicts a
       @ filter (\<lambda>c. isTLSInspectionConflict (oc_Field c)) (so_Conflicts security) @ etl_Conflicts p,
     tia_Limitations := (if etl_TrustStoreInsufficient p
       then appendUnique (tia_Limitations a) [''enterprise trust-store evidence is insufficient'']
       else tia_Limitations a)\<rparr>"

definition signalAssessment :: "string \<Rightarrow> TLSInspectionAssessment \<Rightarrow> TLSInspectionAssessment" where
  "signalAssessment signal a = a\<lparr>tia_Signals := appendUnique (tia_Signals a) [signal]\<rparr>"

definition assessExplicit :: "SecurityObservation \<Rightarrow> TLSInspectionAssessment \<Rightarrow> TLSInspectionAssessment" where
  "assessExplicit security a =
     (if so_InterceptionEvidenceIDs security = [] then a
      else signalAssessment TLSInspectionSignalExplicitEnterpriseEvidence (a\<lparr>
        tia_State := TLSInspectionObserved, tia_Certainty := ObservationCertaintyObserved,
        tia_EvidenceIDs := appendUnique (tia_EvidenceIDs a) (so_InterceptionEvidenceIDs security)\<rparr>))"

definition assessSubstitution ::
    "EnterpriseTLSPolicyObservation \<Rightarrow> TLSInspectionAssessment \<Rightarrow> TLSInspectionAssessment" where
  "assessSubstitution p a =
     (if etl_PossibleInterception p
        \<or> tia_ChainDiverges a \<and> etl_BothTrusted p \<and> etl_BothHostnameVerified p
      then let b = a\<lparr>tia_State := TLSInspectionObserved, tia_Certainty := ObservationCertaintyInferred\<rparr> in
        if tia_IssuerChanged a \<and> \<not> etl_CertificatesDiffer p
        then signalAssessment TLSInspectionSignalTrustedIssuerChange b
        else signalAssessment TLSInspectionSignalTrustedChainSubstitution b
      else a)"

definition assessSuspicion :: "TLSInspectionAssessment \<Rightarrow> TLSInspectionAssessment" where
  "assessSuspicion a =
     (if tia_State a \<noteq> TLSInspectionObserved \<and> tia_TrustedCorporatePrivateRootKnown a
        \<and> tia_TrustedCorporatePrivateRoot a \<and> tia_EnterpriseProxyObserved a
      then signalAssessment TLSInspectionSignalCorporatePrivateIssuerWithProxy (a\<lparr>
        tia_State := TLSInspectionSuspected, tia_Certainty := ObservationCertaintyInferred\<rparr>)
      else a)"

definition assessRemaining ::
    "SecurityObservation \<Rightarrow> EnterpriseTLSPolicyObservation \<Rightarrow> TLSInspectionAssessment \<Rightarrow> TLSInspectionAssessment" where
  "assessRemaining security p a =
     (if tia_State a = TLSInspectionObserved \<or> tia_State a = TLSInspectionSuspected then a
      else if tia_ChainDivergenceKnown a \<and> tia_ChainDiverges a
      then signalAssessment TLSInspectionSignalChainDifferenceInsufficient (a\<lparr>tia_State := TLSInspectionUnknown\<rparr>)
      else if tia_OriginComparisonKnown a \<and> \<not> tia_ChainDiverges a \<and> etl_BothTrusted p \<and> etl_BothHostnameVerified p
      then a\<lparr>tia_State := TLSInspectionNotObserved, tia_Certainty := ObservationCertaintyObserved\<rparr>
      else if tia_EnterpriseProxyObserved a \<and> \<not> tia_OriginComparisonKnown a
      then signalAssessment TLSInspectionSignalProxyWithoutComparison (a\<lparr>tia_State := TLSInspectionUnknown\<rparr>)
      else if so_Certificates security \<noteq> [] \<and> so_CertificateValidation security = CertificateValidationValid
        \<and> \<not> tia_EnterpriseProxyObserved a
      then a\<lparr>tia_State := TLSInspectionNotObserved, tia_Certainty := ObservationCertaintyObserved\<rparr>
      else if so_Certificates security = [] \<and> \<not> so_Attempted security
      then a\<lparr>tia_State := TLSInspectionNotObserved\<rparr>
      else a\<lparr>tia_State := TLSInspectionUnknown\<rparr>)"

definition assessTLSInspection ::
    "Target \<Rightarrow> SecurityObservation \<Rightarrow> EnterprisePolicyObservation \<Rightarrow> TLSInspectionAssessment" where
  "assessTLSInspection target security enterprise =
     (let p = eno_TLS enterprise;
          a = assessConflicts security p
            (assessEnterprise enterprise (assessTLSPolicy p (assessPresented target security))) in
      if tia_Conflicts a \<noteq> []
      then a\<lparr>tia_State := TLSInspectionConflicting, tia_Certainty := ObservationCertaintyUnknown\<rparr>
      else assessRemaining security p (assessSuspicion (assessSubstitution p (assessExplicit security a))))"

end
