(* ===== verification/BuilderApplication.thy ===== *)
theory BuilderApplication
  imports BuilderSecurity
begin

text \<open>
  \<open>internal/observations/builder.go\<close>: the application observation. A DNS service, an SSH or RDP
  handshake and HTTP or SMB evidence each have their builder; \<open>buildApplicationObservation\<close> chooses.
\<close>

section \<open>Choosing the builder\<close>

definition httpApplicability :: "Target \<Rightarrow> ProbeResult list \<Rightarrow> ObservationApplicability" where
  "httpApplicability target probes =
     (if tg_ApplicationProtocol target = ApplicationProtocolHTTP
        \<or> tg_ApplicationProtocol target = ApplicationProtocolHTTPS
        \<or> sp_ID (tg_Service target) = ServiceProfileHTTP
        \<or> sp_ID (tg_Service target) = ServiceProfileHTTPS
      then ObservationApplicabilityApplicable
      else if hasEvidence [EvidenceKindHTTPResponse, EvidenceKindHTTPError] probes
      then ObservationApplicabilityApplicable
      else ObservationApplicabilityInapplicable)"

definition smbApplicability :: "Target \<Rightarrow> ProbeResult list \<Rightarrow> ObservationApplicability" where
  "smbApplicability target probes =
     (if hasEvidence [EvidenceKindSMBNegotiation] probes then ObservationApplicabilityApplicable
      else ObservationApplicabilityInapplicable)"

definition isDNSServiceTarget :: "Target \<Rightarrow> ProbeResult list \<Rightarrow> bool" where
  "isDNSServiceTarget target probes \<longleftrightarrow>
     sp_ID (tg_Service target) = ServiceProfileDNS \<or> tg_ApplicationProtocol target = ApplicationProtocolDNS
     \<or> hasEvidence [EvidenceKindDNSService] probes"

definition hasProtocolEvidence :: "ProbeResult list \<Rightarrow> bool" where
  "hasProtocolEvidence probes \<longleftrightarrow> hasEvidence [EvidenceKindSSHHandshake, EvidenceKindRDPNegotiation] probes"

definition appendHTTPRedirects ::
    "HTTPRedirectObservation list \<Rightarrow> HTTPRedirectObservation list \<Rightarrow> HTTPRedirectObservation list" where
  "appendHTTPRedirects destination values =
     fold (\<lambda>v destination. if list_ex (\<lambda>e. hr_URL e = hr_URL v \<and> hr_StatusCode e = hr_StatusCode v
         \<and> hr_ToURL e = hr_ToURL v) destination then destination else destination @ [v]) values destination"

definition notedApplication :: "ProbeResult \<Rightarrow> Evidence \<Rightarrow> ApplicationObservation \<Rightarrow> ApplicationObservation" where
  "notedApplication probe evidence observation = observation\<lparr>
     ao_ProbeNames := appendUnique (ao_ProbeNames observation) [pr_Name probe],
     ao_EvidenceIDs := appendUnique (ao_EvidenceIDs observation) [ev_ID evidence],
     ao_Provenance := addObservationProvenance probe evidence (ao_Provenance observation)\<rparr>"

definition limitApplication :: "string \<Rightarrow> ApplicationObservation \<Rightarrow> ApplicationObservation" where
  "limitApplication text observation =
     observation\<lparr>ao_Limitations := appendUnique (ao_Limitations observation) [text]\<rparr>"

definition timedApplication :: "ProbeResult \<Rightarrow> ApplicationObservation \<Rightarrow> ApplicationObservation" where
  "timedApplication probe observation =
     observation\<lparr>ao_Timing := mergeObservationTiming (ao_Timing observation) (pr_Timing probe)\<rparr>"

section \<open>The DNS service\<close>

definition dnsApplicationTransport :: "string \<Rightarrow> DNSApplicationTransportObservation" where
  "dnsApplicationTransport transport = zero_DNSApplicationTransportObservation\<lparr>
     dt_Transport := transport, dt_Outcome := DNSServiceOutcomeNotAttempted,
     dt_FailureReason := FailureReasonNone, dt_FaultDomain := FaultDomainDNS,
     dt_Certainty := ObservationCertaintyUnknown\<rparr>"

definition dnsServiceFailureReason :: "DNSServiceEvidence \<Rightarrow> FailureReason" where
  "dnsServiceFailureReason v =
     (let outcome = dse_Outcome v in
      if outcome = DNSServiceOutcomeSuccess \<or> outcome = DNSServiceOutcomeNegativeResponse
        \<or> outcome = DNSServiceOutcomeNotAttempted then FailureReasonNone
      else if outcome = DNSServiceOutcomeRefused then FailureReasonDNSServiceRefused
      else if outcome = DNSServiceOutcomeServfail then FailureReasonDNSServiceServfail
      else if outcome = DNSServiceOutcomeProtocolFailure then FailureReasonDNSServiceProtocolFailure
      else if outcome = DNSServiceOutcomeMalformedResponse then FailureReasonDNSServiceMalformedResponse
      else if outcome = DNSServiceOutcomeTruncatedResponse then FailureReasonDNSServiceTruncatedResponse
      else if outcome = DNSServiceOutcomeTimeout then FailureReasonDNSServiceTimeout
      else if outcome = DNSServiceOutcomeCancellation then FailureReasonDNSServiceCancellation
      else if outcome = DNSServiceOutcomeNoResolvedEndpoint then FailureReasonDNSServiceNoEndpoint
      else if outcome = DNSServiceOutcomeTransportFailure then FailureReasonDNSServiceTransportFailure
      else if dse_ResponseReceived v \<or> dse_Attempts v > 0 then FailureReasonDNSServiceProtocolFailure
      else FailureReasonNone)"

definition dnsServiceEndpoint :: "DNSServiceEvidence \<Rightarrow> 16 word \<Rightarrow> Endpoint option" where
  "dnsServiceEndpoint v port =
     (let raw = (if dse_Endpoint v = [] \<and> dse_ResolvedAddress v \<noteq> []
        then joinHostPort (dse_ResolvedAddress v) (portString port) else dse_Endpoint v) in
      map_option (\<lambda>e. e\<lparr>ep_SelectionReason := EndpointSelectionTransport,
        ep_Provenance := ''DNS service response endpoint'',
        ep_Certainty := ObservationCertaintyObserved\<rparr>) (concreteEndpoint raw port))"

definition firstDNSServiceFailure ::
    "DNSApplicationTransportObservation \<Rightarrow> DNSApplicationTransportObservation \<Rightarrow> FailureReason" where
  "firstDNSServiceFailure udp tcp =
     (if dt_FailureReason udp \<noteq> FailureReasonNone \<and> dt_FailureReason udp \<noteq> FailureReasonUnknown
        then dt_FailureReason udp
      else if dt_FailureReason tcp \<noteq> FailureReasonNone \<and> dt_FailureReason tcp \<noteq> FailureReasonUnknown
        then dt_FailureReason tcp
      else FailureReasonDNSServiceTransportFailure)"

definition dnsApplicationLaneSucceeded :: "DNSApplicationTransportObservation \<Rightarrow> bool" where
  "dnsApplicationLaneSucceeded lane \<longleftrightarrow> dt_Attempted lane \<and> dt_ResponseReceived lane
     \<and> (dt_Outcome lane = DNSServiceOutcomeSuccess \<or> dt_Outcome lane = DNSServiceOutcomeNegativeResponse)"

definition dnsLane ::
    "16 word \<Rightarrow> ProbeResult \<Rightarrow> Evidence \<Rightarrow> DNSServiceEvidence \<Rightarrow> DNSApplicationTransportObservation
      \<Rightarrow> DNSApplicationTransportObservation" where
  "dnsLane port probe evidence v lane = lane\<lparr>
     dt_Attempted := dse_Attempts v > 0,
     dt_ResponseReceived := dse_ResponseReceived v,
     dt_Outcome := dse_Outcome v,
     dt_RCode := dse_RCode v,
     dt_RCodeName := dse_RCodeName v,
     dt_TransactionID := dse_TransactionID v,
     dt_Truncated := dse_Truncated v,
     dt_QueryBytes := dse_QueryBytes v,
     dt_ResponseBytes := dse_ResponseBytes v,
     dt_QuestionCount := dse_QuestionCount v,
     dt_AnswerCount := dse_AnswerCount v,
     dt_AuthorityCount := dse_AuthorityCount v,
     dt_AdditionalCount := dse_AdditionalCount v,
     dt_Attempts := dse_Attempts v,
     dt_Fallback := dse_Fallback v,
     dt_FallbackReason := dse_FallbackReason v,
     dt_ErrorKind := dse_ErrorKind v,
     dt_FailureReason := dnsServiceFailureReason v,
     dt_FaultDomain := FaultDomainDNS,
     dt_Certainty := ObservationCertaintyObserved,
     dt_Timing := (dt_Timing lane)\<lparr>tm_DurationMS := dse_DurationMS v\<rparr>,
     dt_EndpointUsed := (case dnsServiceEndpoint v port of Some e \<Rightarrow> Some e | None \<Rightarrow> dt_EndpointUsed lane),
     dt_ProbeNames := appendUnique (dt_ProbeNames lane) [pr_Name probe],
     dt_EvidenceIDs := appendUnique (dt_EvidenceIDs lane) [ev_ID evidence],
     dt_Provenance := appendUnique (dt_Provenance lane) [''dns-service-wire'']\<rparr>"

text \<open>
  The code holds a pointer to the lane; here the lane is computed first and then put back. The pair
  is the application envelope and the DNS observation that its field \<open>DNS\<close> points to.
\<close>

type_synonym dnsState = "ApplicationObservation \<times> DNSApplicationObservation"

definition limitDNS :: "string \<Rightarrow> dnsState \<Rightarrow> dnsState" where
  "limitDNS text s = (fst s, (snd s)\<lparr>da_Limitations := appendUnique (da_Limitations (snd s)) [text]\<rparr>)"

definition dnsServiceNoted ::
    "Target \<Rightarrow> ProbeResult \<Rightarrow> Evidence \<Rightarrow> DNSServiceEvidence \<Rightarrow> bool \<Rightarrow> dnsState \<Rightarrow> dnsState" where
  "dnsServiceNoted target probe evidence v attempted s =
     (let application = fst s; d = snd s;
          used = (case dnsServiceEndpoint v (tg_Port target) of
              Some e \<Rightarrow> (if ao_EndpointUsed application = None \<and> dse_Success v then Some e
                else ao_EndpointUsed application)
            | None \<Rightarrow> ao_EndpointUsed application) in
      (timedApplication probe (notedApplication probe evidence (application\<lparr>ao_EndpointUsed := used\<rparr>)),
       d\<lparr>da_RequestAttempted := da_RequestAttempted d \<or> attempted,
         da_ResponseReceived := da_ResponseReceived d \<or> dse_ResponseReceived v,
         da_ProbeNames := appendUnique (da_ProbeNames d) [pr_Name probe],
         da_EvidenceIDs := appendUnique (da_EvidenceIDs d) [ev_ID evidence],
         da_Provenance := appendUnique (da_Provenance d) [''DNS service wire response''],
         da_Timing := mergeObservationTiming (da_Timing d) (pr_Timing probe)\<rparr>))"

definition dnsServiceStep :: "jsonCodec \<Rightarrow> Target \<Rightarrow> ProbeResult \<Rightarrow> Evidence \<Rightarrow> dnsState \<Rightarrow> dnsState" where
  "dnsServiceStep codec target probe evidence s =
     (if ev_Kind evidence \<noteq> EvidenceKindDNSService then s
      else case jd_DNSService codec (ev_Raw evidence) of
          Inl err \<Rightarrow> limitDNS (''DNS service evidence decode: '' @ err) s
        | Inr v \<Rightarrow>
            let d = snd s; lane = dnsLane (tg_Port target) probe evidence v in
            if equalFold (dse_Transport v) ''tcp''
            then dnsServiceNoted target probe evidence v (dse_Attempts v > 0)
              (fst s, d\<lparr>da_TCP := lane (da_TCP d)\<rparr>)
            else if equalFold (dse_Transport v) ''udp''
            then dnsServiceNoted target probe evidence v (dse_Attempts v > 0)
              (fst s, d\<lparr>da_UDP := lane (da_UDP d)\<rparr>)
            else limitDNS (''DNS service evidence has an unknown transport: '' @ dse_Transport v) s)"

definition dnsResult :: "dnsState \<Rightarrow> dnsState" where
  "dnsResult s =
     (let application = fst s; d = snd s; udp = dnsApplicationLaneSucceeded (da_UDP d);
          tcp = dnsApplicationLaneSucceeded (da_TCP d) in
      if \<not> (dt_Attempted (da_UDP d) \<or> dt_Attempted (da_TCP d)) then s
      else let d1 = d\<lparr>da_Certainty := ObservationCertaintyObserved\<rparr> in
        if udp \<and> tcp
        then (application\<lparr>ao_Result := HTTPResultSuccess\<rparr>, d1\<lparr>da_Result := DNSApplicationResultSuccess\<rparr>)
        else if udp \<noteq> tcp
        then (application\<lparr>ao_Result := HTTPResultPartial\<rparr>,
          d1\<lparr>da_Result := DNSApplicationResultPartial, da_Divergence := True\<rparr>)
        else (application\<lparr>ao_Result := HTTPResultRequestFailure\<rparr>,
          d1\<lparr>da_Result := DNSApplicationResultFailure\<rparr>))"

definition dnsFailure :: "dnsState \<Rightarrow> dnsState" where
  "dnsFailure s =
     (let application = fst s; d = snd s in
      if da_Divergence d then (application, d\<lparr>da_FailureReason := FailureReasonNone\<rparr>)
      else if da_Result d = DNSApplicationResultFailure
      then (let reason = firstDNSServiceFailure (da_UDP d) (da_TCP d) in
        (application\<lparr>ao_FailureReason := reason\<rparr>, d\<lparr>da_FailureReason := reason\<rparr>))
      else s)"

definition initialDNS :: "Target \<Rightarrow> DNSApplicationObservation" where
  "initialDNS target = zero_DNSApplicationObservation\<lparr>
     da_RequestedEndpoint := requestedEndpoint target, da_QueryName := DiagnosticQueryName,
     da_QueryType := DiagnosticQueryType, da_Result := DNSApplicationResultNotAttempted,
     da_UDP := dnsApplicationTransport ''udp'', da_TCP := dnsApplicationTransport ''tcp'',
     da_FailureReason := FailureReasonNone, da_FaultDomain := FaultDomainDNS,
     da_Certainty := ObservationCertaintyUnknown\<rparr>"

definition initialDNSApplication :: "Target \<Rightarrow> EndpointObservation \<Rightarrow> ApplicationObservation" where
  "initialDNSApplication target endpoint = zero_ApplicationObservation\<lparr>
     ao_Applicability := ObservationApplicabilityApplicable, ao_Protocol := ApplicationProtocolDNS,
     ao_Result := HTTPResultNotAttempted, ao_RequestedResource := tg_Resource target,
     ao_FailureReason := FailureReasonNone, ao_FaultDomain := FaultDomainDNS,
     ao_Certainty := ObservationCertaintyUnknown,
     ao_EndpointUsed := map_option cloneEndpointValue (eo_TestedEndpoint endpoint)\<rparr>"

definition buildDNSApplicationObservation ::
    "jsonCodec \<Rightarrow> Target \<Rightarrow> EndpointObservation \<Rightarrow> ProbeResult list \<Rightarrow> ApplicationObservation" where
  "buildDNSApplicationObservation codec target endpoint probes =
     (let s = dnsFailure (dnsResult (foldEvidence (dnsServiceStep codec target) probes
            (initialDNSApplication target endpoint, initialDNS target)));
          application = fst s; d = snd s in
      NormalizeApplicationObservation (application\<lparr>
        ao_ResponseReceived := da_ResponseReceived d,
        ao_RequestAttempted := da_RequestAttempted d,
        ao_Applicability := ObservationApplicabilityApplicable,
        ao_Certainty := da_Certainty d,
        ao_DNS := Some d\<rparr>))"

section \<open>SSH and RDP\<close>

definition protocolFaultDomain :: "ApplicationProtocol \<Rightarrow> FaultDomain" where
  "protocolFaultDomain protocol = (if protocol = ApplicationProtocolSSH then FaultDomainSSH else FaultDomainRDP)"

definition sshProtocolResult :: "string \<Rightarrow> bool \<Rightarrow> ApplicationProtocolResult" where
  "sshProtocolResult kind complete =
     (if complete then ApplicationProtocolResultSuccess
      else if kind = ''timeout'' then ApplicationProtocolResultTimeout
      else if kind = ''malformed'' \<or> kind = ''unsupported_version'' then ApplicationProtocolResultMalformed
      else ApplicationProtocolResultFailure)"

definition sshFailureReason :: "string \<Rightarrow> bool \<Rightarrow> FailureReason" where
  "sshFailureReason kind complete =
     (if complete then FailureReasonNone
      else if kind = ''timeout'' then FailureReasonSSHTimeout
      else if kind = ''malformed'' \<or> kind = ''unsupported_version'' then FailureReasonSSHBannerMalformed
      else if kind = ''non_ssh'' then FailureReasonSSHNonSSHResponse
      else if kind = ''handshake_failure'' then FailureReasonSSHHandshakeFailure
      else if kind \<in> {''transport_failure'', ''invalid_target'', ''canceled'', ''no_candidate''}
        then FailureReasonNone
      else FailureReasonSSHHandshakeFailure)"

definition rdpProtocolResult :: "string \<Rightarrow> bool \<Rightarrow> ApplicationProtocolResult" where
  "rdpProtocolResult responseType complete =
     (if complete then ApplicationProtocolResultSuccess
      else if responseType = ''timeout'' then ApplicationProtocolResultTimeout
      else if responseType = ''rejected'' then ApplicationProtocolResultRejected
      else if responseType = ''malformed'' then ApplicationProtocolResultMalformed
      else ApplicationProtocolResultFailure)"

definition rdpFailureReason :: "string \<Rightarrow> bool \<Rightarrow> FailureReason" where
  "rdpFailureReason responseType complete =
     (if complete then FailureReasonNone
      else if responseType = ''timeout'' then FailureReasonRDPTimeout
      else if responseType = ''rejected'' then FailureReasonRDPNegotiationRejected
      else if responseType = ''malformed'' then FailureReasonRDPNegotiationMalformed
      else if responseType = ''failure'' \<or> responseType = ''negotiation_failure''
        then FailureReasonRDPNegotiationFailure
      else FailureReasonNone)"

definition sshStep :: "ProbeResult \<Rightarrow> Evidence \<Rightarrow> sshApplicationEvidence \<Rightarrow> ApplicationObservation \<Rightarrow> ApplicationObservation" where
  "sshStep probe evidence v o0 = timedApplication probe (notedApplication probe evidence (o0\<lparr>
     ao_Protocol := ApplicationProtocolSSH,
     ao_TransportConnected := ao_TransportConnected o0 \<or> sae_TransportConnected v,
     ao_RequestAttempted := ao_RequestAttempted o0 \<or> sae_TransportConnected v,
     ao_HandshakeAttempted := ao_HandshakeAttempted o0 \<or> sae_TransportConnected v,
     ao_ResponseReceived := ao_ResponseReceived o0 \<or> sae_BannerReceived v,
     ao_HandshakeComplete := ao_HandshakeComplete o0 \<or> sae_BannerValid v,
     ao_ServerIdentification := orText (ao_ServerIdentification o0) (sae_ServerIdentification v),
     ao_ProtocolResult := sshProtocolResult (sae_ResponseClass v) (sae_BannerValid v),
     ao_FailureReason := sshFailureReason (sae_ResponseClass v) (sae_BannerValid v)\<rparr>))"

definition rdpStep :: "ProbeResult \<Rightarrow> Evidence \<Rightarrow> rdpApplicationEvidence \<Rightarrow> ApplicationObservation \<Rightarrow> ApplicationObservation" where
  "rdpStep probe evidence v o0 = timedApplication probe (notedApplication probe evidence (o0\<lparr>
     ao_Protocol := ApplicationProtocolRDP,
     ao_TransportConnected := ao_TransportConnected o0 \<or> rae_TransportConnected v,
     ao_RequestAttempted := ao_RequestAttempted o0 \<or> rae_TransportConnected v,
     ao_HandshakeAttempted := ao_HandshakeAttempted o0 \<or> rae_NegotiationAttempted v,
     ao_ResponseReceived := ao_ResponseReceived o0
       \<or> rae_ResponseType v \<noteq> ''timeout'' \<and> rae_ResponseType v \<noteq> ''transport_failure'',
     ao_HandshakeComplete := ao_HandshakeComplete o0 \<or> rae_NegotiationComplete v,
     ao_RequestedSecurityProtocols := appendUnique (ao_RequestedSecurityProtocols o0) (rae_RequestedProtocols v),
     ao_NegotiatedSecurityProtocol := orText (ao_NegotiatedSecurityProtocol o0) (rae_NegotiatedProtocol v),
     ao_ProtocolResult := rdpProtocolResult (rae_ResponseType v) (rae_NegotiationComplete v),
     ao_FailureReason := rdpFailureReason (rae_ResponseType v) (rae_NegotiationComplete v)\<rparr>))"

definition protocolStep :: "jsonCodec \<Rightarrow> ProbeResult \<Rightarrow> Evidence \<Rightarrow> ApplicationObservation \<Rightarrow> ApplicationObservation" where
  "protocolStep codec probe evidence o0 =
     (if ev_Kind evidence = EvidenceKindSSHHandshake then
        (case jd_SSH codec (ev_Raw evidence) of
           Inl err \<Rightarrow> limitApplication (''SSH handshake evidence decode: '' @ err) o0
         | Inr v \<Rightarrow> sshStep probe evidence v o0)
      else if ev_Kind evidence = EvidenceKindRDPNegotiation then
        (case jd_RDP codec (ev_Raw evidence) of
           Inl err \<Rightarrow> limitApplication (''RDP negotiation evidence decode: '' @ err) o0
         | Inr v \<Rightarrow> rdpStep probe evidence v o0)
      else o0)"

definition targetProtocol :: "Target \<Rightarrow> ApplicationProtocol" where
  "targetProtocol target =
     (if tg_ApplicationProtocol target \<noteq> [] then tg_ApplicationProtocol target
      else if sp_ID (tg_Service target) = ServiceProfileSSH then ApplicationProtocolSSH
      else if sp_ID (tg_Service target) = ServiceProfileRDP then ApplicationProtocolRDP
      else tg_ApplicationProtocol target)"

definition initialProtocol ::
    "Target \<Rightarrow> EndpointObservation \<Rightarrow> TransportObservation \<Rightarrow> ApplicationObservation" where
  "initialProtocol target endpoint transport = zero_ApplicationObservation\<lparr>
     ao_Applicability := ObservationApplicabilityApplicable, ao_Protocol := targetProtocol target,
     ao_ProtocolResult := ApplicationProtocolResultNotAttempted, ao_Result := HTTPResultNotAttempted,
     ao_FailureReason := FailureReasonNone, ao_FaultDomain := protocolFaultDomain (targetProtocol target),
     ao_Certainty := ObservationCertaintyUnknown, ao_RequestedResource := tg_Resource target,
     ao_EndpointUsed := usedEndpoint transport endpoint\<rparr>"

definition buildProtocolApplicationObservation ::
    "jsonCodec \<Rightarrow> Target \<Rightarrow> EndpointObservation \<Rightarrow> TransportObservation \<Rightarrow> ProbeResult list \<Rightarrow> ApplicationObservation" where
  "buildProtocolApplicationObservation codec target endpoint transport probes =
     (let o0 = foldEvidence (protocolStep codec) probes (initialProtocol target endpoint transport) in
      NormalizeApplicationObservation
        (if ao_RequestAttempted o0
         then o0\<lparr>ao_Applicability := ObservationApplicabilityApplicable, ao_Certainty := ObservationCertaintyObserved\<rparr>
         else o0\<lparr>ao_Applicability := ObservationApplicabilityNotAttempted, ao_Certainty := ObservationCertaintyObserved\<rparr>))"

section \<open>HTTP and SMB\<close>

record applicationState =
  as_observation :: ApplicationObservation
  as_statuses :: "sourceValue list"
  as_results :: "sourceValue list"
  as_urls :: "sourceValue list"
  as_seenHTTP :: bool
  as_seenSMB :: bool

definition smbFailureResult :: "FailureReason \<Rightarrow> SMBResult" where
  "smbFailureResult reason =
     (if reason = FailureReasonSMBTimeout then SMBResultTimeout
      else if reason = FailureReasonSMBProtocolRejection then SMBResultProtocolRejection
      else if reason = FailureReasonSMBMalformedResponse then SMBResultMalformedResponse
      else if reason = FailureReasonTCPTimeout \<or> reason = FailureReasonTCPConnectionRefused
        \<or> reason = FailureReasonSMBConnectionRefused then SMBResultTCPFailure
      else SMBResultUnknown)"

definition smbNegotiation :: "NegotiationEvidence \<Rightarrow> SMBApplicationObservation \<Rightarrow> SMBApplicationObservation" where
  "smbNegotiation v smb =
     (if sne_Negotiated v then smb\<lparr>
        sm_Result := SMBResultNegotiated, sm_Negotiated := True, sm_Dialect := sne_Dialect v,
        sm_DialectRevision := sne_DialectRevision v, sm_Capabilities := [] @ sne_Capabilities v,
        sm_ServerGUID := sne_ServerGUID v, sm_SecurityMode := sne_SecurityMode v,
        sm_MaxTransactSize := sne_MaxTransactSize v, sm_MaxReadSize := sne_MaxReadSize v,
        sm_MaxWriteSize := sne_MaxWriteSize v, sm_ResponseBytes := sne_ResponseBytes v\<rparr>
      else smb\<lparr>sm_Result := smbFailureResult (sne_FailureReason v)\<rparr>)"

definition smbFields :: "ProbeResult \<Rightarrow> NegotiationEvidence \<Rightarrow> ApplicationObservation \<Rightarrow> ApplicationObservation" where
  "smbFields probe v o0 =
     (let reason = sne_FailureReason v;
          smb = (case ao_SMB o0 of
              None \<Rightarrow> zero_SMBApplicationObservation\<lparr>sm_Result := SMBResultUnknown\<rparr> | Some smb \<Rightarrow> smb) in
      timedApplication probe (o0\<lparr>
        ao_SMB := Some (smbNegotiation v smb),
        ao_ResponseReceived := ao_ResponseReceived o0 \<or> sne_ResponseReceived v,
        ao_FailureReason := (if openReason (ao_FailureReason o0) then reason else ao_FailureReason o0),
        ao_FaultDomain := (if ao_FaultDomain o0 = FaultDomainSMB \<and> (reason = FailureReasonTCPTimeout
            \<or> reason = FailureReasonTCPConnectionRefused \<or> reason = FailureReasonSMBConnectionRefused)
          then FaultDomainTransport else ao_FaultDomain o0)\<rparr>))"

definition smbStep :: "jsonCodec \<Rightarrow> ProbeResult \<Rightarrow> Evidence \<Rightarrow> applicationState \<Rightarrow> applicationState" where
  "smbStep codec probe evidence s =
     (let o0 = notedApplication probe evidence ((as_observation s)\<lparr>ao_RequestAttempted := True\<rparr>) in
      s\<lparr>as_seenSMB := True, as_observation := (case jd_SMB codec (ev_Raw evidence) of
          Inl err \<Rightarrow> limitApplication (''SMB negotiation evidence decode: '' @ err) o0
        | Inr v \<Rightarrow> smbFields probe v o0)\<rparr>)"

definition httpResponseFields :: "httpResponseEvidence \<Rightarrow> ApplicationObservation \<Rightarrow> ApplicationObservation" where
  "httpResponseFields v o0 =
     (let o1 = o0\<lparr>
            ao_ResponseReceived := ao_ResponseReceived o0 \<or> hre_ResponseReceived v,
            ao_HTTPVersion := orText (ao_HTTPVersion o0) (hre_Protocol v),
            ao_StatusCode := (if ao_StatusCode o0 = 0 then hre_StatusCode v else ao_StatusCode o0),
            ao_Status := orText (ao_Status o0) (hre_Status v),
            ao_URL := orText (ao_URL o0) (hre_URL v),
            ao_Redirects := appendHTTPRedirects (ao_Redirects o0) (hre_Redirects v)\<rparr> in
      if hre_ResponseReceived v
      then (if hre_StatusCode v \<ge> 400
        then o1\<lparr>ao_Result := HTTPResultStatusFailure, ao_FailureReason := FailureReasonHTTPStatusCode\<rparr>
        else o1\<lparr>ao_Result := HTTPResultSuccess\<rparr>)
      else o1\<lparr>ao_FailureReason := FailureReasonHTTPFailure\<rparr>)"

definition httpResponseStep ::
    "jsonCodec \<Rightarrow> ProbeResult \<Rightarrow> Evidence \<Rightarrow> applicationState \<Rightarrow> applicationState" where
  "httpResponseStep codec probe evidence s =
     (let source = (\<lambda>v. sourceOf v probe (ev_ID evidence)) in
      case jd_HTTPResponse codec (ev_Raw evidence) of
        Inl err \<Rightarrow> s\<lparr>as_observation := limitApplication (''HTTP response evidence decode: '' @ err) (as_observation s)\<rparr>
      | Inr v \<Rightarrow>
          let o1 = httpResponseFields v (as_observation s) in
          s\<lparr>as_statuses := as_statuses s @ (if hre_ResponseReceived v then [source (formatInt (hre_StatusCode v))] else []),
            as_results := as_results s @ (if hre_ResponseReceived v then [source (ao_Result o1)] else []),
            as_urls := as_urls s @ [source (hre_URL v)],
            as_observation := timedApplication probe o1\<rparr>)"

definition httpErrorFields :: "httpErrorEvidence \<Rightarrow> ApplicationObservation \<Rightarrow> ApplicationObservation" where
  "httpErrorFields v o0 = o0\<lparr>
     ao_ResponseReceived := ao_ResponseReceived o0 \<or> hee_ResponseReceived v,
     ao_URL := orText (ao_URL o0) (hee_URL v),
     ao_Redirects := appendHTTPRedirects (ao_Redirects o0) (hee_Redirects v),
     ao_Result := HTTPResultRequestFailure,
     ao_FailureReason := FailureReasonHTTPFailure\<rparr>"

definition httpErrorStep ::
    "jsonCodec \<Rightarrow> ProbeResult \<Rightarrow> Evidence \<Rightarrow> applicationState \<Rightarrow> applicationState" where
  "httpErrorStep codec probe evidence s =
     (let source = (\<lambda>v. sourceOf v probe (ev_ID evidence)) in
      case jd_HTTPError codec (ev_Raw evidence) of
        Inl err \<Rightarrow> s\<lparr>as_observation := limitApplication (''HTTP error evidence decode: '' @ err) (as_observation s)\<rparr>
      | Inr v \<Rightarrow>
          s\<lparr>as_results := as_results s @ [source HTTPResultRequestFailure],
            as_urls := as_urls s @ [source (hee_URL v)],
            as_observation := timedApplication probe (httpErrorFields v (as_observation s))\<rparr>)"

definition applicationEvidenceStep ::
    "jsonCodec \<Rightarrow> ProbeResult \<Rightarrow> Evidence \<Rightarrow> applicationState \<Rightarrow> applicationState" where
  "applicationEvidenceStep codec probe evidence s0 =
     (if ev_Kind evidence = EvidenceKindSMBNegotiation then smbStep codec probe evidence s0
      else if ev_Kind evidence \<noteq> EvidenceKindHTTPResponse \<and> ev_Kind evidence \<noteq> EvidenceKindHTTPError then s0
      else let s = s0\<lparr>as_seenHTTP := True,
             as_observation := notedApplication probe evidence ((as_observation s0)\<lparr>ao_RequestAttempted := True\<rparr>)\<rparr> in
        if ev_Kind evidence = EvidenceKindHTTPResponse then httpResponseStep codec probe evidence s
        else httpErrorStep codec probe evidence s)"

definition applicationProbeStep :: "jsonCodec \<Rightarrow> ProbeResult \<Rightarrow> applicationState \<Rightarrow> applicationState" where
  "applicationProbeStep codec probe s0 =
     (let s = fold (applicationEvidenceStep codec probe) (pr_Evidence probe) s0 in
      if pr_Name probe = ''http'' \<and> \<not> as_seenHTTP s
      then s\<lparr>as_seenHTTP := True, as_observation := timedApplication probe ((as_observation s)\<lparr>
        ao_RequestAttempted := True, ao_Result := HTTPResultRequestFailure,
        ao_FailureReason := pin_FailureReason (pr_Interpretation probe)\<rparr>)\<rparr>
      else s)"

definition initialApplication ::
    "Target \<Rightarrow> EndpointObservation \<Rightarrow> TransportObservation \<Rightarrow> ProbeResult list \<Rightarrow> ApplicationObservation" where
  "initialApplication target endpoint transport probes =
     (let smb = tg_ApplicationProtocol target = ApplicationProtocolSMB
        \<or> sp_ID (tg_Service target) = ServiceProfileSMB in
      zero_ApplicationObservation\<lparr>
        ao_Protocol := tg_ApplicationProtocol target,
        ao_Applicability := (if smb then smbApplicability target probes else httpApplicability target probes),
        ao_RequestedResource := tg_Resource target,
        ao_Result := HTTPResultNotAttempted,
        ao_FailureReason := FailureReasonNone,
        ao_FaultDomain := (if smb then FaultDomainSMB else FaultDomainHTTP),
        ao_Certainty := ObservationCertaintyUnknown,
        ao_EndpointUsed := usedEndpoint transport endpoint\<rparr>)"

definition applicationConflicts ::
    "TransportObservation \<Rightarrow> applicationState \<Rightarrow> ObservationConflict list \<Rightarrow> ObservationConflict list" where
  "applicationConflicts transport s conflicts =
     (let endpoints = (case ao_EndpointUsed (as_observation s) of
          None \<Rightarrow> []
        | Some e \<Rightarrow> [\<lparr>sv_value = endpointKey e, sv_probe = ''transport-observation'',
            sv_evidenceID = firstEvidenceID (tpo_EvidenceIDs transport)\<rparr>]) in
      noteConflict ''application.endpoint_used'' endpoints
        (noteConflict ''application.url'' (as_urls s)
          (noteConflict ''application.result'' (as_results s)
            (noteConflict ''application.status_code'' (as_statuses s) conflicts))))"

definition settleApplication :: "bool \<Rightarrow> ApplicationObservation \<Rightarrow> ApplicationObservation" where
  "settleApplication seen o0 =
     (if seen
      then o0\<lparr>ao_Applicability := ObservationApplicabilityApplicable, ao_Certainty := ObservationCertaintyObserved\<rparr>
      else if ao_Applicability o0 = ObservationApplicabilityInapplicable
      then o0\<lparr>ao_Certainty := ObservationCertaintyDerived\<rparr>
      else if ao_Applicability o0 = ObservationApplicabilityUnsupported
      then o0\<lparr>ao_Result := HTTPResultUnsupported, ao_FailureReason := FailureReasonUnsupported,
        ao_Certainty := ObservationCertaintyUnsupported\<rparr>
      else o0\<lparr>ao_Applicability := ObservationApplicabilityNotAttempted\<rparr>)"

definition buildWebApplicationObservation ::
    "jsonCodec \<Rightarrow> Target \<Rightarrow> EndpointObservation \<Rightarrow> TransportObservation \<Rightarrow> ProbeResult list \<Rightarrow> ApplicationObservation" where
  "buildWebApplicationObservation codec target endpoint transport probes =
     (let s = fold (applicationProbeStep codec) probes
            \<lparr>as_observation = initialApplication target endpoint transport probes, as_statuses = [],
             as_results = [], as_urls = [], as_seenHTTP = False, as_seenSMB = False\<rparr>;
          o0 = as_observation s in
      NormalizeApplicationObservation (settleApplication (as_seenHTTP s \<or> as_seenSMB s)
        (o0\<lparr>ao_Conflicts := applicationConflicts transport s (ao_Conflicts o0)\<rparr>)))"

definition buildApplicationObservation ::
    "jsonCodec \<Rightarrow> Target \<Rightarrow> EndpointObservation \<Rightarrow> TransportObservation \<Rightarrow> ProbeResult list \<Rightarrow> ApplicationObservation" where
  "buildApplicationObservation codec target endpoint transport probes =
     (if isDNSServiceTarget target probes then buildDNSApplicationObservation codec target endpoint probes
      else if tg_ApplicationProtocol target = ApplicationProtocolSSH
        \<or> tg_ApplicationProtocol target = ApplicationProtocolRDP \<or> hasProtocolEvidence probes
      then buildProtocolApplicationObservation codec target endpoint transport probes
      else buildWebApplicationObservation codec target endpoint transport probes)"

end
