(* ===== verification/BuilderPaths.thy ===== *)
theory BuilderPaths
  imports BuilderApplication GoMaps
begin

text \<open>
  \<open>internal/observations/builder.go\<close>: the two lanes of path observations and packet flows with
  their provenance, the conflicts within a lane and the divergences between the lanes.
\<close>

section \<open>Decoding and sorting\<close>

record pathObservationRecord =
  por_value :: PathObservation
  por_provenance :: ObservationProvenance
  por_evidenceID :: string
  por_probeName :: string

record packetFlowRecord =
  pfr_value :: PacketFlowEvidence
  pfr_provenance :: ObservationProvenance
  pfr_evidenceID :: string
  pfr_probeName :: string

definition DecodePathObservation :: "jsonCodec \<Rightarrow> Evidence \<Rightarrow> PathObservation result" where
  "DecodePathObservation codec evidence =
     (if ev_Kind evidence \<noteq> EvidenceKindPathObservation
      then Inl (''evidence '' @ quote (ev_Kind evidence) @ '' is not a path observation'')
      else case jd_Path codec (ev_Raw evidence) of
          Inl err \<Rightarrow> Inl (''decode path observation: '' @ err)
        | Inr observation \<Rightarrow> Inr observation)"

definition normalizePathObservation :: "PathObservation \<Rightarrow> PathObservation" where
  "normalizePathObservation observation = observation\<lparr>
     pto_Destination := normalizeAddress (pto_Destination observation),
     pto_Hops := map (\<lambda>hop. hop\<lparr>pth_Responders := map NormalizePathResponder (pth_Responders hop)\<rparr>)
       (pto_Hops observation),
     pto_Segments := map (\<lambda>segment. segment\<lparr>pts_Responders := map NormalizePathResponder (pts_Responders segment)\<rparr>)
       (pto_Segments observation)\<rparr>"

definition pathObservationSortKey :: "jsonCodec \<Rightarrow> PathObservation \<Rightarrow> string" where
  "pathObservationSortKey codec observation = joinStr ''|'' [normalizeAddress (pto_Destination observation),
     portString (pto_DestinationPort observation), pto_Protocol observation, pto_Status observation,
     je_Path codec observation]"

text \<open>The address that \<open>packetFlowSortKey\<close> and \<open>packetFlowKey\<close> read from the target of a flow.\<close>

definition flowDestination :: "PacketFlowEvidence \<Rightarrow> string" where
  "flowDestination flow =
     (case tg_SelectedEndpoint (pkf_Target flow) of
        Some e \<Rightarrow> ep_Address e
      | None \<Rightarrow> (if tg_LiteralIP (pkf_Target flow) \<noteq> [] then tg_LiteralIP (pkf_Target flow)
          else tg_RequestedIdentity (pkf_Target flow)))"

definition packetFlowSortKey :: "jsonCodec \<Rightarrow> PacketFlowEvidence \<Rightarrow> string" where
  "packetFlowSortKey codec flow = joinStr ''|'' [normalizeAddress (flowDestination flow),
     portString (tg_Port (pkf_Target flow)), pkf_CorrelationID flow, pkf_CaptureStatus flow,
     pkf_Outcome flow, je_PacketFlow codec flow]"

definition observationSourceKey :: "ObservationProvenance \<Rightarrow> string \<Rightarrow> string" where
  "observationSourceKey provenance evidenceID =
     joinStr ''|'' [opv_ProbeName provenance, opv_ProbeID provenance, opv_Source provenance, evidenceID]"

definition pathRecordLess :: "jsonCodec \<Rightarrow> pathObservationRecord \<Rightarrow> pathObservationRecord \<Rightarrow> bool" where
  "pathRecordLess codec left right =
     (let leftKey = pathObservationSortKey codec (por_value left);
          rightKey = pathObservationSortKey codec (por_value right) in
      if leftKey \<noteq> rightKey then leftKey < rightKey
      else observationSourceKey (por_provenance left) (por_evidenceID left)
        < observationSourceKey (por_provenance right) (por_evidenceID right))"

definition flowRecordLess :: "jsonCodec \<Rightarrow> packetFlowRecord \<Rightarrow> packetFlowRecord \<Rightarrow> bool" where
  "flowRecordLess codec left right =
     (let leftKey = packetFlowSortKey codec (pfr_value left);
          rightKey = packetFlowSortKey codec (pfr_value right) in
      if leftKey \<noteq> rightKey then leftKey < rightKey
      else observationSourceKey (pfr_provenance left) (pfr_evidenceID left)
        < observationSourceKey (pfr_provenance right) (pfr_evidenceID right))"

section \<open>Collecting the records\<close>

definition evidenceProvenance :: "ProbeResult \<Rightarrow> Evidence \<Rightarrow> ObservationProvenance" where
  "evidenceProvenance probe evidence = \<lparr>
     opv_ProbeName = pr_Name probe, opv_ProbeID = pr_ProbeID probe,
     opv_Source = (if ev_Source evidence = [] then pr_Name probe else ev_Source evidence),
     opv_EvidenceIDs = [ev_ID evidence]\<rparr>"

definition pathRecord :: "jsonCodec \<Rightarrow> ProbeResult \<Rightarrow> Evidence \<Rightarrow> pathObservationRecord list" where
  "pathRecord codec probe evidence =
     (if ev_Kind evidence \<noteq> EvidenceKindPathObservation then []
      else case DecodePathObservation codec evidence of
          Inl err \<Rightarrow> []
        | Inr observation \<Rightarrow> [\<lparr>por_value = normalizePathObservation observation,
            por_provenance = evidenceProvenance probe evidence, por_evidenceID = ev_ID evidence,
            por_probeName = pr_Name probe\<rparr>])"

definition flowRecord :: "jsonCodec \<Rightarrow> ProbeResult \<Rightarrow> Evidence \<Rightarrow> packetFlowRecord list" where
  "flowRecord codec probe evidence =
     (if ev_Kind evidence \<noteq> EvidenceKindPacketFlow then []
      else case DecodePacketFlowEvidence codec evidence of
          Inl err \<Rightarrow> []
        | Inr flow \<Rightarrow> [\<lparr>pfr_value = flow, pfr_provenance = evidenceProvenance probe evidence,
            pfr_evidenceID = ev_ID evidence, pfr_probeName = pr_Name probe\<rparr>])"

definition pathRecords :: "jsonCodec \<Rightarrow> ProbeResult list \<Rightarrow> pathObservationRecord list" where
  "pathRecords codec probes = sortBy (pathRecordLess codec)
     (foldEvidence (\<lambda>probe evidence records. records @ pathRecord codec probe evidence) probes [])"

definition flowRecords :: "jsonCodec \<Rightarrow> ProbeResult list \<Rightarrow> packetFlowRecord list" where
  "flowRecords codec probes = sortBy (flowRecordLess codec)
     (foldEvidence (\<lambda>probe evidence records. records @ flowRecord codec probe evidence) probes [])"

section \<open>Conflicts\<close>

definition flowProtocolOf :: "PacketProtocol \<Rightarrow> PathProtocol" where
  "flowProtocolOf protocol =
     (if protocol = PacketProtocolTCP then PathProtocolTCP
      else if protocol = PacketProtocolICMP then PathProtocolICMP else [])"

text \<open>The loop over the observations: \<open>None\<close> is the early return on two different protocols.\<close>

fun observedProtocol :: "PacketObservation list \<Rightarrow> PathProtocol \<Rightarrow> PathProtocol option" where
  "observedProtocol [] protocol = Some protocol"
| "observedProtocol (observation # rest) protocol =
     (let candidate = flowProtocolOf (pko_Protocol observation) in
      if candidate = [] then observedProtocol rest protocol
      else if protocol = [] then observedProtocol rest candidate
      else if protocol \<noteq> candidate then None
      else observedProtocol rest protocol)"

definition flowProtocol :: "PacketFlowEvidence \<Rightarrow> PathProtocol" where
  "flowProtocol flow =
     (case observedProtocol (pkf_Observations flow) [] of
        None \<Rightarrow> []
      | Some protocol \<Rightarrow>
          let outcome = pkf_Outcome flow in
          if protocol \<noteq> [] then protocol
          else if outcome \<in> {PacketFlowOutcomeTCPHandshakeConfirmed, PacketFlowOutcomeTCPSYNACK, PacketFlowOutcomeTCPRST}
            then PathProtocolTCP
          else if outcome \<in> {PacketFlowOutcomeICMPEchoReply, PacketFlowOutcomeICMPTimeExceeded, PacketFlowOutcomeICMPUnreachable}
            then PathProtocolICMP
          else [])"

definition pathObservationKey :: "PathObservation \<Rightarrow> string" where
  "pathObservationKey observation = joinStr '':'' [normalizeAddress (pto_Destination observation),
     portString (pto_DestinationPort observation), pto_Protocol observation]"

definition packetFlowKey :: "PacketFlowEvidence \<Rightarrow> string" where
  "packetFlowKey flow = joinStr '':'' [normalizeAddress (flowDestination flow),
     portString (tg_Port (pkf_Target flow)), flowProtocol flow]"

definition observationProbeProvenance :: "ObservationProvenance \<Rightarrow> string" where
  "observationProbeProvenance provenance =
     (if opv_ProbeName provenance \<noteq> [] then ''probe:'' @ opv_ProbeName provenance
      else ''source:'' @ opv_Source provenance)"

definition appendPathFieldConflicts ::
    "ObservationConflict list \<Rightarrow> string \<Rightarrow> pathObservationRecord list \<Rightarrow> string
      \<Rightarrow> (PathObservation \<Rightarrow> string) \<Rightarrow> ObservationConflict list" where
  "appendPathFieldConflicts destination key grp field value =
     (let found = fold (\<lambda>r found. appendUnique found [value (por_value r)]) grp [] in
      if length found < 2 then destination
      else destination @ [\<lparr>oc_Field = ''path['' @ key @ ''].'' @ field, oc_Values = found,
        oc_Provenance = fold (\<lambda>r p. appendUnique p [observationProbeProvenance (por_provenance r)]) grp [],
        oc_EvidenceIDs = fold (\<lambda>r ids. appendUnique ids [por_evidenceID r]) grp []\<rparr>])"

definition appendFlowFieldConflicts ::
    "ObservationConflict list \<Rightarrow> string \<Rightarrow> packetFlowRecord list \<Rightarrow> string
      \<Rightarrow> (PacketFlowEvidence \<Rightarrow> string) \<Rightarrow> ObservationConflict list" where
  "appendFlowFieldConflicts destination key grp field value =
     (let found = fold (\<lambda>r found. appendUnique found [value (pfr_value r)]) grp [] in
      if length found < 2 then destination
      else destination @ [\<lparr>oc_Field = ''packet_flow['' @ key @ ''].'' @ field, oc_Values = found,
        oc_Provenance = fold (\<lambda>r p. appendUnique p [observationProbeProvenance (pfr_provenance r)]) grp [],
        oc_EvidenceIDs = fold (\<lambda>r ids. appendUnique ids [pfr_evidenceID r]) grp []\<rparr>])"

text \<open>
  The keys of a map in the order of their texts; the order in which the range visits the map is lost
  in the sort.
\<close>

definition sortedKeys :: "(string \<times> 'g) list \<Rightarrow> string list" where
  "sortedKeys groups = sortStrings (map fst groups)"

definition groupsOf :: "('r \<Rightarrow> string) \<Rightarrow> 'r list \<Rightarrow> (string \<times> 'r list) list" where
  "groupsOf key records = accumulate key (\<lambda>r. []) (\<lambda>r grp. grp @ [r]) records"

definition groupAt :: "(string \<times> 'r list) list \<Rightarrow> string \<Rightarrow> 'r list" where
  "groupAt groups key = (case map_of groups key of None \<Rightarrow> [] | Some grp \<Rightarrow> grp)"

definition pathGroupConflicts ::
    "string \<Rightarrow> pathObservationRecord list \<Rightarrow> ObservationConflict list \<Rightarrow> ObservationConflict list" where
  "pathGroupConflicts key grp c0 =
     (let c1 = appendPathFieldConflicts c0 key grp ''status'' pto_Status;
          c2 = appendPathFieldConflicts c1 key grp ''destination_reached''
            (\<lambda>value. boolString (pto_DestinationReached value)) in
      appendPathFieldConflicts c2 key grp ''destination_tcp_connected''
        (\<lambda>value. boolString (pto_DestinationTCPConnected value)))"

definition flowGroupConflicts ::
    "string \<Rightarrow> packetFlowRecord list \<Rightarrow> ObservationConflict list \<Rightarrow> ObservationConflict list" where
  "flowGroupConflicts key grp c0 =
     (let c1 = appendFlowFieldConflicts c0 key grp ''outcome'' pkf_Outcome;
          c2 = appendFlowFieldConflicts c1 key grp ''capture_status'' pkf_CaptureStatus in
      appendFlowFieldConflicts c2 key grp ''probe_emission'' pkf_ProbeEmission)"

definition pathFlowConflicts ::
    "pathObservationRecord list \<Rightarrow> packetFlowRecord list \<Rightarrow> ObservationConflict list" where
  "pathFlowConflicts paths flows =
     (let pathGroups = groupsOf (\<lambda>r. pathObservationKey (por_value r)) paths;
          flowGroups = groupsOf (\<lambda>r. packetFlowKey (pfr_value r)) flows;
          c1 = fold (\<lambda>key. pathGroupConflicts key (groupAt pathGroups key)) (sortedKeys pathGroups) [] in
      fold (\<lambda>key. flowGroupConflicts key (groupAt flowGroups key)) (sortedKeys flowGroups) c1)"

section \<open>Divergences\<close>

definition pathFlowKeysMatch :: "PathObservation \<Rightarrow> PacketFlowEvidence \<Rightarrow> bool" where
  "pathFlowKeysMatch path flow \<longleftrightarrow>
     pto_DestinationPort path = tg_Port (pkf_Target flow) \<and> pto_Protocol path = flowProtocol flow
     \<and> (normalizeAddress (pto_Destination path) = normalizeAddress (tg_LiteralIP (pkf_Target flow))
       \<or> normalizeAddress (pto_Destination path) = normalizeAddress (tg_RequestedIdentity (pkf_Target flow))
       \<or> MatchesAddress (pkf_Target flow) (pto_Destination path))"

definition pathConfirmation :: "PathObservation \<Rightarrow> string option" where
  "pathConfirmation observation =
     (if pto_Status observation \<noteq> PathObservationStatusObserved then None
      else if pto_DestinationReached observation \<or> pto_DestinationTCPConnected observation
      then Some ''confirmed'' else Some ''not_confirmed'')"

definition packetFlowConfirmation :: "PacketFlowEvidence \<Rightarrow> PathProtocol \<Rightarrow> string option" where
  "packetFlowConfirmation flow protocol =
     (let outcome = pkf_Outcome flow in
      if flowProtocol flow \<noteq> protocol \<or> pkf_CaptureStatus flow \<noteq> PacketCaptureStatusAvailable then None
      else if outcome \<in> {PacketFlowOutcomeTCPHandshakeConfirmed, PacketFlowOutcomeTCPSYNACK,
        PacketFlowOutcomeTCPRST, PacketFlowOutcomeICMPEchoReply} then Some ''confirmed''
      else if outcome \<in> {PacketFlowOutcomeICMPTimeExceeded, PacketFlowOutcomeICMPUnreachable,
        PacketFlowOutcomeNoMatchingResponse} then Some ''not_confirmed''
      else None)"

definition diverges :: "PathObservation \<Rightarrow> PacketFlowEvidence \<Rightarrow> bool" where
  "diverges path flow \<longleftrightarrow> pathFlowKeysMatch path flow \<and> (case pathConfirmation path of
     None \<Rightarrow> False
   | Some pathValue \<Rightarrow> (case packetFlowConfirmation flow (pto_Protocol path) of
       None \<Rightarrow> False | Some flowValue \<Rightarrow> pathValue \<noteq> flowValue))"

definition divergentPairs ::
    "pathObservationRecord list \<Rightarrow> packetFlowRecord list \<Rightarrow> (pathObservationRecord \<times> packetFlowRecord) list" where
  "divergentPairs paths flows =
     filter (\<lambda>(path, flow). diverges (por_value path) (pfr_value flow)) (List.product paths flows)"

text \<open>A group is the divergence itself, its field the key until the end.\<close>

definition addDivergence ::
    "pathObservationRecord \<times> packetFlowRecord \<Rightarrow> ObservationDivergence \<Rightarrow> ObservationDivergence" where
  "addDivergence pair grp =
     (let path = fst pair; flow = snd pair;
          pathValue = the (pathConfirmation (por_value path));
          flowValue = the (packetFlowConfirmation (pfr_value flow) (pto_Protocol (por_value path))) in
      grp\<lparr>
        od_PathValues := appendUnique (od_PathValues grp) [pathValue],
        od_PacketFlowValues := appendUnique (od_PacketFlowValues grp) [flowValue],
        od_PathProvenance := appendUnique (od_PathProvenance grp) [observationProbeProvenance (por_provenance path)],
        od_PacketFlowProvenance := appendUnique (od_PacketFlowProvenance grp)
          [observationProbeProvenance (pfr_provenance flow)],
        od_PathEvidenceIDs := appendUnique (od_PathEvidenceIDs grp) [por_evidenceID path],
        od_PacketFlowEvidenceIDs := appendUnique (od_PacketFlowEvidenceIDs grp) [pfr_evidenceID flow]\<rparr>)"

definition divergenceGroups ::
    "pathObservationRecord list \<Rightarrow> packetFlowRecord list \<Rightarrow> (string \<times> ObservationDivergence) list" where
  "divergenceGroups paths flows =
     accumulate (\<lambda>pair. pathObservationKey (por_value (fst pair)))
       (\<lambda>pair. zero_ObservationDivergence\<lparr>od_Field :=
         ''destination_confirmation['' @ pathObservationKey (por_value (fst pair)) @ '']''\<rparr>)
       addDivergence (divergentPairs paths flows)"

definition pathFlowDivergences ::
    "pathObservationRecord list \<Rightarrow> packetFlowRecord list \<Rightarrow> ObservationDivergence list" where
  "pathFlowDivergences paths flows =
     (let groups = divergenceGroups paths flows in
      map (\<lambda>key. the (map_of groups key)) (sortedKeys groups))"

section \<open>The lanes\<close>

record pathFlowObservations =
  pfo_Paths :: "PathObservation list"
  pfo_PacketFlows :: "PacketFlowEvidence list"
  pfo_PathProvenance :: "ObservationProvenance list"
  pfo_PacketFlowProvenance :: "ObservationProvenance list"
  pfo_PathCorrelations :: "PathCorrelation list"
  pfo_Conflicts :: "ObservationConflict list"
  pfo_Divergences :: "ObservationDivergence list"

definition buildPathFlowObservations ::
    "jsonCodec \<Rightarrow> (PathCorrelation list \<Rightarrow> PathCorrelation list) \<Rightarrow> ProbeResult list \<Rightarrow> pathFlowObservations" where
  "buildPathFlowObservations codec arrange probes =
     (let paths = pathRecords codec probes; flows = flowRecords codec probes in
      \<lparr>pfo_Paths = map por_value paths, pfo_PacketFlows = map pfr_value flows,
       pfo_PathProvenance = map por_provenance paths, pfo_PacketFlowProvenance = map pfr_provenance flows,
       pfo_PathCorrelations = CorrelatePathObservations arrange (map por_value paths),
       pfo_Conflicts = pathFlowConflicts paths flows,
       pfo_Divergences = pathFlowDivergences paths flows\<rparr>)"

end
