(* ===== verification/BuilderNames.thy ===== *)
theory BuilderNames
  imports BuilderPaths
begin

text \<open>
  \<open>internal/observations/builder.go\<close>: the name resolution observation, merged from the
  observations of the probes, the resolution evidence and the two shapes of the DNS configuration
  evidence.
\<close>

section \<open>Helpers\<close>

definition cloneNamePaths :: "NameResolutionPath list \<Rightarrow> NameResolutionPath list" where
  "cloneNamePaths values = map (\<lambda>v. v\<lparr>nrp_A := [] @ nrp_A v, nrp_AAAA := [] @ nrp_AAAA v,
     nrp_Namespaces := [] @ nrp_Namespaces v, nrp_EvidenceIDs := [] @ nrp_EvidenceIDs v\<rparr>) values"

definition appendHostEntries ::
    "NameResolutionHostEntry list \<Rightarrow> NameResolutionHostEntry list \<Rightarrow> NameResolutionHostEntry list" where
  "appendHostEntries destination values =
     fold (\<lambda>v destination. if list_ex (\<lambda>e. equalFold (nrh_Name e) (nrh_Name v)
         \<and> joinStr '','' (nrh_Addresses e) = joinStr '','' (nrh_Addresses v)
         \<and> nrh_Source e = nrh_Source v) destination
       then destination else destination @ [v]) values destination"

definition firstAnswer :: "string list \<Rightarrow> string list \<Rightarrow> string" where
  "firstAnswer a aaaa =
     (case filter (\<lambda>v. normalizeAddress v \<noteq> []) (a @ aaaa) of [] \<Rightarrow> [] | v # rest \<Rightarrow> v)"

definition candidateNames :: "string \<Rightarrow> string list \<Rightarrow> string list" where
  "candidateNames name0 suffixes =
     (let name = toLower (trimSuffix ''.'' (trimSpace name0)) in
      if name = [] then []
      else if containsStr ''.'' name then [name]
      else fold (\<lambda>suffix0 result.
          let suffix = toLower (trimSet ''.'' (trimSpace suffix0)) in
          if suffix \<noteq> [] then appendUnique result [name @ ''.'' @ suffix] else result)
        suffixes [name])"

definition namePathKey :: "NameResolutionPath \<Rightarrow> string" where
  "namePathKey path = joinStr ''|'' [nrp_State path, nrp_Mechanism path, nrp_Resolver path,
     nrp_Interface path, nrp_PolicySource path, nrp_PolicyRule path]"

definition firstNamespace :: "NameResolutionPolicyRule \<Rightarrow> string" where
  "firstNamespace rule = (case nrr_Namespaces rule of [] \<Rightarrow> [] | namespace # rest \<Rightarrow> namespace)"

definition certaintyRank :: "ObservationCertainty \<Rightarrow> nat" where
  "certaintyRank value =
     (if value = ObservationCertaintyObserved then 5
      else if value = ObservationCertaintyDerived then 4
      else if value = ObservationCertaintyInferred then 3
      else if value = ObservationCertaintyUnsupported then 2
      else if value = ObservationCertaintyUnknown then 1
      else 0)"

definition strongerCertainty :: "ObservationCertainty \<Rightarrow> ObservationCertainty \<Rightarrow> ObservationCertainty" where
  "strongerCertainty left right = (if certaintyRank right > certaintyRank left then right else left)"

definition isDNSFailureReason :: "FailureReason \<Rightarrow> bool" where
  "isDNSFailureReason reason \<longleftrightarrow> reason = FailureReasonDNSNXDomain \<or> reason = FailureReasonDNSNoAnswer
     \<or> reason = FailureReasonDNSTimeout \<or> reason = FailureReasonDNSResolverFailure"

section \<open>Merging\<close>

definition nameConflict :: "string \<Rightarrow> string \<Rightarrow> string \<Rightarrow> string \<Rightarrow> string list \<Rightarrow> ObservationConflict" where
  "nameConflict field left right probeName evidenceIDs = \<lparr>oc_Field = field, oc_Values = [left, right],
     oc_Provenance = [''probe:'' @ probeName], oc_EvidenceIDs = evidenceIDs\<rparr>"

definition mergeRequestedName ::
    "NameResolutionObservation \<Rightarrow> string \<Rightarrow> NameResolutionObservation \<Rightarrow> NameResolutionObservation" where
  "mergeRequestedName source probeName d =
     (if nro_RequestedName source \<noteq> [] \<and> nro_RequestedName d \<noteq> []
        \<and> \<not> equalFold (nro_RequestedName source) (nro_RequestedName d)
      then d\<lparr>nro_Conflicts := nro_Conflicts d @ [nameConflict ''name_resolution.requested_name''
        (nro_RequestedName d) (nro_RequestedName source) probeName []]\<rparr>
      else if nro_RequestedName d = [] then d\<lparr>nro_RequestedName := nro_RequestedName source\<rparr>
      else d)"

definition mergeAnswers :: "NameResolutionObservation \<Rightarrow> NameResolutionObservation \<Rightarrow> NameResolutionObservation" where
  "mergeAnswers source d = d\<lparr>
     nro_CandidateNames := appendUniqueFold (nro_CandidateNames d) (nro_CandidateNames source),
     nro_CandidateSuffixes := appendUniqueFold (nro_CandidateSuffixes d) (nro_CandidateSuffixes source),
     nro_CandidateNamespaces := appendUniqueFold (nro_CandidateNamespaces d) (nro_CandidateNamespaces source),
     nro_A := appendUnique (nro_A d) (nro_A source),
     nro_AAAA := appendUnique (nro_AAAA d) (nro_AAAA source),
     nro_Paths := nro_Paths d @ cloneNamePaths (nro_Paths source),
     nro_Provenance := fold (\<lambda>path p. appendUnique p [nrp_Provenance path]) (nro_Paths source) (nro_Provenance d),
     nro_EvidenceIDs := fold (\<lambda>path ids. appendUnique ids (nrp_EvidenceIDs path)) (nro_Paths source)
       (nro_EvidenceIDs d)\<rparr>"

definition mergeEffectivePath ::
    "NameResolutionObservation \<Rightarrow> string \<Rightarrow> NameResolutionObservation \<Rightarrow> NameResolutionObservation" where
  "mergeEffectivePath source probeName d =
     (case nro_EffectivePath source of
        None \<Rightarrow> d
      | Some path \<Rightarrow> (case nro_EffectivePath d of
          None \<Rightarrow> d\<lparr>nro_EffectivePath := Some path\<rparr>
        | Some current \<Rightarrow>
            if namePathKey current \<noteq> namePathKey path
            then d\<lparr>nro_Paths := nro_Paths d @ [path],
              nro_Conflicts := nro_Conflicts d @ [nameConflict ''name_resolution.effective_path''
                (namePathKey current) (namePathKey path) probeName (nro_EvidenceIDs source)]\<rparr>
            else d))"

definition mergeSelectedAddress ::
    "NameResolutionObservation \<Rightarrow> string \<Rightarrow> NameResolutionObservation \<Rightarrow> NameResolutionObservation" where
  "mergeSelectedAddress source probeName d =
     (if nro_SelectedAddress source \<noteq> [] \<and> nro_SelectedAddress d \<noteq> []
        \<and> normalizeAddress (nro_SelectedAddress source) \<noteq> normalizeAddress (nro_SelectedAddress d)
      then d\<lparr>nro_Conflicts := nro_Conflicts d @ [nameConflict ''name_resolution.selected_address''
        (nro_SelectedAddress d) (nro_SelectedAddress source) probeName (nro_EvidenceIDs source)]\<rparr>
      else if nro_SelectedAddress d = []
      then d\<lparr>nro_SelectedAddress := nro_SelectedAddress source, nro_SelectedFamily := nro_SelectedFamily source\<rparr>
      else d)"

definition mergeCitations ::
    "NameResolutionObservation \<Rightarrow> string \<Rightarrow> NameResolutionObservation \<Rightarrow> NameResolutionObservation" where
  "mergeCitations source probeName d = d\<lparr>
     nro_HostsFileEntries := appendHostEntries (nro_HostsFileEntries d) (nro_HostsFileEntries source),
     nro_Limitations := appendUnique (nro_Limitations d) (nro_Limitations source),
     nro_EvidenceIDs := appendUnique (nro_EvidenceIDs d) (nro_EvidenceIDs source),
     nro_Provenance := appendUnique (nro_Provenance d) (nro_Provenance source),
     nro_ProbeNames := appendUnique (appendUnique (nro_ProbeNames d) (nro_ProbeNames source)) [probeName],
     nro_Conflicts := nro_Conflicts d @ nro_Conflicts source,
     nro_Certainty := strongerCertainty (nro_Certainty d) (nro_Certainty source)\<rparr>"

definition mergeNameResolution ::
    "NameResolutionObservation \<Rightarrow> string \<Rightarrow> NameResolutionObservation \<Rightarrow> NameResolutionObservation" where
  "mergeNameResolution source probeName destination =
     mergeCitations source probeName (mergeSelectedAddress source probeName
       (mergeEffectivePath source probeName (mergeAnswers source
         (mergeRequestedName source probeName destination))))"

section \<open>Reading the evidence\<close>

definition resolutionFromEvidence ::
    "DNSResolutionEvidence \<Rightarrow> Evidence \<Rightarrow> ProbeResult \<Rightarrow> NameResolutionObservation" where
  "resolutionFromEvidence v evidence probe = zero_NameResolutionObservation\<lparr>
     nro_RequestedName := dre_Host v, nro_A := [] @ dre_A v, nro_AAAA := [] @ dre_AAAA v,
     nro_EvidenceIDs := [ev_ID evidence], nro_Provenance := [''source:'' @ ev_Source evidence],
     nro_ProbeNames := [pr_Name probe], nro_Certainty := ObservationCertaintyObserved,
     nro_EffectivePath := (if dre_A v = [] \<and> dre_AAAA v = [] \<and> dre_Results v = [] then None
       else Some (zero_NameResolutionPath\<lparr>
         nrp_State := NameResolutionPathEffective, nrp_Mechanism := NameResolutionMechanismDNS,
         nrp_Certainty := NameResolutionCertaintyObserved,
         nrp_Provenance := ''resolver result; server and interface provenance are unavailable'',
         nrp_EvidenceIDs := [ev_ID evidence], nrp_A := [] @ dre_A v, nrp_AAAA := [] @ dre_AAAA v\<rparr>))\<rparr>"

definition interfaceText :: string where
  "interfaceText = ''interface-specific DNS configuration; not proof of query selection''"

definition configuredPath :: "string \<Rightarrow> string \<Rightarrow> string \<Rightarrow> NameResolutionPath" where
  "configuredPath resolver provenance evidenceID = zero_NameResolutionPath\<lparr>
     nrp_State := NameResolutionPathConfiguredCandidate, nrp_Mechanism := NameResolutionMechanismDNS,
     nrp_Resolver := normalizeAddress resolver, nrp_Certainty := NameResolutionCertaintyConfigured,
     nrp_Provenance := provenance, nrp_EvidenceIDs := [evidenceID]\<rparr>"

definition addNamePath :: "NameResolutionPath \<Rightarrow> NameResolutionObservation \<Rightarrow> NameResolutionObservation" where
  "addNamePath path o0 = o0\<lparr>nro_Paths := nro_Paths o0 @ [path]\<rparr>"

definition addSuffixes :: "string list \<Rightarrow> NameResolutionObservation \<Rightarrow> NameResolutionObservation" where
  "addSuffixes suffixes o0 = o0\<lparr>nro_CandidateSuffixes := appendUnique (nro_CandidateSuffixes o0) suffixes\<rparr>"

text \<open>\<open>if text != "" { observation.Limitations = appendUnique(..., prefix+text) }\<close>\<close>

definition limitName :: "string \<Rightarrow> string \<Rightarrow> NameResolutionObservation \<Rightarrow> NameResolutionObservation" where
  "limitName prefix text o0 = (if text = [] then o0
     else o0\<lparr>nro_Limitations := appendUnique (nro_Limitations o0) [prefix @ text]\<rparr>)"

definition appendPolicyPaths ::
    "NameResolutionPolicyRule \<Rightarrow> string \<Rightarrow> NameResolutionObservation \<Rightarrow> NameResolutionObservation" where
  "appendPolicyPaths rule evidenceID o0 =
     (let servers = (if nrr_NameServers rule = [] then [''''] else nrr_NameServers rule) in
      fold (\<lambda>server. addNamePath (zero_NameResolutionPath\<lparr>
          nrp_State := NameResolutionPathPolicyCandidate, nrp_Mechanism := NameResolutionMechanismDNS,
          nrp_Resolver := normalizeAddress server, nrp_Namespace := firstNamespace rule,
          nrp_Namespaces := [] @ nrr_Namespaces rule, nrp_PolicySource := nrr_Source rule,
          nrp_PolicyRule := nrr_RuleID rule, nrp_VPN := nrr_VPNRequired rule,
          nrp_Certainty := NameResolutionCertaintyConfigured,
          nrp_Provenance := ''matching NRPT namespace policy; not proof of query selection'',
          nrp_EvidenceIDs := [evidenceID]\<rparr>)) servers
        (o0\<lparr>nro_CandidateNamespaces := fold (\<lambda>n ns. appendUnique ns [n]) (nrr_Namespaces rule)
          (nro_CandidateNamespaces o0)\<rparr>))"

definition environmentInterface ::
    "string \<Rightarrow> ResolutionInterface \<Rightarrow> NameResolutionObservation \<Rightarrow> NameResolutionObservation" where
  "environmentInterface evidenceID iface o0 =
     fold (\<lambda>server. addNamePath ((configuredPath server interfaceText evidenceID)\<lparr>
         nrp_Interface := dri_Name iface, nrp_InterfaceIndex := dri_Index iface,
         nrp_VirtualAdapter := dri_VirtualAdapter iface, nrp_VPN := dri_VPN iface,
         nrp_Namespaces := [] @ dri_DNSSearchList iface\<rparr>)) (dri_DNSServers iface)
       (addSuffixes (dri_DNSSearchList iface) (addSuffixes [dri_DNSSuffix iface] o0))"

definition appendDNSEnvironment ::
    "ResolutionEnvironment \<Rightarrow> string \<Rightarrow> NameResolutionObservation \<Rightarrow> NameResolutionObservation" where
  "appendDNSEnvironment env evidenceID o0 =
     (let o1 = addSuffixes (drn_SearchList env) (addSuffixes (drn_CandidateSuffixes env) o0);
          o2 = fold (environmentInterface evidenceID) (drn_Interfaces env) o1;
          o3 = fold (\<lambda>rule. appendPolicyPaths rule evidenceID) (drn_NRPT env) o2;
          o4 = o3\<lparr>nro_HostsFileEntries := appendHostEntries (nro_HostsFileEntries o3) (drn_HostsFileEntries env)\<rparr> in
      limitName ''hosts file: '' (drn_HostsFileError env)
        (limitName ''NRPT policy: '' (drn_PolicyError env)
          (limitName ''configured resolver state: '' (drn_ResolverError env)
            (limitName ''name-resolution environment: '' (drn_Error env) o4))))"

definition legacyInterface ::
    "string \<Rightarrow> InterfaceState \<Rightarrow> NameResolutionObservation \<Rightarrow> NameResolutionObservation" where
  "legacyInterface evidenceID iface o0 =
     fold (\<lambda>server. addNamePath ((configuredPath (addrString server) interfaceText evidenceID)\<lparr>
         nrp_Interface := ifs_Name iface, nrp_InterfaceIndex := ifs_Index iface,
         nrp_Namespaces := [] @ ifs_DNSSearchList iface\<rparr>)) (ifs_DNSServers iface)
       (addSuffixes (ifs_DNSSearchList iface) (addSuffixes [ifs_DNSSuffix iface] o0))"

definition appendLegacyDNSConfiguration ::
    "interfaceDNSConfigurationEvidence \<Rightarrow> string \<Rightarrow> NameResolutionObservation \<Rightarrow> NameResolutionObservation" where
  "appendLegacyDNSConfiguration v evidenceID o0 =
     (let o1 = addSuffixes (ide_SearchList v) (addSuffixes (ide_Suffixes v) o0);
          o2 = fold (legacyInterface evidenceID) (ide_Interfaces v) o1;
          o3 = fold (\<lambda>rule. appendPolicyPaths rule evidenceID) (ide_NRPT v) o2;
          o4 = o3\<lparr>nro_HostsFileEntries := appendHostEntries (nro_HostsFileEntries o3) (ide_HostsFileEntries v)\<rparr> in
      limitName ''hosts file: '' (ide_HostsFileError v) (limitName ''NRPT policy: '' (ide_NRPTError v) o4))"

definition configurationFromEvidence :: "jsonCodec \<Rightarrow> Evidence \<Rightarrow> NameResolutionObservation" where
  "configurationFromEvidence codec evidence =
     (let o0 = zero_NameResolutionObservation\<lparr>nro_EvidenceIDs := [ev_ID evidence],
            nro_Provenance := [''source:'' @ ev_Source evidence]\<rparr> in
      case jd_DNSConfiguration codec (ev_Raw evidence) of
        Inl err \<Rightarrow> o0\<lparr>nro_Limitations := [''DNS configuration evidence decode: '' @ err],
          nro_Certainty := ObservationCertaintyUnknown\<rparr>
      | Inr v \<Rightarrow>
          let o1 = o0\<lparr>nro_Certainty := ObservationCertaintyInferred\<rparr>;
              o2 = (case dce_Environment v of
                  None \<Rightarrow> o1 | Some env \<Rightarrow> appendDNSEnvironment env (ev_ID evidence) o1);
              o3 = (case jd_LegacyDNSConfiguration codec (ev_Raw evidence) of
                  Inl err \<Rightarrow> o2
                | Inr legacy \<Rightarrow> appendLegacyDNSConfiguration legacy (ev_ID evidence) o2);
              o4 = fold (\<lambda>resolver. addNamePath (configuredPath resolver
                ''configured resolver candidate; not proof of query selection'' (ev_ID evidence)))
                (dce_Resolvers v) o3 in
          limitName ''resolver configuration: '' (dce_Error v) o4)"

section \<open>The observation\<close>

definition resolutionEvidenceStep ::
    "jsonCodec \<Rightarrow> ProbeResult \<Rightarrow> Evidence \<Rightarrow> NameResolutionObservation \<Rightarrow> NameResolutionObservation" where
  "resolutionEvidenceStep codec probe evidence o0 =
     (if ev_Kind evidence = EvidenceKindDNSResolution then
        (case jd_DNSResolution codec (ev_Raw evidence) of
           Inl err \<Rightarrow> o0\<lparr>nro_Limitations := appendUnique (nro_Limitations o0) [''DNS evidence decode: '' @ err]\<rparr>
         | Inr v \<Rightarrow> mergeNameResolution (resolutionFromEvidence v evidence probe) (pr_Name probe) o0)
      else if ev_Kind evidence = EvidenceKindDNSConfiguration
      then mergeNameResolution (configurationFromEvidence codec evidence) (pr_Name probe) o0
      else o0)"

definition resolutionProbeStep ::
    "jsonCodec \<Rightarrow> ProbeResult \<Rightarrow> NameResolutionObservation \<Rightarrow> NameResolutionObservation" where
  "resolutionProbeStep codec probe o0 =
     fold (resolutionEvidenceStep codec probe) (pr_Evidence probe)
       (case pr_NameResolution probe of
          None \<Rightarrow> o0
        | Some n \<Rightarrow> mergeNameResolution (NormalizeNameResolutionObservation n) (pr_Name probe) o0)"

definition resolutionFailures :: "ProbeResult list \<Rightarrow> sourceValue list" where
  "resolutionFailures probes = concat (map (\<lambda>probe.
     let interpretation = pr_Interpretation probe; reason = pin_FailureReason interpretation in
     if (pin_Layer interpretation = LayerDNS \<or> isDNSFailureReason reason)
       \<and> reason \<noteq> [] \<and> \<not> openReason reason
     then [sourceOf reason probe (firstEvidenceID (evidenceIDsOf (pr_Evidence probe)))] else []) probes)"

definition literalResolution :: "Target \<Rightarrow> NameResolutionObservation \<Rightarrow> NameResolutionObservation" where
  "literalResolution target o0 =
     (if tg_LiteralIP target = [] \<or> nro_SelectedAddress o0 \<noteq> [] then o0
      else case parseAddr (tg_LiteralIP target) of
          None \<Rightarrow> o0
        | Some parsed \<Rightarrow>
            let address = NormalizeAddr parsed; text = addrString address;
                provenance = ''canonical target literal; DNS was skipped'';
                o1 = (if is4 address
                  then o0\<lparr>nro_A := [text], nro_SelectedFamily := EndpointFamilyIPv4\<rparr>
                  else o0\<lparr>nro_AAAA := [text], nro_SelectedFamily := EndpointFamilyIPv6\<rparr>) in
            o1\<lparr>nro_SelectedAddress := text,
              nro_EffectivePath := Some (zero_NameResolutionPath\<lparr>
                nrp_State := NameResolutionPathEffective, nrp_Mechanism := NameResolutionMechanismLiteralIP,
                nrp_Certainty := NameResolutionCertaintyObserved, nrp_Provenance := provenance,
                nrp_EvidenceIDs := [''dns-resolution''], nrp_A := [] @ nro_A o1, nrp_AAAA := [] @ nro_AAAA o1\<rparr>),
              nro_EvidenceIDs := appendUnique (nro_EvidenceIDs o1) [''dns-resolution''],
              nro_Provenance := appendUnique (nro_Provenance o1) [provenance]\<rparr>)"

definition settleCertainty :: "ProbeResult list \<Rightarrow> NameResolutionObservation \<Rightarrow> NameResolutionObservation" where
  "settleCertainty probes o0 =
     (let o1 = (if nro_A o0 \<noteq> [] \<or> nro_AAAA o0 \<noteq> [] \<or> nro_EffectivePath o0 \<noteq> None
            then (if nro_Certainty o0 = ObservationCertaintyUnknown
              then o0\<lparr>nro_Certainty := ObservationCertaintyObserved\<rparr> else o0)
            else if nro_Paths o0 \<noteq> [] then o0\<lparr>nro_Certainty := ObservationCertaintyInferred\<rparr>
            else o0) in
      if nro_Certainty o1 \<noteq> ObservationCertaintyObserved
        \<and> list_ex (\<lambda>probe. pin_FailureReason (pr_Interpretation probe) = FailureReasonUnsupported) probes
      then o1\<lparr>nro_Certainty := ObservationCertaintyUnsupported\<rparr> else o1)"

definition selectAnswer :: "NameResolutionObservation \<Rightarrow> NameResolutionObservation" where
  "selectAnswer o0 =
     (let address = firstAnswer (nro_A o0) (nro_AAAA o0) in
      if nro_SelectedAddress o0 \<noteq> [] \<or> address = [] then o0
      else o0\<lparr>nro_SelectedAddress := normalizeAddress address,
        nro_SelectedFamily := (if nro_A o0 \<noteq> [] then EndpointFamilyIPv4 else EndpointFamilyIPv6)\<rparr>)"

definition noteFailure ::
    "ProbeResult list \<Rightarrow> sourceValue list \<Rightarrow> NameResolutionObservation \<Rightarrow> NameResolutionObservation" where
  "noteFailure probes failures o0 =
     (case failures of
        [] \<Rightarrow> o0
      | failure # rest \<Rightarrow> o0\<lparr>
          nro_FailureReason := sv_value failure, nro_FaultDomain := FaultDomainDNS,
          nro_ProbeNames := appendUnique (nro_ProbeNames o0) [sv_probe failure],
          nro_EvidenceIDs := (case find (\<lambda>probe. pr_Name probe = sv_probe failure) probes of
              None \<Rightarrow> nro_EvidenceIDs o0
            | Some probe \<Rightarrow> appendUnique (nro_EvidenceIDs o0) (evidenceIDsOf (pr_Evidence probe))),
          nro_Conflicts := noteConflict ''name_resolution.failure_reason'' failures (nro_Conflicts o0)\<rparr>)"

definition buildNameResolutionObservation ::
    "jsonCodec \<Rightarrow> Target \<Rightarrow> ProbeResult list \<Rightarrow> NameResolutionObservation" where
  "buildNameResolutionObservation codec target probes =
     (let o0 = zero_NameResolutionObservation\<lparr>nro_RequestedName := tg_RequestedIdentity target,
            nro_Certainty := ObservationCertaintyUnknown\<rparr>;
          o1 = literalResolution target (fold (resolutionProbeStep codec) probes o0);
          o2 = (if nro_RequestedName o1 = [] then o1\<lparr>nro_RequestedName := tg_RequestedIdentity target\<rparr> else o1);
          o3 = (if nro_RequestedName o2 \<noteq> [] \<and> nro_CandidateNames o2 = []
            then o2\<lparr>nro_CandidateNames := candidateNames (nro_RequestedName o2) (nro_CandidateSuffixes o2)\<rparr>
            else o2) in
      NormalizeNameResolutionObservation (noteFailure probes (resolutionFailures probes)
        (selectAnswer (settleCertainty probes o3))))"

end
