(* ===== verification/BuilderFacts.thy ===== *)
theory BuilderFacts
  imports BuilderNames
begin

text \<open>
  What the projections of \<open>internal/observations/builder.go\<close> guarantee: the verdict on TLS
  inspection, the result of a DNS service, the coherence of the transport outcome, where the cited
  evidence comes from, and that disagreement between the lanes is kept as data.
\<close>

section \<open>TLS inspection\<close>

definition inspectionConflicts :: "SecurityObservation \<Rightarrow> EnterprisePolicyObservation \<Rightarrow> ObservationConflict list" where
  "inspectionConflicts security enterprise =
     filter (\<lambda>c. isTLSInspectionConflict (oc_Field c)) (so_Conflicts security)
     @ etl_Conflicts (eno_TLS enterprise)"

text \<open>Explicit evidence, the verdict of the enterprise probe, or another chain that is trusted and valid for the host.\<close>

definition interceptionShown :: "SecurityObservation \<Rightarrow> EnterprisePolicyObservation \<Rightarrow> bool" where
  "interceptionShown security enterprise \<longleftrightarrow>
     (let p = eno_TLS enterprise in so_InterceptionEvidenceIDs security \<noteq> [] \<or> etl_PossibleInterception p
       \<or> (etl_CertificatesDiffer p \<or> etl_IssuersDiffer p) \<and> etl_BothTrusted p \<and> etl_BothHostnameVerified p)"

definition proxySource :: "EnterpriseProxySourceObservation \<Rightarrow> bool" where
  "proxySource source \<longleftrightarrow> epe_Observed (eps_Effective source)
     \<and> (epe_Mode (eps_Effective source) = EnterpriseProxyModeProxy
       \<or> epe_Mode (eps_Effective source) = EnterpriseProxyModePAC)"

definition proxyPath :: "EnterprisePathObservation \<Rightarrow> bool" where
  "proxyPath path \<longleftrightarrow> (ept_Mode path = PathModeProxy \<or> ept_Mode path = PathModePAC)
     \<and> (ept_RequestAttempted path \<or> ept_TCPConnected path \<or> ept_TLSAttempted path \<or> ept_HTTPResponse path)"

definition comparedProxy :: "EnterpriseTLSPolicyObservation \<Rightarrow> bool" where
  "comparedProxy p \<longleftrightarrow> (etl_CertificatesDifferKnown p \<or> etl_IssuersDifferKnown p
       \<or> etl_DirectCertificateSHA256 p = [] \<and> etl_DirectCertificateSubject p \<noteq> [])
     \<and> (etl_ProxyCertificateSHA256 p \<noteq> [] \<or> etl_ProxyCertificateIssuer p \<noteq> [])"

definition proxySeen :: "EnterprisePolicyObservation \<Rightarrow> bool" where
  "proxySeen enterprise \<longleftrightarrow> proxySource (eno_WinHTTP enterprise) \<or> proxySource (eno_WinINET enterprise)
     \<or> list_ex proxyPath (eno_Paths enterprise) \<or> comparedProxy (eno_TLS enterprise)"

named_theorems assess "the steps of the assessment of TLS inspection"

lemma assessCite_fields [assess]:
  "tia_State (assessCite ids p a) = tia_State a"
  "tia_Conflicts (assessCite ids p a) = tia_Conflicts a"
  "tia_ChainDiverges (assessCite ids p a) = tia_ChainDiverges a"
  "tia_OriginComparisonKnown (assessCite ids p a) = tia_OriginComparisonKnown a"
  "tia_TrustedCorporatePrivateRootKnown (assessCite ids p a) = tia_TrustedCorporatePrivateRootKnown a"
  "tia_TrustedCorporatePrivateRoot (assessCite ids p a) = tia_TrustedCorporatePrivateRoot a"
  "tia_EnterpriseProxyObserved (assessCite ids p a) = tia_EnterpriseProxyObserved a"
  by (simp_all add: assessCite_def)

lemma assessSource_fields [assess]:
  "tia_State (assessSource source a) = tia_State a"
  "tia_Conflicts (assessSource source a) = tia_Conflicts a"
  "tia_ChainDiverges (assessSource source a) = tia_ChainDiverges a"
  "tia_OriginComparisonKnown (assessSource source a) = tia_OriginComparisonKnown a"
  "tia_TrustedCorporatePrivateRootKnown (assessSource source a) = tia_TrustedCorporatePrivateRootKnown a"
  "tia_TrustedCorporatePrivateRoot (assessSource source a) = tia_TrustedCorporatePrivateRoot a"
  "tia_EnterpriseProxyObserved (assessSource source a) \<longleftrightarrow> tia_EnterpriseProxyObserved a \<or> proxySource source"
  by (simp_all add: assessSource_def Let_def assess) (simp add: proxySource_def)

lemma assessPath_fields [assess]:
  "tia_State (assessPath path a) = tia_State a"
  "tia_Conflicts (assessPath path a) = tia_Conflicts a"
  "tia_ChainDiverges (assessPath path a) = tia_ChainDiverges a"
  "tia_OriginComparisonKnown (assessPath path a) = tia_OriginComparisonKnown a"
  "tia_TrustedCorporatePrivateRootKnown (assessPath path a) = tia_TrustedCorporatePrivateRootKnown a"
  "tia_TrustedCorporatePrivateRoot (assessPath path a) = tia_TrustedCorporatePrivateRoot a"
  "tia_EnterpriseProxyObserved (assessPath path a) \<longleftrightarrow> tia_EnterpriseProxyObserved a \<or> proxyPath path"
  by (simp_all add: assessPath_def assess) (auto simp: proxyPath_def)

lemma fold_assessPath [assess]:
  "tia_State (fold assessPath paths a) = tia_State a"
  "tia_Conflicts (fold assessPath paths a) = tia_Conflicts a"
  "tia_ChainDiverges (fold assessPath paths a) = tia_ChainDiverges a"
  "tia_OriginComparisonKnown (fold assessPath paths a) = tia_OriginComparisonKnown a"
  "tia_TrustedCorporatePrivateRootKnown (fold assessPath paths a) = tia_TrustedCorporatePrivateRootKnown a"
  "tia_TrustedCorporatePrivateRoot (fold assessPath paths a) = tia_TrustedCorporatePrivateRoot a"
  "tia_EnterpriseProxyObserved (fold assessPath paths a) \<longleftrightarrow>
     tia_EnterpriseProxyObserved a \<or> list_ex proxyPath paths"
  by (induction paths arbitrary: a) (simp_all add: assess)

lemma assessPresented_fields [assess]:
  "tia_State (assessPresented target security) = TLSInspectionNotObserved"
  "tia_Conflicts (assessPresented target security) = []"
  "tia_EnterpriseProxyObserved (assessPresented target security) = False"
  by (simp_all add: assessPresented_def zero_TLSInspectionAssessment_def Let_def split: list.splits)

lemma assessTLSPolicy_fields [assess]:
  "tia_State (assessTLSPolicy p a) = tia_State a"
  "tia_Conflicts (assessTLSPolicy p a) = tia_Conflicts a"
  "tia_ChainDiverges (assessTLSPolicy p a) \<longleftrightarrow> etl_CertificatesDiffer p \<or> etl_IssuersDiffer p"
  "tia_OriginComparisonKnown (assessTLSPolicy p a) \<longleftrightarrow> etl_CertificatesDifferKnown p \<or> etl_IssuersDifferKnown p
       \<or> etl_DirectCertificateSHA256 p = [] \<and> etl_DirectCertificateSubject p \<noteq> []"
  "tia_TrustedCorporatePrivateRootKnown (assessTLSPolicy p a) = etl_TrustedCorporatePrivateRootKnown p"
  "tia_TrustedCorporatePrivateRoot (assessTLSPolicy p a) = etl_TrustedCorporatePrivateRoot p"
  "tia_EnterpriseProxyObserved (assessTLSPolicy p a) = tia_EnterpriseProxyObserved a"
  by (simp_all add: assessTLSPolicy_def)

lemma assessEnterprise_fields [assess]:
  "tia_State (assessEnterprise enterprise a) = tia_State a"
  "tia_Conflicts (assessEnterprise enterprise a) = tia_Conflicts a"
  "tia_ChainDiverges (assessEnterprise enterprise a) = tia_ChainDiverges a"
  "tia_TrustedCorporatePrivateRootKnown (assessEnterprise enterprise a) = tia_TrustedCorporatePrivateRootKnown a"
  "tia_TrustedCorporatePrivateRoot (assessEnterprise enterprise a) = tia_TrustedCorporatePrivateRoot a"
  "tia_EnterpriseProxyObserved (assessEnterprise enterprise a) \<longleftrightarrow> tia_EnterpriseProxyObserved a
     \<or> proxySource (eno_WinHTTP enterprise) \<or> proxySource (eno_WinINET enterprise)
     \<or> list_ex proxyPath (eno_Paths enterprise)
     \<or> tia_OriginComparisonKnown a \<and> (etl_ProxyCertificateSHA256 (eno_TLS enterprise) \<noteq> []
       \<or> etl_ProxyCertificateIssuer (eno_TLS enterprise) \<noteq> [])"
  by (simp_all add: assessEnterprise_def Let_def assess) auto

lemma assessConflicts_fields [assess]:
  "tia_State (assessConflicts security p a) = tia_State a"
  "tia_Conflicts (assessConflicts security p a) = tia_Conflicts a
     @ filter (\<lambda>c. isTLSInspectionConflict (oc_Field c)) (so_Conflicts security) @ etl_Conflicts p"
  "tia_ChainDiverges (assessConflicts security p a) = tia_ChainDiverges a"
  "tia_TrustedCorporatePrivateRootKnown (assessConflicts security p a) = tia_TrustedCorporatePrivateRootKnown a"
  "tia_TrustedCorporatePrivateRoot (assessConflicts security p a) = tia_TrustedCorporatePrivateRoot a"
  "tia_EnterpriseProxyObserved (assessConflicts security p a) = tia_EnterpriseProxyObserved a"
  by (simp_all add: assessConflicts_def)

lemma inspection_states: "distinct [TLSInspectionNotObserved, TLSInspectionObserved, TLSInspectionSuspected,
    TLSInspectionUnknown, TLSInspectionConflicting]"
  by (simp add: go_consts)

lemmas inspection_states_distinct [assess] = inspection_states [simplified]

lemma inspection_states_distinct' [assess]:
  "TLSInspectionObserved \<noteq> TLSInspectionNotObserved" "TLSInspectionSuspected \<noteq> TLSInspectionNotObserved"
  "TLSInspectionConflicting \<noteq> TLSInspectionNotObserved" "TLSInspectionConflicting \<noteq> TLSInspectionObserved"
  "TLSInspectionConflicting \<noteq> TLSInspectionSuspected" "TLSInspectionConflicting \<noteq> TLSInspectionUnknown"
  "TLSInspectionUnknown \<noteq> TLSInspectionObserved" "TLSInspectionUnknown \<noteq> TLSInspectionSuspected"
  "TLSInspectionSuspected \<noteq> TLSInspectionObserved"
  using inspection_states by auto

lemma signalAssessment_fields [assess]:
  "tia_State (signalAssessment signal a) = tia_State a"
  "tia_TrustedCorporatePrivateRootKnown (signalAssessment signal a) = tia_TrustedCorporatePrivateRootKnown a"
  "tia_TrustedCorporatePrivateRoot (signalAssessment signal a) = tia_TrustedCorporatePrivateRoot a"
  "tia_EnterpriseProxyObserved (signalAssessment signal a) = tia_EnterpriseProxyObserved a"
  "tia_ChainDiverges (signalAssessment signal a) = tia_ChainDiverges a"
  by (simp_all add: signalAssessment_def)

lemma assessExplicit_fields [assess]:
  "tia_State (assessExplicit security a) =
     (if so_InterceptionEvidenceIDs security = [] then tia_State a else TLSInspectionObserved)"
  "tia_TrustedCorporatePrivateRootKnown (assessExplicit security a) = tia_TrustedCorporatePrivateRootKnown a"
  "tia_TrustedCorporatePrivateRoot (assessExplicit security a) = tia_TrustedCorporatePrivateRoot a"
  "tia_EnterpriseProxyObserved (assessExplicit security a) = tia_EnterpriseProxyObserved a"
  "tia_ChainDiverges (assessExplicit security a) = tia_ChainDiverges a"
  by (simp_all add: assessExplicit_def assess)

lemma assessSubstitution_fields [assess]:
  "tia_State (assessSubstitution p a) =
     (if etl_PossibleInterception p \<or> tia_ChainDiverges a \<and> etl_BothTrusted p \<and> etl_BothHostnameVerified p
      then TLSInspectionObserved else tia_State a)"
  "tia_TrustedCorporatePrivateRootKnown (assessSubstitution p a) = tia_TrustedCorporatePrivateRootKnown a"
  "tia_TrustedCorporatePrivateRoot (assessSubstitution p a) = tia_TrustedCorporatePrivateRoot a"
  "tia_EnterpriseProxyObserved (assessSubstitution p a) = tia_EnterpriseProxyObserved a"
  by (simp_all add: assessSubstitution_def Let_def assess)

lemma assessSuspicion_state [assess]:
  "tia_State (assessSuspicion a) =
     (if tia_State a \<noteq> TLSInspectionObserved \<and> tia_TrustedCorporatePrivateRootKnown a
        \<and> tia_TrustedCorporatePrivateRoot a \<and> tia_EnterpriseProxyObserved a
      then TLSInspectionSuspected else tia_State a)"
  by (simp add: assessSuspicion_def assess)

lemma assessRemaining_settled [assess]:
  "tia_State a = TLSInspectionObserved \<or> tia_State a = TLSInspectionSuspected \<Longrightarrow>
    assessRemaining security p a = a"
  by (auto simp: assessRemaining_def)

lemma assessRemaining_open:
  "tia_State a \<noteq> TLSInspectionObserved \<Longrightarrow> tia_State a \<noteq> TLSInspectionSuspected \<Longrightarrow>
    tia_State (assessRemaining security p a) \<in> {TLSInspectionNotObserved, TLSInspectionUnknown}"
  by (simp add: assessRemaining_def assess)

text \<open>The assessment before the verdict.\<close>

definition assessedFacts ::
    "Target \<Rightarrow> SecurityObservation \<Rightarrow> EnterprisePolicyObservation \<Rightarrow> TLSInspectionAssessment" where
  "assessedFacts target security enterprise = assessConflicts security (eno_TLS enterprise)
     (assessEnterprise enterprise (assessTLSPolicy (eno_TLS enterprise) (assessPresented target security)))"

lemma assessedFacts_fields [assess]:
  "tia_State (assessedFacts target security enterprise) = TLSInspectionNotObserved"
  "tia_Conflicts (assessedFacts target security enterprise) = inspectionConflicts security enterprise"
  "tia_ChainDiverges (assessedFacts target security enterprise) \<longleftrightarrow>
     etl_CertificatesDiffer (eno_TLS enterprise) \<or> etl_IssuersDiffer (eno_TLS enterprise)"
  "tia_TrustedCorporatePrivateRootKnown (assessedFacts target security enterprise) =
     etl_TrustedCorporatePrivateRootKnown (eno_TLS enterprise)"
  "tia_TrustedCorporatePrivateRoot (assessedFacts target security enterprise) =
     etl_TrustedCorporatePrivateRoot (eno_TLS enterprise)"
  by (simp_all add: assessedFacts_def inspectionConflicts_def assess)

lemma assessedFacts_proxy [assess]:
  "tia_EnterpriseProxyObserved (assessedFacts target security enterprise) = proxySeen enterprise"
  unfolding assessedFacts_def proxySeen_def comparedProxy_def by (simp add: assess)

definition weighted :: "SecurityObservation \<Rightarrow> EnterpriseTLSPolicyObservation \<Rightarrow> TLSInspectionAssessment
    \<Rightarrow> TLSInspectionAssessment" where
  "weighted security p a = assessSuspicion (assessSubstitution p (assessExplicit security a))"

lemma weighted_state:
  "tia_State (weighted security (eno_TLS enterprise) (assessedFacts target security enterprise)) =
     (if interceptionShown security enterprise then TLSInspectionObserved
      else if etl_TrustedCorporatePrivateRootKnown (eno_TLS enterprise)
        \<and> etl_TrustedCorporatePrivateRoot (eno_TLS enterprise) \<and> proxySeen enterprise
      then TLSInspectionSuspected else TLSInspectionNotObserved)"
  by (auto simp: weighted_def interceptionShown_def Let_def assess)

lemma assessTLSInspection_cases:
  "tia_State (assessTLSInspection target security enterprise) =
     (if inspectionConflicts security enterprise \<noteq> [] then TLSInspectionConflicting
      else tia_State (assessRemaining security (eno_TLS enterprise)
        (weighted security (eno_TLS enterprise) (assessedFacts target security enterprise))))"
  using assessedFacts_fields(2) [of target security enterprise]
  by (simp add: assessTLSInspection_def Let_def weighted_def flip: assessedFacts_def)

text \<open>The verdict on TLS inspection is a function of the evidence. It is \<open>conflicting\<close> exactly when
  there are certificate conflicts; without conflicts it is \<open>observed\<close> exactly when interception is
  shown (explicit evidence, the finding of the enterprise probe, or a different chain that is trusted
  and valid for the host), and \<open>suspected\<close> exactly when it is not shown but a trusted corporate root
  meets a proxy in use. A proxy alone or an unknown issuer alone never gives either.
\<close>

theorem inspection_verdict:
  "(tia_State (assessTLSInspection target security enterprise) = TLSInspectionConflicting \<longleftrightarrow>
      inspectionConflicts security enterprise \<noteq> [])
    \<and> (tia_State (assessTLSInspection target security enterprise) = TLSInspectionObserved \<longleftrightarrow>
      inspectionConflicts security enterprise = [] \<and> interceptionShown security enterprise)
    \<and> (tia_State (assessTLSInspection target security enterprise) = TLSInspectionSuspected \<longleftrightarrow>
      inspectionConflicts security enterprise = [] \<and> \<not> interceptionShown security enterprise
      \<and> etl_TrustedCorporatePrivateRootKnown (eno_TLS enterprise)
      \<and> etl_TrustedCorporatePrivateRoot (eno_TLS enterprise) \<and> proxySeen enterprise)"
proof (cases "inspectionConflicts security enterprise = []")
  case False
  then show ?thesis by (simp add: assessTLSInspection_cases assess)
next
  case True
  let ?w = "weighted security (eno_TLS enterprise) (assessedFacts target security enterprise)"
  have verdict: "tia_State (assessTLSInspection target security enterprise) =
      tia_State (assessRemaining security (eno_TLS enterprise) ?w)"
    using True by (simp add: assessTLSInspection_cases)
  show ?thesis
  proof (cases "tia_State ?w = TLSInspectionNotObserved")
    case True
    then have "tia_State (assessRemaining security (eno_TLS enterprise) ?w)
        \<in> {TLSInspectionNotObserved, TLSInspectionUnknown}"
      by (intro assessRemaining_open) (simp_all add: assess)
    with True \<open>inspectionConflicts security enterprise = []\<close> show ?thesis
      unfolding verdict by (auto simp: weighted_state assess split: if_splits)
  next
    case False
    then have "assessRemaining security (eno_TLS enterprise) ?w = ?w"
      by (intro assess) (auto simp: weighted_state split: if_splits)
    with False True show ?thesis
      unfolding verdict by (auto simp: weighted_state assess split: if_splits)
  qed
qed

section \<open>The DNS service\<close>

text \<open>The DNS observation and the two lanes before the result is drawn from them.\<close>

definition dnsLanes :: "jsonCodec \<Rightarrow> Target \<Rightarrow> EndpointObservation \<Rightarrow> ProbeResult list \<Rightarrow> dnsState" where
  "dnsLanes codec target endpoint probes = foldEvidence (dnsServiceStep codec target) probes
     (initialDNSApplication target endpoint, initialDNS target)"

definition udpAnswered :: "jsonCodec \<Rightarrow> Target \<Rightarrow> EndpointObservation \<Rightarrow> ProbeResult list \<Rightarrow> bool" where
  "udpAnswered codec target endpoint probes =
     dnsApplicationLaneSucceeded (da_UDP (snd (dnsLanes codec target endpoint probes)))"

definition tcpAnswered :: "jsonCodec \<Rightarrow> Target \<Rightarrow> EndpointObservation \<Rightarrow> ProbeResult list \<Rightarrow> bool" where
  "tcpAnswered codec target endpoint probes =
     dnsApplicationLaneSucceeded (da_TCP (snd (dnsLanes codec target endpoint probes)))"

definition dnsAttempted :: "jsonCodec \<Rightarrow> Target \<Rightarrow> EndpointObservation \<Rightarrow> ProbeResult list \<Rightarrow> bool" where
  "dnsAttempted codec target endpoint probes \<longleftrightarrow>
     dt_Attempted (da_UDP (snd (dnsLanes codec target endpoint probes)))
     \<or> dt_Attempted (da_TCP (snd (dnsLanes codec target endpoint probes)))"

text \<open>The envelope before the lanes are judged: no result, no failure.\<close>

definition dnsPending :: "dnsState \<Rightarrow> bool" where
  "dnsPending s \<longleftrightarrow> ao_Result (fst s) = HTTPResultNotAttempted \<and> ao_FailureReason (fst s) = FailureReasonNone
     \<and> da_Result (snd s) = DNSApplicationResultNotAttempted \<and> \<not> da_Divergence (snd s)
     \<and> da_FailureReason (snd s) = FailureReasonNone"

lemma foldEvidence_preserves:
  assumes "\<And>probe evidence s. I s \<Longrightarrow> I (step probe evidence s)" "I s"
  shows "I (foldEvidence step probes s)"
proof -
  have "I (fold (step probe) evidence s)" if "I s" for probe evidence s
    using that by (induction evidence arbitrary: s) (simp_all add: assms(1))
  then show ?thesis using assms(2) unfolding foldEvidence_def
    by (induction probes arbitrary: s) simp_all
qed

lemma dnsPending_step: "dnsPending s \<Longrightarrow> dnsPending (dnsServiceStep codec target probe evidence s)"
  by (simp add: dnsPending_def dnsServiceStep_def dnsServiceNoted_def limitDNS_def timedApplication_def
      notedApplication_def Let_def split: sum.split)

lemma dnsPending_lanes: "dnsPending (dnsLanes codec target endpoint probes)"
  unfolding dnsLanes_def
  by (rule foldEvidence_preserves, erule dnsPending_step)
    (simp add: dnsPending_def initialDNSApplication_def initialDNS_def zero_ApplicationObservation_def
      zero_DNSApplicationObservation_def)

lemma laneSucceeded_attempted: "dnsApplicationLaneSucceeded lane \<Longrightarrow> dt_Attempted lane"
  by (simp add: dnsApplicationLaneSucceeded_def)

definition dnsJudged :: "dnsState \<Rightarrow> dnsState" where
  "dnsJudged s = dnsFailure (dnsResult s)"

lemma buildDNS_fields:
  fixes codec target endpoint probes
  defines "s \<equiv> dnsJudged (dnsLanes codec target endpoint probes)"
  shows "ao_Result (buildDNSApplicationObservation codec target endpoint probes) = ao_Result (fst s)"
    and "ao_FailureReason (buildDNSApplicationObservation codec target endpoint probes) = ao_FailureReason (fst s)"
    and "map_option da_Result (ao_DNS (buildDNSApplicationObservation codec target endpoint probes)) =
      Some (da_Result (snd s))"
    and "map_option da_Divergence (ao_DNS (buildDNSApplicationObservation codec target endpoint probes)) =
      Some (da_Divergence (snd s))"
  by (simp_all add: s_def dnsJudged_def dnsLanes_def buildDNSApplicationObservation_def Let_def
      NormalizeApplicationObservation_def normalizeDNSApplication_def)

lemma dnsJudged_fields:
  assumes "dnsPending s"
  shows "ao_Result (fst (dnsJudged s)) =
      (if \<not> (dt_Attempted (da_UDP (snd s)) \<or> dt_Attempted (da_TCP (snd s))) then HTTPResultNotAttempted
       else if dnsApplicationLaneSucceeded (da_UDP (snd s)) \<and> dnsApplicationLaneSucceeded (da_TCP (snd s))
         then HTTPResultSuccess
       else if dnsApplicationLaneSucceeded (da_UDP (snd s)) \<or> dnsApplicationLaneSucceeded (da_TCP (snd s))
         then HTTPResultPartial
       else HTTPResultRequestFailure)"
    and "da_Divergence (snd (dnsJudged s)) \<longleftrightarrow>
      dnsApplicationLaneSucceeded (da_UDP (snd s)) \<noteq> dnsApplicationLaneSucceeded (da_TCP (snd s))"
    and "ao_FailureReason (fst (dnsJudged s)) =
      (if (dt_Attempted (da_UDP (snd s)) \<or> dt_Attempted (da_TCP (snd s)))
         \<and> \<not> (dnsApplicationLaneSucceeded (da_UDP (snd s)) \<or> dnsApplicationLaneSucceeded (da_TCP (snd s)))
       then firstDNSServiceFailure (da_UDP (snd s)) (da_TCP (snd s)) else FailureReasonNone)"
  using assms laneSucceeded_attempted [of "da_UDP (snd s)"] laneSucceeded_attempted [of "da_TCP (snd s)"]
  by (auto simp: dnsJudged_def dnsFailure_def dnsResult_def dnsPending_def Let_def go_consts)

text \<open>The result of a DNS service is decided by its two transports: no attempt is \<open>not attempted\<close>, an
  answer on both is success, on exactly one is partial and marked as a divergence, on neither is a
  failure, with the first concrete reason of UDP and then TCP. As long as one transport was answered,
  the application carries no failure reason.
\<close>

theorem dns_service_result:
  "ao_Result (buildDNSApplicationObservation codec target endpoint probes) =
     (if \<not> dnsAttempted codec target endpoint probes then HTTPResultNotAttempted
      else if udpAnswered codec target endpoint probes \<and> tcpAnswered codec target endpoint probes
        then HTTPResultSuccess
      else if udpAnswered codec target endpoint probes \<or> tcpAnswered codec target endpoint probes
        then HTTPResultPartial
      else HTTPResultRequestFailure)
   \<and> map_option da_Divergence (ao_DNS (buildDNSApplicationObservation codec target endpoint probes)) =
     Some (udpAnswered codec target endpoint probes \<noteq> tcpAnswered codec target endpoint probes)
   \<and> ao_FailureReason (buildDNSApplicationObservation codec target endpoint probes) =
     (if dnsAttempted codec target endpoint probes
        \<and> \<not> (udpAnswered codec target endpoint probes \<or> tcpAnswered codec target endpoint probes)
      then firstDNSServiceFailure (da_UDP (snd (dnsLanes codec target endpoint probes)))
        (da_TCP (snd (dnsLanes codec target endpoint probes)))
      else FailureReasonNone)"
  by (simp add: buildDNS_fields dnsJudged_fields dnsPending_lanes udpAnswered_def tcpAnswered_def dnsAttempted_def)

section \<open>The transport\<close>

text \<open>Between two evidence items: the flag agrees with the outcome, and a connection has a cause.\<close>

definition coherentTransport :: "transportState \<Rightarrow> bool" where
  "coherentTransport s \<longleftrightarrow>
     (let t = ts_observation s in
      (tpo_Connected t \<longleftrightarrow> tpo_ConnectionOutcome t = TransportConnectionOutcomeConnected)
      \<and> (tpo_Connected t \<longrightarrow> ts_seenTCP s \<or> tpo_TestedEndpoint t \<noteq> None))"

lemma openOutcome_connected: "openOutcome t \<Longrightarrow> tpo_ConnectionOutcome t \<noteq> TransportConnectionOutcomeConnected"
  by (auto simp: openOutcome_def go_consts)

lemma limitTransport_fields [simp]:
  "tpo_Connected (limitTransport text t) = tpo_Connected t"
  "tpo_ConnectionOutcome (limitTransport text t) = tpo_ConnectionOutcome t"
  "tpo_TestedEndpoint (limitTransport text t) = tpo_TestedEndpoint t"
  "tpo_EvidenceIDs (limitTransport text t) = tpo_EvidenceIDs t"
  by (simp_all add: limitTransport_def)

lemma notedTransport_fields [simp]:
  "tpo_Connected (notedTransport probe evidence t) = tpo_Connected t"
  "tpo_ConnectionOutcome (notedTransport probe evidence t) = tpo_ConnectionOutcome t"
  "tpo_TestedEndpoint (notedTransport probe evidence t) = tpo_TestedEndpoint t"
  "tpo_EvidenceIDs (notedTransport probe evidence t) = appendUnique (tpo_EvidenceIDs t) [ev_ID evidence]"
  by (simp_all add: notedTransport_def)

lemma transportFields_fields [simp]:
  "tpo_Connected (transportFields target probe v t) = tpo_Connected t"
  "tpo_ConnectionOutcome (transportFields target probe v t) = tpo_ConnectionOutcome t"
  "tpo_EvidenceIDs (transportFields target probe v t) = tpo_EvidenceIDs t"
  by (simp_all add: transportFields_def Let_def)

lemma transportResult_fields [simp]:
  "tpo_ConnectionOutcome (transportResult probe t) =
     (if openOutcome t then transportOutcome probe else tpo_ConnectionOutcome t)"
  "tpo_Connected (transportResult probe t) =
     (if openOutcome t then transportOutcome probe = TransportConnectionOutcomeConnected else tpo_Connected t)"
  "tpo_EvidenceIDs (transportResult probe t) = tpo_EvidenceIDs t"
  by (simp_all add: transportResult_def Let_def)

lemma coherentTransport_evidence:
  "coherentTransport s \<Longrightarrow> coherentTransport (transportEvidenceStep codec target probe evidence s)"
  by (auto simp: coherentTransport_def transportEvidenceStep_def Let_def split: sum.splits)

lemma coherentTransport_probe:
  assumes "coherentTransport s"
  shows "coherentTransport (transportProbeStep codec target probe s)"
proof -
  have "coherentTransport (fold (transportEvidenceStep codec target probe) evidence s)" for evidence
    using assms by (induction evidence arbitrary: s) (simp_all add: coherentTransport_evidence)
  then show ?thesis
    by (simp add: transportProbeStep_def coherentTransport_def Let_def split: option.split)
qed

lemma coherentTransport_initial:
  "coherentTransport \<lparr>ts_observation = initialTransport target endpoint, ts_outcomes = [],
     ts_testedEndpoints = [], ts_seenTCP = False\<rparr>"
  by (simp add: coherentTransport_def initialTransport_def Let_def zero_TransportObservation_def split: option.split)
    (simp add: go_consts)

lemma coherent_settle:
  assumes "coherentTransport \<lparr>ts_observation = t, ts_outcomes = a, ts_testedEndpoints = b, ts_seenTCP = seen\<rparr>"
  shows "tpo_Connected (settleTransport seen t) \<longleftrightarrow>
    tpo_ConnectionOutcome (settleTransport seen t) = TransportConnectionOutcomeConnected"
  using assms by (auto simp: coherentTransport_def settleTransport_def Let_def openOutcome_def go_consts)

text \<open>In a built transport observation the flag \<open>Connected\<close> and the outcome \<open>connected\<close> always agree,
  whatever evidence the probes carry and in whatever order.
\<close>

theorem transport_coherent:
  "tpo_Connected (buildTransportObservation codec target endpoint probes) \<longleftrightarrow>
   tpo_ConnectionOutcome (buildTransportObservation codec target endpoint probes) =
     TransportConnectionOutcomeConnected"
proof -
  let ?s = "fold (transportProbeStep codec target) probes \<lparr>ts_observation = initialTransport target endpoint,
    ts_outcomes = [], ts_testedEndpoints = [], ts_seenTCP = False\<rparr>"
  have "coherentTransport (fold (transportProbeStep codec target) probes s)" if "coherentTransport s" for s
    using that by (induction probes arbitrary: s) (simp_all add: coherentTransport_probe)
  then have "coherentTransport ?s" using coherentTransport_initial by blast
  then have "coherentTransport \<lparr>ts_observation = (ts_observation ?s)\<lparr>tpo_Conflicts := c\<rparr>, ts_outcomes = [],
      ts_testedEndpoints = [], ts_seenTCP = ts_seenTCP ?s\<rparr>" for c
    by (simp add: coherentTransport_def Let_def)
  from coherent_settle [OF this] show ?thesis
    by (simp add: buildTransportObservation_def Let_def NormalizeTransportObservation_def)
qed

section \<open>Where the cited evidence comes from\<close>

text \<open>The evidence IDs that probes carry.\<close>

definition carriedIDs :: "ProbeResult list \<Rightarrow> string set" where
  "carriedIDs probes = (\<Union>probe \<in> set probes. ev_ID ` set (pr_Evidence probe))"

lemma carriedIDs_Cons [simp]: "carriedIDs (probe # probes) = ev_ID ` set (pr_Evidence probe) \<union> carriedIDs probes"
  by (simp add: carriedIDs_def)

lemma carriedIDs_Nil [simp]: "carriedIDs [] = {}"
  by (simp add: carriedIDs_def)

text \<open>
  The interface of a projection: a step for an evidence item cites at most that item, and what is
  done after the evidence of a probe cites nothing.
\<close>

locale citing_projection =
  fixes ids :: "'s \<Rightarrow> string list"
    and step :: "ProbeResult \<Rightarrow> Evidence \<Rightarrow> 's \<Rightarrow> 's"
    and after :: "ProbeResult \<Rightarrow> 's \<Rightarrow> 's"
  assumes step_cites: "set (ids (step probe evidence s)) \<subseteq> insert (ev_ID evidence) (set (ids s))"
    and after_cites: "set (ids (after probe s)) \<subseteq> set (ids s)"
begin

lemma evidence_cites:
  "set (ids (fold (step probe) evidence s)) \<subseteq> ev_ID ` set evidence \<union> set (ids s)"
proof (induction evidence arbitrary: s)
  case (Cons e evidence)
  show ?case using Cons.IH [of "step probe e s"] step_cites [of probe e s] by auto
qed simp

lemma probes_cite:
  "set (ids (fold (\<lambda>probe s. after probe (fold (step probe) (pr_Evidence probe) s)) probes s))
     \<subseteq> carriedIDs probes \<union> set (ids s)"
proof (induction probes arbitrary: s)
  case (Cons probe probes)
  show ?case
    using Cons.IH [of "after probe (fold (step probe) (pr_Evidence probe) s)"]
      after_cites [of probe "fold (step probe) (pr_Evidence probe) s"]
      evidence_cites [of probe "pr_Evidence probe" s] by (auto; blast)
qed simp

end

lemma set_appendUnique: "set (appendUnique values additions) = set values \<union> (set additions - {[]})"
  by (induction additions arbitrary: "values") (auto simp: appendUnique_def)

definition afterTransport :: "Target \<Rightarrow> ProbeResult \<Rightarrow> transportState \<Rightarrow> transportState" where
  "afterTransport target probe s =
     (case tg_TestedEndpoint (pr_Target probe) of
        Some e \<Rightarrow> (if pr_Name probe = ''tcp''
          then s\<lparr>ts_testedEndpoints := ts_testedEndpoints s @
            [sourceOf (endpointKey e) probe (firstEvidenceID (evidenceIDsOf (pr_Evidence probe)))]\<rparr>
          else s)
      | None \<Rightarrow> s)"

lemma transportProbeStep_after: "transportProbeStep codec target =
    (\<lambda>probe s. afterTransport target probe (fold (transportEvidenceStep codec target probe) (pr_Evidence probe) s))"
  by (intro ext) (simp add: transportProbeStep_def afterTransport_def Let_def)

interpretation transport: citing_projection "\<lambda>s. tpo_EvidenceIDs (ts_observation s)"
  "transportEvidenceStep codec target" "afterTransport target" for codec target
  by unfold_locales
    (auto simp: transportEvidenceStep_def afterTransport_def Let_def set_appendUnique split: sum.splits option.splits)

lemma settleTransport_ids [simp]: "tpo_EvidenceIDs (settleTransport seen t) = tpo_EvidenceIDs t"
  by (simp add: settleTransport_def Let_def)

lemma initialTransport_ids [simp]: "tpo_EvidenceIDs (initialTransport target endpoint) = []"
  by (simp add: initialTransport_def Let_def zero_TransportObservation_def split: option.split)

lemma transport_ids: "set (tpo_EvidenceIDs (buildTransportObservation codec target endpoint probes)) \<subseteq> carriedIDs probes"
  using transport.probes_cite [where codec = codec and target = target and probes = probes and s = "\<lparr>ts_observation = initialTransport target endpoint,
    ts_outcomes = [], ts_testedEndpoints = [], ts_seenTCP = False\<rparr>"]
  by (simp add: buildTransportObservation_def Let_def NormalizeTransportObservation_def transportProbeStep_after)

text \<open>The security observation.\<close>

definition afterSecurity :: "ProbeResult \<Rightarrow> securityState \<Rightarrow> securityState" where
  "afterSecurity probe s =
     (let o0 = ss_observation s in
      if pr_Name probe = ''tls'' \<and> \<not> ss_seenTLS s
      then s\<lparr>ss_observation := o0\<lparr>so_Attempted := True,
        so_FailureReason := (if openReason (so_FailureReason o0)
          then pin_FailureReason (pr_Interpretation probe) else so_FailureReason o0),
        so_Timing := mergeObservationTiming (so_Timing o0) (pr_Timing probe)\<rparr>\<rparr>
      else s)"

lemma securityProbeStep_after: "securityProbeStep codec target =
    (\<lambda>probe s. afterSecurity probe (fold (securityEvidenceStep codec target probe) (pr_Evidence probe) s))"
  by (intro ext) (simp add: securityProbeStep_def afterSecurity_def Let_def)

lemma security_ids_steps [simp]:
  "so_EvidenceIDs (ss_observation (handshakeStep codec target probe evidence s)) = so_EvidenceIDs (ss_observation s)"
  "so_EvidenceIDs (ss_observation (certificateStep codec probe evidence s)) = so_EvidenceIDs (ss_observation s)"
  "so_EvidenceIDs (ss_observation (trustStep codec evidence s)) = so_EvidenceIDs (ss_observation s)"
  by (simp_all add: handshakeStep_def certificateStep_def trustStep_def limitSecurity_def handshakeResult_def
      handshakeFields_def Let_def split: sum.splits)

interpretation security: citing_projection "\<lambda>s. so_EvidenceIDs (ss_observation s)"
  "securityEvidenceStep codec target" afterSecurity for codec target
  by unfold_locales
    (auto simp: securityEvidenceStep_def notedSecurity_def afterSecurity_def Let_def set_appendUnique)

lemma settleSecurity_ids [simp]: "so_EvidenceIDs (settleSecurity seen t) = so_EvidenceIDs t"
  by (simp add: settleSecurity_def)

lemma security_ids:
  "set (so_EvidenceIDs (buildSecurityObservation codec target endpoint transport probes)) \<subseteq> carriedIDs probes"
  using security.probes_cite [where codec = codec and target = target and probes = probes and
      s = "\<lparr>ss_observation = initialSecurity target endpoint transport probes, ss_versions = [],
        ss_ciphers = [], ss_validations = [], ss_endpoints = [], ss_certificateLeaves = [],
        ss_certificateIssuers = [], ss_seenTLS = False\<rparr>"]
  by (simp add: buildSecurityObservation_def Let_def NormalizeSecurityObservation_def securityProbeStep_after
      initialSecurity_def zero_SecurityObservation_def)

text \<open>The application observation, one lemma for each of its builders.\<close>

lemma application_ids_helpers [simp]:
  "ao_EvidenceIDs (notedApplication probe evidence t) = appendUnique (ao_EvidenceIDs t) [ev_ID evidence]"
  "ao_EvidenceIDs (limitApplication text t) = ao_EvidenceIDs t"
  "ao_EvidenceIDs (timedApplication probe t) = ao_EvidenceIDs t"
  by (simp_all add: notedApplication_def limitApplication_def timedApplication_def)

interpretation dnsService: citing_projection "\<lambda>s. ao_EvidenceIDs (fst s)" "dnsServiceStep codec target"
  "\<lambda>probe s. s" for codec target
  by unfold_locales
    (auto simp: dnsServiceStep_def dnsServiceNoted_def limitDNS_def Let_def set_appendUnique split: sum.splits)

lemma dnsJudged_ids [simp]: "ao_EvidenceIDs (fst (dnsFailure (dnsResult s))) = ao_EvidenceIDs (fst s)"
  by (simp add: dnsFailure_def dnsResult_def Let_def)

lemma dns_ids:
  "set (ao_EvidenceIDs (buildDNSApplicationObservation codec target endpoint probes)) \<subseteq> carriedIDs probes"
  using dnsService.probes_cite [where codec = codec and target = target and probes = probes and
      s = "(initialDNSApplication target endpoint, initialDNS target)"]
  by (simp add: buildDNSApplicationObservation_def Let_def NormalizeApplicationObservation_def foldEvidence_def
      initialDNSApplication_def zero_ApplicationObservation_def)

interpretation protocol: citing_projection ao_EvidenceIDs "protocolStep codec" "\<lambda>probe s. s" for codec
  by unfold_locales
    (auto simp: protocolStep_def sshStep_def rdpStep_def set_appendUnique split: sum.splits)

lemma protocol_ids:
  "set (ao_EvidenceIDs (buildProtocolApplicationObservation codec target endpoint transport probes))
     \<subseteq> carriedIDs probes"
  using protocol.probes_cite [where codec = codec and probes = probes and s = "initialProtocol target endpoint transport"]
  by (simp add: buildProtocolApplicationObservation_def Let_def NormalizeApplicationObservation_def foldEvidence_def
      initialProtocol_def zero_ApplicationObservation_def)

definition afterApplication :: "ProbeResult \<Rightarrow> applicationState \<Rightarrow> applicationState" where
  "afterApplication probe s =
     (if pr_Name probe = ''http'' \<and> \<not> as_seenHTTP s
      then s\<lparr>as_seenHTTP := True, as_observation := timedApplication probe ((as_observation s)\<lparr>
        ao_RequestAttempted := True, ao_Result := HTTPResultRequestFailure,
        ao_FailureReason := pin_FailureReason (pr_Interpretation probe)\<rparr>)\<rparr>
      else s)"

lemma applicationProbeStep_after: "applicationProbeStep codec =
    (\<lambda>probe s. afterApplication probe (fold (applicationEvidenceStep codec probe) (pr_Evidence probe) s))"
  by (intro ext) (simp add: applicationProbeStep_def afterApplication_def Let_def)

lemma web_ids_steps [simp]:
  "ao_EvidenceIDs (as_observation (httpResponseStep codec probe evidence s)) = ao_EvidenceIDs (as_observation s)"
  "ao_EvidenceIDs (as_observation (httpErrorStep codec probe evidence s)) = ao_EvidenceIDs (as_observation s)"
  "ao_EvidenceIDs (as_observation (smbStep codec probe evidence s)) =
     appendUnique (ao_EvidenceIDs (as_observation s)) [ev_ID evidence]"
  by (simp_all add: httpResponseStep_def httpErrorStep_def smbStep_def httpResponseFields_def httpErrorFields_def
      smbFields_def Let_def split: sum.splits)

interpretation web: citing_projection "\<lambda>s. ao_EvidenceIDs (as_observation s)" "applicationEvidenceStep codec"
  afterApplication for codec
  by unfold_locales (auto simp: applicationEvidenceStep_def afterApplication_def Let_def set_appendUnique)

lemma settleApplication_ids [simp]: "ao_EvidenceIDs (settleApplication seen t) = ao_EvidenceIDs t"
  by (simp add: settleApplication_def)

lemma web_ids:
  "set (ao_EvidenceIDs (buildWebApplicationObservation codec target endpoint transport probes)) \<subseteq> carriedIDs probes"
  using web.probes_cite [where codec = codec and probes = probes and
      s = "\<lparr>as_observation = initialApplication target endpoint transport probes, as_statuses = [],
        as_results = [], as_urls = [], as_seenHTTP = False, as_seenSMB = False\<rparr>"]
  by (simp add: buildWebApplicationObservation_def Let_def NormalizeApplicationObservation_def
      applicationProbeStep_after initialApplication_def zero_ApplicationObservation_def)

end
