(* ===== verification/BuilderLaneFacts.thy ===== *)
theory BuilderLaneFacts
  imports BuilderFacts DestinationStatus
begin

text \<open>
  The projections of \<open>internal/observations/builder.go\<close> and order: the result does not depend on the
  order in which the probes arrive, the two lanes keep every record, and the divergences are exactly
  the groups in which a path and a packet flow disagree. At the end, runs that show two faults.
\<close>

section \<open>The order of arrival\<close>

interpretation evidence_less: go_less evidenceLess
  unfolding evidenceLess_def by (intro go_less_lex go_less_key)

interpretation probe_less: go_less probeLess
  unfolding probeLess_def by (intro go_less_lex go_less_key)

definition probeKeys :: "ProbeResult \<Rightarrow> string \<times> string \<times> string \<times> string" where
  "probeKeys probe = (pr_Name probe, pr_ProbeID probe, pr_CorrelationID probe, probeOrderKey probe)"

lemma probeLess_total: "\<not> probeLess a b \<Longrightarrow> \<not> probeLess b a \<Longrightarrow> probeKeys a = probeKeys b"
  by (auto simp: probeLess_def probeKeys_def split: if_splits)

lemma inj_on_distinct_map: "distinct (map f xs) \<Longrightarrow> a \<in> set xs \<Longrightarrow> b \<in> set xs \<Longrightarrow> f a = f b \<Longrightarrow> a = b"
  by (auto simp: distinct_map dest: inj_onD)

text \<open>The observations do not depend on the order in which the probe results arrive: results that
  differ in name, probe ID, correlation ID or content key are put in one order, and all projections
  read that order.
\<close>

theorem arrival_order_irrelevant:
  assumes "mset arrived = mset probes" "distinct (map probeKeys probes)"
  shows "orderedProbes arrived = orderedProbes probes"
proof -
  have "distinct probes" using assms(2) by (simp add: distinct_map)
  have "sortBy probeLess arrived = sortBy probeLess probes"
    by (rule probe_less.sortBy_range [OF assms(1) \<open>distinct probes\<close>])
      (rule inj_on_distinct_map [OF assms(2)], auto dest: probeLess_total)
  then show ?thesis by (simp add: orderedProbes_def)
qed

section \<open>The two lanes\<close>

definition collected :: "(ProbeResult \<Rightarrow> Evidence \<Rightarrow> 'r list) \<Rightarrow> ProbeResult list \<Rightarrow> 'r list" where
  "collected record probes = concat (map (\<lambda>probe. concat (map (record probe) (pr_Evidence probe))) probes)"

lemma foldEvidence_collected:
  "foldEvidence (\<lambda>probe evidence records. records @ record probe evidence) probes rs = rs @ collected record probes"
proof -
  have inner: "fold (\<lambda>evidence records. records @ f evidence) evidence rs = rs @ concat (map f evidence)"
    for f :: "Evidence \<Rightarrow> 'a list" and evidence rs
    by (induction evidence arbitrary: rs) simp_all
  show ?thesis unfolding foldEvidence_def collected_def inner
    by (induction probes arbitrary: rs) simp_all
qed

text \<open>The path and packet-flow lanes keep everything: the values, each beside its own provenance, are a
  rearrangement of all decodable evidence of the two kinds, so a disagreement between sources is
  never resolved by dropping one of them.
\<close>

theorem lanes_complete:
  "mset (zip (pfo_Paths (buildPathFlowObservations codec arrange probes))
      (pfo_PathProvenance (buildPathFlowObservations codec arrange probes))) =
    image_mset (\<lambda>r. (por_value r, por_provenance r)) (mset (collected (pathRecord codec) probes))
   \<and> mset (zip (pfo_PacketFlows (buildPathFlowObservations codec arrange probes))
      (pfo_PacketFlowProvenance (buildPathFlowObservations codec arrange probes))) =
    image_mset (\<lambda>r. (pfr_value r, pfr_provenance r)) (mset (collected (flowRecord codec) probes))
   \<and> length (pfo_Paths (buildPathFlowObservations codec arrange probes)) = length (collected (pathRecord codec) probes)
   \<and> length (pfo_PacketFlows (buildPathFlowObservations codec arrange probes)) = length (collected (flowRecord codec) probes)"
proof -
  have zip_maps: "zip (map f xs) (map g xs) = map (\<lambda>x. (f x, g x)) xs" for f :: "'r \<Rightarrow> 'a" and g :: "'r \<Rightarrow> 'b" and xs
    by (induction xs) simp_all
  show ?thesis
    by (simp add: buildPathFlowObservations_def Let_def pathRecords_def flowRecords_def foldEvidence_collected zip_maps)
qed

section \<open>Divergences\<close>

definition divergenceKey :: "pathObservationRecord \<times> packetFlowRecord \<Rightarrow> string" where
  "divergenceKey pair = pathObservationKey (por_value (fst pair))"

definition divergenceField :: "string \<Rightarrow> string" where
  "divergenceField key = ''destination_confirmation['' @ key @ '']''"

text \<open>What a divergence shows of a group of disagreeing pairs.\<close>

definition divergenceOf :: "(pathObservationRecord \<times> packetFlowRecord) set \<Rightarrow> string \<Rightarrow> string \<times> string set \<times> string set" where
  "divergenceOf pairs key =
     (let grp = {pair \<in> pairs. divergenceKey pair = key} in
      (divergenceField key, por_evidenceID ` fst ` grp - {[]}, pfr_evidenceID ` snd ` grp - {[]}))"

definition divergenceShown :: "ObservationDivergence \<Rightarrow> string \<times> string set \<times> string set" where
  "divergenceShown d = (od_Field d, set (od_PathEvidenceIDs d), set (od_PacketFlowEvidenceIDs d))"

lemma fold_addDivergence:
  "od_Field (fold addDivergence pairs d) = od_Field d"
  "set (od_PathEvidenceIDs (fold addDivergence pairs d)) =
     set (od_PathEvidenceIDs d) \<union> (por_evidenceID ` fst ` set pairs - {[]})"
  "set (od_PacketFlowEvidenceIDs (fold addDivergence pairs d)) =
     set (od_PacketFlowEvidenceIDs d) \<union> (pfr_evidenceID ` snd ` set pairs - {[]})"
  by (induction pairs arbitrary: d) (auto simp: addDivergence_def Let_def set_appendUnique)

lemma divergence_group:
  assumes "map_of (divergenceGroups paths flows) key = Some d"
  shows "divergenceShown d = divergenceOf (set (divergentPairs paths flows)) key"
    and "key \<in> divergenceKey ` set (divergentPairs paths flows)"
proof -
  let ?grp = "filter (\<lambda>pair. divergenceKey pair = key) (divergentPairs paths flows)"
  obtain y ys where grp: "?grp = y # ys" and d: "d = fold addDivergence (y # ys)
      (zero_ObservationDivergence\<lparr>od_Field := divergenceField (divergenceKey y)\<rparr>)"
    using assms unfolding divergenceGroups_def map_of_accumulate divergenceKey_def divergenceField_def
    by (auto split: list.splits)
  then have y: "y \<in> set (divergentPairs paths flows)" "divergenceKey y = key"
    by (auto simp: filter_eq_Cons_iff)
  then show "key \<in> divergenceKey ` set (divergentPairs paths flows)" by blast
  have "set (y # ys) = {pair \<in> set (divergentPairs paths flows). divergenceKey pair = key}"
    unfolding grp [symmetric] by auto
  then show "divergenceShown d = divergenceOf (set (divergentPairs paths flows)) key"
    by (simp add: divergenceShown_def divergenceOf_def d fold_addDivergence y(2) zero_ObservationDivergence_def
        Let_def del: fold.simps list.set(2))
qed

lemma divergence_keys: "fst ` set (divergenceGroups paths flows) = divergenceKey ` set (divergentPairs paths flows)"
proof (rule set_eqI)
  fix key
  have "key \<in> fst ` set (divergenceGroups paths flows) \<longleftrightarrow> map_of (divergenceGroups paths flows) key \<noteq> None"
    by (simp add: map_of_eq_None_iff)
  also have "\<dots> \<longleftrightarrow> filter (\<lambda>pair. divergenceKey pair = key) (divergentPairs paths flows) \<noteq> []"
    unfolding divergenceGroups_def map_of_accumulate divergenceKey_def by (auto split: list.splits)
  also have "\<dots> \<longleftrightarrow> key \<in> divergenceKey ` set (divergentPairs paths flows)"
    by (auto simp: filter_empty_conv)
  finally show "key \<in> fst ` set (divergenceGroups paths flows) \<longleftrightarrow> key \<in> divergenceKey ` set (divergentPairs paths flows)" .
qed

text \<open>The divergences are exact: there is one for every destination, port and protocol at which an
  explicit path verdict and an explicit packet-flow verdict contradict each other, and for no other,
  and each cites the evidence of all paths and all flows that take part in a contradiction there.
\<close>

theorem divergences_exact:
  "divergenceShown ` set (pathFlowDivergences paths flows) =
     divergenceOf (set (divergentPairs paths flows)) ` divergenceKey ` set (divergentPairs paths flows)
   \<and> length (pathFlowDivergences paths flows) = card (divergenceKey ` set (divergentPairs paths flows))"
proof
  let ?groups = "divergenceGroups paths flows"
  have shown: "divergenceShown (the (map_of ?groups key)) = divergenceOf (set (divergentPairs paths flows)) key"
    if "key \<in> fst ` set ?groups" for key
  proof -
    have "map_of ?groups key \<noteq> None" using that by (simp add: map_of_eq_None_iff)
    then obtain d where "map_of ?groups key = Some d" by blast
    then show ?thesis using divergence_group(1) [of paths flows key d] by simp
  qed
  have "divergenceShown ` set (pathFlowDivergences paths flows) =
      (\<lambda>key. divergenceShown (the (map_of ?groups key))) ` fst ` set ?groups"
    by (simp add: pathFlowDivergences_def Let_def sortedKeys_def image_image)
  also have "\<dots> = divergenceOf (set (divergentPairs paths flows)) ` fst ` set ?groups"
    by (rule image_cong [OF refl]) (rule shown)
  finally show "divergenceShown ` set (pathFlowDivergences paths flows) =
     divergenceOf (set (divergentPairs paths flows)) ` divergenceKey ` set (divergentPairs paths flows)"
    unfolding divergence_keys .
  have "card (set (map fst ?groups)) = length (map fst ?groups)"
    by (rule distinct_card) (simp add: divergenceGroups_def distinct_accumulate)
  then have "length (pathFlowDivergences paths flows) = card (fst ` set ?groups)"
    by (simp add: pathFlowDivergences_def Let_def sortedKeys_def)
  also have "card (fst ` set ?groups) = card (divergenceKey ` set (divergentPairs paths flows))"
    unfolding divergence_keys ..
  finally show "length (pathFlowDivergences paths flows) = card (divergenceKey ` set (divergentPairs paths flows))" .
qed

section \<open>Runs at sample inputs\<close>

definition tcpProbe :: ProbeResult where
  "tcpProbe = zero_ProbeResult\<lparr>pr_Name := ''tcp'', pr_ProbeID := ''p1'',
     pr_Evidence := [zero_Evidence\<lparr>ev_ID := ''tcp-1'', ev_Kind := EvidenceKindTCPConnection\<rparr>]\<rparr>"

definition dnsProbe :: ProbeResult where
  "dnsProbe = zero_ProbeResult\<lparr>pr_Name := ''dns'', pr_ProbeID := ''p2'',
     pr_Evidence := [zero_Evidence\<lparr>ev_ID := ''dns-config'', ev_Kind := EvidenceKindDNSConfiguration\<rparr>]\<rparr>"

text \<open>A codec that reads one RDP and one DNS configuration payload, and nothing else.\<close>

definition sampleCodec :: "rdpApplicationEvidence \<Rightarrow> DNSConfigurationEvidence \<Rightarrow> jsonCodec" where
  "sampleCodec rdp dns = 
     \<lparr>jd_DNSResolution = \<lambda>raw. Inl ''unexpected payload'', jd_DNSConfiguration = \<lambda>raw. Inr dns,
      jd_LegacyDNSConfiguration = \<lambda>raw. Inl ''unexpected payload'', jd_DNSService = \<lambda>raw. Inl ''unexpected payload'',
      jd_TCPEndpoint = \<lambda>raw. Inl ''unexpected payload'', jd_TCPTransport = \<lambda>raw. Inl ''unexpected payload'',
      jd_Handshake = \<lambda>raw. Inl ''unexpected payload'', jd_Certificate = \<lambda>raw. Inl ''unexpected payload'',
      jd_Interception = \<lambda>raw. Inl ''unexpected payload'', jd_SMB = \<lambda>raw. Inl ''unexpected payload'',
      jd_HTTPResponse = \<lambda>raw. Inl ''unexpected payload'', jd_HTTPError = \<lambda>raw. Inl ''unexpected payload'',
      jd_SSH = \<lambda>raw. Inl ''unexpected payload'', jd_RDP = \<lambda>raw. Inr rdp, jd_Path = \<lambda>raw. Inl ''unexpected payload'',
      jd_PacketFlow = \<lambda>raw. Inl ''unexpected payload'', je_Path = \<lambda>path. [], je_PacketFlow = \<lambda>flow. []\<rparr>"

text \<open>
  The RDP probe found no address to try. Its response type \<open>no_candidate\<close> is neither a timeout nor a
  transport failure, so the projection records a received response, and the destination of a host that
  was never contacted is degraded because its protocol handshake \<open>was rejected or malformed\<close>.
\<close>

definition rdpProbe :: ProbeResult where
  "rdpProbe = zero_ProbeResult\<lparr>pr_Name := ''rdp'',
     pr_Evidence := [zero_Evidence\<lparr>ev_ID := ''rdp-1'', ev_Kind := EvidenceKindRDPNegotiation\<rparr>]\<rparr>"

definition rdpTarget :: Target where
  "rdpTarget = zero_Target\<lparr>tg_RequestedIdentity := ''rdp.example'', tg_ApplicationProtocol := ApplicationProtocolRDP,
     tg_Port := 3389\<rparr>"

definition noCandidate :: ApplicationObservation where
  "noCandidate = buildApplicationObservation
     (sampleCodec (zero_rdpApplicationEvidence\<lparr>rae_ResponseType := ''no_candidate''\<rparr>) zero_DNSConfigurationEvidence)
     rdpTarget zero_EndpointObservation zero_TransportObservation [rdpProbe]"

lemma rdp_without_contact:
  "(\<lambda>seen. ao_ResponseReceived seen \<and> \<not> ao_TransportConnected seen \<and> \<not> ao_RequestAttempted seen
     \<and> ds_Detail (DestinationStatusFromObservations (zero_Observations\<lparr>ob_Application := seen\<rparr>)) =
       ''RDP protocol handshake was rejected or malformed.'') noCandidate"
  by code_simp

lemma rdp_without_contact_responds:
  "ao_ResponseReceived noCandidate \<and> \<not> ao_TransportConnected noCandidate \<and> \<not> ao_RequestAttempted noCandidate"
  using rdp_without_contact by simp

lemma rdp_without_contact_degraded:
  "ds_Detail (DestinationStatusFromObservations (zero_Observations\<lparr>ob_Application := noCandidate\<rparr>)) =
     ''RDP protocol handshake was rejected or malformed.''"
  using rdp_without_contact by simp

text \<open>
  A DNS configuration alone gives an inferred name resolution. A probe of another subsystem that is
  unsupported on this platform turns its certainty into \<open>unsupported\<close>.
\<close>

definition enterpriseProbe :: ProbeResult where
  "enterpriseProbe = zero_ProbeResult\<lparr>pr_Name := ''enterprise'',
     pr_Interpretation := (pr_Interpretation zero_ProbeResult)\<lparr>pin_FailureReason := FailureReasonUnsupported\<rparr>\<rparr>"

definition configuredNames :: "ProbeResult list \<Rightarrow> NameResolutionObservation" where
  "configuredNames probes = buildNameResolutionObservation
     (sampleCodec zero_rdpApplicationEvidence (zero_DNSConfigurationEvidence\<lparr>dce_Resolvers := [''192.0.2.53'']\<rparr>))
     rdpTarget probes"

lemma unrelated_probe_unsupported:
  "nro_Certainty (configuredNames [dnsProbe]) = ObservationCertaintyInferred
   \<and> nro_Certainty (configuredNames [dnsProbe, enterpriseProbe]) = ObservationCertaintyUnsupported"
  by code_simp

end
