(* ===== verification/GoPrefix.thy ===== *)
theory GoPrefix
  imports GoNet
begin

text \<open>
  What the route package uses of Go's \<open>net/netip\<close> besides addresses: prefixes (\<open>ParsePrefix\<close>,
  \<open>PrefixFrom\<close>, \<open>Prefix.String\<close>, \<open>Contains\<close>, \<open>Masked\<close>) and the classes of addresses. A prefix is an
  address and its number of bits, which is absent in an invalid prefix. Functions of the standard
  library have no entry in the map. The last section is the round trip of prefixes.
\<close>

section \<open>Classes of addresses\<close>

definition isValidAddr :: "Addr \<Rightarrow> bool" where
  "isValidAddr a \<longleftrightarrow> a \<noteq> NoAddr"

definition bitLen :: "Addr \<Rightarrow> nat" where
  "bitLen a = (case a of NoAddr \<Rightarrow> 0 | V4 os \<Rightarrow> 32 | V6 gs z \<Rightarrow> 128)"

definition isUnspecified :: "Addr \<Rightarrow> bool" where
  "isUnspecified a \<longleftrightarrow> a = V4 [0, 0, 0, 0] \<or> a = V6 [0, 0, 0, 0, 0, 0, 0, 0] []"

definition isLoopback :: "Addr \<Rightarrow> bool" where
  "isLoopback a = (case unmap a of NoAddr \<Rightarrow> False | V4 os \<Rightarrow> os ! 0 = 127
     | V6 gs z \<Rightarrow> gs = [0, 0, 0, 0, 0, 0, 0, 1])"

definition isLinkLocalUnicast :: "Addr \<Rightarrow> bool" where
  "isLinkLocalUnicast a = (case unmap a of NoAddr \<Rightarrow> False
     | V4 os \<Rightarrow> os ! 0 = 169 \<and> os ! 1 = 254 | V6 gs z \<Rightarrow> gs ! 0 div 64 = 0xfe80 div 64)"

definition isPrivate :: "Addr \<Rightarrow> bool" where
  "isPrivate a = (case unmap a of NoAddr \<Rightarrow> False
     | V4 os \<Rightarrow> os ! 0 = 10 \<or> os ! 0 = 172 \<and> os ! 1 div 16 = 1 \<or> os ! 0 = 192 \<and> os ! 1 = 168
     | V6 gs z \<Rightarrow> gs ! 0 div 512 = 0xfc00 div 512)"

definition withoutZone :: "Addr \<Rightarrow> Addr" where
  "withoutZone a = (case a of V6 gs z \<Rightarrow> V6 gs [] | _ \<Rightarrow> a)"

section \<open>Prefixes\<close>

datatype Prefix = Prefix (px_addr: Addr) (px_bits: "nat option")

definition zero_Prefix :: Prefix where
  "zero_Prefix = Prefix NoAddr None"

definition prefixFrom :: "Addr \<Rightarrow> int \<Rightarrow> Prefix" where
  "prefixFrom a bits = Prefix (withoutZone a)
     (if a \<noteq> NoAddr \<and> 0 \<le> bits \<and> bits \<le> int (bitLen a) then Some (nat bits) else None)"

definition prefixValid :: "Prefix \<Rightarrow> bool" where
  "prefixValid p \<longleftrightarrow> px_bits p \<noteq> None"

definition prefixBits :: "Prefix \<Rightarrow> int" where
  "prefixBits p = (case px_bits p of None \<Rightarrow> - 1 | Some b \<Rightarrow> int b)"

text \<open>The first \<open>b\<close> bits of an address given in parts of \<open>w\<close> bits; the other bits become 0.\<close>

fun maskParts :: "nat \<Rightarrow> nat \<Rightarrow> nat list \<Rightarrow> nat list" where
  "maskParts w b [] = []"
| "maskParts w b (n # ns) = (n div 2 ^ (w - min w b)) * 2 ^ (w - min w b) # maskParts w (b - w) ns"

definition maskAddr :: "nat \<Rightarrow> Addr \<Rightarrow> Addr" where
  "maskAddr b a = (case a of NoAddr \<Rightarrow> NoAddr | V4 os \<Rightarrow> V4 (maskParts 8 b os)
     | V6 gs z \<Rightarrow> V6 (maskParts 16 b gs) z)"

definition hasZone :: "Addr \<Rightarrow> bool" where
  "hasZone a = (case a of V6 gs z \<Rightarrow> z \<noteq> [] | _ \<Rightarrow> False)"

definition prefixContains :: "Prefix \<Rightarrow> Addr \<Rightarrow> bool" where
  "prefixContains p a = (case px_bits p of
     None \<Rightarrow> False
   | Some b \<Rightarrow> \<not> hasZone a \<and> bitLen (px_addr p) \<noteq> 0 \<and> bitLen (px_addr p) = bitLen a
       \<and> maskAddr b a = maskAddr b (px_addr p))"

definition prefixMasked :: "Prefix \<Rightarrow> Prefix" where
  "prefixMasked p = (case px_bits p of
     None \<Rightarrow> zero_Prefix
   | Some b \<Rightarrow> (if b \<le> bitLen (px_addr p) \<and> px_addr p \<noteq> NoAddr
       then prefixFrom (maskAddr b (px_addr p)) (int b) else zero_Prefix))"

definition prefixString :: "Prefix \<Rightarrow> string" where
  "prefixString p = (case px_bits p of
     None \<Rightarrow> ''invalid Prefix'' | Some b \<Rightarrow> addrString (px_addr p) @ CHR ''/'' # itoa b)"

definition parsePrefix :: "string \<Rightarrow> Prefix option" where
  "parsePrefix s = (case lastIndexByte CHR ''/'' s of
     None \<Rightarrow> None
   | Some i \<Rightarrow> (case parseAddr (take i s) of
       None \<Rightarrow> None
     | Some a \<Rightarrow>
         let text = drop (i + 1) s in
         if hasZone a \<or> text = [] \<or> \<not> list_all isDigitC text \<or> length text > 1 \<and> hd text = CHR ''0''
         then None
         else if decVal text > bitLen a then None
         else Some (prefixFrom a (int (decVal text)))))"

text \<open>What \<open>PrefixFrom\<close> makes of a well-formed address and a length that fits.\<close>

definition prefix_wf :: "Prefix \<Rightarrow> bool" where
  "prefix_wf p = (case px_bits p of None \<Rightarrow> False
     | Some b \<Rightarrow> addr_wf (px_addr p) \<and> \<not> hasZone (px_addr p) \<and> b \<le> bitLen (px_addr p))"

section \<open>The round trip\<close>

lemma indexByte_append: "c \<notin> set xs \<Longrightarrow> indexByte c (xs @ c # ys) = Some (length xs)"
  by (induction xs) auto

lemma lastIndexByte_sep: "c \<notin> set t \<Longrightarrow> lastIndexByte c (s @ c # t) = Some (length s)"
  using indexByte_append [of c "rev t" "rev s"] by (simp add: lastIndexByte_def)

lemma prefixFrom_wf: "prefix_wf p \<Longrightarrow> px_bits p = Some b \<Longrightarrow> prefixFrom (px_addr p) (int b) = p"
  by (cases p) (auto simp: prefix_wf_def prefixFrom_def withoutZone_def hasZone_def addr_wf_def split: Addr.splits)

lemma itoa_head:
  assumes "length (itoa n) > 1"
  shows "hd (itoa n) \<noteq> CHR ''0''"
proof (cases "n = 0")
  case True
  then have "length (itoa n) = 1" by (subst itoa.simps) simp
  with assms show ?thesis by simp
next
  case False
  then show ?thesis by (intro hd_itoa) simp
qed

lemma parsePrefix_prefixString:
  assumes "prefix_wf p" "unmap (px_addr p) = px_addr p"
  shows "parsePrefix (prefixString p) = Some p"
proof -
  obtain b where b: "px_bits p = Some b" and wf: "addr_wf (px_addr p)" "\<not> hasZone (px_addr p)" "b \<le> bitLen (px_addr p)"
    using assms(1) by (auto simp: prefix_wf_def split: option.splits)
  have "CHR ''/'' \<notin> set (itoa b)" using itoa_digits [of "CHR ''/''" b] by (auto simp: isDigitC_def byteOf_def)
  moreover have "list_all isDigitC (itoa b)" by (simp add: list_all_iff itoa_digits)
  ultimately show ?thesis
    using wf(2,3) itoa_head [of b] parseAddr_addrString_unmapped [OF wf(1) assms(2)] prefixFrom_wf [OF assms(1) b]
    by (auto simp: prefixString_def b parsePrefix_def lastIndexByte_sep Let_def)
qed

lemma parsePrefix_wf:
  assumes "parsePrefix s = Some p"
  shows "prefix_wf p"
proof -
  obtain i a where a: "parseAddr (take i s) = Some a" "\<not> hasZone a" "decVal (drop (i + 1) s) \<le> bitLen a"
    and p: "p = prefixFrom a (int (decVal (drop (i + 1) s)))"
    using assms by (auto simp: parsePrefix_def Let_def split: option.splits if_splits)
  have "addr_wf a" using a(1) by (rule parseAddr_wf)
  then show ?thesis using a(2,3)
    by (auto simp: p prefix_wf_def prefixFrom_def withoutZone_def hasZone_def addr_wf_def split: Addr.splits)
qed

end
