(* ===== verification/Route.thy ===== *)
theory Route
  imports GoPrefix ProbeEvidence Target
begin

text \<open>
  \<open>internal/probe/route\<close>: the choice of a route from a table (\<open>select.go\<close>), the network context of a
  target (\<open>context.go\<close>) and the three route probes (\<open>probes.go\<close>). The route table, the neighbour
  cache, the gateway check and the clock are outside; a probe takes what they answered as arguments.
  \<open>addrString\<close> of the package is \<open>routeAddr\<close>, \<open>Default\<close> is \<open>DefaultRoute\<close>, and the names that other
  packages use too carry a suffix.
\<close>

section \<open>Types\<close>

record Route =
  rt_Destination :: Prefix
  rt_Gateway :: Addr
  rt_Interface :: string
  rt_InterfaceIndex :: int
  rt_Metric :: int
  rt_Source :: Addr
  rt_InterfaceType :: string
  rt_VPNOrTunnel :: bool
  rt_VirtualAdapter :: bool

definition zero_Route :: Route where
  "zero_Route = \<lparr>rt_Destination = zero_Prefix, rt_Gateway = NoAddr, rt_Interface = [], rt_InterfaceIndex = 0,
     rt_Metric = 0, rt_Source = NoAddr, rt_InterfaceType = [], rt_VPNOrTunnel = False, rt_VirtualAdapter = False\<rparr>"

record Selection =
  sl_Target :: Addr
  sl_Selected :: Route
  sl_Candidates :: "Route list"
  sl_Ambiguous :: bool

record RouteEvidenceCandidate =
  rec_RoutePrefix :: string
  rec_Gateway :: string
  rec_NextHop :: string
  rec_Interface :: string
  rec_InterfaceIndex :: int
  rec_SourceAddress :: string
  rec_Metric :: int
  rec_VPNOrTunnel :: bool
  rec_VirtualAdapter :: bool
  rec_Selected :: bool

record RouteObservation =
  ro_RouteType :: string
  ro_TargetIP :: string
  ro_Destination :: string
  ro_Gateway :: string
  ro_Interface :: string
  ro_InterfaceIndex :: int
  ro_SourceAddress :: string
  ro_Metric :: int
  ro_EffectiveRoute :: RouteDisposition
  ro_RoutePrefix :: string
  ro_NextHop :: string
  ro_InterfaceType :: string
  ro_VPNOrTunnel :: bool
  ro_VirtualAdapter :: bool
  ro_RouteSelectionAmbiguous :: bool
  ro_CompetingRoutes :: "RouteEvidenceCandidate list"
  ro_Neighbor :: "NeighborEvidence option"
  ro_DefaultRouteApplicable :: "bool option"
  ro_SupportingOnly :: bool
  ro_GatewayTested :: "bool option"
  ro_Reachable :: "bool option"
  ro_Error :: string

definition FailureReasonProbeTimeout :: FailureReason where [go_consts]: "FailureReasonProbeTimeout = ''probe_timeout''"
definition FailureReasonInsufficientPrivilege :: FailureReason where
  [go_consts]: "FailureReasonInsufficientPrivilege = ''insufficient_privilege''"
definition DefaultRouteProbeName :: string where [go_consts]: "DefaultRouteProbeName = ''default_route''"
definition TargetRouteProbeName :: string where [go_consts]: "TargetRouteProbeName = ''target_route''"
definition GatewayProbeName :: string where [go_consts]: "GatewayProbeName = ''gateway_reachability''"

text \<open>
  An error is its text and what \<open>errors.Is\<close> and \<open>errors.As\<close> find in it: a passed deadline, a
  \<open>net.Error\<close> that is a timeout, the two errors of the package, and \<open>EPERM\<close> or \<open>EACCES\<close>.
\<close>

record routeError =
  re_text :: string
  re_deadline :: bool
  re_timeout :: bool
  re_unsupported :: bool
  re_gatewayUnsupported :: bool
  re_permission :: bool

text \<open>
  The encoder and decoders of route evidence. A map is the list of its entries. \<open>Unmarshal\<close> into the
  interfaces leaves a value behind even when it reports an error, so that decoder returns both.
\<close>

datatype jsonValue = JString string | JInt int | JBool bool

record gatewayRoute =
  gwr_Destination :: string
  gwr_RoutePrefix :: string
  gwr_Gateway :: string
  gwr_EffectiveRoute :: RouteDisposition

record routeCodec =
  rj_encode :: "RouteObservation \<Rightarrow> string"
  rj_encodeMap :: "(string \<times> jsonValue) list \<Rightarrow> string"
  rj_decode :: "string \<Rightarrow> RouteObservation result"
  rj_interfaces :: "string \<Rightarrow> InterfaceState list \<times> bool"
  rj_gateway :: "string \<Rightarrow> gatewayRoute result"

section \<open>Selection\<close>

definition NormalizePrefix :: "Prefix \<Rightarrow> Prefix" where
  "NormalizePrefix prefix =
     (case (px_addr prefix, px_bits prefix) of
        (V6 gs z, Some b) \<Rightarrow> (if mappedGroups gs \<and> b \<ge> 96
          then prefixMasked (prefixFrom (unmap (px_addr prefix)) (int b - 96)) else prefix)
      | _ \<Rightarrow> prefix)"

definition normalizeRoute :: "Route \<Rightarrow> Route" where
  "normalizeRoute route = route\<lparr>
     rt_Destination := NormalizePrefix (rt_Destination route),
     rt_Gateway := NormalizeAddr (rt_Gateway route),
     rt_Source := NormalizeAddr (rt_Source route),
     rt_Interface := (case parseAddr (rt_Interface route) of
       Some address \<Rightarrow> addrString (NormalizeAddr address) | None \<Rightarrow> rt_Interface route)\<rparr>"

definition sameRoute :: "Route \<Rightarrow> Route \<Rightarrow> bool" where
  "sameRoute left right \<longleftrightarrow>
     rt_Destination left = rt_Destination right \<and> rt_Gateway left = rt_Gateway right
     \<and> rt_Interface left = rt_Interface right \<and> rt_InterfaceIndex left = rt_InterfaceIndex right
     \<and> rt_Metric left = rt_Metric right \<and> rt_Source left = rt_Source right
     \<and> rt_InterfaceType left = rt_InterfaceType right \<and> rt_VPNOrTunnel left = rt_VPNOrTunnel right
     \<and> rt_VirtualAdapter left = rt_VirtualAdapter right"

definition routeLess :: "Route \<Rightarrow> Route \<Rightarrow> bool" where
  "routeLess a b =
     (let ab = prefixBits (rt_Destination a); bb = prefixBits (rt_Destination b) in
      if ab \<noteq> bb then ab > bb
      else if rt_Metric a \<noteq> rt_Metric b then rt_Metric a < rt_Metric b
      else if rt_InterfaceIndex a \<noteq> rt_InterfaceIndex b then rt_InterfaceIndex a < rt_InterfaceIndex b
      else rt_Interface a < rt_Interface b)"

definition matchingRoutes :: "Route list \<Rightarrow> Addr \<Rightarrow> Route list" where
  "matchingRoutes routes target =
     filter (\<lambda>r. prefixValid (rt_Destination r) \<and> prefixContains (rt_Destination r) target) (map normalizeRoute routes)"

definition samePrecedence :: "Route \<Rightarrow> Route \<Rightarrow> bool" where
  "samePrecedence a b \<longleftrightarrow> prefixBits (rt_Destination a) = prefixBits (rt_Destination b) \<and> rt_Metric a = rt_Metric b"

definition SelectDetailed :: "Route list \<Rightarrow> Addr \<Rightarrow> Selection option" where
  "SelectDetailed routes target0 =
     (let target = NormalizeAddr target0 in
      if \<not> isValidAddr target then None
      else case sortBy routeLess (matchingRoutes routes target) of
          [] \<Rightarrow> None
        | first # others \<Rightarrow> Some \<lparr>sl_Target = target, sl_Selected = first, sl_Candidates = first # others,
            sl_Ambiguous = list_ex (\<lambda>c. \<not> sameRoute c first) (takeWhile (\<lambda>c. samePrecedence c first) others)\<rparr>)"

definition Select :: "Route list \<Rightarrow> Addr \<Rightarrow> Route option" where
  "Select routes target = map_option sl_Selected (SelectDetailed routes target)"

definition defaultLess :: "Route \<Rightarrow> Route \<Rightarrow> bool" where
  "defaultLess a b =
     (if rt_Metric a \<noteq> rt_Metric b then rt_Metric a < rt_Metric b else rt_InterfaceIndex a < rt_InterfaceIndex b)"

definition DefaultRoute :: "Route list \<Rightarrow> nat \<Rightarrow> Route option" where
  "DefaultRoute routes family =
     (let filtered = filter (\<lambda>r. let p = rt_Destination r in
            prefixValid p \<and> prefixBits p = 0 \<and> \<not> (family = 4 \<and> \<not> is4 (px_addr p)) \<and> \<not> (family = 6 \<and> is4 (px_addr p)))
          (map normalizeRoute routes) in
      case sortBy defaultLess filtered of [] \<Rightarrow> None | route # rest \<Rightarrow> Some route)"

section \<open>The address of a target\<close>

definition stripZone :: "string \<Rightarrow> string" where
  "stripZone text = (case lastIndexByte CHR ''%'' text of
     Some i \<Rightarrow> (if i > 0 then take i text else text) | None \<Rightarrow> text)"

definition parseContextAddress :: "string \<Rightarrow> Addr option" where
  "parseContextAddress value = map_option NormalizeAddr (parseAddr (stripZone (trimSet ''[]'' (trimSpace value))))"

definition selectedEndpointAddress :: "Target \<Rightarrow> string" where
  "selectedEndpointAddress target =
     (case tg_SelectedEndpoint target of None \<Rightarrow> [] | Some e \<Rightarrow> ep_Address e)"

fun firstAddress :: "string list \<Rightarrow> Addr" where
  "firstAddress [] = NoAddr"
| "firstAddress (value # values) =
     (case parseContextAddress value of Some address \<Rightarrow> address | None \<Rightarrow> firstAddress values)"

definition targetAddress :: "Target \<Rightarrow> Addr" where
  "targetAddress target = firstAddress
     ([selectedEndpointAddress target, tg_LiteralIP target, tg_RequestedIdentity target] @ tg_ResolvedAddresses target)"

text \<open>The text of an error of \<open>netip.ParseAddr\<close> is a function of the text it was given.\<close>

definition parseTargetAddress :: "(string \<Rightarrow> string) \<Rightarrow> string \<Rightarrow> Addr result" where
  "parseTargetAddress parseErr host0 =
     (let host = trimSpace host0 in
      if host = [] then Inl ''target host is empty''
      else case parseAddr (stripZone host) of
          None \<Rightarrow> Inl (parseErr (stripZone host))
        | Some address \<Rightarrow> Inr (NormalizeAddr address))"

definition probeTargetAddress :: "(string \<Rightarrow> string) \<Rightarrow> Addr \<Rightarrow> Target \<Rightarrow> Addr result" where
  "probeTargetAddress parseErr targetIP target =
     (if isValidAddr targetIP then Inr (NormalizeAddr targetIP)
      else if isValidAddr (targetAddress target) then Inr (targetAddress target)
      else parseTargetAddress parseErr (tg_RequestedIdentity target))"

definition targetFamily :: "Target \<Rightarrow> nat" where
  "targetFamily target =
     (if \<not> isValidAddr (targetAddress target) then 0 else if is4 (targetAddress target) then 4 else 6)"

definition routeIsOnLink :: "Route \<Rightarrow> bool" where
  "routeIsOnLink route \<longleftrightarrow> \<not> isValidAddr (rt_Gateway route) \<or> isUnspecified (rt_Gateway route)"

section \<open>Route evidence\<close>

definition routeAddr :: "Addr \<Rightarrow> string" where
  "routeAddr address =
     (if \<not> isValidAddr address \<or> isUnspecified address then [] else addrString (NormalizeAddr address))"

definition routeNextHop :: "Route \<Rightarrow> string" where
  "routeNextHop route = (if routeAddr (rt_Gateway route) \<noteq> [] then routeAddr (rt_Gateway route) else ''on-link'')"

definition routeEvidenceCandidate :: "Route \<Rightarrow> RouteEvidenceCandidate" where
  "routeEvidenceCandidate route0 =
     (let route = normalizeRoute route0; gateway = routeAddr (rt_Gateway route) in
      \<lparr>rec_RoutePrefix = prefixString (rt_Destination route), rec_Gateway = gateway,
       rec_NextHop = (if gateway \<noteq> [] then gateway else ''on-link''),
       rec_Interface = rt_Interface route, rec_InterfaceIndex = rt_InterfaceIndex route,
       rec_SourceAddress = routeAddr (rt_Source route), rec_Metric = rt_Metric route,
       rec_VPNOrTunnel = rt_VPNOrTunnel route, rec_VirtualAdapter = rt_VirtualAdapter route,
       rec_Selected = False\<rparr>)"

definition selectedRouteEvidence ::
    "string \<Rightarrow> Selection \<Rightarrow> string \<Rightarrow> NeighborEvidence option \<Rightarrow> RouteObservation" where
  "selectedRouteEvidence routeType selection target neighbor =
     (let selected = normalizeRoute (sl_Selected selection); gateway = routeAddr (rt_Gateway selected) in
      \<lparr>ro_RouteType = routeType, ro_TargetIP = target,
       ro_Destination = prefixString (rt_Destination selected), ro_Gateway = gateway,
       ro_Interface = rt_Interface selected, ro_InterfaceIndex = rt_InterfaceIndex selected,
       ro_SourceAddress = routeAddr (rt_Source selected), ro_Metric = rt_Metric selected,
       ro_EffectiveRoute = (if gateway \<noteq> [] then RouteDispositionRouted else RouteDispositionOnLink),
       ro_RoutePrefix = prefixString (rt_Destination selected),
       ro_NextHop = (if gateway \<noteq> [] then gateway else ''on-link''),
       ro_InterfaceType = rt_InterfaceType selected, ro_VPNOrTunnel = rt_VPNOrTunnel selected,
       ro_VirtualAdapter = rt_VirtualAdapter selected,
       ro_RouteSelectionAmbiguous = sl_Ambiguous selection,
       ro_CompetingRoutes = map routeEvidenceCandidate
         (filter (\<lambda>c. \<not> sameRoute c selected) (map normalizeRoute (sl_Candidates selection))),
       ro_Neighbor = neighbor, ro_DefaultRouteApplicable = None, ro_SupportingOnly = False,
       ro_GatewayTested = None, ro_Reachable = None, ro_Error = []\<rparr>)"

definition DecodeRouteEvidence :: "routeCodec \<Rightarrow> Evidence \<Rightarrow> RouteObservation result" where
  "DecodeRouteEvidence codec evidence =
     (if ev_Kind evidence \<noteq> EvidenceKindRoute then Inl ''evidence is not route evidence''
      else case rj_decode codec (ev_Raw evidence) of
          Inl err \<Rightarrow> Inl err
        | Inr o0 \<Rightarrow>
            let o1 = o0\<lparr>ro_RoutePrefix := (if ro_RoutePrefix o0 = [] then ro_Destination o0 else ro_RoutePrefix o0),
                  ro_Gateway := (case parseAddr (ro_Gateway o0) of
                    Some gateway \<Rightarrow> (if isUnspecified gateway then [] else ro_Gateway o0)
                  | None \<Rightarrow> ro_Gateway o0)\<rparr>;
                hasRoute = ro_RoutePrefix o1 \<noteq> [] \<or> ro_Gateway o1 \<noteq> [] \<or> ro_Interface o1 \<noteq> []
                  \<or> ro_InterfaceIndex o1 \<noteq> 0 in
            Inr (o1\<lparr>
              ro_EffectiveRoute := (if ro_EffectiveRoute o1 = [] \<and> hasRoute
                then (if ro_Gateway o1 = [] then RouteDispositionOnLink else RouteDispositionRouted)
                else ro_EffectiveRoute o1),
              ro_NextHop := (if ro_NextHop o1 = [] \<and> hasRoute
                then (if ro_Gateway o1 = [] then ''on-link'' else ro_Gateway o1) else ro_NextHop o1)\<rparr>))"

section \<open>The network context\<close>

definition matchingInterface :: "Route \<Rightarrow> InterfaceState list \<Rightarrow> InterfaceState option" where
  "matchingInterface selected interfaces =
     (case find (\<lambda>i. rt_InterfaceIndex selected \<noteq> 0 \<and> ifs_Index i = rt_InterfaceIndex selected) interfaces of
        Some i \<Rightarrow> Some i
      | None \<Rightarrow> find (\<lambda>i. rt_Interface selected \<noteq> [] \<and> ifs_Name i = rt_Interface selected
          \<or> list_ex (\<lambda>a. isValidAddr (ifa_IP a) \<and> addrString (NormalizeAddr (ifa_IP a)) = rt_Interface selected)
              (ifs_Addresses i)) interfaces)"

definition addressScore :: "Route \<Rightarrow> Addr \<Rightarrow> InterfaceAddress \<Rightarrow> nat" where
  "addressScore selected target value =
     (let address = NormalizeAddr (ifa_IP value); gateway = rt_Gateway selected in
      if prefixBits (rt_Destination selected) > 0 \<and> prefixContains (rt_Destination selected) address then 0
      else if isValidAddr gateway \<and> \<not> isUnspecified gateway \<and> ifa_Prefix value > 0
      then (if prefixContains (prefixMasked (prefixFrom address (ifa_Prefix value))) gateway then 0 else 2)
      else if isLinkLocalUnicast address = isLinkLocalUnicast target then 1
      else 2)"

definition scoreLess :: "Addr \<times> nat \<Rightarrow> Addr \<times> nat \<Rightarrow> bool" where
  "scoreLess a b = (if snd a \<noteq> snd b then snd a < snd b else addrString (fst a) < addrString (fst b))"

definition sourceAddress :: "InterfaceState \<Rightarrow> Route \<Rightarrow> Addr \<Rightarrow> string" where
  "sourceAddress iface selected target0 =
     (let target = (if isValidAddr target0 then target0 else px_addr (rt_Destination selected));
          usable = filter (\<lambda>v. let address = NormalizeAddr (ifa_IP v) in
            isValidAddr address \<and> \<not> isUnspecified address \<and> is4 address = is4 target) (ifs_Addresses iface) in
      case sortBy scoreLess (map (\<lambda>v. (NormalizeAddr (ifa_IP v), addressScore selected target v)) usable) of
        [] \<Rightarrow> [] | best # rest \<Rightarrow> addrString (fst best))"

definition tunnelType :: "string \<Rightarrow> bool" where
  "tunnelType kind \<longleftrightarrow> equalFold kind ''vpn'' \<or> equalFold kind ''tunnel''"

definition contextInterface :: "Route \<Rightarrow> Addr \<Rightarrow> InterfaceState option \<Rightarrow> NetworkContext \<Rightarrow> NetworkContext" where
  "contextInterface selected target iface c0 =
     (let c1 = (case iface of
            None \<Rightarrow> c0
          | Some i \<Rightarrow>
              let vpn = ifs_VPN i \<or> tunnelType (ifs_Type i) in
              c0\<lparr>nc_SelectedSourceInterface := ifs_Name i, nc_SelectedSourceInterfaceIndex := ifs_Index i,
                nc_VPNOrTunnelInvolvement := vpn,
                nc_VirtualAdapterInvolvement := ifs_Virtual i \<or> vpn \<or> equalFold (ifs_Type i) ''virtual'',
                nc_Provenance := (if nc_Provenance c0 = [] \<and> ifs_Name i \<noteq> []
                  then [''native-interface-api''] else nc_Provenance c0)\<rparr>);
          vpn = (if rt_InterfaceType selected \<noteq> [] \<and> \<not> nc_VPNOrTunnelInvolvement c1
            then tunnelType (rt_InterfaceType selected) else nc_VPNOrTunnelInvolvement c1);
          source = (if isValidAddr (rt_Source selected) then routeAddr (rt_Source selected) else []) in
      c1\<lparr>nc_SelectedSourceInterface := (if nc_SelectedSourceInterface c1 = [] then rt_Interface selected
           else nc_SelectedSourceInterface c1),
         nc_SelectedSourceInterfaceIndex := (if nc_SelectedSourceInterfaceIndex c1 = 0 then rt_InterfaceIndex selected
           else nc_SelectedSourceInterfaceIndex c1),
         nc_VPNOrTunnelInvolvement := vpn \<or> rt_VPNOrTunnel selected,
         nc_VirtualAdapterInvolvement := nc_VirtualAdapterInvolvement c1 \<or> rt_VirtualAdapter selected,
         nc_SelectedSourceAddress := (case iface of
             Some i \<Rightarrow> (if source = [] then sourceAddress i selected target else source)
           | None \<Rightarrow> source)\<rparr>)"

definition routeCandidate :: "Route \<Rightarrow> RouteCandidate" where
  "routeCandidate candidate = zero_RouteCandidate\<lparr>
     rcd_RoutePrefix := prefixString (rt_Destination candidate), rcd_Gateway := routeAddr (rt_Gateway candidate),
     rcd_NextHop := routeNextHop candidate, rcd_Interface := rt_Interface candidate,
     rcd_InterfaceIndex := rt_InterfaceIndex candidate, rcd_SourceAddress := routeAddr (rt_Source candidate),
     rcd_Metric := rt_Metric candidate, rcd_VPNOrTunnel := rt_VPNOrTunnel candidate,
     rcd_VirtualAdapter := rt_VirtualAdapter candidate\<rparr>"

definition networkScope :: "bool \<Rightarrow> Addr \<Rightarrow> bool \<Rightarrow> RouteDisposition \<Rightarrow> NetworkScope \<Rightarrow> NetworkScope" where
  "networkScope ambiguous destination vpn disposition current =
     (if ambiguous then NetworkScopeUnknown
      else if isValidAddr destination \<and> isLoopback destination then NetworkScopeLoopback
      else if isValidAddr destination \<and> isLinkLocalUnicast destination then NetworkScopeLinkLocal
      else if vpn then NetworkScopeVPNTunnelRouted
      else if disposition = RouteDispositionOnLink then NetworkScopeSameLink
      else if isValidAddr destination \<and> isPrivate destination then NetworkScopePrivateRouted
      else if disposition = RouteDispositionRouted then NetworkScopeExternalRouted
      else current)"

definition uniqueNonEmpty :: "string list \<Rightarrow> string list" where
  "uniqueNonEmpty values = uniqueBy (\<lambda>v. v) [] (filter (\<lambda>v. v \<noteq> []) values)"

definition cloneNeighbor :: "NeighborEvidence option \<Rightarrow> NeighborEvidence option" where
  "cloneNeighbor neighbor = map_option (\<lambda>n. n\<lparr>nv_Entries := [] @ nv_Entries n\<rparr>) neighbor"

definition selectionDestination :: "Target \<Rightarrow> Selection \<Rightarrow> Addr" where
  "selectionDestination target selection =
     (if isValidAddr (sl_Target selection) then sl_Target selection else targetAddress target)"

definition emptyContext :: "Target \<Rightarrow> NetworkContext" where
  "emptyContext target = zero_NetworkContext\<lparr>nc_RequestedIdentity := tg_RequestedIdentity target,
     nc_EffectiveRoute := RouteDispositionUnknown, nc_NetworkScope := NetworkScopeUnknown\<rparr>"

definition BuildNetworkContext ::
    "Target \<Rightarrow> Selection \<Rightarrow> InterfaceState list \<Rightarrow> NeighborEvidence option \<Rightarrow> string list \<Rightarrow> string list
      \<Rightarrow> NetworkContext" where
  "BuildNetworkContext target0 selection interfaces neighbor provenance evidenceIDs =
     (let target = NormalizeTarget target0;
          destination = selectionDestination target selection;
          c0 = (emptyContext target)\<lparr>nc_Provenance := uniqueNonEmpty provenance,
            nc_EvidenceIDs := uniqueNonEmpty evidenceIDs, nc_Neighbor := cloneNeighbor neighbor,
            nc_SelectedDestinationAddress := (if isValidAddr destination
              then addrString (NormalizeAddr destination) else [])\<rparr>;
          selected = normalizeRoute (sl_Selected selection) in
      if \<not> prefixValid (rt_Destination selected) then c0
      else
        let gateway = routeAddr (rt_Gateway selected);
            c1 = c0\<lparr>nc_RoutePrefix := prefixString (rt_Destination selected), nc_RouteMetric := rt_Metric selected,
              nc_RouteSelectionAmbiguous := sl_Ambiguous selection, nc_Gateway := gateway,
              nc_NextHop := (if gateway = [] then ''on-link'' else gateway),
              nc_EffectiveRoute := (if gateway = [] then RouteDispositionOnLink else RouteDispositionRouted)\<rparr>;
            c2 = contextInterface selected destination (matchingInterface selected interfaces) c1;
            c3 = c2\<lparr>nc_CompetingRoutes := nc_CompetingRoutes c2 @ map routeCandidate
              (filter (\<lambda>c. \<not> sameRoute c selected) (map normalizeRoute (sl_Candidates selection)))\<rparr> in
        c3\<lparr>nc_NetworkScope := networkScope (sl_Ambiguous selection) destination
             (nc_VPNOrTunnelInvolvement c3) (nc_EffectiveRoute c3) (nc_NetworkScope c3),
           nc_Certainty := ObservationCertaintyDerived\<rparr>)"

section \<open>The context from the evidence of a report\<close>

definition addressOr :: "string \<Rightarrow> Addr" where
  "addressOr text = (case parseAddr text of Some address \<Rightarrow> address | None \<Rightarrow> NoAddr)"

definition observedPrefix :: "RouteObservation \<Rightarrow> Prefix option" where
  "observedPrefix observation = (case parsePrefix (ro_RoutePrefix observation) of
     Some prefix \<Rightarrow> Some prefix | None \<Rightarrow> parsePrefix (ro_Destination observation))"

definition competingRoute :: "RouteEvidenceCandidate \<Rightarrow> Route list" where
  "competingRoute candidate = (case parsePrefix (rec_RoutePrefix candidate) of
     None \<Rightarrow> []
   | Some prefix \<Rightarrow> [\<lparr>rt_Destination = prefix, rt_Gateway = addressOr (rec_Gateway candidate),
       rt_Interface = rec_Interface candidate, rt_InterfaceIndex = rec_InterfaceIndex candidate,
       rt_Metric = rec_Metric candidate, rt_Source = addressOr (rec_SourceAddress candidate),
       rt_InterfaceType = [], rt_VPNOrTunnel = rec_VPNOrTunnel candidate,
       rt_VirtualAdapter = rec_VirtualAdapter candidate\<rparr>])"

definition selectionFromObservation :: "RouteObservation \<Rightarrow> Target \<Rightarrow> Selection option" where
  "selectionFromObservation observation target =
     (case observedPrefix observation of
        None \<Rightarrow> None
      | Some prefix \<Rightarrow>
          let selected = \<lparr>rt_Destination = prefix, rt_Gateway = addressOr (ro_Gateway observation),
                rt_Interface = ro_Interface observation, rt_InterfaceIndex = ro_InterfaceIndex observation,
                rt_Metric = ro_Metric observation, rt_Source = addressOr (ro_SourceAddress observation),
                rt_InterfaceType = ro_InterfaceType observation, rt_VPNOrTunnel = ro_VPNOrTunnel observation,
                rt_VirtualAdapter = ro_VirtualAdapter observation\<rparr> in
          Some \<lparr>sl_Target = (case parseAddr (ro_TargetIP observation) of
                Some targetIP \<Rightarrow> targetIP | None \<Rightarrow> targetAddress target),
              sl_Selected = selected,
              sl_Candidates = selected # concat (map competingRoute (ro_CompetingRoutes observation)),
              sl_Ambiguous = ro_RouteSelectionAmbiguous observation\<rparr>)"

record contextState =
  cs_route :: "(RouteObservation \<times> Evidence) option"
  cs_interfaces :: "InterfaceState list"
  cs_interfaceEvidence :: "Evidence option"

definition contextRouteStep :: "routeCodec \<Rightarrow> bool \<Rightarrow> Evidence \<Rightarrow> contextState \<Rightarrow> contextState" where
  "contextRouteStep codec targetRouteSeen evidence s =
     (if ev_Kind evidence \<noteq> EvidenceKindRoute then s
      else case DecodeRouteEvidence codec evidence of
          Inl err \<Rightarrow> s
        | Inr observation \<Rightarrow>
            if ro_RouteType observation = ''target''
              \<or> \<not> targetRouteSeen \<and> cs_route s = None \<and> ro_RouteType observation = ''gateway''
            then s\<lparr>cs_route := Some (observation, evidence)\<rparr> else s)"

definition contextInterfaceStep :: "routeCodec \<Rightarrow> Evidence \<Rightarrow> contextState \<Rightarrow> contextState" where
  "contextInterfaceStep codec evidence s =
     (if ev_Kind evidence \<noteq> EvidenceKindInterfaceState \<or> cs_interfaces s \<noteq> [] then s
      else let (interfaces, ok) = rj_interfaces codec (ev_Raw evidence) in
        s\<lparr>cs_interfaces := interfaces,
          cs_interfaceEvidence := (if ok then Some evidence else cs_interfaceEvidence s)\<rparr>)"

definition contextEvidence :: "routeCodec \<Rightarrow> ProbeResult list \<Rightarrow> contextState" where
  "contextEvidence codec probes =
     (let seen = list_ex (\<lambda>p. pr_Name p = TargetRouteProbeName) probes in
      fold (\<lambda>evidence s. contextInterfaceStep codec evidence (contextRouteStep codec seen evidence s))
        (concat (map pr_Evidence probes)) \<lparr>cs_route = None, cs_interfaces = [], cs_interfaceEvidence = None\<rparr>)"

definition unreadRoute :: "Target \<Rightarrow> ProbeResult list \<Rightarrow> NetworkContext option" where
  "unreadRoute target probes =
     (case filter (\<lambda>e. ev_Kind e = EvidenceKindRoute)
         (concat (map pr_Evidence (filter (\<lambda>p. pr_Name p = TargetRouteProbeName) probes))) of
        [] \<Rightarrow> None
      | evidence # rest \<Rightarrow> Some ((emptyContext target)\<lparr>nc_Certainty := ObservationCertaintyUnknown,
          nc_Provenance := uniqueNonEmpty [ev_Source evidence], nc_EvidenceIDs := uniqueNonEmpty [ev_ID evidence]\<rparr>))"

definition contextProvenance :: "RouteObservation \<Rightarrow> Evidence \<Rightarrow> Evidence option \<Rightarrow> string list" where
  "contextProvenance observation evidence interfaceEvidence =
     [ev_Source evidence]
     @ (case interfaceEvidence of
          None \<Rightarrow> []
        | Some e \<Rightarrow> (if ev_ID e = [] then []
            else [if ev_Source e = [] then ''native-interface-api'' else ev_Source e]))
     @ (case ro_Neighbor observation of
          None \<Rightarrow> [] | Some n \<Rightarrow> (if nv_Source n = [] then [] else [nv_Source n]))"

definition NetworkContextFromProbeResults ::
    "routeCodec \<Rightarrow> Target \<Rightarrow> ProbeResult list \<Rightarrow> NetworkContext option" where
  "NetworkContextFromProbeResults codec target probes =
     (let s = contextEvidence codec probes in
      case cs_route s of
        None \<Rightarrow> unreadRoute target probes
      | Some (observation, evidence) \<Rightarrow>
          (case selectionFromObservation observation target of
             None \<Rightarrow> Some ((emptyContext target)\<lparr>nc_Certainty := ObservationCertaintyUnknown,
               nc_EvidenceIDs := [ev_ID evidence],
               nc_Provenance := (if ev_Source evidence \<noteq> [] then [ev_Source evidence] else [])\<rparr>)
           | Some selection \<Rightarrow> Some (BuildNetworkContext target selection (cs_interfaces s) (ro_Neighbor observation)
               (contextProvenance observation evidence (cs_interfaceEvidence s))
               [ev_ID evidence, case cs_interfaceEvidence s of None \<Rightarrow> [] | Some e \<Rightarrow> ev_ID e])))"

end
