(* ===== verification/RouteProbes.thy ===== *)
theory RouteProbes
  imports Route
begin

text \<open>
  The three probes of \<open>internal/probe/route/probes.go\<close>. A run takes what is outside of it as one
  record: the answer of the route table, of the neighbour cache and of the gateway check, the
  readings of the clock, and the text of \<open>ParseAddr\<close>'s errors. Contexts and their deadlines are
  not modelled: a deadline that passed is an error of the answer.
\<close>

record routeWorld =
  rw_routes :: "routeError + Route list"
  rw_neighbors :: "Addr \<Rightarrow> int \<Rightarrow> NeighborEvidence \<times> routeError option"
  rw_check :: "Addr \<Rightarrow> routeError option"
  rw_parseErr :: "string \<Rightarrow> string"
  rw_started :: gotime
  rw_completed :: gotime
  rw_checked :: gotime
  rw_captured :: gotime

definition ErrGatewayReachabilityUnsupported :: string where
  [go_consts]: "ErrGatewayReachabilityUnsupported = ''gateway reachability checking is unsupported''"

section \<open>Results and errors\<close>

definition routeEvidence :: "routeWorld \<Rightarrow> string \<Rightarrow> string \<Rightarrow> Evidence" where
  "routeEvidence w id0 raw = \<lparr>ev_ID = id0, ev_Kind = EvidenceKindRoute, ev_Source = ''native-route-api'',
     ev_CapturedAt = Some (rw_captured w), ev_Raw = raw\<rparr>"

definition routeErrorEvidence :: "routeCodec \<Rightarrow> routeWorld \<Rightarrow> string \<Rightarrow> routeError \<Rightarrow> Evidence" where
  "routeErrorEvidence codec w id0 err =
     routeEvidence w id0 (rj_encodeMap codec [(''error'', JString (re_text err))])"

definition routeResult :: "Target \<Rightarrow> string \<Rightarrow> gotime \<Rightarrow> gotime \<Rightarrow> Evidence list \<Rightarrow> ProbeStatus \<Rightarrow> FailureReason
    \<Rightarrow> Layer \<Rightarrow> FaultDomain \<Rightarrow> ProbeResult" where
  "routeResult target name started completed evidence status reason layer domain = zero_ProbeResult\<lparr>
     pr_Name := name, pr_Target := target, pr_Status := status,
     pr_Timing := \<lparr>tm_StartedAt = Some started, tm_CompletedAt = Some completed,
       tm_DurationMS = max 0 ((completed - started) div 10 ^ 6)\<rparr>,
     pr_Evidence := evidence,
     pr_Interpretation := \<lparr>pin_FailureReason = reason, pin_Layer = layer, pin_FaultDomain = domain\<rparr>\<rparr>"

definition statusForError :: "routeError \<Rightarrow> ProbeStatus" where
  "statusForError err =
     (if re_deadline err then ProbeStatusFailed else if re_timeout err then ProbeStatusFailed
      else ProbeStatusError)"

definition reasonForError :: "routeError \<Rightarrow> FailureReason" where
  "reasonForError err =
     (if re_deadline err then FailureReasonProbeTimeout
      else if re_timeout err then FailureReasonProbeTimeout
      else if re_unsupported err then FailureReasonUnsupported
      else if re_permission err then FailureReasonInsufficientPrivilege
      else FailureReasonProbeExecution)"

definition gatewayReason :: "routeError \<Rightarrow> FailureReason" where
  "gatewayReason err =
     (if re_deadline err then FailureReasonProbeTimeout
      else if re_timeout err then FailureReasonProbeTimeout
      else if re_unsupported err then FailureReasonUnsupported
      else if re_permission err then FailureReasonInsufficientPrivilege
      else FailureReasonGatewayUnreachable)"

definition gatewayCheckUnsupported :: "routeError \<Rightarrow> bool" where
  "gatewayCheckUnsupported err \<longleftrightarrow> re_gatewayUnsupported err \<or> re_unsupported err"

section \<open>The default route\<close>

text \<open>The two shapes a \<open>default_route\<close> result with a selection has: a default route is not needed, or
  the one observed is.\<close>

definition defaultRouteResult ::
    "routeCodec \<Rightarrow> routeWorld \<Rightarrow> Target \<Rightarrow> RouteObservation \<Rightarrow> ProbeResult" where
  "defaultRouteResult codec w target raw =
     routeResult target DefaultRouteProbeName (rw_started w) (rw_completed w)
       [routeEvidence w ''default-route-1'' (rj_encode codec raw)]
       ProbeStatusPassed FailureReasonNone LayerRoute FaultDomainRouting"

definition localSelection :: "Addr \<Rightarrow> Selection option \<Rightarrow> Selection" where
  "localSelection targetIP found = (case found of
     Some selection \<Rightarrow> selection
   | None \<Rightarrow> \<lparr>sl_Target = targetIP,
       sl_Selected = zero_Route\<lparr>rt_Destination := prefixFrom targetIP (int (bitLen targetIP))\<rparr>,
       sl_Candidates = [], sl_Ambiguous = False\<rparr>)"

definition defaultRouteLookup ::
    "routeCodec \<Rightarrow> routeWorld \<Rightarrow> Target \<Rightarrow> Addr result \<Rightarrow> Route list \<Rightarrow> ProbeResult" where
  "defaultRouteLookup codec w target targetIP routes =
     (let family = (case targetIP of Inr a \<Rightarrow> (if is4 a then 4 else 6) | Inl err \<Rightarrow> targetFamily target) in
      case DefaultRoute routes family of
        None \<Rightarrow> routeResult target DefaultRouteProbeName (rw_started w) (rw_completed w)
          [routeEvidence w ''default-route-1'' (rj_encodeMap codec
            [(''route_type'', JString ''default''), (''routes_observed'', JInt (int (length routes)))])]
          ProbeStatusFailed FailureReasonNoRoute LayerRoute FaultDomainRouting
      | Some selected \<Rightarrow> defaultRouteResult codec w target
          ((selectedRouteEvidence ''default''
             \<lparr>sl_Target = NoAddr, sl_Selected = selected, sl_Candidates = [selected], sl_Ambiguous = False\<rparr>
             [] None)\<lparr>ro_DefaultRouteApplicable := Some True\<rparr>))"

definition defaultRouteRun :: "routeCodec \<Rightarrow> routeWorld \<Rightarrow> Addr \<Rightarrow> Target \<Rightarrow> ProbeResult" where
  "defaultRouteRun codec w probeIP target =
     (case rw_routes w of
        Inl err \<Rightarrow> routeResult target DefaultRouteProbeName (rw_started w) (rw_completed w)
          [routeErrorEvidence codec w ''default-route-1'' err]
          (statusForError err) (reasonForError err) LayerRoute FaultDomainRouting
      | Inr routes \<Rightarrow>
          (case probeTargetAddress (rw_parseErr w) probeIP target of
             Inl err \<Rightarrow> defaultRouteLookup codec w target (Inl err) routes
           | Inr targetIP \<Rightarrow>
               let found = SelectDetailed routes targetIP in
               if found \<noteq> None \<and> prefixBits (rt_Destination (sl_Selected (the found))) \<noteq> 0
               then defaultRouteResult codec w target
                 ((selectedRouteEvidence ''default'' (the found) (addrString targetIP) None)\<lparr>
                   ro_DefaultRouteApplicable := Some False,
                   ro_Error := ''default route is not required; a more-specific target route is selected''\<rparr>)
               else if isLoopback targetIP \<or> isLinkLocalUnicast targetIP
               then defaultRouteResult codec w target
                 ((selectedRouteEvidence ''default'' (localSelection targetIP found) (addrString targetIP) None)\<lparr>
                   ro_DefaultRouteApplicable := Some False,
                   ro_Error := ''default route is not applicable to the selected local-scope target''\<rparr>)
               else defaultRouteLookup codec w target (Inr targetIP) routes))"

section \<open>The route to the target\<close>

definition neighborEvidence :: "routeWorld \<Rightarrow> Addr \<Rightarrow> Route \<Rightarrow> NeighborEvidence" where
  "neighborEvidence w target selected =
     (let lookup = (if isValidAddr (rt_Gateway selected) \<and> \<not> isUnspecified (rt_Gateway selected)
            then rt_Gateway selected else target) in
      case rw_neighbors w lookup (rt_InterfaceIndex selected) of
        (evidence, Some err) \<Rightarrow> evidence\<lparr>
          nv_Observation := (if nv_Observation evidence = [] then NeighborObservationError else nv_Observation evidence),
          nv_Note := (if nv_Note evidence = [] then re_text err else nv_Note evidence)\<rparr>
      | (evidence, None) \<Rightarrow> evidence\<lparr>
          nv_Observation := (if nv_Observation evidence = [] then NeighborObservationUnknown
            else nv_Observation evidence)\<rparr>)"

definition targetRouteRun :: "routeCodec \<Rightarrow> routeWorld \<Rightarrow> Addr \<Rightarrow> Target \<Rightarrow> ProbeResult" where
  "targetRouteRun codec w probeIP target =
     (let result = routeResult target TargetRouteProbeName (rw_started w) (rw_completed w) in
      case probeTargetAddress (rw_parseErr w) probeIP target of
        Inl parseErr \<Rightarrow> result [routeEvidence w ''target-route-1'' (rj_encodeMap codec
            [(''route_type'', JString ''target''), (''target'', JString (tg_RequestedIdentity target)),
             (''error'', JString parseErr)])]
          ProbeStatusFailed FailureReasonInvalidRoute LayerRoute FaultDomainRouting
      | Inr targetIP \<Rightarrow>
          (case rw_routes w of
             Inl err \<Rightarrow> result [routeErrorEvidence codec w ''target-route-1'' err]
               (statusForError err) (reasonForError err) LayerRoute FaultDomainRouting
           | Inr routes \<Rightarrow>
               (case SelectDetailed routes targetIP of
                  None \<Rightarrow> result [routeEvidence w ''target-route-1'' (rj_encodeMap codec
                      [(''route_type'', JString ''target''), (''target_ip'', JString (addrString targetIP)),
                       (''routes_observed'', JInt (int (length routes)))])]
                    ProbeStatusFailed FailureReasonNoRoute LayerRoute FaultDomainRouting
                | Some selection \<Rightarrow> result [routeEvidence w ''target-route-1'' (rj_encode codec
                      (selectedRouteEvidence ''target'' selection (addrString targetIP)
                        (Some (neighborEvidence w targetIP (sl_Selected selection)))))]
                    ProbeStatusPassed FailureReasonNone LayerRoute FaultDomainRouting)))"

section \<open>The gateway\<close>

definition gatewayResult ::
    "routeWorld \<Rightarrow> Target \<Rightarrow> gotime \<Rightarrow> string \<Rightarrow> ProbeStatus \<Rightarrow> FailureReason \<Rightarrow> FaultDomain \<Rightarrow> ProbeResult" where
  "gatewayResult w target completed raw status reason domain =
     routeResult target GatewayProbeName (rw_started w) completed
       [routeEvidence w ''gateway-reachability-1'' raw] status reason LayerGateway domain"

definition gatewayObservation :: "Selection \<Rightarrow> bool option \<Rightarrow> bool option \<Rightarrow> string \<Rightarrow> RouteObservation" where
  "gatewayObservation selection tested reachable err =
     (selectedRouteEvidence ''gateway'' selection [] None)\<lparr>ro_GatewayTested := tested,
       ro_Reachable := reachable, ro_SupportingOnly := True, ro_Error := err\<rparr>"

definition gatewaySelection :: "Addr result \<Rightarrow> Target \<Rightarrow> Route list \<Rightarrow> Selection option" where
  "gatewaySelection targetIP target routes = (case targetIP of
     Inr a \<Rightarrow> SelectDetailed routes a
   | Inl err \<Rightarrow> map_option (\<lambda>selected. \<lparr>sl_Target = NoAddr, sl_Selected = selected,
       sl_Candidates = [selected], sl_Ambiguous = False\<rparr>) (DefaultRoute routes (targetFamily target)))"

definition gatewayCheck :: "routeCodec \<Rightarrow> routeWorld \<Rightarrow> Target \<Rightarrow> Selection \<Rightarrow> ProbeResult" where
  "gatewayCheck codec w target selection =
     (let encode = rj_encode codec; result = gatewayResult w target (rw_checked w) in
      case rw_check w (rt_Gateway (sl_Selected selection)) of
        None \<Rightarrow> result (encode (gatewayObservation selection (Some True) (Some True) []))
          ProbeStatusPassed FailureReasonNone FaultDomainGateway
      | Some err \<Rightarrow>
          if gatewayCheckUnsupported err
          then result (encode (gatewayObservation selection (Some False) None ErrGatewayReachabilityUnsupported))
            ProbeStatusSkipped FailureReasonUnsupported FaultDomainGateway
          else result (encode (gatewayObservation selection (Some True) (Some False) (re_text err)))
            (if re_permission err then ProbeStatusError else ProbeStatusFailed) (gatewayReason err)
            FaultDomainGateway)"

definition gatewayRun :: "routeCodec \<Rightarrow> routeWorld \<Rightarrow> Addr \<Rightarrow> Target \<Rightarrow> ProbeResult" where
  "gatewayRun codec w probeIP target =
     (case rw_routes w of
        Inl err \<Rightarrow> gatewayResult w target (rw_completed w)
          (rj_encodeMap codec [(''error'', JString (re_text err)), (''supporting_only'', JBool True)])
          (statusForError err) (reasonForError err) FaultDomainGateway
      | Inr routes \<Rightarrow>
          let targetIP = probeTargetAddress (rw_parseErr w) probeIP target in
          (case gatewaySelection targetIP target routes of
             None \<Rightarrow> gatewayResult w target (rw_completed w)
               (rj_encodeMap codec [(''route_type'', JString ''gateway''), (''supporting_only'', JBool True),
                  (''routes_observed'', JInt (int (length routes)))])
               ProbeStatusFailed FailureReasonNoRoute FaultDomainRouting
           | Some selection \<Rightarrow>
               if (case targetIP of Inr a \<Rightarrow> isLoopback a \<or> isLinkLocalUnicast a | Inl err \<Rightarrow> False)
                 \<or> routeIsOnLink (sl_Selected selection)
               then gatewayResult w target (rw_completed w)
                 (rj_encode codec (gatewayObservation selection (Some False) None []))
                 ProbeStatusPassed FailureReasonNone FaultDomainGateway
               else gatewayCheck codec w target selection))"

end
