(* ===== verification/RouteFacts.thy ===== *)
theory RouteFacts
  imports RouteProbes GoMaps
begin

text \<open>
  What the route package guarantees: \<open>SelectDetailed\<close> returns an entry of longest prefix and then
  least metric and says when the table does not decide; what a route probe serialised is read back
  as the same selection, so the network context of a report is the route the probe saw; and a
  failing gateway check never speaks about a target that needs no gateway.
\<close>

section \<open>Selection\<close>

lemma routeLess_keys: "routeLess = (\<lambda>a b. if - prefixBits (rt_Destination a) \<noteq> - prefixBits (rt_Destination b)
    then - prefixBits (rt_Destination a) < - prefixBits (rt_Destination b)
    else if rt_Metric a \<noteq> rt_Metric b then rt_Metric a < rt_Metric b
    else if rt_InterfaceIndex a \<noteq> rt_InterfaceIndex b then rt_InterfaceIndex a < rt_InterfaceIndex b
    else rt_Interface a < rt_Interface b)"
  by (intro ext) (simp add: routeLess_def Let_def)

lemma routeLess_go_less: "go_less routeLess"
  unfolding routeLess_keys by (intro go_less_lex go_less_key)

interpretation route_less: go_less routeLess
  by (rule routeLess_go_less)

lemma takeWhile_sorted:
  assumes "sorted_wrt (\<lambda>a b. \<not> lt b a) xs" "\<And>a b. a \<in> set xs \<Longrightarrow> \<not> P a \<Longrightarrow> P b \<Longrightarrow> lt b a"
  shows "takeWhile P xs = filter P xs"
  using assms
proof (induction xs)
  case Nil
  show ?case by simp
next
  case (Cons x xs)
  have "filter P xs = []" if "\<not> P x"
    using Cons.prems(1) Cons.prems(2) [of x, OF _ that] by (auto simp: filter_empty_conv)
  then show ?case using Cons by simp
qed

lemma samePrecedence_run:
  assumes "sorted_wrt (\<lambda>a b. \<not> routeLess b a) (first # others)"
  shows "takeWhile (\<lambda>c. samePrecedence c first) others = filter (\<lambda>c. samePrecedence c first) others"
proof (rule takeWhile_sorted [where lt = routeLess])
  show "sorted_wrt (\<lambda>a b. \<not> routeLess b a) others" using assms by simp
  fix a b assume a: "a \<in> set others" "\<not> samePrecedence a first" and b: "samePrecedence b first"
  have "\<not> routeLess a first" using assms a(1) by simp
  then show "routeLess b a" using a(2) b
    by (auto simp: routeLess_def samePrecedence_def Let_def split: if_splits)
qed

lemma SelectDetailed_Some:
  assumes "SelectDetailed routes target = Some sel"
  obtains others where "sl_Target sel = NormalizeAddr target" "isValidAddr (NormalizeAddr target)"
    "sortBy routeLess (matchingRoutes routes (NormalizeAddr target)) = sl_Selected sel # others"
    "sl_Candidates sel = sl_Selected sel # others"
    "sl_Ambiguous sel = list_ex (\<lambda>c. \<not> sameRoute c (sl_Selected sel))
       (takeWhile (\<lambda>c. samePrecedence c (sl_Selected sel)) others)"
  using assms by (auto simp: SelectDetailed_def Let_def split: if_splits list.splits)

lemma sameRoute_eq: "sameRoute a b \<longleftrightarrow> a = b"
  by (auto simp: sameRoute_def)

text \<open>C18: The route that is selected is the longest match of least metric. For every table and target,
  nothing is selected exactly when no entry of the normalised table covers the target; otherwise
  the selected entry covers it, no covering entry has a longer prefix, none of the same length has
  a smaller metric, the candidates are all the covering entries, and the selection is marked
  ambiguous exactly when another covering entry has the same length and metric.
\<close>

theorem SelectDetailed_spec:
  "case SelectDetailed routes target of
     None \<Rightarrow> NormalizeAddr target = NoAddr \<or> matchingRoutes routes (NormalizeAddr target) = []
   | Some sel \<Rightarrow>
       sl_Target sel = NormalizeAddr target
       \<and> mset (sl_Candidates sel) = mset (matchingRoutes routes (NormalizeAddr target))
       \<and> sl_Selected sel \<in> set (sl_Candidates sel)
       \<and> (\<forall>c\<in>set (sl_Candidates sel).
            prefixBits (rt_Destination c) < prefixBits (rt_Destination (sl_Selected sel))
            \<or> prefixBits (rt_Destination c) = prefixBits (rt_Destination (sl_Selected sel))
              \<and> rt_Metric (sl_Selected sel) \<le> rt_Metric c)
       \<and> (sl_Ambiguous sel \<longleftrightarrow> (\<exists>c\<in>set (sl_Candidates sel). samePrecedence c (sl_Selected sel) \<and> c \<noteq> sl_Selected sel))"
proof (cases "SelectDetailed routes target")
  case None
  then show ?thesis by (auto simp: SelectDetailed_def Let_def isValidAddr_def split: if_splits list.splits)
next
  case (Some sel)
  then obtain others where target: "sl_Target sel = NormalizeAddr target"
    and sorted: "sortBy routeLess (matchingRoutes routes (NormalizeAddr target)) = sl_Selected sel # others"
    and cands: "sl_Candidates sel = sl_Selected sel # others"
    and amb: "sl_Ambiguous sel = list_ex (\<lambda>c. \<not> sameRoute c (sl_Selected sel))
       (takeWhile (\<lambda>c. samePrecedence c (sl_Selected sel)) others)"
    by (rule SelectDetailed_Some)
  have order: "sorted_wrt (\<lambda>a b. \<not> routeLess b a) (sl_Selected sel # others)"
    using route_less.sorted_sortBy [of "matchingRoutes routes (NormalizeAddr target)"] by (simp only: sorted)
  have "mset (sl_Candidates sel) = mset (matchingRoutes routes (NormalizeAddr target))"
    by (simp only: cands flip: sorted) simp
  moreover have "prefixBits (rt_Destination c) < prefixBits (rt_Destination (sl_Selected sel))
      \<or> prefixBits (rt_Destination c) = prefixBits (rt_Destination (sl_Selected sel))
        \<and> rt_Metric (sl_Selected sel) \<le> rt_Metric c" if "c \<in> set (sl_Candidates sel)" for c
  proof -
    have "\<not> routeLess c (sl_Selected sel)" using that order cands route_less.irrefl_less by auto
    then show ?thesis by (auto simp: routeLess_def Let_def split: if_splits)
  qed
  moreover have "sl_Ambiguous sel \<longleftrightarrow>
      (\<exists>c\<in>set (sl_Candidates sel). samePrecedence c (sl_Selected sel) \<and> c \<noteq> sl_Selected sel)"
    by (auto simp: amb samePrecedence_run [OF order] cands sameRoute_eq list_ex_iff)
  ultimately show ?thesis using Some target cands by simp
qed

definition sampleRoutes :: "Route list" where
  "sampleRoutes =
    [zero_Route\<lparr>rt_Destination := Prefix (V4 [0, 0, 0, 0]) (Some 0), rt_Gateway := V4 [10, 0, 0, 9], rt_Metric := 5,
       rt_Interface := ''eth0''\<rparr>,
     zero_Route\<lparr>rt_Destination := Prefix (V4 [10, 0, 0, 0]) (Some 8), rt_Metric := 20, rt_Interface := ''eth0''\<rparr>,
     zero_Route\<lparr>rt_Destination := Prefix (V4 [10, 0, 0, 0]) (Some 8), rt_Metric := 20, rt_Interface := ''wlan0''\<rparr>]"

lemmas route_eval = sampleRoutes_def SelectDetailed_def matchingRoutes_def normalizeRoute_def NormalizePrefix_def
  NormalizeAddr_def unmap_def prefixValid_def prefixContains_def prefixBits_def hasZone_def bitLen_def maskAddr_def
  isValidAddr_def zero_Route_def sortBy_def routeLess_def samePrecedence_def sameRoute_def

lemma parse_eth0: "parseAddr ''eth0'' = None" "parseAddr ''wlan0'' = None"
  by code_simp+

definition sampleSelection :: Selection where
  "sampleSelection = \<lparr>sl_Target = V4 [10, 7, 2, 3], sl_Selected = sampleRoutes ! 1,
     sl_Candidates = [sampleRoutes ! 1, sampleRoutes ! 2, sampleRoutes ! 0], sl_Ambiguous = True\<rparr>"

lemma sampleSelection: "SelectDetailed sampleRoutes (V4 [10, 7, 2, 3]) = Some sampleSelection"
  by (simp add: sampleSelection_def route_eval parse_eth0 Cons_less_Cons less_char_def)

theorem SelectDetailed_spec_witness:
  "case SelectDetailed sampleRoutes (V4 [10, 7, 2, 3]) of None \<Rightarrow> False
   | Some sel \<Rightarrow> sl_Ambiguous sel \<and> length (sl_Candidates sel) = 3
       \<and> prefixBits (rt_Destination (sl_Selected sel)) = 8"
  using SelectDetailed_spec [where routes = sampleRoutes and target = "V4 [10, 7, 2, 3]"]
  unfolding sampleSelection by (simp add: sampleSelection_def sampleRoutes_def prefixBits_def)

section \<open>Routes as the table gives them\<close>

text \<open>
  A well-formed entry: a prefix of a well-formed address whose length fits, which is not an
  IPv4-mapped prefix shorter than 96 bits, and a gateway and a source that are absent or
  well-formed. \<open>sane\<close> is what normalisation makes of it.
\<close>

definition addr_ok :: "Addr \<Rightarrow> bool" where
  "addr_ok a \<longleftrightarrow> a = NoAddr \<or> addr_wf a"

definition route_wf :: "Route \<Rightarrow> bool" where
  "route_wf r \<longleftrightarrow> prefix_wf (rt_Destination r)
     \<and> (unmap (px_addr (rt_Destination r)) = px_addr (rt_Destination r) \<or> prefixBits (rt_Destination r) \<ge> 96)
     \<and> addr_ok (rt_Gateway r) \<and> addr_ok (rt_Source r)"

definition route_sane :: "Route \<Rightarrow> bool" where
  "route_sane r \<longleftrightarrow> prefix_wf (rt_Destination r)
     \<and> unmap (px_addr (rt_Destination r)) = px_addr (rt_Destination r)
     \<and> addr_ok (rt_Gateway r) \<and> unmap (rt_Gateway r) = rt_Gateway r
     \<and> addr_ok (rt_Source r) \<and> unmap (rt_Source r) = rt_Source r
     \<and> (\<forall>a. parseAddr (rt_Interface r) = Some a \<longrightarrow> addrString (unmap a) = rt_Interface r)"

lemma addr_ok_unmap: "addr_ok a \<Longrightarrow> addr_ok (unmap a)"
  by (auto simp: addr_ok_def unmap_def [of NoAddr] addr_wf_unmap)

lemma maskParts_le: "list_all (\<lambda>n. n < m) ns \<Longrightarrow> list_all (\<lambda>n. n < m) (maskParts w b ns)"
  by (induction w b ns rule: maskParts.induct)
     (auto intro: le_less_trans [OF div_times_less_eq_dividend])

lemma length_maskParts [simp]: "length (maskParts w b ns) = length ns"
  by (induction w b ns rule: maskParts.induct) auto

lemma addr_wf_maskAddr: "addr_wf a \<Longrightarrow> addr_wf (maskAddr b a)"
  by (cases a) (auto simp: addr_wf_def maskAddr_def maskParts_le)

lemma NormalizePrefix_unmapped: "unmap (px_addr p) = px_addr p \<Longrightarrow> NormalizePrefix p = p"
  by (auto simp: NormalizePrefix_def unmap_def split: Addr.splits option.splits if_splits)

lemma NormalizePrefix_wf:
  assumes "prefix_wf p" "unmap (px_addr p) = px_addr p \<or> prefixBits p \<ge> 96"
  shows "prefix_wf (NormalizePrefix p)" "unmap (px_addr (NormalizePrefix p)) = px_addr (NormalizePrefix p)"
proof -
  obtain a b where p: "p = Prefix a (Some b)" and a: "addr_wf a" "b \<le> bitLen a"
    using assms(1) by (cases p) (auto simp: prefix_wf_def split: option.splits)
  have "prefix_wf (NormalizePrefix p) \<and> unmap (px_addr (NormalizePrefix p)) = px_addr (NormalizePrefix p)"
  proof (cases "unmap a = a")
    case True
    then show ?thesis using assms(1) by (simp add: p NormalizePrefix_unmapped)
  next
    case False
    then obtain gs z where v6: "a = V6 gs z" and m: "mappedGroups gs" by (cases a) (auto simp: unmap_def split: if_splits)
    obtain os where os: "unmap a = V4 os" using v6 m by (simp add: unmap_def)
    have b: "96 \<le> b" "b \<le> 128" "b - 96 \<le> 32"
      using assms(2) False a(2) by (auto simp: p prefixBits_def v6 bitLen_def)
    have "NormalizePrefix p = Prefix (maskAddr (b - 96) (V4 os)) (Some (b - 96))"
      using b v6 m os
      by (simp add: NormalizePrefix_def p prefixFrom_def prefixMasked_def bitLen_def withoutZone_def maskAddr_def nat_diff_distrib)
    moreover have "addr_wf (maskAddr (b - 96) (V4 os))" using addr_wf_unmap [OF a(1)] os addr_wf_maskAddr by metis
    ultimately show ?thesis using b
      by (auto simp: prefix_wf_def hasZone_def maskAddr_def bitLen_def unmap_def)
  qed
  then show "prefix_wf (NormalizePrefix p)" "unmap (px_addr (NormalizePrefix p)) = px_addr (NormalizePrefix p)"
    by simp_all
qed

lemma parse_canonical:
  assumes "parseAddr s = Some a"
  shows "parseAddr (addrString (unmap a)) = Some (unmap a)"
  by (rule parseAddr_addrString_unmapped [OF addr_wf_unmap [OF parseAddr_wf [OF assms]] unmap_idem])

lemma normalized_interface:
  "parseAddr (rt_Interface (normalizeRoute r)) = Some a \<Longrightarrow> addrString (unmap a) = rt_Interface (normalizeRoute r)"
  by (cases "parseAddr (rt_Interface r)") (auto simp: normalizeRoute_def NormalizeAddr_def parse_canonical)

lemma normalizeRoute_sane: "route_wf r \<Longrightarrow> route_sane (normalizeRoute r)"
  unfolding route_sane_def
  using NormalizePrefix_wf [of "rt_Destination r"] normalized_interface [of r]
  by (simp add: route_wf_def normalizeRoute_def NormalizeAddr_def addr_ok_unmap)

lemma normalizeRoute_id: "route_sane r \<Longrightarrow> normalizeRoute r = r"
  by (cases r) (auto simp: route_sane_def normalizeRoute_def NormalizePrefix_unmapped NormalizeAddr_def split: option.splits)

lemma SelectDetailed_sane:
  assumes "SelectDetailed routes target = Some sel" "list_all route_wf routes"
  shows "list_all route_sane (sl_Candidates sel)" "route_sane (sl_Selected sel)"
proof -
  have spec: "mset (sl_Candidates sel) = mset (matchingRoutes routes (NormalizeAddr target))"
      "sl_Selected sel \<in> set (sl_Candidates sel)"
    using SelectDetailed_Some [OF assms(1)] by (metis list.set_intros(1) mset_sortBy)+
  then have "set (sl_Candidates sel) = set (matchingRoutes routes (NormalizeAddr target))"
    using mset_eq_setD by blast
  then show "list_all route_sane (sl_Candidates sel)"
    using assms(2) normalizeRoute_sane by (auto simp: list_all_iff matchingRoutes_def)
  then show "route_sane (sl_Selected sel)" using spec(2) by (simp add: list_all_iff)
qed

section \<open>What a probe wrote is what the context reads\<close>

text \<open>An unspecified gateway or source is written as the empty text and read back as no address.\<close>

definition known :: "Addr \<Rightarrow> Addr" where
  "known a = (if isUnspecified a then NoAddr else a)"

definition observedRoute :: "Route \<Rightarrow> Route" where
  "observedRoute r = r\<lparr>rt_Gateway := known (rt_Gateway r), rt_Source := known (rt_Source r)\<rparr>"

lemma parseAddr_Nil: "parseAddr [] = None"
  by code_simp

lemma addressOr_routeAddr: "addr_ok a \<Longrightarrow> unmap a = a \<Longrightarrow> addressOr (routeAddr a) = known a"
  by (auto simp: addr_ok_def routeAddr_def known_def addressOr_def isValidAddr_def NormalizeAddr_def
      parseAddr_addrString_unmapped parseAddr_Nil isUnspecified_def)

lemma competingRoute_read:
  assumes "route_sane r"
  shows "competingRoute (routeEvidenceCandidate r) = [(observedRoute r)\<lparr>rt_InterfaceType := []\<rparr>]"
  using assms
  by (simp add: competingRoute_def routeEvidenceCandidate_def normalizeRoute_id Let_def observedRoute_def
      parsePrefix_prefixString addressOr_routeAddr route_sane_def)

lemma competingRoutes_read:
  "list_all route_sane cs \<Longrightarrow> concat (map competingRoute (map routeEvidenceCandidate (filter P cs)))
     = map (\<lambda>c. (observedRoute c)\<lparr>rt_InterfaceType := []\<rparr>) (filter P cs)"
  by (induction cs) (simp_all add: competingRoute_read)

lemma selection_roundtrip:
  assumes sel: "route_sane (sl_Selected sel)" "list_all route_sane (sl_Candidates sel)"
    and target: "addr_wf (sl_Target sel)" "unmap (sl_Target sel) = sl_Target sel"
  shows "selectionFromObservation (selectedRouteEvidence kind sel (addrString (sl_Target sel)) neighbor) t = Some
    \<lparr>sl_Target = sl_Target sel, sl_Selected = observedRoute (sl_Selected sel),
     sl_Candidates = observedRoute (sl_Selected sel) #
       map (\<lambda>c. (observedRoute c)\<lparr>rt_InterfaceType := []\<rparr>) (filter (\<lambda>c. c \<noteq> sl_Selected sel) (sl_Candidates sel)),
     sl_Ambiguous = sl_Ambiguous sel\<rparr>"
proof -
  have norm: "map normalizeRoute (sl_Candidates sel) = sl_Candidates sel"
    using sel(2) normalizeRoute_id by (auto simp: list_all_iff intro: map_idI)
  then show ?thesis
    using sel(1) target competingRoutes_read [OF sel(2), of "\<lambda>c. c \<noteq> sl_Selected sel"]
    by (simp add: sameRoute_eq selectionFromObservation_def selectedRouteEvidence_def Let_def normalizeRoute_id norm
        observedPrefix_def parsePrefix_prefixString addressOr_routeAddr parseAddr_addrString_unmapped route_sane_def
        observedRoute_def)
qed

lemma routeAddr_known [simp]: "routeAddr (known a) = routeAddr a"
  by (auto simp: routeAddr_def known_def isValidAddr_def)

lemma observedRoute_sane: "route_sane r \<Longrightarrow> route_sane (observedRoute r)"
  by (simp add: route_sane_def observedRoute_def known_def addr_ok_def unmap_def [of NoAddr])

lemma observedRoute_simps [simp]:
  "rt_Destination (observedRoute r) = rt_Destination r" "rt_Metric (observedRoute r) = rt_Metric r"
  "routeAddr (rt_Gateway (observedRoute r)) = routeAddr (rt_Gateway r)"
  "rt_InterfaceType (observedRoute r) = rt_InterfaceType r" "rt_VPNOrTunnel (observedRoute r) = rt_VPNOrTunnel r"
  "rt_Interface (observedRoute r) = rt_Interface r" "rt_InterfaceIndex (observedRoute r) = rt_InterfaceIndex r"
  by (simp_all add: observedRoute_def)

lemma contextInterface_keeps [simp]:
  "nc_RoutePrefix (contextInterface r a i c) = nc_RoutePrefix c"
  "nc_RouteMetric (contextInterface r a i c) = nc_RouteMetric c"
  "nc_Gateway (contextInterface r a i c) = nc_Gateway c"
  "nc_EffectiveRoute (contextInterface r a i c) = nc_EffectiveRoute c"
  "nc_RouteSelectionAmbiguous (contextInterface r a i c) = nc_RouteSelectionAmbiguous c"
  "nc_NetworkScope (contextInterface r a i c) = nc_NetworkScope c"
  "nc_SelectedDestinationAddress (contextInterface r a i c) = nc_SelectedDestinationAddress c"
  by (cases i; simp add: contextInterface_def Let_def)+

lemma contextInterface_none:
  "nc_VPNOrTunnelInvolvement (contextInterface r a None c) =
     ((if rt_InterfaceType r \<noteq> [] \<and> \<not> nc_VPNOrTunnelInvolvement c
       then tunnelType (rt_InterfaceType r) else nc_VPNOrTunnelInvolvement c) \<or> rt_VPNOrTunnel r)"
  by (simp add: contextInterface_def Let_def)

definition routeDisposition :: "Route \<Rightarrow> RouteDisposition" where
  "routeDisposition r = (if routeAddr (rt_Gateway r) = [] then RouteDispositionOnLink else RouteDispositionRouted)"

lemma BuildNetworkContext_route:
  assumes "route_sane (sl_Selected s)" "isValidAddr (sl_Target s)"
    and c_def: "c = BuildNetworkContext t s ifs nb prov ids"
  shows "nc_RoutePrefix c = prefixString (rt_Destination (sl_Selected s))"
    "nc_RouteMetric c = rt_Metric (sl_Selected s)"
    "nc_Gateway c = routeAddr (rt_Gateway (sl_Selected s))"
    "nc_EffectiveRoute c = routeDisposition (sl_Selected s)"
    "nc_RouteSelectionAmbiguous c = sl_Ambiguous s"
    "nc_SelectedDestinationAddress c = addrString (NormalizeAddr (sl_Target s))"
    "nc_NetworkScope c = networkScope (sl_Ambiguous s) (sl_Target s) (nc_VPNOrTunnelInvolvement c)
       (routeDisposition (sl_Selected s)) NetworkScopeUnknown"
    "nc_Certainty c = ObservationCertaintyDerived"
proof -
  have v: "prefixValid (rt_Destination (sl_Selected s))"
    using assms(1) by (auto simp: route_sane_def prefix_wf_def prefixValid_def split: option.splits)
  show "nc_RoutePrefix c = prefixString (rt_Destination (sl_Selected s))"
    "nc_RouteMetric c = rt_Metric (sl_Selected s)"
    "nc_Gateway c = routeAddr (rt_Gateway (sl_Selected s))"
    "nc_EffectiveRoute c = routeDisposition (sl_Selected s)"
    "nc_RouteSelectionAmbiguous c = sl_Ambiguous s"
    "nc_SelectedDestinationAddress c = addrString (NormalizeAddr (sl_Target s))"
    "nc_NetworkScope c = networkScope (sl_Ambiguous s) (sl_Target s) (nc_VPNOrTunnelInvolvement c)
       (routeDisposition (sl_Selected s)) NetworkScopeUnknown"
    "nc_Certainty c = ObservationCertaintyDerived"
    using assms(2)
    by (simp_all add: c_def BuildNetworkContext_def normalizeRoute_id [OF assms(1)] v Let_def selectionDestination_def
        routeDisposition_def emptyContext_def)
qed

lemma firstAddress_unmapped: "unmap (firstAddress vs) = firstAddress vs"
  by (induction vs) (auto simp: unmap_def [of NoAddr] parseContextAddress_def NormalizeAddr_def split: option.splits)

lemma targetAddress_unmapped: "unmap (targetAddress t) = targetAddress t"
  unfolding targetAddress_def by (rule firstAddress_unmapped)

lemma probeTargetAddress_unmapped: "probeTargetAddress pe ip t = Inr a \<Longrightarrow> unmap a = a"
  by (auto simp: probeTargetAddress_def targetAddress_unmapped parseTargetAddress_def NormalizeAddr_def
      Let_def split: if_splits option.splits)

text \<open>A selection written by a probe is decoded to itself: nothing is left for the reader to fill in.\<close>

lemma decode_written:
  assumes "ev_Kind e = EvidenceKindRoute"
    and "rj_decode codec (ev_Raw e) = Inr (selectedRouteEvidence kind sel a nb)"
    and "route_sane (sl_Selected sel)"
  shows "DecodeRouteEvidence codec e = Inr (selectedRouteEvidence kind sel a nb)"
proof -
  have "prefixString (rt_Destination (sl_Selected sel)) \<noteq> []"
    by (auto simp: prefixString_def split: option.splits)
  moreover have "\<not> isUnspecified g" if "parseAddr (routeAddr (rt_Gateway (sl_Selected sel))) = Some g" for g
  proof -
    have "g = addressOr (routeAddr (rt_Gateway (sl_Selected sel)))" using that by (simp add: addressOr_def)
    also have "\<dots> = known (rt_Gateway (sl_Selected sel))"
      using assms(3) by (intro addressOr_routeAddr) (simp_all add: route_sane_def)
    finally show ?thesis by (auto simp: known_def) (simp add: isUnspecified_def)
  qed
  ultimately show ?thesis
    using assms(1,2)
    by (auto simp: DecodeRouteEvidence_def selectedRouteEvidence_def Let_def normalizeRoute_id [OF assms(3)]
        go_consts split: option.splits)
qed

lemma targetRouteRun_selected:
  assumes "rw_routes w = Inr routes" "probeTargetAddress (rw_parseErr w) ip t = Inr a"
    and "SelectDetailed routes a = Some sel"
  shows "targetRouteRun codec w ip t = routeResult t TargetRouteProbeName (rw_started w) (rw_completed w)
    [routeEvidence w ''target-route-1'' (rj_encode codec
       (selectedRouteEvidence ''target'' sel (addrString a) (Some (neighborEvidence w a (sl_Selected sel)))))]
    ProbeStatusPassed FailureReasonNone LayerRoute FaultDomainRouting"
  by (simp add: targetRouteRun_def assms Let_def)

lemma context_of_route_probe:
  assumes "pr_Evidence p = [e]" "ev_Kind e = EvidenceKindRoute"
    and "DecodeRouteEvidence codec e = Inr obs" "ro_RouteType obs = ''target''"
    and "selectionFromObservation obs t = Some s"
  shows "NetworkContextFromProbeResults codec t [p] = Some (BuildNetworkContext t s [] (ro_Neighbor obs)
    (contextProvenance obs e None) [ev_ID e, []])"
  using assms by (simp add: NetworkContextFromProbeResults_def contextEvidence_def contextRouteStep_def
      contextInterfaceStep_def go_consts Let_def)

text \<open>C19: What the target-route probe saw is what the report says of the network. When the table answers
  with well-formed entries, the target has an address and an entry covers it, then the context that
  is read back from the probe's own evidence names the entry that was selected: its prefix, gateway,
  metric and disposition, the address the route was looked up for, whether the choice was ambiguous,
  and the scope that follows from them. The codec is only assumed to read back what it wrote.
\<close>

theorem probe_context:
  assumes "rw_routes w = Inr routes" "list_all route_wf routes"
    and "probeTargetAddress (rw_parseErr w) ip t = Inr a" "addr_wf a"
    and "SelectDetailed routes a = Some sel"
    and "let obs = selectedRouteEvidence ''target'' sel (addrString a) (Some (neighborEvidence w a (sl_Selected sel)))
         in rj_decode codec (rj_encode codec obs) = Inr obs"
  shows "case NetworkContextFromProbeResults codec t [targetRouteRun codec w ip t] of None \<Rightarrow> False
    | Some c \<Rightarrow> nc_RoutePrefix c = prefixString (rt_Destination (sl_Selected sel))
        \<and> nc_Gateway c = routeAddr (rt_Gateway (sl_Selected sel))
        \<and> nc_RouteMetric c = rt_Metric (sl_Selected sel)
        \<and> nc_EffectiveRoute c = routeDisposition (sl_Selected sel)
        \<and> nc_RouteSelectionAmbiguous c = sl_Ambiguous sel
        \<and> nc_SelectedDestinationAddress c = addrString a
        \<and> nc_NetworkScope c = networkScope (sl_Ambiguous sel) a (nc_VPNOrTunnelInvolvement c)
            (routeDisposition (sl_Selected sel)) NetworkScopeUnknown
        \<and> nc_Certainty c = ObservationCertaintyDerived"
proof -
  define obs where "obs = selectedRouteEvidence ''target'' sel (addrString a)
    (Some (neighborEvidence w a (sl_Selected sel)))"
  define e where "e = routeEvidence w ''target-route-1'' (rj_encode codec obs)"
  have un: "unmap a = a" by (rule probeTargetAddress_unmapped [OF assms(3)])
  have target: "sl_Target sel = a" using SelectDetailed_Some [OF assms(5)] un by (metis NormalizeAddr_def)
  note sane = SelectDetailed_sane [OF assms(5,2)]
  obtain s where s: "selectionFromObservation obs t = Some s" "sl_Target s = a"
      "sl_Selected s = observedRoute (sl_Selected sel)" "sl_Ambiguous s = sl_Ambiguous sel"
    using selection_roundtrip [OF sane(2,1), of "''target''" "Some (neighborEvidence w a (sl_Selected sel))" t] target un assms(4)
    by (simp add: obs_def)
  have "DecodeRouteEvidence codec e = Inr obs"
    using assms(6) unfolding obs_def by (intro decode_written sane(2)) (simp_all add: e_def routeEvidence_def obs_def Let_def)
  then have ctx: "NetworkContextFromProbeResults codec t [targetRouteRun codec w ip t] = Some (BuildNetworkContext t s []
      (ro_Neighbor obs) (contextProvenance obs e None) [ev_ID e, []])"
    using s(1)
    by (intro context_of_route_probe) (simp_all add: targetRouteRun_selected [OF assms(1,3,5)] routeResult_def e_def
        obs_def routeEvidence_def selectedRouteEvidence_def Let_def)
  have "route_sane (sl_Selected s)" using s(3) observedRoute_sane [OF sane(2)] by simp
  moreover have "isValidAddr (sl_Target s)" using s(2) assms(4) by (auto simp: isValidAddr_def addr_wf_def)
  ultimately show ?thesis
    using BuildNetworkContext_route [OF _ _ refl, of s t "[]" "ro_Neighbor obs" "contextProvenance obs e None" "[ev_ID e, []]"]
    by (simp add: ctx s(2-4) routeDisposition_def NormalizeAddr_def un)
qed

definition sampleWorld :: routeWorld where
  "sampleWorld = \<lparr>rw_routes = Inr sampleRoutes, rw_neighbors = (\<lambda>a i. (zero_NeighborEvidence, None)),
     rw_check = (\<lambda>a. None), rw_parseErr = (\<lambda>s. s), rw_started = 0, rw_completed = 5000000, rw_checked = 6000000,
     rw_captured = 7000000\<rparr>"

definition sampleRouteCodec :: routeCodec where
  "sampleRouteCodec = \<lparr>rj_encode = (\<lambda>o0. ro_RoutePrefix o0), rj_encodeMap = (\<lambda>es. ''{}''),
     rj_decode = (\<lambda>raw. Inr (selectedRouteEvidence ''target'' sampleSelection ''10.7.2.3''
       (Some (neighborEvidence sampleWorld (V4 [10, 7, 2, 3]) (sl_Selected sampleSelection))))),
     rj_interfaces = (\<lambda>raw. ([], True)), rj_gateway = (\<lambda>raw. Inl ''no'')\<rparr>"

lemma sample_text: "addrString (V4 [10, 7, 2, 3]) = ''10.7.2.3''" "addrString (V4 [10, 0, 0, 0]) = ''10.0.0.0''"
  by code_simp+

lemma sample_wf: "list_all route_wf sampleRoutes"
  by (simp add: sampleRoutes_def route_wf_def prefix_wf_def addr_wf_def addr_ok_def hasZone_def bitLen_def unmap_def
      zero_Route_def)

lemma sample_address: "probeTargetAddress pe (V4 [10, 7, 2, 3]) t = Inr (V4 [10, 7, 2, 3])"
  by (simp add: probeTargetAddress_def isValidAddr_def NormalizeAddr_def unmap_def)

theorem probe_context_witness:
  "case NetworkContextFromProbeResults sampleRouteCodec zero_Target
       [targetRouteRun sampleRouteCodec sampleWorld (V4 [10, 7, 2, 3]) zero_Target] of
     None \<Rightarrow> False
   | Some c \<Rightarrow> nc_RoutePrefix c = ''10.0.0.0/8'' \<and> nc_Gateway c = [] \<and> nc_RouteMetric c = 20
       \<and> nc_RouteSelectionAmbiguous c \<and> nc_SelectedDestinationAddress c = ''10.7.2.3''"
proof -
  have "rw_routes sampleWorld = Inr sampleRoutes" "addr_wf (V4 [10, 7, 2, 3])"
    by (simp_all add: sampleWorld_def addr_wf_def)
  moreover have "let obs = selectedRouteEvidence ''target'' sampleSelection (addrString (V4 [10, 7, 2, 3]))
        (Some (neighborEvidence sampleWorld (V4 [10, 7, 2, 3]) (sl_Selected sampleSelection)))
      in rj_decode sampleRouteCodec (rj_encode sampleRouteCodec obs) = Inr obs"
    by (simp add: sampleRouteCodec_def sample_text)
  moreover have "prefixString (Prefix (V4 [10, 0, 0, 0]) (Some 8)) = ''10.0.0.0/8''" by code_simp
  ultimately show ?thesis
    using probe_context [where w = sampleWorld and codec = sampleRouteCodec and t = zero_Target, OF _ sample_wf sample_address _
        sampleSelection]
    by (auto simp: sampleSelection_def sampleRoutes_def sample_text zero_Route_def routeAddr_def isValidAddr_def
        split: option.splits)
qed

section \<open>The gateway check\<close>

text \<open>
  A gateway check never speaks about a target that needs no gateway. When the target's address is
  loopback or link-local, or the selected route is on-link, the result of the gateway probe is a
  pass that says the gateway was not tested, whatever the check would have answered.
\<close>

theorem gateway_not_needed:
  assumes "rw_routes w = Inr routes" "probeTargetAddress (rw_parseErr w) ip t = Inr a"
    and "SelectDetailed routes a = Some sel"
    and "isLoopback a \<or> isLinkLocalUnicast a \<or> routeIsOnLink (sl_Selected sel)"
  shows "gatewayRun codec (w\<lparr>rw_check := check\<rparr>) ip t = gatewayResult w t (rw_completed w)
    (rj_encode codec (gatewayObservation sel (Some False) None [])) ProbeStatusPassed FailureReasonNone FaultDomainGateway"
  using assms by (auto simp: gatewayRun_def gatewaySelection_def gatewayResult_def routeEvidence_def Let_def)

theorem gateway_not_needed_witness:
  "pr_Status (gatewayRun sampleRouteCodec (sampleWorld\<lparr>rw_check := \<lambda>a. Some (routeError.make ''down'' True True False False False)\<rparr>)
     (V4 [10, 7, 2, 3]) zero_Target) = ProbeStatusPassed"
proof -
  have "routeIsOnLink (sl_Selected sampleSelection)"
    by (simp add: sampleSelection_def sampleRoutes_def routeIsOnLink_def isValidAddr_def zero_Route_def)
  then have "gatewayRun sampleRouteCodec (sampleWorld\<lparr>rw_check := \<lambda>a. Some (routeError.make ''down'' True True False False False)\<rparr>)
     (V4 [10, 7, 2, 3]) zero_Target = gatewayResult sampleWorld zero_Target (rw_completed sampleWorld)
       (rj_encode sampleRouteCodec (gatewayObservation sampleSelection (Some False) None []))
       ProbeStatusPassed FailureReasonNone FaultDomainGateway"
    by (intro gateway_not_needed [OF _ sample_address sampleSelection]) (simp_all add: sampleWorld_def)
  then show ?thesis by (simp add: gatewayResult_def routeResult_def)
qed

end
