(* ===== verification/BuilderNetwork.thy ===== *)
theory BuilderNetwork
  imports BuilderBase RouteFacts
begin

text \<open>
  \<open>internal/observations/builder.go\<close>, the network context of a report: the context that the route
  package reads from the evidence, or a placeholder that names the route probes; the gateway
  fallback; the first failure of the lower layers; the conflicts between target routes.
\<close>

definition isRouteProbe :: "ProbeResult \<Rightarrow> bool" where
  "isRouteProbe probe \<longleftrightarrow>
     pr_Name probe = TargetRouteProbeName \<or> pr_Name probe = DefaultRouteProbeName \<or> pr_Name probe = GatewayProbeName"

section \<open>Without route evidence\<close>

definition placeholderStep :: "ProbeResult \<Rightarrow> NetworkContext \<Rightarrow> NetworkContext" where
  "placeholderStep probe c =
     (if \<not> isRouteProbe probe then c
      else c\<lparr>nc_Certainty := (if pin_FailureReason (pr_Interpretation probe) = FailureReasonUnsupported
               then ObservationCertaintyUnsupported else nc_Certainty c),
             nc_ProbeNames := appendUnique (nc_ProbeNames c) [pr_Name probe],
             nc_EvidenceIDs := appendUnique (nc_EvidenceIDs c) (probeEvidenceIDs probe)\<rparr>)"

definition placeholderContext :: "Target \<Rightarrow> ProbeResult list \<Rightarrow> NetworkContext" where
  "placeholderContext target probes = fold placeholderStep probes
     ((emptyContext target)\<lparr>nc_Certainty := ObservationCertaintyUnknown\<rparr>)"

section \<open>A standalone gateway probe\<close>

definition usableGateway :: "routeCodec \<Rightarrow> ProbeResult \<Rightarrow> (ProbeResult \<times> Evidence \<times> gatewayRoute) list" where
  "usableGateway codec probe = concat (map (\<lambda>evidence.
     if ev_Kind evidence \<noteq> EvidenceKindGatewayReachability then []
     else case rj_gateway codec (ev_Raw evidence) of
         Inl err \<Rightarrow> []
       | Inr value \<Rightarrow> (if gwr_EffectiveRoute value = [] then [] else [(probe, evidence, value)]))
     (pr_Evidence probe))"

text \<open>
  The inner loop stops at the first usable evidence of a probe; the outer loop stops when the
  disposition it set is not \<open>unknown\<close>, and otherwise goes on.
\<close>

definition applyGateway :: "ProbeResult \<times> Evidence \<times> gatewayRoute \<Rightarrow> NetworkContext \<Rightarrow> NetworkContext" where
  "applyGateway found c = (case found of (probe, evidence, value) \<Rightarrow> c\<lparr>
     nc_EffectiveRoute := gwr_EffectiveRoute value,
     nc_RoutePrefix := (if gwr_RoutePrefix value = [] then gwr_Destination value else gwr_RoutePrefix value),
     nc_Gateway := gwr_Gateway value,
     nc_EvidenceIDs := appendUnique (nc_EvidenceIDs c) [ev_ID evidence],
     nc_ProbeNames := appendUnique (nc_ProbeNames c) [pr_Name probe],
     nc_Certainty := ObservationCertaintyDerived\<rparr>)"

fun gatewayFallback :: "routeCodec \<Rightarrow> ProbeResult list \<Rightarrow> NetworkContext \<Rightarrow> NetworkContext" where
  "gatewayFallback codec [] c = c"
| "gatewayFallback codec (probe # probes) c =
     (if nc_EffectiveRoute c \<noteq> RouteDispositionUnknown then c
      else gatewayFallback codec probes
        (case usableGateway codec probe of [] \<Rightarrow> c | found # rest \<Rightarrow> applyGateway found c))"

section \<open>Failures and citations\<close>

definition lowerLayerFailure :: "ProbeResult \<Rightarrow> sourceValue list" where
  "lowerLayerFailure probe =
     (let layer = pin_Layer (pr_Interpretation probe); reason = pin_FailureReason (pr_Interpretation probe) in
      if (layer = LayerInterface \<or> layer = LayerIPConfiguration \<or> layer = LayerRoute
          \<or> reason = FailureReasonGatewayUnreachable)
        \<and> reason \<noteq> [] \<and> reason \<noteq> FailureReasonNone \<and> reason \<noteq> FailureReasonUnknown
      then [sourceOf reason probe (firstEvidenceID (probeEvidenceIDs probe))] else [])"

definition citeStep :: "ProbeResult \<Rightarrow> NetworkContext \<Rightarrow> NetworkContext" where
  "citeStep probe c =
     (let relevant = filter (\<lambda>e. ev_Kind e = EvidenceKindRoute \<or> ev_Kind e = EvidenceKindInterfaceState)
            (pr_Evidence probe);
          c1 = fold (\<lambda>e c. c\<lparr>nc_EvidenceIDs := appendUnique (nc_EvidenceIDs c) [ev_ID e],
              nc_Provenance := (if ev_Source e \<noteq> [] then appendUnique (nc_Provenance c) [ev_Source e]
                else nc_Provenance c)\<rparr>) relevant c in
      if relevant = [] then c1
      else c1\<lparr>nc_ProbeNames := appendUnique (nc_ProbeNames c1) [pr_Name probe]\<rparr>)"

definition applyFailures :: "ProbeResult list \<Rightarrow> sourceValue list \<Rightarrow> NetworkContext \<Rightarrow> NetworkContext" where
  "applyFailures probes failures c = (case failures of
     [] \<Rightarrow> c
   | first # others \<Rightarrow> c\<lparr>
       nc_FailureReason := sv_value first, nc_FaultDomain := FaultDomainRouting,
       nc_ProbeNames := appendUnique (nc_ProbeNames c) [sv_probe first],
       nc_EvidenceIDs := (case find (\<lambda>p. pr_Name p = sv_probe first) probes of
           None \<Rightarrow> nc_EvidenceIDs c | Some p \<Rightarrow> appendUnique (nc_EvidenceIDs c) (probeEvidenceIDs p)),
       nc_Conflicts := noteConflict ''network_context.failure_reason'' failures (nc_Conflicts c)\<rparr>)"

definition settleNetworkCertainty :: "ProbeResult list \<Rightarrow> NetworkContext \<Rightarrow> NetworkContext" where
  "settleNetworkCertainty probes c =
     (let c1 = (if nc_EffectiveRoute c \<noteq> RouteDispositionUnknown \<or> nc_SelectedDestinationAddress c \<noteq> []
          then c\<lparr>nc_Certainty := ObservationCertaintyDerived\<rparr> else c) in
      if nc_Certainty c1 \<noteq> ObservationCertaintyDerived
        \<and> list_ex (\<lambda>p. isRouteProbe p \<and> pin_FailureReason (pr_Interpretation p) = FailureReasonUnsupported) probes
      then c1\<lparr>nc_Certainty := ObservationCertaintyUnsupported\<rparr> else c1)"

section \<open>Conflicting target routes\<close>

definition targetRouteKey :: "RouteObservation \<Rightarrow> string" where
  "targetRouteKey value = ro_RoutePrefix value @ ''|'' @ ro_Gateway value @ ''|'' @ ro_Interface value @ ''|''
     @ ro_SourceAddress value @ ''|'' @ ro_TargetIP value"

definition targetRouteSource :: "routeCodec \<Rightarrow> ProbeResult \<Rightarrow> Evidence \<Rightarrow> sourceValue list" where
  "targetRouteSource codec probe evidence =
     (if ev_Kind evidence \<noteq> EvidenceKindRoute then []
      else case DecodeRouteEvidence codec evidence of
          Inl err \<Rightarrow> []
        | Inr value \<Rightarrow> (if ro_RouteType value \<noteq> ''target'' then []
            else [sourceOf (targetRouteKey value) probe (ev_ID evidence)]))"

definition targetRouteSources :: "routeCodec \<Rightarrow> ProbeResult list \<Rightarrow> sourceValue list" where
  "targetRouteSources codec probes =
     concat (map (\<lambda>probe. concat (map (targetRouteSource codec probe) (pr_Evidence probe))) probes)"

definition detectRouteConflicts :: "routeCodec \<Rightarrow> ProbeResult list \<Rightarrow> NetworkContext \<Rightarrow> NetworkContext" where
  "detectRouteConflicts codec probes c = c\<lparr>nc_Conflicts :=
     noteConflict ''network_context.effective_route'' (targetRouteSources codec probes) (nc_Conflicts c)\<rparr>"

section \<open>The observation\<close>

definition initialNetwork :: "routeCodec \<Rightarrow> Target \<Rightarrow> ProbeResult list \<Rightarrow> NetworkContext" where
  "initialNetwork codec target probes = gatewayFallback codec probes
     (case NetworkContextFromProbeResults codec target probes of
        Some c \<Rightarrow> c | None \<Rightarrow> placeholderContext target probes)"

definition buildNetworkObservation :: "routeCodec \<Rightarrow> Target \<Rightarrow> ProbeResult list \<Rightarrow> NetworkContext" where
  "buildNetworkObservation codec target probes =
     detectRouteConflicts codec probes (settleNetworkCertainty probes
       (applyFailures probes (concat (map lowerLayerFailure probes))
         (fold citeStep probes (initialNetwork codec target probes))))"

section \<open>What the context says\<close>

lemma foldCite_route [simp]:
  "nc_EffectiveRoute (fold citeStep probes c) = nc_EffectiveRoute c"
  "nc_RoutePrefix (fold citeStep probes c) = nc_RoutePrefix c"
  "nc_Gateway (fold citeStep probes c) = nc_Gateway c"
  "nc_NetworkScope (fold citeStep probes c) = nc_NetworkScope c"
  "nc_SelectedDestinationAddress (fold citeStep probes c) = nc_SelectedDestinationAddress c"
  "nc_RouteSelectionAmbiguous (fold citeStep probes c) = nc_RouteSelectionAmbiguous c"
proof (induction probes arbitrary: c)
  case (Cons p probes)
  have inner: "nc_EffectiveRoute (fold (\<lambda>e c. c\<lparr>nc_EvidenceIDs := f e c, nc_Provenance := g e c\<rparr>) es c) = nc_EffectiveRoute c"
    "nc_RoutePrefix (fold (\<lambda>e c. c\<lparr>nc_EvidenceIDs := f e c, nc_Provenance := g e c\<rparr>) es c) = nc_RoutePrefix c"
    "nc_Gateway (fold (\<lambda>e c. c\<lparr>nc_EvidenceIDs := f e c, nc_Provenance := g e c\<rparr>) es c) = nc_Gateway c"
    "nc_NetworkScope (fold (\<lambda>e c. c\<lparr>nc_EvidenceIDs := f e c, nc_Provenance := g e c\<rparr>) es c) = nc_NetworkScope c"
    "nc_SelectedDestinationAddress (fold (\<lambda>e c. c\<lparr>nc_EvidenceIDs := f e c, nc_Provenance := g e c\<rparr>) es c)
      = nc_SelectedDestinationAddress c"
    "nc_RouteSelectionAmbiguous (fold (\<lambda>e c. c\<lparr>nc_EvidenceIDs := f e c, nc_Provenance := g e c\<rparr>) es c)
      = nc_RouteSelectionAmbiguous c" for f g es c
    by (induction es arbitrary: c) simp_all
  { case 1 then show ?case using Cons by (simp add: citeStep_def Let_def inner) next
    case 2 then show ?case using Cons by (simp add: citeStep_def Let_def inner) next
    case 3 then show ?case using Cons by (simp add: citeStep_def Let_def inner) next
    case 4 then show ?case using Cons by (simp add: citeStep_def Let_def inner) next
    case 5 then show ?case using Cons by (simp add: citeStep_def Let_def inner) next
    case 6 then show ?case using Cons by (simp add: citeStep_def Let_def inner) }
qed simp_all

end
