(* ===== verification/BuilderEnterprise.thy ===== *)
theory BuilderEnterprise
  imports BuilderBase EnterpriseEvidence
begin

text \<open>
  \<open>internal/observations/builder.go\<close>, the enterprise policy: the proxy configuration and the
  effective proxy of the two Windows sources, the paths that were tried with and without a proxy,
  firewall, adapters and routes, and the comparison of certificates, read from the evidence of the
  enterprise probe. A pointer to one of the two sources is the function \<open>atSource\<close>.
\<close>

section \<open>Sources\<close>

definition emptyEnterpriseProxySource :: "string \<Rightarrow> EnterpriseProxySourceObservation" where
  "emptyEnterpriseProxySource source = zero_EnterpriseProxySourceObservation\<lparr>
     eps_Source := source,
     eps_Configuration := zero_EnterpriseProxyConfigurationObservation\<lparr>epc_Certainty := ObservationCertaintyUnknown\<rparr>,
     eps_Effective := zero_EnterpriseProxyEffectiveObservation\<lparr>epe_Decision := EnterpriseProxyDecisionUnknown,
       epe_Mode := EnterpriseProxyModeUnknown, epe_Certainty := ObservationCertaintyUnknown\<rparr>,
     eps_PAC := zero_EnterprisePACObservation\<lparr>epa_Decision := EnterpriseProxyDecisionUnknown,
       epa_Mode := EnterpriseProxyModeUnknown, epa_Certainty := ObservationCertaintyUnknown\<rparr>,
     eps_Certainty := ObservationCertaintyUnknown\<rparr>"

definition enterpriseEvidenceProvenance :: "ProbeResult \<Rightarrow> Evidence \<Rightarrow> string list" where
  "enterpriseEvidenceProvenance probe evidence =
     (''probe:'' @ pr_Name probe) # (if ev_Source evidence \<noteq> [] then [''source:'' @ ev_Source evidence] else [])"

definition enterpriseProxySource :: "EnterprisePolicyObservation \<Rightarrow> string \<Rightarrow> EnterpriseProxySourceObservation option" where
  "enterpriseProxySource observation source =
     (let name = toLower (trimSpace source) in
      if name = ''winhttp'' then Some (eno_WinHTTP observation)
      else if name = ''wininet'' then Some (eno_WinINET observation)
      else None)"

definition atSource :: "string \<Rightarrow> (EnterpriseProxySourceObservation \<Rightarrow> EnterpriseProxySourceObservation)
    \<Rightarrow> EnterprisePolicyObservation \<Rightarrow> EnterprisePolicyObservation" where
  "atSource source f observation =
     (let name = toLower (trimSpace source) in
      if name = ''winhttp'' then observation\<lparr>eno_WinHTTP := f (eno_WinHTTP observation)\<rparr>
      else if name = ''wininet'' then observation\<lparr>eno_WinINET := f (eno_WinINET observation)\<rparr>
      else observation)"

definition enterpriseCertaintyRank :: "ObservationCertainty \<Rightarrow> nat" where
  "enterpriseCertaintyRank value =
     (if value = ObservationCertaintyConfigured then 1
      else if value = ObservationCertaintyObserved then 2
      else if value = ObservationCertaintyDerived then 3
      else if value = ObservationCertaintyInferred then 4
      else if value = ObservationCertaintyUnsupported then 5
      else 0)"

definition markEnterpriseProxySource :: "ProbeResult \<Rightarrow> Evidence \<Rightarrow> ObservationCertainty
    \<Rightarrow> EnterpriseProxySourceObservation \<Rightarrow> EnterpriseProxySourceObservation" where
  "markEnterpriseProxySource probe evidence certainty destination = destination\<lparr>
     eps_Provenance := appendUnique (eps_Provenance destination) (enterpriseEvidenceProvenance probe evidence),
     eps_EvidenceIDs := appendUnique (eps_EvidenceIDs destination) [ev_ID evidence],
     eps_Certainty := (if enterpriseCertaintyRank certainty > enterpriseCertaintyRank (eps_Certainty destination)
       then certainty else eps_Certainty destination)\<rparr>"

section \<open>Configuration\<close>

definition projectEnterpriseProxyConfiguration ::
    "ConfigurationObservation \<Rightarrow> ProbeResult \<Rightarrow> Evidence \<Rightarrow> EnterpriseProxyConfigurationObservation" where
  "projectEnterpriseProxyConfiguration value probe evidence = zero_EnterpriseProxyConfigurationObservation\<lparr>
     epc_State := pco_State value, epc_Direct := pco_Direct value,
     epc_StaticProxyConfigured := pco_StaticProxyConfigured value,
     epc_ProxyEndpoints := pco_ProxyEndpoints value, epc_ProxyBypass := pco_ProxyBypass value,
     epc_PACConfigured := pco_PACConfigured value, epc_PACURL := pco_PACURL value,
     epc_AutoDetect := pco_AutoDetect value, epc_Error := pco_Error value,
     epc_Certainty := ObservationCertaintyConfigured,
     epc_Provenance := enterpriseEvidenceProvenance probe evidence, epc_EvidenceIDs := [ev_ID evidence]\<rparr>"

definition syncEnterprisePACConfiguration :: "EnterpriseProxySourceObservation \<Rightarrow> EnterpriseProxySourceObservation" where
  "syncEnterprisePACConfiguration source =
     (let c = eps_Configuration source; p = eps_PAC source in
      if \<not> epc_PACConfigured c \<and> \<not> epc_AutoDetect c \<or> epa_Configured p then source
      else source\<lparr>eps_PAC := p\<lparr>epa_Configured := epc_PACConfigured c, epa_AutoDetect := epc_AutoDetect c,
        epa_URL := epc_PACURL c, epa_Certainty := ObservationCertaintyConfigured,
        epa_Provenance := appendUnique (epa_Provenance p) (epc_Provenance c),
        epa_EvidenceIDs := appendUnique (epa_EvidenceIDs p) (epc_EvidenceIDs c)\<rparr>\<rparr>)"

definition configureSource :: "ConfigurationObservation \<Rightarrow> ProbeResult \<Rightarrow> Evidence
    \<Rightarrow> EnterpriseProxySourceObservation \<Rightarrow> EnterpriseProxySourceObservation" where
  "configureSource value probe evidence source =
     (let previous = eps_Configuration source;
          c = projectEnterpriseProxyConfiguration value probe evidence;
          merged = c\<lparr>epc_PACConfigured := epc_PACConfigured c \<or> epc_PACConfigured previous,
            epc_AutoDetect := epc_AutoDetect c \<or> epc_AutoDetect previous\<rparr> in
      markEnterpriseProxySource probe evidence ObservationCertaintyConfigured
        (syncEnterprisePACConfiguration (source\<lparr>eps_Configuration := merged\<rparr>)))"

definition configurationUnread :: "string \<Rightarrow> EnterpriseProxySourceObservation \<Rightarrow> EnterpriseProxySourceObservation" where
  "configurationUnread err source = source\<lparr>
     eps_Limitations := appendUnique (eps_Limitations source) [''configuration evidence decode: '' @ err]\<rparr>"

definition projectEnterprisePAC :: "enterprisePACEvidence \<Rightarrow> ProbeResult \<Rightarrow> Evidence
    \<Rightarrow> EnterprisePolicyObservation \<Rightarrow> EnterprisePolicyObservation" where
  "projectEnterprisePAC value probe evidence observation = atSource (ev_Source evidence) (\<lambda>destination.
     let p = eps_PAC destination;
         marked = markEnterpriseProxySource probe evidence ObservationCertaintyConfigured (destination\<lparr>
           eps_PAC := p\<lparr>epa_Configured := epv_Configured value, epa_AutoDetect := epv_AutoDetect value,
             epa_URL := epv_URL value, epa_Certainty := ObservationCertaintyConfigured,
             epa_Provenance := appendUnique (epa_Provenance p) (enterpriseEvidenceProvenance probe evidence),
             epa_EvidenceIDs := appendUnique (epa_EvidenceIDs p) [ev_ID evidence]\<rparr>\<rparr>);
         c = eps_Configuration marked in
     marked\<lparr>eps_Configuration := c\<lparr>epc_PACConfigured := epc_PACConfigured c \<or> epv_Configured value,
       epc_AutoDetect := epc_AutoDetect c \<or> epv_AutoDetect value\<rparr>\<rparr>) observation"

section \<open>The effective proxy\<close>

definition enterpriseEffectiveDecision :: "EffectiveProxy \<Rightarrow> string" where
  "enterpriseEffectiveDecision value =
     (if trimSpace (efx_Decision value) \<noteq> [] then trimSpace (efx_Decision value)
      else if efx_BypassMatched value then EnterpriseProxyDecisionBypassMatch
      else if \<not> efx_ResolutionOK value \<and> (efx_PACUsed value \<or> efx_AutoDetect value)
      then EnterpriseProxyDecisionPACResultUnavailable
      else if efx_Mode value = PathModeDirect then EnterpriseProxyDecisionDirect
      else if efx_Mode value = PathModeProxy then EnterpriseProxyDecisionStaticProxy
      else if efx_Mode value = PathModePAC then EnterpriseProxyDecisionPACSelectedProxy
      else EnterpriseProxyDecisionUnknown)"

definition effectiveDecisionKnown :: "EnterpriseProxyEffectiveObservation \<Rightarrow> bool" where
  "effectiveDecisionKnown value \<longleftrightarrow> epe_Observed value \<and> epe_ResolutionOK value \<and> epe_Decision value \<noteq> []
     \<and> epe_Decision value \<noteq> EnterpriseProxyDecisionUnknown \<and> epe_Decision value \<noteq> EnterpriseProxyDecisionConflicting"

definition sameEnterpriseEffective ::
    "EnterpriseProxyEffectiveObservation \<Rightarrow> EnterpriseProxyEffectiveObservation \<Rightarrow> bool" where
  "sameEnterpriseEffective left right \<longleftrightarrow> epe_Decision left = epe_Decision right \<and> epe_Mode left = epe_Mode right
     \<and> epe_Endpoint left = epe_Endpoint right \<and> epe_BypassMatched left = epe_BypassMatched right
     \<and> epe_ResolutionOK left = epe_ResolutionOK right"

definition citeEffective :: "EnterpriseProxyEffectiveObservation \<Rightarrow> EnterpriseProxyEffectiveObservation
    \<Rightarrow> EnterpriseProxyEffectiveObservation" where
  "citeEffective candidate e = e\<lparr>epe_Provenance := appendUnique (epe_Provenance e) (epe_Provenance candidate),
     epe_EvidenceIDs := appendUnique (epe_EvidenceIDs e) (epe_EvidenceIDs candidate)\<rparr>"

definition mergeEnterpriseEffective :: "EnterpriseProxyEffectiveObservation
    \<Rightarrow> EnterpriseProxySourceObservation \<Rightarrow> EnterpriseProxySourceObservation" where
  "mergeEnterpriseEffective candidate destination =
     (let e = eps_Effective destination;
          attempted = epe_ResolutionAttempted e \<or> epe_ResolutionAttempted candidate in
      if \<not> epe_Observed e then destination\<lparr>eps_Effective := candidate\<rparr>
      else if sameEnterpriseEffective e candidate
      then destination\<lparr>eps_Effective := (citeEffective candidate e)\<lparr>epe_ResolutionAttempted := attempted\<rparr>\<rparr>
      else destination\<lparr>
        eps_Effective := (citeEffective candidate e)\<lparr>epe_Decision := EnterpriseProxyDecisionConflicting,
          epe_Mode := EnterpriseProxyModeUnknown, epe_Endpoint := [], epe_BypassMatched := False,
          epe_ResolutionAttempted := attempted, epe_ResolutionOK := False,
          epe_Error := ''conflicting effective proxy observations''\<rparr>,
        eps_Limitations := appendUnique (eps_Limitations destination)
          [''conflicting effective proxy observations'']\<rparr>)"

definition effectiveCandidate :: "EffectiveProxy \<Rightarrow> ProbeResult \<Rightarrow> Evidence \<Rightarrow> EnterpriseProxyEffectiveObservation" where
  "effectiveCandidate effective probe evidence = zero_EnterpriseProxyEffectiveObservation\<lparr>
     epe_Observed := True, epe_Decision := enterpriseEffectiveDecision effective, epe_Mode := efx_Mode effective,
     epe_Endpoint := efx_Endpoint effective, epe_Bypass := efx_Bypass effective,
     epe_BypassMatched := efx_BypassMatched effective, epe_PACUsed := efx_PACUsed effective,
     epe_AutoDetect := efx_AutoDetect effective,
     epe_ResolutionAttempted := efx_ResolutionAttempted effective \<or> efx_ResolutionOK effective,
     epe_ResolutionOK := efx_ResolutionOK effective, epe_Error := efx_Error effective,
     epe_Certainty := ObservationCertaintyObserved,
     epe_Provenance := enterpriseEvidenceProvenance probe evidence, epe_EvidenceIDs := [ev_ID evidence]\<rparr>"

definition resolvedPAC :: "EffectiveProxy \<Rightarrow> string \<Rightarrow> ProbeResult \<Rightarrow> Evidence
    \<Rightarrow> EnterpriseProxySourceObservation \<Rightarrow> EnterpriseProxySourceObservation" where
  "resolvedPAC effective decision probe evidence destination =
     (let p = eps_PAC destination in
      if efx_PACUsed effective \<or> efx_AutoDetect effective \<or> epc_PACConfigured (eps_Configuration destination)
        \<or> epa_Configured p
      then destination\<lparr>eps_PAC := p\<lparr>epa_ResolutionObserved := True, epa_ResolutionOK := efx_ResolutionOK effective,
        epa_Used := efx_PACUsed effective, epa_AutoDetect := epa_AutoDetect p \<or> efx_AutoDetect effective,
        epa_Mode := efx_Mode effective, epa_Decision := decision, epa_Endpoint := efx_Endpoint effective,
        epa_Bypass := efx_Bypass effective, epa_BypassMatched := efx_BypassMatched effective,
        epa_Certainty := ObservationCertaintyObserved,
        epa_Provenance := appendUnique (epa_Provenance p) (enterpriseEvidenceProvenance probe evidence),
        epa_EvidenceIDs := appendUnique (epa_EvidenceIDs p) [ev_ID evidence]\<rparr>\<rparr>
      else destination)"

definition effectiveStep :: "ProbeResult \<Rightarrow> Evidence \<Rightarrow> EffectiveProxy
    \<Rightarrow> EnterprisePolicyObservation \<Rightarrow> EnterprisePolicyObservation" where
  "effectiveStep probe evidence effective = atSource (efx_Source effective) (\<lambda>destination.
     let candidate = effectiveCandidate effective probe evidence in
     resolvedPAC effective (epe_Decision candidate) probe evidence (mergeEnterpriseEffective candidate
       (markEnterpriseProxySource probe evidence ObservationCertaintyObserved destination)))"

definition effectiveLess :: "EffectiveProxy \<Rightarrow> EffectiveProxy \<Rightarrow> bool" where
  "effectiveLess a b =
     (if efx_Source a \<noteq> efx_Source b then efx_Source a < efx_Source b else efx_Endpoint a < efx_Endpoint b)"

section \<open>Paths\<close>

definition pathCandidate :: "EnterprisePath \<Rightarrow> ProbeResult \<Rightarrow> Evidence \<Rightarrow> EnterpriseProxyEffectiveObservation" where
  "pathCandidate path probe evidence = zero_EnterpriseProxyEffectiveObservation\<lparr>
     epe_Observed := True,
     epe_Decision := (if enp_ProxyAuthenticationHint path \<or> enp_ConnectOutcome path = ConnectAuthRequired
       then EnterpriseProxyDecisionAuthenticationRequired
       else if enp_Mode path = PathModePAC then EnterpriseProxyDecisionPACSelectedProxy
       else EnterpriseProxyDecisionStaticProxy),
     epe_Mode := enp_Mode path, epe_Endpoint := enp_Endpoint path,
     epe_PACUsed := enp_Mode path = PathModePAC, epe_ResolutionAttempted := True, epe_ResolutionOK := True,
     epe_Certainty := ObservationCertaintyObserved,
     epe_Provenance := enterpriseEvidenceProvenance probe evidence, epe_EvidenceIDs := [ev_ID evidence]\<rparr>"

definition ensureEnterpriseEffectiveFromPath :: "EnterprisePath \<Rightarrow> ProbeResult \<Rightarrow> Evidence
    \<Rightarrow> EnterpriseProxySourceObservation \<Rightarrow> EnterpriseProxySourceObservation" where
  "ensureEnterpriseEffectiveFromPath path probe evidence destination =
     (let candidate = pathCandidate path probe evidence; e = eps_Effective destination in
      if \<not> epe_Observed e then destination\<lparr>eps_Effective := candidate\<rparr>
      else if epe_Decision candidate = EnterpriseProxyDecisionAuthenticationRequired
        \<and> epe_Decision e \<noteq> EnterpriseProxyDecisionConflicting
      then destination\<lparr>eps_Effective := (citeEffective candidate e)\<lparr>epe_Decision := epe_Decision candidate\<rparr>\<rparr>
      else if epe_Decision e \<noteq> epe_Decision candidate \<or> epe_Mode e \<noteq> epe_Mode candidate
        \<or> epe_Endpoint e \<noteq> epe_Endpoint candidate
      then mergeEnterpriseEffective candidate destination
      else destination\<lparr>eps_Effective := citeEffective candidate e\<rparr>)"

definition projectEnterprisePath :: "EnterprisePath \<Rightarrow> ProbeResult \<Rightarrow> Evidence \<Rightarrow> EnterprisePathObservation" where
  "projectEnterprisePath value probe evidence = zero_EnterprisePathObservation\<lparr>
     ept_Name := enp_Name value, ept_Source := enp_Source value, ept_Mode := enp_Mode value,
     ept_Endpoint := enp_Endpoint value, ept_RequestAttempted := enp_RequestAttempted value,
     ept_TCPConnected := enp_TCPConnected value, ept_ConnectOutcome := enp_ConnectOutcome value,
     ept_ConnectStatusCode := enp_ConnectStatusCode value,
     ept_ProxyAuthenticationHint := enp_ProxyAuthenticationHint value,
     ept_HTTPResponse := enp_HTTPResponse value, ept_HTTPStatusCode := enp_HTTPStatusCode value,
     ept_TLSHandshake := enp_TLSHandshake value, ept_TLSAttempted := enp_TLSAttempted value,
     ept_CertificateTrusted := enp_CertificateTrusted value, ept_HostnameVerified := enp_HostnameVerified value,
     ept_FailureReason := enp_FailureReason value, ept_Error := enp_Error value,
     ept_Certainty := ObservationCertaintyObserved,
     ept_Provenance := enterpriseEvidenceProvenance probe evidence, ept_EvidenceIDs := [ev_ID evidence],
     ept_CertificateSHA256 := (case enp_Certificate value of None \<Rightarrow> [] | Some c \<Rightarrow> cob_SHA256 c),
     ept_CertificateSubject := (case enp_Certificate value of None \<Rightarrow> [] | Some c \<Rightarrow> cob_Subject c),
     ept_CertificateIssuer := (case enp_Certificate value of None \<Rightarrow> [] | Some c \<Rightarrow> cob_Issuer c)\<rparr>"

definition projectEnterpriseEndpoint ::
    "EnterprisePath \<Rightarrow> ProbeResult \<Rightarrow> Evidence \<Rightarrow> EnterpriseProxyEndpointObservation" where
  "projectEnterpriseEndpoint value probe evidence = zero_EnterpriseProxyEndpointObservation\<lparr>
     epp_Endpoint := enp_Endpoint value,
     epp_Reachability := (if enp_TCPConnected value then EnterpriseEndpointReachable
       else if enp_ConnectOutcome value = ConnectTimeout then EnterpriseEndpointTimeout
       else if enp_ConnectOutcome value = ConnectUnavailable
         \<or> enp_FailureReason value = FailureReasonProxyUnavailable then EnterpriseEndpointUnavailable
       else if enp_ConnectOutcome value = ConnectNotTested then EnterpriseEndpointNotTested
       else EnterpriseEndpointUnknown),
     epp_TCPConnected := enp_TCPConnected value, epp_ConnectOutcome := enp_ConnectOutcome value,
     epp_StatusCode := enp_ConnectStatusCode value, epp_Certainty := ObservationCertaintyObserved,
     epp_Provenance := enterpriseEvidenceProvenance probe evidence, epp_EvidenceIDs := [ev_ID evidence]\<rparr>"

definition pathLess :: "EnterprisePath \<Rightarrow> EnterprisePath \<Rightarrow> bool" where
  "pathLess a b =
     (if enp_Name a \<noteq> enp_Name b then enp_Name a < enp_Name b
      else if enp_Source a \<noteq> enp_Source b then enp_Source a < enp_Source b
      else enp_Endpoint a < enp_Endpoint b)"

definition pathStep :: "ProbeResult \<Rightarrow> Evidence \<Rightarrow> EnterprisePath
    \<Rightarrow> EnterprisePolicyObservation \<Rightarrow> EnterprisePolicyObservation" where
  "pathStep probe evidence path observation =
     (let appended = observation\<lparr>eno_Paths := eno_Paths observation @ [projectEnterprisePath path probe evidence]\<rparr> in
      if enp_Endpoint path \<noteq> [] \<and> (enp_Mode path = PathModeProxy \<or> enp_Mode path = PathModePAC)
      then atSource (enp_Source path) (\<lambda>source.
        let s = ensureEnterpriseEffectiveFromPath path probe evidence source in
        s\<lparr>eps_EndpointReachability := eps_EndpointReachability s @ [projectEnterpriseEndpoint path probe evidence]\<rparr>)
        appended
      else appended)"

definition projectEnterpriseConnectivity :: "enterpriseConnectivityEvidence \<Rightarrow> ProbeResult \<Rightarrow> Evidence
    \<Rightarrow> EnterprisePolicyObservation \<Rightarrow> EnterprisePolicyObservation" where
  "projectEnterpriseConnectivity value probe evidence observation =
     fold (pathStep probe evidence) (sortBy pathLess (eco_Paths value))
       (fold (effectiveStep probe evidence) (sortBy effectiveLess (eco_EffectiveProxy value)) observation)"

definition pathWorksEnterprise :: "EnterprisePathObservation \<Rightarrow> bool" where
  "pathWorksEnterprise path \<longleftrightarrow>
     \<not> (ept_FailureReason path \<noteq> [] \<and> ept_FailureReason path \<noteq> FailureReasonNone)
     \<and> (ept_HTTPResponse path \<and> ept_HTTPStatusCode path \<ge> 200 \<and> ept_HTTPStatusCode path < 400
       \<or> ept_TLSHandshake path \<and> ept_CertificateTrusted path \<and> ept_HostnameVerified path)"

definition isProxyPathName :: "string \<Rightarrow> bool" where
  "isProxyPathName name \<longleftrightarrow> name = PathBrowserWinINET \<or> name = PathServiceWinHTTP"

definition compareEnterprisePaths :: "EnterprisePathObservation list \<Rightarrow> EnterprisePathComparisonObservation" where
  "compareEnterprisePaths paths =
     (let direct = find (\<lambda>p. ept_Name p = PathApplicationDirect) paths;
          proxies = filter (\<lambda>p. isProxyPathName (ept_Name p)) paths;
          directKnown = (direct \<noteq> None); directWorks = (case direct of None \<Rightarrow> False | Some d \<Rightarrow> pathWorksEnterprise d);
          proxyKnown = (proxies \<noteq> []); proxyWorks = list_ex pathWorksEnterprise proxies;
          ids = fold (\<lambda>p ids. appendUnique ids (ept_EvidenceIDs p)) proxies [];
          base = zero_EnterprisePathComparisonObservation\<lparr>epm_DirectPath := PathApplicationDirect,
            epm_ProxyPaths := fold (\<lambda>p names. appendUnique names [ept_Name p]) proxies [],
            epm_DirectWorks := directWorks, epm_DirectWorksKnown := directKnown,
            epm_ProxyWorks := proxyWorks, epm_ProxyWorksKnown := proxyKnown,
            epm_EvidenceIDs := (case direct of None \<Rightarrow> ids | Some d \<Rightarrow> appendUnique ids (ept_EvidenceIDs d)),
            epm_Provenance := [''comparison:enterprise_paths''],
            epm_State := EnterprisePathComparisonUnknown,
            epm_Certainty := ObservationCertaintyDerived\<rparr> in
      if directKnown \<and> proxyKnown \<and> directWorks \<and> proxyWorks
      then base\<lparr>epm_State := EnterprisePathComparisonBothWork\<rparr>
      else if directKnown \<and> proxyKnown \<and> \<not> directWorks \<and> proxyWorks
      then base\<lparr>epm_State := EnterprisePathComparisonDirectFailureProxyWorks, epm_PolicyPossible := True,
        epm_Certainty := ObservationCertaintyInferred\<rparr>
      else if directKnown \<and> proxyKnown \<and> directWorks \<and> \<not> proxyWorks
      then base\<lparr>epm_State := EnterprisePathComparisonDirectWorksProxyFailure\<rparr>
      else if directKnown \<and> proxyKnown then base\<lparr>epm_State := EnterprisePathComparisonBothFail\<rparr>
      else if directKnown \<or> proxyKnown then base\<lparr>epm_State := ''partial''\<rparr>
      else base)"

end
