(* ===== verification/BuilderPolicy.thy ===== *)
theory BuilderPolicy
  imports BuilderEnterprise
begin

text \<open>
  \<open>internal/observations/builder.go\<close>, the enterprise policy continued: firewall, adapters and routes,
  the comparison of certificates, the loop over the evidence, and what is derived after it. The
  network context is the route package's; only references to it are added here.
\<close>

section \<open>Firewall\<close>

definition firewallEffectiveState :: "bool option \<Rightarrow> string" where
  "firewallEffectiveState value = (case value of
     None \<Rightarrow> EnterpriseObservationStateUnknown | Some True \<Rightarrow> ''enabled'' | Some False \<Rightarrow> ''disabled'')"

definition projectFirewallProfile :: "FirewallProfile \<Rightarrow> ProbeResult \<Rightarrow> Evidence
    \<Rightarrow> EnterpriseFirewallProfileObservation" where
  "projectFirewallProfile profile probe evidence = zero_EnterpriseFirewallProfileObservation\<lparr>
     efp_Name := fwp_Name profile, efp_FirewallEnabled := fwp_FirewallEnabled profile,
     efp_BlockInboundExceptions := fwp_BlockInboundExceptions profile,
     efp_PolicyPresent := fwp_PolicyPresent profile,
     efp_EffectiveState := firewallEffectiveState (fwp_FirewallEnabled profile),
     efp_BlockCausality := EnterpriseFirewallCausalityNotEstablished,
     efp_Certainty := ObservationCertaintyObserved,
     efp_Provenance := enterpriseEvidenceProvenance probe evidence, efp_EvidenceIDs := [ev_ID evidence]\<rparr>"

definition projectEnterpriseFirewall :: "FirewallObservation \<Rightarrow> ProbeResult \<Rightarrow> Evidence
    \<Rightarrow> EnterprisePolicyObservation \<Rightarrow> EnterprisePolicyObservation" where
  "projectEnterpriseFirewall value probe evidence observation = observation\<lparr>
     eno_Firewall := zero_EnterpriseFirewallObservation\<lparr>
       efw_State := (if fwo_Insufficient value then EnterpriseObservationStatePartial
         else if \<not> fwo_Available value then EnterpriseObservationStateUnavailable
         else EnterpriseObservationStateObserved),
       efw_Available := fwo_Available value, efw_Error := fwo_Error value,
       efw_Insufficient := fwo_Insufficient value,
       efw_BlockCausality := EnterpriseFirewallCausalityNotEstablished,
       efw_Certainty := (if fwo_Insufficient value then ObservationCertaintyUnsupported
         else if \<not> fwo_Available value then ObservationCertaintyUnknown
         else ObservationCertaintyObserved),
       efw_Provenance := enterpriseEvidenceProvenance probe evidence, efw_EvidenceIDs := [ev_ID evidence],
       efw_Profiles := map (\<lambda>profile. projectFirewallProfile profile probe evidence) (fwo_Profiles value)\<rparr>\<rparr>"

section \<open>Adapters and routes\<close>

definition adapterParticipation :: "ProbeResult \<Rightarrow> Evidence \<Rightarrow> AdapterObservation
    \<Rightarrow> EnterpriseAdapterParticipationObservation list" where
  "adapterParticipation probe evidence adapter =
     (let vpn = ado_VPN adapter \<or> equalFold (ado_Type adapter) ''vpn'' \<or> equalFold (ado_Type adapter) ''tunnel'';
          virtual = ado_Virtual adapter \<or> vpn \<or> equalFold (ado_Type adapter) ''virtual'' in
      if \<not> vpn \<and> \<not> virtual then []
      else [\<lparr>ead_Index = ado_Index adapter, ead_Name = ado_Name adapter, ead_Type = ado_Type adapter,
        ead_IfType = ado_IfType adapter, ead_Operational = ado_Operational adapter, ead_VPN = vpn,
        ead_Virtual = virtual, ead_Certainty = ObservationCertaintyObserved,
        ead_Provenance = enterpriseEvidenceProvenance probe evidence, ead_EvidenceIDs = [ev_ID evidence]\<rparr>])"

definition enterpriseRoutesDiffer :: "EnterpriseRoute list \<Rightarrow> bool \<times> bool" where
  "enterpriseRoutesDiffer routes =
     (let ordered = sortBy (\<lambda>a b. enr_Path a < enr_Path b) routes in
      case (find (\<lambda>r. enr_Path r = PathApplicationDirect) ordered, find (\<lambda>r. isProxyPathName (enr_Path r)) ordered) of
        (Some direct, Some proxy) \<Rightarrow>
          if \<not> enr_Available direct \<or> \<not> enr_Available proxy \<or> enr_InterfaceIndex direct = 0
            \<or> enr_InterfaceIndex proxy = 0 then (False, False)
          else (enr_InterfaceIndex direct \<noteq> enr_InterfaceIndex proxy \<or> enr_NextHop direct \<noteq> enr_NextHop proxy, True)
      | _ \<Rightarrow> (False, False))"

definition routingNetwork :: "enterpriseRoutingEvidence \<Rightarrow> ProbeResult \<Rightarrow> Evidence
    \<Rightarrow> EnterpriseNetworkCorrelationObservation \<Rightarrow> EnterpriseNetworkCorrelationObservation" where
  "routingNetwork value probe evidence n =
     (let adapters = enc_AdapterParticipation n @ concat (map (adapterParticipation probe evidence) (ero_Adapters value));
          (differ, known) = enterpriseRoutesDiffer (ero_Routes value) in
      n\<lparr>enc_AdapterParticipation := adapters,
        enc_VPNAdapterPresentKnown := True, enc_VirtualAdapterPresentKnown := True,
        enc_VPNAdapterPresent := enc_VPNAdapterPresent n \<or> list_ex ead_VPN adapters,
        enc_VirtualAdapterPresent := enc_VirtualAdapterPresent n \<or> list_ex ead_Virtual adapters,
        enc_RouteDifference := differ, enc_RouteDifferenceKnown := known,
        enc_Certainty := (if known then ObservationCertaintyDerived else enc_Certainty n),
        enc_Provenance := appendUnique (if known
            then appendUnique (enc_Provenance n) [''comparison:enterprise_routes''] else enc_Provenance n)
          (enterpriseEvidenceProvenance probe evidence)\<rparr>)"

definition projectEnterpriseRouting :: "enterpriseRoutingEvidence \<Rightarrow> ProbeResult \<Rightarrow> Evidence
    \<Rightarrow> EnterprisePolicyObservation \<Rightarrow> EnterprisePolicyObservation" where
  "projectEnterpriseRouting value probe evidence observation =
     observation\<lparr>eno_Network := routingNetwork value probe evidence (eno_Network observation)\<rparr>"

definition finalizeEnterpriseNetwork :: "NetworkContext
    \<Rightarrow> EnterpriseNetworkCorrelationObservation \<Rightarrow> EnterpriseNetworkCorrelationObservation" where
  "finalizeEnterpriseNetwork network n0 =
     (let facts = enc_EvidenceIDs n0 \<noteq> [] \<or> enc_AdapterParticipation n0 \<noteq> [] \<or> enc_RouteDifferenceKnown n0;
          n1 = (if facts then n0\<lparr>enc_NetworkContextReferenced := True,
              enc_NetworkContextCertainty := nc_Certainty network,
              enc_NetworkContextEvidenceIDs := appendUnique (enc_NetworkContextEvidenceIDs n0) (nc_EvidenceIDs network),
              enc_Provenance := appendUnique (enc_Provenance n0) [''reference:network_context'']\<rparr> else n0);
          n2 = (if facts \<and> (nc_EffectiveRoute network \<noteq> RouteDispositionUnknown
                \<or> nc_SelectedDestinationAddress network \<noteq> [])
            then n1\<lparr>enc_SelectedRouteUsesVPNKnown := True,
              enc_SelectedRouteUsesVPN := nc_VPNOrTunnelInvolvement network,
              enc_SelectedRouteUsesVirtualKnown := True,
              enc_SelectedRouteUsesVirtual := nc_VirtualAdapterInvolvement network\<rparr> else n1) in
      if (enc_Certainty n2 = [] \<or> enc_Certainty n2 = ObservationCertaintyUnknown)
        \<and> (enc_NetworkContextReferenced n2 \<or> enc_RouteDifferenceKnown n2)
      then n2\<lparr>enc_Certainty := ObservationCertaintyDerived\<rparr> else n2)"

section \<open>Certificates\<close>

definition projectedTLS :: "enterpriseTLSEvidence \<Rightarrow> ProbeResult \<Rightarrow> Evidence \<Rightarrow> EnterpriseTLSPolicyObservation" where
  "projectedTLS value probe evidence =
     (let c = ete_Comparison value; store = ete_TrustStore value;
          hashes = tco_DirectCertificateSHA256 c \<noteq> [] \<and> tco_ProxyCertificateSHA256 c \<noteq> [] in
      zero_EnterpriseTLSPolicyObservation\<lparr>
        etl_State := EnterpriseObservationStateObserved, etl_TrustStoreAvailable := tso_Available store,
        etl_TrustStoreRootCount := tso_RootCount store, etl_TrustStoreInsufficient := tso_Insufficient store,
        etl_DirectCertificateSHA256 := tco_DirectCertificateSHA256 c,
        etl_ProxyCertificateSHA256 := tco_ProxyCertificateSHA256 c,
        etl_DirectCertificateSubject := tco_DirectCertificateSubject c,
        etl_ProxyCertificateSubject := tco_ProxyCertificateSubject c,
        etl_DirectCertificateIssuer := tco_DirectCertificateIssuer c,
        etl_ProxyCertificateIssuer := tco_ProxyCertificateIssuer c,
        etl_CertificatesDiffer := tco_CertificatesDiffer c,
        etl_CertificatesDifferKnown := tco_CertificatesDifferKnown c \<or> hashes,
        etl_IssuersDiffer := tco_IssuersDiffer c,
        etl_IssuersDifferKnown := tco_IssuersDifferKnown c
          \<or> tco_DirectCertificateIssuer c \<noteq> [] \<and> tco_ProxyCertificateIssuer c \<noteq> [],
        etl_BothTrusted := tco_BothTrusted c, etl_BothTrustedKnown := tco_BothTrustedKnown c \<or> hashes,
        etl_BothHostnameVerified := tco_BothHostnameVerified c,
        etl_BothHostnameKnown := tco_BothHostnameKnown c \<or> hashes,
        etl_PossibleInterception := tco_PossibleInterception c,
        etl_InterceptionSuspicion := (if tco_PossibleInterception c
          then EnterpriseInterceptionSuspicionPossible else EnterpriseInterceptionSuspicionNotEstablished),
        etl_InterceptionBasis := (if tco_PossibleInterception c then tco_InterceptionBasis c else []),
        etl_TrustMismatch := tco_TrustMismatch c,
        etl_TrustMismatchKnown := tco_TrustMismatch c \<or> tco_ProxyCertificateSHA256 c \<noteq> []
          \<or> tco_DirectCertificateSHA256 c \<noteq> [],
        etl_TrustedCorporatePrivateRootKnown := tso_TrustedCorporatePrivateRootKnown store,
        etl_TrustedCorporatePrivateRoot := tso_TrustedCorporatePrivateRoot store,
        etl_Certainty := (if tso_Insufficient store then ObservationCertaintyUnsupported
          else if tco_PossibleInterception c then ObservationCertaintyInferred else ObservationCertaintyDerived),
        etl_Provenance := enterpriseEvidenceProvenance probe evidence, etl_EvidenceIDs := [ev_ID evidence],
        etl_Limitations :=
          (if tso_Insufficient store then [''Windows trust-store inspection has insufficient privilege''] else [])
          @ (if tso_Error store \<noteq> [] then [''trust store: '' @ tso_Error store] else [])\<rparr>)"

definition tlsConflict :: "EnterpriseTLSPolicyObservation \<Rightarrow> Evidence \<Rightarrow> string \<Rightarrow> string \<Rightarrow> string
    \<Rightarrow> ObservationConflict" where
  "tlsConflict previous evidence field left right = \<lparr>oc_Field = field, oc_Values = [left, right],
     oc_Provenance = [''comparison:enterprise_tls'', ''source:'' @ ev_Source evidence],
     oc_EvidenceIDs = appendUnique (etl_EvidenceIDs previous) [ev_ID evidence]\<rparr>"

definition textConflict :: "EnterpriseTLSPolicyObservation \<Rightarrow> Evidence \<Rightarrow> string \<Rightarrow> string \<Rightarrow> string
    \<Rightarrow> ObservationConflict list" where
  "textConflict previous evidence field left right =
     (if left = [] \<or> right = [] \<or> left = right then [] else [tlsConflict previous evidence field left right])"

definition enterpriseTLSConflicts :: "EnterpriseTLSPolicyObservation \<Rightarrow> TLSComparison \<Rightarrow> Evidence
    \<Rightarrow> ObservationConflict list" where
  "enterpriseTLSConflicts previous current evidence =
     textConflict previous evidence ''enterprise.tls.direct_certificate''
       (etl_DirectCertificateSHA256 previous) (tco_DirectCertificateSHA256 current)
     @ textConflict previous evidence ''enterprise.tls.proxy_certificate''
       (etl_ProxyCertificateSHA256 previous) (tco_ProxyCertificateSHA256 current)
     @ textConflict previous evidence ''enterprise.tls.direct_issuer''
       (etl_DirectCertificateIssuer previous) (tco_DirectCertificateIssuer current)
     @ textConflict previous evidence ''enterprise.tls.proxy_issuer''
       (etl_ProxyCertificateIssuer previous) (tco_ProxyCertificateIssuer current)
     @ (if etl_EvidenceIDs previous \<noteq> [] \<and> etl_PossibleInterception previous \<noteq> tco_PossibleInterception current
        then [tlsConflict previous evidence ''enterprise.tls.possible_interception''
          (boolString (etl_PossibleInterception previous)) (boolString (tco_PossibleInterception current))] else [])"

definition projectEnterpriseTLS :: "enterpriseTLSEvidence \<Rightarrow> ProbeResult \<Rightarrow> Evidence
    \<Rightarrow> EnterprisePolicyObservation \<Rightarrow> EnterprisePolicyObservation" where
  "projectEnterpriseTLS value probe evidence observation =
     (let previous = eno_TLS observation; projected = projectedTLS value probe evidence in
      observation\<lparr>eno_TLS := projected\<lparr>etl_Conflicts := etl_Conflicts previous
        @ enterpriseTLSConflicts previous (ete_Comparison value) evidence\<rparr>\<rparr>)"

section \<open>The evidence of the enterprise probe\<close>

record enterpriseState =
  xs_observation :: EnterprisePolicyObservation
  xs_winhttp :: "Evidence option"
  xs_wininet :: "Evidence option"
  xs_path :: "Evidence option"
  xs_firewall :: "Evidence option"
  xs_routing :: "Evidence option"
  xs_tls :: "Evidence option"
  xs_correlation :: "Evidence option"
  xs_sawEnterprise :: bool
  xs_sawUnsupported :: bool

definition onObservation :: "(EnterprisePolicyObservation \<Rightarrow> EnterprisePolicyObservation) \<Rightarrow> enterpriseState
    \<Rightarrow> enterpriseState" where
  "onObservation f s = s\<lparr>xs_observation := f (xs_observation s)\<rparr>"

definition limitation :: "string \<Rightarrow> EnterprisePolicyObservation \<Rightarrow> EnterprisePolicyObservation" where
  "limitation text0 observation = observation\<lparr>
     eno_Limitations := appendUnique (eno_Limitations observation) [text0]\<rparr>"

definition issueText :: "ObservationIssue \<Rightarrow> string" where
  "issueText issue = trimSpace (obi_Subsystem issue @ '': '' @ obi_Kind issue)
     @ (if obi_Error issue \<noteq> [] then '': '' @ obi_Error issue else [])"

definition appendEnterpriseIssues :: "ObservationIssue list \<Rightarrow> EnterprisePolicyObservation
    \<Rightarrow> EnterprisePolicyObservation" where
  "appendEnterpriseIssues issues observation = fold (\<lambda>issue. limitation (issueText issue)) issues observation"

definition projectEnterpriseCorrelation :: "enterpriseCorrelationEvidence \<Rightarrow> Evidence
    \<Rightarrow> EnterprisePolicyObservation \<Rightarrow> EnterprisePolicyObservation" where
  "projectEnterpriseCorrelation value evidence observation =
     (let d = eno_DirectVsProxy observation; n = eno_Network observation in
      observation\<lparr>
        eno_DirectVsProxy := (if ecr_IntentionalPolicyPossible value \<and> \<not> epm_PolicyPossible d
          then d\<lparr>epm_PolicyPossible := True, epm_Certainty := ObservationCertaintyInferred,
            epm_Provenance := appendUnique (epm_Provenance d) [''enterprise correlation''],
            epm_EvidenceIDs := appendUnique (epm_EvidenceIDs d) [ev_ID evidence]\<rparr> else d),
        eno_Network := (if ecr_EffectiveRouteDiffers value
          then n\<lparr>enc_RouteDifference := True, enc_RouteDifferenceKnown := True\<rparr> else n)\<rparr>)"

definition enterpriseKindStep :: "enterpriseCodec \<Rightarrow> ProbeResult \<Rightarrow> Evidence \<Rightarrow> enterpriseState \<Rightarrow> enterpriseState" where
  "enterpriseKindStep codec probe evidence s =
     (let kind = ev_Kind evidence; raw = ev_Raw evidence in
      if kind = EvidenceKindWinHTTPProxy then (case jx_Configuration codec raw of
          Inr value \<Rightarrow> (onObservation (atSource ''winhttp'' (configureSource value probe evidence)) s)\<lparr>
            xs_winhttp := Some evidence\<rparr>
        | Inl err \<Rightarrow> onObservation (atSource ''winhttp'' (configurationUnread err)) s)
      else if kind = EvidenceKindWinINETProxy then (case jx_Configuration codec raw of
          Inr value \<Rightarrow> (onObservation (atSource ''wininet'' (configureSource value probe evidence)) s)\<lparr>
            xs_wininet := Some evidence\<rparr>
        | Inl err \<Rightarrow> onObservation (atSource ''wininet'' (configurationUnread err)) s)
      else if kind = EvidenceKindPAC then (case jx_PAC codec raw of
          Inr value \<Rightarrow> onObservation (projectEnterprisePAC value probe evidence) s
        | Inl err \<Rightarrow> onObservation (limitation (''PAC evidence decode: '' @ err)) s)
      else if kind = EvidenceKindProxyConnectivity then (case jx_Connectivity codec raw of
          Inr value \<Rightarrow> (onObservation (projectEnterpriseConnectivity value probe evidence) s)\<lparr>xs_path := Some evidence\<rparr>
        | Inl err \<Rightarrow> onObservation (limitation (''connectivity evidence decode: '' @ err)) s)
      else if kind = EvidenceKindFirewallProfile then (case jx_Firewall codec raw of
          Inr value \<Rightarrow> (onObservation (projectEnterpriseFirewall value probe evidence) s)\<lparr>xs_firewall := Some evidence\<rparr>
        | Inl err \<Rightarrow> onObservation (limitation (''firewall evidence decode: '' @ err)) s)
      else if kind = EvidenceKindAdapterRouting then (case jx_Routing codec raw of
          Inr value \<Rightarrow> (onObservation (projectEnterpriseRouting value probe evidence) s)\<lparr>xs_routing := Some evidence\<rparr>
        | Inl err \<Rightarrow> onObservation (limitation (''routing evidence decode: '' @ err)) s)
      else if kind = EvidenceKindTLSTrust then (case jx_TLS codec raw of
          Inr value \<Rightarrow> (onObservation (projectEnterpriseTLS value probe evidence) s)\<lparr>xs_tls := Some evidence\<rparr>
        | Inl err \<Rightarrow> onObservation (limitation (''TLS evidence decode: '' @ err)) s)
      else if kind = EvidenceKindRouteComparison then (case jx_Correlation codec raw of
          Inr value \<Rightarrow> (onObservation (projectEnterpriseCorrelation value evidence) s)\<lparr>xs_correlation := Some evidence\<rparr>
        | Inl err \<Rightarrow> onObservation (limitation (''correlation evidence decode: '' @ err)) s)
      else if kind = EvidenceKindProxyConfiguration then (case jx_Issues codec raw of
          Inr issues \<Rightarrow> onObservation (appendEnterpriseIssues issues) s
        | Inl err \<Rightarrow> s)
      else s)"

definition enterpriseEvidenceStep :: "enterpriseCodec \<Rightarrow> ProbeResult \<Rightarrow> Evidence \<Rightarrow> enterpriseState \<Rightarrow> enterpriseState" where
  "enterpriseEvidenceStep codec probe evidence s = enterpriseKindStep codec probe evidence
     (onObservation (\<lambda>observation. observation\<lparr>
        eno_EvidenceIDs := appendUnique (eno_EvidenceIDs observation) [ev_ID evidence],
        eno_Provenance := appendUnique (eno_Provenance observation) (enterpriseEvidenceProvenance probe evidence)\<rparr>) s)"

definition enterpriseProbeStep :: "enterpriseCodec \<Rightarrow> ProbeResult \<Rightarrow> enterpriseState \<Rightarrow> enterpriseState" where
  "enterpriseProbeStep codec probe s =
     (if pr_Name probe \<noteq> EnterpriseProbeName then s
      else
        let named = onObservation (\<lambda>observation. observation\<lparr>
              eno_ProbeNames := appendUnique (eno_ProbeNames observation) [pr_Name probe]\<rparr>)
              (s\<lparr>xs_sawEnterprise := True\<rparr>);
            marked = (if pin_FailureReason (pr_Interpretation probe) = FailureReasonUnsupported
                \<or> pr_Status probe = ProbeStatusSkipped
              then onObservation (\<lambda>observation. limitation ''windows enterprise subsystem unsupported''
                (observation\<lparr>eno_Unsupported := True\<rparr>)) (named\<lparr>xs_sawUnsupported := True\<rparr>)
              else named) in
        fold (enterpriseEvidenceStep codec probe) (pr_Evidence probe) marked)"

definition initialEnterprise :: "Target \<Rightarrow> enterpriseState" where
  "initialEnterprise target = \<lparr>
     xs_observation = zero_EnterprisePolicyObservation\<lparr>
       eno_RequestedIdentity := tg_RequestedIdentity target,
       eno_State := EnterpriseObservationStateUnknown, eno_Certainty := ObservationCertaintyUnknown,
       eno_WinHTTP := emptyEnterpriseProxySource ''winhttp'', eno_WinINET := emptyEnterpriseProxySource ''wininet'',
       eno_DirectVsProxy := zero_EnterprisePathComparisonObservation\<lparr>epm_State := EnterprisePathComparisonUnknown,
         epm_Certainty := ObservationCertaintyUnknown\<rparr>,
       eno_Firewall := zero_EnterpriseFirewallObservation\<lparr>efw_State := EnterpriseObservationStateUnknown,
         efw_BlockCausality := EnterpriseFirewallCausalityNotEstablished, efw_Certainty := ObservationCertaintyUnknown\<rparr>,
       eno_TLS := zero_EnterpriseTLSPolicyObservation\<lparr>etl_State := EnterpriseObservationStateUnknown,
         etl_InterceptionSuspicion := EnterpriseInterceptionSuspicionNotEstablished,
         etl_Certainty := ObservationCertaintyUnknown\<rparr>\<rparr>,
     xs_winhttp = None, xs_wininet = None, xs_path = None, xs_firewall = None, xs_routing = None, xs_tls = None,
     xs_correlation = None, xs_sawEnterprise = False, xs_sawUnsupported = False\<rparr>"

definition enterpriseEvidence :: "enterpriseCodec \<Rightarrow> Target \<Rightarrow> ProbeResult list \<Rightarrow> enterpriseState" where
  "enterpriseEvidence codec target probes = fold (enterpriseProbeStep codec) probes (initialEnterprise target)"

section \<open>After the loop\<close>

definition settleEnterpriseState :: "enterpriseState \<Rightarrow> EnterprisePolicyObservation \<Rightarrow> EnterprisePolicyObservation" where
  "settleEnterpriseState s o0 =
     (let o1 = (if \<not> xs_sawEnterprise s then o0
            else if xs_sawUnsupported s \<and> length (eno_EvidenceIDs o0) = 1
            then o0\<lparr>eno_State := EnterpriseObservationStateUnsupported, eno_Certainty := ObservationCertaintyUnsupported\<rparr>
            else o0\<lparr>eno_State := EnterpriseObservationStateObserved, eno_Certainty := ObservationCertaintyObserved\<rparr>);
          o2 = (if eno_Limitations o1 \<noteq> [] \<and> eno_State o1 = EnterpriseObservationStateObserved
            then o1\<lparr>eno_State := EnterpriseObservationStatePartial\<rparr> else o1) in
      if \<not> xs_sawUnsupported s then o2
      else if eno_State o2 = EnterpriseObservationStateUnknown
      then o2\<lparr>eno_Unsupported := True, eno_State := EnterpriseObservationStateUnsupported,
        eno_Certainty := ObservationCertaintyUnsupported\<rparr>
      else o2\<lparr>eno_Unsupported := True\<rparr>)"

definition sameEnterpriseProxyConfiguration ::
    "EnterpriseProxyConfigurationObservation \<Rightarrow> EnterpriseProxyConfigurationObservation \<Rightarrow> bool" where
  "sameEnterpriseProxyConfiguration left right \<longleftrightarrow> epc_State left = epc_State right \<and> epc_Direct left = epc_Direct right
     \<and> epc_StaticProxyConfigured left = epc_StaticProxyConfigured right
     \<and> epc_PACConfigured left = epc_PACConfigured right \<and> epc_PACURL left = epc_PACURL right
     \<and> epc_AutoDetect left = epc_AutoDetect right
     \<and> epc_ProxyEndpoints left = epc_ProxyEndpoints right \<and> epc_ProxyBypass left = epc_ProxyBypass right"

definition evidenceIDOr :: "Evidence option \<Rightarrow> string" where
  "evidenceIDOr evidence = (case evidence of None \<Rightarrow> [] | Some e \<Rightarrow> ev_ID e)"

definition compareConfigurations :: "enterpriseCodec \<Rightarrow> enterpriseState
    \<Rightarrow> EnterprisePolicyObservation \<Rightarrow> EnterprisePolicyObservation" where
  "compareConfigurations codec s observation =
     (let left = eps_Configuration (eno_WinHTTP observation); right = eps_Configuration (eno_WinINET observation);
          diverges = (\<not> sameEnterpriseProxyConfiguration left right) in
      if evidenceIDOr (xs_winhttp s) = [] \<or> evidenceIDOr (xs_wininet s) = [] then observation
      else observation\<lparr>eno_ProxyConfigurationKnown := True, eno_ProxyConfigurationDiverges := diverges,
        eno_Conflicts := eno_Conflicts observation @ (if diverges
          then [\<lparr>oc_Field = ''enterprise_policy.proxy_configuration'',
            oc_Values = [jx_fingerprint codec left, jx_fingerprint codec right],
            oc_Provenance = [''source:winhttp'', ''source:wininet''],
            oc_EvidenceIDs = [evidenceIDOr (xs_winhttp s), evidenceIDOr (xs_wininet s)]\<rparr>] else [])\<rparr>)"

definition compareEffective :: "EnterprisePolicyObservation \<Rightarrow> EnterprisePolicyObservation" where
  "compareEffective observation =
     (let left = eps_Effective (eno_WinHTTP observation); right = eps_Effective (eno_WinINET observation);
          known = (effectiveDecisionKnown left \<and> effectiveDecisionKnown right);
          diverges = (epe_Decision left \<noteq> epe_Decision right \<or> epe_Mode left \<noteq> epe_Mode right
            \<or> epe_Endpoint left \<noteq> epe_Endpoint right) in
      if \<not> (epe_Observed left \<and> epe_Observed right) then observation
      else if \<not> known then observation\<lparr>eno_EffectiveDecisionKnown := False\<rparr>
      else observation\<lparr>eno_EffectiveDecisionKnown := True, eno_EffectiveDecisionDiverges := diverges,
        eno_Conflicts := eno_Conflicts observation @ (if diverges
          then [\<lparr>oc_Field = ''enterprise_policy.effective_proxy_decision'',
            oc_Values = [epe_Decision left, epe_Decision right],
            oc_Provenance = appendUnique (epe_Provenance left) (epe_Provenance right),
            oc_EvidenceIDs = appendUnique (epe_EvidenceIDs left) (epe_EvidenceIDs right)\<rparr>] else [])\<rparr>)"

definition citeCollected :: "enterpriseState \<Rightarrow> EnterprisePolicyObservation \<Rightarrow> EnterprisePolicyObservation" where
  "citeCollected s o0 =
     (let add = (\<lambda>evidence ids. case evidence of None \<Rightarrow> ids | Some e \<Rightarrow> appendUnique ids [ev_ID e]);
          direct = (case xs_path s of None \<Rightarrow> eno_DirectVsProxy o0
            | Some e \<Rightarrow> let c = compareEnterprisePaths (eno_Paths o0) in
                c\<lparr>epm_EvidenceIDs := appendUnique (epm_EvidenceIDs c) [ev_ID e]\<rparr>);
          firewall = eno_Firewall o0; network = eno_Network o0; tls = eno_TLS o0 in
      o0\<lparr>eno_DirectVsProxy := direct,
        eno_Firewall := firewall\<lparr>efw_EvidenceIDs := add (xs_firewall s) (efw_EvidenceIDs firewall)\<rparr>,
        eno_Network := network\<lparr>enc_EvidenceIDs := add (xs_correlation s) (add (xs_routing s) (enc_EvidenceIDs network))\<rparr>,
        eno_TLS := tls\<lparr>etl_EvidenceIDs := add (xs_tls s) (etl_EvidenceIDs tls)\<rparr>\<rparr>)"

definition finalizeEnterpriseCertainty :: "EnterprisePolicyObservation \<Rightarrow> EnterprisePolicyObservation" where
  "finalizeEnterpriseCertainty o0 =
     (if eno_State o0 = EnterpriseObservationStateUnsupported
      then o0\<lparr>eno_Certainty := ObservationCertaintyUnsupported\<rparr>
      else if epm_PolicyPossible (eno_DirectVsProxy o0) \<or> etl_PossibleInterception (eno_TLS o0)
      then o0\<lparr>eno_Certainty := ObservationCertaintyInferred\<rparr>
      else if eno_State o0 = EnterpriseObservationStatePartial
      then o0\<lparr>eno_Certainty := ObservationCertaintyDerived\<rparr>
      else if eno_State o0 = EnterpriseObservationStateObserved
      then o0\<lparr>eno_Certainty := ObservationCertaintyObserved\<rparr> else o0)"

definition buildEnterprisePolicyObservation ::
    "enterpriseCodec \<Rightarrow> Target \<Rightarrow> ProbeResult list \<Rightarrow> NetworkContext \<Rightarrow> EnterprisePolicyObservation" where
  "buildEnterprisePolicyObservation codec target probes network =
     (let s = enterpriseEvidence codec target probes;
          o1 = citeCollected s (compareEffective (compareConfigurations codec s
            (settleEnterpriseState s (xs_observation s)))) in
      finalizeEnterpriseCertainty (o1\<lparr>eno_Network := finalizeEnterpriseNetwork network (eno_Network o1)\<rparr>))"

end
