(* ===== verification/Environment.thy ===== *)
theory Environment
  imports BuilderPolicy RouteProbes
begin

text \<open>
  \<open>internal/environment/environment.go\<close>: the snapshot of the local network environment. \<open>Collection\<close>
  is what was collected, \<open>BuildEnvironment\<close> projects it onto the canonical snapshot, and
  \<open>BuildFromProbeResults\<close> collects from the evidence of a diagnosis. The Go runtime's own names
  are the argument \<open>hostRuntime\<close>. \<open>appendUnique\<close> of the package is \<open>addUnique\<close>, and names that
  other packages use too carry a suffix. A function that notes limitations through the snapshot's
  pointer returns them.
\<close>

section \<open>Data\<close>

record Collection =
  cl_Interfaces :: "InterfaceState list"
  cl_InterfacesKnown :: bool
  cl_InterfacesUnsupported :: bool
  cl_InterfaceError :: string
  cl_DNS :: InterfaceSnapshot
  cl_DNSKnown :: bool
  cl_DNSUnsupported :: bool
  cl_DNSError :: string
  cl_Routes :: "Route list"
  cl_RoutesKnown :: bool
  cl_RouteError :: string
  cl_RouteUnsupported :: bool
  cl_WinHTTP :: ConfigurationObservation
  cl_WinHTTPKnown :: bool
  cl_WinINET :: ConfigurationObservation
  cl_WinINETKnown :: bool
  cl_ProxyError :: string
  cl_ProxyUnsupported :: bool
  cl_Firewall :: FirewallObservation
  cl_FirewallKnown :: bool
  cl_TrustStore :: TrustStoreObservation
  cl_TrustKnown :: bool
  cl_EnterpriseError :: string
  cl_EnterpriseUnsupported :: bool
  cl_Runtime :: EnvironmentRuntimeObservation
  cl_RuntimeKnown :: bool
  cl_Provenance :: "string list"
  cl_EvidenceIDs :: "string list"
  cl_Limitations :: "string list"

definition zero_Collection :: Collection where
  "zero_Collection = \<lparr>
    cl_Interfaces = [], cl_InterfacesKnown = False, cl_InterfacesUnsupported = False, cl_InterfaceError = [],
    cl_DNS = zero_InterfaceSnapshot, cl_DNSKnown = False, cl_DNSUnsupported = False, cl_DNSError = [],
    cl_Routes = [], cl_RoutesKnown = False, cl_RouteError = [], cl_RouteUnsupported = False,
    cl_WinHTTP = zero_ConfigurationObservation, cl_WinHTTPKnown = False,
    cl_WinINET = zero_ConfigurationObservation, cl_WinINETKnown = False, cl_ProxyError = [],
    cl_ProxyUnsupported = False, cl_Firewall = zero_FirewallObservation, cl_FirewallKnown = False,
    cl_TrustStore = zero_TrustStoreObservation, cl_TrustKnown = False, cl_EnterpriseError = [],
    cl_EnterpriseUnsupported = False, cl_Runtime = zero_EnvironmentRuntimeObservation, cl_RuntimeKnown = False,
    cl_Provenance = [], cl_EvidenceIDs = [], cl_Limitations = []\<rparr>"

record hostRuntime =
  hr_OS :: string
  hr_Arch :: string
  hr_RuntimeVersion :: string
  hr_TadoriVersion :: string

section \<open>Helpers\<close>

definition addUnique :: "string list \<Rightarrow> string \<Rightarrow> string list" where
  "addUnique values value0 =
     (let value = trimSpace value0 in if value = [] \<or> value \<in> set values then values else values @ [value])"

definition safeErrorText :: "string \<Rightarrow> string" where
  "safeErrorText text0 = take 256 (trimSpace text0)"

definition issueLabel :: "ObservationIssue \<Rightarrow> string" where
  "issueLabel issue = trimSpace (obi_Subsystem issue @ '': '' @ obi_Kind issue)
     @ (if obi_Error issue \<noteq> [] then '': '' @ safeErrorText (obi_Error issue) else [])"

definition valueSource :: "Collection \<Rightarrow> string" where
  "valueSource collection = (case cl_Provenance collection of [] \<Rightarrow> ''interface-state'' | p # rest \<Rightarrow> p)"

definition nonEmpty :: "string \<Rightarrow> string \<Rightarrow> string" where
  "nonEmpty value fallback = (if trimSpace value = [] then fallback else value)"

definition addressesToStrings :: "Addr list \<Rightarrow> string list" where
  "addressesToStrings values = map (\<lambda>v. addrString (unmap v)) (filter isValidAddr values)"

definition normalizedAddress :: "Addr \<Rightarrow> string" where
  "normalizedAddress value = (if \<not> isValidAddr value \<or> isUnspecified value then [] else addrString (unmap value))"

section \<open>Interfaces and resolvers\<close>

definition buildInterface :: "Collection \<Rightarrow> InterfaceState \<Rightarrow> EnvironmentInterface" where
  "buildInterface collection value = zero_EnvironmentInterface\<lparr>
     vi_Index := ifs_Index value, vi_Name := ifs_Name value, vi_Description := ifs_Description value,
     vi_Type := ifs_Type value, vi_Hardware := ifs_Hardware value, vi_MTU := ifs_MTU value, vi_Up := ifs_Up value,
     vi_Loopback := ifs_Loopback value, vi_VPN := ifs_VPN value, vi_Virtual := ifs_Virtual value,
     vi_DNSSuffix := ifs_DNSSuffix value, vi_DNSServers := addressesToStrings (ifs_DNSServers value),
     vi_DNSSearchList := ifs_DNSSearchList value, vi_State := EnvironmentStateObserved,
     vi_Certainty := ObservationCertaintyObserved,
     vi_Provenance := [''interfacecfg:'' @ nonEmpty (valueSource collection) ''interface-state''],
     vi_Addresses := map (\<lambda>a. \<lparr>va_IP = addrString (ifa_IP a), va_Prefix = ifa_Prefix a\<rparr>) (ifs_Addresses value)\<rparr>"

text \<open>The interfaces and the limitations of the snapshot after them.\<close>

definition buildInterfaces :: "Collection \<Rightarrow> string list \<Rightarrow> EnvironmentInterface list \<times> string list" where
  "buildInterfaces collection limitations =
     (if \<not> cl_InterfacesKnown collection \<and> cl_Interfaces collection = []
      then ([], if cl_InterfacesUnsupported collection then addUnique limitations ''interfaces: unsupported''
        else limitations)
      else (map (buildInterface collection) (cl_Interfaces collection),
        if cl_InterfaceError collection \<noteq> []
        then addUnique limitations (''interfaces: '' @ cl_InterfaceError collection) else limitations))"

definition buildDNS :: "Collection \<Rightarrow> EnvironmentDNSObservation" where
  "buildDNS collection =
     (let value = cl_DNS collection;
          result = zero_EnvironmentDNSObservation\<lparr>
            vd_Servers := addressesToStrings (ics_DNSServers value), vd_Suffixes := ics_DNSSuffixes value,
            vd_SearchList := ics_SearchList value, vd_NRPT := ics_NRPT value,
            vd_HostsFileEntries := ics_HostsFileEntries value, vd_ResolverError := ics_ResolverError value,
            vd_NRPTError := ics_NRPTError value, vd_HostsFileError := ics_HostsFileError value,
            vd_Certainty := ObservationCertaintyConfigured, vd_Provenance := [''interfacecfg:dns_configuration'']\<rparr>;
          failed = (cl_DNSError collection \<noteq> [] \<or> ics_ResolverError value \<noteq> [] \<or> ics_NRPTError value \<noteq> []
            \<or> ics_HostsFileError value \<noteq> []) in
      if \<not> cl_DNSKnown collection
      then result\<lparr>
        vd_State := (if cl_DNSUnsupported collection then EnvironmentStateUnsupported else EnvironmentStateUnknown),
        vd_Certainty := (if cl_DNSUnsupported collection then ObservationCertaintyUnsupported
          else ObservationCertaintyUnknown),
        vd_Limitations := (if cl_DNSError collection \<noteq> [] then [cl_DNSError collection] else [])\<rparr>
      else result\<lparr>
        vd_State := (if failed then EnvironmentStatePartial else EnvironmentStateObserved),
        vd_Limitations := (if cl_DNSError collection \<noteq> [] then addUnique [] (cl_DNSError collection) else []),
        vd_Certainty := (if ics_NRPT value \<noteq> [] then ObservationCertaintyConfigured
          else if failed then ObservationCertaintyUnknown else ObservationCertaintyConfigured)\<rparr>)"

section \<open>Routing\<close>

definition maxRoutes :: nat where
  [go_consts]: "maxRoutes = 512"

definition boundedRouteLess :: "Route \<Rightarrow> Route \<Rightarrow> bool" where
  "boundedRouteLess left right =
     (let l = prefixString (rt_Destination left); r = prefixString (rt_Destination right) in
      if l \<noteq> r then l < r
      else if rt_Metric left \<noteq> rt_Metric right then rt_Metric left < rt_Metric right
      else if rt_InterfaceIndex left \<noteq> rt_InterfaceIndex right then rt_InterfaceIndex left < rt_InterfaceIndex right
      else rt_Interface left < rt_Interface right)"

definition boundedRoutes :: "Route list \<Rightarrow> Route list" where
  "boundedRoutes values = take maxRoutes (sortBy boundedRouteLess values)"

definition canonicalRoute :: "Route \<Rightarrow> bool \<Rightarrow> EnvironmentRoute" where
  "canonicalRoute value selected =
     (let gateway = normalizedAddress (rt_Gateway value) in
      \<lparr>vr_RoutePrefix = prefixString (rt_Destination value), vr_Gateway = gateway,
       vr_NextHop = (if gateway \<noteq> [] then gateway else ''on-link''), vr_Interface = rt_Interface value,
       vr_InterfaceIndex = rt_InterfaceIndex value, vr_SourceAddress = normalizedAddress (rt_Source value),
       vr_Metric = rt_Metric value, vr_InterfaceType = rt_InterfaceType value,
       vr_VPNOrTunnel = rt_VPNOrTunnel value, vr_VirtualAdapter = rt_VirtualAdapter value, vr_Selected = selected\<rparr>)"

definition environmentRouteEqual :: "EnvironmentRoute \<Rightarrow> EnvironmentRoute \<Rightarrow> bool" where
  "environmentRouteEqual left right \<longleftrightarrow> vr_RoutePrefix left = vr_RoutePrefix right \<and> vr_Gateway left = vr_Gateway right
     \<and> vr_Interface left = vr_Interface right \<and> vr_InterfaceIndex left = vr_InterfaceIndex right
     \<and> vr_Metric left = vr_Metric right"

definition markSelectedRoute :: "EnvironmentRoute \<Rightarrow> EnvironmentRoute list \<Rightarrow> EnvironmentRoute list" where
  "markSelectedRoute selected routes =
     map (\<lambda>r. if environmentRouteEqual r selected then r\<lparr>vr_Selected := True\<rparr> else r) routes"

definition markDefault :: "EnvironmentRoute option \<Rightarrow> EnvironmentRoute list \<Rightarrow> EnvironmentRoute list" where
  "markDefault selected routes = (case selected of None \<Rightarrow> routes | Some r \<Rightarrow> markSelectedRoute r routes)"

definition buildRouting :: "Collection \<Rightarrow> EnvironmentRoutingObservation" where
  "buildRouting collection =
     (let listed = map (\<lambda>r. canonicalRoute r False) (boundedRoutes (cl_Routes collection));
          result = zero_EnvironmentRoutingObservation\<lparr>vg_RouteTableKnown := cl_RoutesKnown collection,
            vg_Error := cl_RouteError collection, vg_Certainty := ObservationCertaintyUnknown,
            vg_Provenance := [''route:table''], vg_Routes := listed\<rparr>;
          v4 = map_option (\<lambda>r. canonicalRoute r True) (DefaultRoute (cl_Routes collection) 4);
          v6 = map_option (\<lambda>r. canonicalRoute r True) (DefaultRoute (cl_Routes collection) 6) in
      if \<not> cl_RoutesKnown collection
      then result\<lparr>
        vg_State := (if cl_RouteUnsupported collection then EnvironmentStateUnsupported else EnvironmentStateUnknown),
        vg_Certainty := (if cl_RouteUnsupported collection then ObservationCertaintyUnsupported
          else ObservationCertaintyUnknown),
        vg_Limitations := (if cl_RouteError collection \<noteq> [] then [cl_RouteError collection] else [])\<rparr>
      else result\<lparr>
        vg_DefaultIPv4 := v4, vg_DefaultIPv6 := v6, vg_Routes := markDefault v6 (markDefault v4 listed),
        vg_State := (if cl_RouteError collection \<noteq> [] \<or> listed = [] then EnvironmentStatePartial
          else EnvironmentStateObserved),
        vg_Certainty := (if listed = [] then ObservationCertaintyUnknown else ObservationCertaintyObserved),
        vg_Limitations := (if cl_RouteError collection \<noteq> [] then addUnique [] (cl_RouteError collection) else [])\<rparr>)"

section \<open>Proxies\<close>

definition unsupportedProxySource :: "string \<Rightarrow> EnvironmentProxySource" where
  "unsupportedProxySource source = zero_EnvironmentProxySource\<lparr>vps_Source := source,
     vps_State := EnvironmentStateUnsupported, vps_Certainty := ObservationCertaintyUnsupported\<rparr>"

definition environmentProxySource :: "string \<Rightarrow> ConfigurationObservation \<Rightarrow> bool \<Rightarrow> EnvironmentProxySource" where
  "environmentProxySource source value known =
     (if \<not> known then zero_EnvironmentProxySource\<lparr>vps_Source := source, vps_State := EnvironmentStateUnknown,
        vps_Certainty := ObservationCertaintyUnknown\<rparr>
      else
        let (state, certainty) = (
              if pco_State value = StateConfigurationUnavailable
              then (EnvironmentStateUnknown, ObservationCertaintyUnknown)
              else if pco_State value = StateUnsupportedPlatform
              then (EnvironmentStateUnsupported, ObservationCertaintyUnsupported)
              else if pco_State value = StateMalformedProxyEndpoint
              then (EnvironmentStatePartial, ObservationCertaintyUnknown)
              else (EnvironmentStateConfigured, ObservationCertaintyConfigured)) in
        zero_EnvironmentProxySource\<lparr>vps_Source := source, vps_State := state, vps_Direct := pco_Direct value,
          vps_StaticProxyConfigured := pco_StaticProxyConfigured value,
          vps_ProxyEndpoints := pco_ProxyEndpoints value, vps_ProxyBypass := pco_ProxyBypass value,
          vps_PACConfigured := pco_PACConfigured value, vps_PACURL := pco_PACURL value,
          vps_AutoDetect := pco_AutoDetect value, vps_Error := pco_Error value, vps_Certainty := certainty,
          vps_Provenance := [''proxy:'' @ source]\<rparr>)"

definition sameProxy :: "EnvironmentProxySource \<Rightarrow> EnvironmentProxySource \<Rightarrow> bool" where
  "sameProxy left right \<longleftrightarrow> vps_State left = vps_State right \<and> vps_Direct left = vps_Direct right
     \<and> vps_StaticProxyConfigured left = vps_StaticProxyConfigured right
     \<and> vps_PACConfigured left = vps_PACConfigured right \<and> vps_PACURL left = vps_PACURL right
     \<and> vps_AutoDetect left = vps_AutoDetect right \<and> vps_ProxyEndpoints left = vps_ProxyEndpoints right
     \<and> vps_ProxyBypass left = vps_ProxyBypass right"

text \<open>\<open>proxyFingerprint\<close> is the JSON text of a part of the source, an argument.\<close>

definition proxyStates :: "(EnvironmentProxySource \<Rightarrow> string) \<Rightarrow> Collection \<Rightarrow> EnvironmentProxyObservation" where
  "proxyStates fingerprint collection =
     (let known1 = cl_WinHTTPKnown collection; known2 = cl_WinINETKnown collection;
          s1 = environmentProxySource ''winhttp'' (cl_WinHTTP collection) known1;
          s2 = environmentProxySource ''wininet'' (cl_WinINET collection) known2;
          result = zero_EnvironmentProxyObservation\<lparr>vpx_WinHTTP := s1, vpx_WinINET := s2,
            vpx_Certainty := ObservationCertaintyUnknown, vpx_Provenance := [''proxy:winhttp'', ''proxy:wininet''],
            vpx_ConfigurationKnown := known1 \<and> known2\<rparr> in
      if known1 \<and> known2 \<and> \<not> sameProxy s1 s2
      then result\<lparr>vpx_ConfigurationDiverges := True, vpx_State := EnvironmentStateConflicting,
        vpx_Certainty := ObservationCertaintyConflicting,
        vpx_Conflicts := [\<lparr>oc_Field = ''proxy.winhttp_vs_wininet'', oc_Values = [fingerprint s1, fingerprint s2],
          oc_Provenance = [''proxy:winhttp'', ''proxy:wininet''], oc_EvidenceIDs = []\<rparr>]\<rparr>
      else if known1 \<and> known2
      then result\<lparr>vpx_State := EnvironmentStateConfigured, vpx_Certainty := ObservationCertaintyConfigured\<rparr>
      else if known1 \<or> known2
      then result\<lparr>vpx_State := EnvironmentStatePartial, vpx_Certainty := ObservationCertaintyUnknown\<rparr>
      else if cl_ProxyUnsupported collection
      then result\<lparr>vpx_State := EnvironmentStateUnsupported, vpx_Certainty := ObservationCertaintyUnsupported,
        vpx_WinHTTP := unsupportedProxySource ''winhttp'', vpx_WinINET := unsupportedProxySource ''wininet''\<rparr>
      else result\<lparr>vpx_State := EnvironmentStateUnknown\<rparr>)"

definition buildProxy :: "(EnvironmentProxySource \<Rightarrow> string) \<Rightarrow> Collection \<Rightarrow> EnvironmentProxyObservation" where
  "buildProxy fingerprint collection =
     (let result = proxyStates fingerprint collection in
      result\<lparr>
        vpx_Limitations := (if cl_ProxyError collection \<noteq> [] then [cl_ProxyError collection] else []),
        vpx_State := (if cl_ProxyError collection \<noteq> [] \<and> vpx_State result = EnvironmentStateConfigured
          then EnvironmentStatePartial else vpx_State result),
        vpx_EffectiveUseTargetBounded := True\<rparr>)"

section \<open>VPN, firewall, trust\<close>

definition routeParticipation :: "EnvironmentRoute option \<Rightarrow> string list" where
  "routeParticipation value = (case value of
     None \<Rightarrow> []
   | Some r \<Rightarrow> (if \<not> vr_VPNOrTunnel r \<and> \<not> vr_VirtualAdapter r then []
       else [(if CHR '':'' \<in> set (vr_RoutePrefix r) then ''ipv6'' else ''ipv4'') @ '':'' @ vr_Interface r]))"

definition buildVPN :: "Collection \<Rightarrow> EnvironmentInterface list \<Rightarrow> EnvironmentRoutingObservation
    \<Rightarrow> EnvironmentVPNObservation" where
  "buildVPN collection interfaces routing =
     (let present = list_ex vi_VPN interfaces; routes = vg_RouteTableKnown routing; known = cl_InterfacesKnown collection in
      zero_EnvironmentVPNObservation\<lparr>vv_PresentKnown := known, vv_RouteParticipationKnown := routes,
        vv_Present := present,
        vv_ActiveAdapters := map vi_Name (filter (\<lambda>i. vi_VPN i \<and> vi_Up i) interfaces),
        vv_VirtualAdapters := map vi_Name (filter vi_Virtual interfaces),
        vv_RouteParticipation := routeParticipation (vg_DefaultIPv4 routing) @ routeParticipation (vg_DefaultIPv6 routing),
        vv_Provenance := [''interfacecfg:adapter-classification'', ''route:default-selection''],
        vv_Certainty := (if known then ObservationCertaintyObserved else ObservationCertaintyUnknown),
        vv_Limitations := (if present \<and> \<not> routes
          then [''VPN adapter presence observed; selected route participation is unknown''] else []),
        vv_State := (if \<not> known then EnvironmentStateUnknown
          else if present \<and> routes then EnvironmentStateObserved else [])\<rparr>)"

definition buildFirewallProfile :: "FirewallProfile \<Rightarrow> EnterpriseFirewallProfileObservation" where
  "buildFirewallProfile profile = zero_EnterpriseFirewallProfileObservation\<lparr>
     efp_Name := fwp_Name profile, efp_FirewallEnabled := fwp_FirewallEnabled profile,
     efp_BlockInboundExceptions := fwp_BlockInboundExceptions profile,
     efp_PolicyPresent := fwp_PolicyPresent profile,
     efp_EffectiveState := firewallEffectiveState (fwp_FirewallEnabled profile),
     efp_BlockCausality := EnterpriseFirewallCausalityNotEstablished,
     efp_Certainty := ObservationCertaintyObserved, efp_Provenance := [''windows-firewall-profile'']\<rparr>"

definition buildFirewall :: "Collection \<Rightarrow> EnterpriseFirewallObservation" where
  "buildFirewall collection =
     (let value = cl_Firewall collection in
      if \<not> cl_FirewallKnown collection
      then zero_EnterpriseFirewallObservation\<lparr>
        efw_State := (if cl_EnterpriseUnsupported collection then EnterpriseObservationStateUnsupported
          else EnterpriseObservationStateUnknown),
        efw_BlockCausality := EnterpriseFirewallCausalityNotEstablished,
        efw_Certainty := (if cl_EnterpriseUnsupported collection then ObservationCertaintyUnsupported
          else ObservationCertaintyUnknown),
        efw_Limitations := (if cl_EnterpriseError collection \<noteq> [] then [cl_EnterpriseError collection] else [])\<rparr>
      else zero_EnterpriseFirewallObservation\<lparr>efw_State := EnterpriseObservationStateObserved,
        efw_Available := fwo_Available value, efw_Error := fwo_Error value, efw_Insufficient := fwo_Insufficient value,
        efw_BlockCausality := EnterpriseFirewallCausalityNotEstablished,
        efw_Certainty := ObservationCertaintyObserved, efw_Provenance := [''windows-firewall-profile''],
        efw_Profiles := map buildFirewallProfile (fwo_Profiles value)\<rparr>)"

definition buildTrust :: "Collection \<Rightarrow> EnvironmentTrustObservation" where
  "buildTrust collection =
     (let value = cl_TrustStore collection;
          result = zero_EnvironmentTrustObservation\<lparr>vt_Available := tso_Available value,
            vt_RootCount := tso_RootCount value, vt_InsufficientPrivilege := tso_Insufficient value,
            vt_Error := tso_Error value, vt_Certainty := ObservationCertaintyObserved,
            vt_Provenance := [''crypto/x509.SystemCertPool'']\<rparr> in
      if \<not> cl_TrustKnown collection
      then result\<lparr>
        vt_State := (if cl_EnterpriseUnsupported collection then EnvironmentStateUnsupported
          else EnvironmentStateUnknown),
        vt_Certainty := (if cl_EnterpriseUnsupported collection then ObservationCertaintyUnsupported
          else ObservationCertaintyUnknown),
        vt_Limitations := (if cl_EnterpriseError collection \<noteq> [] then [cl_EnterpriseError collection] else [])\<rparr>
      else if tso_Insufficient value
      then result\<lparr>vt_State := EnvironmentStateUnsupported, vt_Certainty := ObservationCertaintyUnsupported\<rparr>
      else if \<not> tso_Available value
      then result\<lparr>vt_State := EnvironmentStatePartial, vt_Certainty := ObservationCertaintyUnknown\<rparr>
      else result)"

section \<open>Capabilities and the overall state\<close>

definition capabilityState :: "EnvironmentObservationState \<Rightarrow> EnvironmentCapabilityState" where
  "capabilityState state =
     (if state \<in> {EnvironmentStateObserved, EnvironmentStateConfigured, EnvironmentStateInferred}
      then EnvironmentCapabilityAvailable
      else if state \<in> {EnvironmentStatePartial, EnvironmentStateConflicting} then EnvironmentCapabilityPartial
      else if state = EnvironmentStateUnsupported then EnvironmentCapabilityUnsupported
      else EnvironmentCapabilityUnknown)"

definition enterpriseCapabilityState :: "EnterpriseObservationState \<Rightarrow> EnvironmentCapabilityState" where
  "enterpriseCapabilityState state =
     (if state = EnterpriseObservationStateObserved then EnvironmentCapabilityAvailable
      else if state = EnterpriseObservationStatePartial then EnvironmentCapabilityPartial
      else if state \<in> {EnterpriseObservationStateUnsupported, EnterpriseObservationStateUnavailable}
      then EnvironmentCapabilityUnsupported
      else EnvironmentCapabilityUnknown)"

definition capabilityOf :: "string \<Rightarrow> EnvironmentCapabilityState \<Rightarrow> string \<Rightarrow> EnvironmentCapability" where
  "capabilityOf name state detail = zero_EnvironmentCapability\<lparr>vc_Name := name, vc_State := state, vc_Detail := detail\<rparr>"

definition capabilities :: "EnvironmentSnapshot \<Rightarrow> EnvironmentCapability list" where
  "capabilities s =
     [capabilityOf ''interfaces'' (capabilityState (vs_InterfacesState s)) [],
      capabilityOf ''dns_configuration'' (capabilityState (vd_State (vs_DNS s))) [],
      capabilityOf ''route_table'' (capabilityState (vg_State (vs_Routing s))) [],
      capabilityOf ''winhttp_proxy'' (capabilityState (vps_State (vpx_WinHTTP (vs_Proxy s))))
        (vps_Error (vpx_WinHTTP (vs_Proxy s))),
      capabilityOf ''wininet_proxy'' (capabilityState (vps_State (vpx_WinINET (vs_Proxy s))))
        (vps_Error (vpx_WinINET (vs_Proxy s))),
      capabilityOf ''firewall_profile'' (enterpriseCapabilityState (efw_State (vs_Firewall s))) (efw_Error (vs_Firewall s)),
      capabilityOf ''trust_store'' (capabilityState (vt_State (vs_Trust s))) (vt_Error (vs_Trust s)),
      if vd_NRPTError (vs_DNS s) \<noteq> []
      then capabilityOf ''nrpt'' EnvironmentCapabilityPartial (vd_NRPTError (vs_DNS s))
      else if vd_State (vs_DNS s) = EnvironmentStateUnsupported
      then capabilityOf ''nrpt'' EnvironmentCapabilityUnsupported []
      else capabilityOf ''nrpt'' EnvironmentCapabilityAvailable []]"

definition componentStates :: "EnvironmentSnapshot \<Rightarrow> EnvironmentObservationState list" where
  "componentStates s =
     [vs_InterfacesState s, vd_State (vs_DNS s), vg_State (vs_Routing s), vpx_State (vs_Proxy s), vv_State (vs_VPN s),
      vt_State (vs_Trust s), efw_State (vs_Firewall s), vn_State (vs_Runtime s)]"

definition overallState :: "EnvironmentSnapshot \<Rightarrow> EnvironmentObservationState" where
  "overallState s =
     (let states = componentStates s in
      if vs_Interfaces s = [] \<and> vd_State (vs_DNS s) = EnvironmentStateUnknown
        \<and> vg_State (vs_Routing s) = EnvironmentStateUnknown \<and> vpx_State (vs_Proxy s) = EnvironmentStateUnknown
      then EnvironmentStateUnknown
      else if EnvironmentStateConflicting \<in> set states then EnvironmentStateConflicting
      else if EnvironmentStatePartial \<in> set states \<or> EnvironmentStateUnknown \<in> set states
      then EnvironmentStatePartial
      else if vs_Limitations s \<noteq> [] then EnvironmentStatePartial
      else if list_all (\<lambda>state. state = EnvironmentStateUnsupported) states then EnvironmentStateUnsupported
      else EnvironmentStateObserved)"

end
