(* ===== verification/EnvironmentBuild.thy ===== *)
theory EnvironmentBuild
  imports Environment
begin

text \<open>
  \<open>internal/environment/environment.go\<close>, the projections: \<open>BuildEnvironment\<close> (\<open>Build\<close>) makes the
  canonical snapshot of a collection, \<open>BuildFromProbeResults\<close> collects from the evidence of a
  diagnosis, and the lemmas say what the state of a component means.
\<close>

definition Version :: string where
  [go_consts]: "Version = ''dev''"

section \<open>The snapshot of a collection\<close>

definition initialSnapshot :: "Collection \<Rightarrow> gotime \<Rightarrow> EnvironmentSnapshot" where
  "initialSnapshot collection capturedAt = zero_EnvironmentSnapshot\<lparr>
     vs_SchemaVersion := EnvironmentSnapshotSchemaVersion, vs_CapturedAt := capturedAt,
     vs_State := EnvironmentStateUnknown, vs_Runtime := cl_Runtime collection,
     vs_Provenance := cl_Provenance collection, vs_EvidenceIDs := cl_EvidenceIDs collection,
     vs_Limitations := snd (buildInterfaces collection (cl_Limitations collection)),
     vs_Interfaces := fst (buildInterfaces collection (cl_Limitations collection)),
     vs_InterfacesState := (if cl_InterfacesUnsupported collection then EnvironmentStateUnsupported
       else if cl_InterfacesKnown collection then EnvironmentStateObserved else EnvironmentStateUnknown)\<rparr>"

definition runtimeDefaults :: "hostRuntime \<Rightarrow> Collection \<Rightarrow> EnvironmentRuntimeObservation" where
  "runtimeDefaults host collection =
     (let r = (if \<not> cl_RuntimeKnown collection \<and> vn_State (cl_Runtime collection) = []
            then zero_EnvironmentRuntimeObservation\<lparr>vn_State := EnvironmentStateUnknown, vn_Privilege := ''unknown''\<rparr>
            else cl_Runtime collection) in
      r\<lparr>vn_TadoriVersion := (if vn_TadoriVersion r = [] then Version else vn_TadoriVersion r),
        vn_OS := (if vn_OS r = [] then hr_OS host else vn_OS r),
        vn_Arch := (if vn_Arch r = [] then hr_Arch host else vn_Arch r),
        vn_RuntimeVersion := (if vn_RuntimeVersion r = [] then hr_RuntimeVersion host else vn_RuntimeVersion r)\<rparr>)"

definition projectedSnapshot :: "hostRuntime \<Rightarrow> (EnvironmentProxySource \<Rightarrow> string) \<Rightarrow> Collection \<Rightarrow> gotime
    \<Rightarrow> EnvironmentSnapshot" where
  "projectedSnapshot host fingerprint collection capturedAt =
     (let s0 = initialSnapshot collection capturedAt;
          routing = buildRouting collection;
          s1 = s0\<lparr>vs_DNS := buildDNS collection, vs_Routing := routing,
            vs_Proxy := buildProxy fingerprint collection,
            vs_VPN := buildVPN collection (vs_Interfaces s0) routing,
            vs_Firewall := buildFirewall collection, vs_Trust := buildTrust collection,
            vs_Runtime := runtimeDefaults host collection\<rparr>;
          s2 = s1\<lparr>vs_Runtime := (vs_Runtime s1)\<lparr>vn_Capabilities := capabilities s1\<rparr>\<rparr> in
      s2\<lparr>vs_State := overallState s2\<rparr>)"

definition BuildEnvironment :: "hostRuntime \<Rightarrow> (EnvironmentProxySource \<Rightarrow> string) \<Rightarrow> Collection \<Rightarrow> gotime
    \<Rightarrow> EnvironmentSnapshot" where
  "BuildEnvironment host fingerprint collection capturedAt =
     normalizeSnapshot (projectedSnapshot host fingerprint collection capturedAt)"

section \<open>Collecting from a diagnosis\<close>

record dnsConfigurationValue =
  dcv_Servers :: "Addr list"
  dcv_Interfaces :: "InterfaceState list"
  dcv_Suffixes :: "string list"
  dcv_SearchList :: "string list"
  dcv_NRPT :: "NameResolutionPolicyRule list"
  dcv_NRPTError :: string
  dcv_Hosts :: "NameResolutionHostEntry list"
  dcv_HostsError :: string
  dcv_Error :: string

record environmentCodec =
  jv_Interfaces :: "string \<Rightarrow> InterfaceState list result"
  jv_DNS :: "string \<Rightarrow> dnsConfigurationValue result"
  jv_Configuration :: "string \<Rightarrow> ConfigurationObservation result"
  jv_Firewall :: "string \<Rightarrow> FirewallObservation result"
  jv_Trust :: "string \<Rightarrow> TrustStoreObservation result"
  jv_fingerprint :: "EnvironmentProxySource \<Rightarrow> string"

text \<open>The variables of the loop besides the collection: which lanes were seen.\<close>

record collectState =
  ks_collection :: Collection
  ks_dns :: bool
  ks_interfaces :: bool
  ks_routes :: bool
  ks_proxy :: bool

definition collectInterfaces :: "InterfaceState list \<Rightarrow> collectState \<Rightarrow> collectState" where
  "collectInterfaces interfaces s = s\<lparr>ks_interfaces := True, ks_collection := (ks_collection s)\<lparr>
     cl_Interfaces := interfaces, cl_InterfacesKnown := True\<rparr>\<rparr>"

definition collectDNS :: "dnsConfigurationValue \<Rightarrow> collectState \<Rightarrow> collectState" where
  "collectDNS value s0 =
     (let s = (if \<not> ks_interfaces s0 \<and> dcv_Interfaces value \<noteq> []
            then collectInterfaces (dcv_Interfaces value) s0 else s0);
          c = ks_collection s in
      s\<lparr>ks_dns := True, ks_collection := c\<lparr>cl_DNSKnown := True, cl_DNS := (cl_DNS c)\<lparr>
        ics_DNSServers := dcv_Servers value, ics_Interfaces := dcv_Interfaces value,
        ics_DNSSuffixes := dcv_Suffixes value, ics_SearchList := dcv_SearchList value,
        ics_NRPT := dcv_NRPT value, ics_NRPTError := dcv_NRPTError value,
        ics_HostsFileEntries := dcv_Hosts value, ics_HostsFileError := dcv_HostsError value,
        ics_ResolverError := dcv_Error value\<rparr>\<rparr>\<rparr>)"

definition observedDefault :: "RouteObservation \<Rightarrow> Prefix \<Rightarrow> Route" where
  "observedDefault observation prefix = \<lparr>rt_Destination = prefix, rt_Gateway = addressOr (ro_Gateway observation),
     rt_Interface = ro_Interface observation, rt_InterfaceIndex = ro_InterfaceIndex observation,
     rt_Metric = ro_Metric observation, rt_Source = addressOr (ro_SourceAddress observation),
     rt_InterfaceType = ro_InterfaceType observation, rt_VPNOrTunnel = ro_VPNOrTunnel observation,
     rt_VirtualAdapter = ro_VirtualAdapter observation\<rparr>"

definition collectRoute :: "RouteObservation \<Rightarrow> collectState \<Rightarrow> collectState" where
  "collectRoute observation s =
     (if ro_RouteType observation \<noteq> ''default'' then s
      else case parsePrefix (ro_RoutePrefix observation) of
          None \<Rightarrow> s
        | Some prefix \<Rightarrow> s\<lparr>ks_routes := True, ks_collection := (ks_collection s)\<lparr>cl_RoutesKnown := True,
            cl_Routes := cl_Routes (ks_collection s) @ [observedDefault observation prefix]\<rparr>\<rparr>)"

definition collectWinHTTP :: "Evidence \<Rightarrow> ConfigurationObservation \<Rightarrow> collectState \<Rightarrow> collectState" where
  "collectWinHTTP evidence value s =
     (if (ev_Kind evidence = EvidenceKindWinHTTPProxy \<or> pco_State value \<noteq> [])
        \<and> (ev_Kind evidence = EvidenceKindWinHTTPProxy \<or> containsStr ''winhttp'' (toLower (ev_ID evidence)))
      then s\<lparr>ks_proxy := True, ks_collection := (ks_collection s)\<lparr>cl_WinHTTP := value, cl_WinHTTPKnown := True\<rparr>\<rparr>
      else s)"

definition collectKind :: "routeCodec \<Rightarrow> environmentCodec \<Rightarrow> Evidence \<Rightarrow> collectState \<Rightarrow> collectState" where
  "collectKind routes codec evidence s =
     (let kind = ev_Kind evidence; raw = ev_Raw evidence; c = ks_collection s in
      if kind = EvidenceKindInterfaceState then (case jv_Interfaces codec raw of
          Inr interfaces \<Rightarrow> collectInterfaces interfaces s | Inl err \<Rightarrow> s)
      else if kind = EvidenceKindDNSConfiguration then (case jv_DNS codec raw of
          Inr value \<Rightarrow> collectDNS value s | Inl err \<Rightarrow> s)
      else if kind = EvidenceKindRoute then (case DecodeRouteEvidence routes evidence of
          Inr observation \<Rightarrow> collectRoute observation s | Inl err \<Rightarrow> s)
      else if kind = EvidenceKindWinHTTPProxy \<or> kind = EvidenceKindProxyConfiguration
      then (case jv_Configuration codec raw of
          Inr value \<Rightarrow> collectWinHTTP evidence value s | Inl err \<Rightarrow> s)
      else if kind = EvidenceKindWinINETProxy then (case jv_Configuration codec raw of
          Inr value \<Rightarrow> s\<lparr>ks_proxy := True, ks_collection := c\<lparr>cl_WinINET := value, cl_WinINETKnown := True\<rparr>\<rparr>
        | Inl err \<Rightarrow> s)
      else if kind = EvidenceKindFirewallProfile then (case jv_Firewall codec raw of
          Inr value \<Rightarrow> s\<lparr>ks_collection := c\<lparr>cl_Firewall := value, cl_FirewallKnown := True\<rparr>\<rparr> | Inl err \<Rightarrow> s)
      else if kind = EvidenceKindTLSTrust then (case jv_Trust codec raw of
          Inr value \<Rightarrow> s\<lparr>ks_collection := c\<lparr>cl_TrustStore := value, cl_TrustKnown := True\<rparr>\<rparr> | Inl err \<Rightarrow> s)
      else s)"

definition collectEvidence :: "routeCodec \<Rightarrow> environmentCodec \<Rightarrow> Evidence \<Rightarrow> collectState \<Rightarrow> collectState" where
  "collectEvidence routes codec evidence s =
     (let c = ks_collection s in collectKind routes codec evidence (s\<lparr>ks_collection := c\<lparr>
        cl_EvidenceIDs := addUnique (cl_EvidenceIDs c) (ev_ID evidence),
        cl_Provenance := addUnique (cl_Provenance c) (ev_Source evidence)\<rparr>\<rparr>))"

definition collectProbe :: "routeCodec \<Rightarrow> environmentCodec \<Rightarrow> ProbeResult \<Rightarrow> collectState \<Rightarrow> collectState" where
  "collectProbe routes codec probe s0 =
     (let s = fold (collectEvidence routes codec) (pr_Evidence probe) s0; c = ks_collection s; name = pr_Name probe in
      if pin_FailureReason (pr_Interpretation probe) \<noteq> FailureReasonUnsupported then s
      else s\<lparr>ks_collection := c\<lparr>
        cl_Limitations := addUnique (cl_Limitations c) (name @ '': unsupported''),
        cl_InterfacesUnsupported := cl_InterfacesUnsupported c \<or> name = InterfaceProbeName,
        cl_DNSUnsupported := cl_DNSUnsupported c \<or> name \<noteq> InterfaceProbeName \<and> name = DNSProbeName,
        cl_ProxyUnsupported := cl_ProxyUnsupported c
          \<or> name \<noteq> InterfaceProbeName \<and> name \<noteq> DNSProbeName \<and> name = ProxyProbeName\<rparr>\<rparr>)"

definition hasProbeFailure :: "ProbeResult list \<Rightarrow> string \<Rightarrow> bool" where
  "hasProbeFailure probes part = list_ex (\<lambda>probe. containsStr part (toLower (pr_Name probe))
     \<and> pin_FailureReason (pr_Interpretation probe) = FailureReasonUnsupported) probes"

definition collectionOf :: "routeCodec \<Rightarrow> environmentCodec \<Rightarrow> ProbeResult list \<Rightarrow> Collection" where
  "collectionOf routes codec probes =
     (let s = fold (collectProbe routes codec) probes
            \<lparr>ks_collection = zero_Collection, ks_dns = False, ks_interfaces = False, ks_routes = False, ks_proxy = False\<rparr>;
          c = ks_collection s in
      c\<lparr>cl_InterfacesKnown := ks_interfaces s, cl_DNSKnown := ks_dns s, cl_RoutesKnown := ks_routes s,
        cl_ProxyUnsupported := (if ks_proxy s then cl_ProxyUnsupported c else hasProbeFailure probes ''proxy'')\<rparr>)"

definition earlier :: "gotime option \<Rightarrow> gotime \<Rightarrow> gotime" where
  "earlier candidate earliest = (case candidate of
     None \<Rightarrow> earliest | Some t \<Rightarrow> (if isZeroTime earliest \<or> t < earliest then t else earliest))"

definition earliestProbeTime :: "ProbeResult list \<Rightarrow> gotime" where
  "earliestProbeTime probes = fold (\<lambda>probe earliest.
     fold (\<lambda>evidence. earlier (ev_CapturedAt evidence)) (pr_Evidence probe)
       (earlier (tm_StartedAt (pr_Timing probe)) earliest)) probes 0"

definition BuildFromProbeResults :: "hostRuntime \<Rightarrow> routeCodec \<Rightarrow> environmentCodec \<Rightarrow> ProbeResult list \<Rightarrow> gotime
    \<Rightarrow> EnvironmentSnapshot" where
  "BuildFromProbeResults host routes codec probes capturedAt =
     BuildEnvironment host (jv_fingerprint codec) (collectionOf routes codec probes)
       (if isZeroTime capturedAt then earliestProbeTime probes else capturedAt)"

end
