(* ===== verification/Builder.thy ===== *)
theory Builder
  imports BuilderLaneFacts BuilderNetwork EnvironmentBuild
begin

text \<open>
  \<open>internal/observations/builder.go\<close>, \<open>Build\<close>: the whole projection of a target and its probe
  results onto the envelope of observations. The decoders, the names of the host and the iteration
  order over the map of path correlations are arguments. The zero time that \<open>Build\<close> passes on lets
  the environment take the earliest time of the probes.
\<close>

record builderCodec =
  bc_json :: jsonCodec
  bc_route :: routeCodec
  bc_enterprise :: enterpriseCodec
  bc_environment :: environmentCodec
  bc_host :: hostRuntime
  bc_arrange :: "PathCorrelation list \<Rightarrow> PathCorrelation list"

definition builtNetwork :: "builderCodec \<Rightarrow> Target \<Rightarrow> EndpointObservation \<Rightarrow> ProbeResult list \<Rightarrow> NetworkContext" where
  "builtNetwork codec target endpoint ordered =
     buildNetworkObservation (bc_route codec) (targetWithEndpointObservation target endpoint) ordered"

definition builtPolicy :: "builderCodec \<Rightarrow> Target \<Rightarrow> EndpointObservation \<Rightarrow> ProbeResult list
    \<Rightarrow> EnterprisePolicyObservation" where
  "builtPolicy codec target endpoint ordered =
     buildEnterprisePolicyObservation (bc_enterprise codec) (targetWithEndpointObservation target endpoint) ordered
       (builtNetwork codec target endpoint ordered)"

definition projected :: "builderCodec \<Rightarrow> Target \<Rightarrow> ProbeResult list \<Rightarrow> Observations" where
  "projected codec target ordered =
     (let json = bc_json codec;
          endpoint = buildEndpointObservation json target ordered;
          transport = buildTransportObservation json target endpoint ordered;
          security = buildSecurityObservation json target endpoint transport ordered;
          lanes = buildPathFlowObservations json (bc_arrange codec) ordered;
          policy = builtPolicy codec target endpoint ordered in
      \<lparr>ob_Endpoint = endpoint,
       ob_NameResolution = buildNameResolutionObservation json target ordered,
       ob_NetworkContext = builtNetwork codec target endpoint ordered,
       ob_EnterprisePolicy = policy,
       ob_Environment = Some (BuildFromProbeResults (bc_host codec) (bc_route codec) (bc_environment codec) ordered 0),
       ob_Transport = transport,
       ob_Security = security\<lparr>so_TLSInspection := assessTLSInspection target security policy\<rparr>,
       ob_Application = buildApplicationObservation json target endpoint transport ordered,
       ob_BrowserCapture = None, ob_Paths = pfo_Paths lanes, ob_PacketFlows = pfo_PacketFlows lanes,
       ob_PathProvenance = pfo_PathProvenance lanes, ob_PacketFlowProvenance = pfo_PacketFlowProvenance lanes,
       ob_PathCorrelations = pfo_PathCorrelations lanes, ob_Conflicts = pfo_Conflicts lanes,
       ob_Divergences = pfo_Divergences lanes\<rparr>)"

definition Build :: "builderCodec \<Rightarrow> Target \<Rightarrow> ProbeResult list \<Rightarrow> Observations" where
  "Build codec target probes =
     NormalizeObservations (projected codec (NormalizeTarget target) (orderedProbes probes))"

end
