(* ===== verification/PolicyFacts.thy ===== *)
theory PolicyFacts
  imports BuilderPolicy BuilderFacts
begin

text \<open>
  What the enterprise policy of \<open>internal/observations/builder.go\<close> guarantees: the divergences between
  the two Windows proxy sources are exactly the reported ones, a source whose evidence contradicts
  itself stays conflicting, a firewall is never blamed, and all evidence of the probe is cited.
\<close>

section \<open>What a step leaves alone\<close>

text \<open>The part of the observation that only the end of the projection writes, behind the cited evidence.\<close>

definition policyFrame :: "EnterprisePolicyObservation
    \<Rightarrow> string list \<times> ObservationConflict list \<times> bool \<times> bool \<times> bool \<times> bool" where
  "policyFrame o0 = (eno_EvidenceIDs o0, eno_Conflicts o0, eno_ProxyConfigurationKnown o0,
     eno_ProxyConfigurationDiverges o0, eno_EffectiveDecisionKnown o0, eno_EffectiveDecisionDiverges o0)"

lemma onObservation_simps [simp]:
  "xs_observation (onObservation f s) = f (xs_observation s)"
  "xs_winhttp (onObservation f s) = xs_winhttp s" "xs_wininet (onObservation f s) = xs_wininet s"
  by (simp_all add: onObservation_def)

lemma fold_keeps: "(\<And>x s. F (f x s) = F s) \<Longrightarrow> F (fold f xs s) = F s"
  by (induction xs arbitrary: s) simp_all

text \<open>A property of every branch.\<close>

lemma if_choice: "P x \<Longrightarrow> P y \<Longrightarrow> P (if c then x else y)"
  by simp

lemma sum_choice: "(\<And>e. P (f e)) \<Longrightarrow> (\<And>v. P (g v)) \<Longrightarrow> P (case r of Inl e \<Rightarrow> f e | Inr v \<Rightarrow> g v)"
  by (cases r) simp_all

named_theorems policy_steps "the steps of the enterprise policy, as changes of the observation"
lemmas [policy_steps] = projectEnterprisePAC_def effectiveStep_def pathStep_def projectEnterpriseRouting_def
  projectEnterpriseTLS_def projectEnterpriseCorrelation_def limitation_def Let_def

lemma atSource_frame [simp]: "policyFrame (atSource name f o0) = policyFrame o0"
  by (simp add: atSource_def policyFrame_def Let_def)

lemma step_frame [simp]:
  "policyFrame (limitation t o0) = policyFrame o0"
  "policyFrame (projectEnterprisePAC value probe evidence o0) = policyFrame o0"
  "policyFrame (effectiveStep probe evidence effective o0) = policyFrame o0"
  "policyFrame (pathStep probe evidence path o0) = policyFrame o0"
  "policyFrame (projectEnterpriseFirewall fw probe evidence o0) = policyFrame o0"
  "policyFrame (projectEnterpriseRouting routing probe evidence o0) = policyFrame o0"
  "policyFrame (projectEnterpriseTLS tls probe evidence o0) = policyFrame o0"
  "policyFrame (projectEnterpriseCorrelation c evidence o0) = policyFrame o0"
  by (simp_all add: policy_steps projectEnterpriseFirewall_def)
    (simp_all add: policyFrame_def)

lemma connectivity_frame [simp]: "policyFrame (projectEnterpriseConnectivity value probe evidence o0) = policyFrame o0"
  by (simp add: projectEnterpriseConnectivity_def fold_keeps [where F = policyFrame])

lemma issues_frame [simp]: "policyFrame (appendEnterpriseIssues issues o0) = policyFrame o0"
  by (simp add: appendEnterpriseIssues_def fold_keeps [where F = policyFrame])

lemma kindStep_frame [simp]:
  "policyFrame (xs_observation (enterpriseKindStep codec probe evidence s)) = policyFrame (xs_observation s)"
  (is "?P (enterpriseKindStep codec probe evidence s)")
  unfolding enterpriseKindStep_def Let_def by (intro if_choice [where P = ?P]) (simp_all split: sum.split)

lemma evidenceStep_frame:
  "policyFrame (xs_observation (enterpriseEvidenceStep codec probe evidence s)) =
     (appendUnique (eno_EvidenceIDs (xs_observation s)) [ev_ID evidence], snd (policyFrame (xs_observation s)))"
  by (simp add: enterpriseEvidenceStep_def) (simp add: policyFrame_def)

lemma evidenceStep_rest [simp]:
  "snd (policyFrame (xs_observation (enterpriseEvidenceStep codec probe evidence s))) = snd (policyFrame (xs_observation s))"
  by (simp add: evidenceStep_frame)

lemma probeStep_rest [simp]:
  "snd (policyFrame (xs_observation (enterpriseProbeStep codec probe s))) = snd (policyFrame (xs_observation s))"
proof -
  have "snd (policyFrame (xs_observation (fold (enterpriseEvidenceStep codec probe) es t)))
      = snd (policyFrame (xs_observation t))" for es t
    by (rule fold_keeps [where F = "\<lambda>s. snd (policyFrame (xs_observation s))"]) simp
  then show ?thesis by (simp add: enterpriseProbeStep_def Let_def) (simp add: policyFrame_def limitation_def)
qed

lemma evidence_rest: "snd (policyFrame (xs_observation (enterpriseEvidence codec target probes))) = ([], False, False, False, False)"
  unfolding enterpriseEvidence_def
  by (simp add: fold_keeps [where F = "\<lambda>s. snd (policyFrame (xs_observation s))"])
    (simp add: policyFrame_def initialEnterprise_def zero_EnterprisePolicyObservation_def)

section \<open>Divergences\<close>

definition finalSource :: "enterpriseCodec \<Rightarrow> Target \<Rightarrow> ProbeResult list
    \<Rightarrow> (EnterprisePolicyObservation \<Rightarrow> 'a) \<Rightarrow> 'a" where
  "finalSource codec target probes side = side (xs_observation (enterpriseEvidence codec target probes))"

lemma settle_simps [simp]:
  "policyFrame (settleEnterpriseState s o0) = policyFrame o0"
  "eno_WinHTTP (settleEnterpriseState s o0) = eno_WinHTTP o0"
  "eno_WinINET (settleEnterpriseState s o0) = eno_WinINET o0"
  "eno_Firewall (settleEnterpriseState s o0) = eno_Firewall o0"
  by (simp_all add: settleEnterpriseState_def Let_def policyFrame_def)

lemma finalize_simps [simp]:
  "policyFrame (finalizeEnterpriseCertainty o0) = policyFrame o0"
  "eno_WinHTTP (finalizeEnterpriseCertainty o0) = eno_WinHTTP o0"
  "eno_WinINET (finalizeEnterpriseCertainty o0) = eno_WinINET o0"
  "eno_Firewall (finalizeEnterpriseCertainty o0) = eno_Firewall o0"
  by (simp_all add: finalizeEnterpriseCertainty_def policyFrame_def)

lemma collected_simps [simp]:
  "policyFrame (citeCollected s o0) = policyFrame o0"
  "eno_WinHTTP (citeCollected s o0) = eno_WinHTTP o0"
  "eno_WinINET (citeCollected s o0) = eno_WinINET o0"
  "efw_BlockCausality (eno_Firewall (citeCollected s o0)) = efw_BlockCausality (eno_Firewall o0)"
  "efw_Profiles (eno_Firewall (citeCollected s o0)) = efw_Profiles (eno_Firewall o0)"
  by (simp_all add: citeCollected_def Let_def policyFrame_def)

lemma compare_simps [simp]:
  "eno_WinHTTP (compareEffective o0) = eno_WinHTTP o0" "eno_WinINET (compareEffective o0) = eno_WinINET o0"
  "eno_Firewall (compareEffective o0) = eno_Firewall o0" "eno_EvidenceIDs (compareEffective o0) = eno_EvidenceIDs o0"
  "eno_WinHTTP (compareConfigurations codec s o0) = eno_WinHTTP o0"
  "eno_WinINET (compareConfigurations codec s o0) = eno_WinINET o0"
  "eno_Firewall (compareConfigurations codec s o0) = eno_Firewall o0"
  "eno_EvidenceIDs (compareConfigurations codec s o0) = eno_EvidenceIDs o0"
  by (simp_all add: compareEffective_def compareConfigurations_def Let_def)

text \<open>The effective proxies of the two sources differ.\<close>

definition effectiveDiffer :: "EnterprisePolicyObservation \<Rightarrow> bool" where
  "effectiveDiffer o0 \<longleftrightarrow>
     (let left = eps_Effective (eno_WinHTTP o0); right = eps_Effective (eno_WinINET o0) in
      (epe_Decision left, epe_Mode left, epe_Endpoint left) \<noteq> (epe_Decision right, epe_Mode right, epe_Endpoint right))"

definition configurationsDiffer :: "EnterprisePolicyObservation \<Rightarrow> bool" where
  "configurationsDiffer o0 \<longleftrightarrow>
     \<not> sameEnterpriseProxyConfiguration (eps_Configuration (eno_WinHTTP o0)) (eps_Configuration (eno_WinINET o0))"

definition bothEffectiveKnown :: "EnterprisePolicyObservation \<Rightarrow> bool" where
  "bothEffectiveKnown o0 \<longleftrightarrow> effectiveDecisionKnown (eps_Effective (eno_WinHTTP o0))
     \<and> effectiveDecisionKnown (eps_Effective (eno_WinINET o0))"

lemma compareConfigurations_frame:
  assumes "snd (policyFrame o0) = ([], False, False, False, False)"
  shows "snd (policyFrame (compareConfigurations codec s o0)) =
    (let known = evidenceIDOr (xs_winhttp s) \<noteq> [] \<and> evidenceIDOr (xs_wininet s) \<noteq> [] in
     (if known \<and> configurationsDiffer o0
      then [\<lparr>oc_Field = ''enterprise_policy.proxy_configuration'',
        oc_Values = [jx_fingerprint codec (eps_Configuration (eno_WinHTTP o0)),
          jx_fingerprint codec (eps_Configuration (eno_WinINET o0))],
        oc_Provenance = [''source:winhttp'', ''source:wininet''],
        oc_EvidenceIDs = [evidenceIDOr (xs_winhttp s), evidenceIDOr (xs_wininet s)]\<rparr>] else [],
      known, known \<and> configurationsDiffer o0, False, False))"
  using assms by (auto simp: policyFrame_def compareConfigurations_def configurationsDiffer_def Let_def)

lemma compareEffective_frame:
  assumes "snd (policyFrame o0) = (cs, k, d, False, False)"
  shows "\<exists>more. snd (policyFrame (compareEffective o0)) =
      (cs @ more, k, d, bothEffectiveKnown o0, bothEffectiveKnown o0 \<and> effectiveDiffer o0)
    \<and> map oc_Field more = (if bothEffectiveKnown o0 \<and> effectiveDiffer o0
        then [''enterprise_policy.effective_proxy_decision''] else [])"
  using assms by (auto simp: policyFrame_def compareEffective_def bothEffectiveKnown_def effectiveDiffer_def
      effectiveDecisionKnown_def Let_def)

lemma build_policy_sources [simp]:
  "eno_WinHTTP (buildEnterprisePolicyObservation codec target probes network) =
     eno_WinHTTP (xs_observation (enterpriseEvidence codec target probes))"
  "eno_WinINET (buildEnterprisePolicyObservation codec target probes network) =
     eno_WinINET (xs_observation (enterpriseEvidence codec target probes))"
  by (simp_all add: buildEnterprisePolicyObservation_def Let_def)

lemma build_policy_frame:
  "policyFrame (buildEnterprisePolicyObservation codec target probes network) =
     policyFrame (compareEffective (compareConfigurations codec (enterpriseEvidence codec target probes)
       (settleEnterpriseState (enterpriseEvidence codec target probes)
         (xs_observation (enterpriseEvidence codec target probes)))))"
proof -
  have network: "policyFrame (o0\<lparr>eno_Network := n\<rparr>) = policyFrame o0" for o0 n by (simp add: policyFrame_def)
  show ?thesis by (simp add: buildEnterprisePolicyObservation_def Let_def network)
qed

lemma divergence_report:
  "(eno_ProxyConfigurationKnown (buildEnterprisePolicyObservation codec target probes network) \<longleftrightarrow>
      evidenceIDOr (xs_winhttp (enterpriseEvidence codec target probes)) \<noteq> []
      \<and> evidenceIDOr (xs_wininet (enterpriseEvidence codec target probes)) \<noteq> [])
   \<and> (eno_ProxyConfigurationDiverges (buildEnterprisePolicyObservation codec target probes network) \<longleftrightarrow>
      eno_ProxyConfigurationKnown (buildEnterprisePolicyObservation codec target probes network)
      \<and> configurationsDiffer (buildEnterprisePolicyObservation codec target probes network))
   \<and> (eno_EffectiveDecisionKnown (buildEnterprisePolicyObservation codec target probes network) \<longleftrightarrow>
      bothEffectiveKnown (buildEnterprisePolicyObservation codec target probes network))
   \<and> (eno_EffectiveDecisionDiverges (buildEnterprisePolicyObservation codec target probes network) \<longleftrightarrow>
      bothEffectiveKnown (buildEnterprisePolicyObservation codec target probes network)
      \<and> effectiveDiffer (buildEnterprisePolicyObservation codec target probes network))
   \<and> map oc_Field (eno_Conflicts (buildEnterprisePolicyObservation codec target probes network)) =
      (if eno_ProxyConfigurationDiverges (buildEnterprisePolicyObservation codec target probes network)
       then [''enterprise_policy.proxy_configuration''] else [])
      @ (if eno_EffectiveDecisionDiverges (buildEnterprisePolicyObservation codec target probes network)
       then [''enterprise_policy.effective_proxy_decision''] else [])"
proof -
  let ?s = "enterpriseEvidence codec target probes"
  let ?o = "buildEnterprisePolicyObservation codec target probes network"
  let ?o1 = "settleEnterpriseState ?s (xs_observation ?s)"
  let ?o2 = "compareConfigurations codec ?s ?o1"
  let ?known = "evidenceIDOr (xs_winhttp ?s) \<noteq> [] \<and> evidenceIDOr (xs_wininet ?s) \<noteq> []"
  have same: "configurationsDiffer ?o1 = configurationsDiffer ?o" "bothEffectiveKnown ?o2 = bothEffectiveKnown ?o"
    "effectiveDiffer ?o2 = effectiveDiffer ?o"
    by (simp_all add: configurationsDiffer_def bothEffectiveKnown_def effectiveDiffer_def)
  have start: "snd (policyFrame ?o1) = ([], False, False, False, False)" by (simp add: evidence_rest)
  obtain cs where cs: "snd (policyFrame ?o2) = (cs, ?known, ?known \<and> configurationsDiffer ?o, False, False)"
    and fields: "map oc_Field cs =
      (if ?known \<and> configurationsDiffer ?o then [''enterprise_policy.proxy_configuration''] else [])"
    using compareConfigurations_frame [OF start, of codec ?s] by (auto simp: Let_def same(1) split: if_splits)
  show ?thesis
    using compareEffective_frame [OF cs] fields build_policy_frame [of codec target probes network]
    by (auto simp: Let_def same policyFrame_def)
qed

text \<open>The divergences of the enterprise policy are exact. The configurations of WinHTTP and WinINET
  are called divergent exactly when both were read and differ; the effective decisions exactly when
  both are known, resolved and not conflicting, and differ. Each divergence has one conflict, and the
  observation lists no other.
\<close>

theorem enterprise_divergence_exact:
  "let observed = buildEnterprisePolicyObservation codec target probes network;
       collected = enterpriseEvidence codec target probes in
   (eno_ProxyConfigurationKnown observed \<longleftrightarrow>
      evidenceIDOr (xs_winhttp collected) \<noteq> [] \<and> evidenceIDOr (xs_wininet collected) \<noteq> [])
   \<and> (eno_ProxyConfigurationDiverges observed \<longleftrightarrow> eno_ProxyConfigurationKnown observed \<and> configurationsDiffer observed)
   \<and> (eno_EffectiveDecisionKnown observed \<longleftrightarrow> bothEffectiveKnown observed)
   \<and> (eno_EffectiveDecisionDiverges observed \<longleftrightarrow> bothEffectiveKnown observed \<and> effectiveDiffer observed)
   \<and> map oc_Field (eno_Conflicts observed) =
      (if eno_ProxyConfigurationDiverges observed then [''enterprise_policy.proxy_configuration''] else [])
      @ (if eno_EffectiveDecisionDiverges observed then [''enterprise_policy.effective_proxy_decision''] else [])"
  unfolding Let_def by (rule divergence_report)

section \<open>A contradiction stays\<close>

definition conflictedSource :: "EnterpriseProxySourceObservation \<Rightarrow> bool" where
  "conflictedSource source \<longleftrightarrow> epe_Observed (eps_Effective source)
     \<and> epe_Decision (eps_Effective source) = EnterpriseProxyDecisionConflicting"

lemma merge_conflicted:
  "conflictedSource (mergeEnterpriseEffective candidate d)" if "epe_Observed (eps_Effective d)"
    "\<not> sameEnterpriseEffective (eps_Effective d) candidate"
  using that by (simp add: conflictedSource_def mergeEnterpriseEffective_def citeEffective_def Let_def)

lemma conflicted_steps [simp, intro]:
  "conflictedSource s \<Longrightarrow> conflictedSource (configureSource value probe evidence s)"
  "conflictedSource s \<Longrightarrow> conflictedSource (configurationUnread err s)"
  "conflictedSource s \<Longrightarrow> conflictedSource (mergeEnterpriseEffective candidate s)"
  "conflictedSource s \<Longrightarrow> conflictedSource (resolvedPAC effective decision probe evidence s)"
  "conflictedSource s \<Longrightarrow> conflictedSource (markEnterpriseProxySource probe evidence certainty s)"
  by (simp_all add: conflictedSource_def configureSource_def configurationUnread_def mergeEnterpriseEffective_def
      resolvedPAC_def markEnterpriseProxySource_def syncEnterprisePACConfiguration_def citeEffective_def Let_def)

lemma conflicted_path: "conflictedSource s \<Longrightarrow> conflictedSource (ensureEnterpriseEffectiveFromPath path probe evidence s)"
  by (auto simp: ensureEnterpriseEffectiveFromPath_def Let_def)
    (simp_all add: conflictedSource_def citeEffective_def)

text \<open>One of the two sources.\<close>

definition proxySides :: "(EnterprisePolicyObservation \<Rightarrow> EnterpriseProxySourceObservation) set" where
  "proxySides = {eno_WinHTTP, eno_WinINET}"

lemma atSource_conflicted:
  assumes "side \<in> proxySides" "conflictedSource (side o0)" "\<And>s. conflictedSource s \<Longrightarrow> conflictedSource (f s)"
  shows "conflictedSource (side (atSource name f o0))"
proof -
  from assms(1) consider "side = eno_WinHTTP" | "side = eno_WinINET" by (auto simp: proxySides_def)
  then show ?thesis using assms(2,3) by cases (simp_all add: atSource_def Let_def)
qed

lemma side_keeps [simp]:
  assumes "side \<in> proxySides"
  shows "side (limitation t o0) = side o0" "side (projectEnterpriseFirewall fw probe evidence o0) = side o0"
    "side (projectEnterpriseRouting routing probe evidence o0) = side o0"
    "side (projectEnterpriseTLS tls probe evidence o0) = side o0"
    "side (projectEnterpriseCorrelation c evidence o0) = side o0"
    "side (o0\<lparr>eno_Paths := paths\<rparr>) = side o0" "side (o0\<lparr>eno_Unsupported := True\<rparr>) = side o0"
    "side (o0\<lparr>eno_ProbeNames := names\<rparr>) = side o0"
    "side (o0\<lparr>eno_EvidenceIDs := ids, eno_Provenance := prov\<rparr>) = side o0"
    "side (appendEnterpriseIssues issues o0) = side o0"
proof -
  have lim: "side (limitation t o0) = side o0" for t o0 using assms by (auto simp: proxySides_def limitation_def)
  then show "side (limitation t o0) = side o0" .
  show "side (appendEnterpriseIssues issues o0) = side o0"
    by (simp add: appendEnterpriseIssues_def fold_keeps [where F = side] lim)
qed (use assms in \<open>auto simp: proxySides_def projectEnterpriseFirewall_def projectEnterpriseRouting_def
  projectEnterpriseTLS_def projectEnterpriseCorrelation_def Let_def\<close>)

lemma fold_conflicted:
  "(\<And>x o0. conflictedSource (side o0) \<Longrightarrow> conflictedSource (side (f x o0))) \<Longrightarrow> conflictedSource (side o0)
     \<Longrightarrow> conflictedSource (side (fold f xs o0))"
  by (induction xs arbitrary: o0) simp_all

lemma conflicted_reachability [simp]: "conflictedSource (s\<lparr>eps_EndpointReachability := r\<rparr>) = conflictedSource s"
  by (simp add: conflictedSource_def)

lemma effectiveStep_conflicted:
  assumes "side \<in> proxySides" "conflictedSource (side o0)"
  shows "conflictedSource (side (effectiveStep probe evidence effective o0))"
  unfolding effectiveStep_def Let_def
  by (rule atSource_conflicted [OF assms]) (intro conflicted_steps)

lemma pathStep_conflicted:
  assumes "side \<in> proxySides" "conflictedSource (side o0)"
  shows "conflictedSource (side (pathStep probe evidence path o0))"
proof -
  have "conflictedSource (side (o0\<lparr>eno_Paths := paths\<rparr>))" for paths using assms by simp
  then show ?thesis unfolding pathStep_def Let_def
    by (intro if_choice [where P = "\<lambda>t. conflictedSource (side t)"] atSource_conflicted [OF assms(1)])
      (simp_all only: conflicted_reachability conflicted_path)
qed

lemma connectivity_conflicted:
  assumes "side \<in> proxySides" "conflictedSource (side o0)"
  shows "conflictedSource (side (projectEnterpriseConnectivity value probe evidence o0))"
  unfolding projectEnterpriseConnectivity_def
  by (rule fold_conflicted, erule pathStep_conflicted [OF assms(1)],
      rule fold_conflicted, erule effectiveStep_conflicted [OF assms(1)], rule assms(2))

lemma pac_conflicted:
  "side \<in> proxySides \<Longrightarrow> conflictedSource (side o0) \<Longrightarrow> conflictedSource (side (projectEnterprisePAC value probe evidence o0))"
  unfolding projectEnterprisePAC_def
  by (rule atSource_conflicted) (simp_all add: conflictedSource_def markEnterpriseProxySource_def Let_def)

lemma configuration_conflicted:
  assumes "side \<in> proxySides" "conflictedSource (side o0)"
  shows "conflictedSource (side (atSource name (configureSource value probe evidence) o0))"
    and "conflictedSource (side (atSource name (configurationUnread err) o0))"
  by (rule atSource_conflicted [OF assms], simp)+

lemma kindStep_conflicted:
  assumes "side \<in> proxySides" "conflictedSource (side (xs_observation s))"
  shows "conflictedSource (side (xs_observation (enterpriseKindStep codec probe evidence s)))"
  unfolding enterpriseKindStep_def Let_def
  by (intro if_choice [where P = "\<lambda>t. conflictedSource (side (xs_observation t))"]
      sum_choice [where P = "\<lambda>t. conflictedSource (side (xs_observation t))"])
    (simp_all add: assms configuration_conflicted connectivity_conflicted pac_conflicted)

lemma probeStep_conflicted:
  assumes side: "side \<in> proxySides" and conflicted: "conflictedSource (side (xs_observation s))"
  shows "conflictedSource (side (xs_observation (enterpriseProbeStep codec probe s)))"
proof -
  have "conflictedSource (side (xs_observation (fold (enterpriseEvidenceStep codec probe) es t)))"
    if "conflictedSource (side (xs_observation t))" for es t
    using that by (induction es arbitrary: t)
      (simp_all add: enterpriseEvidenceStep_def kindStep_conflicted side)
  moreover have "side (o0\<lparr>eno_Unsupported := True, eno_ProbeNames := n\<rparr>) = side o0" for o0 n
    using side by (auto simp: proxySides_def)
  ultimately show ?thesis using side conflicted by (simp add: enterpriseProbeStep_def Let_def)
qed

text \<open>A contradiction between two pieces of evidence about the effective proxy of a source is never
  resolved by later evidence: the decision of the source stays \<open>conflicting\<close>, and no statement is
  made about whether the two sources agree.
\<close>

theorem effective_conflict_final:
  assumes "side \<in> proxySides" "conflictedSource (side (xs_observation (enterpriseEvidence codec target probes)))"
  shows "conflictedSource (side (buildEnterprisePolicyObservation codec target (probes @ later) network))
    \<and> \<not> eno_EffectiveDecisionKnown (buildEnterprisePolicyObservation codec target (probes @ later) network)
    \<and> \<not> eno_EffectiveDecisionDiverges (buildEnterprisePolicyObservation codec target (probes @ later) network)"
proof -
  let ?o = "buildEnterprisePolicyObservation codec target (probes @ later) network"
  have "conflictedSource (side (xs_observation (fold (enterpriseProbeStep codec) later t)))"
    if "conflictedSource (side (xs_observation t))" for t
    using that by (induction later arbitrary: t) (simp_all add: probeStep_conflicted assms(1))
  from this [OF assms(2)] have source: "conflictedSource (side ?o)"
    using assms(1) by (auto simp: proxySides_def enterpriseEvidence_def)
  then have "\<not> bothEffectiveKnown ?o"
    using assms(1) by (auto simp: proxySides_def bothEffectiveKnown_def conflictedSource_def effectiveDecisionKnown_def)
  moreover have "eno_EffectiveDecisionKnown ?o \<longleftrightarrow> bothEffectiveKnown ?o"
    "eno_EffectiveDecisionDiverges ?o \<longleftrightarrow> bothEffectiveKnown ?o \<and> effectiveDiffer ?o"
    using divergence_report [of codec target "probes @ later" network] by blast+
  ultimately show ?thesis using source by blast
qed

section \<open>Firewalls\<close>

definition unblamed :: "EnterpriseFirewallObservation \<Rightarrow> bool" where
  "unblamed firewall \<longleftrightarrow> efw_BlockCausality firewall = EnterpriseFirewallCausalityNotEstablished
     \<and> efp_BlockCausality ` set (efw_Profiles firewall) \<subseteq> {EnterpriseFirewallCausalityNotEstablished}"

lemma firewall_steps [simp]:
  "eno_Firewall (atSource name f o0) = eno_Firewall o0"
  "eno_Firewall (limitation t o0) = eno_Firewall o0"
  "eno_Firewall (projectEnterprisePAC value probe evidence o0) = eno_Firewall o0"
  "eno_Firewall (projectEnterpriseRouting routing probe evidence o0) = eno_Firewall o0"
  "eno_Firewall (projectEnterpriseTLS tls probe evidence o0) = eno_Firewall o0"
  "eno_Firewall (projectEnterpriseCorrelation c evidence o0) = eno_Firewall o0"
  by (simp_all add: policy_steps) (simp_all add: atSource_def Let_def)

lemma firewall_connectivity [simp]: "eno_Firewall (projectEnterpriseConnectivity value probe evidence o0) = eno_Firewall o0"
proof -
  have "eno_Firewall (pathStep probe evidence path o0) = eno_Firewall o0"
    "eno_Firewall (effectiveStep probe evidence effective o0) = eno_Firewall o0" for path effective o0
    by (simp_all add: pathStep_def effectiveStep_def Let_def)
  then show ?thesis by (simp add: projectEnterpriseConnectivity_def fold_keeps [where F = eno_Firewall])
qed

lemma firewall_issues [simp]: "eno_Firewall (appendEnterpriseIssues issues o0) = eno_Firewall o0"
  by (simp add: appendEnterpriseIssues_def fold_keeps [where F = eno_Firewall])

lemma firewall_unblamed: "unblamed (eno_Firewall (projectEnterpriseFirewall value probe evidence o0))"
  by (auto simp: unblamed_def projectEnterpriseFirewall_def projectFirewallProfile_def)

lemma kindStep_unblamed:
  "unblamed (eno_Firewall (xs_observation s))
     \<Longrightarrow> unblamed (eno_Firewall (xs_observation (enterpriseKindStep codec probe evidence s)))"
  unfolding enterpriseKindStep_def Let_def
  by (intro if_choice [where P = "\<lambda>t. unblamed (eno_Firewall (xs_observation t))"]
      sum_choice [where P = "\<lambda>t. unblamed (eno_Firewall (xs_observation t))"])
    (simp_all add: firewall_unblamed)

lemma fold_unblamed:
  "unblamed (eno_Firewall (xs_observation s))
     \<Longrightarrow> unblamed (eno_Firewall (xs_observation (fold (enterpriseEvidenceStep codec probe) es s)))"
  by (induction es arbitrary: s) (simp_all add: enterpriseEvidenceStep_def kindStep_unblamed)

lemma evidence_unblamed: "unblamed (eno_Firewall (xs_observation (enterpriseEvidence codec target probes)))"
proof -
  have "unblamed (eno_Firewall (xs_observation (fold (enterpriseProbeStep codec) probes s)))"
    if "unblamed (eno_Firewall (xs_observation s))" for s
    using that by (induction probes arbitrary: s) (simp_all add: enterpriseProbeStep_def fold_unblamed Let_def)
  moreover have "unblamed (eno_Firewall (xs_observation (initialEnterprise target)))"
    by (simp add: unblamed_def initialEnterprise_def zero_EnterpriseFirewallObservation_def)
  ultimately show ?thesis by (simp add: enterpriseEvidence_def)
qed

lemma policy_unblamed: "unblamed (eno_Firewall (buildEnterprisePolicyObservation codec target probes network))"
proof -
  have "unblamed f \<longleftrightarrow> unblamed g"
    if "efw_BlockCausality f = efw_BlockCausality g" "efw_Profiles f = efw_Profiles g" for f g
    by (simp add: unblamed_def that)
  then show ?thesis
    using evidence_unblamed [of codec target probes] by (simp add: buildEnterprisePolicyObservation_def Let_def unblamed_def)
qed

section \<open>Cited evidence\<close>

lemma evidence_ids:
  "set (eno_EvidenceIDs (xs_observation (fold (enterpriseEvidenceStep codec probe) es s)))
     = set (eno_EvidenceIDs (xs_observation s)) \<union> (ev_ID ` set es - {[]})"
proof (induction es arbitrary: s)
  case (Cons e es)
  have "eno_EvidenceIDs (xs_observation (enterpriseEvidenceStep codec probe e s)) =
      appendUnique (eno_EvidenceIDs (xs_observation s)) [ev_ID e]"
    using evidenceStep_frame [of codec probe e s] by (simp add: policyFrame_def)
  then show ?case by (auto simp: Cons.IH set_appendUnique)
qed simp

definition enterpriseProbes :: "ProbeResult list \<Rightarrow> ProbeResult list" where
  "enterpriseProbes probes = filter (\<lambda>probe. pr_Name probe = EnterpriseProbeName) probes"

lemma probes_ids:
  "set (eno_EvidenceIDs (xs_observation (fold (enterpriseProbeStep codec) probes s)))
     = set (eno_EvidenceIDs (xs_observation s)) \<union> (carriedIDs (enterpriseProbes probes) - {[]})"
proof (induction probes arbitrary: s)
  case (Cons probe probes)
  have "set (eno_EvidenceIDs (xs_observation (enterpriseProbeStep codec probe s))) =
      set (eno_EvidenceIDs (xs_observation s))
        \<union> (if pr_Name probe = EnterpriseProbeName then ev_ID ` set (pr_Evidence probe) - {[]} else {})"
    by (simp add: enterpriseProbeStep_def Let_def evidence_ids) (simp add: limitation_def)
  then show ?case by (auto simp: Cons.IH enterpriseProbes_def)
qed (simp add: enterpriseProbes_def)

lemma policy_ids:
  "set (eno_EvidenceIDs (buildEnterprisePolicyObservation codec target probes network)) = carriedIDs (enterpriseProbes probes) - {[]}"
proof -
  have ids: "eno_EvidenceIDs o0 = fst (policyFrame o0)" for o0 by (simp add: policyFrame_def)
  have settled: "eno_EvidenceIDs (settleEnterpriseState s o0) = eno_EvidenceIDs o0" for s o0 unfolding ids by simp
  have "eno_EvidenceIDs (buildEnterprisePolicyObservation codec target probes network)
      = eno_EvidenceIDs (xs_observation (enterpriseEvidence codec target probes))"
    unfolding ids build_policy_frame by (simp add: settled flip: ids)
  then show ?thesis
    by (simp add: enterpriseEvidence_def probes_ids)
      (simp add: initialEnterprise_def zero_EnterprisePolicyObservation_def)
qed

section \<open>Runs at sample inputs\<close>

text \<open>Connectivity evidence with two effective proxies of WinHTTP that contradict each other, and its decoder.\<close>

definition contradictingProxies :: enterpriseConnectivityEvidence where
  "contradictingProxies = zero_enterpriseConnectivityEvidence\<lparr>eco_EffectiveProxy :=
     [zero_EffectiveProxy\<lparr>efx_Source := ''winhttp'', efx_Mode := PathModeDirect, efx_ResolutionOK := True\<rparr>,
      zero_EffectiveProxy\<lparr>efx_Source := ''winhttp'', efx_Mode := PathModeProxy, efx_Endpoint := ''proxy.example:8080'',
        efx_ResolutionOK := True\<rparr>]\<rparr>"

definition connectivityCodec :: "enterpriseConnectivityEvidence \<Rightarrow> enterpriseCodec" where
  "connectivityCodec value = \<lparr>jx_Configuration = \<lambda>raw. Inl [], jx_PAC = \<lambda>raw. Inl [], jx_Connectivity = \<lambda>raw. Inr value,
     jx_Firewall = \<lambda>raw. Inl [], jx_Routing = \<lambda>raw. Inl [], jx_TLS = \<lambda>raw. Inl [], jx_Correlation = \<lambda>raw. Inl [],
     jx_Issues = \<lambda>raw. Inl [], jx_fingerprint = \<lambda>value. []\<rparr>"

definition connectivityProbe :: ProbeResult where
  "connectivityProbe = zero_ProbeResult\<lparr>pr_Name := EnterpriseProbeName,
     pr_Evidence := [zero_Evidence\<lparr>ev_ID := ''connectivity'', ev_Kind := EvidenceKindProxyConnectivity\<rparr>]\<rparr>"

lemma contradiction_seen:
  "conflictedSource (eno_WinHTTP (xs_observation
     (enterpriseEvidence (connectivityCodec contradictingProxies) zero_Target [connectivityProbe])))"
  by code_simp

theorem effective_conflict_final_witness:
  "\<not> eno_EffectiveDecisionKnown (buildEnterprisePolicyObservation (connectivityCodec contradictingProxies) zero_Target
     ([connectivityProbe] @ [connectivityProbe]) zero_NetworkContext)"
proof -
  have "eno_WinHTTP \<in> proxySides" by (simp add: proxySides_def)
  from effective_conflict_final [OF this contradiction_seen, of "[connectivityProbe]" zero_NetworkContext]
  show ?thesis by blast
qed

definition failedDirect :: EnterprisePathObservation where
  "failedDirect = zero_EnterprisePathObservation\<lparr>ept_Name := PathApplicationDirect, ept_Mode := PathModeDirect,
     ept_FailureReason := FailureReasonTCPTimeout\<rparr>"

definition browserWithoutProxy :: EnterprisePathObservation where
  "browserWithoutProxy = zero_EnterprisePathObservation\<lparr>ept_Name := PathBrowserWinINET, ept_Mode := PathModeDirect,
     ept_HTTPResponse := True, ept_HTTPStatusCode := 200\<rparr>"

text \<open>
  The comparison recognises a proxied path by its name. A browser without a proxy that succeeds where
  the application's direct attempt timed out makes it report that a proxy works and that a policy
  against direct egress is possible, although no proxy took part.
\<close>

lemma no_proxy_policy:
  "epm_State (compareEnterprisePaths [failedDirect, browserWithoutProxy]) = EnterprisePathComparisonDirectFailureProxyWorks
   \<and> epm_PolicyPossible (compareEnterprisePaths [failedDirect, browserWithoutProxy])"
  by code_simp

end
