(* ===== verification/EnvironmentFacts.thy ===== *)
theory EnvironmentFacts
  imports EnvironmentBuild PolicyFacts NormalizeFacts
begin

text \<open>
  What the snapshot that \<open>BuildFromProbeResults\<close> of \<open>internal/environment/environment.go\<close> makes of a
  diagnosis claims: a component has a state of its own exactly when evidence of it was read, all
  evidence is cited, a firewall is never blamed. At the end, runs that show where the projection says
  less, or more, than it means to.
\<close>

section \<open>What was read\<close>

definition readsDNS :: "environmentCodec \<Rightarrow> Evidence \<Rightarrow> bool" where
  "readsDNS codec evidence \<longleftrightarrow> ev_Kind evidence = EvidenceKindDNSConfiguration \<and> \<not> isl (jv_DNS codec (ev_Raw evidence))"

definition readsInterfaces :: "environmentCodec \<Rightarrow> Evidence \<Rightarrow> bool" where
  "readsInterfaces codec evidence \<longleftrightarrow>
     ev_Kind evidence = EvidenceKindInterfaceState \<and> \<not> isl (jv_Interfaces codec (ev_Raw evidence))
     \<or> readsDNS codec evidence \<and> dcv_Interfaces (projr (jv_DNS codec (ev_Raw evidence))) \<noteq> []"

definition readsDefaultRoute :: "routeCodec \<Rightarrow> Evidence \<Rightarrow> bool" where
  "readsDefaultRoute routes evidence \<longleftrightarrow> ev_Kind evidence = EvidenceKindRoute
     \<and> \<not> isl (DecodeRouteEvidence routes evidence)
     \<and> ro_RouteType (projr (DecodeRouteEvidence routes evidence)) = ''default''
     \<and> parsePrefix (ro_RoutePrefix (projr (DecodeRouteEvidence routes evidence))) \<noteq> None"

definition readsWinHTTP :: "environmentCodec \<Rightarrow> Evidence \<Rightarrow> bool" where
  "readsWinHTTP codec evidence \<longleftrightarrow> \<not> isl (jv_Configuration codec (ev_Raw evidence))
     \<and> (ev_Kind evidence = EvidenceKindWinHTTPProxy
       \<or> ev_Kind evidence = EvidenceKindProxyConfiguration
         \<and> pco_State (projr (jv_Configuration codec (ev_Raw evidence))) \<noteq> []
         \<and> containsStr ''winhttp'' (toLower (ev_ID evidence)))"

definition readsWinINET :: "environmentCodec \<Rightarrow> Evidence \<Rightarrow> bool" where
  "readsWinINET codec evidence \<longleftrightarrow>
     ev_Kind evidence = EvidenceKindWinINETProxy \<and> \<not> isl (jv_Configuration codec (ev_Raw evidence))"

definition readsFirewall :: "environmentCodec \<Rightarrow> Evidence \<Rightarrow> bool" where
  "readsFirewall codec evidence \<longleftrightarrow>
     ev_Kind evidence = EvidenceKindFirewallProfile \<and> \<not> isl (jv_Firewall codec (ev_Raw evidence))"

definition readsTrust :: "environmentCodec \<Rightarrow> Evidence \<Rightarrow> bool" where
  "readsTrust codec evidence \<longleftrightarrow>
     ev_Kind evidence = EvidenceKindTLSTrust \<and> \<not> isl (jv_Trust codec (ev_Raw evidence))"

text \<open>Some evidence of the probes has the property.\<close>

definition someEvidence :: "(Evidence \<Rightarrow> bool) \<Rightarrow> ProbeResult list \<Rightarrow> bool" where
  "someEvidence P probes \<longleftrightarrow> list_ex (\<lambda>probe. list_ex P (pr_Evidence probe)) probes"

text \<open>A flag of the loop that an evidence item raises exactly when it is read.\<close>

locale collected_flag =
  fixes flag :: "collectState \<Rightarrow> bool" and reads :: "routeCodec \<Rightarrow> environmentCodec \<Rightarrow> Evidence \<Rightarrow> bool"
  assumes evidence_flag: "flag (collectEvidence routes codec evidence s) \<longleftrightarrow> flag s \<or> reads routes codec evidence"
    and limitation_flag: "\<And>limits a b c. flag (s\<lparr>ks_collection := (ks_collection s)\<lparr>cl_Limitations := limits,
        cl_InterfacesUnsupported := a, cl_DNSUnsupported := b, cl_ProxyUnsupported := c\<rparr>\<rparr>) \<longleftrightarrow> flag s"
begin

lemma fold_flag: "flag (fold (collectEvidence routes codec) es s) \<longleftrightarrow> flag s \<or> list_ex (reads routes codec) es"
  by (induction es arbitrary: s) (simp_all add: evidence_flag)

lemma probe_flag:
  "flag (collectProbe routes codec probe s) \<longleftrightarrow> flag s \<or> list_ex (reads routes codec) (pr_Evidence probe)"
  by (simp add: collectProbe_def Let_def limitation_flag fold_flag)

lemma probes_flag: "flag (fold (collectProbe routes codec) probes s) \<longleftrightarrow> flag s \<or> someEvidence (reads routes codec) probes"
  by (induction probes arbitrary: s) (auto simp: someEvidence_def probe_flag)

end

lemmas collect_steps = collectEvidence_def collectKind_def collectInterfaces_def collectDNS_def collectRoute_def
  collectWinHTTP_def Let_def

text \<open>The kinds that are read.\<close>

lemma kind_cases:
  obtains "kind = EvidenceKindInterfaceState" | "kind = EvidenceKindDNSConfiguration" | "kind = EvidenceKindRoute"
  | "kind = EvidenceKindWinHTTPProxy" | "kind = EvidenceKindProxyConfiguration" | "kind = EvidenceKindWinINETProxy"
  | "kind = EvidenceKindFirewallProfile" | "kind = EvidenceKindTLSTrust"
  | "kind \<notin> {EvidenceKindInterfaceState, EvidenceKindDNSConfiguration, EvidenceKindRoute, EvidenceKindWinHTTPProxy,
      EvidenceKindProxyConfiguration, EvidenceKindWinINETProxy, EvidenceKindFirewallProfile, EvidenceKindTLSTrust}"
  by blast

lemma interfaces_read:
  "ks_interfaces (collectEvidence routes codec evidence s) \<longleftrightarrow> ks_interfaces s \<or> readsInterfaces codec evidence"
  by (cases rule: kind_cases [of "ev_Kind evidence"])
    (simp_all add: collect_steps readsInterfaces_def readsDNS_def go_consts split: sum.split option.split)

lemma dns_read:
  "ks_dns (collectEvidence routes codec evidence s) \<longleftrightarrow> ks_dns s \<or> readsDNS codec evidence"
  by (cases rule: kind_cases [of "ev_Kind evidence"])
    (simp_all add: collect_steps readsDNS_def go_consts split: sum.split option.split)

lemma routes_read:
  "ks_routes (collectEvidence routes codec evidence s) \<longleftrightarrow> ks_routes s \<or> readsDefaultRoute routes evidence"
  by (cases rule: kind_cases [of "ev_Kind evidence"])
    (simp_all add: collect_steps readsDefaultRoute_def go_consts split: sum.split option.split)

lemma winhttp_read:
  "cl_WinHTTPKnown (ks_collection (collectEvidence routes codec evidence s)) \<longleftrightarrow> cl_WinHTTPKnown (ks_collection s) \<or> readsWinHTTP codec evidence"
  by (cases rule: kind_cases [of "ev_Kind evidence"])
    (simp_all add: collect_steps readsWinHTTP_def go_consts split: sum.split option.split)

lemma wininet_read:
  "cl_WinINETKnown (ks_collection (collectEvidence routes codec evidence s)) \<longleftrightarrow> cl_WinINETKnown (ks_collection s) \<or> readsWinINET codec evidence"
  by (cases rule: kind_cases [of "ev_Kind evidence"])
    (simp_all add: collect_steps readsWinINET_def go_consts split: sum.split option.split)

lemma firewall_read:
  "cl_FirewallKnown (ks_collection (collectEvidence routes codec evidence s)) \<longleftrightarrow> cl_FirewallKnown (ks_collection s) \<or> readsFirewall codec evidence"
  by (cases rule: kind_cases [of "ev_Kind evidence"])
    (simp_all add: collect_steps readsFirewall_def go_consts split: sum.split option.split)

lemma trust_read:
  "cl_TrustKnown (ks_collection (collectEvidence routes codec evidence s)) \<longleftrightarrow> cl_TrustKnown (ks_collection s) \<or> readsTrust codec evidence"
  by (cases rule: kind_cases [of "ev_Kind evidence"])
    (simp_all add: collect_steps readsTrust_def go_consts split: sum.split option.split)

interpretation interfaces_flag: collected_flag ks_interfaces "\<lambda>routes. readsInterfaces"
  by unfold_locales (simp_all add: interfaces_read)

interpretation dns_flag: collected_flag ks_dns "\<lambda>routes. readsDNS"
  by unfold_locales (simp_all add: dns_read)

interpretation routes_flag: collected_flag ks_routes "\<lambda>routes codec. readsDefaultRoute routes"
  by unfold_locales (simp_all add: routes_read)

interpretation winhttp_flag: collected_flag "\<lambda>s. cl_WinHTTPKnown (ks_collection s)" "\<lambda>routes. readsWinHTTP"
  by unfold_locales (simp_all add: winhttp_read)

interpretation wininet_flag: collected_flag "\<lambda>s. cl_WinINETKnown (ks_collection s)" "\<lambda>routes. readsWinINET"
  by unfold_locales (simp_all add: wininet_read)

interpretation firewall_flag: collected_flag "\<lambda>s. cl_FirewallKnown (ks_collection s)" "\<lambda>routes. readsFirewall"
  by unfold_locales (simp_all add: firewall_read)

interpretation trust_flag: collected_flag "\<lambda>s. cl_TrustKnown (ks_collection s)" "\<lambda>routes. readsTrust"
  by unfold_locales (simp_all add: trust_read)

lemma collection_known:
  "cl_InterfacesKnown (collectionOf routes codec probes) \<longleftrightarrow> someEvidence (readsInterfaces codec) probes"
  "cl_DNSKnown (collectionOf routes codec probes) \<longleftrightarrow> someEvidence (readsDNS codec) probes"
  "cl_RoutesKnown (collectionOf routes codec probes) \<longleftrightarrow> someEvidence (readsDefaultRoute routes) probes"
  "cl_WinHTTPKnown (collectionOf routes codec probes) \<longleftrightarrow> someEvidence (readsWinHTTP codec) probes"
  "cl_WinINETKnown (collectionOf routes codec probes) \<longleftrightarrow> someEvidence (readsWinINET codec) probes"
  "cl_FirewallKnown (collectionOf routes codec probes) \<longleftrightarrow> someEvidence (readsFirewall codec) probes"
  "cl_TrustKnown (collectionOf routes codec probes) \<longleftrightarrow> someEvidence (readsTrust codec) probes"
  by (simp_all add: collectionOf_def Let_def interfaces_flag.probes_flag dns_flag.probes_flag routes_flag.probes_flag
      winhttp_flag.probes_flag wininet_flag.probes_flag firewall_flag.probes_flag trust_flag.probes_flag)
    (simp_all add: zero_Collection_def)

text \<open>A probe of that name reported that its subsystem is unsupported.\<close>

definition probeUnsupported :: "string \<Rightarrow> ProbeResult list \<Rightarrow> bool" where
  "probeUnsupported name probes \<longleftrightarrow>
     list_ex (\<lambda>probe. pr_Name probe = name \<and> pin_FailureReason (pr_Interpretation probe) = FailureReasonUnsupported) probes"

lemma collectKind_untouched:
  "cl_InterfacesUnsupported (ks_collection (collectKind routes codec evidence s)) = cl_InterfacesUnsupported (ks_collection s)
   \<and> cl_EnterpriseUnsupported (ks_collection (collectKind routes codec evidence s)) = cl_EnterpriseUnsupported (ks_collection s)"
  (is "?P (collectKind routes codec evidence s)")
  unfolding collectKind_def Let_def
  by (intro if_choice [where P = ?P] sum_choice [where P = ?P])
    (simp_all add: collectInterfaces_def collectDNS_def collectRoute_def collectWinHTTP_def Let_def split: option.split)

lemma evidence_untouched [simp]:
  "cl_InterfacesUnsupported (ks_collection (collectEvidence routes codec evidence s)) = cl_InterfacesUnsupported (ks_collection s)"
  "cl_EnterpriseUnsupported (ks_collection (collectEvidence routes codec evidence s)) = cl_EnterpriseUnsupported (ks_collection s)"
  by (simp_all add: collectEvidence_def Let_def collectKind_untouched)

lemma fold_untouched [simp]:
  "cl_InterfacesUnsupported (ks_collection (fold (collectEvidence routes codec) es s)) = cl_InterfacesUnsupported (ks_collection s)"
  "cl_EnterpriseUnsupported (ks_collection (fold (collectEvidence routes codec) es s)) = cl_EnterpriseUnsupported (ks_collection s)"
  by (induction es arbitrary: s) simp_all

lemma probes_unsupported:
  "cl_InterfacesUnsupported (ks_collection (fold (collectProbe routes codec) probes s)) \<longleftrightarrow>
     cl_InterfacesUnsupported (ks_collection s) \<or> probeUnsupported InterfaceProbeName probes"
  "cl_EnterpriseUnsupported (ks_collection (fold (collectProbe routes codec) probes s)) =
     cl_EnterpriseUnsupported (ks_collection s)"
  by (induction probes arbitrary: s) (auto simp: collectProbe_def probeUnsupported_def Let_def)

lemma collection_unsupported [simp]:
  "cl_InterfacesUnsupported (collectionOf routes codec probes) \<longleftrightarrow> probeUnsupported InterfaceProbeName probes"
  "\<not> cl_EnterpriseUnsupported (collectionOf routes codec probes)"
  by (simp_all add: collectionOf_def Let_def probes_unsupported) (simp_all add: zero_Collection_def)

section \<open>The snapshot\<close>

lemma build_environment [simp]:
  "vs_InterfacesState (BuildEnvironment host f c t) =
     (if cl_InterfacesUnsupported c then EnvironmentStateUnsupported
      else if cl_InterfacesKnown c then EnvironmentStateObserved else EnvironmentStateUnknown)"
  "vs_DNS (BuildEnvironment host f c t) = normalizeEnvironmentDNS (buildDNS c)"
  "vs_Routing (BuildEnvironment host f c t) = normalizeRouting (buildRouting c)"
  "vs_Proxy (BuildEnvironment host f c t) = normalizeEnvironmentProxy (buildProxy f c)"
  "vs_Firewall (BuildEnvironment host f c t) = normalizeEnterpriseFirewall (buildFirewall c)"
  "vs_Trust (BuildEnvironment host f c t) = normalizeTrust (buildTrust c)"
  "vs_EvidenceIDs (BuildEnvironment host f c t) = uniqueSorted (cl_EvidenceIDs c)"
  by (simp_all add: BuildEnvironment_def normalizeSnapshot_def projectedSnapshot_def initialSnapshot_def firewall_of_policy Let_def)

lemma environment_states [simp]:
  "EnvironmentStateObserved \<noteq> EnvironmentStateUnknown" "EnvironmentStateObserved \<noteq> EnvironmentStateUnsupported"
  "EnvironmentStatePartial \<noteq> EnvironmentStateUnknown" "EnvironmentStatePartial \<noteq> EnvironmentStateUnsupported"
  "EnvironmentStateUnknown \<noteq> EnvironmentStateObserved" "EnvironmentStateUnsupported \<noteq> EnvironmentStateObserved"
  "EnvironmentStateUnknown \<noteq> EnvironmentStatePartial" "EnvironmentStateUnsupported \<noteq> EnvironmentStatePartial"
  "EnvironmentStateUnknown \<noteq> EnvironmentStateConfigured" "EnvironmentStateUnsupported \<noteq> EnvironmentStateConfigured"
  "EnvironmentStateUnknown \<noteq> EnvironmentStateConflicting" "EnvironmentStateUnsupported \<noteq> EnvironmentStateConflicting"
  "EnvironmentStateConflicting \<noteq> EnvironmentStateConfigured" "EnvironmentStatePartial \<noteq> EnvironmentStateConfigured"
  "EnvironmentStateUnsupported \<noteq> EnvironmentStateUnknown" "EnvironmentStateUnknown \<noteq> []"
  "EnterpriseObservationStateObserved \<noteq> EnterpriseObservationStateUnknown"
  "EnterpriseObservationStateObserved \<noteq> EnterpriseObservationStateUnsupported"
  "EnterpriseObservationStateUnknown \<noteq> EnterpriseObservationStateObserved"
  "EnterpriseObservationStateUnsupported \<noteq> EnterpriseObservationStateObserved" "[] \<noteq> EnvironmentStateUnknown"
  by (simp_all add: go_consts)

lemma dns_state: "vd_State (buildDNS c) \<in> {EnvironmentStateObserved, EnvironmentStatePartial} \<longleftrightarrow> cl_DNSKnown c"
  by (simp add: buildDNS_def Let_def)

lemma routing_state:
  "vg_State (buildRouting c) \<in> {EnvironmentStateObserved, EnvironmentStatePartial} \<longleftrightarrow> cl_RoutesKnown c"
  by (simp add: buildRouting_def Let_def)

lemma routes_bounded: "length (vg_Routes (buildRouting c)) \<le> maxRoutes"
  by (simp add: buildRouting_def boundedRoutes_def markDefault_def markSelectedRoute_def Let_def split: option.split)

lemma proxy_state:
  "vpx_State (buildProxy f c) \<in> {EnvironmentStateConfigured, EnvironmentStatePartial, EnvironmentStateConflicting}
     \<longleftrightarrow> cl_WinHTTPKnown c \<or> cl_WinINETKnown c"
  "vpx_ConfigurationKnown (buildProxy f c) \<longleftrightarrow> cl_WinHTTPKnown c \<and> cl_WinINETKnown c"
  by (auto simp: buildProxy_def proxyStates_def Let_def)

lemma firewall_state:
  "efw_State (buildFirewall c) = EnterpriseObservationStateObserved \<longleftrightarrow> cl_FirewallKnown c"
  by (simp add: buildFirewall_def Let_def)

lemma trust_state: "\<not> cl_EnterpriseUnsupported c \<Longrightarrow> vt_State (buildTrust c) = EnvironmentStateUnknown \<longleftrightarrow> \<not> cl_TrustKnown c"
  by (simp add: buildTrust_def zero_EnvironmentTrustObservation_def Let_def)


section \<open>Cited evidence\<close>

lemma set_addUnique: "set (addUnique ids value) = set ids \<union> ({trimSpace value} - {[]})"
  by (auto simp: addUnique_def Let_def)

lemma collectEvidence_ids [simp]:
  "cl_EvidenceIDs (ks_collection (collectEvidence routes codec evidence s)) =
     addUnique (cl_EvidenceIDs (ks_collection s)) (ev_ID evidence)"
  by (cases rule: kind_cases [of "ev_Kind evidence"])
    (simp_all add: collect_steps go_consts split: sum.split option.split)

lemma collectProbe_ids:
  "set (cl_EvidenceIDs (ks_collection (collectProbe routes codec probe s))) =
     set (cl_EvidenceIDs (ks_collection s)) \<union> (trimSpace ` ev_ID ` set (pr_Evidence probe) - {[]})"
proof -
  have "set (cl_EvidenceIDs (ks_collection (fold (collectEvidence routes codec) es s))) =
      set (cl_EvidenceIDs (ks_collection s)) \<union> (trimSpace ` ev_ID ` set es - {[]})" for es
    by (induction es arbitrary: s) (auto simp: set_addUnique)
  then show ?thesis by (simp add: collectProbe_def Let_def)
qed

lemma collection_ids: "set (cl_EvidenceIDs (collectionOf routes codec probes)) = trimSpace ` carriedIDs probes - {[]}"
proof -
  have "set (cl_EvidenceIDs (ks_collection (fold (collectProbe routes codec) probes s))) =
      set (cl_EvidenceIDs (ks_collection s)) \<union> (trimSpace ` carriedIDs probes - {[]})" for s
    by (induction probes arbitrary: s) (auto simp: collectProbe_ids image_Un)
  then show ?thesis by (simp add: collectionOf_def Let_def) (simp add: zero_Collection_def)
qed

lemma set_uniqueSorted: "set (uniqueSorted xs) = trimSpace ` set xs - {[]}"
  by (auto simp: uniqueSorted_def uniqueNormalized_set)

lemma trim_twice: "trimSpace ` (trimSpace ` A - {[]}) - {[]} = trimSpace ` A - {[]}"
proof
  show "trimSpace ` A - {[]} \<subseteq> trimSpace ` (trimSpace ` A - {[]}) - {[]}"
  proof
    fix x assume x: "x \<in> trimSpace ` A - {[]}"
    then have "trimSpace x = x" by auto
    then show "x \<in> trimSpace ` (trimSpace ` A - {[]}) - {[]}" using x by (metis Diff_iff image_eqI)
  qed
qed auto

lemma environment_ids:
  "set (vs_EvidenceIDs (BuildFromProbeResults host routes codec probes capturedAt)) = trimSpace ` carriedIDs probes - {[]}"
  by (simp add: BuildFromProbeResults_def set_uniqueSorted collection_ids trim_twice)

lemma environment_unblamed: "unblamed (vs_Firewall (BuildFromProbeResults host routes codec probes capturedAt))"
proof -
  have "trimSpace EnterpriseFirewallCausalityNotEstablished = EnterpriseFirewallCausalityNotEstablished" by code_simp
  then show ?thesis
    by (auto simp: BuildFromProbeResults_def unblamed_def normalizeEnterpriseFirewall_def normalizeFirewallProfile_def
        buildFirewall_def buildFirewallProfile_def zero_EnterpriseFirewallObservation_def Let_def)
qed

section \<open>Runs at sample inputs\<close>

text \<open>A trust store that was observed to be available gets no state, and the capability is reported as unknown.\<close>

definition availableTrust :: Collection where
  "availableTrust = zero_Collection\<lparr>cl_TrustKnown := True,
     cl_TrustStore := zero_TrustStoreObservation\<lparr>tso_Available := True, tso_RootCount := 7\<rparr>\<rparr>"

lemma available_trust_unknown:
  "vt_Available (buildTrust availableTrust) \<and> vt_Certainty (buildTrust availableTrust) = ObservationCertaintyObserved
   \<and> vt_State (buildTrust availableTrust) = [] \<and> capabilityState (vt_State (buildTrust availableTrust)) = EnvironmentCapabilityUnknown"
  by code_simp

text \<open>Interfaces that are known to hold no VPN leave the VPN without a state.\<close>

lemma absent_vpn_stateless:
  "vv_PresentKnown (buildVPN (zero_Collection\<lparr>cl_InterfacesKnown := True\<rparr>) [] zero_EnvironmentRoutingObservation)
   \<and> vv_State (buildVPN (zero_Collection\<lparr>cl_InterfacesKnown := True\<rparr>) [] zero_EnvironmentRoutingObservation) = []"
  by code_simp

text \<open>
  When a more specific route to the target is selected, the default route probe writes that route as
  its evidence, with the type \<open>default\<close> and the note that no default route is required. The
  environment takes it for an observed route of the table.
\<close>

definition specificRoute :: RouteObservation where
  "specificRoute = (selectedRouteEvidence ''default''
     \<lparr>sl_Target = V4 [10, 2, 7, 9], sl_Selected = zero_Route\<lparr>rt_Destination := prefixFrom (V4 [10, 2, 0, 0]) 16\<rparr>,
       sl_Candidates = [], sl_Ambiguous = False\<rparr> ''10.2.7.9'' None)\<lparr>
     ro_DefaultRouteApplicable := Some False,
     ro_Error := ''default route is not required; a more-specific target route is selected''\<rparr>"

lemma target_route_collected:
  "map (\<lambda>r. prefixString (rt_Destination r)) (cl_Routes (ks_collection (collectRoute specificRoute
     \<lparr>ks_collection = zero_Collection, ks_dns = False, ks_interfaces = False, ks_routes = False, ks_proxy = False\<rparr>)))
   = [''10.2.0.0/16'']"
  by code_simp

end
