(* ===== verification/BuildFacts.thy ===== *)
theory BuildFacts
  imports Builder EnvironmentFacts
begin

text \<open>
  What holds of the whole envelope that \<open>Build\<close> of \<open>internal/observations/builder.go\<close> makes: it does
  not depend on the order of arrival, it cites only evidence that the probes carry and, for the
  enterprise policy and the environment, all of it, and it never blames a firewall.
\<close>

section \<open>The order of arrival\<close>

text \<open>C21: The whole envelope does not depend on the order in which the probe results arrive: results that
  differ in name, probe ID, correlation ID or content key give the same observations in any order.
\<close>

theorem Build_arrival_order:
  assumes "mset arrived = mset probes" "distinct (map probeKeys probes)"
  shows "Build codec target arrived = Build codec target probes"
  by (simp add: Build_def arrival_order_irrelevant [OF assms])

theorem Build_arrival_order_witness:
  "\<forall>codec target. Build codec target [tcpProbe, dnsProbe] = Build codec target [dnsProbe, tcpProbe]"
  by (intro allI Build_arrival_order)
    (simp_all add: tcpProbe_def dnsProbe_def probeKeys_def zero_ProbeResult_def)

section \<open>The evidence of the network context\<close>

lemma carriedIDs_concat: "carriedIDs probes = ev_ID ` set (concat (map pr_Evidence probes))"
  by (auto simp: carriedIDs_def)

lemma set_uniqueNonEmpty: "set (uniqueNonEmpty xs) = set xs - {[]}"
proof -
  have "(\<lambda>v. v) ` set (uniqueBy (\<lambda>v. v) [] ys) = set ys" for ys :: "string list" unfolding uniqueBy_keys by simp
  then show ?thesis unfolding uniqueNonEmpty_def by auto
qed

lemma set_evidenceIDsOf: "set (evidenceIDsOf es) = ev_ID ` set es - {[]}"
proof -
  have "set (fold (\<lambda>value result. appendUnique result [ev_ID value]) es ids) = set ids \<union> (ev_ID ` set es - {[]})" for ids
    by (induction es arbitrary: ids) (auto simp: set_appendUnique)
  then show ?thesis by (simp add: evidenceIDsOf_def)
qed

lemma probeEvidenceIDs_carried: "probe \<in> set probes \<Longrightarrow> set (probeEvidenceIDs probe) \<subseteq> carriedIDs probes"
  by (auto simp: probeEvidenceIDs_def set_evidenceIDsOf carriedIDs_def)

text \<open>The evidence that the context was read from is the probes'.\<close>

definition contextFrom :: "Evidence set \<Rightarrow> contextState \<Rightarrow> bool" where
  "contextFrom E s \<longleftrightarrow> (case cs_route s of None \<Rightarrow> True | Some found \<Rightarrow> snd found \<in> E)
     \<and> (case cs_interfaceEvidence s of None \<Rightarrow> True | Some e \<Rightarrow> e \<in> E)"

lemma contextFrom_updates:
  "e \<in> E \<Longrightarrow> contextFrom E s \<Longrightarrow> contextFrom E (s\<lparr>cs_route := Some (o0, e)\<rparr>)"
  "e \<in> E \<Longrightarrow> contextFrom E s
     \<Longrightarrow> contextFrom E (s\<lparr>cs_interfaces := is, cs_interfaceEvidence := if ok then Some e else cs_interfaceEvidence s\<rparr>)"
  by (simp_all add: contextFrom_def)

lemma contextFrom_route:
  assumes "e \<in> E" "contextFrom E s"
  shows "contextFrom E (contextRouteStep codec seen e s)"
  unfolding contextRouteStep_def
  by (intro if_choice [where P = "contextFrom E"] sum_choice [where P = "contextFrom E"] assms
      contextFrom_updates)

lemma contextFrom_interface:
  assumes "e \<in> E" "contextFrom E s"
  shows "contextFrom E (contextInterfaceStep codec e s)"
  unfolding contextInterfaceStep_def Let_def case_prod_beta
  by (intro if_choice [where P = "contextFrom E"] assms contextFrom_updates)

lemma contextFrom_steps:
  "e \<in> E \<Longrightarrow> contextFrom E s \<Longrightarrow> contextFrom E (contextInterfaceStep codec e (contextRouteStep codec seen e s))"
  by (intro contextFrom_interface contextFrom_route)

lemma contextFrom_evidence: "contextFrom (set (concat (map pr_Evidence probes))) (contextEvidence codec probes)"
proof -
  have "contextFrom E (fold (\<lambda>evidence s. contextInterfaceStep codec evidence (contextRouteStep codec seen evidence s)) es s)"
    if "contextFrom E s" "set es \<subseteq> E" for E es s seen
    using that by (induction es arbitrary: s) (simp_all add: contextFrom_steps)
  moreover have "contextFrom E \<lparr>cs_route = None, cs_interfaces = [], cs_interfaceEvidence = None\<rparr>" for E
    by (simp add: contextFrom_def)
  ultimately show ?thesis unfolding contextEvidence_def Let_def by blast
qed

lemma contextInterface_ids [simp]: "nc_EvidenceIDs (contextInterface selected target iface c) = nc_EvidenceIDs c"
  by (simp add: contextInterface_def Let_def split: option.split)

lemma BuildNetworkContext_ids: "set (nc_EvidenceIDs (BuildNetworkContext target selection interfaces neighbor provenance ids)) = set ids - {[]}"
  by (simp add: BuildNetworkContext_def Let_def set_uniqueNonEmpty)

text \<open>The empty ID stands for interface evidence that there is none of.\<close>

lemma context_ids:
  assumes "NetworkContextFromProbeResults codec target probes = Some c"
  shows "set (nc_EvidenceIDs c) \<subseteq> carriedIDs probes"
proof (cases "cs_route (contextEvidence codec probes)")
  case None
  then have "unreadRoute target probes = Some c" using assms by (simp add: NetworkContextFromProbeResults_def Let_def)
  then obtain evidence rest where "filter (\<lambda>e. ev_Kind e = EvidenceKindRoute)
      (concat (map pr_Evidence (filter (\<lambda>p. pr_Name p = TargetRouteProbeName) probes))) = evidence # rest"
    and c: "set (nc_EvidenceIDs c) \<subseteq> {ev_ID evidence}"
    by (auto simp: unreadRoute_def set_uniqueNonEmpty split: list.splits)
  then have "evidence \<in> set (filter (\<lambda>e. ev_Kind e = EvidenceKindRoute)
      (concat (map pr_Evidence (filter (\<lambda>p. pr_Name p = TargetRouteProbeName) probes))))" by simp
  then have "evidence \<in> set (concat (map pr_Evidence probes))" by auto
  then show ?thesis using c by (auto simp: carriedIDs_concat)
next
  case (Some found)
  obtain observation evidence where found: "found = (observation, evidence)" by (cases found)
  have source: "evidence \<in> set (concat (map pr_Evidence probes))"
    "\<And>e. cs_interfaceEvidence (contextEvidence codec probes) = Some e \<Longrightarrow> e \<in> set (concat (map pr_Evidence probes))"
    using contextFrom_evidence [of probes codec] Some found by (auto simp: contextFrom_def)
  have "set (nc_EvidenceIDs c) \<subseteq> insert (ev_ID evidence)
      (case cs_interfaceEvidence (contextEvidence codec probes) of None \<Rightarrow> {} | Some e \<Rightarrow> {ev_ID e})"
    using assms Some found
    by (auto simp: NetworkContextFromProbeResults_def BuildNetworkContext_ids Let_def split: option.splits)
  then show ?thesis using source by (auto simp: carriedIDs_concat split: option.splits)
qed

lemma placeholder_ids: "set (nc_EvidenceIDs (placeholderContext target probes)) \<subseteq> carriedIDs probes"
proof -
  have "set (nc_EvidenceIDs (fold placeholderStep ps c)) \<subseteq> set (nc_EvidenceIDs c) \<union> carriedIDs probes"
    if "set ps \<subseteq> set probes" for ps c
    using that
  proof (induction ps arbitrary: c)
    case (Cons p ps)
    have "set (nc_EvidenceIDs (placeholderStep p c)) \<subseteq> set (nc_EvidenceIDs c) \<union> carriedIDs probes"
      using probeEvidenceIDs_carried [of p probes] Cons.prems by (auto simp: placeholderStep_def set_appendUnique)
    then show ?case using Cons.IH [of "placeholderStep p c"] Cons.prems by auto
  qed simp
  from this [of probes "(emptyContext target)\<lparr>nc_Certainty := ObservationCertaintyUnknown\<rparr>"] show ?thesis
    by (simp add: placeholderContext_def emptyContext_def zero_NetworkContext_def)
qed

lemma usableGateway_evidence: "(p, e, route) \<in> set (usableGateway codec probe) \<Longrightarrow> e \<in> set (pr_Evidence probe)"
  by (auto simp: usableGateway_def split: sum.splits if_splits)

lemma gateway_ids: "set (nc_EvidenceIDs (gatewayFallback codec probes c)) \<subseteq> set (nc_EvidenceIDs c) \<union> carriedIDs probes"
proof (induction codec probes c rule: gatewayFallback.induct)
  case (2 codec probe probes c)
  show ?case
  proof (cases "usableGateway codec probe")
    case Nil
    then show ?thesis using 2 by auto
  next
    case (Cons found rest)
    obtain p e route where found: "found = (p, e, route)" by (cases found)
    have "e \<in> set (pr_Evidence probe)" by (rule usableGateway_evidence [of p e route codec]) (simp add: Cons found)
    moreover have "set (nc_EvidenceIDs (applyGateway found c)) \<subseteq> insert (ev_ID e) (set (nc_EvidenceIDs c))"
      by (auto simp: found applyGateway_def set_appendUnique)
    ultimately show ?thesis using 2 Cons by (auto 4 4)
  qed
qed simp

lemma cite_ids: "set (nc_EvidenceIDs (fold citeStep probes c)) \<subseteq> set (nc_EvidenceIDs c) \<union> carriedIDs probes"
proof (induction probes arbitrary: c)
  case (Cons probe probes)
  have "set (nc_EvidenceIDs (fold (\<lambda>e c. c\<lparr>nc_EvidenceIDs := appendUnique (nc_EvidenceIDs c) [ev_ID e],
      nc_Provenance := f e c\<rparr>) es c)) \<subseteq> set (nc_EvidenceIDs c) \<union> ev_ID ` set es" for f es c
  proof (induction es arbitrary: c)
    case (Cons e es)
    show ?case using Cons.IH [of "c\<lparr>nc_EvidenceIDs := appendUnique (nc_EvidenceIDs c) [ev_ID e],
      nc_Provenance := f e c\<rparr>"] by (auto simp: set_appendUnique)
  qed simp
  note inner = this
  let ?relevant = "filter (\<lambda>e. ev_Kind e = EvidenceKindRoute \<or> ev_Kind e = EvidenceKindInterfaceState) (pr_Evidence probe)"
  let ?prov = "\<lambda>e c. if ev_Source e \<noteq> [] then appendUnique (nc_Provenance c) [ev_Source e] else nc_Provenance c"
  have "nc_EvidenceIDs (citeStep probe c) = nc_EvidenceIDs (fold (\<lambda>e c. c\<lparr>
      nc_EvidenceIDs := appendUnique (nc_EvidenceIDs c) [ev_ID e], nc_Provenance := ?prov e c\<rparr>) ?relevant c)"
    by (simp add: citeStep_def Let_def)
  then have "set (nc_EvidenceIDs (citeStep probe c)) \<subseteq> set (nc_EvidenceIDs c) \<union> ev_ID ` set (pr_Evidence probe)"
    using inner [of ?prov ?relevant c] by auto
  then show ?case using Cons.IH [of "citeStep probe c"] by auto
qed simp

lemma failure_ids: "set (nc_EvidenceIDs (applyFailures probes failures c)) \<subseteq> set (nc_EvidenceIDs c) \<union> carriedIDs probes"
  using probeEvidenceIDs_carried
  by (auto simp: applyFailures_def set_appendUnique find_Some_iff split: list.splits option.splits)
    (metis nth_mem probeEvidenceIDs_carried subsetD)

lemma network_ids: "set (nc_EvidenceIDs (buildNetworkObservation codec target probes)) \<subseteq> carriedIDs probes"
proof -
  have initial: "set (nc_EvidenceIDs (initialNetwork codec target probes)) \<subseteq> carriedIDs probes"
    using gateway_ids [of codec probes] placeholder_ids [of target probes] context_ids [of codec target probes]
    unfolding initialNetwork_def by (fastforce split: option.splits)
  have settled: "nc_EvidenceIDs (settleNetworkCertainty probes c) = nc_EvidenceIDs c"
    "nc_EvidenceIDs (detectRouteConflicts codec probes c) = nc_EvidenceIDs c" for c
    by (simp_all add: settleNetworkCertainty_def detectRouteConflicts_def Let_def)
  let ?c = "fold citeStep probes (initialNetwork codec target probes)"
  show ?thesis unfolding buildNetworkObservation_def settled
    using failure_ids [of probes "concat (map lowerLayerFailure probes)" ?c]
      cite_ids [of probes "initialNetwork codec target probes"] initial by blast
qed

section \<open>The evidence of the envelope\<close>

lemma carriedIDs_set: "set ps = set qs \<Longrightarrow> carriedIDs ps = carriedIDs qs"
  by (simp add: carriedIDs_def)

lemma carriedIDs_ordered [simp]: "carriedIDs (orderedProbes probes) = carriedIDs probes"
  by (simp add: orderedProbes_def carriedIDs_def orderedEvidence_def)

lemma carriedIDs_enterprise [simp]:
  "carriedIDs (enterpriseProbes (orderedProbes probes)) = carriedIDs (enterpriseProbes probes)"
  by (auto simp: orderedProbes_def enterpriseProbes_def carriedIDs_def orderedEvidence_def)

lemma normalized_ids:
  "tpo_EvidenceIDs (NormalizeTransportObservation t) = tpo_EvidenceIDs t"
  "so_EvidenceIDs (NormalizeSecurityObservation s) = so_EvidenceIDs s"
  "ao_EvidenceIDs (NormalizeApplicationObservation a) = ao_EvidenceIDs a"
  "nc_EvidenceIDs (cloneNetworkContext c) = nc_EvidenceIDs c"
  "eno_EvidenceIDs (NormalizeEnterprisePolicyObservation p) = uniqueStringValues (eno_EvidenceIDs p)"
  "vs_EvidenceIDs (normalizeSnapshot e) = uniqueSorted (vs_EvidenceIDs e)"
  by (simp_all add: NormalizeTransportObservation_def NormalizeSecurityObservation_def
      NormalizeApplicationObservation_def cloneNetworkContext_def NormalizeEnterprisePolicyObservation_def
      normalizeSnapshot_def Let_def)

lemma application_ids:
  "set (ao_EvidenceIDs (buildApplicationObservation codec target endpoint transport probes)) \<subseteq> carriedIDs probes"
  using dns_ids protocol_ids web_ids by (simp add: buildApplicationObservation_def)

text \<open>C20: No evidence is invented and none is lost: transport, security, application and network context
  of an envelope cite only evidence IDs that some probe carries; the enterprise policy cites exactly
  the IDs of the enterprise probe's evidence and the environment exactly those of all evidence,
  trimmed and without empty ones.
\<close>

theorem Build_evidence_carried:
  "set (tpo_EvidenceIDs (ob_Transport (Build codec target probes))) \<subseteq> carriedIDs probes
   \<and> set (so_EvidenceIDs (ob_Security (Build codec target probes))) \<subseteq> carriedIDs probes
   \<and> set (ao_EvidenceIDs (ob_Application (Build codec target probes))) \<subseteq> carriedIDs probes
   \<and> set (nc_EvidenceIDs (ob_NetworkContext (Build codec target probes))) \<subseteq> carriedIDs probes
   \<and> set (eno_EvidenceIDs (ob_EnterprisePolicy (Build codec target probes))) =
      trimSpace ` carriedIDs (enterpriseProbes probes) - {[]}
   \<and> map_option (\<lambda>env. set (vs_EvidenceIDs env)) (ob_Environment (Build codec target probes)) =
      Some (trimSpace ` carriedIDs probes - {[]})"
proof -
  let ?ordered = "orderedProbes probes"
  have trims: "trimSpace ` trimSpace ` A = trimSpace ` A"
    "{v \<in> trimSpace ` (A - {[]}). v \<noteq> []} = trimSpace ` A - {[]}" for A
    by (auto simp: image_image)
  show ?thesis
    using transport_ids [where probes = ?ordered] security_ids [where probes = ?ordered]
      application_ids [where probes = ?ordered] network_ids [where probes = ?ordered]
    by (simp add: Build_def NormalizeObservations_def projected_def builtNetwork_def builtPolicy_def normalized_ids
        NormalizeEnvironmentSnapshot_def set_uniqueSorted environment_ids policy_ids uniqueStringValues_def
        uniqueNormalized_set trims trim_twice Let_def)
qed

section \<open>Firewalls\<close>

lemma normalized_unblamed: "unblamed f \<Longrightarrow> unblamed (normalizeEnterpriseFirewall f)"
proof -
  have "trimSpace EnterpriseFirewallCausalityNotEstablished = EnterpriseFirewallCausalityNotEstablished" by code_simp
  then show "unblamed f \<Longrightarrow> unblamed (normalizeEnterpriseFirewall f)"
    by (auto simp: unblamed_def normalizeEnterpriseFirewall_def normalizeFirewallProfile_def)
qed

text \<open>A firewall is never blamed: whatever the evidence says, the envelope states of every firewall and
  every profile, in the enterprise policy and in the environment, that blocking by it is not
  established.
\<close>

theorem firewall_never_blamed:
  "efw_BlockCausality (eno_Firewall (ob_EnterprisePolicy (Build codec target probes))) = EnterpriseFirewallCausalityNotEstablished
   \<and> efp_BlockCausality ` set (efw_Profiles (eno_Firewall (ob_EnterprisePolicy (Build codec target probes))))
      \<subseteq> {EnterpriseFirewallCausalityNotEstablished}
   \<and> map_option (\<lambda>env. efw_BlockCausality (vs_Firewall env)) (ob_Environment (Build codec target probes)) =
      Some EnterpriseFirewallCausalityNotEstablished
   \<and> \<Union> (set_option (map_option (\<lambda>env. efp_BlockCausality ` set (efw_Profiles (vs_Firewall env)))
      (ob_Environment (Build codec target probes)))) \<subseteq> {EnterpriseFirewallCausalityNotEstablished}"
proof -
  have policy: "unblamed (eno_Firewall (ob_EnterprisePolicy (Build codec target probes)))"
    by (simp add: Build_def NormalizeObservations_def projected_def builtPolicy_def Let_def
        NormalizeEnterprisePolicyObservation_def normalized_unblamed policy_unblamed)
  obtain env where env: "ob_Environment (Build codec target probes) = Some env" "unblamed (vs_Firewall env)"
    by (simp add: Build_def NormalizeObservations_def projected_def Let_def NormalizeEnvironmentSnapshot_def
        normalizeSnapshot_def firewall_of_policy normalized_unblamed environment_unblamed)
  show ?thesis using policy env by (simp add: unblamed_def)
qed

end
