(* ===== verification/GoURLText.thy ===== *)
theory GoURLText
  imports GoURL
begin

text \<open>
  More of Go's standard library: \<open>URL.String\<close> of a parsed URL whose user information was dropped,
  \<open>strings.FieldsFunc\<close>, and the match of \<open>(?i)\b(word1|word2)\b\<close> by package \<open>regexp\<close>, with the case
  folding of ASCII. Standard library, no entry in the map.
\<close>

text \<open>\<open>URL.ForceQuery\<close>: the URL ends in its only question mark.\<close>

definition urlForceQuery :: "string \<Rightarrow> bool" where
  "urlForceQuery raw =
     (let u = fst (cutByte CHR ''#'' raw) in hasSuffix ''?'' u \<and> countByte CHR ''?'' u = 1)"

definition validEncodedFragment :: "string \<Rightarrow> bool" where
  "validEncodedFragment s =
     list_all (\<lambda>c. c \<in> set (CHR 0x27 # ''!$&()*+,;=:@[]%'') \<or> \<not> shouldEscape c EncodeFragment) s"

definition urlEscapedFragment :: "string \<Rightarrow> url \<Rightarrow> string" where
  "urlEscapedFragment raw u =
     (case snd (cutByte CHR ''#'' raw) of
        None \<Rightarrow> []
      | Some f \<Rightarrow> if validEncodedFragment f then f else urlEscape EncodeFragment (urlFragment u))"

text \<open>The scheme, the host and the path of a URL with an authority.\<close>

definition urlBaseText :: "url \<Rightarrow> string" where
  "urlBaseText u =
     (if urlSchemeOf u \<noteq> [] then urlSchemeOf u @ '':'' else [])
     @ (if urlSchemeOf u \<noteq> [] \<or> urlHost u \<noteq> []
        then (if urlHost u \<noteq> [] \<or> urlEscapedPath u \<noteq> [] then ''//'' else []) @ urlEscape EncodeHost (urlHost u)
        else [])
     @ urlEscapedPath u"

text \<open>The text of the parsed \<open>raw\<close> with \<open>User\<close> set to nil, for a URL that had user information.\<close>

definition urlTextWithoutUser :: "string \<Rightarrow> url \<Rightarrow> string" where
  "urlTextWithoutUser raw u =
     urlBaseText u
     @ (if urlForceQuery raw \<or> urlRawQuery u \<noteq> [] then ''?'' @ urlRawQuery u else [])
     @ (if urlFragment u \<noteq> [] then ''#'' @ urlEscapedFragment raw u else [])"

fun splitWhere :: "(char \<Rightarrow> bool) \<Rightarrow> string \<Rightarrow> string list" where
  "splitWhere p [] = [[]]"
| "splitWhere p (c # s) =
     (if p c then [] # splitWhere p s
      else (case splitWhere p s of [] \<Rightarrow> [[c]] | f # fs \<Rightarrow> (c # f) # fs))"

definition fieldsFunc :: "(char \<Rightarrow> bool) \<Rightarrow> string \<Rightarrow> string list" where
  "fieldsFunc p s = filter (\<lambda>f. f \<noteq> []) (splitWhere p s)"

lemma splitWhere_not_Nil: "splitWhere p s \<noteq> []"
  by (induction s) (auto split: list.splits)

lemma splitWhere_parts: "f \<in> set (splitWhere p s) \<Longrightarrow> set f \<subseteq> set s \<and> list_all (\<lambda>c. \<not> p c) f"
proof (induction s arbitrary: f)
  case (Cons c s)
  obtain g gs where split: "splitWhere p s = g # gs" by (cases "splitWhere p s") (use splitWhere_not_Nil in auto)
  have "f = [] \<or> f = [c] \<or> f \<in> set (g # gs) \<or> f = c # g \<and> \<not> p c"
    using Cons.prems split by (auto split: if_splits)
  moreover have "f = [c] \<Longrightarrow> g = [] \<and> \<not> p c \<or> f \<in> set (g # gs)"
    using Cons.prems split by (auto split: if_splits)
  moreover have "h \<in> set (g # gs) \<Longrightarrow> set h \<subseteq> set s \<and> list_all (\<lambda>c. \<not> p c) h" for h
    using Cons.IH [of h] split by simp
  ultimately show ?case by (metis insertI2 list.pred_inject list.set(2) list.set_intros(1) insert_mono
      subset_insertI2 empty_subsetI list.set(1))
qed simp

lemma fieldsFunc_parts: "f \<in> set (fieldsFunc p s) \<Longrightarrow> f \<noteq> [] \<and> set f \<subseteq> set s \<and> list_all (\<lambda>c. \<not> p c) f"
  using splitWhere_parts by (auto simp: fieldsFunc_def)

definition isWordC :: "char \<Rightarrow> bool" where
  "isWordC c \<longleftrightarrow> isAlnumC c \<or> c = CHR ''_''"

text \<open>A word of the list stands somewhere between two word boundaries; \<open>inside\<close> says whether the
  preceding character is a word character. The words are lower case and not empty.\<close>

fun containsWord :: "string list \<Rightarrow> bool \<Rightarrow> string \<Rightarrow> bool" where
  "containsWord words inside [] \<longleftrightarrow> False"
| "containsWord words inside (c # s) \<longleftrightarrow>
     \<not> inside \<and> list_ex (\<lambda>w. hasPrefix w (toLower (c # s))
       \<and> (case drop (length w) (c # s) of [] \<Rightarrow> True | d # ds \<Rightarrow> \<not> isWordC d)) words
     \<or> containsWord words (isWordC c) s"

end
