(* ===== verification/Proxy.thy ===== *)
theory Proxy
  imports GoURLText EnterpriseEvidence
begin

text \<open>
  \<open>internal/probe/proxy/proxy.go\<close>: native proxy settings are parsed and stripped of user information,
  matched against bypass lists, resolved for a URL, and reported by the probe \<open>proxy_discovery\<close>. The
  discovery itself, connection attempts, the clock and JSON encoding are arguments. An error is its
  text; \<open>safeError\<close> of the package is \<open>proxySafeError\<close>.
\<close>

section \<open>Redaction\<close>

definition redactUserInfo :: "string \<Rightarrow> string" where
  "redactUserInfo value =
     (if CHR ''@'' \<notin> set value then value
      else
        let cut = (case lastIndexByte CHR ''@'' value of
              None \<Rightarrow> value
            | Some index \<Rightarrow> (case indexStr ''://'' value of
                  Some scheme \<Rightarrow> take (scheme + 3) value @ drop (index + 1) value
                | None \<Rightarrow> drop (index + 1) value)) in
        case urlParse value of
          Some parsed \<Rightarrow> (if urlHasUser parsed then urlTextWithoutUser value parsed else cut)
        | None \<Rightarrow> cut)"

definition sensitiveErrorWords :: "string list" where
  "sensitiveErrorWords = [''password'', ''passwd'', ''token'', ''secret'', ''credential'', ''authorization'']"

definition proxySafeError :: "string \<Rightarrow> string" where
  "proxySafeError err =
     (let message = trimSpace err in
      if message = [] then ''proxy configuration failure''
      else if containsWord sensitiveErrorWords False message then ''sensitive configuration value redacted''
      else take 256 (redactUserInfo message))"

definition safeNetworkError :: "string \<Rightarrow> string" where
  "safeNetworkError err =
     (let message = proxySafeError err in if message = [] then ''proxy endpoint unreachable'' else message)"

definition sanitizeBypass :: "string list \<Rightarrow> string list" where
  "sanitizeBypass values = map redactUserInfo (filter (\<lambda>v. v \<noteq> []) (map trimSpace values))"

definition sanitizePACURL :: "string \<Rightarrow> string" where
  "sanitizePACURL value0 =
     (let value = trimSpace value0 in
      if value = [] then []
      else case urlParse value of
          None \<Rightarrow> []
        | Some parsed \<Rightarrow>
            if urlSchemeOf parsed = [] \<or> urlHost parsed = [] then []
            else urlBaseText parsed @ (if urlForceQuery value then ''?'' else []))"

section \<open>Endpoints\<close>

definition splitProxyList :: "string \<Rightarrow> string list" where
  "splitProxyList value = fieldsFunc (\<lambda>c. c = CHR '';'' \<or> isSpaceC c) value"

definition safeEndpoint :: "string \<Rightarrow> string option" where
  "safeEndpoint value0 =
     (let value = trimSpace value0 in
      if value = [] then None
      else case urlParse (if containsStr ''://'' value then value else ''http://'' @ value) of
          None \<Rightarrow> None
        | Some parsed \<Rightarrow>
            if urlHost parsed = [] \<or> urlEscapedPath parsed \<noteq> [] \<and> urlEscapedPath parsed \<noteq> ''/''
              \<or> urlRawQuery parsed \<noteq> [] \<or> urlFragment parsed \<noteq> [] then None
            else
              let host = urlHostname parsed; port = (if urlPort parsed = [] then ''80'' else urlPort parsed) in
              if host = [] \<or> containsAny [CHR 0x0D, CHR 0x0A, CHR 0x00] host then None
              else case parseUint 65536 port of
                  None \<Rightarrow> None
                | Some portNumber \<Rightarrow>
                    (if portNumber = 0 then None else Some (joinHostPort host (itoa portNumber))))"

text \<open>The label before an equals sign, in lower case, and the value after it.\<close>

definition partLabel :: "string \<Rightarrow> string" where
  "partLabel part = (case indexByte CHR ''='' part of
     None \<Rightarrow> [] | Some equals \<Rightarrow> toLower (trimSpace (take equals part)))"

definition partValue :: "string \<Rightarrow> string" where
  "partValue part = (case indexByte CHR ''='' part of
     None \<Rightarrow> part | Some equals \<Rightarrow> trimSpace (drop (equals + 1) part))"

text \<open>The variables \<open>endpoints\<close>, \<open>parseErr\<close> and \<open>directSeen\<close> of the loop.\<close>

definition parsePart :: "string \<Rightarrow> string list \<times> string \<times> bool \<Rightarrow> string list \<times> string \<times> bool" where
  "parsePart part0 s = (case s of (endpoints, err, direct) \<Rightarrow>
     let part = trimSpace part0 in
     if part = [] then s
     else if equalFold (partValue part) ''DIRECT'' then (endpoints, err, True)
     else case safeEndpoint (partValue part) of
         None \<Rightarrow> (endpoints, if err = [] then StateMalformedProxyEndpoint else err, direct)
       | Some endpoint \<Rightarrow> (endpoints @ [endpoint], err, direct))"

definition parseProxyEndpoints :: "string \<Rightarrow> string list \<times> string \<times> string" where
  "parseProxyEndpoints value =
     (let original = trimSpace value in
      if original = [] then ([], [], [])
      else case fold parsePart (splitProxyList original) ([], [], False) of
          (endpoints, err, direct) \<Rightarrow> (endpoints, original,
            if endpoints = [] \<and> err = [] \<and> \<not> direct then StateMalformedProxyEndpoint else err))"

definition ProxyEndpoints :: "string \<Rightarrow> string list \<times> string" where
  "ProxyEndpoints value = (case parseProxyEndpoints value of (endpoints, original, err) \<Rightarrow> (endpoints, err))"

section \<open>The endpoint for a URL\<close>

record endpointChoice =
  ec_fallback :: string
  ec_selected :: string
  ec_schemeDirect :: bool
  ec_schemeEntry :: bool
  ec_fallbackDirect :: bool
  ec_fallbackEntry :: bool
  ec_parseFailure :: bool

definition noChoice :: endpointChoice where
  "noChoice = \<lparr>ec_fallback = [], ec_selected = [], ec_schemeDirect = False, ec_schemeEntry = False,
     ec_fallbackDirect = False, ec_fallbackEntry = False, ec_parseFailure = False\<rparr>"

definition chooseDirect :: "string \<Rightarrow> string \<Rightarrow> endpointChoice \<Rightarrow> endpointChoice" where
  "chooseDirect scheme label s =
     (if label = scheme then s\<lparr>ec_schemeEntry := True, ec_schemeDirect := True\<rparr>
      else if label = [] \<and> \<not> ec_fallbackEntry s then s\<lparr>ec_fallbackEntry := True, ec_fallbackDirect := True\<rparr>
      else s)"

definition chooseCandidate :: "string \<Rightarrow> string \<Rightarrow> string \<Rightarrow> endpointChoice \<Rightarrow> endpointChoice" where
  "chooseCandidate scheme label candidate s =
     (if label = scheme \<and> \<not> ec_schemeEntry s then s\<lparr>ec_schemeEntry := True, ec_selected := candidate\<rparr>
      else if label = [] \<and> \<not> ec_fallbackEntry s then s\<lparr>ec_fallbackEntry := True, ec_fallback := candidate\<rparr>
      else s)"

definition choosePart :: "string \<Rightarrow> string \<Rightarrow> endpointChoice \<Rightarrow> endpointChoice" where
  "choosePart scheme part0 s =
     (let part = trimSpace part0 in
      if part = [] then s
      else if equalFold (partValue part) ''DIRECT'' then chooseDirect scheme (partLabel part) s
      else case safeEndpoint (partValue part) of
          None \<Rightarrow> s\<lparr>ec_parseFailure := True\<rparr>
        | Some candidate \<Rightarrow> chooseCandidate scheme (partLabel part) candidate s)"

definition chosenEndpoint :: "endpointChoice \<Rightarrow> (string \<times> bool) result" where
  "chosenEndpoint s =
     (if ec_schemeEntry s then Inr (if ec_schemeDirect s then ([], True) else (ec_selected s, False))
      else if ec_fallbackEntry s \<and> ec_fallbackDirect s then Inr ([], True)
      else if ec_fallbackEntry s \<and> ec_fallback s \<noteq> [] then Inr (ec_fallback s, False)
      else if ec_parseFailure s then Inl StateMalformedProxyEndpoint
      else Inr ([], True))"

definition ProxyEndpointForURL :: "string \<Rightarrow> string \<Rightarrow> (string \<times> bool) result" where
  "ProxyEndpointForURL value targetURL =
     (case urlParse targetURL of
        None \<Rightarrow> Inl ''target URL is malformed''
      | Some parsed \<Rightarrow>
          if urlSchemeOf parsed = [] \<or> urlHost parsed = [] \<or> urlHasUser parsed
          then Inl ''target URL is malformed''
          else
            let original = trimSpace value in
            if original = [] then Inr ([], True)
            else chosenEndpoint (fold (choosePart (toLower (urlSchemeOf parsed))) (splitProxyList original) noChoice))"

section \<open>Bypass lists\<close>

text \<open>
  The loop over the parts between the asterisks: the position after the last part found, or \<open>None\<close>.
  \<open>first\<close> holds for the part before the first asterisk.
\<close>

fun matchParts :: "bool \<Rightarrow> string list \<Rightarrow> nat \<Rightarrow> string \<Rightarrow> nat option" where
  "matchParts first [] position value = Some position"
| "matchParts first (part # parts) position value =
     (if part = [] then matchParts False parts position value
      else case indexStr part (drop position value) of
          None \<Rightarrow> None
        | Some found \<Rightarrow>
            if first \<and> found \<noteq> 0 then None
            else matchParts False parts (position + found + length part) value)"

definition pathMatch :: "string \<Rightarrow> string \<Rightarrow> bool" where
  "pathMatch pattern value \<longleftrightarrow>
     pattern = ''*''
     \<or> (let parts = splitByte CHR ''*'' pattern in
        if length parts = 1 then pattern = value
        else (case matchParts True parts 0 value of
            None \<Rightarrow> False
          | Some position \<Rightarrow> hasSuffix ''*'' pattern \<or> position = length value))"

text \<open>The host pattern and the port of a pattern without scheme and path.\<close>

definition patternPort :: "string \<Rightarrow> string \<times> string" where
  "patternPort pattern =
     (if hasPrefix ''['' pattern then
        (case indexByte CHR '']'' pattern of
           None \<Rightarrow> (pattern, [])
         | Some closing \<Rightarrow> (take (closing - 1) (drop 1 pattern),
             let suffix = drop (closing + 1) pattern in if hasPrefix '':'' suffix then drop 1 suffix else []))
      else (case lastIndexByte CHR '':'' pattern of
          None \<Rightarrow> (pattern, [])
        | Some colon \<Rightarrow>
            if countByte CHR '':'' pattern = 1 \<and> CHR '':'' \<notin> set (drop (colon + 1) pattern)
              \<and> parseUint 65536 (drop (colon + 1) pattern) \<noteq> None
            then (take colon pattern, drop (colon + 1) pattern) else (pattern, [])))"

definition cutPath :: "string \<Rightarrow> string" where
  "cutPath pattern = (case indexByte CHR ''/'' pattern of None \<Rightarrow> pattern | Some slash \<Rightarrow> take slash pattern)"

definition hostMatches :: "string \<Rightarrow> string \<Rightarrow> bool" where
  "hostMatches pattern host \<longleftrightarrow>
     pattern = host
     \<or> hasPrefix ''*.'' pattern \<and> hasSuffix (drop 1 pattern) host
     \<or> CHR ''*'' \<in> set pattern \<and> pathMatch pattern host"

definition patternMatches :: "string \<Rightarrow> string \<Rightarrow> string \<Rightarrow> bool" where
  "patternMatches host targetPort rawPattern =
     (let lower = toLower (trimSpace rawPattern); pattern = trimSuffix ''.'' lower in
      if lower = [] then False
      else if lower = ''<local>'' \<and> CHR ''.'' \<notin> set host then True
      else if hasPrefix ''<'' pattern \<and> hasSuffix ''>'' pattern then False
      else case patternPort (cutPath (trimPrefix ''https://'' (trimPrefix ''http://'' pattern))) of
          (hostPattern, port) \<Rightarrow>
            (port = [] \<or> port = targetPort) \<and> hostMatches (trimSet ''[]'' hostPattern) host)"

definition ProxyBypasses :: "string \<Rightarrow> string list \<Rightarrow> bool" where
  "ProxyBypasses targetURL bypass =
     (case urlParse targetURL of
        None \<Rightarrow> False
      | Some parsed \<Rightarrow>
          if urlHostname parsed = [] then False
          else
            let host = toLower (trimSuffix ''.'' (urlHostname parsed));
                scheme = toLower (urlSchemeOf parsed);
                targetPort = (if urlPort parsed \<noteq> [] then urlPort parsed
                  else if scheme = ''https'' then ''443'' else if scheme = ''http'' then ''80'' else []) in
            list_ex (\<lambda>raw. list_ex (patternMatches host targetPort)
              (fieldsFunc (\<lambda>c. c = CHR '';'' \<or> c = CHR '','' \<or> isSpaceC c) raw)) bypass)"

section \<open>Configurations\<close>

definition pacConfigured :: "normalizedConfiguration \<Rightarrow> bool" where
  "pacConfigured n \<longleftrightarrow> pnc_pacPresent n \<or> pnc_autoDetect n"

definition normalizeConfiguration :: "SourceConfiguration \<Rightarrow> normalizedConfiguration" where
  "normalizeConfiguration config =
     (let n = zero_normalizedConfiguration\<lparr>pnc_bypass := sanitizeBypass (psc_Bypass config),
            pnc_pacURL := sanitizePACURL (psc_PACURL config), pnc_pacPresent := trimSpace (psc_PACURL config) \<noteq> [],
            pnc_autoDetect := psc_AutoDetect config\<rparr> in
      if \<not> psc_Available config
      then n\<lparr>pnc_state := StateConfigurationUnavailable,
        pnc_err := (if psc_Error config = [] then StateConfigurationUnavailable else proxySafeError (psc_Error config))\<rparr>
      else case parseProxyEndpoints (psc_Proxy config) of (endpoints, original, err) \<Rightarrow>
        let m = n\<lparr>pnc_endpoints := endpoints, pnc_proxy := original, pnc_err := err\<rparr> in
        if psc_Proxy config \<noteq> [] \<and> err \<noteq> [] then m\<lparr>pnc_state := StateMalformedProxyEndpoint\<rparr>
        else if pacConfigured m then m\<lparr>pnc_state := StatePACConfigured\<rparr>
        else if endpoints \<noteq> [] then m\<lparr>pnc_state := StateStaticProxyConfigured\<rparr>
        else m\<lparr>pnc_state := StateDirect\<rparr>)"

definition NormalizeConfiguration :: "SourceConfiguration \<Rightarrow> ConfigurationObservation" where
  "NormalizeConfiguration config =
     (let n = normalizeConfiguration config in
      \<lparr>pco_State = pnc_state n, pco_Direct = (pnc_state n = StateDirect),
       pco_StaticProxyConfigured = (pnc_endpoints n \<noteq> []), pco_ProxyEndpoints = pnc_endpoints n,
       pco_ProxyBypass = pnc_bypass n, pco_PACConfigured = pacConfigured n, pco_PACURL = pnc_pacURL n,
       pco_AutoDetect = pnc_autoDetect n, pco_Error = pnc_err n\<rparr>)"

definition rawConfiguration :: "normalizedConfiguration \<Rightarrow> sourceEvidence" where
  "rawConfiguration n =
     \<lparr>pse_State = pnc_state n, pse_Direct = (pnc_state n = StateDirect),
      pse_StaticProxyConfigured = (pnc_endpoints n \<noteq> []), pse_ProxyEndpoints = pnc_endpoints n,
      pse_ProxyBypass = pnc_bypass n, pse_PACConfigured = pacConfigured n, pse_PACURL = pnc_pacURL n,
      pse_AutoDetect = pnc_autoDetect n, pse_EndpointReachability = pnc_endpointReachability n,
      pse_Error = pnc_err n\<rparr>"

definition resolveStaticProxyForURL :: "string \<Rightarrow> SourceConfiguration \<Rightarrow> URLProxyResolution result" where
  "resolveStaticProxyForURL targetURL config =
     (if \<not> psc_Available config then Inl ''proxy configuration unavailable''
      else
        let bypass = sanitizeBypass (psc_Bypass config) in
        case parseProxyEndpoints (psc_Proxy config) of (endpoints, original, err) \<Rightarrow>
          if err \<noteq> [] then Inl err
          else if endpoints \<noteq> [] \<and> ProxyBypasses targetURL bypass
          then Inr (zero_URLProxyResolution\<lparr>pur_Direct := True, pur_Bypass := bypass, pur_BypassMatched := True,
            pur_Configuration := StateDirect\<rparr>)
          else case ProxyEndpointForURL (psc_Proxy config) targetURL of
              Inl e \<Rightarrow> Inl e
            | Inr (endpoint, direct) \<Rightarrow>
                if direct \<or> endpoint = []
                then Inr (zero_URLProxyResolution\<lparr>pur_Direct := True, pur_Bypass := bypass,
                  pur_Configuration := StateDirect\<rparr>)
                else Inr (zero_URLProxyResolution\<lparr>pur_Proxy := endpoint, pur_Bypass := bypass,
                  pur_Configuration := StateStaticProxyConfigured\<rparr>))"

section \<open>The probe\<close>

text \<open>What is outside of a run: the error of the context at its start, at each check and at its end; the
  answer of the discovery; the answer to a connection attempt for the endpoint with an index of a
  source; the clock; the encoders of the two payloads.\<close>

datatype discoverError = DiscoverCanceled | DiscoverUnsupported | DiscoverFailed string

datatype dialAnswer = Connected | DialTimeout string | DialFailed string

record proxyWorld =
  pw_startErr :: bool
  pw_discover :: "discoverError + ProxyDiscovery"
  pw_checkErr :: "string \<Rightarrow> nat \<Rightarrow> bool"
  pw_dial :: "string \<Rightarrow> nat \<Rightarrow> dialAnswer"
  pw_endErr :: bool
  pw_started :: gotime
  pw_completed :: gotime
  pw_captured :: "string \<Rightarrow> gotime"
  pw_source :: "sourceEvidence \<Rightarrow> string"
  pw_pac :: "pacEvidence \<Rightarrow> string"

definition maxReachabilityChecks :: nat where
  [go_consts]: "maxReachabilityChecks = 16"

definition noteEndpoint :: "string \<Rightarrow> string \<Rightarrow> string \<Rightarrow> normalizedConfiguration \<Rightarrow> normalizedConfiguration" where
  "noteEndpoint endpoint status err config = config\<lparr>pnc_endpointReachability := pnc_endpointReachability config
     @ [\<lparr>per_Endpoint = endpoint, per_Status = status, per_Error = err\<rparr>]\<rparr>"

definition checkEndpoint :: "proxyWorld \<Rightarrow> string \<Rightarrow> nat \<times> string \<Rightarrow> normalizedConfiguration \<Rightarrow> normalizedConfiguration" where
  "checkEndpoint w source item config = (case item of (index, endpoint) \<Rightarrow>
     if index \<ge> maxReachabilityChecks
     then noteEndpoint endpoint ''not_checked'' ''reachability check limit reached'' config
     else if pw_checkErr w source index
     then (noteEndpoint endpoint ''canceled'' ''operation canceled'' config)\<lparr>pnc_state := StateProxyEndpointTimeout\<rparr>
     else case pw_dial w source index of
         Connected \<Rightarrow> noteEndpoint endpoint ''reachable'' [] config
       | DialTimeout err \<Rightarrow>
           (noteEndpoint endpoint ''timeout'' (safeNetworkError err) config)\<lparr>pnc_state := StateProxyEndpointTimeout\<rparr>
       | DialFailed err \<Rightarrow>
           (noteEndpoint endpoint ''unreachable'' (safeNetworkError err) config)\<lparr>
             pnc_state := StateProxyEndpointUnreachable\<rparr>)"

definition checkEndpoints :: "proxyWorld \<Rightarrow> string \<Rightarrow> normalizedConfiguration \<Rightarrow> normalizedConfiguration" where
  "checkEndpoints w source config =
     fold (checkEndpoint w source) (zip [0..<length (pnc_endpoints config)] (pnc_endpoints config)) config"

definition proxyEvidence :: "proxyWorld \<Rightarrow> string \<Rightarrow> EvidenceKind \<Rightarrow> string \<Rightarrow> string \<Rightarrow> Evidence" where
  "proxyEvidence w id0 kind source raw = \<lparr>ev_ID = id0, ev_Kind = kind, ev_Source = source,
     ev_CapturedAt = Some (pw_captured w id0), ev_Raw = raw\<rparr>"

definition proxyFinish :: "proxyWorld \<Rightarrow> Target \<Rightarrow> Evidence list \<Rightarrow> ProbeStatus \<Rightarrow> FailureReason \<Rightarrow> ProbeResult" where
  "proxyFinish w target evidence status reason = zero_ProbeResult\<lparr>
     pr_Name := ProxyProbeName, pr_Target := target, pr_Status := status,
     pr_Timing := \<lparr>tm_StartedAt = Some (pw_started w), tm_CompletedAt = Some (pw_completed w),
       tm_DurationMS = max 0 ((pw_completed w - pw_started w) div 10 ^ 6)\<rparr>,
     pr_Evidence := evidence,
     pr_Interpretation := \<lparr>pin_FailureReason = reason, pin_Layer = LayerProxy, pin_FaultDomain = FaultDomainProxy\<rparr>\<rparr>"

definition observedSource :: "proxyWorld \<Rightarrow> bool \<Rightarrow> string \<Rightarrow> SourceConfiguration \<Rightarrow> normalizedConfiguration" where
  "observedSource w check source config =
     (let observed = normalizeConfiguration config in
      if check \<and> pnc_endpoints observed \<noteq> [] \<and> pnc_state observed \<in>
        {StateStaticProxyConfigured, StatePACConfigured, StateMalformedProxyEndpoint}
      then checkEndpoints w source observed else observed)"

definition sourceEvidences :: "proxyWorld \<Rightarrow> string \<Rightarrow> EvidenceKind \<Rightarrow> string \<Rightarrow> normalizedConfiguration \<Rightarrow> Evidence list" where
  "sourceEvidences w id0 kind source observed =
     proxyEvidence w id0 kind source (pw_source w (rawConfiguration observed))
     # (if pacConfigured observed
        then [proxyEvidence w (id0 @ ''.pac'') EvidenceKindPAC source (pw_pac w
          \<lparr>ppe_Configured = True, ppe_URL = pnc_pacURL observed, ppe_AutoDetect = pnc_autoDetect observed,
           ppe_Executed = False\<rparr>)] else [])"

definition proxyObserved :: "proxyWorld \<Rightarrow> bool \<Rightarrow> Target \<Rightarrow> ProxyDiscovery \<Rightarrow> ProbeResult" where
  "proxyObserved w check target discovery =
     (let winhttp = observedSource w check ''winhttp'' (pdy_WinHTTP discovery);
          wininet = observedSource w check ''wininet'' (pdy_WinINET discovery);
          states = {pnc_state winhttp, pnc_state wininet};
          evidence = sourceEvidences w ''proxy.winhttp.configuration'' EvidenceKindWinHTTPProxy ''winhttp'' winhttp
            @ sourceEvidences w ''proxy.wininet.configuration'' EvidenceKindWinINETProxy ''wininet'' wininet in
      if pw_endErr w then proxyFinish w target evidence ProbeStatusError FailureReasonProbeExecution
      else if StateConfigurationUnavailable \<in> states \<or> StateMalformedProxyEndpoint \<in> states
      then proxyFinish w target evidence ProbeStatusError FailureReasonProxyConfigurationFailure
      else if StateProxyEndpointUnreachable \<in> states \<or> StateProxyEndpointTimeout \<in> states
      then proxyFinish w target evidence ProbeStatusFailed FailureReasonProxyUnavailable
      else proxyFinish w target evidence ProbeStatusPassed FailureReasonNone)"

definition proxyRun :: "proxyWorld \<Rightarrow> bool \<Rightarrow> Target \<Rightarrow> ProbeResult" where
  "proxyRun w check target =
     (if pw_startErr w then proxyFinish w target [] ProbeStatusError FailureReasonProbeExecution
      else case pw_discover w of
          Inl DiscoverCanceled \<Rightarrow> proxyFinish w target [] ProbeStatusError FailureReasonProbeExecution
        | Inl DiscoverUnsupported \<Rightarrow> proxyFinish w target
            [proxyEvidence w ''proxy.platform'' EvidenceKindProxyConfiguration ''platform'' (pw_source w
              (zero_sourceEvidence\<lparr>pse_State := StateUnsupportedPlatform, pse_Error := StateUnsupportedPlatform\<rparr>))]
            ProbeStatusSkipped FailureReasonUnsupported
        | Inl (DiscoverFailed err) \<Rightarrow> proxyFinish w target
            [proxyEvidence w ''proxy.platform'' EvidenceKindProxyConfiguration ''proxy'' (pw_source w
              (zero_sourceEvidence\<lparr>pse_State := StateConfigurationUnavailable, pse_Error := proxySafeError err\<rparr>))]
            ProbeStatusError FailureReasonProxyConfigurationFailure
        | Inr discovery \<Rightarrow> proxyObserved w check target discovery)"

end
