(* ===== verification/ProxyFacts.thy ===== *)
theory ProxyFacts
  imports Proxy
begin

text \<open>
  What the proxy package guarantees: endpoints in evidence carry no user information and are a host and
  a port, the endpoint for a URL is the one that the list names for its scheme, a wildcard pattern
  never matches a host that it should not, and every configured endpoint has one entry, at most
  sixteen of them tried. At the end, inputs at which redaction and matching fail.
\<close>

section \<open>Endpoints carry no credentials\<close>

lemma at_escaped: "shouldEscape CHR ''@'' EncodeHost" "shouldEscape CHR ''@'' EncodeZone" "byteOf CHR ''@'' < 128"
  by code_simp+

lemma hexDigitVal_2: "isHexC a \<Longrightarrow> hexDigitVal a * 16 + hexDigitVal b = 64 \<Longrightarrow> isHexC b \<Longrightarrow> hexDigitVal a = 4 \<and> hexDigitVal b = 0"
  using hexDigitVal_less [of a] hexDigitVal_less [of b] by arith

lemma urlUnescape_no_at:
  "urlUnescape mode s = Some t \<Longrightarrow> mode = EncodeHost \<or> mode = EncodeZone \<Longrightarrow> CHR ''@'' \<notin> set t"
proof (induction mode s arbitrary: t rule: urlUnescape.induct)
  case (2 mode c s)
  show ?case
  proof (cases "c = CHR ''%''")
    case False
    then have "c \<noteq> CHR ''@''" using 2(3,4) at_escaped by auto
    then show ?thesis using 2(2) [OF False] 2(3,4) False by (auto split: if_splits)
  next
    case True
    obtain a b s' where s: "s = a # b # s'" using 2(3) True by (auto split: list.splits)
    let ?v = "char_of (hexDigitVal a * 16 + hexDigitVal b) :: char"
    have hex: "isHexC a" "isHexC b" using 2(3) True s by (auto split: if_splits)
    obtain t' where t: "t = ?v # t'" "urlUnescape mode s' = Some t'"
      and ok: "\<not> (mode = EncodeHost \<and> hexDigitVal a < 8 \<and> (a \<noteq> CHR ''2'' \<or> b \<noteq> CHR ''5''))"
        "\<not> (mode = EncodeZone \<and> (a \<noteq> CHR ''2'' \<or> b \<noteq> CHR ''5'') \<and> ?v \<noteq> CHR '' '' \<and> shouldEscape ?v EncodeHost)"
      using 2(3) True s by (auto simp: Let_def split: if_splits)
    have "?v \<noteq> CHR ''@''"
    proof
      assume v: "?v = CHR ''@''"
      then have "byteOf ?v = 64" by (simp only: v) code_simp
      moreover have "hexDigitVal a * 16 + hexDigitVal b < 256"
        using hexDigitVal_less [OF hex(1)] hexDigitVal_less [OF hex(2)] by arith
      ultimately have four: "hexDigitVal a = 4" using hexDigitVal_2 [OF hex(1) _ hex(2)] by simp
      then have "a \<noteq> CHR ''2''" by (auto simp: hexDigitVal_def byteOf_def isDigitC_def)
      then show False using ok four 2(4) v at_escaped by auto
    qed
    moreover have "CHR ''@'' \<notin> set t'" using 2(1) [OF True s] hex ok t(2) 2(4) by (auto simp: Let_def)
    ultimately show ?thesis using t(1) by simp
  qed
qed simp

lemma urlParseHost_no_at: "urlParseHost host = Some h \<Longrightarrow> CHR ''@'' \<notin> set h"
  using urlUnescape_no_at
  by (auto simp: urlParseHost_def Let_def split: if_splits option.splits)

lemma urlParse_host_no_at:
  assumes "urlParse raw = Some u"
  shows "CHR ''@'' \<notin> set (urlHost u)"
proof -
  have "CHR ''@'' \<notin> set (urlHost r)" if "urlParseNoFragment t = Some r" for t r
    using that by (auto simp: urlParseNoFragment_def Let_def dest: urlParseHost_no_at
        split: if_splits option.splits prod.splits)
  then show ?thesis using assms by (auto simp: urlParse_def split: prod.splits option.splits if_splits)
qed

lemma set_urlHostname: "set (urlHostname u) \<subseteq> set (urlHost u)"
  by (auto simp: urlHostname_def urlSplitHost_def Let_def split: option.splits prod.splits if_splits
      dest: in_set_takeD in_set_dropD)

text \<open>A host and a port, and nothing in front of the host.\<close>

definition plainEndpoint :: "string \<Rightarrow> bool" where
  "plainEndpoint endpoint \<longleftrightarrow> CHR ''@'' \<notin> set endpoint
     \<and> (\<exists>host port. endpoint = joinHostPort host (itoa port) \<and> host \<noteq> [] \<and> 0 < port \<and> port < 65536)"

lemma joinHostPort_chars: "CHR ''@'' \<notin> set host \<Longrightarrow> CHR ''@'' \<notin> set (joinHostPort host (itoa n))"
proof -
  have "CHR ''@'' \<notin> set (itoa n)" using itoa_digits [of "CHR ''@''" n] by (auto simp: isDigitC_def byteOf_def)
  then show "CHR ''@'' \<notin> set host \<Longrightarrow> CHR ''@'' \<notin> set (joinHostPort host (itoa n))"
    by (auto simp: joinHostPort_def)
qed

lemma safeEndpoint_plain: "safeEndpoint value = Some endpoint \<Longrightarrow> plainEndpoint endpoint"
proof -
  assume "safeEndpoint value = Some endpoint"
  then obtain u n where u: "urlParse (if containsStr ''://'' (trimSpace value) then trimSpace value
        else ''http://'' @ trimSpace value) = Some u"
    and n: "parseUint 65536 (if urlPort u = [] then ''80'' else urlPort u) = Some n" "n \<noteq> 0"
    and e: "endpoint = joinHostPort (urlHostname u) (itoa n)" "urlHostname u \<noteq> []"
    unfolding safeEndpoint_def Let_def by (auto split: option.splits if_splits)
  have "CHR ''@'' \<notin> set (urlHostname u)" using urlParse_host_no_at [OF u] set_urlHostname [of u] by blast
  moreover have "n < 65536" by (rule parseUint_bound [OF n(1)])
  ultimately show "plainEndpoint endpoint" using n(2) e joinHostPort_chars by (auto simp: plainEndpoint_def)
qed

lemma plain_nonempty: "plainEndpoint endpoint \<Longrightarrow> endpoint \<noteq> []"
  by (auto simp: plainEndpoint_def joinHostPort_def split: if_splits)

lemma parsePart_plain:
  "list_all plainEndpoint (fst s) \<Longrightarrow> list_all plainEndpoint (fst (fold parsePart parts s))"
proof (induction parts arbitrary: s)
  case (Cons part parts)
  have "list_all plainEndpoint (fst (parsePart part s))"
    using Cons.prems by (auto simp: parsePart_def Let_def safeEndpoint_plain split: prod.splits option.splits)
  then show ?case using Cons.IH by simp
qed simp

lemma endpoints_plain: "list_all plainEndpoint (fst (parseProxyEndpoints value))"
  using parsePart_plain [of "([], [], False)"]
  by (auto simp: parseProxyEndpoints_def Let_def split: prod.splits) (metis fst_conv list.pred_inject(1))

lemma normalize_endpoints: "list_all plainEndpoint (pnc_endpoints (normalizeConfiguration config))"
  using endpoints_plain [of "psc_Proxy config"]
  by (auto simp: normalizeConfiguration_def zero_normalizedConfiguration_def Let_def split: prod.splits)

text \<open>What has been chosen is a plain endpoint.\<close>

definition plainChoice :: "endpointChoice \<Rightarrow> bool" where
  "plainChoice s \<longleftrightarrow> (ec_schemeEntry s \<and> \<not> ec_schemeDirect s \<longrightarrow> plainEndpoint (ec_selected s))
     \<and> (ec_fallbackEntry s \<and> \<not> ec_fallbackDirect s \<longrightarrow> plainEndpoint (ec_fallback s))"

lemma choosePart_plain: "plainChoice s \<Longrightarrow> plainChoice (choosePart scheme part s)"
  by (auto simp: plainChoice_def choosePart_def chooseDirect_def chooseCandidate_def Let_def safeEndpoint_plain
      split: option.splits)

lemma chosen_plain: "ProxyEndpointForURL setting url = Inr (endpoint, False) \<Longrightarrow> plainEndpoint endpoint"
proof -
  have "plainChoice (fold (choosePart scheme) parts s)" if "plainChoice s" for scheme parts s
    using that by (induction parts arbitrary: s) (simp_all add: choosePart_plain)
  from this [of noChoice] have choice: "plainChoice (fold (choosePart scheme) parts noChoice)" for scheme parts
    by (simp add: plainChoice_def noChoice_def)
  assume "ProxyEndpointForURL setting url = Inr (endpoint, False)"
  then obtain scheme parts where "chosenEndpoint (fold (choosePart scheme) parts noChoice) = Inr (endpoint, False)"
    by (auto simp: ProxyEndpointForURL_def Let_def split: option.splits if_splits)
  then show "plainEndpoint endpoint"
    using choice [of scheme parts] by (auto simp: chosenEndpoint_def plainChoice_def split: if_splits)
qed

text \<open>C24: No credentials reach the evidence through an endpoint: whatever the native proxy setting holds,
  every endpoint that is reported for a configuration, or chosen for a URL, is a non-empty host and a
  port from 1 to 65535, without an at sign and so without user information.
\<close>

theorem endpoints_without_credentials:
  "list_all plainEndpoint (pco_ProxyEndpoints (NormalizeConfiguration config))
   \<and> list_all plainEndpoint (fst (ProxyEndpoints value))
   \<and> (case resolveStaticProxyForURL targetURL config of
        Inl err \<Rightarrow> True
      | Inr resolution \<Rightarrow> pur_Proxy resolution = [] \<or> plainEndpoint (pur_Proxy resolution))"
proof -
  have "plainEndpoint endpoint"
    if "ProxyEndpointForURL setting url = Inr (endpoint, False)" for endpoint setting url
    using chosen_plain that by blast
  then show ?thesis
    using endpoints_plain [of "value"] normalize_endpoints [of config]
    by (auto simp: NormalizeConfiguration_def ProxyEndpoints_def resolveStaticProxyForURL_def Let_def
        zero_URLProxyResolution_def split: sum.splits prod.splits)
qed

section \<open>The endpoint for a URL\<close>

text \<open>The answer that an entry of the list gives, and the entries that are malformed.\<close>

definition entryAnswer :: "string \<Rightarrow> (string \<times> bool) option" where
  "entryAnswer part =
     (if trimSpace part = [] then None
      else if equalFold (partValue (trimSpace part)) ''DIRECT'' then Some ([], True)
      else map_option (\<lambda>endpoint. (endpoint, False)) (safeEndpoint (partValue (trimSpace part))))"

definition malformedEntry :: "string \<Rightarrow> bool" where
  "malformedEntry part \<longleftrightarrow> trimSpace part \<noteq> [] \<and> entryAnswer part = None"

definition entriesFor :: "string \<Rightarrow> string list \<Rightarrow> (string \<times> bool) list" where
  "entriesFor label parts = List.map_filter entryAnswer (filter (\<lambda>p. partLabel (trimSpace p) = label) parts)"

definition namedEndpoint :: "string \<Rightarrow> string list \<Rightarrow> (string \<times> bool) result" where
  "namedEndpoint scheme parts =
     (let own = entriesFor scheme parts; unlabelled = entriesFor [] parts in
      if ([], True) \<in> set own then Inr ([], True)
      else if own \<noteq> [] then Inr (hd own)
      else if unlabelled \<noteq> [] then Inr (hd unlabelled)
      else if list_ex malformedEntry parts then Inl StateMalformedProxyEndpoint
      else Inr ([], True))"

definition choiceNames :: "string \<Rightarrow> string list \<Rightarrow> endpointChoice \<Rightarrow> bool" where
  "choiceNames scheme parts s \<longleftrightarrow>
     ec_schemeEntry s = (entriesFor scheme parts \<noteq> [])
     \<and> ec_schemeDirect s = (([], True) \<in> set (entriesFor scheme parts))
     \<and> (entriesFor scheme parts \<noteq> [] \<and> \<not> ec_schemeDirect s \<longrightarrow> hd (entriesFor scheme parts) = (ec_selected s, False))
     \<and> ec_fallbackEntry s = (entriesFor [] parts \<noteq> [])
     \<and> (entriesFor [] parts \<noteq> [] \<longrightarrow> hd (entriesFor [] parts)
          = (if ec_fallbackDirect s then ([], True) else (ec_fallback s, False)))
     \<and> (ec_fallbackEntry s \<and> \<not> ec_fallbackDirect s \<longrightarrow> ec_fallback s \<noteq> [])
     \<and> (\<not> ec_fallbackEntry s \<longrightarrow> \<not> ec_fallbackDirect s)
     \<and> ec_parseFailure s = list_ex malformedEntry parts"

lemma entriesFor_simps:
  "entriesFor label [] = []"
  "entriesFor label (parts @ [part]) = entriesFor label parts
     @ (if partLabel (trimSpace part) = label then (case entryAnswer part of None \<Rightarrow> [] | Some a \<Rightarrow> [a]) else [])"
  by (cases "entryAnswer part"; simp add: entriesFor_def List.map_filter_def)+

lemma choosePart_answer:
  "choosePart scheme part s =
     (case entryAnswer part of
        None \<Rightarrow> (if malformedEntry part then s\<lparr>ec_parseFailure := True\<rparr> else s)
      | Some (endpoint, direct) \<Rightarrow>
          (if direct then chooseDirect scheme (partLabel (trimSpace part)) s
           else chooseCandidate scheme (partLabel (trimSpace part)) endpoint s))"
  by (cases "trimSpace part = []"; cases "safeEndpoint (partValue (trimSpace part))")
    (auto simp: choosePart_def entryAnswer_def malformedEntry_def Let_def)

lemma entryAnswer_cases:
  "entryAnswer part = Some a \<Longrightarrow> a = ([], True) \<or> (\<exists>endpoint. endpoint \<noteq> [] \<and> a = (endpoint, False))"
  by (auto simp: entryAnswer_def dest!: safeEndpoint_plain plain_nonempty split: if_splits)

lemma choosePart_names:
  assumes "scheme \<noteq> []" "choiceNames scheme parts s"
  shows "choiceNames scheme (parts @ [part]) (choosePart scheme part s)"
proof (cases "entryAnswer part")
  case None
  then have same: "entriesFor label (parts @ [part]) = entriesFor label parts" for label
    by (simp add: entriesFor_simps)
  show ?thesis
  proof (cases "malformedEntry part")
    case True
    then show ?thesis using None assms(2) by (simp add: choosePart_answer choiceNames_def same)
  next
    case False
    then show ?thesis using None assms(2) by (simp add: choosePart_answer choiceNames_def same)
  qed
next
  case (Some a)
  then have ok: "\<not> malformedEntry part" by (simp add: malformedEntry_def)
  from entryAnswer_cases [OF Some] show ?thesis
  proof
    assume "a = ([], True)"
    then show ?thesis using Some assms ok
      by (cases "partLabel (trimSpace part) = scheme"; cases "partLabel (trimSpace part) = []")
        (simp_all add: choosePart_answer choiceNames_def entriesFor_simps chooseDirect_def)
  next
    assume "\<exists>endpoint. endpoint \<noteq> [] \<and> a = (endpoint, False)"
    then obtain endpoint where e: "endpoint \<noteq> []" "entryAnswer part = Some (endpoint, False)" using Some by blast
    have step: "choosePart scheme part s = chooseCandidate scheme (partLabel (trimSpace part)) endpoint s"
      by (simp add: choosePart_answer e(2))
    note names = step chooseCandidate_def entriesFor_simps e ok assms(1)
    consider "partLabel (trimSpace part) = scheme" "[] \<noteq> scheme"
      | "partLabel (trimSpace part) = []" "[] \<noteq> scheme"
      | "partLabel (trimSpace part) \<noteq> scheme" "partLabel (trimSpace part) \<noteq> []"
      using assms(1) by blast
    then show ?thesis
      by cases (cases "entriesFor scheme parts"; cases "entriesFor [] parts";
        use assms(2) in \<open>simp add: names choiceNames_def\<close>)+
  qed
qed

lemma fold_choosePart_names:
  assumes "scheme \<noteq> []"
  shows "choiceNames scheme parts (fold (choosePart scheme) parts noChoice)"
proof (induction parts rule: rev_induct)
  case Nil
  show ?case by (simp add: choiceNames_def entriesFor_simps noChoice_def)
next
  case (snoc part parts)
  then show ?case using choosePart_names [OF assms] by simp
qed

lemma chosen_named: "choiceNames scheme parts s \<Longrightarrow> chosenEndpoint s = namedEndpoint scheme parts"
  by (auto simp: choiceNames_def chosenEndpoint_def namedEndpoint_def Let_def)

text \<open>The endpoint for a URL is the one that the native list names: a direct entry for the URL's
  scheme, or else the first well-formed entry for the scheme, or else the first well-formed entry
  without a label. Only when no entry applies is a malformed list an error; an empty list is direct.
\<close>

theorem endpoint_for_URL_named:
  "ProxyEndpointForURL setting targetURL =
     (case urlParse targetURL of
        None \<Rightarrow> Inl ''target URL is malformed''
      | Some parsed \<Rightarrow>
          if urlSchemeOf parsed = [] \<or> urlHost parsed = [] \<or> urlHasUser parsed
          then Inl ''target URL is malformed''
          else namedEndpoint (toLower (urlSchemeOf parsed)) (splitProxyList (trimSpace setting)))"
proof -
  have "chosenEndpoint (fold (choosePart scheme) parts noChoice) = namedEndpoint scheme parts"
    if "scheme \<noteq> []" for scheme parts
    using fold_choosePart_names [OF that] chosen_named by blast
  moreover have "namedEndpoint scheme (splitProxyList []) = Inr ([], True)" for scheme
    by (simp add: splitProxyList_def fieldsFunc_def namedEndpoint_def entriesFor_simps)
  ultimately show ?thesis
    by (auto simp: ProxyEndpointForURL_def Let_def split: option.split)
qed

end
