(* ===== verification/ProxyBypassFacts.thy ===== *)
theory ProxyBypassFacts
  imports ProxyFacts
begin

text \<open>
  Bypass lists against the meaning of their wildcards: an entry never matches a host that its pattern
  does not describe. The converse fails: the search for the parts of a pattern is not repeated.
\<close>

section \<open>What a wildcard pattern describes\<close>

fun globMatch :: "string \<Rightarrow> string \<Rightarrow> bool" where
  "globMatch [] s \<longleftrightarrow> s = []"
| "globMatch (c # p) [] \<longleftrightarrow> c = CHR ''*'' \<and> globMatch p []"
| "globMatch (c # p) (d # s) \<longleftrightarrow>
     (if c = CHR ''*'' then globMatch p (d # s) \<or> globMatch (c # p) s else c = d \<and> globMatch p s)"

lemma globMatch_skip: "globMatch p s \<Longrightarrow> globMatch (CHR ''*'' # p) (t @ s)"
proof (induction t)
  case Nil
  then show ?case by (cases s) auto
qed simp

lemma globMatch_literal: "CHR ''*'' \<notin> set part \<Longrightarrow> globMatch (part @ p) (part @ s) = globMatch p s"
  by (induction part) auto

lemma globMatch_refl: "globMatch p p"
proof (induction p)
  case (Cons c p)
  then show ?case using globMatch_skip [of p p "[]"] by (cases p) auto
qed simp

lemma globMatch_star: "globMatch ''*'' s"
  using globMatch_skip [of "[]" "[]" s] by simp

section \<open>A match is described by the pattern\<close>

lemma indexStr_Some: "indexStr p s = Some i \<Longrightarrow> s = take i s @ p @ drop (i + length p) s"
proof (induction p s arbitrary: i rule: indexStr.induct)
  case (2 p c s)
  show ?case
  proof (cases "hasPrefix p (c # s)")
    case True
    then show ?thesis using 2(2) by (auto simp: hasPrefix_def) (metis append_take_drop_id)
  next
    case False
    then show ?thesis using 2 by (auto split: if_splits)
  qed
qed (auto split: if_splits)

lemma indexStr_drop:
  assumes "indexStr part (drop pos s) = Some found"
  shows "drop pos s = take found (drop pos s) @ part @ drop (pos + found + length part) s"
  using indexStr_Some [OF assms] by (simp add: add.commute add.left_commute)

lemma matchParts_rest:
  assumes "matchParts False parts pos s = Some q" "parts \<noteq> []" "last parts = [] \<or> q = length s"
    "\<And>p. p \<in> set parts \<Longrightarrow> CHR ''*'' \<notin> set p"
  shows "globMatch (CHR ''*'' # joinStr ''*'' parts) (drop pos s)"
  using assms
proof (induction parts arbitrary: pos)
  case (Cons part parts)
  show ?case
  proof (cases "part = []")
    case True
    show ?thesis
    proof (cases "parts = []")
      case True
      then show ?thesis using \<open>part = []\<close> globMatch_star by simp
    next
      case False
      then have "globMatch (CHR ''*'' # joinStr ''*'' parts) (drop pos s)" using Cons True by simp
      then show ?thesis using True False globMatch_skip [of _ _ "[]"] by (simp add: joinStr_Cons)
    qed
  next
    case False
    obtain found where found: "indexStr part (drop pos s) = Some found"
      and rest: "matchParts False parts (pos + found + length part) s = Some q"
      using Cons.prems(1) False by (auto split: option.splits)
    have star: "CHR ''*'' \<notin> set part" using Cons.prems(4) by simp
    let ?rest = "drop (pos + found + length part) s"
    have "globMatch (joinStr ''*'' (part # parts)) (part @ ?rest)"
    proof (cases "parts = []")
      case True
      then show ?thesis using rest Cons.prems(3) False globMatch_refl by simp
    next
      case parts: False
      then have "globMatch (CHR ''*'' # joinStr ''*'' parts) ?rest" using Cons.IH [OF rest] Cons.prems by simp
      then show ?thesis using parts globMatch_literal [OF star] by (simp add: joinStr_Cons)
    qed
    from globMatch_skip [OF this] show ?thesis by (subst indexStr_drop [OF found])
  qed
qed simp

lemma hasSuffix_append: "hasSuffix p s \<Longrightarrow> \<exists>t. s = t @ p"
  by (metis append_take_drop_id hasSuffix_def)

lemma splitByte_snoc:
  "splitByte c (s @ [x]) = (if x = c then splitByte c s @ [[]]
     else butlast (splitByte c s) @ [last (splitByte c s) @ [x]])"
proof (induction s)
  case (Cons y s)
  obtain p ps where "splitByte c s = p # ps" by (cases "splitByte c s") auto
  then show ?case using Cons by (cases ps) auto
qed simp

lemma last_splitByte: "last (splitByte c s) = [] \<longleftrightarrow> s = [] \<or> last s = c"
  by (cases s rule: rev_cases) (auto simp: splitByte_snoc)

lemma hasSuffix_one: "hasSuffix [c] s \<longleftrightarrow> s \<noteq> [] \<and> last s = c"
  by (cases s rule: rev_cases) (auto simp: hasSuffix_def)

lemma pathMatch_sound: "pathMatch pattern s \<Longrightarrow> globMatch pattern s"
proof -
  assume match: "pathMatch pattern s"
  let ?parts = "splitByte CHR ''*'' pattern"
  obtain part parts where parts: "?parts = part # parts" by (cases ?parts) auto
  have pattern: "pattern = joinStr ''*'' (part # parts)" using joinStr_splitByte [of "CHR ''*''" pattern] parts by simp
  have star: "CHR ''*'' \<notin> set p" if "p \<in> set (part # parts)" for p
    using that splitByte_parts [of p "CHR ''*''" pattern] parts by auto
  consider "pattern = ''*''" | "parts = []" "pattern = s"
    | q where "parts \<noteq> []" "matchParts True (part # parts) 0 s = Some q" "hasSuffix ''*'' pattern \<or> q = length s"
    using match parts by (auto simp: pathMatch_def Let_def split: if_splits option.splits)
  then show "globMatch pattern s"
  proof cases
    case 1
    then show ?thesis using globMatch_star by simp
  next
    case 2
    then show ?thesis using globMatch_refl by simp
  next
    case 3
    have last: "last parts = [] \<or> q = length s"
      using 3 parts last_splitByte [of "CHR ''*''" pattern] by (auto simp: hasSuffix_one)
    have rest: "globMatch (CHR ''*'' # joinStr ''*'' parts) (drop pos s)"
      if "matchParts False parts pos s = Some q" for pos
      using matchParts_rest [OF that 3(1) last] star by simp
    show ?thesis
    proof (cases "part = []")
      case True
      then show ?thesis using rest [of 0] 3 pattern by (simp add: joinStr_Cons)
    next
      case False
      then have found: "indexStr part (drop 0 s) = Some 0" and tail: "matchParts False parts (length part) s = Some q"
        using 3(2) by (auto split: option.splits if_splits)
      have "s = part @ drop (length part) s" using indexStr_drop [OF found] by simp
      moreover have "globMatch (part @ CHR ''*'' # joinStr ''*'' parts) (part @ drop (length part) s)"
        using globMatch_literal star rest [OF tail] by simp
      ultimately show ?thesis using pattern 3(1) by (simp add: joinStr_Cons)
    qed
  qed
qed

lemma hostMatches_sound: "hostMatches pattern host \<Longrightarrow> globMatch pattern host"
proof -
  assume match: "hostMatches pattern host"
  then consider "pattern = host" | "hasPrefix ''*.'' pattern" "hasSuffix (drop 1 pattern) host" | "pathMatch pattern host"
    by (auto simp: hostMatches_def)
  then show ?thesis
  proof cases
    case 1
    then show ?thesis using globMatch_refl by simp
  next
    case 2
    then obtain t p where "host = t @ p" "pattern = CHR ''*'' # p"
      using hasSuffix_append [OF 2(2)] by (cases pattern) (auto simp: hasPrefix_def)
    then show ?thesis using globMatch_skip globMatch_refl by simp
  next
    case 3
    then show ?thesis by (rule pathMatch_sound)
  qed
qed

text \<open>An entry describes a host and a port: a host without dots for the entry for local names, or else a
  host of the pattern before the path and the port.\<close>

definition entryDescribes :: "string \<Rightarrow> string \<Rightarrow> string \<Rightarrow> bool" where
  "entryDescribes host port entry \<longleftrightarrow>
     toLower (trimSpace entry) = ''<local>'' \<and> CHR ''.'' \<notin> set host
     \<or> (case patternPort (cutPath (trimPrefix ''https://'' (trimPrefix ''http://''
            (trimSuffix ''.'' (toLower (trimSpace entry)))))) of
          (hostPattern, only) \<Rightarrow> (only = [] \<or> only = port) \<and> globMatch (trimSet ''[]'' hostPattern) host)"

lemma patternMatches_sound: "patternMatches host port entry \<Longrightarrow> entryDescribes host port entry"
  by (auto simp: patternMatches_def entryDescribes_def Let_def hostMatches_sound split: if_splits prod.splits)



text \<open>The search is not repeated from a later position, and a host that a pattern describes can be missed.\<close>

lemma pathMatch_incomplete:
  "globMatch ''10.*.1'' ''10.1.1.1''" "\<not> hostMatches ''10.*.1'' ''10.1.1.1''"
  "\<not> ProxyBypasses ''http://10.1.1.1/'' [''10.*.1'']"
  by code_simp+

text \<open>A password before the last at sign of an error text that is not a URL stays when a scheme follows.\<close>

lemma redaction_leak:
  "redactUserInfo ''user:pw@host;http://other'' = ''user:pw@host;http://host;http://other''"
  by code_simp

section \<open>Reachability checks\<close>

definition checkStatus :: "proxyWorld \<Rightarrow> string \<Rightarrow> nat \<Rightarrow> string" where
  "checkStatus w source index =
     (if index \<ge> maxReachabilityChecks then ''not_checked''
      else if pw_checkErr w source index then ''canceled''
      else case pw_dial w source index of
        Connected \<Rightarrow> ''reachable'' | DialTimeout err \<Rightarrow> ''timeout'' | DialFailed err \<Rightarrow> ''unreachable'')"

definition reachableEndpoint :: "proxyWorld \<Rightarrow> string \<Rightarrow> nat \<Rightarrow> bool" where
  "reachableEndpoint w source index \<longleftrightarrow>
     index < maxReachabilityChecks \<longrightarrow> \<not> pw_checkErr w source index \<and> pw_dial w source index = Connected"

lemma checkEndpoint_effect:
  "map (\<lambda>e. (per_Endpoint e, per_Status e)) (pnc_endpointReachability (checkEndpoint w source (index, endpoint) config))
     = map (\<lambda>e. (per_Endpoint e, per_Status e)) (pnc_endpointReachability config) @ [(endpoint, checkStatus w source index)]"
  "pnc_endpoints (checkEndpoint w source (index, endpoint) config) = pnc_endpoints config"
  "reachableEndpoint w source index \<Longrightarrow> pnc_state (checkEndpoint w source (index, endpoint) config) = pnc_state config"
  "\<not> reachableEndpoint w source index \<Longrightarrow> pnc_state (checkEndpoint w source (index, endpoint) config)
     \<in> {StateProxyEndpointTimeout, StateProxyEndpointUnreachable}"
  by (cases "index \<ge> maxReachabilityChecks"; cases "pw_checkErr w source index"; cases "pw_dial w source index";
      simp add: checkEndpoint_def noteEndpoint_def checkStatus_def reachableEndpoint_def)+

lemma fold_checkEndpoint:
  "map (\<lambda>e. (per_Endpoint e, per_Status e)) (pnc_endpointReachability
       (fold (checkEndpoint w source) (zip [k..<k + length endpoints] endpoints) config))
     = map (\<lambda>e. (per_Endpoint e, per_Status e)) (pnc_endpointReachability config)
       @ zip endpoints (map (checkStatus w source) [k..<k + length endpoints])"
proof (induction endpoints arbitrary: k config)
  case (Cons endpoint endpoints)
  have upt: "[k..<k + length (endpoint # endpoints)] = k # [Suc k..<Suc k + length endpoints]"
    by (simp add: upt_rec)
  show ?case unfolding upt using Cons [of "Suc k"] by (simp add: checkEndpoint_effect)
qed simp

text \<open>Every configured endpoint has exactly one entry in the evidence, in the order of the
  configuration, and its status is that of its own connection attempt; at most sixteen are attempted, and
  the rest are recorded as not checked.
\<close>

theorem every_endpoint_recorded:
  "map (\<lambda>e. (per_Endpoint e, per_Status e)) (pnc_endpointReachability (checkEndpoints w source (normalizeConfiguration config)))
     = zip (pnc_endpoints (normalizeConfiguration config))
         (map (checkStatus w source) [0..<length (pnc_endpoints (normalizeConfiguration config))])"
proof -
  have "pnc_endpointReachability (normalizeConfiguration config) = []"
    by (auto simp: normalizeConfiguration_def zero_normalizedConfiguration_def Let_def split: prod.splits)
  then show ?thesis
    using fold_checkEndpoint [of w source 0 "pnc_endpoints (normalizeConfiguration config)"]
    by (simp add: checkEndpoints_def)
qed

text \<open>When a source of proxy settings is in order.\<close>

definition sourceReachable :: "proxyWorld \<Rightarrow> bool \<Rightarrow> string \<Rightarrow> SourceConfiguration \<Rightarrow> bool" where
  "sourceReachable w check source config \<longleftrightarrow>
     psc_Available config
     \<and> (psc_Proxy config = [] \<or> snd (ProxyEndpoints (psc_Proxy config)) = [])
     \<and> (check \<longrightarrow> (\<forall>index < length (fst (ProxyEndpoints (psc_Proxy config))). reachableEndpoint w source index))"

lemma fold_checkEndpoint_state:
  "if \<forall>i < length endpoints. reachableEndpoint w source (k + i)
   then pnc_state (fold (checkEndpoint w source) (zip [k..<k + length endpoints] endpoints) config) = pnc_state config
   else pnc_state (fold (checkEndpoint w source) (zip [k..<k + length endpoints] endpoints) config)
     \<in> {StateProxyEndpointTimeout, StateProxyEndpointUnreachable}"
proof (induction endpoints rule: rev_induct)
  case (snoc endpoint endpoints)
  let ?n = "length endpoints"
  let ?c = "fold (checkEndpoint w source) (zip [k..<k + ?n] endpoints) config"
  have step: "fold (checkEndpoint w source) (zip [k..<k + length (endpoints @ [endpoint])] (endpoints @ [endpoint])) config
      = checkEndpoint w source (k + ?n, endpoint) ?c" by simp
  show ?case
  proof (cases "reachableEndpoint w source (k + ?n)")
    case True
    then show ?thesis unfolding step using snoc
      by (cases "\<forall>i < ?n. reachableEndpoint w source (k + i)") (auto simp: checkEndpoint_effect(3) All_less_Suc)
  next
    case False
    then show ?thesis unfolding step using checkEndpoint_effect(4) [OF False] by auto
  qed
qed simp

lemma checkEndpoints_state:
  "(\<forall>i < length (pnc_endpoints config). reachableEndpoint w source i)
     \<Longrightarrow> pnc_state (checkEndpoints w source config) = pnc_state config"
  "\<not> (\<forall>i < length (pnc_endpoints config). reachableEndpoint w source i)
     \<Longrightarrow> pnc_state (checkEndpoints w source config) \<in> {StateProxyEndpointTimeout, StateProxyEndpointUnreachable}"
  using fold_checkEndpoint_state [of "pnc_endpoints config" w source 0 config]
  by (auto simp: checkEndpoints_def split: if_splits)

definition brokenStates :: "string set" where
  "brokenStates = {StateConfigurationUnavailable, StateMalformedProxyEndpoint, StateProxyEndpointUnreachable,
     StateProxyEndpointTimeout}"

lemma normalize_state:
  "pnc_state (normalizeConfiguration config) \<in> brokenStates \<longleftrightarrow>
     \<not> (psc_Available config \<and> (psc_Proxy config = [] \<or> snd (ProxyEndpoints (psc_Proxy config)) = []))"
  "psc_Available config \<Longrightarrow> pnc_endpoints (normalizeConfiguration config) = fst (ProxyEndpoints (psc_Proxy config))"
  "\<not> psc_Available config \<Longrightarrow> pnc_endpoints (normalizeConfiguration config) = []"
  "psc_Available config \<Longrightarrow> pnc_endpoints (normalizeConfiguration config) \<noteq> []
     \<Longrightarrow> pnc_state (normalizeConfiguration config)
       \<in> {StateStaticProxyConfigured, StatePACConfigured, StateMalformedProxyEndpoint}"
  by (auto simp: normalizeConfiguration_def zero_normalizedConfiguration_def ProxyEndpoints_def brokenStates_def
      go_consts Let_def split: prod.splits)

lemma observed_state:
  "pnc_state (observedSource w check source config) \<in> brokenStates \<longleftrightarrow> \<not> sourceReachable w check source config"
proof (cases "psc_Available config \<and> check \<and> pnc_endpoints (normalizeConfiguration config) \<noteq> []")
  case False
  then have "observedSource w check source config = normalizeConfiguration config"
    using normalize_state(3) by (auto simp: observedSource_def Let_def)
  then show ?thesis
    using False normalize_state(1,2) [of config] by (auto simp: sourceReachable_def)
next
  case True
  then have observed: "observedSource w check source config = checkEndpoints w source (normalizeConfiguration config)"
    using normalize_state(4) by (auto simp: observedSource_def Let_def)
  show ?thesis
  proof (cases "\<forall>i < length (pnc_endpoints (normalizeConfiguration config)). reachableEndpoint w source i")
    case reach: True
    from checkEndpoints_state(1) [OF this] show ?thesis
      using True reach normalize_state(1,2) [of config] observed by (simp add: sourceReachable_def)
  next
    case reach: False
    from checkEndpoints_state(2) [OF this] show ?thesis
      using True reach normalize_state(2) [of config] observed by (auto simp: sourceReachable_def brokenStates_def)
  qed
qed

text \<open>The probe passes exactly when the proxy settings were read and are usable: it was not canceled,
  both native sources are available and well formed, and, when endpoints are checked, a connection to
  each of the first sixteen of every source succeeded. A broken source is never reported as a pass, nor
  a sound one as a failure.
\<close>

theorem proxy_probe_passes:
  "pr_Status (proxyRun w check target) = ProbeStatusPassed \<longleftrightarrow>
     \<not> pw_startErr w \<and> \<not> pw_endErr w
     \<and> (case pw_discover w of
          Inl err \<Rightarrow> False
        | Inr discovery \<Rightarrow> sourceReachable w check ''winhttp'' (pdy_WinHTTP discovery)
            \<and> sourceReachable w check ''wininet'' (pdy_WinINET discovery))"
proof -
  have status: "pr_Status (proxyFinish w target evidence status reason) = status" for evidence status reason
    by (simp add: proxyFinish_def)
  have "pr_Status (proxyObserved w check target discovery) = ProbeStatusPassed \<longleftrightarrow>
      \<not> pw_endErr w \<and> pnc_state (observedSource w check ''winhttp'' (pdy_WinHTTP discovery)) \<notin> brokenStates
      \<and> pnc_state (observedSource w check ''wininet'' (pdy_WinINET discovery)) \<notin> brokenStates" for discovery
    by (auto simp: proxyObserved_def Let_def status brokenStates_def go_consts)
  then show ?thesis
    by (auto simp: proxyRun_def status observed_state go_consts split: sum.splits discoverError.splits)
qed

end
