(* ===== verification/Enterprise.thy ===== *)
theory Enterprise
  imports Proxy Target
begin

text \<open>
  \<open>internal/probe/enterprise/enterprise.go\<close>: what a snapshot of the local enterprise settings says is
  made safe for evidence, compared, correlated and reported by the probe \<open>windows_enterprise\<close>; and the
  request that tries one path. The platform's snapshot, the HTTP client, the clock and JSON encoding
  are arguments. \<open>sanitizeBypass\<close> of the package is \<open>enterpriseBypass\<close>.
\<close>

section \<open>Texts\<close>

definition maxEvidenceError :: nat where
  [go_consts]: "maxEvidenceError = 256"

definition boundedString :: "string \<Rightarrow> nat \<Rightarrow> string" where
  "boundedString value limit = (if length value > limit then take limit value else value)"

text \<open>The scheme and the length of the match of \<open>userInfoURL\<close> at the start of a text.\<close>

definition userInfoMatch :: "string \<Rightarrow> (string \<times> nat) option" where
  "userInfoMatch s =
     (let prefix = (if toLower (take 8 s) = ''https://'' then take 8 s
            else if toLower (take 7 s) = ''http://'' then take 7 s else []);
          rest = drop (length prefix) s;
          run = takeWhile (\<lambda>c. c \<noteq> CHR ''/'' \<and> c \<noteq> CHR ''@''
            \<and> c \<notin> {CHR 0x09, CHR 0x0A, CHR 0x0C, CHR 0x0D, CHR '' ''}) rest in
      if prefix \<noteq> [] \<and> run \<noteq> [] \<and> hasPrefix ''@'' (drop (length run) rest)
      then Some (prefix, length prefix + length run + 1) else None)"

text \<open>\<open>userInfoURL.ReplaceAllString(value, "$1")\<close>; the number counts the bytes of a match still to skip.\<close>

fun dropUserInfo :: "nat \<Rightarrow> string \<Rightarrow> string" where
  "dropUserInfo k [] = []"
| "dropUserInfo (Suc k) (c # s) = dropUserInfo k s"
| "dropUserInfo 0 (c # s) =
     (case userInfoMatch (c # s) of
        None \<Rightarrow> c # dropUserInfo 0 s
      | Some (prefix, n) \<Rightarrow> prefix @ dropUserInfo (n - 1) s)"

definition safeErrorString :: "string \<Rightarrow> string" where
  "safeErrorString value0 =
     (let value = trimSpace value0 in
      if value = [] then []
      else if containsWord sensitiveErrorWords False value then ''sensitive configuration value redacted''
      else boundedString (dropUserInfo 0 value) maxEvidenceError)"

definition enterpriseBypass :: "string list \<Rightarrow> string list" where
  "enterpriseBypass values =
     (let redacted = pco_ProxyBypass (NormalizeConfiguration
            (zero_SourceConfiguration\<lparr>psc_Available := True, psc_Bypass := values\<rparr>)) in
      map (\<lambda>value. boundedString value maxEvidenceError) (filter (\<lambda>v. v \<noteq> []) (map trimSpace redacted)))"

section \<open>Safe copies\<close>

definition normalizeEffectiveDecision :: "EffectiveProxy \<Rightarrow> string" where
  "normalizeEffectiveDecision value =
     (if trimSpace (efx_Decision value) \<noteq> [] then trimSpace (efx_Decision value)
      else if efx_BypassMatched value then EnterpriseProxyDecisionBypassMatch
      else if \<not> efx_ResolutionOK value \<and> (efx_PACUsed value \<or> efx_AutoDetect value)
      then EnterpriseProxyDecisionPACResultUnavailable
      else if efx_Mode value = PathModeDirect then EnterpriseProxyDecisionDirect
      else if efx_Mode value = PathModeProxy then EnterpriseProxyDecisionStaticProxy
      else if efx_Mode value = PathModePAC then EnterpriseProxyDecisionPACSelectedProxy
      else EnterpriseProxyDecisionUnknown)"

text \<open>The endpoint that replaces a reported one; \<open>ProxyEndpoints\<close> returns an error as its text.\<close>

definition safeReportedEndpoint :: "string \<Rightarrow> string" where
  "safeReportedEndpoint endpoint = (case ProxyEndpoints endpoint of (endpoints, err) \<Rightarrow>
     if err = [] \<and> endpoints \<noteq> [] then hd endpoints
     else if trimSpace endpoint \<noteq> [] then [] else endpoint)"

definition safeEffective :: "EffectiveProxy \<Rightarrow> EffectiveProxy" where
  "safeEffective value = value\<lparr>efx_Decision := normalizeEffectiveDecision value,
     efx_ResolutionAttempted := (efx_ResolutionOK value \<or> efx_ResolutionAttempted value),
     efx_Endpoint := safeReportedEndpoint (efx_Endpoint value),
     efx_Bypass := enterpriseBypass (efx_Bypass value), efx_Error := safeErrorString (efx_Error value)\<rparr>"

definition safeEffectiveLess :: "EffectiveProxy \<Rightarrow> EffectiveProxy \<Rightarrow> bool" where
  "safeEffectiveLess a b = (if efx_Source a \<noteq> efx_Source b then efx_Source a < efx_Source b
     else efx_Endpoint a < efx_Endpoint b)"

definition safeEffectiveProxies :: "EffectiveProxy list \<Rightarrow> EffectiveProxy list" where
  "safeEffectiveProxies values = sortBy safeEffectiveLess (map safeEffective values)"

definition safeCertificate :: "CertificateObservation \<Rightarrow> CertificateObservation" where
  "safeCertificate value = (let bound = (\<lambda>s. boundedString s maxEvidenceError) in
     value\<lparr>cob_Subject := bound (cob_Subject value), cob_Issuer := bound (cob_Issuer value),
       cob_SerialNumber := bound (cob_SerialNumber value), cob_NotBefore := bound (cob_NotBefore value),
       cob_NotAfter := bound (cob_NotAfter value), cob_DNSNames := map bound (take 32 (cob_DNSNames value)),
       cob_SHA256 := bound (cob_SHA256 value)\<rparr>)"

definition safePath :: "EnterprisePath \<Rightarrow> EnterprisePath" where
  "safePath value = value\<lparr>enp_Endpoint := safeReportedEndpoint (enp_Endpoint value),
     enp_Error := safeErrorString (enp_Error value),
     enp_Certificate := map_option safeCertificate (enp_Certificate value)\<rparr>"

definition safePaths :: "EnterprisePath list \<Rightarrow> EnterprisePath list" where
  "safePaths values = sortBy (\<lambda>a b. enp_Name a < enp_Name b) (map safePath values)"

definition safeRoutes :: "EnterpriseRoute list \<Rightarrow> EnterpriseRoute list" where
  "safeRoutes values = sortBy (\<lambda>a b. enr_Path a < enr_Path b)
     (map (\<lambda>r. r\<lparr>enr_Error := safeErrorString (enr_Error r)\<rparr>) values)"

definition adapterLess :: "AdapterObservation \<Rightarrow> AdapterObservation \<Rightarrow> bool" where
  "adapterLess a b = (if ado_Index a \<noteq> ado_Index b then ado_Index a < ado_Index b
     else ado_Name a < ado_Name b)"

definition safeAdapters :: "AdapterObservation list \<Rightarrow> AdapterObservation list" where
  "safeAdapters values = sortBy adapterLess
     (map (\<lambda>a. a\<lparr>ado_Name := boundedString (ado_Name a) maxEvidenceError\<rparr>) values)"

definition issueLess :: "ObservationIssue \<Rightarrow> ObservationIssue \<Rightarrow> bool" where
  "issueLess a b = (if obi_Subsystem a \<noteq> obi_Subsystem b then obi_Subsystem a < obi_Subsystem b
     else obi_Kind a < obi_Kind b)"

definition safeIssues :: "ObservationIssue list \<Rightarrow> ObservationIssue list" where
  "safeIssues values = sortBy issueLess (map (\<lambda>i. i\<lparr>obi_Error := safeErrorString (obi_Error i)\<rparr>) values)"

definition safeTrustStore :: "TrustStoreObservation \<Rightarrow> TrustStoreObservation" where
  "safeTrustStore value = value\<lparr>tso_Error := safeErrorString (tso_Error value)\<rparr>"

definition safeFirewall :: "FirewallObservation \<Rightarrow> FirewallObservation" where
  "safeFirewall value = value\<lparr>fwo_Error := safeErrorString (fwo_Error value)\<rparr>"

section \<open>Comparisons\<close>

definition hasPACResolution :: "EffectiveProxy list \<Rightarrow> string \<Rightarrow> bool" where
  "hasPACResolution values source =
     list_ex (\<lambda>v. efx_Source v = source \<and> efx_PACUsed v \<and> efx_ResolutionOK v) values"

definition findPath :: "EnterprisePath list \<Rightarrow> string \<Rightarrow> EnterprisePath option" where
  "findPath paths name = find (\<lambda>p. enp_Name p = name) paths"

definition enterprisePathWorks :: "EnterprisePath option \<Rightarrow> bool" where
  "enterprisePathWorks path0 = (case path0 of None \<Rightarrow> False | Some path \<Rightarrow>
     if enp_FailureReason path \<noteq> [] \<and> enp_FailureReason path \<noteq> FailureReasonNone then False
     else if enp_HTTPResponse path \<and> enp_HTTPStatusCode path \<ge> 200 \<and> enp_HTTPStatusCode path < 400 then True
     else enp_TLSHandshake path \<and> enp_CertificateTrusted path \<and> enp_HostnameVerified path)"

definition viaProxy :: "EnterprisePath \<Rightarrow> bool" where
  "viaProxy path \<longleftrightarrow> enp_Mode path = PathModeProxy \<or> enp_Mode path = PathModePAC"

definition proxyPathWorks :: "EnterprisePath list \<Rightarrow> bool" where
  "proxyPathWorks paths = list_ex (\<lambda>path. viaProxy path \<and> enterprisePathWorks (Some path)) paths"

definition hasConnectOutcome :: "EnterprisePath list \<Rightarrow> string \<Rightarrow> bool" where
  "hasConnectOutcome paths outcome = list_ex (\<lambda>path. enp_ConnectOutcome path = outcome) paths"

definition hasProxyResolutionFailure :: "EnterpriseSnapshot \<Rightarrow> bool" where
  "hasProxyResolutionFailure snapshot = list_ex (\<lambda>effective.
     \<not> (efx_ResolutionOK effective \<or> efx_Error effective = [])
     \<and> (if efx_Source effective = ''winhttp'' then psc_Available (pdy_WinHTTP (ens_Proxy snapshot))
        else if efx_Source effective = ''wininet'' then psc_Available (pdy_WinINET (ens_Proxy snapshot))
        else False)) (ens_EffectiveProxy snapshot)"

definition configurationsDiverge :: "ProxyDiscovery \<Rightarrow> bool" where
  "configurationsDiverge discovery =
     (let left = NormalizeConfiguration (pdy_WinHTTP discovery);
          right = NormalizeConfiguration (pdy_WinINET discovery) in
      if \<not> psc_Available (pdy_WinHTTP discovery) \<or> \<not> psc_Available (pdy_WinINET discovery) then False
      else pco_State left \<noteq> pco_State right \<or> pco_Direct left \<noteq> pco_Direct right
        \<or> pco_PACConfigured left \<noteq> pco_PACConfigured right \<or> pco_AutoDetect left \<noteq> pco_AutoDetect right
        \<or> pco_PACURL left \<noteq> pco_PACURL right \<or> pco_ProxyEndpoints left \<noteq> pco_ProxyEndpoints right
        \<or> pco_ProxyBypass left \<noteq> pco_ProxyBypass right)"

text \<open>The pointers \<open>direct\<close> and \<open>proxyPath\<close> of \<open>compareTLS\<close>, and those of \<open>routesDiffer\<close>.\<close>

definition tlsPair :: "EnterprisePath \<Rightarrow> EnterprisePath option \<times> EnterprisePath option
    \<Rightarrow> EnterprisePath option \<times> EnterprisePath option" where
  "tlsPair path s = (case s of (direct, proxyPath) \<Rightarrow>
     (if enp_Name path = PathApplicationDirect then Some path else direct,
      if (enp_Name path = PathBrowserWinINET \<or> enp_Name path = PathServiceWinHTTP) \<and> viaProxy path
        \<and> (case proxyPath of None \<Rightarrow> True
           | Some p \<Rightarrow> enp_Name path = PathBrowserWinINET \<and> enp_Name p \<noteq> PathBrowserWinINET)
      then Some path else proxyPath))"

definition tlsMaterial :: "EnterprisePath \<Rightarrow> bool" where
  "tlsMaterial path \<longleftrightarrow> enp_TLSAttempted path \<or> enp_Certificate path \<noteq> None"

definition bothPaths :: "(EnterprisePath \<Rightarrow> bool) \<Rightarrow> EnterprisePath option \<Rightarrow> EnterprisePath option \<Rightarrow> bool" where
  "bothPaths holds a b = (case (a, b) of (Some x, Some y) \<Rightarrow> holds x \<and> holds y | _ \<Rightarrow> False)"

definition certificateText :: "(CertificateObservation \<Rightarrow> string) \<Rightarrow> EnterprisePath option \<Rightarrow> string" where
  "certificateText field path = (case Option.bind path enp_Certificate of None \<Rightarrow> [] | Some c \<Rightarrow> field c)"

definition compareTLS :: "EnterprisePath list \<Rightarrow> TLSComparison" where
  "compareTLS paths = (case fold tlsPair paths (None, None) of (direct, proxyPath) \<Rightarrow>
     let directSHA = certificateText cob_SHA256 direct; proxySHA = certificateText cob_SHA256 proxyPath;
         directIssuer = certificateText cob_Issuer direct; proxyIssuer = certificateText cob_Issuer proxyPath;
         differ = (directSHA \<noteq> [] \<and> proxySHA \<noteq> [] \<and> directSHA \<noteq> proxySHA);
         trusted = bothPaths enp_CertificateTrusted direct proxyPath;
         verified = bothPaths enp_HostnameVerified direct proxyPath;
         material = bothPaths tlsMaterial direct proxyPath;
         interception = (differ \<and> trusted \<and> verified) in
     \<lparr>tco_DirectCertificateSHA256 = directSHA, tco_ProxyCertificateSHA256 = proxySHA,
      tco_DirectCertificateSubject = certificateText cob_Subject direct,
      tco_ProxyCertificateSubject = certificateText cob_Subject proxyPath,
      tco_DirectCertificateIssuer = directIssuer, tco_ProxyCertificateIssuer = proxyIssuer,
      tco_CertificatesDiffer = differ, tco_CertificatesDifferKnown = (directSHA \<noteq> [] \<and> proxySHA \<noteq> []),
      tco_IssuersDiffer = (directIssuer \<noteq> [] \<and> proxyIssuer \<noteq> [] \<and> \<not> equalFold directIssuer proxyIssuer),
      tco_IssuersDifferKnown = (directIssuer \<noteq> [] \<and> proxyIssuer \<noteq> []),
      tco_BothTrusted = trusted, tco_BothTrustedKnown = material,
      tco_BothHostnameVerified = verified, tco_BothHostnameKnown = material,
      tco_PossibleInterception = interception,
      tco_InterceptionBasis = (if interception
        then ''trusted hostname-valid peer certificates differ between direct and proxy paths'' else []),
      tco_TrustMismatch = (proxyPath \<noteq> None \<and> enterprisePathWorks proxyPath
        \<and> (case direct of None \<Rightarrow> False | Some d \<Rightarrow>
             tlsMaterial d \<and> enp_Certificate d \<noteq> None \<and> \<not> enp_CertificateTrusted d))\<rparr>)"

definition routePair :: "EnterpriseRoute \<Rightarrow> EnterpriseRoute option \<times> EnterpriseRoute option
    \<Rightarrow> EnterpriseRoute option \<times> EnterpriseRoute option" where
  "routePair route s = (case s of (direct, proxyRoute) \<Rightarrow>
     if enr_Path route = PathApplicationDirect then (Some route, proxyRoute)
     else if (enr_Path route = PathBrowserWinINET \<or> enr_Path route = PathServiceWinHTTP)
       \<and> (case proxyRoute of None \<Rightarrow> True
          | Some p \<Rightarrow> enr_Path route = PathBrowserWinINET \<and> enr_Path p \<noteq> PathBrowserWinINET)
     then (direct, Some route) else s)"

definition routesDiffer :: "EnterpriseRoute list \<Rightarrow> bool" where
  "routesDiffer routes = (case fold routePair routes (None, None) of
     (Some direct, Some proxyRoute) \<Rightarrow>
       enr_Available direct \<and> enr_Available proxyRoute
       \<and> enr_InterfaceIndex direct \<noteq> 0 \<and> enr_InterfaceIndex proxyRoute \<noteq> 0
       \<and> (enr_InterfaceIndex direct \<noteq> enr_InterfaceIndex proxyRoute \<or> enr_NextHop direct \<noteq> enr_NextHop proxyRoute)
   | _ \<Rightarrow> False)"

definition hasIssue :: "ObservationIssue list \<Rightarrow> string \<Rightarrow> bool" where
  "hasIssue issues subsystem = list_ex (\<lambda>i. obi_Subsystem i = subsystem) issues"

section \<open>Correlation\<close>

definition correlate :: "EnterpriseSnapshot \<Rightarrow> FailureReason \<times> Layer \<times> FaultDomain" where
  "correlate snapshot =
     (let paths = ens_Paths snapshot; application = findPath paths PathApplicationDirect in
      if hasConnectOutcome paths ConnectAuthRequired
      then (FailureReasonProxyAuthenticationRequired, LayerProxy, FaultDomainProxy)
      else if hasConnectOutcome paths ConnectDenied
      then (FailureReasonProxyConnectDenied, LayerProxy, FaultDomainProxy)
      else if tco_PossibleInterception (ens_TLS snapshot)
      then (FailureReasonTLSInterceptionSuspected, LayerTLS, FaultDomainTLS)
      else if tco_TrustMismatch (ens_TLS snapshot)
      then (FailureReasonTLSTrustStoreMismatch, LayerTLS, FaultDomainTLS)
      else if proxyPathWorks paths \<and> (case application of None \<Rightarrow> False
         | Some path \<Rightarrow> \<not> enterprisePathWorks application \<and> enp_Mode path = PathModeDirect)
      then (FailureReasonDirectEgressRestricted, LayerNetwork, FaultDomainPolicy)
      else if configurationsDiverge (ens_Proxy snapshot)
      then (FailureReasonProxyConfigurationDivergence, LayerProxy, FaultDomainProxy)
      else if list_ex (\<lambda>p. enp_FailureReason p = FailureReasonProxyUnavailable) paths
      then (FailureReasonProxyUnavailable, LayerProxy, FaultDomainProxy)
      else if routesDiffer (ens_Routes snapshot)
      then (FailureReasonEffectiveRouteDifference, LayerRoute, FaultDomainRouting)
      else if hasProxyResolutionFailure snapshot
      then (FailureReasonProxyConfigurationFailure, LayerProxy, FaultDomainProxy)
      else if list_ex (\<lambda>p. enp_FailureReason p = FailureReasonProxyConfigurationFailure) paths
      then (FailureReasonProxyConfigurationFailure, LayerProxy, FaultDomainProxy)
      else (FailureReasonNone, LayerProxy, FaultDomainProxy))"

section \<open>Evidence\<close>

text \<open>The maps that become JSON objects.\<close>

record pathComparison =
  pcm_direct :: bool
  pcm_browserWininet :: bool
  pcm_serviceWinhttp :: bool

definition comparePaths :: "EnterprisePath list \<Rightarrow> pathComparison" where
  "comparePaths paths = \<lparr>pcm_direct = enterprisePathWorks (findPath paths PathApplicationDirect),
     pcm_browserWininet = enterprisePathWorks (findPath paths PathBrowserWinINET),
     pcm_serviceWinhttp = enterprisePathWorks (findPath paths PathServiceWinHTTP)\<rparr>"

record connectivityPayload =
  cnp_effectiveProxy :: "EffectiveProxy list"
  cnp_paths :: "EnterprisePath list"
  cnp_directVsProxy :: pathComparison

definition connectivityEvidence :: "EnterpriseSnapshot \<Rightarrow> connectivityPayload" where
  "connectivityEvidence snapshot = \<lparr>cnp_effectiveProxy = ens_EffectiveProxy snapshot,
     cnp_paths = ens_Paths snapshot, cnp_directVsProxy = comparePaths (ens_Paths snapshot)\<rparr>"

definition certificatesByPath :: "EnterprisePath list \<Rightarrow> (string \<times> CertificateObservation) list" where
  "certificatesByPath paths = fold (\<lambda>path m. case enp_Certificate path of
     None \<Rightarrow> m | Some c \<Rightarrow> AList.update (enp_Name path) c m) paths []"

definition tlsEvidence :: "EnterpriseSnapshot \<Rightarrow> enterpriseTLSEvidence" where
  "tlsEvidence snapshot = \<lparr>ete_Comparison = ens_TLS snapshot, ete_TrustStore = ens_TrustStore snapshot,
     ete_Certificates = certificatesByPath (ens_Paths snapshot)\<rparr>"

record correlationPayload =
  crp_primaryReason :: FailureReason
  crp_winhttpWininetDiverge :: bool
  crp_browserPathWorks :: bool
  crp_proxyPathWorks :: bool
  crp_applicationDirectWorks :: bool
  crp_proxyConnectDenied :: bool
  crp_proxyAuthenticationNeeded :: bool
  crp_effectiveRouteDiffers :: bool
  crp_intentionalPolicyPossible :: bool

definition correlationEvidence :: "EnterpriseSnapshot \<Rightarrow> FailureReason \<Rightarrow> correlationPayload" where
  "correlationEvidence snapshot reason =
     \<lparr>crp_primaryReason = reason, crp_winhttpWininetDiverge = configurationsDiverge (ens_Proxy snapshot),
      crp_browserPathWorks = enterprisePathWorks (findPath (ens_Paths snapshot) PathBrowserWinINET),
      crp_proxyPathWorks = proxyPathWorks (ens_Paths snapshot),
      crp_applicationDirectWorks = enterprisePathWorks (findPath (ens_Paths snapshot) PathApplicationDirect),
      crp_proxyConnectDenied = hasConnectOutcome (ens_Paths snapshot) ConnectDenied,
      crp_proxyAuthenticationNeeded = hasConnectOutcome (ens_Paths snapshot) ConnectAuthRequired,
      crp_effectiveRouteDiffers = routesDiffer (ens_Routes snapshot),
      crp_intentionalPolicyPossible = (reason = FailureReasonDirectEgressRestricted)\<rparr>"

section \<open>The probe\<close>

datatype snapshotError = SnapshotUnsupported | SnapshotFailed string

record enterpriseWorld =
  ew_startErr :: bool
  ew_snapshot :: "Target \<Rightarrow> EnterpriseSnapshot \<times> snapshotError option"
  ew_started :: gotime
  ew_completed :: gotime
  ew_captured :: "string \<Rightarrow> gotime"
  ew_state :: "string \<Rightarrow> string \<Rightarrow> string"
  ew_configuration :: "ConfigurationObservation \<Rightarrow> string"
  ew_pac :: "enterprisePACEvidence \<Rightarrow> string"
  ew_connectivity :: "connectivityPayload \<Rightarrow> string"
  ew_tls :: "enterpriseTLSEvidence \<Rightarrow> string"
  ew_firewall :: "FirewallObservation \<Rightarrow> string"
  ew_routing :: "enterpriseRoutingEvidence \<Rightarrow> string"
  ew_issues :: "ObservationIssue list \<Rightarrow> string"
  ew_correlation :: "correlationPayload \<Rightarrow> string"

definition windowsEvidence :: "enterpriseWorld \<Rightarrow> string \<Rightarrow> EvidenceKind \<Rightarrow> string \<Rightarrow> string \<Rightarrow> Evidence" where
  "windowsEvidence w id0 kind source raw = \<lparr>ev_ID = id0, ev_Kind = kind, ev_Source = source,
     ev_CapturedAt = Some (ew_captured w id0), ev_Raw = raw\<rparr>"

definition configurationEvidence :: "enterpriseWorld \<Rightarrow> SourceConfiguration \<Rightarrow> string \<Rightarrow> EvidenceKind \<Rightarrow> Evidence" where
  "configurationEvidence w config source kind = windowsEvidence w
     (''windows-enterprise/'' @ source @ ''/configuration'') kind source
     (ew_configuration w (NormalizeConfiguration config))"

definition pacEvidenceOf :: "enterpriseWorld \<Rightarrow> EnterpriseSnapshot \<Rightarrow> string \<Rightarrow> SourceConfiguration \<Rightarrow> Evidence list" where
  "pacEvidenceOf w snapshot source config =
     (let observed = NormalizeConfiguration config in
      if pco_PACConfigured observed
      then [windowsEvidence w (''windows-enterprise/'' @ source @ ''/pac'') EvidenceKindPAC source (ew_pac w
        \<lparr>epv_Configured = True, epv_URL = pco_PACURL observed, epv_AutoDetect = pco_AutoDetect observed,
         epv_Executed = hasPACResolution (ens_EffectiveProxy snapshot) source\<rparr>)]
      else [])"

text \<open>The snapshot after the assignments of safe copies, and with the comparison of its certificates.\<close>

definition safeSnapshot :: "EnterpriseSnapshot \<Rightarrow> EnterpriseSnapshot" where
  "safeSnapshot s =
     (let t = s\<lparr>ens_Paths := safePaths (ens_Paths s), ens_EffectiveProxy := safeEffectiveProxies (ens_EffectiveProxy s),
            ens_Routes := safeRoutes (ens_Routes s), ens_Adapters := safeAdapters (ens_Adapters s),
            ens_Issues := safeIssues (ens_Issues s), ens_TrustStore := safeTrustStore (ens_TrustStore s),
            ens_Firewall := safeFirewall (ens_Firewall s)\<rparr> in
      if ens_TLS t = zero_TLSComparison then t\<lparr>ens_TLS := compareTLS (ens_Paths t)\<rparr> else t)"

definition snapshotEvidence :: "enterpriseWorld \<Rightarrow> EnterpriseSnapshot \<Rightarrow> Evidence list" where
  "snapshotEvidence w s =
     (if ens_Paths s \<noteq> [] \<or> ens_EffectiveProxy s \<noteq> []
      then [windowsEvidence w ''windows-enterprise/connectivity'' EvidenceKindProxyConnectivity ''windows-enterprise''
        (ew_connectivity w (connectivityEvidence s))] else [])
     @ [windowsEvidence w ''windows-enterprise/tls'' EvidenceKindTLSTrust ''crypto/x509'' (ew_tls w (tlsEvidence s))]
     @ (if fwo_Available (ens_Firewall s) \<or> fwo_Error (ens_Firewall s) \<noteq> [] \<or> fwo_Insufficient (ens_Firewall s)
        then [windowsEvidence w ''windows-enterprise/firewall'' EvidenceKindFirewallProfile ''windows-firewall-profile''
          (ew_firewall w (ens_Firewall s))] else [])
     @ (if ens_Adapters s \<noteq> [] \<or> ens_Routes s \<noteq> [] \<or> hasIssue (ens_Issues s) ''adapter'' \<or> hasIssue (ens_Issues s) ''route''
        then [windowsEvidence w ''windows-enterprise/routing'' EvidenceKindAdapterRouting ''windows-ip-helper''
          (ew_routing w \<lparr>ero_Adapters = ens_Adapters s, ero_Routes = ens_Routes s\<rparr>)] else [])
     @ (if ens_Issues s \<noteq> []
        then [windowsEvidence w ''windows-enterprise/collection'' EvidenceKindProxyConfiguration ''windows-enterprise''
          (ew_issues w (ens_Issues s))] else [])"

definition enterpriseFinish :: "enterpriseWorld \<Rightarrow> Target \<Rightarrow> Evidence list \<Rightarrow> ProbeStatus
    \<Rightarrow> FailureReason \<times> Layer \<times> FaultDomain \<Rightarrow> ProbeResult" where
  "enterpriseFinish w target evidence status interpretation = (case interpretation of (reason, layer, domain) \<Rightarrow>
     zero_ProbeResult\<lparr>
       pr_Name := EnterpriseProbeName, pr_Target := target, pr_Status := status,
       pr_Timing := \<lparr>tm_StartedAt = Some (ew_started w), tm_CompletedAt = Some (ew_completed w),
         tm_DurationMS = max 0 ((ew_completed w - ew_started w) div 10 ^ 6)\<rparr>,
       pr_Evidence := evidence,
       pr_Interpretation := \<lparr>pin_FailureReason = reason, pin_Layer = layer, pin_FaultDomain = domain\<rparr>\<rparr>)"

definition correlatedStatus :: "FailureReason \<Rightarrow> ProbeStatus" where
  "correlatedStatus reason =
     (if reason = FailureReasonNone then ProbeStatusPassed
      else if reason = FailureReasonProbeExecution then ProbeStatusError else ProbeStatusFailed)"

definition enterpriseObserved :: "enterpriseWorld \<Rightarrow> Target \<Rightarrow> EnterpriseSnapshot \<Rightarrow> ProbeResult" where
  "enterpriseObserved w target snapshot =
     (let winhttp = pdy_WinHTTP (ens_Proxy snapshot); wininet = pdy_WinINET (ens_Proxy snapshot);
          safe = safeSnapshot snapshot; verdict = correlate safe in
      enterpriseFinish w target
        ([configurationEvidence w winhttp ''winhttp'' EvidenceKindWinHTTPProxy,
          configurationEvidence w wininet ''wininet'' EvidenceKindWinINETProxy]
         @ pacEvidenceOf w snapshot ''winhttp'' winhttp @ pacEvidenceOf w snapshot ''wininet'' wininet
         @ snapshotEvidence w safe
         @ [windowsEvidence w ''windows-enterprise/correlation'' EvidenceKindRouteComparison ''windows-enterprise''
           (ew_correlation w (correlationEvidence safe (fst verdict)))])
        (correlatedStatus (fst verdict)) verdict)"

definition emptySnapshot :: "EnterpriseSnapshot \<Rightarrow> bool" where
  "emptySnapshot s \<longleftrightarrow> ens_Paths s = [] \<and> ens_EffectiveProxy s = [] \<and> ens_Adapters s = [] \<and> ens_Routes s = []
     \<and> \<not> fwo_Available (ens_Firewall s) \<and> \<not> tso_Available (ens_TrustStore s)"

definition enterpriseRun :: "enterpriseWorld \<Rightarrow> Target \<Rightarrow> ProbeResult" where
  "enterpriseRun w target =
     (let failed = (FailureReasonProbeExecution, LayerProxy, FaultDomainProxy) in
      if ew_startErr w then enterpriseFinish w target [] ProbeStatusError failed
      else case ew_snapshot w target of
          (snapshot, Some SnapshotUnsupported) \<Rightarrow> enterpriseFinish w target
            [windowsEvidence w ''windows-enterprise/platform'' EvidenceKindProxyConfiguration ''windows-enterprise''
              (ew_state w ''unsupported_platform'' ''Windows enterprise diagnostics are unsupported on this platform'')]
            ProbeStatusSkipped (FailureReasonUnsupported, LayerProxy, FaultDomainProxy)
        | (snapshot, Some (SnapshotFailed err)) \<Rightarrow>
            if emptySnapshot snapshot
            then enterpriseFinish w target
              [windowsEvidence w ''windows-enterprise/error'' EvidenceKindProxyConfiguration ''windows-enterprise''
                (ew_state w ''collection_error'' (safeErrorString err))]
              ProbeStatusError failed
            else enterpriseObserved w target (snapshot\<lparr>ens_Issues := ens_Issues snapshot
              @ [zero_ObservationIssue\<lparr>obi_Subsystem := ''provider'', obi_Kind := ''partial_collection'',
                   obi_Error := err\<rparr>]\<rparr>)
        | (snapshot, None) \<Rightarrow> enterpriseObserved w target snapshot)"

section \<open>One path\<close>

text \<open>What a certificate of the standard library answers.\<close>

record peerCertificate =
  px_Subject :: string
  px_Issuer :: string
  px_SerialNumber :: string
  px_NotBefore :: string
  px_NotAfter :: string
  px_DNSNames :: "string list"
  px_Digest :: string
  px_verifies :: "string \<Rightarrow> bool"

definition enterpriseCertificateMetadata :: "peerCertificate \<Rightarrow> CertificateObservation" where
  "enterpriseCertificateMetadata cert = \<lparr>cob_ChainIndex = 0, cob_Subject = px_Subject cert, cob_Issuer = px_Issuer cert,
     cob_SerialNumber = px_SerialNumber cert, cob_NotBefore = px_NotBefore cert, cob_NotAfter = px_NotAfter cert,
     cob_DNSNames = px_DNSNames cert, cob_SHA256 = px_Digest cert\<rparr>"

text \<open>What \<open>errors.Is\<close> and \<open>errors.As\<close> find in an error of the HTTP client: \<open>he_hostname\<close> and
  \<open>he_unknownAuthority\<close> hold the certificate field, \<open>he_verification\<close> the unverified certificates and
  whether a hostname error is nested, \<open>he_dns\<close> whether the name was not found.\<close>

record httpError =
  he_text :: string
  he_deadline :: bool
  he_canceled :: bool
  he_dns :: "bool option"
  he_certificateInvalid :: bool
  he_hostname :: "peerCertificate option option"
  he_unknownAuthority :: "peerCertificate option option"
  he_verification :: "(peerCertificate list \<times> bool) option"
  he_timeout :: bool

record tlsState =
  tst_HandshakeComplete :: bool
  tst_PeerCertificates :: "peerCertificate list"

record httpAnswer =
  hrs_StatusCode :: int
  hrs_TLS :: "tlsState option"

record httpWorld =
  hw_request :: "string \<Rightarrow> string option"
  hw_do :: "string \<Rightarrow> string option \<Rightarrow> httpError + httpAnswer"
  hw_deadline :: bool

definition certificateChainTrusted :: "httpError \<Rightarrow> bool" where
  "certificateChainTrusted err =
     (if he_hostname err \<noteq> None then True
      else case he_verification err of Some (certificates, nested) \<Rightarrow> nested | None \<Rightarrow> False)"

definition certificatesFromTLSError :: "httpError \<Rightarrow> peerCertificate list" where
  "certificatesFromTLSError err =
     (let unverified = (case he_verification err of Some (certificates, _) \<Rightarrow> certificates | None \<Rightarrow> []) in
      if unverified \<noteq> [] then unverified
      else case he_unknownAuthority err of Some (Some cert) \<Rightarrow> [cert]
        | _ \<Rightarrow> (case he_hostname err of Some (Some cert) \<Rightarrow> [cert] | _ \<Rightarrow> []))"

definition classifyHTTPError :: "httpError \<Rightarrow> bool \<Rightarrow> FailureReason" where
  "classifyHTTPError err ctxDeadline =
     (if ctxDeadline \<or> he_deadline err then FailureReasonTCPTimeout
      else if he_canceled err then FailureReasonProbeExecution
      else case he_dns err of
          Some notFound \<Rightarrow> if notFound then FailureReasonDNSNXDomain else FailureReasonDNSResolverFailure
        | None \<Rightarrow>
            if he_certificateInvalid err \<or> he_hostname err \<noteq> None \<or> he_unknownAuthority err \<noteq> None
            then FailureReasonCertificateValidationFailure
            else if he_timeout err then FailureReasonTCPTimeout
            else FailureReasonNetworkUnreachable)"

definition httpURLErrorText :: "TargetCheckError \<Rightarrow> string" where
  "httpURLErrorText err = (case err of
     NotHTTPService label \<Rightarrow> ''service '' @ label @ '' does not support HTTP requests''
   | IdentityEmpty \<Rightarrow> ''target identity is empty''
   | ResourceNotPath \<Rightarrow> ''target resource must be a path or query''
   | _ \<Rightarrow> [])"

definition pathFailed :: "FailureReason \<Rightarrow> string \<Rightarrow> EnterprisePath \<Rightarrow> EnterprisePath" where
  "pathFailed reason err path = path\<lparr>enp_FailureReason := reason, enp_Error := err\<rparr>"

definition pathErrored :: "httpWorld \<Rightarrow> string \<Rightarrow> httpError \<Rightarrow> EnterprisePath \<Rightarrow> EnterprisePath" where
  "pathErrored w host err path0 =
     (let path = pathFailed (classifyHTTPError err (hw_deadline w)) (safeErrorString (he_text err)) path0 in
      case certificatesFromTLSError err of
        [] \<Rightarrow> path
      | cert # _ \<Rightarrow> path\<lparr>enp_TCPConnected := True, enp_TLSAttempted := True,
          enp_CertificateTrusted := certificateChainTrusted err,
          enp_Certificate := Some (enterpriseCertificateMetadata cert), enp_HostnameVerified := px_verifies cert host\<rparr>)"

definition pathAnswered :: "httpAnswer \<Rightarrow> EnterprisePath \<Rightarrow> EnterprisePath" where
  "pathAnswered response path0 =
     (let connected = path0\<lparr>enp_TCPConnected := True, enp_HTTPResponse := True,
            enp_HTTPStatusCode := hrs_StatusCode response\<rparr>;
          path = (case hrs_TLS response of None \<Rightarrow> connected
            | Some tls \<Rightarrow> connected\<lparr>enp_TLSHandshake := tst_HandshakeComplete tls, enp_TLSAttempted := True,
                enp_CertificateTrusted := True, enp_HostnameVerified := True,
                enp_Certificate := (case tst_PeerCertificates tls of
                  [] \<Rightarrow> enp_Certificate connected | cert # _ \<Rightarrow> Some (enterpriseCertificateMetadata cert))\<rparr>) in
      if hrs_StatusCode response = 407
      then path\<lparr>enp_ConnectOutcome := ConnectAuthRequired, enp_ProxyAuthenticationHint := True,
        enp_FailureReason := FailureReasonProxyAuthenticationRequired\<rparr>
      else if hrs_StatusCode response \<ge> 400 then path\<lparr>enp_FailureReason := FailureReasonHTTPStatusCode\<rparr>
      else path\<lparr>enp_FailureReason := FailureReasonNone\<rparr>)"

text \<open>The request for the parsed URL, which has no user information, through the proxy endpoint or directly.\<close>

definition pathRequest :: "httpWorld \<Rightarrow> string \<Rightarrow> url \<Rightarrow> string option \<Rightarrow> EnterprisePath \<Rightarrow> EnterprisePath" where
  "pathRequest w targetURL parsed via path0 =
     (let path = (if via \<noteq> None \<and> urlSchemeOf parsed = ''https''
            then path0\<lparr>enp_ConnectOutcome := ConnectNotTested\<rparr> else path0) in
      let request = urlTextWithoutUser targetURL parsed in
      case hw_request w request of
        Some err \<Rightarrow> pathFailed FailureReasonProbeExecution (safeErrorString err) path
      | None \<Rightarrow>
          let attempted = path\<lparr>enp_RequestAttempted := True\<rparr> in
          case hw_do w request via of
            Inl err \<Rightarrow> pathErrored w (urlHostname parsed) err attempted
          | Inr response \<Rightarrow> pathAnswered response attempted)"

definition ProbeHTTPPath :: "httpWorld \<Rightarrow> Target \<Rightarrow> string \<Rightarrow> string \<Rightarrow> string \<Rightarrow> string \<Rightarrow> EnterprisePath" where
  "ProbeHTTPPath w target name source mode endpoint0 =
     (let path = zero_EnterprisePath\<lparr>enp_Name := name, enp_Source := source, enp_Mode := mode,
            enp_Endpoint := endpoint0, enp_ConnectOutcome := ConnectNotApplicable\<rparr>;
          malformed = pathFailed FailureReasonProxyConfigurationFailure ''proxy endpoint is malformed'' in
      case HTTPURL target of
        Inl err \<Rightarrow> pathFailed FailureReasonProbeExecution (httpURLErrorText err) path
      | Inr targetURL \<Rightarrow>
          case urlParse targetURL of
            None \<Rightarrow> pathFailed FailureReasonProbeExecution ''canonical target URL is malformed'' path
          | Some parsed \<Rightarrow>
              if mode = PathModeProxy \<or> mode = PathModePAC
              then (case ProxyEndpoints endpoint0 of (endpoints, err) \<Rightarrow>
                if err \<noteq> [] \<or> endpoints = [] then malformed (path\<lparr>enp_Endpoint := []\<rparr>)
                else let endpoint = hd endpoints; path' = path\<lparr>enp_Endpoint := endpoint\<rparr> in
                  if (case urlParse (''http://'' @ endpoint) of None \<Rightarrow> True | Some u \<Rightarrow> urlHost u = [])
                  then malformed path'
                  else pathRequest w targetURL parsed (Some endpoint) path')
              else pathRequest w targetURL parsed None path)"

end
