(* ===== verification/EnterpriseFacts.thy ===== *)
theory EnterpriseFacts
  imports Enterprise ProxyFacts PolicyFacts
begin

text \<open>
  What the enterprise probe guarantees, and what of it reaches the envelope: its evidence is safe, a
  verdict on the interception of TLS rests on two verified certificates, and the builder reads back
  the two proxy configurations that the probe observed.
\<close>

section \<open>Safe evidence\<close>

lemma boundedString_length [simp]: "length (boundedString s n) \<le> n"
  by (simp add: boundedString_def)

lemma safeErrorString_length: "length (safeErrorString s) \<le> maxEvidenceError"
  by (simp add: safeErrorString_def Let_def) (simp add: maxEvidenceError_def)

definition safeEndpointText :: "string \<Rightarrow> bool" where
  "safeEndpointText endpoint \<longleftrightarrow> trimSpace endpoint = [] \<or> plainEndpoint endpoint"

lemma safeReportedEndpoint_safe: "safeEndpointText (safeReportedEndpoint endpoint)"
proof -
  have "plainEndpoint (hd (fst (ProxyEndpoints endpoint)))" if "fst (ProxyEndpoints endpoint) \<noteq> []"
    using that endpoints_plain [of endpoint]
    by (cases "fst (ProxyEndpoints endpoint)") (auto simp: ProxyEndpoints_def split: prod.splits)
  moreover have "trimSpace [] = []" by code_simp
  ultimately show ?thesis
    by (auto simp: safeReportedEndpoint_def safeEndpointText_def split: prod.splits)
qed

definition safeCertificateTexts :: "CertificateObservation \<Rightarrow> bool" where
  "safeCertificateTexts c \<longleftrightarrow> length (cob_DNSNames c) \<le> 32
     \<and> (\<forall>s \<in> {cob_Subject c, cob_Issuer c, cob_SerialNumber c, cob_NotBefore c, cob_NotAfter c, cob_SHA256 c}
          \<union> set (cob_DNSNames c). length s \<le> 256)"

lemma safeCertificate_texts: "safeCertificateTexts (safeCertificate c)"
  by (auto simp: safeCertificateTexts_def safeCertificate_def Let_def maxEvidenceError_def)

lemma safePaths_safe:
  "p \<in> set (safePaths paths) \<Longrightarrow> safeEndpointText (enp_Endpoint p) \<and> length (enp_Error p) \<le> 256
     \<and> (case enp_Certificate p of None \<Rightarrow> True | Some c \<Rightarrow> safeCertificateTexts c)"
  using safeErrorString_length safeReportedEndpoint_safe safeCertificate_texts
  by (auto simp: safePaths_def safePath_def maxEvidenceError_def split: option.splits)

lemma safeEffectiveProxies_safe:
  "e \<in> set (safeEffectiveProxies values) \<Longrightarrow> safeEndpointText (efx_Endpoint e) \<and> length (efx_Error e) \<le> 256
     \<and> list_all (\<lambda>b. length b \<le> 256) (efx_Bypass e)"
  using safeErrorString_length safeReportedEndpoint_safe
  by (auto simp: safeEffectiveProxies_def safeEffective_def maxEvidenceError_def enterpriseBypass_def list_all_iff Let_def)

section \<open>Interception\<close>

lemma tlsPair_fold:
  assumes "fold tlsPair paths (None, None) = (direct, via)"
  shows "(case direct of None \<Rightarrow> True | Some d \<Rightarrow> d \<in> set paths \<and> enp_Name d = PathApplicationDirect)
    \<and> (case via of None \<Rightarrow> True | Some p \<Rightarrow> p \<in> set paths \<and> viaProxy p
         \<and> enp_Name p \<in> {PathBrowserWinINET, PathServiceWinHTTP})"
  using assms
proof (induction paths arbitrary: direct via rule: rev_induct)
  case (snoc path paths)
  obtain d p where dp: "fold tlsPair paths (None, None) = (d, p)" by fastforce
  then have "tlsPair path (d, p) = (direct, via)" using snoc.prems by simp
  then show ?case using snoc.IH [OF dp] by (auto simp: tlsPair_def split: if_splits option.splits)
qed simp

definition verifiedSubstitution :: "EnterprisePath \<Rightarrow> EnterprisePath \<Rightarrow> bool" where
  "verifiedSubstitution direct proxied \<longleftrightarrow>
     enp_Name direct = PathApplicationDirect
     \<and> enp_Name proxied \<in> {PathBrowserWinINET, PathServiceWinHTTP} \<and> viaProxy proxied
     \<and> enp_CertificateTrusted direct \<and> enp_CertificateTrusted proxied
     \<and> enp_HostnameVerified direct \<and> enp_HostnameVerified proxied
     \<and> (case (enp_Certificate direct, enp_Certificate proxied) of
          (Some a, Some b) \<Rightarrow> cob_SHA256 a \<noteq> [] \<and> cob_SHA256 b \<noteq> [] \<and> cob_SHA256 a \<noteq> cob_SHA256 b
        | _ \<Rightarrow> False)"

lemma compareTLS_interception:
  assumes "tco_PossibleInterception (compareTLS paths)"
  shows "\<exists>direct \<in> set paths. \<exists>proxied \<in> set paths. verifiedSubstitution direct proxied"
proof -
  obtain d p where dp: "fold tlsPair paths (None, None) = (d, p)" by fastforce
  obtain direct proxied where some: "d = Some direct" "p = Some proxied"
    using assms dp by (auto simp: compareTLS_def Let_def bothPaths_def split: option.splits)
  have "verifiedSubstitution direct proxied"
    using assms dp some tlsPair_fold [OF dp]
    by (auto simp: compareTLS_def Let_def bothPaths_def verifiedSubstitution_def certificateText_def split: option.splits)
  then show ?thesis using tlsPair_fold [OF dp] some by auto
qed

lemma boundedString_Nil [simp]: "boundedString s maxEvidenceError = [] \<longleftrightarrow> s = []"
  by (auto simp: boundedString_def maxEvidenceError_def)

lemma safe_substitution: "verifiedSubstitution (safePath a) (safePath b) \<Longrightarrow> verifiedSubstitution a b"
  by (auto simp: verifiedSubstitution_def safePath_def viaProxy_def safeCertificate_def Let_def split: option.splits)

lemma enterpriseFinish_simps [simp]:
  "pr_Evidence (enterpriseFinish w target evidence status verdict) = evidence"
  "pr_Status (enterpriseFinish w target evidence status verdict) = status"
  "pr_Name (enterpriseFinish w target evidence status verdict) = EnterpriseProbeName"
  "pr_Interpretation (enterpriseFinish w target evidence status (reason, layer, domain)) =
     \<lparr>pin_FailureReason = reason, pin_Layer = layer, pin_FaultDomain = domain\<rparr>"
  by (cases verdict; simp add: enterpriseFinish_def)+

lemma safeSnapshot_TLS:
  "ens_TLS s = zero_TLSComparison \<Longrightarrow> ens_TLS (safeSnapshot s) = compareTLS (safePaths (ens_Paths s))"
  by (simp add: safeSnapshot_def Let_def)

lemma correlate_interception:
  "correlate s = (FailureReasonTLSInterceptionSuspected, layer, domain) \<Longrightarrow> tco_PossibleInterception (ens_TLS s)"
  by (simp add: correlate_def go_consts Let_def split: if_splits)


section \<open>From the probe to the envelope\<close>

text \<open>The configuration of a source as the comparison of the builder reads it.\<close>

definition configurationView :: "EnterpriseProxySourceObservation \<Rightarrow> ConfigurationObservation" where
  "configurationView source = (let c = eps_Configuration source in
     \<lparr>pco_State = epc_State c, pco_Direct = epc_Direct c, pco_StaticProxyConfigured = epc_StaticProxyConfigured c,
      pco_ProxyEndpoints = epc_ProxyEndpoints c, pco_ProxyBypass = epc_ProxyBypass c,
      pco_PACConfigured = epc_PACConfigured c, pco_PACURL = epc_PACURL c, pco_AutoDetect = epc_AutoDetect c,
      pco_Error = []\<rparr>)"

lemma same_configuration_view:
  "configurationsDiffer o0 \<longleftrightarrow> configurationView (eno_WinHTTP o0) \<noteq> configurationView (eno_WinINET o0)"
  by (auto simp: configurationsDiffer_def sameEnterpriseProxyConfiguration_def configurationView_def Let_def)

lemma source_steps [simp]:
  "configurationView (markEnterpriseProxySource probe evidence certainty s) = configurationView s"
  "configurationView (mergeEnterpriseEffective candidate s) = configurationView s"
  "configurationView (resolvedPAC effective decision probe evidence s) = configurationView s"
  "configurationView (ensureEnterpriseEffectiveFromPath path probe evidence s) = configurationView s"
  "configurationView (s\<lparr>eps_EndpointReachability := r\<rparr>) = configurationView s"
  "configurationView (syncEnterprisePACConfiguration s) = configurationView s"
  by (simp_all add: configurationView_def markEnterpriseProxySource_def mergeEnterpriseEffective_def resolvedPAC_def
      ensureEnterpriseEffectiveFromPath_def syncEnterprisePACConfiguration_def Let_def)

lemma atSource_view:
  assumes "side \<in> proxySides" "\<And>s. configurationView (f s) = configurationView s"
  shows "configurationView (side (atSource name f o0)) = configurationView (side o0)"
  using assms by (auto simp: atSource_def proxySides_def Let_def)

lemma connectivity_view:
  assumes "side \<in> proxySides"
  shows "configurationView (side (projectEnterpriseConnectivity value probe evidence o0)) = configurationView (side o0)"
proof -
  have "configurationView (side (effectiveStep probe evidence effective o0)) = configurationView (side o0)" for effective o0
    unfolding effectiveStep_def Let_def by (rule atSource_view [OF assms]) simp
  moreover have "configurationView (side (pathStep probe evidence path o0)) = configurationView (side o0)" for path o0
    using assms by (simp add: pathStep_def Let_def atSource_view)
  ultimately show ?thesis
    by (simp add: projectEnterpriseConnectivity_def fold_keeps [where F = "\<lambda>o0. configurationView (side o0)"])
qed

definition proxyKinds :: "EvidenceKind set" where
  "proxyKinds = {EvidenceKindWinHTTPProxy, EvidenceKindWinINETProxy, EvidenceKindPAC}"

text \<open>What evidence of another kind leaves alone.\<close>

definition sourceFrame :: "enterpriseState \<Rightarrow> ConfigurationObservation \<times> ConfigurationObservation
    \<times> Evidence option \<times> Evidence option" where
  "sourceFrame s = (configurationView (eno_WinHTTP (xs_observation s)), configurationView (eno_WinINET (xs_observation s)),
     xs_winhttp s, xs_wininet s)"

lemma both_sides: "eno_WinHTTP \<in> proxySides" "eno_WinINET \<in> proxySides"
  by (simp_all add: proxySides_def)

lemma sourceFrame_onObservation:
  "(\<And>side. side \<in> proxySides \<Longrightarrow> configurationView (side (f (xs_observation s))) = configurationView (side (xs_observation s)))
     \<Longrightarrow> sourceFrame (onObservation f s) = sourceFrame s"
  using both_sides by (simp add: sourceFrame_def)

lemma sourceFrame_marks [simp]:
  "sourceFrame (s\<lparr>xs_path := p\<rparr>) = sourceFrame s" "sourceFrame (s\<lparr>xs_firewall := p\<rparr>) = sourceFrame s"
  "sourceFrame (s\<lparr>xs_routing := p\<rparr>) = sourceFrame s" "sourceFrame (s\<lparr>xs_tls := p\<rparr>) = sourceFrame s"
  "sourceFrame (s\<lparr>xs_correlation := p\<rparr>) = sourceFrame s"
  by (simp_all add: sourceFrame_def)

lemma connectivity_sources: "sourceFrame (onObservation (projectEnterpriseConnectivity value probe evidence) s) = sourceFrame s"
  by (rule sourceFrame_onObservation) (rule connectivity_view)

lemma plain_sources:
  "sourceFrame (onObservation (limitation t) s) = sourceFrame s"
  "sourceFrame (onObservation (projectEnterpriseFirewall fw probe evidence) s) = sourceFrame s"
  "sourceFrame (onObservation (projectEnterpriseRouting r probe evidence) s) = sourceFrame s"
  "sourceFrame (onObservation (projectEnterpriseTLS tls probe evidence) s) = sourceFrame s"
  "sourceFrame (onObservation (projectEnterpriseCorrelation c evidence) s) = sourceFrame s"
  "sourceFrame (onObservation (appendEnterpriseIssues issues) s) = sourceFrame s"
  by (rule sourceFrame_onObservation, simp)+

lemma kindStep_sources:
  assumes "ev_Kind evidence \<notin> proxyKinds"
  shows "sourceFrame (enterpriseKindStep codec probe evidence s) = sourceFrame s"
proof -
  have kinds: "ev_Kind evidence \<noteq> EvidenceKindWinHTTPProxy" "ev_Kind evidence \<noteq> EvidenceKindWinINETProxy"
    "ev_Kind evidence \<noteq> EvidenceKindPAC"
    using assms by (auto simp: proxyKinds_def)
  show ?thesis
    unfolding enterpriseKindStep_def Let_def if_not_P [OF kinds(1)] if_not_P [OF kinds(2)] if_not_P [OF kinds(3)]
    by (intro if_choice [where P = "\<lambda>t. sourceFrame t = sourceFrame s"]
        sum_choice [where P = "\<lambda>t. sourceFrame t = sourceFrame s"])
      (simp_all only: sourceFrame_marks connectivity_sources plain_sources)
qed

lemma evidenceStep_sources:
  "ev_Kind evidence \<notin> proxyKinds \<Longrightarrow> sourceFrame (enterpriseEvidenceStep codec probe evidence s) = sourceFrame s"
  by (simp add: enterpriseEvidenceStep_def kindStep_sources) (simp add: sourceFrame_def)

lemma fold_sources:
  "list_all (\<lambda>e. ev_Kind e \<notin> proxyKinds) es
     \<Longrightarrow> sourceFrame (fold (enterpriseEvidenceStep codec probe) es s) = sourceFrame s"
  by (induction es arbitrary: s) (simp_all add: evidenceStep_sources)

text \<open>The evidence of the three kinds that concern a source.\<close>

abbreviation withoutError :: "ConfigurationObservation \<Rightarrow> ConfigurationObservation" where
  "withoutError v \<equiv> v\<lparr>pco_Error := []\<rparr>"

lemma configured_view:
  "\<not> pco_PACConfigured (configurationView s) \<Longrightarrow> \<not> pco_AutoDetect (configurationView s)
     \<Longrightarrow> configurationView (configureSource value probe evidence s) = withoutError value"
  by (simp add: configureSource_def Let_def)
    (simp add: configurationView_def projectEnterpriseProxyConfiguration_def Let_def)

lemma evidence_frame [simp]: "sourceFrame (onObservation (\<lambda>o0. o0\<lparr>eno_EvidenceIDs := f o0, eno_Provenance := g o0\<rparr>) s) = sourceFrame s"
  by (simp add: sourceFrame_def)

lemma source_names: "toLower (trimSpace ''winhttp'') = ''winhttp''" "toLower (trimSpace ''wininet'') = ''wininet''"
  by code_simp+

lemma atSource_named:
  "atSource ''winhttp'' f o0 = o0\<lparr>eno_WinHTTP := f (eno_WinHTTP o0)\<rparr>"
  "atSource ''wininet'' f o0 = o0\<lparr>eno_WinINET := f (eno_WinINET o0)\<rparr>"
  by (simp_all add: atSource_def source_names Let_def)

lemma winhttp_step:
  assumes "ev_Kind e = EvidenceKindWinHTTPProxy" "jx_Configuration codec (ev_Raw e) = Inr value"
    "sourceFrame s = (a, b, x, y)" "\<not> pco_PACConfigured a" "\<not> pco_AutoDetect a"
  shows "sourceFrame (enterpriseEvidenceStep codec probe e s) = (withoutError value, b, Some e, y)"
  using assms by (simp add: enterpriseEvidenceStep_def enterpriseKindStep_def go_consts Let_def)
    (auto simp: sourceFrame_def atSource_named configured_view)

lemma wininet_step:
  assumes "ev_Kind e = EvidenceKindWinINETProxy" "jx_Configuration codec (ev_Raw e) = Inr value"
    "sourceFrame s = (a, b, x, y)" "\<not> pco_PACConfigured b" "\<not> pco_AutoDetect b"
  shows "sourceFrame (enterpriseEvidenceStep codec probe e s) = (a, withoutError value, x, Some e)"
  using assms by (simp add: enterpriseEvidenceStep_def enterpriseKindStep_def go_consts Let_def)
    (auto simp: sourceFrame_def atSource_named configured_view)

lemma pac_view:
  "pco_PACConfigured (configurationView s) \<or> \<not> epv_Configured value
     \<Longrightarrow> pco_AutoDetect (configurationView s) \<or> \<not> epv_AutoDetect value
     \<Longrightarrow> configurationView (let p = eps_PAC s; marked = markEnterpriseProxySource probe evidence certainty (s\<lparr>eps_PAC := q p\<rparr>);
           c = eps_Configuration marked in
         marked\<lparr>eps_Configuration := c\<lparr>epc_PACConfigured := epc_PACConfigured c \<or> epv_Configured value,
           epc_AutoDetect := epc_AutoDetect c \<or> epv_AutoDetect value\<rparr>\<rparr>) = configurationView s"
  by (auto simp: configurationView_def markEnterpriseProxySource_def Let_def)

lemma pac_step:
  assumes "ev_Kind e = EvidenceKindPAC" "jx_PAC codec (ev_Raw e) = Inr value"
    "ev_Source e = ''winhttp'' \<and> view = configurationView (eno_WinHTTP (xs_observation s))
     \<or> ev_Source e = ''wininet'' \<and> view = configurationView (eno_WinINET (xs_observation s))"
    "pco_PACConfigured view" "pco_AutoDetect view \<or> \<not> epv_AutoDetect value"
  shows "sourceFrame (enterpriseEvidenceStep codec probe e s) = sourceFrame s"
proof -
  have step: "enterpriseEvidenceStep codec probe e s = onObservation (projectEnterprisePAC value probe e)
      (onObservation (\<lambda>o0. o0\<lparr>eno_EvidenceIDs := appendUnique (eno_EvidenceIDs o0) [ev_ID e],
        eno_Provenance := appendUnique (eno_Provenance o0) (enterpriseEvidenceProvenance probe e)\<rparr>) s)"
    using assms(1,2) by (simp add: enterpriseEvidenceStep_def enterpriseKindStep_def go_consts Let_def)
  show ?thesis
    using assms(3)
  proof
    assume "ev_Source e = ''winhttp'' \<and> view = configurationView (eno_WinHTTP (xs_observation s))"
    then show ?thesis unfolding step projectEnterprisePAC_def using assms(4,5)
      by (simp add: sourceFrame_def atSource_named pac_view)
  next
    assume "ev_Source e = ''wininet'' \<and> view = configurationView (eno_WinINET (xs_observation s))"
    then show ?thesis unfolding step projectEnterprisePAC_def using assms(4,5)
      by (simp add: sourceFrame_def atSource_named pac_view)
  qed
qed

lemma pac_evidence_frame:
  assumes pac: "\<And>v. jx_PAC codec (ew_pac w v) = Inr v"
    and view: "source = ''winhttp'' \<and> fst (sourceFrame s) = withoutError (NormalizeConfiguration config)
      \<or> source = ''wininet'' \<and> fst (snd (sourceFrame s)) = withoutError (NormalizeConfiguration config)"
  shows "sourceFrame (fold (enterpriseEvidenceStep codec probe) (pacEvidenceOf w snapshot source config) s) = sourceFrame s"
proof (cases "pco_PACConfigured (NormalizeConfiguration config)")
  case True
  let ?v = "\<lparr>epv_Configured = True, epv_URL = pco_PACURL (NormalizeConfiguration config),
    epv_AutoDetect = pco_AutoDetect (NormalizeConfiguration config),
    epv_Executed = hasPACResolution (ens_EffectiveProxy snapshot) source\<rparr>"
  let ?e = "windowsEvidence w (''windows-enterprise/'' @ source @ ''/pac'') EvidenceKindPAC source (ew_pac w ?v)"
  have e: "ev_Kind ?e = EvidenceKindPAC" "jx_PAC codec (ev_Raw ?e) = Inr ?v"
    by (simp_all add: windowsEvidence_def pac)
  have "sourceFrame (enterpriseEvidenceStep codec probe ?e s) = sourceFrame s"
    by (rule pac_step [OF e(1,2), where view = "withoutError (NormalizeConfiguration config)"])
      (use view True in \<open>auto simp: windowsEvidence_def sourceFrame_def\<close>)
  then show ?thesis using True by (simp add: pacEvidenceOf_def Let_def)
qed (simp add: pacEvidenceOf_def Let_def)

lemma other_kinds: "list_all (\<lambda>e. ev_Kind e \<notin> proxyKinds)
    (snapshotEvidence w s @ [windowsEvidence w id0 EvidenceKindRouteComparison source raw])"
  by (auto simp: snapshotEvidence_def windowsEvidence_def proxyKinds_def go_consts)

lemma observed_frame:
  assumes conf: "\<And>config. config \<in> {pdy_WinHTTP (ens_Proxy snapshot), pdy_WinINET (ens_Proxy snapshot)}
      \<Longrightarrow> jx_Configuration codec (ew_configuration w (NormalizeConfiguration config)) = Inr (NormalizeConfiguration config)"
    and pac: "\<And>v. jx_PAC codec (ew_pac w v) = Inr v"
    and start: "sourceFrame t = (zero_ConfigurationObservation, zero_ConfigurationObservation, None, None)"
  shows "\<exists>e1 e2. ev_ID e1 \<noteq> [] \<and> ev_ID e2 \<noteq> []
    \<and> sourceFrame (fold (enterpriseEvidenceStep codec probe) (pr_Evidence (enterpriseObserved w target snapshot)) t)
      = (withoutError (NormalizeConfiguration (pdy_WinHTTP (ens_Proxy snapshot))),
         withoutError (NormalizeConfiguration (pdy_WinINET (ens_Proxy snapshot))), Some e1, Some e2)"
proof -
  let ?l = "pdy_WinHTTP (ens_Proxy snapshot)" and ?r = "pdy_WinINET (ens_Proxy snapshot)"
  let ?e1 = "configurationEvidence w ?l ''winhttp'' EvidenceKindWinHTTPProxy"
  let ?e2 = "configurationEvidence w ?r ''wininet'' EvidenceKindWinINETProxy"
  let ?step = "enterpriseEvidenceStep codec probe"
  define rest where "rest = snapshotEvidence w (safeSnapshot snapshot) @ [windowsEvidence w ''windows-enterprise/correlation''
    EvidenceKindRouteComparison ''windows-enterprise'' (ew_correlation w (correlationEvidence (safeSnapshot snapshot)
      (fst (correlate (safeSnapshot snapshot)))))]"
  have evidence: "pr_Evidence (enterpriseObserved w target snapshot) =
      [?e1, ?e2] @ pacEvidenceOf w snapshot ''winhttp'' ?l @ pacEvidenceOf w snapshot ''wininet'' ?r @ rest"
    by (simp add: enterpriseObserved_def rest_def Let_def)
  have rest: "list_all (\<lambda>e. ev_Kind e \<notin> proxyKinds) rest"
    unfolding rest_def by (rule other_kinds)
  have raw: "jx_Configuration codec (ev_Raw ?e1) = Inr (NormalizeConfiguration ?l)"
    "jx_Configuration codec (ev_Raw ?e2) = Inr (NormalizeConfiguration ?r)"
    "ev_Kind ?e1 = EvidenceKindWinHTTPProxy" "ev_Kind ?e2 = EvidenceKindWinINETProxy"
    "ev_ID ?e1 \<noteq> []" "ev_ID ?e2 \<noteq> []"
    using conf by (simp_all add: configurationEvidence_def windowsEvidence_def)
  have zero: "\<not> pco_PACConfigured zero_ConfigurationObservation" "\<not> pco_AutoDetect zero_ConfigurationObservation"
    by (simp_all add: zero_ConfigurationObservation_def)
  have two: "sourceFrame (?step ?e2 (?step ?e1 t)) =
      (withoutError (NormalizeConfiguration ?l), withoutError (NormalizeConfiguration ?r), Some ?e1, Some ?e2)"
    by (rule wininet_step [OF raw(4,2) winhttp_step [OF raw(3,1) start zero] zero])
  have "sourceFrame (fold ?step (pacEvidenceOf w snapshot ''winhttp'' ?l) (?step ?e2 (?step ?e1 t))) =
      sourceFrame (?step ?e2 (?step ?e1 t))"
    by (rule pac_evidence_frame [OF pac]) (simp add: two)
  note three = this [unfolded two]
  have "sourceFrame (fold ?step (pacEvidenceOf w snapshot ''wininet'' ?r)
      (fold ?step (pacEvidenceOf w snapshot ''winhttp'' ?l) (?step ?e2 (?step ?e1 t)))) =
      sourceFrame (fold ?step (pacEvidenceOf w snapshot ''winhttp'' ?l) (?step ?e2 (?step ?e1 t)))"
    by (rule pac_evidence_frame [OF pac]) (simp add: three)
  note four = this [unfolded three]
  show ?thesis
    unfolding evidence using raw(5,6) fold_sources [OF rest] four by auto
qed

text \<open>When the two normalised configurations differ, and when the probe says so.\<close>

lemma static_follows: "pco_StaticProxyConfigured (NormalizeConfiguration c) = (pco_ProxyEndpoints (NormalizeConfiguration c) \<noteq> [])"
  by (simp add: NormalizeConfiguration_def Let_def)

lemma diverge_views:
  "psc_Available (pdy_WinHTTP d) \<Longrightarrow> psc_Available (pdy_WinINET d)
     \<Longrightarrow> configurationsDiverge d \<longleftrightarrow> withoutError (NormalizeConfiguration (pdy_WinHTTP d))
           \<noteq> withoutError (NormalizeConfiguration (pdy_WinINET d))"
proof -
  let ?l = "NormalizeConfiguration (pdy_WinHTTP d)" and ?r = "NormalizeConfiguration (pdy_WinINET d)"
  assume "psc_Available (pdy_WinHTTP d)" "psc_Available (pdy_WinINET d)"
  then have diverge: "configurationsDiverge d \<longleftrightarrow> (pco_State ?l, pco_Direct ?l, pco_PACConfigured ?l, pco_AutoDetect ?l,
      pco_PACURL ?l, pco_ProxyEndpoints ?l, pco_ProxyBypass ?l) \<noteq> (pco_State ?r, pco_Direct ?r, pco_PACConfigured ?r,
      pco_AutoDetect ?r, pco_PACURL ?r, pco_ProxyEndpoints ?r, pco_ProxyBypass ?r)"
    by (simp add: configurationsDiverge_def Let_def)
  show ?thesis unfolding diverge using static_follows [of "pdy_WinHTTP d"] static_follows [of "pdy_WinINET d"]
    by (cases ?l; cases ?r) (simp, blast)
qed

lemma available_states:
  "psc_Available c \<Longrightarrow> pco_State (NormalizeConfiguration c)
     \<in> {StateMalformedProxyEndpoint, StatePACConfigured, StateStaticProxyConfigured, StateDirect}"
  by (cases "parseProxyEndpoints (psc_Proxy c)") (simp add: NormalizeConfiguration_def normalizeConfiguration_def Let_def)

lemma available_state:
  "pco_State (NormalizeConfiguration c) = StateConfigurationUnavailable \<longleftrightarrow> \<not> psc_Available c"
proof (cases "psc_Available c")
  case True
  then show ?thesis using available_states [of c] by (auto simp: go_consts)
next
  case False
  then show ?thesis by (simp add: NormalizeConfiguration_def normalizeConfiguration_def Let_def)
qed

lemma unavailable_views:
  "psc_Available l \<noteq> psc_Available r \<Longrightarrow> withoutError (NormalizeConfiguration l) \<noteq> withoutError (NormalizeConfiguration r)"
proof
  assume "psc_Available l \<noteq> psc_Available r" "withoutError (NormalizeConfiguration l) = withoutError (NormalizeConfiguration r)"
  moreover from this(2) have "pco_State (NormalizeConfiguration l) = pco_State (NormalizeConfiguration r)"
    by (metis ConfigurationObservation.select_convs(1) ConfigurationObservation.surjective ConfigurationObservation.update_convs(9))
  ultimately show False using available_state by metis
qed

lemma initial_frame:
  "sourceFrame (initialEnterprise target) = (zero_ConfigurationObservation, zero_ConfigurationObservation, None, None)"
  by (simp add: sourceFrame_def initialEnterprise_def configurationView_def emptyEnterpriseProxySource_def
      zero_EnterpriseProxyConfigurationObservation_def zero_ConfigurationObservation_def Let_def)

lemma probeStep_frame:
  assumes "pr_Name probe = EnterpriseProbeName"
  shows "\<exists>t. sourceFrame t = sourceFrame s
    \<and> enterpriseProbeStep codec probe s = fold (enterpriseEvidenceStep codec probe) (pr_Evidence probe) t"
proof -
  let ?named = "onObservation (\<lambda>observation. observation\<lparr>
      eno_ProbeNames := appendUnique (eno_ProbeNames observation) [pr_Name probe]\<rparr>) (s\<lparr>xs_sawEnterprise := True\<rparr>)"
  let ?marked = "onObservation (\<lambda>observation. limitation ''windows enterprise subsystem unsupported''
      (observation\<lparr>eno_Unsupported := True\<rparr>)) (?named\<lparr>xs_sawUnsupported := True\<rparr>)"
  have "sourceFrame ?named = sourceFrame s" by (simp add: sourceFrame_def)
  moreover have "sourceFrame ?marked = sourceFrame s" by (simp add: sourceFrame_def limitation_def)
  ultimately show ?thesis using assms unfolding enterpriseProbeStep_def Let_def by auto
qed

lemma enterprise_projection:
  assumes "\<not> ew_startErr w" "ew_snapshot w target = (snapshot, None)"
    and conf: "\<And>config. config \<in> {pdy_WinHTTP (ens_Proxy snapshot), pdy_WinINET (ens_Proxy snapshot)}
      \<Longrightarrow> jx_Configuration codec (ew_configuration w (NormalizeConfiguration config)) = Inr (NormalizeConfiguration config)"
    and pac: "\<And>v. jx_PAC codec (ew_pac w v) = Inr v"
  shows "\<exists>e1 e2. ev_ID e1 \<noteq> [] \<and> ev_ID e2 \<noteq> []
    \<and> sourceFrame (enterpriseEvidence codec request [enterpriseRun w target])
      = (withoutError (NormalizeConfiguration (pdy_WinHTTP (ens_Proxy snapshot))),
         withoutError (NormalizeConfiguration (pdy_WinINET (ens_Proxy snapshot))), Some e1, Some e2)"
proof -
  have run: "enterpriseRun w target = enterpriseObserved w target snapshot"
    using assms(1,2) by (simp add: enterpriseRun_def Let_def)
  have "pr_Name (enterpriseRun w target) = EnterpriseProbeName"
    by (simp add: run enterpriseObserved_def Let_def)
  from probeStep_frame [OF this] obtain t where start: "sourceFrame t = sourceFrame (initialEnterprise request)"
    and step: "enterpriseProbeStep codec (enterpriseRun w target) (initialEnterprise request) =
      fold (enterpriseEvidenceStep codec (enterpriseRun w target)) (pr_Evidence (enterpriseRun w target)) t" by blast
  from observed_frame [where snapshot = snapshot and probe = "enterpriseRun w target" and target = target,
      OF conf pac start [unfolded initial_frame]]
  show ?thesis by (simp add: enterpriseEvidence_def step) (simp add: run)
qed

text \<open>C25: The envelope repeats the probe's verdict on the two proxy configurations: where both sources could
  be read, the enterprise policy calls them divergent exactly when the probe does. Where only one could
  be read the two disagree: the probe claims no divergence, the envelope claims one as known.
\<close>

theorem envelope_repeats_divergence:
  assumes "\<not> ew_startErr w" "ew_snapshot w target = (snapshot, None)"
    and "\<forall>config \<in> {pdy_WinHTTP (ens_Proxy snapshot), pdy_WinINET (ens_Proxy snapshot)}.
      jx_Configuration codec (ew_configuration w (NormalizeConfiguration config)) = Inr (NormalizeConfiguration config)"
    and "\<forall>v. jx_PAC codec (ew_pac w v) = Inr v"
  shows "let observed = buildEnterprisePolicyObservation codec request [enterpriseRun w target] network;
      winhttp = pdy_WinHTTP (ens_Proxy snapshot); wininet = pdy_WinINET (ens_Proxy snapshot) in
    eno_ProxyConfigurationKnown observed
    \<and> (psc_Available winhttp \<and> psc_Available wininet
        \<longrightarrow> eno_ProxyConfigurationDiverges observed = configurationsDiverge (ens_Proxy snapshot))
    \<and> (psc_Available winhttp \<noteq> psc_Available wininet
        \<longrightarrow> eno_ProxyConfigurationDiverges observed \<and> \<not> configurationsDiverge (ens_Proxy snapshot))"
proof -
  let ?o = "buildEnterprisePolicyObservation codec request [enterpriseRun w target] network"
  let ?l = "pdy_WinHTTP (ens_Proxy snapshot)" and ?r = "pdy_WinINET (ens_Proxy snapshot)"
  obtain e1 e2 where ids: "ev_ID e1 \<noteq> []" "ev_ID e2 \<noteq> []"
    and frame: "sourceFrame (enterpriseEvidence codec request [enterpriseRun w target])
      = (withoutError (NormalizeConfiguration ?l), withoutError (NormalizeConfiguration ?r), Some e1, Some e2)"
    using enterprise_projection [OF assms(1,2)] assms(3,4) by blast
  note report = divergence_report [of codec request "[enterpriseRun w target]" network]
  have known: "eno_ProxyConfigurationKnown ?o"
    using report frame ids by (simp add: sourceFrame_def evidenceIDOr_def)
  have differ: "eno_ProxyConfigurationDiverges ?o \<longleftrightarrow>
      withoutError (NormalizeConfiguration ?l) \<noteq> withoutError (NormalizeConfiguration ?r)"
    using report known frame by (simp add: same_configuration_view sourceFrame_def)
  have "\<not> configurationsDiverge (ens_Proxy snapshot)" if "psc_Available ?l \<noteq> psc_Available ?r"
    using that by (auto simp: configurationsDiverge_def Let_def)
  then show ?thesis
    using known differ diverge_views [of "ens_Proxy snapshot"] unavailable_views [of ?l ?r] by (auto simp: Let_def)
qed

section \<open>Runs at sample inputs\<close>

text \<open>A host whose two sources name different proxies, with encoders that keep what is compared.\<close>

definition sampleProxies :: ProxyDiscovery where
  "sampleProxies = \<lparr>pdy_WinHTTP = zero_SourceConfiguration\<lparr>psc_Available := True\<rparr>,
     pdy_WinINET = zero_SourceConfiguration\<lparr>psc_Available := True, psc_AutoDetect := True\<rparr>\<rparr>"

definition encodedPAC :: "enterprisePACEvidence \<Rightarrow> string" where
  "encodedPAC v = (if epv_Configured v then CHR ''t'' else CHR ''f'') # (if epv_AutoDetect v then CHR ''t'' else CHR ''f'')
     # (if epv_Executed v then CHR ''t'' else CHR ''f'') # epv_URL v"

definition decodedPAC :: "string \<Rightarrow> enterprisePACEvidence result" where
  "decodedPAC raw = (case raw of
     a # b # c # url \<Rightarrow> Inr \<lparr>epv_Configured = (a = CHR ''t''), epv_URL = url, epv_AutoDetect = (b = CHR ''t''),
       epv_Executed = (c = CHR ''t'')\<rparr>
   | _ \<Rightarrow> Inl ''malformed'')"

definition sampleEnterpriseWorld :: enterpriseWorld where
  "sampleEnterpriseWorld = \<lparr>ew_startErr = False,
     ew_snapshot = (\<lambda>target. (zero_EnterpriseSnapshot\<lparr>ens_Proxy := sampleProxies\<rparr>, None)),
     ew_started = 0, ew_completed = 0, ew_captured = (\<lambda>name. 0), ew_state = (\<lambda>a b. []),
     ew_configuration = (\<lambda>v. if pco_AutoDetect v then ''auto'' else ''fixed''), ew_pac = encodedPAC,
     ew_connectivity = (\<lambda>v. []), ew_tls = (\<lambda>v. []), ew_firewall = (\<lambda>v. []), ew_routing = (\<lambda>v. []),
     ew_issues = (\<lambda>v. []), ew_correlation = (\<lambda>v. [])\<rparr>"

definition sampleEnterpriseCodec :: enterpriseCodec where
  "sampleEnterpriseCodec = \<lparr>
     jx_Configuration = (\<lambda>raw. Inr (NormalizeConfiguration
       (if raw = ''auto'' then pdy_WinINET sampleProxies else pdy_WinHTTP sampleProxies))),
     jx_PAC = decodedPAC, jx_Connectivity = \<lambda>raw. Inl [], jx_Firewall = \<lambda>raw. Inl [], jx_Routing = \<lambda>raw. Inl [],
     jx_TLS = \<lambda>raw. Inl [], jx_Correlation = \<lambda>raw. Inl [], jx_Issues = \<lambda>raw. Inl [], jx_fingerprint = \<lambda>value. []\<rparr>"

lemma decoded_encoded: "decodedPAC (encodedPAC v) = Inr v"
  by (simp add: decodedPAC_def encodedPAC_def)

lemma sample_divergence:
  "configurationsDiverge sampleProxies" "pco_AutoDetect (NormalizeConfiguration (pdy_WinINET sampleProxies))"
  "\<not> pco_AutoDetect (NormalizeConfiguration (pdy_WinHTTP sampleProxies))"
  "psc_Available (pdy_WinHTTP sampleProxies)" "psc_Available (pdy_WinINET sampleProxies)"
  by code_simp+

theorem envelope_repeats_divergence_witness:
  "eno_ProxyConfigurationDiverges (buildEnterprisePolicyObservation sampleEnterpriseCodec zero_Target
     [enterpriseRun sampleEnterpriseWorld zero_Target] zero_NetworkContext)"
proof -
  let ?s = "zero_EnterpriseSnapshot\<lparr>ens_Proxy := sampleProxies\<rparr>"
  have "\<not> ew_startErr sampleEnterpriseWorld" "ew_snapshot sampleEnterpriseWorld zero_Target = (?s, None)"
    by (simp_all add: sampleEnterpriseWorld_def)
  moreover have "\<forall>config \<in> {pdy_WinHTTP (ens_Proxy ?s), pdy_WinINET (ens_Proxy ?s)}.
      jx_Configuration sampleEnterpriseCodec (ew_configuration sampleEnterpriseWorld (NormalizeConfiguration config))
        = Inr (NormalizeConfiguration config)"
    using sample_divergence by (simp add: sampleEnterpriseCodec_def sampleEnterpriseWorld_def)
  moreover have "\<forall>v. jx_PAC sampleEnterpriseCodec (ew_pac sampleEnterpriseWorld v) = Inr v"
    by (simp add: sampleEnterpriseCodec_def sampleEnterpriseWorld_def decoded_encoded)
  ultimately show ?thesis
    using envelope_repeats_divergence [of sampleEnterpriseWorld zero_Target ?s sampleEnterpriseCodec zero_Target zero_NetworkContext]
      sample_divergence by (simp add: Let_def)
qed

text \<open>A browser behind a proxy that presents another trusted certificate for the same name.\<close>

definition presentedPath :: "string \<Rightarrow> string \<Rightarrow> string \<Rightarrow> EnterprisePath" where
  "presentedPath name mode digest = zero_EnterprisePath\<lparr>enp_Name := name, enp_Mode := mode,
     enp_CertificateTrusted := True, enp_HostnameVerified := True,
     enp_Certificate := Some (zero_CertificateObservation\<lparr>cob_SHA256 := digest\<rparr>)\<rparr>"

definition interceptedWorld :: enterpriseWorld where
  "interceptedWorld = sampleEnterpriseWorld\<lparr>ew_snapshot := (\<lambda>target. (zero_EnterpriseSnapshot\<lparr>ens_Paths :=
     [presentedPath PathBrowserWinINET PathModeProxy ''b'', presentedPath PathApplicationDirect PathModeDirect ''a'']\<rparr>, None))\<rparr>"

lemma intercepted_verdict:
  "pin_FailureReason (pr_Interpretation (enterpriseRun interceptedWorld zero_Target)) = FailureReasonTLSInterceptionSuspected"
  by code_simp


text \<open>A password with an at sign is not removed whole from the text of an error.\<close>

lemma at_sign_leak: "safeErrorString ''http://u:a@b@h/'' = ''http://b@h/''"
  by code_simp

end
