(* ===== verification/DiagnosisReport.thy ===== *)
theory DiagnosisReport
  imports Diagnosis Builder
begin

text \<open>
  The entry points of \<open>internal/diagnosis/diagnosis.go\<close>, which project probe results through the
  builder where no envelope of observations is at hand.
\<close>

definition DiagnoseObservations :: "Observations \<Rightarrow> DiagnosticFinding list" where
  "DiagnoseObservations value = diagnoseObservationState (NormalizeObservations value) [] False"

definition compatibilityObservations :: "builderCodec \<Rightarrow> Target \<Rightarrow> ProbeResult list \<Rightarrow> Observations" where
  "compatibilityObservations codec target probes =
     Build codec (compatibilityTargetSnapshot target) (compatibilityProbeSnapshot probes)"

definition diagnoseFromProbes :: "builderCodec \<Rightarrow> ProbeResult list \<Rightarrow> DiagnosticFinding list" where
  "diagnoseFromProbes codec probes =
     diagnoseObservationState (compatibilityObservations codec (targetFromProbes probes) probes) probes True"

definition Diagnose :: "builderCodec \<Rightarrow> ProbeResult list \<Rightarrow> DiagnosticFinding list" where
  "Diagnose codec probes = diagnoseFromProbes codec probes"

definition DiagnoseReport :: "builderCodec \<Rightarrow> DiagnosticReport \<Rightarrow> DiagnosticReport" where
  "DiagnoseReport codec report =
     (let value = NormalizeObservations (dr_Observations report);
          probes = dr_Probes report;
          used = (if \<not> hasCanonicalObservations value \<and> probes \<noteq> []
            then compatibilityObservations codec (if tg_RequestedIdentity (dr_Target report) = []
              then targetFromProbes probes else dr_Target report) probes
            else value) in
      report\<lparr>dr_Findings := diagnoseObservationState used probes (probes \<noteq> [])\<rparr>)"

end
