(* ===== verification/Orchestrate.thy ===== *)
theory Orchestrate
  imports DiagnosisReport
begin

text \<open>
  \<open>internal/orchestrate/run.go\<close>, the sequential part: the list of jobs, what is handed from the DNS and
  the transport probe to the others, the result of one job, the target of a finished run, its status
  and its report. The worker pool is in \<open>OrchestrateRuns\<close>.
\<close>

section \<open>Jobs\<close>

text \<open>Whose \<open>Run\<close> a job calls: that of a probe; \<open>RunForAddress\<close> or \<open>Run\<close> of a route probe; or
  \<open>skippedURLProbe\<close>.\<close>

datatype jobCall = CallProbe | CallRoute | CallSkipped Layer FaultDomain

record wiredJob =
  jb_name :: string
  jb_packetType :: string
  jb_call :: jobCall

definition probeJob :: "string \<Rightarrow> wiredJob" where
  "probeJob name = \<lparr>jb_name = name, jb_packetType = [], jb_call = CallProbe\<rparr>"

definition packetJob :: "string \<Rightarrow> string \<Rightarrow> wiredJob" where
  "packetJob name packetType = \<lparr>jb_name = name, jb_packetType = packetType, jb_call = CallProbe\<rparr>"

definition routeJob :: "string \<Rightarrow> wiredJob" where
  "routeJob name = \<lparr>jb_name = name, jb_packetType = [], jb_call = CallRoute\<rparr>"

definition skippedTLS :: wiredJob where
  "skippedTLS = \<lparr>jb_name = ''tls'', jb_packetType = [], jb_call = CallSkipped LayerTLS FaultDomainTLS\<rparr>"

definition skippedHTTP :: wiredJob where
  "skippedHTTP = \<lparr>jb_name = ''http'', jb_packetType = [], jb_call = CallSkipped LayerHTTP FaultDomainHTTP\<rparr>"

definition baseJobs :: "wiredJob list" where
  "baseJobs = [probeJob ''dns'', probeJob ''interface_state'', probeJob ''dns_configuration'', packetJob ''tcp'' ''tcp'',
     routeJob DefaultRouteProbeName, routeJob TargetRouteProbeName, routeJob GatewayProbeName,
     probeJob ''proxy_discovery'', probeJob ''windows_enterprise'', packetJob ''path'' ''path'']"

definition applicationJobs :: "ApplicationProtocol \<Rightarrow> wiredJob list" where
  "applicationJobs protocol =
     (if protocol = ApplicationProtocolHTTPS then [probeJob ''tls'', probeJob ''http'']
      else if protocol = ApplicationProtocolTLS then [probeJob ''tls'', skippedHTTP]
      else if protocol = ApplicationProtocolHTTP then [skippedTLS, probeJob ''http'']
      else if protocol = ApplicationProtocolSSH then [probeJob ''ssh'', skippedTLS, skippedHTTP]
      else if protocol = ApplicationProtocolRDP then [probeJob ''rdp'', skippedTLS, skippedHTTP]
      else (if protocol = ApplicationProtocolSMB then [probeJob ''smb''] else []) @ [skippedTLS, skippedHTTP])"

definition wiredJobs :: "Target \<Rightarrow> wiredJob list" where
  "wiredJobs target = baseJobs @ applicationJobs (tg_ApplicationProtocol target)
     @ (if sp_ID (tg_Service target) = ServiceProfileDNS \<or> tg_ApplicationProtocol target = ApplicationProtocolDNS
        then [probeJob ''dns_service''] else [])"

definition independentProbe :: "string \<Rightarrow> bool" where
  "independentProbe name \<longleftrightarrow> name = ''dns'' \<or> name = ''interface_state'' \<or> name = ''dns_configuration''"

definition waitsForTransportEndpoint :: "string \<Rightarrow> bool" where
  "waitsForTransportEndpoint name \<longleftrightarrow> name \<in> {''path'', ''tls'', ''http'', ''ssh'', ''rdp'', ''smb'',
     DefaultRouteProbeName, TargetRouteProbeName, GatewayProbeName}"

section \<open>Hand-off between probes\<close>

definition endpointCandidatesFromDNS :: "jsonCodec \<Rightarrow> Target \<Rightarrow> ProbeResult \<Rightarrow> EndpointCandidate list" where
  "endpointCandidatesFromDNS json target result =
     (if tg_LiteralIP target \<noteq> [] then ProbeEndpointCandidates target
      else case pr_NameResolution result of
          Some observed \<Rightarrow> EndpointCandidatesFromAnswers (nro_A observed) (nro_AAAA observed)
        | None \<Rightarrow>
            (case List.map_filter (\<lambda>evidence. if ev_Kind evidence \<noteq> EvidenceKindDNSResolution then None
                else case jd_DNSResolution json (ev_Raw evidence) of Inr v \<Rightarrow> Some v | Inl _ \<Rightarrow> None) (pr_Evidence result) of
               [] \<Rightarrow> []
             | resolution # _ \<Rightarrow> EndpointCandidatesFromAnswers (dre_A resolution) (dre_AAAA resolution)))"

definition endpointForCandidate :: "EndpointCandidate \<Rightarrow> 16 word \<Rightarrow> EndpointSelectionReason \<Rightarrow> Endpoint" where
  "endpointForCandidate candidate port reason = zero_Endpoint\<lparr>ep_Address := ec_Address candidate, ep_Port := port,
     ep_Family := ec_Family candidate, ep_SelectionReason := reason,
     ep_Provenance := ''tadori bounded deterministic candidate selection''\<rparr>"

definition applyCandidates :: "EndpointCandidate list \<Rightarrow> Target \<Rightarrow> Target" where
  "applyCandidates candidates target =
     (if candidates = [] then target
      else
        let limited = LimitEndpointCandidates candidates MaxEndpointCandidates;
            t = target\<lparr>tg_ResolvedCandidates := candidates, tg_ProbeCandidates := limited\<rparr> in
        case limited of
          [] \<Rightarrow> t
        | first # _ \<Rightarrow> t\<lparr>tg_ResolvedAddresses := map ec_Address candidates,
            tg_SelectedEndpoint := Some (endpointForCandidate first (tg_Port t) EndpointSelectionDeterministic)\<rparr>)"

text \<open>\<open>resolvedCandidatesForProbe\<close> once the wait is over: without a wait for a literal address, and
  with the published candidates.\<close>

definition literalCandidates :: "Target \<Rightarrow> Target" where
  "literalCandidates target0 = (let target = NormalizeTarget target0 in
     applyCandidates (ProbeEndpointCandidates target) target)"

definition resolvedCandidates :: "EndpointCandidate list \<Rightarrow> Target \<Rightarrow> Target" where
  "resolvedCandidates published target0 = (let target = NormalizeTarget target0 in
     applyCandidates (if published = [] then ProbeEndpointCandidates target else published) target)"

definition testedTarget :: "Endpoint option \<Rightarrow> Target \<Rightarrow> Target" where
  "testedTarget tested target = (case tested of None \<Rightarrow> target
     | Some endpoint \<Rightarrow> target\<lparr>tg_TestedEndpoint := Some endpoint, tg_SelectedEndpoint := Some endpoint\<rparr>)"

definition targetAddressForProbe :: "Target \<Rightarrow> Addr option" where
  "targetAddressForProbe target0 =
     (let target = NormalizeTarget target0;
          address = (\<lambda>e. case e of None \<Rightarrow> [] | Some endpoint \<Rightarrow> [ep_Address endpoint]);
          values = address (tg_SelectedEndpoint target) @ address (tg_TestedEndpoint target)
            @ map ec_Address (tg_ProbeCandidates target) @ [tg_LiteralIP target, tg_RequestedIdentity target] in
      case List.map_filter (\<lambda>v. parseAddr (trimSet ''[]'' (trimSpace v))) values of
        [] \<Rightarrow> None | found # _ \<Rightarrow> Some (NormalizeAddr found))"

definition applyLegacyResolvedAddress :: "Addr \<Rightarrow> Target \<Rightarrow> Target" where
  "applyLegacyResolvedAddress address target = applyCandidates
     [zero_EndpointCandidate\<lparr>ec_Address := addrString (NormalizeAddr address), ec_Order := 1,
       ec_Family := (if is4 address then EndpointFamilyIPv4 else EndpointFamilyIPv6)\<rparr>] target"

section \<open>The result of one job\<close>

definition executionFailure :: "string \<Rightarrow> ProbeResult" where
  "executionFailure name = zero_ProbeResult\<lparr>pr_Name := name, pr_Status := ProbeStatusError,
     pr_Interpretation := \<lparr>pin_FailureReason = FailureReasonProbeExecution, pin_Layer = LayerUnknown,
       pin_FaultDomain = FaultDomainUnknown\<rparr>\<rparr>"

definition dependencyWaitFailure :: "gotime \<Rightarrow> string \<Rightarrow> Target \<Rightarrow> ProbeResult" where
  "dependencyWaitFailure now name target = (executionFailure name)\<lparr>pr_Target := target,
     pr_Timing := \<lparr>tm_StartedAt = Some now, tm_CompletedAt = Some now, tm_DurationMS = 0\<rparr>\<rparr>"

definition skippedURLProbe :: "gotime \<Rightarrow> gotime \<Rightarrow> Target \<Rightarrow> string \<Rightarrow> Layer \<Rightarrow> FaultDomain \<Rightarrow> ProbeResult" where
  "skippedURLProbe started completed target name layer domain = zero_ProbeResult\<lparr>
     pr_Name := name, pr_Target := target, pr_Status := ProbeStatusSkipped,
     pr_Timing := \<lparr>tm_StartedAt = Some started, tm_CompletedAt = Some completed,
       tm_DurationMS = (completed - started) div 10 ^ 6\<rparr>,
     pr_Interpretation := \<lparr>pin_FailureReason = FailureReasonUnsupported, pin_Layer = layer, pin_FaultDomain = domain\<rparr>\<rparr>"

text \<open>
  What running a job leads to: the packet capture panics before the probe is called; the probe
  panics; the probe returns and the capture panics afterwards; or both return, with the evidence of the
  packet flow. \<open>runBounded\<close> turns every panic into \<open>executionFailure\<close>.
\<close>

datatype outcome =
    CapturePanicked
  | ProbePanicked
  | CorrelationPanicked ProbeResult
  | Finished ProbeResult "Evidence option"

definition boundedResult :: "string \<Rightarrow> outcome \<Rightarrow> ProbeResult" where
  "boundedResult name outcome = (case outcome of
     Finished result flow \<Rightarrow> result\<lparr>pr_Evidence := pr_Evidence result
       @ (case flow of None \<Rightarrow> [] | Some evidence \<Rightarrow> [evidence])\<rparr>
   | _ \<Rightarrow> executionFailure name)"

definition identifiedResult :: "string \<Rightarrow> string \<Rightarrow> Target \<Rightarrow> ProbeResult \<Rightarrow> ProbeResult" where
  "identifiedResult sessionID name probeTarget result =
     (let named = (if pr_Name result = [] then result\<lparr>pr_Name := name\<rparr> else result);
          t = pr_Target named;
          placed = (if tg_OriginalInput t = [] \<and> tg_RequestedIdentity t = [] \<and> tg_Port t = 0
            then named\<lparr>pr_Target := probeTarget\<rparr> else named) in
      placed\<lparr>pr_SessionID := sessionID, pr_ProbeID := name, pr_CorrelationID := sessionID @ ''/'' @ name\<rparr>)"

section \<open>The target of a finished run\<close>

definition runEndpoint :: "string \<Rightarrow> 16 word \<Rightarrow> Endpoint option" where
  "runEndpoint raw defaultPort =
     (let (host, port) = (case splitHostPort raw of
            Some hp \<Rightarrow> hp | None \<Rightarrow> (trimSet ''[]'' raw, portString defaultPort)) in
      if host = [] then None
      else case parseUint 65536 port of
          None \<Rightarrow> None
        | Some parsed \<Rightarrow>
            if parsed = 0 then None
            else Some (zero_Endpoint\<lparr>ep_Port := of_nat parsed, ep_Address := (case parseAddr host of
              Some address \<Rightarrow> addrString (NormalizeAddr address) | None \<Rightarrow> host)\<rparr>))"

definition transportEndpoint :: "Endpoint \<Rightarrow> Endpoint" where
  "transportEndpoint concrete = concrete\<lparr>ep_SelectionReason := EndpointSelectionTransport,
     ep_Provenance := ''transport conn.RemoteAddr observation''\<rparr>"

definition enrichEvidence :: "jsonCodec \<Rightarrow> ProbeResult \<Rightarrow> Evidence \<Rightarrow> Target \<Rightarrow> Target" where
  "enrichEvidence json result evidence target =
     (if ev_Kind evidence \<noteq> EvidenceKindTCPConnection then target
      else case jd_TCPEndpoint json (ev_Raw evidence) of
          Inl err \<Rightarrow> target
        | Inr value \<Rightarrow>
            let attempts = (if tee_CandidateAttempts value \<noteq> [] \<and> tg_CandidateAttempts target = []
                  then target\<lparr>tg_CandidateAttempts := tee_CandidateAttempts value\<rparr> else target);
                tested = (case (if tee_TestedEndpoint value = [] then None
                    else runEndpoint (tee_TestedEndpoint value) (tg_Port attempts)) of
                  None \<Rightarrow> attempts
                | Some concrete \<Rightarrow> attempts\<lparr>tg_TestedEndpoint := Some (transportEndpoint concrete)\<rparr>) in
            if tg_TestedEndpoint tested = None \<and> pr_Status result = ProbeStatusPassed \<and> tee_RemoteEndpoint value \<noteq> []
            then (case runEndpoint (tee_RemoteEndpoint value) (tg_Port tested) of
                None \<Rightarrow> tested
              | Some concrete \<Rightarrow> tested\<lparr>tg_TestedEndpoint := Some (transportEndpoint concrete)\<rparr>)
            else tested)"

definition enrichResult :: "jsonCodec \<Rightarrow> ProbeResult \<Rightarrow> Target \<Rightarrow> Target" where
  "enrichResult json result target =
     (if pr_Name result \<noteq> ''tcp'' \<and> pr_Name result \<noteq> ''dns_service'' then target
      else
        let r = pr_Target result;
            t = (if tg_CandidateAttempts r \<noteq> [] then target\<lparr>tg_CandidateAttempts := tg_CandidateAttempts r\<rparr> else target) in
        fold (enrichEvidence json result) (pr_Evidence result)
          (case tg_TestedEndpoint r of
             Some endpoint \<Rightarrow> if ep_Address endpoint \<noteq> [] then t\<lparr>tg_TestedEndpoint := Some endpoint\<rparr> else t
           | None \<Rightarrow> t))"

definition resolvedAnswers :: "jsonCodec \<Rightarrow> ProbeResult list \<Rightarrow> DNSResolutionEvidence list" where
  "resolvedAnswers json results = List.map_filter (\<lambda>evidence.
     if ev_Kind evidence \<noteq> EvidenceKindDNSResolution then None
     else case jd_DNSResolution json (ev_Raw evidence) of Inr v \<Rightarrow> Some v | Inl _ \<Rightarrow> None)
     (concat (map pr_Evidence results))"

text \<open>The hand-off of a single address, before there were candidates; only tests still call it.\<close>

definition resolvedAddress :: "jsonCodec \<Rightarrow> ProbeResult \<Rightarrow> Addr option" where
  "resolvedAddress json result =
     (if pr_Status result \<noteq> ProbeStatusPassed then None
      else case (case pr_NameResolution result of
            None \<Rightarrow> None | Some observed \<Rightarrow> parseAddr (nro_SelectedAddress observed)) of
          Some address \<Rightarrow> Some (NormalizeAddr address)
        | None \<Rightarrow>
            (case List.map_filter parseAddr (concat (map (\<lambda>v. dre_A v @ dre_AAAA v) (resolvedAnswers json [result]))) of
               [] \<Rightarrow> None | address # _ \<Rightarrow> Some address))"

definition waitForAddress :: "bool \<Rightarrow> Addr option \<Rightarrow> Addr option" where
  "waitForAddress ready address = (if ready then address else None)"

definition targetWithResolvedAddress :: "bool \<Rightarrow> Addr option \<Rightarrow> Target \<Rightarrow> Target" where
  "targetWithResolvedAddress ready address target =
     (case (if tg_LiteralIP target = [] then waitForAddress ready address
            else if tg_SelectedEndpoint target = None then parseAddr (tg_LiteralIP target) else None) of
        None \<Rightarrow> target | Some found \<Rightarrow> applyLegacyResolvedAddress found target)"

definition enrichTargetEndpoints :: "jsonCodec \<Rightarrow> Target \<Rightarrow> ProbeResult list \<Rightarrow> Target" where
  "enrichTargetEndpoints json target0 results =
     (let target = NormalizeTarget target0;
          answers = resolvedAnswers json results;
          found = EndpointCandidatesFromAnswers (concat (map dre_A answers)) (concat (map dre_AAAA answers));
          candidates = (if found = [] then tg_ResolvedCandidates target else found);
          placed = (if candidates \<noteq> [] then applyCandidates candidates target
            else if tg_LiteralIP target \<noteq> [] then (case parseAddr (tg_LiteralIP target) of
                Some address \<Rightarrow> applyLegacyResolvedAddress address target | None \<Rightarrow> target)
            else target) in
      fold (enrichResult json) results placed)"

section \<open>Status\<close>

definition hasDestinationEvidence :: "ProbeResult list \<Rightarrow> bool" where
  "hasDestinationEvidence results = list_ex (\<lambda>result.
     pin_Layer (pr_Interpretation result) \<in> {LayerHTTP, LayerSMB, LayerTCP, LayerSSH, LayerRDP}
     \<and> pr_Status result = ProbeStatusPassed
     \<and> pin_FailureReason (pr_Interpretation result) = FailureReasonNone) results"

definition nonFatalUnavailable :: "ProbeResult \<Rightarrow> bool" where
  "nonFatalUnavailable result =
     (let layer = pin_Layer (pr_Interpretation result) in
      if pin_FailureReason (pr_Interpretation result) \<noteq> FailureReasonUnsupported then False
      else if layer \<in> {LayerGateway, LayerICMP, LayerNetwork, LayerProxy} then True
      else if layer \<in> {LayerTLS, LayerHTTP} then pr_Status result = ProbeStatusSkipped
      else False)"

definition requiredExecutionIncomplete :: "bool \<Rightarrow> ProbeResult \<Rightarrow> bool" where
  "requiredExecutionIncomplete destinationEvidence result =
     (if nonFatalUnavailable result then False
      else if pr_Status result = ProbeStatusSkipped then True
      else if pr_Status result = ProbeStatusError
      then pin_FailureReason (pr_Interpretation result) \<noteq> FailureReasonHTTPFailure \<or> \<not> destinationEvidence
      else False)"

definition reportStatus :: "ProbeResult list \<Rightarrow> ReportStatus" where
  "reportStatus results =
     (if results = [] then ReportStatusUnknown
      else if list_ex (requiredExecutionIncomplete (hasDestinationEvidence results)) results
      then ReportStatusIncomplete else ReportStatusComplete)"

section \<open>The report\<close>

definition runSessionID :: "string \<Rightarrow> gotime \<Rightarrow> nat \<Rightarrow> string" where
  "runSessionID given started sequence =
     (if given = [] then ''run-'' @ formatInt started @ ''-'' @ itoa sequence else given)"

definition runTarget :: "builderCodec \<Rightarrow> Target \<Rightarrow> ProbeResult list \<Rightarrow> Target" where
  "runTarget codec target0 results =
     (let target = enrichTargetEndpoints (bc_json codec) target0 results in
      case NetworkContextFromProbeResults (bc_route codec) target results of
        Some networkContext \<Rightarrow> target\<lparr>tg_NetworkContext := Some networkContext\<rparr>
      | None \<Rightarrow> target)"

definition placedResults :: "Target \<Rightarrow> ProbeResult list \<Rightarrow> ProbeResult list" where
  "placedResults target results =
     sortBy (\<lambda>a b. pr_Name a < pr_Name b) (map (\<lambda>result. result\<lparr>pr_Target := target\<rparr>) results)"

definition runReport :: "builderCodec \<Rightarrow> Target \<Rightarrow> string \<Rightarrow> gotime \<Rightarrow> gotime \<Rightarrow> ProbeResult list \<Rightarrow> DiagnosticReport" where
  "runReport codec target0 sessionID started completed gathered =
     (let target = runTarget codec target0 gathered;
          results = placedResults target gathered in
      DiagnoseReport codec (zero_DiagnosticReport\<lparr>
        dr_SchemaVersion := DiagnosticSchemaVersion, dr_Target := TargetIntentOnly target, dr_SessionID := sessionID,
        dr_Status := reportStatus results, dr_StartedAt := Some started, dr_CompletedAt := Some completed,
        dr_Probes := results, dr_Observations := Build codec target results\<rparr>))"

end
