(* ===== verification/OrchestrateRuns.thy ===== *)
theory OrchestrateRuns
  imports Orchestrate
begin

text \<open>
  The worker pool of \<open>internal/orchestrate/run.go\<close>: the workers of a run take jobs from a channel, wait
  for the DNS probe and for the transport probe where the job needs them, run the probe and store its
  result. Their moves are a step relation, with the invariant of every interleaving.
\<close>

section \<open>Steps\<close>

text \<open>
  Where a worker is: before it receives a job; waiting for the resolved candidates; waiting for the
  tested endpoint; with the dependencies waited for, in vain or not; inside of the probe; with a result in
  hand; at its end. The index is that of the job, the target the worker's \<open>probeTarget\<close>.
\<close>

datatype lane =
    Free
  | Waiting nat
  | AwaitingTransport nat Target
  | Ready nat Target bool
  | Probing nat Target
  | Storing nat Target ProbeResult
  | Gone

text \<open>The two hooks, and the call of a probe with its target.\<close>

datatype runNote = Started nat | Invoked nat Target | Completed nat

text \<open>
  The jobs channel, the workers, the channels \<open>resolvedReady\<close> and \<open>transportReady\<close> (closed or not),
  \<open>endpointSelectionState\<close>, the result slots, the end of the run's context, and what has happened.
\<close>

record probePool =
  pp_queue :: "nat list"
  pp_lanes :: "lane list"
  pp_resolved :: bool
  pp_transport :: bool
  pp_candidates :: "EndpointCandidate list"
  pp_tested :: "Endpoint option"
  pp_results :: "ProbeResult option list"
  pp_cancelled :: bool
  pp_notes :: "runNote list"

text \<open>What a run is given, with the outcomes that its probes can have.\<close>

record runEnv =
  re_target :: Target
  re_session :: string
  re_json :: jsonCodec
  re_possible :: "string \<Rightarrow> Target \<Rightarrow> outcome \<Rightarrow> bool"

definition setTested :: "Endpoint option \<Rightarrow> probePool \<Rightarrow> probePool" where
  "setTested endpoint s = (case endpoint of
     None \<Rightarrow> s | Some e \<Rightarrow> if ep_Address e = [] then s else s\<lparr>pp_tested := Some e\<rparr>)"

definition returnedResult :: "outcome \<Rightarrow> ProbeResult option" where
  "returnedResult out = (case out of
     Finished result flow \<Rightarrow> Some result | CorrelationPanicked result \<Rightarrow> Some result | _ \<Rightarrow> None)"

text \<open>What the functions of the jobs \<open>dns\<close> and \<open>tcp\<close> publish when they are left, by a return or a panic.\<close>

definition publish :: "runEnv \<Rightarrow> string \<Rightarrow> outcome \<Rightarrow> probePool \<Rightarrow> probePool" where
  "publish env name out s =
     (if name = ''dns'' then
        (case returnedResult out of
           None \<Rightarrow> s
         | Some result \<Rightarrow> s\<lparr>pp_candidates := endpointCandidatesFromDNS (re_json env) (re_target env) result\<rparr>)
        \<lparr>pp_resolved := True\<rparr>
      else if name = ''tcp'' \<and> out \<noteq> CapturePanicked then
        (case returnedResult out of None \<Rightarrow> s | Some result \<Rightarrow> setTested (tg_TestedEndpoint (pr_Target result)) s)
        \<lparr>pp_transport := True\<rparr>
      else s)"

text \<open>A job without packet capture returns or panics; a skipped lane returns its fixed result.\<close>

definition possibleOutcome :: "runEnv \<Rightarrow> wiredJob \<Rightarrow> Target \<Rightarrow> outcome \<Rightarrow> bool" where
  "possibleOutcome env j target out \<longleftrightarrow>
     (case jb_call j of
        CallSkipped layer domain \<Rightarrow> (\<exists>started completed. out = Finished
          (skippedURLProbe started completed (re_target env) (jb_name j) layer domain) None)
      | _ \<Rightarrow> re_possible env (jb_name j) target out
          \<and> (jb_packetType j = [] \<longrightarrow> out = ProbePanicked \<or> (\<exists>result. out = Finished result None)))"

definition firstLane :: "runEnv \<Rightarrow> string \<Rightarrow> nat \<Rightarrow> lane" where
  "firstLane env name i = (if independentProbe name then Ready i (re_target env) True else Waiting i)"

definition resolvedLane :: "string \<Rightarrow> nat \<Rightarrow> Target \<Rightarrow> lane" where
  "resolvedLane name i target =
     (if waitsForTransportEndpoint name then AwaitingTransport i target else Ready i target True)"

definition literalTarget :: "runEnv \<Rightarrow> bool" where
  "literalTarget env \<longleftrightarrow> tg_LiteralIP (NormalizeTarget (re_target env)) \<noteq> []"

text \<open>A step is a move of one worker, which a split of the list names, or the end of the context.\<close>

inductive pstep :: "runEnv \<Rightarrow> wiredJob list \<Rightarrow> probePool \<Rightarrow> probePool \<Rightarrow> bool" for env jobs where
  Take: "pp_lanes s = us @ Free # vs \<Longrightarrow> pp_queue s = i # rest \<Longrightarrow>
    pstep env jobs s (s\<lparr>pp_queue := rest, pp_lanes := us @ firstLane env (jb_name (jobs ! i)) i # vs,
      pp_notes := pp_notes s @ [Started i]\<rparr>)"
| Leave: "pp_lanes s = us @ Free # vs \<Longrightarrow> pp_queue s = [] \<Longrightarrow> pstep env jobs s (s\<lparr>pp_lanes := us @ Gone # vs\<rparr>)"
| Literal: "pp_lanes s = us @ Waiting i # vs \<Longrightarrow> literalTarget env \<Longrightarrow>
    pstep env jobs s (s\<lparr>pp_lanes := us @ resolvedLane (jb_name (jobs ! i)) i (literalCandidates (re_target env)) # vs\<rparr>)"
| Resolve: "pp_lanes s = us @ Waiting i # vs \<Longrightarrow> \<not> literalTarget env \<Longrightarrow> pp_resolved s \<Longrightarrow>
    pstep env jobs s (s\<lparr>pp_lanes := us @ resolvedLane (jb_name (jobs ! i)) i
      (resolvedCandidates (pp_candidates s) (re_target env)) # vs\<rparr>)"
| Unresolved: "pp_lanes s = us @ Waiting i # vs \<Longrightarrow> \<not> literalTarget env \<Longrightarrow> pp_cancelled s \<Longrightarrow>
    pstep env jobs s (s\<lparr>pp_lanes := us @ Ready i (NormalizeTarget (re_target env)) False # vs\<rparr>)"
| Tested: "pp_lanes s = us @ AwaitingTransport i target # vs \<Longrightarrow> pp_transport s \<Longrightarrow>
    pstep env jobs s (s\<lparr>pp_lanes := us @ Ready i (testedTarget (pp_tested s) target) True # vs\<rparr>)"
| Untested: "pp_lanes s = us @ AwaitingTransport i target # vs \<Longrightarrow> pp_cancelled s \<Longrightarrow>
    pstep env jobs s (s\<lparr>pp_lanes := us @ Ready i target False # vs\<rparr>)"
| Refuse: "pp_lanes s = us @ Ready i target False # vs \<Longrightarrow>
    pstep env jobs s (s\<lparr>pp_lanes := us @ Storing i target (dependencyWaitFailure now (jb_name (jobs ! i)) target) # vs\<rparr>)"
| Invoke: "pp_lanes s = us @ Ready i target True # vs \<Longrightarrow>
    pstep env jobs s (s\<lparr>pp_lanes := us @ Probing i target # vs, pp_notes := pp_notes s @ [Invoked i target]\<rparr>)"
| Finish: "pp_lanes s = us @ Probing i target # vs \<Longrightarrow> possibleOutcome env (jobs ! i) target out \<Longrightarrow>
    pstep env jobs s ((publish env (jb_name (jobs ! i)) out s)\<lparr>
      pp_lanes := us @ Storing i target (boundedResult (jb_name (jobs ! i)) out) # vs\<rparr>)"
| Store: "pp_lanes s = us @ Storing i target result # vs \<Longrightarrow>
    pstep env jobs s (s\<lparr>pp_lanes := us @ Free # vs,
      pp_results := (pp_results s)[i := Some (identifiedResult (re_session env) (jb_name (jobs ! i)) target result)],
      pp_notes := pp_notes s @ [Completed i]\<rparr>)"
| Cancel: "\<not> pp_cancelled s \<Longrightarrow> pstep env jobs s (s\<lparr>pp_cancelled := True\<rparr>)"

definition poolSize :: "int \<Rightarrow> nat \<Rightarrow> nat" where
  "poolSize concurrency n = min (if concurrency \<le> 0 then 4 else nat concurrency) n"

definition newPool :: "int \<Rightarrow> wiredJob list \<Rightarrow> bool \<Rightarrow> probePool" where
  "newPool concurrency jobs cancelled = \<lparr>pp_queue = [0..<length jobs],
     pp_lanes = replicate (poolSize concurrency (length jobs)) Free, pp_resolved = False, pp_transport = False,
     pp_candidates = [], pp_tested = None, pp_results = replicate (length jobs) None, pp_cancelled = cancelled,
     pp_notes = []\<rparr>"

inductive preach :: "runEnv \<Rightarrow> wiredJob list \<Rightarrow> int \<Rightarrow> probePool \<Rightarrow> bool" for env jobs concurrency where
  Begin: "preach env jobs concurrency (newPool concurrency jobs cancelled)"
| Move: "preach env jobs concurrency s \<Longrightarrow> pstep env jobs s s' \<Longrightarrow> preach env jobs concurrency s'"

text \<open>\<open>wg.Wait\<close> returns, and \<open>runProbes\<close> returns the slots.\<close>

definition poolDone :: "probePool \<Rightarrow> bool" where
  "poolDone s \<longleftrightarrow> set (pp_lanes s) \<subseteq> {Gone}"

definition collectedResults :: "probePool \<Rightarrow> ProbeResult list" where
  "collectedResults s = map (\<lambda>r. case r of None \<Rightarrow> zero_ProbeResult | Some result \<Rightarrow> result) (pp_results s)"

section \<open>The order of the jobs\<close>

text \<open>What the pool relies on: the independent jobs come first, then the transport probe, and whoever waits for
  it comes later.\<close>

locale probe_order =
  fixes jobs :: "wiredJob list"
  assumes dns_first: "jobs \<noteq> []" "jb_name (jobs ! 0) = ''dns''"
    and dns_once: "i < length jobs \<Longrightarrow> jb_name (jobs ! i) = ''dns'' \<Longrightarrow> i = 0"
    and tcp_known: "\<exists>k < length jobs. jb_name (jobs ! k) = ''tcp''"
    and tcp_once: "i < length jobs \<Longrightarrow> k < length jobs \<Longrightarrow> jb_name (jobs ! i) = ''tcp''
      \<Longrightarrow> jb_name (jobs ! k) = ''tcp'' \<Longrightarrow> i = k"
    and tcp_before: "i < length jobs \<Longrightarrow> k < length jobs \<Longrightarrow> jb_name (jobs ! k) = ''tcp''
      \<Longrightarrow> waitsForTransportEndpoint (jb_name (jobs ! i)) \<Longrightarrow> k < i"

lemma base_names: "map jb_name baseJobs = [''dns'', ''interface_state'', ''dns_configuration'', ''tcp'', ''default_route'',
    ''target_route'', ''gateway_reachability'', ''proxy_discovery'', ''windows_enterprise'', ''path'']"
  by (simp add: baseJobs_def probeJob_def packetJob_def routeJob_def DefaultRouteProbeName_def TargetRouteProbeName_def
      GatewayProbeName_def)

lemma other_names: "\<exists>more. wiredJobs target = baseJobs @ more
    \<and> jb_name ` set more \<subseteq> {''tls'', ''http'', ''ssh'', ''rdp'', ''smb'', ''dns_service''}"
  by (auto simp: wiredJobs_def applicationJobs_def probeJob_def skippedTLS_def skippedHTTP_def)

lemma wired_name:
  assumes "i < length (wiredJobs target)" "jb_name (wiredJobs target ! i) = name"
  shows "i < 10 \<and> name = map jb_name baseJobs ! i \<or> 10 \<le> i \<and> name \<in> {''tls'', ''http'', ''ssh'', ''rdp'', ''smb'', ''dns_service''}"
proof -
  obtain more where jobs: "wiredJobs target = baseJobs @ more"
    and more: "jb_name ` set more \<subseteq> {''tls'', ''http'', ''ssh'', ''rdp'', ''smb'', ''dns_service''}"
    using other_names by blast
  have len: "length baseJobs = 10" using arg_cong [OF base_names, of length] by simp
  show ?thesis
  proof (cases "i < 10")
    case True
    then show ?thesis using assms len by (simp add: jobs nth_append)
  next
    case False
    then have "jb_name (more ! (i - 10)) = name" "i - 10 < length more" using assms len by (simp_all add: jobs nth_append)
    then have "name \<in> jb_name ` set more" by (metis image_eqI nth_mem)
    then show ?thesis using False more by auto
  qed
qed

lemma less_10: "i < (10::nat) \<longleftrightarrow> i \<in> {0, 1, 2, 3, 4, 5, 6, 7, 8, 9}"
  by auto

interpretation wired: probe_order "wiredJobs target" for target
proof
  obtain more where jobs: "wiredJobs target = baseJobs @ more" using other_names by blast
  have base: "length baseJobs = 10" using arg_cong [OF base_names, of length] by simp
  have nth: "jb_name (wiredJobs target ! i) = map jb_name baseJobs ! i" if "i < 10" for i
    using that base by (simp add: jobs nth_append)
  show "wiredJobs target \<noteq> []" "jb_name (wiredJobs target ! 0) = ''dns''"
    "\<exists>k < length (wiredJobs target). jb_name (wiredJobs target ! k) = ''tcp''"
    using nth [of 0] nth [of 3] base by (auto simp: base_names jobs intro!: exI [of _ 3])
  fix i k
  assume i: "i < length (wiredJobs target)"
  show "jb_name (wiredJobs target ! i) = ''dns'' \<Longrightarrow> i = 0"
    using wired_name [OF i, of "''dns''"] by (auto simp: less_10 base_names)
  assume k: "k < length (wiredJobs target)"
  have tcp: "j = 3" if "j < length (wiredJobs target)" "jb_name (wiredJobs target ! j) = ''tcp''" for j
    using wired_name [OF that] by (auto simp: less_10 base_names)
  show "jb_name (wiredJobs target ! i) = ''tcp'' \<Longrightarrow> jb_name (wiredJobs target ! k) = ''tcp'' \<Longrightarrow> i = k"
    using tcp [OF i] tcp [OF k] by simp
  assume waits: "jb_name (wiredJobs target ! k) = ''tcp''" "waitsForTransportEndpoint (jb_name (wiredJobs target ! i))"
  have "k = 3" by (rule tcp [OF k waits(1)])
  moreover have "3 < i"
    using wired_name [OF i refl] waits(2) by (auto simp: less_10 base_names waitsForTransportEndpoint_def
        DefaultRouteProbeName_def TargetRouteProbeName_def GatewayProbeName_def)
  ultimately show "k < i" by simp
qed

section \<open>Who owns a job\<close>

fun laneIndex :: "lane \<Rightarrow> nat list" where
  "laneIndex Free = []" | "laneIndex Gone = []" | "laneIndex (Waiting i) = [i]"
| "laneIndex (AwaitingTransport i target) = [i]" | "laneIndex (Ready i target ready) = [i]"
| "laneIndex (Probing i target) = [i]" | "laneIndex (Storing i target result) = [i]"

definition busy :: "lane list \<Rightarrow> nat list" where
  "busy lanes = concat (map laneIndex lanes)"

lemma busy_simps [simp]: "busy [] = []" "busy (w # ws) = laneIndex w @ busy ws" "busy (us @ vs) = busy us @ busy vs"
  "busy (replicate m Free) = []"
  by (simp_all add: busy_def)

text \<open>Every job is in the channel, with exactly one worker, or stored; the channel holds the last jobs in order.\<close>

definition owned :: "nat \<Rightarrow> nat list \<Rightarrow> lane list \<Rightarrow> ProbeResult option list \<Rightarrow> bool" where
  "owned n queue lanes results \<longleftrightarrow> length results = n \<and> (\<exists>k \<le> n. queue = [k..<n])
     \<and> distinct (queue @ busy lanes) \<and> set (busy lanes) \<subseteq> {..<n}
     \<and> (\<forall>i < n. results ! i = None \<longleftrightarrow> i \<in> set queue \<union> set (busy lanes)) \<and> (Gone \<in> set lanes \<longrightarrow> queue = [])"

lemma owned_same:
  "owned n queue (us @ w # vs) results \<Longrightarrow> laneIndex w' = laneIndex w \<Longrightarrow> w' = Gone \<longrightarrow> queue = []
     \<Longrightarrow> owned n queue (us @ w' # vs) results"
  by (auto simp: owned_def)

lemma owned_take:
  assumes "owned n (i # rest) (us @ Free # vs) results" "laneIndex w = [i]"
  shows "owned n rest (us @ w # vs) results"
proof -
  obtain k where k: "k \<le> n" "i # rest = [k..<n]" using assms(1) by (auto simp: owned_def)
  then have "k < n \<and> k = i \<and> [Suc k..<n] = rest" by (metis Suc_eq_plus1 upt_eq_Cons_conv)
  then have "rest = [Suc k..<n]" "Suc k \<le> n" "i < n" by auto
  moreover have "w \<noteq> Gone" using assms(2) by auto
  ultimately show ?thesis using assms by (auto simp: owned_def)
qed

lemma owned_store:
  assumes "owned n queue (us @ w # vs) results" "laneIndex w = [i]"
  shows "owned n queue (us @ Free # vs) (results[i := Some r])"
  using assms by (auto simp: owned_def nth_list_update)

lemma firstLane_index [simp]: "laneIndex (firstLane env name i) = [i]" "laneIndex (resolvedLane name i t) = [i]"
  by (simp_all add: firstLane_def resolvedLane_def)

lemma owned_reach: "preach env jobs concurrency s \<Longrightarrow> owned (length jobs) (pp_queue s) (pp_lanes s) (pp_results s)"
proof (induction rule: preach.induct)
  case (Begin cancelled)
  then show ?case by (auto simp: owned_def newPool_def)
next
  case (Move s s')
  have publish: "pp_queue (publish env name out s) = pp_queue s" "pp_results (publish env name out s) = pp_results s" for name out
    by (auto simp: publish_def setTested_def split: option.splits)
  have lane: "owned (length jobs) (pp_queue s) (us @ w' # vs) (pp_results s)"
    if "pp_lanes s = us @ w # vs" "laneIndex w' = laneIndex w" "w' \<noteq> Gone" for us vs w w'
    by (rule owned_same [OF Move.IH [unfolded that(1)] that(2)]) (simp add: that(3))
  have not_gone: "resolvedLane name i t \<noteq> Gone" for name i t by (simp add: resolvedLane_def)
  from Move(2) show ?case
  proof cases
    case (Take us vs i rest)
    then show ?thesis using owned_take [OF Move.IH [unfolded Take(2,3)]] by simp
  next
    case (Leave us vs)
    then show ?thesis using owned_same [OF Move.IH [unfolded Leave(2)], of Gone] by simp
  next
    case (Store us i target result vs)
    then show ?thesis using owned_store [OF Move.IH [unfolded Store(2)]] by simp
  next
    case Cancel
    then show ?thesis using Move.IH by simp
  qed (use lane not_gone publish in \<open>auto\<close>)
qed

section \<open>The two channels\<close>

text \<open>A job whose function has still to be left, as long as nobody gives up on its dependencies.\<close>

definition pendingLane :: "nat \<Rightarrow> lane \<Rightarrow> bool" where
  "pendingLane i w \<longleftrightarrow> w = Waiting i
     \<or> (\<exists>target. w = AwaitingTransport i target \<or> w = Ready i target True \<or> w = Probing i target)"

definition pending :: "nat \<Rightarrow> nat list \<Rightarrow> lane list \<Rightarrow> bool" where
  "pending i queue lanes \<longleftrightarrow> i \<in> set queue \<or> (\<exists>w \<in> set lanes. pendingLane i w)"

lemma pendingLane_index: "pendingLane i w \<Longrightarrow> laneIndex w = [i]"
  by (auto simp: pendingLane_def)

lemma pendingLane_simps [simp]:
  "pendingLane i Free = False" "pendingLane i Gone = False" "pendingLane i (Storing j target result) = False"
  "pendingLane i (Waiting j) = (i = j)" "pendingLane i (AwaitingTransport j target) = (i = j)"
  "pendingLane i (Ready j target ready) = (i = j \<and> ready)" "pendingLane i (Probing j target) = (i = j)"
  "pendingLane i (firstLane env name j) = (i = j)" "pendingLane i (resolvedLane name j target) = (i = j)"
  by (auto simp: pendingLane_def firstLane_def resolvedLane_def)

lemma pending_at:
  assumes "owned n queue (us @ w # vs) results" "laneIndex w = [i]"
  shows "pending i queue (us @ w # vs) = pendingLane i w"
proof -
  have "i \<notin> set queue" "i \<notin> set (busy us)" "i \<notin> set (busy vs)" using assms by (auto simp: owned_def)
  then have "\<not> pendingLane i v" if "v \<in> set us \<union> set vs" for v
    using that pendingLane_index [of i v] by (auto simp: busy_def)
  then show ?thesis using \<open>i \<notin> set queue\<close> by (auto simp: pending_def)
qed

lemma pending_other: "\<not> pendingLane i w \<Longrightarrow> \<not> pendingLane i w' \<Longrightarrow> pending i queue (us @ w # vs) = pending i queue (us @ w' # vs)"
  by (auto simp: pending_def)

text \<open>A move of one worker within its job.\<close>

lemma pending_move:
  assumes "owned n queue (us @ w # vs) results" "laneIndex w = [j]" "laneIndex w' = [j]"
  shows "pending i queue (us @ w' # vs) = (if i = j then pendingLane j w' else pending i queue (us @ w # vs))"
proof (cases "i = j")
  case True
  have "owned n queue (us @ w' # vs) results" by (rule owned_same [OF assms(1)]) (use assms in auto)
  from pending_at [OF this assms(3)] show ?thesis using True by simp
next
  case False
  then have "\<not> pendingLane i w" "\<not> pendingLane i w'" using pendingLane_index [of i] assms(2,3) by fastforce+
  then show ?thesis using pending_other [of i w w' queue us vs] False by simp
qed

text \<open>What a worker's place says of its job.\<close>

fun laneOk :: "runEnv \<Rightarrow> wiredJob list \<Rightarrow> bool \<Rightarrow> lane \<Rightarrow> bool" where
  "laneOk env jobs cancelled (Waiting i) \<longleftrightarrow> \<not> independentProbe (jb_name (jobs ! i))"
| "laneOk env jobs cancelled (AwaitingTransport i target) \<longleftrightarrow> \<not> independentProbe (jb_name (jobs ! i))
     \<and> waitsForTransportEndpoint (jb_name (jobs ! i))"
| "laneOk env jobs cancelled (Ready i target ready) \<longleftrightarrow>
     (if ready then True else \<not> independentProbe (jb_name (jobs ! i)) \<and> cancelled)"
| "laneOk env jobs cancelled _ \<longleftrightarrow> True"

lemma publish_keeps [simp]:
  "pp_queue (publish env name out s) = pp_queue s" "pp_results (publish env name out s) = pp_results s"
  "pp_lanes (publish env name out s) = pp_lanes s" "pp_cancelled (publish env name out s) = pp_cancelled s"
  "pp_notes (publish env name out s) = pp_notes s"
  by (auto simp: publish_def setTested_def split: option.splits)

lemma publish_channels [simp]:
  "pp_resolved (publish env name out s) = (pp_resolved s \<or> name = ''dns'')"
  "pp_transport (publish env name out s) = (pp_transport s \<or> name = ''tcp'' \<and> out \<noteq> CapturePanicked)"
  by (auto simp: publish_def setTested_def split: option.splits)

lemma lanes_reach: "preach env jobs concurrency s \<Longrightarrow> \<forall>w \<in> set (pp_lanes s). laneOk env jobs (pp_cancelled s) w"
proof (induction rule: preach.induct)
  case (Begin cancelled)
  then show ?case by (auto simp: newPool_def)
next
  case (Move s s')
  have "laneOk env jobs True w" if "laneOk env jobs c w" for c w using that by (cases w) (auto split: if_splits)
  then have cancel: "\<forall>w \<in> set (pp_lanes s). laneOk env jobs True w" using Move.IH by blast
  from Move(2) show ?case by cases (use Move.IH cancel in \<open>auto simp: firstLane_def resolvedLane_def\<close>)
qed

text \<open>What the workers share; a step leaves it alone, gives up a job, or leaves the function of a job.\<close>

definition shared :: "probePool \<Rightarrow> bool \<times> bool \<times> EndpointCandidate list \<times> Endpoint option" where
  "shared s = (pp_resolved s, pp_transport s, pp_candidates s, pp_tested s)"

definition poolPending :: "probePool \<Rightarrow> nat \<Rightarrow> bool" where
  "poolPending s i \<longleftrightarrow> pending i (pp_queue s) (pp_lanes s)"

lemma poolPending_move:
  assumes "owned n (pp_queue s) (pp_lanes s) results" "pp_lanes s = us @ w # vs" "laneIndex w = [j]" "laneIndex w' = [j]"
    "pp_queue s' = pp_queue s" "pp_lanes s' = us @ w' # vs" "pendingLane j w"
  shows "poolPending s' i = (poolPending s i \<and> (i = j \<longrightarrow> pendingLane j w')) \<and> poolPending s j"
  using pending_move [OF assms(1) [unfolded assms(2)] assms(3,4), of i] pending_at [OF assms(1) [unfolded assms(2)] assms(3)]
    assms(2,5-7) by (auto simp: poolPending_def)

lemma step_kinds:
  assumes "pstep env jobs s s'" "owned n (pp_queue s) (pp_lanes s) (pp_results s)"
    "\<forall>w \<in> set (pp_lanes s). laneOk env jobs (pp_cancelled s) w"
  shows "shared s' = shared s \<and> poolPending s' = poolPending s
    \<or> (\<exists>j. shared s' = shared s \<and> pp_cancelled s \<and> \<not> independentProbe (jb_name (jobs ! j))
        \<and> poolPending s j \<and> poolPending s' = (\<lambda>i. poolPending s i \<and> i \<noteq> j))
    \<or> (\<exists>j out target. j < n \<and> shared s' = shared (publish env (jb_name (jobs ! j)) out s)
        \<and> possibleOutcome env (jobs ! j) target out
        \<and> poolPending s j \<and> poolPending s' = (\<lambda>i. poolPending s i \<and> i \<noteq> j))"
  using assms(1)
proof cases
  case (Take us vs i rest)
  then have "poolPending s' = poolPending s" by (auto simp: poolPending_def pending_def)
  then show ?thesis using Take(1) by (simp add: shared_def)
next
  case (Leave us vs)
  then have "poolPending s' = poolPending s" by (auto simp: poolPending_def pending_def)
  then show ?thesis using Leave(1) by (simp add: shared_def)
next
  case (Store us i target result vs)
  then have "poolPending s' = poolPending s" by (auto simp: poolPending_def pending_def)
  then show ?thesis using Store(1) by (simp add: shared_def)
next
  case (Refuse us i target vs now)
  then have "poolPending s' = poolPending s" by (auto simp: poolPending_def pending_def)
  then show ?thesis using Refuse(1) by (simp add: shared_def)
next
  case Cancel
  then show ?thesis by (auto simp: shared_def poolPending_def)
next
  case (Literal us i vs)
  have "poolPending s' = poolPending s"
    using poolPending_move [OF assms(2) Literal(2), of i "resolvedLane n i t" s' for n t] Literal(1) by auto
  then show ?thesis using Literal(1) by (simp add: shared_def)
next
  case (Resolve us i vs)
  have "poolPending s' = poolPending s"
    using poolPending_move [OF assms(2) Resolve(2), of i "resolvedLane n i t" s' for n t] Resolve(1) by auto
  then show ?thesis using Resolve(1) by (simp add: shared_def)
next
  case (Tested us i target vs)
  have "poolPending s' = poolPending s"
    using poolPending_move [OF assms(2) Tested(2), of i "Ready i t True" s' for t] Tested(1) by auto
  then show ?thesis using Tested(1) by (simp add: shared_def)
next
  case (Invoke us i target vs)
  have "poolPending s' = poolPending s"
    using poolPending_move [OF assms(2) Invoke(2), of i "Probing i target" s'] Invoke(1) by auto
  then show ?thesis using Invoke(1) by (simp add: shared_def)
next
  case (Unresolved us i vs)
  have "poolPending s' = (\<lambda>j. poolPending s j \<and> j \<noteq> i)" "poolPending s i"
    using poolPending_move [OF assms(2) Unresolved(2), of i "Ready i t False" s' for t] Unresolved(1) by auto
  moreover have "\<not> independentProbe (jb_name (jobs ! i))" using assms(3) by (simp add: Unresolved)
  ultimately show ?thesis using Unresolved by (auto simp: shared_def)
next
  case (Untested us i target vs)
  have "poolPending s' = (\<lambda>j. poolPending s j \<and> j \<noteq> i)" "poolPending s i"
    using poolPending_move [OF assms(2) Untested(2), of i "Ready i target False" s'] Untested(1) by auto
  moreover have "\<not> independentProbe (jb_name (jobs ! i))" using assms(3) by (simp add: Untested)
  ultimately show ?thesis using Untested by (auto simp: shared_def)
next
  case (Finish us i target vs out)
  have "i < n" using assms(2) by (auto simp: owned_def Finish)
  moreover have "poolPending s' = (\<lambda>j. poolPending s j \<and> j \<noteq> i)" "poolPending s i"
    using poolPending_move [OF assms(2) Finish(2), of i "Storing i target r" s' for r] Finish(1) by auto
  ultimately show ?thesis using Finish(1,3) by (auto simp: shared_def)
qed

context probe_order
begin

lemma dns_independent: "independentProbe (jb_name (jobs ! 0))"
  by (simp add: dns_first independentProbe_def)

lemma resolved_reach: "preach env jobs concurrency s \<Longrightarrow> pp_resolved s \<longleftrightarrow> \<not> poolPending s 0"
proof (induction rule: preach.induct)
  case (Begin cancelled)
  then show ?case using dns_first by (auto simp: newPool_def pending_def poolPending_def)
next
  case (Move s s')
  from step_kinds [OF Move(2) owned_reach [OF Move(1)] lanes_reach [OF Move(1)]] show ?case
  proof (elim disjE exE conjE)
    fix j
    assume "shared s' = shared s" "\<not> independentProbe (jb_name (jobs ! j))"
      "poolPending s' = (\<lambda>i. poolPending s i \<and> i \<noteq> j)"
    moreover from this(2) have "j \<noteq> 0" using dns_independent by metis
    ultimately show ?thesis using Move.IH by (simp add: shared_def)
  next
    fix j out
    assume "j < length jobs" "shared s' = shared (publish env (jb_name (jobs ! j)) out s)"
      "poolPending s' = (\<lambda>i. poolPending s i \<and> i \<noteq> j)"
    moreover from this(1) have "jb_name (jobs ! j) = ''dns'' \<longleftrightarrow> j = 0" using dns_once dns_first by auto
    ultimately show ?thesis using Move.IH by (auto simp: shared_def)
  qed (use Move.IH in \<open>simp add: shared_def\<close>)
qed

text \<open>The capture of the transport probe may panic before the probe is called.\<close>

definition captureMayPanic :: "runEnv \<Rightarrow> bool" where
  "captureMayPanic env \<longleftrightarrow> (\<exists>k < length jobs. \<exists>target. jb_name (jobs ! k) = ''tcp''
     \<and> possibleOutcome env (jobs ! k) target CapturePanicked)"

lemma transport_reach:
  assumes "k < length jobs" "jb_name (jobs ! k) = ''tcp''"
  shows "preach env jobs concurrency s \<Longrightarrow> (pp_transport s \<longrightarrow> \<not> poolPending s k)
    \<and> (\<not> poolPending s k \<longrightarrow> pp_transport s \<or> pp_cancelled s \<or> captureMayPanic env)"
proof (induction rule: preach.induct)
  case (Begin cancelled)
  then show ?case using assms(1) by (auto simp: newPool_def pending_def poolPending_def)
next
  case (Move s s')
  have cancelled: "pp_cancelled s \<Longrightarrow> pp_cancelled s'" using Move(2) by cases auto
  from step_kinds [OF Move(2) owned_reach [OF Move(1)] lanes_reach [OF Move(1)]] show ?case
  proof (elim disjE exE conjE)
    fix j out target
    assume j: "j < length jobs" and left: "shared s' = shared (publish env (jb_name (jobs ! j)) out s)"
      "poolPending s' = (\<lambda>i. poolPending s i \<and> i \<noteq> j)" and out: "possibleOutcome env (jobs ! j) target out"
    show ?thesis
    proof (cases "j = k")
      case True
      then have "out \<noteq> CapturePanicked \<or> captureMayPanic env" using assms j out by (auto simp: captureMayPanic_def)
      then show ?thesis using left assms(2) True by (auto simp: shared_def)
    next
      case False
      then have "jb_name (jobs ! j) \<noteq> ''tcp''" using tcp_once [OF j assms(1)] assms(2) by auto
      then show ?thesis using left False Move.IH cancelled by (auto simp: shared_def)
    qed
  qed (use Move.IH cancelled in \<open>auto simp: shared_def\<close>)
qed

end

end
