(* ===== verification/OrchestrateFacts.thy ===== *)
theory OrchestrateFacts
  imports OrchestrateRuns
begin

text \<open>
  What the orchestration guarantees: whatever the number of workers, a run ends with one result for
  each job; the probes that depend on others are all run on the same target; and the status of a report
  is complete exactly when nothing that is required was left out.
\<close>

section \<open>Progress\<close>

text \<open>A move of a worker, and not the end of the context.\<close>

definition workerStep :: "runEnv \<Rightarrow> wiredJob list \<Rightarrow> probePool \<Rightarrow> probePool \<Rightarrow> bool" where
  "workerStep env jobs s s' \<longleftrightarrow> pstep env jobs s s' \<and> pp_cancelled s' = pp_cancelled s"

fun laneRank :: "lane \<Rightarrow> nat" where
  "laneRank Gone = 0" | "laneRank Free = 1" | "laneRank (Storing i target result) = 2" | "laneRank (Probing i target) = 3"
| "laneRank (Ready i target ready) = (if ready then 4 else 3)" | "laneRank (AwaitingTransport i target) = 5"
| "laneRank (Waiting i) = 6"

definition poolMeasure :: "probePool \<Rightarrow> nat" where
  "poolMeasure s = 7 * length (pp_queue s) + sum_list (map laneRank (pp_lanes s))"

lemma rank_bounds: "laneRank (firstLane env name i) \<le> 6" "laneRank (resolvedLane name i target) \<le> 5"
  by (simp_all add: firstLane_def resolvedLane_def)

lemma workerStep_measure: "workerStep env jobs s s' \<Longrightarrow> poolMeasure s' < poolMeasure s"
proof -
  assume "workerStep env jobs s s'"
  then have "pstep env jobs s s'" "pp_cancelled s' = pp_cancelled s" by (auto simp: workerStep_def)
  then show ?thesis
  proof cases
    case (Take us vs i rest)
    then show ?thesis using rank_bounds(1) [of env "jb_name (jobs ! i)" i] by (simp add: poolMeasure_def)
  next
    case (Literal us i vs)
    then show ?thesis using rank_bounds(2) [of "jb_name (jobs ! i)" i "literalCandidates (re_target env)"]
      by (simp add: poolMeasure_def)
  next
    case (Resolve us i vs)
    then show ?thesis
      using rank_bounds(2) [of "jb_name (jobs ! i)" i "resolvedCandidates (pp_candidates s) (re_target env)"]
      by (simp add: poolMeasure_def)
  qed (auto simp: poolMeasure_def)
qed

lemma workerStepI: "pstep env jobs s s' \<Longrightarrow> pp_cancelled s' = pp_cancelled s \<Longrightarrow> \<exists>s'. workerStep env jobs s s'"
  by (auto simp: workerStep_def)

text \<open>A worker that waits for nobody.\<close>

lemma lane_moves:
  assumes "pp_lanes s = us @ w # vs" "w \<noteq> Gone" "\<And>i. w \<noteq> Waiting i" "\<And>i target. w \<noteq> AwaitingTransport i target"
    "\<And>i target. w = Probing i target \<Longrightarrow> \<exists>out. possibleOutcome env (jobs ! i) target out"
  shows "\<exists>s'. workerStep env jobs s s'"
proof (cases w)
  case Free
  show ?thesis
  proof (cases "pp_queue s")
    case Nil
    then show ?thesis using workerStepI [OF pstep.Leave] assms(1) Free by fastforce
  next
    case (Cons i rest)
    then show ?thesis using workerStepI [OF pstep.Take] assms(1) Free by fastforce
  qed
next
  case (Ready i target ready)
  show ?thesis
  proof (cases ready)
    case True
    then show ?thesis using workerStepI [OF pstep.Invoke] assms(1) Ready by fastforce
  next
    case False
    then show ?thesis using workerStepI [OF pstep.Refuse] assms(1) Ready by fastforce
  qed
next
  case (Probing i target)
  obtain out where out: "possibleOutcome env (jobs ! i) target out" using assms(5) Probing by blast
  show ?thesis using workerStepI [OF pstep.Finish [OF assms(1) [unfolded Probing] out]] by simp
next
  case (Storing i target result)
  then show ?thesis using workerStepI [OF pstep.Store] assms(1) by fastforce
qed (use assms in auto)

lemma owned_before:
  assumes "owned n queue lanes results" "i \<in> set (busy lanes)" "k \<le> i"
  shows "k \<notin> set queue"
proof
  assume "k \<in> set queue"
  moreover obtain m where "queue = [m..<n]" using assms(1) by (auto simp: owned_def)
  moreover have "i < n" "i \<notin> set queue" using assms(1,2) by (auto simp: owned_def)
  ultimately show False using assms(3) by auto
qed

context probe_order
begin

lemma waiting_moves:
  assumes reach: "preach env jobs concurrency s" and lane: "Waiting i \<in> set (pp_lanes s)"
    and stalled: "\<And>w. w \<in> set (pp_lanes s) \<Longrightarrow> w = Gone \<or> (\<exists>i. w = Waiting i) \<or> (\<exists>i target. w = AwaitingTransport i target)"
  shows "\<exists>s'. workerStep env jobs s s'"
proof -
  obtain us vs where split: "pp_lanes s = us @ Waiting i # vs" using split_list [OF lane] by blast
  have busy: "i \<in> set (busy (pp_lanes s))" by (simp add: split)
  have "\<not> pendingLane 0 w" if "w \<in> set (pp_lanes s)" for w
    using stalled [OF that] lanes_reach [OF reach] that dns_independent by (auto dest: bspec [OF _ that])
  moreover have "0 \<notin> set (pp_queue s)" using owned_before [OF owned_reach [OF reach] busy] by simp
  ultimately have "pp_resolved s" using resolved_reach [OF reach] by (auto simp: poolPending_def pending_def)
  then show ?thesis
    using workerStepI [OF pstep.Literal [OF split]] workerStepI [OF pstep.Resolve [OF split]] by (cases "literalTarget env") auto
qed

lemma awaiting_moves:
  assumes reach: "preach env jobs concurrency s" and lane: "AwaitingTransport i target \<in> set (pp_lanes s)"
    and stalled: "\<And>w. w \<in> set (pp_lanes s) \<Longrightarrow> w = Gone \<or> (\<exists>i. w = Waiting i) \<or> (\<exists>i target. w = AwaitingTransport i target)"
    and "\<not> captureMayPanic env"
  shows "\<exists>s'. workerStep env jobs s s'"
proof -
  obtain us vs where split: "pp_lanes s = us @ AwaitingTransport i target # vs" using split_list [OF lane] by blast
  have busy: "i \<in> set (busy (pp_lanes s))" by (simp add: split)
  obtain k where k: "k < length jobs" "jb_name (jobs ! k) = ''tcp''" using tcp_known by blast
  have waits: "waitsForTransportEndpoint (jb_name (jobs ! i))" using lanes_reach [OF reach] lane by auto
  have "i < length jobs" using owned_reach [OF reach] busy by (auto simp: owned_def)
  from tcp_before [OF this k waits] have "k < i" .
  then have queue: "k \<notin> set (pp_queue s)" using owned_before [OF owned_reach [OF reach] busy] by simp
  show ?thesis
  proof (cases "poolPending s k")
    case True
    then obtain w where w: "w \<in> set (pp_lanes s)" "pendingLane k w" using queue by (auto simp: poolPending_def pending_def)
    have "\<not> waitsForTransportEndpoint (jb_name (jobs ! k))" using tcp_before [OF k(1) k] by blast
    then have "w = Waiting k" using stalled [OF w(1)] w(2) lanes_reach [OF reach] w(1) by (auto dest: bspec [OF _ w(1)])
    then show ?thesis using waiting_moves [OF reach _ stalled] w(1) by blast
  next
    case False
    then have "pp_transport s \<or> pp_cancelled s" using transport_reach [OF k reach] assms(4) by blast
    then show ?thesis
      using workerStepI [OF pstep.Tested [OF split]] workerStepI [OF pstep.Untested [OF split]] by auto
  qed
qed

lemma some_worker_moves:
  assumes reach: "preach env jobs concurrency s" and "\<not> poolDone s" "\<not> captureMayPanic env"
    and outcomes: "\<And>j target. j \<in> set jobs \<Longrightarrow> \<exists>out. possibleOutcome env j target out"
  shows "\<exists>s'. workerStep env jobs s s'"
proof (cases "\<forall>w \<in> set (pp_lanes s). w = Gone \<or> (\<exists>i. w = Waiting i) \<or> (\<exists>i target. w = AwaitingTransport i target)")
  case True
  obtain w where "w \<in> set (pp_lanes s)" "w \<noteq> Gone" using assms(2) by (auto simp: poolDone_def)
  then show ?thesis using True waiting_moves [OF reach] awaiting_moves [OF reach] assms(3) by metis
next
  case False
  then obtain w where w: "w \<in> set (pp_lanes s)" "w \<noteq> Gone" "\<And>i. w \<noteq> Waiting i" "\<And>i target. w \<noteq> AwaitingTransport i target"
    by blast
  obtain us vs where split: "pp_lanes s = us @ w # vs" using split_list [OF w(1)] by blast
  have "\<exists>out. possibleOutcome env (jobs ! i) target out" if "w = Probing i target" for i target
  proof -
    have "i < length jobs" using owned_reach [OF reach] by (simp add: owned_def split that)
    then show ?thesis using outcomes by simp
  qed
  then show ?thesis using lane_moves [OF split w(2-4)] by blast
qed

lemma run_ends:
  assumes "preach env jobs concurrency s" "\<not> captureMayPanic env"
    "\<And>j target. j \<in> set jobs \<Longrightarrow> \<exists>out. possibleOutcome env j target out"
  shows "\<exists>s'. poolDone s' \<and> preach env jobs concurrency s' \<and> pp_cancelled s' = pp_cancelled s"
  using assms(1)
proof (induction "poolMeasure s" arbitrary: s rule: less_induct)
  case less
  show ?case
  proof (cases "poolDone s")
    case True
    then show ?thesis using less(2) by blast
  next
    case False
    then obtain t where t: "workerStep env jobs s t" using some_worker_moves [OF less(2) _ assms(2,3)] by blast
    then have "preach env jobs concurrency t" "pp_cancelled t = pp_cancelled s"
      using less(2) preach.Move by (auto simp: workerStep_def)
    then show ?thesis using less(1) [OF workerStep_measure [OF t]] by simp
  qed
qed

end

section \<open>One result and one pair of notes for each job\<close>

definition hooksOf :: "nat \<Rightarrow> runNote list \<Rightarrow> runNote list" where
  "hooksOf i notes = filter (\<lambda>x. x = Started i \<or> x = Completed i) notes"

lemma hooksOf_simps [simp]: "hooksOf i [] = []" "hooksOf i (xs @ ys) = hooksOf i xs @ hooksOf i ys"
  "hooksOf i [Started j] = (if i = j then [Started i] else [])"
  "hooksOf i [Completed j] = (if i = j then [Completed i] else [])" "hooksOf i [Invoked j target] = []"
  by (auto simp: hooksOf_def)

lemma hooks_reach:
  "preach env jobs concurrency s \<Longrightarrow> i < length jobs \<Longrightarrow> hooksOf i (pp_notes s) =
     (if i \<in> set (pp_queue s) then [] else if i \<in> set (busy (pp_lanes s)) then [Started i] else [Started i, Completed i])"
proof (induction rule: preach.induct)
  case (Begin cancelled)
  then show ?case by (simp add: newPool_def)
next
  case (Move s s')
  note own = owned_reach [OF Move(1)]
  note IH = Move.IH [OF Move.prems]
  from Move(2) show ?case
  proof cases
    case (Take us vs j rest)
    then have "j \<notin> set rest" "j \<notin> set (busy us)" "j \<notin> set (busy vs)" using own by (auto simp: owned_def)
    then show ?thesis using IH Take by auto
  next
    case (Store us j target result vs)
    then have "j \<notin> set (pp_queue s)" "j \<notin> set (busy us)" "j \<notin> set (busy vs)" using own by (auto simp: owned_def)
    then show ?thesis using IH Store by auto
  qed (use IH in auto)
qed

lemma lanes_number: "preach env jobs concurrency s \<Longrightarrow> length (pp_lanes s) = poolSize concurrency (length jobs)"
proof (induction rule: preach.induct)
  case (Begin cancelled)
  then show ?case by (simp add: newPool_def)
next
  case (Move s s')
  from Move(2) show ?case by cases (use Move.IH in auto)
qed

lemma done_free:
  assumes "preach env jobs concurrency s" "poolDone s" "i < length jobs"
  shows "i \<notin> set (pp_queue s)" "i \<notin> set (busy (pp_lanes s))"
proof -
  note own = owned_reach [OF assms(1)]
  have "length (pp_lanes s) > 0" using lanes_number [OF assms(1)] assms(3) by (auto simp: poolSize_def)
  then have "Gone \<in> set (pp_lanes s)" using assms(2) by (cases "pp_lanes s") (auto simp: poolDone_def)
  moreover have "set (busy (pp_lanes s)) = {}" using assms(2) by (auto simp: poolDone_def busy_def)
  ultimately show "i \<notin> set (pp_queue s)" "i \<notin> set (busy (pp_lanes s))" using own by (auto simp: owned_def)
qed

lemma collected_length: "preach env jobs concurrency s \<Longrightarrow> length (collectedResults s) = length jobs"
  using owned_reach [of env jobs concurrency s] by (simp add: owned_def collectedResults_def)

lemma done_result:
  assumes "preach env jobs concurrency s" "poolDone s" "i < length jobs"
  shows "\<exists>r. pp_results s ! i = Some r \<and> collectedResults s ! i = r"
proof -
  have "length (pp_results s) = length jobs" using owned_reach [OF assms(1)] by (simp add: owned_def)
  moreover obtain r where "pp_results s ! i = Some r"
    using owned_reach [OF assms(1)] done_free [OF assms] assms(3) by (auto simp: owned_def)
  ultimately show ?thesis using assms(3) by (simp add: collectedResults_def)
qed

section \<open>One target for all that depend\<close>

definition baseTarget :: "runEnv \<Rightarrow> probePool \<Rightarrow> Target" where
  "baseTarget env s = (if literalTarget env then literalCandidates (re_target env)
     else resolvedCandidates (pp_candidates s) (re_target env))"

definition dependentTarget :: "runEnv \<Rightarrow> probePool \<Rightarrow> string \<Rightarrow> Target" where
  "dependentTarget env s name = (if waitsForTransportEndpoint name then testedTarget (pp_tested s) (baseTarget env s)
     else baseTarget env s)"

definition baseKnown :: "runEnv \<Rightarrow> probePool \<Rightarrow> bool" where
  "baseKnown env s \<longleftrightarrow> literalTarget env \<or> pp_resolved s"

definition dependenciesMet :: "runEnv \<Rightarrow> probePool \<Rightarrow> string \<Rightarrow> bool" where
  "dependenciesMet env s name \<longleftrightarrow> baseKnown env s \<and> (waitsForTransportEndpoint name \<longrightarrow> pp_transport s)"

definition handedOver :: "runEnv \<Rightarrow> wiredJob list \<Rightarrow> probePool \<Rightarrow> nat \<Rightarrow> Target \<Rightarrow> bool" where
  "handedOver env jobs s i target \<longleftrightarrow> (let name = jb_name (jobs ! i) in
     if independentProbe name then target = re_target env
     else dependenciesMet env s name \<and> target = dependentTarget env s name)"

text \<open>The result of a probe that was called, or of a wait that the end of the context has ended.\<close>

definition slotFilled :: "runEnv \<Rightarrow> wiredJob list \<Rightarrow> probePool \<Rightarrow> nat \<Rightarrow> Target \<Rightarrow> ProbeResult \<Rightarrow> bool" where
  "slotFilled env jobs s i target result \<longleftrightarrow> (let name = jb_name (jobs ! i) in
     (\<exists>out. possibleOutcome env (jobs ! i) target out \<and> result = boundedResult name out)
       \<and> handedOver env jobs s i target \<and> Invoked i target \<in> set (pp_notes s)
     \<or> pp_cancelled s \<and> \<not> independentProbe name \<and> (\<exists>now. result = dependencyWaitFailure now name target))"

fun laneHanded :: "runEnv \<Rightarrow> wiredJob list \<Rightarrow> probePool \<Rightarrow> lane \<Rightarrow> bool" where
  "laneHanded env jobs s (AwaitingTransport i target) \<longleftrightarrow> baseKnown env s \<and> target = baseTarget env s"
| "laneHanded env jobs s (Ready i target ready) \<longleftrightarrow> (ready \<longrightarrow> handedOver env jobs s i target)"
| "laneHanded env jobs s (Probing i target) \<longleftrightarrow> handedOver env jobs s i target \<and> Invoked i target \<in> set (pp_notes s)"
| "laneHanded env jobs s (Storing i target result) \<longleftrightarrow> slotFilled env jobs s i target result"
| "laneHanded env jobs s _ \<longleftrightarrow> True"

text \<open>A worker that comes to a place of its own in one step.\<close>

lemma laneHanded_first:
  "laneHanded env jobs s (firstLane env (jb_name (jobs ! i)) i)"
  "\<not> independentProbe (jb_name (jobs ! i)) \<Longrightarrow> baseKnown env s \<Longrightarrow> target = baseTarget env s
    \<Longrightarrow> laneHanded env jobs s (resolvedLane (jb_name (jobs ! i)) i target)"
  by (simp_all add: firstLane_def resolvedLane_def handedOver_def dependenciesMet_def dependentTarget_def)

context probe_order
begin

lemma published_once:
  assumes "preach env jobs concurrency s" "pstep env jobs s s'"
  shows "(baseKnown env s \<longrightarrow> baseKnown env s' \<and> baseTarget env s' = baseTarget env s)
    \<and> (pp_transport s \<longrightarrow> pp_transport s' \<and> pp_tested s' = pp_tested s)"
  using step_kinds [OF assms(2) owned_reach [OF assms(1)] lanes_reach [OF assms(1)]]
proof (elim disjE exE conjE)
  fix j out target
  assume j: "j < length jobs" and left: "shared s' = shared (publish env (jb_name (jobs ! j)) out s)" and at: "poolPending s j"
  have "jb_name (jobs ! j) \<noteq> ''dns''" if "pp_resolved s"
    using dns_once [OF j] resolved_reach [OF assms(1)] at that by metis
  moreover have "jb_name (jobs ! j) \<noteq> ''tcp''" if "pp_transport s"
    using transport_reach [OF j _ assms(1)] at that by blast
  ultimately show ?thesis using left
    by (auto simp: shared_def baseKnown_def baseTarget_def publish_def setTested_def split: option.splits if_splits)
qed (auto simp: shared_def baseKnown_def baseTarget_def)

lemma handed_kept:
  assumes "preach env jobs concurrency s" "pstep env jobs s s'"
  shows "handedOver env jobs s i target \<Longrightarrow> handedOver env jobs s' i target"
  using published_once [OF assms] by (auto simp: handedOver_def dependenciesMet_def dependentTarget_def Let_def split: if_splits)

lemma cancelled_kept: "pstep env jobs s s' \<Longrightarrow> pp_cancelled s \<Longrightarrow> pp_cancelled s'"
  by (erule pstep.cases) auto

lemma notes_kept: "pstep env jobs s s' \<Longrightarrow> x \<in> set (pp_notes s) \<Longrightarrow> x \<in> set (pp_notes s')"
  by (erule pstep.cases) auto

lemma slotFilled_kept:
  assumes "preach env jobs concurrency s" "pstep env jobs s s'"
  shows "slotFilled env jobs s i target result \<Longrightarrow> slotFilled env jobs s' i target result"
  using handed_kept [OF assms, of i target] cancelled_kept [OF assms(2)] notes_kept [OF assms(2), of "Invoked i target"]
  by (auto simp: slotFilled_def Let_def)

lemma laneHanded_kept:
  assumes "preach env jobs concurrency s" "pstep env jobs s s'"
  shows "laneHanded env jobs s w \<Longrightarrow> laneHanded env jobs s' w"
  using published_once [OF assms] handed_kept [OF assms] slotFilled_kept [OF assms] notes_kept [OF assms(2)] by (cases w) simp_all

text \<open>The three places where a worker is handed something new.\<close>

lemma tested_handed:
  assumes "waitsForTransportEndpoint name" "\<not> independentProbe name" "name = jb_name (jobs ! i)"
    "baseKnown env s" "pp_transport s" "target = baseTarget env s"
  shows "handedOver env jobs s i (testedTarget (pp_tested s) target)"
  using assms by (simp add: handedOver_def dependenciesMet_def dependentTarget_def)

lemma handed_reach: "preach env jobs concurrency s \<Longrightarrow> \<forall>w \<in> set (pp_lanes s). laneHanded env jobs s w"
proof (induction rule: preach.induct)
  case (Begin cancelled)
  then show ?case by (simp add: newPool_def)
next
  case (Move s s')
  have lanes: "\<forall>w \<in> set (pp_lanes s). laneHanded env jobs s' w"
    using Move.IH laneHanded_kept [OF Move(1,2)] by blast
  have ok: "\<forall>w \<in> set (pp_lanes s). laneOk env jobs (pp_cancelled s) w" by (rule lanes_reach [OF Move(1)])
  have one: ?case if "pp_lanes s = us @ w # vs" "laneHanded env jobs s' w'" "pp_lanes s' = us @ w' # vs" for us vs w w'
    using lanes that by simp
  from Move(2) show ?case
  proof cases
    case (Take us vs i rest)
    then show ?thesis using laneHanded_first(1) by (intro one [OF Take(2)]) simp_all
  next
    case (Leave us vs)
    then show ?thesis by (intro one [OF Leave(2)]) simp_all
  next
    case (Literal us i vs)
    then show ?thesis using ok
      by (intro one [OF Literal(2)]) (simp_all add: laneHanded_first(2) baseKnown_def baseTarget_def)
  next
    case (Resolve us i vs)
    then show ?thesis using ok
      by (intro one [OF Resolve(2)]) (simp_all add: laneHanded_first(2) baseKnown_def baseTarget_def)
  next
    case (Unresolved us i vs)
    then show ?thesis by (intro one [OF Unresolved(2)]) simp_all
  next
    case (Untested us i target vs)
    then show ?thesis by (intro one [OF Untested(2)]) simp_all
  next
    case (Tested us i target vs)
    have "waitsForTransportEndpoint (jb_name (jobs ! i))" "\<not> independentProbe (jb_name (jobs ! i))"
      using ok by (simp_all add: Tested(2))
    moreover have "laneHanded env jobs s' (AwaitingTransport i target)" using lanes by (simp add: Tested(2))
    moreover have "pp_transport s'" "pp_tested s' = pp_tested s" using Tested by simp_all
    ultimately have "handedOver env jobs s' i (testedTarget (pp_tested s) target)" using tested_handed [where i = i and env = env and s = s'] by simp
    then show ?thesis by (intro one [OF Tested(2)]) (simp_all add: Tested(1))
  next
    case (Refuse us i target vs now)
    have "\<not> independentProbe (jb_name (jobs ! i)) \<and> pp_cancelled s" using ok by (simp add: Refuse(2))
    then have "slotFilled env jobs s' i target (dependencyWaitFailure now (jb_name (jobs ! i)) target)"
      by (auto simp: slotFilled_def Let_def Refuse(1))
    then show ?thesis by (intro one [OF Refuse(2)]) (simp_all add: Refuse(1))
  next
    case (Invoke us i target vs)
    have "laneHanded env jobs s' (Ready i target True)" using lanes by (simp add: Invoke(2))
    then have "handedOver env jobs s' i target" by simp
    then show ?thesis by (intro one [OF Invoke(2)]) (simp_all add: Invoke(1))
  next
    case (Finish us i target vs out)
    have "laneHanded env jobs s' (Probing i target)" using lanes by (simp add: Finish(2))
    then have "slotFilled env jobs s' i target (boundedResult (jb_name (jobs ! i)) out)"
      using Finish(3) by (auto simp: slotFilled_def Let_def)
    then show ?thesis by (intro one [OF Finish(2)]) (simp_all add: Finish(1))
  next
    case (Store us i target result vs)
    then show ?thesis by (intro one [OF Store(2)]) simp_all
  next
    case Cancel
    then show ?thesis using lanes by simp
  qed
qed

text \<open>Every probe is called on the target that its dependencies determine.\<close>

lemma invoked_reach:
  "preach env jobs concurrency s \<Longrightarrow> Invoked i target \<in> set (pp_notes s) \<Longrightarrow> handedOver env jobs s i target"
proof (induction rule: preach.induct)
  case (Begin cancelled)
  then show ?case by (simp add: newPool_def)
next
  case (Move s s')
  have old: ?case if "Invoked i target \<in> set (pp_notes s)" using Move.IH [OF that] by (rule handed_kept [OF Move(1,2)])
  from Move(2) show ?case
  proof cases
    case (Invoke us j t vs)
    show ?thesis
    proof (cases "Invoked i target \<in> set (pp_notes s)")
      case False
      then have "j = i" "t = target" using Move.prems by (simp_all add: Invoke(1))
      then have "handedOver env jobs s i target" using handed_reach [OF Move(1)] by (simp add: Invoke(2))
      then show ?thesis by (rule handed_kept [OF Move(1,2)])
    qed (use old in simp)
  qed (use old Move.prems in auto)
qed

end

end
