(* ===== verification/OrchestrateDelivery.thy ===== *)
theory OrchestrateDelivery
  imports OrchestrateFacts
begin

text \<open>
  What a finished run of \<open>internal/orchestrate/run.go\<close> reports: the result of every probe on the one
  target that its dependencies determine, whatever the number of workers and however they interleave.
\<close>

section \<open>What is published\<close>

definition candidatesOf :: "runEnv \<Rightarrow> outcome \<Rightarrow> EndpointCandidate list" where
  "candidatesOf env out = (case returnedResult out of
     None \<Rightarrow> [] | Some result \<Rightarrow> endpointCandidatesFromDNS (re_json env) (re_target env) result)"

definition testedOf :: "outcome \<Rightarrow> Endpoint option" where
  "testedOf out = (case returnedResult out of
     None \<Rightarrow> None
   | Some result \<Rightarrow> (case tg_TestedEndpoint (pr_Target result) of
       None \<Rightarrow> None | Some e \<Rightarrow> if ep_Address e = [] then None else Some e))"

lemma publish_dns: "pp_candidates s = [] \<Longrightarrow> pp_candidates (publish env ''dns'' out s) = candidatesOf env out"
  by (simp add: publish_def candidatesOf_def split: option.splits)

lemma publish_tcp: "pp_tested s = None \<Longrightarrow> out \<noteq> CapturePanicked \<Longrightarrow> pp_tested (publish env ''tcp'' out s) = testedOf out"
  by (simp add: publish_def testedOf_def setTested_def split: option.splits)

lemma publish_other:
  "name \<noteq> ''dns'' \<Longrightarrow> pp_candidates (publish env name out s) = pp_candidates s"
  "name \<noteq> ''tcp'' \<Longrightarrow> pp_tested (publish env name out s) = pp_tested s"
  "pp_tested (publish env name CapturePanicked s) = pp_tested s"
  by (simp_all add: publish_def setTested_def split: option.splits)

lemma shared_quiet:
  assumes "pstep env jobs s s'"
  shows "shared s' = shared s \<or> (\<exists>us i target vs out. pp_lanes s = us @ Probing i target # vs
    \<and> possibleOutcome env (jobs ! i) target out \<and> shared s' = shared (publish env (jb_name (jobs ! i)) out s))"
  using assms
proof cases
  case (Finish us i target vs out)
  then have "shared s' = shared (publish env (jb_name (jobs ! i)) out s)" by (simp add: shared_def)
  then show ?thesis using Finish(2,3) by blast
qed (simp_all add: shared_def)

context probe_order
begin

lemma probing_pending:
  assumes "pp_lanes s = us @ Probing i target # vs"
  shows "poolPending s i"
  by (simp add: poolPending_def pending_def assms)

lemma probing_target:
  assumes "preach env jobs concurrency s" "pp_lanes s = us @ Probing i target # vs"
  shows "handedOver env jobs s i target" "i < length jobs"
  using handed_reach [OF assms(1)] owned_reach [OF assms(1)] by (simp_all add: assms(2) owned_def)

lemma candidates_reach:
  "preach env jobs concurrency s \<Longrightarrow> if pp_resolved s
     then \<exists>out. possibleOutcome env (jobs ! 0) (re_target env) out \<and> pp_candidates s = candidatesOf env out
     else pp_candidates s = []"
proof (induction rule: preach.induct)
  case (Begin cancelled)
  then show ?case by (simp add: newPool_def)
next
  case (Move s s')
  from shared_quiet [OF Move(2)] show ?case
  proof (elim disjE exE conjE)
    assume "shared s' = shared s"
    then show ?thesis using Move.IH by (simp add: shared_def)
  next
    fix us i target vs out
    assume lane: "pp_lanes s = us @ Probing i target # vs" and out: "possibleOutcome env (jobs ! i) target out"
      and left: "shared s' = shared (publish env (jb_name (jobs ! i)) out s)"
    show ?thesis
    proof (cases "jb_name (jobs ! i) = ''dns''")
      case True
      have "i = 0" using dns_once [OF probing_target(2) [OF Move(1) lane] True] .
      moreover have "target = re_target env" using probing_target(1) [OF Move(1) lane] True
        by (simp add: handedOver_def independentProbe_def)
      moreover have "\<not> pp_resolved s" using resolved_reach [OF Move(1)] probing_pending [OF lane] \<open>i = 0\<close> by simp
      ultimately show ?thesis using left out publish_dns [of s env out] Move.IH True by (auto simp: shared_def)
    next
      case False
      then show ?thesis using left Move.IH by (simp add: shared_def publish_other(1))
    qed
  qed
qed

lemma tested_reach:
  assumes "k < length jobs" "jb_name (jobs ! k) = ''tcp''"
  shows "preach env jobs concurrency s \<Longrightarrow> if pp_transport s
     then baseKnown env s \<and> (\<exists>out. possibleOutcome env (jobs ! k) (baseTarget env s) out \<and> out \<noteq> CapturePanicked
       \<and> pp_tested s = testedOf out)
     else pp_tested s = None"
proof (induction rule: preach.induct)
  case (Begin cancelled)
  then show ?case by (simp add: newPool_def)
next
  case (Move s s')
  note once = published_once [OF Move(1,2)]
  have quiet: ?case if "pp_transport s' = pp_transport s" "pp_tested s' = pp_tested s"
    using that Move.IH once by (cases "pp_transport s") auto
  from shared_quiet [OF Move(2)] show ?case
  proof (elim disjE exE conjE)
    assume "shared s' = shared s"
    then show ?thesis by (intro quiet) (simp_all add: shared_def)
  next
    fix us i target vs out
    assume lane: "pp_lanes s = us @ Probing i target # vs" and out: "possibleOutcome env (jobs ! i) target out"
      and left: "shared s' = shared (publish env (jb_name (jobs ! i)) out s)"
    show ?thesis
    proof (cases "jb_name (jobs ! i) = ''tcp'' \<and> out \<noteq> CapturePanicked")
      case True
      have i: "i = k" using tcp_once [OF probing_target(2) [OF Move(1) lane] assms(1)] True assms(2) by simp
      have "\<not> independentProbe ''tcp''" "\<not> waitsForTransportEndpoint ''tcp''"
        by (simp_all add: independentProbe_def waitsForTransportEndpoint_def DefaultRouteProbeName_def
            TargetRouteProbeName_def GatewayProbeName_def)
      then have target: "baseKnown env s" "target = baseTarget env s"
        using probing_target(1) [OF Move(1) lane] True
        by (simp_all add: handedOver_def dependenciesMet_def dependentTarget_def)
      moreover have "\<not> pp_transport s" using transport_reach [OF assms Move(1)] probing_pending [OF lane] i by simp
      ultimately show ?thesis using left out publish_tcp [of s out env] Move.IH True i once by (auto simp: shared_def)
    next
      case False
      then show ?thesis using left by (intro quiet) (auto simp: shared_def publish_other)
    qed
  qed
qed

lemma results_delivered:
  "preach env jobs concurrency s \<Longrightarrow> i < length jobs \<Longrightarrow> pp_results s ! i = Some r
     \<Longrightarrow> \<exists>target result. slotFilled env jobs s i target result
       \<and> r = identifiedResult (re_session env) (jb_name (jobs ! i)) target result"
proof (induction arbitrary: r rule: preach.induct)
  case (Begin cancelled)
  then show ?case by (simp add: newPool_def)
next
  case (Move s s')
  note kept = slotFilled_kept [OF Move(1,2)]
  have same: "?case" if "pp_results s' ! i = pp_results s ! i" using Move.IH [OF Move.prems(1)] Move.prems(2) that kept by metis
  from Move(2) show ?case
  proof cases
    case (Store us j target result vs)
    show ?thesis
    proof (cases "i = j \<and> j < length (pp_results s)")
      case True
      then have "r = identifiedResult (re_session env) (jb_name (jobs ! i)) target result"
        using Store(1) Move.prems(2) by simp
      moreover have "slotFilled env jobs s i target result" using handed_reach [OF Move(1)] True by (simp add: Store(2))
      ultimately show ?thesis using kept by blast
    next
      case False
      then show ?thesis using Store(1) by (intro same) (auto simp: nth_list_update list_update_beyond)
    qed
  qed (use same in auto)
qed

lemma done_delivered:
  assumes "preach env jobs concurrency s" "poolDone s" "i < length jobs"
  shows "\<exists>target result. slotFilled env jobs s i target result
    \<and> collectedResults s ! i = identifiedResult (re_session env) (jb_name (jobs ! i)) target result"
proof -
  obtain r where "pp_results s ! i = Some r" "collectedResults s ! i = r"
    using done_result [OF assms] by blast
  then show ?thesis using results_delivered [OF assms(1,3)] by simp
qed

lemma done_called:
  assumes "preach env jobs concurrency s" "poolDone s" "\<not> pp_cancelled s" "i < length jobs"
  shows "\<exists>target out. possibleOutcome env (jobs ! i) target out \<and> handedOver env jobs s i target
    \<and> Invoked i target \<in> set (pp_notes s) \<and> collectedResults s ! i = identifiedResult (re_session env) (jb_name (jobs ! i)) target (boundedResult (jb_name (jobs ! i)) out)"
  using done_delivered [OF assms(1,2,4)] assms(3) unfolding slotFilled_def Let_def by blast

end

section \<open>Whatever the interleaving\<close>

text \<open>Each probe does the same on the same target.\<close>

definition decided :: "runEnv \<Rightarrow> bool" where
  "decided env \<longleftrightarrow> (\<forall>name target out out'. re_possible env name target out \<longrightarrow> re_possible env name target out' \<longrightarrow> out = out')"

definition skippedJob :: "wiredJob \<Rightarrow> bool" where
  "skippedJob j \<longleftrightarrow> (case jb_call j of CallSkipped layer domain \<Rightarrow> True | _ \<Rightarrow> False)"

text \<open>A skipped lane reads the clock; nothing else of a result is left to chance.\<close>

definition untimedResult :: "wiredJob \<Rightarrow> ProbeResult \<Rightarrow> ProbeResult" where
  "untimedResult j result = (if skippedJob j then result\<lparr>pr_Timing := zero_Timing\<rparr> else result)"

lemma outcome_decided:
  "decided env \<Longrightarrow> \<not> skippedJob j \<Longrightarrow> possibleOutcome env j target out \<Longrightarrow> possibleOutcome env j target out' \<Longrightarrow> out = out'"
  by (auto simp: decided_def possibleOutcome_def skippedJob_def split: jobCall.splits)

lemma skipped_outcome:
  assumes "skippedJob j" "possibleOutcome env j target out"
  shows "\<exists>layer domain started completed. jb_call j = CallSkipped layer domain
    \<and> out = Finished (skippedURLProbe started completed (re_target env) (jb_name j) layer domain) None"
  using assms by (auto simp: possibleOutcome_def skippedJob_def split: jobCall.splits)

lemma skipped_settled:
  "untimedResult j (identifiedResult session name target (boundedResult name
      (Finished (skippedURLProbe started completed t (jb_name j) layer domain) None))) =
   untimedResult j (identifiedResult session name target (boundedResult name
      (Finished (skippedURLProbe started' completed' t (jb_name j) layer domain) None)))" if "skippedJob j"
  using that by (simp add: untimedResult_def identifiedResult_def boundedResult_def skippedURLProbe_def Let_def)

lemma settled_outcome:
  assumes "decided env" "possibleOutcome env j target out" "possibleOutcome env j target out'"
  shows "untimedResult j (identifiedResult session name target (boundedResult name out))
    = untimedResult j (identifiedResult session name target (boundedResult name out'))"
proof (cases "skippedJob j")
  case True
  from skipped_outcome [OF True assms(2)] skipped_outcome [OF True assms(3)] show ?thesis
    using skipped_settled [OF True] by (elim exE conjE) simp
next
  case False
  then show ?thesis using outcome_decided [OF assms(1) False assms(2,3)] by simp
qed

locale probe_calls = probe_order +
  assumes both_called: "i < length jobs \<Longrightarrow> jb_name (jobs ! i) = ''dns'' \<or> jb_name (jobs ! i) = ''tcp''
    \<Longrightarrow> \<not> skippedJob (jobs ! i)"
begin

lemma same_base:
  assumes "preach env jobs c s" "preach env jobs c' s'" "decided env" "baseKnown env s" "baseKnown env s'"
  shows "baseTarget env s = baseTarget env s'"
proof (cases "literalTarget env")
  case False
  then have "pp_resolved s" "pp_resolved s'" using assms(4,5) by (simp_all add: baseKnown_def)
  then obtain out out' where out: "possibleOutcome env (jobs ! 0) (re_target env) out" "pp_candidates s = candidatesOf env out"
    "possibleOutcome env (jobs ! 0) (re_target env) out'" "pp_candidates s' = candidatesOf env out'"
    using candidates_reach [OF assms(1)] candidates_reach [OF assms(2)] by auto
  have "\<not> skippedJob (jobs ! 0)" using dns_first by (intro both_called) auto
  from outcome_decided [OF assms(3) this out(1,3)] show ?thesis using out False by (simp add: baseTarget_def)
qed (simp add: baseTarget_def)

lemma same_target:
  assumes "preach env jobs c s" "preach env jobs c' s'" "decided env" "handedOver env jobs s i target" "handedOver env jobs s' i target'"
  shows "target = target'"
proof (cases "independentProbe (jb_name (jobs ! i))")
  case True
  then show ?thesis using assms(4,5) by (simp add: handedOver_def)
next
  case False
  let ?waits = "waitsForTransportEndpoint (jb_name (jobs ! i))"
  have met: "dependenciesMet env s (jb_name (jobs ! i))" "dependenciesMet env s' (jb_name (jobs ! i))"
    and target: "target = dependentTarget env s (jb_name (jobs ! i))" "target' = dependentTarget env s' (jb_name (jobs ! i))"
    using assms(4,5) False by (simp_all add: handedOver_def Let_def)
  have base: "baseTarget env s = baseTarget env s'"
    using met by (intro same_base [OF assms(1-3)]) (simp_all add: dependenciesMet_def)
  have "pp_tested s = pp_tested s'" if ?waits
  proof -
    obtain k where k: "k < length jobs" "jb_name (jobs ! k) = ''tcp''" using tcp_known by blast
    have "pp_transport s" "pp_transport s'" using met that by (simp_all add: dependenciesMet_def)
    then obtain out out' where "possibleOutcome env (jobs ! k) (baseTarget env s) out" "pp_tested s = testedOf out"
      "possibleOutcome env (jobs ! k) (baseTarget env s') out'" "pp_tested s' = testedOf out'"
      using tested_reach [OF k assms(1)] tested_reach [OF k assms(2)] by auto
    then show ?thesis using outcome_decided [OF assms(3) both_called] k base by metis
  qed
  then show ?thesis using target base by (simp add: dependentTarget_def)
qed

lemma same_results:
  assumes "preach env jobs c s" "poolDone s" "\<not> pp_cancelled s"
    and "preach env jobs c' s'" "poolDone s'" "\<not> pp_cancelled s'" and "decided env" "i < length jobs"
  shows "untimedResult (jobs ! i) (collectedResults s ! i) = untimedResult (jobs ! i) (collectedResults s' ! i)"
proof -
  let ?name = "jb_name (jobs ! i)"
  obtain target out where one: "possibleOutcome env (jobs ! i) target out" "handedOver env jobs s i target"
    "collectedResults s ! i = identifiedResult (re_session env) ?name target (boundedResult ?name out)"
    using done_called [OF assms(1-3,8)] by blast
  obtain target' out' where other: "possibleOutcome env (jobs ! i) target' out'" "handedOver env jobs s' i target'"
    "collectedResults s' ! i = identifiedResult (re_session env) ?name target' (boundedResult ?name out')"
    using done_called [OF assms(4-6,8)] by blast
  have same: "target = target'" by (rule same_target [OF assms(1,4,7) one(2) other(2)])
  show ?thesis unfolding one(3) other(3) same
    by (rule settled_outcome [OF assms(7) one(1) [unfolded same] other(1)])
qed

end

lemma base_calls: "list_all (\<lambda>j. \<not> skippedJob j) baseJobs"
  by (simp add: baseJobs_def probeJob_def packetJob_def routeJob_def skippedJob_def)

interpretation wired_calls: probe_calls "wiredJobs target" for target
proof unfold_locales
  fix i
  assume i: "i < length (wiredJobs target)" and name: "jb_name (wiredJobs target ! i) = ''dns'' \<or> jb_name (wiredJobs target ! i) = ''tcp''"
  obtain more where jobs: "wiredJobs target = baseJobs @ more" using other_names by blast
  have base: "length baseJobs = 10" using arg_cong [OF base_names, of length] by simp
  have "i < 10" using name wired_name [OF i refl] by auto
  then show "\<not> skippedJob (wiredJobs target ! i)" using base base_calls by (simp add: jobs nth_append list_all_length)
qed

lemma wired_tcp:
  assumes "k < length (wiredJobs target)" "jb_name (wiredJobs target ! k) = ''tcp''"
  shows "wiredJobs target ! k = packetJob ''tcp'' ''tcp''"
proof -
  obtain more where jobs: "wiredJobs target = baseJobs @ more" using other_names by blast
  have "3 < length (wiredJobs target)" "wiredJobs target ! 3 = packetJob ''tcp'' ''tcp''"
    by (simp_all add: jobs baseJobs_def nth_append)
  moreover from this have "k = 3" using wired.tcp_once [OF assms(1) _ assms(2)] by (simp add: packetJob_def)
  ultimately show ?thesis by simp
qed

lemma waits_dependent: "waitsForTransportEndpoint name \<Longrightarrow> \<not> independentProbe name"
  by (auto simp: waitsForTransportEndpoint_def independentProbe_def DefaultRouteProbeName_def TargetRouteProbeName_def
      GatewayProbeName_def)

lemma wired_waits: "\<exists>i < length (wiredJobs target). waitsForTransportEndpoint (jb_name (wiredJobs target ! i))"
proof -
  obtain more where jobs: "wiredJobs target = baseJobs @ more" using other_names by blast
  show ?thesis
    by (rule exI [of _ 4]) (simp add: jobs baseJobs_def nth_append routeJob_def waitsForTransportEndpoint_def)
qed

section \<open>Status of a run\<close>

lemma reportStatus_placed: "reportStatus (placedResults target results) = reportStatus results"
proof -
  have evidence: "hasDestinationEvidence (placedResults target results) = hasDestinationEvidence results"
    by (simp add: hasDestinationEvidence_def placedResults_def list_ex_iff)
  have nonFatal: "nonFatalUnavailable (result\<lparr>pr_Target := target\<rparr>) = nonFatalUnavailable result" for result
    unfolding nonFatalUnavailable_def by simp
  have placed: "requiredExecutionIncomplete d (result\<lparr>pr_Target := target\<rparr>) = requiredExecutionIncomplete d result" for d result
    by (simp add: requiredExecutionIncomplete_def nonFatal)
  show ?thesis unfolding reportStatus_def evidence by (simp add: placedResults_def list_ex_iff placed)
qed

lemma runReport_status: "dr_Status (runReport codec target session started completed results) = reportStatus results"
  by (simp add: runReport_def DiagnoseReport_def Let_def reportStatus_placed)

lemma failure_incomplete:
  assumes "pr_Status result = ProbeStatusError" "pin_FailureReason (pr_Interpretation result) = FailureReasonProbeExecution"
  shows "requiredExecutionIncomplete d result"
proof -
  have "FailureReasonProbeExecution \<noteq> FailureReasonUnsupported" "FailureReasonProbeExecution \<noteq> FailureReasonHTTPFailure"
    by (simp_all add: FailureReasonProbeExecution_def FailureReasonUnsupported_def FailureReasonHTTPFailure_def)
  then show ?thesis using assms by (simp add: requiredExecutionIncomplete_def nonFatalUnavailable_def Let_def)
qed

lemma identified: "pr_SessionID (identifiedResult session name target result) = session"
  "pr_ProbeID (identifiedResult session name target result) = name"
  "pr_CorrelationID (identifiedResult session name target result) = session @ ''/'' @ name"
  by (simp_all add: identifiedResult_def Let_def)

lemma identified_status [simp]:
  "pr_Status (identifiedResult session name target result) = pr_Status result"
  "pr_Interpretation (identifiedResult session name target result) = pr_Interpretation result"
  by (simp_all add: identifiedResult_def Let_def)

lemma complete_finished:
  assumes "reportStatus results = ReportStatusComplete" "identifiedResult session name target result \<in> set results"
  shows "result \<noteq> executionFailure name'" "result \<noteq> dependencyWaitFailure now name' target'"
proof -
  let ?r = "identifiedResult session name target result"
  have "\<not> requiredExecutionIncomplete (hasDestinationEvidence results) ?r"
    using assms by (auto simp: reportStatus_def list_ex_iff ReportStatusComplete_def ReportStatusIncomplete_def
        ReportStatusUnknown_def split: if_splits)
  then have "\<not> (pr_Status result = ProbeStatusError \<and> pin_FailureReason (pr_Interpretation result) = FailureReasonProbeExecution)"
    using failure_incomplete [of ?r] by auto
  then show "result \<noteq> executionFailure name'" "result \<noteq> dependencyWaitFailure now name' target'"
    by (auto simp: executionFailure_def dependencyWaitFailure_def)
qed

text \<open>The run of a target that names nothing, with probes that all return.\<close>

definition quietRun :: "jsonCodec \<Rightarrow> runEnv" where
  "quietRun json = \<lparr>re_target = zero_Target, re_session = ''run'', re_json = json,
     re_possible = (\<lambda>name target out. out = Finished zero_ProbeResult None)\<rparr>"

lemma quiet_outcome: "possibleOutcome (quietRun json) j target out \<Longrightarrow> \<exists>result. out = Finished result None
    \<and> (result = zero_ProbeResult \<or> (\<exists>started completed layer domain. jb_call j = CallSkipped layer domain
        \<and> result = skippedURLProbe started completed zero_Target (jb_name j) layer domain))"
  by (auto simp: possibleOutcome_def quietRun_def split: jobCall.splits)

lemma quiet_env [simp]: "re_target (quietRun json) = zero_Target" "re_session (quietRun json) = ''run''"
  by (simp_all add: quietRun_def)

lemma quiet_jobs: "wiredJobs zero_Target = baseJobs @ [skippedTLS, skippedHTTP]"
  by (simp add: wiredJobs_def applicationJobs_def zero_Target_def zero_ServiceProfile_def go_consts)

lemma quiet_possible: "\<exists>out. possibleOutcome (quietRun json) j target out"
  by (cases "jb_call j") (auto simp: possibleOutcome_def quietRun_def)

lemma quiet_capture: "\<not> possibleOutcome (quietRun json) j target CapturePanicked"
  using quiet_outcome by blast

lemma quiet_ends: "\<exists>s. poolDone s \<and> preach (quietRun json) (wiredJobs zero_Target) c s \<and> \<not> pp_cancelled s"
proof -
  have "\<not> wired.captureMayPanic zero_Target (quietRun json)" by (simp add: wired.captureMayPanic_def quiet_capture)
  then show ?thesis
    using quiet_possible wired.run_ends [OF preach.Begin [where cancelled = False], of zero_Target "quietRun json" c]
    by (auto simp: newPool_def)
qed

lemma quiet_skipped:
  assumes "j \<in> set (wiredJobs zero_Target)" "jb_call j = CallSkipped layer domain"
  shows "layer = LayerTLS \<or> layer = LayerHTTP"
proof -
  have "skippedJob j" using assms(2) by (simp add: skippedJob_def)
  then have "j \<notin> set baseJobs" using base_calls by (auto simp: list_all_iff)
  then have "j = skippedTLS \<or> j = skippedHTTP" using assms(1) by (simp add: quiet_jobs)
  then show ?thesis using assms(2) by (auto simp: skippedTLS_def skippedHTTP_def)
qed

lemma quiet_status:
  assumes "poolDone s" "preach (quietRun json) (wiredJobs zero_Target) c s" "\<not> pp_cancelled s"
  shows "reportStatus (collectedResults s) = ReportStatusComplete"
proof -
  let ?jobs = "wiredJobs zero_Target"
  have complete: "\<not> requiredExecutionIncomplete d (collectedResults s ! i)" if i: "i < length ?jobs" for d i
  proof -
    obtain target out where out: "possibleOutcome (quietRun json) (?jobs ! i) target out"
      and r: "collectedResults s ! i = identifiedResult (re_session (quietRun json)) (jb_name (?jobs ! i)) target
        (boundedResult (jb_name (?jobs ! i)) out)"
      using wired.done_called [OF assms(2,1,3) i] by blast
    obtain result where result: "out = Finished result None" "result = zero_ProbeResult \<or>
        (\<exists>started completed layer domain. jb_call (?jobs ! i) = CallSkipped layer domain
        \<and> result = skippedURLProbe started completed zero_Target (jb_name (?jobs ! i)) layer domain)"
      using quiet_outcome [OF out] by blast
    have "pr_Status (collectedResults s ! i) = pr_Status result"
      "pr_Interpretation (collectedResults s ! i) = pr_Interpretation result"
      by (simp_all add: r result(1) boundedResult_def)
    moreover from result(2) have "\<not> requiredExecutionIncomplete d result"
    proof (elim disjE exE conjE)
      assume "result = zero_ProbeResult"
      then show ?thesis by (simp add: requiredExecutionIncomplete_def zero_ProbeResult_def ProbeStatusError_def ProbeStatusSkipped_def)
    next
      fix started completed layer domain
      assume call: "jb_call (?jobs ! i) = CallSkipped layer domain"
        and skip: "result = skippedURLProbe started completed zero_Target (jb_name (?jobs ! i)) layer domain"
      have "layer = LayerTLS \<or> layer = LayerHTTP" by (rule quiet_skipped [OF nth_mem [OF i] call])
      then have "nonFatalUnavailable result" by (auto simp: nonFatalUnavailable_def skip skippedURLProbe_def Let_def)
      then show ?thesis by (simp add: requiredExecutionIncomplete_def)
    qed
    ultimately show ?thesis by (simp add: requiredExecutionIncomplete_def nonFatalUnavailable_def cong: if_cong)
  qed
  have "length (collectedResults s) = length ?jobs" "?jobs \<noteq> []"
    using collected_length [OF assms(2)] wired.dns_first by simp_all
  moreover have "\<not> requiredExecutionIncomplete d r" if "r \<in> set (collectedResults s)" for d r
    using complete that calculation(1) by (metis in_set_conv_nth)
  ultimately show ?thesis by (auto simp: reportStatus_def list_ex_iff)
qed

section \<open>Properties\<close>

text \<open>C27: Liveness of a run: a step of a worker always brings the end nearer, and as long as a worker is
  left some worker can make one - no wait for the DNS or the transport probe can hold up all of the workers, however
  few they are - provided that the packet capture of the transport probe cannot panic before the probe is called.\<close>

theorem run_completes:
  assumes "preach env (wiredJobs (re_target env)) concurrency s"
    and "\<And>target. \<not> possibleOutcome env (packetJob ''tcp'' ''tcp'') target CapturePanicked"
    and "\<And>j target. j \<in> set (wiredJobs (re_target env)) \<Longrightarrow> \<exists>out. possibleOutcome env j target out"
  shows "Collect (workerStep env (wiredJobs (re_target env)) s) \<subseteq> {s'. poolMeasure s' < poolMeasure s}
    \<and> (poolDone s \<or> (\<exists>s'. workerStep env (wiredJobs (re_target env)) s s'))
    \<and> (\<exists>s'. poolDone s' \<and> preach env (wiredJobs (re_target env)) concurrency s' \<and> pp_cancelled s' = pp_cancelled s)"
proof -
  have "\<not> wired.captureMayPanic (re_target env) env"
    using assms(2) wired_tcp by (auto simp: wired.captureMayPanic_def)
  then have "poolDone s \<or> (\<exists>s'. workerStep env (wiredJobs (re_target env)) s s')"
    "\<exists>s'. poolDone s' \<and> preach env (wiredJobs (re_target env)) concurrency s' \<and> pp_cancelled s' = pp_cancelled s"
    using wired.some_worker_moves [OF assms(1)] wired.run_ends [OF assms(1)] assms(3) by blast+
  then show ?thesis by (auto simp: workerStep_measure)
qed

theorem run_completes_witness:
  "\<forall>json. \<exists>s. poolDone s \<and> preach (quietRun json) (wiredJobs (re_target (quietRun json))) 1 s
     \<and> pp_cancelled s = pp_cancelled (newPool 1 (wiredJobs (re_target (quietRun json))) False)"
  using run_completes [OF preach.Begin quiet_capture quiet_possible] by blast

text \<open>C28: A run that has ended has one result for each job in the order of the jobs, under the identity of the run
  and of the job, and has called each hook once, in order; the result is that of the probe, called on the target that its
  dependencies determine, or - only when the context has ended - that of a wait in vain.\<close>

theorem every_job_reported:
  assumes "preach env (wiredJobs (re_target env)) concurrency s" "poolDone s" "i < length (wiredJobs (re_target env))"
  shows "let jobs = wiredJobs (re_target env); name = jb_name (jobs ! i); r = collectedResults s ! i in
    length (collectedResults s) = length jobs \<and> hooksOf i (pp_notes s) = [Started i, Completed i]
    \<and> pr_SessionID r = re_session env \<and> pr_ProbeID r = name \<and> pr_CorrelationID r = re_session env @ ''/'' @ name
    \<and> (\<exists>target result. slotFilled env jobs s i target result \<and> r = identifiedResult (re_session env) name target result)"
proof -
  obtain target result where "slotFilled env (wiredJobs (re_target env)) s i target result"
    and r: "collectedResults s ! i = identifiedResult (re_session env) (jb_name (wiredJobs (re_target env) ! i)) target result"
    using wired.done_delivered [OF assms] by blast
  moreover have "hooksOf i (pp_notes s) = [Started i, Completed i]"
    using hooks_reach [OF assms(1,3)] done_free [OF assms] by simp
  ultimately show ?thesis unfolding Let_def
    using collected_length [OF assms(1)] by (auto simp: identified)
qed

theorem every_job_reported_witness:
  "\<forall>json. \<exists>s. poolDone s \<and> length (collectedResults s) = 12 \<and> hooksOf 11 (pp_notes s) = [Started 11, Completed 11]
     \<and> pr_CorrelationID (collectedResults s ! 11) = ''run/http''"
proof
  fix json
  obtain s where s: "poolDone s" "preach (quietRun json) (wiredJobs zero_Target) 4 s" using quiet_ends by blast
  have jobs: "length (wiredJobs zero_Target) = 12" "jb_name (wiredJobs zero_Target ! 11) = ''http''"
    by (simp_all add: quiet_jobs baseJobs_def skippedHTTP_def)
  from every_job_reported [of "quietRun json" 4 s 11] s show "\<exists>s. poolDone s \<and> length (collectedResults s) = 12
      \<and> hooksOf 11 (pp_notes s) = [Started 11, Completed 11] \<and> pr_CorrelationID (collectedResults s ! 11) = ''run/http''"
    by (intro exI [of _ s]) (simp add: Let_def jobs quiet_env)
qed





text \<open>C31: A report is complete only if nothing was left out: every wired probe was called on its target and returned,
  without a panic of the probe or of the packet capture and without a wait that was given up.\<close>

theorem complete_report_all_returned:
  assumes "preach env (wiredJobs (re_target env)) concurrency s" "poolDone s"
    and "dr_Status (runReport codec (re_target env) (re_session env) started completed (collectedResults s)) = ReportStatusComplete"
    and "i < length (wiredJobs (re_target env))"
  shows "\<exists>target result flow. Invoked i target \<in> set (pp_notes s)
    \<and> possibleOutcome env (wiredJobs (re_target env) ! i) target (Finished result flow)
    \<and> collectedResults s ! i = identifiedResult (re_session env) (jb_name (wiredJobs (re_target env) ! i)) target
        (result\<lparr>pr_Evidence := pr_Evidence result @ (case flow of None \<Rightarrow> [] | Some evidence \<Rightarrow> [evidence])\<rparr>)"
proof -
  let ?name = "jb_name (wiredJobs (re_target env) ! i)"
  obtain target result where sent: "slotFilled env (wiredJobs (re_target env)) s i target result"
    and r: "collectedResults s ! i = identifiedResult (re_session env) ?name target result"
    using wired.done_delivered [OF assms(1,2,4)] by blast
  have "identifiedResult (re_session env) ?name target result \<in> set (collectedResults s)"
    using collected_length [OF assms(1)] assms(4) r by (metis nth_mem)
  note good = complete_finished [OF assms(3) [unfolded runReport_status] this]
  obtain out where out: "possibleOutcome env (wiredJobs (re_target env) ! i) target out" "result = boundedResult ?name out"
    "Invoked i target \<in> set (pp_notes s)"
    using sent good unfolding slotFilled_def Let_def by blast
  then obtain given flow where "out = Finished given flow" using good(1) by (cases out) (auto simp: boundedResult_def)
  then show ?thesis using out r by (auto simp: boundedResult_def)
qed

theorem complete_report_all_returned_witness:
  "\<forall>json. \<exists>(s::probePool) target. poolDone s \<and> Invoked 3 target \<in> set (pp_notes s)"
proof
  fix json :: jsonCodec
  obtain s where s: "poolDone s" "preach (quietRun json) (wiredJobs zero_Target) 4 s" "\<not> pp_cancelled s" using quiet_ends by blast
  have "3 < length (wiredJobs zero_Target)" by (simp add: quiet_jobs baseJobs_def)
  with complete_report_all_returned [of "quietRun json" 4 s undefined 0 0 3] s quiet_status [OF s]
  show "\<exists>(s::probePool) target. poolDone s \<and> Invoked 3 target \<in> set (pp_notes s)" by (auto simp: runReport_status)
qed

text \<open>C32: What \<open>runBounded\<close> recovers can still hold up a run: if the packet capture of the transport probe panics
  before the probe is called, the channel that the route, path and application probes wait for is never closed, and
  the run cannot end before its context does.\<close>

theorem capture_panic_blocks:
  assumes "preach env (wiredJobs (re_target env)) concurrency s" "\<not> pp_cancelled s"
    and "\<And>target out. possibleOutcome env (packetJob ''tcp'' ''tcp'') target out \<Longrightarrow> out = CapturePanicked"
  shows "\<not> poolDone s \<and> \<not> pp_transport s"
proof
  let ?jobs = "wiredJobs (re_target env)"
  obtain k where k: "k < length ?jobs" "jb_name (?jobs ! k) = ''tcp''" using wired.tcp_known by blast
  show blocked: "\<not> pp_transport s"
    using wired.tested_reach [OF k assms(1)] assms(3) wired_tcp [OF k] by auto
  obtain i where i: "i < length ?jobs" "waitsForTransportEndpoint (jb_name (?jobs ! i))" using wired_waits by blast
  show "\<not> poolDone s"
  proof
    assume "poolDone s"
    then obtain target where "handedOver env ?jobs s i target" using wired.done_called [OF assms(1) _ assms(2) i(1)] by blast
    then show False using blocked i(2) waits_dependent [OF i(2)] by (simp add: handedOver_def dependenciesMet_def Let_def)
  qed
qed

theorem capture_panic_blocks_witness:
  "\<forall>json. \<not> poolDone (newPool 4 (wiredJobs zero_Target) False)"
proof
  fix json :: jsonCodec
  let ?env = "(quietRun json)\<lparr>re_possible := (\<lambda>name target out. out = CapturePanicked)\<rparr>"
  have "possibleOutcome ?env (packetJob ''tcp'' ''tcp'') target out \<Longrightarrow> out = CapturePanicked" for target out
    by (simp add: possibleOutcome_def packetJob_def)
  with capture_panic_blocks [of ?env 4 "newPool 4 (wiredJobs zero_Target) False"] preach.Begin [of ?env "wiredJobs zero_Target" 4 False]
  show "\<not> poolDone (newPool 4 (wiredJobs zero_Target) False)" by (simp add: newPool_def)
qed

end
