(* ===== verification/Packet.thy ===== *)
theory Packet
  imports BuilderBase
begin

text \<open>
  \<open>internal/packet/packet.go\<close>: the correlation of a probe with the observations of its packet capture.
  The capture itself is what \<open>CorrelationInput\<close> holds. An error is its text and the two answers of
  \<open>errors.Is\<close> that the code asks for; \<open>decode\<close> reads the two endpoints from the evidence of a connection.
\<close>

section \<open>Scope and input\<close>

definition ProbeTypeTCP :: string where "ProbeTypeTCP = ''tcp''"

definition ProbeTypePath :: string where "ProbeTypePath = ''path''"

record Scope =
  sc_Identity :: ProbeIdentity
  sc_Target :: Target
  sc_ProbeType :: string
  sc_ProcessID :: "32 word"
  sc_WindowStarted :: gotime
  sc_Deadline :: gotime

datatype scopeError = MissingIdentity | MissingEndpoint | UnsupportedProbeType string

definition scopeValidate :: "Scope \<Rightarrow> scopeError option" where
  "scopeValidate scope =
     (let identity = sc_Identity scope in
      if pid_SessionID identity = [] \<or> pid_ProbeID identity = [] \<or> pid_CorrelationID identity = [] then Some MissingIdentity
      else if trimSpace (tg_RequestedIdentity (sc_Target scope)) = [] \<or> tg_Port (sc_Target scope) = 0 then Some MissingEndpoint
      else if sc_ProbeType scope \<noteq> ProbeTypeTCP \<and> sc_ProbeType scope \<noteq> ProbeTypePath
      then Some (UnsupportedProbeType (sc_ProbeType scope)) else None)"

record captureFailure =
  cf_Text :: string
  cf_Privilege :: bool
  cf_Unsupported :: bool

record CaptureResult =
  cr_Source :: string
  cr_Observations :: "PacketObservation list"
  cr_Complete :: bool
  cr_EventsLost :: "64 word"
  cr_Cancelled :: bool
  cr_Error :: string

record CorrelationInput =
  ci_Scope :: Scope
  ci_Result :: ProbeResult
  ci_ProbeStarted :: bool
  ci_Capture :: CaptureResult
  ci_StartError :: "captureFailure option"
  ci_StopError :: "captureFailure option"
  ci_Cancelled :: bool

record tcpTuple =
  tt_LocalAddress :: string
  tt_LocalPort :: "16 word"
  tt_RemoteAddress :: string
  tt_RemotePort :: "16 word"

definition zero_tcpTuple :: tcpTuple where
  "zero_tcpTuple = \<lparr>tt_LocalAddress = [], tt_LocalPort = 0, tt_RemoteAddress = [], tt_RemotePort = 0\<rparr>"

section \<open>Addresses and endpoints\<close>

definition packetAddress :: "string \<Rightarrow> string" where
  "packetAddress v0 = (let v = trimSet ''[]'' (trimSpace v0) in
     case parseAddr v of Some address \<Rightarrow> addrString (NormalizeAddr address) | None \<Rightarrow> toLower v)"

fun endpointPort :: "nat \<Rightarrow> string \<Rightarrow> nat" where
  "endpointPort parsed [] = parsed"
| "endpointPort parsed (c # rest) =
     (if \<not> isDigitC c then 0
      else let v = parsed * 10 + digitVal c in if v > 65535 then 0 else endpointPort v rest)"

definition splitEndpoint :: "string \<Rightarrow> string \<times> 16 word" where
  "splitEndpoint v =
     (if v = [] then ([], 0)
      else case splitHostPort v of
          None \<Rightarrow> (packetAddress v, 0)
        | Some (host, port) \<Rightarrow> (packetAddress host, of_nat (endpointPort 0 port)))"

definition tcpTupleFromResult :: "(string \<Rightarrow> (string \<times> string) result) \<Rightarrow> ProbeResult \<Rightarrow> tcpTuple" where
  "tcpTupleFromResult decode result =
     (case List.map_filter (\<lambda>evidence. if ev_Kind evidence \<noteq> EvidenceKindTCPConnection then None
         else case decode (ev_Raw evidence) of
             Inl err \<Rightarrow> None
           | Inr (localEndpoint, remoteEndpoint) \<Rightarrow>
               let (localAddress, localPort) = splitEndpoint localEndpoint;
                   (remoteAddress, remotePort) = splitEndpoint remoteEndpoint in
               if localAddress \<noteq> [] \<or> remoteAddress \<noteq> []
               then Some \<lparr>tt_LocalAddress = localAddress, tt_LocalPort = localPort,
                 tt_RemoteAddress = remoteAddress, tt_RemotePort = remotePort\<rparr>
               else None) (pr_Evidence result) of
        [] \<Rightarrow> zero_tcpTuple
      | tuple # _ \<Rightarrow> tuple)"

section \<open>Status and window of the capture\<close>

definition captureStatus :: "CorrelationInput \<Rightarrow> PacketCaptureStatus" where
  "captureStatus input =
     (if ci_Cancelled input \<or> cr_Cancelled (ci_Capture input) then PacketCaptureStatusCancelled
      else case ci_StartError input of
          Some err \<Rightarrow> if cf_Privilege err then PacketCaptureStatusInsufficientPrivilege
            else if cf_Unsupported err then PacketCaptureStatusUnsupported else PacketCaptureStatusError
        | None \<Rightarrow>
            (case ci_StopError input of
               Some err \<Rightarrow> if cf_Privilege err then PacketCaptureStatusInsufficientPrivilege else PacketCaptureStatusError
             | None \<Rightarrow>
                 if cr_Error (ci_Capture input) \<noteq> [] then PacketCaptureStatusError
                 else if cr_EventsLost (ci_Capture input) \<noteq> 0 then PacketCaptureStatusPartial
                 else if \<not> cr_Complete (ci_Capture input) then PacketCaptureStatusError
                 else PacketCaptureStatusAvailable))"

definition windowStart :: "Scope \<Rightarrow> ProbeResult \<Rightarrow> gotime" where
  "windowStart scope result =
     (if \<not> isZeroTime (sc_WindowStarted scope) then sc_WindowStarted scope
      else case tm_StartedAt (pr_Timing result) of Some t \<Rightarrow> t | None \<Rightarrow> 0)"

definition windowEnd :: "Scope \<Rightarrow> ProbeResult \<Rightarrow> gotime" where
  "windowEnd scope result =
     (if \<not> isZeroTime (sc_Deadline scope) then sc_Deadline scope
      else case tm_CompletedAt (pr_Timing result) of Some t \<Rightarrow> t | None \<Rightarrow> 0)"

section \<open>Which observations belong to the probe\<close>

definition sameOrEmpty :: "string \<Rightarrow> string \<Rightarrow> bool" where
  "sameOrEmpty a b \<longleftrightarrow> a = [] \<or> b = [] \<or> a = b"

definition identityMatches :: "PacketObservation \<Rightarrow> ProbeIdentity \<Rightarrow> bool" where
  "identityMatches observation identity \<longleftrightarrow>
     sameOrEmpty (pko_SessionID observation) (pid_SessionID identity)
     \<and> sameOrEmpty (pko_ProbeID observation) (pid_ProbeID identity)
     \<and> sameOrEmpty (pko_CorrelationID observation) (pid_CorrelationID identity)"

definition processMatches :: "PacketObservation \<Rightarrow> 32 word \<Rightarrow> bool" where
  "processMatches observation processID \<longleftrightarrow>
     processID = 0 \<or> pko_ProcessID observation = 0 \<or> pko_ProcessID observation = processID"

definition withinWindow :: "gotime \<Rightarrow> gotime \<Rightarrow> gotime \<Rightarrow> bool" where
  "withinWindow observed start finish \<longleftrightarrow> isZeroTime observed
     \<or> \<not> (\<not> isZeroTime start \<and> observed < start) \<and> \<not> (\<not> isZeroTime finish \<and> observed > finish)"

definition ownPort :: "PacketObservation \<Rightarrow> 16 word" where
  "ownPort observation =
     (if pko_LocalPort observation \<noteq> 0 then pko_LocalPort observation
      else if pko_Direction observation = PacketDirectionInbound then pko_DestinationPort observation
      else pko_SourcePort observation)"

definition ownAddress :: "PacketObservation \<Rightarrow> string" where
  "ownAddress observation =
     (if pko_LocalAddress observation \<noteq> [] then pko_LocalAddress observation
      else if pko_Direction observation = PacketDirectionInbound then pko_DestinationAddress observation
      else pko_SourceAddress observation)"

definition targetPortMatches :: "PacketObservation \<Rightarrow> 16 word \<Rightarrow> bool" where
  "targetPortMatches observation port \<longleftrightarrow>
     port = 0 \<or> pko_Kind observation = PacketObservationOutboundICMPEcho
     \<or> (if pko_Kind observation = PacketObservationOutboundTCPSYN \<or> pko_Direction observation = PacketDirectionOutbound
        then pko_DestinationPort observation = port
        else pko_SourcePort observation = port \<or> pko_DestinationPort observation = port)"

definition tcpTargetMatches :: "PacketObservation \<Rightarrow> Target \<Rightarrow> tcpTuple \<Rightarrow> bool" where
  "tcpTargetMatches observation0 target tuple =
     (let observation = NormalizePacketObservation observation0;
          remote = (if tt_RemoteAddress tuple \<noteq> [] then tt_RemoteAddress tuple
            else case tg_SelectedEndpoint target of
                Some endpoint \<Rightarrow> packetAddress (ep_Address endpoint) | None \<Rightarrow> packetAddress (tg_LiteralIP target)) in
      if tt_LocalPort tuple \<noteq> 0 \<and> ownPort observation \<noteq> tt_LocalPort tuple then False
      else if tt_LocalAddress tuple \<noteq> [] \<and> packetAddress (ownAddress observation) \<noteq> packetAddress (tt_LocalAddress tuple) then False
      else if \<not> targetPortMatches observation (tg_Port target) then False
      else if remote = [] then True
      else list_ex (\<lambda>address. packetAddress address = remote \<or> MatchesAddress target address)
        [pko_SourceAddress observation, pko_DestinationAddress observation])"

definition pathExpected :: "Target \<Rightarrow> string" where
  "pathExpected target =
     (let expected = packetAddress (tg_LiteralIP target);
          expected = (if expected \<noteq> [] then expected
            else case tg_SelectedEndpoint target of Some endpoint \<Rightarrow> packetAddress (ep_Address endpoint) | None \<Rightarrow> expected) in
      if expected = [] \<and> tg_LiteralIP target = [] then packetAddress (tg_RequestedIdentity target) else expected)"

definition pathTargetMatches :: "PacketObservation \<Rightarrow> Target \<Rightarrow> bool" where
  "pathTargetMatches observation target =
     (let expected = pathExpected target in
      if expected = [] then False
      else list_ex (\<lambda>address. packetAddress address = expected \<or> MatchesAddress target address)
        [pko_SourceAddress observation, pko_DestinationAddress observation,
         pko_QuotedSourceAddress observation, pko_QuotedDestinationAddress observation])"

definition observationRelevant :: "Scope \<Rightarrow> tcpTuple \<Rightarrow> gotime \<Rightarrow> gotime \<Rightarrow> PacketObservation \<Rightarrow> bool" where
  "observationRelevant scope tuple start finish observation \<longleftrightarrow>
     identityMatches observation (sc_Identity scope) \<and> processMatches observation (sc_ProcessID scope)
     \<and> withinWindow (pko_ObservedAt observation) start finish
     \<and> (if sc_ProbeType scope = ProbeTypeTCP then tcpTargetMatches observation (sc_Target scope) tuple
        else pathTargetMatches observation (sc_Target scope))"

definition observationBefore :: "PacketObservation \<Rightarrow> PacketObservation \<Rightarrow> bool" where
  "observationBefore left right \<longleftrightarrow>
     (if pko_ObservedAt left \<noteq> pko_ObservedAt right
      then (if isZeroTime (pko_ObservedAt left) then False
        else if isZeroTime (pko_ObservedAt right) then True
        else pko_ObservedAt left < pko_ObservedAt right)
      else pko_ID left < pko_ID right)"

definition pad3 :: "nat \<Rightarrow> string" where
  "pad3 n = replicate (3 - length (itoa n)) (CHR ''0'') @ itoa n"

definition identifyObservation :: "string \<Rightarrow> nat \<Rightarrow> PacketObservation \<Rightarrow> PacketObservation" where
  "identifyObservation correlationID index observation =
     (if pko_ID observation \<noteq> [] then observation
      else observation\<lparr>pko_ID := correlationID @ ''/observation-'' @ pad3 (Suc index)\<rparr>)"

definition relevantObservations ::
    "PacketObservation list \<Rightarrow> Scope \<Rightarrow> tcpTuple \<Rightarrow> gotime \<Rightarrow> gotime \<Rightarrow> PacketObservation list" where
  "relevantObservations input scope tuple start finish =
     (let result = sortBy observationBefore
        (filter (observationRelevant scope tuple start finish) (map NormalizePacketObservation input)) in
      map2 (identifyObservation (pid_CorrelationID (sc_Identity scope))) [0..<length result] result)"

section \<open>The flow of a TCP probe\<close>

definition filterKind :: "PacketObservation list \<Rightarrow> PacketObservationKind \<Rightarrow> PacketObservation list" where
  "filterKind observations kind = filter (\<lambda>observation. pko_Kind observation = kind) observations"

definition filterPort :: "PacketObservation list \<Rightarrow> 16 word \<Rightarrow> PacketObservation list" where
  "filterPort observations port =
     filter (\<lambda>observation. pko_SourcePort observation = port \<or> pko_LocalPort observation = port) observations"

definition isTCPResponse :: "PacketObservation \<Rightarrow> bool" where
  "isTCPResponse observation \<longleftrightarrow> pko_Kind observation = PacketObservationInboundTCPSYNACK
     \<or> pko_Kind observation = PacketObservationTCPRST \<or> pko_Kind observation = PacketObservationTCPHandshakeConfirmed"

text \<open>Two ports, counters or addresses that agree, or of which one is not known.\<close>

definition agreeNumber :: "'a::zero \<Rightarrow> 'a \<Rightarrow> bool" where
  "agreeNumber a b \<longleftrightarrow> a = 0 \<or> b = 0 \<or> a = b"

definition agreeAddress :: "string \<Rightarrow> string \<Rightarrow> bool" where
  "agreeAddress a b \<longleftrightarrow> a = [] \<or> b = [] \<or> packetAddress a = packetAddress b"

definition tcpPair :: "PacketObservation \<Rightarrow> PacketObservation \<Rightarrow> bool" where
  "tcpPair emission response \<longleftrightarrow>
     sameOrEmpty (pko_ConnectionID emission) (pko_ConnectionID response)
     \<and> agreeNumber (pko_SourcePort emission) (pko_DestinationPort response)
     \<and> agreeNumber (pko_DestinationPort emission) (pko_SourcePort response)
     \<and> agreeAddress (pko_SourceAddress emission) (pko_DestinationAddress response)
     \<and> agreeAddress (pko_DestinationAddress emission) (pko_SourceAddress response)"

definition identityIsExplicit :: "PacketObservation list \<Rightarrow> bool" where
  "identityIsExplicit observations =
     list_ex (\<lambda>observation. pko_ProbeID observation \<noteq> [] \<or> pko_SessionID observation \<noteq> []) observations"

definition correlationIDIsExplicit :: "PacketObservation list \<Rightarrow> bool" where
  "correlationIDIsExplicit observations = list_ex (\<lambda>observation. pko_CorrelationID observation \<noteq> []) observations"

definition uniqueSortedIDs :: "string list \<Rightarrow> string list" where
  "uniqueSortedIDs ids = remdups_adj (sortStrings ids)"

text \<open>The responses, each with the first emission that it answers.\<close>

definition matchedResponses ::
    "(PacketObservation \<Rightarrow> bool) \<Rightarrow> (PacketObservation \<Rightarrow> PacketObservation \<Rightarrow> bool) \<Rightarrow> PacketObservation list
     \<Rightarrow> PacketObservation list \<Rightarrow> (PacketObservation \<times> PacketObservation) list" where
  "matchedResponses response pair emissions observations =
     List.map_filter (\<lambda>observation. if \<not> response observation then None
       else map_option (\<lambda>emission. (emission, observation)) (List.find (\<lambda>emission. pair emission observation) emissions))
       observations"

definition matchedIDs :: "(PacketObservation \<times> PacketObservation) list \<Rightarrow> string list" where
  "matchedIDs matched = concat (map (\<lambda>(emission, response). [pko_ID emission, pko_ID response]) matched)"

definition correlationMethod :: "PacketObservation list \<Rightarrow> string \<Rightarrow> string \<Rightarrow> string" where
  "correlationMethod emissions key other =
     (if correlationIDIsExplicit emissions then ''correlation_id_and_'' @ key
      else if identityIsExplicit emissions then ''probe_identity_and_'' @ key else other)"

definition tcpMethod :: "PacketObservation list \<Rightarrow> string" where
  "tcpMethod emissions = correlationMethod emissions ''tcp_tuple'' ''process_and_tcp_tuple''"

definition tcpEmissions :: "PacketObservation list \<Rightarrow> tcpTuple \<Rightarrow> PacketObservation list" where
  "tcpEmissions observations tuple =
     (let emissions = filterKind observations PacketObservationOutboundTCPSYN in
      if tt_LocalPort tuple \<noteq> 0 then filterPort emissions (tt_LocalPort tuple) else emissions)"

definition tcpResponses :: "PacketObservation list \<Rightarrow> tcpTuple \<Rightarrow> (PacketObservation \<times> PacketObservation) list" where
  "tcpResponses observations tuple = matchedResponses
     (\<lambda>observation. isTCPResponse observation \<and> pko_Direction observation = PacketDirectionInbound)
     tcpPair (tcpEmissions observations tuple) observations"

definition tcpOutcome :: "PacketObservationKind \<Rightarrow> PacketFlowOutcome" where
  "tcpOutcome kind =
     (if kind = PacketObservationInboundTCPSYNACK then PacketFlowOutcomeTCPSYNACK
      else if kind = PacketObservationTCPHandshakeConfirmed then PacketFlowOutcomeTCPHandshakeConfirmed
      else PacketFlowOutcomeTCPRST)"

definition correlateTCP :: "PacketObservation list \<Rightarrow> tcpTuple \<Rightarrow> PacketFlowEvidence \<Rightarrow> PacketFlowEvidence" where
  "correlateTCP observations tuple flow =
     (let emissions = tcpEmissions observations tuple in
      if emissions = [] then flow
      else case tcpResponses observations tuple of
          [] \<Rightarrow> flow\<lparr>pkf_ProbeEmission := PacketEmissionObserved, pkf_Outcome := PacketFlowOutcomeNoMatchingResponse,
            pkf_Certainty := EvidenceCertaintyUnobservableSegment, pkf_CorrelationMethod := tcpMethod emissions\<rparr>
        | (emission, selected) # rest \<Rightarrow>
            flow\<lparr>pkf_ProbeEmission := PacketEmissionObserved, pkf_Outcome := tcpOutcome (pko_Kind selected),
              pkf_Certainty := EvidenceCertaintyConfirmedEndpointResponse, pkf_CorrelationMethod := tcpMethod emissions,
              pkf_MatchedObservationIDs := uniqueSortedIDs (pkf_MatchedObservationIDs flow
                @ matchedIDs ((emission, selected) # rest))\<rparr>)"

section \<open>The flow of a path probe\<close>

definition bothKnown :: "'a::zero \<Rightarrow> 'a \<Rightarrow> bool" where
  "bothKnown a b \<longleftrightarrow> a \<noteq> 0 \<and> b \<noteq> 0"

definition pathKeysAgree :: "PacketObservation \<Rightarrow> PacketObservation \<Rightarrow> bool" where
  "pathKeysAgree emission response \<longleftrightarrow>
     sameOrEmpty (pko_CorrelationID response) (pko_CorrelationID emission)
     \<and> agreeNumber (pko_ICMPIdentifier response) (pko_ICMPIdentifier emission)
     \<and> agreeNumber (pko_ICMPSequence response) (pko_ICMPSequence emission)
     \<and> agreeNumber (pko_QuotedICMPIdentifier response) (pko_ICMPIdentifier emission)
     \<and> agreeNumber (pko_QuotedICMPSequence response) (pko_ICMPSequence emission)
     \<and> agreeNumber (pko_ProbeTTL response) (pko_ProbeTTL emission)
     \<and> agreeNumber (pko_ProbeAttempt response) (pko_ProbeAttempt emission)
     \<and> agreeAddress (pko_QuotedDestinationAddress response) (pko_DestinationAddress emission)
     \<and> agreeNumber (pko_QuotedDestinationPort response) (pko_DestinationPort emission)"

definition strongKey :: "PacketObservation \<Rightarrow> PacketObservation \<Rightarrow> bool" where
  "strongKey emission response \<longleftrightarrow>
     bothKnown (pko_ICMPIdentifier response) (pko_ICMPIdentifier emission)
     \<or> bothKnown (pko_ICMPSequence response) (pko_ICMPSequence emission)
     \<or> bothKnown (pko_QuotedICMPIdentifier response) (pko_ICMPIdentifier emission)
     \<or> bothKnown (pko_QuotedICMPSequence response) (pko_ICMPSequence emission)
     \<or> bothKnown (pko_ProbeTTL response) (pko_ProbeTTL emission)
     \<or> bothKnown (pko_ProbeAttempt response) (pko_ProbeAttempt emission)"

definition pathPair :: "nat \<Rightarrow> PacketObservation list \<Rightarrow> PacketObservation \<Rightarrow> PacketObservation \<Rightarrow> bool" where
  "pathPair emissionCount observations emission response \<longleftrightarrow>
     (if \<not> pathKeysAgree emission response then False
      else if strongKey emission response then True
      else if pko_CorrelationID response \<noteq> [] \<and> pko_CorrelationID emission \<noteq> []
          \<and> pko_CorrelationID response = pko_CorrelationID emission
          \<and> length (filter (\<lambda>candidate. pko_Kind candidate = PacketObservationOutboundICMPEcho
              \<and> pko_CorrelationID candidate = pko_CorrelationID response) observations) = 1 then True
      else emissionCount = 1 \<and> length observations \<le> 2)"

definition isPathResponse :: "PacketObservation \<Rightarrow> bool" where
  "isPathResponse observation \<longleftrightarrow> pko_Kind observation = PacketObservationInboundICMPEcho
     \<or> pko_Kind observation = PacketObservationICMPTimeExceeded \<or> pko_Kind observation = PacketObservationICMPUnreachable"

definition pathEmissions :: "PacketObservation list \<Rightarrow> PacketObservation list" where
  "pathEmissions observations = filterKind observations PacketObservationOutboundICMPEcho"

definition pathResponses :: "PacketObservation list \<Rightarrow> (PacketObservation \<times> PacketObservation) list" where
  "pathResponses observations = (let emissions = pathEmissions observations in
     matchedResponses isPathResponse (pathPair (length emissions) observations) emissions observations)"

definition pathOutcome :: "PacketObservationKind \<Rightarrow> PacketFlowOutcome" where
  "pathOutcome kind =
     (if kind = PacketObservationInboundICMPEcho then PacketFlowOutcomeICMPEchoReply
      else if kind = PacketObservationICMPTimeExceeded then PacketFlowOutcomeICMPTimeExceeded
      else PacketFlowOutcomeICMPUnreachable)"

definition hasPathKey :: "PacketObservation \<Rightarrow> bool" where
  "hasPathKey selected \<longleftrightarrow> pko_ICMPSequence selected \<noteq> 0 \<or> pko_ICMPIdentifier selected \<noteq> 0 \<or> pko_ProbeTTL selected \<noteq> 0
     \<or> pko_QuotedICMPSequence selected \<noteq> 0 \<or> pko_QuotedICMPIdentifier selected \<noteq> 0"

definition pathUnmatched :: "PacketFlowEvidence \<Rightarrow> PacketFlowEvidence" where
  "pathUnmatched flow = flow\<lparr>pkf_ProbeEmission := PacketEmissionObserved,
     pkf_Outcome := PacketFlowOutcomeNoMatchingResponse, pkf_Certainty := EvidenceCertaintyUnobservableSegment\<rparr>"

definition correlatePath :: "PacketObservation list \<Rightarrow> PacketFlowEvidence \<Rightarrow> PacketFlowEvidence" where
  "correlatePath observations flow =
     (let emissions = pathEmissions observations; matched = pathResponses observations in
      if emissions = [] then flow
      else case matched of
          [] \<Rightarrow> pathUnmatched flow
        | (emission, selected) # rest \<Rightarrow>
            let answered = flow\<lparr>pkf_ProbeEmission := PacketEmissionObserved, pkf_Outcome := pathOutcome (pko_Kind selected),
                  pkf_Certainty := (if pko_Kind selected = PacketObservationInboundICMPEcho
                    then EvidenceCertaintyConfirmedEndpointResponse else EvidenceCertaintyObservedTTLResponder),
                  pkf_MatchedObservationIDs := uniqueSortedIDs (pkf_MatchedObservationIDs flow @ matchedIDs matched)\<rparr> in
            if hasPathKey selected
            then answered\<lparr>pkf_CorrelationMethod := correlationMethod emissions ''path_key'' ''path_key''\<rparr>
            else if length emissions = 1 \<and> length matched = 1
            then answered\<lparr>pkf_CorrelationMethod := correlationMethod emissions ''unique_path_tuple'' ''unique_path_tuple''\<rparr>
            else (pathUnmatched flow)\<lparr>pkf_MatchedObservationIDs := []\<rparr>)"

section \<open>Correlation\<close>

definition canClassifyProbeNotEmitted :: "Scope \<Rightarrow> tcpTuple \<Rightarrow> ProbeResult \<Rightarrow> bool" where
  "canClassifyProbeNotEmitted scope tuple result =
     (if sc_ProbeType scope = ProbeTypePath then pr_Status result = ProbeStatusPassed
      else tt_RemoteAddress tuple \<noteq> []
        \<or> parseAddr (trimSet ''[]'' (trimSpace (tg_LiteralIP (sc_Target scope)))) \<noteq> None)"

definition correlationScope :: "CorrelationInput \<Rightarrow> Scope" where
  "correlationScope input =
     (let scope = ci_Scope input; result = ci_Result input; given = sc_Identity scope; t = sc_Target scope;
          or_else = (\<lambda>a b. if a = [] then b else a) in
      scope\<lparr>sc_Identity := \<lparr>pid_SessionID = or_else (pid_SessionID given) (pr_SessionID result),
          pid_ProbeID = or_else (pid_ProbeID given) (pr_ProbeID result),
          pid_CorrelationID = or_else (pid_CorrelationID given) (pr_CorrelationID result)\<rparr>,
        sc_Target := NormalizeTarget (if tg_OriginalInput t = [] \<and> tg_RequestedIdentity t = [] \<and> tg_Port t = 0
          then pr_Target result else t)\<rparr>)"

definition captureError :: "CorrelationInput \<Rightarrow> string" where
  "captureError input =
     (let started = (case ci_StartError input of Some err \<Rightarrow> cf_Text err | None \<Rightarrow> []);
          stopped = (case ci_StopError input of Some err \<Rightarrow> cf_Text err | None \<Rightarrow> started) in
      if cr_Error (ci_Capture input) \<noteq> [] \<and> stopped = [] then cr_Error (ci_Capture input) else stopped)"

definition flowHeader :: "CorrelationInput \<Rightarrow> PacketFlowEvidence" where
  "flowHeader input =
     (let scope = correlationScope input; result = ci_Result input; identity = sc_Identity scope in
      zero_PacketFlowEvidence\<lparr>pkf_SessionID := pid_SessionID identity, pkf_ProbeID := pid_ProbeID identity,
        pkf_CorrelationID := pid_CorrelationID identity, pkf_Target := sc_Target scope,
        pkf_CaptureStatus := captureStatus input,
        pkf_CaptureSource := (if cr_Source (ci_Capture input) = [] then ''scoped-packet-backend'' else cr_Source (ci_Capture input)),
        pkf_WindowStartedAt := windowStart scope result, pkf_WindowCompletedAt := windowEnd scope result,
        pkf_ProbeEmission := PacketEmissionUnknown, pkf_Outcome := PacketFlowOutcomeCaptureUnavailable,
        pkf_Certainty := EvidenceCertaintyUnobservableSegment, pkf_CaptureError := captureError input,
        pkf_EventsLost := cr_EventsLost (ci_Capture input)\<rparr>)"

definition flowObservations :: "(string \<Rightarrow> (string \<times> string) result) \<Rightarrow> CorrelationInput \<Rightarrow> PacketObservation list" where
  "flowObservations decode input =
     (let scope = correlationScope input; result = ci_Result input in
      relevantObservations (cr_Observations (ci_Capture input)) scope (tcpTupleFromResult decode result)
        (windowStart scope result) (windowEnd scope result))"

definition observedFlow :: "(string \<Rightarrow> (string \<times> string) result) \<Rightarrow> CorrelationInput \<Rightarrow> PacketFlowEvidence" where
  "observedFlow decode input =
     (let flow = flowHeader input; tuple = tcpTupleFromResult decode (ci_Result input);
          located = (if tt_LocalAddress tuple \<noteq> []
            then flow\<lparr>pkf_LocalAddress := tt_LocalAddress tuple, pkf_LocalPort := tt_LocalPort tuple\<rparr> else flow) in
      located\<lparr>pkf_Observations := flowObservations decode input\<rparr>)"

definition correlatedFlow :: "(string \<Rightarrow> (string \<times> string) result) \<Rightarrow> CorrelationInput \<Rightarrow> PacketFlowEvidence" where
  "correlatedFlow decode input =
     (if sc_ProbeType (ci_Scope input) = ProbeTypePath
      then correlatePath (flowObservations decode input) (observedFlow decode input)
      else correlateTCP (flowObservations decode input) (tcpTupleFromResult decode (ci_Result input)) (observedFlow decode input))"

definition Correlate :: "(string \<Rightarrow> (string \<times> string) result) \<Rightarrow> CorrelationInput \<Rightarrow> PacketFlowEvidence" where
  "Correlate decode input =
     (let flow = flowHeader input; result = ci_Result input in
      if captureStatus input = PacketCaptureStatusCancelled \<or> ci_Cancelled input \<or> cr_Cancelled (ci_Capture input)
      then flow\<lparr>pkf_Outcome := PacketFlowOutcomeCancelled\<rparr>
      else if captureStatus input \<noteq> PacketCaptureStatusAvailable then flow
      else
        let correlated = correlatedFlow decode input in
        if pkf_ProbeEmission correlated = PacketEmissionUnknown \<and> ci_ProbeStarted input \<and> cr_Complete (ci_Capture input)
          \<and> canClassifyProbeNotEmitted (correlationScope input) (tcpTupleFromResult decode result) result
        then correlated\<lparr>pkf_ProbeEmission := PacketEmissionNotObserved, pkf_Outcome := PacketFlowOutcomeProbeNotEmitted\<rparr>
        else correlated)"

end
