(* ===== verification/PacketFacts.thy ===== *)
theory PacketFacts
  imports Packet
begin

text \<open>
  What the correlation of a packet capture may claim: a response only as the answer to a packet of the
  probe, a missing packet only of a complete capture that holds none, and nothing of a capture that failed.
\<close>

section \<open>Observations of the flow\<close>

lemma identify_other [simp]: "(identifyObservation correlationID n observation)\<lparr>pko_ID := i\<rparr> = observation\<lparr>pko_ID := i\<rparr>"
  by (simp add: identifyObservation_def)

text \<open>An observation that was captured, normalised, belongs to the probe; only its identifier may be new.\<close>

definition capturedFor :: "CorrelationInput \<Rightarrow> tcpTuple \<Rightarrow> PacketObservation \<Rightarrow> bool" where
  "capturedFor input tuple observation \<longleftrightarrow> (\<exists>raw \<in> set (cr_Observations (ci_Capture input)).
     observation\<lparr>pko_ID := []\<rparr> = (NormalizePacketObservation raw)\<lparr>pko_ID := []\<rparr>
     \<and> observationRelevant (correlationScope input) tuple (windowStart (correlationScope input) (ci_Result input))
         (windowEnd (correlationScope input) (ci_Result input)) (NormalizePacketObservation raw))"

lemma flow_captured:
  assumes "observation \<in> set (flowObservations decode input)"
  shows "capturedFor input (tcpTupleFromResult decode (ci_Result input)) observation"
proof -
  let ?relevant = "observationRelevant (correlationScope input) (tcpTupleFromResult decode (ci_Result input))
    (windowStart (correlationScope input) (ci_Result input)) (windowEnd (correlationScope input) (ci_Result input))"
  let ?found = "sortBy observationBefore (filter ?relevant (map NormalizePacketObservation (cr_Observations (ci_Capture input))))"
  obtain n where n: "n < length ?found"
    "observation = identifyObservation (pid_CorrelationID (sc_Identity (correlationScope input))) n (?found ! n)"
    using assms by (auto simp: flowObservations_def relevantObservations_def Let_def in_set_conv_nth)
  have "?found ! n \<in> set ?found" using n(1) by (rule nth_mem)
  then obtain raw where "raw \<in> set (cr_Observations (ci_Capture input))" "?found ! n = NormalizePacketObservation raw"
    "?relevant (NormalizePacketObservation raw)" by auto
  then show ?thesis using n(2) by (auto simp: capturedFor_def)
qed

section \<open>Matching\<close>

lemma matched_sound:
  assumes "(emission, observation) \<in> set (matchedResponses response pair emissions observations)"
  shows "emission \<in> set emissions \<and> observation \<in> set observations \<and> response observation \<and> pair emission observation"
proof -
  from assms obtain o' where "o' \<in> set observations" "response o'"
    "map_option (\<lambda>e. (e, o')) (List.find (\<lambda>e. pair e o') emissions) = Some (emission, observation)"
    by (auto simp: matchedResponses_def List.map_filter_def split: if_splits)
  then show ?thesis by (auto simp: find_Some_iff)
qed

lemma matched_empty:
  "matchedResponses response pair emissions observations = [] \<longleftrightarrow>
     (\<forall>observation \<in> set observations. response observation \<longrightarrow> (\<forall>emission \<in> set emissions. \<not> pair emission observation))"
  by (auto simp: matchedResponses_def List.map_filter_def find_None_iff filter_empty_conv)

lemma set_uniqueSortedIDs [simp]: "set (uniqueSortedIDs ids) = set ids"
  by (simp add: uniqueSortedIDs_def sortStrings_def)

lemma matched_ids: "(emission, observation) \<in> set matched \<Longrightarrow> pko_ID emission \<in> set (matchedIDs matched) \<and> pko_ID observation \<in> set (matchedIDs matched)"
  by (force simp: matchedIDs_def)

section \<open>One flow\<close>

lemma header_fields [simp]:
  "pkf_ProbeEmission (observedFlow decode input) = PacketEmissionUnknown"
  "pkf_Outcome (observedFlow decode input) = PacketFlowOutcomeCaptureUnavailable"
  "pkf_MatchedObservationIDs (observedFlow decode input) = []"
  "pkf_Observations (observedFlow decode input) = flowObservations decode input"
  by (simp_all add: observedFlow_def flowHeader_def Let_def zero_PacketFlowEvidence_def)

lemma status_cancelled: "ci_Cancelled input \<or> cr_Cancelled (ci_Capture input) \<Longrightarrow> captureStatus input = PacketCaptureStatusCancelled"
  by (simp add: captureStatus_def)

lemma status_available:
  assumes "captureStatus input = PacketCaptureStatusAvailable"
  shows "\<not> ci_Cancelled input \<and> \<not> cr_Cancelled (ci_Capture input) \<and> ci_StartError input = None \<and> ci_StopError input = None
    \<and> cr_Error (ci_Capture input) = [] \<and> cr_EventsLost (ci_Capture input) = 0 \<and> cr_Complete (ci_Capture input)"
  using assms by (auto simp: captureStatus_def go_consts split: if_splits option.splits)

text \<open>The packets that the probe type makes the code look for.\<close>

definition emissionsOf :: "(string \<Rightarrow> (string \<times> string) result) \<Rightarrow> CorrelationInput \<Rightarrow> PacketObservation list" where
  "emissionsOf decode input =
     (if sc_ProbeType (ci_Scope input) = ProbeTypePath then pathEmissions (flowObservations decode input)
      else tcpEmissions (flowObservations decode input) (tcpTupleFromResult decode (ci_Result input)))"

definition responsesOf ::
    "(string \<Rightarrow> (string \<times> string) result) \<Rightarrow> CorrelationInput \<Rightarrow> (PacketObservation \<times> PacketObservation) list" where
  "responsesOf decode input =
     (if sc_ProbeType (ci_Scope input) = ProbeTypePath then pathResponses (flowObservations decode input)
      else tcpResponses (flowObservations decode input) (tcpTupleFromResult decode (ci_Result input)))"

definition outcomeOf :: "CorrelationInput \<Rightarrow> PacketObservationKind \<Rightarrow> PacketFlowOutcome" where
  "outcomeOf input kind = (if sc_ProbeType (ci_Scope input) = ProbeTypePath then pathOutcome kind else tcpOutcome kind)"

lemma correlated_emission:
  "pkf_ProbeEmission (correlatedFlow decode input) =
     (if emissionsOf decode input = [] then PacketEmissionUnknown else PacketEmissionObserved)"
  by (auto simp: correlatedFlow_def correlatePath_def correlateTCP_def emissionsOf_def pathUnmatched_def Let_def split: list.splits)

lemma correlated_silent:
  "emissionsOf decode input = [] \<Longrightarrow> pkf_Outcome (correlatedFlow decode input) = PacketFlowOutcomeCaptureUnavailable"
  by (auto simp: correlatedFlow_def correlatePath_def correlateTCP_def emissionsOf_def)

lemma correlated_unanswered:
  "emissionsOf decode input \<noteq> [] \<Longrightarrow> responsesOf decode input = []
    \<Longrightarrow> pkf_Outcome (correlatedFlow decode input) = PacketFlowOutcomeNoMatchingResponse"
  by (auto simp: correlatedFlow_def correlatePath_def correlateTCP_def emissionsOf_def responsesOf_def pathUnmatched_def split: if_splits)

lemma correlated_answered:
  assumes "emissionsOf decode input \<noteq> []" "responsesOf decode input = (emission, response) # rest"
  shows "pkf_Outcome (correlatedFlow decode input) = outcomeOf input (pko_Kind response)
      \<and> set (pkf_MatchedObservationIDs (correlatedFlow decode input)) = set (matchedIDs (responsesOf decode input))
    \<or> sc_ProbeType (ci_Scope input) = ProbeTypePath \<and> \<not> hasPathKey response
      \<and> (length (emissionsOf decode input) \<noteq> 1 \<or> rest \<noteq> [])
      \<and> pkf_Outcome (correlatedFlow decode input) = PacketFlowOutcomeNoMatchingResponse
      \<and> pkf_MatchedObservationIDs (correlatedFlow decode input) = []"
proof (cases "sc_ProbeType (ci_Scope input) = ProbeTypePath")
  case True
  then have "pathEmissions (flowObservations decode input) = emissionsOf decode input"
    "pathResponses (flowObservations decode input) = (emission, response) # rest"
    using assms by (simp_all add: emissionsOf_def responsesOf_def)
  then show ?thesis using True assms by (simp add: correlatedFlow_def correlatePath_def outcomeOf_def pathUnmatched_def Let_def)
next
  case False
  then have "tcpEmissions (flowObservations decode input) (tcpTupleFromResult decode (ci_Result input)) = emissionsOf decode input"
    "tcpResponses (flowObservations decode input) (tcpTupleFromResult decode (ci_Result input)) = (emission, response) # rest"
    using assms by (simp_all add: emissionsOf_def responsesOf_def)
  then show ?thesis using False assms by (simp add: correlatedFlow_def correlateTCP_def outcomeOf_def)
qed

lemma responses_sound:
  assumes "(emission, response) \<in> set (responsesOf decode input)"
  shows "emission \<in> set (emissionsOf decode input) \<and> emission \<in> set (flowObservations decode input)
    \<and> response \<in> set (flowObservations decode input)
    \<and> (if sc_ProbeType (ci_Scope input) = ProbeTypePath
       then pko_Kind emission = PacketObservationOutboundICMPEcho \<and> isPathResponse response \<and> pathKeysAgree emission response
       else pko_Kind emission = PacketObservationOutboundTCPSYN \<and> isTCPResponse response
         \<and> pko_Direction response = PacketDirectionInbound \<and> tcpPair emission response)"
  using assms
  by (auto simp: responsesOf_def emissionsOf_def pathResponses_def tcpResponses_def pathEmissions_def tcpEmissions_def
      filterKind_def filterPort_def pathPair_def Let_def dest!: matched_sound split: if_splits)

lemma responses_emitted: "responsesOf decode input \<noteq> [] \<Longrightarrow> emissionsOf decode input \<noteq> []"
proof -
  assume "responsesOf decode input \<noteq> []"
  then obtain emission response where "(emission, response) \<in> set (responsesOf decode input)"
    by (cases "responsesOf decode input") auto
  from responses_sound [OF this] show ?thesis by auto
qed

section \<open>A reply that is discarded\<close>

text \<open>An echo reply that carries the key of the only echo request is not reported when an earlier response, which
  belongs to the request by its correlation identifier alone, carries no key.\<close>

definition pathExchange :: "PacketObservation list" where
  "pathExchange = (let o0 = zero_PacketObservation\<lparr>pko_CorrelationID := ''c''\<rparr> in
     [o0\<lparr>pko_Kind := PacketObservationOutboundICMPEcho, pko_ICMPSequence := 1\<rparr>,
      o0\<lparr>pko_Kind := PacketObservationICMPTimeExceeded\<rparr>,
      o0\<lparr>pko_Kind := PacketObservationInboundICMPEcho, pko_ICMPSequence := 1\<rparr>])"

lemma reply_discarded:
  "strongKey (pathExchange ! 0) (pathExchange ! 2) \<and> pathKeysAgree (pathExchange ! 0) (pathExchange ! 2)
    \<and> pkf_Outcome (correlatePath pathExchange zero_PacketFlowEvidence) = PacketFlowOutcomeNoMatchingResponse"
  by code_simp

section \<open>Properties\<close>

text \<open>The outcomes that report a response.\<close>

definition responseOutcomes :: "PacketFlowOutcome list" where
  "responseOutcomes = [PacketFlowOutcomeTCPHandshakeConfirmed, PacketFlowOutcomeTCPSYNACK, PacketFlowOutcomeTCPRST,
     PacketFlowOutcomeICMPEchoReply, PacketFlowOutcomeICMPTimeExceeded, PacketFlowOutcomeICMPUnreachable]"

lemma outcomes_distinct: "PacketFlowOutcomeNoMatchingResponse \<notin> set responseOutcomes"
  "PacketFlowOutcomeProbeNotEmitted \<notin> set responseOutcomes" "PacketFlowOutcomeCancelled \<notin> set responseOutcomes"
  "PacketFlowOutcomeCaptureUnavailable \<notin> set responseOutcomes" "outcomeOf input kind \<in> set responseOutcomes"
  by (simp_all add: responseOutcomes_def outcomeOf_def pathOutcome_def tcpOutcome_def go_consts)

lemma header_outcome [simp]: "pkf_Outcome (flowHeader input) = PacketFlowOutcomeCaptureUnavailable"
  by (simp add: flowHeader_def Let_def)

lemma Correlate_cases:
  "captureStatus input \<noteq> PacketCaptureStatusAvailable \<Longrightarrow> pkf_Outcome (Correlate decode input)
     \<in> {PacketFlowOutcomeCancelled, PacketFlowOutcomeCaptureUnavailable}"
  "captureStatus input = PacketCaptureStatusAvailable \<Longrightarrow> Correlate decode input =
     (if emissionsOf decode input = [] \<and> ci_ProbeStarted input
        \<and> canClassifyProbeNotEmitted (correlationScope input) (tcpTupleFromResult decode (ci_Result input)) (ci_Result input)
      then (correlatedFlow decode input)\<lparr>pkf_ProbeEmission := PacketEmissionNotObserved,
        pkf_Outcome := PacketFlowOutcomeProbeNotEmitted\<rparr>
      else correlatedFlow decode input)"
proof -
  assume status: "captureStatus input = PacketCaptureStatusAvailable"
  have "PacketCaptureStatusAvailable \<noteq> PacketCaptureStatusCancelled" "PacketEmissionObserved \<noteq> PacketEmissionUnknown"
    by (simp_all add: go_consts)
  then show "Correlate decode input =
     (if emissionsOf decode input = [] \<and> ci_ProbeStarted input
        \<and> canClassifyProbeNotEmitted (correlationScope input) (tcpTupleFromResult decode (ci_Result input)) (ci_Result input)
      then (correlatedFlow decode input)\<lparr>pkf_ProbeEmission := PacketEmissionNotObserved,
        pkf_Outcome := PacketFlowOutcomeProbeNotEmitted\<rparr>
      else correlatedFlow decode input)"
    using status status_available [OF status] by (simp add: Correlate_def correlated_emission Let_def)
qed (simp add: Correlate_def Let_def)

text \<open>C33: A response is reported only as the answer to a packet of the probe: if the outcome of a correlation is one of
  the six responses, the capture was complete, and two of its observations, inside of the window and with the identity,
  process and addresses of the probe, are a packet that the probe sent and a response that pairs with it, whose kind
  gives the outcome and whose identifiers are among the matched ones.\<close>

theorem response_answers_probe:
  assumes "pkf_Outcome (Correlate decode input) \<in> set responseOutcomes"
  shows "captureStatus input = PacketCaptureStatusAvailable \<and> (\<exists>emission response.
    capturedFor input (tcpTupleFromResult decode (ci_Result input)) emission
    \<and> capturedFor input (tcpTupleFromResult decode (ci_Result input)) response
    \<and> {pko_ID emission, pko_ID response} \<subseteq> set (pkf_MatchedObservationIDs (Correlate decode input))
    \<and> pkf_Outcome (Correlate decode input) = outcomeOf input (pko_Kind response)
    \<and> (if sc_ProbeType (ci_Scope input) = ProbeTypePath
       then pko_Kind emission = PacketObservationOutboundICMPEcho \<and> isPathResponse response \<and> pathKeysAgree emission response
       else pko_Kind emission = PacketObservationOutboundTCPSYN \<and> isTCPResponse response
         \<and> pko_Direction response = PacketDirectionInbound \<and> tcpPair emission response))"
proof -
  have status: "captureStatus input = PacketCaptureStatusAvailable"
  proof (rule ccontr)
    assume "captureStatus input \<noteq> PacketCaptureStatusAvailable"
    from Correlate_cases(1) [OF this, of decode] show False using assms outcomes_distinct by auto
  qed
  have sent: "emissionsOf decode input \<noteq> []"
    using assms correlated_silent [of decode input] outcomes_distinct
    by (auto simp: Correlate_cases(2) [OF status] split: if_splits)
  then have flow: "Correlate decode input = correlatedFlow decode input" by (simp add: Correlate_cases(2) [OF status])
  have "responsesOf decode input \<noteq> []" using correlated_unanswered [OF sent] assms outcomes_distinct by (auto simp: flow)
  then obtain emission response rest where first: "responsesOf decode input = (emission, response) # rest"
    by (cases "responsesOf decode input") auto
  then have "(emission, response) \<in> set (responsesOf decode input)" by simp
  moreover have "pkf_Outcome (Correlate decode input) = outcomeOf input (pko_Kind response)
      \<and> set (pkf_MatchedObservationIDs (Correlate decode input)) = set (matchedIDs (responsesOf decode input))"
    using correlated_answered [OF sent first] assms outcomes_distinct by (auto simp: flow)
  ultimately show ?thesis using status responses_sound flow_captured matched_ids by (intro conjI exI [of _ emission] exI [of _ response]) auto
qed

text \<open>A capture of a transport probe whose target names nothing, so that it is the default port of HTTP.\<close>

definition sampleFlow :: "PacketObservation list \<Rightarrow> CorrelationInput" where
  "sampleFlow observations = \<lparr>
     ci_Scope = \<lparr>sc_Identity = zero_ProbeIdentity, sc_Target = zero_Target, sc_ProbeType = ProbeTypeTCP, sc_ProcessID = 0,
       sc_WindowStarted = 0, sc_Deadline = 0\<rparr>,
     ci_Result = zero_ProbeResult\<lparr>pr_Evidence := [zero_Evidence\<lparr>ev_Kind := EvidenceKindTCPConnection\<rparr>]\<rparr>, ci_ProbeStarted = True,
     ci_Capture = \<lparr>cr_Source = [], cr_Observations = observations, cr_Complete = True, cr_EventsLost = 0, cr_Cancelled = False,
       cr_Error = []\<rparr>, ci_StartError = None, ci_StopError = None, ci_Cancelled = False\<rparr>"

definition sampleExchange :: "PacketObservation list" where
  "sampleExchange = [zero_PacketObservation\<lparr>pko_ID := ''syn'', pko_Kind := PacketObservationOutboundTCPSYN,
       pko_Direction := PacketDirectionOutbound, pko_SourcePort := 5, pko_DestinationPort := 80\<rparr>,
     zero_PacketObservation\<lparr>pko_ID := ''ack'', pko_Kind := PacketObservationInboundTCPSYNACK,
       pko_Direction := PacketDirectionInbound, pko_SourcePort := 80, pko_DestinationPort := 5\<rparr>]"

theorem response_answers_probe_witness:
  "\<exists>emission :: PacketObservation. pko_Kind emission = PacketObservationOutboundTCPSYN
     \<and> pko_ID emission \<in> set (pkf_MatchedObservationIDs (Correlate (\<lambda>raw. Inl []) (sampleFlow sampleExchange)))"
proof -
  have "pkf_Outcome (Correlate (\<lambda>raw. Inl []) (sampleFlow sampleExchange)) \<in> set responseOutcomes"
    by code_simp
  moreover have "sc_ProbeType (ci_Scope (sampleFlow sampleExchange)) \<noteq> ProbeTypePath" by code_simp
  ultimately show ?thesis using response_answers_probe [of "\<lambda>raw. Inl []" "sampleFlow sampleExchange"] by auto
qed

text \<open>C34: The negative verdicts are exact: a probe packet is called missing only when the capture was complete, the probe
  was started, its endpoint or its status lets a packet be recognised, and no packet of it was seen; and for a transport
  probe a response is called missing exactly when a packet of it was seen and no inbound response in the flow pairs
  with any of them.\<close>

theorem negative_verdicts_exact:
  "(pkf_Outcome (Correlate decode input) = PacketFlowOutcomeProbeNotEmitted \<longleftrightarrow>
      captureStatus input = PacketCaptureStatusAvailable \<and> ci_ProbeStarted input \<and> emissionsOf decode input = []
      \<and> canClassifyProbeNotEmitted (correlationScope input) (tcpTupleFromResult decode (ci_Result input)) (ci_Result input))
    \<and> (sc_ProbeType (ci_Scope input) \<noteq> ProbeTypePath \<longrightarrow>
      (pkf_Outcome (Correlate decode input) = PacketFlowOutcomeNoMatchingResponse \<longleftrightarrow>
        captureStatus input = PacketCaptureStatusAvailable \<and> emissionsOf decode input \<noteq> []
        \<and> (\<forall>response \<in> set (flowObservations decode input). isTCPResponse response \<longrightarrow>
            pko_Direction response = PacketDirectionInbound \<longrightarrow> (\<forall>emission \<in> set (emissionsOf decode input). \<not> tcpPair emission response))))"
proof (cases "captureStatus input = PacketCaptureStatusAvailable")
  case False
  then show ?thesis using Correlate_cases(1) [of input decode] by (auto simp: go_consts)
next
  case True
  note flow = Correlate_cases(2) [OF True, of decode]
  have differ: "PacketFlowOutcomeNoMatchingResponse \<noteq> PacketFlowOutcomeProbeNotEmitted"
    "PacketFlowOutcomeCaptureUnavailable \<noteq> PacketFlowOutcomeProbeNotEmitted"
    "PacketFlowOutcomeCaptureUnavailable \<noteq> PacketFlowOutcomeNoMatchingResponse" by (simp_all add: go_consts)
  have other: "outcomeOf input kind \<noteq> PacketFlowOutcomeNoMatchingResponse" "outcomeOf input kind \<noteq> PacketFlowOutcomeProbeNotEmitted"
    "PacketFlowOutcomeNoMatchingResponse \<noteq> outcomeOf input kind" "PacketFlowOutcomeProbeNotEmitted \<noteq> outcomeOf input kind" for kind
    using outcomes_distinct by metis+
  show ?thesis
  proof (cases "emissionsOf decode input = []")
    case none: True
    then show ?thesis using True correlated_silent [OF none] differ by (simp add: flow)
  next
    case sent: False
    then have same: "Correlate decode input = correlatedFlow decode input" by (simp add: flow)
    have empty: "responsesOf decode input = [] \<longleftrightarrow> (\<forall>response \<in> set (flowObservations decode input). isTCPResponse response \<longrightarrow>
        pko_Direction response = PacketDirectionInbound \<longrightarrow> (\<forall>emission \<in> set (emissionsOf decode input). \<not> tcpPair emission response))"
      if "sc_ProbeType (ci_Scope input) \<noteq> ProbeTypePath"
      using that by (auto simp: responsesOf_def emissionsOf_def tcpResponses_def matched_empty)
    show ?thesis
    proof (cases "responsesOf decode input")
      case Nil
      then show ?thesis using True sent same correlated_unanswered [OF sent Nil] differ empty by simp
    next
      case (Cons matched rest)
      obtain emission response where "matched = (emission, response)" by (cases matched)
      from correlated_answered [OF sent Cons [unfolded this]] show ?thesis
        using True sent same differ other empty Cons by auto
    qed
  qed
qed

theorem negative_verdicts_exact_witness:
  "pkf_Outcome (Correlate (\<lambda>raw. Inr ([], ''h'')) (sampleFlow [])) = PacketFlowOutcomeProbeNotEmitted
    \<and> pkf_Outcome (Correlate (\<lambda>raw. Inr ([], ''h'')) (sampleFlow [])) \<noteq> PacketFlowOutcomeNoMatchingResponse"
proof -
  let ?input = "sampleFlow []"
  have "captureStatus ?input = PacketCaptureStatusAvailable" "ci_ProbeStarted ?input" "emissionsOf (\<lambda>raw. Inr ([], ''h'')) ?input = []"
    "canClassifyProbeNotEmitted (correlationScope ?input) (tcpTupleFromResult (\<lambda>raw. Inr ([], ''h'')) (ci_Result ?input)) (ci_Result ?input)"
    "sc_ProbeType (ci_Scope ?input) \<noteq> ProbeTypePath"
    by code_simp+
  then show ?thesis using negative_verdicts_exact [of "\<lambda>raw. Inr ([], ''h'')" ?input] by blast
qed

end
