(* ===== verification/GoRegexp.thy ===== *)
theory GoRegexp
  imports GoURLText
begin

text \<open>
  Leftmost-first matching of Go's package \<open>regexp\<close> for the operators that the program uses, on bytes;
  \<open>(?i)\<close> folds the case of ASCII. A byte of a longer rune matches the classes that its rune matches, since
  every class here has all of these bytes or none. And \<open>URL.String\<close> of a parsed URL from which the user
  information, the query and the fragment were taken. Standard library, no entry in the map.
\<close>

section \<open>Expressions\<close>

datatype rx =
    RxEmpty
  | RxChars "char \<Rightarrow> bool"
  | RxSeq rx rx
  | RxAlt rx rx
  | RxStar rx
  | RxBoundary
  | RxBegin

text \<open>The byte before the rest of the text after \<open>n\<close> more bytes.\<close>

definition prevAfter :: "char option \<Rightarrow> string \<Rightarrow> nat \<Rightarrow> char option" where
  "prevAfter p s n = (if n = 0 then p else Some (s ! (n - 1)))"

definition atBoundary :: "char option \<Rightarrow> string \<Rightarrow> bool" where
  "atBoundary p s \<longleftrightarrow> (case p of None \<Rightarrow> False | Some c \<Rightarrow> isWordC c) \<noteq> (case s of [] \<Rightarrow> False | c # _ \<Rightarrow> isWordC c)"

text \<open>The lengths of all matches at the beginning of the text, the preferred one first; a repetition prefers more.
  Every repeated match is not empty, so that the length of the text bounds their number.\<close>

fun starEnds :: "(char option \<Rightarrow> string \<Rightarrow> nat list) \<Rightarrow> nat \<Rightarrow> char option \<Rightarrow> string \<Rightarrow> nat list" where
  "starEnds f 0 p s = [0]"
| "starEnds f (Suc k) p s = concat (map (\<lambda>n. if n = 0 then []
     else map (\<lambda>m. n + m) (starEnds f k (prevAfter p s n) (drop n s))) (f p s)) @ [0]"

primrec rxEnds :: "rx \<Rightarrow> char option \<Rightarrow> string \<Rightarrow> nat list" where
  "rxEnds RxEmpty p s = [0]"
| "rxEnds (RxChars f) p s = (case s of [] \<Rightarrow> [] | c # _ \<Rightarrow> if f c then [1] else [])"
| "rxEnds (RxSeq a b) p s = concat (map (\<lambda>n. map (\<lambda>m. n + m) (rxEnds b (prevAfter p s n) (drop n s))) (rxEnds a p s))"
| "rxEnds (RxAlt a b) p s = rxEnds a p s @ rxEnds b p s"
| "rxEnds (RxStar a) p s = starEnds (rxEnds a) (length s) p s"
| "rxEnds RxBoundary p s = (if atBoundary p s then [0] else [])"
| "rxEnds RxBegin p s = (if p = None then [0] else [])"

definition rxOpt :: "rx \<Rightarrow> rx" where
  "rxOpt a = RxAlt a RxEmpty"

definition rxPlus :: "rx \<Rightarrow> rx" where
  "rxPlus a = RxSeq a (RxStar a)"

definition rxSeqs :: "rx list \<Rightarrow> rx" where
  "rxSeqs rs = foldr RxSeq rs RxEmpty"

definition rxAlts :: "rx \<Rightarrow> rx list \<Rightarrow> rx" where
  "rxAlts r rs = foldl RxAlt r rs"

definition rxIn :: "string \<Rightarrow> rx" where
  "rxIn cs = RxChars (\<lambda>c. c \<in> set cs)"

definition rxNotIn :: "string \<Rightarrow> rx" where
  "rxNotIn cs = RxChars (\<lambda>c. c \<notin> set cs)"

definition rxText :: "string \<Rightarrow> rx" where
  "rxText w = rxSeqs (map (\<lambda>c. RxChars (\<lambda>d. d = c)) w)"

text \<open>A lower-case word under \<open>(?i)\<close>.\<close>

definition rxFold :: "string \<Rightarrow> rx" where
  "rxFold w = rxSeqs (map (\<lambda>c. RxChars (\<lambda>d. toLowerC d = c)) w)"

definition rxLetter :: rx where
  "rxLetter = RxChars (\<lambda>c. isLowerC (toLowerC c))"

text \<open>\<open>\s\<close>\<close>

definition rxSpaces :: string where
  "rxSpaces = [CHR 0x09, CHR 0x0A, CHR 0x0C, CHR 0x0D, CHR 0x20]"

section \<open>Searching and replacing\<close>

fun rxFind :: "rx \<Rightarrow> char option \<Rightarrow> string \<Rightarrow> bool" where
  "rxFind r p [] = (rxEnds r p [] \<noteq> [])"
| "rxFind r p (c # s) = (rxEnds r p (c # s) \<noteq> [] \<or> rxFind r (Some c) s)"

definition rxMatches :: "rx \<Rightarrow> string \<Rightarrow> bool" where
  "rxMatches r s = rxFind r None s"

text \<open>\<open>m\<close> gives the length of the match at the beginning of the text and what replaces it.\<close>

function replaceMatches :: "(char option \<Rightarrow> string \<Rightarrow> (nat \<times> string) option) \<Rightarrow> char option \<Rightarrow> string \<Rightarrow> string" where
  "replaceMatches m p [] = []"
| "replaceMatches m p (c # s) =
     (case m p (c # s) of
        None \<Rightarrow> c # replaceMatches m (Some c) s
      | Some (n, t) \<Rightarrow>
          if n = 0 then c # replaceMatches m (Some c) s
          else t @ replaceMatches m (prevAfter p (c # s) n) (drop n (c # s)))"
  by pat_completeness auto
termination by (relation "measure (\<lambda>(m, p, s). length s)") auto

definition rxReplace :: "rx \<Rightarrow> (string \<Rightarrow> string) \<Rightarrow> string \<Rightarrow> string" where
  "rxReplace r f s = replaceMatches (\<lambda>p t. case rxEnds r p t of [] \<Rightarrow> None | n # _ \<Rightarrow> Some (n, f (take n t))) None s"

section \<open>The text of a cleared URL\<close>

text \<open>The parts of the text that the record of a parsed URL does not keep: \<open>Opaque\<close> and \<open>OmitHost\<close>.\<close>

definition urlRest :: "string \<Rightarrow> string \<times> string" where
  "urlRest raw = (let u = fst (cutByte CHR ''#'' raw) in
     case urlScheme u [] u of None \<Rightarrow> ([], []) | Some (scheme, rest) \<Rightarrow> (scheme, fst (cutByte CHR ''?'' rest)))"

definition urlOpaque :: "string \<Rightarrow> string" where
  "urlOpaque raw = (let (scheme, rest) = urlRest raw in if scheme \<noteq> [] \<and> \<not> hasPrefix ''/'' rest then rest else [])"

definition urlOmitHost :: "string \<Rightarrow> bool" where
  "urlOmitHost raw = (let (scheme, rest) = urlRest raw in scheme \<noteq> [] \<and> hasPrefix ''/'' rest \<and> \<not> hasPrefix ''//'' rest)"

definition urlDecodedPath :: "url \<Rightarrow> string" where
  "urlDecodedPath u = (case urlUnescape EncodePath (urlEscapedPath u) of None \<Rightarrow> [] | Some path \<Rightarrow> path)"

definition urlClearedBase :: "string \<Rightarrow> url \<Rightarrow> string \<Rightarrow> string" where
  "urlClearedBase raw u path =
     (let scheme = urlSchemeOf u; host = urlHost u in
      (if scheme \<noteq> [] then scheme @ '':'' else [])
      @ (if urlOpaque raw \<noteq> [] then urlOpaque raw
         else (if (scheme \<noteq> [] \<or> host \<noteq> []) \<and> \<not> (urlOmitHost raw \<and> host = [])
             then (if host \<noteq> [] \<or> path \<noteq> [] then ''//'' else []) @ urlEscape EncodeHost host else [])
           @ (if path \<noteq> [] \<and> \<not> hasPrefix ''/'' path \<and> host \<noteq> [] then ''/'' else [])
           @ (if scheme = [] \<and> host = [] \<and> CHR '':'' \<in> set (fst (cutByte CHR ''/'' path)) then ''./'' else [])
           @ path))"

definition urlClearedText :: "string \<Rightarrow> url \<Rightarrow> string \<Rightarrow> string" where
  "urlClearedText raw u path = urlClearedBase raw u path @ (if urlForceQuery raw then ''?'' else [])"

end
