(* ===== verification/Privacy.thy ===== *)
theory Privacy
  imports GoRegexp ModelReportTypes
begin

text \<open>
  \<open>internal/privacy/privacy.go\<close>, \<open>model/privacy.go\<close> and \<open>report/privacy.go\<close>: the redaction of what is
  exported. A decoded JSON document is a tree, its objects lists of fields with distinct keys. Decoding and
  encoding are arguments. A key is taken to hold ASCII: any other byte counts as a letter.
\<close>

section \<open>The inventory\<close>

record PrivacyMetadata =
  pm_Policy :: string
  pm_Version :: string
  pm_Included :: "string list"
  pm_Redacted :: "string list"
  pm_Excluded :: "string list"
  pm_OperatorSelectable :: "string list"

definition DefaultPrivacyMetadata :: PrivacyMetadata where
  "DefaultPrivacyMetadata = \<lparr>
     pm_Policy = ''tadori/export-redaction'',
     pm_Version = ''1'',
     pm_Included = [''destination_hostnames'', ''local_and_public_ip_addresses'', ''dns_servers_and_routes'',
       ''proxy_endpoints'', ''certificate_metadata'', ''evidence_ids'', ''session_ids''],
     pm_Redacted = [''usernames_and_local_profile_paths'', ''url_query_strings_and_fragments''],
     pm_Excluded = [''cookies_and_authorization_headers'', ''request_and_response_bodies'',
       ''opaque_tokens_and_secrets'', ''raw_certificate_material'', ''certificate_email_addresses''],
     pm_OperatorSelectable = []\<rparr>"

definition redactedValue :: string where "redactedValue = ''[REDACTED]''"

section \<open>Patterns\<close>

definition rxQuotes :: string where "rxQuotes = [CHR 0x22, CHR 0x27]"

definition rxSlashes :: string where "rxSlashes = [CHR 0x5C, CHR 0x2F]"

definition credentialWord :: rx where
  "credentialWord = RxSeq RxBoundary (rxAlts (rxFold ''authorization'') [rxFold ''proxy-authorization'', rxFold ''cookie'',
     rxFold ''set-cookie'', rxFold ''password'', rxFold ''passwd'', rxFold ''token'', rxFold ''secret'',
     rxSeqs [rxFold ''api'', rxOpt (rxIn ''-_''), rxFold ''key''], rxFold ''credential''])"

definition credentialRest :: rx where
  "credentialRest = rxSeqs [RxStar (rxIn rxSpaces), rxIn '':='', RxStar (rxIn rxSpaces),
     rxAlts (rxSeqs [rxIn [CHR 0x22], RxStar (rxNotIn [CHR 0x22]), rxIn [CHR 0x22]])
       [rxSeqs [rxIn [CHR 0x27], RxStar (rxNotIn [CHR 0x27]), rxIn [CHR 0x27]],
        RxSeq (rxOpt (RxSeq (rxPlus rxLetter) (rxPlus (rxIn rxSpaces)))) (rxPlus (rxNotIn (rxSpaces @ '',;'')))]]"

definition embeddedURLPattern :: rx where
  "embeddedURLPattern = rxSeqs [rxText ''http'', rxOpt (rxText ''s''), rxText ''://'',
     rxPlus (rxNotIn (rxSpaces @ rxQuotes @ ''<>''))]"

text \<open>The end of both alternatives for Windows: a directory below \<open>users\<close> and what follows.\<close>

definition windowsUser :: rx where
  "windowsUser = rxSeqs [rxFold ''users'', rxPlus (rxIn rxSlashes), rxPlus (rxNotIn (rxSlashes @ rxSpaces)),
     rxOpt (RxSeq (rxIn rxSlashes) (RxStar (rxNotIn (rxSpaces @ rxQuotes))))]"

definition windowsPathPattern :: rx where
  "windowsPathPattern = RxAlt (rxSeqs [rxLetter, rxText '':'', rxPlus (rxIn rxSlashes), windowsUser])
     (rxSeqs [rxIn [CHR 0x5C], rxIn [CHR 0x5C], rxPlus (rxNotIn (rxSlashes @ rxSpaces)), rxIn rxSlashes, windowsUser])"

definition profileRoot :: rx where
  "profileRoot = rxSeqs [rxText ''/'', rxAlts (rxFold ''home'') [rxFold ''users'', rxFold ''private/var''], rxText ''/'']"

definition unixProfilePathPattern :: rx where
  "unixProfilePathPattern = rxSeqs [profileRoot, rxPlus (rxNotIn (''/'' @ rxSpaces @ rxQuotes)),
     rxOpt (RxSeq (rxText ''/'') (RxStar (rxNotIn (rxSpaces @ rxQuotes))))]"

definition localAbsolutePathPattern :: rx where
  "localAbsolutePathPattern = RxAlt (rxSeqs [RxBegin, rxLetter, rxText '':'', rxIn rxSlashes]) (RxSeq RxBegin profileRoot)"

definition unixAbsolutePathPattern :: rx where
  "unixAbsolutePathPattern = (let segment = rxPlus (rxNotIn (''/'' @ rxSpaces @ rxQuotes)) in
     rxSeqs [RxBegin, rxText ''/'', RxStar (RxSeq segment (rxText ''/'')), segment])"

section \<open>Texts\<close>

definition stripQueryAndFragment :: "string \<Rightarrow> string" where
  "stripQueryAndFragment v = takeWhile (\<lambda>c. c \<noteq> CHR ''?'' \<and> c \<noteq> CHR ''#'') v"

definition redactURL :: "string \<Rightarrow> string" where
  "redactURL v =
     (if v = [] then v
      else if rxMatches localAbsolutePathPattern v \<or> rxMatches windowsPathPattern v \<or> rxMatches unixProfilePathPattern v
      then redactedValue
      else if hasPrefix ''/'' v \<or> hasPrefix ''?'' v then stripQueryAndFragment v
      else case urlParse v of
          None \<Rightarrow> stripQueryAndFragment v
        | Some parsed \<Rightarrow>
            let path = urlDecodedPath parsed in
            urlClearedText v parsed
              (if path \<noteq> [] \<and> (rxMatches windowsPathPattern path \<or> rxMatches unixProfilePathPattern path)
               then urlEscape EncodePath redactedValue else urlEscapedPath parsed))"

definition redactLocalPath :: "string \<Rightarrow> string" where
  "redactLocalPath v =
     (if v = [] then v
      else if rxMatches windowsPathPattern v \<or> rxMatches unixProfilePathPattern v \<or> rxMatches localAbsolutePathPattern v
        \<or> rxMatches unixAbsolutePathPattern v then redactedValue
      else v)"

text \<open>\<open>credentialPattern.ReplaceAllString(value, "$1=[REDACTED]")\<close>: the first group is the word.\<close>

definition credentialMatch :: "char option \<Rightarrow> string \<Rightarrow> (nat \<times> string) option" where
  "credentialMatch p s =
     (case concat (map (\<lambda>k. map (\<lambda>e. (k, k + e)) (rxEnds credentialRest (prevAfter p s k) (drop k s))) (rxEnds credentialWord p s)) of
        [] \<Rightarrow> None
      | (k, n) # _ \<Rightarrow> Some (n, take k s @ ''=[REDACTED]''))"

definition redactFreeText :: "string \<Rightarrow> string" where
  "redactFreeText v =
     (let v = replaceMatches credentialMatch None v;
          v = rxReplace embeddedURLPattern redactURL v;
          v = rxReplace windowsPathPattern (\<lambda>_. redactedValue) v in
      rxReplace unixProfilePathPattern (\<lambda>_. redactedValue) v)"

definition redactEmbeddedURLAndLocalPath :: "string \<Rightarrow> string" where
  "redactEmbeddedURLAndLocalPath v =
     (let v = replaceMatches credentialMatch None v;
          v = rxReplace embeddedURLPattern redactURL v;
          v = rxReplace windowsPathPattern (\<lambda>_. redactedValue) v in
      rxReplace unixProfilePathPattern (\<lambda>_. redactedValue) v)"

section \<open>Fields\<close>

definition normalizedField :: "string \<Rightarrow> string" where
  "normalizedField v = trimSet ''_'' (map (\<lambda>c. if isAlnumC c \<or> byteOf c > 127 then c else CHR ''_'') (toLower v))"

datatype disposition = FieldKeep | FieldRedact | FieldExclude

definition fieldDisposition :: "string \<Rightarrow> disposition" where
  "fieldDisposition field =
     (if field \<in> set [''username'', ''user_name'', ''user'', ''profile'', ''profile_path'', ''home'', ''home_directory'',
        ''local_path'', ''file_path'', ''working_directory'', ''local_profile_path''] then FieldRedact
      else if field \<in> set [''email_addresses'', ''email_address'', ''emailaddresses'', ''request_body'', ''response_body'',
        ''body'', ''payload'', ''request_payload'', ''response_payload'', ''raw_body'', ''body_content'', ''private_key'',
        ''private_key_bytes'', ''certificate_bytes'', ''certificate_der'', ''certificate_pem'', ''query'', ''query_string'',
        ''querystring'', ''query_params'', ''queryparameters'', ''query_parameters'', ''raw_query'', ''rawquery'', ''fragment'']
      then FieldExclude
      else if field \<in> set [''token'', ''accesstoken'', ''refreshtoken'', ''idtoken'', ''sessiontoken'', ''csrftoken'', ''auth'',
        ''authheader'', ''authorizationheader'', ''proxyauth'', ''proxyauthheader'', ''proxyauthorizationheader'',
        ''proxyauthenticate'', ''wwwauthenticate''] then FieldExclude
      else if list_ex (\<lambda>w. indexStr w field \<noteq> None) [''authorization'', ''cookie'', ''password'', ''passwd'', ''credential'',
        ''secret'', ''api_key'', ''apikey''] then FieldExclude
      else if list_ex (\<lambda>w. hasSuffix w field) [''_token'', ''token'', ''_key'', ''privatekey'', ''_body'', ''body'', ''_query'',
        ''query'', ''_auth'', ''auth''] then FieldExclude
      else FieldKeep)"

definition isURLField :: "string \<Rightarrow> bool" where
  "isURLField field \<longleftrightarrow>
     (if field \<in> set [''url'', ''uri'', ''location'', ''to_url'', ''pac_url'', ''resource'', ''requested_resource'',
        ''original_input'', ''authority''] then True
      else hasSuffix ''_url'' field \<or> hasSuffix ''_uri'' field)"

definition isLocalPathField :: "string \<Rightarrow> bool" where
  "isLocalPathField field \<longleftrightarrow> field \<in> set [''path'', ''file'', ''file_path'', ''local_path'', ''profile'', ''profile_path'',
     ''home'', ''home_directory'', ''working_directory'']"

definition isFreeTextField :: "string \<Rightarrow> bool" where
  "isFreeTextField field \<longleftrightarrow> field \<in> set [''error'', ''note'', ''detail'', ''description'', ''limitation'', ''limitations'',
     ''interception_basis'', ''block_causality'']"

definition lastPathField :: "string list \<Rightarrow> string" where
  "lastPathField path = (if path = [] then [] else normalizedField (last path))"

definition isEvidenceRawField :: "string list \<Rightarrow> string \<Rightarrow> bool" where
  "isEvidenceRawField path field \<longleftrightarrow> field = ''raw'' \<and> path \<noteq> [] \<and> normalizedField (last path) = ''evidence''"

definition redactString :: "string \<Rightarrow> string \<Rightarrow> string" where
  "redactString field v =
     (if isURLField field then redactURL v
      else if isLocalPathField field then redactLocalPath v
      else if isFreeTextField field then redactFreeText v
      else redactEmbeddedURLAndLocalPath v)"

section \<open>Documents\<close>

datatype documentTree =
    JsonNull
  | JsonBool bool
  | JsonNumber string
  | JsonText string
  | JsonList "documentTree list"
  | JsonMap "(string \<times> documentTree) list"

definition emptyEvidence :: documentTree where
  "emptyEvidence = JsonMap [(''redacted'', JsonBool True), (''reason'', JsonText ''empty evidence'')]"

text \<open>
  What becomes of one field of an object, given the redacted child: \<open>redactEvidenceRaw\<close> is the first branch.
\<close>

definition redactField :: "string list \<Rightarrow> string \<Rightarrow> documentTree \<Rightarrow> documentTree \<times> bool \<Rightarrow> documentTree option \<times> bool" where
  "redactField path key child redacted =
     (let field = normalizedField key; (w, changed) = redacted in
      if isEvidenceRawField path field then
        (case child of
           JsonText s \<Rightarrow> (Some (JsonText (redactFreeText s)), redactFreeText s \<noteq> s)
         | JsonNull \<Rightarrow> (Some emptyEvidence, True)
         | _ \<Rightarrow> (Some w, changed))
      else if fieldDisposition field = FieldExclude then (None, True)
      else if fieldDisposition field = FieldRedact then (Some (JsonText redactedValue), True)
      else (Some w, changed))"

text \<open>
  A document and whether it was changed. The code of \<open>redactMap\<close> treats the child of a field as \<open>redactNode\<close>
  does with the path of the child.
\<close>

fun redactNode :: "string list \<Rightarrow> documentTree \<Rightarrow> documentTree \<times> bool"
and redactList :: "string list \<Rightarrow> documentTree list \<Rightarrow> documentTree list \<times> bool"
and redactMap :: "string list \<Rightarrow> (string \<times> documentTree) list \<Rightarrow> (string \<times> documentTree) list \<times> bool" where
  "redactNode path JsonNull = (JsonNull, False)"
| "redactNode path (JsonBool b) = (JsonBool b, False)"
| "redactNode path (JsonNumber n) = (JsonNumber n, False)"
| "redactNode path (JsonText s) = (let t = redactString (lastPathField path) s in (JsonText t, t \<noteq> s))"
| "redactNode path (JsonList items) = (let (kept, changed) = redactList path items in (JsonList kept, changed))"
| "redactNode path (JsonMap members) = (let (kept, changed) = redactMap path members in (JsonMap kept, changed))"
| "redactList path [] = ([], False)"
| "redactList path (v # items) =
     (let (w, changed) = redactNode path v; (rest, more) = redactList path items in (w # rest, changed \<or> more))"
| "redactMap path [] = ([], False)"
| "redactMap path ((key, child) # members) =
     (let (rest, more) = redactMap path members;
          (kept, changed) = redactField path key child (redactNode (path @ [key]) child) in
      ((case kept of None \<Rightarrow> rest | Some w \<Rightarrow> (key, w) # rest), changed \<or> more))"

text \<open>The decoder of \<open>encoding/json\<close>, one value after the other, and its encoder.\<close>

datatype decodeStep = EndOfInput | Malformed string | Decoded documentTree string

record documentCodec =
  dx_Next :: "string \<Rightarrow> decodeStep"
  dx_Encode :: "documentTree \<Rightarrow> string result"

definition projectJSON :: "documentCodec \<Rightarrow> string \<Rightarrow> (string \<times> bool) result" where
  "projectJSON codec encoded =
     (case dx_Next codec encoded of
        EndOfInput \<Rightarrow> Inl ''EOF''
      | Malformed err \<Rightarrow> Inl err
      | Decoded document rest \<Rightarrow>
          (case dx_Next codec rest of
             Decoded _ _ \<Rightarrow> Inl ''JSON contains multiple values''
           | Malformed err \<Rightarrow> Inl err
           | EndOfInput \<Rightarrow>
               let (projected, changed) = redactNode [] document in
               map_sum id (\<lambda>t. (t, changed)) (dx_Encode codec projected)))"

definition RedactRaw :: "documentCodec \<Rightarrow> string \<Rightarrow> (string \<times> bool) result" where
  "RedactRaw codec raw =
     (if raw = [] then Inr (concat [[CHR 0x7B, CHR 0x22], ''redacted'', [CHR 0x22], '':true,'', [CHR 0x22], ''reason'',
          [CHR 0x22, CHR 0x3A, CHR 0x22], ''empty evidence'', [CHR 0x22, CHR 0x7D]], True)
      else case projectJSON codec raw of
          Inl err \<Rightarrow> Inl err
        | Inr (projected, changed) \<Rightarrow> Inr (if changed then (projected, changed) else (raw, False)))"

section \<open>Reports\<close>

record 'a projection =
  pj_Report :: 'a
  pj_Metadata :: PrivacyMetadata
  pj_Changed :: bool

text \<open>How a report is written to JSON and read back.\<close>

record 'a reportJSON =
  rj_Marshal :: "'a \<Rightarrow> string result"
  rj_Unmarshal :: "string \<Rightarrow> 'a result"

definition projectAs :: "string \<Rightarrow> documentCodec \<Rightarrow> 'a reportJSON \<Rightarrow> 'a \<Rightarrow> 'a projection result" where
  "projectAs what codec json source =
     (case rj_Marshal json source of
        Inl err \<Rightarrow> Inl (''marshal '' @ what @ '' for privacy projection: '' @ err)
      | Inr encoded \<Rightarrow>
          (case projectJSON codec encoded of
             Inl err \<Rightarrow> Inl (''redact '' @ what @ '': '' @ err)
           | Inr (projected, changed) \<Rightarrow>
               if \<not> changed then Inr \<lparr>pj_Report = source, pj_Metadata = DefaultPrivacyMetadata, pj_Changed = False\<rparr>
               else (case rj_Unmarshal json projected of
                   Inl err \<Rightarrow> Inl (''decode redacted '' @ what @ '': '' @ err)
                 | Inr report \<Rightarrow> Inr \<lparr>pj_Report = report, pj_Metadata = DefaultPrivacyMetadata, pj_Changed = changed\<rparr>)))"

definition ProjectReport :: "documentCodec \<Rightarrow> DiagnosticReport reportJSON \<Rightarrow> DiagnosticReport \<Rightarrow> DiagnosticReport projection result" where
  "ProjectReport codec json source = projectAs ''report'' codec json source"

definition ProjectBrowserCapture ::
    "documentCodec \<Rightarrow> BrowserCaptureReport reportJSON \<Rightarrow> BrowserCaptureReport \<Rightarrow> BrowserCaptureReport projection result" where
  "ProjectBrowserCapture codec json source = projectAs ''browser capture'' codec json source"

definition PrivacyPreview :: "documentCodec \<Rightarrow> DiagnosticReport reportJSON \<Rightarrow> DiagnosticReport \<Rightarrow> PrivacyMetadata result" where
  "PrivacyPreview codec json source = map_sum id pj_Metadata (ProjectReport codec json source)"

definition MarshalExportJSON :: "documentCodec \<Rightarrow> DiagnosticReport reportJSON \<Rightarrow> DiagnosticReport \<Rightarrow> string result" where
  "MarshalExportJSON codec json source =
     (case ProjectReport codec json source of Inl err \<Rightarrow> Inl err | Inr projection \<Rightarrow> rj_Marshal json (pj_Report projection))"

definition MarshalRedactedJSON :: "documentCodec \<Rightarrow> DiagnosticReport reportJSON \<Rightarrow> DiagnosticReport \<Rightarrow> string result" where
  "MarshalRedactedJSON codec json source =
     (case ProjectReport codec json source of Inl err \<Rightarrow> Inl err | Inr projection \<Rightarrow> rj_Marshal json (pj_Report projection))"

text \<open>\<open>addMetadata\<close> decodes the document, adds the field \<open>privacy\<close> and encodes it again.\<close>

definition MarshalBrowserCaptureJSON ::
    "documentCodec \<Rightarrow> BrowserCaptureReport reportJSON \<Rightarrow> (string \<Rightarrow> PrivacyMetadata \<Rightarrow> string result)
     \<Rightarrow> BrowserCaptureReport \<Rightarrow> string result" where
  "MarshalBrowserCaptureJSON codec json addMetadata source =
     (case ProjectBrowserCapture codec json source of
        Inl err \<Rightarrow> Inl err
      | Inr projection \<Rightarrow>
          (case rj_Marshal json (pj_Report projection) of
             Inl err \<Rightarrow> Inl (''marshal redacted browser capture: '' @ err)
           | Inr encoded \<Rightarrow> addMetadata encoded (pj_Metadata projection)))"

definition exportLine :: "string \<Rightarrow> string \<Rightarrow> string" where
  "exportLine name text' = ''# tadori_privacy_'' @ name @ ''='' @ text' @ [CHR 0x0A]"

definition exportHostnames :: "string list \<Rightarrow> string list" where
  "exportHostnames values = sortStrings (remdups (filter (\<lambda>v. v \<noteq> []) (map trimSpace values)))"

definition RenderFQDNExport :: "string list \<Rightarrow> string" where
  "RenderFQDNExport values =
     (let metadata = DefaultPrivacyMetadata in
      exportLine ''policy'' (pm_Policy metadata) @ exportLine ''version'' (pm_Version metadata)
      @ exportLine ''included'' (joinStr '','' (pm_Included metadata))
      @ exportLine ''redacted'' (joinStr '','' (pm_Redacted metadata))
      @ exportLine ''excluded'' (joinStr '','' (pm_Excluded metadata))
      @ concat (map (\<lambda>hostname. hostname @ [CHR 0x0A]) (exportHostnames values)))"

end
