(* ===== verification/PrivacyFacts.thy ===== *)
theory PrivacyFacts
  imports Privacy
begin

text \<open>
  What an exported document can no longer hold: a field that the policy excludes, the value of a field that
  it redacts, and the query or fragment of a URL field. And what it can still hold.
\<close>

section \<open>No query and no fragment\<close>

text \<open>An empty query may leave its question mark at the end.\<close>

definition noQuery :: "string \<Rightarrow> bool" where
  "noQuery s \<longleftrightarrow> CHR ''#'' \<notin> set s \<and> CHR ''?'' \<notin> set (butlast s)"

definition plainText :: "string \<Rightarrow> bool" where
  "plainText s \<longleftrightarrow> CHR ''#'' \<notin> set s \<and> CHR ''?'' \<notin> set s"

lemma plainText_append [simp]: "plainText (a @ b) \<longleftrightarrow> plainText a \<and> plainText b"
  by (auto simp: plainText_def)

lemma plainText_Cons: "plainText (c # s) \<longleftrightarrow> c \<noteq> CHR ''#'' \<and> c \<noteq> CHR ''?'' \<and> plainText s"
  by (auto simp: plainText_def)

lemma plainText_noQuery: "plainText s \<Longrightarrow> noQuery s" "plainText s \<Longrightarrow> noQuery (s @ ''?'')"
  by (auto simp: plainText_def noQuery_def butlast_append dest: in_set_butlastD)

lemma mark_bytes: "byteOf (CHR ''#'') = 35" "byteOf (CHR ''?'') = 63"
  by (simp_all add: byteOf_def)

lemma plain_bytes: "plainText s \<longleftrightarrow> (\<forall>c \<in> set s. byteOf c \<noteq> 35 \<and> byteOf c \<noteq> 63)"
  unfolding plainText_def by (metis mark_bytes byteOf_inject)

lemma hex_digits: "n < 16 \<Longrightarrow> byteOf (upperHexDigit n) \<noteq> 35 \<and> byteOf (upperHexDigit n) \<noteq> 63"
  by (auto simp: upperHexDigit_def)

lemma escape_plain:
  assumes "\<And>c. byteOf c = 35 \<or> byteOf c = 63 \<Longrightarrow> shouldEscape c mode"
  shows "plainText (urlEscape mode s)"
proof -
  have "plainText (if shouldEscape d mode then [CHR ''%'', upperHexDigit (byteOf d div 16), upperHexDigit (byteOf d mod 16)] else [d])" for d
  proof (cases "shouldEscape d mode")
    case True
    have "byteOf d div 16 < 16" "byteOf d mod 16 < 16" using byteOf_less [of d] by linarith+
    moreover have "byteOf (CHR ''%'') = 37" by (simp add: byteOf_def)
    ultimately show ?thesis using True hex_digits by (simp add: plain_bytes)
  next
    case False
    then show ?thesis using assms [of d] by (auto simp: plain_bytes)
  qed
  then show ?thesis unfolding urlEscape_def by (induction s) (simp_all add: plainText_def)
qed

lemma mark_byte: "byteOf c = 35 \<or> byteOf c = 63 \<Longrightarrow> c = CHR ''#'' \<or> c = CHR ''?''"
  by (metis mark_bytes byteOf_inject)

lemma marks_escaped: "shouldEscape (CHR ''#'') EncodePath \<and> shouldEscape (CHR ''?'') EncodePath
    \<and> shouldEscape (CHR ''#'') EncodeHost \<and> shouldEscape (CHR ''?'') EncodeHost"
  by code_simp

lemma escaped: "plainText (urlEscape EncodePath s)" "plainText (urlEscape EncodeHost s)"
  using mark_byte marks_escaped by (blast intro: escape_plain)+

lemma setPath_plain: "urlSetPath p = Some e \<Longrightarrow> plainText e"
proof -
  assume "urlSetPath p = Some e"
  then obtain path where e: "e = (if validEncodedPath p then p else urlEscape EncodePath path)"
    unfolding urlSetPath_def by (cases "urlUnescape EncodePath p") auto
  have "plainText p" if "validEncodedPath p"
  proof -
    have "CHR ''#'' \<notin> set (CHR 0x27 # ''!$&()*+,;=:@[]%'')" "CHR ''?'' \<notin> set (CHR 0x27 # ''!$&()*+,;=:@[]%'')" by simp_all
    then show ?thesis using that marks_escaped unfolding validEncodedPath_def plainText_def list_all_iff by blast
  qed
  then show ?thesis using e escaped(1) by simp
qed

lemma schemeChar_plain: "isLowerC c \<or> isUpperC c \<or> isDigitC c \<or> c \<in> set ''+-.'' \<Longrightarrow> byteOf c \<noteq> 35 \<and> byteOf c \<noteq> 63"
  by (auto simp: isLowerC_def isUpperC_def isDigitC_def byteOf_def)

lemma scheme_plain:
  "urlScheme raw pre s = Some (scheme, rest) \<Longrightarrow> plainText pre \<Longrightarrow> plainText scheme"
proof (induction raw pre s rule: urlScheme.induct)
  case (1 raw pre)
  then show ?case by (simp add: plainText_def)
next
  case (2 raw pre c s)
  have pre: "plainText (pre @ [c])" if "isLowerC c \<or> isUpperC c \<or> isDigitC c \<or> c \<in> set ''+-.''"
    using schemeChar_plain [OF that] 2(4) by (simp add: plain_bytes)
  consider "isLowerC c \<or> isUpperC c" | "\<not> (isLowerC c \<or> isUpperC c)" "isDigitC c \<or> c \<in> set ''+-.''"
    | "\<not> (isLowerC c \<or> isUpperC c)" "\<not> (isDigitC c \<or> c \<in> set ''+-.'')" by blast
  then show ?case
  proof cases
    case 1
    then show ?thesis using 2(1) [OF 1 _ pre] 2(3) by auto
  next
    case scheme: 2
    show ?thesis
    proof (cases "pre = []")
      case True
      then show ?thesis using scheme 2(3) by (auto simp: plainText_def)
    next
      case False
      then show ?thesis using 2(2) [OF scheme False _ pre] 2(3) scheme by auto
    qed
  next
    case 3
    then show ?thesis using 2(3,4) by (auto simp: plainText_def split: if_splits)
  qed
qed

lemma toLower_plain: "plainText s \<Longrightarrow> plainText (toLower s)"
proof -
  have "byteOf (toLowerC c) \<in> {35, 63} \<longleftrightarrow> byteOf c \<in> {35, 63}" for c by (auto simp: byteOf_toLowerC isUpperC_def)
  then show "plainText s \<Longrightarrow> plainText (toLower s)" by (auto simp: plain_bytes toLower_def)
qed

section \<open>A URL\<close>

lemma cutByte_first: "c \<notin> set (fst (cutByte c s))" "set (fst (cutByte c s)) \<subseteq> set s"
  by (induction s) (auto split: prod.splits)

lemma urlScheme_rest: "urlScheme raw pre s = Some (scheme, rest) \<Longrightarrow> set rest \<subseteq> set s \<union> set raw"
  by (induction raw pre s rule: urlScheme.induct) (auto split: if_splits)

lemma urlParse_plain:
  assumes "urlParse raw = Some u"
  shows "plainText (urlSchemeOf u)" "plainText (urlEscapedPath u)"
proof -
  have part: "plainText (urlSchemeOf r) \<and> plainText (urlEscapedPath r)" if r: "urlParseNoFragment t = Some r" for t r
  proof -
    have star: "plainText ''*''" by (simp add: plainText_def)
    have empty: "plainText []" by (simp add: plainText_def)
    show ?thesis
    proof (cases "t = ''*''")
      case True
      then show ?thesis using r star empty by (auto simp: urlParseNoFragment_def split: if_splits)
    next
      case False
      then obtain scheme rest where scheme: "urlScheme t [] t = Some (scheme, rest)"
        using r by (cases "urlScheme t [] t") (auto simp: urlParseNoFragment_def split: if_splits)
      have lower: "plainText (toLower scheme)" using toLower_plain [OF scheme_plain [OF scheme empty]] .
      have "urlSchemeOf r = toLower scheme \<and> (urlEscapedPath r = [] \<or> (\<exists>p. urlSetPath p = Some (urlEscapedPath r)))"
        using r False scheme unfolding urlParseNoFragment_def
        by (auto simp: Let_def split: if_splits prod.splits option.splits)
      then show ?thesis using lower setPath_plain empty by auto
    qed
  qed
  obtain r where r: "urlParseNoFragment (fst (cutByte CHR ''#'' raw)) = Some r"
    using assms by (cases "urlParseNoFragment (fst (cutByte CHR ''#'' raw))") (auto simp: urlParse_def split: prod.splits)
  have "urlSchemeOf u = urlSchemeOf r \<and> urlEscapedPath u = urlEscapedPath r"
    using assms r by (auto simp: urlParse_def split: prod.splits option.splits if_splits)
  then show "plainText (urlSchemeOf u)" "plainText (urlEscapedPath u)" using part [OF r] by simp_all
qed

lemma opaque_plain: "plainText (urlOpaque raw)"
proof -
  let ?u = "fst (cutByte CHR ''#'' raw)"
  show ?thesis
  proof (cases "urlScheme ?u [] ?u")
    case None
    then show ?thesis by (simp add: urlOpaque_def urlRest_def plainText_def)
  next
    case (Some parts)
    obtain scheme rest where parts: "parts = (scheme, rest)" by (cases parts)
    have "CHR ''#'' \<notin> set rest" using urlScheme_rest [OF Some [unfolded parts]] cutByte_first(1) [of "CHR ''#''" raw] by auto
    then have "plainText (fst (cutByte CHR ''?'' rest))"
      using cutByte_first [of "CHR ''?''" rest] by (auto simp: plainText_def)
    then show ?thesis using Some parts by (simp add: urlOpaque_def urlRest_def plainText_def)
  qed
qed

lemma cleared_plain:
  assumes "urlParse raw = Some u" "plainText path"
  shows "noQuery (urlClearedText raw u path)"
proof -
  have literal: "plainText ''/''" "plainText ''//''" "plainText '':''" "plainText ''./''" "plainText []" by (simp_all add: plainText_def)
  have "plainText (urlClearedBase raw u path)"
    using urlParse_plain(1) [OF assms(1)] opaque_plain [of raw] escaped(2) assms(2) literal
    by (simp add: urlClearedBase_def Let_def plainText_Cons)
  then show ?thesis using plainText_noQuery by (simp add: urlClearedText_def)
qed

lemma strip_plain: "plainText (stripQueryAndFragment v)"
  by (auto simp: plainText_def stripQueryAndFragment_def dest: set_takeWhileD)

lemma redacted_plain: "plainText redactedValue"
  by (simp add: redactedValue_def plainText_def)

lemma redactURL_clean: "noQuery (redactURL v)"
proof -
  have "noQuery []" by (simp add: noQuery_def)
  moreover have "noQuery (urlClearedText v parsed (if b then urlEscape EncodePath redactedValue else urlEscapedPath parsed))"
    if "urlParse v = Some parsed" for parsed b
    using cleared_plain [OF that] urlParse_plain(2) [OF that] escaped(1) by simp
  ultimately show ?thesis using strip_plain redacted_plain plainText_noQuery(1)
    unfolding redactURL_def Let_def by (auto split: option.split)
qed

section \<open>A document\<close>

text \<open>What the policy promises of a document, given the field that the value stands in.\<close>

fun safeNode :: "string \<Rightarrow> documentTree \<Rightarrow> bool"
and safeList :: "string \<Rightarrow> documentTree list \<Rightarrow> bool"
and safeMap :: "(string \<times> documentTree) list \<Rightarrow> bool" where
  "safeNode field (JsonText s) \<longleftrightarrow> (isURLField field \<longrightarrow> noQuery s)"
| "safeNode field (JsonList items) \<longleftrightarrow> safeList field items"
| "safeNode field (JsonMap members) \<longleftrightarrow> safeMap members"
| "safeNode field _ \<longleftrightarrow> True"
| "safeList field [] \<longleftrightarrow> True"
| "safeList field (v # items) \<longleftrightarrow> safeNode field v \<and> safeList field items"
| "safeMap [] \<longleftrightarrow> True"
| "safeMap ((key, child) # members) \<longleftrightarrow>
     fieldDisposition (normalizedField key) \<noteq> FieldExclude
     \<and> (fieldDisposition (normalizedField key) = FieldRedact \<longrightarrow> child = JsonText redactedValue)
     \<and> safeNode (normalizedField key) child \<and> safeMap members"

lemma raw_field: "fieldDisposition ''raw'' = FieldKeep \<and> \<not> isURLField ''raw''"
  by code_simp

lemma evidence_fields: "safeMap [(''redacted'', JsonBool True), (''reason'', JsonText ''empty evidence'')]"
  by code_simp

lemma lastPathField_snoc [simp]: "lastPathField (path @ [key]) = normalizedField key"
  by (simp add: lastPathField_def)

lemma redactString_safe: "isURLField field \<Longrightarrow> noQuery (redactString field s)"
  by (simp add: redactString_def redactURL_clean)

lemma redactField_safe:
  assumes "redactField path key child redacted = (Some w, changed)" "safeNode (normalizedField key) (fst redacted)"
  shows "safeMap [(key, w)]"
proof (cases "isEvidenceRawField path (normalizedField key)")
  case True
  then have raw: "normalizedField key = ''raw''" by (simp add: isEvidenceRawField_def)
  then have key: "safeMap [(key, v)] = safeNode ''raw'' v" for v using raw_field by simp
  obtain v more where redacted: "redacted = (v, more)" by (cases redacted)
  show ?thesis using assms True evidence_fields raw_field unfolding key
    by (cases child) (auto simp: redactField_def raw emptyEvidence_def redacted)
next
  case False
  then show ?thesis using assms redacted_plain plainText_noQuery(1)
    by (cases redacted; cases "fieldDisposition (normalizedField key)") (auto simp: redactField_def Let_def)
qed

lemma redactField_unchanged:
  assumes "redactField path key child redacted = (kept, False)" "\<not> snd redacted \<Longrightarrow> fst redacted = child"
  shows "kept = Some child"
  using assms by (cases redacted; cases child) (auto simp: redactField_def Let_def split: if_splits)

lemma redact_safe:
  "safeNode (lastPathField path) (fst (redactNode path v))"
  "safeList (lastPathField path) (fst (redactList path items))"
  "safeMap (fst (redactMap path members))"
proof (induction path v and path items and path members rule: redactNode_redactList_redactMap.induct)
  case (10 path key child members)
  obtain rest more where parts: "redactMap path members = (rest, more)" by (metis surj_pair)
  obtain kept changed where field: "redactField path key child (redactNode (path @ [key]) child) = (kept, changed)"
    by (metis surj_pair)
  have "safeNode (normalizedField key) (fst (redactNode (path @ [key]) child))" using 10(2) [OF parts [symmetric] refl] by simp
  then have "safeMap [(key, w)]" if "kept = Some w" for w using redactField_safe field that by blast
  moreover have "safeMap rest" using 10(1) parts by simp
  moreover have "safeMap ((key, w) # rest) \<longleftrightarrow> safeMap [(key, w)] \<and> safeMap rest" for w by simp
  ultimately show ?case using parts field by (cases kept) (simp_all del: safeMap.simps)
qed (auto simp: Let_def redactString_safe split: prod.splits)

lemma redact_unchanged:
  "\<not> snd (redactNode path v) \<Longrightarrow> fst (redactNode path v) = v"
  "\<not> snd (redactList path items) \<Longrightarrow> fst (redactList path items) = items"
  "\<not> snd (redactMap path members) \<Longrightarrow> fst (redactMap path members) = members"
proof (induction path v and path items and path members rule: redactNode_redactList_redactMap.induct)
  case (10 path key child members)
  obtain rest more where parts: "redactMap path members = (rest, more)" by (metis surj_pair)
  obtain kept changed where field: "redactField path key child (redactNode (path @ [key]) child) = (kept, changed)"
    by (metis surj_pair)
  have same: "\<not> changed" "\<not> more" using 10(3) parts field by simp_all
  have "kept = Some child"
    by (rule redactField_unchanged) (use field same(1) 10(2) [OF parts [symmetric] refl] in simp_all)
  moreover have "rest = members" using 10(1) parts same(2) by simp
  ultimately show ?case using parts field by simp
qed (simp_all add: Let_def split: prod.splits)

section \<open>What is still exported\<close>

text \<open>User information survives in an authority without a scheme and in a URL that does not parse.\<close>

named_theorems rx_defs

lemmas rx_unfold [rx_defs] = credentialWord_def credentialRest_def embeddedURLPattern_def windowsUser_def windowsPathPattern_def
  profileRoot_def unixProfilePathPattern_def localAbsolutePathPattern_def rxOpt_def rxPlus_def rxSeqs_def rxAlts_def
  rxIn_def rxNotIn_def rxText_def rxFold_def rxLetter_def rxSpaces_def rxSlashes_def rxQuotes_def rxMatches_def
  prevAfter_def

lemmas byte_unfold [rx_defs] = isLowerC_def toLowerC_def isUpperC_def isDigitC_def isControlC_def byteOf_def

lemma authority_leak: "redactURL ''a:b@c'' = ''a:b@c''"
proof -
  let ?v = "''a:b@c''"
  have "\<not> rxMatches localAbsolutePathPattern ?v" "\<not> rxMatches windowsPathPattern ?v" "\<not> rxMatches unixProfilePathPattern ?v"
    by (simp_all add: rx_defs)
  moreover have "urlParse ?v = Some \<lparr>urlSchemeOf = ''a'', urlHasUser = False, urlHost = [], urlEscapedPath = [],
      urlRawQuery = [], urlFragment = []\<rparr>" "urlOpaque ?v = ''b@c''" "\<not> urlForceQuery ?v"
    by code_simp+
  ultimately show ?thesis by (simp add: redactURL_def urlClearedText_def urlClearedBase_def urlDecodedPath_def hasPrefix_def)
qed

lemma unparsed_leak: "redactURL ''https://b:%z@h/?q'' = ''https://b:%z@h/''"
proof -
  let ?v = "''https://b:%z@h/?q''"
  have "\<not> rxMatches localAbsolutePathPattern ?v" "\<not> rxMatches windowsPathPattern ?v" "\<not> rxMatches unixProfilePathPattern ?v"
    by (simp_all add: rx_defs)
  moreover have "urlParse ?v = None" by code_simp
  ultimately show ?thesis by (simp add: redactURL_def stripQueryAndFragment_def hasPrefix_def)
qed

lemma upper_case_leak: "rxEnds embeddedURLPattern p ''HTTPS://bob:pw@h/'' = []"
  by (simp add: rx_defs)

section \<open>Properties\<close>

text \<open>Whatever text stands in a URL field - a URL, a path, an opaque or a malformed text - its redaction keeps no
  fragment and no query; at most the mark of an empty query is left at the end.\<close>

theorem redactURL_no_query: "CHR ''#'' \<notin> set (redactURL v) \<and> CHR ''?'' \<notin> set (butlast (redactURL v))"
  using redactURL_clean [of v] by (simp add: noQuery_def)

text \<open>C35: A report that is exported comes from a document without excluded fields, with the mark in the place of
  every redacted field, and without a query or fragment in any URL field at any depth; a report that is returned as it
  was is one whose document was all of this already.\<close>

theorem exported_report_safe:
  assumes "ProjectReport codec json source = Inr projection"
  shows "\<exists>encoded document rest safe. rj_Marshal json source = Inr encoded \<and> dx_Next codec encoded = Decoded document rest
    \<and> dx_Next codec rest = EndOfInput \<and> safeNode [] safe
    \<and> (if pj_Changed projection
       then \<exists>projected. dx_Encode codec safe = Inr projected \<and> rj_Unmarshal json projected = Inr (pj_Report projection)
       else safe = document \<and> pj_Report projection = source)
    \<and> pj_Metadata projection = DefaultPrivacyMetadata"
proof -
  obtain encoded where encoded: "rj_Marshal json source = Inr encoded"
    using assms by (auto simp: ProjectReport_def projectAs_def split: sum.splits)
  obtain projected changed where projected: "projectJSON codec encoded = Inr (projected, changed)"
    using assms encoded by (auto simp: ProjectReport_def projectAs_def split: sum.splits)
  obtain document rest where document: "dx_Next codec encoded = Decoded document rest" "dx_Next codec rest = EndOfInput"
    and node: "dx_Encode codec (fst (redactNode [] document)) = Inr projected" "changed = snd (redactNode [] document)"
    using projected by (auto simp: projectJSON_def map_sum_def split: decodeStep.splits prod.splits sum.splits)
  have "safeNode [] (fst (redactNode [] document))" using redact_safe(1) [of "[]"] by (simp add: lastPathField_def)
  moreover have "pj_Changed projection = changed \<and> pj_Metadata projection = DefaultPrivacyMetadata
      \<and> (if changed then rj_Unmarshal json projected = Inr (pj_Report projection) else pj_Report projection = source)"
    using assms encoded projected by (auto simp: ProjectReport_def projectAs_def split: sum.splits if_splits)
  ultimately show ?thesis using encoded document node redact_unchanged(1) by (intro exI [of _ encoded] exI [of _ document]
      exI [of _ rest] exI [of _ "fst (redactNode [] document)"]) auto
qed

definition redactionCodec :: documentCodec where
  "redactionCodec = \<lparr>dx_Next = (\<lambda>s. if s = ''x'' then Decoded (JsonMap [(''Token'', JsonText ''t'')]) [] else EndOfInput),
     dx_Encode = (\<lambda>v. if v = JsonMap [] then Inr ''y'' else Inl [])\<rparr>"

definition sampleJSON :: "DiagnosticReport reportJSON" where
  "sampleJSON = \<lparr>rj_Marshal = (\<lambda>r. Inr ''x''), rj_Unmarshal = (\<lambda>t. Inr zero_DiagnosticReport)\<rparr>"

theorem exported_report_safe_witness:
  "\<exists>safe. safeNode [] safe \<and> dx_Encode redactionCodec safe = Inr ''y''"
proof -
  let ?projection = "\<lparr>pj_Report = zero_DiagnosticReport, pj_Metadata = DefaultPrivacyMetadata, pj_Changed = True\<rparr>"
  have "redactNode [] (JsonMap [(''Token'', JsonText ''t'')]) = (JsonMap [], True)"
  proof -
    have "normalizedField ''Token'' = ''token''" "fieldDisposition ''token'' = FieldExclude" by code_simp+
    then show ?thesis by (simp add: redactField_def isEvidenceRawField_def Let_def split: prod.split)
  qed
  then have "projectJSON redactionCodec ''x'' = Inr (''y'', True)" by (simp add: projectJSON_def redactionCodec_def)
  then have "ProjectReport redactionCodec sampleJSON zero_DiagnosticReport = Inr ?projection"
    by (simp add: ProjectReport_def projectAs_def sampleJSON_def)
  from exported_report_safe [OF this] show ?thesis
    by (auto simp: redactionCodec_def split: if_splits)
qed

end
