(* ===== verification/PathGraph.thy ===== *)
theory PathGraph
  imports ModelTypes GoStrings
begin

text \<open>
  \<open>internal/web/path_graph.go\<close>: the graph that the browser shows for one path observation. A graph is
  built stage by stage: the vantage, one stage for each hop with responders or for each run of silent hops,
  and the destination; then the edges between consecutive stages. Identifiers are taken to hold ASCII: any
  other byte counts as a letter.
\<close>

section \<open>Kinds, roles and records\<close>

definition pathGraphNodeVantage :: string where [go_consts]: "pathGraphNodeVantage = ''probe_vantage''"
definition pathGraphNodeResponder :: string where [go_consts]: "pathGraphNodeResponder = ''responder''"
definition pathGraphNodeUnobservableRange :: string where [go_consts]: "pathGraphNodeUnobservableRange = ''unobservable_range''"
definition pathGraphNodeUnknownRange :: string where [go_consts]: "pathGraphNodeUnknownRange = ''unknown_range''"
definition pathGraphNodeDestination :: string where [go_consts]: "pathGraphNodeDestination = ''destination_confirmation''"
definition pathGraphGroupVantage :: string where [go_consts]: "pathGraphGroupVantage = ''probe_vantage''"
definition pathGraphGroupHop :: string where [go_consts]: "pathGraphGroupHop = ''ttl_hop''"
definition pathGraphGroupUnobservable :: string where [go_consts]: "pathGraphGroupUnobservable = ''unobservable_range''"
definition pathGraphGroupUnknown :: string where [go_consts]: "pathGraphGroupUnknown = ''unknown_range''"
definition pathGraphGroupDestination :: string where [go_consts]: "pathGraphGroupDestination = ''destination_confirmation''"
definition pathGraphEdgeObservationOrder :: string where [go_consts]: "pathGraphEdgeObservationOrder = ''observation_order''"
definition pathGraphEdgeUnobservable :: string where [go_consts]: "pathGraphEdgeUnobservable = ''unobservable_visibility''"
definition pathGraphEdgeBoundedInference :: string where [go_consts]: "pathGraphEdgeBoundedInference = ''bounded_inference''"
definition pathGraphEdgeDestinationConfirm :: string where [go_consts]: "pathGraphEdgeDestinationConfirm = ''destination_confirmation''"
definition pathGraphRoleVantage :: string where [go_consts]: "pathGraphRoleVantage = ''probe_vantage''"
definition pathGraphRoleIntermediate :: string where [go_consts]: "pathGraphRoleIntermediate = ''intermediate_responder''"
definition pathGraphRoleDestinationResponder :: string where [go_consts]: "pathGraphRoleDestinationResponder = ''destination_responder''"
definition pathGraphRoleUnobservable :: string where [go_consts]: "pathGraphRoleUnobservable = ''unobservable_range''"
definition pathGraphRoleUnknown :: string where [go_consts]: "pathGraphRoleUnknown = ''unknown_range''"
definition pathGraphRoleDestination :: string where [go_consts]: "pathGraphRoleDestination = ''destination_confirmation''"

record PathGraphNodeView =
  pgn_ID :: string
  pgn_Kind :: string
  pgn_Role :: string
  pgn_TTL :: "8 word"
  pgn_TTLFrom :: "8 word"
  pgn_TTLTo :: "8 word"
  pgn_State :: PathHopState
  pgn_Tone :: string
  pgn_Label :: string
  pgn_Detail :: string
  pgn_Attempts :: int
  pgn_Address :: string
  pgn_RTTMS :: int
  pgn_Response :: string
  pgn_Protocol :: PathProtocol
  pgn_Destination :: string
  pgn_DestinationPort :: "16 word"
  pgn_PortAware :: bool
  pgn_Certainty :: ObservationCertainty
  pgn_DestinationConfirmed :: bool
  pgn_DestinationTCPConnected :: bool
  pgn_EvidenceIDs :: "string list"
  pgn_Provenance :: "string list"
  pgn_Limitations :: "string list"

record PathGraphEdgeView =
  pge_ID :: string
  pge_From :: string
  pge_To :: string
  pge_Kind :: string
  pge_Label :: string
  pge_Detail :: string
  pge_FromTTL :: "8 word"
  pge_ToTTL :: "8 word"
  pge_SegmentKinds :: "PathSegmentKind list"
  pge_EvidenceIDs :: "string list"
  pge_Limitations :: "string list"

record PathGraphGroupView =
  pgg_ID :: string
  pgg_Kind :: string
  pgg_FromTTL :: "8 word"
  pgg_ToTTL :: "8 word"
  pgg_State :: PathHopState
  pgg_Label :: string
  pgg_Detail :: string
  pgg_NodeIDs :: "string list"
  pgg_SegmentKinds :: "PathSegmentKind list"
  pgg_EvidenceIDs :: "string list"
  pgg_Limitations :: "string list"

record PathGraphView =
  pgv_ID :: string
  pgv_Supported :: bool
  pgv_Protocol :: PathProtocol
  pgv_ProtocolLabel :: string
  pgv_Destination :: string
  pgv_DestinationPort :: "16 word"
  pgv_PortAware :: bool
  pgv_ObservationStatus :: PathObservationStatus
  pgv_ObservationTone :: string
  pgv_ObservationLabel :: string
  pgv_DestinationReached :: bool
  pgv_DestinationTCPConnected :: bool
  pgv_Certainty :: ObservationCertainty
  pgv_EvidenceIDs :: "string list"
  pgv_Provenance :: "string list"
  pgv_Limitations :: "string list"
  pgv_Nodes :: "PathGraphNodeView list"
  pgv_Edges :: "PathGraphEdgeView list"
  pgv_Groups :: "PathGraphGroupView list"

record pathGraphLayer =
  pgl_kind :: string
  pgl_role :: string
  pgl_fromTTL :: "8 word"
  pgl_toTTL :: "8 word"
  pgl_state :: PathHopState
  pgl_nodeIDs :: "string list"

section \<open>Labels and tones\<close>

definition labelForProtocol :: "PathProtocol \<Rightarrow> string" where
  "labelForProtocol protocol =
     (if protocol = PathProtocolICMP then ''ICMP'' else if protocol = PathProtocolTCP then ''TCP''
      else if protocol = PathProtocolUDP then ''UDP'' else ''Unknown protocol'')"

definition toneForPathStatus :: "PathObservationStatus \<Rightarrow> string" where
  "toneForPathStatus status =
     (if status = PathObservationStatusObserved then ''positive''
      else if status = PathObservationStatusUnsupported then ''warning''
      else if status = PathObservationStatusError then ''negative'' else ''neutral'')"

definition labelForPathStatus :: "PathObservationStatus \<Rightarrow> string" where
  "labelForPathStatus status =
     (if status = PathObservationStatusObserved then ''Observed''
      else if status = PathObservationStatusUnsupported then ''Unsupported''
      else if status = PathObservationStatusError then ''Error'' else ''Unknown'')"

definition ttlText :: "8 word \<Rightarrow> string" where "ttlText ttl = itoa (unat ttl)"

text \<open>The range is written with an en dash, three bytes of UTF-8.\<close>

definition ttlRangeText :: "8 word \<Rightarrow> 8 word \<Rightarrow> string" where
  "ttlRangeText fromTTL toTTL =
     (if fromTTL = toTTL then ttlText fromTTL
      else ttlText fromTTL @ [CHR 0xE2, CHR 0x80, CHR 0x93] @ ttlText toTTL)"

definition unobservableRangeDetail :: "8 word \<Rightarrow> 8 word \<Rightarrow> string" where
  "unobservableRangeDetail fromTTL toTTL =
     ''No responder was observed for TTL '' @ ttlRangeText fromTTL toTTL @ ''; this is not packet loss.''"

definition pathDestinationNodeState :: "bool \<Rightarrow> PathHopState" where
  "pathDestinationNodeState confirmed = (if confirmed then PathHopStateObserved else PathHopStateUnknown)"

definition pathDestinationNodeCertainty :: "bool \<Rightarrow> bool \<Rightarrow> ObservationCertainty" where
  "pathDestinationNodeCertainty confirmed supported =
     (if \<not> supported then ObservationCertaintyUnsupported
      else if confirmed then ObservationCertaintyObserved else ObservationCertaintyUnknown)"

definition graphNodeTone :: "string \<Rightarrow> bool \<Rightarrow> string" where
  "graphNodeTone kind destinationConfirmed =
     (if kind = pathGraphNodeResponder then ''positive''
      else if kind = pathGraphNodeDestination then if destinationConfirmed then ''positive'' else ''neutral''
      else ''neutral'')"

definition pathGraphEdgeLabel :: "string \<Rightarrow> string" where
  "pathGraphEdgeLabel kind =
     (if kind = pathGraphEdgeUnobservable then ''Unobservable visibility''
      else if kind = pathGraphEdgeBoundedInference then ''Bounded inferred progression''
      else if kind = pathGraphEdgeDestinationConfirm then ''Destination confirmation'' else ''Observed order'')"

definition pathGraphEdgeDetail :: "string \<Rightarrow> string" where
  "pathGraphEdgeDetail kind =
     (if kind = pathGraphEdgeUnobservable
      then ''The sequence crosses a TTL range without a responder; this is not packet loss or an invented device.''
      else if kind = pathGraphEdgeBoundedInference
      then ''The edge records bounded TTL progression between observations, not an exact physical link.''
      else if kind = pathGraphEdgeDestinationConfirm
      then ''Destination confirmation is a separate reachability and port-state observation.''
      else ''The edge records canonical observation order, not physical topology.'')"

definition pathObservationCertainty :: "PathObservation \<Rightarrow> ObservationCertainty" where
  "pathObservationCertainty observation =
     (if pto_Status observation = PathObservationStatusObserved then ObservationCertaintyObserved
      else if pto_Status observation = PathObservationStatusUnsupported then ObservationCertaintyUnsupported
      else ObservationCertaintyUnknown)"

section \<open>Order\<close>

definition orderedPathHops :: "PathHop list \<Rightarrow> PathHop list" where
  "orderedPathHops hops = sortBy (\<lambda>a b. pth_TTL a < pth_TTL b) hops"

definition orderedPathSegments :: "PathSegment list \<Rightarrow> PathSegment list" where
  "orderedPathSegments segments = sortBy (\<lambda>a b.
     if pts_FromTTL a \<noteq> pts_FromTTL b then pts_FromTTL a < pts_FromTTL b
     else if pts_ToTTL a \<noteq> pts_ToTTL b then pts_ToTTL a < pts_ToTTL b
     else pts_Kind a < pts_Kind b) segments"

definition orderedPathResponders :: "PathResponder list \<Rightarrow> PathResponder list" where
  "orderedPathResponders responders = sortBy (\<lambda>left right.
     if ptr_Address left \<noteq> ptr_Address right then ptr_Address left < ptr_Address right
     else if ptr_Response left \<noteq> ptr_Response right then ptr_Response left < ptr_Response right
     else if ptr_RTTMS left \<noteq> ptr_RTTMS right then ptr_RTTMS left < ptr_RTTMS right
     else \<not> ptr_DestinationReached left \<and> ptr_DestinationReached right) responders"

definition contiguousTTL :: "8 word \<Rightarrow> 8 word \<Rightarrow> bool" where
  "contiguousTTL left right \<longleftrightarrow> unat right = unat left + 1"

section \<open>Segments\<close>

definition containsPathSegmentKind :: "PathSegmentKind list \<Rightarrow> PathSegmentKind \<Rightarrow> bool" where
  "containsPathSegmentKind kinds want \<longleftrightarrow> want \<in> set kinds"

definition graphSegmentKindsForRange :: "PathSegment list \<Rightarrow> 8 word \<Rightarrow> 8 word \<Rightarrow> PathSegmentKind list" where
  "graphSegmentKindsForRange segments fromTTL toTTL =
     (if fromTTL = 0 \<and> toTTL = 0 then []
      else sortStrings (fold (\<lambda>segment kinds.
        if pts_ToTTL segment < fromTTL \<or> toTTL < pts_FromTTL segment then kinds
        else if \<not> containsPathSegmentKind kinds (pts_Kind segment) then kinds @ [pts_Kind segment] else kinds) segments []))"

definition graphSegmentKindsBetween :: "PathSegment list \<Rightarrow> 8 word \<Rightarrow> 8 word \<Rightarrow> PathSegmentKind list" where
  "graphSegmentKindsBetween segments fromTTL toTTL =
     (if fromTTL = 0 \<or> toTTL = 0 then []
      else if toTTL < fromTTL then graphSegmentKindsForRange segments toTTL fromTTL
      else graphSegmentKindsForRange segments fromTTL toTTL)"

section \<open>Identifiers\<close>

definition tokenChar :: "char \<Rightarrow> bool" where
  "tokenChar c \<longleftrightarrow> isLowerC c \<or> isUpperC c \<or> isDigitC c \<or> c \<in> set ''-_.'' \<or> 127 < byteOf c"

definition graphToken :: "string \<Rightarrow> string" where
  "graphToken given =
     (if given = [] then ''none'' else trimSet ''-'' (map (\<lambda>c. if tokenChar c then c else CHR ''-'') given))"

definition pathGraphID :: "PathObservation \<Rightarrow> string list \<Rightarrow> string" where
  "pathGraphID observation evidenceIDs =
     (let parts = [pto_Protocol observation, pto_Destination observation, itoa (unat (pto_DestinationPort observation))]
        @ (case evidenceIDs of first # _ \<Rightarrow> if first \<noteq> [] then [first] else [] | [] \<Rightarrow> [])
      in ''path-'' @ joinStr ''-'' (map graphToken parts))"

definition graphNodeIDExists :: "string \<Rightarrow> PathGraphNodeView list \<Rightarrow> bool" where
  "graphNodeIDExists nodeID nodes \<longleftrightarrow> nodeID \<in> pgn_ID ` set nodes"

definition suffixedID :: "string \<Rightarrow> nat \<Rightarrow> string" where
  "suffixedID base suffix = base @ ''-'' @ itoa suffix"

function nextGraphNodeID :: "string \<Rightarrow> PathGraphNodeView list \<Rightarrow> nat \<Rightarrow> string" where
  "nextGraphNodeID base nodes suffix =
     (if graphNodeIDExists (suffixedID base suffix) nodes then nextGraphNodeID base nodes (Suc suffix)
      else suffixedID base suffix)"
  by pat_completeness auto

lemma taken_suffixes_finite: "finite {k. n \<le> k \<and> graphNodeIDExists (suffixedID base k) nodes}"
proof (rule finite_subset)
  show "{k. n \<le> k \<and> graphNodeIDExists (suffixedID base k) nodes} \<subseteq> suffixedID base -` (pgn_ID ` set nodes)"
    by (auto simp: graphNodeIDExists_def)
  show "finite (suffixedID base -` (pgn_ID ` set nodes))"
    by (rule finite_vimageI) (simp_all add: inj_on_def suffixedID_def itoa_inject)
qed

text \<open>The search ends: the suffixes that are taken are finite in number and each round passes one.\<close>

termination nextGraphNodeID
proof (relation "measure (\<lambda>(base, nodes, suffix). card {k. suffix \<le> k \<and> graphNodeIDExists (suffixedID base k) nodes})")
  fix base suffix and nodes :: "PathGraphNodeView list"
  let ?taken = "\<lambda>n. {k. n \<le> k \<and> graphNodeIDExists (suffixedID base k) nodes}"
  assume "graphNodeIDExists (suffixedID base suffix) nodes"
  then have "suffix \<in> ?taken suffix - ?taken (Suc suffix)" by simp
  moreover have "?taken (Suc suffix) \<subseteq> ?taken suffix" by auto
  ultimately have "?taken (Suc suffix) \<subset> ?taken suffix" by blast
  then show "((base, nodes, Suc suffix), base, nodes, suffix)
      \<in> measure (\<lambda>(base, nodes, suffix). card {k. suffix \<le> k \<and> graphNodeIDExists (suffixedID base k) nodes})"
    by (simp add: psubset_card_mono taken_suffixes_finite)
qed simp

declare nextGraphNodeID.simps [simp del]

definition uniqueGraphNodeID :: "string \<Rightarrow> PathGraphNodeView list \<Rightarrow> string" where
  "uniqueGraphNodeID base nodes = (if \<not> graphNodeIDExists base nodes then base else nextGraphNodeID base nodes 2)"

section \<open>Nodes and groups\<close>

definition graphNodeID :: "string \<Rightarrow> string \<Rightarrow> 8 word \<Rightarrow> 8 word \<Rightarrow> string \<Rightarrow> string" where
  "graphNodeID graphID kind fromTTL toTTL address =
     graphID @ ''/node-'' @ kind @ ''-'' @ ttlText fromTTL @ ''-'' @ ttlText toTTL @ ''-'' @ graphToken address"

definition graphNode ::
    "PathGraphView \<Rightarrow> string \<Rightarrow> string \<Rightarrow> 8 word \<Rightarrow> 8 word \<Rightarrow> 8 word \<Rightarrow> PathHopState \<Rightarrow> string \<Rightarrow> string \<Rightarrow> string
     \<Rightarrow> int \<Rightarrow> string \<Rightarrow> ObservationCertainty \<Rightarrow> bool \<Rightarrow> bool \<Rightarrow> PathGraphNodeView" where
  "graphNode graph kind role ttl fromTTL toTTL state label detail address rttMS response certainty destinationConfirmed tcpConnected =
     \<lparr>pgn_ID = graphNodeID (pgv_ID graph) kind fromTTL toTTL address, pgn_Kind = kind, pgn_Role = role,
      pgn_TTL = ttl, pgn_TTLFrom = fromTTL, pgn_TTLTo = toTTL, pgn_State = state,
      pgn_Tone = graphNodeTone kind destinationConfirmed, pgn_Label = label, pgn_Detail = detail, pgn_Attempts = 0,
      pgn_Address = address, pgn_RTTMS = rttMS, pgn_Response = response, pgn_Protocol = pgv_Protocol graph,
      pgn_Destination = pgv_Destination graph, pgn_DestinationPort = pgv_DestinationPort graph,
      pgn_PortAware = pgv_PortAware graph, pgn_Certainty = certainty,
      pgn_DestinationConfirmed = destinationConfirmed, pgn_DestinationTCPConnected = tcpConnected,
      pgn_EvidenceIDs = pgv_EvidenceIDs graph, pgn_Provenance = pgv_Provenance graph,
      pgn_Limitations = pgv_Limitations graph\<rparr>"

definition pathGraphGroupCopy :: "pathGraphLayer \<Rightarrow> string \<times> string" where
  "pathGraphGroupCopy layer =
     (if pgl_kind layer = pathGraphGroupVantage
      then (''Probe vantage'', ''Local diagnostic source; this graph preserves observation order.'')
      else if pgl_kind layer = pathGraphGroupHop
      then if length (pgl_nodeIDs layer) = 1
           then (''TTL '' @ ttlText (pgl_fromTTL layer) @ '' responder'', ''One responder observation retained at this TTL.'')
           else (''TTL '' @ ttlText (pgl_fromTTL layer) @ '' responders'',
                 itoa (length (pgl_nodeIDs layer)) @ '' responder observations retained at this TTL; none are collapsed.'')
      else if pgl_kind layer = pathGraphGroupUnobservable
      then (''Unobservable TTL range'', unobservableRangeDetail (pgl_fromTTL layer) (pgl_toTTL layer))
      else if pgl_kind layer = pathGraphGroupUnknown
      then (''Unknown TTL range'', ''The canonical observation does not identify responders for TTL ''
              @ ttlRangeText (pgl_fromTTL layer) (pgl_toTTL layer) @ ''.'')
      else if pgl_kind layer = pathGraphGroupDestination
      then (''Destination confirmation'', ''Destination reachability and port state are shown separately from intermediate responders.'')
      else (''Observed path stage'', ''Canonical observation stage.''))"

definition graphGroup ::
    "PathGraphView \<Rightarrow> pathGraphLayer \<Rightarrow> PathSegment list \<Rightarrow> string list \<Rightarrow> string list \<Rightarrow> PathGraphGroupView" where
  "graphGroup graph layer segments evidenceIDs limitations =
     \<lparr>pgg_ID = pgv_ID graph @ ''/group-'' @ itoa (length (pgv_Groups graph) + 1), pgg_Kind = pgl_kind layer,
      pgg_FromTTL = pgl_fromTTL layer, pgg_ToTTL = pgl_toTTL layer, pgg_State = pgl_state layer,
      pgg_Label = fst (pathGraphGroupCopy layer), pgg_Detail = snd (pathGraphGroupCopy layer),
      pgg_NodeIDs = pgl_nodeIDs layer,
      pgg_SegmentKinds = graphSegmentKindsForRange segments (pgl_fromTTL layer) (pgl_toTTL layer),
      pgg_EvidenceIDs = evidenceIDs, pgg_Limitations = limitations\<rparr>"

definition pathGraphHopKind :: "PathHop \<Rightarrow> string" where
  "pathGraphHopKind hop =
     (if pth_Responders hop \<noteq> [] then pathGraphNodeResponder
      else if pth_State hop = PathHopStateUnobservable \<or> pth_State hop = PathHopStateObserved
      then pathGraphNodeUnobservableRange else pathGraphNodeUnknownRange)"

definition graphGroupKindForNode :: "string \<Rightarrow> string" where
  "graphGroupKindForNode kind = (if kind = pathGraphNodeResponder then pathGraphGroupHop else kind)"

section \<open>The stages\<close>

text \<open>What every stage takes from the observation.\<close>

record graphInput =
  gi_observation :: PathObservation
  gi_evidenceIDs :: "string list"
  gi_provenance :: "string list"
  gi_limitations :: "string list"

definition addNode :: "PathGraphNodeView \<Rightarrow> PathGraphView \<Rightarrow> PathGraphView" where
  "addNode node graph = graph\<lparr>pgv_Nodes := pgv_Nodes graph @ [node]\<rparr>"

definition addGroup :: "graphInput \<Rightarrow> pathGraphLayer \<Rightarrow> PathGraphView \<Rightarrow> PathGraphView" where
  "addGroup inp layer graph = graph\<lparr>pgv_Groups := pgv_Groups graph
     @ [graphGroup graph layer (pto_Segments (gi_observation inp)) (gi_evidenceIDs inp) (gi_limitations inp)]\<rparr>"

definition emptyGraph :: "graphInput \<Rightarrow> PathGraphView" where
  "emptyGraph inp =
     (let observation = gi_observation inp in
      \<lparr>pgv_ID = pathGraphID observation (gi_evidenceIDs inp),
       pgv_Supported = (pto_Status observation \<noteq> PathObservationStatusUnsupported),
       pgv_Protocol = pto_Protocol observation, pgv_ProtocolLabel = labelForProtocol (pto_Protocol observation),
       pgv_Destination = pto_Destination observation, pgv_DestinationPort = pto_DestinationPort observation,
       pgv_PortAware = pto_PortAware observation, pgv_ObservationStatus = pto_Status observation,
       pgv_ObservationTone = toneForPathStatus (pto_Status observation),
       pgv_ObservationLabel = labelForPathStatus (pto_Status observation),
       pgv_DestinationReached = pto_DestinationReached observation,
       pgv_DestinationTCPConnected = pto_DestinationTCPConnected observation,
       pgv_Certainty = pathObservationCertainty observation, pgv_EvidenceIDs = gi_evidenceIDs inp,
       pgv_Provenance = gi_provenance inp, pgv_Limitations = gi_limitations inp,
       pgv_Nodes = [], pgv_Edges = [], pgv_Groups = []\<rparr>)"

definition vantageStage :: "graphInput \<Rightarrow> PathGraphView \<Rightarrow> PathGraphView \<times> pathGraphLayer" where
  "vantageStage inp graph =
     (let vantage = graphNode graph pathGraphNodeVantage pathGraphRoleVantage 0 0 0 PathHopStateUnknown ''Probe vantage''
            ''Local diagnostic source for this observation lane.'' [] 0 [] ObservationCertaintyConfigured False False;
          layer = \<lparr>pgl_kind = pathGraphGroupVantage, pgl_role = pathGraphRoleVantage, pgl_fromTTL = 0, pgl_toTTL = 0,
                   pgl_state = PathHopStateUnknown, pgl_nodeIDs = [pgn_ID vantage]\<rparr>
      in (addGroup inp layer (addNode vantage graph), layer))"

definition responderNode :: "graphInput \<Rightarrow> PathHop \<Rightarrow> PathResponder \<Rightarrow> PathGraphView \<Rightarrow> PathGraphNodeView" where
  "responderNode inp hop responder graph =
     (let observation = gi_observation inp;
          confirmed = (ptr_DestinationReached responder
            \<or> (pto_DestinationReached observation \<and> ptr_Address responder = pto_Destination observation));
          role = (if confirmed then pathGraphRoleDestinationResponder else pathGraphRoleIntermediate);
          label = (if confirmed then ''Destination responder'' else ''Intermediate responder'');
          detail = (if confirmed then ''Destination responder observed at TTL '' @ ttlText (pth_TTL hop) @ ''.''
            else ''Responder observed at TTL '' @ ttlText (pth_TTL hop) @ ''; identity is scoped to this observation.'');
          node = graphNode graph pathGraphNodeResponder role (pth_TTL hop) (pth_TTL hop) (pth_TTL hop)
            (pth_State hop) label detail (ptr_Address responder) (ptr_RTTMS responder) (ptr_Response responder)
            ObservationCertaintyObserved confirmed (pto_DestinationTCPConnected observation)
      in node\<lparr>pgn_Attempts := pth_Attempts hop, pgn_ID := uniqueGraphNodeID (pgn_ID node) (pgv_Nodes graph)\<rparr>)"

fun addResponders ::
    "graphInput \<Rightarrow> PathHop \<Rightarrow> PathResponder list \<Rightarrow> PathGraphView \<Rightarrow> string list \<Rightarrow> PathGraphView \<times> string list" where
  "addResponders inp hop [] graph ids = (graph, ids)"
| "addResponders inp hop (responder # rest) graph ids =
     (let node = responderNode inp hop responder graph
      in addResponders inp hop rest (addNode node graph) (ids @ [pgn_ID node]))"

definition responderStage :: "graphInput \<Rightarrow> PathHop \<Rightarrow> PathGraphView \<Rightarrow> PathGraphView \<times> pathGraphLayer" where
  "responderStage inp hop graph =
     (case addResponders inp hop (orderedPathResponders (pth_Responders hop)) graph [] of
        (extended, ids) \<Rightarrow>
          (let layer = \<lparr>pgl_kind = pathGraphGroupHop, pgl_role = pathGraphRoleIntermediate, pgl_fromTTL = pth_TTL hop,
                        pgl_toTTL = pth_TTL hop, pgl_state = pth_State hop, pgl_nodeIDs = ids\<rparr>
           in (addGroup inp layer extended, layer)))"

text \<open>The run of silent hops of one kind that starts with a hop: its last hop and the hops behind it.\<close>

fun silentRun :: "string \<Rightarrow> PathHop \<Rightarrow> PathHop list \<Rightarrow> PathHop \<times> PathHop list" where
  "silentRun kind hop [] = (hop, [])"
| "silentRun kind hop (following # rest) =
     (if pathGraphHopKind following = kind \<and> contiguousTTL (pth_TTL hop) (pth_TTL following)
      then silentRun kind following rest else (hop, following # rest))"

lemma silentRun_length: "length (snd (silentRun kind hop rest)) \<le> length rest"
  by (induction kind hop rest rule: silentRun.induct) auto

definition silentNode :: "graphInput \<Rightarrow> string \<Rightarrow> PathHop \<Rightarrow> PathHop \<Rightarrow> PathGraphView \<Rightarrow> PathGraphNodeView" where
  "silentNode inp kind firstHop lastHop graph =
     (let fromTTL = pth_TTL firstHop; toTTL = pth_TTL lastHop;
          unobservable = (kind = pathGraphNodeUnobservableRange);
          state = (if unobservable then PathHopStateUnobservable else PathHopStateUnknown);
          role = (if unobservable then pathGraphRoleUnobservable else pathGraphRoleUnknown);
          label = (if unobservable then ''Unobservable TTL range'' else ''Unknown TTL range'');
          detail = (if unobservable then unobservableRangeDetail fromTTL toTTL
            else ''The canonical observation does not identify a responder for TTL '' @ ttlText fromTTL @ ''.'')
      in (graphNode graph kind role fromTTL fromTTL toTTL state label detail [] 0 [] ObservationCertaintyUnknown False
            (pto_DestinationTCPConnected (gi_observation inp)))\<lparr>pgn_Attempts := pth_Attempts firstHop\<rparr>)"

definition silentStage :: "graphInput \<Rightarrow> string \<Rightarrow> PathHop \<Rightarrow> PathHop \<Rightarrow> PathGraphView \<Rightarrow> PathGraphView \<times> pathGraphLayer" where
  "silentStage inp kind firstHop lastHop graph =
     (let node = silentNode inp kind firstHop lastHop graph;
          layer = \<lparr>pgl_kind = graphGroupKindForNode kind, pgl_role = pgn_Role node, pgl_fromTTL = pth_TTL firstHop,
                   pgl_toTTL = pth_TTL lastHop, pgl_state = pgn_State node, pgl_nodeIDs = [pgn_ID node]\<rparr>
      in (addGroup inp layer (addNode node graph), layer))"

function hopStages ::
    "graphInput \<Rightarrow> PathHop list \<Rightarrow> PathGraphView \<Rightarrow> pathGraphLayer list \<Rightarrow> PathGraphView \<times> pathGraphLayer list" where
  "hopStages inp [] graph sequence = (graph, sequence)"
| "hopStages inp (hop # rest) graph sequence =
     (let kind = pathGraphHopKind hop in
      if kind = pathGraphNodeResponder
      then let (extended, layer) = responderStage inp hop graph in hopStages inp rest extended (sequence @ [layer])
      else let (lastHop, remaining) = silentRun kind hop rest;
               (extended, layer) = silentStage inp kind hop lastHop graph
           in hopStages inp remaining extended (sequence @ [layer]))"
  by pat_completeness auto
termination
  by (relation "measure (\<lambda>(inp, hops, graph, sequence). length hops)")
    (auto simp: less_Suc_eq_le dest!: arg_cong [where f = snd] intro: order_trans [OF _ silentRun_length])

definition destinationStage :: "graphInput \<Rightarrow> PathGraphView \<Rightarrow> PathGraphView \<times> pathGraphLayer" where
  "destinationStage inp graph =
     (let observation = gi_observation inp;
          connected = pto_DestinationTCPConnected observation;
          confirmed = (pto_DestinationReached observation \<or> connected);
          detail = (if confirmed
            then if connected then ''Destination confirmed and TCP connection established.''
                 else ''Destination confirmed; intermediate visibility may still be incomplete.''
            else ''Destination confirmation was not observed in this lane.'');
          destination = graphNode graph pathGraphNodeDestination pathGraphRoleDestination 0 0 0
            (pathDestinationNodeState confirmed) ''Destination confirmation'' detail (pto_Destination observation) 0 []
            (pathDestinationNodeCertainty confirmed (pgv_Supported graph)) confirmed connected;
          layer = \<lparr>pgl_kind = pathGraphGroupDestination, pgl_role = pathGraphRoleDestination, pgl_fromTTL = 0, pgl_toTTL = 0,
                   pgl_state = pathDestinationNodeState confirmed, pgl_nodeIDs = [pgn_ID destination]\<rparr>
      in (addGroup inp layer (addNode destination graph), layer))"

section \<open>The edges\<close>

definition pathGraphEdgeKind :: "pathGraphLayer \<Rightarrow> pathGraphLayer \<Rightarrow> PathSegmentKind list \<Rightarrow> bool \<Rightarrow> string" where
  "pathGraphEdgeKind source dest segmentKinds destination =
     (if destination then pathGraphEdgeDestinationConfirm
      else if containsPathSegmentKind segmentKinds PathSegmentUnobservable
        \<or> pgl_kind source = pathGraphGroupUnobservable \<or> pgl_kind dest = pathGraphGroupUnobservable
      then pathGraphEdgeUnobservable
      else if containsPathSegmentKind segmentKinds PathSegmentInferred
        \<or> (pgl_toTTL source \<noteq> 0 \<and> pgl_fromTTL dest \<noteq> 0 \<and> unat (pgl_toTTL source) + 1 < unat (pgl_fromTTL dest))
      then pathGraphEdgeBoundedInference
      else pathGraphEdgeObservationOrder)"

definition graphEdge ::
    "graphInput \<Rightarrow> bool \<Rightarrow> pathGraphLayer \<Rightarrow> pathGraphLayer \<Rightarrow> PathGraphView \<Rightarrow> string \<Rightarrow> string \<Rightarrow> PathGraphEdgeView" where
  "graphEdge inp destination source dest graph fromID toID =
     (let segmentKinds = graphSegmentKindsBetween (pto_Segments (gi_observation inp)) (pgl_toTTL source) (pgl_fromTTL dest);
          kind = pathGraphEdgeKind source dest segmentKinds destination
      in \<lparr>pge_ID = pgv_ID graph @ ''/edge-'' @ itoa (length (pgv_Edges graph) + 1), pge_From = fromID, pge_To = toID,
          pge_Kind = kind, pge_Label = pathGraphEdgeLabel kind, pge_Detail = pathGraphEdgeDetail kind,
          pge_FromTTL = pgl_toTTL source, pge_ToTTL = pgl_fromTTL dest, pge_SegmentKinds = segmentKinds,
          pge_EvidenceIDs = gi_evidenceIDs inp, pge_Limitations = gi_limitations inp\<rparr>)"

definition connectLayers ::
    "graphInput \<Rightarrow> bool \<Rightarrow> pathGraphLayer \<Rightarrow> pathGraphLayer \<Rightarrow> PathGraphView \<Rightarrow> PathGraphView" where
  "connectLayers inp destination source dest graph =
     fold (\<lambda>fromID. fold (\<lambda>toID graph.
       graph\<lparr>pgv_Edges := pgv_Edges graph @ [graphEdge inp destination source dest graph fromID toID]\<rparr>) (pgl_nodeIDs dest))
       (pgl_nodeIDs source) graph"

fun connectSequence :: "graphInput \<Rightarrow> pathGraphLayer list \<Rightarrow> PathGraphView \<Rightarrow> PathGraphView" where
  "connectSequence inp (source # dest # rest) graph =
     connectSequence inp (dest # rest) (connectLayers inp (rest = []) source dest graph)"
| "connectSequence inp [layer] graph = graph"
| "connectSequence inp [] graph = graph"

definition buildPathGraphView :: "PathObservation \<Rightarrow> string list \<Rightarrow> string list \<Rightarrow> string list \<Rightarrow> PathGraphView" where
  "buildPathGraphView observation evidenceIDs provenance limitations =
     (let inp = \<lparr>gi_observation = observation, gi_evidenceIDs = evidenceIDs, gi_provenance = provenance,
                 gi_limitations = limitations\<rparr>;
          (graph, vantageLayer) = vantageStage inp (emptyGraph inp);
          (graph, sequence) = hopStages inp (orderedPathHops (pto_Hops observation)) graph [vantageLayer];
          (graph, destinationLayer) = destinationStage inp graph
      in connectSequence inp (sequence @ [destinationLayer]) graph)"

section \<open>Limitations\<close>

definition pathObservationLimitations :: "PathObservation \<Rightarrow> string list" where
  "pathObservationLimitations observation =
     (let hasUnobservable = list_ex (\<lambda>hop. pth_State hop = PathHopStateUnobservable
            \<or> (pth_State hop = PathHopStateObserved \<and> pth_Responders hop = [])) (pto_Hops observation)
      in uniqueBy id [] (
        [''Graph nodes identify observed TTL responders, not physical devices; edges preserve bounded observation order.'']
        @ (if pto_Protocol observation = PathProtocolICMP
           then [''This ICMP path lane carries endpoint port context but does not prove destination-port connectivity.'']
           else if \<not> pto_PortAware observation
           then [''This path lane is not port-aware and does not prove destination-port connectivity.''] else [])
        @ (if hasUnobservable
           then ''Unobservable TTLs mean no responder was received before the bounded context ended; they are not packet loss.''
             # (if pto_DestinationReached observation \<or> pto_DestinationTCPConnected observation
                then [''Destination confirmation is independent of visibility at intermediate TTLs.''] else [])
           else [])
        @ (if pto_Status observation = PathObservationStatusUnsupported
           then [''This protocol lane is unsupported; no reachability conclusion is drawn from the missing capability.''] else [])
        @ (if pto_Status observation = PathObservationStatusError
           then [''The path adapter reported an error; partial TTL evidence remains scoped to what was observed.''] else [])))"

end
