(* ===== verification/ViewModel.thy ===== *)
theory ViewModel
  imports PathGraph Privacy DestinationStatus Normalize
begin

text \<open>
  \<open>internal/web/viewmodel.go\<close>: the projection of a redacted report that the browser shows. Writing the
  report to JSON is the argument \<open>json\<close>, redacting the document the argument \<open>codec\<close> (\<open>Privacy\<close>).
\<close>

section \<open>The view\<close>

record ProgressEvent =
  pev_ProbeName :: string
  pev_State :: string
  pev_Status :: ProbeStatus

record OverallView =
  ov_ExecutionStatus :: ReportStatus
  ov_ExecutionLabel :: string
  ov_DiagnosisState :: string
  ov_DiagnosisLabel :: string
  ov_Tone :: string
  ov_Destination :: DestinationStatus

record ProbeView =
  pv_Name :: string
  pv_Status :: ProbeStatus
  pv_Tone :: string
  pv_StatusLabel :: string
  pv_DurationMS :: int
  pv_FailureReason :: FailureReason
  pv_Layer :: Layer
  pv_FaultDomain :: FaultDomain
  pv_EvidenceIDs :: "string list"

record FindingView =
  fv_FailureReason :: FailureReason
  fv_Label :: string
  fv_Tone :: string
  fv_Layer :: Layer
  fv_FaultDomain :: FaultDomain
  fv_ProbeNames :: "string list"
  fv_EvidenceIDs :: "string list"

record EvidenceView =
  evv_ID :: string
  evv_ProbeName :: string
  evv_Kind :: EvidenceKind
  evv_Source :: string
  evv_CapturedAt :: "gotime option"
  evv_Structured :: bool
  evv_InspectorState :: string
  evv_InspectorNote :: string
  evv_Raw :: string

record HTTPApplicationView =
  hav_Result :: ApplicationResult
  hav_HTTPVersion :: string
  hav_StatusCode :: int
  hav_Status :: string
  hav_URL :: string
  hav_RequestedResource :: string
  hav_Redirects :: "HTTPRedirectObservation list"

record DNSApplicationView =
  dav_RequestedEndpoint :: string
  dav_QueryName :: string
  dav_QueryType :: string
  dav_Result :: DNSApplicationResult
  dav_UDP :: DNSApplicationTransportObservation
  dav_TCP :: DNSApplicationTransportObservation
  dav_Divergence :: bool
  dav_RequestAttempted :: bool
  dav_ResponseReceived :: bool
  dav_FailureReason :: FailureReason
  dav_FaultDomain :: FaultDomain
  dav_Certainty :: ObservationCertainty
  dav_Provenance :: "string list"
  dav_ProbeNames :: "string list"
  dav_EvidenceIDs :: "string list"
  dav_Limitations :: "string list"

record ProtocolApplicationView =
  pav_Result :: ApplicationProtocolResult
  pav_HandshakeAttempted :: bool
  pav_HandshakeComplete :: bool
  pav_ResponseReceived :: bool
  pav_TransportConnected :: bool
  pav_ServerIdentification :: string
  pav_NegotiatedSecurityProtocol :: string
  pav_RequestedSecurityProtocols :: "string list"

record ApplicationView =
  av_Applicability :: ObservationApplicability
  av_RequestAttempted :: bool
  av_ResponseReceived :: bool
  av_TransportConnected :: bool
  av_Protocol :: ApplicationProtocol
  av_HandshakeAttempted :: bool
  av_HandshakeComplete :: bool
  av_ProtocolResult :: ApplicationProtocolResult
  av_Result :: ApplicationResult
  av_FailureReason :: FailureReason
  av_FaultDomain :: FaultDomain
  av_Certainty :: ObservationCertainty
  av_EndpointUsed :: "Endpoint option"
  av_RequestedResource :: string
  av_Timing :: Timing
  av_Provenance :: "string list"
  av_ProbeNames :: "string list"
  av_EvidenceIDs :: "string list"
  av_Limitations :: "string list"
  av_HTTP :: "HTTPApplicationView option"
  av_DNS :: "DNSApplicationView option"
  av_SMB :: "SMBApplicationObservation option"
  av_SSH :: "ProtocolApplicationView option"
  av_RDP :: "ProtocolApplicationView option"

record NameResolutionPathView =
  npv_State :: NameResolutionPathState
  npv_Label :: string
  npv_Mechanism :: NameResolutionMechanism
  npv_Resolver :: string
  npv_Interface :: string
  npv_InterfaceIndex :: int
  npv_VirtualAdapter :: bool
  npv_VPN :: bool
  npv_Namespace :: string
  npv_Namespaces :: "string list"
  npv_PolicySource :: string
  npv_PolicyRule :: string
  npv_A :: "string list"
  npv_AAAA :: "string list"
  npv_Certainty :: NameResolutionCertainty
  npv_Provenance :: string
  npv_EvidenceIDs :: "string list"

record NameResolutionView =
  nrv_RequestedName :: string
  nrv_CandidateNames :: "string list"
  nrv_CandidateSuffixes :: "string list"
  nrv_CandidateNamespaces :: "string list"
  nrv_Paths :: "NameResolutionPathView list"
  nrv_EffectivePath :: "NameResolutionPathView option"
  nrv_A :: "string list"
  nrv_AAAA :: "string list"
  nrv_SelectedAddress :: string
  nrv_SelectedFamily :: string
  nrv_HostsFileEntries :: "NameResolutionHostEntry list"
  nrv_Limitations :: "string list"
  nrv_EvidenceIDs :: "string list"

record NetworkContextView =
  ncv_NetworkScope :: NetworkScope
  ncv_NetworkScopeLabel :: string
  ncv_RequestedIdentity :: string
  ncv_SelectedDestinationAddress :: string
  ncv_SelectedSourceInterface :: string
  ncv_SelectedSourceAddress :: string
  ncv_EffectiveRoute :: RouteDisposition
  ncv_EffectiveRouteLabel :: string
  ncv_RoutePrefix :: string
  ncv_NextHop :: string
  ncv_Gateway :: string
  ncv_RouteMetric :: int
  ncv_VPNOrTunnelInvolvement :: bool
  ncv_VirtualAdapterInvolvement :: bool
  ncv_RouteSelectionAmbiguous :: bool
  ncv_CompetingRoutes :: "RouteCandidate list"
  ncv_Neighbor :: "NeighborEvidence option"
  ncv_Provenance :: "string list"
  ncv_EvidenceIDs :: "string list"

record ResponderView =
  rv_Address :: string
  rv_RTTMS :: int
  rv_Response :: string
  rv_DestinationReached :: bool

record PathHopView =
  phv_TTL :: "8 word"
  phv_State :: PathHopState
  phv_Tone :: string
  phv_Label :: string
  phv_Detail :: string
  phv_Attempts :: int
  phv_Responders :: "ResponderView list"
  phv_EvidenceIDs :: "string list"

record PathSegmentView =
  psv_Kind :: PathSegmentKind
  psv_FromTTL :: "8 word"
  psv_ToTTL :: "8 word"
  psv_Tone :: string
  psv_Label :: string
  psv_Detail :: string
  psv_Responders :: "ResponderView list"
  psv_EvidenceIDs :: "string list"

record PathView =
  ptv_EvidenceID :: string
  ptv_EvidenceIDs :: "string list"
  ptv_Provenance :: "string list"
  ptv_ProbeName :: string
  ptv_Protocol :: PathProtocol
  ptv_ProtocolLabel :: string
  ptv_ObservationStatus :: PathObservationStatus
  ptv_ObservationTone :: string
  ptv_ObservationLabel :: string
  ptv_Destination :: string
  ptv_DestinationPort :: "16 word"
  ptv_PortAware :: bool
  ptv_DestinationReached :: bool
  ptv_DestinationTCPConnected :: bool
  ptv_Hops :: "PathHopView list"
  ptv_Segments :: "PathSegmentView list"
  ptv_Graph :: PathGraphView
  ptv_Certainty :: ObservationCertainty
  ptv_Limitations :: "string list"
  ptv_Error :: string

record ComparisonObservationView =
  cov_EvidenceID :: string
  cov_EvidenceIDs :: "string list"
  cov_Protocol :: PathProtocol
  cov_Status :: PathObservationStatus
  cov_PortAware :: bool
  cov_DestinationReached :: bool
  cov_DestinationTCPConnected :: bool
  cov_UnobservableTTLs :: "8 word list"
  cov_ResponderCount :: nat

record ProtocolComparisonView =
  pcv_Destination :: string
  pcv_DestinationPort :: "16 word"
  pcv_PortLabel :: string
  pcv_Observations :: "ComparisonObservationView list"
  pcv_ICMPDestinationReached :: bool
  pcv_TCPDestinationReached :: bool
  pcv_TCPDestinationConnected :: bool

record DiagnosticViewModel =
  vm_Report :: DiagnosticReport
  vm_Observations :: Observations
  vm_Application :: ApplicationView
  vm_CanonicalJSON :: string
  vm_Privacy :: PrivacyMetadata
  vm_Environment :: "EnvironmentSnapshot option"
  vm_NetworkContext :: "NetworkContextView option"
  vm_Overall :: OverallView
  vm_Progress :: "ProgressEvent list"
  vm_Probes :: "ProbeView list"
  vm_NameResolution :: "NameResolutionView option"
  vm_Findings :: "FindingView list"
  vm_Evidence :: "EvidenceView list"
  vm_Paths :: "PathView list"
  vm_Comparisons :: "ProtocolComparisonView list"

section \<open>Labels and tones\<close>

definition toneForProbe :: "ProbeStatus \<Rightarrow> string" where
  "toneForProbe status =
     (if status = ProbeStatusPassed then ''positive''
      else if status = ProbeStatusFailed \<or> status = ProbeStatusError then ''negative''
      else if status = ProbeStatusSkipped then ''warning'' else ''neutral'')"

definition toneForFailureReason :: "FailureReason \<Rightarrow> string" where
  "toneForFailureReason reason =
     (if reason = FailureReasonNone then ''positive''
      else if reason \<in> set [FailureReasonUnsupported, FailureReasonICMPFailure, FailureReasonPathObservation,
        FailureReasonPathCancellation] then ''warning'' else ''negative'')"

definition toneForHopState :: "PathHopState \<Rightarrow> string" where
  "toneForHopState state =
     (if state = PathHopStateObserved then ''positive''
      else if state = PathHopStateUnobservable then ''neutral'' else ''warning'')"

definition toneForSegmentKind :: "PathSegmentKind \<Rightarrow> string" where
  "toneForSegmentKind kind =
     (if kind = PathSegmentObservedResponder then ''positive''
      else if kind = PathSegmentUnobservable \<or> kind = PathSegmentInferred then ''neutral'' else ''warning'')"

definition labelForReportStatus :: "ReportStatus \<Rightarrow> string" where
  "labelForReportStatus status =
     (if status = ReportStatusComplete then ''Run complete''
      else if status = ReportStatusIncomplete then ''Run incomplete''
      else if status = ReportStatusError then ''Run error'' else ''Run state unknown'')"

definition labelForProbeStatus :: "ProbeStatus \<Rightarrow> string" where
  "labelForProbeStatus status =
     (if status = ProbeStatusPassed then ''Passed'' else if status = ProbeStatusFailed then ''Failed''
      else if status = ProbeStatusError then ''Error''
      else if status = ProbeStatusSkipped then ''Skipped / unsupported'' else ''Unknown'')"

definition labelForFailureReason :: "FailureReason \<Rightarrow> string" where
  "labelForFailureReason reason =
     (if reason = FailureReasonNone then ''No failure''
      else joinStr '' '' (map (\<lambda>word. case word of [] \<Rightarrow> [] | c # cs \<Rightarrow> toUpperC c # cs) (splitByte CHR ''_'' reason)))"

definition labelForHopState :: "PathHopState \<Rightarrow> string" where
  "labelForHopState state =
     (if state = PathHopStateObserved then ''Observed responder''
      else if state = PathHopStateUnobservable then ''Unobservable'' else ''Unknown'')"

definition detailForHopState :: "PathHopState \<Rightarrow> string" where
  "detailForHopState state =
     (if state = PathHopStateObserved then ''A responder was observed at this TTL.''
      else if state = PathHopStateUnobservable then ''No responder was observed at this TTL; this is not packet loss.''
      else ''The observation state is not known.'')"

definition labelForSegmentKind :: "PathSegmentKind \<Rightarrow> string" where
  "labelForSegmentKind kind =
     (if kind = PathSegmentObservedResponder then ''Observed responder''
      else if kind = PathSegmentInferred then ''Inferred transit range''
      else if kind = PathSegmentUnobservable then ''Unobservable range'' else ''Unknown segment'')"

definition detailForSegmentKind :: "PathSegmentKind \<Rightarrow> string" where
  "detailForSegmentKind kind =
     (if kind = PathSegmentObservedResponder then ''Direct responder evidence for this TTL.''
      else if kind = PathSegmentInferred then ''Bounded inference between observations; not an exact physical link.''
      else if kind = PathSegmentUnobservable
      then ''No responder was observed in this TTL range; this is not packet loss.''
      else ''The segment type is not known.'')"

definition portLabel :: "16 word \<Rightarrow> string" where
  "portLabel port = (if port = 0 then ''destination port unspecified'' else ''destination port '' @ itoa (unat port))"

definition pluralSuffix :: "nat \<Rightarrow> string" where
  "pluralSuffix number = (if number = 1 then [] else ''s'')"

definition networkScopeLabel :: "NetworkScope \<Rightarrow> string" where
  "networkScopeLabel scope =
     (if scope = NetworkScopeLoopback then ''Loopback''
      else if scope = NetworkScopeLinkLocal then ''Link-local''
      else if scope = NetworkScopeSameLink then ''Local link''
      else if scope = NetworkScopePrivateRouted then ''Private routed''
      else if scope = NetworkScopeVPNTunnelRouted then ''VPN / tunnel routed''
      else if scope = NetworkScopeExternalRouted then ''External routed'' else ''Unknown'')"

definition routeDispositionLabel :: "RouteDisposition \<Rightarrow> string" where
  "routeDispositionLabel disposition =
     (if disposition = RouteDispositionOnLink then ''On-link''
      else if disposition = RouteDispositionRouted then ''Routed'' else ''Unknown'')"

definition isStructuredJSON :: "string \<Rightarrow> bool" where
  "isStructuredJSON raw =
     (case trimSpace raw of [] \<Rightarrow> False | c # _ \<Rightarrow> c = CHR 0x7B \<or> c = CHR 0x5B)"

section \<open>The application\<close>

definition hasHTTPApplicationObservation :: "ApplicationObservation \<Rightarrow> bool" where
  "hasHTTPApplicationObservation observation \<longleftrightarrow>
     ao_HTTPVersion observation \<noteq> [] \<or> ao_StatusCode observation \<noteq> 0 \<or> ao_Status observation \<noteq> []
     \<or> ao_URL observation \<noteq> [] \<or> ao_Redirects observation \<noteq> []"

definition protocolApplicationView :: "ApplicationObservation \<Rightarrow> ProtocolApplicationView" where
  "protocolApplicationView observation =
     \<lparr>pav_Result = ao_ProtocolResult observation, pav_HandshakeAttempted = ao_HandshakeAttempted observation,
      pav_HandshakeComplete = ao_HandshakeComplete observation, pav_ResponseReceived = ao_ResponseReceived observation,
      pav_TransportConnected = ao_TransportConnected observation,
      pav_ServerIdentification = ao_ServerIdentification observation,
      pav_NegotiatedSecurityProtocol = ao_NegotiatedSecurityProtocol observation,
      pav_RequestedSecurityProtocols = ao_RequestedSecurityProtocols observation\<rparr>"

definition httpApplicationView :: "ApplicationObservation \<Rightarrow> HTTPApplicationView" where
  "httpApplicationView observation =
     \<lparr>hav_Result = ao_Result observation, hav_HTTPVersion = ao_HTTPVersion observation,
      hav_StatusCode = ao_StatusCode observation, hav_Status = ao_Status observation, hav_URL = ao_URL observation,
      hav_RequestedResource = ao_RequestedResource observation, hav_Redirects = ao_Redirects observation\<rparr>"

definition dnsApplicationView :: "DNSApplicationObservation \<Rightarrow> DNSApplicationView" where
  "dnsApplicationView dns =
     \<lparr>dav_RequestedEndpoint = da_RequestedEndpoint dns, dav_QueryName = da_QueryName dns, dav_QueryType = da_QueryType dns,
      dav_Result = da_Result dns, dav_UDP = da_UDP dns, dav_TCP = da_TCP dns, dav_Divergence = da_Divergence dns,
      dav_RequestAttempted = da_RequestAttempted dns, dav_ResponseReceived = da_ResponseReceived dns,
      dav_FailureReason = da_FailureReason dns, dav_FaultDomain = da_FaultDomain dns, dav_Certainty = da_Certainty dns,
      dav_Provenance = da_Provenance dns, dav_ProbeNames = da_ProbeNames dns, dav_EvidenceIDs = da_EvidenceIDs dns,
      dav_Limitations = da_Limitations dns\<rparr>"

definition sharedApplicationView :: "ApplicationObservation \<Rightarrow> ApplicationView" where
  "sharedApplicationView observation =
     \<lparr>av_Applicability = ao_Applicability observation, av_RequestAttempted = ao_RequestAttempted observation,
      av_ResponseReceived = ao_ResponseReceived observation, av_TransportConnected = ao_TransportConnected observation,
      av_Protocol = ao_Protocol observation, av_HandshakeAttempted = ao_HandshakeAttempted observation,
      av_HandshakeComplete = ao_HandshakeComplete observation, av_ProtocolResult = ao_ProtocolResult observation,
      av_Result = ao_Result observation, av_FailureReason = ao_FailureReason observation,
      av_FaultDomain = ao_FaultDomain observation, av_Certainty = ao_Certainty observation,
      av_EndpointUsed = ao_EndpointUsed observation, av_RequestedResource = ao_RequestedResource observation,
      av_Timing = ao_Timing observation, av_Provenance = ao_Provenance observation,
      av_ProbeNames = ao_ProbeNames observation, av_EvidenceIDs = ao_EvidenceIDs observation,
      av_Limitations = ao_Limitations observation, av_HTTP = None, av_DNS = None, av_SMB = None, av_SSH = None, av_RDP = None\<rparr>"

definition buildApplicationView :: "ApplicationObservation \<Rightarrow> ApplicationView" where
  "buildApplicationView observation =
     (let view = sharedApplicationView observation in
      if ao_Protocol observation = ApplicationProtocolHTTP \<or> ao_Protocol observation = ApplicationProtocolHTTPS
        \<or> hasHTTPApplicationObservation observation
      then view\<lparr>av_HTTP := Some (httpApplicationView observation)\<rparr>
      else if ao_Protocol observation = ApplicationProtocolDNS \<or> ao_DNS observation \<noteq> None
      then view\<lparr>av_DNS := map_option dnsApplicationView (ao_DNS observation)\<rparr>
      else if ao_Protocol observation = ApplicationProtocolSMB \<or> ao_SMB observation \<noteq> None
      then view\<lparr>av_SMB := ao_SMB observation\<rparr>
      else if ao_Protocol observation = ApplicationProtocolSSH
      then view\<lparr>av_SSH := Some (protocolApplicationView observation)\<rparr>
      else if ao_Protocol observation = ApplicationProtocolRDP
      then view\<lparr>av_RDP := Some (protocolApplicationView observation)\<rparr>
      else view)"

section \<open>Name resolution and network context\<close>

definition nameResolutionPathView :: "NameResolutionPath \<Rightarrow> NameResolutionPathView" where
  "nameResolutionPathView path =
     (let mechanism = nrp_Mechanism path;
          label = (if mechanism = NameResolutionMechanismLiteralIP then ''Literal IP''
            else if mechanism = NameResolutionMechanismHostsFile then ''Hosts file candidate''
            else if nrp_VPN path then ''VPN / Corporate DNS''
            else if mechanism = NameResolutionMechanismDNS then ''System DNS client'' else mechanism)
      in \<lparr>npv_State = nrp_State path, npv_Label = label, npv_Mechanism = mechanism, npv_Resolver = nrp_Resolver path,
          npv_Interface = nrp_Interface path, npv_InterfaceIndex = nrp_InterfaceIndex path,
          npv_VirtualAdapter = nrp_VirtualAdapter path, npv_VPN = nrp_VPN path, npv_Namespace = nrp_Namespace path,
          npv_Namespaces = nrp_Namespaces path, npv_PolicySource = nrp_PolicySource path,
          npv_PolicyRule = nrp_PolicyRule path, npv_A = nrp_A path, npv_AAAA = nrp_AAAA path,
          npv_Certainty = nrp_Certainty path, npv_Provenance = nrp_Provenance path,
          npv_EvidenceIDs = nrp_EvidenceIDs path\<rparr>)"

definition buildNameResolutionView :: "NameResolutionObservation \<Rightarrow> NameResolutionView option" where
  "buildNameResolutionView observation =
     (if nro_RequestedName observation = [] \<and> nro_Paths observation = [] \<and> nro_EffectivePath observation = None then None
      else Some \<lparr>nrv_RequestedName = nro_RequestedName observation, nrv_CandidateNames = nro_CandidateNames observation,
        nrv_CandidateSuffixes = nro_CandidateSuffixes observation,
        nrv_CandidateNamespaces = nro_CandidateNamespaces observation,
        nrv_Paths = map nameResolutionPathView (nro_Paths observation),
        nrv_EffectivePath = map_option nameResolutionPathView (nro_EffectivePath observation),
        nrv_A = nro_A observation, nrv_AAAA = nro_AAAA observation,
        nrv_SelectedAddress = nro_SelectedAddress observation, nrv_SelectedFamily = nro_SelectedFamily observation,
        nrv_HostsFileEntries = nro_HostsFileEntries observation, nrv_Limitations = nro_Limitations observation,
        nrv_EvidenceIDs = nro_EvidenceIDs observation\<rparr>)"

definition hasNetworkContext :: "NetworkContext \<Rightarrow> bool" where
  "hasNetworkContext ctx \<longleftrightarrow>
     nc_RequestedIdentity ctx \<noteq> [] \<or> nc_SelectedDestinationAddress ctx \<noteq> [] \<or> nc_NetworkScope ctx \<noteq> []
     \<or> nc_EffectiveRoute ctx \<noteq> [] \<or> nc_Provenance ctx \<noteq> [] \<or> nc_EvidenceIDs ctx \<noteq> []"

definition buildNetworkContextView :: "NetworkContext \<Rightarrow> NetworkContextView" where
  "buildNetworkContextView ctx =
     \<lparr>ncv_NetworkScope = nc_NetworkScope ctx, ncv_NetworkScopeLabel = networkScopeLabel (nc_NetworkScope ctx),
      ncv_RequestedIdentity = nc_RequestedIdentity ctx,
      ncv_SelectedDestinationAddress = nc_SelectedDestinationAddress ctx,
      ncv_SelectedSourceInterface = nc_SelectedSourceInterface ctx,
      ncv_SelectedSourceAddress = nc_SelectedSourceAddress ctx, ncv_EffectiveRoute = nc_EffectiveRoute ctx,
      ncv_EffectiveRouteLabel = routeDispositionLabel (nc_EffectiveRoute ctx), ncv_RoutePrefix = nc_RoutePrefix ctx,
      ncv_NextHop = nc_NextHop ctx, ncv_Gateway = nc_Gateway ctx, ncv_RouteMetric = nc_RouteMetric ctx,
      ncv_VPNOrTunnelInvolvement = nc_VPNOrTunnelInvolvement ctx,
      ncv_VirtualAdapterInvolvement = nc_VirtualAdapterInvolvement ctx,
      ncv_RouteSelectionAmbiguous = nc_RouteSelectionAmbiguous ctx, ncv_CompetingRoutes = nc_CompetingRoutes ctx,
      ncv_Neighbor = nc_Neighbor ctx, ncv_Provenance = nc_Provenance ctx, ncv_EvidenceIDs = nc_EvidenceIDs ctx\<rparr>"

section \<open>Paths\<close>

record pathInput =
  pi_observation :: PathObservation
  pi_provenance :: ObservationProvenance

definition viewProvenanceAt :: "ObservationProvenance list \<Rightarrow> nat \<Rightarrow> ObservationProvenance" where
  "viewProvenanceAt provenances index =
     (if length provenances \<le> index then zero_ObservationProvenance else provenances ! index)"

definition observationProvenanceLabels :: "ObservationProvenance \<Rightarrow> string list" where
  "observationProvenanceLabels provenance =
     (if opv_ProbeName provenance \<noteq> [] then [''probe:'' @ opv_ProbeName provenance] else [])
     @ (if opv_Source provenance \<noteq> [] then [''source:'' @ opv_Source provenance] else [])"

definition firstString :: "string list \<Rightarrow> string" where
  "firstString strings = (case strings of [] \<Rightarrow> [] | first # _ \<Rightarrow> first)"

definition responderViews :: "PathResponder list \<Rightarrow> ResponderView list" where
  "responderViews responders = map (\<lambda>responder.
     \<lparr>rv_Address = ptr_Address responder, rv_RTTMS = ptr_RTTMS responder, rv_Response = ptr_Response responder,
      rv_DestinationReached = ptr_DestinationReached responder\<rparr>) (orderedPathResponders responders)"

definition pathHopView :: "string list \<Rightarrow> PathHop \<Rightarrow> PathHopView" where
  "pathHopView ids hop =
     \<lparr>phv_TTL = pth_TTL hop, phv_State = pth_State hop, phv_Tone = toneForHopState (pth_State hop),
      phv_Label = labelForHopState (pth_State hop), phv_Detail = detailForHopState (pth_State hop),
      phv_Attempts = pth_Attempts hop, phv_Responders = responderViews (pth_Responders hop), phv_EvidenceIDs = ids\<rparr>"

definition pathSegmentView :: "string list \<Rightarrow> PathSegment \<Rightarrow> PathSegmentView" where
  "pathSegmentView ids segment =
     \<lparr>psv_Kind = pts_Kind segment, psv_FromTTL = pts_FromTTL segment, psv_ToTTL = pts_ToTTL segment,
      psv_Tone = toneForSegmentKind (pts_Kind segment), psv_Label = labelForSegmentKind (pts_Kind segment),
      psv_Detail = detailForSegmentKind (pts_Kind segment), psv_Responders = responderViews (pts_Responders segment),
      psv_EvidenceIDs = ids\<rparr>"

definition buildPathView :: "pathInput \<Rightarrow> PathView" where
  "buildPathView inp =
     (let observation = pi_observation inp;
          ids = opv_EvidenceIDs (pi_provenance inp);
          provenance = observationProvenanceLabels (pi_provenance inp);
          limitations = pathObservationLimitations observation
      in \<lparr>ptv_EvidenceID = firstString ids, ptv_EvidenceIDs = ids, ptv_Provenance = provenance,
          ptv_ProbeName = opv_ProbeName (pi_provenance inp), ptv_Protocol = pto_Protocol observation,
          ptv_ProtocolLabel = labelForProtocol (pto_Protocol observation), ptv_ObservationStatus = pto_Status observation,
          ptv_ObservationTone = toneForPathStatus (pto_Status observation),
          ptv_ObservationLabel = labelForPathStatus (pto_Status observation),
          ptv_Destination = pto_Destination observation, ptv_DestinationPort = pto_DestinationPort observation,
          ptv_PortAware = pto_PortAware observation, ptv_DestinationReached = pto_DestinationReached observation,
          ptv_DestinationTCPConnected = pto_DestinationTCPConnected observation,
          ptv_Hops = map (pathHopView ids) (orderedPathHops (pto_Hops observation)),
          ptv_Segments = map (pathSegmentView ids) (orderedPathSegments (pto_Segments observation)),
          ptv_Graph = buildPathGraphView observation ids provenance limitations,
          ptv_Certainty = pathObservationCertainty observation, ptv_Limitations = limitations,
          ptv_Error = pto_Error observation\<rparr>)"

section \<open>Comparisons\<close>

definition pathInputKey :: "PathObservation \<Rightarrow> string \<times> 16 word \<times> PathProtocol" where
  "pathInputKey observation = (pto_Destination observation, pto_DestinationPort observation, pto_Protocol observation)"

fun matchingPathInput :: "pathInput list \<Rightarrow> bool list \<Rightarrow> PathObservation \<Rightarrow> nat \<Rightarrow> nat option" where
  "matchingPathInput (inp # inputs) (used # rest) observation index =
     (if used \<or> pathInputKey (pi_observation inp) \<noteq> pathInputKey observation
      then matchingPathInput inputs rest observation (Suc index) else Some index)"
| "matchingPathInput _ _ observation index = None"

definition comparisonObservation :: "ObservationProvenance \<Rightarrow> PathObservation \<Rightarrow> ComparisonObservationView" where
  "comparisonObservation provenance observation =
     \<lparr>cov_EvidenceID = firstString (opv_EvidenceIDs provenance), cov_EvidenceIDs = opv_EvidenceIDs provenance,
      cov_Protocol = pto_Protocol observation, cov_Status = pto_Status observation,
      cov_PortAware = pto_PortAware observation, cov_DestinationReached = pto_DestinationReached observation,
      cov_DestinationTCPConnected = pto_DestinationTCPConnected observation,
      cov_UnobservableTTLs = map pth_TTL (filter (\<lambda>hop. pth_State hop = PathHopStateUnobservable) (pto_Hops observation)),
      cov_ResponderCount = sum_list (map (\<lambda>hop. length (pth_Responders hop)) (pto_Hops observation))\<rparr>"

fun compareObservations :: "pathInput list \<Rightarrow> bool list \<Rightarrow> PathObservation list \<Rightarrow> ComparisonObservationView list" where
  "compareObservations inputs used [] = []"
| "compareObservations inputs used (observation # rest) =
     (case matchingPathInput inputs used observation 0 of
        None \<Rightarrow> comparisonObservation zero_ObservationProvenance observation # compareObservations inputs used rest
      | Some index \<Rightarrow> comparisonObservation (pi_provenance (inputs ! index)) observation
          # compareObservations inputs (used[index := True]) rest)"

definition buildComparison :: "pathInput list \<Rightarrow> PathCorrelation \<Rightarrow> ProtocolComparisonView" where
  "buildComparison inputs correlation =
     \<lparr>pcv_Destination = ptc_Destination correlation, pcv_DestinationPort = ptc_DestinationPort correlation,
      pcv_PortLabel = portLabel (ptc_DestinationPort correlation),
      pcv_Observations = compareObservations inputs (replicate (length inputs) False) (ptc_Observations correlation),
      pcv_ICMPDestinationReached = ptc_ICMPDestinationReached correlation,
      pcv_TCPDestinationReached = ptc_TCPDestinationReached correlation,
      pcv_TCPDestinationConnected = ptc_TCPDestinationConnected correlation\<rparr>"

definition buildComparisons :: "PathCorrelation list \<Rightarrow> pathInput list \<Rightarrow> ProtocolComparisonView list" where
  "buildComparisons correlations inputs = map (buildComparison inputs) correlations"

section \<open>The report\<close>

definition buildOverallView :: "DiagnosticReport \<Rightarrow> OverallView" where
  "buildOverallView report =
     (let number = length (dr_Findings report);
          (state, label, tone) =
            (if 0 < number then (''finding'', itoa number @ '' canonical finding'' @ pluralSuffix number, ''negative'')
             else if dr_Status report = ReportStatusIncomplete then (''incomplete'', ''Evidence is incomplete'', ''warning'')
             else if dr_Status report = ReportStatusError \<or> dr_Status report = ReportStatusUnknown
             then (''unknown'', ''Diagnosis is unavailable'', ''neutral'')
             else (''clear'', ''No canonical findings'', ''positive''))
      in \<lparr>ov_ExecutionStatus = dr_Status report, ov_ExecutionLabel = labelForReportStatus (dr_Status report),
          ov_DiagnosisState = state, ov_DiagnosisLabel = label, ov_Tone = tone,
          ov_Destination = DestinationStatusForReport report\<rparr>)"

definition probeView :: "ProbeResult \<Rightarrow> ProbeView" where
  "probeView probe =
     \<lparr>pv_Name = pr_Name probe, pv_Status = pr_Status probe, pv_Tone = toneForProbe (pr_Status probe),
      pv_StatusLabel = labelForProbeStatus (pr_Status probe), pv_DurationMS = tm_DurationMS (pr_Timing probe),
      pv_FailureReason = pin_FailureReason (pr_Interpretation probe), pv_Layer = pin_Layer (pr_Interpretation probe),
      pv_FaultDomain = pin_FaultDomain (pr_Interpretation probe), pv_EvidenceIDs = map ev_ID (pr_Evidence probe)\<rparr>"

definition evidenceView :: "ProbeResult \<Rightarrow> Evidence \<Rightarrow> EvidenceView" where
  "evidenceView probe evidence =
     \<lparr>evv_ID = ev_ID evidence, evv_ProbeName = pr_Name probe, evv_Kind = ev_Kind evidence, evv_Source = ev_Source evidence,
      evv_CapturedAt = ev_CapturedAt evidence, evv_Structured = isStructuredJSON (ev_Raw evidence),
      evv_InspectorState = ''available'', evv_InspectorNote = [], evv_Raw = ev_Raw evidence\<rparr>"

definition findingView :: "DiagnosticFinding \<Rightarrow> FindingView" where
  "findingView finding =
     \<lparr>fv_FailureReason = df_FailureReason finding, fv_Label = labelForFailureReason (df_FailureReason finding),
      fv_Tone = toneForFailureReason (df_FailureReason finding), fv_Layer = df_Layer finding,
      fv_FaultDomain = df_FaultDomain finding, fv_ProbeNames = df_ProbeNames finding,
      fv_EvidenceIDs = df_EvidenceIDs finding\<rparr>"

definition completedProgress :: "ProbeView list \<Rightarrow> ProgressEvent list" where
  "completedProgress probes =
     \<lparr>pev_ProbeName = [], pev_State = ''complete'', pev_Status = []\<rparr>
     # map (\<lambda>probe. \<lparr>pev_ProbeName = pv_Name probe, pev_State = ''complete'', pev_Status = pv_Status probe\<rparr>) probes"

text \<open>The view of a redacted report whose JSON is given.\<close>

definition viewOfReport :: "DiagnosticReport \<Rightarrow> PrivacyMetadata \<Rightarrow> string \<Rightarrow> DiagnosticViewModel" where
  "viewOfReport report privacy canonical =
     (let observations = NormalizeObservations (dr_Observations report);
          probes = map probeView (dr_Probes report);
          inputs = map (\<lambda>(index, observation). \<lparr>pi_observation = observation,
            pi_provenance = viewProvenanceAt (ob_PathProvenance observations) index\<rparr>)
            (enumerate 0 (ob_Paths observations))
      in \<lparr>vm_Report = report, vm_Observations = observations,
          vm_Application = buildApplicationView (ob_Application observations), vm_CanonicalJSON = canonical,
          vm_Privacy = privacy, vm_Environment = NormalizeEnvironmentSnapshot (ob_Environment observations),
          vm_NetworkContext = (if hasNetworkContext (ob_NetworkContext observations)
            then Some (buildNetworkContextView (ob_NetworkContext observations)) else None),
          vm_Overall = buildOverallView report, vm_Progress = completedProgress probes, vm_Probes = probes,
          vm_NameResolution = buildNameResolutionView (ob_NameResolution observations),
          vm_Findings = map findingView (dr_Findings report),
          vm_Evidence = concat (map (\<lambda>probe. map (evidenceView probe) (pr_Evidence probe)) (dr_Probes report)),
          vm_Paths = map buildPathView inputs,
          vm_Comparisons = buildComparisons (ob_PathCorrelations observations) inputs\<rparr>)"

definition BuildDiagnosticView ::
    "documentCodec \<Rightarrow> DiagnosticReport reportJSON \<Rightarrow> DiagnosticReport \<Rightarrow> DiagnosticViewModel result" where
  "BuildDiagnosticView codec json diagnosticReport =
     (case ProjectReport codec json diagnosticReport of
        Inl err \<Rightarrow> Inl (''project report for UI: '' @ err)
      | Inr projection \<Rightarrow>
          (case rj_Marshal json (pj_Report projection) of
             Inl err \<Rightarrow> Inl (''marshal projected report for UI: '' @ err)
           | Inr canonical \<Rightarrow> Inr (viewOfReport (pj_Report projection) (pj_Metadata projection) canonical)))"

end
