(* ===== verification/PathGraphFacts.thy ===== *)
theory PathGraphFacts
  imports PathGraph GoMaps
begin

text \<open>
  What the path graph promises: every stage appends its nodes and one group (the locale \<open>path_stage\<close>), the
  edges join exactly the members of consecutive groups, no observation of a hop is lost or invented, and the
  identifiers of the nodes differ when the hops have different TTLs.
\<close>

section \<open>Stages\<close>

text \<open>The nodes that a hop with responders adds, in order.\<close>

fun responderNodes :: "graphInput \<Rightarrow> PathHop \<Rightarrow> PathResponder list \<Rightarrow> PathGraphView \<Rightarrow> PathGraphNodeView list" where
  "responderNodes inp hop [] graph = []"
| "responderNodes inp hop (responder # rest) graph =
     (let node = responderNode inp hop responder graph in node # responderNodes inp hop rest (addNode node graph))"

definition addNodes :: "PathGraphNodeView list \<Rightarrow> PathGraphView \<Rightarrow> PathGraphView" where
  "addNodes nodes graph = graph\<lparr>pgv_Nodes := pgv_Nodes graph @ nodes\<rparr>"

lemma addNodes_simps [simp]:
  "pgv_Nodes (addNodes nodes graph) = pgv_Nodes graph @ nodes" "pgv_Groups (addNodes nodes graph) = pgv_Groups graph"
  "pgv_Edges (addNodes nodes graph) = pgv_Edges graph" "pgv_ID (addNodes nodes graph) = pgv_ID graph"
  by (simp_all add: addNodes_def)

lemma addNode_addNodes: "addNode node graph = addNodes [node] graph"
  by (simp add: addNode_def addNodes_def)

lemma addResponders_nodes:
  "addResponders inp hop responders graph ids =
     (addNodes (responderNodes inp hop responders graph) graph, ids @ map pgn_ID (responderNodes inp hop responders graph))"
  by (induction responders arbitrary: graph ids) (simp_all add: Let_def addNode_def addNodes_def)

lemma responderNodes_Nil [simp]: "responderNodes inp hop responders graph = [] \<longleftrightarrow> responders = []"
  by (cases responders) (simp_all add: Let_def)

lemma addGroup_simps [simp]:
  "pgv_Nodes (addGroup inp layer graph) = pgv_Nodes graph" "pgv_Edges (addGroup inp layer graph) = pgv_Edges graph"
  "pgv_ID (addGroup inp layer graph) = pgv_ID graph"
  "pgv_Groups (addGroup inp layer graph) = pgv_Groups graph
     @ [graphGroup graph layer (pto_Segments (gi_observation inp)) (gi_evidenceIDs inp) (gi_limitations inp)]"
  by (simp_all add: addGroup_def)

lemma graphGroup_simps [simp]:
  "pgg_NodeIDs (graphGroup graph layer segments ids limitations) = pgl_nodeIDs layer"
  "pgg_Kind (graphGroup graph layer segments ids limitations) = pgl_kind layer"
  "pgg_ID (graphGroup graph layer segments ids limitations) = pgv_ID graph @ ''/group-'' @ itoa (length (pgv_Groups graph) + 1)"
  by (simp_all add: graphGroup_def)

lemma orderedPathResponders_Nil [simp]: "orderedPathResponders responders = [] \<longleftrightarrow> responders = []"
  by (simp add: orderedPathResponders_def)

text \<open>The graph and the stages built so far fit together.\<close>

definition walkOk :: "graphInput \<Rightarrow> PathGraphView \<Rightarrow> pathGraphLayer list \<Rightarrow> bool" where
  "walkOk inp graph sequence \<longleftrightarrow>
     map pgg_NodeIDs (pgv_Groups graph) = map pgl_nodeIDs sequence
     \<and> map pgg_Kind (pgv_Groups graph) = map pgl_kind sequence
     \<and> concat (map pgl_nodeIDs sequence) = map pgn_ID (pgv_Nodes graph)
     \<and> list_all (\<lambda>layer. pgl_nodeIDs layer \<noteq> []) sequence
     \<and> map pgg_ID (pgv_Groups graph) = map (\<lambda>i. pgv_ID graph @ ''/group-'' @ itoa i) [1..<Suc (length sequence)]
     \<and> pgv_Edges graph = []"

locale path_stage =
  fixes inp :: graphInput
    and stage :: "PathGraphView \<Rightarrow> PathGraphView \<times> pathGraphLayer"
    and news :: "PathGraphView \<Rightarrow> PathGraphNodeView list"
  assumes appends: "fst (stage graph) = addGroup inp (snd (stage graph)) (addNodes (news graph) graph)"
    and members: "pgl_nodeIDs (snd (stage graph)) = map pgn_ID (news graph)"
begin

lemma nodes: "pgv_Nodes (fst (stage graph)) = pgv_Nodes graph @ news graph"
  by (simp add: appends)

lemma identity: "pgv_ID (fst (stage graph)) = pgv_ID graph"
  by (simp add: appends)

lemma walk:
  assumes "walkOk inp graph sequence" "news graph \<noteq> []"
  shows "walkOk inp (fst (stage graph)) (sequence @ [snd (stage graph)])"
proof -
  have "length (pgv_Groups graph) = length sequence"
    using assms(1) by (metis length_map walkOk_def)
  then show ?thesis using assms by (simp add: walkOk_def appends members)
qed

end

lemma walkOk_empty: "walkOk inp (emptyGraph inp) []"
  by (simp add: walkOk_def emptyGraph_def Let_def)

definition vantageNode :: "PathGraphView \<Rightarrow> PathGraphNodeView" where
  "vantageNode graph = graphNode graph pathGraphNodeVantage pathGraphRoleVantage 0 0 0 PathHopStateUnknown ''Probe vantage''
     ''Local diagnostic source for this observation lane.'' [] 0 [] ObservationCertaintyConfigured False False"

interpretation vantage: path_stage inp "vantageStage inp" "\<lambda>graph. [vantageNode graph]" for inp
  by unfold_locales (simp_all add: vantageStage_def vantageNode_def Let_def addNode_addNodes)

definition destinationNode :: "graphInput \<Rightarrow> PathGraphView \<Rightarrow> PathGraphNodeView" where
  "destinationNode inp graph = last (pgv_Nodes (fst (destinationStage inp graph)))"

interpretation destination: path_stage inp "destinationStage inp" "\<lambda>graph. [destinationNode inp graph]" for inp
  by unfold_locales (simp_all add: destinationStage_def destinationNode_def Let_def addNode_addNodes)

interpretation silent: path_stage inp "silentStage inp kind firstHop lastHop"
    "\<lambda>graph. [silentNode inp kind firstHop lastHop graph]" for inp kind firstHop lastHop
  by unfold_locales (simp_all add: silentStage_def Let_def addNode_addNodes)

interpretation responder: path_stage inp "responderStage inp hop"
    "responderNodes inp hop (orderedPathResponders (pth_Responders hop))" for inp hop
  by unfold_locales (simp_all add: responderStage_def Let_def addResponders_nodes)

lemma responder_kind: "pathGraphHopKind hop = pathGraphNodeResponder \<longleftrightarrow> pth_Responders hop \<noteq> []"
  by (simp add: pathGraphHopKind_def go_consts)

lemma hopStages_step:
  "hopStages inp (hop # rest) graph sequence =
     (if pth_Responders hop \<noteq> []
      then hopStages inp rest (fst (responderStage inp hop graph)) (sequence @ [snd (responderStage inp hop graph)])
      else let run = silentRun (pathGraphHopKind hop) hop rest; stage = silentStage inp (pathGraphHopKind hop) hop (fst run) graph
        in hopStages inp (snd run) (fst stage) (sequence @ [snd stage]))"
  by (simp add: responder_kind Let_def split_def)

declare hopStages.simps(2) [simp del]

text \<open>Induction over the stages.\<close>

lemma hopStages_induct [case_names Done Responders Silent]:
  assumes "\<And>graph sequence. P [] graph sequence"
    and "\<And>hop rest graph sequence. pth_Responders hop \<noteq> []
      \<Longrightarrow> P rest (fst (responderStage inp hop graph)) (sequence @ [snd (responderStage inp hop graph)])
      \<Longrightarrow> P (hop # rest) graph sequence"
    and "\<And>hop rest lastHop remaining graph sequence. pth_Responders hop = []
      \<Longrightarrow> silentRun (pathGraphHopKind hop) hop rest = (lastHop, remaining)
      \<Longrightarrow> P remaining (fst (silentStage inp (pathGraphHopKind hop) hop lastHop graph))
            (sequence @ [snd (silentStage inp (pathGraphHopKind hop) hop lastHop graph)])
      \<Longrightarrow> P (hop # rest) graph sequence"
  shows "P hops graph sequence"
proof (induction "length hops" arbitrary: hops graph sequence rule: less_induct)
  case less
  show ?case
  proof (cases hops)
    case Nil
    then show ?thesis using assms(1) by simp
  next
    case (Cons hop rest)
    obtain lastHop remaining where run: "silentRun (pathGraphHopKind hop) hop rest = (lastHop, remaining)"
      by (cases "silentRun (pathGraphHopKind hop) hop rest")
    have "length remaining \<le> length rest"
      using silentRun_length [of "pathGraphHopKind hop" hop rest] by (simp add: run)
    then show ?thesis
      using less.hyps assms(2,3) run Cons by (cases "pth_Responders hop = []") simp_all
  qed
qed

lemma hopStages_walk:
  "walkOk inp graph sequence \<Longrightarrow> walkOk inp (fst (hopStages inp hops graph sequence)) (snd (hopStages inp hops graph sequence))"
proof (induction hops graph sequence rule: hopStages_induct [of _ inp])
  case (Responders hop rest graph sequence)
  then show ?case by (simp add: hopStages_step responder.walk)
next
  case (Silent hop rest lastHop remaining graph sequence)
  then show ?case by (simp add: hopStages_step Let_def silent.walk)
qed simp

lemma hopStages_frame:
  "pgv_ID (fst (hopStages inp hops graph sequence)) = pgv_ID graph
   \<and> (\<exists>trail. snd (hopStages inp hops graph sequence) = sequence @ trail)"
proof (induction hops graph sequence rule: hopStages_induct [of _ inp])
  case (Responders hop rest graph sequence)
  then show ?case by (auto simp: hopStages_step responder.identity)
next
  case (Silent hop rest lastHop remaining graph sequence)
  then show ?case by (auto simp: hopStages_step Let_def silent.identity)
qed simp

section \<open>Edges\<close>

definition edgePair :: "PathGraphEdgeView \<Rightarrow> string \<times> string" where
  "edgePair edge = (pge_From edge, pge_To edge)"

definition edgeNumbers :: "PathGraphView \<Rightarrow> bool" where
  "edgeNumbers graph \<longleftrightarrow> map pge_ID (pgv_Edges graph)
     = map (\<lambda>i. pgv_ID graph @ ''/edge-'' @ itoa i) [1..<Suc (length (pgv_Edges graph))]"

text \<open>Two graphs that differ in their edges only.\<close>

definition sameStages :: "PathGraphView \<Rightarrow> PathGraphView \<Rightarrow> bool" where
  "sameStages graph graph' \<longleftrightarrow> pgv_Nodes graph' = pgv_Nodes graph \<and> pgv_Groups graph' = pgv_Groups graph \<and> pgv_ID graph' = pgv_ID graph"

definition joins :: "(string \<times> string) list \<Rightarrow> PathGraphView \<Rightarrow> PathGraphView \<Rightarrow> bool" where
  "joins pairs graph graph' \<longleftrightarrow> sameStages graph graph' \<and> map edgePair (pgv_Edges graph') = map edgePair (pgv_Edges graph) @ pairs
     \<and> (edgeNumbers graph \<longrightarrow> edgeNumbers graph')"

lemma joins_Nil [simp]: "joins [] graph graph"
  by (simp add: joins_def sameStages_def)

lemma joins_trans: "joins ps g g' \<Longrightarrow> joins qs g' g'' \<Longrightarrow> joins (ps @ qs) g g''"
  by (simp add: joins_def sameStages_def)

lemma joins_one:
  "joins [(fromID, toID)] graph (graph\<lparr>pgv_Edges := pgv_Edges graph @ [graphEdge inp destination source dest graph fromID toID]\<rparr>)"
  by (simp add: joins_def sameStages_def edgeNumbers_def edgePair_def graphEdge_def Let_def)

lemma joins_fold:
  "(\<And>x graph. joins (pairs x) graph (f x graph)) \<Longrightarrow> joins (concat (map pairs xs)) graph (fold f xs graph)"
  by (induction xs arbitrary: graph) (auto intro: joins_trans)

lemma connectLayers_joins:
  "joins (List.product (pgl_nodeIDs source) (pgl_nodeIDs dest)) graph (connectLayers inp destination source dest graph)"
proof -
  let ?edge = "\<lambda>fromID toID graph. graph\<lparr>pgv_Edges := pgv_Edges graph @ [graphEdge inp destination source dest graph fromID toID]\<rparr>"
  have "joins (concat (map (\<lambda>toID. [(fromID, toID)]) ids)) graph (fold (?edge fromID) ids graph)" for fromID ids graph
    by (rule joins_fold) (rule joins_one)
  then have "joins (map (Pair fromID) ids) graph (fold (?edge fromID) ids graph)" for fromID ids graph
    by (simp add: concat_map_singleton)
  from joins_fold [of "\<lambda>fromID. map (Pair fromID) (pgl_nodeIDs dest)" "\<lambda>fromID. fold (?edge fromID) (pgl_nodeIDs dest)",
      OF this, of "pgl_nodeIDs source" graph]
  show ?thesis by (simp add: connectLayers_def product_concat_map)
qed

text \<open>All members of each stage with all members of the next.\<close>

definition stagePairs :: "string list list \<Rightarrow> (string \<times> string) list" where
  "stagePairs stages = concat (map2 List.product (butlast stages) (tl stages))"

lemma stagePairs_Cons: "stagePairs (a # b # stages) = List.product a b @ stagePairs (b # stages)"
  by (simp add: stagePairs_def)

lemma connectSequence_joins:
  "joins (stagePairs (map pgl_nodeIDs sequence)) graph (connectSequence inp sequence graph)"
proof (induction inp sequence graph rule: connectSequence.induct)
  case (1 inp source dest rest graph)
  then show ?case
    by (simp add: stagePairs_Cons) (rule joins_trans, rule connectLayers_joins, assumption)
qed (simp_all add: stagePairs_def)


section \<open>The whole graph\<close>

text \<open>The graph before its edges are added, and its stages.\<close>

definition stagedGraph :: "graphInput \<Rightarrow> PathGraphView \<times> pathGraphLayer list" where
  "stagedGraph inp =
     (let (graph, vantageLayer) = vantageStage inp (emptyGraph inp);
          (graph, sequence) = hopStages inp (orderedPathHops (pto_Hops (gi_observation inp))) graph [vantageLayer];
          (graph, destinationLayer) = destinationStage inp graph
      in (graph, sequence @ [destinationLayer]))"

abbreviation graphInputOf :: "PathObservation \<Rightarrow> string list \<Rightarrow> string list \<Rightarrow> string list \<Rightarrow> graphInput" where
  "graphInputOf observation evidenceIDs provenance limitations \<equiv>
     \<lparr>gi_observation = observation, gi_evidenceIDs = evidenceIDs, gi_provenance = provenance, gi_limitations = limitations\<rparr>"

lemma buildPathGraphView_staged:
  "buildPathGraphView observation evidenceIDs provenance limitations =
     (let inp = graphInputOf observation evidenceIDs provenance limitations
      in connectSequence inp (snd (stagedGraph inp)) (fst (stagedGraph inp)))"
  by (simp add: buildPathGraphView_def stagedGraph_def Let_def split_def)

text \<open>The graph after the vantage and after the hops.\<close>

abbreviation atVantage :: "graphInput \<Rightarrow> PathGraphView" where "atVantage inp \<equiv> fst (vantageStage inp (emptyGraph inp))"

abbreviation afterHops :: "graphInput \<Rightarrow> PathGraphView \<times> pathGraphLayer list" where
  "afterHops inp \<equiv> hopStages inp (orderedPathHops (pto_Hops (gi_observation inp))) (atVantage inp)
     [snd (vantageStage inp (emptyGraph inp))]"

lemma stagedGraph_parts:
  "fst (stagedGraph inp) = fst (destinationStage inp (fst (afterHops inp)))"
  "snd (stagedGraph inp) = snd (afterHops inp) @ [snd (destinationStage inp (fst (afterHops inp)))]"
  by (simp_all add: stagedGraph_def Let_def split_def)

lemma stagedGraph_walk: "walkOk inp (fst (stagedGraph inp)) (snd (stagedGraph inp))"
proof -
  have "walkOk inp (atVantage inp) [snd (vantageStage inp (emptyGraph inp))]"
    using vantage.walk [OF walkOk_empty] by simp
  then have "walkOk inp (fst (afterHops inp)) (snd (afterHops inp))" by (rule hopStages_walk)
  then show ?thesis unfolding stagedGraph_parts by (rule destination.walk) simp
qed

lemma stagedGraph_ends:
  "\<exists>trail. snd (stagedGraph inp) = snd (vantageStage inp (emptyGraph inp)) # trail
     @ [snd (destinationStage inp (fst (afterHops inp)))]"
  using hopStages_frame [of inp "orderedPathHops (pto_Hops (gi_observation inp))" "atVantage inp"
      "[snd (vantageStage inp (emptyGraph inp))]"] by (auto simp: stagedGraph_parts)

lemma stage_kinds [simp]:
  "pgl_kind (snd (vantageStage inp graph)) = pathGraphGroupVantage"
  "pgl_kind (snd (destinationStage inp graph)) = pathGraphGroupDestination"
  by (simp_all add: vantageStage_def destinationStage_def Let_def)

lemma numbered_distinct: "distinct (map (\<lambda>i. prefix @ label @ itoa i) [m..<n])"
  by (simp add: distinct_map inj_on_def itoa_inject)

text \<open>C37: the path graph is well formed for every observation. Its groups partition its nodes in order and none is empty;
  the first is the vantage and the last the destination; the edges are exactly all pairs of a member of a
  group and a member of the next, so no stage is skipped and no responder left unconnected; and no two groups and
  no two edges have the same identifier.\<close>

theorem path_graph_wellformed:
  "let graph = buildPathGraphView observation evidenceIDs provenance limitations; groups = pgv_Groups graph in
    concat (map pgg_NodeIDs groups) = map pgn_ID (pgv_Nodes graph)
    \<and> list_all (\<lambda>group. pgg_NodeIDs group \<noteq> []) groups
    \<and> pgg_Kind (hd groups) = pathGraphGroupVantage \<and> pgg_Kind (last groups) = pathGraphGroupDestination
    \<and> map (\<lambda>edge. (pge_From edge, pge_To edge)) (pgv_Edges graph)
       = concat (map (\<lambda>(group, following). List.product (pgg_NodeIDs group) (pgg_NodeIDs following)) (zip (butlast groups) (tl groups)))
    \<and> distinct (map pgg_ID groups) \<and> distinct (map pge_ID (pgv_Edges graph))"
proof -
  define inp where "inp = graphInputOf observation evidenceIDs provenance limitations"
  define staged where "staged = fst (stagedGraph inp)"
  define stages where "stages = snd (stagedGraph inp)"
  define graph where "graph = buildPathGraphView observation evidenceIDs provenance limitations"
  have walk: "walkOk inp staged stages" unfolding staged_def stages_def by (rule stagedGraph_walk)
  have "joins (stagePairs (map pgl_nodeIDs stages)) staged graph"
    unfolding graph_def buildPathGraphView_staged Let_def staged_def stages_def inp_def by (rule connectSequence_joins)
  then have same: "sameStages staged graph"
    and pairs: "map edgePair (pgv_Edges graph) = stagePairs (map pgg_NodeIDs (pgv_Groups graph))" and "edgeNumbers graph"
    using walk by (auto simp: joins_def walkOk_def edgeNumbers_def sameStages_def)
  have kinds: "map pgg_Kind (pgv_Groups graph) = map pgl_kind stages"
    and ids: "map pgg_ID (pgv_Groups graph) = map (\<lambda>i. pgv_ID staged @ ''/group-'' @ itoa i) [1..<Suc (length stages)]"
    using walk same by (simp_all add: walkOk_def sameStages_def)
  obtain trail where "stages = snd (vantageStage inp (emptyGraph inp)) # trail @ [snd (destinationStage inp (fst (afterHops inp)))]"
    using stagedGraph_ends [of inp] by (auto simp: stages_def)
  with kinds have ends: "map pgg_Kind (pgv_Groups graph) = pathGraphGroupVantage # map pgl_kind trail @ [pathGraphGroupDestination]" by simp
  then have "pgv_Groups graph \<noteq> []" by auto
  with ends have ends: "pgg_Kind (hd (pgv_Groups graph)) = pathGraphGroupVantage" "pgg_Kind (last (pgv_Groups graph)) = pathGraphGroupDestination"
    by (metis list.sel(1) hd_map) (metis \<open>pgv_Groups graph \<noteq> []\<close> append_Cons ends last_map last_snoc)
  have "distinct (map pgg_ID (pgv_Groups graph))" "distinct (map pge_ID (pgv_Edges graph))"
    unfolding ids \<open>edgeNumbers graph\<close> [unfolded edgeNumbers_def] by (rule numbered_distinct)+
  moreover have "concat (map pgg_NodeIDs (pgv_Groups graph)) = map pgn_ID (pgv_Nodes graph)"
    "list_all (\<lambda>ids. ids \<noteq> []) (map pgg_NodeIDs (pgv_Groups graph))"
    using walk same by (simp_all add: walkOk_def sameStages_def list_all_iff)
  moreover have "map (\<lambda>edge. (pge_From edge, pge_To edge)) (pgv_Edges graph)
       = concat (map (\<lambda>(group, following). List.product (pgg_NodeIDs group) (pgg_NodeIDs following))
          (zip (butlast (pgv_Groups graph)) (tl (pgv_Groups graph))))"
    using pairs by (simp add: edgePair_def [abs_def] stagePairs_def map_butlast [symmetric] map_tl [symmetric] zip_map_map split_def o_def)
  ultimately show ?thesis using ends by (simp add: graph_def Let_def list_all_iff)
qed


section \<open>What the nodes show\<close>

type_synonym sighting = "8 word \<times> string \<times> int \<times> string"

definition nodeSighting :: "PathGraphNodeView \<Rightarrow> sighting" where
  "nodeSighting node = (pgn_TTL node, pgn_Address node, pgn_RTTMS node, pgn_Response node)"

definition hopSightings :: "PathHop \<Rightarrow> sighting list" where
  "hopSightings hop = map (\<lambda>r. (pth_TTL hop, ptr_Address r, ptr_RTTMS r, ptr_Response r)) (pth_Responders hop)"

abbreviation isResponder :: "PathGraphNodeView \<Rightarrow> bool" where "isResponder node \<equiv> pgn_Kind node = pathGraphNodeResponder"

abbreviation isSilent :: "PathGraphNodeView \<Rightarrow> bool" where
  "isSilent node \<equiv> pgn_Kind node \<in> {pathGraphNodeUnobservableRange, pathGraphNodeUnknownRange}"

definition silentTTLs :: "PathGraphNodeView \<Rightarrow> (string \<times> nat) list" where
  "silentTTLs node = map (Pair (pgn_Kind node)) [unat (pgn_TTLFrom node)..<Suc (unat (pgn_TTLTo node))]"

text \<open>A node that shows an address that was not observed.\<close>

abbreviation invented :: "PathGraphNodeView \<Rightarrow> bool" where
  "invented node \<equiv> pgn_Address node \<noteq> [] \<and> \<not> isResponder node \<and> pgn_Kind node \<noteq> pathGraphNodeDestination"

lemma graphNode_simps [simp]:
  "pgn_Kind (graphNode graph kind role ttl fromTTL toTTL state label detail address rtt response certainty confirmed connected) = kind"
  "pgn_TTL (graphNode graph kind role ttl fromTTL toTTL state label detail address rtt response certainty confirmed connected) = ttl"
  "pgn_TTLFrom (graphNode graph kind role ttl fromTTL toTTL state label detail address rtt response certainty confirmed connected) = fromTTL"
  "pgn_TTLTo (graphNode graph kind role ttl fromTTL toTTL state label detail address rtt response certainty confirmed connected) = toTTL"
  "pgn_Address (graphNode graph kind role ttl fromTTL toTTL state label detail address rtt response certainty confirmed connected) = address"
  "pgn_RTTMS (graphNode graph kind role ttl fromTTL toTTL state label detail address rtt response certainty confirmed connected) = rtt"
  "pgn_Response (graphNode graph kind role ttl fromTTL toTTL state label detail address rtt response certainty confirmed connected) = response"
  "pgn_DestinationConfirmed (graphNode graph kind role ttl fromTTL toTTL state label detail address rtt response certainty confirmed connected) = confirmed"
  "pgn_ID (graphNode graph kind role ttl fromTTL toTTL state label detail address rtt response certainty confirmed connected)
     = graphNodeID (pgv_ID graph) kind fromTTL toTTL address"
  by (simp_all add: graphNode_def)

lemma responderNode_simps [simp]:
  "pgn_Kind (responderNode inp hop responder graph) = pathGraphNodeResponder"
  "nodeSighting (responderNode inp hop responder graph) = (pth_TTL hop, ptr_Address responder, ptr_RTTMS responder, ptr_Response responder)"
  by (simp_all add: responderNode_def Let_def nodeSighting_def)

lemma responderNodes_kind: "n \<in> set (responderNodes inp hop responders graph) \<Longrightarrow> isResponder n"
  by (induction responders arbitrary: graph) (auto simp: Let_def)

lemma responderNodes_sightings:
  "map nodeSighting (responderNodes inp hop responders graph) =
     map (\<lambda>r. (pth_TTL hop, ptr_Address r, ptr_RTTMS r, ptr_Response r)) responders"
  by (induction responders arbitrary: graph) (simp_all add: Let_def)

lemma silentNode_simps [simp]:
  "pgn_Kind (silentNode inp kind firstHop lastHop graph) = kind"
  "pgn_TTLFrom (silentNode inp kind firstHop lastHop graph) = pth_TTL firstHop"
  "pgn_TTLTo (silentNode inp kind firstHop lastHop graph) = pth_TTL lastHop"
  "pgn_Address (silentNode inp kind firstHop lastHop graph) = []"
  "pgn_ID (silentNode inp kind firstHop lastHop graph) = graphNodeID (pgv_ID graph) kind (pth_TTL firstHop) (pth_TTL lastHop) []"
  by (simp_all add: silentNode_def Let_def)

lemma destinationNode_simps [simp]:
  "pgn_Kind (destinationNode inp graph) = pathGraphNodeDestination"
  "pgn_Address (destinationNode inp graph) = pto_Destination (gi_observation inp)"
  "pgn_DestinationConfirmed (destinationNode inp graph) \<longleftrightarrow>
     pto_DestinationReached (gi_observation inp) \<or> pto_DestinationTCPConnected (gi_observation inp)"
  "pgn_ID (destinationNode inp graph) = graphNodeID (pgv_ID graph) pathGraphNodeDestination 0 0 (pto_Destination (gi_observation inp))"
  by (simp_all add: destinationNode_def destinationStage_def Let_def addNode_def)

lemma node_kinds [simp]:
  "pathGraphNodeResponder \<noteq> pathGraphNodeUnobservableRange" "pathGraphNodeResponder \<noteq> pathGraphNodeUnknownRange"
  "pathGraphNodeResponder \<noteq> pathGraphNodeDestination" "pathGraphNodeResponder \<noteq> pathGraphNodeVantage"
  "pathGraphNodeDestination \<noteq> pathGraphNodeUnobservableRange" "pathGraphNodeDestination \<noteq> pathGraphNodeUnknownRange"
  "pathGraphNodeVantage \<noteq> pathGraphNodeUnobservableRange" "pathGraphNodeVantage \<noteq> pathGraphNodeUnknownRange"
  "pathGraphNodeVantage \<noteq> pathGraphNodeDestination" "pathGraphNodeUnobservableRange \<noteq> pathGraphNodeUnknownRange"
  by (simp_all add: go_consts)

lemmas node_kinds_sym [simp] = node_kinds [symmetric]

lemma silent_kind: "pth_Responders hop = [] \<Longrightarrow>
    pathGraphHopKind hop \<in> {pathGraphNodeUnobservableRange, pathGraphNodeUnknownRange}"
  by (simp add: pathGraphHopKind_def)

text \<open>A run of silent hops is a stretch of hops of one kind with consecutive TTLs.\<close>

lemma silentRun_stretch:
  "silentRun kind hop rest = (lastHop, remaining) \<Longrightarrow> kind \<noteq> pathGraphNodeResponder \<Longrightarrow>
    \<exists>run. rest = run @ remaining \<and> list_all (\<lambda>h. pathGraphHopKind h = kind \<and> pth_Responders h = []) run
      \<and> map (\<lambda>h. unat (pth_TTL h)) (hop # run) = [unat (pth_TTL hop)..<Suc (unat (pth_TTL lastHop))]"
proof (induction kind hop rest rule: silentRun.induct)
  case (1 kind hop)
  then show ?case by simp
next
  case (2 kind hop following rest)
  show ?case
  proof (cases "pathGraphHopKind following = kind \<and> contiguousTTL (pth_TTL hop) (pth_TTL following)")
    case True
    with 2 have "\<exists>run. rest = run @ remaining \<and> list_all (\<lambda>h. pathGraphHopKind h = kind \<and> pth_Responders h = []) run
        \<and> map (\<lambda>h. unat (pth_TTL h)) (following # run) = [unat (pth_TTL following)..<Suc (unat (pth_TTL lastHop))]"
      by simp
    then obtain run where "rest = run @ remaining"
      and "list_all (\<lambda>h. pathGraphHopKind h = kind \<and> pth_Responders h = []) run"
      and ttls: "map (\<lambda>h. unat (pth_TTL h)) (following # run) = [unat (pth_TTL following)..<Suc (unat (pth_TTL lastHop))]"
      by blast
    moreover have "pth_Responders following = []"
      using True "2.prems"(2) responder_kind [of following] by auto
    moreover have "unat (pth_TTL following) < Suc (unat (pth_TTL lastHop))"
      using ttls by (metis list.distinct(1) list.simps(9) upt_conv_Nil not_less)
    ultimately show ?thesis
      using True by (intro exI [of _ "following # run"]) (simp add: contiguousTTL_def upt_conv_Cons del: upt_Suc)
  next
    case False
    with 2 show ?thesis by auto
  qed
qed

lemma hopStages_nodes:
  "map nodeSighting (filter isResponder (pgv_Nodes (fst (hopStages inp hops graph sequence))))
     = map nodeSighting (filter isResponder (pgv_Nodes graph))
       @ concat (map (\<lambda>h. hopSightings (h\<lparr>pth_Responders := orderedPathResponders (pth_Responders h)\<rparr>)) hops)
   \<and> concat (map silentTTLs (filter isSilent (pgv_Nodes (fst (hopStages inp hops graph sequence)))))
     = concat (map silentTTLs (filter isSilent (pgv_Nodes graph)))
       @ map (\<lambda>h. (pathGraphHopKind h, unat (pth_TTL h))) (filter (\<lambda>h. pth_Responders h = []) hops)
   \<and> filter invented (pgv_Nodes (fst (hopStages inp hops graph sequence))) = filter invented (pgv_Nodes graph)"
proof (induction hops graph sequence rule: hopStages_induct [of _ inp])
  case (Responders hop rest graph sequence)
  let ?new = "responderNodes inp hop (orderedPathResponders (pth_Responders hop)) graph"
  have "filter isResponder ?new = ?new" "filter isSilent ?new = []" "filter invented ?new = []"
    by (auto simp: filter_id_conv filter_empty_conv dest: responderNodes_kind)
  with Responders show ?case
    by (simp add: hopStages_step responder.nodes responderNodes_sightings hopSightings_def)
next
  case (Silent hop rest lastHop remaining graph sequence)
  let ?kind = "pathGraphHopKind hop"
  have kind: "?kind \<in> {pathGraphNodeUnobservableRange, pathGraphNodeUnknownRange}" by (rule silent_kind) fact
  then have "?kind \<noteq> pathGraphNodeResponder" by auto
  with Silent(2) obtain run where run: "rest = run @ remaining"
      "list_all (\<lambda>h. pathGraphHopKind h = ?kind \<and> pth_Responders h = []) run"
      "map (\<lambda>h. unat (pth_TTL h)) (hop # run) = [unat (pth_TTL hop)..<Suc (unat (pth_TTL lastHop))]"
    using silentRun_stretch by blast
  have quiet: "concat (map (\<lambda>h. hopSightings (h\<lparr>pth_Responders := orderedPathResponders (pth_Responders h)\<rparr>)) (hop # run)) = []"
    using run(2) Silent(1) by (simp add: hopSightings_def list_all_iff)
  have "map (\<lambda>h. (pathGraphHopKind h, unat (pth_TTL h))) (hop # run) = map (Pair ?kind) (map (\<lambda>h. unat (pth_TTL h)) (hop # run))"
    using run(2) by (simp add: list_all_iff)
  then have ttls: "map (\<lambda>h. (pathGraphHopKind h, unat (pth_TTL h))) (hop # run)
      = silentTTLs (silentNode inp ?kind hop lastHop graph)"
    unfolding run(3) silentTTLs_def by simp
  have "filter (\<lambda>h. pth_Responders h = []) (hop # run) = hop # run"
    using run(2) Silent(1) by (simp add: list_all_iff)
  with Silent quiet ttls kind run(1) show ?case
    by (auto simp: hopStages_step Let_def silent.nodes)
qed simp


lemma connectSequence_nodes [simp]: "pgv_Nodes (connectSequence inp sequence graph) = pgv_Nodes graph"
  using connectSequence_joins [of sequence graph inp] by (simp add: joins_def sameStages_def)

lemma built_nodes:
  "pgv_Nodes (buildPathGraphView observation evidenceIDs provenance limitations) =
     (let inp = graphInputOf observation evidenceIDs provenance limitations
      in pgv_Nodes (fst (afterHops inp)) @ [destinationNode inp (fst (afterHops inp))])"
  by (simp add: buildPathGraphView_staged Let_def stagedGraph_parts destination.nodes)

lemma atVantage_nodes: "pgv_Nodes (atVantage inp) = [vantageNode (emptyGraph inp)]"
  by (simp add: vantage.nodes) (simp add: emptyGraph_def Let_def)

lemma vantageNode_simps [simp]:
  "pgn_Kind (vantageNode graph) = pathGraphNodeVantage" "pgn_Address (vantageNode graph) = []"
  "pgn_ID (vantageNode graph) = graphNodeID (pgv_ID graph) pathGraphNodeVantage 0 0 []"
  by (simp_all add: vantageNode_def)

lemma mset_concat_map_sortBy: "mset (concat (map f (sortBy lt xs))) = mset (concat (map f xs))"
  by (metis mset_concat mset_map mset_sortBy sum_mset_sum_list)

lemma mset_hopSightings: "mset (hopSightings (h\<lparr>pth_Responders := orderedPathResponders (pth_Responders h)\<rparr>)) = mset (hopSightings h)"
  by (simp add: hopSightings_def orderedPathResponders_def)

lemma mset_concat_cong: "(\<And>x. mset (f x) = mset (g x)) \<Longrightarrow> mset (concat (map f xs)) = mset (concat (map g xs))"
  by (induction xs) simp_all

text \<open>C38: the path graph loses no observation and invents none. Its responder nodes are exactly the responders of the
  hops, each at its own TTL with its address, round trip and response, even when several answer at one TTL
  or the same address answers twice; its range nodes cover exactly the TTLs of the hops without a responder,
  each under the kind of its state; no other node but the destination shows an address; and the destination
  is shown as confirmed exactly when it was reached or connected.\<close>

theorem path_graph_faithful:
  "let nodes = pgv_Nodes (buildPathGraphView observation evidenceIDs provenance limitations);
       hops = pto_Hops observation in
    mset (map (\<lambda>n. (pgn_TTL n, pgn_Address n, pgn_RTTMS n, pgn_Response n))
        (filter (\<lambda>n. pgn_Kind n = pathGraphNodeResponder) nodes))
      = mset (concat (map (\<lambda>h. map (\<lambda>r. (pth_TTL h, ptr_Address r, ptr_RTTMS r, ptr_Response r)) (pth_Responders h)) hops))
    \<and> concat (map (\<lambda>n. map (Pair (pgn_Kind n)) [unat (pgn_TTLFrom n)..<Suc (unat (pgn_TTLTo n))])
        (filter (\<lambda>n. pgn_Kind n \<in> {pathGraphNodeUnobservableRange, pathGraphNodeUnknownRange}) nodes))
      = map (\<lambda>h. (pathGraphHopKind h, unat (pth_TTL h))) (filter (\<lambda>h. pth_Responders h = []) (orderedPathHops hops))
    \<and> filter (\<lambda>n. pgn_Address n \<noteq> [] \<and> pgn_Kind n \<noteq> pathGraphNodeResponder \<and> pgn_Kind n \<noteq> pathGraphNodeDestination) nodes = []
    \<and> pgn_Kind (last nodes) = pathGraphNodeDestination
    \<and> pgn_DestinationConfirmed (last nodes) = (pto_DestinationReached observation \<or> pto_DestinationTCPConnected observation)"
proof -
  define inp where "inp = graphInputOf observation evidenceIDs provenance limitations"
  define nodes where "nodes = pgv_Nodes (buildPathGraphView observation evidenceIDs provenance limitations)"
  have nodes: "nodes = pgv_Nodes (fst (afterHops inp)) @ [destinationNode inp (fst (afterHops inp))]"
    by (simp add: nodes_def inp_def built_nodes Let_def)
  note walk = hopStages_nodes [of inp "orderedPathHops (pto_Hops observation)" "atVantage inp" "[snd (vantageStage inp (emptyGraph inp))]"]
  have "map nodeSighting (filter isResponder nodes)
      = concat (map (\<lambda>h. hopSightings (h\<lparr>pth_Responders := orderedPathResponders (pth_Responders h)\<rparr>)) (orderedPathHops (pto_Hops observation)))"
    using walk by (simp add: nodes inp_def atVantage_nodes)
  then have "mset (map nodeSighting (filter isResponder nodes)) = mset (concat (map hopSightings (pto_Hops observation)))"
    by (simp only: orderedPathHops_def mset_concat_map_sortBy mset_concat_cong [OF mset_hopSightings])
  moreover have "concat (map silentTTLs (filter isSilent nodes))
      = map (\<lambda>h. (pathGraphHopKind h, unat (pth_TTL h))) (filter (\<lambda>h. pth_Responders h = []) (orderedPathHops (pto_Hops observation)))"
    and "filter invented nodes = []"
    using walk by (simp_all add: nodes inp_def atVantage_nodes)
  moreover have "last nodes = destinationNode inp (fst (afterHops inp))" by (simp add: nodes)
  ultimately show ?thesis
    by (simp add: nodes_def [symmetric] nodeSighting_def [abs_def] hopSightings_def [abs_def] silentTTLs_def [abs_def] inp_def
        del: upt_Suc)
qed

section \<open>Identifiers\<close>

lemma nextGraphNodeID_fresh: "\<not> graphNodeIDExists (nextGraphNodeID base nodes suffix) nodes"
  by (induction base nodes suffix rule: nextGraphNodeID.induct) (subst nextGraphNodeID.simps, simp)

lemma uniqueGraphNodeID_fresh: "uniqueGraphNodeID base nodes \<notin> pgn_ID ` set nodes"
  using nextGraphNodeID_fresh [of base nodes 2] by (auto simp: uniqueGraphNodeID_def graphNodeIDExists_def)

lemma nextGraphNodeID_suffix: "\<exists>trail. nextGraphNodeID base nodes suffix = base @ trail"
  by (induction base nodes suffix rule: nextGraphNodeID.induct)
    (subst nextGraphNodeID.simps, auto simp: suffixedID_def)

lemma uniqueGraphNodeID_prefix: "\<exists>trail. uniqueGraphNodeID base nodes = base @ trail"
  using nextGraphNodeID_suffix [of base nodes 2] by (auto simp: uniqueGraphNodeID_def)

text \<open>The kind of a node is part of its identifier, and so is the first TTL.\<close>

lemma digits_before_dash: "takeWhile (\<lambda>c. c \<noteq> CHR ''-'') (itoa n @ CHR ''-'' # xs) = itoa n"
proof -
  have "CHR ''-'' \<notin> set (itoa n)" using itoa_digits [of "CHR ''-''" n] by (auto simp: isDigitC_def byteOf_def)
  then show ?thesis by (subst takeWhile_append2) auto
qed

lemma digits_then_dash:
  assumes "itoa m @ CHR ''-'' # xs = itoa n @ CHR ''-'' # ys"
  shows "m = n"
  using arg_cong [OF assms, of "takeWhile (\<lambda>c. c \<noteq> CHR ''-'')"] by (simp add: digits_before_dash itoa_inject)

definition nodeKinds :: "string set" where
  "nodeKinds = {pathGraphNodeVantage, pathGraphNodeResponder, pathGraphNodeUnobservableRange, pathGraphNodeUnknownRange,
     pathGraphNodeDestination}"

lemma kinds_told_apart:
  "kind \<in> nodeKinds \<Longrightarrow> kind' \<in> nodeKinds \<Longrightarrow> kind \<noteq> kind' \<Longrightarrow> kind @ CHR ''-'' # xs \<noteq> kind' @ CHR ''-'' # ys"
  by (auto simp: nodeKinds_def go_consts)

lemma graphNodeID_cancel:
  assumes "graphNodeID g kind f t a @ trail = graphNodeID g kind' f' t' a'" "kind \<in> nodeKinds" "kind' \<in> nodeKinds"
  shows "kind = kind' \<and> f = f'"
proof -
  have "kind @ CHR ''-'' # ttlText f @ CHR ''-'' # ttlText t @ CHR ''-'' # graphToken a @ trail
      = kind' @ CHR ''-'' # ttlText f' @ CHR ''-'' # ttlText t' @ CHR ''-'' # graphToken a'"
    using assms(1) by (simp add: graphNodeID_def)
  with kinds_told_apart [OF assms(2,3)] show ?thesis
    by (metis digits_then_dash list.inject same_append_eq ttlText_def word_unat_eq_iff)
qed

text \<open>Each node carries its kind and first TTL in its identifier; only responders carry a suffix.\<close>

definition identified :: "string \<Rightarrow> PathGraphNodeView \<Rightarrow> bool" where
  "identified graphID node \<longleftrightarrow> pgn_Kind node \<in> nodeKinds
     \<and> (\<exists>t a trail. pgn_ID node = graphNodeID graphID (pgn_Kind node) (pgn_TTLFrom node) t a @ trail)"

text \<open>The identifiers so far differ, and the silent hops still to come have other TTLs than those shown.\<close>

definition idsOk :: "PathHop list \<Rightarrow> string \<Rightarrow> PathGraphNodeView list \<Rightarrow> bool" where
  "idsOk hops graphID nodes \<longleftrightarrow> distinct (map pgn_ID nodes) \<and> list_all (identified graphID) nodes
     \<and> list_all (\<lambda>n. pgn_Kind n \<noteq> pathGraphNodeDestination) nodes
     \<and> pgn_TTLFrom ` set (filter isSilent nodes) \<inter> pth_TTL ` set hops = {}"

lemma fresh_kind:
  assumes "list_all (identified g) nodes" "kind \<in> nodeKinds"
    and "\<And>n. n \<in> set nodes \<Longrightarrow> pgn_Kind n = kind \<Longrightarrow> pgn_TTLFrom n \<noteq> f"
  shows "graphNodeID g kind f t a \<notin> pgn_ID ` set nodes"
proof
  assume "graphNodeID g kind f t a \<in> pgn_ID ` set nodes"
  then obtain n where n: "n \<in> set nodes" "pgn_ID n = graphNodeID g kind f t a" by auto
  with assms(1) obtain t' a' trail where "pgn_Kind n \<in> nodeKinds"
    "graphNodeID g (pgn_Kind n) (pgn_TTLFrom n) t' a' @ trail = graphNodeID g kind f t a"
    by (auto simp: list_all_iff identified_def)
  with graphNodeID_cancel assms(2) have "pgn_Kind n = kind \<and> pgn_TTLFrom n = f" by blast
  with assms(3) n(1) show False by blast
qed


lemma identified_plain:
  "pgn_Kind node \<in> nodeKinds \<Longrightarrow> pgn_ID node = graphNodeID g (pgn_Kind node) (pgn_TTLFrom node) t a \<Longrightarrow> identified g node"
  unfolding identified_def by (metis append_Nil2)

lemma idsOk_responder:
  assumes "idsOk hops (pgv_ID graph) (pgv_Nodes graph)"
  shows "idsOk hops (pgv_ID graph) (pgv_Nodes graph @ [responderNode inp hop responder graph])"
proof -
  let ?base = "graphNodeID (pgv_ID graph) pathGraphNodeResponder (pth_TTL hop) (pth_TTL hop) (ptr_Address responder)"
  have node: "pgn_ID (responderNode inp hop responder graph) = uniqueGraphNodeID ?base (pgv_Nodes graph)"
      "pgn_TTLFrom (responderNode inp hop responder graph) = pth_TTL hop"
    by (simp_all add: responderNode_def Let_def)
  have "identified (pgv_ID graph) (responderNode inp hop responder graph)"
    using uniqueGraphNodeID_prefix [of ?base "pgv_Nodes graph"] by (auto simp: identified_def node nodeKinds_def)
  then show ?thesis
    using assms uniqueGraphNodeID_fresh [of ?base "pgv_Nodes graph"] by (auto simp: idsOk_def node)
qed

lemma idsOk_responders:
  "idsOk hops (pgv_ID graph) (pgv_Nodes graph)
    \<Longrightarrow> idsOk hops (pgv_ID graph) (pgv_Nodes graph @ responderNodes inp hop responders graph)"
proof (induction responders arbitrary: graph)
  case (Cons responder rest)
  from Cons.IH [of "addNode (responderNode inp hop responder graph) graph"] idsOk_responder [OF Cons.prems]
  show ?case by (simp add: addNode_addNodes Let_def)
qed simp

lemma idsOk_silent:
  assumes "idsOk (hop # rest) (pgv_ID graph) (pgv_Nodes graph)" "pth_Responders hop = []" "pth_TTL hop \<notin> pth_TTL ` set remaining"
    and "set remaining \<subseteq> set rest"
  shows "idsOk remaining (pgv_ID graph) (pgv_Nodes graph @ [silentNode inp (pathGraphHopKind hop) hop lastHop graph])"
proof -
  let ?node = "silentNode inp (pathGraphHopKind hop) hop lastHop graph"
  have kind: "pathGraphHopKind hop \<in> {pathGraphNodeUnobservableRange, pathGraphNodeUnknownRange}" by (rule silent_kind) fact
  then have "pathGraphHopKind hop \<in> nodeKinds" by (auto simp: nodeKinds_def)
  moreover from this have "identified (pgv_ID graph) ?node" by (intro identified_plain) simp_all
  moreover have "pgn_ID ?node \<notin> pgn_ID ` set (pgv_Nodes graph)"
  proof (simp, rule fresh_kind)
    fix n assume "n \<in> set (pgv_Nodes graph)" "pgn_Kind n = pathGraphHopKind hop"
    with kind have "pgn_TTLFrom n \<in> pgn_TTLFrom ` set (filter isSilent (pgv_Nodes graph))" by simp
    moreover have "pth_TTL hop \<notin> pgn_TTLFrom ` set (filter isSilent (pgv_Nodes graph))"
      using assms(1) unfolding idsOk_def by (simp only: list.set image_insert) blast
    ultimately show "pgn_TTLFrom n \<noteq> pth_TTL hop" by metis
  qed (use assms(1) \<open>pathGraphHopKind hop \<in> nodeKinds\<close> in \<open>simp_all add: idsOk_def\<close>)
  moreover have "pgn_TTLFrom ` set (filter isSilent (pgv_Nodes graph)) \<inter> pth_TTL ` set remaining = {}"
    using assms(1,4) unfolding idsOk_def by (simp only: list.set image_insert) blast
  moreover have "set (filter isSilent (pgv_Nodes graph @ [?node])) = insert ?node (set (filter isSilent (pgv_Nodes graph)))"
    using kind by auto
  ultimately show ?thesis using assms(1,3) kind by (auto simp add: idsOk_def simp del: set_filter)
qed

lemma hopStages_ids:
  "idsOk hops (pgv_ID graph) (pgv_Nodes graph) \<Longrightarrow> distinct (map pth_TTL hops)
    \<Longrightarrow> idsOk [] (pgv_ID graph) (pgv_Nodes (fst (hopStages inp hops graph sequence)))"
proof (induction hops graph sequence rule: hopStages_induct [of _ inp])
  case (Responders hop rest graph sequence)
  let ?responders = "orderedPathResponders (pth_Responders hop)"
  from idsOk_responders [OF Responders.prems(1)]
  have "idsOk rest (pgv_ID graph) (pgv_Nodes graph @ responderNodes inp hop ?responders graph)"
    by (auto simp: idsOk_def)
  with Responders show ?case by (simp add: hopStages_step responder.nodes responder.identity)
next
  case (Silent hop rest lastHop remaining graph sequence)
  have "pathGraphHopKind hop \<noteq> pathGraphNodeResponder" using Silent(1) by (simp add: responder_kind)
  with Silent(2) obtain run where "rest = run @ remaining" using silentRun_stretch by blast
  with Silent have "idsOk remaining (pgv_ID graph) (pgv_Nodes graph @ [silentNode inp (pathGraphHopKind hop) hop lastHop graph])"
    by (intro idsOk_silent) auto
  with Silent \<open>rest = run @ remaining\<close> show ?case
    by (simp add: hopStages_step Let_def silent.nodes silent.identity)
qed (simp add: idsOk_def)

text \<open>C39: when the hops of an observation have different TTLs, no two nodes of its graph have the same identifier, so an
  edge names one node: the search for an unused suffix always ends, it tells apart responders that answer alike
  at one TTL, and the other nodes differ by kind or first TTL.\<close>

theorem path_graph_ids_unique:
  assumes "distinct (map pth_TTL (pto_Hops observation))"
  shows "distinct (map pgn_ID (pgv_Nodes (buildPathGraphView observation evidenceIDs provenance limitations)))"
proof -
  define inp where "inp = graphInputOf observation evidenceIDs provenance limitations"
  let ?hops = "orderedPathHops (pto_Hops observation)"
  have "identified (pgv_ID (emptyGraph inp)) (vantageNode (emptyGraph inp))"
    by (rule identified_plain [where t = 0 and a = "[]"]) (simp_all add: nodeKinds_def vantageNode_def)
  then have "idsOk ?hops (pgv_ID (atVantage inp)) (pgv_Nodes (atVantage inp))"
    by (simp add: idsOk_def atVantage_nodes vantage.identity)
  moreover have "distinct (map pth_TTL ?hops)" using assms by (simp add: orderedPathHops_def)
  ultimately have "idsOk [] (pgv_ID (atVantage inp)) (pgv_Nodes (fst (afterHops inp)))"
    using hopStages_ids by (simp add: inp_def)
  moreover have "pgv_ID (fst (afterHops inp)) = pgv_ID (atVantage inp)" using hopStages_frame by blast
  ultimately have ids: "idsOk [] (pgv_ID (fst (afterHops inp))) (pgv_Nodes (fst (afterHops inp)))" by simp
  then have "pgn_ID (destinationNode inp (fst (afterHops inp))) \<notin> pgn_ID ` set (pgv_Nodes (fst (afterHops inp)))"
    unfolding destinationNode_simps by (intro fresh_kind) (auto simp: idsOk_def nodeKinds_def list_all_iff)
  moreover have "distinct (map pgn_ID (pgv_Nodes (fst (afterHops inp))))" using ids by (simp add: idsOk_def)
  ultimately have "distinct (map pgn_ID (pgv_Nodes (fst (afterHops inp)) @ [destinationNode inp (fst (afterHops inp))]))" by simp
  then show ?thesis by (simp add: built_nodes Let_def inp_def)
qed

definition sampleHops :: "PathHop list" where
  "sampleHops = [zero_PathHop\<lparr>pth_TTL := 2, pth_State := PathHopStateUnobservable\<rparr>,
     zero_PathHop\<lparr>pth_TTL := 1, pth_State := PathHopStateObserved,
       pth_Responders := [zero_PathResponder\<lparr>ptr_Address := ''r''\<rparr>, zero_PathResponder\<lparr>ptr_Address := ''r''\<rparr>]\<rparr>]"

lemma path_graph_ids_unique_witness:
  "distinct (map pgn_ID (pgv_Nodes (buildPathGraphView (zero_PathObservation\<lparr>pto_Hops := sampleHops\<rparr>) [] [] [])))"
  by (rule path_graph_ids_unique) (simp add: sampleHops_def)

text \<open>Two silent hops reported for one TTL are two nodes with one identifier.\<close>

lemma repeated_ttl_collides:
  "(let hop = zero_PathHop\<lparr>pth_TTL := 3, pth_State := PathHopStateUnobservable\<rparr>
    in \<not> distinct (map pgn_ID (pgv_Nodes (buildPathGraphView (zero_PathObservation\<lparr>pto_Hops := [hop, hop]\<rparr>) [] [] []))))"
  by code_simp

end
