(* ===== verification/ViewFacts.thy ===== *)
theory ViewFacts
  imports ViewModel PathGraphFacts
begin

text \<open>
  What the browser's view promises: it shows the exported document and the evidence of the redacted report, a
  comparison cites the evidence of its own lanes, each lane once, and one protocol section describes the application.
\<close>

section \<open>The exported report\<close>

lemma MarshalExportJSON_view:
  "map_sum (\<lambda>_. ()) vm_CanonicalJSON (BuildDiagnosticView codec json report) = map_sum (\<lambda>_. ()) id (MarshalExportJSON codec json report)"
  by (simp add: BuildDiagnosticView_def MarshalExportJSON_def viewOfReport_def Let_def split: sum.split)

lemma Build_projection:
  "BuildDiagnosticView codec json report = Inr view \<Longrightarrow>
    \<exists>projection. ProjectReport codec json report = Inr projection
      \<and> view = viewOfReport (pj_Report projection) (pj_Metadata projection) (vm_CanonicalJSON view)"
  by (auto simp: BuildDiagnosticView_def viewOfReport_def Let_def split: sum.splits)

lemma view_evidence:
  "map (\<lambda>e. (evv_ProbeName e, evv_ID e, evv_Raw e)) (vm_Evidence (viewOfReport report privacy canonical))
     = concat (map (\<lambda>p. map (\<lambda>e. (pr_Name p, ev_ID e, ev_Raw e)) (pr_Evidence p)) (dr_Probes report))"
  "concat (map pv_EvidenceIDs (vm_Probes (viewOfReport report privacy canonical)))
     = map evv_ID (vm_Evidence (viewOfReport report privacy canonical))"
  by (simp_all add: viewOfReport_def Let_def map_concat o_def evidenceView_def probeView_def)


section \<open>Comparisons\<close>

lemma matchingPathInput_Some:
  "matchingPathInput inputs used observation index = Some k \<Longrightarrow> length used = length inputs \<Longrightarrow>
    index \<le> k \<and> k - index < length inputs \<and> \<not> used ! (k - index)
    \<and> pathInputKey (pi_observation (inputs ! (k - index))) = pathInputKey observation"
proof (induction inputs used observation index rule: matchingPathInput.induct)
  case (1 inp inputs used rest observation index)
  show ?case
  proof (cases "used \<or> pathInputKey (pi_observation inp) \<noteq> pathInputKey observation")
    case True
    with 1 have found: "Suc index \<le> k \<and> k - Suc index < length inputs \<and> \<not> rest ! (k - Suc index)
        \<and> pathInputKey (pi_observation (inputs ! (k - Suc index))) = pathInputKey observation" by auto
    then have "k - index = Suc (k - Suc index)" by linarith
    with found show ?thesis by simp
  next
    case False
    with 1 show ?thesis by auto
  qed
qed simp_all

lemma matchingPathInput_None:
  "matchingPathInput inputs used observation index = None \<Longrightarrow> length used = length inputs \<Longrightarrow>
    k < length inputs \<Longrightarrow> pathInputKey (pi_observation (inputs ! k)) = pathInputKey observation \<Longrightarrow> used ! k"
proof (induction inputs used observation index arbitrary: k rule: matchingPathInput.induct)
  case (1 inp inputs used rest observation index)
  then show ?case by (cases k) (auto split: if_splits)
qed simp_all

text \<open>The lane that each observation of a comparison is matched with.\<close>

fun lanes :: "pathInput list \<Rightarrow> bool list \<Rightarrow> PathObservation list \<Rightarrow> nat option list" where
  "lanes inputs used [] = []"
| "lanes inputs used (observation # rest) =
     (case matchingPathInput inputs used observation 0 of
        None \<Rightarrow> None # lanes inputs used rest
      | Some k \<Rightarrow> Some k # lanes inputs (used[k := True]) rest)"

definition laneIDs :: "pathInput list \<Rightarrow> nat option \<Rightarrow> string list" where
  "laneIDs inputs lane = (case lane of None \<Rightarrow> [] | Some k \<Rightarrow> opv_EvidenceIDs (pi_provenance (inputs ! k)))"

definition laneFits :: "pathInput list \<Rightarrow> PathObservation \<Rightarrow> nat option \<Rightarrow> bool" where
  "laneFits inputs observation lane \<longleftrightarrow>
     (case lane of None \<Rightarrow> True
      | Some k \<Rightarrow> k < length inputs \<and> pathInputKey (pi_observation (inputs ! k)) = pathInputKey observation)"

lemma lanes_IDs:
  "map cov_EvidenceIDs (compareObservations inputs used observations) = map (laneIDs inputs) (lanes inputs used observations)"
  by (induction inputs used observations rule: lanes.induct)
    (simp_all add: comparisonObservation_def laneIDs_def zero_ObservationProvenance_def split: option.split)

lemma lanes_fit:
  "length used = length inputs \<Longrightarrow> list_all2 (laneFits inputs) observations (lanes inputs used observations)
    \<and> distinct (List.map_filter (\<lambda>lane. lane) (lanes inputs used observations))
    \<and> (\<forall>k. k < length inputs \<longrightarrow> used ! k \<longrightarrow> Some k \<notin> set (lanes inputs used observations))"
proof (induction inputs used observations rule: lanes.induct)
  case (2 inputs used observation rest)
  show ?case
  proof (cases "matchingPathInput inputs used observation 0")
    case None
    with 2 show ?thesis by (simp add: laneFits_def map_filter_simps)
  next
    case (Some k)
    with matchingPathInput_Some [of inputs used observation 0 k] 2(3)
    have k: "k < length inputs" "\<not> used ! k" "pathInputKey (pi_observation (inputs ! k)) = pathInputKey observation" by auto
    from 2(2) [OF Some] 2(3) have ih: "list_all2 (laneFits inputs) rest (lanes inputs (used[k := True]) rest)"
        "distinct (List.map_filter (\<lambda>lane. lane) (lanes inputs (used[k := True]) rest))"
        "\<And>j. j < length inputs \<Longrightarrow> used[k := True] ! j \<Longrightarrow> Some j \<notin> set (lanes inputs (used[k := True]) rest)"
      by simp_all
    have "Some k \<notin> set (lanes inputs (used[k := True]) rest)" using ih(3) [of k] k 2(3) by simp
    then have "k \<notin> set (List.map_filter (\<lambda>lane. lane) (lanes inputs (used[k := True]) rest))" by (auto simp: map_filter_def)
    moreover have "Some j \<notin> set (lanes inputs (used[k := True]) rest)" if "j < length inputs" "used ! j" for j
      using ih(3) [of j] that 2(3) by (cases "j = k") simp_all
    moreover have "laneFits inputs observation (Some k)" using k by (simp add: laneFits_def)
    ultimately show ?thesis using Some k(2) ih(1,2) by (auto simp: map_filter_simps)
  qed
qed (simp add: map_filter_simps)

text \<open>A comparison of protocols cites for each observation the evidence of a lane with the same destination, port and
  protocol, or none, and no lane twice.\<close>

theorem comparison_own_lanes:
  "\<exists>matched. map cov_EvidenceIDs (pcv_Observations (buildComparison inputs correlation)) =
       map (case_option [] (\<lambda>k. opv_EvidenceIDs (pi_provenance (inputs ! k)))) matched
     \<and> list_all2 (\<lambda>observation. case_option True (\<lambda>k. k < length inputs \<and>
         pathInputKey (pi_observation (inputs ! k)) = pathInputKey observation)) (ptc_Observations correlation) matched
     \<and> distinct (List.map_filter (\<lambda>lane. lane) matched)"
proof (intro exI conjI)
  let ?lanes = "lanes inputs (replicate (length inputs) False) (ptc_Observations correlation)"
  show "map cov_EvidenceIDs (pcv_Observations (buildComparison inputs correlation)) =
      map (case_option [] (\<lambda>k. opv_EvidenceIDs (pi_provenance (inputs ! k)))) ?lanes"
    by (simp add: buildComparison_def lanes_IDs laneIDs_def [abs_def])
  show "list_all2 (\<lambda>observation. case_option True (\<lambda>k. k < length inputs \<and>
      pathInputKey (pi_observation (inputs ! k)) = pathInputKey observation)) (ptc_Observations correlation) ?lanes"
    using lanes_fit [of "replicate (length inputs) False" inputs "ptc_Observations correlation"] by (simp add: laneFits_def [abs_def])
  show "distinct (List.map_filter (\<lambda>lane. lane) ?lanes)"
    using lanes_fit [of "replicate (length inputs) False" inputs "ptc_Observations correlation"] by simp
qed

section \<open>The application\<close>

text \<open>At most one protocol section is shown.\<close>

lemma one_section:
  "length (filter id [av_HTTP (buildApplicationView o0) \<noteq> None, av_DNS (buildApplicationView o0) \<noteq> None,
     av_SMB (buildApplicationView o0) \<noteq> None, av_SSH (buildApplicationView o0) \<noteq> None, av_RDP (buildApplicationView o0) \<noteq> None]) \<le> 1"
  by (simp add: buildApplicationView_def sharedApplicationView_def Let_def)

end
