(* ===== verification/GoMime.thy ===== *)
theory GoMime
  imports GoStrings
begin

text \<open>
  \<open>mime.ParseMediaType\<close> of Go's standard library (1.23), as far as its media type and whether it fails: the
  token before the parameters, and the parameters one after the other. Standard library, no entry in the map.
\<close>

definition isTSpecial :: "char \<Rightarrow> bool" where
  "isTSpecial c \<longleftrightarrow> c \<in> set (''()<>@,;:/[]?='' @ [CHR 0x5C, CHR 0x22])"

definition isTokenChar :: "char \<Rightarrow> bool" where
  "isTokenChar c \<longleftrightarrow> 0x20 < byteOf c \<and> byteOf c < 0x7f \<and> \<not> isTSpecial c"

definition trimLeftSpace :: "string \<Rightarrow> string" where
  "trimLeftSpace = dropWhile isSpaceC"

definition consumeToken :: "string \<Rightarrow> string \<times> string" where
  "consumeToken v = (takeWhile isTokenChar v, dropWhile isTokenChar v)"

text \<open>The content of a quoted string and what follows it; \<open>None\<close> when the quote is not closed.\<close>

fun quotedContent :: "string \<Rightarrow> (string \<times> string) option" where
  "quotedContent [] = None"
| "quotedContent (c # s) =
     (if c = CHR 0x22 then Some ([], s)
      else if c = CHR 0x5C then (case s of
          d # s' \<Rightarrow> if isTSpecial d then map_option (map_prod ((#) d) id) (quotedContent s')
            else map_option (map_prod ((#) c) id) (quotedContent s)
        | [] \<Rightarrow> None)
      else if c = CHR 0x0D \<or> c = CHR 0x0A then None
      else map_option (map_prod ((#) c) id) (quotedContent s))"

definition consumeValue :: "string \<Rightarrow> string \<times> string" where
  "consumeValue v =
     (case v of
        [] \<Rightarrow> ([], [])
      | c # s \<Rightarrow> if c \<noteq> CHR 0x22 then consumeToken v
          else (case quotedContent s of None \<Rightarrow> ([], v) | Some r \<Rightarrow> r))"

text \<open>One parameter \<open>; key=value\<close>; the key is empty when there is none.\<close>

definition consumeMediaParam :: "string \<Rightarrow> string \<times> string \<times> string" where
  "consumeMediaParam v =
     (let rest = trimLeftSpace v in
      if \<not> hasPrefix '';'' rest then ([], [], v)
      else let (param, rest) = consumeToken (trimLeftSpace (drop 1 rest)) in
      if param = [] then ([], [], v)
      else let rest = trimLeftSpace rest in
      if \<not> hasPrefix ''='' rest then ([], [], v)
      else let rest = trimLeftSpace (drop 1 rest); (val, behind) = consumeValue rest in
      if val = [] \<and> behind = rest then ([], [], v) else (toLower param, val, behind))"

lemma trimLeftSpace_length: "length (trimLeftSpace v) \<le> length v"
  by (simp add: trimLeftSpace_def length_dropWhile_le)

lemma quotedContent_length: "quotedContent s = Some (val, behind) \<Longrightarrow> length behind < length s"
proof (induction s arbitrary: val behind rule: quotedContent.induct)
  case (2 c s)
  consider "c = CHR 0x22" | "c \<noteq> CHR 0x22" "c = CHR 0x5C" | "c \<noteq> CHR 0x22" "c \<noteq> CHR 0x5C" by blast
  then show ?case
  proof cases
    case 1
    with 2(4) show ?thesis by simp
  next
    case two: 2
    obtain d s' where s: "s = d # s'" using 2(4) two by (cases s) simp_all
    show ?thesis
    proof (cases "isTSpecial d")
      case True
      with 2(4) two s obtain val' where "quotedContent s' = Some (val', behind)" by auto
      with 2(1) [OF two s True] s show ?thesis by fastforce
    next
      case False
      with 2(4) two s obtain val' where "quotedContent s = Some (val', behind)" by auto
      with 2(2) [OF two s False] show ?thesis by fastforce
    qed
  next
    case three: 3
    then have "c \<noteq> CHR 0x0D \<and> c \<noteq> CHR 0x0A" using 2(4) by auto
    with 2(4) three obtain val' where "quotedContent s = Some (val', behind)" by auto
    with 2(3) [of val' behind] three \<open>c \<noteq> CHR 0x0D \<and> c \<noteq> CHR 0x0A\<close> show ?thesis by simp
  qed
qed simp

lemma consumeValue_length: "length (snd (consumeValue v)) \<le> length v"
proof (cases v)
  case (Cons c s)
  show ?thesis
  proof (cases "c = CHR 0x22")
    case True
    then show ?thesis using Cons quotedContent_length [of s] by (auto simp: consumeValue_def split: option.split)
  next
    case False
    then show ?thesis
      using length_dropWhile_le [of isTokenChar v] by (simp add: Cons consumeValue_def consumeToken_def del: dropWhile.simps)
  qed
qed (simp add: consumeValue_def)

lemma consumeMediaParam_length:
  assumes "consumeMediaParam v = (key, val, rest)" "key \<noteq> []"
  shows "length rest < length v"
proof -
  let ?semi = "trimLeftSpace v" let ?name = "trimLeftSpace (drop 1 ?semi)"
  let ?eq = "trimLeftSpace (dropWhile isTokenChar ?name)" let ?val = "trimLeftSpace (drop 1 ?eq)"
  from assms have "hasPrefix '';'' ?semi" "rest = snd (consumeValue ?val)"
    by (auto simp: consumeMediaParam_def consumeToken_def Let_def split: if_splits prod.splits)
  then have "0 < length ?semi" "length rest \<le> length ?val" using consumeValue_length [of ?val] by (auto simp: hasPrefix_def)
  moreover have "length ?val \<le> length (drop 1 ?eq)" "length ?eq \<le> length (dropWhile isTokenChar ?name)"
    "length ?name \<le> length (drop 1 ?semi)" "length ?semi \<le> length v"
    by (rule trimLeftSpace_length)+
  moreover have "length (dropWhile isTokenChar ?name) \<le> length ?name" by (rule length_dropWhile_le)
  moreover have "length (drop 1 ?semi) = length ?semi - 1" "length (drop 1 ?eq) \<le> length ?eq" by simp_all
  ultimately show ?thesis by linarith
qed

lemma consume_less:
  "(key, p) = consumeMediaParam (trimLeftSpace v) \<Longrightarrow> (val, rest) = p \<Longrightarrow> key \<noteq> [] \<Longrightarrow> length rest < length v"
  by (metis consumeMediaParam_length less_le_trans trimLeftSpace_length)

text \<open>Whether all parameters parse and no name has two values.\<close>

function mediaParamsOk :: "(string \<times> string) list \<Rightarrow> string \<Rightarrow> bool" where
  "mediaParamsOk seen v =
     (let v = trimLeftSpace v in
      if v = [] then True
      else case consumeMediaParam v of (key, val, rest) \<Rightarrow>
        if key = [] then trimSpace rest = '';''
        else (case map_of seen key of
            Some val' \<Rightarrow> val' = val \<and> mediaParamsOk seen rest
          | None \<Rightarrow> mediaParamsOk ((key, val) # seen) rest))"
  by pat_completeness auto
termination
  by (relation "measure (\<lambda>(seen, v). length v)") (simp_all add: consume_less)

declare mediaParamsOk.simps [simp del]

definition mediaTypeOk :: "string \<Rightarrow> bool" where
  "mediaTypeOk s =
     (let (type, rest) = consumeToken s in
      type \<noteq> [] \<and> (rest = [] \<or> hasPrefix ''/'' rest \<and>
        (let (subtype, rest) = consumeToken (drop 1 rest) in subtype \<noteq> [] \<and> rest = [])))"

definition parseMediaType :: "string \<Rightarrow> string option" where
  "parseMediaType v =
     (let (base, params) = (takeWhile (\<lambda>c. c \<noteq> CHR '';'') v, dropWhile (\<lambda>c. c \<noteq> CHR '';'') v);
          mediaType = trimSpace (toLower base)
      in if \<not> mediaTypeOk mediaType then None
         else if mediaParamsOk [] params then Some mediaType else None)"

end
