(* ===== verification/WebAdmission.thy ===== *)
theory WebAdmission
  imports GoRegexp GoPrefix GoMime
begin

text \<open>
  \<open>internal/web/web.go\<close>, \<open>browser_capture.go\<close> and \<open>browser_capture_validation.go\<close>: which requests the local server
  admits, and which operation a request is for. A request is its method, path, host, whether it came over TLS
  and the values of each header; reading the body and writing the response are not part of it.
\<close>

section \<open>Requests\<close>

record httpRequest =
  hq_Method :: string
  hq_Path :: string
  hq_Host :: string
  hq_TLS :: bool
  hq_Header :: "string \<Rightarrow> string list"

definition MethodGet :: string where [go_consts]: "MethodGet = ''GET''"
definition MethodHead :: string where [go_consts]: "MethodHead = ''HEAD''"
definition MethodPost :: string where [go_consts]: "MethodPost = ''POST''"
definition MethodDelete :: string where [go_consts]: "MethodDelete = ''DELETE''"

section \<open>Authorities\<close>

record localAuthority =
  la_identity :: string
  la_port :: "16 word"
  la_hasPort :: bool

datatype authorityError = InvalidAuthority | Unbracketed | NotLoopback | InvalidAuthorityPort

text \<open>The host and the port text of an authority, the port only where there is one.\<close>

definition authorityParts :: "string \<Rightarrow> authorityError + string \<times> string option" where
  "authorityParts authority =
     (if hasPrefix ''['' authority
      then (case indexByte CHR '']'' authority of
          None \<Rightarrow> Inl InvalidAuthority
        | Some close \<Rightarrow>
            let host = drop 1 (take close authority); rest = drop (close + 1) authority in
            if rest = [] then Inr (host, None)
            else if \<not> hasPrefix '':'' rest \<or> length rest = 1 then Inl InvalidAuthority
            else Inr (host, Some (drop 1 rest)))
      else if countByte CHR '':'' authority = 0 then Inr (authority, None)
      else if countByte CHR '':'' authority = 1
      then (case cutByte CHR '':'' authority of
          (host, Some portText) \<Rightarrow> if portText = [] then Inl InvalidAuthority else Inr (host, Some portText)
        | (host, None) \<Rightarrow> Inr (host, None))
      else Inl Unbracketed)"

definition authorityIdentity :: "string \<Rightarrow> string option" where
  "authorityIdentity host =
     (if equalFold host ''localhost'' then Some ''localhost''
      else case parseAddr host of
          None \<Rightarrow> None
        | Some addr \<Rightarrow> if withoutZone addr \<noteq> addr \<or> \<not> isLoopback addr then None else Some (addrString addr))"

definition parseLocalAuthority :: "string \<Rightarrow> authorityError + localAuthority" where
  "parseLocalAuthority authority =
     (if authority = [] \<or> trimSpace authority \<noteq> authority \<or> containsAny ''/?#@'' authority then Inl InvalidAuthority
      else case authorityParts authority of
          Inl err \<Rightarrow> Inl err
        | Inr (host, portText) \<Rightarrow>
            (case authorityIdentity host of
               None \<Rightarrow> Inl NotLoopback
             | Some identity \<Rightarrow>
                 (case portText of
                    None \<Rightarrow> Inr \<lparr>la_identity = identity, la_port = 0, la_hasPort = False\<rparr>
                  | Some text \<Rightarrow>
                      (case parseUint 65536 text of
                         None \<Rightarrow> Inl InvalidAuthorityPort
                       | Some port \<Rightarrow> Inr \<lparr>la_identity = identity, la_port = of_nat port, la_hasPort = True\<rparr>))))"

definition effectiveOriginPort :: "string \<Rightarrow> 16 word \<Rightarrow> bool \<Rightarrow> 16 word" where
  "effectiveOriginPort scheme port hasPort = (if hasPort then port else if scheme = ''https'' then 443 else 80)"

section \<open>Paths\<close>

definition isSessionChar :: "char \<Rightarrow> bool" where
  "isSessionChar c \<longleftrightarrow> isLowerC c \<or> isUpperC c \<or> isDigitC c \<or> c = CHR ''-'' \<or> c = CHR ''_''"

definition validSessionID :: "string \<Rightarrow> bool" where
  "validSessionID given \<longleftrightarrow> given \<noteq> [] \<and> length given \<le> 128 \<and> list_all isSessionChar given"

definition pathParts :: "string \<Rightarrow> string \<Rightarrow> string list option" where
  "pathParts prefix path = (if hasPrefix prefix path then Some (splitByte CHR ''/'' (trimPrefix prefix path)) else None)"

definition diagnosesPrefix :: string where "diagnosesPrefix = ''/api/diagnoses/''"
definition capturesPrefix :: string where "capturesPrefix = ''/api/browser-captures/''"
definition validationsPrefix :: string where "validationsPrefix = ''/api/browser-capture-validations/''"

definition parseDiagnosisPath :: "string \<Rightarrow> (string \<times> bool) option" where
  "parseDiagnosisPath path =
     (case pathParts diagnosesPrefix path of
        Some [given] \<Rightarrow> if validSessionID given then Some (given, False) else None
      | Some [given, part] \<Rightarrow> if part = ''events'' \<and> validSessionID given then Some (given, True) else None
      | _ \<Rightarrow> None)"

definition parseDiagnosisViewPath :: "string \<Rightarrow> string option" where
  "parseDiagnosisViewPath path =
     (case pathParts diagnosesPrefix path of
        Some [given, part] \<Rightarrow> if part = ''view'' \<and> validSessionID given then Some given else None
      | _ \<Rightarrow> None)"

datatype diagnosisExportFormat = ExportHTML | ExportJSON | ExportPrivacy

definition parseDiagnosisExportPath :: "string \<Rightarrow> (string \<times> diagnosisExportFormat) option" where
  "parseDiagnosisExportPath path =
     (case pathParts diagnosesPrefix path of
        Some [given, part] \<Rightarrow>
          if \<not> validSessionID given then None
          else if part = ''report.html'' then Some (given, ExportHTML)
          else if part = ''report.json'' then Some (given, ExportJSON)
          else if part = ''privacy.json'' then Some (given, ExportPrivacy) else None
      | _ \<Rightarrow> None)"

datatype browserCapturePathAction = CaptureSession | CaptureReportFile | CapturePrivacyFile | CaptureFQDNFile | CaptureValidations

definition parseBrowserCapturePath :: "string \<Rightarrow> (string \<times> browserCapturePathAction) option" where
  "parseBrowserCapturePath path =
     (case pathParts capturesPrefix path of
        Some [given] \<Rightarrow> if validSessionID given then Some (given, CaptureSession) else None
      | Some [given, part] \<Rightarrow>
          if \<not> validSessionID given then None
          else if part = ''report.json'' then Some (given, CaptureReportFile)
          else if part = ''privacy.json'' then Some (given, CapturePrivacyFile)
          else if part = ''fqdns.txt'' then Some (given, CaptureFQDNFile)
          else if part = ''validation-batches'' then Some (given, CaptureValidations) else None
      | _ \<Rightarrow> None)"

datatype browserCaptureValidationPathAction = ValidationSession | ValidationReportFile | ValidationFailedFile | ValidationEndpointFile

definition parseBrowserCaptureValidationPath :: "string \<Rightarrow> (string \<times> browserCaptureValidationPathAction \<times> string) option" where
  "parseBrowserCaptureValidationPath path =
     (case pathParts validationsPrefix path of
        Some [given] \<Rightarrow> if validSessionID given then Some (given, ValidationSession, []) else None
      | Some [given, part] \<Rightarrow>
          if \<not> validSessionID given then None
          else if part = ''report.json'' then Some (given, ValidationReportFile, [])
          else if part \<in> set [''failed.txt'', ''failed-identities.txt''] then Some (given, ValidationFailedFile, []) else None
      | Some [given, part, entry, file] \<Rightarrow>
          if file = ''report.json'' \<and> part = ''endpoints'' \<and> validSessionID given \<and> validSessionID entry
          then Some (given, ValidationEndpointFile, entry) else None
      | _ \<Rightarrow> None)"

section \<open>Admission\<close>

definition requiresRequestAdmission :: "httpRequest \<Rightarrow> bool" where
  "requiresRequestAdmission r =
     (if hq_Method r = MethodPost
      then hq_Path r \<in> set [''/api/diagnoses'', ''/api/diagnose'', ''/api/diagnose/view'', ''/api/browser-captures'', ''/api/environment'']
        \<or> (case parseBrowserCapturePath (hq_Path r) of Some (given, action) \<Rightarrow> action = CaptureValidations | None \<Rightarrow> False)
      else if hq_Method r = MethodDelete
      then (case parseDiagnosisPath (hq_Path r) of Some (given, events) \<Rightarrow> \<not> events | None \<Rightarrow> False)
        \<or> (case parseBrowserCapturePath (hq_Path r) of Some (given, action) \<Rightarrow> action = CaptureSession | None \<Rightarrow> False)
        \<or> parseBrowserCaptureValidationPath (hq_Path r) \<noteq> None
      else False)"

record requestAdmissionError =
  rae_status :: nat
  rae_message :: string

definition validateFetchSite :: "httpRequest \<Rightarrow> string option" where
  "validateFetchSite r =
     (case hq_Header r ''Sec-Fetch-Site'' of
        [] \<Rightarrow> None
      | sites \<Rightarrow> if length sites \<noteq> 1 \<or> hd sites \<noteq> ''same-origin'' then Some ''request fetch site is not same-origin'' else None)"

definition notAllowed :: string where "notAllowed = ''request Origin is not allowed''"
definition notSameOrigin :: string where "notSameOrigin = ''request Origin is not same-origin''"

definition requestScheme :: "httpRequest \<Rightarrow> string" where
  "requestScheme r = (if hq_TLS r then ''https'' else ''http'')"

definition validateOrigin :: "httpRequest \<Rightarrow> localAuthority \<Rightarrow> string option" where
  "validateOrigin r requestAuthority =
     (case hq_Header r ''Origin'' of
        [] \<Rightarrow> None
      | origins \<Rightarrow>
          if length origins \<noteq> 1 \<or> hd origins = [] \<or> hd origins = ''null'' then Some notAllowed
          else (case urlParse (hd origins) of
              None \<Rightarrow> Some notAllowed
            | Some origin \<Rightarrow>
                if urlHasUser origin \<or> urlOpaque (hd origins) \<noteq> [] \<or> urlHost origin = [] \<or> urlEscapedPath origin \<noteq> []
                  \<or> urlRawQuery origin \<noteq> [] \<or> urlFragment origin \<noteq> [] then Some notAllowed
                else let originScheme = toLower (urlSchemeOf origin) in
                if originScheme \<noteq> ''http'' \<and> originScheme \<noteq> ''https'' then Some notAllowed
                else (case parseLocalAuthority (urlHost origin) of
                    Inl err \<Rightarrow> Some notSameOrigin
                  | Inr originAuthority \<Rightarrow>
                      if la_identity originAuthority \<noteq> la_identity requestAuthority then Some notSameOrigin
                      else if originScheme \<noteq> requestScheme r then Some notSameOrigin
                      else if effectiveOriginPort originScheme (la_port originAuthority) (la_hasPort originAuthority)
                        \<noteq> effectiveOriginPort (requestScheme r) (la_port requestAuthority) (la_hasPort requestAuthority)
                      then Some notSameOrigin else None)))"

definition requireJSONContentType :: "httpRequest \<Rightarrow> string option" where
  "requireJSONContentType r =
     (let types = hq_Header r ''Content-Type''; failure = Some ''request Content-Type must be application/json'' in
      if length types \<noteq> 1 then failure
      else case parseMediaType (hd types) of
          None \<Rightarrow> failure
        | Some mediaType \<Rightarrow> if toLower mediaType \<noteq> ''application/json'' then failure else None)"

definition admitRequest :: "httpRequest \<Rightarrow> requestAdmissionError option" where
  "admitRequest r =
     (if \<not> requiresRequestAdmission r then None
      else case parseLocalAuthority (hq_Host r) of
          Inl err \<Rightarrow> Some \<lparr>rae_status = 403, rae_message = ''request Host must be a literal loopback address''\<rparr>
        | Inr requestAuthority \<Rightarrow>
            (case validateFetchSite r of
               Some message \<Rightarrow> Some \<lparr>rae_status = 403, rae_message = message\<rparr>
             | None \<Rightarrow>
                 (case validateOrigin r requestAuthority of
                    Some message \<Rightarrow> Some \<lparr>rae_status = 403, rae_message = message\<rparr>
                  | None \<Rightarrow>
                      if hq_Method r = MethodPost
                      then map_option (\<lambda>message. \<lparr>rae_status = 415, rae_message = message\<rparr>) (requireJSONContentType r)
                      else None)))"

section \<open>Routes\<close>

text \<open>What a request is for, as far as the handlers decide it from its method and its path.\<close>

datatype webAction =
    StaticFile string
  | StartDiagnosis | ReadDiagnosis string | CancelDiagnosis string | FollowDiagnosis string | ViewDiagnosis string
  | ExportDiagnosis string diagnosisExportFormat
  | RunDiagnosis | RunDiagnosisView
  | CollectEnvironment | ExportEnvironment
  | StartCapture | ReadCapture string | StopCapture string | ExportCapture string browserCapturePathAction
  | StartValidation string | ReadValidation string | CancelValidation string
  | ExportValidation string browserCaptureValidationPathAction string
  | WebNotFound | WebMethodNotAllowed string | WebRedirect

definition onlyMethod :: "string \<Rightarrow> httpRequest \<Rightarrow> webAction \<Rightarrow> webAction" where
  "onlyMethod method r action = (if hq_Method r \<noteq> method then WebMethodNotAllowed method else action)"

definition staticHandler :: "httpRequest \<Rightarrow> string \<Rightarrow> webAction" where
  "staticHandler r name =
     (if hq_Method r \<noteq> MethodGet \<and> hq_Method r \<noteq> MethodHead then WebMethodNotAllowed ''GET, HEAD'' else StaticFile name)"

definition diagnosisResource :: "httpRequest \<Rightarrow> webAction" where
  "diagnosisResource r =
     (case parseDiagnosisExportPath (hq_Path r) of
        Some (given, format) \<Rightarrow> onlyMethod MethodGet r (ExportDiagnosis given format)
      | None \<Rightarrow>
          (case parseDiagnosisViewPath (hq_Path r) of
             Some given \<Rightarrow> onlyMethod MethodGet r (ViewDiagnosis given)
           | None \<Rightarrow>
               (case parseDiagnosisPath (hq_Path r) of
                  None \<Rightarrow> WebNotFound
                | Some (given, events) \<Rightarrow>
                    if events then onlyMethod MethodGet r (FollowDiagnosis given)
                    else if hq_Method r = MethodGet then ReadDiagnosis given
                    else if hq_Method r = MethodDelete then CancelDiagnosis given
                    else WebMethodNotAllowed ''GET, DELETE'')))"

definition browserCaptureResource :: "httpRequest \<Rightarrow> webAction" where
  "browserCaptureResource r =
     (case parseBrowserCapturePath (hq_Path r) of
        None \<Rightarrow> WebNotFound
      | Some (given, action) \<Rightarrow>
          (case action of
             CaptureValidations \<Rightarrow> onlyMethod MethodPost r (StartValidation given)
           | CaptureSession \<Rightarrow>
               if hq_Method r = MethodGet then ReadCapture given
               else if hq_Method r = MethodDelete then StopCapture given
               else WebMethodNotAllowed ''GET, DELETE''
           | _ \<Rightarrow> onlyMethod MethodGet r (ExportCapture given action)))"

definition browserCaptureValidationResource :: "httpRequest \<Rightarrow> webAction" where
  "browserCaptureValidationResource r =
     (case parseBrowserCaptureValidationPath (hq_Path r) of
        None \<Rightarrow> WebNotFound
      | Some (given, action, entry) \<Rightarrow>
          (case action of
             ValidationSession \<Rightarrow>
               if hq_Method r = MethodGet then ReadValidation given
               else if hq_Method r = MethodDelete then CancelValidation given
               else WebMethodNotAllowed ''GET, DELETE''
           | _ \<Rightarrow> onlyMethod MethodGet r (ExportValidation given action entry)))"

text \<open>
  The patterns that \<open>NewHandler\<close> registers. The longest pattern that matches wins: a pattern that ends in a
  slash matches every path below it, any other only itself; a directory pattern without its slash, and a
  path that is not clean, are answered by a redirect of \<open>http.ServeMux\<close>.
\<close>

definition staticFiles :: "(string \<times> string) list" where
  "staticFiles = [(''/style.css'', ''style.css''), (''/composer.js'', ''composer.js''), (''/display.js'', ''display.js''),
     (''/locale.js'', ''locale.js''), (''/app.js'', ''app.js'')]"

definition cleanPath :: "string \<Rightarrow> bool" where
  "cleanPath path \<longleftrightarrow> hasPrefix ''/'' path
     \<and> (let parts = splitByte CHR ''/'' (drop 1 path) in
        list_all (\<lambda>s. s \<notin> set [[], ''.'', ''..'']) (butlast parts) \<and> last parts \<notin> set [''.'', ''..''])"

definition route :: "httpRequest \<Rightarrow> webAction" where
  "route r =
     (let path = hq_Path r in
      if \<not> cleanPath path then WebRedirect
      else if map_of staticFiles path \<noteq> None then staticHandler r (the (map_of staticFiles path))
      else if path = ''/api/diagnose'' then onlyMethod MethodPost r RunDiagnosis
      else if path = ''/api/environment''
      then if hq_Method r \<noteq> MethodGet \<and> hq_Method r \<noteq> MethodPost then WebMethodNotAllowed ''GET, POST'' else CollectEnvironment
      else if path = ''/api/environment.json'' then onlyMethod MethodGet r ExportEnvironment
      else if path = ''/api/diagnose/view'' then onlyMethod MethodPost r RunDiagnosisView
      else if path = ''/api/diagnoses'' then onlyMethod MethodPost r StartDiagnosis
      else if hasPrefix diagnosesPrefix path then diagnosisResource r
      else if path = ''/api/browser-captures'' then onlyMethod MethodPost r StartCapture
      else if hasPrefix capturesPrefix path then browserCaptureResource r
      else if path = ''/api/browser-capture-validations'' then WebRedirect
      else if hasPrefix validationsPrefix path then browserCaptureValidationResource r
      else if path \<noteq> ''/'' then WebNotFound else staticHandler r ''index.html'')"

datatype webOutcome = Refused requestAdmissionError | Performed webAction

definition ServeHTTP :: "httpRequest \<Rightarrow> webOutcome" where
  "ServeHTTP r = (case admitRequest r of Some err \<Rightarrow> Refused err | None \<Rightarrow> Performed (route r))"

section \<open>Listening\<close>

datatype listenError = NotHostAndPort | AllInterfaces | NotLiteralLoopback | InvalidListenPort

definition ValidateLoopbackAddress :: "string \<Rightarrow> listenError option" where
  "ValidateLoopbackAddress address =
     (case splitHostPort address of
        None \<Rightarrow> Some NotHostAndPort
      | Some (host, port) \<Rightarrow>
          if host = [] then Some AllInterfaces
          else (case parseAddr host of
              None \<Rightarrow> Some NotLiteralLoopback
            | Some ip \<Rightarrow> if \<not> isLoopback ip then Some NotLiteralLoopback
                else if parseUint 65536 port = None then Some InvalidListenPort else None))"

end
