(* ===== verification/WebFacts.thy ===== *)
theory WebFacts
  imports WebAdmission
begin

text \<open>
  What the admission policy of the local server promises: an operation that starts or cancels activity is reached
  only by a request for a loopback host that no foreign page has sent, and a page of the server itself is admitted.
\<close>

section \<open>Authorities\<close>

text \<open>A host that denotes this computer, and the identity under which it is compared.\<close>

definition localName :: "string \<Rightarrow> string \<Rightarrow> bool" where
  "localName host identity \<longleftrightarrow>
     equalFold host ''localhost'' \<and> identity = ''localhost''
     \<or> (\<exists>addr. parseAddr host = Some addr \<and> isLoopback addr \<and> identity = addrString addr)"

text \<open>The text of an authority with a host and, maybe, a port.\<close>

definition portSuffix :: "string option \<Rightarrow> string" where
  "portSuffix portText = (case portText of None \<Rightarrow> [] | Some port \<Rightarrow> CHR '':'' # port)"

definition authorityText :: "string \<Rightarrow> string option \<Rightarrow> string set" where
  "authorityText host portText = {host @ portSuffix portText, ''['' @ host @ '']'' @ portSuffix portText}"

definition portNumber :: "string option \<Rightarrow> nat option" where
  "portNumber portText = (case portText of None \<Rightarrow> None | Some port \<Rightarrow> parseUint 65536 port)"

definition authorityPort :: "localAuthority \<Rightarrow> nat option" where
  "authorityPort a = (if la_hasPort a then Some (unat (la_port a)) else None)"

lemma parseUint_less: "parseUint n s = Some v \<Longrightarrow> v < n"
  by (auto simp: parseUint_def split: if_splits)

lemma cutByte_text: "cutByte c s = (b, a) \<Longrightarrow> s = b @ (case a of None \<Rightarrow> [] | Some rest \<Rightarrow> c # rest)"
  by (induction s arbitrary: b a) (auto split: if_splits prod.splits option.splits)

lemma authorityParts_text: "authorityParts t = Inr (host, portText) \<Longrightarrow> t \<in> authorityText host portText"
proof (cases "hasPrefix ''['' t")
  case True
  assume parts: "authorityParts t = Inr (host, portText)"
  with True obtain i where i: "indexByte CHR '']'' t = Some i" by (auto simp: authorityParts_def split: option.splits)
  then have close: "t = take i t @ CHR '']'' # drop (i + 1) t" by (metis Suc_eq_plus1 id_take_nth_drop indexByte_Some)
  from True obtain s where "t = CHR ''['' # s" by (cases t) (auto simp: hasPrefix_def)
  with i have "take i t = CHR ''['' # drop 1 (take i t)" by (cases i) (auto simp: indexByte_Some)
  with close have t: "t = CHR ''['' # drop 1 (take i t) @ CHR '']'' # drop (i + 1) t" by (metis append_Cons)
  from parts True i have "host = drop 1 (take i t)" "drop (i + 1) t = portSuffix portText"
    by (auto simp: authorityParts_def portSuffix_def Let_def hasPrefix_def split: if_splits)
      (cases "drop (Suc i) t", simp, simp, metis drop_Suc list.sel(3) tl_drop)
  with t show ?thesis by (simp add: authorityText_def)
next
  case False
  assume "authorityParts t = Inr (host, portText)"
  with False cutByte_text [of "CHR '':''" t] show ?thesis
    by (auto simp: authorityParts_def authorityText_def portSuffix_def split: if_splits prod.splits option.splits)
qed

lemma parseLocalAuthority_local:
  assumes "parseLocalAuthority t = Inr a"
  shows "\<exists>host portText. t \<in> authorityText host portText \<and> localName host (la_identity a) \<and> authorityPort a = portNumber portText"
proof -
  from assms obtain host portText where parts: "authorityParts t = Inr (host, portText)"
    by (auto simp: parseLocalAuthority_def split: if_splits sum.splits)
  with assms obtain identity where identity: "authorityIdentity host = Some identity"
    by (auto simp: parseLocalAuthority_def split: if_splits option.splits)
  then have "localName host identity" by (auto simp: authorityIdentity_def localName_def split: if_splits option.splits)
  moreover have "la_identity a = identity" "authorityPort a = portNumber portText"
    using assms parts identity parseUint_less
    by (auto simp: parseLocalAuthority_def authorityPort_def portNumber_def unat_of_nat split: if_splits option.splits)
  ultimately show ?thesis using authorityParts_text [OF parts] by blast
qed

section \<open>Guarded operations\<close>

text \<open>The operations that start or cancel activity on behalf of the user.\<close>

definition startsOrCancels :: "webAction \<Rightarrow> bool" where
  "startsOrCancels action =
     (case action of
        StartDiagnosis \<Rightarrow> True | CancelDiagnosis given \<Rightarrow> True | RunDiagnosis \<Rightarrow> True | RunDiagnosisView \<Rightarrow> True
      | StartCapture \<Rightarrow> True | StopCapture given \<Rightarrow> True | StartValidation given \<Rightarrow> True | CancelValidation given \<Rightarrow> True
      | _ \<Rightarrow> False)"

lemma onlyMethod_acts: "startsOrCancels (onlyMethod method r action) \<Longrightarrow> hq_Method r = method \<and> startsOrCancels action"
  by (simp add: onlyMethod_def startsOrCancels_def split: if_splits)

lemma methods_distinct [simp]: "MethodGet \<noteq> MethodPost" "MethodGet \<noteq> MethodDelete" "MethodPost \<noteq> MethodDelete"
    "MethodPost \<noteq> MethodGet" "MethodDelete \<noteq> MethodGet" "MethodDelete \<noteq> MethodPost"
  by (simp_all add: go_consts)

lemma diagnosisResource_guarded: "startsOrCancels (diagnosisResource r) \<Longrightarrow> requiresRequestAdmission r"
  by (auto simp: diagnosisResource_def startsOrCancels_def onlyMethod_def requiresRequestAdmission_def
      split: option.splits prod.splits if_splits)

lemma captureResource_guarded: "startsOrCancels (browserCaptureResource r) \<Longrightarrow> requiresRequestAdmission r"
  by (auto simp: browserCaptureResource_def startsOrCancels_def onlyMethod_def requiresRequestAdmission_def
      split: option.splits prod.splits if_splits browserCapturePathAction.splits)

lemma validationResource_guarded: "startsOrCancels (browserCaptureValidationResource r) \<Longrightarrow> requiresRequestAdmission r"
  by (auto simp: browserCaptureValidationResource_def startsOrCancels_def onlyMethod_def requiresRequestAdmission_def
      split: option.splits prod.splits if_splits browserCaptureValidationPathAction.splits)

lemma quiet_actions [simp]:
  "\<not> startsOrCancels WebRedirect" "\<not> startsOrCancels WebNotFound" "\<not> startsOrCancels (WebMethodNotAllowed methods)"
  "\<not> startsOrCancels CollectEnvironment" "\<not> startsOrCancels ExportEnvironment" "\<not> startsOrCancels (staticHandler r name)"
  by (simp_all add: startsOrCancels_def staticHandler_def)

lemma posted_guarded:
  "hq_Method r = MethodPost \<Longrightarrow> hq_Path r = ''/api/diagnoses'' \<or> hq_Path r = ''/api/diagnose'' \<or> hq_Path r = ''/api/diagnose/view''
     \<or> hq_Path r = ''/api/browser-captures'' \<Longrightarrow> requiresRequestAdmission r"
  by (auto simp: requiresRequestAdmission_def)

lemma route_guarded: "startsOrCancels (route r) \<Longrightarrow> requiresRequestAdmission r"
  unfolding route_def Let_def
  by (auto split: if_splits dest!: onlyMethod_acts
      intro: posted_guarded diagnosisResource_guarded captureResource_guarded validationResource_guarded)


section \<open>Same origin\<close>

text \<open>
  The origin names the authority \<open>a\<close> with the scheme of the request: a URL of nothing but a scheme, a local
  host with the same identity and the same effective port.
\<close>

definition namesAuthority :: "httpRequest \<Rightarrow> localAuthority \<Rightarrow> string \<Rightarrow> bool" where
  "namesAuthority r a origin \<longleftrightarrow>
     (\<exists>u b host portText. urlParse origin = Some u \<and> \<not> urlHasUser u \<and> urlEscapedPath u = [] \<and> urlRawQuery u = [] \<and> urlFragment u = []
        \<and> toLower (urlSchemeOf u) = requestScheme r
        \<and> urlHost u \<in> authorityText host portText \<and> localName host (la_identity a)
        \<and> authorityPort b = portNumber portText
        \<and> effectiveOriginPort (requestScheme r) (la_port b) (la_hasPort b)
          = effectiveOriginPort (requestScheme r) (la_port a) (la_hasPort a))"

lemma validateOrigin_names:
  assumes "validateOrigin r a = None" "origin \<in> set (hq_Header r ''Origin'')"
  shows "namesAuthority r a origin"
proof -
  from assms have single: "hq_Header r ''Origin'' = [origin]"
    by (cases "hq_Header r ''Origin''"; cases "tl (hq_Header r ''Origin'')") (auto simp: validateOrigin_def)
  then obtain u where u: "urlParse origin = Some u" using assms(1) by (auto simp: validateOrigin_def split: if_splits option.splits)
  then obtain b where b: "parseLocalAuthority (urlHost u) = Inr b"
    using assms(1) single by (auto simp: validateOrigin_def Let_def split: if_splits sum.splits)
  have facts: "\<not> urlHasUser u" "urlEscapedPath u = []" "urlRawQuery u = []" "urlFragment u = []"
      "toLower (urlSchemeOf u) = requestScheme r" "la_identity b = la_identity a"
      "effectiveOriginPort (requestScheme r) (la_port b) (la_hasPort b) = effectiveOriginPort (requestScheme r) (la_port a) (la_hasPort a)"
    using assms(1) single u b by (auto simp: validateOrigin_def Let_def split: if_splits)
  from parseLocalAuthority_local [OF b] facts u show ?thesis unfolding namesAuthority_def by auto
qed

lemma validateFetchSite_same: "validateFetchSite r = None \<Longrightarrow> set (hq_Header r ''Sec-Fetch-Site'') \<subseteq> {''same-origin''}"
  by (cases "hq_Header r ''Sec-Fetch-Site''"; cases "tl (hq_Header r ''Sec-Fetch-Site'')")
    (auto simp: validateFetchSite_def split: if_splits)

lemma parseMediaType_lower: "parseMediaType v = Some m \<Longrightarrow> toLower m = m"
  using set_trimSpace [of "toLower (takeWhile (\<lambda>c. c \<noteq> CHR '';'') v)"]
  by (auto simp: parseMediaType_def toLower_def Let_def toLowerC_idem split: if_splits intro!: map_idI)

lemma requireJSON_media:
  "requireJSONContentType r = None \<Longrightarrow> \<exists>text. hq_Header r ''Content-Type'' = [text] \<and> parseMediaType text = Some ''application/json''"
  by (cases "hq_Header r ''Content-Type''"; cases "tl (hq_Header r ''Content-Type'')")
    (auto simp: requireJSONContentType_def Let_def parseMediaType_lower split: if_splits option.splits)

text \<open>C36: an operation that starts or cancels a diagnosis, a capture or a validation is performed only for a request whose
  Host is localhost or the literal address of a loopback interface, so a rebound name never reaches it; whose
  fetch site, when the browser tells it, is same-origin; whose Origin, when there is one, names the same
  scheme, the same host and the same port; and whose body, when it is posted, is declared to be JSON.\<close>

theorem operations_same_origin:
  assumes "ServeHTTP r = Performed action" "startsOrCancels action"
  shows "\<exists>a host portText. hq_Host r \<in> authorityText host portText \<and> localName host (la_identity a)
    \<and> authorityPort a = portNumber portText
    \<and> set (hq_Header r ''Sec-Fetch-Site'') \<subseteq> {''same-origin''}
    \<and> (\<forall>origin\<in>set (hq_Header r ''Origin''). namesAuthority r a origin)
    \<and> (hq_Method r = MethodPost \<longrightarrow> (\<exists>text. hq_Header r ''Content-Type'' = [text] \<and> parseMediaType text = Some ''application/json''))"
proof -
  from assms(1) have "admitRequest r = None" and "action = route r" by (auto simp: ServeHTTP_def split: option.splits)
  with assms(2) have "requiresRequestAdmission r" by (simp add: route_guarded)
  with \<open>admitRequest r = None\<close> obtain a where a: "parseLocalAuthority (hq_Host r) = Inr a" "validateFetchSite r = None"
      "validateOrigin r a = None" and json: "hq_Method r = MethodPost \<longrightarrow> requireJSONContentType r = None"
    by (auto simp: admitRequest_def split: sum.splits option.splits if_splits)
  from parseLocalAuthority_local [OF a(1)] validateFetchSite_same [OF a(2)] validateOrigin_names [OF a(3)] json requireJSON_media
  show ?thesis by metis
qed

definition sampleRequest :: "string \<Rightarrow> string list \<Rightarrow> httpRequest" where
  "sampleRequest host origins = \<lparr>hq_Method = MethodPost, hq_Path = ''/api/diagnoses'', hq_Host = host, hq_TLS = False,
     hq_Header = (\<lambda>name. if name = ''Origin'' then origins else if name = ''Content-Type'' then [''application/json''] else [])\<rparr>"

text \<open>A host with the port that its origin leaves out.\<close>

lemma sample_host: "parseLocalAuthority ''localhost:80'' = Inr \<lparr>la_identity = ''localhost'', la_port = 80, la_hasPort = True\<rparr>"
proof -
  have "authorityParts ''localhost:80'' = Inr (''localhost'', Some ''80'')" "authorityIdentity ''localhost'' = Some ''localhost''"
    "trimSpace ''localhost:80'' = ''localhost:80''" "\<not> containsAny ''/?#@'' ''localhost:80''" by code_simp+
  moreover have "parseUint 65536 ''80'' = Some 80" by (simp add: parseUint_def decVal_def isDigitC_def digitVal_def byteOf_def)
  ultimately show ?thesis by (simp add: parseLocalAuthority_def)
qed

lemma sample_origin: "parseLocalAuthority ''localhost'' = Inr \<lparr>la_identity = ''localhost'', la_port = 0, la_hasPort = False\<rparr>"
  by (simp add: parseLocalAuthority_def authorityParts_def authorityIdentity_def equalFold_def trimSpace_def trimBy_def
      isSpaceC_def byteOf_def containsAny_def hasPrefix_def countByte_def)

lemma sample_parts:
  "urlParse ''http://localhost'' = Some \<lparr>urlSchemeOf = ''http'', urlHasUser = False, urlHost = ''localhost'', urlEscapedPath = [],
     urlRawQuery = [], urlFragment = []\<rparr>"
  "urlOpaque ''http://localhost'' = []" "parseMediaType ''application/json'' = Some ''application/json''"
  "toLower ''http'' = ''http''" "toLower ''application/json'' = ''application/json''"
  by code_simp+

lemma sample_route: "route (sampleRequest host origins) = StartDiagnosis"
  by (simp add: route_def sampleRequest_def staticFiles_def cleanPath_def onlyMethod_def Let_def hasPrefix_def)

lemma sample_performed: "ServeHTTP (sampleRequest ''localhost:80'' [''http://localhost'']) = Performed StartDiagnosis"
  unfolding ServeHTTP_def sample_route
  by (simp add: admitRequest_def validateFetchSite_def validateOrigin_def requireJSONContentType_def sampleRequest_def
      sample_host sample_origin sample_parts Let_def requestScheme_def effectiveOriginPort_def)

lemma operations_same_origin_witness:
  "\<exists>a. namesAuthority (sampleRequest ''localhost:80'' [''http://localhost'']) a ''http://localhost''"
proof -
  have "startsOrCancels StartDiagnosis" by (simp add: startsOrCancels_def)
  from operations_same_origin [OF sample_performed this] show ?thesis by (auto simp: sampleRequest_def)
qed

text \<open>A name that a resolver maps to this computer is not a local host.\<close>

lemma rebound_refused: "ServeHTTP (sampleRequest ''rebound.example'' []) = Refused \<lparr>rae_status = 403,
    rae_message = ''request Host must be a literal loopback address''\<rparr>"
proof -
  have "parseLocalAuthority ''rebound.example'' = Inl NotLoopback" by code_simp
  moreover have "requiresRequestAdmission (sampleRequest ''rebound.example'' [])"
    by (simp add: requiresRequestAdmission_def sampleRequest_def)
  ultimately show ?thesis by (simp add: ServeHTTP_def admitRequest_def) (simp add: sampleRequest_def)
qed

text \<open>
  The policy is described as the one for every endpoint that can start activity, but reading the environment
  starts its collection too, and the request for it is performed whatever its host and its origin are.
\<close>

lemma environment_unguarded:
  "hq_Method r = MethodGet \<Longrightarrow> hq_Path r = ''/api/environment'' \<Longrightarrow> ServeHTTP r = Performed CollectEnvironment"
  "hq_Method r = MethodGet \<Longrightarrow> hq_Path r = ''/api/environment.json'' \<Longrightarrow> ServeHTTP r = Performed ExportEnvironment"
  by (simp_all add: ServeHTTP_def admitRequest_def requiresRequestAdmission_def route_def cleanPath_def staticFiles_def
      onlyMethod_def Let_def hasPrefix_def)

end
